(* ===== verification/Prelude.thy ===== *)
theory Prelude
  imports Main "HOL-Library.Word"
begin

text \<open>
  What every component of the model shares: JavaScript strings and byte arrays, thrown
  errors as values, the two loops over fallible steps (\<open>ebind\<close>, \<open>emap\<close>), the array
  searches of the standard library, and number printing for template strings.

  A JavaScript string is a list of UTF-16 code units (\<open>16 word\<close>); \<open>js\<close> embeds the
  program's own ASCII literals, so \<open>js ''Root''\<close> is the source's \<open>"Root"\<close>.
\<close>

named_theorems step_defs \<open>definitions of the state-changing operations\<close>
named_theorems inv_intros \<open>one preservation lemma per operation and invariant\<close>

section \<open>Strings and bytes\<close>

type_synonym jstring = "16 word list"
type_synonym u8 = "8 word"
type_synonym bytes = "8 word list"

text \<open>\<open>byte n\<close>: the number \<open>n\<close> stored into a \<open>Uint8Array\<close> (kept modulo 256).\<close>

definition byte :: "nat \<Rightarrow> u8" where
  "byte n = of_nat n"

lemma unat_byte [simp]: "n < 256 \<Longrightarrow> unat (byte n) = n"
  by (simp add: byte_def unat_of_nat)

lemma byte_unat [simp]: "byte (unat b) = b"
  by (simp add: byte_def)

lemma unat_u8_less [simp]: "unat (b :: u8) < 256"
  using unsigned_less [of b] by simp

definition js :: "string \<Rightarrow> jstring" where
  "js s = map (\<lambda>c. of_nat (of_char c)) s"

lemma of_char_word_inject: "(of_nat (of_char c) :: 16 word) = of_nat (of_char d) \<longleftrightarrow> c = d"
proof
  assume eq: "(of_nat (of_char c) :: 16 word) = of_nat (of_char d)"
  from eq have "unat (of_nat (of_char c) :: 16 word) = unat (of_nat (of_char d) :: 16 word)"
    by simp
  moreover have "unat (of_nat (of_char x) :: 16 word) = of_char x" for x
    by (simp add: unat_of_nat less_trans [OF nat_of_char_less_256])
  ultimately have "(of_char c :: nat) = of_char d"
    by simp
  then show "c = d" by simp
qed simp

lemma js_inject [simp]: "js s = js t \<longleftrightarrow> s = t"
proof
  show "js s = js t \<Longrightarrow> s = t"
  proof (induction s arbitrary: t)
    case Nil
    then show ?case by (simp add: js_def)
  next
    case (Cons c s)
    then show ?case by (cases t) (auto simp: js_def of_char_word_inject)
  qed
qed simp

lemma js_Nil [simp]: "js [] = []"
  by (simp add: js_def)

lemma js_eq_Nil [simp]: "js s = [] \<longleftrightarrow> s = []" "[] = js s \<longleftrightarrow> s = []"
  by (auto simp: js_def)

lemma length_js [simp]: "length (js s) = length s"
  by (simp add: js_def)

lemma js_append: "js (s @ t) = js s @ js t"
  by (simp add: js_def)

section \<open>Thrown errors as values\<close>

text \<open>
  \<open>RpcError\<close> is the class of \<open>client.ts\<close>; the other constructors are the standard
  error classes the source throws itself or lets the standard library throw. All of them
  are instances of \<open>Error\<close>, so \<open>err.message\<close> is defined for each.
\<close>

datatype js_error =
    Error jstring
  | RangeError jstring
  | TypeError jstring
  | RpcError (rpc_code: jstring) (rpc_message: jstring)

fun err_message :: "js_error \<Rightarrow> jstring" where
  "err_message (Error m) = m"
| "err_message (RangeError m) = m"
| "err_message (TypeError m) = m"
| "err_message (RpcError c m) = m"

type_synonym 'a result = "js_error + 'a"

definition throw :: "string \<Rightarrow> 'a result" where
  "throw m = Inl (Error (js m))"

lemma throw_not_Inr [simp]: "throw m \<noteq> Inr x" "Inr x \<noteq> throw m"
  by (simp_all add: throw_def)

lemma throw_inject [simp]: "throw m = throw n \<longleftrightarrow> m = n"
  by (simp add: throw_def)

fun ebind :: "'e + 'a \<Rightarrow> ('a \<Rightarrow> 'e + 'b) \<Rightarrow> 'e + 'b" where
  "ebind (Inl e) f = Inl e"
| "ebind (Inr a) f = f a"

lemma ebind_cong [fundef_cong]:
  "x = y \<Longrightarrow> (\<And>a. y = Inr a \<Longrightarrow> f a = g a) \<Longrightarrow> ebind x f = ebind y g"
  by (cases y) auto

lemma ebind_throw [simp]: "ebind (throw m) f = throw m"
  by (simp add: throw_def)

lemma ebind_eq_Inr [simp]: "ebind x f = Inr b \<longleftrightarrow> (\<exists>a. x = Inr a \<and> f a = Inr b)"
  by (cases x) auto

lemma ebind_eq_Inl: "ebind x f = Inl e \<longleftrightarrow> x = Inl e \<or> (\<exists>a. x = Inr a \<and> f a = Inl e)"
  by (cases x) auto

lemma ebind_assoc: "ebind (ebind x f) g = ebind x (\<lambda>a. ebind (f a) g)"
  by (cases x) auto

lemma ebind_Inr_right [simp]: "ebind x Inr = x"
  by (cases x) auto

text \<open>\<open>emap\<close> is \<open>xs.map(f)\<close> where \<open>f\<close> may throw: left to right, the first throw ends it.\<close>

fun emap :: "('a \<Rightarrow> 'e + 'b) \<Rightarrow> 'a list \<Rightarrow> 'e + 'b list" where
  "emap f [] = Inr []"
| "emap f (x # xs) = ebind (f x) (\<lambda>y. ebind (emap f xs) (\<lambda>ys. Inr (y # ys)))"

lemma emap_cong [fundef_cong]:
  "xs = ys \<Longrightarrow> (\<And>x. x \<in> set ys \<Longrightarrow> f x = g x) \<Longrightarrow> emap f xs = emap g ys"
proof (induction ys arbitrary: xs)
  case (Cons y ys)
  then show ?case by simp
qed simp

lemma emap_append:
  "emap f (xs @ ys) = ebind (emap f xs) (\<lambda>us. ebind (emap f ys) (\<lambda>vs. Inr (us @ vs)))"
  by (induction xs) (simp_all add: ebind_assoc)

lemma emap_all_Inr: "(\<And>x. x \<in> set xs \<Longrightarrow> f x = Inr (g x)) \<Longrightarrow> emap f xs = Inr (map g xs)"
  by (induction xs) simp_all

lemma emap_length: "emap f xs = Inr ys \<Longrightarrow> length ys = length xs"
  by (induction xs arbitrary: ys) auto

lemma emap_eq_InrD: "emap f xs = Inr ys \<Longrightarrow> list_all2 (\<lambda>x y. f x = Inr y) xs ys"
  by (induction xs arbitrary: ys) auto

lemma list_all2_mono_mem:
  "list_all2 P xs ys \<Longrightarrow> (\<And>x y. x \<in> set xs \<Longrightarrow> P x y \<Longrightarrow> Q x y) \<Longrightarrow> list_all2 Q xs ys"
  by (auto simp: list_all2_conv_all_nth)

text \<open>The two helpers named \<open>required\<close> of \<open>wire.ts\<close> and \<open>generated/wire.ts\<close>.\<close>

definition required :: "'a option \<Rightarrow> string \<Rightarrow> 'a result" where
  "required v m = (case v of None \<Rightarrow> throw m | Some a \<Rightarrow> Inr a)"

lemma required_Some [simp]: "required (Some a) m = Inr a"
  by (simp add: required_def)

lemma required_None [simp]: "required None m = throw m"
  by (simp add: required_def)

section \<open>Array searches and option helpers\<close>

fun findIndex :: "('a \<Rightarrow> bool) \<Rightarrow> 'a list \<Rightarrow> int" where
  "findIndex P [] = -1"
| "findIndex P (x # xs) =
     (if P x then 0 else let i = findIndex P xs in if i < 0 then -1 else i + 1)"

lemma findIndex_neg: "findIndex P xs < 0 \<longleftrightarrow> (\<forall>x \<in> set xs. \<not> P x)"
  by (induction xs) (auto simp: Let_def)

lemma findIndex_less: "findIndex P xs < int (length xs)"
  by (induction xs) (auto simp: Let_def)

text \<open>\<open>orElse a b\<close> is \<open>a ?? b\<close> where \<open>b\<close> may be \<open>undefined\<close>, \<open>getOr a d\<close> where it may not.\<close>

definition orElse :: "'a option \<Rightarrow> 'a option \<Rightarrow> 'a option" where
  "orElse a b = (case a of None \<Rightarrow> b | Some x \<Rightarrow> Some x)"

definition getOr :: "'a option \<Rightarrow> 'a \<Rightarrow> 'a" where
  "getOr a d = (case a of None \<Rightarrow> d | Some x \<Rightarrow> x)"

lemma getOr_simps [simp]: "getOr None d = d" "getOr (Some x) d = x"
  by (simp_all add: getOr_def)

lemma orElse_simps [simp]: "orElse None b = b" "orElse (Some x) b = Some x"
  by (simp_all add: orElse_def)

text \<open>\<open>head xs\<close> is \<open>xs[0]\<close>, which is \<open>undefined\<close> on an empty array.\<close>

definition head :: "'a list \<Rightarrow> 'a option" where
  "head xs = (case xs of [] \<Rightarrow> None | x # _ \<Rightarrow> Some x)"

lemma head_simps [simp]: "head [] = None" "head (x # xs) = Some x"
  by (simp_all add: head_def)

lemma find_SomeD: "List.find P xs = Some x \<Longrightarrow> x \<in> set xs \<and> P x"
  by (auto simp: find_Some_iff)

lemma find_eq_Some_distinct:
  "distinct (map k xs) \<Longrightarrow> x \<in> set xs \<Longrightarrow> List.find (\<lambda>y. k y = k x) xs = Some x"
  by (induction xs) (auto simp: image_iff)

section \<open>Typed arrays\<close>

text \<open>\<open>out.set(chunk, offset)\<close> on a \<open>Uint8Array\<close>, which throws when the chunk does not fit,
  and the loop that copies chunks one after the other into a fresh array of their total
  length. The source has it three times (\<open>concat\<close> of \<open>wire.ts\<close>, \<open>readAll\<close> of
  \<open>client.ts\<close>, \<open>assembleFileBytes\<close> of \<open>read-file-bytes.ts\<close>).\<close>

definition typed_set :: "'a list \<Rightarrow> 'a list \<Rightarrow> nat \<Rightarrow> 'a list result" where
  "typed_set out chunk offset =
     (if offset + length chunk \<le> length out
      then Inr (take offset out @ chunk @ drop (offset + length chunk) out)
      else Inl (RangeError (js ''offset is out of bounds'')))"

fun copy_chunks :: "'a list \<Rightarrow> nat \<Rightarrow> 'a list list \<Rightarrow> 'a list result" where
  "copy_chunks out offset [] = Inr out"
| "copy_chunks out offset (chunk # chunks) =
     ebind (typed_set out chunk offset)
       (\<lambda>out. copy_chunks out (offset + length chunk) chunks)"

lemma typed_set_fit:
  "length post = length chunk + k \<Longrightarrow>
   typed_set (pre @ post) chunk (length pre) = Inr (pre @ chunk @ drop (length chunk) post)"
  by (simp add: typed_set_def)

lemma copy_chunks_fit:
  "length post = length (concat chunks) \<Longrightarrow>
   copy_chunks (pre @ post) (length pre) chunks = Inr (pre @ concat chunks)"
proof (induction chunks arbitrary: pre post)
  case (Cons c cs)
  have "copy_chunks ((pre @ c) @ drop (length c) post) (length (pre @ c)) cs
      = Inr ((pre @ c) @ concat cs)"
    using Cons.prems by (intro Cons.IH) simp
  then show ?case using Cons.prems by (simp add: typed_set_fit)
qed simp

lemma copy_chunks_concat:
  "n = length (concat chunks) \<Longrightarrow> copy_chunks (replicate n z) 0 chunks = Inr (concat chunks)"
  using copy_chunks_fit [of "replicate n z" chunks "[]"] by simp

section \<open>Printing numbers\<close>

fun show_nat :: "nat \<Rightarrow> string" where
  "show_nat n =
     (if n < 10 then [char_of (48 + n)] else show_nat (n div 10) @ [char_of (48 + n mod 10)])"

declare show_nat.simps [simp del]

definition show_int :: "int \<Rightarrow> string" where
  "show_int i = (if i < 0 then ''-'' @ show_nat (nat (- i)) else show_nat (nat i))"

end
