(* ===== verification/Utf8.thy ===== *)
theory Utf8
  imports Prelude
begin

text \<open>
  The text conversions \<open>cbor.ts\<close> calls: \<open>new TextEncoder().encode(s)\<close> (UTF-16 to
  UTF-8, unpaired surrogates replaced by U+FFFD) and
  \<open>new TextDecoder("utf-8", {fatal: true}).decode(b)\<close> (the WHATWG UTF-8 decoder: it throws
  on any malformed sequence and, because \<open>ignoreBOM\<close> is not set, drops one leading
  byte order mark). The lemmas show what a string becomes after the round trip.
\<close>

section \<open>UTF-16 code units and scalar values\<close>

definition lead_surrogate :: "16 word \<Rightarrow> bool" where
  "lead_surrogate u \<longleftrightarrow> 0xD800 \<le> unat u \<and> unat u \<le> 0xDBFF"

definition trail_surrogate :: "16 word \<Rightarrow> bool" where
  "trail_surrogate u \<longleftrightarrow> 0xDC00 \<le> unat u \<and> unat u \<le> 0xDFFF"

definition scalar :: "nat \<Rightarrow> bool" where
  "scalar c \<longleftrightarrow> c < 0xD800 \<or> 0xE000 \<le> c \<and> c < 0x110000"

definition pair_scalar :: "16 word \<Rightarrow> 16 word \<Rightarrow> nat" where
  "pair_scalar u v = 0x10000 + (unat u - 0xD800) * 0x400 + (unat v - 0xDC00)"

fun to_scalars :: "jstring \<Rightarrow> nat list" where
  "to_scalars [] = []"
| "to_scalars [u] = [if lead_surrogate u \<or> trail_surrogate u then 0xFFFD else unat u]"
| "to_scalars (u # v # us) =
     (if lead_surrogate u then
        (if trail_surrogate v then pair_scalar u v # to_scalars us
         else 0xFFFD # to_scalars (v # us))
      else if trail_surrogate u then 0xFFFD # to_scalars (v # us)
      else unat u # to_scalars (v # us))"

definition of_scalar :: "nat \<Rightarrow> jstring" where
  "of_scalar c =
     (if c < 0x10000 then [of_nat c]
      else [of_nat (0xD800 + (c - 0x10000) div 0x400), of_nat (0xDC00 + (c - 0x10000) mod 0x400)])"

text \<open>A string with no unpaired surrogate.\<close>

fun well_formed_utf16 :: "jstring \<Rightarrow> bool" where
  "well_formed_utf16 [] = True"
| "well_formed_utf16 [u] = (\<not> lead_surrogate u \<and> \<not> trail_surrogate u)"
| "well_formed_utf16 (u # v # us) =
     (if lead_surrogate u then trail_surrogate v \<and> well_formed_utf16 us
      else \<not> trail_surrogate u \<and> well_formed_utf16 (v # us))"

lemma unat16_less: "unat (u :: 16 word) < 65536"
  using unsigned_less [of u] by simp

lemma pair_scalar_scalar:
  "lead_surrogate u \<Longrightarrow> trail_surrogate v \<Longrightarrow> scalar (pair_scalar u v)"
  by (auto simp: lead_surrogate_def trail_surrogate_def scalar_def pair_scalar_def)

lemma unpaired_scalar:
  "\<not> lead_surrogate u \<Longrightarrow> \<not> trail_surrogate u \<Longrightarrow> scalar (unat u)"
  using unat16_less [of u]
  by (auto simp: lead_surrogate_def trail_surrogate_def scalar_def)

lemma replacement_scalar: "scalar 0xFFFD"
  by (simp add: scalar_def)

lemma to_scalars_scalar: "c \<in> set (to_scalars s) \<Longrightarrow> scalar c"
  by (induction s rule: to_scalars.induct)
    (auto split: if_splits intro: pair_scalar_scalar unpaired_scalar replacement_scalar)

lemma of_scalar_unpaired: "of_scalar (unat u) = [u]"
  using unat16_less [of u] by (simp add: of_scalar_def)

lemma of_scalar_pair:
  assumes "lead_surrogate u" "trail_surrogate v"
  shows "of_scalar (pair_scalar u v) = [u, v]"
proof -
  define a b where "a = unat u - 0xD800" and "b = unat v - 0xDC00"
  have ab: "b < 0x400" "unat u = 0xD800 + a" "unat v = 0xDC00 + b"
    using assms by (auto simp: a_def b_def lead_surrogate_def trail_surrogate_def)
  then have "pair_scalar u v = 0x10000 + (a * 0x400 + b)"
    by (simp add: pair_scalar_def)
  moreover have "(a * 0x400 + b) div 0x400 = a" "(a * 0x400 + b) mod 0x400 = b"
    using ab(1) by simp_all
  ultimately have "of_scalar (pair_scalar u v) = [of_nat (unat u), of_nat (unat v)]"
    by (simp only: of_scalar_def ab(2,3)) simp
  then show ?thesis by simp
qed

definition of_scalars :: "nat list \<Rightarrow> jstring" where
  "of_scalars cs = concat (map of_scalar cs)"

lemma of_scalars_simps [simp]:
  "of_scalars [] = []" "of_scalars (c # cs) = of_scalar c @ of_scalars cs"
  by (simp_all add: of_scalars_def)

lemma of_scalars_to_scalars: "well_formed_utf16 s \<Longrightarrow> of_scalars (to_scalars s) = s"
  by (induction s rule: to_scalars.induct)
    (auto simp: of_scalar_pair of_scalar_unpaired split: if_splits)

section \<open>TextEncoder\<close>

definition utf8_char :: "nat \<Rightarrow> bytes" where
  "utf8_char c =
     (if c < 0x80 then [byte c]
      else if c < 0x800 then [byte (0xC0 + c div 64), byte (0x80 + c mod 64)]
      else if c < 0x10000 then
        [byte (0xE0 + c div 64 div 64), byte (0x80 + c div 64 mod 64),
         byte (0x80 + c mod 64)]
      else
        [byte (0xF0 + c div 64 div 64 div 64), byte (0x80 + c div 64 div 64 mod 64),
         byte (0x80 + c div 64 mod 64), byte (0x80 + c mod 64)])"

definition text_encode :: "jstring \<Rightarrow> bytes" where
  "text_encode s = concat (map utf8_char (to_scalars s))"

section \<open>TextDecoder with fatal: true\<close>

text \<open>\<open>cont lo hi b\<close>: the byte is in the bounds the decoder holds for the next byte.\<close>

definition cont :: "nat \<Rightarrow> nat \<Rightarrow> u8 \<Rightarrow> bool" where
  "cont lo hi b \<longleftrightarrow> lo \<le> unat b \<and> unat b \<le> hi"

fun utf8_scalars :: "bytes \<Rightarrow> nat list option" where
  "utf8_scalars [] = Some []"
| "utf8_scalars (b # bs) =
     (let a = unat b in
      if a < 0x80 then map_option ((#) a) (utf8_scalars bs)
      else if 0xC2 \<le> a \<and> a \<le> 0xDF then
        (case bs of
           b1 # r \<Rightarrow>
             if cont 0x80 0xBF b1
             then map_option ((#) ((a - 0xC0) * 64 + (unat b1 - 0x80))) (utf8_scalars r)
             else None
         | _ \<Rightarrow> None)
      else if 0xE0 \<le> a \<and> a \<le> 0xEF then
        (case bs of
           b1 # b2 # r \<Rightarrow>
             if cont (if a = 0xE0 then 0xA0 else 0x80) (if a = 0xED then 0x9F else 0xBF) b1
                \<and> cont 0x80 0xBF b2
             then map_option
                    ((#) (((a - 0xE0) * 64 + (unat b1 - 0x80)) * 64 + (unat b2 - 0x80)))
                    (utf8_scalars r)
             else None
         | _ \<Rightarrow> None)
      else if 0xF0 \<le> a \<and> a \<le> 0xF4 then
        (case bs of
           b1 # b2 # b3 # r \<Rightarrow>
             if cont (if a = 0xF0 then 0x90 else 0x80) (if a = 0xF4 then 0x8F else 0xBF) b1
                \<and> cont 0x80 0xBF b2 \<and> cont 0x80 0xBF b3
             then map_option
                    ((#) ((((a - 0xF0) * 64 + (unat b1 - 0x80)) * 64 + (unat b2 - 0x80)) * 64
                          + (unat b3 - 0x80)))
                    (utf8_scalars r)
             else None
         | _ \<Rightarrow> None)
      else None)"

definition strip_bom_bytes :: "bytes \<Rightarrow> bytes" where
  "strip_bom_bytes bs = (if take 3 bs = [0xEF, 0xBB, 0xBF] then drop 3 bs else bs)"

definition text_decode :: "bytes \<Rightarrow> jstring result" where
  "text_decode bs =
     (case utf8_scalars (strip_bom_bytes bs) of
        None \<Rightarrow> Inl (TypeError (js ''The encoded data was not valid for encoding utf-8''))
      | Some cs \<Rightarrow> Inr (of_scalars cs))"

section \<open>The round trip\<close>

lemma base64_digits:
  obtains x y z t where "c = ((t * 64 + z) * 64 + y) * 64 + (x::nat)" "x < 64" "y < 64" "z < 64"
    "c mod 64 = x" "c div 64 mod 64 = y" "c div 64 div 64 mod 64 = z"
    "c div 64 div 64 div 64 = t" "c div 64 div 64 = t * 64 + z" "c div 64 = (t * 64 + z) * 64 + y"
proof (rule that [of "c div 64 div 64 div 64" "c div 64 div 64 mod 64" "c div 64 mod 64" "c mod 64"])
  show "c div 64 div 64 = c div 64 div 64 div 64 * 64 + c div 64 div 64 mod 64"
    by presburger
  show "c div 64 = (c div 64 div 64 div 64 * 64 + c div 64 div 64 mod 64) * 64 + c div 64 mod 64"
    by presburger
  show "c = ((c div 64 div 64 div 64 * 64 + c div 64 div 64 mod 64) * 64 + c div 64 mod 64) * 64
      + c mod 64"
    by presburger
qed simp_all

lemma utf8_scalars_1: "x < 0x80 \<Longrightarrow>
    utf8_scalars (byte x # bs) = map_option ((#) x) (utf8_scalars bs)"
  by simp

lemma utf8_scalars_2: "2 \<le> y \<Longrightarrow> y < 32 \<Longrightarrow> x < 64 \<Longrightarrow>
    utf8_scalars (byte (0xC0 + y) # byte (0x80 + x) # bs)
    = map_option ((#) (y * 64 + x)) (utf8_scalars bs)"
  by (simp add: cont_def)

lemma utf8_scalars_3: "z < 16 \<Longrightarrow> (z = 0 \<Longrightarrow> 32 \<le> y) \<Longrightarrow> (z = 13 \<Longrightarrow> y < 32) \<Longrightarrow> y < 64 \<Longrightarrow>
    x < 64 \<Longrightarrow>
    utf8_scalars (byte (0xE0 + z) # byte (0x80 + y) # byte (0x80 + x) # bs)
    = map_option ((#) ((z * 64 + y) * 64 + x)) (utf8_scalars bs)"
  by (auto simp add: cont_def)

lemma utf8_scalars_4: "t \<le> 4 \<Longrightarrow> (t = 0 \<Longrightarrow> 16 \<le> z) \<Longrightarrow> (t = 4 \<Longrightarrow> z < 16) \<Longrightarrow> z < 64 \<Longrightarrow> y < 64 \<Longrightarrow>
    x < 64 \<Longrightarrow>
    utf8_scalars (byte (0xF0 + t) # byte (0x80 + z) # byte (0x80 + y) # byte (0x80 + x) # bs)
    = map_option ((#) (((t * 64 + z) * 64 + y) * 64 + x)) (utf8_scalars bs)"
  by (auto simp add: cont_def)

declare utf8_scalars.simps(2) [simp del]

lemma utf8_scalars_char:
  assumes "scalar c"
  shows "utf8_scalars (utf8_char c @ bs) = map_option ((#) c) (utf8_scalars bs)"
proof -
  obtain x y z t where c: "c = ((t * 64 + z) * 64 + y) * 64 + x" and
    b: "x < 64" "y < 64" "z < 64" and
    d: "c mod 64 = x" "c div 64 mod 64 = y" "c div 64 div 64 mod 64 = z"
      "c div 64 div 64 div 64 = t" "c div 64 div 64 = t * 64 + z" "c div 64 = (t * 64 + z) * 64 + y"
    by (rule base64_digits)
  have cl: "c = 262144 * t + 4096 * z + 64 * y + x" using c by simp
  note digits = utf8_char_def d(1-4)
  consider "c < 0x80" | "0x80 \<le> c" "c < 0x800" | "0x800 \<le> c" "c < 0x10000" | "0x10000 \<le> c"
    by linarith
  then show ?thesis
  proof cases
    case 1
    then show ?thesis by (simp add: utf8_char_def utf8_scalars_1)
  next
    case 2
    with b cl have t: "t = 0" by linarith
    with 2 b cl have z: "z = 0" by linarith
    with 2 b cl t have y: "2 \<le> y" "y < 32" by simp_all
    have u: "utf8_char c = [byte (0xC0 + y), byte (0x80 + x)]"
      using 2 d(1,6) t z by (simp add: utf8_char_def)
    have "y * 64 + x = c" using c t z by simp
    then show ?thesis by (simp only: u append.simps utf8_scalars_2 [OF y b(1)])
  next
    case 3
    with b cl have t: "t = 0" by linarith
    have u: "utf8_char c = [byte (0xE0 + z), byte (0x80 + y), byte (0x80 + x)]"
      using 3 d(1,2,5) t by (simp add: utf8_char_def)
    have zy: "z < 16" "z = 0 \<Longrightarrow> 32 \<le> y" "z = 13 \<Longrightarrow> y < 32"
      using 3 b cl t assms unfolding scalar_def by auto
    have "(z * 64 + y) * 64 + x = c" using c t by simp
    then show ?thesis by (simp only: u append.simps utf8_scalars_3 [OF zy b(2,1)])
  next
    case 4
    then have top: "c < 0x110000" using assms by (simp add: scalar_def)
    have u: "utf8_char c = [byte (0xF0 + t), byte (0x80 + z), byte (0x80 + y), byte (0x80 + x)]"
      using 4 d(1-4) by (simp add: utf8_char_def)
    have tz: "t \<le> 4" "t = 0 \<Longrightarrow> 16 \<le> z" "t = 4 \<Longrightarrow> z < 16" using 4 top b cl by linarith+
    show ?thesis by (simp only: u append.simps utf8_scalars_4 [OF tz b(3,2,1)] c [symmetric])
  qed
qed

lemma utf8_scalars_encode:
  "(\<And>c. c \<in> set cs \<Longrightarrow> scalar c) \<Longrightarrow> utf8_scalars (concat (map utf8_char cs)) = Some cs"
  by (induction cs) (simp_all add: utf8_scalars_char)

definition strip_bom :: "jstring \<Rightarrow> jstring" where
  "strip_bom s = (case s of u # us \<Rightarrow> if u = 0xFEFF then us else s | [] \<Rightarrow> [])"

text \<open>What the round trip makes of a string: well-formed UTF-16, no leading U+FEFF.\<close>

definition text_norm :: "jstring \<Rightarrow> jstring" where
  "text_norm s = strip_bom (of_scalars (to_scalars s))"

definition strip_bom_scalars :: "nat list \<Rightarrow> nat list" where
  "strip_bom_scalars cs = (case cs of c # cs' \<Rightarrow> if c = 0xFEFF then cs' else cs | [] \<Rightarrow> [])"

lemma utf8_char_bom: "utf8_char 0xFEFF = [0xEF, 0xBB, 0xBF]"
  by (simp add: utf8_char_def byte_def)

lemma strip_bom_bytes_encode:
  assumes "\<And>c. c \<in> set cs \<Longrightarrow> scalar c"
  shows "utf8_scalars (strip_bom_bytes (concat (map utf8_char cs))) = Some (strip_bom_scalars cs)"
proof (cases "\<exists>cs'. cs = 0xFEFF # cs'")
  case True
  then obtain cs' where "cs = 0xFEFF # cs'" by blast
  with assms show ?thesis
    by (simp add: strip_bom_bytes_def strip_bom_scalars_def utf8_char_bom utf8_scalars_encode)
next
  case False
  let ?bs = "concat (map utf8_char cs)"
  have dec: "utf8_scalars ?bs = Some cs" using assms by (rule utf8_scalars_encode)
  have "take 3 ?bs \<noteq> [0xEF, 0xBB, 0xBF]"
  proof
    assume "take 3 ?bs = [0xEF, 0xBB, 0xBF]"
    then have "?bs = utf8_char 0xFEFF @ drop 3 ?bs"
      by (metis append_take_drop_id utf8_char_bom)
    then have "utf8_scalars ?bs = map_option ((#) 0xFEFF) (utf8_scalars (drop 3 ?bs))"
      using utf8_scalars_char [where c = "0xFEFF" and bs = "drop 3 ?bs"] by (simp add: scalar_def)
    with dec False show False by auto
  qed
  with False dec show ?thesis
    by (auto simp: strip_bom_bytes_def strip_bom_scalars_def split: list.split)
qed

lemma of_scalars_strip_bom:
  assumes "\<And>c. c \<in> set cs \<Longrightarrow> scalar c"
  shows "of_scalars (strip_bom_scalars cs) = strip_bom (of_scalars cs)"
proof (cases cs)
  case Nil
  then show ?thesis by (simp add: strip_bom_scalars_def strip_bom_def)
next
  case (Cons c cs')
  have neq: "(of_nat n :: 16 word) \<noteq> 0xFEFF" if "n < 65536" "n \<noteq> 0xFEFF" for n
  proof
    assume "(of_nat n :: 16 word) = 0xFEFF"
    then have "unat (of_nat n :: 16 word) = 0xFEFF" by simp
    with that show False by (simp add: unat_of_nat)
  qed
  have "scalar c" using assms Cons by simp
  then have "c < 0x110000" by (auto simp: scalar_def)
  then have "(c - 0x10000) div 0x400 < 0x800" by auto
  then have lead: "(of_nat (0xD800 + (c - 0x10000) div 0x400) :: 16 word) \<noteq> 0xFEFF"
    by (intro neq) linarith+
  from Cons neq [of c] lead show ?thesis
    by (auto simp: strip_bom_scalars_def strip_bom_def of_scalar_def)
qed

lemma text_decode_encode: "text_decode (text_encode s) = Inr (text_norm s)"
  using strip_bom_bytes_encode [of "to_scalars s"] of_scalars_strip_bom [of "to_scalars s"]
  by (simp add: text_decode_def text_encode_def text_norm_def to_scalars_scalar)

lemma text_norm_id: "well_formed_utf16 s \<Longrightarrow> take 1 s \<noteq> [0xFEFF] \<Longrightarrow> text_norm s = s"
  by (auto simp: text_norm_def strip_bom_def of_scalars_to_scalars split: list.split)

text \<open>The program's own literals are well-formed and survive unchanged.\<close>

lemma unat_js: "u \<in> set (js s) \<Longrightarrow> unat u < 256"
  by (auto simp: js_def unat_of_nat less_trans [OF nat_of_char_less_256])

lemma well_formed_small: "(\<And>u. u \<in> set s \<Longrightarrow> unat u < 256) \<Longrightarrow> well_formed_utf16 s"
  by (induction s rule: well_formed_utf16.induct)
    (fastforce simp: lead_surrogate_def trail_surrogate_def)+

lemma well_formed_js [simp]: "well_formed_utf16 (js s)"
  by (rule well_formed_small) (rule unat_js)

lemma text_norm_js [simp]: "text_norm (js s) = js s"
proof (rule text_norm_id)
  show "take 1 (js s) \<noteq> [0xFEFF]"
    using unat_js [of "0xFEFF" s] by (cases "js s") auto
qed simp

end
