(* ===== verification/Cbor.thy ===== *)
theory Cbor
  imports Utf8
begin

unbundle bit_operations_syntax

text \<open>
  \<open>web/src/protocol/cbor.ts\<close>: the deterministic CBOR codec under every wire message.
  The encoder appends to a \<open>number[]\<close> that \<open>Uint8Array.from\<close> turns into bytes; the
  decoder advances \<open>state.offset\<close> over a fixed byte array, here the number threaded
  through \<open>decode\<close>. The three loops of \<open>decode\<close> (its own recursion, the array
  elements, the map entries) are one mutually recursive function; its termination rests on
  the fact, proved first, that every decoded value moves the offset.

  Numbers: a JavaScript number is an integral value (\<open>JInt\<close>, minus zero counted as zero),
  a finite fraction (\<open>JFrac\<close>, with its IEEE bits) or not finite. \<open>CborF64\<close> carries the
  64 IEEE bits, which \<open>DataView\<close> stores and reads big-endian.
\<close>

section \<open>Values\<close>

datatype js_number =
    JInt int
  | JFrac "64 word"
  | JNonFinite

datatype cbor_value =
    CNull
  | CBool bool
  | CNumber js_number
  | CF64 "64 word"
  | CText jstring
  | CBytes bytes
  | CArray "cbor_value list"
  | CMap "(int \<times> cbor_value) list"

definition MAX_SAFE_CBOR_INTEGER :: nat where
  "MAX_SAFE_CBOR_INTEGER = 9007199254740991"

definition MAX_SAFE_NEGATIVE_ARGUMENT :: nat where
  "MAX_SAFE_NEGATIVE_ARGUMENT = MAX_SAFE_CBOR_INTEGER - 1"

definition TWO_32 :: nat where
  "TWO_32 = 0x100000000"

definition MAX_SAFE_U64_HIGH :: nat where
  "MAX_SAFE_U64_HIGH = 0x1fffff"

definition isSafeInteger :: "int \<Rightarrow> bool" where
  "isSafeInteger i \<longleftrightarrow> - int MAX_SAFE_CBOR_INTEGER \<le> i \<and> i \<le> int MAX_SAFE_CBOR_INTEGER"

definition f64_is_finite :: "64 word \<Rightarrow> bool" where
  "f64_is_finite w \<longleftrightarrow> drop_bit 52 w AND 0x7FF \<noteq> 0x7FF"

definition cborF64 :: "64 word \<Rightarrow> cbor_value result" where
  "cborF64 w = (if f64_is_finite w then Inr (CF64 w) else throw ''expected finite f64'')"

section \<open>Encoder\<close>

text \<open>The \<open>be\<close> loop of the source, which fills \<open>out\<close> from the last index to the first.\<close>

fun be :: "nat \<Rightarrow> nat \<Rightarrow> nat list" where
  "be value 0 = []"
| "be value (Suc len) = be (value div 256) len @ [value mod 256]"

definition encodeTypeValue :: "nat \<Rightarrow> nat \<Rightarrow> bytes result" where
  "encodeTypeValue major value =
     (if MAX_SAFE_CBOR_INTEGER < value then throw ''expected unsigned safe integer''
      else let prefix = push_bit 5 major in
        if value < 24 then Inr [byte (prefix OR value)]
        else if value \<le> 0xff then Inr [byte (prefix OR 24), byte value]
        else if value \<le> 0xffff then
          Inr [byte (prefix OR 25), byte (drop_bit 8 value), byte (value AND 0xff)]
        else if value \<le> 0xffffffff then Inr (byte (prefix OR 26) # map byte (be value 4))
        else Inr (byte (prefix OR 27) # map byte (be value 8)))"

definition encodeFloat64 :: "64 word \<Rightarrow> bytes" where
  "encodeFloat64 w = 0xfb # map byte (be (unat w) 8)"

definition sort_entries :: "(int \<times> 'a) list \<Rightarrow> (int \<times> 'a) list" where
  "sort_entries entries = sort_key fst entries"

lemma sort_entries_set [simp]: "set (sort_entries m) = set m"
  by (simp add: sort_entries_def)

lemma sort_entries_length [simp]: "length (sort_entries m) = length m"
  by (simp add: sort_entries_def)

text \<open>
  \<open>encode\<close> in the order of the source's tests. A map's entries are sorted by key first;
  a key outside the unsigned safe range throws when its entry is reached.
\<close>

function encode :: "cbor_value \<Rightarrow> bytes result" where
  "encode CNull = Inr [0xf6]"
| "encode (CBool b) = Inr [if b then 0xf5 else 0xf4]"
| "encode (CNumber (JInt value)) =
     (if isSafeInteger value then
        (if 0 \<le> value then encodeTypeValue 0 (nat value)
         else encodeTypeValue 1 (nat (-1 - value)))
      else throw ''CBOR integer is outside safe-integer range'')"
| "encode (CNumber (JFrac w)) = Inr (encodeFloat64 w)"
| "encode (CNumber JNonFinite) = throw ''unsupported non-finite CBOR number''"
| "encode (CText value) =
     (let b = text_encode value in
      ebind (encodeTypeValue 3 (length b)) (\<lambda>h. Inr (h @ b)))"
| "encode (CBytes value) =
     ebind (encodeTypeValue 2 (length value)) (\<lambda>h. Inr (h @ value))"
| "encode (CArray value) =
     ebind (encodeTypeValue 4 (length value)) (\<lambda>h.
     ebind (emap encode value) (\<lambda>items. Inr (h @ concat items)))"
| "encode (CMap value) =
     (let entries = sort_entries value in
      ebind (encodeTypeValue 5 (length entries)) (\<lambda>h.
      ebind (emap (\<lambda>(key, item).
               if \<not> isSafeInteger key \<or> key < 0
               then throw ''expected unsigned safe-integer map key''
               else ebind (encodeTypeValue 0 (nat key)) (\<lambda>k.
                    ebind (encode item) (\<lambda>v. Inr (k @ v)))) entries)
        (\<lambda>items. Inr (h @ concat items))))"
| "encode (CF64 w) = Inr (encodeFloat64 w)"
  by pat_completeness auto
termination
  by (relation "measure size")
    (auto simp: less_Suc_eq_le dest: size_list_estimation' [where f = size, OF _ order_refl]
      intro: size_list_estimation' [where f = "size_prod (\<lambda>x. 0) size"])

definition encodeCbor :: "cbor_value \<Rightarrow> bytes result" where
  "encodeCbor v = encode v"

section \<open>Decoder\<close>

abbreviation unexpected_end :: string where
  "unexpected_end \<equiv> ''unexpected end of CBOR''"

definition read :: "bytes \<Rightarrow> nat \<Rightarrow> (nat \<times> nat) result" where
  "read bs off = (if length bs \<le> off then throw unexpected_end else Inr (unat (bs ! off), off + 1))"

definition readBytes :: "bytes \<Rightarrow> nat \<Rightarrow> nat \<Rightarrow> (bytes \<times> nat) result" where
  "readBytes bs off len =
     (if length bs < off + len then throw unexpected_end
      else Inr (take len (drop off bs), off + len))"

fun readFixedUint_from :: "bytes \<Rightarrow> nat \<Rightarrow> nat \<Rightarrow> nat \<Rightarrow> (nat \<times> nat) result" where
  "readFixedUint_from bs off 0 value = Inr (value, off)"
| "readFixedUint_from bs off (Suc k) value =
     ebind (read bs off) (\<lambda>(b, off). readFixedUint_from bs off k (value * 256 + b))"

definition readFixedUint :: "bytes \<Rightarrow> nat \<Rightarrow> nat \<Rightarrow> (nat \<times> nat) result" where
  "readFixedUint bs off len = readFixedUint_from bs off len 0"

definition safeUnsigned :: "nat \<Rightarrow> nat result" where
  "safeUnsigned value =
     (if MAX_SAFE_CBOR_INTEGER < value then throw ''CBOR integer is outside safe-integer range''
      else Inr value)"

definition readU64AsU53 :: "bytes \<Rightarrow> nat \<Rightarrow> (nat \<times> nat) result" where
  "readU64AsU53 bs off =
     ebind (readFixedUint bs off 4) (\<lambda>(high, off).
     ebind (readFixedUint bs off 4) (\<lambda>(low, off).
     if MAX_SAFE_U64_HIGH < high then throw ''CBOR integer is outside safe-integer range''
     else ebind (safeUnsigned (high * TWO_32 + low)) (\<lambda>n. Inr (n, off))))"

definition readArg :: "bytes \<Rightarrow> nat \<Rightarrow> nat \<Rightarrow> (nat \<times> nat) result" where
  "readArg bs off additional =
     (if additional < 24 then Inr (additional, off)
      else if additional = 24 then read bs off
      else if additional = 25 then readFixedUint bs off 2
      else if additional = 26 then readFixedUint bs off 4
      else if additional = 27 then readU64AsU53 bs off
      else throw ''unsupported CBOR length'')"

definition readNegativeArg :: "bytes \<Rightarrow> nat \<Rightarrow> nat \<Rightarrow> (nat \<times> nat) result" where
  "readNegativeArg bs off additional =
     ebind (readArg bs off additional) (\<lambda>(value, off).
     if MAX_SAFE_NEGATIVE_ARGUMENT < value
     then throw ''CBOR integer is outside safe-integer range'' else Inr (value, off))"

text \<open>\<open>DataView.getFloat64(0, false)\<close> of the eight bytes at the offset.\<close>

definition getFloat64 :: "bytes \<Rightarrow> nat \<Rightarrow> 64 word" where
  "getFloat64 bs off = of_nat (foldl (\<lambda>acc b. acc * 256 + unat b) 0 (take 8 (drop off bs)))"

text \<open>
  \<open>Array.from({length: len}, ...)\<close> constructs \<open>new Array(len)\<close> first, which throws a
  \<open>RangeError\<close> for a length above \<open>2^32 - 1\<close>.
\<close>

definition MAX_ARRAY_LENGTH :: nat where
  "MAX_ARRAY_LENGTH = 4294967295"

text \<open>The two tests on a decoded map key: its type and range, then \<open>map.has(key)\<close>.\<close>

definition checked_key :: "cbor_value \<Rightarrow> (int \<times> cbor_value) list \<Rightarrow> int result" where
  "checked_key key m =
     (case key of
        CNumber (JInt k) \<Rightarrow>
          if \<not> isSafeInteger k \<or> k < 0 then throw ''expected unsigned safe-integer map key''
          else if k \<in> fst ` set m then throw ''duplicate CBOR map key''
          else Inr k
      | _ \<Rightarrow> throw ''expected unsigned safe-integer map key'')"

function (sequential) decode :: "bytes \<Rightarrow> nat \<Rightarrow> (cbor_value \<times> nat) result"
  and decode_items :: "bytes \<Rightarrow> nat \<Rightarrow> nat \<Rightarrow> (cbor_value list \<times> nat) result"
  and decode_entries :: "bytes \<Rightarrow> nat \<Rightarrow> nat \<Rightarrow> (int \<times> cbor_value) list
    \<Rightarrow> ((int \<times> cbor_value) list \<times> nat) result"
where
  "decode bs off =
     ebind (read bs off) (\<lambda>(initial, off).
     let major = drop_bit 5 initial; additional = initial AND 0x1f in
     if major = 0 then
       ebind (readArg bs off additional) (\<lambda>(n, off). Inr (CNumber (JInt (int n)), off))
     else if major = 1 then
       ebind (readNegativeArg bs off additional) (\<lambda>(n, off).
       Inr (CNumber (JInt (-1 - int n)), off))
     else if major = 2 then
       ebind (readArg bs off additional) (\<lambda>(len, off).
       ebind (readBytes bs off len) (\<lambda>(b, off). Inr (CBytes b, off)))
     else if major = 3 then
       ebind (readArg bs off additional) (\<lambda>(len, off).
       ebind (readBytes bs off len) (\<lambda>(b, off).
       ebind (text_decode b) (\<lambda>s. Inr (CText s, off))))
     else if major = 4 then
       ebind (readArg bs off additional) (\<lambda>(len, off).
       if MAX_ARRAY_LENGTH < len then Inl (RangeError (js ''Invalid array length''))
       else ebind (decode_items bs off len) (\<lambda>(vs, off). Inr (CArray vs, off)))
     else if major = 5 then
       ebind (readArg bs off additional) (\<lambda>(len, off).
       ebind (decode_entries bs off len []) (\<lambda>(m, off). Inr (CMap m, off)))
     else if major = 7 \<and> additional = 20 then Inr (CBool False, off)
     else if major = 7 \<and> additional = 21 then Inr (CBool True, off)
     else if major = 7 \<and> additional = 22 then Inr (CNull, off)
     else if major = 7 \<and> additional = 27 then
       (if length bs < off + 8 then throw unexpected_end
        else ebind (cborF64 (getFloat64 bs off)) (\<lambda>v. Inr (v, off + 8)))
     else throw ''unsupported CBOR value'')"
| "decode_items bs off 0 = Inr ([], off)"
| "decode_items bs off (Suc n) =
     ebind (decode bs off) (\<lambda>(v, off).
     ebind (decode_items bs off n) (\<lambda>(vs, off). Inr (v # vs, off)))"
| "decode_entries bs off 0 m = Inr (m, off)"
| "decode_entries bs off (Suc n) m =
     ebind (decode bs off) (\<lambda>(key, off).
     ebind (checked_key key m) (\<lambda>k.
     ebind (decode bs off) (\<lambda>(v, off). decode_entries bs off n (m @ [(k, v)]))))"
  by pat_completeness auto

lemma read_progress: "read bs off = Inr (n, off') \<Longrightarrow> off' = Suc off \<and> off < length bs \<and> n < 256"
  by (auto simp: read_def split: if_splits)

text \<open>\<open>advances bs off off'\<close>: the offset moved forward and not past the end.\<close>

definition advances :: "bytes \<Rightarrow> nat \<Rightarrow> nat \<Rightarrow> bool" where
  "advances bs off off' \<longleftrightarrow> off \<le> off' \<and> (off \<le> length bs \<longrightarrow> off' \<le> length bs)"

lemma advances_refl [simp]: "advances bs off off"
  by (simp add: advances_def)

lemma advances_trans: "advances bs a b \<Longrightarrow> advances bs b c \<Longrightarrow> advances bs a c"
  by (auto simp: advances_def)

lemma read_advances: "read bs off = Inr (n, off') \<Longrightarrow> advances bs off off'"
  by (auto simp: advances_def dest: read_progress)

lemma readFixedUint_from_advances:
  "readFixedUint_from bs off k v = Inr (n, off') \<Longrightarrow> advances bs off off'"
  by (induction k arbitrary: off v) (auto dest!: read_advances intro: advances_trans)

lemma readArg_advances: "readArg bs off a = Inr (n, off') \<Longrightarrow> advances bs off off'"
  by (auto simp: readArg_def readFixedUint_def readU64AsU53_def split: if_splits
      dest!: read_advances readFixedUint_from_advances intro: advances_trans)

lemma readNegativeArg_advances: "readNegativeArg bs off a = Inr (n, off') \<Longrightarrow> advances bs off off'"
  by (auto simp: readNegativeArg_def split: if_splits dest!: readArg_advances)

lemma readBytes_progress: "readBytes bs off len = Inr (b, off') \<Longrightarrow> off' = off + len \<and> off' \<le> length bs"
  by (auto simp: readBytes_def split: if_splits)


lemma readBytes_advances: "readBytes bs off len = Inr (b, off') \<Longrightarrow> advances bs off off'"
  by (auto simp: advances_def dest: readBytes_progress)

lemmas reader_advances =
  read_advances readFixedUint_from_advances readArg_advances readNegativeArg_advances
  readBytes_advances

lemma decode_partial_progress:
  "decode_decode_items_decode_entries_dom (Inl (bs, off)) \<Longrightarrow>
     decode bs off = Inr (v, off') \<Longrightarrow> off < off' \<and> off < length bs \<and> advances bs off off'"
  "decode_decode_items_decode_entries_dom (Inr (Inl (bs, off, n))) \<Longrightarrow>
     decode_items bs off n = Inr (vs, off') \<Longrightarrow> advances bs off off'"
  "decode_decode_items_decode_entries_dom (Inr (Inr (bs, off, n, m))) \<Longrightarrow>
     decode_entries bs off n m = Inr (m', off') \<Longrightarrow> advances bs off off'"
proof (induction arbitrary: v off' and vs off' and m' off'
    rule: decode_decode_items_decode_entries.pinduct)
  case (1 bs off)
  obtain initial where r: "read bs off = Inr (initial, Suc off)" "off < length bs"
    using "1.prems" by (auto simp: decode.psimps [OF "1.hyps"] dest: read_progress)
  have items: "advances bs o1 o2"
    if "drop_bit 5 initial = 4" "readArg bs (Suc off) (initial AND 31) = Inr (len, o1)"
      "\<not> MAX_ARRAY_LENGTH < len" "decode_items bs o1 len = Inr (vs, o2)" for len o1 vs o2
    using "1.IH"(1) [OF r(1) refl refl refl] that by simp
  have entries: "advances bs o1 o2"
    if "drop_bit 5 initial = 5" "readArg bs (Suc off) (initial AND 31) = Inr (len, o1)"
      "decode_entries bs o1 len [] = Inr (m, o2)" for len o1 m o2
    using "1.IH"(2) [OF r(1) refl refl refl] that by simp
  have "advances bs (Suc off) off'"
    using "1.prems" r
    by (simp add: decode.psimps [OF "1.hyps"] Let_def split: if_splits)
      (auto intro: advances_trans reader_advances items entries simp: advances_def [of _ _ "_ + _"])
  with r show ?case by (auto simp: advances_def)
next
  case (2 bs off)
  then show ?case by (simp add: decode_items.psimps)
next
  case (3 bs off n)
  then show ?case
    by (auto simp: decode_items.psimps intro: advances_trans)
next
  case (4 bs off m)
  then show ?case by (simp add: decode_entries.psimps)
next
  case (5 bs off n m)
  from "5.prems" obtain key o1 k v1 o2 where
    d: "decode bs off = Inr (key, o1)" "checked_key key m = Inr k"
      "decode bs o1 = Inr (v1, o2)" "decode_entries bs o2 n (m @ [(k, v1)]) = Inr (m', off')"
    by (auto simp: decode_entries.psimps(2) [OF "5.hyps"])
  have "advances bs off o1" "advances bs o1 o2" "advances bs o2 off'"
    using "5.IH"(1) [OF d(1)] "5.IH"(2) [OF d(1) refl d(2,3)]
      "5.IH"(3) [OF d(1) refl d(2,3) refl d(4)] by simp_all
  then show ?case by (blast intro: advances_trans)
qed

lemma decode_terminates: "All decode_decode_items_decode_entries_dom"
proof (relation "measure (\<lambda>x. case x of
      Inl (bs, off) \<Rightarrow> 2 * (length bs - off)
    | Inr (Inl (bs, off, n)) \<Rightarrow> Suc (2 * (length bs - off))
    | Inr (Inr (bs, off, n, m)) \<Rightarrow> Suc (2 * (length bs - off)))")
qed (auto dest!: read_progress readArg_advances decode_partial_progress(1) simp: advances_def)

termination decode
  by (rule decode_terminates)

declare decode.simps [simp del]

lemma decode_progress:
  assumes "decode bs off = Inr (v, off')"
  shows "off < off'" "off < length bs" "off' \<le> length bs"
proof -
  have "decode_decode_items_decode_entries_dom (Inl (bs, off))"
    using decode_terminates by (rule spec)
  then have "off < off' \<and> off < length bs \<and> advances bs off off'"
    using assms by (rule decode_partial_progress(1))
  then show "off < off'" "off < length bs" "off' \<le> length bs"
    by (auto simp: advances_def)
qed

lemma decode_measure: "decode bs off = Inr (v, off') \<Longrightarrow> length bs - off' < length bs - off"
  by (frule decode_progress(1), frule decode_progress(2)) simp

section \<open>Whole inputs, sequences, prefixes\<close>

definition decodeCbor :: "bytes \<Rightarrow> cbor_value result" where
  "decodeCbor bs =
     ebind (decode bs 0) (\<lambda>(v, off).
     if off \<noteq> length bs then throw ''trailing bytes after CBOR value'' else Inr v)"

function decode_sequence_from :: "bytes \<Rightarrow> nat \<Rightarrow> cbor_value list result" where
  "decode_sequence_from bs off =
     (if off = length bs then Inr []
      else ebind (decode bs off) (\<lambda>(v, off).
           ebind (decode_sequence_from bs off) (\<lambda>vs. Inr (v # vs))))"
  by pat_completeness auto
termination
  by (relation "measure (\<lambda>(bs, off). length bs - off)")
    (auto dest: decode_measure)

definition decodeCborSequence :: "bytes \<Rightarrow> cbor_value list result" where
  "decodeCborSequence bs = decode_sequence_from bs 0"

record CborSequencePrefixItem =
  item_value :: cbor_value
  endOffset :: nat

text \<open>The test of the \<open>catch\<close> clause: is this the error of a truncated input?\<close>

definition is_unexpected_end :: "js_error \<Rightarrow> bool" where
  "is_unexpected_end e \<longleftrightarrow> err_message e = js unexpected_end"

function decode_prefix_from :: "bytes \<Rightarrow> nat \<Rightarrow> CborSequencePrefixItem list result" where
  "decode_prefix_from bs off =
     (if off = length bs then Inr []
      else case decode bs off of
        Inl err \<Rightarrow> if is_unexpected_end err then Inr [] else Inl err
      | Inr (v, off') \<Rightarrow>
          ebind (decode_prefix_from bs off') (\<lambda>items.
          Inr (\<lparr>item_value = v, endOffset = off'\<rparr> # items)))"
  by pat_completeness auto
termination
  by (relation "measure (\<lambda>(bs, off). length bs - off)")
    (auto dest: decode_measure)

definition decodeCborSequencePrefix :: "bytes \<Rightarrow> CborSequencePrefixItem list result" where
  "decodeCborSequencePrefix bs = decode_prefix_from bs 0"

declare decode_sequence_from.simps [simp del]
declare decode_prefix_from.simps [simp del]

end
