(* ===== verification/CborStream.thy ===== *)
theory CborStream
  imports Cbor
begin

text \<open>
  How the decoder of \<open>cbor.ts\<close> behaves on input that is still arriving. Three laws hold
  for every byte string: a decoded value moves the offset (\<open>decode_progress\<close>), more bytes
  change no outcome but the truncation error (\<open>decode_settled\<close>), and only the bytes from
  the offset on matter (\<open>decode_shift\<close>). The locale \<open>incremental_reader\<close> states them as
  an interface and proves what \<open>decodeCborSequence\<close> and \<open>decodeCborSequencePrefix\<close> do with
  a buffer that grows; \<open>cbor_reader\<close> interprets it on the decoder.
\<close>

section \<open>More input changes nothing but truncation\<close>

text \<open>\<open>settled x y\<close>: \<open>y\<close>, the outcome on more bytes, is \<open>x\<close> unless \<open>x\<close> is the truncation error.\<close>

definition settled :: "'a result \<Rightarrow> 'a result \<Rightarrow> bool" where
  "settled x y \<longleftrightarrow> x = throw unexpected_end \<or> x = y"

lemma settled_refl [simp, intro]: "settled x x"
  by (simp add: settled_def)

lemma settled_end [simp, intro]: "settled (throw unexpected_end) y"
  by (simp add: settled_def)

lemma settled_bind [intro]:
  "settled x y \<Longrightarrow> (\<And>a. x = Inr a \<Longrightarrow> settled (f a) (g a)) \<Longrightarrow> settled (ebind x f) (ebind y g)"
  by (cases x) (auto simp: settled_def throw_def)

lemma settled_if [intro]:
  "(b \<Longrightarrow> settled x y) \<Longrightarrow> (\<not> b \<Longrightarrow> settled u v) \<Longrightarrow> settled (if b then x else u) (if b then y else v)"
  by simp

lemma settled_bind_pair [intro]:
  "settled x y \<Longrightarrow> (\<And>a b. x = Inr (a, b) \<Longrightarrow> settled (f a b) (g a b)) \<Longrightarrow>
   settled (ebind x (\<lambda>(a, b). f a b)) (ebind y (\<lambda>(a, b). g a b))"
  by (rule settled_bind) auto

lemma read_settled [intro]: "settled (read bs off) (read (bs @ cs) off)"
  by (auto simp: read_def nth_append)

lemma readBytes_settled [intro]: "settled (readBytes bs off len) (readBytes (bs @ cs) off len)"
  by (auto simp: readBytes_def)

lemma readFixedUint_from_settled [intro]:
  "settled (readFixedUint_from bs off k v) (readFixedUint_from (bs @ cs) off k v)"
  by (induction k arbitrary: off v) auto

lemma readArg_settled [intro]: "settled (readArg bs off a) (readArg (bs @ cs) off a)"
  unfolding readArg_def readFixedUint_def readU64AsU53_def by (intro settled_if) auto

lemma readNegativeArg_settled [intro]:
  "settled (readNegativeArg bs off a) (readNegativeArg (bs @ cs) off a)"
  unfolding readNegativeArg_def by auto

lemma getFloat64_append: "off + 8 \<le> length bs \<Longrightarrow> getFloat64 (bs @ cs) off = getFloat64 bs off"
  by (simp add: getFloat64_def)

lemma decode_settled_all:
  "settled (decode bs off) (decode (bs @ cs) off)"
  "settled (decode_items bs off n) (decode_items (bs @ cs) off n)"
  "settled (decode_entries bs off n m) (decode_entries (bs @ cs) off n m)"
proof (induction bs off and bs off n and bs off n m
    rule: decode_decode_items_decode_entries.induct)
  case (1 bs off)
  show ?case
    unfolding decode.simps [of bs off] decode.simps [of "bs @ cs" off] Let_def
  proof (intro settled_bind_pair settled_if read_settled readArg_settled readNegativeArg_settled
      readBytes_settled settled_refl)
    fix initial o1 len o2
    assume "read bs off = Inr (initial, o1)" "readArg bs o1 (initial AND 31) = Inr (len, o2)"
    note r = this
    show "settled (decode_items bs o2 len) (decode_items (bs @ cs) o2 len)"
      if "\<not> MAX_ARRAY_LENGTH < len" "drop_bit 5 initial = 4"
      using "1.IH"(1) [OF r(1) refl refl refl] r that by simp
    show "settled (decode_entries bs o2 len []) (decode_entries (bs @ cs) o2 len [])"
      if "drop_bit 5 initial = 5"
      using "1.IH"(2) [OF r(1) refl refl refl] r that by simp
  qed (auto simp: getFloat64_append)
next
  case (2 bs off)
  then show ?case by simp
next
  case (3 bs off n)
  then show ?case by (simp add: settled_bind_pair)
next
  case (4 bs off m)
  then show ?case by simp
next
  case (5 bs off n m)
  then show ?case by (auto intro!: settled_bind_pair settled_bind)
qed

section \<open>Only the bytes from the offset on matter\<close>

text \<open>\<open>shifted k x y\<close>: \<open>y\<close> is \<open>x\<close> with its final offset moved by \<open>k\<close>.\<close>

definition shifted :: "nat \<Rightarrow> ('a \<times> nat) result \<Rightarrow> ('a \<times> nat) result \<Rightarrow> bool" where
  "shifted k x y \<longleftrightarrow> y = ebind x (\<lambda>(a, off). Inr (a, k + off))"

lemma shifted_bind [intro]:
  "shifted k x y \<Longrightarrow> (\<And>a b. x = Inr (a, b) \<Longrightarrow> shifted k (f a b) (g a (k + b))) \<Longrightarrow>
   shifted k (ebind x (\<lambda>(a, b). f a b)) (ebind y (\<lambda>(a, b). g a b))"
  by (cases x) (auto simp: shifted_def)

lemma shifted_bind_const [intro]:
  "(\<And>a. x = Inr a \<Longrightarrow> shifted k (f a) (g a)) \<Longrightarrow> shifted k (ebind x f) (ebind x g)"
  by (cases x) (auto simp: shifted_def)

lemma shifted_if [intro]:
  "(b \<Longrightarrow> shifted k x y) \<Longrightarrow> (\<not> b \<Longrightarrow> shifted k u v) \<Longrightarrow>
   shifted k (if b then x else u) (if b then y else v)"
  by simp

lemma shifted_Inl [simp, intro]: "shifted k (Inl e) (Inl e)"
  by (simp add: shifted_def)

lemma shifted_throw [simp, intro]: "shifted k (throw m) (throw m)"
  by (simp add: shifted_def)

lemma shifted_Inr [simp, intro]: "off' = k + off \<Longrightarrow> shifted k (Inr (a, off)) (Inr (a, off'))"
  by (simp add: shifted_def)

lemma read_shift [intro]: "shifted (length pre) (read bs off) (read (pre @ bs) (length pre + off))"
  by (simp add: read_def shifted_def)

lemma readBytes_shift [intro]:
  "shifted (length pre) (readBytes bs off len) (readBytes (pre @ bs) (length pre + off) len)"
  by (simp add: readBytes_def shifted_def)

lemma readFixedUint_from_shift [intro]:
  "shifted (length pre) (readFixedUint_from bs off k v)
     (readFixedUint_from (pre @ bs) (length pre + off) k v)"
  by (induction k arbitrary: off v) auto

lemma readArg_shift [intro]:
  "shifted (length pre) (readArg bs off a) (readArg (pre @ bs) (length pre + off) a)"
  unfolding readArg_def readFixedUint_def readU64AsU53_def
  by (intro shifted_if shifted_bind shifted_bind_const read_shift readFixedUint_from_shift
      shifted_throw shifted_Inr refl)

lemma readNegativeArg_shift [intro]:
  "shifted (length pre) (readNegativeArg bs off a) (readNegativeArg (pre @ bs) (length pre + off) a)"
  unfolding readNegativeArg_def by auto

lemma decode_shift_all:
  "shifted (length pre) (decode bs off) (decode (pre @ bs) (length pre + off))"
  "shifted (length pre) (decode_items bs off n) (decode_items (pre @ bs) (length pre + off) n)"
  "shifted (length pre) (decode_entries bs off n m) (decode_entries (pre @ bs) (length pre + off) n m)"
proof (induction bs off and bs off n and bs off n m
    rule: decode_decode_items_decode_entries.induct)
  case (1 bs off)
  show ?case
    unfolding decode.simps [of bs off] decode.simps [of "pre @ bs" "length pre + off"] Let_def
  proof (intro shifted_bind shifted_bind_const shifted_if read_shift readArg_shift
      readNegativeArg_shift readBytes_shift shifted_throw shifted_Inl)
    fix initial o1 len o2
    assume "read bs off = Inr (initial, o1)" "readArg bs o1 (initial AND 31) = Inr (len, o2)"
    note r = this
    show "shifted (length pre) (decode_items bs o2 len) (decode_items (pre @ bs) (length pre + o2) len)"
      if "\<not> MAX_ARRAY_LENGTH < len" "drop_bit 5 initial = 4"
      using "1.IH"(1) [OF r(1) refl refl refl] r that by simp
    show "shifted (length pre) (decode_entries bs o2 len [])
        (decode_entries (pre @ bs) (length pre + o2) len [])"
      if "drop_bit 5 initial = 5"
      using "1.IH"(2) [OF r(1) refl refl refl] r that by simp
  qed (auto simp: getFloat64_def)
next
  case (2 bs off)
  then show ?case by simp
next
  case (3 bs off n)
  then show ?case by (auto intro!: shifted_bind)
next
  case (4 bs off m)
  then show ?case by simp
next
  case (5 bs off n m)
  then show ?case by (auto intro!: shifted_bind shifted_bind_const)
qed

section \<open>The interface of an incremental reader\<close>

text \<open>
  What \<open>decodeCborSequence\<close> and \<open>decodeCborSequencePrefix\<close> rely on: \<open>rd\<close> reads one value at
  an offset. \<open>seq\<close> and \<open>pfx\<close> are the two loops over it, fixed by their own equations.
\<close>

locale incremental_reader =
  fixes rd :: "bytes \<Rightarrow> nat \<Rightarrow> ('v \<times> nat) result"
    and seq :: "bytes \<Rightarrow> nat \<Rightarrow> 'v list result"
    and pfx :: "bytes \<Rightarrow> nat \<Rightarrow> 'i list result"
    and mk_item :: "'v \<Rightarrow> nat \<Rightarrow> 'i"
    and item_val :: "'i \<Rightarrow> 'v"
    and item_end :: "'i \<Rightarrow> nat"
  assumes progress: "rd bs off = Inr (v, off') \<Longrightarrow> off < off' \<and> off' \<le> length bs"
    and settled: "settled (rd bs off) (rd (bs @ cs) off)"
    and shift: "shifted (length pre) (rd bs off) (rd (pre @ bs) (length pre + off))"
    and seq_unfold: "seq bs off =
      (if off = length bs then Inr []
       else ebind (rd bs off) (\<lambda>(v, off'). ebind (seq bs off') (\<lambda>vs. Inr (v # vs))))"
    and pfx_unfold: "pfx bs off =
      (if off = length bs then Inr []
       else case rd bs off of
         Inl err \<Rightarrow> if is_unexpected_end err then Inr [] else Inl err
       | Inr (v, off') \<Rightarrow> ebind (pfx bs off') (\<lambda>items. Inr (mk_item v off' # items)))"
    and item_val_mk [simp]: "item_val (mk_item v off) = v"
    and item_end_mk [simp]: "item_end (mk_item v off) = off"
begin

definition last_end :: "nat \<Rightarrow> 'i list \<Rightarrow> nat" where
  "last_end off items = (if items = [] then off else item_end (last items))"

lemma last_end_simps [simp]:
  "last_end off [] = off" "last_end off (x # xs) = last_end (item_end x) xs"
  by (simp_all add: last_end_def)

lemma last_end_append [simp]: "last_end off (xs @ ys) = last_end (last_end off xs) ys"
  by (simp add: last_end_def)

lemma rd_end: "rd bs (length bs) \<noteq> Inr (v, off')"
  using progress [of bs "length bs"] by fastforce

lemma rd_appendD: "rd bs off = Inr (v, off') \<Longrightarrow> rd (bs @ cs) off = Inr (v, off')"
  using settled [of bs off cs] by (auto simp: settled_def)

lemma reader_induct [case_names step]:
  assumes "\<And>off. (\<And>v off'. rd bs off = Inr (v, off') \<Longrightarrow> P off') \<Longrightarrow> P off"
  shows "P off"
proof (induction "length bs - off" arbitrary: off rule: less_induct)
  case less
  show ?case
  proof (rule assms)
    fix v off' assume "rd bs off = Inr (v, off')"
    with progress [OF this] show "P off'" by (intro less) linarith
  qed
qed

text \<open>The items of a prefix stay the items of the longer input; the rest is read after them.\<close>

lemma pfx_ConsD: "pfx bs off = Inr (i # items) \<Longrightarrow>
    off \<noteq> length bs \<and> rd bs off = Inr (item_val i, item_end i) \<and> pfx bs (item_end i) = Inr items \<and>
    mk_item (item_val i) (item_end i) = i"
  by (auto simp: pfx_unfold [of bs off] split: if_splits sum.splits)

lemma pfx_append: "pfx bs off = Inr (items @ later) \<Longrightarrow>
    pfx (bs @ cs) off = ebind (pfx (bs @ cs) (last_end off items)) (\<lambda>rest. Inr (items @ rest))"
proof (induction items arbitrary: off)
  case (Cons i items)
  from pfx_ConsD [of bs off i "items @ later"] Cons.prems
  have r: "rd bs off = Inr (item_val i, item_end i)" "pfx bs (item_end i) = Inr (items @ later)"
    "mk_item (item_val i) (item_end i) = i" by simp_all
  from r(1) have a: "rd (bs @ cs) off = Inr (item_val i, item_end i)" by (rule rd_appendD)
  have "off \<noteq> length (bs @ cs)" using a rd_end by metis
  with a r Cons.IH [OF r(2)] show ?case
    by (simp add: pfx_unfold [of "bs @ cs" off] ebind_assoc)
qed simp

lemma pfx_append_error:
  "pfx bs off = Inl e \<Longrightarrow> off \<le> length bs \<Longrightarrow> pfx (bs @ cs) off = Inl e"
proof (induction off rule: reader_induct [of bs])
  case (step off)
  show ?case
  proof (cases "rd bs off")
    case (Inl err)
    with step.prems have e: "err = e" "\<not> is_unexpected_end e" "off \<noteq> length bs"
      by (auto simp: pfx_unfold [of bs off] split: if_splits)
    with Inl settled [of bs off cs] have a: "rd (bs @ cs) off = Inl e"
      by (auto simp: settled_def throw_def is_unexpected_end_def)
    with e step.prems(2) show ?thesis by (simp add: pfx_unfold [of "bs @ cs" off])
  next
    case (Inr p)
    then obtain v off' where r: "rd bs off = Inr (v, off')" by (cases p) auto
    with step.prems have e: "pfx bs off' = Inl e" "off' \<le> length bs"
      using progress [OF r] by (auto simp: pfx_unfold [of bs off] ebind_eq_Inl split: if_splits)
    from r have a: "rd (bs @ cs) off = Inr (v, off')" by (rule rd_appendD)
    have "off \<noteq> length (bs @ cs)" using a rd_end by metis
    with a step.IH [OF r e] show ?thesis
      by (simp add: pfx_unfold [of "bs @ cs" off])
  qed
qed

text \<open>The ends of the items increase and stay inside the buffer.\<close>

lemma pfx_ends: "pfx bs off = Inr items \<Longrightarrow> i \<in> set items \<Longrightarrow> off < item_end i \<and> item_end i \<le> length bs"
proof (induction off arbitrary: items rule: reader_induct [of bs])
  case (step off)
  from step.prems obtain v off' rest where r: "rd bs off = Inr (v, off')"
      "pfx bs off' = Inr rest" "items = mk_item v off' # rest"
    by (auto simp: pfx_unfold [of bs off] split: if_splits sum.splits)
  with step.IH [OF r(1,2)] step.prems(2) progress [OF r(1)] show ?case by auto
qed

lemma pfx_shift: "pfx (pre @ bs) (length pre + off) =
    ebind (pfx bs off) (\<lambda>items.
    Inr (map (\<lambda>i. mk_item (item_val i) (length pre + item_end i)) items))"
proof (induction off rule: reader_induct [of bs])
  case (step off)
  have sh: "rd (pre @ bs) (length pre + off)
      = ebind (rd bs off) (\<lambda>(a, off). Inr (a, length pre + off))"
    using shift by (simp add: shifted_def)
  show ?case
  proof (cases "rd bs off")
    case (Inl e)
    then show ?thesis
      by (simp add: pfx_unfold [of bs off] pfx_unfold [of "pre @ bs"] sh)
  next
    case (Inr p)
    then obtain v off' where r: "rd bs off = Inr (v, off')" by (cases p) auto
    with step.IH [OF r] show ?thesis
      by (simp add: pfx_unfold [of bs off] pfx_unfold [of "pre @ bs" "length pre + off"] sh ebind_assoc)
  qed
qed

text \<open>A complete sequence is its own prefix, with nothing left over.\<close>

lemma pfx_complete: "seq bs off = Inr vs \<Longrightarrow>
    \<exists>items. pfx bs off = Inr items \<and> map item_val items = vs \<and> last_end off items = length bs"
proof (induction off arbitrary: vs rule: reader_induct [of bs])
  case (step off)
  show ?case
  proof (cases "off = length bs")
    case True
    with step.prems show ?thesis by (simp add: seq_unfold [of bs "length bs"] pfx_unfold [of bs "length bs"])
  next
    case False
    with step.prems obtain v off' vs' where r: "rd bs off = Inr (v, off')"
        "seq bs off' = Inr vs'" "vs = v # vs'"
      by (auto simp: seq_unfold [of bs off])
    from step.IH [OF r(1,2)] obtain items where "pfx bs off' = Inr items"
      "map item_val items = vs'" "last_end off' items = length bs" by blast
    with r False show ?thesis
      by (intro exI [of _ "mk_item v off' # items"]) (simp add: pfx_unfold [of bs off])
  qed
qed

text \<open>Cutting a value short gives the truncation error and no other.\<close>

lemma rd_truncated:
  assumes r: "rd bs off = Inr (v, off')" and k: "k < off'"
  shows "rd (take k bs) off = throw unexpected_end"
proof (rule ccontr)
  assume "rd (take k bs) off \<noteq> throw unexpected_end"
  then have "rd (take k bs) off = Inr (v, off')"
    using settled [of "take k bs" off "drop k bs"] r by (simp add: settled_def)
  from progress [OF this] k show False by simp
qed

end

text \<open>
  A codec adds an encoder whose output the reader takes back, whatever follows. \<open>norm\<close> is
  what the round trip makes of a value, \<open>ok\<close> the values the encoder is meant for.
\<close>

locale codec = incremental_reader rd seq pfx mk_item item_val item_end
  for rd :: "bytes \<Rightarrow> nat \<Rightarrow> ('v \<times> nat) result" and seq pfx
    and mk_item :: "'v \<Rightarrow> nat \<Rightarrow> 'i" and item_val item_end +
  fixes enc :: "'v \<Rightarrow> bytes result"
    and norm :: "'v \<Rightarrow> 'v"
    and ok :: "'v \<Rightarrow> bool"
  assumes rd_enc: "enc v = Inr b \<Longrightarrow> ok v \<Longrightarrow> rd (b @ cs) 0 = Inr (norm v, length b)"
begin

lemma rd_enc_at:
  assumes "enc v = Inr b" "ok v"
  shows "rd (pre @ b @ cs) (length pre) = Inr (norm v, length pre + length b)"
  using rd_enc [OF assms, of cs] shift [of pre "b @ cs" 0] by (simp add: shifted_def)

lemma enc_nonempty: "enc v = Inr b \<Longrightarrow> ok v \<Longrightarrow> b \<noteq> []"
  using rd_enc [of v b "[]"] progress [of b 0] by fastforce

lemma seq_enc_at:
  assumes "list_all2 (\<lambda>v b. enc v = Inr b \<and> ok v) vs bss"
  shows "seq (pre @ concat bss) (length pre) = Inr (map norm vs)"
  using assms
proof (induction vs bss arbitrary: pre rule: list_all2_induct)
  case Nil
  then show ?case by (simp add: seq_unfold)
next
  case (Cons v vs b bss)
  then have "seq ((pre @ b) @ concat bss) (length (pre @ b)) = Inr (map norm vs)" by blast
  moreover have "length b \<noteq> 0" using Cons enc_nonempty by auto
  ultimately show ?case
    using Cons rd_enc_at [of v b pre "concat bss"]
    by (simp add: seq_unfold [of "pre @ b @ concat bss"])
qed

lemma seq_enc: "emap enc vs = Inr bss \<Longrightarrow> list_all ok vs \<Longrightarrow> seq (concat bss) 0 = Inr (map norm vs)"
  using seq_enc_at [of vs bss "[]"] emap_eq_InrD [of enc vs bss]
  by (simp add: list_all2_conv_all_nth list_all_length)

end

section \<open>The decoder as an incremental reader\<close>

lemma decode_sequence_unfold: "decode_sequence_from bs off =
    (if off = length bs then Inr []
     else ebind (decode bs off) (\<lambda>(v, off'). ebind (decode_sequence_from bs off') (\<lambda>vs. Inr (v # vs))))"
  by (rule decode_sequence_from.simps)

interpretation cbor_reader: incremental_reader decode decode_sequence_from decode_prefix_from
  "\<lambda>v off. \<lparr>item_value = v, endOffset = off\<rparr>" item_value endOffset
proof (unfold_locales, goal_cases)
  case (1 bs off v off')
  then show ?case using decode_progress [OF 1] by simp
next
  case (2 bs off cs)
  then show ?case by (rule decode_settled_all(1))
next
  case (3 pre bs off)
  then show ?case by (rule decode_shift_all(1))
next
  case (4 bs off)
  then show ?case by (rule decode_sequence_from.simps)
next
  case (5 bs off)
  then show ?case by (rule decode_prefix_from.simps)
qed simp_all

end
