(* ===== verification/CborRoundtrip.thy ===== *)
theory CborRoundtrip
  imports CborStream "HOL-Library.Multiset"
begin

unbundle bit_operations_syntax

text \<open>
  \<open>decodeCbor\<close> inverts \<open>encodeCbor\<close> up to the normal form \<open>norm\<close>: map entries in
  ascending key order, fractions as \<open>CborF64\<close>, strings as the two text converters leave
  them. \<open>cbor_ok\<close> holds what the JavaScript types guarantee (array lengths below \<open>2^32\<close>,
  distinct map keys) and the finiteness that \<open>cborF64\<close> checks at construction.
\<close>

section \<open>Normal form and well-formed values\<close>

function norm :: "cbor_value \<Rightarrow> cbor_value" where
  "norm CNull = CNull"
| "norm (CBool b) = CBool b"
| "norm (CNumber (JInt i)) = CNumber (JInt i)"
| "norm (CNumber (JFrac w)) = CF64 w"
| "norm (CNumber JNonFinite) = CNumber JNonFinite"
| "norm (CF64 w) = CF64 w"
| "norm (CText s) = CText (text_norm s)"
| "norm (CBytes b) = CBytes b"
| "norm (CArray vs) = CArray (map norm vs)"
| "norm (CMap m) = CMap (map (\<lambda>(k, v). (k, norm v)) (sort_entries m))"
  by pat_completeness auto
termination
  by (relation "measure size")
    (auto simp: less_Suc_eq_le dest: size_list_estimation' [where f = size, OF _ order_refl]
      intro: size_list_estimation' [where f = "size_prod (\<lambda>x. 0) size"])

function cbor_ok :: "cbor_value \<Rightarrow> bool" where
  "cbor_ok CNull = True"
| "cbor_ok (CBool b) = True"
| "cbor_ok (CNumber (JInt i)) = True"
| "cbor_ok (CNumber (JFrac w)) = f64_is_finite w"
| "cbor_ok (CNumber JNonFinite) = True"
| "cbor_ok (CF64 w) = f64_is_finite w"
| "cbor_ok (CText s) = True"
| "cbor_ok (CBytes b) = True"
| "cbor_ok (CArray vs) = (length vs \<le> MAX_ARRAY_LENGTH \<and> list_all cbor_ok vs)"
| "cbor_ok (CMap m) = (distinct (map fst m) \<and> list_all (\<lambda>(k, v). cbor_ok v) m)"
  by pat_completeness auto
termination
  by (relation "measure size")
    (auto simp: less_Suc_eq_le dest: size_list_estimation' [where f = size, OF _ order_refl]
      intro: size_list_estimation' [where f = "size_prod (\<lambda>x. 0) size"])

section \<open>Initial bytes and arguments\<close>

lemma initial_or: "m < 8 \<Longrightarrow> a < 32 \<Longrightarrow> push_bit 5 m OR a = m * 32 + (a::nat)"
proof -
  assume "m < 8" "a < 32"
  then have a: "take_bit 5 a = a" by (simp add: take_bit_nat_eq_self_iff)
  have "push_bit 5 m AND take_bit 5 a = 0"
    by (intro bit_eqI) (auto simp: bit_simps)
  then have "push_bit 5 m OR a = push_bit 5 m + a"
    using disjunctive_add_eq_or [of "push_bit 5 m" a] by (simp add: a)
  then show ?thesis by (simp add: push_bit_eq_mult)
qed

lemma low_bits: "(n::nat) AND 31 = n mod 32" "(n::nat) AND 255 = n mod 256"
proof -
  have "(n::nat) AND mask 5 = take_bit 5 n" "(n::nat) AND mask 8 = take_bit 8 n"
    by (simp_all add: take_bit_eq_mask)
  then show "(n::nat) AND 31 = n mod 32" "(n::nat) AND 255 = n mod 256"
    by (simp_all add: take_bit_eq_mod mask_eq_exp_minus_1)
qed

lemma initial_byte:
  assumes "m < 8" "a < 32"
  shows "unat (byte (push_bit 5 m OR a)) = m * 32 + a"
    "drop_bit 5 (m * 32 + a) = m" "(m * 32 + a) AND 31 = a"
  using assms by (simp_all add: initial_or drop_bit_eq_div low_bits)

lemma read_at: "read (pre @ b # post) (length pre) = Inr (unat b, Suc (length pre))"
  by (simp add: read_def)

lemma be_Cons: "be v (Suc k) = (v div 256 ^ k mod 256) # be v k"
proof (induction k arbitrary: v)
  case (Suc k)
  have "be v (Suc (Suc k)) = be (v div 256) (Suc k) @ [v mod 256]" by simp
  also have "\<dots> = (v div 256 div 256 ^ k mod 256) # be (v div 256) k @ [v mod 256]"
    using Suc.IH [of "v div 256"] by simp
  finally show ?case by (simp add: div_mult2_eq)
qed simp

lemma length_be [simp]: "length (be v k) = k"
  by (induction k arbitrary: v) auto

lemma readFixed_be: "readFixedUint_from (pre @ map byte (be v k) @ post) (length pre) k a
    = Inr (a * 256 ^ k + v mod 256 ^ k, length pre + k)"
proof (induction k arbitrary: pre a)
  case (Suc k)
  define d where "d = v div 256 ^ k mod 256"
  have d: "d < 256" by (simp add: d_def)
  have "v mod 256 ^ Suc k = 256 ^ k * d + v mod 256 ^ k"
    using mod_mult2_eq [of v "256 ^ k" 256] by (simp add: d_def mult.commute)
  moreover have "readFixedUint_from ((pre @ [byte d]) @ map byte (be v k) @ post)
      (length (pre @ [byte d])) k (a * 256 + d)
      = Inr ((a * 256 + d) * 256 ^ k + v mod 256 ^ k, length (pre @ [byte d]) + k)"
    by (rule Suc.IH)
  ultimately show ?case
    using d read_at [of pre "byte d" "map byte (be v k) @ post"]
    by (simp add: be_Cons del: be.simps flip: d_def) (simp add: algebra_simps)
qed simp

lemma readFixedUint_be: "v < 256 ^ k \<Longrightarrow>
    readFixedUint (pre @ map byte (be v k) @ post) (length pre) k = Inr (v, length pre + k)"
  by (simp add: readFixedUint_def readFixed_be)

text \<open>Eight bytes are read as two halves of four.\<close>

lemma be_append: "be v (j + k) = be (v div 256 ^ k) j @ be v k"
proof (induction j)
  case (Suc j)
  have "be v (Suc (j + k)) = (v div 256 ^ (j + k) mod 256) # be v (j + k)" by (rule be_Cons)
  also have "\<dots> = (v div 256 ^ k div 256 ^ j mod 256) # be (v div 256 ^ k) j @ be v k"
    by (simp add: Suc power_add div_mult2_eq mult.commute [of "256 ^ j"])
  also have "\<dots> = be (v div 256 ^ k) (Suc j) @ be v k" by (simp add: be_Cons del: be.simps)
  finally show ?case by simp
qed simp

lemma readU64_be:
  assumes "v \<le> MAX_SAFE_CBOR_INTEGER"
  shows "readU64AsU53 (pre @ map byte (be v 8) @ post) (length pre) = Inr (v, length pre + 8)"
proof -
  let ?hi = "map byte (be (v div 256 ^ 4) 4)" and ?lo = "map byte (be v 4)"
  have split: "be v 8 = be (v div 256 ^ 4) 4 @ be v 4"
    using be_append [of v 4 4] by simp
  have hi: "v div 256 ^ 4 \<le> MAX_SAFE_U64_HIGH"
    using assms by (simp add: MAX_SAFE_CBOR_INTEGER_def MAX_SAFE_U64_HIGH_def)
  have r1: "readFixedUint (pre @ map byte (be v 8) @ post) (length pre) 4
      = Inr (v div 256 ^ 4, length pre + 4)"
    using readFixedUint_be [of "v div 256 ^ 4" 4 pre "?lo @ post"] hi
    by (simp add: split MAX_SAFE_U64_HIGH_def)
  have r2: "readFixedUint (pre @ map byte (be v 8) @ post) (length pre + 4) 4
      = Inr (v mod 256 ^ 4, length pre + 8)"
    using readFixed_be [of "pre @ ?hi" v 4 post 0] by (simp add: readFixedUint_def split)
  have "v div 256 ^ 4 * TWO_32 + v mod 256 ^ 4 = v"
    by (simp add: TWO_32_def)
  then show ?thesis
    using r1 r2 hi assms by (simp add: readU64AsU53_def safeUnsigned_def)
qed

lemma type_value_read:
  assumes e: "encodeTypeValue m n = Inr h" and m: "m < 8"
  obtains i where "read (h @ post) 0 = Inr (i, 1)" "drop_bit 5 i = m"
    "readArg (h @ post) 1 (i AND 31) = Inr (n, length h)"
proof -
  have n: "n \<le> MAX_SAFE_CBOR_INTEGER"
    using e by (auto simp: encodeTypeValue_def split: if_splits)
  have main: "\<exists>a rest. h = byte (push_bit 5 m OR a) # rest \<and> a < 32 \<and>
      readArg (h @ post) 1 a = Inr (n, length h)"
  proof -
    consider "n < 24" | "24 \<le> n" "n \<le> 0xff" | "0xff < n" "n \<le> 0xffff"
      | "0xffff < n" "n \<le> 0xffffffff" | "0xffffffff < n" by linarith
    then show ?thesis
    proof cases
      case 1
      with e n show ?thesis
        by (intro exI [of _ n] exI [of _ "[]"]) (auto simp: encodeTypeValue_def readArg_def)
    next
      case 2
      with e n show ?thesis
        by (intro exI [of _ 24] exI [of _ "[byte n]"])
          (auto simp: encodeTypeValue_def readArg_def read_def)
    next
      case 3
      then have "be n 2 = [n div 256, n mod 256]"
        by (simp add: numeral_2_eq_2)
      with 3 e n have h: "h = byte (push_bit 5 m OR 25) # map byte (be n 2)"
        by (auto simp: encodeTypeValue_def drop_bit_eq_div low_bits)
      moreover have "readFixedUint ([byte (push_bit 5 m OR 25)] @ map byte (be n 2) @ post) 1 2
          = Inr (n, 3)"
        using readFixedUint_be [of n 2 "[byte (push_bit 5 m OR 25)]" post] 3 by simp
      ultimately show ?thesis
        by (intro exI [of _ 25] exI [of _ "map byte (be n 2)"]) (simp add: readArg_def)
    next
      case 4
      with e n have h: "h = byte (push_bit 5 m OR 26) # map byte (be n 4)"
        by (auto simp: encodeTypeValue_def)
      moreover have "readFixedUint ([byte (push_bit 5 m OR 26)] @ map byte (be n 4) @ post) 1 4
          = Inr (n, 5)"
        using readFixedUint_be [of n 4 "[byte (push_bit 5 m OR 26)]" post] 4 by simp
      ultimately show ?thesis
        by (intro exI [of _ 26] exI [of _ "map byte (be n 4)"]) (simp add: readArg_def)
    next
      case 5
      with e n have h: "h = byte (push_bit 5 m OR 27) # map byte (be n 8)"
        by (auto simp: encodeTypeValue_def)
      moreover have "readU64AsU53 ([byte (push_bit 5 m OR 27)] @ map byte (be n 8) @ post) 1
          = Inr (n, 9)"
        using readU64_be [OF n, of "[byte (push_bit 5 m OR 27)]" post] by simp
      ultimately show ?thesis
        by (intro exI [of _ 27] exI [of _ "map byte (be n 8)"]) (simp add: readArg_def)
    qed
  qed
  then obtain a rest where a: "h = byte (push_bit 5 m OR a) # rest" "a < 32"
    "readArg (h @ post) 1 a = Inr (n, length h)" by blast
  show thesis
  proof (rule that [of "m * 32 + a"])
    show "read (h @ post) 0 = Inr (m * 32 + a, 1)"
      using a(1) initial_byte(1) [OF m a(2)] by (simp add: read_def)
  qed (use a initial_byte [OF m a(2)] in simp_all)
qed


section \<open>The round trip\<close>

lemma f64_roundtrip: "getFloat64 (0xfb # map byte (be (unat w) 8) @ post) 1 = w"
proof -
  have f: "foldl (\<lambda>acc b. acc * 256 + unat b) a (map byte (be v k)) = a * 256 ^ k + v mod 256 ^ k"
    for a v k
  proof (induction k arbitrary: v a)
    case (Suc k)
    have "v mod 256 ^ Suc k = v div 256 mod 256 ^ k * 256 + v mod 256"
      using mod_mult2_eq [of v 256 "256 ^ k"] by (simp add: mult.commute)
    with Suc show ?case by (simp add: algebra_simps)
  qed simp
  have "unat w < 256 ^ 8" using unsigned_less [of w] by simp
  then show ?thesis by (simp add: getFloat64_def f)
qed

lemma decode_f64:
  assumes "f64_is_finite w"
  shows "decode (encodeFloat64 w @ post) 0 = Inr (CF64 w, length (encodeFloat64 w))"
proof -
  have r: "read (encodeFloat64 w @ post) 0 = Inr (0xfb, 1)"
    by (simp add: read_def encodeFloat64_def)
  have "getFloat64 (encodeFloat64 w @ post) 1 = w"
    using f64_roundtrip [of w post] by (simp add: encodeFloat64_def)
  with assms r show ?thesis
    by (simp add: decode.simps cborF64_def encodeFloat64_def drop_bit_eq_div low_bits)
qed

lemma decode_items_concat:
  assumes "list_all2 (\<lambda>v b. \<forall>post. decode (b @ post) 0 = Inr (f v, length b)) vs bss"
  shows "decode_items (pre @ concat bss @ post) (length pre) (length vs)
    = Inr (map f vs, length pre + length (concat bss))"
  using assms
proof (induction vs bss arbitrary: pre rule: list_all2_induct)
  case Nil
  then show ?case by simp
next
  case (Cons v vs b bss)
  have "decode (pre @ b @ concat bss @ post) (length pre) = Inr (f v, length pre + length b)"
    using Cons(1) decode_shift_all(1) [of pre "b @ concat bss @ post" 0] by (simp add: shifted_def)
  with Cons(3) [of "pre @ b"] show ?case by simp
qed

lemma decode_entries_concat:
  assumes "list_all2 (\<lambda>(key, v) b. \<exists>k w. b = k @ w \<and> 0 \<le> key \<and> isSafeInteger key \<and>
      (\<forall>post. decode (k @ post) 0 = Inr (CNumber (JInt key), length k)) \<and>
      (\<forall>post. decode (w @ post) 0 = Inr (f v, length w))) m bss"
    and "distinct (map fst (m0 @ m))"
  shows "decode_entries (pre @ concat bss @ post) (length pre) (length m) m0
    = Inr (m0 @ map (\<lambda>(k, v). (k, f v)) m, length pre + length (concat bss))"
  using assms
proof (induction m bss arbitrary: pre m0 rule: list_all2_induct)
  case Nil
  then show ?case by simp
next
  case (Cons e m b bss)
  obtain key v where e: "e = (key, v)" by (cases e)
  with Cons(1) obtain k w where b: "b = k @ w" and key: "0 \<le> key" "isSafeInteger key"
    and dk: "\<And>post. decode (k @ post) 0 = Inr (CNumber (JInt key), length k)"
    and dw: "\<And>post. decode (w @ post) 0 = Inr (f v, length w)" by auto
  have k: "decode (pre @ k @ w @ concat bss @ post) (length pre)
      = Inr (CNumber (JInt key), length pre + length k)"
    using dk decode_shift_all(1) [of pre "k @ w @ concat bss @ post" 0] by (simp add: shifted_def)
  have w: "decode (pre @ k @ w @ concat bss @ post) (length pre + length k)
      = Inr (f v, length pre + length k + length w)"
    using dw decode_shift_all(1) [of "pre @ k" "w @ concat bss @ post" 0] by (simp add: shifted_def)
  have ck: "checked_key (CNumber (JInt key)) m0 = Inr key"
    using key Cons(4) e by (auto simp: checked_key_def)
  have "distinct (map fst ((m0 @ [(key, f v)]) @ m))" using Cons(4) e by simp
  from Cons(3) [of "m0 @ [(key, f v)]" "pre @ k @ w", OF this] k w ck show ?case
    by (simp add: e b ac_simps)
qed

lemma decode_unsigned:
  "encodeTypeValue 0 n = Inr h \<Longrightarrow> decode (h @ post) 0 = Inr (CNumber (JInt (int n)), length h)"
  by (rule type_value_read [of 0 n h post]) (simp_all add: decode.simps)

lemma decode_negative:
  "encodeTypeValue 1 n = Inr h \<Longrightarrow> n \<le> MAX_SAFE_NEGATIVE_ARGUMENT \<Longrightarrow>
   decode (h @ post) 0 = Inr (CNumber (JInt (-1 - int n)), length h)"
  by (rule type_value_read [of 1 n h post]) (simp_all add: decode.simps readNegativeArg_def)

lemma decode_bytes:
  "encodeTypeValue 2 (length b) = Inr h \<Longrightarrow>
   decode (h @ b @ post) 0 = Inr (CBytes b, length h + length b)"
  by (rule type_value_read [of 2 "length b" h "b @ post"]) (simp_all add: decode.simps readBytes_def)

lemma decode_text:
  "encodeTypeValue 3 (length (text_encode s)) = Inr h \<Longrightarrow>
   decode (h @ text_encode s @ post) 0 = Inr (CText (text_norm s), length h + length (text_encode s))"
  by (rule type_value_read [of 3 "length (text_encode s)" h "text_encode s @ post"])
    (simp_all add: decode.simps readBytes_def text_decode_encode)

lemma decode_array:
  assumes "encodeTypeValue 4 n = Inr h" "n \<le> MAX_ARRAY_LENGTH"
    "decode_items (h @ body) (length h) n = Inr (vs, off)"
  shows "decode (h @ body) 0 = Inr (CArray vs, off)"
  using assms by - (rule type_value_read [of 4 n h body], simp_all add: decode.simps)

lemma decode_map:
  assumes "encodeTypeValue 5 n = Inr h" "decode_entries (h @ body) (length h) n [] = Inr (m, off)"
  shows "decode (h @ body) 0 = Inr (CMap m, off)"
  using assms by - (rule type_value_read [of 5 n h body], simp_all add: decode.simps)

lemma decode_simple:
  "decode (0xf6 # post) 0 = Inr (CNull, 1)"
  "decode (0xf5 # post) 0 = Inr (CBool True, 1)"
  "decode (0xf4 # post) 0 = Inr (CBool False, 1)"
  by (simp_all add: decode.simps read_def drop_bit_eq_div low_bits)

lemma distinct_sort_entries: "distinct (map fst (sort_entries m)) = distinct (map fst m)"
  by (metis distinct_map distinct_sort set_sort sort_entries_def)

lemma decode_encode:
  "encode v = Inr b \<Longrightarrow> cbor_ok v \<Longrightarrow> decode (b @ post) 0 = Inr (norm v, length b)"
proof (induction v arbitrary: b post rule: encode.induct)
  case (3 i)
  then show ?case
    using decode_unsigned [of "nat i" b post] decode_negative [of "nat (-1 - i)" b post]
    by (auto simp: isSafeInteger_def MAX_SAFE_NEGATIVE_ARGUMENT_def split: if_splits)
next
  case (4 w)
  then show ?case by (auto simp: decode_f64)
next
  case (6 s)
  then show ?case by (auto simp: Let_def decode_text)
next
  case (7 b')
  then show ?case by (auto simp: decode_bytes)
next
  case (8 vs)
  then obtain h items where h: "encodeTypeValue 4 (length vs) = Inr h"
    and items: "emap encode vs = Inr items" and b: "b = h @ concat items" by auto
  have "list_all2 (\<lambda>v b. \<forall>post. decode (b @ post) 0 = Inr (norm v, length b)) vs items"
    using emap_eq_InrD [OF items] 8 h
    by (auto simp: list_all2_conv_all_nth list_all_length)
  from decode_array [OF h _ decode_items_concat [OF this, of h post]] "8.prems"(2) show ?case
    by (simp add: b)
next
  case (9 m)
  let ?f = "\<lambda>(key, item).
      if \<not> isSafeInteger key \<or> key < 0 then throw ''expected unsigned safe-integer map key''
      else ebind (encodeTypeValue 0 (nat key)) (\<lambda>k. ebind (encode item) (\<lambda>v. Inr (k @ v)))"
  from "9.prems"(1) obtain h items where h: "encodeTypeValue 5 (length (sort_entries m)) = Inr h"
    and items: "emap ?f (sort_entries m) = Inr items" and b: "b = h @ concat items"
    by (auto simp: Let_def)
  have entry: "\<exists>k w. c = k @ w \<and> 0 \<le> key \<and> isSafeInteger key \<and>
      (\<forall>post. decode (k @ post) 0 = Inr (CNumber (JInt key), length k)) \<and>
      (\<forall>post. decode (w @ post) 0 = Inr (norm v, length w))"
    if e: "?f (key, v) = Inr c" and mem: "(key, v) \<in> set (sort_entries m)" for key v c
  proof -
    from e obtain k w where kw: "encodeTypeValue 0 (nat key) = Inr k" "encode v = Inr w" "c = k @ w"
      and key: "isSafeInteger key" "0 \<le> key" by (auto split: if_splits)
    have "cbor_ok v" using "9.prems"(2) mem by (auto simp: list_all_iff)
    then have "decode (w @ post) 0 = Inr (norm v, length w)" for post
      using "9.IH" [OF refl h mem refl _ kw(1) kw(2)] key by auto
    moreover have "decode (k @ post) 0 = Inr (CNumber (JInt key), length k)" for post
      using decode_unsigned [OF kw(1), of post] key by simp
    ultimately show ?thesis using kw(3) key by blast
  qed
  let ?P = "\<lambda>key v c. \<exists>k w. c = k @ w \<and> 0 \<le> key \<and> isSafeInteger key \<and>
      (\<forall>post. decode (k @ post) 0 = Inr (CNumber (JInt key), length k)) \<and>
      (\<forall>post. decode (w @ post) 0 = Inr (norm v, length w))"
  have "?P (fst x) (snd x) c" if "x \<in> set (sort_entries m)" "?f x = Inr c" for x c
    using that entry [of "fst x" "snd x" c] by (simp only: prod.collapse)
  then have "list_all2 (\<lambda>(key, v). ?P key v) (sort_entries m) items"
    by (intro list_all2_mono_mem [OF emap_eq_InrD [OF items]]) (simp only: case_prod_beta)
  from decode_entries_concat [OF this, of "[]" h post] "9.prems"(2)
  have "decode_entries (h @ concat items @ post) (length h) (length (sort_entries m)) []
    = Inr (map (\<lambda>(k, v). (k, norm v)) (sort_entries m), length h + length (concat items))"
    by (simp add: distinct_sort_entries)
  from decode_map [OF h this] show ?case by (simp add: b)
next
  case (10 w)
  then show ?case by (auto simp: decode_f64)
qed (auto simp: decode_simple)

interpretation cbor_codec: codec decode decode_sequence_from decode_prefix_from
  "\<lambda>v off. \<lparr>item_value = v, endOffset = off\<rparr>" item_value endOffset encode norm cbor_ok
  by unfold_locales (rule decode_encode)

section \<open>What the decoder can return\<close>

text \<open>
  \<open>wire_value\<close>: integers in the safe range, distinct unsigned safe map keys, finite floats,
  legal array lengths. Every decoded value is one, whatever the bytes.
\<close>

function wire_value :: "cbor_value \<Rightarrow> bool" where
  "wire_value CNull = True"
| "wire_value (CBool b) = True"
| "wire_value (CNumber (JInt i)) = isSafeInteger i"
| "wire_value (CNumber (JFrac w)) = False"
| "wire_value (CNumber JNonFinite) = False"
| "wire_value (CF64 w) = f64_is_finite w"
| "wire_value (CText s) = True"
| "wire_value (CBytes b) = True"
| "wire_value (CArray vs) = (length vs \<le> MAX_ARRAY_LENGTH \<and> list_all wire_value vs)"
| "wire_value (CMap m) =
     (distinct (map fst m) \<and>
      list_all (\<lambda>(k, v). 0 \<le> k \<and> isSafeInteger k \<and> wire_value v) m)"
  by pat_completeness auto
termination
  by (relation "measure size")
    (auto simp: less_Suc_eq_le dest: size_list_estimation' [where f = size, OF _ order_refl]
      intro: size_list_estimation' [where f = "size_prod (\<lambda>x. 0) size"])

lemma readFixedUint_from_bound:
  "readFixedUint_from bs off k a = Inr (n, off') \<Longrightarrow> n < (a + 1) * 256 ^ k \<and> off' = off + k"
proof (induction k arbitrary: off a)
  case (Suc k)
  then obtain b where b: "b < 256" "readFixedUint_from bs (Suc off) k (a * 256 + b) = Inr (n, off')"
    by (auto dest: read_progress)
  have "n < (a * 256 + b + 1) * 256 ^ k" "off' = Suc off + k" using Suc.IH [OF b(2)] by simp_all
  moreover have "(a * 256 + b + 1) * 256 ^ k \<le> (a + 1) * 256 * 256 ^ k"
    using b(1) by (intro mult_right_mono) simp_all
  moreover have "(a + 1) * 256 * 256 ^ k = (a + 1) * 256 ^ Suc k"
    by (simp only: power_Suc mult.assoc)
  ultimately show ?case by linarith
qed simp

lemma readFixedUint_bound: "readFixedUint bs off k = Inr (n, off') \<Longrightarrow> n < 256 ^ k \<and> off' = off + k"
  using readFixedUint_from_bound [of bs off k 0 n off'] by (simp add: readFixedUint_def)

lemma readArg_cases:
  assumes "readArg bs off a = Inr (n, off')"
  obtains "n < 24" "off' = off" | "n \<le> 0xff" "off' = off + 1" | "n \<le> 0xffff" "off' = off + 2"
    | "n \<le> 0xffffffff" "off' = off + 4" | "n \<le> MAX_SAFE_CBOR_INTEGER" "off' = off + 8"
  using assms
  by (auto simp: readArg_def readU64AsU53_def safeUnsigned_def split: if_splits
      dest!: read_progress readFixedUint_bound)

lemma readArg_safe: "readArg bs off a = Inr (n, off') \<Longrightarrow> n \<le> MAX_SAFE_CBOR_INTEGER"
  by (erule readArg_cases) (auto simp: MAX_SAFE_CBOR_INTEGER_def)

lemma readNegativeArg_safe:
  "readNegativeArg bs off a = Inr (n, off') \<Longrightarrow> isSafeInteger (-1 - int n)"
  by (auto simp: readNegativeArg_def isSafeInteger_def MAX_SAFE_NEGATIVE_ARGUMENT_def
      MAX_SAFE_CBOR_INTEGER_def split: if_splits)

lemma checked_key_Inr:
  "checked_key key m = Inr k \<longleftrightarrow>
   key = CNumber (JInt k) \<and> isSafeInteger k \<and> 0 \<le> k \<and> k \<notin> fst ` set m"
  by (auto simp: checked_key_def split: cbor_value.splits js_number.splits)

lemma decode_items_length: "decode_items bs off n = Inr (vs, off') \<Longrightarrow> length vs = n"
  by (induction n arbitrary: off vs) auto

lemma decode_wire_value_all:
  "decode bs off = Inr (v, off') \<Longrightarrow> wire_value v"
  "decode_items bs off n = Inr (vs, off') \<Longrightarrow> list_all wire_value vs"
  "decode_entries bs off n m = Inr (m', off') \<Longrightarrow> wire_value (CMap m) \<Longrightarrow> wire_value (CMap m')"
proof (induction bs off and bs off n and bs off n m arbitrary: v off' and vs off' and m' off'
    rule: decode_decode_items_decode_entries.induct)
  case (1 bs off)
  obtain initial o1 where r: "read bs off = Inr (initial, o1)"
    using "1.prems" by (auto simp: decode.simps [of bs off])
  have items: "list_all wire_value vs"
    if "drop_bit 5 initial = 4" "readArg bs o1 (initial AND 31) = Inr (len, o2)"
      "len \<le> MAX_ARRAY_LENGTH" "decode_items bs o2 len = Inr (vs, o3)" for len o2 vs o3
    using "1.IH"(1) [OF r refl refl refl] that by simp
  have entries: "wire_value (CMap m)"
    if "drop_bit 5 initial = 5" "readArg bs o1 (initial AND 31) = Inr (len, o2)"
      "decode_entries bs o2 len [] = Inr (m, o3)" for len o2 m o3
    using "1.IH"(2) [OF r refl refl refl] that by simp
  show ?case
    using "1.prems" r
    by (simp add: decode.simps [of bs off] Let_def split: if_splits)
      (auto simp: cborF64_def not_less isSafeInteger_def [of "int _"]
        simp del: wire_value.simps(10) split: if_splits
        dest: readArg_safe readNegativeArg_safe items entries decode_items_length)
next
  case (3 bs off n)
  then show ?case by auto
next
  case (5 bs off n m)
  from "5.prems"(1) obtain key o1 k v1 o2 where
    d: "decode bs off = Inr (key, o1)" "checked_key key m = Inr k"
      "decode bs o1 = Inr (v1, o2)" "decode_entries bs o2 n (m @ [(k, v1)]) = Inr (m', off')"
    by auto
  have "wire_value v1" by (rule "5.IH"(2) [OF d(1) refl d(2,3)])
  then have "wire_value (CMap (m @ [(k, v1)]))"
    using "5.prems"(2) d(2) by (auto simp: checked_key_Inr)
  with "5.IH"(3) [OF d(1) refl d(2,3) refl d(4)] show ?case by simp
qed simp_all

section \<open>Deterministic encoding\<close>

lemma encodeTypeValue_length:
  "encodeTypeValue m n = Inr h \<Longrightarrow> length h =
    (if n < 24 then 1 else if n \<le> 0xff then 2 else if n \<le> 0xffff then 3
     else if n \<le> 0xffffffff then 5 else 9)"
  by (auto simp: encodeTypeValue_def Let_def split: if_splits)

lemma sort_entries_perm:
  assumes "distinct (map fst m)" "mset m' = mset m"
  shows "sort_entries m' = sort_entries m"
proof -
  have "inj_on fst (set m')"
    using assms by (metis distinct_map mset_eq_setD)
  then show ?thesis
    using assms(2) unfolding sort_entries_def by (intro sort_key_inj_key_eq) simp_all
qed

section \<open>Properties\<close>

text \<open>Evaluation of the codec on closed values, for the witnesses here and in the wire layer.\<close>

lemmas cbor_eval = encodeCbor_def encodeTypeValue_def sort_entries_def text_encode_def js_def
  utf8_char_def byte_def isSafeInteger_def MAX_SAFE_CBOR_INTEGER_def lead_surrogate_def
  trail_surrogate_def Let_def numeral_2_eq_2 [symmetric]

text \<open>(C2) The CBOR round trip: whenever \<open>encodeCbor\<close> returns, \<open>decodeCbor\<close> of its bytes
  returns the value in normal form. The value is one the constructors build: its floats are finite, the
  keys of each of its maps differ, and its arrays are not longer than JavaScript's.\<close>

theorem cbor_roundtrip:
  assumes "encodeCbor v = Inr b" "cbor_ok v"
  shows "decodeCbor b = Inr (norm v)"
  using decode_encode [OF assms(1) [unfolded encodeCbor_def] assms(2), of "[]"]
  by (simp add: decodeCbor_def)

theorem cbor_roundtrip_witness:
  "decodeCbor [0xa2, 0x01, 0x18, 0xc8, 0x02, 0x61, 0x68]
   = Inr (CMap [(1, CNumber (JInt 200)), (2, CText (js ''h''))])"
proof -
  let ?v = "CMap [(2, CText (js ''h'')), (1, CNumber (JInt 200))]"
  have e: "encodeCbor ?v = Inr [0xa2, 0x01, 0x18, 0xc8, 0x02, 0x61, 0x68]"
    by (simp add: cbor_eval)
  have "cbor_ok ?v" by simp
  from cbor_roundtrip [OF e this] show ?thesis
    by (simp add: sort_entries_def)
qed

text \<open>(C35) Truncation: every proper prefix of an encoding is reported as
  \<open>unexpected end of CBOR\<close>, never as another error and never as a value. The encoding is of a value the
  constructors build: its floats are finite, the keys of each of its maps differ, and its arrays are not
  longer than JavaScript's.\<close>

theorem cbor_truncation:
  assumes "encodeCbor v = Inr b" "cbor_ok v" "k < length b"
  shows "decodeCbor (take k b) = throw unexpected_end"
proof -
  have "decode b 0 = Inr (norm v, length b)"
    using decode_encode [of v b "[]"] assms by (simp add: encodeCbor_def)
  from cbor_reader.rd_truncated [OF this assms(3)] show ?thesis
    by (simp add: decodeCbor_def)
qed

theorem cbor_truncation_witness:
  "decodeCbor [0x62, 0x68] = throw unexpected_end"
proof -
  have e: "encodeCbor (CText (js ''hi'')) = Inr [0x62, 0x68, 0x69]"
    by (simp add: cbor_eval)
  from cbor_truncation [OF e, of 2] show ?thesis by simp
qed

text \<open>(C32) Decoded values stay inside the profile: integers and map keys in the safe range,
  distinct keys, finite floats.\<close>

theorem cbor_decoded_in_profile:
  assumes "decodeCbor bs = Inr v"
  shows "wire_value v"
  using assms decode_wire_value_all(1) by (auto simp: decodeCbor_def split: if_splits)

theorem cbor_decoded_in_profile_witness:
  "wire_value (CNumber (JInt (-25)))"
  by (rule cbor_decoded_in_profile [of "[0x38, 0x18]"])
    (simp add: decodeCbor_def decode.simps read_def readNegativeArg_def readArg_def
      MAX_SAFE_NEGATIVE_ARGUMENT_def MAX_SAFE_CBOR_INTEGER_def)

text \<open>Deterministic encoding: the insertion order of a map's entries does not reach the
  bytes.\<close>

theorem cbor_map_order_irrelevant:
  assumes "distinct (map fst m)" "mset m' = mset m"
  shows "encodeCbor (CMap m') = encodeCbor (CMap m)"
  using sort_entries_perm [OF assms] by (simp add: encodeCbor_def)

theorem cbor_map_order_irrelevant_witness:
  "encodeCbor (CMap [(2, CNull), (1, CBool True)]) = encodeCbor (CMap [(1, CBool True), (2, CNull)])"
  by (rule cbor_map_order_irrelevant) simp_all

text \<open>Shortest form: no argument encoding the decoder accepts for a number is shorter
  than the one the encoder writes.\<close>

theorem cbor_shortest_argument:
  assumes "encodeTypeValue major n = Inr h" "readArg bs off additional = Inr (n, off')"
  shows "length h \<le> 1 + (off' - off)"
  using assms(2) encodeTypeValue_length [OF assms(1)]
  by (cases rule: readArg_cases) auto

theorem cbor_shortest_argument_witness:
  "length [0x17 :: u8] \<le> 1 + ((2::nat) - 1)"
proof -
  have "encodeTypeValue 0 23 = Inr [0x17]" "readArg [0x18, 0x17] 1 24 = Inr (23, 2)"
    by (simp_all add: cbor_eval readArg_def read_def)
  from cbor_shortest_argument [OF this] show ?thesis .
qed

text \<open>A text value whose string starts with U+FEFF loses that unit in the round trip: the
  encoder writes it and \<open>TextDecoder\<close>, used without \<open>ignoreBOM\<close>, drops it.\<close>

theorem cbor_text_drops_bom:
  assumes "well_formed_utf16 s" "encodeCbor (CText (0xFEFF # s)) = Inr b"
  shows "decodeCbor b = Inr (CText s)"
proof -
  have "well_formed_utf16 (0xFEFF # s)"
    using assms(1) by (cases s) (simp_all add: lead_surrogate_def trail_surrogate_def)
  then have "text_norm (0xFEFF # s) = s"
    by (simp add: text_norm_def of_scalars_to_scalars strip_bom_def)
  moreover have "decode b 0 = Inr (norm (CText (0xFEFF # s)), length b)"
    using decode_encode [of "CText (0xFEFF # s)" b "[]"] assms(2) by (simp add: encodeCbor_def)
  ultimately show ?thesis by (simp add: decodeCbor_def)
qed

theorem cbor_text_drops_bom_witness:
  "decodeCbor [0x64, 0xEF, 0xBB, 0xBF, 0x61] = Inr (CText (js ''a''))"
  by (rule cbor_text_drops_bom) (simp_all add: cbor_eval)

end
