(* ===== verification/WireGen.thy ===== *)
theory WireGen
  imports CborRoundtrip
begin

text \<open>
  \<open>web/src/protocol/generated/wire.ts\<close>: the schema codec of the wire envelope, from the
  message unions to CBOR values and back. A \<open>Map<number, CborValue>\<close> is the list of its
  entries in insertion order and \<open>fields.get(k)\<close> is \<open>map_of fields k\<close>. Number fields are
  integral (\<open>int\<close>), and a field the TypeScript type makes mandatory is not optional here, so
  the codec's own \<open>required\<close> checks cannot fail; the ones of \<open>wire.ts\<close> are in theory \<open>Wire\<close>.
\<close>

section \<open>Message types\<close>

datatype SessionAuthErrorCode =
  UnsupportedMechanism | InvalidCredentials | AuthMalformedPayload | AlreadyAuthenticated

datatype RpcErrorKind = System | Method

datatype RpcErrorCode =
    BadMessage | Unauthorized | MissingPayload | NotImplemented | PermissionDenied | NotFound
  | OperationFailed | MalformedPayload

datatype GeneratedReqResMessage =
    requestUnary int "bytes option"
  | requestStreamStart int "bytes option"
  | requestStreamChunk bytes
  | responseUnaryOk "bytes option"
  | responseUnaryError bytes RpcErrorKind
  | responseStreamStart "bytes option"
  | responseStreamChunk bytes
  | responseStreamErrorEnd bytes RpcErrorKind
  | sessionAuthenticate jstring bytes
  | sessionAuthenticated
  | sessionAuthError SessionAuthErrorCode jstring

record PairedSecretCredential =
  credentialId :: jstring
  credentialSecret :: jstring

record RpcErrorPayload =
  payload_code :: RpcErrorCode
  payload_message :: jstring

datatype GeneratedDatagramMessage = ping int | pong int

section \<open>Checks on primitive values\<close>

definition expectMap :: "cbor_value \<Rightarrow> (int \<times> cbor_value) list result" where
  "expectMap v = (case v of CMap m \<Rightarrow> Inr m | _ \<Rightarrow> throw ''expected CBOR map'')"

definition integer :: "cbor_value \<Rightarrow> int result" where
  "integer v =
     (case v of
        CNumber (JInt i) \<Rightarrow> if isSafeInteger i then Inr i else throw ''expected CBOR integer''
      | _ \<Rightarrow> throw ''expected CBOR integer'')"

definition expectUnion :: "cbor_value \<Rightarrow> (int \<times> (int \<times> cbor_value) list) result" where
  "expectUnion v =
     (case v of
        CArray [a, b] \<Rightarrow> ebind (integer a) (\<lambda>i. ebind (expectMap b) (\<lambda>m. Inr (i, m)))
      | _ \<Rightarrow> throw ''expected CBOR union tuple'')"

definition textValue :: "cbor_value \<Rightarrow> jstring result" where
  "textValue v = (case v of CText s \<Rightarrow> Inr s | _ \<Rightarrow> throw ''expected CBOR text'')"

definition bytesValue :: "cbor_value \<Rightarrow> bytes result" where
  "bytesValue v = (case v of CBytes b \<Rightarrow> Inr b | _ \<Rightarrow> throw ''expected CBOR bytes'')"

definition optionalField :: "cbor_value option \<Rightarrow> (cbor_value \<Rightarrow> 'a result) \<Rightarrow> 'a option result" where
  "optionalField v dec =
     (case v of None \<Rightarrow> Inr None | Some x \<Rightarrow> ebind (dec x) (\<lambda>a. Inr (Some a)))"

definition fieldOrDefault :: "cbor_value option \<Rightarrow> (cbor_value \<Rightarrow> 'a result) \<Rightarrow> 'a \<Rightarrow> 'a result" where
  "fieldOrDefault v dec fallback = (case v of None \<Rightarrow> Inr fallback | Some x \<Rightarrow> dec x)"

definition u53 :: "int \<Rightarrow> cbor_value result" where
  "u53 i = (if \<not> isSafeInteger i \<or> i < 0 then throw ''expected u53'' else Inr (CNumber (JInt i)))"

text \<open>The rest of the helper set the generator emits into every schema file.\<close>

definition array :: "cbor_value \<Rightarrow> cbor_value list result" where
  "array v = (case v of CArray vs \<Rightarrow> Inr vs | _ \<Rightarrow> throw ''expected CBOR array'')"

definition f64Value :: "cbor_value \<Rightarrow> 64 word result" where
  "f64Value v = (case v of CF64 w \<Rightarrow> Inr w | _ \<Rightarrow> throw ''expected CBOR f64'')"

definition boolValue :: "cbor_value \<Rightarrow> bool result" where
  "boolValue v = (case v of CBool b \<Rightarrow> Inr b | _ \<Rightarrow> throw ''expected CBOR bool'')"

definition i53 :: "int \<Rightarrow> cbor_value result" where
  "i53 i = (if \<not> isSafeInteger i then throw ''expected i53'' else Inr (CNumber (JInt i)))"

section \<open>Enumerations\<close>

fun SessionAuthErrorCode_id :: "SessionAuthErrorCode \<Rightarrow> int" where
  "SessionAuthErrorCode_id UnsupportedMechanism = 1"
| "SessionAuthErrorCode_id InvalidCredentials = 2"
| "SessionAuthErrorCode_id AuthMalformedPayload = 3"
| "SessionAuthErrorCode_id AlreadyAuthenticated = 4"

fun RpcErrorKind_id :: "RpcErrorKind \<Rightarrow> int" where
  "RpcErrorKind_id System = 1"
| "RpcErrorKind_id Method = 2"

fun RpcErrorCode_id :: "RpcErrorCode \<Rightarrow> int" where
  "RpcErrorCode_id BadMessage = 1"
| "RpcErrorCode_id Unauthorized = 2"
| "RpcErrorCode_id MissingPayload = 3"
| "RpcErrorCode_id NotImplemented = 4"
| "RpcErrorCode_id PermissionDenied = 6"
| "RpcErrorCode_id NotFound = 7"
| "RpcErrorCode_id OperationFailed = 8"
| "RpcErrorCode_id MalformedPayload = 9"

definition encodeSessionAuthErrorCodeValue :: "SessionAuthErrorCode \<Rightarrow> cbor_value" where
  "encodeSessionAuthErrorCodeValue c = CNumber (JInt (SessionAuthErrorCode_id c))"

definition decodeSessionAuthErrorCodeValue :: "cbor_value \<Rightarrow> SessionAuthErrorCode result" where
  "decodeSessionAuthErrorCodeValue v =
     ebind (integer v) (\<lambda>i.
     if i = 1 then Inr UnsupportedMechanism
     else if i = 2 then Inr InvalidCredentials
     else if i = 3 then Inr AuthMalformedPayload
     else if i = 4 then Inr AlreadyAuthenticated
     else throw (''unknown SessionAuthErrorCode variant '' @ show_int i))"

definition encodeRpcErrorKindValue :: "RpcErrorKind \<Rightarrow> cbor_value" where
  "encodeRpcErrorKindValue k = CNumber (JInt (RpcErrorKind_id k))"

definition decodeRpcErrorKindValue :: "cbor_value \<Rightarrow> RpcErrorKind result" where
  "decodeRpcErrorKindValue v =
     ebind (integer v) (\<lambda>i.
     if i = 1 then Inr System
     else if i = 2 then Inr Method
     else throw (''unknown RpcErrorKind variant '' @ show_int i))"

definition encodeRpcErrorCodeValue :: "RpcErrorCode \<Rightarrow> cbor_value" where
  "encodeRpcErrorCodeValue c = CNumber (JInt (RpcErrorCode_id c))"

definition decodeRpcErrorCodeValue :: "cbor_value \<Rightarrow> RpcErrorCode result" where
  "decodeRpcErrorCodeValue v =
     ebind (integer v) (\<lambda>i.
     if i = 1 then Inr BadMessage
     else if i = 2 then Inr Unauthorized
     else if i = 3 then Inr MissingPayload
     else if i = 4 then Inr NotImplemented
     else if i = 6 then Inr PermissionDenied
     else if i = 7 then Inr NotFound
     else if i = 8 then Inr OperationFailed
     else if i = 9 then Inr MalformedPayload
     else throw (''unknown RpcErrorCode variant '' @ show_int i))"

section \<open>The request/response envelope\<close>

text \<open>\<open>if (payload !== undefined) fields.set(2, bytes(payload))\<close>\<close>

definition set_payload :: "bytes option \<Rightarrow> (int \<times> cbor_value) list" where
  "set_payload p = (case p of None \<Rightarrow> [] | Some b \<Rightarrow> [(2, CBytes b)])"

definition union_tuple :: "int \<Rightarrow> (int \<times> cbor_value) list \<Rightarrow> cbor_value" where
  "union_tuple i fs = CArray [CNumber (JInt i), CMap fs]"

fun encodeReqResMessageValue :: "GeneratedReqResMessage \<Rightarrow> cbor_value result" where
  "encodeReqResMessageValue (requestUnary procId payload) =
     ebind (u53 procId) (\<lambda>p. Inr (union_tuple 0 ((1, p) # set_payload payload)))"
| "encodeReqResMessageValue (requestStreamStart procId payload) =
     ebind (u53 procId) (\<lambda>p. Inr (union_tuple 1 ((1, p) # set_payload payload)))"
| "encodeReqResMessageValue (requestStreamChunk payload) =
     Inr (union_tuple 2 [(2, CBytes payload)])"
| "encodeReqResMessageValue (responseUnaryOk payload) = Inr (union_tuple 3 (set_payload payload))"
| "encodeReqResMessageValue (responseUnaryError error errorKind) =
     Inr (union_tuple 4 [(3, CBytes error), (4, encodeRpcErrorKindValue errorKind)])"
| "encodeReqResMessageValue (responseStreamStart payload) =
     Inr (union_tuple 5 (set_payload payload))"
| "encodeReqResMessageValue (responseStreamChunk payload) =
     Inr (union_tuple 6 [(2, CBytes payload)])"
| "encodeReqResMessageValue (responseStreamErrorEnd error errorKind) =
     Inr (union_tuple 7 [(3, CBytes error), (4, encodeRpcErrorKindValue errorKind)])"
| "encodeReqResMessageValue (sessionAuthenticate mechanism payload) =
     Inr (union_tuple 8 [(1, CText mechanism), (2, CBytes payload)])"
| "encodeReqResMessageValue sessionAuthenticated = Inr (union_tuple 9 [])"
| "encodeReqResMessageValue (sessionAuthError code message) =
     Inr (union_tuple 10 [(1, encodeSessionAuthErrorCodeValue code), (2, CText message)])"

definition decodeReqResMessageValue :: "cbor_value \<Rightarrow> GeneratedReqResMessage result" where
  "decodeReqResMessageValue v =
     ebind (expectUnion v) (\<lambda>(variantId, fs).
     let procId = fieldOrDefault (map_of fs 1) integer 0;
         optPayload = optionalField (map_of fs 2) bytesValue;
         payload = fieldOrDefault (map_of fs 2) bytesValue [];
         err = fieldOrDefault (map_of fs 3) bytesValue [];
         errorKind = fieldOrDefault (map_of fs 4) decodeRpcErrorKindValue System
     in
     if variantId = 0 then
       ebind procId (\<lambda>i. ebind optPayload (\<lambda>p. Inr (requestUnary i p)))
     else if variantId = 1 then
       ebind procId (\<lambda>i. ebind optPayload (\<lambda>p. Inr (requestStreamStart i p)))
     else if variantId = 2 then ebind payload (\<lambda>p. Inr (requestStreamChunk p))
     else if variantId = 3 then ebind optPayload (\<lambda>p. Inr (responseUnaryOk p))
     else if variantId = 4 then
       ebind err (\<lambda>e. ebind errorKind (\<lambda>k. Inr (responseUnaryError e k)))
     else if variantId = 5 then ebind optPayload (\<lambda>p. Inr (responseStreamStart p))
     else if variantId = 6 then ebind payload (\<lambda>p. Inr (responseStreamChunk p))
     else if variantId = 7 then
       ebind err (\<lambda>e. ebind errorKind (\<lambda>k. Inr (responseStreamErrorEnd e k)))
     else if variantId = 8 then
       ebind (fieldOrDefault (map_of fs 1) textValue []) (\<lambda>m.
       ebind payload (\<lambda>p. Inr (sessionAuthenticate m p)))
     else if variantId = 9 then Inr sessionAuthenticated
     else if variantId = 10 then
       ebind (fieldOrDefault (map_of fs 1) decodeSessionAuthErrorCodeValue UnsupportedMechanism)
         (\<lambda>c. ebind (fieldOrDefault (map_of fs 2) textValue []) (\<lambda>m.
         Inr (sessionAuthError c m)))
     else throw (''unknown ReqResMessage variant '' @ show_int variantId))"

section \<open>Credentials, error payloads, datagrams\<close>

definition encodePairedSecretCredentialValue :: "PairedSecretCredential \<Rightarrow> cbor_value" where
  "encodePairedSecretCredentialValue c =
     CMap [(1, CText (credentialId c)), (2, CText (credentialSecret c))]"

definition decodePairedSecretCredentialValue :: "cbor_value \<Rightarrow> PairedSecretCredential result" where
  "decodePairedSecretCredentialValue v =
     ebind (expectMap v) (\<lambda>fs.
     ebind (fieldOrDefault (map_of fs 1) textValue []) (\<lambda>i.
     ebind (fieldOrDefault (map_of fs 2) textValue []) (\<lambda>s.
     Inr \<lparr>credentialId = i, credentialSecret = s\<rparr>)))"

definition encodeRpcErrorPayloadValue :: "RpcErrorPayload \<Rightarrow> cbor_value" where
  "encodeRpcErrorPayloadValue p =
     CMap [(1, encodeRpcErrorCodeValue (payload_code p)), (2, CText (payload_message p))]"

definition decodeRpcErrorPayloadValue :: "cbor_value \<Rightarrow> RpcErrorPayload result" where
  "decodeRpcErrorPayloadValue v =
     ebind (expectMap v) (\<lambda>fs.
     ebind (fieldOrDefault (map_of fs 1) decodeRpcErrorCodeValue BadMessage) (\<lambda>c.
     ebind (fieldOrDefault (map_of fs 2) textValue []) (\<lambda>m.
     Inr \<lparr>payload_code = c, payload_message = m\<rparr>)))"

fun encodeDatagramMessageValue :: "GeneratedDatagramMessage \<Rightarrow> cbor_value result" where
  "encodeDatagramMessageValue (ping pingId) =
     ebind (u53 pingId) (\<lambda>i. Inr (union_tuple 1 [(1, i)]))"
| "encodeDatagramMessageValue (pong pingId) =
     ebind (u53 pingId) (\<lambda>i. Inr (union_tuple 2 [(1, i)]))"

definition decodeDatagramMessageValue :: "cbor_value \<Rightarrow> GeneratedDatagramMessage result" where
  "decodeDatagramMessageValue v =
     ebind (expectUnion v) (\<lambda>(variantId, fs).
     let pingId = fieldOrDefault (map_of fs 1) integer 0 in
     if variantId = 1 then ebind pingId (\<lambda>i. Inr (ping i))
     else if variantId = 2 then ebind pingId (\<lambda>i. Inr (pong i))
     else throw (''unknown DatagramMessage variant '' @ show_int variantId))"

section \<open>The schema codec is the identity\<close>

lemmas wire_checks = expectUnion_def expectMap_def textValue_def bytesValue_def optionalField_def
  fieldOrDefault_def union_tuple_def set_payload_def

lemma integer_JInt [simp]:
  "integer (CNumber (JInt i)) = (if isSafeInteger i then Inr i else throw ''expected CBOR integer'')"
  by (simp add: integer_def)

lemma safe_small [simp]: "\<bar>i\<bar> \<le> 10 \<Longrightarrow> isSafeInteger i"
  by (simp add: isSafeInteger_def MAX_SAFE_CBOR_INTEGER_def abs_le_iff)

lemma u53_bind [simp]:
  "ebind (u53 i) f = Inr v \<longleftrightarrow> isSafeInteger i \<and> 0 \<le> i \<and> f (CNumber (JInt i)) = Inr v"
  by (auto simp: u53_def simp del: ebind_eq_Inr)

lemma u53_Inr [simp]: "isSafeInteger i \<Longrightarrow> 0 \<le> i \<Longrightarrow> u53 i = Inr (CNumber (JInt i))"
  by (simp add: u53_def)

lemma integer_id [simp]:
  "integer (encodeSessionAuthErrorCodeValue c) = Inr (SessionAuthErrorCode_id c)"
  "integer (encodeRpcErrorKindValue k) = Inr (RpcErrorKind_id k)"
  "integer (encodeRpcErrorCodeValue e) = Inr (RpcErrorCode_id e)"
  by (cases c, simp_all add: encodeSessionAuthErrorCodeValue_def)
    (cases k, simp_all add: encodeRpcErrorKindValue_def,
     cases e, simp_all add: encodeRpcErrorCodeValue_def)

lemma decode_codes [simp]:
  "decodeSessionAuthErrorCodeValue (encodeSessionAuthErrorCodeValue c) = Inr c"
  "decodeRpcErrorKindValue (encodeRpcErrorKindValue k) = Inr k"
  "decodeRpcErrorCodeValue (encodeRpcErrorCodeValue e) = Inr e"
  by (cases c, simp_all add: decodeSessionAuthErrorCodeValue_def)
    (cases k, simp_all add: decodeRpcErrorKindValue_def,
     cases e, simp_all add: decodeRpcErrorCodeValue_def)

lemma decode_ReqResMessageValue:
  "encodeReqResMessageValue m = Inr v \<Longrightarrow> decodeReqResMessageValue v = Inr m"
  by (cases m)
    (auto simp: decodeReqResMessageValue_def wire_checks Let_def simp del: ebind_eq_Inr
      split: option.splits)

lemma decode_PairedSecretCredentialValue:
  "decodePairedSecretCredentialValue (encodePairedSecretCredentialValue c) = Inr c"
  by (simp add: decodePairedSecretCredentialValue_def encodePairedSecretCredentialValue_def
      wire_checks)

lemma decode_RpcErrorPayloadValue:
  "decodeRpcErrorPayloadValue (encodeRpcErrorPayloadValue p) = Inr p"
  by (simp add: decodeRpcErrorPayloadValue_def encodeRpcErrorPayloadValue_def wire_checks)

lemma decode_DatagramMessageValue:
  "encodeDatagramMessageValue m = Inr v \<Longrightarrow> decodeDatagramMessageValue v = Inr m"
  by (cases m)
    (auto simp: decodeDatagramMessageValue_def wire_checks Let_def simp del: ebind_eq_Inr)

end
