(* ===== verification/Wire.thy ===== *)
theory Wire
  imports WireGen
begin

text \<open>
  \<open>web/src/protocol/wire.ts\<close>: request/response messages as sequences of CBOR items (a kind
  followed by a map), datagrams, and the paired secret credential. A message is a record of
  optional fields; which of them a kind needs is checked when it is encoded.
\<close>

section \<open>Messages\<close>

definition PAIRED_SECRET_AUTH_MECHANISM :: jstring where
  "PAIRED_SECRET_AUTH_MECHANISM = js ''wgo.paired-secret.v1''"

datatype ReqResMessageKind =
    RequestUnary | RequestStreamStart | RequestStreamChunk | ResponseUnaryOk
  | ResponseUnaryError | ResponseStreamStart | ResponseStreamChunk | ResponseStreamErrorEnd
  | SessionAuthenticate | SessionAuthenticated | SessionAuthError

datatype DatagramMessageKind = Ping | Pong

record ReqResMessage =
  rr_kind :: ReqResMessageKind
  rr_procId :: "int option"
  rr_payload :: "bytes option"
  rr_error :: "bytes option"
  rr_errorKind :: "RpcErrorKind option"
  rr_mechanism :: "jstring option"
  rr_authErrorCode :: "SessionAuthErrorCode option"
  rr_message :: "jstring option"

record DatagramMessage =
  dg_kind :: DatagramMessageKind
  dg_pingId :: int

text \<open>\<open>message k\<close> is the object literal \<open>{ kind: k }\<close>, every other field \<open>undefined\<close>.\<close>

definition message :: "ReqResMessageKind \<Rightarrow> ReqResMessage" where
  "message k = \<lparr>rr_kind = k, rr_procId = None, rr_payload = None, rr_error = None,
     rr_errorKind = None, rr_mechanism = None, rr_authErrorCode = None, rr_message = None\<rparr>"

definition toGeneratedReqResMessage :: "ReqResMessage \<Rightarrow> GeneratedReqResMessage result" where
  "toGeneratedReqResMessage m =
     (case rr_kind m of
        RequestUnary \<Rightarrow>
          ebind (required (rr_procId m) ''missing proc id'') (\<lambda>i.
          Inr (requestUnary i (rr_payload m)))
      | RequestStreamStart \<Rightarrow>
          ebind (required (rr_procId m) ''missing proc id'') (\<lambda>i.
          Inr (requestStreamStart i (rr_payload m)))
      | RequestStreamChunk \<Rightarrow>
          ebind (required (rr_payload m) ''missing payload'') (\<lambda>p. Inr (requestStreamChunk p))
      | ResponseUnaryOk \<Rightarrow> Inr (responseUnaryOk (rr_payload m))
      | ResponseUnaryError \<Rightarrow>
          ebind (required (rr_error m) ''missing error'') (\<lambda>e.
          ebind (required (rr_errorKind m) ''missing error kind'') (\<lambda>k.
          Inr (responseUnaryError e k)))
      | ResponseStreamStart \<Rightarrow> Inr (responseStreamStart (rr_payload m))
      | ResponseStreamChunk \<Rightarrow>
          ebind (required (rr_payload m) ''missing payload'') (\<lambda>p. Inr (responseStreamChunk p))
      | ResponseStreamErrorEnd \<Rightarrow>
          ebind (required (rr_error m) ''missing error'') (\<lambda>e.
          ebind (required (rr_errorKind m) ''missing error kind'') (\<lambda>k.
          Inr (responseStreamErrorEnd e k)))
      | SessionAuthenticate \<Rightarrow>
          ebind (required (rr_mechanism m) ''missing mechanism'') (\<lambda>s.
          ebind (required (rr_payload m) ''missing payload'') (\<lambda>p.
          Inr (sessionAuthenticate s p)))
      | SessionAuthenticated \<Rightarrow> Inr sessionAuthenticated
      | SessionAuthError \<Rightarrow>
          ebind (required (rr_authErrorCode m) ''missing session auth error code'') (\<lambda>c.
          ebind (required (rr_message m) ''missing message'') (\<lambda>s.
          Inr (sessionAuthError c s))))"

fun fromGeneratedReqResMessage :: "GeneratedReqResMessage \<Rightarrow> ReqResMessage" where
  "fromGeneratedReqResMessage (requestUnary i p) =
     (message RequestUnary)\<lparr>rr_procId := Some i, rr_payload := p\<rparr>"
| "fromGeneratedReqResMessage (requestStreamStart i p) =
     (message RequestStreamStart)\<lparr>rr_procId := Some i, rr_payload := p\<rparr>"
| "fromGeneratedReqResMessage (requestStreamChunk p) =
     (message RequestStreamChunk)\<lparr>rr_payload := Some p\<rparr>"
| "fromGeneratedReqResMessage (responseUnaryOk p) =
     (message ResponseUnaryOk)\<lparr>rr_payload := p\<rparr>"
| "fromGeneratedReqResMessage (responseUnaryError e k) =
     (message ResponseUnaryError)\<lparr>rr_error := Some e, rr_errorKind := Some k\<rparr>"
| "fromGeneratedReqResMessage (responseStreamStart p) =
     (message ResponseStreamStart)\<lparr>rr_payload := p\<rparr>"
| "fromGeneratedReqResMessage (responseStreamChunk p) =
     (message ResponseStreamChunk)\<lparr>rr_payload := Some p\<rparr>"
| "fromGeneratedReqResMessage (responseStreamErrorEnd e k) =
     (message ResponseStreamErrorEnd)\<lparr>rr_error := Some e, rr_errorKind := Some k\<rparr>"
| "fromGeneratedReqResMessage (sessionAuthenticate s p) =
     (message SessionAuthenticate)\<lparr>rr_mechanism := Some s, rr_payload := Some p\<rparr>"
| "fromGeneratedReqResMessage sessionAuthenticated = message SessionAuthenticated"
| "fromGeneratedReqResMessage (sessionAuthError c s) =
     (message SessionAuthError)\<lparr>rr_authErrorCode := Some c, rr_message := Some s\<rparr>"

definition toGeneratedDatagram :: "DatagramMessage \<Rightarrow> GeneratedDatagramMessage" where
  "toGeneratedDatagram m =
     (case dg_kind m of Ping \<Rightarrow> ping (dg_pingId m) | Pong \<Rightarrow> pong (dg_pingId m))"

fun fromGeneratedDatagram :: "GeneratedDatagramMessage \<Rightarrow> DatagramMessage" where
  "fromGeneratedDatagram (ping i) = \<lparr>dg_kind = Ping, dg_pingId = i\<rparr>"
| "fromGeneratedDatagram (pong i) = \<lparr>dg_kind = Pong, dg_pingId = i\<rparr>"

section \<open>Encoding and decoding\<close>

definition concat_chunks :: "bytes list \<Rightarrow> bytes result" where
  "concat_chunks chunks =
     (let len = foldl (\<lambda>sum chunk. sum + length chunk) 0 chunks in
      copy_chunks (replicate len 0) 0 chunks)"

definition encodeReqResMessage :: "ReqResMessage \<Rightarrow> bytes result" where
  "encodeReqResMessage m =
     ebind (toGeneratedReqResMessage m) (\<lambda>g.
     ebind (encodeReqResMessageValue g) (\<lambda>v.
     case v of
       CArray [kind, flds] \<Rightarrow>
         ebind (encodeCbor kind) (\<lambda>k. ebind (encodeCbor flds) (\<lambda>f. concat_chunks [k, f]))
     | _ \<Rightarrow> throw ''generated ReqResMessage must encode to union tuple''))"

definition encodeReqResMessageSequence :: "ReqResMessage list \<Rightarrow> bytes result" where
  "encodeReqResMessageSequence ms = ebind (emap encodeReqResMessage ms) concat_chunks"

definition decodeGeneratedReqResMessage :: "cbor_value list \<Rightarrow> GeneratedReqResMessage result" where
  "decodeGeneratedReqResMessage values = decodeReqResMessageValue (CArray values)"

definition decodeReqResMessage :: "bytes \<Rightarrow> ReqResMessage result" where
  "decodeReqResMessage bs =
     ebind (decodeCborSequence bs) (\<lambda>values.
     if length values \<noteq> 2 then throw ''expected ReqResMessage kind/map pair''
     else ebind (decodeGeneratedReqResMessage values) (\<lambda>g. Inr (fromGeneratedReqResMessage g)))"

text \<open>The loops \<open>for (let i = 0; i < values.length; i += 2)\<close> of both sequence decoders.\<close>

fun decode_pairs :: "cbor_value list \<Rightarrow> ReqResMessage list result" where
  "decode_pairs (kind # flds # values) =
     ebind (decodeGeneratedReqResMessage [kind, flds]) (\<lambda>g.
     ebind (decode_pairs values) (\<lambda>ms. Inr (fromGeneratedReqResMessage g # ms)))"
| "decode_pairs _ = Inr []"

definition decodeReqResMessageSequence :: "bytes \<Rightarrow> ReqResMessage list result" where
  "decodeReqResMessageSequence bs =
     ebind (decodeCborSequence bs) (\<lambda>values.
     if length values mod 2 \<noteq> 0 then throw ''expected complete ReqResMessage kind/map pairs''
     else decode_pairs values)"

definition decodeReqResMessageSequencePrefix :: "bytes \<Rightarrow> (ReqResMessage list \<times> nat) result" where
  "decodeReqResMessageSequencePrefix bs =
     ebind (decodeCborSequencePrefix bs) (\<lambda>items.
     let pairCount = length items div 2 in
     ebind (decode_pairs (map item_value (take (pairCount * 2) items))) (\<lambda>messages.
     Inr (messages, if pairCount = 0 then 0 else endOffset (items ! (pairCount * 2 - 1)))))"

definition encodeDatagramMessage :: "DatagramMessage \<Rightarrow> bytes result" where
  "encodeDatagramMessage m =
     ebind (encodeDatagramMessageValue (toGeneratedDatagram m)) encodeCbor"

definition decodeDatagramMessage :: "bytes \<Rightarrow> DatagramMessage result" where
  "decodeDatagramMessage bs =
     ebind (decodeCbor bs) (\<lambda>v.
     ebind (decodeDatagramMessageValue v) (\<lambda>g. Inr (fromGeneratedDatagram g)))"

definition encodePairedSecretCredential :: "PairedSecretCredential \<Rightarrow> bytes result" where
  "encodePairedSecretCredential c = encodeCbor (encodePairedSecretCredentialValue c)"

definition decodePairedSecretCredential :: "bytes \<Rightarrow> PairedSecretCredential result" where
  "decodePairedSecretCredential bs =
     ebind (decodeCbor bs) decodePairedSecretCredentialValue"

lemma concat_chunks [simp]: "concat_chunks chunks = Inr (concat chunks)"
proof -
  have "foldl (\<lambda>sum chunk. sum + length chunk) n chunks = n + length (concat chunks)" for n
    by (induction chunks arbitrary: n) simp_all
  then show ?thesis by (simp add: concat_chunks_def copy_chunks_concat)
qed

section \<open>Round trips\<close>

text \<open>What a message keeps on the wire: the fields of its kind, text as the text converters
  leave it.\<close>

definition canonical :: "ReqResMessage \<Rightarrow> ReqResMessage" where
  "canonical m = (let blank = message (rr_kind m) in
     case rr_kind m of
        RequestUnary \<Rightarrow> blank\<lparr>rr_procId := rr_procId m, rr_payload := rr_payload m\<rparr>
      | RequestStreamStart \<Rightarrow> blank\<lparr>rr_procId := rr_procId m, rr_payload := rr_payload m\<rparr>
      | ResponseUnaryError \<Rightarrow> blank\<lparr>rr_error := rr_error m, rr_errorKind := rr_errorKind m\<rparr>
      | ResponseStreamErrorEnd \<Rightarrow> blank\<lparr>rr_error := rr_error m, rr_errorKind := rr_errorKind m\<rparr>
      | SessionAuthenticate \<Rightarrow>
          blank\<lparr>rr_mechanism := map_option text_norm (rr_mechanism m), rr_payload := rr_payload m\<rparr>
      | SessionAuthenticated \<Rightarrow> blank
      | SessionAuthError \<Rightarrow>
          blank\<lparr>rr_authErrorCode := rr_authErrorCode m,
            rr_message := map_option text_norm (rr_message m)\<rparr>
      | _ \<Rightarrow> blank\<lparr>rr_payload := rr_payload m\<rparr>)"

fun norm_generated :: "GeneratedReqResMessage \<Rightarrow> GeneratedReqResMessage" where
  "norm_generated (sessionAuthenticate s p) = sessionAuthenticate (text_norm s) p"
| "norm_generated (sessionAuthError c s) = sessionAuthError c (text_norm s)"
| "norm_generated g = g"

lemma canonical_generated:
  "toGeneratedReqResMessage m = Inr g \<Longrightarrow>
   fromGeneratedReqResMessage (norm_generated g) = canonical m"
  by (cases "rr_kind m")
    (auto simp: toGeneratedReqResMessage_def canonical_def message_def required_def
      split: option.splits)

lemma norm_codes [simp]:
  "norm (encodeSessionAuthErrorCodeValue c) = encodeSessionAuthErrorCodeValue c"
  "norm (encodeRpcErrorKindValue k) = encodeRpcErrorKindValue k"
  "norm (encodeRpcErrorCodeValue e) = encodeRpcErrorCodeValue e"
  "cbor_ok (encodeSessionAuthErrorCodeValue c)"
  "cbor_ok (encodeRpcErrorKindValue k)"
  "cbor_ok (encodeRpcErrorCodeValue e)"
  by (simp_all add: encodeSessionAuthErrorCodeValue_def encodeRpcErrorKindValue_def
      encodeRpcErrorCodeValue_def)

lemma encodeReqResMessageValue_norm:
  "encodeReqResMessageValue g = Inr v \<Longrightarrow>
   encodeReqResMessageValue (norm_generated g) = Inr (norm v) \<and> cbor_ok v \<and>
   (\<exists>a b. v = CArray [a, b] \<and> norm v = CArray [norm a, norm b])"
  by (cases g)
    (auto simp: union_tuple_def set_payload_def sort_entries_def MAX_ARRAY_LENGTH_def
      simp del: ebind_eq_Inr split: option.splits)

text \<open>A message is a pair of encoded items that decode to it.\<close>

lemma encodeReqResMessage_items:
  assumes "encodeReqResMessage m = Inr b"
  obtains g k f x y where "encode k = Inr x" "encode f = Inr y" "cbor_ok k" "cbor_ok f"
    "b = x @ y" "decodeGeneratedReqResMessage [norm k, norm f] = Inr (norm_generated g)"
    "toGeneratedReqResMessage m = Inr g"
proof -
  from assms obtain g v where g: "toGeneratedReqResMessage m = Inr g"
    and v: "encodeReqResMessageValue g = Inr v"
    by (auto simp: encodeReqResMessage_def)
  from encodeReqResMessageValue_norm [OF v] obtain k f where kf: "v = CArray [k, f]"
    "norm v = CArray [norm k, norm f]" and ok: "cbor_ok v"
    and n: "encodeReqResMessageValue (norm_generated g) = Inr (norm v)" by blast
  from assms g v kf(1) obtain x y where "encode k = Inr x" "encode f = Inr y" "b = x @ y"
    by (auto simp: encodeReqResMessage_def encodeCbor_def)
  moreover have "decodeGeneratedReqResMessage [norm k, norm f] = Inr (norm_generated g)"
    using decode_ReqResMessageValue [OF n] kf(2) by (simp add: decodeGeneratedReqResMessage_def)
  ultimately show thesis using ok kf(1) g by (intro that) simp_all
qed

lemma encode_items:
  assumes "emap encodeReqResMessage ms = Inr bss"
  shows "\<exists>vs css. emap encode vs = Inr css \<and> list_all cbor_ok vs \<and> concat css = concat bss \<and>
    length vs = 2 * length ms \<and> decode_pairs (map norm vs) = Inr (map canonical ms)"
  using assms
proof (induction ms arbitrary: bss)
  case (Cons m ms)
  then obtain b bss' where b: "encodeReqResMessage m = Inr b"
    "emap encodeReqResMessage ms = Inr bss'" "bss = b # bss'" by auto
  from Cons.IH [OF b(2)] obtain vs css where IH: "emap encode vs = Inr css" "list_all cbor_ok vs"
    "concat css = concat bss'" "length vs = 2 * length ms"
    "decode_pairs (map norm vs) = Inr (map canonical ms)" by blast
  from encodeReqResMessage_items [OF b(1)] obtain g k f x y where "encode k = Inr x"
    "encode f = Inr y" "cbor_ok k" "cbor_ok f" "b = x @ y"
    "decodeGeneratedReqResMessage [norm k, norm f] = Inr (norm_generated g)"
    "toGeneratedReqResMessage m = Inr g" by metis
  with IH b show ?case
    by (intro exI [of _ "k # f # vs"] exI [of _ "x # y # css"]) (simp add: canonical_generated)
qed simp

lemma decode_sequence_encoded:
  assumes "encodeReqResMessageSequence ms = Inr bs"
  shows "decodeReqResMessageSequence bs = Inr (map canonical ms)"
proof -
  from assms obtain bss where "emap encodeReqResMessage ms = Inr bss" and bs: "bs = concat bss"
    by (auto simp: encodeReqResMessageSequence_def)
  from encode_items [OF this(1)] obtain vs css where
    e: "emap encode vs = Inr css" "list_all cbor_ok vs" "concat css = concat bss"
      "length vs = 2 * length ms" "decode_pairs (map norm vs) = Inr (map canonical ms)" by blast
  from cbor_codec.seq_enc [OF e(1,2)] e(3-) bs show ?thesis
    by (simp add: decodeReqResMessageSequence_def decodeCborSequence_def)
qed

section \<open>Decoding as the bytes arrive\<close>

text \<open>
  The contract of \<open>decodeReqResMessageSequencePrefix\<close> towards a reader of a stream, which
  keeps the bytes the decoder did not use and decodes again when more arrive: what has been
  decoded stays decoded, an error stays an error. \<open>drain\<close> is that reader's loop.
\<close>

locale stream_decoder =
  fixes dec :: "'b list \<Rightarrow> ('e + 'm list \<times> nat)"
  assumes dec_Nil: "dec [] = Inr ([], 0)"
    and dec_bound: "dec bs = Inr (ms, n) \<Longrightarrow> n \<le> length bs"
    and dec_resume: "dec bs = Inr (ms, n) \<Longrightarrow>
      dec (bs @ cs) = ebind (dec (drop n bs @ cs)) (\<lambda>(ms', n'). Inr (ms @ ms', n + n'))"
    and dec_error: "dec bs = Inl e \<Longrightarrow> \<exists>e'. dec (bs @ cs) = Inl e'"
begin

fun drain :: "'b list \<Rightarrow> 'b list list \<Rightarrow> 'e + 'm list \<times> 'b list" where
  "drain buf [] = Inr ([], buf)"
| "drain buf (c # cs) =
     ebind (dec (buf @ c)) (\<lambda>(ms, n).
     ebind (drain (drop n (buf @ c)) cs) (\<lambda>(ms', rest). Inr (ms @ ms', rest)))"

lemma dec_settled: "dec bs = Inr (ms, n) \<Longrightarrow> dec (drop n bs) = Inr ([], 0)"
  using dec_resume [of bs ms n "[]"] by (cases "dec (drop n bs)") auto

text \<open>The chunk boundaries do not matter: draining equals decoding everything at once.\<close>

lemma drain_whole:
  "dec buf = Inr ([], 0) \<Longrightarrow>
   (case drain buf cs of
      Inr (ms, rest) \<Rightarrow>
        \<exists>n. dec (buf @ concat cs) = Inr (ms, n) \<and> rest = drop n (buf @ concat cs)
    | Inl e \<Rightarrow> \<exists>e'. dec (buf @ concat cs) = Inl e')"
proof (induction cs arbitrary: buf)
  case (Cons c cs)
  show ?case
  proof (cases "dec (buf @ c)")
    case (Inl e)
    then show ?thesis using dec_error [OF Inl, of "concat cs"] by simp
  next
    case (Inr p)
    define X where "X = buf @ c"
    obtain ms n where d: "dec X = Inr (ms, n)" using Inr by (cases p) (auto simp: X_def)
    have r: "drop k (drop n X @ concat cs) = drop (n + k) (X @ concat cs)" for k
      using dec_bound [OF d] by (simp add: add.commute flip: drop_drop)
    have w: "buf @ c @ concat cs = X @ concat cs" "dec (buf @ c) = dec X" "drop n (buf @ c) = drop n X"
      by (simp_all add: X_def)
    show ?thesis
      using Cons.IH [OF dec_settled [OF d]] dec_resume [OF d, of "concat cs"]
      by (cases "drain (drop n X) cs") (auto simp: w d r simp del: drop_append)
  qed
qed simp

lemma drain_eq:
  assumes "drain [] cs = Inr (ms, rest)" "concat cs' = concat cs"
  shows "drain [] cs' = Inr (ms, rest)"
proof -
  have w: "case drain [] cs of
      Inr (ms, rest) \<Rightarrow> \<exists>n. dec (concat cs) = Inr (ms, n) \<and> rest = drop n (concat cs)
    | Inl e \<Rightarrow> \<exists>e'. dec (concat cs) = Inl e'" for cs
    using drain_whole [OF dec_Nil, of cs] by (simp only: append_Nil)
  show ?thesis using w [of cs] w [of cs'] assms by (auto split: sum.splits)
qed

end

lemma decode_pairs_append:
  "even (length xs) \<Longrightarrow> decode_pairs (xs @ ys) =
     ebind (decode_pairs xs) (\<lambda>ms. ebind (decode_pairs ys) (\<lambda>ms'. Inr (ms @ ms')))"
  by (induction xs rule: decode_pairs.induct) (simp_all add: ebind_assoc cong: ebind_cong)

text \<open>The prefix decoder over the items, with the offset it stops at.\<close>

lemma prefix_decoder: "decodeReqResMessageSequencePrefix bs =
    ebind (decode_prefix_from bs 0) (\<lambda>items.
    let used = take (2 * (length items div 2)) items in
    ebind (decode_pairs (map item_value used)) (\<lambda>ms. Inr (ms, cbor_reader.last_end 0 used)))"
proof -
  have "(if n = 0 then 0 else endOffset (items ! (n * 2 - 1)))
      = cbor_reader.last_end 0 (take (2 * n) items)" if "2 * n \<le> length items" for n items
    using that by (auto simp: cbor_reader.last_end_def last_conv_nth mult.commute min_def)
  then show ?thesis
    by (simp add: decodeReqResMessageSequencePrefix_def decodeCborSequencePrefix_def Let_def
        mult.commute cong: ebind_cong)
qed

text \<open>The items of the rest of a buffer, moved to where the rest stands in it.\<close>

lemma prefix_from_rest:
  assumes "decode_prefix_from bs 0 = Inr (used @ later)"
  defines "n \<equiv> cbor_reader.last_end 0 used"
  shows "n \<le> length bs"
    and "decode_prefix_from (bs @ cs) 0 =
      ebind (decode_prefix_from (drop n bs @ cs) 0) (\<lambda>items.
      Inr (used @ map (\<lambda>i. \<lparr>item_value = item_value i, endOffset = n + endOffset i\<rparr>) items))"
proof -
  show n: "n \<le> length bs"
  proof (cases "used = []")
    case False
    then have "last used \<in> set (used @ later)" by simp
    from cbor_reader.pfx_ends [OF assms(1) this] False show ?thesis
      by (simp add: n_def cbor_reader.last_end_def)
  qed (simp add: n_def)
  have "decode_prefix_from (bs @ cs) 0 =
      ebind (decode_prefix_from (bs @ cs) n) (\<lambda>rest. Inr (used @ rest))"
    unfolding n_def by (rule cbor_reader.pfx_append [OF assms(1)])
  moreover have t: "take n bs @ drop n bs @ cs = bs @ cs" by (simp flip: append_assoc)
  ultimately show "decode_prefix_from (bs @ cs) 0 =
      ebind (decode_prefix_from (drop n bs @ cs) 0) (\<lambda>items.
      Inr (used @ map (\<lambda>i. \<lparr>item_value = item_value i, endOffset = n + endOffset i\<rparr>) items))"
    using cbor_reader.pfx_shift [of "take n bs" "drop n bs @ cs" 0] n
    by (simp add: ebind_assoc t)
qed

lemma last_end_shift:
  "cbor_reader.last_end n
     (map (\<lambda>i. \<lparr>item_value = item_value i, endOffset = n + endOffset i\<rparr>) items)
   = n + cbor_reader.last_end 0 items"
  by (simp add: cbor_reader.last_end_def last_map)

lemma even_take: "even (length (take (2 * (length xs div 2)) xs))"
  by (simp add: min_absorb2)

lemma prefix_split:
  assumes "decodeReqResMessageSequencePrefix bs = Inr (ms, n)"
  obtains used later where "decode_prefix_from bs 0 = Inr (used @ later)" "even (length used)"
    "length later < 2" "n = cbor_reader.last_end 0 used"
    "decode_pairs (map item_value used) = Inr ms"
proof -
  from assms obtain items where i: "decode_prefix_from bs 0 = Inr items"
    and d: "decode_pairs (map item_value (take (2 * (length items div 2)) items)) = Inr ms"
    and n: "n = cbor_reader.last_end 0 (take (2 * (length items div 2)) items)"
    by (auto simp: prefix_decoder Let_def)
  have "length (drop (2 * (length items div 2)) items) < 2" by simp
  moreover note even_take [of items]
  ultimately show thesis
    using that [of "take (2 * (length items div 2)) items" "drop (2 * (length items div 2)) items"]
      i d n by simp
qed

interpretation wire_stream: stream_decoder decodeReqResMessageSequencePrefix
proof
  show "decodeReqResMessageSequencePrefix [] = Inr ([], 0)"
    by (simp add: prefix_decoder decode_prefix_from.simps)
next
  fix bs ms n assume "decodeReqResMessageSequencePrefix bs = Inr (ms, n)"
  then show "n \<le> length bs" by (rule prefix_split) (auto dest: prefix_from_rest(1))
next
  fix bs cs ms n assume "decodeReqResMessageSequencePrefix bs = Inr (ms, n)"
  then obtain used later where u: "decode_prefix_from bs 0 = Inr (used @ later)"
    "even (length used)" "n = cbor_reader.last_end 0 used"
    "decode_pairs (map item_value used) = Inr ms" by (rule prefix_split)
  from u(2) obtain k where k: "length used = 2 * k" by blast
  show "decodeReqResMessageSequencePrefix (bs @ cs) =
      ebind (decodeReqResMessageSequencePrefix (drop n bs @ cs))
        (\<lambda>(ms', n'). Inr (ms @ ms', n + n'))"
    using u prefix_from_rest(2) [OF u(1), of cs]
    by (simp add: k prefix_decoder Let_def ebind_assoc decode_pairs_append take_map comp_def
        last_end_shift cong: ebind_cong)
next
  fix bs cs e assume e: "decodeReqResMessageSequencePrefix bs = Inl e"
  show "\<exists>e'. decodeReqResMessageSequencePrefix (bs @ cs) = Inl e'"
  proof (cases "decode_prefix_from bs 0")
    case (Inl e1)
    then have "decode_prefix_from (bs @ cs) 0 = Inl e1"
      by (rule cbor_reader.pfx_append_error) simp
    then show ?thesis by (simp add: prefix_decoder)
  next
    case (Inr items)
    let ?k = "2 * (length items div 2)"
    from e Inr have d: "decode_pairs (map item_value (take ?k items)) = Inl e"
      by (auto simp: prefix_decoder Let_def ebind_eq_Inl)
    have i: "decode_prefix_from bs 0 = Inr (take ?k items @ drop ?k items)" using Inr by simp
    note k = even_take [of items]
    show ?thesis
    proof (cases "decodeReqResMessageSequencePrefix (bs @ cs)")
      case (Inr r)
      obtain more where "decode_prefix_from (bs @ cs) 0 = Inr (take ?k items @ more)"
        using prefix_from_rest(2) [OF i, of cs] Inr by (cases "decode_prefix_from (bs @ cs) 0")
          (auto simp: prefix_decoder)
      moreover have "even (length (map item_value (take ?k items)))" using k by simp
      ultimately show ?thesis
        using Inr d k by (auto simp: prefix_decoder Let_def decode_pairs_append)
    qed simp
  qed
qed

lemma prefix_of_encoded:
  assumes "encodeReqResMessageSequence ms = Inr bs"
  shows "decodeReqResMessageSequencePrefix bs = Inr (map canonical ms, length bs)"
proof -
  from assms obtain bss where "emap encodeReqResMessage ms = Inr bss" and bs: "bs = concat bss"
    by (auto simp: encodeReqResMessageSequence_def)
  from encode_items [OF this(1)] obtain vs css where
    e: "emap encode vs = Inr css" "list_all cbor_ok vs" "concat css = concat bss"
      "length vs = 2 * length ms" "decode_pairs (map norm vs) = Inr (map canonical ms)" by blast
  from cbor_reader.pfx_complete [OF cbor_codec.seq_enc [OF e(1,2)]] obtain items where
    "decode_prefix_from bs 0 = Inr items" "map item_value items = map norm vs"
    "cbor_reader.last_end 0 items = length bs"
    using e(3) bs by auto
  moreover from this(2) e(4) have "length items = 2 * length ms" by (metis length_map)
  ultimately show ?thesis using e(5) by (simp add: prefix_decoder Let_def)
qed

section \<open>Which messages can be sent\<close>

text \<open>\<open>complete\<close>: the fields the kind needs are present, the procedure id is a \<open>u53\<close>, the
  byte strings have lengths a JavaScript array buffer can have.\<close>

definition u53_field :: "int option \<Rightarrow> bool" where
  "u53_field v = (case v of None \<Rightarrow> False | Some i \<Rightarrow> isSafeInteger i \<and> 0 \<le> i)"

definition sized :: "bytes option \<Rightarrow> bool" where
  "sized v = (case v of None \<Rightarrow> True | Some b \<Rightarrow> length b \<le> MAX_SAFE_CBOR_INTEGER)"

definition sized_text :: "jstring option \<Rightarrow> bool" where
  "sized_text v = sized (map_option text_encode v)"

definition complete :: "ReqResMessage \<Rightarrow> bool" where
  "complete m =
     (case rr_kind m of
        RequestUnary \<Rightarrow> u53_field (rr_procId m)
      | RequestStreamStart \<Rightarrow> u53_field (rr_procId m)
      | RequestStreamChunk \<Rightarrow> rr_payload m \<noteq> None
      | ResponseStreamChunk \<Rightarrow> rr_payload m \<noteq> None
      | ResponseUnaryError \<Rightarrow> rr_error m \<noteq> None \<and> rr_errorKind m \<noteq> None
      | ResponseStreamErrorEnd \<Rightarrow> rr_error m \<noteq> None \<and> rr_errorKind m \<noteq> None
      | SessionAuthenticate \<Rightarrow> rr_mechanism m \<noteq> None \<and> rr_payload m \<noteq> None
      | SessionAuthError \<Rightarrow> rr_authErrorCode m \<noteq> None \<and> rr_message m \<noteq> None
      | _ \<Rightarrow> True)"

definition sendable :: "ReqResMessage \<Rightarrow> bool" where
  "sendable m \<longleftrightarrow> sized (rr_payload m) \<and> sized (rr_error m) \<and>
     sized_text (rr_mechanism m) \<and> sized_text (rr_message m)"

definition head_bytes :: "nat \<Rightarrow> nat \<Rightarrow> bytes" where
  "head_bytes major n = projr (encodeTypeValue major n)"

lemma encodeTypeValue_total [simp]:
  "n \<le> MAX_SAFE_CBOR_INTEGER \<Longrightarrow> encodeTypeValue k n = Inr (head_bytes k n)"
  by (simp add: head_bytes_def encodeTypeValue_def Let_def)

fun encodable :: "cbor_value \<Rightarrow> bool" where
  "encodable (CNumber (JInt i)) = isSafeInteger i"
| "encodable (CText s) = (length (text_encode s) \<le> MAX_SAFE_CBOR_INTEGER)"
| "encodable (CBytes b) = (length b \<le> MAX_SAFE_CBOR_INTEGER)"
| "encodable _ = False"

lemma safe_nat [simp]:
  "isSafeInteger i \<Longrightarrow> nat i \<le> MAX_SAFE_CBOR_INTEGER"
  "isSafeInteger i \<Longrightarrow> nat (- 1 - i) \<le> MAX_SAFE_CBOR_INTEGER"
  by (auto simp: isSafeInteger_def)

lemma encode_leaf: "encodable v \<Longrightarrow> \<exists>b. encode v = Inr b"
  by (cases v rule: encodable.cases)
    (simp_all add: Let_def del: ebind_eq_Inr)

lemma encode_fields:
  assumes "\<And>k v. (k, v) \<in> set m \<Longrightarrow> 0 \<le> k \<and> k \<le> 10 \<and> encodable v" "length m \<le> 10"
  shows "\<exists>b. encode (CMap m) = Inr b"
proof -
  let ?f = "\<lambda>(key, item).
      if \<not> isSafeInteger key \<or> key < 0 then throw ''expected unsigned safe-integer map key''
      else ebind (encodeTypeValue 0 (nat key)) (\<lambda>k. ebind (encode item) (\<lambda>v. Inr (k @ v)))"
  have small: "n \<le> 10 \<Longrightarrow> encodeTypeValue k n = Inr (head_bytes k n)" for k n
    by (simp add: MAX_SAFE_CBOR_INTEGER_def)
  have "\<exists>b. ?f e = Inr b" if "e \<in> set (sort_entries m)" for e
  proof -
    obtain k v where e: "e = (k, v)" by (cases e)
    with that have kv: "0 \<le> k" "k \<le> 10" "encodable v"
      using assms(1) [of k v] by (auto simp: sort_entries_def)
    then obtain b where "encode v = Inr b" using encode_leaf by blast
    then show ?thesis using kv small [of "nat k" 0] by (simp add: e del: ebind_eq_Inr)
  qed
  then have "\<exists>g. \<forall>e \<in> set (sort_entries m). ?f e = Inr (g e)" by (intro bchoice ballI)
  then obtain g where g: "\<And>e. e \<in> set (sort_entries m) \<Longrightarrow> ?f e = Inr (g e)" by blast
  have "length (sort_entries m) \<le> 10" using assms(2) by (simp add: sort_entries_def)
  then show ?thesis
    using emap_all_Inr [of "sort_entries m" ?f g] g small [of "length (sort_entries m)" 5]
    by (simp only: encode.simps Let_def ebind.simps) blast
qed

lemmas encodable_codes = encodeSessionAuthErrorCodeValue_def encodeRpcErrorKindValue_def

lemma RpcErrorKind_id_safe [simp]: "isSafeInteger (RpcErrorKind_id k)"
  by (cases k) simp_all

lemma SessionAuthErrorCode_id_safe [simp]: "isSafeInteger (SessionAuthErrorCode_id c)"
  by (cases c) simp_all

lemma encodeReqResMessage_total:
  assumes "complete m" "sendable m"
  shows "\<exists>b. encodeReqResMessage m = Inr b"
proof -
  have val: "\<exists>i m'. ebind (toGeneratedReqResMessage m) encodeReqResMessageValue
      = Inr (CArray [CNumber (JInt i), CMap m']) \<and> 0 \<le> i \<and> i \<le> 10 \<and> length m' \<le> 10 \<and>
      (\<forall>(k, v) \<in> set m'. 0 \<le> k \<and> k \<le> 10 \<and> encodable v)"
    using assms
    by (cases "rr_kind m")
      (auto simp: toGeneratedReqResMessage_def complete_def sendable_def union_tuple_def
        set_payload_def required_def encodable_codes u53_field_def sized_def sized_text_def
        simp del: ebind_eq_Inr split: option.splits)
  then obtain i m' where v: "ebind (toGeneratedReqResMessage m) encodeReqResMessageValue
      = Inr (CArray [CNumber (JInt i), CMap m'])" "0 \<le> i" "i \<le> 10" "length m' \<le> 10"
      "\<forall>(k, v) \<in> set m'. 0 \<le> k \<and> k \<le> 10 \<and> encodable v" by blast
  obtain x where x: "encode (CNumber (JInt i)) = Inr x"
    using v(2,3) encode_leaf [of "CNumber (JInt i)"] by auto
  obtain y where y: "encode (CMap m') = Inr y"
    using v(4,5) encode_fields [of m'] by blast
  from v(1) x y show ?thesis
    by (auto simp: encodeReqResMessage_def encodeCbor_def simp del: encode.simps)
qed

lemma incomplete_throws: "\<not> complete m \<Longrightarrow> \<exists>t. encodeReqResMessage m = throw t"
  by (cases "rr_kind m")
    (auto simp: encodeReqResMessage_def toGeneratedReqResMessage_def complete_def required_def
      u53_field_def u53_def simp del: ebind_eq_Inr split: option.splits)

section \<open>Properties\<close>

text \<open>The fields of the kind of a message, and messages whose texts an encoder and a decoder leave alone.\<close>

definition reduced :: "ReqResMessage \<Rightarrow> ReqResMessage" where
  "reduced m = (let blank = message (rr_kind m) in
     case rr_kind m of
        RequestUnary \<Rightarrow> blank\<lparr>rr_procId := rr_procId m, rr_payload := rr_payload m\<rparr>
      | RequestStreamStart \<Rightarrow> blank\<lparr>rr_procId := rr_procId m, rr_payload := rr_payload m\<rparr>
      | ResponseUnaryError \<Rightarrow> blank\<lparr>rr_error := rr_error m, rr_errorKind := rr_errorKind m\<rparr>
      | ResponseStreamErrorEnd \<Rightarrow> blank\<lparr>rr_error := rr_error m, rr_errorKind := rr_errorKind m\<rparr>
      | SessionAuthenticate \<Rightarrow> blank\<lparr>rr_mechanism := rr_mechanism m, rr_payload := rr_payload m\<rparr>
      | SessionAuthenticated \<Rightarrow> blank
      | SessionAuthError \<Rightarrow> blank\<lparr>rr_authErrorCode := rr_authErrorCode m, rr_message := rr_message m\<rparr>
      | _ \<Rightarrow> blank\<lparr>rr_payload := rr_payload m\<rparr>)"

definition read_text :: "jstring option \<Rightarrow> jstring option" where
  "read_text s = map_option text_norm s"

definition plain_texts :: "ReqResMessage \<Rightarrow> bool" where
  "plain_texts m \<longleftrightarrow> (\<forall>s \<in> set_option (rr_mechanism m) \<union> set_option (rr_message m).
     well_formed_utf16 s \<and> take 1 s \<noteq> [0xFEFF])"

lemma canonical_reduced:
  "canonical m = (reduced m)\<lparr>rr_mechanism := read_text (rr_mechanism (reduced m)), rr_message := read_text (rr_message (reduced m))\<rparr>"
  by (cases "rr_kind m") (simp_all add: canonical_def reduced_def read_text_def message_def Let_def)

lemma canonical_plain: "plain_texts m \<Longrightarrow> canonical m = reduced m"
  by (cases "rr_kind m"; cases "rr_mechanism m"; cases "rr_message m")
    (simp_all add: canonical_def reduced_def plain_texts_def message_def text_norm_id Let_def)

text \<open>(C1) The message round trip: from what \<open>encodeReqResMessageSequence\<close> writes,
  \<open>decodeReqResMessageSequence\<close> reads as many messages in the same order, each reduced to the fields of its kind, with
  the texts of its mechanism and message as a text decoder reads them: a leading byte order mark is dropped and
  lone surrogates are replaced. If all those texts are well formed and begin with no such mark, it reads exactly
  the reduced messages.\<close>

theorem wire_sequence_roundtrip:
  assumes "encodeReqResMessageSequence ms = Inr bs"
  shows "decodeReqResMessageSequence bs = Inr (map (\<lambda>m. (reduced m)
      \<lparr>rr_mechanism := read_text (rr_mechanism (reduced m)), rr_message := read_text (rr_message (reduced m))\<rparr>) ms) \<and>
    ((\<forall>m \<in> set ms. plain_texts m) \<longrightarrow> decodeReqResMessageSequence bs = Inr (map reduced ms))"
  using decode_sequence_encoded [OF assms] by (simp add: canonical_reduced [symmetric] canonical_plain cong: map_cong)

theorem wire_sequence_roundtrip_witness:
  "decodeReqResMessageSequence [0x00, 0xa2, 0x01, 0x05, 0x02, 0x41, 0x07, 0x08, 0xa2, 0x01, 0x61, 0x70, 0x02, 0x41, 0x09, 0x09, 0xa0] =
   Inr [(message RequestUnary)\<lparr>rr_procId := Some 5, rr_payload := Some [7]\<rparr>,
        (message SessionAuthenticate)\<lparr>rr_mechanism := Some (js ''p''), rr_payload := Some [9]\<rparr>,
        message SessionAuthenticated]"
proof -
  define s where "s = js ''p''"
  let ?ms = "[(message RequestUnary)\<lparr>rr_procId := Some 5, rr_payload := Some [7]\<rparr>,
    (message SessionAuthenticate)\<lparr>rr_mechanism := Some s, rr_payload := Some [9]\<rparr>,
    (message SessionAuthenticated)\<lparr>rr_procId := Some 9\<rparr>]"
  have t: "text_encode s = [0x70]" by (simp add: s_def cbor_eval)
  have a: "encodeReqResMessage ((message SessionAuthenticate)\<lparr>rr_mechanism := Some s, rr_payload := Some [9]\<rparr>)
      = Inr [0x08, 0xa2, 0x01, 0x61, 0x70, 0x02, 0x41, 0x09]"
    using t
    by (simp add: encodeReqResMessage_def toGeneratedReqResMessage_def message_def union_tuple_def set_payload_def,
      simp add: encodeCbor_def encodeTypeValue_def sort_entries_def,
      simp add: byte_def MAX_SAFE_CBOR_INTEGER_def numeral_2_eq_2 [symmetric])
  have r: "encodeReqResMessage ((message RequestUnary)\<lparr>rr_procId := Some 5, rr_payload := Some [7]\<rparr>)
      = Inr [0x00, 0xa2, 0x01, 0x05, 0x02, 0x41, 0x07]"
    "encodeReqResMessage ((message SessionAuthenticated)\<lparr>rr_procId := Some 9\<rparr>) = Inr [0x09, 0xa0]"
    by (simp_all add: encodeReqResMessage_def toGeneratedReqResMessage_def message_def union_tuple_def set_payload_def cbor_eval)
  have "encodeReqResMessageSequence ?ms
      = Inr [0x00, 0xa2, 0x01, 0x05, 0x02, 0x41, 0x07, 0x08, 0xa2, 0x01, 0x61, 0x70, 0x02, 0x41, 0x09, 0x09, 0xa0]"
    by (simp add: encodeReqResMessageSequence_def a r)
  moreover have "\<forall>m \<in> set ?ms. plain_texts m"
    by (simp add: plain_texts_def message_def s_def, simp add: js_def lead_surrogate_def trail_surrogate_def)
  ultimately have "decodeReqResMessageSequence [0x00, 0xa2, 0x01, 0x05, 0x02, 0x41, 0x07, 0x08, 0xa2, 0x01, 0x61, 0x70, 0x02, 0x41,
      0x09, 0x09, 0xa0] = Inr (map reduced ?ms)"
    using wire_sequence_roundtrip by blast
  then show ?thesis by (simp add: reduced_def message_def s_def)
qed

text \<open>A stream cut at any byte decodes to a prefix of its messages, and the bytes reported
  as read are inside the cut.\<close>

theorem wire_partial_stream:
  assumes "encodeReqResMessageSequence ms = Inr bs"
  shows "\<exists>j n. decodeReqResMessageSequencePrefix (take k bs) = Inr (take j (map canonical ms), n)
    \<and> n \<le> k"
proof (cases "decodeReqResMessageSequencePrefix (take k bs)")
  case (Inl e)
  from wire_stream.dec_error [OF this, of "drop k bs"] prefix_of_encoded [OF assms]
  show ?thesis by simp
next
  case (Inr r)
  then obtain ms' n where d: "decodeReqResMessageSequencePrefix (take k bs) = Inr (ms', n)"
    by (cases r) auto
  have "decodeReqResMessageSequencePrefix (take k bs @ drop k bs)
      = Inr (map canonical ms, length bs)"
    using prefix_of_encoded [OF assms] by simp
  from trans [OF wire_stream.dec_resume [OF d, symmetric] this]
  obtain ms'' where "ms' @ ms'' = map canonical ms" by auto
  then have "ms' = take (length ms') (map canonical ms)" by (metis append_eq_conv_conj)
  with d wire_stream.dec_bound [OF d] show ?thesis by (metis length_take min.boundedE)
qed

theorem wire_partial_stream_witness:
  "\<exists>j n. decodeReqResMessageSequencePrefix [0x09, 0xa0, 0x09]
     = Inr (take j [message SessionAuthenticated, message SessionAuthenticated], n) \<and> n \<le> 3"
proof -
  have "encodeReqResMessageSequence [message SessionAuthenticated, message SessionAuthenticated]
      = Inr [0x09, 0xa0, 0x09, 0xa0]"
    by (simp add: encodeReqResMessageSequence_def encodeReqResMessage_def
        toGeneratedReqResMessage_def message_def union_tuple_def cbor_eval)
  from wire_partial_stream [OF this, of 3] show ?thesis
    by (simp add: canonical_def message_def)
qed

text \<open>Encoding a message succeeds exactly when the fields its kind needs are present and
  its procedure id is a \<open>u53\<close>; otherwise it throws an \<open>Error\<close>.\<close>

theorem wire_encode_complete:
  assumes "sendable m"
  shows "if complete m then \<exists>b. encodeReqResMessage m = Inr b
    else \<exists>t. encodeReqResMessage m = throw t"
  using assms by (simp add: encodeReqResMessage_total incomplete_throws)

theorem wire_encode_complete_witness:
  "\<not> complete (message ResponseUnaryError) \<and>
   (\<exists>t. encodeReqResMessage (message ResponseUnaryError) = throw t)"
proof -
  have s: "sendable (message ResponseUnaryError)"
    by (simp add: sendable_def message_def sized_def sized_text_def)
  have c: "\<not> complete (message ResponseUnaryError)" by (simp add: complete_def message_def)
  from wire_encode_complete [OF s] c show ?thesis by simp
qed

text \<open>A datagram: the round trip keeps the kind and the ping id, and only ids a \<open>u53\<close>
  holds are encoded.\<close>

lemma datagram_roundtrip:
  assumes "encodeDatagramMessage d = Inr b"
  shows "decodeDatagramMessage b = Inr d \<and> 0 \<le> dg_pingId d \<and> isSafeInteger (dg_pingId d)"
proof -
  obtain v where v: "encodeDatagramMessageValue (toGeneratedDatagram d) = Inr v"
    and b: "encode v = Inr b"
    using assms by (auto simp: encodeDatagramMessage_def encodeCbor_def)
  have n: "norm v = v \<and> cbor_ok v \<and> 0 \<le> dg_pingId d \<and> isSafeInteger (dg_pingId d)"
    using v by (cases "dg_kind d")
      (auto simp: toGeneratedDatagram_def union_tuple_def sort_entries_def MAX_ARRAY_LENGTH_def
        simp del: ebind_eq_Inr)
  then have "decode (b @ []) 0 = Inr (v, length b)"
    using decode_encode [OF b, of "[]"] by simp
  moreover have "fromGeneratedDatagram (toGeneratedDatagram d) = d"
    by (cases d; cases "dg_kind d") (auto simp: toGeneratedDatagram_def)
  ultimately show ?thesis
    using decode_DatagramMessageValue [OF v] n
    by (simp add: decodeDatagramMessage_def decodeCbor_def)
qed

text \<open>The decoder takes a negative procedure id, which the encoder refuses: it checks
  number fields with \<open>integer\<close>, not for the range of \<open>u53\<close>.\<close>

theorem wire_negative_procId_accepted:
  "decodeReqResMessage [0x00, 0xa1, 0x01, 0x20]
     = Inr ((message RequestUnary)\<lparr>rr_procId := Some (-1)\<rparr>) \<and>
   encodeReqResMessage ((message RequestUnary)\<lparr>rr_procId := Some (-1)\<rparr>) = throw ''expected u53''"
proof
  show "decodeReqResMessage [0x00, 0xa1, 0x01, 0x20]
      = Inr ((message RequestUnary)\<lparr>rr_procId := Some (-1)\<rparr>)"
    by (simp add: decodeReqResMessage_def decodeCborSequence_def decode_sequence_from.simps
        decode.simps read_def readArg_def readNegativeArg_def checked_key_def
        MAX_SAFE_NEGATIVE_ARGUMENT_def MAX_SAFE_CBOR_INTEGER_def MAX_ARRAY_LENGTH_def
        decodeGeneratedReqResMessage_def decodeReqResMessageValue_def wire_checks isSafeInteger_def
        message_def del: ebind_eq_Inr)
next
  show "encodeReqResMessage ((message RequestUnary)\<lparr>rr_procId := Some (-1)\<rparr>) = throw ''expected u53''"
    by (simp add: encodeReqResMessage_def toGeneratedReqResMessage_def message_def u53_def)
qed

end
