(* ===== verification/Client.thy ===== *)
theory Client
  imports Wire
begin

text \<open>
  \<open>web/src/protocol/client.ts\<close>: calls over one bidirectional stream each. The WebTransport
  is a parameter \<open>exchange\<close>: from the chunks written before the writer was closed to the
  chunks the peer sends back. A \<open>readable\<close> is the chunks \<open>reader.read()\<close> returns and what
  comes after them, \<open>done\<close> or a rejected read. A procedure is its \<open>ProcCodec\<close>.

  The value \<open>proc.decodeError\<close> returns is used through \<open>String(value.type)\<close> and the like
  only, so an \<open>error_value\<close> is an object's properties as \<open>String\<close> prints them, or no object.
\<close>

section \<open>Errors\<close>

datatype error_value = NotObject | ErrorObject "(string \<times> jstring) list"

definition isInvalidCredentialsError :: "js_error \<Rightarrow> bool" where
  "isInvalidCredentialsError err =
     (case err of RpcError code _ \<Rightarrow> code = js ''invalidCredentials'' | _ \<Rightarrow> False)"

definition errorCode :: "error_value \<Rightarrow> jstring" where
  "errorCode v =
     (case v of
        NotObject \<Rightarrow> js ''rpcError''
      | ErrorObject props \<Rightarrow>
          (case map_of props ''type'' of
             Some t \<Rightarrow> t
           | None \<Rightarrow> getOr (map_of props ''code'') (js ''rpcError'')))"

definition errorMessage :: "error_value \<Rightarrow> jstring" where
  "errorMessage v =
     (case v of
        NotObject \<Rightarrow> js ''RPC error response''
      | ErrorObject props \<Rightarrow> getOr (map_of props ''message'') (js ''RPC error response''))"

fun sessionAuthErrorCode :: "SessionAuthErrorCode option \<Rightarrow> jstring" where
  "sessionAuthErrorCode None = js ''SessionAuthError''"
| "sessionAuthErrorCode (Some UnsupportedMechanism) = js ''unsupportedMechanism''"
| "sessionAuthErrorCode (Some InvalidCredentials) = js ''invalidCredentials''"
| "sessionAuthErrorCode (Some AuthMalformedPayload) = js ''malformedPayload''"
| "sessionAuthErrorCode (Some AlreadyAuthenticated) = js ''alreadyAuthenticated''"

fun rpcErrorCode :: "RpcErrorCode \<Rightarrow> jstring" where
  "rpcErrorCode BadMessage = js ''badMessage''"
| "rpcErrorCode Unauthorized = js ''unauthorized''"
| "rpcErrorCode MissingPayload = js ''missingPayload''"
| "rpcErrorCode NotImplemented = js ''notImplemented''"
| "rpcErrorCode PermissionDenied = js ''permissionDenied''"
| "rpcErrorCode NotFound = js ''notFound''"
| "rpcErrorCode OperationFailed = js ''operationFailed''"
| "rpcErrorCode MalformedPayload = js ''malformedPayload''"

definition systemErrorPayload :: "bytes \<Rightarrow> (jstring \<times> jstring) result" where
  "systemErrorPayload bs =
     ebind (decodeCbor bs) (\<lambda>v.
     ebind (decodeRpcErrorPayloadValue v) (\<lambda>error.
     Inr (rpcErrorCode (payload_code error), payload_message error)))"

section \<open>Procedures and streams\<close>

record ('req, 'res) ProcCodec =
  proc_id :: int
  proc_name :: string
  proc_stream :: string
  proc_requestType :: string
  proc_responseType :: string
  proc_errorType :: string
  proc_encodeRequest :: "'req \<Rightarrow> cbor_value result"
  proc_decodeResponse :: "cbor_value option \<Rightarrow> 'res result"
  proc_decodeError :: "cbor_value \<Rightarrow> error_value result"

record readable =
  chunks :: "bytes list"
  read_error :: "js_error option"

type_synonym transport = "bytes list \<Rightarrow> readable result"

definition readAll :: "readable \<Rightarrow> bytes result" where
  "readAll r =
     (case read_error r of
        Some err \<Rightarrow> Inl err
      | None \<Rightarrow>
          let total = foldl (\<lambda>total value. total + length value) 0 (chunks r) in
          copy_chunks (replicate total 0) 0 (chunks r))"

definition concatBytes :: "bytes \<Rightarrow> bytes \<Rightarrow> bytes" where
  "concatBytes left right =
     (if length left = 0 then right else if length right = 0 then left else left @ right)"

definition encodeRequest :: "('req, 'res) ProcCodec \<Rightarrow> 'req option \<Rightarrow> bytes option result" where
  "encodeRequest proc request =
     (case request of
        None \<Rightarrow> Inr None
      | Some r \<Rightarrow> ebind (proc_encodeRequest proc r) (\<lambda>v.
          ebind (encodeCbor v) (\<lambda>b. Inr (Some b))))"

definition throwRpcError :: "('req, 'res) ProcCodec \<Rightarrow> ReqResMessage \<Rightarrow> 'a result" where
  "throwRpcError proc response =
     (case (rr_error response, rr_errorKind response) of
        (Some err, Some kind) \<Rightarrow>
          if kind = Method then
            ebind (decodeCbor err) (\<lambda>v.
            ebind (proc_decodeError proc v) (\<lambda>e. Inl (RpcError (errorCode e) (errorMessage e))))
          else ebind (systemErrorPayload err) (\<lambda>(code, text). Inl (RpcError code text))
      | _ \<Rightarrow> Inl (RpcError (js ''rpc_error'') (js ''RPC error response'')))"

definition decodeUnaryResponse ::
    "('req, 'res) ProcCodec \<Rightarrow> ReqResMessage list \<Rightarrow> bytes option result" where
  "decodeUnaryResponse proc messages =
     (case messages of
        [response] \<Rightarrow>
          if rr_kind response = ResponseUnaryError then throwRpcError proc response
          else if rr_kind response \<noteq> ResponseUnaryOk then throw ''expected unary response message''
          else Inr (rr_payload response)
      | _ \<Rightarrow> throw ''expected one response message'')"

section \<open>Unary calls and client streams\<close>

definition unary_request :: "('req, 'res) ProcCodec \<Rightarrow> bytes option \<Rightarrow> bytes result" where
  "unary_request proc payload =
     encodeReqResMessageSequence
       [(message RequestUnary)\<lparr>rr_procId := Some (proc_id proc), rr_payload := payload\<rparr>]"

definition sendUnary ::
    "transport \<Rightarrow> ('req, 'res) ProcCodec \<Rightarrow> bytes option \<Rightarrow> bytes option result" where
  "sendUnary exchange proc payload =
     ebind (unary_request proc payload) (\<lambda>request.
     ebind (exchange [request]) (\<lambda>r.
     ebind (readAll r) (\<lambda>bs.
     ebind (decodeReqResMessageSequence bs) (\<lambda>messages.
     decodeUnaryResponse proc messages))))"

text \<open>The tail both call functions share: \<open>undefined\<close> goes to the codec as it is.\<close>

definition decode_response :: "('req, 'res) ProcCodec \<Rightarrow> bytes option \<Rightarrow> 'res result" where
  "decode_response proc response =
     (case response of
        None \<Rightarrow> proc_decodeResponse proc None
      | Some b \<Rightarrow> ebind (decodeCbor b) (\<lambda>v. proc_decodeResponse proc (Some v)))"

definition callUnary :: "transport \<Rightarrow> ('req, 'res) ProcCodec \<Rightarrow> 'req option \<Rightarrow> 'res result" where
  "callUnary exchange proc request =
     ebind (encodeRequest proc request) (\<lambda>payload.
     ebind (sendUnary exchange proc payload) (decode_response proc))"

text \<open>
  The loop of \<open>sendClientStream\<close> over a generator of payloads, each of which may throw:
  what was written, and whether the loop ended or threw.
\<close>

fun write_payloads ::
    "('req, 'res) ProcCodec \<Rightarrow> bool \<Rightarrow> bytes result list \<Rightarrow> bytes list \<times> unit result" where
  "write_payloads proc started [] =
     ([], if started then Inr () else throw ''client stream request must not be empty'')"
| "write_payloads proc started (p # ps) =
     (case ebind p (\<lambda>payload.
        if \<not> started then
          encodeReqResMessageSequence
            [(message RequestStreamStart)\<lparr>rr_procId := Some (proc_id proc), rr_payload := Some payload\<rparr>]
        else
          encodeReqResMessageSequence [(message RequestStreamChunk)\<lparr>rr_payload := Some payload\<rparr>]) of
        Inl e \<Rightarrow> ([], Inl e)
      | Inr b \<Rightarrow> (case write_payloads proc True ps of (bs, r) \<Rightarrow> (b # bs, r)))"

definition sendClientStream ::
    "transport \<Rightarrow> ('req, 'res) ProcCodec \<Rightarrow> bytes result list \<Rightarrow> bytes option result" where
  "sendClientStream exchange proc payloads =
     (case write_payloads proc False payloads of
        (written, Inl e) \<Rightarrow> Inl e
      | (written, Inr _) \<Rightarrow>
          ebind (exchange written) (\<lambda>r.
          ebind (readAll r) (\<lambda>bs.
          ebind (decodeReqResMessageSequence bs) (\<lambda>messages.
          decodeUnaryResponse proc messages))))"

definition encodeStreamRequests :: "('req, 'res) ProcCodec \<Rightarrow> 'req list \<Rightarrow> bytes result list" where
  "encodeStreamRequests proc requests =
     map (\<lambda>r. ebind (proc_encodeRequest proc r) encodeCbor) requests"

definition callClientStream :: "transport \<Rightarrow> ('req, 'res) ProcCodec \<Rightarrow> 'req list \<Rightarrow> 'res result" where
  "callClientStream exchange proc requests =
     ebind (sendClientStream exchange proc (encodeStreamRequests proc requests))
       (decode_response proc)"

section \<open>Server streams\<close>

text \<open>
  A generator's run: the values yielded, how it ended, and whether the \<open>finally\<close> block
  cancels the reader (it does unless the stream was read to its end).
\<close>

record 'res stream_run =
  yielded :: "'res list"
  outcome :: "unit result"
  cancelled :: bool

definition handle_message :: "('req, 'res) ProcCodec \<Rightarrow> ReqResMessage \<Rightarrow> 'res result" where
  "handle_message proc m =
     (if rr_kind m = ResponseStreamErrorEnd then throwRpcError proc m
      else if rr_kind m \<noteq> ResponseStreamStart \<and> rr_kind m \<noteq> ResponseStreamChunk then
        throw ''expected stream response message''
      else case rr_payload m of
        None \<Rightarrow> throw ''missing stream response payload''
      | Some p \<Rightarrow> ebind (decodeCbor p) (\<lambda>v. proc_decodeResponse proc (Some v)))"

fun handle_messages :: "('req, 'res) ProcCodec \<Rightarrow> ReqResMessage list \<Rightarrow> 'res list \<times> unit result" where
  "handle_messages proc [] = ([], Inr ())"
| "handle_messages proc (m # ms) =
     (case handle_message proc m of
        Inl e \<Rightarrow> ([], Inl e)
      | Inr v \<Rightarrow> (case handle_messages proc ms of (vs, r) \<Rightarrow> (v # vs, r)))"

fun stream_loop :: "('req, 'res) ProcCodec \<Rightarrow> bytes \<Rightarrow> bytes list \<Rightarrow> js_error option \<Rightarrow> 'res stream_run" where
  "stream_loop proc buffered [] (Some err) = \<lparr>yielded = [], outcome = Inl err, cancelled = True\<rparr>"
| "stream_loop proc buffered [] None =
     \<lparr>yielded = [],
      outcome = (if length buffered > 0 then throw ''incomplete stream response message'' else Inr ()),
      cancelled = False\<rparr>"
| "stream_loop proc buffered (value # later) err =
     (let buffered = concatBytes buffered value in
      case decodeReqResMessageSequencePrefix buffered of
        Inl e \<Rightarrow> \<lparr>yielded = [], outcome = Inl e, cancelled = True\<rparr>
      | Inr (messages, n) \<Rightarrow>
          let buffered = (if n > 0 then drop n buffered else buffered) in
          case handle_messages proc messages of
            (vs, Inl e) \<Rightarrow> \<lparr>yielded = vs, outcome = Inl e, cancelled = True\<rparr>
          | (vs, Inr _) \<Rightarrow>
              let run = stream_loop proc buffered later err in
              run\<lparr>yielded := vs @ yielded run\<rparr>)"

definition streamServerEvents ::
    "transport \<Rightarrow> ('req, 'res) ProcCodec \<Rightarrow> bytes option \<Rightarrow> 'res stream_run" where
  "streamServerEvents exchange proc payload =
     (case ebind (unary_request proc payload) (\<lambda>request. exchange [request]) of
        Inl e \<Rightarrow> \<lparr>yielded = [], outcome = Inl e, cancelled = False\<rparr>
      | Inr r \<Rightarrow> stream_loop proc [] (chunks r) (read_error r))"

definition callServerStream :: "transport \<Rightarrow> ('req, 'res) ProcCodec \<Rightarrow> 'req option \<Rightarrow> 'res stream_run" where
  "callServerStream exchange proc request =
     (case encodeRequest proc request of
        Inl e \<Rightarrow> \<lparr>yielded = [], outcome = Inl e, cancelled = False\<rparr>
      | Inr payload \<Rightarrow> streamServerEvents exchange proc payload)"

section \<open>Authentication\<close>

definition authenticateWebTransport :: "transport \<Rightarrow> jstring \<Rightarrow> jstring \<Rightarrow> unit result" where
  "authenticateWebTransport exchange clientId clientSecret =
     ebind (encodePairedSecretCredential
       \<lparr>credentialId = clientId, credentialSecret = clientSecret\<rparr>) (\<lambda>payload.
     ebind (encodeReqResMessageSequence
       [(message SessionAuthenticate)
          \<lparr>rr_mechanism := Some PAIRED_SECRET_AUTH_MECHANISM, rr_payload := Some payload\<rparr>]) (\<lambda>request.
     ebind (exchange [request]) (\<lambda>r.
     ebind (readAll r) (\<lambda>bs.
     ebind (decodeReqResMessageSequence bs) (\<lambda>messages.
     case messages of
       [response] \<Rightarrow>
         if rr_kind response = SessionAuthError then
           Inl (RpcError (sessionAuthErrorCode (rr_authErrorCode response))
             (getOr (rr_message response) (js ''Session authentication failed'')))
         else if rr_kind response \<noteq> SessionAuthenticated then
           throw ''expected session authentication response''
         else Inr ()
     | _ \<Rightarrow> throw ''expected one session authentication response'')))))"

section \<open>Connecting\<close>

text \<open>The race of \<open>withTimeout\<close>: the promise settles first, or the timer fires first.\<close>

datatype 'a race = Settled "'a result" | TimedOut

definition CONNECT_TIMEOUT_MS :: nat where
  "CONNECT_TIMEOUT_MS = 10000"

definition withTimeout :: "'a race \<Rightarrow> nat \<Rightarrow> string \<Rightarrow> 'a result" where
  "withTimeout race timeoutMs label =
     (case race of
        Settled r \<Rightarrow> r
      | TimedOut \<Rightarrow> throw (label @ '' timed out after '' @ show_nat timeoutMs @ ''ms''))"

text \<open>\<open>openWebTransport\<close> on a transport whose \<open>ready\<close> promise races the timer: the flag says
  whether the transport was closed again.\<close>

definition openWebTransport :: "unit race \<Rightarrow> bool \<times> unit result" where
  "openWebTransport ready =
     (case withTimeout ready CONNECT_TIMEOUT_MS ''WebTransport connection'' of
        Inl e \<Rightarrow> (True, Inl e)
      | Inr _ \<Rightarrow> (False, Inr ()))"

section \<open>Lemmas\<close>

lemma concatBytes [simp]: "concatBytes a b = a @ b"
  by (simp add: concatBytes_def)

lemma readAll_ok [simp]: "readAll \<lparr>chunks = cs, read_error = None\<rparr> = Inr (concat cs)"
proof -
  have "foldl (\<lambda>total value. total + length value) n cs = n + length (concat cs)" for n
    by (induction cs arbitrary: n) simp_all
  then show ?thesis by (simp add: readAll_def copy_chunks_concat)
qed

lemma handle_messages_append:
  "handle_messages proc (xs @ ys) =
     (case handle_messages proc xs of
        (vs, Inl e) \<Rightarrow> (vs, Inl e)
      | (vs, Inr _) \<Rightarrow> (case handle_messages proc ys of (ws, r) \<Rightarrow> (vs @ ws, r)))"
  by (induction xs) (auto split: sum.splits prod.splits)

lemma handle_messages_ok:
  "snd (handle_messages proc ms) = Inr () \<longleftrightarrow>
   (\<exists>vs. emap (handle_message proc) ms = Inr vs \<and> fst (handle_messages proc ms) = vs)"
  by (induction ms) (auto split: sum.splits prod.splits)

text \<open>A run ends well exactly when draining its chunks leaves nothing over and every message
  is a data message.\<close>

lemma stream_loop_ok:
  "outcome (stream_loop proc buf cs None) = Inr () \<longleftrightarrow>
   (\<exists>ms. wire_stream.drain buf cs = Inr (ms, []) \<and>
      handle_messages proc ms = (yielded (stream_loop proc buf cs None), Inr ()))"
proof (induction cs arbitrary: buf)
  case (Cons c cs)
  show ?case
  proof (cases "decodeReqResMessageSequencePrefix (buf @ c)")
    case (Inr p)
    obtain ms n where p: "p = (ms, n)" by (cases p)
    have buf: "(if 0 < n then drop n (buf @ c) else buf @ c) = drop n (buf @ c)" by simp
    show ?thesis
      using Cons.IH [of "drop n (buf @ c)"] Inr
      by (cases "handle_messages proc ms")
        (auto simp: p buf Let_def handle_messages_append simp del: drop_append
          split: sum.splits prod.splits)
  qed simp
qed auto

lemma stream_loop_drain:
  assumes "wire_stream.drain buf cs = Inr (ms, [])" "handle_messages proc ms = (vs, Inr ())"
  shows "stream_loop proc buf cs None = \<lparr>yielded = vs, outcome = Inr (), cancelled = False\<rparr>"
  using assms
proof (induction cs arbitrary: buf ms vs)
  case (Cons c cs)
  then obtain ms1 n ms2 where d: "decodeReqResMessageSequencePrefix (buf @ c) = Inr (ms1, n)"
    "wire_stream.drain (drop n (buf @ c)) cs = Inr (ms2, [])" "ms = ms1 @ ms2" by auto
  with Cons.prems(2) obtain vs1 vs2 where "handle_messages proc ms1 = (vs1, Inr ())"
    "handle_messages proc ms2 = (vs2, Inr ())" "vs = vs1 @ vs2"
    by (auto simp: handle_messages_append split: sum.splits prod.splits)
  moreover have "(if 0 < n then drop n (buf @ c) else buf @ c) = drop n (buf @ c)" by simp
  ultimately show ?case using Cons.IH [OF d(2)] d(1) by (simp add: Let_def del: drop_append)
qed simp

text \<open>The written chunks of a client stream are the encodings of its messages.\<close>

definition stream_messages :: "('req, 'res) ProcCodec \<Rightarrow> bytes list \<Rightarrow> ReqResMessage list" where
  "stream_messages proc payloads =
     (case payloads of
        [] \<Rightarrow> []
      | p # ps \<Rightarrow>
          (message RequestStreamStart)\<lparr>rr_procId := Some (proc_id proc), rr_payload := Some p\<rparr>
          # map (\<lambda>p. (message RequestStreamChunk)\<lparr>rr_payload := Some p\<rparr>) ps)"

lemma encode_single: "encodeReqResMessageSequence [m] = encodeReqResMessage m"
  by (cases "encodeReqResMessage m") (simp_all add: encodeReqResMessageSequence_def)

lemma write_chunks:
  "write_payloads proc True (map Inr ps) = (bs, Inr ()) \<Longrightarrow>
   emap encodeReqResMessage (map (\<lambda>p. (message RequestStreamChunk)\<lparr>rr_payload := Some p\<rparr>) ps)
     = Inr bs"
  by (induction ps arbitrary: bs) (auto simp: encode_single split: sum.splits prod.splits)

lemma write_stream:
  assumes "write_payloads proc False (map Inr ps) = (bs, Inr ())"
  shows "encodeReqResMessageSequence (stream_messages proc ps) = Inr (concat bs) \<and> ps \<noteq> []"
  using assms
  by (cases ps) (auto simp: encode_single stream_messages_def encodeReqResMessageSequence_def
      dest: write_chunks split: sum.splits prod.splits)

lemma sendUnary_reply:
  assumes "unary_request proc payload = Inr request"
    "exchange [request] = Inr \<lparr>chunks = cs, read_error = None\<rparr>"
    "encodeReqResMessageSequence reply = Inr (concat cs)"
  shows "sendUnary exchange proc payload = decodeUnaryResponse proc (map canonical reply)"
  using assms decode_sequence_encoded [OF assms(3)] by (simp add: sendUnary_def)

lemma stream_delivers:
  assumes "encodeReqResMessageSequence ms = Inr (concat cs)"
    "emap (handle_message proc) (map canonical ms) = Inr vs"
  shows "stream_loop proc [] cs None = \<lparr>yielded = vs, outcome = Inr (), cancelled = False\<rparr>"
proof -
  have w: "decodeReqResMessageSequencePrefix (concat cs) = Inr (map canonical ms, length (concat cs))"
    by (rule prefix_of_encoded [OF assms(1)])
  have d: "wire_stream.drain [] cs = Inr (map canonical ms, [])"
    using wire_stream.drain_eq [of "[concat cs]" "map canonical ms" "[]" cs] w by simp
  have h: "handle_messages proc (map canonical ms) = (vs, Inr ())"
  proof -
    have "emap (handle_message proc) xs = Inr vs \<Longrightarrow> handle_messages proc xs = (vs, Inr ())" for xs
      by (induction xs arbitrary: vs) auto
    then show ?thesis using assms(2) by simp
  qed
  from stream_loop_drain [OF d h] show ?thesis .
qed

lemma decode_5: "decodeCbor [5] = Inr (CNumber (JInt 5))"
  by (simp add: decodeCbor_def decode.simps read_def readArg_def)

lemma decode_system_error:
  assumes "encodeCbor (encodeRpcErrorPayloadValue p) = Inr b"
  shows "systemErrorPayload b = Inr (rpcErrorCode (payload_code p), text_norm (payload_message p))"
proof -
  have n: "norm (encodeRpcErrorPayloadValue p)
      = encodeRpcErrorPayloadValue (p\<lparr>payload_message := text_norm (payload_message p)\<rparr>)"
    "cbor_ok (encodeRpcErrorPayloadValue p)"
    by (simp_all add: encodeRpcErrorPayloadValue_def sort_entries_def)
  from decode_encode [OF assms [unfolded encodeCbor_def] n(2), of "[]"] show ?thesis
    by (simp add: systemErrorPayload_def decodeCbor_def n(1) decode_RpcErrorPayloadValue)
qed

lemma decode_credential:
  assumes "encodePairedSecretCredential c = Inr b"
  shows "decodePairedSecretCredential b =
    Inr \<lparr>credentialId = text_norm (credentialId c), credentialSecret = text_norm (credentialSecret c)\<rparr>"
proof -
  have n: "norm (encodePairedSecretCredentialValue c) = encodePairedSecretCredentialValue
      \<lparr>credentialId = text_norm (credentialId c), credentialSecret = text_norm (credentialSecret c)\<rparr>"
    "cbor_ok (encodePairedSecretCredentialValue c)"
    by (simp_all add: encodePairedSecretCredentialValue_def sort_entries_def)
  from assms have "encode (encodePairedSecretCredentialValue c) = Inr b"
    by (simp add: encodePairedSecretCredential_def encodeCbor_def)
  from decode_encode [OF this n(2), of "[]"] show ?thesis
    by (simp add: decodePairedSecretCredential_def decodeCbor_def n(1)
        decode_PairedSecretCredentialValue)
qed

section \<open>Properties\<close>

text \<open>The codec of a procedure whose request and response are raw CBOR values, for witnesses.\<close>

definition echo_proc :: "(cbor_value, cbor_value option) ProcCodec" where
  "echo_proc = \<lparr>proc_id = 7, proc_name = ''echo'', proc_stream = ''unary'', proc_requestType = ''value'',
     proc_responseType = ''value'', proc_errorType = ''none'', proc_encodeRequest = Inr,
     proc_decodeResponse = Inr,
     proc_decodeError = (\<lambda>v. Inr NotObject)\<rparr>"

lemmas client_eval = encode_single encodeReqResMessage_def toGeneratedReqResMessage_def
  message_def union_tuple_def set_payload_def cbor_eval echo_proc_def

text \<open>(C8) Server streams do not depend on how the transport cuts the bytes: if a run ends
  well, every other chunking of the same bytes gives the same run.\<close>

theorem server_stream_chunking:
  assumes "outcome (stream_loop proc [] cs None) = Inr ()" "concat cs' = concat cs"
  shows "stream_loop proc [] cs' None = stream_loop proc [] cs None"
proof -
  from assms(1) obtain ms where d: "wire_stream.drain [] cs = Inr (ms, [])"
    and h: "handle_messages proc ms = (yielded (stream_loop proc [] cs None), Inr ())"
    by (auto simp: stream_loop_ok)
  from stream_loop_drain [OF d h] stream_loop_drain [OF wire_stream.drain_eq [OF d assms(2)] h]
  show ?thesis by simp
qed

theorem server_stream_chunking_witness:
  "stream_loop echo_proc [] [[0x06], [0xa1, 0x02], [0x41, 0x05], []] None
     = stream_loop echo_proc [] [[0x06, 0xa1, 0x02, 0x41, 0x05]] None"
proof (rule server_stream_chunking)
  let ?m = "(message ResponseStreamChunk)\<lparr>rr_payload := Some [5]\<rparr>"
  have "encodeReqResMessageSequence [?m] = Inr (concat [[0x06, 0xa1, 0x02, 0x41, 0x05]])"
    by (simp add: client_eval)
  moreover have "emap (handle_message echo_proc) (map canonical [?m]) = Inr [Some (CNumber (JInt 5))]"
    by (simp add: handle_message_def canonical_def message_def echo_proc_def decode_5)
  ultimately show "outcome (stream_loop echo_proc [] [[0x06, 0xa1, 0x02, 0x41, 0x05]] None) = Inr ()"
    by (simp only: stream_delivers stream_run.simps)
qed simp

text \<open>A well-formed stream is delivered completely and in order: the values yielded are
  the decoded payloads of the messages the peer encoded, and the reader is not cancelled.\<close>

theorem server_stream_delivers:
  assumes "encodeReqResMessageSequence ms = Inr (concat cs)"
    and "emap (handle_message proc) (map canonical ms) = Inr vs"
  shows "stream_loop proc [] cs None = \<lparr>yielded = vs, outcome = Inr (), cancelled = False\<rparr>"
  using assms by (rule stream_delivers)

theorem server_stream_delivers_witness:
  "yielded (stream_loop echo_proc [] [[0x05], [0xa1, 0x02, 0x41], [0x05]] None)
   = [Some (CNumber (JInt 5))]"
proof -
  let ?m = "(message ResponseStreamStart)\<lparr>rr_payload := Some [5]\<rparr>"
  have e: "encodeReqResMessageSequence [?m] = Inr (concat [[0x05], [0xa1, 0x02, 0x41], [0x05]])"
    by (simp add: client_eval)
  have h: "emap (handle_message echo_proc) (map canonical [?m]) = Inr [Some (CNumber (JInt 5))]"
    by (simp add: handle_message_def canonical_def message_def echo_proc_def decode_5)
  from server_stream_delivers [OF e h] show ?thesis by simp
qed

text \<open>A unary call against a peer that answers with a system error throws the
  \<open>RpcError\<close> of that error's code and message.\<close>

theorem call_unary_system_error:
  assumes "encodeRequest proc request = Inr payload" "unary_request proc payload = Inr req"
    and "exchange [req] = Inr \<lparr>chunks = cs, read_error = None\<rparr>"
    and "encodeReqResMessageSequence
      [(message ResponseUnaryError)\<lparr>rr_error := Some err, rr_errorKind := Some System\<rparr>]
      = Inr (concat cs)"
    and "encodeCbor (encodeRpcErrorPayloadValue p) = Inr err"
  shows "callUnary exchange proc request
    = Inl (RpcError (rpcErrorCode (payload_code p)) (text_norm (payload_message p)))"
proof -
  have "sendUnary exchange proc payload
      = Inl (RpcError (rpcErrorCode (payload_code p)) (text_norm (payload_message p)))"
    using sendUnary_reply [of proc payload req exchange cs, OF assms(2-4)] decode_system_error [OF assms(5)]
    by (simp add: decodeUnaryResponse_def canonical_def message_def throwRpcError_def)
  with assms(1) show ?thesis by (simp add: callUnary_def)
qed

theorem call_unary_system_error_witness:
  "callUnary (\<lambda>ws. Inr \<lparr>chunks = [[0x04, 0xa2, 0x03], [0x46, 0xa2, 0x01, 0x07, 0x02, 0x61, 0x78,
       0x04, 0x01]], read_error = None\<rparr>) echo_proc None
   = Inl (RpcError (js ''notFound'') (js ''x''))"
proof -
  let ?p = "\<lparr>payload_code = NotFound, payload_message = js ''x''\<rparr>"
  let ?cs = "[[0x04, 0xa2, 0x03], [0x46, 0xa2, 0x01, 0x07, 0x02, 0x61, 0x78, 0x04, 0x01]] :: bytes list"
  have r: "encodeRequest echo_proc None = Inr None" by (simp add: encodeRequest_def)
  have u: "unary_request echo_proc None = Inr [0x00, 0xa1, 0x01, 0x07]"
    by (simp add: unary_request_def client_eval)
  have e: "encodeCbor (encodeRpcErrorPayloadValue ?p) = Inr [0xa2, 0x01, 0x07, 0x02, 0x61, 0x78]"
    by (simp add: encodeRpcErrorPayloadValue_def encodeRpcErrorCodeValue_def cbor_eval)
  have m: "encodeReqResMessageSequence
      [(message ResponseUnaryError)\<lparr>rr_error := Some [0xa2, 0x01, 0x07, 0x02, 0x61, 0x78],
        rr_errorKind := Some System\<rparr>] = Inr (concat ?cs)"
    by (simp add: client_eval encodeRpcErrorKindValue_def)
  have "callUnary (\<lambda>ws. Inr \<lparr>chunks = ?cs, read_error = None\<rparr>) echo_proc None
    = Inl (RpcError (rpcErrorCode (payload_code ?p)) (text_norm (payload_message ?p)))"
    by (rule call_unary_system_error [OF r u _ m e]) simp
  then show ?thesis by simp
qed

text \<open>The bytes a client stream writes are one start message with the procedure id and
  one chunk message per further payload, in order; an empty stream is refused.\<close>

theorem client_stream_messages:
  assumes "write_payloads proc False (map Inr payloads) = (written, Inr ())"
  shows "payloads \<noteq> [] \<and> decodeReqResMessageSequence (concat written)
    = Inr (stream_messages proc payloads)"
proof -
  from write_stream [OF assms] have e: "encodeReqResMessageSequence (stream_messages proc payloads)
      = Inr (concat written)" "payloads \<noteq> []" by simp_all
  have "map canonical (stream_messages proc payloads) = stream_messages proc payloads"
    by (cases payloads) (simp_all add: stream_messages_def canonical_def message_def)
  with e decode_sequence_encoded [OF e(1)] show ?thesis by simp
qed

theorem client_stream_messages_witness:
  "decodeReqResMessageSequence [0x01, 0xa2, 0x01, 0x07, 0x02, 0x41, 0x05, 0x02, 0xa1, 0x02, 0x40]
   = Inr (stream_messages echo_proc [[5], []])"
proof -
  have "write_payloads echo_proc False (map Inr [[5], []])
      = ([[0x01, 0xa2, 0x01, 0x07, 0x02, 0x41, 0x05], [0x02, 0xa1, 0x02, 0x40]], Inr ())"
    by (simp add: client_eval)
  from client_stream_messages [OF this] show ?thesis by simp
qed

text \<open>(C36) Authentication returns only when the request sent was the credential under the
  paired-secret mechanism and the peer answered with exactly one \<open>SessionAuthenticated\<close>.\<close>

theorem authenticate_sound:
  assumes "authenticateWebTransport exchange clientId clientSecret = Inr ()"
  shows "\<exists>request payload r bs m.
    decodeReqResMessageSequence request = Inr [(message SessionAuthenticate)
      \<lparr>rr_mechanism := Some PAIRED_SECRET_AUTH_MECHANISM, rr_payload := Some payload\<rparr>] \<and>
    decodePairedSecretCredential payload = Inr
      \<lparr>credentialId = text_norm clientId, credentialSecret = text_norm clientSecret\<rparr> \<and>
    exchange [request] = Inr r \<and> readAll r = Inr bs \<and>
    decodeReqResMessageSequence bs = Inr [m] \<and> rr_kind m = SessionAuthenticated"
proof -
  from assms obtain payload request r bs ms where
    c: "encodePairedSecretCredential \<lparr>credentialId = clientId, credentialSecret = clientSecret\<rparr>
      = Inr payload"
    and e: "encodeReqResMessageSequence [(message SessionAuthenticate)
      \<lparr>rr_mechanism := Some PAIRED_SECRET_AUTH_MECHANISM, rr_payload := Some payload\<rparr>] = Inr request"
    and x: "exchange [request] = Inr r" "readAll r = Inr bs" "decodeReqResMessageSequence bs = Inr ms"
    and m: "(case ms of [response] \<Rightarrow>
         if rr_kind response = SessionAuthError then
           Inl (RpcError (sessionAuthErrorCode (rr_authErrorCode response))
             (getOr (rr_message response) (js ''Session authentication failed'')))
         else if rr_kind response \<noteq> SessionAuthenticated then
           throw ''expected session authentication response''
         else Inr ()
     | _ \<Rightarrow> throw ''expected one session authentication response'') = Inr ()"
    unfolding authenticateWebTransport_def ebind_eq_Inr by blast
  from m obtain m' where "ms = [m']" "rr_kind m' = SessionAuthenticated"
    by (auto split: list.splits if_splits)
  moreover have "canonical ((message SessionAuthenticate)
      \<lparr>rr_mechanism := Some PAIRED_SECRET_AUTH_MECHANISM, rr_payload := Some payload\<rparr>)
    = (message SessionAuthenticate)
      \<lparr>rr_mechanism := Some PAIRED_SECRET_AUTH_MECHANISM, rr_payload := Some payload\<rparr>"
    by (simp add: canonical_def message_def PAIRED_SECRET_AUTH_MECHANISM_def)
  ultimately show ?thesis
    using decode_sequence_encoded [OF e] decode_credential [OF c] x
    by (intro exI [of _ request] exI [of _ payload] exI [of _ r] exI [of _ bs] exI [of _ m']) simp
qed

theorem authenticate_sound_witness:
  "\<exists>request payload r bs m.
    decodeReqResMessageSequence request = Inr [(message SessionAuthenticate)
      \<lparr>rr_mechanism := Some PAIRED_SECRET_AUTH_MECHANISM, rr_payload := Some payload\<rparr>] \<and>
    decodePairedSecretCredential payload = Inr
      \<lparr>credentialId = text_norm (js ''a''), credentialSecret = text_norm (js ''b'')\<rparr> \<and>
    (\<lambda>ws :: bytes list. Inr \<lparr>chunks = [[0x09], [0xa0]], read_error = None\<rparr> :: readable result) [request]
      = Inr r \<and> readAll r = Inr bs \<and>
    decodeReqResMessageSequence bs = Inr [m] \<and> rr_kind m = SessionAuthenticated"
proof (rule authenticate_sound)
  have c: "encodePairedSecretCredential \<lparr>credentialId = js ''a'', credentialSecret = js ''b''\<rparr>
      = Inr [0xa2, 0x01, 0x61, 0x61, 0x02, 0x61, 0x62]"
    by (simp add: encodePairedSecretCredential_def encodePairedSecretCredentialValue_def cbor_eval)
  let ?m = "(message SessionAuthenticate)\<lparr>rr_mechanism := Some PAIRED_SECRET_AUTH_MECHANISM,
    rr_payload := Some [0xa2, 0x01, 0x61, 0x61, 0x02, 0x61, 0x62]\<rparr>"
  have e: "\<exists>b. encodeReqResMessage ?m = Inr b"
    by (rule encodeReqResMessage_total)
      (simp_all add: complete_def sendable_def message_def sized_def sized_text_def
        PAIRED_SECRET_AUTH_MECHANISM_def cbor_eval)
  have "encodeReqResMessageSequence [message SessionAuthenticated] = Inr [0x09, 0xa0]"
    by (simp add: client_eval)
  from decode_sequence_encoded [OF this]
  have d: "decodeReqResMessageSequence [0x09, 0xa0] = Inr [message SessionAuthenticated]"
    by (simp add: canonical_def message_def)
  from c d e show "authenticateWebTransport
      (\<lambda>ws. Inr \<lparr>chunks = [[0x09], [0xa0]], read_error = None\<rparr>) (js ''a'') (js ''b'') = Inr ()"
    by (auto simp: authenticateWebTransport_def encode_single message_def)
qed

end
