(* ===== verification/JsString.thy ===== *)
theory JsString
  imports Prelude
begin

text \<open>
  The string and array operations of the JavaScript library the state modules use:
  \<open>trim\<close>, \<open>startsWith\<close>, \<open>indexOf\<close>, splitting at separators, \<open>join\<close>, and \<open>sort\<close> with a
  comparison function. \<open>localeCompare\<close> with its options is a parameter \<open>collate\<close> of the
  definitions that sort, a total preorder by its documentation.
\<close>

section \<open>Code units\<close>

definition u16 :: "char \<Rightarrow> 16 word" where
  "u16 c = of_nat (of_char c)"

lemma js_Cons: "js (c # s) = u16 c # js s"
  by (simp add: js_def u16_def)

lemma u16_inject [simp]: "u16 c = u16 d \<longleftrightarrow> c = d"
  by (simp add: u16_def of_char_word_inject)

text \<open>White space and line terminators, which \<open>trim\<close> removes at both ends.\<close>

definition white_space :: "16 word \<Rightarrow> bool" where
  "white_space w \<longleftrightarrow>
     w \<in> {9, 10, 11, 12, 13, 0x20, 0xA0, 0x1680, 0x2028, 0x2029, 0x202F, 0x205F, 0x3000, 0xFEFF} \<or>
     0x2000 \<le> w \<and> w \<le> 0x200A"

definition drop_trailing :: "('a \<Rightarrow> bool) \<Rightarrow> 'a list \<Rightarrow> 'a list" where
  "drop_trailing P xs = rev (dropWhile P (rev xs))"

definition trim :: "jstring \<Rightarrow> jstring" where
  "trim s = drop_trailing white_space (dropWhile white_space s)"

definition startsWith :: "'a list \<Rightarrow> 'a list \<Rightarrow> bool" where
  "startsWith s p \<longleftrightarrow> take (length p) s = p"

definition endsWith :: "'a list \<Rightarrow> 'a list \<Rightarrow> bool" where
  "endsWith s p \<longleftrightarrow> length p \<le> length s \<and> drop (length s - length p) s = p"

text \<open>\<open>lastIndexOf\<close> of a code unit, \<open>-1\<close> if it does not occur.\<close>

fun lastIndexOf :: "'a list \<Rightarrow> 'a \<Rightarrow> int" where
  "lastIndexOf [] c = -1"
| "lastIndexOf (x # xs) c =
     (let i = lastIndexOf xs c in if 0 \<le> i then i + 1 else if x = c then 0 else -1)"

text \<open>\<open>split(/P+/).filter(Boolean)\<close>: the maximal non-empty runs without a separator.\<close>

fun segments_from :: "('a \<Rightarrow> bool) \<Rightarrow> 'a list \<Rightarrow> 'a list \<Rightarrow> 'a list list" where
  "segments_from P cur [] = (if cur = [] then [] else [cur])"
| "segments_from P cur (x # xs) =
     (if P x then (if cur = [] then [] else [cur]) @ segments_from P [] xs
      else segments_from P (cur @ [x]) xs)"

definition segments :: "('a \<Rightarrow> bool) \<Rightarrow> 'a list \<Rightarrow> 'a list list" where
  "segments P xs = segments_from P [] xs"

fun join :: "'a list \<Rightarrow> 'a list list \<Rightarrow> 'a list" where
  "join sep [] = []"
| "join sep [x] = x"
| "join sep (x # y # zs) = x @ sep @ join sep (y # zs)"

lemma drop_trailing_length [simp]: "length (drop_trailing P xs) \<le> length xs"
  using length_dropWhile_le [of P "rev xs"] by (simp add: drop_trailing_def)

lemma drop_trailing_prefix: "\<exists>ys. xs = drop_trailing P xs @ ys \<and> (\<forall>y \<in> set ys. P y)"
proof -
  have "xs = rev (takeWhile P (rev xs) @ dropWhile P (rev xs))" by simp
  then have "xs = drop_trailing P xs @ rev (takeWhile P (rev xs))"
    unfolding drop_trailing_def by (metis rev_append)
  moreover have "\<forall>y \<in> set (rev (takeWhile P (rev xs))). P y" by (auto dest: set_takeWhileD)
  ultimately show ?thesis by blast
qed

lemma drop_trailing_Nil [simp]: "drop_trailing P [] = []"
  by (simp add: drop_trailing_def)

lemma drop_trailing_append:
  "drop_trailing P (xs @ ys) =
     (if \<forall>y \<in> set ys. P y then drop_trailing P xs else xs @ drop_trailing P ys)"
  by (auto simp: drop_trailing_def dropWhile_append)

lemma drop_trailing_last: "drop_trailing P xs \<noteq> [] \<Longrightarrow> \<not> P (last (drop_trailing P xs))"
  by (metis drop_trailing_def hd_dropWhile last_rev rev_is_Nil_conv)

lemma lastIndexOf_less: "lastIndexOf xs c < int (length xs)"
  by (induction xs) (auto simp: Let_def)

lemma lastIndexOf_ge: "- 1 \<le> lastIndexOf xs c"
  by (induction xs) (auto simp: Let_def)

lemma lastIndexOf_neg: "lastIndexOf xs c < 0 \<longleftrightarrow> c \<notin> set xs"
  by (induction xs) (auto simp: Let_def)

lemma lastIndexOf_nth: "0 \<le> lastIndexOf xs c \<Longrightarrow> xs ! nat (lastIndexOf xs c) = c"
proof (induction xs)
  case (Cons x xs)
  show ?case
  proof (cases "0 \<le> lastIndexOf xs c")
    case True
    then have "nat (lastIndexOf xs c + 1) = Suc (nat (lastIndexOf xs c))" by simp
    with True Cons show ?thesis by (simp add: Let_def)
  next
    case False
    with Cons.prems show ?thesis by (auto simp: Let_def split: if_splits)
  qed
qed simp

lemma segments_from_nonempty: "s \<in> set (segments_from P cur xs) \<Longrightarrow> s \<noteq> []"
  by (induction P cur xs rule: segments_from.induct) (auto split: if_splits)

lemma segments_from_free:
  "s \<in> set (segments_from P cur xs) \<Longrightarrow> \<forall>c \<in> set cur. \<not> P c \<Longrightarrow> \<forall>c \<in> set s. \<not> P c"
  by (induction P cur xs rule: segments_from.induct) (auto split: if_splits)

section \<open>Sorting with a comparison function\<close>

text \<open>
  \<open>Array.prototype.sort(cmp)\<close>. For a consistent comparison function the standard fixes the
  result: a permutation, ordered, and stable. Insertion computes it.
\<close>

fun insert_by :: "('a \<Rightarrow> 'a \<Rightarrow> int) \<Rightarrow> 'a \<Rightarrow> 'a list \<Rightarrow> 'a list" where
  "insert_by cmp x [] = [x]"
| "insert_by cmp x (y # ys) = (if cmp x y \<le> 0 then x # y # ys else y # insert_by cmp x ys)"

definition sort_by :: "('a \<Rightarrow> 'a \<Rightarrow> int) \<Rightarrow> 'a list \<Rightarrow> 'a list" where
  "sort_by cmp xs = foldr (insert_by cmp) xs []"

text \<open>A consistent comparison function, as the standard calls it.\<close>

definition comparison :: "('a \<Rightarrow> 'a \<Rightarrow> int) \<Rightarrow> bool" where
  "comparison cmp \<longleftrightarrow> (\<forall>x y. (cmp x y \<le> 0) = (0 \<le> cmp y x)) \<and>
     (\<forall>x y z. cmp x y \<le> 0 \<longrightarrow> cmp y z \<le> 0 \<longrightarrow> cmp x z \<le> 0)"

lemma comparisonD:
  assumes "comparison cmp"
  shows "\<not> cmp x y \<le> 0 \<Longrightarrow> cmp y x \<le> 0" "cmp x y \<le> 0 \<Longrightarrow> cmp y z \<le> 0 \<Longrightarrow> cmp x z \<le> 0"
  using assms unfolding comparison_def by (meson linear, blast)

lemma length_insert_by [simp]: "length (insert_by cmp x ys) = Suc (length ys)"
  by (induction ys) auto

lemma set_insert_by [simp]: "set (insert_by cmp x ys) = insert x (set ys)"
  by (induction ys) auto

lemma set_sort_by [simp]: "set (sort_by cmp xs) = set xs"
  unfolding sort_by_def by (induction xs) auto

lemma length_sort_by [simp]: "length (sort_by cmp xs) = length xs"
  unfolding sort_by_def by (induction xs) auto

lemma distinct_map_insert_by [simp]:
  "distinct (map k (insert_by cmp x ys)) \<longleftrightarrow> k x \<notin> k ` set ys \<and> distinct (map k ys)"
  by (induction ys) auto

lemma distinct_map_sort_by [simp]: "distinct (map k (sort_by cmp xs)) = distinct (map k xs)"
proof -
  have "set (foldr (insert_by cmp) xs []) = set xs" for xs
    using set_sort_by [of cmp xs] by (simp add: sort_by_def)
  then show ?thesis unfolding sort_by_def by (induction xs) auto
qed

lemma sorted_insert_by:
  assumes "comparison cmp"
  shows "sorted_wrt (\<lambda>x y. cmp x y \<le> 0) ys \<Longrightarrow> sorted_wrt (\<lambda>x y. cmp x y \<le> 0) (insert_by cmp x ys)"
proof (induction ys)
  case (Cons y ys)
  then have y: "\<forall>z \<in> set ys. cmp y z \<le> 0" and IH: "sorted_wrt (\<lambda>x y. cmp x y \<le> 0) (insert_by cmp x ys)"
    by simp_all
  show ?case
  proof (cases "cmp x y \<le> 0")
    case True
    then have "\<forall>z \<in> set ys. cmp x z \<le> 0" using y comparisonD(2) [OF assms] by blast
    with True Cons.prems show ?thesis by simp
  next
    case False
    with y IH comparisonD(1) [OF assms, of x y] show ?thesis by simp
  qed
qed simp

lemma sorted_sort_by: "comparison cmp \<Longrightarrow> sorted_wrt (\<lambda>x y. cmp x y \<le> 0) (sort_by cmp xs)"
  unfolding sort_by_def by (induction xs) (simp_all add: sorted_insert_by)

lemma filter_insert_by:
  "P x \<Longrightarrow> (\<And>y. y \<in> set ys \<Longrightarrow> P y \<Longrightarrow> cmp x y \<le> 0) \<Longrightarrow>
   filter P (insert_by cmp x ys) = x # filter P ys"
  by (induction ys) auto

lemma filter_insert_by_not: "\<not> P x \<Longrightarrow> filter P (insert_by cmp x ys) = filter P ys"
  by (induction ys) auto

text \<open>Stability: elements that compare equal to each other keep their order.\<close>

lemma stable_sort_by:
  assumes "\<And>x y. x \<in> set xs \<Longrightarrow> y \<in> set xs \<Longrightarrow> P x \<Longrightarrow> P y \<Longrightarrow> cmp x y = 0"
  shows "filter P (sort_by cmp xs) = filter P xs"
  using assms
proof (induction xs)
  case (Cons x xs)
  then have IH: "filter P (sort_by cmp xs) = filter P xs" by simp
  have "sort_by cmp (x # xs) = insert_by cmp x (sort_by cmp xs)" by (simp add: sort_by_def)
  moreover have "cmp x y \<le> 0" if "P x" "P y" "y \<in> set (sort_by cmp xs)" for y
    using Cons.prems [of x y] that by simp
  ultimately show ?case
    using IH filter_insert_by [of P x "sort_by cmp xs" cmp]
    by (cases "P x") (simp_all add: filter_insert_by_not)
qed (simp add: sort_by_def)

section \<open>Local storage\<close>

text \<open>
  \<open>localStorage\<close>: the items in insertion order and the quota, a predicate on the items that
  \<open>setItem\<close> consults. \<open>None\<close> is a document whose storage cannot be accessed.
\<close>

record storage =
  items :: "(jstring \<times> jstring) list"
  fits :: "(jstring \<times> jstring) list \<Rightarrow> bool"

definition getItem :: "storage \<Rightarrow> jstring \<Rightarrow> jstring option" where
  "getItem st k = map_of (items st) k"

fun put :: "'k \<Rightarrow> 'v \<Rightarrow> ('k \<times> 'v) list \<Rightarrow> ('k \<times> 'v) list" where
  "put k v [] = [(k, v)]"
| "put k v ((k', v') # m) = (if k' = k then (k, v) # m else (k', v') # put k v m)"

lemma map_of_put [simp]: "map_of (put k v m) = (map_of m)(k \<mapsto> v)"
  by (induction m) auto

lemma map_of_filter_key [simp]:
  "map_of (filter (\<lambda>(k', _). k' \<noteq> k) m) = (map_of m)(k := None)"
  by (induction m) auto

definition setItem :: "storage \<Rightarrow> jstring \<Rightarrow> jstring \<Rightarrow> storage result" where
  "setItem st k v =
     (let m = put k v (items st) in
      if fits st m then Inr (st\<lparr>items := m\<rparr>) else Inl (Error (js ''QuotaExceededError'')))"

definition removeItem :: "storage \<Rightarrow> jstring \<Rightarrow> storage" where
  "removeItem st k = st\<lparr>items := filter (\<lambda>(k', _). k' \<noteq> k) (items st)\<rparr>"

lemma getItem_setItem:
  "setItem st k v = Inr st' \<Longrightarrow> getItem st' k' = (if k' = k then Some v else getItem st k')"
  by (auto simp: setItem_def getItem_def Let_def split: if_splits)

lemma getItem_removeItem [simp]:
  "getItem (removeItem st k) k' = (if k' = k then None else getItem st k')"
  by (simp add: removeItem_def getItem_def)

lemma fits_setItem: "setItem st k v = Inr st' \<Longrightarrow> fits st' = fits st"
  by (auto simp: setItem_def Let_def split: if_splits)

end
