(* ===== verification/Tables.thy ===== *)
theory Tables
  imports JsString "HOL-Library.Multiset"
begin

text \<open>
  What the table subscriptions of the client share (roots, directory, shells here; the other
  tools follow the same scheme): a snapshot replaces the rows, a patch removes rows by key
  and replaces or adds others. The abstract view of the rows is a map from keys; the locale
  \<open>keyed_table\<close> proves what a patch means there. The second locale, \<open>subscription\<close>, is the
  cancellation protocol around every stream: starting again cancels the previous stream, and
  a cancelled stream's late events change nothing.
\<close>

section \<open>Stream states\<close>

datatype stream_phase = SIdle | SConnecting | SLive | SClosed | SError

record StreamState =
  stream_phase :: stream_phase
  stream_message :: jstring

definition stream_state :: "stream_phase \<Rightarrow> string \<Rightarrow> StreamState" where
  "stream_state p m = \<lparr>stream_phase = p, stream_message = js m\<rparr>"

section \<open>Rows as a map from keys\<close>

definition table_of :: "('row \<Rightarrow> 'k) \<Rightarrow> 'row list \<Rightarrow> 'k \<rightharpoonup> 'row" where
  "table_of key rows = map_of (map (\<lambda>r. (key r, r)) rows)"

lemma table_of_simps [simp]:
  "table_of key [] = Map.empty"
  "table_of key (r # rows) = (table_of key rows)(key r \<mapsto> r)"
  by (simp_all add: table_of_def)

lemma dom_table_of [simp]: "dom (table_of key rows) = key ` set rows"
  by (simp add: table_of_def dom_map_of_conv_image_fst image_image)

lemma table_of_None [simp]:
  "table_of key rows k = None \<longleftrightarrow> k \<notin> key ` set rows"
  "None = table_of key rows k \<longleftrightarrow> k \<notin> key ` set rows"
  by (metis domIff dom_table_of)+

lemma table_of_append [simp]: "table_of key (xs @ ys) = table_of key ys ++ table_of key xs"
  by (simp add: table_of_def)

lemma table_of_SomeD: "table_of key rows k = Some r \<Longrightarrow> r \<in> set rows \<and> key r = k"
  by (induction rows) (auto split: if_splits)

lemma table_of_filter: "table_of key (filter (\<lambda>r. key r \<in> K) rows) = table_of key rows |` K"
  by (induction rows) (auto simp: restrict_map_def fun_eq_iff)

lemma table_of_Some_iff:
  "distinct (map key rows) \<Longrightarrow> table_of key rows k = Some r \<longleftrightarrow> r \<in> set rows \<and> key r = k"
  by (induction rows) (auto simp: image_iff)

lemma table_of_cong:
  assumes "distinct (map key rows)" "mset rows' = mset rows"
  shows "table_of key rows' = table_of key rows"
proof
  fix k
  have d: "distinct (map key rows')"
    using assms by (metis distinct_map mset_eq_imp_distinct_iff mset_eq_setD)
  have "table_of key rows' k = Some r \<longleftrightarrow> table_of key rows k = Some r" for r
    using assms mset_eq_setD [OF assms(2)] by (simp add: table_of_Some_iff [OF d] table_of_Some_iff)
  then show "table_of key rows' k = table_of key rows k"
    by (metis option.exhaust)
qed

text \<open>\<open>rows.find((row) => key(row) === k)\<close> is a lookup in the map.\<close>

lemma find_table_of: "List.find (\<lambda>r. key r = k) rows = table_of key rows k"
  by (induction rows) auto

section \<open>Insertion-ordered maps\<close>

text \<open>The \<open>Map\<close> of the language, by its values: \<open>new Map(rows.map((row) => [key(row), row]))\<close>, \<open>set\<close>
  (in place when the key is there), \<open>delete\<close> and \<open>values()\<close>. An array whose rows are replaced in place
  by \<open>findIndex\<close> or appended by \<open>push\<close> behaves the same.\<close>

fun map_set :: "('row \<Rightarrow> 'k) \<Rightarrow> 'row \<Rightarrow> 'row list \<Rightarrow> 'row list" where
  "map_set key r [] = [r]"
| "map_set key r (x # xs) = (if key x = key r then r # xs else x # map_set key r xs)"

definition map_delete :: "('row \<Rightarrow> 'k) \<Rightarrow> 'k \<Rightarrow> 'row list \<Rightarrow> 'row list" where
  "map_delete key k xs = filter (\<lambda>r. key r \<noteq> k) xs"

definition new_map :: "('row \<Rightarrow> 'k) \<Rightarrow> 'row list \<Rightarrow> 'row list" where
  "new_map key = foldl (\<lambda>m r. map_set key r m) []"

lemma keys_map_set:
  "map key (map_set key r xs) = map key xs @ (if key r \<in> key ` set xs then [] else [key r])"
  by (induction xs) auto

lemma keys_map_sets:
  "key ` set (foldl (\<lambda>m r. map_set key r m) m rs) = key ` set m \<union> key ` set rs"
proof (induction rs arbitrary: m)
  case (Cons r rs)
  have "key ` set (map_set key r m) = insert (key r) (key ` set m)"
    using arg_cong [OF keys_map_set [of key r m], of set] by (auto split: if_splits)
  with Cons show ?case by auto
qed simp

lemma distinct_map_sets:
  "distinct (map key m) \<Longrightarrow> distinct (map key (foldl (\<lambda>m r. map_set key r m) m rs))"
  by (induction rs arbitrary: m) (auto simp: keys_map_set)

lemma distinct_new_map: "distinct (map key (new_map key rs))"
  by (simp add: new_map_def distinct_map_sets)

lemma mset_map_set:
  "distinct (map key xs) \<Longrightarrow>
   mset (map_set key r xs) = mset (filter (\<lambda>x. key x \<noteq> key r) xs @ [r])"
proof (induction xs)
  case (Cons x xs)
  show ?case
  proof (cases "key x = key r")
    case True
    with Cons.prems have "filter (\<lambda>x. key x \<noteq> key r) xs = xs"
      by (auto simp: filter_id_conv image_iff)
    with True show ?thesis by simp
  qed (use Cons in simp)
qed simp

lemma mset_map_sets:
  "distinct (map key m) \<Longrightarrow> distinct (map key rs) \<Longrightarrow>
   mset (foldl (\<lambda>m r. map_set key r m) m rs)
   = mset (filter (\<lambda>x. key x \<notin> key ` set rs) m @ rs)"
proof (induction rs arbitrary: m)
  case (Cons r rs)
  have "mset (foldl (\<lambda>m r. map_set key r m) (map_set key r m) rs)
      = mset (filter (\<lambda>x. key x \<notin> key ` set rs) (map_set key r m) @ rs)"
    using Cons.prems distinct_map_sets [of key m "[r]"] by (intro Cons.IH) auto
  also have "\<dots> = filter_mset (\<lambda>x. key x \<notin> key ` set rs) (mset (map_set key r m)) + mset rs"
    by simp
  also have "\<dots> = mset (filter (\<lambda>x. key x \<notin> key ` set (r # rs)) m @ r # rs)"
    using Cons.prems by (simp add: mset_map_set filter_filter_mset)
  finally show ?case by simp
qed simp

lemma new_map_distinct: "distinct (map key rs) \<Longrightarrow> mset (new_map key rs) = mset rs"
  by (simp add: new_map_def mset_map_sets)

lemma map_deletes:
  "foldl (\<lambda>m k. map_delete key k m) m ks = filter (\<lambda>r. key r \<notin> set ks) m"
  by (induction ks arbitrary: m) (auto simp: map_delete_def intro: filter_cong)

text \<open>The body of the patches: a map of the current rows, the deletions, then the upserts.\<close>

definition map_patch :: "('row \<Rightarrow> 'k) \<Rightarrow> 'row list \<Rightarrow> 'k list \<Rightarrow> 'row list \<Rightarrow> 'row list" where
  "map_patch key current removes upserts =
     foldl (\<lambda>m r. map_set key r m)
       (foldl (\<lambda>m k. map_delete key k m) (new_map key current) removes) upserts"

lemma mset_map_patch:
  assumes "distinct (map key current)" "distinct (map key upserts)"
  shows "mset (map_patch key current removes upserts) =
     mset (filter (\<lambda>r. key r \<notin> set removes \<union> key ` set upserts) current @ upserts)"
proof -
  have "distinct (map key (filter (\<lambda>r. key r \<notin> set removes) (new_map key current)))"
    by (simp add: distinct_map_filter distinct_new_map)
  then have "mset (map_patch key current removes upserts) =
      filter_mset (\<lambda>r. key r \<notin> set removes \<union> key ` set upserts) (mset (new_map key current)) + mset upserts"
    using assms(2) by (simp add: map_patch_def map_deletes mset_map_sets)
  then show ?thesis by (simp add: new_map_distinct [OF assms(1)])
qed

lemma distinct_map_patch: "distinct (map key (map_patch key current removes upserts))"
  by (simp add: map_patch_def map_deletes distinct_map_sets distinct_map_filter distinct_new_map)

section \<open>Patches\<close>

locale keyed_table =
  fixes key :: "'row \<Rightarrow> 'k"
    and apply_patch :: "'row list \<Rightarrow> 'k list \<Rightarrow> 'row list \<Rightarrow> 'row list"
  assumes apply_patch_rows:
    "distinct (map key current) \<Longrightarrow> distinct (map key upserts) \<Longrightarrow>
     mset (apply_patch current removes upserts) =
     mset (filter (\<lambda>r. key r \<notin> set removes \<union> key ` set upserts) current @ upserts)"
begin

lemma set_apply_patch:
  assumes "distinct (map key current)" "distinct (map key upserts)"
  shows "set (apply_patch current removes upserts) =
   {r \<in> set current. key r \<notin> set removes \<union> key ` set upserts} \<union> set upserts"
  using mset_eq_setD [OF apply_patch_rows [OF assms]] by auto

lemma distinct_apply_patch:
  assumes "distinct (map key current)" "distinct (map key upserts)"
  shows "distinct (map key (apply_patch current removes upserts))"
proof -
  let ?kept = "filter (\<lambda>r. key r \<notin> set removes \<union> key ` set upserts) current"
  have "mset (map key (apply_patch current removes upserts)) = mset (map key (?kept @ upserts))"
    using apply_patch_rows [OF assms] by (simp add: mset_map)
  moreover have "distinct (map key (?kept @ upserts))"
    using assms by (auto simp: distinct_map_filter)
  ultimately show ?thesis by (metis mset_eq_imp_distinct_iff)
qed

text \<open>The refinement: on the map, a patch deletes the removed keys and overrides with the
  upserts (an upsert wins over a removal of the same key).\<close>

lemma table_apply_patch:
  assumes "distinct (map key current)" "distinct (map key upserts)"
  shows "table_of key (apply_patch current removes upserts)
    = (table_of key current |` (- set removes)) ++ table_of key upserts"
proof -
  let ?K = "- (set removes \<union> key ` set upserts)"
  have f: "filter (\<lambda>r. key r \<notin> set removes \<union> key ` set upserts) current
      = filter (\<lambda>r. key r \<in> ?K) current" by simp
  have d: "distinct (map key (filter (\<lambda>r. key r \<in> ?K) current @ upserts))"
    using assms by (auto simp: distinct_map_filter)
  have "table_of key (apply_patch current removes upserts)
      = table_of key (filter (\<lambda>r. key r \<in> ?K) current @ upserts)"
    by (rule table_of_cong [OF d]) (simp only: apply_patch_rows [OF assms] f)
  also have "\<dots> = table_of key upserts ++ (table_of key current |` ?K)"
    by (simp only: table_of_append table_of_filter)
  also have "\<dots> = (table_of key current |` (- set removes)) ++ table_of key upserts"
  proof
    fix k
    show "(table_of key upserts ++ (table_of key current |` ?K)) k
        = ((table_of key current |` (- set removes)) ++ table_of key upserts) k"
    proof (cases "k \<in> key ` set upserts")
      case True
      then have "table_of key upserts k \<noteq> None" by (simp only: table_of_None) simp
      with True show ?thesis by (auto simp: map_add_def restrict_map_def split: option.splits)
    next
      case False
      then have "table_of key upserts k = None" by (simp only: table_of_None) simp
      with False show ?thesis
        by (simp only: map_add_def restrict_map_def) (auto split: option.splits)
    qed
  qed
  finally show ?thesis .
qed

text \<open>Sending the same patch again changes nothing on the map.\<close>

lemma table_patch_idem:
  assumes "distinct (map key current)" "distinct (map key upserts)"
  shows "table_of key (apply_patch (apply_patch current removes upserts) removes upserts)
    = table_of key (apply_patch current removes upserts)"
  using assms
  by (simp add: table_apply_patch distinct_apply_patch)
    (auto simp: map_add_def restrict_map_def fun_eq_iff split: option.splits
      dest!: table_of_SomeD)

end

section \<open>Cancelled streams\<close>

text \<open>
  Each call of \<open>start\<close> has its own \<open>cancelled\<close> flag, which the next call sets. The streams
  are numbered by the calls; \<open>live\<close> is the number of the stream that is not cancelled.
  \<open>deliver g ev\<close> is what happens when stream \<open>g\<close> produces \<open>ev\<close> (a row event, or a failure).
\<close>

locale subscription =
  fixes started :: "'s \<Rightarrow> nat"
    and live :: "'s \<Rightarrow> nat option"
    and start :: "'a \<Rightarrow> 's \<Rightarrow> 's"
    and deliver :: "nat \<Rightarrow> 'ev \<Rightarrow> 's \<Rightarrow> 's"
  assumes start_started: "started (start a s) = Suc (started s)"
    and start_live: "live (start a s) = Some (started s) \<or> live (start a s) = None"
    and deliver_cancelled: "live s \<noteq> Some g \<Longrightarrow> deliver g ev s = s"
    and deliver_started: "started s \<le> started (deliver g ev s)"
    and deliver_live: "live (deliver g ev s) = live s \<or>
      (\<forall>h. live (deliver g ev s) = Some h \<longrightarrow> started s \<le> h \<and> h < started (deliver g ev s))"
begin

definition numbered :: "'s \<Rightarrow> bool" where
  "numbered s \<longleftrightarrow> (\<forall>g. live s = Some g \<longrightarrow> g < started s)"

lemma start_numbered: "numbered (start a s)"
  using start_live [of a s] by (auto simp: numbered_def start_started)

lemma deliver_numbered: "numbered s \<Longrightarrow> numbered (deliver g ev s)"
  using deliver_live [of g ev s] deliver_started [of s g ev] by (fastforce simp: numbered_def)

text \<open>After a restart, whatever the streams opened before still produce is dropped.\<close>

lemma restart_drops:
  assumes "numbered s" "\<forall>(g, ev) \<in> set evs. g < started s"
  shows "foldl (\<lambda>s (g, ev). deliver g ev s) (start a s) evs = start a s"
  using assms(2)
proof (induction evs)
  case (Cons e evs)
  obtain g ev where e: "e = (g, ev)" by (cases e)
  with Cons.prems start_live [of a s] have "live (start a s) \<noteq> Some g" by auto
  with Cons e show ?case by (simp add: deliver_cancelled)
qed simp

end

end
