(* ===== verification/Machines.thy ===== *)
theory Machines
  imports Tables Cbor
begin

text \<open>
  \<open>web/src/state/machines.ts\<close>, \<open>machine-store.ts\<close> and \<open>machine-menu.ts\<close>: the list of machines,
  its normalised URLs, its copy in local storage, and the selection.

  Two functions of the platform are parameters: \<open>url_parse\<close> is \<open>new URL(s)\<close> (WHATWG URL, which
  lower-cases hosts, resolves dot segments and drops the default port of a scheme), and
  \<open>json_parse\<close>, \<open>json_stringify\<close> are \<open>JSON.parse\<close> and \<open>JSON.stringify\<close>. A parsed URL is a
  record of the attributes the source reads and sets, with the setters' effects written out.
\<close>

section \<open>URLs\<close>

record url =
  protocol :: jstring
  userinfo :: jstring
  hostname :: jstring
  port :: jstring
  pathname :: jstring
  search :: jstring
  fragment :: jstring

text \<open>\<open>url.toString()\<close> for a URL with a host; the setter of \<open>pathname\<close> never leaves it empty.\<close>

definition url_toString :: "url \<Rightarrow> jstring" where
  "url_toString u = protocol u @ js ''//'' @ userinfo u @ hostname u @
     (if port u = [] then [] else js '':'' @ port u) @ pathname u @ search u @ fragment u"

definition set_pathname :: "url \<Rightarrow> jstring \<Rightarrow> url" where
  "set_pathname u p = u\<lparr>pathname := if p = [] then js ''/'' else p\<rparr>"

definition is_letter :: "16 word \<Rightarrow> bool" where
  "is_letter c \<longleftrightarrow> u16 CHR ''a'' \<le> c \<and> c \<le> u16 CHR ''z'' \<or> u16 CHR ''A'' \<le> c \<and> c \<le> u16 CHR ''Z''"

definition is_digit :: "16 word \<Rightarrow> bool" where
  "is_digit c \<longleftrightarrow> u16 CHR ''0'' \<le> c \<and> c \<le> u16 CHR ''9''"

text \<open>The test \<open>/^[a-z][a-z0-9+.-]*:\/\//i\<close>.\<close>

definition has_scheme :: "jstring \<Rightarrow> bool" where
  "has_scheme s =
     (case s of
        [] \<Rightarrow> False
      | c # cs \<Rightarrow> is_letter c \<and>
          startsWith (dropWhile (\<lambda>d. is_letter d \<or> is_digit d \<or> d \<in> set (js ''+.-'')) cs) (js ''://''))"

text \<open>\<open>rawUrl.slice(rawUrl.indexOf("://") + 3)\<close>; when \<open>indexOf\<close> gives \<open>-1\<close> that is \<open>slice(2)\<close>.\<close>

fun after_scheme :: "jstring \<Rightarrow> jstring option" where
  "after_scheme [] = None"
| "after_scheme (c # cs) =
     (if startsWith (c # cs) (js ''://'') then Some (drop 3 (c # cs)) else after_scheme cs)"

definition ends_with_port :: "jstring \<Rightarrow> bool" where
  "ends_with_port s =
     (let rest = drop_trailing is_digit s in
      rest \<noteq> s \<and> rest \<noteq> [] \<and> last rest = u16 CHR '':'')"

text \<open>\<open>/^\[[^\]]+\]:\d+$/\<close>: a bracketed host without \<open>]\<close> inside, a colon, digits.\<close>

definition bracketed_with_port :: "jstring \<Rightarrow> bool" where
  "bracketed_with_port s =
     (let inside = takeWhile (\<lambda>c. c \<noteq> u16 CHR '']'') (drop 1 s);
          rest = drop (Suc (length inside)) s in
      startsWith s (js ''['') \<and> inside \<noteq> [] \<and> startsWith rest (js '']:'') \<and>
      drop 2 rest \<noteq> [] \<and> list_all is_digit (drop 2 rest))"

definition hasExplicitPort :: "jstring \<Rightarrow> bool" where
  "hasExplicitPort rawUrl =
     (let authority = takeWhile (\<lambda>c. c \<notin> set (js ''/?#'')) (getOr (after_scheme rawUrl) (drop 2 rawUrl)) in
      if startsWith authority (js ''['') then bracketed_with_port authority
      else ends_with_port authority)"

definition DEFAULT_MACHINE_PORT :: jstring where
  "DEFAULT_MACHINE_PORT = js ''9012''"

definition is_slash :: "16 word \<Rightarrow> bool" where
  "is_slash c \<longleftrightarrow> c = u16 CHR ''/''"

definition normalized_url :: "bool \<Rightarrow> url \<Rightarrow> url" where
  "normalized_url hasPort u =
     (let u = (if \<not> hasPort then u\<lparr>port := DEFAULT_MACHINE_PORT\<rparr> else u);
          u = set_pathname u (drop_trailing is_slash (pathname u))
      in u\<lparr>search := [], fragment := []\<rparr>)"

definition strip_slash :: "jstring \<Rightarrow> jstring" where
  "strip_slash s = (if endsWith s (js ''/'') then butlast s else s)"

definition with_scheme :: "jstring \<Rightarrow> jstring" where
  "with_scheme s = (if has_scheme s then s else js ''https://'' @ s)"

definition normalizeMachineUrl :: "(jstring \<Rightarrow> url result) \<Rightarrow> jstring \<Rightarrow> jstring result" where
  "normalizeMachineUrl url_parse raw =
     (let withScheme = with_scheme (trim raw);
          hasPort = hasExplicitPort withScheme in
      ebind (url_parse withScheme) (\<lambda>u.
      if protocol u \<noteq> js ''https:'' then throw ''Machine URL must use https''
      else Inr (strip_slash (url_toString (normalized_url hasPort u)))))"

section \<open>Machines\<close>

record Machine =
  m_id :: jstring
  m_name :: jstring
  m_baseUrl :: jstring
  m_clientId :: "jstring option"
  m_clientSecret :: "jstring option"
  m_expiresAtUnix :: "int option"

datatype json =
    JsonNull
  | JsonBool bool
  | JsonNumber js_number
  | JsonString jstring
  | JsonArray "json list"
  | JsonObject "(jstring \<times> json) list"

definition json_string :: "(jstring \<times> json) list \<Rightarrow> string \<Rightarrow> jstring option" where
  "json_string props k =
     (case map_of props (js k) of Some (JsonString s) \<Rightarrow> Some s | _ \<Rightarrow> None)"

text \<open>\<open>normalizeMachine\<close>: a stored item becomes a machine, or is dropped.\<close>

definition normalizeMachine :: "(jstring \<Rightarrow> url result) \<Rightarrow> json \<Rightarrow> Machine option" where
  "normalizeMachine url_parse item =
     (case item of
        JsonObject props \<Rightarrow>
          (case (json_string props ''id'', json_string props ''baseUrl'') of
             (Some i, Some base) \<Rightarrow>
               (case ebind (normalizeMachineUrl url_parse base) (\<lambda>baseUrl.
                  ebind (case json_string props ''name'' of
                      Some n \<Rightarrow> if trim n \<noteq> [] then Inr n
                        else ebind (url_parse baseUrl) (\<lambda>u. Inr (hostname u))
                    | None \<Rightarrow> ebind (url_parse baseUrl) (\<lambda>u. Inr (hostname u))) (\<lambda>name.
                  Inr \<lparr>m_id = i, m_name = name, m_baseUrl = baseUrl,
                    m_clientId = json_string props ''clientId'',
                    m_clientSecret = json_string props ''clientSecret'',
                    m_expiresAtUnix =
                      (case map_of props (js ''clientCredentialExpiresAtUnix'') of
                         Some (JsonNumber (JInt n)) \<Rightarrow> if isSafeInteger n then Some n else None
                       | _ \<Rightarrow> None)\<rparr>)) of
                  Inl err \<Rightarrow> None
                | Inr m \<Rightarrow> Some m)
           | _ \<Rightarrow> None)
      | _ \<Rightarrow> None)"

definition normalizeStoredMachine :: "(jstring \<Rightarrow> url result) \<Rightarrow> Machine \<Rightarrow> Machine result" where
  "normalizeStoredMachine url_parse m =
     ebind (normalizeMachineUrl url_parse (m_baseUrl m)) (\<lambda>u. Inr (m\<lparr>m_baseUrl := u\<rparr>))"

definition STORAGE_KEY :: jstring where
  "STORAGE_KEY = js ''wgo.machines.v1''"

text \<open>What \<open>JSON.stringify\<close> makes of a machine: properties that are \<open>undefined\<close> are left out.\<close>

definition json_prop :: "string \<Rightarrow> ('a \<Rightarrow> json) \<Rightarrow> 'a option \<Rightarrow> (jstring \<times> json) list" where
  "json_prop k f v = (case v of None \<Rightarrow> [] | Some a \<Rightarrow> [(js k, f a)])"

definition machine_json :: "Machine \<Rightarrow> json" where
  "machine_json m = JsonObject
     ([(js ''id'', JsonString (m_id m)), (js ''name'', JsonString (m_name m)),
       (js ''baseUrl'', JsonString (m_baseUrl m))] @
      json_prop ''clientId'' JsonString (m_clientId m) @
      json_prop ''clientSecret'' JsonString (m_clientSecret m) @
      json_prop ''clientCredentialExpiresAtUnix'' (\<lambda>n. JsonNumber (JInt n)) (m_expiresAtUnix m))"

definition loadMachines ::
    "(jstring \<Rightarrow> url result) \<Rightarrow> (jstring \<Rightarrow> json result) \<Rightarrow> storage \<Rightarrow> Machine list" where
  "loadMachines url_parse json_parse st =
     (case getItem st STORAGE_KEY of
        None \<Rightarrow> []
      | Some raw \<Rightarrow>
          if raw = [] then []
          else case json_parse raw of
            Inr (JsonArray vs) \<Rightarrow> List.map_filter (normalizeMachine url_parse) vs
          | _ \<Rightarrow> [])"

definition saveMachines ::
    "(jstring \<Rightarrow> url result) \<Rightarrow> (json \<Rightarrow> jstring) \<Rightarrow> Machine list \<Rightarrow> storage \<Rightarrow> storage result" where
  "saveMachines url_parse json_stringify ms st =
     ebind (emap (normalizeStoredMachine url_parse) ms) (\<lambda>ms.
     setItem st STORAGE_KEY (json_stringify (JsonArray (map machine_json ms))))"

section \<open>The machine store\<close>

definition SELECTED_MACHINE_STORAGE_KEY :: jstring where
  "SELECTED_MACHINE_STORAGE_KEY = js ''wgo.selected-machine-id.v1''"

record machine_store =
  machines :: "Machine list"
  selectedId :: "jstring option"

definition getMachine :: "Machine list \<Rightarrow> jstring option \<Rightarrow> Machine option" where
  "getMachine ms machineId = List.find (\<lambda>m. Some (m_id m) = machineId) ms"

definition truthy :: "jstring option \<Rightarrow> bool" where
  "truthy v = (case v of None \<Rightarrow> False | Some s \<Rightarrow> s \<noteq> [])"

definition isPaired :: "Machine option \<Rightarrow> bool" where
  "isPaired m =
     (case m of None \<Rightarrow> False | Some m \<Rightarrow> truthy (m_clientId m) \<and> truthy (m_clientSecret m))"

definition loadSelectedMachineId :: "storage \<Rightarrow> Machine list \<Rightarrow> jstring option" where
  "loadSelectedMachineId st ms =
     (let stored = getItem st SELECTED_MACHINE_STORAGE_KEY in
      if truthy stored \<and> getMachine ms stored \<noteq> None then stored
      else map_option m_id (head ms))"

definition saveSelectedMachineId :: "jstring option \<Rightarrow> storage \<Rightarrow> storage result" where
  "saveSelectedMachineId machineId st =
     (case machineId of
        Some i \<Rightarrow>
          if i \<noteq> [] then setItem st SELECTED_MACHINE_STORAGE_KEY i
          else Inr (removeItem st SELECTED_MACHINE_STORAGE_KEY)
      | None \<Rightarrow> Inr (removeItem st SELECTED_MACHINE_STORAGE_KEY))"

definition initial_store ::
    "(jstring \<Rightarrow> url result) \<Rightarrow> (jstring \<Rightarrow> json result) \<Rightarrow> storage \<Rightarrow> machine_store" where
  "initial_store url_parse json_parse st =
     (let ms = loadMachines url_parse json_parse st in
      \<lparr>machines = ms, selectedId = loadSelectedMachineId st ms\<rparr>)"

definition selected :: "machine_store \<Rightarrow> Machine option" where
  "selected s = getMachine (machines s) (selectedId s)"

definition selectMachine :: "jstring option \<Rightarrow> machine_store \<Rightarrow> machine_store" where
  "selectMachine machineId s = s\<lparr>selectedId := machineId\<rparr>"

definition findMachine :: "jstring option \<Rightarrow> machine_store \<Rightarrow> Machine option" where
  "findMachine machineId s = getMachine (machines s) machineId"

definition addMachine :: "Machine \<Rightarrow> machine_store \<Rightarrow> machine_store" where
  "addMachine m s = s\<lparr>machines := machines s @ [m], selectedId := Some (m_id m)\<rparr>"

definition updateMachine :: "jstring \<Rightarrow> (Machine \<Rightarrow> Machine) \<Rightarrow> machine_store \<Rightarrow> machine_store" where
  "updateMachine machineId update s =
     s\<lparr>machines := map (\<lambda>m. if m_id m = machineId then update m else m) (machines s)\<rparr>"

definition setMachineCredentials ::
    "jstring \<Rightarrow> jstring \<Rightarrow> jstring \<Rightarrow> int \<Rightarrow> machine_store \<Rightarrow> machine_store" where
  "setMachineCredentials machineId clientId clientSecret expires =
     updateMachine machineId (\<lambda>m. m\<lparr>m_clientId := Some clientId, m_clientSecret := Some clientSecret,
       m_expiresAtUnix := Some expires\<rparr>)"

definition clearMachineCredentials :: "jstring \<Rightarrow> machine_store \<Rightarrow> machine_store" where
  "clearMachineCredentials machineId =
     updateMachine machineId (\<lambda>m. m\<lparr>m_clientSecret := None\<rparr>)"

definition setMachineCredentialExpiry :: "jstring \<Rightarrow> int \<Rightarrow> machine_store \<Rightarrow> machine_store" where
  "setMachineCredentialExpiry machineId expires =
     updateMachine machineId (\<lambda>m. m\<lparr>m_expiresAtUnix := Some expires\<rparr>)"

definition deleteSelectedMachine :: "machine_store \<Rightarrow> Machine option \<times> machine_store" where
  "deleteSelectedMachine s =
     (case selected s of
        None \<Rightarrow> (None, s)
      | Some m \<Rightarrow>
          let remaining = filter (\<lambda>m'. m_id m' \<noteq> m_id m) (machines s) in
          (Some m, \<lparr>machines = remaining,
             selectedId = (if selectedId s = Some (m_id m) then map_option m_id (head remaining)
               else selectedId s)\<rparr>))"

text \<open>The two store subscriptions: what an operation leaves in local storage.\<close>

definition persist ::
    "(jstring \<Rightarrow> url result) \<Rightarrow> (json \<Rightarrow> jstring) \<Rightarrow> machine_store \<Rightarrow> storage \<Rightarrow> storage result" where
  "persist url_parse json_stringify s st =
     ebind (saveMachines url_parse json_stringify (machines s) st)
       (saveSelectedMachineId (selectedId s))"

section \<open>The machine menu\<close>

record MachineMenuState =
  menu_machineId :: jstring
  menu_x :: int
  menu_y :: int

record RailTooltipState =
  tip_name :: jstring
  tip_x :: int
  tip_y :: int

record machine_menu =
  machineMenu :: "MachineMenuState option"
  railTooltip :: "RailTooltipState option"

text \<open>Positions are clamped to the window, \<open>w\<close> by \<open>h\<close> pixels.\<close>

definition openMachineMenu ::
    "int \<Rightarrow> int \<Rightarrow> jstring \<Rightarrow> int \<Rightarrow> int \<Rightarrow> machine_menu \<times> machine_store \<Rightarrow> machine_menu \<times> machine_store" where
  "openMachineMenu w h machineId x y = (\<lambda>(menu, s).
     (menu\<lparr>railTooltip := None, machineMenu := Some \<lparr>menu_machineId = machineId,
        menu_x = max 8 (min x (w - 190)), menu_y = max 8 (min y (h - 150))\<rparr>\<rparr>,
      selectMachine (Some machineId) s))"

definition closeMachineMenu :: "machine_menu \<Rightarrow> machine_menu" where
  "closeMachineMenu menu = menu\<lparr>machineMenu := None\<rparr>"

definition menu_selectMachine ::
    "jstring \<Rightarrow> machine_menu \<times> machine_store \<Rightarrow> machine_menu \<times> machine_store" where
  "menu_selectMachine machineId = (\<lambda>(menu, s).
     (menu\<lparr>railTooltip := None, machineMenu := None\<rparr>, selectMachine (Some machineId) s))"

definition showRailTooltip :: "jstring \<Rightarrow> int \<Rightarrow> int \<Rightarrow> machine_menu \<Rightarrow> machine_menu" where
  "showRailTooltip name x y menu = menu\<lparr>railTooltip := Some \<lparr>tip_name = name, tip_x = x, tip_y = y\<rparr>\<rparr>"

definition hideRailTooltip :: "machine_menu \<Rightarrow> machine_menu" where
  "hideRailTooltip menu = menu\<lparr>railTooltip := None\<rparr>"

definition menuMachine :: "machine_menu \<Rightarrow> machine_store \<Rightarrow> Machine option" where
  "menuMachine menu s =
     List.find (\<lambda>m. Some (m_id m) = map_option menu_machineId (machineMenu menu)) (machines s)"

section \<open>Lemmas\<close>

lemma getMachine_SomeD: "getMachine ms i = Some m \<Longrightarrow> m \<in> set ms \<and> i = Some (m_id m)"
  by (auto simp: getMachine_def dest: find_SomeD)

lemma getMachine_map:
  "(\<And>m. m_id (f m) = m_id m) \<Longrightarrow> getMachine (map f ms) i = map_option f (getMachine ms i)"
  by (induction ms) (auto simp: getMachine_def)

lemma json_string_machine [simp]:
  "machine_json m = JsonObject props \<Longrightarrow> json_string props ''id'' = Some (m_id m)"
  "machine_json m = JsonObject props \<Longrightarrow> json_string props ''name'' = Some (m_name m)"
  "machine_json m = JsonObject props \<Longrightarrow> json_string props ''baseUrl'' = Some (m_baseUrl m)"
  "machine_json m = JsonObject props \<Longrightarrow> json_string props ''clientId'' = m_clientId m"
  "machine_json m = JsonObject props \<Longrightarrow> json_string props ''clientSecret'' = m_clientSecret m"
  "machine_json m = JsonObject props \<Longrightarrow> map_of props (js ''clientCredentialExpiresAtUnix'')
     = map_option (\<lambda>n. JsonNumber (JInt n)) (m_expiresAtUnix m)"
  by (auto simp: machine_json_def json_string_def json_prop_def split: option.splits)

definition stored_ok :: "(jstring \<Rightarrow> url result) \<Rightarrow> Machine \<Rightarrow> bool" where
  "stored_ok url_parse m \<longleftrightarrow> normalizeMachineUrl url_parse (m_baseUrl m) = Inr (m_baseUrl m) \<and>
     trim (m_name m) \<noteq> [] \<and> (\<forall>n. m_expiresAtUnix m = Some n \<longrightarrow> isSafeInteger n)"

lemma normalize_machine_json:
  assumes "stored_ok url_parse m"
  shows "normalizeMachine url_parse (machine_json m) = Some m"
proof -
  obtain props where p: "machine_json m = JsonObject props" by (simp add: machine_json_def)
  show ?thesis
    using assms
    by (cases "m_expiresAtUnix m")
      (simp_all add: p normalizeMachine_def stored_ok_def json_string_machine [OF p])
qed

text \<open>The operations of the store, as they are called: with ids of machines that exist, a fresh
  id for a new machine, and updates that keep the id.\<close>

inductive store_step :: "machine_store \<Rightarrow> machine_store \<Rightarrow> bool" where
  select: "findMachine (Some i) s \<noteq> None \<Longrightarrow> store_step s (selectMachine (Some i) s)"
| add: "store_step s (addMachine m s)"
| update: "(\<And>m. m_id (f m) = m_id m) \<Longrightarrow> store_step s (updateMachine i f s)"
| credentials: "store_step s (setMachineCredentials i cid secret expires s)"
| clear: "store_step s (clearMachineCredentials i s)"
| expiry: "store_step s (setMachineCredentialExpiry i expires s)"
| delete: "store_step s (snd (deleteSelectedMachine s))"

text \<open>A machine is selected whenever there is one, and the selected id is one of the list's.\<close>

definition selected_ok :: "machine_store \<Rightarrow> bool" where
  "selected_ok s \<longleftrightarrow> (if machines s = [] then selectedId s = None else selected s \<noteq> None)"

lemma getMachine_None: "getMachine ms i = None \<longleftrightarrow> (\<forall>m \<in> set ms. i \<noteq> Some (m_id m))"
  by (auto simp: getMachine_def find_None_iff)

lemma getMachine_head [simp]: "getMachine ms (map_option m_id (head ms)) = None \<longleftrightarrow> ms = []"
  by (cases ms) (auto simp: getMachine_None)

lemma getMachine_Nil [simp]: "getMachine [] i = None"
  by (simp add: getMachine_def)

lemma initial_selected_ok: "selected_ok (initial_store url_parse json_parse st)"
  by (simp add: selected_ok_def initial_store_def loadSelectedMachineId_def selected_def Let_def
      del: not_None_eq)

lemma update_selected_ok:
  "(\<And>m. m_id (f m) = m_id m) \<Longrightarrow> selected_ok s \<Longrightarrow> selected_ok (updateMachine i f s)"
  by (simp add: selected_ok_def updateMachine_def selected_def getMachine_map
      del: not_None_eq split: if_splits)

lemma delete_selected_ok: "selected_ok s \<Longrightarrow> selected_ok (snd (deleteSelectedMachine s))"
  by (auto simp: selected_ok_def deleteSelectedMachine_def selected_def Let_def
      simp del: not_None_eq split: option.splits if_splits dest: getMachine_SomeD)

lemma step_selected_ok: "store_step s s' \<Longrightarrow> selected_ok s \<Longrightarrow> selected_ok s'"
proof (induction rule: store_step.induct)
  case (select i s)
  then show ?case
    by (auto simp: selected_ok_def selectMachine_def selected_def findMachine_def getMachine_None)
next
  case (add s m)
  then show ?case by (auto simp: selected_ok_def addMachine_def selected_def getMachine_None)
qed (auto intro: update_selected_ok delete_selected_ok
    simp: setMachineCredentials_def clearMachineCredentials_def setMachineCredentialExpiry_def)

text \<open>Evaluation of the URL functions on literals, for the witnesses.\<close>

lemmas url_eval = js_def u16_def trim_def white_space_def drop_trailing_def is_letter_def
  is_digit_def is_slash_def startsWith_def endsWith_def strip_slash_def url_toString_def
  normalized_url_def set_pathname_def hasExplicitPort_def ends_with_port_def has_scheme_def
  DEFAULT_MACHINE_PORT_def Let_def

lemma with_scheme_https: "startsWith s (js ''https://'') \<Longrightarrow> with_scheme s = s"
proof -
  assume "startsWith s (js ''https://'')"
  then obtain r where "s = js ''https://'' @ r"
    by (metis append_take_drop_id startsWith_def)
  then show ?thesis
    by (simp add: with_scheme_def has_scheme_def js_def u16_def is_letter_def is_digit_def startsWith_def)
qed

text \<open>What a parsed \<open>https\<close> URL looks like: the host (with any user info) has no delimiter of
  the authority, a bracketed host closes its bracket, the port is digits, the path absolute.\<close>

definition parsed_https :: "url \<Rightarrow> bool" where
  "parsed_https u \<longleftrightarrow> protocol u = js ''https:'' \<and>
     (\<forall>c \<in> set (userinfo u @ hostname u). c \<notin> set (js ''/?#'')) \<and>
     (startsWith (userinfo u @ hostname u) (js ''['') \<longrightarrow>
       (\<exists>inside. userinfo u @ hostname u = js ''['' @ inside @ js '']'' \<and> inside \<noteq> [] \<and>
         u16 CHR '']'' \<notin> set inside)) \<and>
     list_all is_digit (port u) \<and> startsWith (pathname u) (js ''/'')"

lemma digit_not_delimiter: "is_digit c \<Longrightarrow> c \<notin> set (js ''/?#'') \<and> c \<noteq> u16 CHR '':''"
  by (auto simp: is_digit_def js_def u16_def word_le_nat_alt)

lemma after_https: "after_scheme (js ''https://'' @ rest) = Some rest"
  by (simp add: js_def u16_def startsWith_def)

lemma takeWhile_delim:
  assumes "\<forall>c \<in> set a. c \<notin> set D" "b = [] \<or> hd b \<in> set D"
  shows "takeWhile (\<lambda>c. c \<notin> set D) (a @ b) = a"
  using assms by (cases b) (simp_all add: takeWhile_append2)

lemma drop_trailing_all: "\<forall>y \<in> set ys. P y \<Longrightarrow> drop_trailing P (xs @ ys) = drop_trailing P xs"
  by (simp add: drop_trailing_append)

lemma authority_has_port:
  assumes "list_all is_digit p" "p \<noteq> []"
    and "startsWith h (js ''['') \<longrightarrow> (\<exists>inside. h = js ''['' @ inside @ js '']'' \<and> inside \<noteq> [] \<and>
      u16 CHR '']'' \<notin> set inside)"
  shows "let a = h @ js '':'' @ p in
    if startsWith a (js ''['') then bracketed_with_port a else ends_with_port a"
proof (cases "startsWith (h @ js '':'' @ p) (js ''['')")
  case True
  then have "startsWith h (js ''['')"
    by (cases h) (auto simp: startsWith_def js_def)
  with assms(3) obtain i where i: "h = js ''['' @ i @ js '']''" "i \<noteq> []" "u16 CHR '']'' \<notin> set i" by blast
  let ?a = "h @ js '':'' @ p"
  have d: "drop 1 ?a = i @ js '']:'' @ p" using i(1) by (simp add: js_def)
  have t: "takeWhile (\<lambda>c. c \<noteq> u16 CHR '']'') (drop 1 ?a) = i"
    unfolding d using i(3) by (subst takeWhile_append2) (auto simp: js_Cons)
  have r: "drop (Suc (length i)) ?a = js '']:'' @ p" using i(1) by (simp add: js_def)
  have "startsWith (js '']:'' @ p) (js '']:'')" "drop 2 (js '']:'' @ p) = p"
    by (simp_all add: startsWith_def js_def)
  then have "bracketed_with_port ?a"
    using True assms(1,2) i(2) unfolding bracketed_with_port_def Let_def t r by simp
  with True show ?thesis by simp
next
  case False
  have c: "\<not> is_digit (u16 CHR '':'')" using digit_not_delimiter by blast
  have "drop_trailing is_digit ((h @ js '':'') @ p) = drop_trailing is_digit (h @ js '':'')"
    using assms(1) by (intro drop_trailing_all) (simp add: list_all_iff)
  also have "\<dots> = h @ js '':''" using c by (simp add: drop_trailing_def js_Cons)
  finally have "drop_trailing is_digit (h @ js '':'' @ p) = h @ js '':''" by simp
  then have "ends_with_port (h @ js '':'' @ p)"
    using assms(2) by (simp add: ends_with_port_def js_Cons)
  with False show ?thesis by simp
qed

lemma explicit_port_printed:
  assumes "parsed_https u" "port u \<noteq> []" "search u = []" "fragment u = []"
  shows "hasExplicitPort (strip_slash (url_toString u)) \<and>
    startsWith (strip_slash (url_toString u)) (js ''https://'')"
proof -
  let ?h = "userinfo u @ hostname u"
  obtain path where path: "strip_slash (url_toString u) = js ''https://'' @ ?h @ js '':'' @ port u @ path"
    "path = [] \<or> hd path \<in> set (js ''/?#'')"
  proof -
    from assms(1) obtain q where q: "pathname u = u16 CHR ''/'' # q"
      by (cases "pathname u") (auto simp: parsed_https_def startsWith_def js_Cons)
    have https: "js ''https:'' @ js ''//'' @ x = js ''https://'' @ x" for x by (simp add: js_def)
    have str: "url_toString u = (js ''https://'' @ ?h @ js '':'' @ port u) @ pathname u"
      using assms by (simp add: url_toString_def parsed_https_def https)
    have "strip_slash (a @ pathname u) = a @ pathname u \<or> strip_slash (a @ pathname u) = a @ butlast (pathname u)" for a
      by (auto simp: strip_slash_def q butlast_append)
    then have "strip_slash (url_toString u) = (js ''https://'' @ ?h @ js '':'' @ port u) @ pathname u \<or>
        strip_slash (url_toString u) = (js ''https://'' @ ?h @ js '':'' @ port u) @ butlast (pathname u)"
      unfolding str by blast
    then show thesis
      using that [of "pathname u"] that [of "butlast (pathname u)"] q
      by (auto simp: js_Cons)
  qed
  have d: "\<forall>c \<in> set (?h @ js '':'' @ port u). c \<notin> set (js ''/?#'')"
  proof -
    have "\<forall>c \<in> set (port u). c \<notin> set (js ''/?#'')"
      using assms(1) digit_not_delimiter by (auto simp: parsed_https_def list_all_iff)
    then show ?thesis using assms(1) by (auto simp: parsed_https_def js_Cons)
  qed
  have "takeWhile (\<lambda>c. c \<notin> set (js ''/?#'')) ((?h @ js '':'' @ port u) @ path) = ?h @ js '':'' @ port u"
    by (rule takeWhile_delim [OF d path(2)])
  then have t: "takeWhile (\<lambda>c. c \<notin> set (js ''/?#'')) (?h @ js '':'' @ port u @ path) = ?h @ js '':'' @ port u"
    by simp
  show ?thesis
    using authority_has_port [of "port u" ?h] assms(1,2)
    unfolding hasExplicitPort_def path(1) after_https getOr_simps Let_def t
    by (simp add: parsed_https_def startsWith_def)
qed

lemma normalized_url_again: "normalized_url True (normalized_url hasPort u) = normalized_url hasPort u"
proof -
  have "drop_trailing is_slash (drop_trailing is_slash p) = drop_trailing is_slash p" for p
    by (simp add: drop_trailing_def dropWhile_idem)
  moreover have "drop_trailing is_slash (js ''/'') = []"
    by (simp add: drop_trailing_def js_Cons is_slash_def)
  ultimately show ?thesis
    by (simp add: normalized_url_def set_pathname_def Let_def)
qed

text \<open>Machines and a URL for the witnesses.\<close>

definition box_url :: url where
  "box_url = \<lparr>protocol = js ''https:'', userinfo = [], hostname = js ''box'', port = js ''8443'',
     pathname = js ''/'', search = [], fragment = []\<rparr>"

definition box_machine :: Machine where
  "box_machine = \<lparr>m_id = js ''1'', m_name = js ''box'', m_baseUrl = js ''https://box:8443'',
     m_clientId = None, m_clientSecret = None, m_expiresAtUnix = None\<rparr>"

lemma box_eval:
  "trim (js ''https://box:8443'') = js ''https://box:8443''"
  "trim (js ''box:8443'') = js ''box:8443''"
  "with_scheme (js ''https://box:8443'') = js ''https://box:8443''"
  "with_scheme (js ''box:8443'') = js ''https://box:8443''"
  "hasExplicitPort (js ''https://box:8443'')"
  "normalized_url True box_url = box_url" "normalized_url False box_url \<noteq> box_url"
  "strip_slash (url_toString box_url) = js ''https://box:8443''"
  "protocol box_url = js ''https:''"
  by (simp_all add: url_eval with_scheme_def box_url_def)

lemma box_normalized:
  "normalizeMachineUrl (\<lambda>_. Inr box_url) (js ''https://box:8443'') = Inr (js ''https://box:8443'')"
  by (simp add: normalizeMachineUrl_def box_eval)

definition machine_of :: "string \<Rightarrow> Machine" where
  "machine_of i = \<lparr>m_id = js i, m_name = js i, m_baseUrl = js ''https://'' @ js i, m_clientId = None,
     m_clientSecret = None, m_expiresAtUnix = None\<rparr>"

section \<open>Properties\<close>

text \<open>Saving and loading: machines whose URL is a fixed point of the normalisation, whose
  name is not blank and whose expiry is a safe integer come back unchanged.\<close>

theorem machines_save_load:
  assumes "saveMachines url_parse json_stringify ms st = Inr st'"
    and "\<forall>m \<in> set ms. stored_ok url_parse m"
    and "json_parse (json_stringify (JsonArray (map machine_json ms)))
      = Inr (JsonArray (map machine_json ms))"
    and "json_stringify (JsonArray (map machine_json ms)) \<noteq> []"
  shows "loadMachines url_parse json_parse st' = ms"
proof -
  have "emap (normalizeStoredMachine url_parse) ms = Inr (map (\<lambda>m. m) ms)"
    using assms(2) by (intro emap_all_Inr) (auto simp: normalizeStoredMachine_def stored_ok_def)
  with assms(1) have "setItem st STORAGE_KEY (json_stringify (JsonArray (map machine_json ms))) = Inr st'"
    by (simp add: saveMachines_def)
  from getItem_setItem [OF this] have
    "getItem st' STORAGE_KEY = Some (json_stringify (JsonArray (map machine_json ms)))" by simp
  moreover have "List.map_filter (normalizeMachine url_parse) (map machine_json ms) = ms"
    using assms(2) by (induction ms) (simp_all add: List.map_filter_simps normalize_machine_json)
  ultimately show ?thesis using assms(3,4) by (simp add: loadMachines_def)
qed

theorem machines_save_load_witness:
  "\<exists>st'. saveMachines (\<lambda>_. Inr box_url) (\<lambda>_. js ''x'') [box_machine] \<lparr>items = [], fits = \<lambda>_. True\<rparr>
       = Inr st' \<and>
     loadMachines (\<lambda>_. Inr box_url) (\<lambda>_. Inr (JsonArray [machine_json box_machine])) st' = [box_machine]"
proof -
  have ok: "\<forall>m \<in> set [box_machine]. stored_ok (\<lambda>_. Inr box_url) m"
    by (simp add: stored_ok_def box_machine_def box_normalized) (simp add: url_eval)
  have "saveMachines (\<lambda>_. Inr box_url) (\<lambda>_. js ''x'') [box_machine] \<lparr>items = [], fits = \<lambda>_. True\<rparr>
      = Inr \<lparr>items = [(STORAGE_KEY, js ''x'')], fits = \<lambda>_. True\<rparr>"
    by (simp add: saveMachines_def normalizeStoredMachine_def box_machine_def box_normalized setItem_def)
  moreover from machines_save_load [OF this ok, of "\<lambda>_. Inr (JsonArray [machine_json box_machine])"]
  have "loadMachines (\<lambda>_. Inr box_url) (\<lambda>_. Inr (JsonArray [machine_json box_machine]))
      \<lparr>items = [(STORAGE_KEY, js ''x'')], fits = \<lambda>_. True\<rparr> = [box_machine]" by simp
  ultimately show ?thesis by blast
qed

text \<open>Normalising twice changes the port of a machine on port 443: the parser drops the
  explicit default port, and the second normalisation, finding none, puts 9012 in. The first
  result is what \<open>addMachine\<close> keeps, the second what \<open>saveMachines\<close> stores and
  \<open>openWebTransport\<close> connects to.\<close>

theorem normalize_url_port_443:
  assumes "url_parse (js ''https://box:443'') = Inr u" "url_parse (js ''https://box'') = Inr u"
    and "u = \<lparr>protocol = js ''https:'', userinfo = [], hostname = js ''box'', port = [],
      pathname = js ''/'', search = [], fragment = []\<rparr>"
  shows "normalizeMachineUrl url_parse (js ''https://box:443'') = Inr (js ''https://box'') \<and>
    normalizeMachineUrl url_parse (js ''https://box'') = Inr (js ''https://box:9012'')"
proof -
  have t: "trim (js ''https://box:443'') = js ''https://box:443''"
    "trim (js ''https://box'') = js ''https://box''"
    by (simp_all add: url_eval)
  have p: "hasExplicitPort (js ''https://box:443'')" "\<not> hasExplicitPort (js ''https://box'')"
    by (simp_all add: url_eval)
  have w: "with_scheme (js ''https://box:443'') = js ''https://box:443''"
    "with_scheme (js ''https://box'') = js ''https://box''"
    by (rule with_scheme_https, simp add: startsWith_def js_def)+
  have s1: "strip_slash (url_toString (normalized_url True u)) = js ''https://box''"
    "strip_slash (url_toString (normalized_url False u)) = js ''https://box:9012''"
    by (simp_all add: assms(3) url_eval)
  show ?thesis
    using assms(1,2) by (simp add: normalizeMachineUrl_def t p w s1) (simp add: assms(3))
qed

theorem normalize_url_port_443_witness:
  "normalizeMachineUrl (\<lambda>_. Inr \<lparr>protocol = js ''https:'', userinfo = [], hostname = js ''box'',
     port = [], pathname = js ''/'', search = [], fragment = []\<rparr>) (js ''https://box'')
   = Inr (js ''https://box:9012'')"
  by (rule normalize_url_port_443 [OF refl refl refl, THEN conjunct2])

text \<open>Away from port 443 the normalisation is idempotent: if the parser reads the printed
  URL back, normalising the result again changes nothing.\<close>

theorem normalize_url_idempotent:
  assumes "normalizeMachineUrl url_parse raw = Inr s"
    and "url_parse (with_scheme (trim raw)) = Inr u"
    and "n = normalized_url (hasExplicitPort (with_scheme (trim raw))) u"
    and "parsed_https n" "port n \<noteq> []" "trim s = s" "url_parse s = Inr n"
  shows "normalizeMachineUrl url_parse s = Inr s"
proof -
  have s: "s = strip_slash (url_toString n)" and https: "protocol u = js ''https:''"
    using assms(1-3) by (auto simp: normalizeMachineUrl_def Let_def split: if_splits)
  have nf: "search n = []" "fragment n = []" "protocol n = js ''https:''"
    using https by (simp_all add: assms(3) normalized_url_def set_pathname_def Let_def)
  have port: "hasExplicitPort s" "startsWith s (js ''https://'')"
    using explicit_port_printed [OF assms(4,5) nf(1,2)] by (simp_all add: s)
  have "normalized_url True n = n" by (simp add: assms(3) normalized_url_again)
  with port(1) with_scheme_https [OF port(2)] show ?thesis
    using assms(6,7) nf(3) by (simp add: normalizeMachineUrl_def Let_def flip: s)
qed

theorem normalize_url_idempotent_witness:
  "normalizeMachineUrl (\<lambda>_. Inr box_url) (js ''https://box:8443'') = Inr (js ''https://box:8443'')"
proof (rule normalize_url_idempotent)
  show "normalizeMachineUrl (\<lambda>_. Inr box_url) (js ''box:8443'') = Inr (js ''https://box:8443'')"
    by (simp add: normalizeMachineUrl_def box_eval)
  show "box_url = normalized_url (hasExplicitPort (with_scheme (trim (js ''box:8443'')))) box_url"
    by (simp add: box_eval)
  show "parsed_https box_url" by (simp add: parsed_https_def box_url_def url_eval)
  show "port box_url \<noteq> []" by (simp add: box_url_def)
qed (simp_all add: box_eval)

text \<open>A machine is selected whenever there is one: from the stored list and selection,
  whatever they are, and through every operation of the store.\<close>

theorem machine_always_selected:
  assumes "store_step\<^sup>*\<^sup>* (initial_store url_parse json_parse st) s" "machines s \<noteq> []"
  shows "\<exists>m \<in> set (machines s). selected s = Some m"
proof -
  from assms(1) have "selected_ok s"
    by (induction rule: rtranclp_induct) (auto intro: initial_selected_ok step_selected_ok)
  with assms(2) show ?thesis
    by (auto simp: selected_ok_def selected_def dest: getMachine_SomeD)
qed

theorem machine_always_selected_witness:
  "\<exists>m \<in> set (machines (addMachine (machine_of ''a'') \<lparr>machines = [], selectedId = None\<rparr>)).
     selected (addMachine (machine_of ''a'') \<lparr>machines = [], selectedId = None\<rparr>) = Some m"
proof (rule machine_always_selected)
  show "store_step\<^sup>*\<^sup>* (initial_store (\<lambda>_. throw []) (\<lambda>_. throw []) \<lparr>items = [], fits = \<lambda>_. True\<rparr>)
      (addMachine (machine_of ''a'') \<lparr>machines = [], selectedId = None\<rparr>)"
    by (rule r_into_rtranclp)
      (simp add: initial_store_def loadMachines_def getItem_def loadSelectedMachineId_def
        truthy_def store_step.add)
qed (simp add: addMachine_def)

text \<open>Credentials are kept apart by machine id: after an update with credentials the
  machine is paired, after clearing them it is not, and no other machine changes.\<close>

theorem machine_credentials:
  assumes "findMachine (Some i) s = Some m" "cid \<noteq> []" "secret \<noteq> []"
  shows "isPaired (findMachine (Some i) (setMachineCredentials i cid secret expires s)) \<and>
    \<not> isPaired (findMachine (Some i) (clearMachineCredentials i s)) \<and>
    (\<forall>j. j \<noteq> i \<longrightarrow>
      findMachine (Some j) (setMachineCredentials i cid secret expires s) = findMachine (Some j) s \<and>
      findMachine (Some j) (clearMachineCredentials i s) = findMachine (Some j) s)"
proof -
  have u: "findMachine (Some k) (updateMachine i f s)
      = map_option (\<lambda>m. if m_id m = i then f m else m) (findMachine (Some k) s)"
    if "\<And>m. m_id (f m) = m_id m" for f k
    using that by (simp add: findMachine_def updateMachine_def getMachine_map)
  have "m_id m' = k" if "findMachine (Some k) s = Some m'" for k m'
    using that by (auto simp: findMachine_def dest: getMachine_SomeD)
  then show ?thesis
    using assms
    by (auto simp: setMachineCredentials_def clearMachineCredentials_def u isPaired_def truthy_def
        split: option.splits intro!: option.map_ident_strong)
qed

theorem machine_credentials_witness:
  "isPaired (findMachine (Some (js ''a''))
     (setMachineCredentials (js ''a'') (js ''c'') (js ''s'') 5
       \<lparr>machines = [machine_of ''a''], selectedId = None\<rparr>))"
proof -
  have "findMachine (Some (js ''a'')) \<lparr>machines = [machine_of ''a''], selectedId = None\<rparr>
      = Some (machine_of ''a'')"
    by (simp add: findMachine_def getMachine_def machine_of_def)
  from machine_credentials [OF this, of "js ''c''" "js ''s''" 5] show ?thesis by simp
qed

end
