(* ===== verification/RpcCodec.thy ===== *)
theory RpcCodec
  imports WireGen
begin

text \<open>
  What the schema codecs of \<open>web/src/protocol/generated/rpc.ts\<close> are made of. An encoder fills a
  \<open>Map\<close> field by field and returns it, a decoder reads the fields it knows. The field list of an
  encoder is the list of its \<open>fields.set\<close> statements in source order: \<open>field\<close> always sets,
  \<open>optional\<close> sets if the value is not \<open>undefined\<close>. A field whose TypeScript type is not optional is
  never \<open>undefined\<close> here, so the \<open>required\<close> checks of the source pass.

  The locale \<open>codec\<close> is the contract of one type: what the encoder writes, the decoder reads back,
  and the value written is \<open>tidy\<close> (every map has its keys in ascending order), which makes the CBOR
  encoder write the fields in the order of the schema.
\<close>

named_theorems codec_laws \<open>the codec laws of the message types\<close>
named_theorems codec_defs \<open>definitions of the encoders and decoders of unions and records\<close>

section \<open>Primitive encoders\<close>

definition cborText :: "jstring \<Rightarrow> cbor_value result" where
  "cborText value = Inr (CText value)"

definition cborBool :: "bool \<Rightarrow> cbor_value result" where
  "cborBool value = Inr (CBool value)"

definition cborBytes :: "bytes \<Rightarrow> cbor_value result" where
  "cborBytes value = Inr (CBytes value)"

definition encodeVoidValue :: "unit \<Rightarrow> cbor_value result" where
  "encodeVoidValue value = Inr CNull"

definition decodeVoidValue :: "cbor_value \<Rightarrow> unit result" where
  "decodeVoidValue value = Inr ()"

text \<open>\<open>value.map((item) => enc(item))\<close> and \<open>array(value).map((item) => dec(item))\<close>.\<close>

definition encodeArray :: "('a \<Rightarrow> cbor_value result) \<Rightarrow> 'a list \<Rightarrow> cbor_value result" where
  "encodeArray enc items = ebind (emap enc items) (\<lambda>vs. Inr (CArray vs))"

definition decodeArray :: "(cbor_value \<Rightarrow> 'a result) \<Rightarrow> cbor_value \<Rightarrow> 'a list result" where
  "decodeArray dec value = ebind (array value) (emap dec)"

text \<open>An enumeration is a number on the wire.\<close>

definition encodeEnum :: "('a \<Rightarrow> int) \<Rightarrow> 'a \<Rightarrow> cbor_value result" where
  "encodeEnum variant_id value = Inr (CNumber (JInt (variant_id value)))"

section \<open>Fields\<close>

type_synonym field_list = "(int \<times> cbor_value result option) list"

definition field :: "int \<Rightarrow> ('a \<Rightarrow> cbor_value result) \<Rightarrow> 'a \<Rightarrow> int \<times> cbor_value result option" where
  "field k enc value = (k, Some (enc value))"

definition optional ::
    "int \<Rightarrow> ('a \<Rightarrow> cbor_value result) \<Rightarrow> 'a option \<Rightarrow> int \<times> cbor_value result option" where
  "optional k enc value = (k, map_option enc value)"

fun set_fields :: "field_list \<Rightarrow> (int \<times> cbor_value) list result" where
  "set_fields [] = Inr []"
| "set_fields ((k, None) # fs) = set_fields fs"
| "set_fields ((k, Some r) # fs) = ebind r (\<lambda>v. ebind (set_fields fs) (\<lambda>m. Inr ((k, v) # m)))"

definition encodeFields :: "field_list \<Rightarrow> cbor_value result" where
  "encodeFields fs = ebind (set_fields fs) (\<lambda>m. Inr (CMap m))"

definition encodeVariant :: "int \<Rightarrow> field_list \<Rightarrow> cbor_value result" where
  "encodeVariant variantId fs = ebind (set_fields fs) (\<lambda>m. Inr (union_tuple variantId m))"

section \<open>The contract of a codec\<close>

fun tidy :: "cbor_value \<Rightarrow> bool" where
  "tidy (CArray vs) = list_all tidy vs"
| "tidy (CMap m) = (sorted_wrt (<) (map fst m) \<and> list_all (\<lambda>(k, v). tidy v) m)"
| "tidy v = True"

definition deterministic :: "('a \<Rightarrow> cbor_value result) \<Rightarrow> bool" where
  "deterministic enc \<longleftrightarrow> (\<forall>a v. enc a = Inr v \<longrightarrow> tidy v)"

locale codec =
  fixes enc :: "'a \<Rightarrow> cbor_value result"
    and dec :: "cbor_value \<Rightarrow> 'a result"
  assumes roundtrip: "enc a = Inr v \<Longrightarrow> dec v = Inr a"
begin

lemma injective: "enc a = Inr v \<Longrightarrow> enc b = Inr v \<Longrightarrow> a = b"
  using roundtrip [of a v] roundtrip [of b v] by simp

lemma decodes_all: "emap enc xs = Inr vs \<Longrightarrow> emap dec vs = Inr xs"
  by (induction xs arbitrary: vs) (auto simp: roundtrip)

end

section \<open>How the laws compose\<close>

text \<open>\<open>encodes enc a\<close>: no check of the encoder fails; \<open>encoded enc a\<close> is what it returns.\<close>

definition encodes :: "('a \<Rightarrow> cbor_value result) \<Rightarrow> 'a \<Rightarrow> bool" where
  "encodes enc a \<longleftrightarrow> \<not> isl (enc a)"

definition encoded :: "('a \<Rightarrow> cbor_value result) \<Rightarrow> 'a \<Rightarrow> cbor_value" where
  "encoded enc a = projr (enc a)"

lemma encode_Inr: "enc a = Inr v \<longleftrightarrow> encodes enc a \<and> v = encoded enc a"
  by (cases "enc a") (auto simp: encodes_def encoded_def)

definition fields_ok :: "field_list \<Rightarrow> bool" where
  "fields_ok fs \<longleftrightarrow> list_all (\<lambda>(k, r). pred_option (\<lambda>r. \<not> isl r) r) fs"

definition lookup :: "field_list \<Rightarrow> int \<Rightarrow> cbor_value option" where
  "lookup fs k = map_option projr (Option.bind (map_of fs k) id)"

fun field_values :: "field_list \<Rightarrow> (int \<times> cbor_value) list" where
  "field_values [] = []"
| "field_values ((k, None) # fs) = field_values fs"
| "field_values ((k, Some r) # fs) = (k, projr r) # field_values fs"

lemma set_fields_Inr: "set_fields fs = Inr m \<longleftrightarrow> fields_ok fs \<and> m = field_values fs"
proof (induction fs arbitrary: m rule: set_fields.induct)
  case (3 k r fs)
  then show ?case by (cases r) (auto simp: fields_ok_def)
qed (auto simp: fields_ok_def)

lemma encodeFields_Inr:
  "encodeFields fs = Inr v \<longleftrightarrow> fields_ok fs \<and> v = CMap (field_values fs)"
  by (auto simp: encodeFields_def set_fields_Inr)

lemma encodeVariant_Inr:
  "encodeVariant i fs = Inr v \<longleftrightarrow> fields_ok fs \<and> v = union_tuple i (field_values fs)"
  by (auto simp: encodeVariant_def set_fields_Inr)

lemma keys_field_values: "(k, v) \<in> set (field_values fs) \<Longrightarrow> \<exists>r. (k, r) \<in> set fs"
  by (induction fs rule: field_values.induct) auto

lemma map_of_field_values:
  "sorted_wrt (<) (map fst fs) \<Longrightarrow> map_of (field_values fs) k = lookup fs k"
proof (induction fs rule: field_values.induct)
  case (2 j fs)
  then have "map_of (field_values fs) j = None"
    by (fastforce simp: map_of_eq_None_iff dest: keys_field_values)
  with 2 show ?case by (auto simp: lookup_def)
qed (auto simp: lookup_def)

lemma sorted_field_values:
  "sorted_wrt (<) (map fst fs) \<Longrightarrow> sorted_wrt (<) (map fst (field_values fs))"
  by (induction fs rule: field_values.induct) (auto dest!: keys_field_values)

text \<open>A field list as the decoder sees it.\<close>

lemma lookup_simps [simp]:
  "lookup [] k = None"
  "lookup (field j enc a # fs) k = (if k = j then Some (encoded enc a) else lookup fs k)"
  "lookup (optional j enc b # fs) k = (if k = j then map_option (encoded enc) b else lookup fs k)"
  by (auto simp: lookup_def field_def optional_def encoded_def option.map_comp comp_def
      intro!: option.map_cong)

lemma fields_ok_simps [simp]:
  "fields_ok []"
  "fields_ok (field j enc a # fs) \<longleftrightarrow> encodes enc a \<and> fields_ok fs"
  "fields_ok (optional j enc b # fs) \<longleftrightarrow> pred_option (encodes enc) b \<and> fields_ok fs"
  by (auto simp: fields_ok_def field_def optional_def encodes_def option.pred_map comp_def
      elim!: option.pred_mono_strong)

lemma key_simps [simp]: "fst (field j enc a) = j" "fst (optional j enc b) = j"
  by (simp_all add: field_def optional_def)

text \<open>Reading a field back.\<close>

lemma decode_field:
  "codec enc dec \<Longrightarrow> encodes enc a \<Longrightarrow> dec (encoded enc a) = Inr a"
  using codec.roundtrip [of enc dec a "encoded enc a"] by (simp add: encode_Inr)

lemma decode_required:
  "codec enc dec \<Longrightarrow> encodes enc a \<Longrightarrow> fieldOrDefault (Some (encoded enc a)) dec d = Inr a"
  by (simp add: fieldOrDefault_def decode_field)

lemma decode_optional:
  "codec enc dec \<Longrightarrow> pred_option (encodes enc) b \<Longrightarrow>
   optionalField (map_option (encoded enc) b) dec = Inr b"
  by (cases b) (simp_all add: optionalField_def decode_field)

lemma tidy_encoded: "deterministic enc \<Longrightarrow> encodes enc a \<Longrightarrow> tidy (encoded enc a)"
  unfolding deterministic_def by (simp add: encode_Inr)

lemma tidy_field_values:
  "list_all (\<lambda>(k, v). tidy v) (field_values [])"
  "deterministic enc \<Longrightarrow> encodes enc a \<Longrightarrow>
   list_all (\<lambda>(k, v). tidy v) (field_values (field j enc a # fs)) \<longleftrightarrow>
   list_all (\<lambda>(k, v). tidy v) (field_values fs)"
  "deterministic enc \<Longrightarrow> pred_option (encodes enc) b \<Longrightarrow>
   list_all (\<lambda>(k, v). tidy v) (field_values (optional j enc b # fs)) \<longleftrightarrow>
   list_all (\<lambda>(k, v). tidy v) (field_values fs)"
  by (auto simp: field_def optional_def tidy_encoded encoded_def [symmetric] split: option.splits)
    (cases b; auto simp: encoded_def [symmetric] tidy_encoded)+

section \<open>Laws of the primitives\<close>

lemma safe_variant [simp]: "0 \<le> i \<Longrightarrow> i \<le> 100 \<Longrightarrow> isSafeInteger i"
  by (simp add: isSafeInteger_def MAX_SAFE_CBOR_INTEGER_def)

lemma codec_primitives [codec_laws]:
  "codec cborText textValue" "codec cborBool boolValue" "codec cborBytes bytesValue"
  "codec u53 integer" "codec i53 integer" "codec cborF64 f64Value" "codec encodeVoidValue decodeVoidValue"
  by (unfold_locales, auto simp: cborText_def textValue_def cborBool_def boolValue_def cborBytes_def
      bytesValue_def u53_def i53_def cborF64_def f64Value_def decodeVoidValue_def split: if_splits)+

lemma deterministic_primitives [codec_laws]:
  "deterministic cborText" "deterministic cborBool" "deterministic cborBytes"
  "deterministic u53" "deterministic i53" "deterministic cborF64" "deterministic encodeVoidValue"
  "deterministic (encodeEnum f)"
  by (auto simp: deterministic_def cborText_def cborBool_def cborBytes_def u53_def i53_def cborF64_def
      encodeVoidValue_def encodeEnum_def split: if_splits)

lemma codec_array [codec_laws]: "codec enc dec \<Longrightarrow> codec (encodeArray enc) (decodeArray dec)"
  unfolding codec_def [of "encodeArray enc"]
  by (auto simp: encodeArray_def decodeArray_def array_def codec.decodes_all)

lemma deterministic_array [codec_laws]:
  assumes "deterministic enc"
  shows "deterministic (encodeArray enc)"
proof -
  have "emap enc xs = Inr vs \<Longrightarrow> list_all tidy vs" for xs vs
    using assms by (induction xs arbitrary: vs) (auto simp: deterministic_def)
  then show ?thesis by (auto simp: deterministic_def encodeArray_def)
qed

lemma expectMap_CMap [simp]: "expectMap (CMap m) = Inr m"
  by (simp add: expectMap_def)

lemma expectUnion_tuple [simp]:
  "isSafeInteger i \<Longrightarrow> expectUnion (union_tuple i m) = Inr (i, m)"
  by (simp add: expectUnion_def union_tuple_def)

lemma tidy_tuple [simp]: "tidy (union_tuple i m) \<longleftrightarrow> tidy (CMap m)"
  by (simp add: union_tuple_def)

lemma codecI: "(\<And>a v. enc a = Inr v \<Longrightarrow> dec v = Inr a) \<Longrightarrow> codec enc dec"
  by (rule codec.intro)

lemma deterministicI: "(\<And>a v. enc a = Inr v \<Longrightarrow> tidy v) \<Longrightarrow> deterministic enc"
  by (simp add: deterministic_def)

lemmas codec_simps = encodeFields_Inr encodeVariant_Inr map_of_field_values decode_required
  decode_optional sorted_field_values tidy_field_values

section \<open>Through bytes\<close>

text \<open>
  A \<open>plain\<close> value survives the CBOR layer: its texts have no lone surrogate and no leading byte
  order mark, its arrays are within the decoder's limit.
\<close>

fun plain :: "cbor_value \<Rightarrow> bool" where
  "plain (CText s) \<longleftrightarrow> text_norm s = s"
| "plain (CArray vs) \<longleftrightarrow> length vs \<le> MAX_ARRAY_LENGTH \<and> list_all plain vs"
| "plain (CMap m) \<longleftrightarrow> list_all (\<lambda>(k, v). plain v) m"
| "plain (CNumber (JInt i)) \<longleftrightarrow> True"
| "plain (CNumber _) \<longleftrightarrow> False"
| "plain (CF64 w) \<longleftrightarrow> f64_is_finite w"
| "plain v \<longleftrightarrow> True"

lemma sorted_entries_id:
  "sorted_wrt (<) (map fst m) \<Longrightarrow> sort_entries (m :: (int \<times> cbor_value) list) = m"
  unfolding sort_entries_def
  by (simp add: sort_key_id_if_sorted strict_sorted_imp_sorted)

lemma plain_number: "plain (CNumber n) \<Longrightarrow> \<exists>i. n = JInt i"
  by (cases n) simp_all

lemma tidy_plain: "tidy v \<Longrightarrow> plain v \<Longrightarrow> cbor_ok v \<and> norm v = v"
proof (induction v rule: tidy.induct)
  case (1 vs)
  then show ?case by (auto simp: list_all_iff intro: map_idI)
next
  case (2 m)
  then have "cbor_ok v \<and> norm v = v" if "(k, v) \<in> set m" for k v
    using that by (fastforce simp: list_all_iff)
  moreover have "distinct (map fst m)" using 2 by (simp add: strict_sorted_iff)
  ultimately show ?case using 2
    by (auto simp: list_all_iff sorted_entries_id intro!: map_idI)
qed (auto dest: plain_number)

locale wire_codec = codec +
  assumes deterministic: "deterministic enc"
begin

lemma survives_cbor:
  assumes "enc a = Inr v" "plain v" "encodeCbor v = Inr b"
  shows "decodeCbor b = Inr v"
  using assms tidy_plain [of v] deterministic decode_encode [of v b "[]"]
  by (simp add: deterministic_def encodeCbor_def decodeCbor_def)

lemma bytes_roundtrip:
  assumes "enc a = Inr v" "plain v" "encodeCbor v = Inr b"
  shows "ebind (decodeCbor b) dec = Inr a"
  using survives_cbor [OF assms] roundtrip [OF assms(1)] by simp

end

lemma wire_codecI: "codec enc dec \<Longrightarrow> deterministic enc \<Longrightarrow> wire_codec enc dec"
  by (simp add: wire_codec_def wire_codec_axioms_def)

end
