(* ===== verification/RpcFiles.thy ===== *)
theory RpcFiles
  imports RpcCodec
begin

text \<open>
  The file system: roots, directories, the trash, reading, writing and changing files.
  From \<open>web/src/protocol/generated/rpc.ts\<close>; the field names
  are the ones of the interfaces with a prefix per type, a variant of a union is a constructor, an
  optional field an \<open>option\<close>. Lengths, times and other numbers are \<open>int\<close>, as the codec takes any
  safe integer for them.
\<close>

section \<open>Types\<close>

record ReadFileReq =
  rfr_path :: jstring
  rfr_offset :: "int option"
  rfr_length :: "int option"

record SubscribeDirectoryReq =
  sdr_path :: jstring

record RootEntryKey =
  rootkey_path :: jstring

datatype RootsSubscriptionCloseReason = RootsFailed | RootsPermissionLost | RootsUnknown

datatype FsEntryKind = FsFile | FsDirectory | FsSymlink | FsOther

primrec FsEntryKind_id :: "FsEntryKind \<Rightarrow> int" where
  "FsEntryKind_id FsFile = 1"
| "FsEntryKind_id FsDirectory = 2"
| "FsEntryKind_id FsSymlink = 3"
| "FsEntryKind_id FsOther = 4"

record FsEntry =
  fs_name :: jstring
  fs_path :: jstring
  fs_kind :: FsEntryKind
  fs_size :: "int option"
  fs_modifiedAtMs :: "int option"
  fs_readonly :: bool

datatype RootsTableEvent =
    RootsSnapshot "FsEntry list"
  | RootsPatch "RootEntryKey list" "FsEntry list"
  | RootsClosed RootsSubscriptionCloseReason

record DirectoryEntryKey =
  dirkey_name :: jstring

datatype DirectorySubscriptionCloseReason =
    DirFailed
  | DirDeleted
  | DirMoved "jstring option"
  | DirPermissionLost
  | DirReplacedByNonDirectory
  | DirUnknown

datatype DirectoryTableEvent =
    DirSnapshot "FsEntry list"
  | DirPatch "DirectoryEntryKey list" "FsEntry list"
  | DirClosed DirectorySubscriptionCloseReason

datatype TrashItemsSubscriptionCloseReason = TrashItemsFailed | TrashItemsPermissionLost |
    TrashItemsUnknown

datatype TrashItemSize =
    TrashSizeBytes int
  | TrashSizeEntries int

record TrashItem =
  trash_id :: jstring
  trash_name :: jstring
  trash_originalParent :: jstring
  trash_deletedAtMs :: "int option"
  trash_size :: "TrashItemSize option"

datatype TrashItemsTableEvent =
    TrashItemsSnapshot "TrashItem list"
  | TrashItemsPatch "jstring list" "TrashItem list"
  | TrashItemsClosed TrashItemsSubscriptionCloseReason

record ReadFileChunk =
  rf_offset :: int
  rf_bytes :: bytes

datatype WriteFileMode = WriteFileCreate | WriteFileReplace | WriteFileAppend | WriteFilePatch

primrec WriteFileMode_id :: "WriteFileMode \<Rightarrow> int" where
  "WriteFileMode_id WriteFileCreate = 1"
| "WriteFileMode_id WriteFileReplace = 2"
| "WriteFileMode_id WriteFileAppend = 3"
| "WriteFileMode_id WriteFilePatch = 4"

datatype WriteFileReq =
    WriteFileStart jstring WriteFileMode "int option" "int option"
  | WriteFileChunk "int option" bytes

record WriteFileResult =
  wfr_bytesWritten :: int
  wfr_resultSize :: int
  wfr_modifiedAtMs :: "int option"

datatype CreateNodeSpec =
    CreateNodeFile
  | CreateNodeDirectory
  | CreateNodeSymlink jstring
  | CreateNodeHardlink jstring

record CreateNodeOp =
  cno_path :: jstring
  cno_spec :: CreateNodeSpec

record CreateNodesReq =
  cnr_nodes :: "CreateNodeOp list"

record RenamePathOp =
  rpo_from :: jstring
  rpo_to :: jstring

record RenamePathsReq =
  rpr_ops :: "RenamePathOp list"

datatype DeleteMode = DeleteTrash | DeletePermanent

primrec DeleteMode_id :: "DeleteMode \<Rightarrow> int" where
  "DeleteMode_id DeleteTrash = 1"
| "DeleteMode_id DeletePermanent = 2"

record DeletePathsReq =
  dpr_paths :: "jstring list"
  dpr_mode :: DeleteMode

record RestoreTrashItemsReq =
  rtir_itemIds :: "jstring list"

record PurgeTrashItemsReq =
  ptir_itemIds :: "jstring list"

datatype FsMutationItemError =
    ItemMutationFailed jstring
  | ItemMutationPermissionDenied jstring
  | ItemMutationNotFound jstring
  | ItemMutationAlreadyExists jstring
  | ItemMutationNotDirectory jstring
  | ItemMutationNotFile jstring
  | ItemMutationInvalidPath jstring
  | ItemMutationUnsupported jstring

datatype BulkMutationItemResult =
    BulkFailed int FsMutationItemError
  | BulkOk int

record BulkMutationRes =
  bmr_results :: "BulkMutationItemResult list"

datatype SubscribeRootsError =
    SubscribeRootsFailed jstring

datatype SubscribeDirectoryError =
    SubscribeDirectoryFailed jstring
  | SubscribeDirectoryPermissionDenied jstring
  | SubscribeDirectoryNotFound jstring
  | SubscribeDirectoryNotDirectory jstring

datatype SubscribeTrashItemsError =
    SubscribeTrashItemsFailed jstring
  | SubscribeTrashItemsPermissionDenied jstring

datatype ReadFileError =
    ReadFileFailed jstring
  | ReadFilePermissionDenied jstring
  | ReadFileNotFound jstring
  | ReadFileNotFile jstring
  | ReadFileInvalidPath jstring

datatype WriteFileError =
    WriteFileFailed jstring
  | WriteFilePermissionDenied jstring
  | WriteFileNotFound jstring
  | WriteFileAlreadyExists jstring
  | WriteFileNotDirectory jstring
  | WriteFileNotFile jstring
  | WriteFileInvalidPath jstring

datatype FsMutationError =
    FsMutationFailed jstring

section \<open>Defaults\<close>

definition defaultReadFileReq :: ReadFileReq where
  "defaultReadFileReq = \<lparr>rfr_path = [], rfr_offset = None, rfr_length = None\<rparr>"

definition defaultSubscribeDirectoryReq :: SubscribeDirectoryReq where
  "defaultSubscribeDirectoryReq = \<lparr>sdr_path = []\<rparr>"

definition defaultRootEntryKey :: RootEntryKey where
  "defaultRootEntryKey = \<lparr>rootkey_path = []\<rparr>"

definition defaultRootsSubscriptionCloseReason :: RootsSubscriptionCloseReason where
  "defaultRootsSubscriptionCloseReason = RootsFailed"

definition defaultFsEntry :: FsEntry where
  "defaultFsEntry = \<lparr>fs_name = [], fs_path = [], fs_kind = FsFile, fs_size = None,
      fs_modifiedAtMs = None, fs_readonly = False\<rparr>"

definition defaultRootsTableEvent :: RootsTableEvent where
  "defaultRootsTableEvent = RootsSnapshot []"

definition defaultDirectoryEntryKey :: DirectoryEntryKey where
  "defaultDirectoryEntryKey = \<lparr>dirkey_name = []\<rparr>"

definition defaultDirectorySubscriptionCloseReason :: DirectorySubscriptionCloseReason where
  "defaultDirectorySubscriptionCloseReason = DirFailed"

definition defaultDirectoryTableEvent :: DirectoryTableEvent where
  "defaultDirectoryTableEvent = DirSnapshot []"

definition defaultTrashItemsSubscriptionCloseReason :: TrashItemsSubscriptionCloseReason where
  "defaultTrashItemsSubscriptionCloseReason = TrashItemsFailed"

definition defaultTrashItemSize :: TrashItemSize where
  "defaultTrashItemSize = TrashSizeBytes 0"

definition defaultTrashItem :: TrashItem where
  "defaultTrashItem = \<lparr>trash_id = [], trash_name = [], trash_originalParent = [],
      trash_deletedAtMs = None, trash_size = None\<rparr>"

definition defaultTrashItemsTableEvent :: TrashItemsTableEvent where
  "defaultTrashItemsTableEvent = TrashItemsSnapshot []"

definition defaultReadFileChunk :: ReadFileChunk where
  "defaultReadFileChunk = \<lparr>rf_offset = 0, rf_bytes = []\<rparr>"

definition defaultWriteFileReq :: WriteFileReq where
  "defaultWriteFileReq = WriteFileStart [] WriteFileCreate None None"

definition defaultWriteFileResult :: WriteFileResult where
  "defaultWriteFileResult = \<lparr>wfr_bytesWritten = 0, wfr_resultSize = 0,
      wfr_modifiedAtMs = None\<rparr>"

definition defaultCreateNodeSpec :: CreateNodeSpec where
  "defaultCreateNodeSpec = CreateNodeFile"

definition defaultCreateNodeOp :: CreateNodeOp where
  "defaultCreateNodeOp = \<lparr>cno_path = [], cno_spec = defaultCreateNodeSpec\<rparr>"

definition defaultCreateNodesReq :: CreateNodesReq where
  "defaultCreateNodesReq = \<lparr>cnr_nodes = []\<rparr>"

definition defaultRenamePathOp :: RenamePathOp where
  "defaultRenamePathOp = \<lparr>rpo_from = [], rpo_to = []\<rparr>"

definition defaultRenamePathsReq :: RenamePathsReq where
  "defaultRenamePathsReq = \<lparr>rpr_ops = []\<rparr>"

definition defaultDeletePathsReq :: DeletePathsReq where
  "defaultDeletePathsReq = \<lparr>dpr_paths = [], dpr_mode = DeleteTrash\<rparr>"

definition defaultRestoreTrashItemsReq :: RestoreTrashItemsReq where
  "defaultRestoreTrashItemsReq = \<lparr>rtir_itemIds = []\<rparr>"

definition defaultPurgeTrashItemsReq :: PurgeTrashItemsReq where
  "defaultPurgeTrashItemsReq = \<lparr>ptir_itemIds = []\<rparr>"

definition defaultFsMutationItemError :: FsMutationItemError where
  "defaultFsMutationItemError = ItemMutationFailed []"

definition defaultBulkMutationItemResult :: BulkMutationItemResult where
  "defaultBulkMutationItemResult = BulkFailed 0 defaultFsMutationItemError"

definition defaultBulkMutationRes :: BulkMutationRes where
  "defaultBulkMutationRes = \<lparr>bmr_results = []\<rparr>"

definition defaultSubscribeRootsError :: SubscribeRootsError where
  "defaultSubscribeRootsError = SubscribeRootsFailed []"

definition defaultSubscribeDirectoryError :: SubscribeDirectoryError where
  "defaultSubscribeDirectoryError = SubscribeDirectoryFailed []"

definition defaultSubscribeTrashItemsError :: SubscribeTrashItemsError where
  "defaultSubscribeTrashItemsError = SubscribeTrashItemsFailed []"

definition defaultReadFileError :: ReadFileError where
  "defaultReadFileError = ReadFileFailed []"

definition defaultWriteFileError :: WriteFileError where
  "defaultWriteFileError = WriteFileFailed []"

definition defaultFsMutationError :: FsMutationError where
  "defaultFsMutationError = FsMutationFailed []"

section \<open>Encoders\<close>

definition encodeReadFileReqValue :: "ReadFileReq \<Rightarrow> cbor_value result" where
  "encodeReadFileReqValue value = encodeFields
     [field 1 cborText (rfr_path value), optional 2 u53 (rfr_offset value),
      optional 3 u53 (rfr_length value)]"

definition encodeSubscribeDirectoryReqValue :: "SubscribeDirectoryReq \<Rightarrow> cbor_value result" where
  "encodeSubscribeDirectoryReqValue value = encodeFields
     [field 1 cborText (sdr_path value)]"

definition encodeRootEntryKeyValue :: "RootEntryKey \<Rightarrow> cbor_value result" where
  "encodeRootEntryKeyValue value = encodeFields
     [field 1 cborText (rootkey_path value)]"

primrec encodeRootsSubscriptionCloseReasonValue :: "RootsSubscriptionCloseReason \<Rightarrow> cbor_value result" where
  "encodeRootsSubscriptionCloseReasonValue RootsFailed = encodeVariant 0 []"
| "encodeRootsSubscriptionCloseReasonValue RootsPermissionLost = encodeVariant 1 []"
| "encodeRootsSubscriptionCloseReasonValue RootsUnknown = encodeVariant 2 []"

definition encodeFsEntryKindValue :: "FsEntryKind \<Rightarrow> cbor_value result" where
  "encodeFsEntryKindValue = encodeEnum FsEntryKind_id"

definition encodeFsEntryValue :: "FsEntry \<Rightarrow> cbor_value result" where
  "encodeFsEntryValue value = encodeFields
     [field 1 cborText (fs_name value), field 2 cborText (fs_path value),
      field 3 encodeFsEntryKindValue (fs_kind value), optional 4 u53 (fs_size value),
      optional 5 u53 (fs_modifiedAtMs value), field 6 cborBool (fs_readonly value)]"

primrec encodeRootsTableEventValue :: "RootsTableEvent \<Rightarrow> cbor_value result" where
  "encodeRootsTableEventValue (RootsSnapshot rows) =
     encodeVariant 1 [field 1 (encodeArray encodeFsEntryValue) rows]"
| "encodeRootsTableEventValue (RootsPatch removes upserts) =
     encodeVariant 2 [field 1 (encodeArray encodeRootEntryKeyValue) removes,
       field 2 (encodeArray encodeFsEntryValue) upserts]"
| "encodeRootsTableEventValue (RootsClosed reason) =
     encodeVariant 3 [field 1 encodeRootsSubscriptionCloseReasonValue reason]"

definition encodeDirectoryEntryKeyValue :: "DirectoryEntryKey \<Rightarrow> cbor_value result" where
  "encodeDirectoryEntryKeyValue value = encodeFields
     [field 1 cborText (dirkey_name value)]"

primrec encodeDirectorySubscriptionCloseReasonValue :: "DirectorySubscriptionCloseReason \<Rightarrow> cbor_value result" where
  "encodeDirectorySubscriptionCloseReasonValue DirFailed = encodeVariant 0 []"
| "encodeDirectorySubscriptionCloseReasonValue DirDeleted = encodeVariant 1 []"
| "encodeDirectorySubscriptionCloseReasonValue (DirMoved to) =
     encodeVariant 2 [optional 1 cborText to]"
| "encodeDirectorySubscriptionCloseReasonValue DirPermissionLost = encodeVariant 3 []"
| "encodeDirectorySubscriptionCloseReasonValue DirReplacedByNonDirectory = encodeVariant 4 []"
| "encodeDirectorySubscriptionCloseReasonValue DirUnknown = encodeVariant 5 []"

primrec encodeDirectoryTableEventValue :: "DirectoryTableEvent \<Rightarrow> cbor_value result" where
  "encodeDirectoryTableEventValue (DirSnapshot rows) =
     encodeVariant 1 [field 1 (encodeArray encodeFsEntryValue) rows]"
| "encodeDirectoryTableEventValue (DirPatch removes upserts) =
     encodeVariant 2 [field 1 (encodeArray encodeDirectoryEntryKeyValue) removes,
       field 2 (encodeArray encodeFsEntryValue) upserts]"
| "encodeDirectoryTableEventValue (DirClosed reason) =
     encodeVariant 3 [field 1 encodeDirectorySubscriptionCloseReasonValue reason]"

primrec encodeTrashItemsSubscriptionCloseReasonValue :: "TrashItemsSubscriptionCloseReason \<Rightarrow> cbor_value result" where
  "encodeTrashItemsSubscriptionCloseReasonValue TrashItemsFailed = encodeVariant 0 []"
| "encodeTrashItemsSubscriptionCloseReasonValue TrashItemsPermissionLost = encodeVariant 1 []"
| "encodeTrashItemsSubscriptionCloseReasonValue TrashItemsUnknown = encodeVariant 2 []"

primrec encodeTrashItemSizeValue :: "TrashItemSize \<Rightarrow> cbor_value result" where
  "encodeTrashItemSizeValue (TrashSizeBytes value) = encodeVariant 1 [field 1 u53 value]"
| "encodeTrashItemSizeValue (TrashSizeEntries value) = encodeVariant 2 [field 1 u53 value]"

definition encodeTrashItemValue :: "TrashItem \<Rightarrow> cbor_value result" where
  "encodeTrashItemValue value = encodeFields
     [field 1 cborText (trash_id value), field 2 cborText (trash_name value),
      field 3 cborText (trash_originalParent value), optional 4 u53 (trash_deletedAtMs value),
      optional 5 encodeTrashItemSizeValue (trash_size value)]"

primrec encodeTrashItemsTableEventValue :: "TrashItemsTableEvent \<Rightarrow> cbor_value result" where
  "encodeTrashItemsTableEventValue (TrashItemsSnapshot rows) =
     encodeVariant 1 [field 1 (encodeArray encodeTrashItemValue) rows]"
| "encodeTrashItemsTableEventValue (TrashItemsPatch removes upserts) =
     encodeVariant 2 [field 1 (encodeArray cborText) removes,
       field 2 (encodeArray encodeTrashItemValue) upserts]"
| "encodeTrashItemsTableEventValue (TrashItemsClosed reason) =
     encodeVariant 3 [field 1 encodeTrashItemsSubscriptionCloseReasonValue reason]"

definition encodeReadFileChunkValue :: "ReadFileChunk \<Rightarrow> cbor_value result" where
  "encodeReadFileChunkValue value = encodeFields
     [field 1 u53 (rf_offset value), field 2 cborBytes (rf_bytes value)]"

definition encodeWriteFileModeValue :: "WriteFileMode \<Rightarrow> cbor_value result" where
  "encodeWriteFileModeValue = encodeEnum WriteFileMode_id"

primrec encodeWriteFileReqValue :: "WriteFileReq \<Rightarrow> cbor_value result" where
  "encodeWriteFileReqValue (WriteFileStart path mode expectedResultSize modifiedAtMs) =
     encodeVariant 1 [field 1 cborText path, field 2 encodeWriteFileModeValue mode,
       optional 3 u53 expectedResultSize, optional 4 u53 modifiedAtMs]"
| "encodeWriteFileReqValue (WriteFileChunk offset bytes) =
     encodeVariant 2 [optional 1 u53 offset, field 2 cborBytes bytes]"

definition encodeWriteFileResultValue :: "WriteFileResult \<Rightarrow> cbor_value result" where
  "encodeWriteFileResultValue value = encodeFields
     [field 1 u53 (wfr_bytesWritten value), field 2 u53 (wfr_resultSize value),
      optional 3 u53 (wfr_modifiedAtMs value)]"

primrec encodeCreateNodeSpecValue :: "CreateNodeSpec \<Rightarrow> cbor_value result" where
  "encodeCreateNodeSpecValue CreateNodeFile = encodeVariant 1 []"
| "encodeCreateNodeSpecValue CreateNodeDirectory = encodeVariant 2 []"
| "encodeCreateNodeSpecValue (CreateNodeSymlink target) =
     encodeVariant 3 [field 1 cborText target]"
| "encodeCreateNodeSpecValue (CreateNodeHardlink target) =
     encodeVariant 4 [field 1 cborText target]"

definition encodeCreateNodeOpValue :: "CreateNodeOp \<Rightarrow> cbor_value result" where
  "encodeCreateNodeOpValue value = encodeFields
     [field 1 cborText (cno_path value), field 2 encodeCreateNodeSpecValue (cno_spec value)]"

definition encodeCreateNodesReqValue :: "CreateNodesReq \<Rightarrow> cbor_value result" where
  "encodeCreateNodesReqValue value = encodeFields
     [field 1 (encodeArray encodeCreateNodeOpValue) (cnr_nodes value)]"

definition encodeRenamePathOpValue :: "RenamePathOp \<Rightarrow> cbor_value result" where
  "encodeRenamePathOpValue value = encodeFields
     [field 1 cborText (rpo_from value), field 2 cborText (rpo_to value)]"

definition encodeRenamePathsReqValue :: "RenamePathsReq \<Rightarrow> cbor_value result" where
  "encodeRenamePathsReqValue value = encodeFields
     [field 1 (encodeArray encodeRenamePathOpValue) (rpr_ops value)]"

definition encodeDeleteModeValue :: "DeleteMode \<Rightarrow> cbor_value result" where
  "encodeDeleteModeValue = encodeEnum DeleteMode_id"

definition encodeDeletePathsReqValue :: "DeletePathsReq \<Rightarrow> cbor_value result" where
  "encodeDeletePathsReqValue value = encodeFields
     [field 1 (encodeArray cborText) (dpr_paths value),
      field 2 encodeDeleteModeValue (dpr_mode value)]"

definition encodeRestoreTrashItemsReqValue :: "RestoreTrashItemsReq \<Rightarrow> cbor_value result" where
  "encodeRestoreTrashItemsReqValue value = encodeFields
     [field 1 (encodeArray cborText) (rtir_itemIds value)]"

definition encodePurgeTrashItemsReqValue :: "PurgeTrashItemsReq \<Rightarrow> cbor_value result" where
  "encodePurgeTrashItemsReqValue value = encodeFields
     [field 1 (encodeArray cborText) (ptir_itemIds value)]"

primrec encodeFsMutationItemErrorValue :: "FsMutationItemError \<Rightarrow> cbor_value result" where
  "encodeFsMutationItemErrorValue (ItemMutationFailed message) =
     encodeVariant 0 [field 1 cborText message]"
| "encodeFsMutationItemErrorValue (ItemMutationPermissionDenied message) =
     encodeVariant 1 [field 1 cborText message]"
| "encodeFsMutationItemErrorValue (ItemMutationNotFound message) =
     encodeVariant 2 [field 1 cborText message]"
| "encodeFsMutationItemErrorValue (ItemMutationAlreadyExists message) =
     encodeVariant 3 [field 1 cborText message]"
| "encodeFsMutationItemErrorValue (ItemMutationNotDirectory message) =
     encodeVariant 4 [field 1 cborText message]"
| "encodeFsMutationItemErrorValue (ItemMutationNotFile message) =
     encodeVariant 5 [field 1 cborText message]"
| "encodeFsMutationItemErrorValue (ItemMutationInvalidPath message) =
     encodeVariant 6 [field 1 cborText message]"
| "encodeFsMutationItemErrorValue (ItemMutationUnsupported message) =
     encodeVariant 7 [field 1 cborText message]"

primrec encodeBulkMutationItemResultValue :: "BulkMutationItemResult \<Rightarrow> cbor_value result" where
  "encodeBulkMutationItemResultValue (BulkFailed index error) =
     encodeVariant 0 [field 1 u53 index, field 2 encodeFsMutationItemErrorValue error]"
| "encodeBulkMutationItemResultValue (BulkOk index) = encodeVariant 1 [field 1 u53 index]"

definition encodeBulkMutationResValue :: "BulkMutationRes \<Rightarrow> cbor_value result" where
  "encodeBulkMutationResValue value = encodeFields
     [field 1 (encodeArray encodeBulkMutationItemResultValue) (bmr_results value)]"

primrec encodeSubscribeRootsErrorValue :: "SubscribeRootsError \<Rightarrow> cbor_value result" where
  "encodeSubscribeRootsErrorValue (SubscribeRootsFailed message) =
     encodeVariant 0 [field 1 cborText message]"

primrec encodeSubscribeDirectoryErrorValue :: "SubscribeDirectoryError \<Rightarrow> cbor_value result" where
  "encodeSubscribeDirectoryErrorValue (SubscribeDirectoryFailed message) =
     encodeVariant 0 [field 1 cborText message]"
| "encodeSubscribeDirectoryErrorValue (SubscribeDirectoryPermissionDenied message) =
     encodeVariant 1 [field 1 cborText message]"
| "encodeSubscribeDirectoryErrorValue (SubscribeDirectoryNotFound message) =
     encodeVariant 2 [field 1 cborText message]"
| "encodeSubscribeDirectoryErrorValue (SubscribeDirectoryNotDirectory message) =
     encodeVariant 3 [field 1 cborText message]"

primrec encodeSubscribeTrashItemsErrorValue :: "SubscribeTrashItemsError \<Rightarrow> cbor_value result" where
  "encodeSubscribeTrashItemsErrorValue (SubscribeTrashItemsFailed message) =
     encodeVariant 0 [field 1 cborText message]"
| "encodeSubscribeTrashItemsErrorValue (SubscribeTrashItemsPermissionDenied message) =
     encodeVariant 1 [field 1 cborText message]"

primrec encodeReadFileErrorValue :: "ReadFileError \<Rightarrow> cbor_value result" where
  "encodeReadFileErrorValue (ReadFileFailed message) = encodeVariant 0 [field 1 cborText message]"
| "encodeReadFileErrorValue (ReadFilePermissionDenied message) =
     encodeVariant 1 [field 1 cborText message]"
| "encodeReadFileErrorValue (ReadFileNotFound message) =
     encodeVariant 2 [field 1 cborText message]"
| "encodeReadFileErrorValue (ReadFileNotFile message) =
     encodeVariant 3 [field 1 cborText message]"
| "encodeReadFileErrorValue (ReadFileInvalidPath message) =
     encodeVariant 4 [field 1 cborText message]"

primrec encodeWriteFileErrorValue :: "WriteFileError \<Rightarrow> cbor_value result" where
  "encodeWriteFileErrorValue (WriteFileFailed message) =
     encodeVariant 0 [field 1 cborText message]"
| "encodeWriteFileErrorValue (WriteFilePermissionDenied message) =
     encodeVariant 1 [field 1 cborText message]"
| "encodeWriteFileErrorValue (WriteFileNotFound message) =
     encodeVariant 2 [field 1 cborText message]"
| "encodeWriteFileErrorValue (WriteFileAlreadyExists message) =
     encodeVariant 3 [field 1 cborText message]"
| "encodeWriteFileErrorValue (WriteFileNotDirectory message) =
     encodeVariant 4 [field 1 cborText message]"
| "encodeWriteFileErrorValue (WriteFileNotFile message) =
     encodeVariant 5 [field 1 cborText message]"
| "encodeWriteFileErrorValue (WriteFileInvalidPath message) =
     encodeVariant 6 [field 1 cborText message]"

primrec encodeFsMutationErrorValue :: "FsMutationError \<Rightarrow> cbor_value result" where
  "encodeFsMutationErrorValue (FsMutationFailed message) =
     encodeVariant 0 [field 1 cborText message]"

section \<open>Decoders\<close>

definition decodeReadFileReqValue :: "cbor_value \<Rightarrow> ReadFileReq result" where
  "decodeReadFileReqValue value =
     ebind (expectMap value) (\<lambda>fields.
     ebind (fieldOrDefault (map_of fields 1) textValue []) (\<lambda>path.
     ebind (optionalField (map_of fields 2) integer) (\<lambda>offset.
     ebind (optionalField (map_of fields 3) integer) (\<lambda>byteLength.
     Inr \<lparr>rfr_path = path, rfr_offset = offset, rfr_length = byteLength\<rparr>))))"

definition decodeSubscribeDirectoryReqValue :: "cbor_value \<Rightarrow> SubscribeDirectoryReq result" where
  "decodeSubscribeDirectoryReqValue value =
     ebind (expectMap value) (\<lambda>fields.
     ebind (fieldOrDefault (map_of fields 1) textValue []) (\<lambda>path.
     Inr \<lparr>sdr_path = path\<rparr>))"

definition decodeRootEntryKeyValue :: "cbor_value \<Rightarrow> RootEntryKey result" where
  "decodeRootEntryKeyValue value =
     ebind (expectMap value) (\<lambda>fields.
     ebind (fieldOrDefault (map_of fields 1) textValue []) (\<lambda>path.
     Inr \<lparr>rootkey_path = path\<rparr>))"

definition decodeRootsSubscriptionCloseReasonValue :: "cbor_value \<Rightarrow> RootsSubscriptionCloseReason result" where
  "decodeRootsSubscriptionCloseReasonValue value =
     ebind (expectUnion value) (\<lambda>(variantId, fields).
     if variantId = 0 then Inr RootsFailed
     else if variantId = 1 then Inr RootsPermissionLost
     else if variantId = 2 then Inr RootsUnknown
     else throw (''unknown RootsSubscriptionCloseReason variant '' @ show_int variantId))"

definition decodeFsEntryKindValue :: "cbor_value \<Rightarrow> FsEntryKind result" where
  "decodeFsEntryKindValue value =
     ebind (integer value) (\<lambda>i.
     if i = 1 then Inr FsFile
     else if i = 2 then Inr FsDirectory
     else if i = 3 then Inr FsSymlink
     else if i = 4 then Inr FsOther
     else throw (''unknown FsEntryKind variant '' @ show_int i))"

definition decodeFsEntryValue :: "cbor_value \<Rightarrow> FsEntry result" where
  "decodeFsEntryValue value =
     ebind (expectMap value) (\<lambda>fields.
     ebind (fieldOrDefault (map_of fields 1) textValue []) (\<lambda>name.
     ebind (fieldOrDefault (map_of fields 2) textValue []) (\<lambda>path.
     ebind (fieldOrDefault (map_of fields 3) decodeFsEntryKindValue FsFile) (\<lambda>kind.
     ebind (optionalField (map_of fields 4) integer) (\<lambda>bytesSize.
     ebind (optionalField (map_of fields 5) integer) (\<lambda>modifiedAtMs.
     ebind (fieldOrDefault (map_of fields 6) boolValue False) (\<lambda>readonly.
     Inr \<lparr>fs_name = name, fs_path = path, fs_kind = kind, fs_size = bytesSize,
           fs_modifiedAtMs = modifiedAtMs, fs_readonly = readonly\<rparr>)))))))"

definition decodeRootsTableEventValue :: "cbor_value \<Rightarrow> RootsTableEvent result" where
  "decodeRootsTableEventValue value =
     ebind (expectUnion value) (\<lambda>(variantId, fields).
     if variantId = 1 then
       ebind (fieldOrDefault (map_of fields 1) (decodeArray decodeFsEntryValue) []) (\<lambda>rows.
       Inr (RootsSnapshot rows))
     else if variantId = 2 then
       ebind (fieldOrDefault (map_of fields 1) (decodeArray decodeRootEntryKeyValue) []) (\<lambda>removes.
       ebind (fieldOrDefault (map_of fields 2) (decodeArray decodeFsEntryValue) []) (\<lambda>upserts.
       Inr (RootsPatch removes upserts)))
     else if variantId = 3 then
       ebind (fieldOrDefault (map_of fields 1) decodeRootsSubscriptionCloseReasonValue defaultRootsSubscriptionCloseReason) (\<lambda>reason.
       Inr (RootsClosed reason))
     else throw (''unknown RootsTableEvent variant '' @ show_int variantId))"

definition decodeDirectoryEntryKeyValue :: "cbor_value \<Rightarrow> DirectoryEntryKey result" where
  "decodeDirectoryEntryKeyValue value =
     ebind (expectMap value) (\<lambda>fields.
     ebind (fieldOrDefault (map_of fields 1) textValue []) (\<lambda>name.
     Inr \<lparr>dirkey_name = name\<rparr>))"

definition decodeDirectorySubscriptionCloseReasonValue :: "cbor_value \<Rightarrow> DirectorySubscriptionCloseReason result" where
  "decodeDirectorySubscriptionCloseReasonValue value =
     ebind (expectUnion value) (\<lambda>(variantId, fields).
     if variantId = 0 then Inr DirFailed
     else if variantId = 1 then Inr DirDeleted
     else if variantId = 2 then
       ebind (optionalField (map_of fields 1) textValue) (\<lambda>to.
       Inr (DirMoved to))
     else if variantId = 3 then Inr DirPermissionLost
     else if variantId = 4 then Inr DirReplacedByNonDirectory
     else if variantId = 5 then Inr DirUnknown
     else throw (''unknown DirectorySubscriptionCloseReason variant '' @ show_int variantId))"

definition decodeDirectoryTableEventValue :: "cbor_value \<Rightarrow> DirectoryTableEvent result" where
  "decodeDirectoryTableEventValue value =
     ebind (expectUnion value) (\<lambda>(variantId, fields).
     if variantId = 1 then
       ebind (fieldOrDefault (map_of fields 1) (decodeArray decodeFsEntryValue) []) (\<lambda>rows.
       Inr (DirSnapshot rows))
     else if variantId = 2 then
       ebind (fieldOrDefault (map_of fields 1) (decodeArray decodeDirectoryEntryKeyValue) []) (\<lambda>removes.
       ebind (fieldOrDefault (map_of fields 2) (decodeArray decodeFsEntryValue) []) (\<lambda>upserts.
       Inr (DirPatch removes upserts)))
     else if variantId = 3 then
       ebind (fieldOrDefault (map_of fields 1) decodeDirectorySubscriptionCloseReasonValue defaultDirectorySubscriptionCloseReason) (\<lambda>reason.
       Inr (DirClosed reason))
     else throw (''unknown DirectoryTableEvent variant '' @ show_int variantId))"

definition decodeTrashItemsSubscriptionCloseReasonValue :: "cbor_value \<Rightarrow> TrashItemsSubscriptionCloseReason result" where
  "decodeTrashItemsSubscriptionCloseReasonValue value =
     ebind (expectUnion value) (\<lambda>(variantId, fields).
     if variantId = 0 then Inr TrashItemsFailed
     else if variantId = 1 then Inr TrashItemsPermissionLost
     else if variantId = 2 then Inr TrashItemsUnknown
     else throw (''unknown TrashItemsSubscriptionCloseReason variant '' @ show_int variantId))"

definition decodeTrashItemSizeValue :: "cbor_value \<Rightarrow> TrashItemSize result" where
  "decodeTrashItemSizeValue value =
     ebind (expectUnion value) (\<lambda>(variantId, fields).
     if variantId = 1 then
       ebind (fieldOrDefault (map_of fields 1) integer 0) (\<lambda>value.
       Inr (TrashSizeBytes value))
     else if variantId = 2 then
       ebind (fieldOrDefault (map_of fields 1) integer 0) (\<lambda>value.
       Inr (TrashSizeEntries value))
     else throw (''unknown TrashItemSize variant '' @ show_int variantId))"

definition decodeTrashItemValue :: "cbor_value \<Rightarrow> TrashItem result" where
  "decodeTrashItemValue value =
     ebind (expectMap value) (\<lambda>fields.
     ebind (fieldOrDefault (map_of fields 1) textValue []) (\<lambda>id.
     ebind (fieldOrDefault (map_of fields 2) textValue []) (\<lambda>name.
     ebind (fieldOrDefault (map_of fields 3) textValue []) (\<lambda>originalParent.
     ebind (optionalField (map_of fields 4) integer) (\<lambda>deletedAtMs.
     ebind (optionalField (map_of fields 5) decodeTrashItemSizeValue) (\<lambda>bytesSize.
     Inr \<lparr>trash_id = id, trash_name = name, trash_originalParent = originalParent,
           trash_deletedAtMs = deletedAtMs, trash_size = bytesSize\<rparr>))))))"

definition decodeTrashItemsTableEventValue :: "cbor_value \<Rightarrow> TrashItemsTableEvent result" where
  "decodeTrashItemsTableEventValue value =
     ebind (expectUnion value) (\<lambda>(variantId, fields).
     if variantId = 1 then
       ebind (fieldOrDefault (map_of fields 1) (decodeArray decodeTrashItemValue) []) (\<lambda>rows.
       Inr (TrashItemsSnapshot rows))
     else if variantId = 2 then
       ebind (fieldOrDefault (map_of fields 1) (decodeArray textValue) []) (\<lambda>removes.
       ebind (fieldOrDefault (map_of fields 2) (decodeArray decodeTrashItemValue) []) (\<lambda>upserts.
       Inr (TrashItemsPatch removes upserts)))
     else if variantId = 3 then
       ebind (fieldOrDefault (map_of fields 1) decodeTrashItemsSubscriptionCloseReasonValue defaultTrashItemsSubscriptionCloseReason) (\<lambda>reason.
       Inr (TrashItemsClosed reason))
     else throw (''unknown TrashItemsTableEvent variant '' @ show_int variantId))"

definition decodeReadFileChunkValue :: "cbor_value \<Rightarrow> ReadFileChunk result" where
  "decodeReadFileChunkValue value =
     ebind (expectMap value) (\<lambda>fields.
     ebind (fieldOrDefault (map_of fields 1) integer 0) (\<lambda>offset.
     ebind (fieldOrDefault (map_of fields 2) bytesValue []) (\<lambda>bytes.
     Inr \<lparr>rf_offset = offset, rf_bytes = bytes\<rparr>)))"

definition decodeWriteFileModeValue :: "cbor_value \<Rightarrow> WriteFileMode result" where
  "decodeWriteFileModeValue value =
     ebind (integer value) (\<lambda>i.
     if i = 1 then Inr WriteFileCreate
     else if i = 2 then Inr WriteFileReplace
     else if i = 3 then Inr WriteFileAppend
     else if i = 4 then Inr WriteFilePatch
     else throw (''unknown WriteFileMode variant '' @ show_int i))"

definition decodeWriteFileReqValue :: "cbor_value \<Rightarrow> WriteFileReq result" where
  "decodeWriteFileReqValue value =
     ebind (expectUnion value) (\<lambda>(variantId, fields).
     if variantId = 1 then
       ebind (fieldOrDefault (map_of fields 1) textValue []) (\<lambda>path.
       ebind (fieldOrDefault (map_of fields 2) decodeWriteFileModeValue WriteFileCreate) (\<lambda>mode.
       ebind (optionalField (map_of fields 3) integer) (\<lambda>expectedResultSize.
       ebind (optionalField (map_of fields 4) integer) (\<lambda>modifiedAtMs.
       Inr (WriteFileStart path mode expectedResultSize modifiedAtMs)))))
     else if variantId = 2 then
       ebind (optionalField (map_of fields 1) integer) (\<lambda>offset.
       ebind (fieldOrDefault (map_of fields 2) bytesValue []) (\<lambda>bytes.
       Inr (WriteFileChunk offset bytes)))
     else throw (''unknown WriteFileReq variant '' @ show_int variantId))"

definition decodeWriteFileResultValue :: "cbor_value \<Rightarrow> WriteFileResult result" where
  "decodeWriteFileResultValue value =
     ebind (expectMap value) (\<lambda>fields.
     ebind (fieldOrDefault (map_of fields 1) integer 0) (\<lambda>bytesWritten.
     ebind (fieldOrDefault (map_of fields 2) integer 0) (\<lambda>resultSize.
     ebind (optionalField (map_of fields 3) integer) (\<lambda>modifiedAtMs.
     Inr \<lparr>wfr_bytesWritten = bytesWritten, wfr_resultSize = resultSize,
           wfr_modifiedAtMs = modifiedAtMs\<rparr>))))"

definition decodeCreateNodeSpecValue :: "cbor_value \<Rightarrow> CreateNodeSpec result" where
  "decodeCreateNodeSpecValue value =
     ebind (expectUnion value) (\<lambda>(variantId, fields).
     if variantId = 1 then Inr CreateNodeFile
     else if variantId = 2 then Inr CreateNodeDirectory
     else if variantId = 3 then
       ebind (fieldOrDefault (map_of fields 1) textValue []) (\<lambda>target.
       Inr (CreateNodeSymlink target))
     else if variantId = 4 then
       ebind (fieldOrDefault (map_of fields 1) textValue []) (\<lambda>target.
       Inr (CreateNodeHardlink target))
     else throw (''unknown CreateNodeSpec variant '' @ show_int variantId))"

definition decodeCreateNodeOpValue :: "cbor_value \<Rightarrow> CreateNodeOp result" where
  "decodeCreateNodeOpValue value =
     ebind (expectMap value) (\<lambda>fields.
     ebind (fieldOrDefault (map_of fields 1) textValue []) (\<lambda>path.
     ebind (fieldOrDefault (map_of fields 2) decodeCreateNodeSpecValue defaultCreateNodeSpec) (\<lambda>spec.
     Inr \<lparr>cno_path = path, cno_spec = spec\<rparr>)))"

definition decodeCreateNodesReqValue :: "cbor_value \<Rightarrow> CreateNodesReq result" where
  "decodeCreateNodesReqValue value =
     ebind (expectMap value) (\<lambda>fields.
     ebind (fieldOrDefault (map_of fields 1) (decodeArray decodeCreateNodeOpValue) []) (\<lambda>nodes.
     Inr \<lparr>cnr_nodes = nodes\<rparr>))"

definition decodeRenamePathOpValue :: "cbor_value \<Rightarrow> RenamePathOp result" where
  "decodeRenamePathOpValue value =
     ebind (expectMap value) (\<lambda>fields.
     ebind (fieldOrDefault (map_of fields 1) textValue []) (\<lambda>from.
     ebind (fieldOrDefault (map_of fields 2) textValue []) (\<lambda>to.
     Inr \<lparr>rpo_from = from, rpo_to = to\<rparr>)))"

definition decodeRenamePathsReqValue :: "cbor_value \<Rightarrow> RenamePathsReq result" where
  "decodeRenamePathsReqValue value =
     ebind (expectMap value) (\<lambda>fields.
     ebind (fieldOrDefault (map_of fields 1) (decodeArray decodeRenamePathOpValue) []) (\<lambda>ops.
     Inr \<lparr>rpr_ops = ops\<rparr>))"

definition decodeDeleteModeValue :: "cbor_value \<Rightarrow> DeleteMode result" where
  "decodeDeleteModeValue value =
     ebind (integer value) (\<lambda>i.
     if i = 1 then Inr DeleteTrash
     else if i = 2 then Inr DeletePermanent
     else throw (''unknown DeleteMode variant '' @ show_int i))"

definition decodeDeletePathsReqValue :: "cbor_value \<Rightarrow> DeletePathsReq result" where
  "decodeDeletePathsReqValue value =
     ebind (expectMap value) (\<lambda>fields.
     ebind (fieldOrDefault (map_of fields 1) (decodeArray textValue) []) (\<lambda>paths.
     ebind (fieldOrDefault (map_of fields 2) decodeDeleteModeValue DeleteTrash) (\<lambda>mode.
     Inr \<lparr>dpr_paths = paths, dpr_mode = mode\<rparr>)))"

definition decodeRestoreTrashItemsReqValue :: "cbor_value \<Rightarrow> RestoreTrashItemsReq result" where
  "decodeRestoreTrashItemsReqValue value =
     ebind (expectMap value) (\<lambda>fields.
     ebind (fieldOrDefault (map_of fields 1) (decodeArray textValue) []) (\<lambda>itemIds.
     Inr \<lparr>rtir_itemIds = itemIds\<rparr>))"

definition decodePurgeTrashItemsReqValue :: "cbor_value \<Rightarrow> PurgeTrashItemsReq result" where
  "decodePurgeTrashItemsReqValue value =
     ebind (expectMap value) (\<lambda>fields.
     ebind (fieldOrDefault (map_of fields 1) (decodeArray textValue) []) (\<lambda>itemIds.
     Inr \<lparr>ptir_itemIds = itemIds\<rparr>))"

definition decodeFsMutationItemErrorValue :: "cbor_value \<Rightarrow> FsMutationItemError result" where
  "decodeFsMutationItemErrorValue value =
     ebind (expectUnion value) (\<lambda>(variantId, fields).
     if variantId = 0 then
       ebind (fieldOrDefault (map_of fields 1) textValue []) (\<lambda>message.
       Inr (ItemMutationFailed message))
     else if variantId = 1 then
       ebind (fieldOrDefault (map_of fields 1) textValue []) (\<lambda>message.
       Inr (ItemMutationPermissionDenied message))
     else if variantId = 2 then
       ebind (fieldOrDefault (map_of fields 1) textValue []) (\<lambda>message.
       Inr (ItemMutationNotFound message))
     else if variantId = 3 then
       ebind (fieldOrDefault (map_of fields 1) textValue []) (\<lambda>message.
       Inr (ItemMutationAlreadyExists message))
     else if variantId = 4 then
       ebind (fieldOrDefault (map_of fields 1) textValue []) (\<lambda>message.
       Inr (ItemMutationNotDirectory message))
     else if variantId = 5 then
       ebind (fieldOrDefault (map_of fields 1) textValue []) (\<lambda>message.
       Inr (ItemMutationNotFile message))
     else if variantId = 6 then
       ebind (fieldOrDefault (map_of fields 1) textValue []) (\<lambda>message.
       Inr (ItemMutationInvalidPath message))
     else if variantId = 7 then
       ebind (fieldOrDefault (map_of fields 1) textValue []) (\<lambda>message.
       Inr (ItemMutationUnsupported message))
     else throw (''unknown FsMutationItemError variant '' @ show_int variantId))"

definition decodeBulkMutationItemResultValue :: "cbor_value \<Rightarrow> BulkMutationItemResult result" where
  "decodeBulkMutationItemResultValue value =
     ebind (expectUnion value) (\<lambda>(variantId, fields).
     if variantId = 0 then
       ebind (fieldOrDefault (map_of fields 1) integer 0) (\<lambda>index.
       ebind (fieldOrDefault (map_of fields 2) decodeFsMutationItemErrorValue defaultFsMutationItemError) (\<lambda>error.
       Inr (BulkFailed index error)))
     else if variantId = 1 then
       ebind (fieldOrDefault (map_of fields 1) integer 0) (\<lambda>index.
       Inr (BulkOk index))
     else throw (''unknown BulkMutationItemResult variant '' @ show_int variantId))"

definition decodeBulkMutationResValue :: "cbor_value \<Rightarrow> BulkMutationRes result" where
  "decodeBulkMutationResValue value =
     ebind (expectMap value) (\<lambda>fields.
     ebind (fieldOrDefault (map_of fields 1) (decodeArray decodeBulkMutationItemResultValue) []) (\<lambda>results.
     Inr \<lparr>bmr_results = results\<rparr>))"

definition decodeSubscribeRootsErrorValue :: "cbor_value \<Rightarrow> SubscribeRootsError result" where
  "decodeSubscribeRootsErrorValue value =
     ebind (expectUnion value) (\<lambda>(variantId, fields).
     if variantId = 0 then
       ebind (fieldOrDefault (map_of fields 1) textValue []) (\<lambda>message.
       Inr (SubscribeRootsFailed message))
     else throw (''unknown SubscribeRootsError variant '' @ show_int variantId))"

definition decodeSubscribeDirectoryErrorValue :: "cbor_value \<Rightarrow> SubscribeDirectoryError result" where
  "decodeSubscribeDirectoryErrorValue value =
     ebind (expectUnion value) (\<lambda>(variantId, fields).
     if variantId = 0 then
       ebind (fieldOrDefault (map_of fields 1) textValue []) (\<lambda>message.
       Inr (SubscribeDirectoryFailed message))
     else if variantId = 1 then
       ebind (fieldOrDefault (map_of fields 1) textValue []) (\<lambda>message.
       Inr (SubscribeDirectoryPermissionDenied message))
     else if variantId = 2 then
       ebind (fieldOrDefault (map_of fields 1) textValue []) (\<lambda>message.
       Inr (SubscribeDirectoryNotFound message))
     else if variantId = 3 then
       ebind (fieldOrDefault (map_of fields 1) textValue []) (\<lambda>message.
       Inr (SubscribeDirectoryNotDirectory message))
     else throw (''unknown SubscribeDirectoryError variant '' @ show_int variantId))"

definition decodeSubscribeTrashItemsErrorValue :: "cbor_value \<Rightarrow> SubscribeTrashItemsError result" where
  "decodeSubscribeTrashItemsErrorValue value =
     ebind (expectUnion value) (\<lambda>(variantId, fields).
     if variantId = 0 then
       ebind (fieldOrDefault (map_of fields 1) textValue []) (\<lambda>message.
       Inr (SubscribeTrashItemsFailed message))
     else if variantId = 1 then
       ebind (fieldOrDefault (map_of fields 1) textValue []) (\<lambda>message.
       Inr (SubscribeTrashItemsPermissionDenied message))
     else throw (''unknown SubscribeTrashItemsError variant '' @ show_int variantId))"

definition decodeReadFileErrorValue :: "cbor_value \<Rightarrow> ReadFileError result" where
  "decodeReadFileErrorValue value =
     ebind (expectUnion value) (\<lambda>(variantId, fields).
     if variantId = 0 then
       ebind (fieldOrDefault (map_of fields 1) textValue []) (\<lambda>message.
       Inr (ReadFileFailed message))
     else if variantId = 1 then
       ebind (fieldOrDefault (map_of fields 1) textValue []) (\<lambda>message.
       Inr (ReadFilePermissionDenied message))
     else if variantId = 2 then
       ebind (fieldOrDefault (map_of fields 1) textValue []) (\<lambda>message.
       Inr (ReadFileNotFound message))
     else if variantId = 3 then
       ebind (fieldOrDefault (map_of fields 1) textValue []) (\<lambda>message.
       Inr (ReadFileNotFile message))
     else if variantId = 4 then
       ebind (fieldOrDefault (map_of fields 1) textValue []) (\<lambda>message.
       Inr (ReadFileInvalidPath message))
     else throw (''unknown ReadFileError variant '' @ show_int variantId))"

definition decodeWriteFileErrorValue :: "cbor_value \<Rightarrow> WriteFileError result" where
  "decodeWriteFileErrorValue value =
     ebind (expectUnion value) (\<lambda>(variantId, fields).
     if variantId = 0 then
       ebind (fieldOrDefault (map_of fields 1) textValue []) (\<lambda>message.
       Inr (WriteFileFailed message))
     else if variantId = 1 then
       ebind (fieldOrDefault (map_of fields 1) textValue []) (\<lambda>message.
       Inr (WriteFilePermissionDenied message))
     else if variantId = 2 then
       ebind (fieldOrDefault (map_of fields 1) textValue []) (\<lambda>message.
       Inr (WriteFileNotFound message))
     else if variantId = 3 then
       ebind (fieldOrDefault (map_of fields 1) textValue []) (\<lambda>message.
       Inr (WriteFileAlreadyExists message))
     else if variantId = 4 then
       ebind (fieldOrDefault (map_of fields 1) textValue []) (\<lambda>message.
       Inr (WriteFileNotDirectory message))
     else if variantId = 5 then
       ebind (fieldOrDefault (map_of fields 1) textValue []) (\<lambda>message.
       Inr (WriteFileNotFile message))
     else if variantId = 6 then
       ebind (fieldOrDefault (map_of fields 1) textValue []) (\<lambda>message.
       Inr (WriteFileInvalidPath message))
     else throw (''unknown WriteFileError variant '' @ show_int variantId))"

definition decodeFsMutationErrorValue :: "cbor_value \<Rightarrow> FsMutationError result" where
  "decodeFsMutationErrorValue value =
     ebind (expectUnion value) (\<lambda>(variantId, fields).
     if variantId = 0 then
       ebind (fieldOrDefault (map_of fields 1) textValue []) (\<lambda>message.
       Inr (FsMutationFailed message))
     else throw (''unknown FsMutationError variant '' @ show_int variantId))"

section \<open>Laws\<close>

lemmas files_defs [codec_defs] = encodeReadFileReqValue_def encodeSubscribeDirectoryReqValue_def
  encodeRootEntryKeyValue_def encodeFsEntryValue_def encodeDirectoryEntryKeyValue_def
  encodeTrashItemValue_def encodeReadFileChunkValue_def encodeWriteFileResultValue_def
  encodeCreateNodeOpValue_def encodeCreateNodesReqValue_def encodeRenamePathOpValue_def
  encodeRenamePathsReqValue_def encodeDeletePathsReqValue_def encodeRestoreTrashItemsReqValue_def
  encodePurgeTrashItemsReqValue_def encodeBulkMutationResValue_def decodeReadFileReqValue_def
  decodeSubscribeDirectoryReqValue_def decodeRootEntryKeyValue_def
  decodeRootsSubscriptionCloseReasonValue_def decodeFsEntryValue_def
  decodeRootsTableEventValue_def decodeDirectoryEntryKeyValue_def
  decodeDirectorySubscriptionCloseReasonValue_def decodeDirectoryTableEventValue_def
  decodeTrashItemsSubscriptionCloseReasonValue_def decodeTrashItemSizeValue_def
  decodeTrashItemValue_def decodeTrashItemsTableEventValue_def decodeReadFileChunkValue_def
  decodeWriteFileReqValue_def decodeWriteFileResultValue_def decodeCreateNodeSpecValue_def
  decodeCreateNodeOpValue_def decodeCreateNodesReqValue_def decodeRenamePathOpValue_def
  decodeRenamePathsReqValue_def decodeDeletePathsReqValue_def decodeRestoreTrashItemsReqValue_def
  decodePurgeTrashItemsReqValue_def decodeFsMutationItemErrorValue_def
  decodeBulkMutationItemResultValue_def decodeBulkMutationResValue_def
  decodeSubscribeRootsErrorValue_def decodeSubscribeDirectoryErrorValue_def
  decodeSubscribeTrashItemsErrorValue_def decodeReadFileErrorValue_def
  decodeWriteFileErrorValue_def decodeFsMutationErrorValue_def

lemmas files_defaults = defaultReadFileReq_def defaultSubscribeDirectoryReq_def
  defaultRootEntryKey_def defaultRootsSubscriptionCloseReason_def defaultFsEntry_def
  defaultRootsTableEvent_def defaultDirectoryEntryKey_def
  defaultDirectorySubscriptionCloseReason_def defaultDirectoryTableEvent_def
  defaultTrashItemsSubscriptionCloseReason_def defaultTrashItemSize_def defaultTrashItem_def
  defaultTrashItemsTableEvent_def defaultReadFileChunk_def defaultWriteFileReq_def
  defaultWriteFileResult_def defaultCreateNodeSpec_def defaultCreateNodeOp_def
  defaultCreateNodesReq_def defaultRenamePathOp_def defaultRenamePathsReq_def
  defaultDeletePathsReq_def defaultRestoreTrashItemsReq_def defaultPurgeTrashItemsReq_def
  defaultFsMutationItemError_def defaultBulkMutationItemResult_def defaultBulkMutationRes_def
  defaultSubscribeRootsError_def defaultSubscribeDirectoryError_def
  defaultSubscribeTrashItemsError_def defaultReadFileError_def defaultWriteFileError_def
  defaultFsMutationError_def

lemma files_enum_codecs [codec_laws]:
  "codec encodeFsEntryKindValue decodeFsEntryKindValue"
  "deterministic encodeFsEntryKindValue"
  "codec encodeWriteFileModeValue decodeWriteFileModeValue"
  "deterministic encodeWriteFileModeValue"
  "codec encodeDeleteModeValue decodeDeleteModeValue"
  "deterministic encodeDeleteModeValue"
  by ((rule codecI deterministicI, case_tac a;
      simp add: encodeEnum_def
        encodeFsEntryKindValue_def decodeFsEntryKindValue_def encodeWriteFileModeValue_def
        decodeWriteFileModeValue_def encodeDeleteModeValue_def decodeDeleteModeValue_def)+)

lemma files_flat_codecs [codec_laws]:
  "codec encodeReadFileReqValue decodeReadFileReqValue"
  "deterministic encodeReadFileReqValue"
  "codec encodeSubscribeDirectoryReqValue decodeSubscribeDirectoryReqValue"
  "deterministic encodeSubscribeDirectoryReqValue"
  "codec encodeRootEntryKeyValue decodeRootEntryKeyValue"
  "deterministic encodeRootEntryKeyValue"
  "codec encodeRootsSubscriptionCloseReasonValue decodeRootsSubscriptionCloseReasonValue"
  "deterministic encodeRootsSubscriptionCloseReasonValue"
  "codec encodeFsEntryValue decodeFsEntryValue"
  "deterministic encodeFsEntryValue"
  "codec encodeDirectoryEntryKeyValue decodeDirectoryEntryKeyValue"
  "deterministic encodeDirectoryEntryKeyValue"
  "codec encodeDirectorySubscriptionCloseReasonValue decodeDirectorySubscriptionCloseReasonValue"
  "deterministic encodeDirectorySubscriptionCloseReasonValue"
  "codec encodeTrashItemsSubscriptionCloseReasonValue decodeTrashItemsSubscriptionCloseReasonValue"
  "deterministic encodeTrashItemsSubscriptionCloseReasonValue"
  "codec encodeTrashItemSizeValue decodeTrashItemSizeValue"
  "deterministic encodeTrashItemSizeValue"
  "codec encodeReadFileChunkValue decodeReadFileChunkValue"
  "deterministic encodeReadFileChunkValue"
  "codec encodeWriteFileReqValue decodeWriteFileReqValue"
  "deterministic encodeWriteFileReqValue"
  "codec encodeWriteFileResultValue decodeWriteFileResultValue"
  "deterministic encodeWriteFileResultValue"
  "codec encodeCreateNodeSpecValue decodeCreateNodeSpecValue"
  "deterministic encodeCreateNodeSpecValue"
  "codec encodeRenamePathOpValue decodeRenamePathOpValue"
  "deterministic encodeRenamePathOpValue"
  "codec encodeDeletePathsReqValue decodeDeletePathsReqValue"
  "deterministic encodeDeletePathsReqValue"
  "codec encodeRestoreTrashItemsReqValue decodeRestoreTrashItemsReqValue"
  "deterministic encodeRestoreTrashItemsReqValue"
  "codec encodePurgeTrashItemsReqValue decodePurgeTrashItemsReqValue"
  "deterministic encodePurgeTrashItemsReqValue"
  "codec encodeFsMutationItemErrorValue decodeFsMutationItemErrorValue"
  "deterministic encodeFsMutationItemErrorValue"
  "codec encodeSubscribeRootsErrorValue decodeSubscribeRootsErrorValue"
  "deterministic encodeSubscribeRootsErrorValue"
  "codec encodeSubscribeDirectoryErrorValue decodeSubscribeDirectoryErrorValue"
  "deterministic encodeSubscribeDirectoryErrorValue"
  "codec encodeSubscribeTrashItemsErrorValue decodeSubscribeTrashItemsErrorValue"
  "deterministic encodeSubscribeTrashItemsErrorValue"
  "codec encodeReadFileErrorValue decodeReadFileErrorValue"
  "deterministic encodeReadFileErrorValue"
  "codec encodeWriteFileErrorValue decodeWriteFileErrorValue"
  "deterministic encodeWriteFileErrorValue"
  "codec encodeFsMutationErrorValue decodeFsMutationErrorValue"
  "deterministic encodeFsMutationErrorValue"
  by ((rule codecI deterministicI, case_tac a; simp add: codec_defs codec_simps codec_laws)+)

lemma files_nested_codecs [codec_laws]:
  "codec encodeRootsTableEventValue decodeRootsTableEventValue"
  "deterministic encodeRootsTableEventValue"
  "codec encodeDirectoryTableEventValue decodeDirectoryTableEventValue"
  "deterministic encodeDirectoryTableEventValue"
  "codec encodeTrashItemValue decodeTrashItemValue"
  "deterministic encodeTrashItemValue"
  "codec encodeCreateNodeOpValue decodeCreateNodeOpValue"
  "deterministic encodeCreateNodeOpValue"
  "codec encodeRenamePathsReqValue decodeRenamePathsReqValue"
  "deterministic encodeRenamePathsReqValue"
  "codec encodeBulkMutationItemResultValue decodeBulkMutationItemResultValue"
  "deterministic encodeBulkMutationItemResultValue"
  by ((rule codecI deterministicI, case_tac a; simp add: codec_defs codec_simps codec_laws)+)

lemma files_outer_codecs [codec_laws]:
  "codec encodeTrashItemsTableEventValue decodeTrashItemsTableEventValue"
  "deterministic encodeTrashItemsTableEventValue"
  "codec encodeCreateNodesReqValue decodeCreateNodesReqValue"
  "deterministic encodeCreateNodesReqValue"
  "codec encodeBulkMutationResValue decodeBulkMutationResValue"
  "deterministic encodeBulkMutationResValue"
  by ((rule codecI deterministicI, case_tac a; simp add: codec_defs codec_simps codec_laws)+)

text \<open>Absent fields get their defaults.\<close>

lemma files_absent_fields:
  "decodeReadFileReqValue (CMap []) = Inr defaultReadFileReq"
  "decodeSubscribeDirectoryReqValue (CMap []) = Inr defaultSubscribeDirectoryReq"
  "decodeRootEntryKeyValue (CMap []) = Inr defaultRootEntryKey"
  "decodeFsEntryValue (CMap []) = Inr defaultFsEntry"
  "decodeDirectoryEntryKeyValue (CMap []) = Inr defaultDirectoryEntryKey"
  "decodeTrashItemValue (CMap []) = Inr defaultTrashItem"
  "decodeReadFileChunkValue (CMap []) = Inr defaultReadFileChunk"
  "decodeWriteFileResultValue (CMap []) = Inr defaultWriteFileResult"
  "decodeCreateNodeOpValue (CMap []) = Inr defaultCreateNodeOp"
  "decodeCreateNodesReqValue (CMap []) = Inr defaultCreateNodesReq"
  "decodeRenamePathOpValue (CMap []) = Inr defaultRenamePathOp"
  "decodeRenamePathsReqValue (CMap []) = Inr defaultRenamePathsReq"
  "decodeDeletePathsReqValue (CMap []) = Inr defaultDeletePathsReq"
  "decodeRestoreTrashItemsReqValue (CMap []) = Inr defaultRestoreTrashItemsReq"
  "decodePurgeTrashItemsReqValue (CMap []) = Inr defaultPurgeTrashItemsReq"
  "decodeBulkMutationResValue (CMap []) = Inr defaultBulkMutationRes"
  "decodeRootsSubscriptionCloseReasonValue (union_tuple 0 []) = Inr defaultRootsSubscriptionCloseReason"
  "decodeRootsTableEventValue (union_tuple 1 []) = Inr defaultRootsTableEvent"
  "decodeDirectorySubscriptionCloseReasonValue (union_tuple 0 []) = Inr defaultDirectorySubscriptionCloseReason"
  "decodeDirectoryTableEventValue (union_tuple 1 []) = Inr defaultDirectoryTableEvent"
  "decodeTrashItemsSubscriptionCloseReasonValue (union_tuple 0 []) = Inr defaultTrashItemsSubscriptionCloseReason"
  "decodeTrashItemSizeValue (union_tuple 1 []) = Inr defaultTrashItemSize"
  "decodeTrashItemsTableEventValue (union_tuple 1 []) = Inr defaultTrashItemsTableEvent"
  "decodeWriteFileReqValue (union_tuple 1 []) = Inr defaultWriteFileReq"
  "decodeCreateNodeSpecValue (union_tuple 1 []) = Inr defaultCreateNodeSpec"
  "decodeFsMutationItemErrorValue (union_tuple 0 []) = Inr defaultFsMutationItemError"
  "decodeBulkMutationItemResultValue (union_tuple 0 []) = Inr defaultBulkMutationItemResult"
  "decodeSubscribeRootsErrorValue (union_tuple 0 []) = Inr defaultSubscribeRootsError"
  "decodeSubscribeDirectoryErrorValue (union_tuple 0 []) = Inr defaultSubscribeDirectoryError"
  "decodeSubscribeTrashItemsErrorValue (union_tuple 0 []) = Inr defaultSubscribeTrashItemsError"
  "decodeReadFileErrorValue (union_tuple 0 []) = Inr defaultReadFileError"
  "decodeWriteFileErrorValue (union_tuple 0 []) = Inr defaultWriteFileError"
  "decodeFsMutationErrorValue (union_tuple 0 []) = Inr defaultFsMutationError"
  by (simp_all add: codec_defs files_defaults fieldOrDefault_def optionalField_def)

end
