(* ===== verification/Paths.thy ===== *)
theory Paths
  imports Tables RpcFiles
begin

text \<open>
  Paths and listings of \<open>web/src/state/explorer.ts\<close>: the order of the entries
  (\<open>FsEntry\<close> is a message of theory \<open>RpcFiles\<close>), path roots, parents and
  crumbs, sizes. The regular expressions of \<open>pathRoot\<close> are recognisers on the code units.
\<close>

section \<open>Entries\<close>

fun kindRank :: "FsEntryKind \<Rightarrow> int" where
  "kindRank FsDirectory = 0"
| "kindRank FsSymlink = 1"
| "kindRank FsFile = 2"
| "kindRank FsOther = 3"

text \<open>The listing order of the kinds: directories, links, files, the rest.\<close>

instantiation FsEntryKind :: linorder
begin

definition less_eq_FsEntryKind :: "FsEntryKind \<Rightarrow> FsEntryKind \<Rightarrow> bool" where
  "less_eq_FsEntryKind a b \<longleftrightarrow> kindRank a \<le> kindRank b"

definition less_FsEntryKind :: "FsEntryKind \<Rightarrow> FsEntryKind \<Rightarrow> bool" where
  "less_FsEntryKind a b \<longleftrightarrow> kindRank a < kindRank b"

instance
proof
  fix a b :: FsEntryKind
  show "a \<le> b \<Longrightarrow> b \<le> a \<Longrightarrow> a = b"
    by (cases a; cases b) (simp_all add: less_eq_FsEntryKind_def)
qed (auto simp: less_eq_FsEntryKind_def less_FsEntryKind_def)

end

definition displayName :: "FsEntry \<Rightarrow> jstring" where
  "displayName e = (if trim (fs_name e) \<noteq> [] then trim (fs_name e) else fs_path e)"

fun kindLabel :: "FsEntryKind \<Rightarrow> jstring" where
  "kindLabel FsFile = js ''File''"
| "kindLabel FsDirectory = js ''Directory''"
| "kindLabel FsSymlink = js ''Link''"
| "kindLabel FsOther = js ''Other''"

text \<open>The comparison function of \<open>sortEntries\<close>; \<open>collate\<close> is the numeric base-sensitive
  \<open>localeCompare\<close>.\<close>

definition compareEntries :: "(jstring \<Rightarrow> jstring \<Rightarrow> int) \<Rightarrow> FsEntry \<Rightarrow> FsEntry \<Rightarrow> int" where
  "compareEntries collate left right =
     (let leftRank = kindRank (fs_kind left); rightRank = kindRank (fs_kind right) in
      if leftRank \<noteq> rightRank then leftRank - rightRank
      else collate (displayName left) (displayName right))"

definition sortEntries :: "(jstring \<Rightarrow> jstring \<Rightarrow> int) \<Rightarrow> FsEntry list \<Rightarrow> FsEntry list" where
  "sortEntries collate entries = sort_by (compareEntries collate) entries"

section \<open>Roots and parents\<close>

abbreviation slash :: "16 word" where "slash \<equiv> u16 CHR ''/''"
abbreviation backslash :: "16 word" where "backslash \<equiv> u16 CHR 0x5C"

definition is_sep :: "16 word \<Rightarrow> bool" where
  "is_sep c \<longleftrightarrow> c = slash \<or> c = backslash"

definition drive_letter :: "16 word \<Rightarrow> bool" where
  "drive_letter c \<longleftrightarrow> u16 CHR ''a'' \<le> c \<and> c \<le> u16 CHR ''z'' \<or> u16 CHR ''A'' \<le> c \<and> c \<le> u16 CHR ''Z''"

text \<open>\<open>/^[A-Za-z]:[\\/]/\<close>\<close>

definition match_drive :: "jstring \<Rightarrow> jstring option" where
  "match_drive path =
     (case path of
        a # b # c # _ \<Rightarrow>
          if drive_letter a \<and> b = u16 CHR '':'' \<and> is_sep c then Some [a, b, c] else None
      | _ \<Rightarrow> None)"

text \<open>\<open>/^\\\\[^\\]+\\[^\\]+\\?/\<close>: two backslashes, a server, a backslash, a share, and the
  backslash after it if there is one.\<close>

definition match_unc :: "jstring \<Rightarrow> jstring option" where
  "match_unc path =
     (case path of
        a # b # rest \<Rightarrow>
          let server = takeWhile (\<lambda>c. c \<noteq> backslash) rest;
              afterServer = drop (length server) rest;
              share = takeWhile (\<lambda>c. c \<noteq> backslash) (drop 1 afterServer);
              afterShare = drop (length share) (drop 1 afterServer)
          in
          if a = backslash \<and> b = backslash \<and> server \<noteq> [] \<and> afterServer \<noteq> [] \<and> share \<noteq> []
          then Some ([a, b] @ server @ [backslash] @ share @ take 1 afterShare)
          else None
      | _ \<Rightarrow> None)"

definition pathRoot :: "jstring \<Rightarrow> jstring \<times> 16 word" where
  "pathRoot path =
     (case match_drive path of
        Some root \<Rightarrow> (root, if endsWith root [slash] then slash else backslash)
      | None \<Rightarrow>
          (case match_unc path of
             Some unc \<Rightarrow> (if endsWith unc [backslash] then unc else unc @ [backslash], backslash)
           | None \<Rightarrow>
               if startsWith path [slash] then ([slash], slash)
               else (path, if slash \<in> set path then slash else backslash)))"

definition parentPath :: "jstring \<Rightarrow> jstring option" where
  "parentPath path =
     (let root = fst (pathRoot path);
          trimmed = drop_trailing is_sep path in
      if trimmed = drop_trailing is_sep root then None
      else let index = max (lastIndexOf trimmed backslash) (lastIndexOf trimmed slash) in
        if index < 0 then None
        else if index < int (length root) then Some root
        else if take (nat index) trimmed = [] then None
        else Some (take (nat index) trimmed))"

text \<open>The loop of \<open>pathCrumbs\<close> over the parts below the root.\<close>

fun crumbs_from :: "16 word \<Rightarrow> jstring \<Rightarrow> jstring list \<Rightarrow> (jstring \<times> jstring option) list" where
  "crumbs_from sep cursor [] = []"
| "crumbs_from sep cursor (part # parts) =
     (let cursor = (if endsWith cursor [sep] then cursor @ part else cursor @ [sep] @ part) in
      (part, Some cursor) # crumbs_from sep cursor parts)"

definition pathCrumbs :: "jstring option \<Rightarrow> (jstring \<times> jstring option) list" where
  "pathCrumbs path =
     (case path of
        None \<Rightarrow> [(js ''Root'', None)]
      | Some path \<Rightarrow>
          if path = [] then [(js ''Root'', None)]
          else let (root, sep) = pathRoot path;
                   crumbs = [(js ''Root'', None), (root, Some root)];
                   rest = drop_trailing is_sep (drop (length root) path)
            in if rest = [] then crumbs else crumbs @ crumbs_from sep root (segments is_sep rest))"

section \<open>Sizes\<close>

text \<open>
  \<open>value = size / 1024\<close> is divided by 1024 while it is at least 1024 and there is a larger
  unit; sizes are below \<open>2^53\<close>, so these divisions by powers of two are exact and the value
  is the fraction \<open>size / d\<close>. \<open>toFixed\<close> rounds to the nearest decimal, halves upwards.
\<close>

definition size_units :: "string list" where
  "size_units = [''KB'', ''MB'', ''GB'', ''TB'']"

fun size_loop :: "nat \<Rightarrow> nat \<Rightarrow> nat \<Rightarrow> nat \<Rightarrow> nat \<times> nat" where
  "size_loop n d unitIndex 0 = (d, unitIndex)"
| "size_loop n d unitIndex (Suc fuel) =
     (if 1024 * d \<le> n then size_loop n (1024 * d) (Suc unitIndex) fuel else (d, unitIndex))"

definition round_half_up :: "nat \<Rightarrow> nat \<Rightarrow> nat" where
  "round_half_up n d = (2 * n + d) div (2 * d)"

definition toFixed0 :: "nat \<Rightarrow> nat \<Rightarrow> string" where
  "toFixed0 n d = show_nat (round_half_up n d)"

definition toFixed1 :: "nat \<Rightarrow> nat \<Rightarrow> string" where
  "toFixed1 n d = (let k = round_half_up (10 * n) d in
     show_nat (k div 10) @ ''.'' @ show_nat (k mod 10))"

definition formatSize :: "int option \<Rightarrow> string" where
  "formatSize v =
     (case v of
        None \<Rightarrow> []
      | Some n \<Rightarrow>
          if n < 1024 then show_int n @ '' B''
          else let n = nat n; (d, unitIndex) = size_loop n 1024 0 (length size_units - 1) in
            (if 10 * d \<le> n then toFixed0 n d else toFixed1 n d) @ '' '' @ size_units ! unitIndex)"

section \<open>The listing order\<close>

lemma kindRank_inject: "kindRank a = kindRank b \<longleftrightarrow> a = b"
  by (cases a; cases b) simp_all

lemma comparison_entries: "comparison collate \<Longrightarrow> comparison (compareEntries collate)"
  unfolding comparison_def compareEntries_def Let_def kindRank_inject
  by (smt (verit, best) kindRank_inject)

lemma mset_insert_by [simp]: "mset (insert_by cmp x ys) = add_mset x (mset ys)"
  by (induction ys) auto

lemma mset_sort_by [simp]: "mset (sort_by cmp xs) = mset xs"
  unfolding sort_by_def by (induction xs) auto

lemma mset_sortEntries [simp]: "mset (sortEntries collate es) = mset es"
  by (simp add: sortEntries_def)

lemma sorted_kinds:
  assumes "comparison collate"
  shows "sorted (map fs_kind (sortEntries collate es))"
proof -
  have "sorted_wrt (\<lambda>x y. compareEntries collate x y \<le> 0) (sortEntries collate es)"
    unfolding sortEntries_def by (rule sorted_sort_by [OF comparison_entries [OF assms]])
  then have "sorted_wrt (\<lambda>x y. fs_kind x \<le> fs_kind y) (sortEntries collate es)"
    by (rule sorted_wrt_mono_rel [rotated])
      (auto simp: compareEntries_def Let_def less_eq_FsEntryKind_def split: if_splits)
  then show ?thesis by (simp add: sorted_wrt_map)
qed

section \<open>Parents are shorter\<close>

lemma match_drive_prefix:
  "match_drive path = Some root \<Longrightarrow> \<exists>rest. path = root @ rest \<and> root \<noteq> []"
  by (auto simp: match_drive_def split: list.splits if_splits)

text \<open>A UNC match is two backslashes, a server, a backslash and a share, with the backslash after
  them unless the path ends there.\<close>

definition unc_name :: "jstring \<Rightarrow> jstring \<Rightarrow> jstring" where
  "unc_name server share = [backslash, backslash] @ server @ [backslash] @ share"

lemma match_unc_form:
  assumes "match_unc path = Some m"
  obtains server share where "server \<noteq> []" "share \<noteq> []" "backslash \<notin> set server"
    "backslash \<notin> set share" "m = unc_name server share \<and> path = m \<or>
      m = unc_name server share @ [backslash] \<and> (\<exists>rest. path = m @ rest)"
proof -
  let ?bs = "\<lambda>c :: 16 word. c \<noteq> backslash"
  from assms obtain a b rest where p: "path = a # b # rest"
    by (auto simp: match_unc_def split: list.splits)
  define server where "server = takeWhile ?bs rest"
  define after1 where "after1 = drop (length server) rest"
  define share where "share = takeWhile ?bs (drop 1 after1)"
  define after2 where "after2 = drop (length share) (drop 1 after1)"
  have dw: "after1 = dropWhile ?bs rest" "after2 = dropWhile ?bs (drop 1 after1)"
    by (simp_all add: after1_def server_def after2_def share_def dropWhile_eq_drop)
  have rest: "rest = server @ after1" "drop 1 after1 = share @ after2"
    by (simp_all add: dw server_def share_def)
  have m: "after1 \<noteq> []" "m = [a, b] @ server @ [backslash] @ share @ take 1 after2"
    "a = backslash" "b = backslash" "server \<noteq> []" "share \<noteq> []"
    using assms
    by (simp_all only: match_unc_def p Let_def list.case flip: server_def after1_def share_def after2_def)
      (auto split: if_splits)
  have h1: "hd after1 = backslash" using m(1) hd_dropWhile [of ?bs rest] by (simp add: dw(1))
  have h2: "after2 \<noteq> [] \<Longrightarrow> hd after2 = backslash"
    using hd_dropWhile [of ?bs "drop 1 after1"] by (simp add: dw(2))
  have "after1 = backslash # share @ after2"
    using m(1) h1 rest(2) by (cases after1) auto
  then have path: "path = unc_name server share @ after2"
    by (simp add: p rest(1) m(3,4) unc_name_def)
  have "backslash \<notin> set server" "backslash \<notin> set share"
    by (auto simp: server_def share_def dest: set_takeWhileD)
  moreover have "m = unc_name server share \<and> path = m \<or>
      m = unc_name server share @ [backslash] \<and> (\<exists>rest. path = m @ rest)"
    using h2 by (cases after2) (auto simp: path m(2-4) unc_name_def)
  ultimately show thesis using m(5,6) that by blast
qed

lemma match_unc_name:
  assumes "server \<noteq> []" "share \<noteq> []" "backslash \<notin> set server" "backslash \<notin> set share"
  shows "match_unc (unc_name server share @ [backslash] @ x) = Some (unc_name server share @ [backslash])"
proof -
  have t: "takeWhile (\<lambda>c. c \<noteq> backslash) (ys @ backslash # zs) = ys" if "backslash \<notin> set ys" for ys zs
    using that by (subst takeWhile_append2) auto
  show ?thesis
    using assms by (simp add: match_unc_def unc_name_def t Let_def)
qed

lemma endsWith_snoc [simp]: "endsWith (xs @ [x]) [y] \<longleftrightarrow> x = y"
  by (simp add: endsWith_def)

lemma endsWith_last: "xs \<noteq> [] \<Longrightarrow> endsWith xs [y] \<longleftrightarrow> last xs = y"
  by (cases xs rule: rev_cases) simp_all

lemma unc_name_last: "share \<noteq> [] \<Longrightarrow> backslash \<notin> set share \<Longrightarrow> \<not> endsWith (unc_name server share) [backslash]"
  by (cases share rule: rev_cases) (auto simp: endsWith_last unc_name_def)

lemma pathRoot_cases:
  obtains rest where "path = fst (pathRoot path) @ rest"
  | "fst (pathRoot path) = path @ [backslash]"
proof (cases "match_drive path")
  case (Some root)
  then show thesis using match_drive_prefix that(1) by (auto simp: pathRoot_def)
next
  case d: None
  show thesis
  proof (cases "match_unc path")
    case (Some m)
    from match_unc_form [OF this] obtain server share where "share \<noteq> []" "backslash \<notin> set share"
      "m = unc_name server share \<and> path = m \<or>
        m = unc_name server share @ [backslash] \<and> (\<exists>rest. path = m @ rest)" by metis
    then show thesis
      using d Some that by (auto simp: pathRoot_def unc_name_last)
  next
    case None
    have "\<exists>rest. path = fst (pathRoot path) @ rest"
      using d None by (cases path) (auto simp: pathRoot_def startsWith_def)
    then show thesis using that(1) by blast
  qed
qed

lemma parentPath_form:
  assumes "parentPath path = Some parent"
  shows "parent = fst (pathRoot path) \<or>
    (\<exists>k. length (fst (pathRoot path)) \<le> k \<and> k < length (drop_trailing is_sep path) \<and>
      parent = take k (drop_trailing is_sep path))"
proof -
  let ?t = "drop_trailing is_sep path"
  define k where "k = max (lastIndexOf ?t backslash) (lastIndexOf ?t slash)"
  have "k < int (length ?t)" using lastIndexOf_less [of ?t] by (auto simp: k_def)
  moreover from assms have "0 \<le> k"
    "parent = (if k < int (length (fst (pathRoot path))) then fst (pathRoot path) else take (nat k) ?t)"
    by (auto simp: parentPath_def Let_def k_def split: if_splits)
  ultimately show ?thesis by (auto intro!: exI [of _ "nat k"])
qed

lemma parentPath_length:
  assumes "parentPath path = Some parent"
  shows "length parent < length path \<and> parent \<noteq> []"
proof -
  let ?root = "fst (pathRoot path)" and ?trimmed = "drop_trailing is_sep path"
  let ?index = "max (lastIndexOf ?trimmed backslash) (lastIndexOf ?trimmed slash)"
  define k where "k = ?index"
  have ne: "?trimmed \<noteq> drop_trailing is_sep ?root" and i: "0 \<le> k"
    and p: "parent = (if k < int (length ?root) then ?root else take (nat k) ?trimmed)"
      "k < int (length ?root) \<or> parent \<noteq> []"
    using assms by (auto simp: parentPath_def Let_def k_def split: if_splits)
  have lt: "k < int (length ?trimmed)"
    using lastIndexOf_less [of ?trimmed] by (auto simp: k_def)
  have sep: "is_sep backslash" by (simp add: is_sep_def)
  show ?thesis
  proof (cases rule: pathRoot_cases [of path])
    case (1 rest)
    have "rest \<noteq> []" using 1 ne by (metis append_Nil2)
    then have "length ?root < length path" using 1 by (metis length_append less_add_same_cancel1 length_greater_0_conv)
    moreover have "length ?trimmed \<le> length path" by simp
    moreover have "nat k < length path" using lt i calculation(2) by linarith
    moreover have "k < int (length ?root) \<Longrightarrow> ?root \<noteq> []" using i by auto
    ultimately show ?thesis using p lt i by (auto simp: min_def)
  next
    case 2
    have "drop_trailing is_sep ?root = ?trimmed"
      unfolding 2 using sep by (simp add: drop_trailing_append)
    with ne show ?thesis by simp
  qed
qed

section \<open>Crumbs are the chain of parents\<close>

text \<open>Paths with a drive, a UNC share or a leading slash; for others \<open>pathRoot\<close> is the path.\<close>

definition rooted :: "jstring \<Rightarrow> bool" where
  "rooted path \<longleftrightarrow> match_drive path \<noteq> None \<or> match_unc path \<noteq> None \<or> startsWith path [slash]"

lemma match_drive_append: "match_drive path = Some root \<Longrightarrow> match_drive (root @ x) = Some root"
  by (auto simp: match_drive_def split: list.splits if_splits)

lemma match_drive_unc: "match_unc path \<noteq> None \<Longrightarrow> match_drive path = None"
  by (auto simp: match_drive_def match_unc_def drive_letter_def u16_def word_le_nat_alt
      split: list.splits if_splits)

lemma pathRoot_append:
  assumes "rooted path" "pathRoot path = (root, sep)"
  shows "pathRoot (root @ x) = (root, sep) \<and> endsWith root [sep] \<and> is_sep sep \<and> root \<noteq> []"
proof (cases "match_drive path")
  case (Some r)
  with assms(2) have r: "root = r" "sep = (if endsWith r [slash] then slash else backslash)"
    by (auto simp: pathRoot_def)
  from Some obtain a b c where "r = [a, b, c]" "is_sep c"
    by (auto simp: match_drive_def split: list.splits if_splits)
  then show ?thesis
    using match_drive_append [OF Some, of x] r
    by (auto simp: pathRoot_def is_sep_def endsWith_def)
next
  case d: None
  show ?thesis
  proof (cases "match_unc path")
    case (Some m)
    from match_unc_form [OF this] obtain server share where n: "server \<noteq> []" "share \<noteq> []"
      "backslash \<notin> set server" "backslash \<notin> set share" "m = unc_name server share \<and> path = m \<or>
        m = unc_name server share @ [backslash] \<and> (\<exists>rest. path = m @ rest)" by metis
    then have "root = unc_name server share @ [backslash]" "sep = backslash"
      using assms(2) d Some by (auto simp: pathRoot_def unc_name_last)
    note u = n(1-4) this
    have m: "match_unc (root @ x) = Some root" using match_unc_name [OF u(1-4), of x] by (simp add: u(5))
    then have "match_drive (root @ x) = None" by (intro match_drive_unc) simp
    with m u(5,6) show ?thesis by (simp add: pathRoot_def is_sep_def)
  next
    case None
    then have "startsWith path [slash]" using assms(1) d by (simp add: rooted_def)
    with assms(2) d None have "root = [slash]" "sep = slash" by (auto simp: pathRoot_def)
    moreover have "match_drive (slash # x) = None" "match_unc (slash # x) = None"
      by (auto simp: match_drive_def match_unc_def drive_letter_def u16_def word_le_nat_alt
          split: list.splits)
    ultimately show ?thesis by (simp add: pathRoot_def startsWith_def endsWith_def is_sep_def)
  qed
qed

lemma lastIndexOf_append:
  "c \<notin> set ys \<Longrightarrow> lastIndexOf (xs @ x # ys) c = (if x = c then int (length xs) else lastIndexOf xs c)"
proof (induction xs)
  case Nil
  then have "lastIndexOf ys c < 0" by (simp add: lastIndexOf_neg)
  then show ?case by (simp add: Let_def)
next
  case (Cons a xs)
  then show ?case by (simp add: Let_def)
qed

lemma last_separator:
  assumes "is_sep x" "\<forall>c \<in> set part. \<not> is_sep c"
  shows "max (lastIndexOf (xs @ x # part) backslash) (lastIndexOf (xs @ x # part) slash) = int (length xs)"
proof -
  have n: "backslash \<notin> set part" "slash \<notin> set part" using assms(2) by (auto simp: is_sep_def)
  show ?thesis
    using assms(1) lastIndexOf_less [of xs backslash] lastIndexOf_less [of xs slash]
    by (auto simp: lastIndexOf_append [OF n(1)] lastIndexOf_append [OF n(2)] is_sep_def)
qed

lemma drop_trailing_part:
  "part \<noteq> [] \<Longrightarrow> \<forall>c \<in> set part. \<not> P c \<Longrightarrow> drop_trailing P (xs @ part) = xs @ part"
  by (cases part rule: rev_cases) (auto simp: drop_trailing_def)

text \<open>Below a root, the parent of a path is what stands before its last part.\<close>

lemma parent_of_root_part:
  assumes "pathRoot (root @ part) = (root, sep)" "root \<noteq> []" "is_sep (last root)"
    and part: "part \<noteq> []" "\<forall>c \<in> set part. \<not> is_sep c"
  shows "parentPath (root @ part) = Some root"
proof -
  obtain r x where r: "root = r @ [x]" "is_sep x"
    using assms(2,3) by (metis append_butlast_last_id)
  have "length (drop_trailing is_sep root) < length (root @ part)"
    using part(1) drop_trailing_length [of is_sep root] by (metis add_less_cancel_left
      le_less_trans length_append length_greater_0_conv less_add_same_cancel1)
  then have ne: "root @ part \<noteq> drop_trailing is_sep root" by (metis less_irrefl)
  show ?thesis
    using assms(1) ne last_separator [OF r(2) part(2), of r]
      drop_trailing_part [OF part, of "r @ [x]"]
    by (simp add: parentPath_def r(1) Let_def)
qed

lemma parent_of_part:
  assumes "pathRoot (cursor @ s # part) = (root, sep)" "is_sep s" "length root \<le> length cursor" "root \<noteq> []"
    and part: "part \<noteq> []" "\<forall>c \<in> set part. \<not> is_sep c"
  shows "parentPath (cursor @ s # part) = Some cursor"
proof -
  have t: "drop_trailing is_sep (cursor @ s # part) = cursor @ s # part"
    using drop_trailing_part [OF part, of "cursor @ [s]"] by simp
  have "length (drop_trailing is_sep root) < length (cursor @ s # part)"
    by (rule le_less_trans [OF drop_trailing_length]) (use assms(3) in simp)
  then have ne: "cursor @ s # part \<noteq> drop_trailing is_sep root" by (metis less_irrefl)
  moreover have "cursor \<noteq> []" using assms(3,4) by auto
  ultimately show ?thesis
    using assms(1,3) last_separator [OF assms(2) part(2), of cursor] t
    by (simp add: parentPath_def)
qed

lemma crumbs_from_parents:
  assumes "\<forall>part \<in> set parts. part \<noteq> [] \<and> (\<forall>c \<in> set part. \<not> is_sep c)"
    and "\<And>x. pathRoot (root @ x) = (root, sep)" "endsWith root [sep]" "is_sep sep" "root \<noteq> []"
    and "cursor = root \<or> (\<exists>y. cursor = root @ y \<and> y \<noteq> [] \<and> \<not> is_sep (last y))"
  shows "successively (\<lambda>p q. Option.bind q parentPath = p)
    (Some cursor # map snd (crumbs_from sep cursor parts))"
  using assms(1,6)
proof (induction parts arbitrary: cursor)
  case (Cons part parts)
  from Cons.prems(1) have part: "part \<noteq> []" "\<forall>c \<in> set part. \<not> is_sep c" by auto
  then have last: "\<not> is_sep (last part)" by simp
  have lastroot: "last root = sep" using assms(3,5) by (simp add: endsWith_last)
  show ?case
  proof (cases "cursor = root")
    case True
    have "parentPath (root @ part) = Some root"
      using assms(2,4,5) lastroot part by (intro parent_of_root_part) simp_all
    moreover have "\<exists>y. root @ part = root @ y \<and> y \<noteq> [] \<and> \<not> is_sep (last y)"
      using part last by blast
    ultimately show ?thesis
      using True Cons.IH [of "root @ part"] Cons.prems(1) assms(3) by (simp add: Let_def)
  next
    case False
    then obtain y where y: "cursor = root @ y" "y \<noteq> []" "\<not> is_sep (last y)"
      using Cons.prems(2) by blast
    have e: "\<not> endsWith cursor [sep]" using y assms(4) by (auto simp: endsWith_last)
    have "parentPath (cursor @ sep # part) = Some cursor"
      using assms(2) [of "y @ sep # part"] assms(4,5) part y(1) by (intro parent_of_part) simp_all
    moreover have "\<exists>z. cursor @ sep # part = root @ z \<and> z \<noteq> [] \<and> \<not> is_sep (last z)"
      using part last y(1) by (intro exI [of _ "y @ sep # part"]) simp
    ultimately show ?thesis
      using e Cons.IH [of "cursor @ sep # part"] Cons.prems(1) by (simp add: Let_def)
  qed
qed simp

lemma segments_parts: "part \<in> set (segments P xs) \<Longrightarrow> part \<noteq> [] \<and> (\<forall>c \<in> set part. \<not> P c)"
  using segments_from_nonempty [of part P "[]" xs] segments_from_free [of part P "[]" xs]
  by (simp add: segments_def)

section \<open>Properties\<close>

text \<open>Listings are sorted: for a consistent collation, \<open>sortEntries\<close> permutes the entries
  and puts directories before links before files before the rest, ordered by name within a
  kind.\<close>

theorem listing_sorted:
  assumes "comparison collate"
  shows "mset (sortEntries collate entries) = mset entries \<and>
    sorted (map fs_kind (sortEntries collate entries)) \<and>
    sorted_wrt (\<lambda>x y. fs_kind x = fs_kind y \<longrightarrow> collate (displayName x) (displayName y) \<le> 0)
      (sortEntries collate entries)"
proof -
  have "sorted_wrt (\<lambda>x y. compareEntries collate x y \<le> 0) (sortEntries collate entries)"
    unfolding sortEntries_def by (rule sorted_sort_by [OF comparison_entries [OF assms]])
  then have "sorted_wrt (\<lambda>x y. fs_kind x = fs_kind y \<longrightarrow> collate (displayName x) (displayName y) \<le> 0)
      (sortEntries collate entries)"
    by (rule sorted_wrt_mono_rel [rotated]) (auto simp: compareEntries_def)
  with sorted_kinds [OF assms] show ?thesis by simp
qed

definition entry_of :: "string \<Rightarrow> FsEntryKind \<Rightarrow> FsEntry" where
  "entry_of n k = \<lparr>fs_name = js n, fs_path = js n, fs_kind = k, fs_size = None,
     fs_modifiedAtMs = None, fs_readonly = False\<rparr>"

theorem listing_sorted_witness:
  "sorted (map fs_kind (sortEntries (\<lambda>a b. int (length a) - int (length b))
     [entry_of ''a'' FsFile, entry_of ''b'' FsDirectory]))"
proof -
  have "comparison (\<lambda>a b :: jstring. int (length a) - int (length b))"
    by (simp add: comparison_def)
  from listing_sorted [OF this] show ?thesis by blast
qed

text \<open>Going up terminates: the parent of a path is a non-empty, strictly shorter path.\<close>

theorem parent_path_shorter:
  assumes "parentPath path = Some parent"
  shows "parent \<noteq> [] \<and> length parent < length path"
  using parentPath_length [OF assms] by simp

theorem parent_path_shorter_witness:
  "js ''/home'' \<noteq> [] \<and> length (js ''/home'') < length (js ''/home/u'')"
proof (rule parent_path_shorter)
  show "parentPath (js ''/home/u'') = Some (js ''/home'')"
    by (simp add: parentPath_def pathRoot_def match_drive_def match_unc_def startsWith_def js_Cons
        is_sep_def drop_trailing_def Let_def)
qed

text \<open>The crumbs of a rooted path are its chain of parents: from the root crumb on, each
  crumb's path has the crumb before it as its \<open>parentPath\<close>.\<close>

theorem crumbs_are_parents:
  assumes "rooted path"
  shows "successively (\<lambda>p q. Option.bind q parentPath = p) (map snd (tl (pathCrumbs (Some path))))"
proof -
  obtain root sep where r: "pathRoot path = (root, sep)" by (cases "pathRoot path")
  note app = pathRoot_append [OF assms r]
  have "successively (\<lambda>p q. Option.bind q parentPath = p)
      (Some root # map snd (crumbs_from sep root (segments is_sep xs)))" for xs
    using app segments_parts [of _ is_sep xs] by (intro crumbs_from_parents [where root = root]) simp_all
  then show ?thesis by (simp add: pathCrumbs_def r Let_def)
qed

theorem crumbs_are_parents_witness:
  "successively (\<lambda>p q. Option.bind q parentPath = p)
     (map snd (tl (pathCrumbs (Some (js ''C:/a/b'')))))"
  by (rule crumbs_are_parents)
    (simp add: rooted_def match_drive_def drive_letter_def js_Cons is_sep_def u16_def)

end
