(* ===== verification/Explorer.thy ===== *)
theory Explorer
  imports Paths Machines Client
begin

text \<open>
  \<open>web/src/state/explorer.ts\<close>: the file explorer of one tab, its navigation with history, and
  the two subscriptions behind it (the roots of a machine, the directory shown). A jotai
  \<open>store.set\<close> runs the listeners of the subscription keys before it returns, so an operation
  that changes the location restarts the directory stream in its middle; \<open>notify\<close> is that
  call of the listeners, placed where the code sets the atom.
\<close>

section \<open>Locations\<close>

datatype ExplorerLocation =
    LRoot
  | LDirectory jstring
  | LFile "jstring option" FsEntry
  | LTrash

definition trashLocationPath :: jstring where
  "trashLocationPath = js ''wgo://trash''"

definition locationFromPath :: "jstring option \<Rightarrow> ExplorerLocation" where
  "locationFromPath path =
     (case path of None \<Rightarrow> LRoot | Some p \<Rightarrow> if p \<noteq> [] then LDirectory p else LRoot)"

fun currentPathFromLocation :: "ExplorerLocation \<Rightarrow> jstring option" where
  "currentPathFromLocation (LDirectory p) = Some p"
| "currentPathFromLocation (LFile d e) = d"
| "currentPathFromLocation _ = None"

fun directoryPathFromLocation :: "ExplorerLocation \<Rightarrow> jstring option" where
  "directoryPathFromLocation (LDirectory p) = Some p"
| "directoryPathFromLocation (LFile d e) = d"
| "directoryPathFromLocation _ = None"

fun displayPathFromLocation :: "ExplorerLocation \<Rightarrow> jstring option" where
  "displayPathFromLocation LRoot = None"
| "displayPathFromLocation (LDirectory p) = Some p"
| "displayPathFromLocation (LFile d e) = Some (fs_path e)"
| "displayPathFromLocation LTrash = Some trashLocationPath"

fun openedFileFromLocation :: "ExplorerLocation \<Rightarrow> FsEntry option" where
  "openedFileFromLocation (LFile d e) = Some e"
| "openedFileFromLocation _ = None"

section \<open>Events\<close>

fun rootsCloseReasonLabel :: "RootsSubscriptionCloseReason \<Rightarrow> string" where
  "rootsCloseReasonLabel RootsFailed = ''failed''"
| "rootsCloseReasonLabel RootsPermissionLost = ''permissionLost''"
| "rootsCloseReasonLabel RootsUnknown = ''unknown''"

fun directoryCloseReasonLabel :: "DirectorySubscriptionCloseReason \<Rightarrow> string" where
  "directoryCloseReasonLabel DirFailed = ''failed''"
| "directoryCloseReasonLabel DirDeleted = ''deleted''"
| "directoryCloseReasonLabel (DirMoved to) = ''moved''"
| "directoryCloseReasonLabel DirPermissionLost = ''permissionLost''"
| "directoryCloseReasonLabel DirReplacedByNonDirectory = ''replacedByNonDirectory''"
| "directoryCloseReasonLabel DirUnknown = ''unknown''"

text \<open>A stream yields an event, or its loop throws.\<close>

datatype 'ev stream_item = Event 'ev | Failure js_error

section \<open>State\<close>

record explorer =
  ex_machine :: "Machine option"
  ex_refresh :: nat
  ex_history :: "ExplorerLocation list"
  ex_location :: ExplorerLocation
  ex_selectedPath :: "jstring option"
  roots_rows :: "FsEntry list"
  roots_state :: StreamState
  roots_started :: nat
  roots_live :: "nat option"
  dir_rows :: "FsEntry list"
  dir_state :: StreamState
  dir_started :: nat
  dir_live :: "nat option"

definition directoryPath :: "explorer \<Rightarrow> jstring option" where
  "directoryPath st = directoryPathFromLocation (ex_location st)"

definition explorerConnectionKey :: "Machine option \<Rightarrow> jstring" where
  "explorerConnectionKey machine =
     (case machine of
        None \<Rightarrow> []
      | Some m \<Rightarrow> join [10] [m_id m, m_baseUrl m, getOr (m_clientId m) [], getOr (m_clientSecret m) []])"

definition pairedLabel :: "Machine option \<Rightarrow> jstring" where
  "pairedLabel machine = (if isPaired machine then js ''paired'' else js ''unpaired'')"

definition rootsSubscriptionKey :: "explorer \<Rightarrow> jstring" where
  "rootsSubscriptionKey st =
     join [10] [explorerConnectionKey (ex_machine st), pairedLabel (ex_machine st),
       js (show_nat (ex_refresh st))]"

definition directorySubscriptionKey :: "explorer \<Rightarrow> jstring" where
  "directorySubscriptionKey st =
     join [10] [explorerConnectionKey (ex_machine st), pairedLabel (ex_machine st),
       getOr (directoryPath st) [], js (show_nat (ex_refresh st))]"

section \<open>Starting the subscriptions\<close>

definition startRoots :: "explorer \<Rightarrow> explorer" where
  "startRoots st =
     (let n = roots_started st; st = st\<lparr>roots_live := None, roots_started := Suc n\<rparr> in
      if ex_machine st = None \<or> \<not> isPaired (ex_machine st) then
        st\<lparr>roots_rows := [], roots_state := stream_state SIdle ''Roots idle''\<rparr>
      else st\<lparr>roots_live := Some n, roots_state := stream_state SConnecting ''Opening roots''\<rparr>)"

definition startDirectory :: "explorer \<Rightarrow> explorer" where
  "startDirectory st =
     (let n = dir_started st;
          st = st\<lparr>dir_live := None, dir_started := Suc n, dir_rows := [], ex_selectedPath := None\<rparr> in
      if ex_machine st = None \<or> \<not> isPaired (ex_machine st) \<or> \<not> truthy (directoryPath st) then
        st\<lparr>dir_state := stream_state SIdle ''Directory idle''\<rparr>
      else st\<lparr>dir_live := Some n, dir_state := stream_state SConnecting ''Opening directory''\<rparr>)"

definition notify :: "explorer \<Rightarrow> explorer \<Rightarrow> explorer" where
  "notify before after =
     (let r = (if rootsSubscriptionKey before \<noteq> rootsSubscriptionKey after
               then startRoots after else after) in
      if directorySubscriptionKey before \<noteq> directorySubscriptionKey after
      then startDirectory r else r)"

section \<open>Navigation\<close>

definition set_navigation :: "ExplorerLocation list \<Rightarrow> ExplorerLocation \<Rightarrow> explorer \<Rightarrow> explorer" where
  "set_navigation history location st =
     notify st (st\<lparr>ex_history := history, ex_location := location\<rparr>)"

definition navigateTo :: "ExplorerLocation \<Rightarrow> explorer \<Rightarrow> explorer" where
  "navigateTo location st =
     (set_navigation (ex_history st @ [ex_location st]) location st)\<lparr>ex_selectedPath := None\<rparr>"

definition navigateTrash :: "explorer \<Rightarrow> explorer" where
  "navigateTrash = navigateTo LTrash"

definition navigate :: "jstring option \<Rightarrow> explorer \<Rightarrow> explorer" where
  "navigate path =
     (if path = Some trashLocationPath then navigateTrash else navigateTo (locationFromPath path))"

definition replaceWithLocation :: "ExplorerLocation \<Rightarrow> explorer \<Rightarrow> explorer" where
  "replaceWithLocation location st =
     (set_navigation (ex_history st) location st)\<lparr>ex_selectedPath := None\<rparr>"

definition replaceWithTrash :: "explorer \<Rightarrow> explorer" where
  "replaceWithTrash = replaceWithLocation LTrash"

definition replaceWithPath :: "jstring option \<Rightarrow> explorer \<Rightarrow> explorer" where
  "replaceWithPath path = replaceWithLocation (locationFromPath path)"

definition replaceWithMovedDirectory :: "jstring option \<Rightarrow> explorer \<Rightarrow> explorer" where
  "replaceWithMovedDirectory path st =
     (set_navigation [] (locationFromPath path) st)\<lparr>ex_selectedPath := None\<rparr>"

definition goBack :: "explorer \<Rightarrow> explorer" where
  "goBack st =
     (if ex_history st = [] then st
      else let previous = last (ex_history st) in
        (set_navigation (butlast (ex_history st)) previous st)
          \<lparr>ex_selectedPath := map_option fs_path (openedFileFromLocation previous)\<rparr>)"

definition goUp :: "explorer \<Rightarrow> explorer" where
  "goUp st =
     (case ex_location st of
        LTrash \<Rightarrow> st
      | LRoot \<Rightarrow> st
      | LFile directory _ \<Rightarrow> navigate directory st
      | LDirectory path \<Rightarrow> navigate (parentPath path) st)"

definition selectEntry :: "FsEntry \<Rightarrow> explorer \<Rightarrow> explorer" where
  "selectEntry entry st = st\<lparr>ex_selectedPath := Some (fs_path entry)\<rparr>"

definition openEntry :: "FsEntry \<Rightarrow> explorer \<Rightarrow> explorer" where
  "openEntry entry st =
     (if fs_kind entry = FsDirectory then navigate (Some (fs_path entry)) st
      else st\<lparr>ex_selectedPath := Some (fs_path entry)\<rparr>)"

definition openFile :: "FsEntry \<Rightarrow> explorer \<Rightarrow> explorer" where
  "openFile entry st =
     (navigateTo (LFile (directoryPath st) entry) st)\<lparr>ex_selectedPath := Some (fs_path entry)\<rparr>"

definition refresh :: "explorer \<Rightarrow> explorer" where
  "refresh st = notify st (st\<lparr>ex_refresh := ex_refresh st + 1\<rparr>)"

section \<open>Applying events\<close>

definition applyEntryPatch ::
    "(jstring \<Rightarrow> jstring \<Rightarrow> int) \<Rightarrow> FsEntry list \<Rightarrow> jstring list \<Rightarrow> FsEntry list \<Rightarrow> FsEntry list" where
  "applyEntryPatch collate current removedPaths upserts =
     sortEntries collate
       (filter (\<lambda>e. fs_path e \<notin> set removedPaths \<and> fs_path e \<notin> set (map fs_path upserts)) current
        @ upserts)"

definition applyDirectoryPatch ::
    "(jstring \<Rightarrow> jstring \<Rightarrow> int) \<Rightarrow> FsEntry list \<Rightarrow> jstring list \<Rightarrow> FsEntry list \<Rightarrow> FsEntry list" where
  "applyDirectoryPatch collate current removedNames upserts =
     (let remaining = filter (\<lambda>e. fs_name e \<notin> set removedNames) current in
      sortEntries collate
        (filter (\<lambda>e. fs_name e \<notin> set (map fs_name upserts)) remaining @ upserts))"

fun applyRootsEvent ::
    "(jstring \<Rightarrow> jstring \<Rightarrow> int) \<Rightarrow> RootsTableEvent \<Rightarrow> explorer \<Rightarrow> explorer" where
  "applyRootsEvent collate (RootsSnapshot rows) st =
     st\<lparr>roots_rows := rows, roots_state := stream_state SLive ''Roots live''\<rparr>"
| "applyRootsEvent collate (RootsPatch removes upserts) st =
     st\<lparr>roots_rows := applyEntryPatch collate (roots_rows st) (map rootkey_path removes) upserts,
        roots_state := stream_state SLive ''Roots updated''\<rparr>"
| "applyRootsEvent collate (RootsClosed reason) st =
     st\<lparr>roots_state := stream_state SClosed (''Roots closed: '' @ rootsCloseReasonLabel reason)\<rparr>"

fun applyDirectoryEvent ::
    "(jstring \<Rightarrow> jstring \<Rightarrow> int) \<Rightarrow> DirectoryTableEvent \<Rightarrow> explorer \<Rightarrow> explorer" where
  "applyDirectoryEvent collate (DirSnapshot rows) st =
     st\<lparr>dir_rows := rows, dir_state := stream_state SLive ''Directory live''\<rparr>"
| "applyDirectoryEvent collate (DirPatch removes upserts) st =
     st\<lparr>dir_rows := applyDirectoryPatch collate (dir_rows st) (map dirkey_name removes) upserts,
        dir_state := stream_state SLive ''Directory updated''\<rparr>"
| "applyDirectoryEvent collate (DirClosed reason) st =
     (let st = (case reason of DirMoved to \<Rightarrow> replaceWithMovedDirectory to st | _ \<Rightarrow> st) in
      st\<lparr>dir_state := stream_state SClosed (''Directory closed: '' @ directoryCloseReasonLabel reason)\<rparr>)"

text \<open>
  \<open>handleInvalidCredentials\<close>: the session is closed and the machine's credentials are cleared,
  which changes both subscription keys.
\<close>

definition clear_credentials :: "explorer \<Rightarrow> explorer" where
  "clear_credentials st =
     notify st (st\<lparr>ex_machine := map_option (\<lambda>m. m\<lparr>m_clientSecret := None\<rparr>) (ex_machine st)\<rparr>)"

definition handleInvalidCredentials :: "js_error \<Rightarrow> explorer \<Rightarrow> bool \<times> explorer" where
  "handleInvalidCredentials err st =
     (if \<not> isInvalidCredentialsError err then (False, st) else (True, clear_credentials st))"

definition pairing_lost :: string where
  "pairing_lost = ''Pairing is no longer valid. Pair this machine again.''"

definition deliverRoots ::
    "(jstring \<Rightarrow> jstring \<Rightarrow> int) \<Rightarrow> nat \<Rightarrow> RootsTableEvent stream_item \<Rightarrow> explorer \<Rightarrow> explorer" where
  "deliverRoots collate g item st =
     (if roots_live st \<noteq> Some g then st
      else case item of
        Event ev \<Rightarrow> applyRootsEvent collate ev st
      | Failure err \<Rightarrow>
          (case handleInvalidCredentials err st of
             (True, st) \<Rightarrow> st\<lparr>roots_state := stream_state SError pairing_lost\<rparr>
           | (False, st) \<Rightarrow>
               st\<lparr>roots_state := \<lparr>stream_phase = SError, stream_message = err_message err\<rparr>\<rparr>))"

definition deliverDirectory ::
    "(jstring \<Rightarrow> jstring \<Rightarrow> int) \<Rightarrow> nat \<Rightarrow> DirectoryTableEvent stream_item \<Rightarrow> explorer \<Rightarrow> explorer" where
  "deliverDirectory collate g item st =
     (if dir_live st \<noteq> Some g then st
      else case item of
        Event ev \<Rightarrow> applyDirectoryEvent collate ev st
      | Failure err \<Rightarrow>
          (case handleInvalidCredentials err st of
             (True, st) \<Rightarrow> st\<lparr>dir_state := stream_state SError pairing_lost\<rparr>
           | (False, st) \<Rightarrow>
               st\<lparr>dir_state := \<lparr>stream_phase = SError, stream_message = err_message err\<rparr>\<rparr>))"

section \<open>What the explorer shows\<close>

definition rows :: "explorer \<Rightarrow> FsEntry list" where
  "rows st =
     (if truthy (directoryPath st) then dir_rows st
      else if ex_location st = LTrash then [] else roots_rows st)"

definition visibleRows :: "(jstring \<Rightarrow> jstring \<Rightarrow> int) \<Rightarrow> explorer \<Rightarrow> FsEntry list" where
  "visibleRows collate st = sortEntries collate (rows st)"

definition openedFile :: "explorer \<Rightarrow> FsEntry option" where
  "openedFile st =
     (case openedFileFromLocation (ex_location st) of
        None \<Rightarrow> None
      | Some file \<Rightarrow> Some (getOr (List.find (\<lambda>e. fs_path e = fs_path file) (rows st)) file))"

definition selectedEntry :: "explorer \<Rightarrow> FsEntry option" where
  "selectedEntry st = List.find (\<lambda>e. Some (fs_path e) = ex_selectedPath st) (rows st)"

section \<open>Stored navigation\<close>

definition explorerNavigationStorageKey :: "jstring option \<Rightarrow> jstring \<Rightarrow> jstring" where
  "explorerNavigationStorageKey machineId paneScopeId =
     js ''wgo.explorer.navigation.'' @ getOr machineId (js ''none'') @ js ''.'' @ paneScopeId @ js ''.v2''"

text \<open>Storage errors are caught and ignored; the storage is left as it was.\<close>

definition copyExplorerNavigationState ::
    "jstring option \<Rightarrow> jstring \<Rightarrow> jstring \<Rightarrow> storage option \<Rightarrow> storage option" where
  "copyExplorerNavigationState machineId source target storage =
     (case storage of
        None \<Rightarrow> None
      | Some st \<Rightarrow>
          let targetKey = explorerNavigationStorageKey machineId target in
          case getItem st (explorerNavigationStorageKey machineId source) of
            None \<Rightarrow> Some (removeItem st targetKey)
          | Some v \<Rightarrow> (case setItem st targetKey v of Inl _ \<Rightarrow> Some st | Inr st' \<Rightarrow> Some st'))"

text \<open>\<open>stringify\<close> is \<open>JSON.stringify\<close> on navigation states, history and location.\<close>

definition writeExplorerNavigationState ::
    "(ExplorerLocation list \<Rightarrow> ExplorerLocation \<Rightarrow> jstring) \<Rightarrow> jstring option \<Rightarrow> jstring \<Rightarrow> ExplorerLocation \<Rightarrow>
     storage option \<Rightarrow> storage option" where
  "writeExplorerNavigationState stringify machineId paneScopeId location storage =
     (case storage of
        None \<Rightarrow> None
      | Some st \<Rightarrow>
          (case setItem st (explorerNavigationStorageKey machineId paneScopeId) (stringify [] location) of
             Inl _ \<Rightarrow> Some st
           | Inr st' \<Rightarrow> Some st'))"

definition writeExplorerFileNavigationState ::
    "(ExplorerLocation list \<Rightarrow> ExplorerLocation \<Rightarrow> jstring) \<Rightarrow> jstring option \<Rightarrow> jstring \<Rightarrow>
     jstring option \<Rightarrow> FsEntry \<Rightarrow> storage option \<Rightarrow> storage option" where
  "writeExplorerFileNavigationState stringify machineId paneScopeId currentPath file =
     writeExplorerNavigationState stringify machineId paneScopeId (LFile currentPath file)"

definition writeExplorerDirectoryNavigationState ::
    "(ExplorerLocation list \<Rightarrow> ExplorerLocation \<Rightarrow> jstring) \<Rightarrow> jstring option \<Rightarrow> jstring \<Rightarrow>
     jstring \<Rightarrow> storage option \<Rightarrow> storage option" where
  "writeExplorerDirectoryNavigationState stringify machineId paneScopeId path =
     writeExplorerNavigationState stringify machineId paneScopeId (locationFromPath (Some path))"

section \<open>Interfaces\<close>

interpretation roots_table: keyed_table fs_path "applyEntryPatch collate"
  by unfold_locales (simp add: applyEntryPatch_def conj_commute)

interpretation directory_table: keyed_table fs_name "applyDirectoryPatch collate"
  by unfold_locales (simp add: applyDirectoryPatch_def Let_def conj_commute)

text \<open>The fields an operation leaves alone.\<close>

lemma startRoots_fields [simp]:
  "ex_machine (startRoots st) = ex_machine st" "ex_refresh (startRoots st) = ex_refresh st"
  "ex_history (startRoots st) = ex_history st" "ex_location (startRoots st) = ex_location st"
  "dir_rows (startRoots st) = dir_rows st" "dir_state (startRoots st) = dir_state st"
  "dir_started (startRoots st) = dir_started st" "dir_live (startRoots st) = dir_live st"
  "roots_started (startRoots st) = Suc (roots_started st)"
  by (simp_all add: startRoots_def Let_def)

lemma startDirectory_fields [simp]:
  "ex_machine (startDirectory st) = ex_machine st" "ex_refresh (startDirectory st) = ex_refresh st"
  "ex_history (startDirectory st) = ex_history st" "ex_location (startDirectory st) = ex_location st"
  "roots_rows (startDirectory st) = roots_rows st" "roots_state (startDirectory st) = roots_state st"
  "roots_started (startDirectory st) = roots_started st" "roots_live (startDirectory st) = roots_live st"
  "dir_started (startDirectory st) = Suc (dir_started st)"
  by (simp_all add: startDirectory_def Let_def)

lemma notify_fields [simp]:
  "ex_machine (notify st st') = ex_machine st'" "ex_refresh (notify st st') = ex_refresh st'"
  "ex_history (notify st st') = ex_history st'" "ex_location (notify st st') = ex_location st'"
  by (simp_all add: notify_def Let_def)

lemma set_navigation_fields [simp]:
  "ex_history (set_navigation h l st) = h" "ex_location (set_navigation h l st) = l"
  "ex_machine (set_navigation h l st) = ex_machine st"
  by (simp_all add: set_navigation_def)

lemma startRoots_live:
  "roots_live (startRoots st) = (if isPaired (ex_machine st) then Some (roots_started st) else None)"
  by (auto simp: startRoots_def Let_def isPaired_def)

lemma startDirectory_live:
  "dir_live (startDirectory st) =
     (if isPaired (ex_machine st) \<and> truthy (directoryPath st) then Some (dir_started st) else None)"
  by (auto simp: startDirectory_def Let_def isPaired_def directoryPath_def)

text \<open>What \<open>notify\<close> does to a subscription: it stays, or it restarts.\<close>

lemma notify_roots:
  "roots_live st' = roots_live st \<Longrightarrow> roots_started st' = roots_started st \<Longrightarrow>
   roots_live (notify st st') = roots_live st \<and> roots_started (notify st st') = roots_started st \<or>
   roots_live (notify st st') = (if isPaired (ex_machine st') then Some (roots_started st) else None) \<and>
   roots_started (notify st st') = Suc (roots_started st)"
  by (simp add: notify_def Let_def startRoots_live)

lemma notify_directory:
  "dir_live st' = dir_live st \<Longrightarrow> dir_started st' = dir_started st \<Longrightarrow>
   directorySubscriptionKey st' = directorySubscriptionKey st \<and>
   dir_live (notify st st') = dir_live st \<and> dir_started (notify st st') = dir_started st \<or>
   directorySubscriptionKey st' \<noteq> directorySubscriptionKey st \<and>
   dir_live (notify st st') =
     (if isPaired (ex_machine st') \<and> truthy (directoryPath st') then Some (dir_started st) else None) \<and>
   dir_started (notify st st') = Suc (dir_started st)"
  by (simp add: notify_def Let_def startDirectory_live directoryPath_def)

lemma applyRootsEvent_fields [simp]:
  "roots_live (applyRootsEvent collate ev st) = roots_live st"
  "roots_started (applyRootsEvent collate ev st) = roots_started st"
  "dir_live (applyRootsEvent collate ev st) = dir_live st"
  "dir_started (applyRootsEvent collate ev st) = dir_started st"
  "ex_machine (applyRootsEvent collate ev st) = ex_machine st"
  "ex_location (applyRootsEvent collate ev st) = ex_location st"
  by (cases ev; simp)+

interpretation roots_stream: subscription roots_started roots_live "\<lambda>_ :: unit. startRoots"
  "deliverRoots collate"
proof (unfold_locales, goal_cases)
  case (2 a s)
  then show ?case by (simp add: startRoots_live)
next
  case (3 s g ev)
  then show ?case by (simp add: deliverRoots_def)
next
  case (4 s g ev)
  show ?case
    using notify_roots [of "s\<lparr>ex_machine := map_option (\<lambda>m. m\<lparr>m_clientSecret := None\<rparr>) (ex_machine s)\<rparr>" s]
    by (auto simp: deliverRoots_def handleInvalidCredentials_def clear_credentials_def
        split: stream_item.splits)
next
  case (5 g ev s)
  show ?case
    using notify_roots [of "s\<lparr>ex_machine := map_option (\<lambda>m. m\<lparr>m_clientSecret := None\<rparr>) (ex_machine s)\<rparr>" s]
    by (auto simp: deliverRoots_def handleInvalidCredentials_def clear_credentials_def
        split: stream_item.splits if_splits)
qed simp

text \<open>An event of the directory stream leaves the subscription, or a move restarts it.\<close>

lemma applyDirectoryEvent_live:
  "dir_live (applyDirectoryEvent collate ev st) = dir_live st \<and>
   dir_started (applyDirectoryEvent collate ev st) = dir_started st \<or>
   dir_started (applyDirectoryEvent collate ev st) = Suc (dir_started st) \<and>
   (dir_live (applyDirectoryEvent collate ev st) = None \<or>
    dir_live (applyDirectoryEvent collate ev st) = Some (dir_started st))"
proof (cases ev)
  case (DirClosed reason)
  show ?thesis
  proof (cases reason)
    case (DirMoved to)
    show ?thesis
      using notify_directory [of "st\<lparr>ex_history := [], ex_location := locationFromPath to\<rparr>" st]
      by (auto simp: DirClosed DirMoved replaceWithMovedDirectory_def set_navigation_def
          split: if_splits)
  qed (simp_all add: DirClosed)
qed simp_all

lemma clear_credentials_directory:
  "dir_live (clear_credentials st) = dir_live st \<and> dir_started (clear_credentials st) = dir_started st \<or>
   dir_started (clear_credentials st) = Suc (dir_started st) \<and>
   (dir_live (clear_credentials st) = None \<or> dir_live (clear_credentials st) = Some (dir_started st))"
  using notify_directory [of "st\<lparr>ex_machine := map_option (\<lambda>m. m\<lparr>m_clientSecret := None\<rparr>) (ex_machine st)\<rparr>" st]
  by (auto simp: clear_credentials_def split: if_splits)

interpretation directory_stream: subscription dir_started dir_live "\<lambda>_ :: unit. startDirectory"
  "deliverDirectory collate"
proof (unfold_locales, goal_cases)
  case (2 a s)
  then show ?case by (simp add: startDirectory_live)
next
  case (3 s g ev)
  then show ?case by (simp add: deliverDirectory_def)
next
  case (4 s g ev)
  show ?case
  proof (cases ev)
    case (Event e)
    then show ?thesis using applyDirectoryEvent_live [of collate e s] by (auto simp: deliverDirectory_def)
  next
    case (Failure err)
    then show ?thesis
      using clear_credentials_directory [of s]
      by (auto simp: deliverDirectory_def handleInvalidCredentials_def)
  qed
next
  case (5 g ev s)
  show ?case
  proof (cases ev)
    case (Event e)
    then show ?thesis using applyDirectoryEvent_live [of collate e s] by (auto simp: deliverDirectory_def)
  next
    case (Failure err)
    then show ?thesis
      using clear_credentials_directory [of s]
      by (auto simp: deliverDirectory_def handleInvalidCredentials_def)
  qed
qed simp

section \<open>When the directory stream is live\<close>

definition live_ok :: "explorer \<Rightarrow> bool" where
  "live_ok st \<longleftrightarrow> (dir_live st \<noteq> None \<longrightarrow> isPaired (ex_machine st) \<and> truthy (directoryPath st)) \<and>
     (roots_live st \<noteq> None \<longrightarrow> isPaired (ex_machine st))"

text \<open>Changing only the location changes the directory key exactly when the path changes.\<close>

lemma join4: "join s [a, b, c, d] = a @ s @ b @ s @ c @ s @ d" by simp

lemma directory_key_location:
  "directorySubscriptionKey (st\<lparr>ex_history := h, ex_location := l\<rparr>) = directorySubscriptionKey st \<longleftrightarrow>
   getOr (directoryPathFromLocation l) [] = getOr (directoryPath st) []"
  by (auto simp: directorySubscriptionKey_def directoryPath_def)

lemma roots_key_location:
  "rootsSubscriptionKey (st\<lparr>ex_history := h, ex_location := l\<rparr>) = rootsSubscriptionKey st"
  by (simp add: rootsSubscriptionKey_def)

lemma truthy_getOr: "truthy v \<longleftrightarrow> getOr v [] \<noteq> []"
  by (simp add: truthy_def split: option.split)

lemma set_navigation_live_ok: "live_ok st \<Longrightarrow> live_ok (set_navigation h l st)"
  using directory_key_location [where st = st and h = h and l = l]
    roots_key_location [where st = st and h = h and l = l]
  by (auto simp: live_ok_def set_navigation_def notify_def Let_def startDirectory_live truthy_getOr
      directoryPath_def)

lemma selectedPath_live_ok [simp]: "live_ok (st\<lparr>ex_selectedPath := p\<rparr>) = live_ok st"
  by (simp add: live_ok_def directoryPath_def)

text \<open>Clearing the secret of a paired machine changes both keys: \<open>paired\<close> becomes \<open>unpaired\<close>.\<close>

lemma cleared_key:
  assumes "isPaired (Some m)"
  shows "explorerConnectionKey (Some (m\<lparr>m_clientSecret := None\<rparr>)) @ [10] @ js ''unpaired'' @ R
    \<noteq> explorerConnectionKey (Some m) @ [10] @ js ''paired'' @ R"
proof
  obtain secret where secret: "m_clientSecret m = Some secret"
    using assms by (auto simp: isPaired_def truthy_def split: option.splits)
  assume "explorerConnectionKey (Some (m\<lparr>m_clientSecret := None\<rparr>)) @ [10] @ js ''unpaired'' @ R
    = explorerConnectionKey (Some m) @ [10] @ js ''paired'' @ R"
  then have "[10, u16 CHR ''u''] @ js ''npaired'' = secret @ [10] @ js ''paired''"
    by (simp add: explorerConnectionKey_def secret js_Cons)
  then have "rev ([10, u16 CHR ''u''] @ js ''npaired'') = rev (secret @ [10] @ js ''paired'')"
    by (rule arg_cong)
  then show False by (simp add: js_def u16_def)
qed

lemma clear_credentials_live_ok:
  assumes "live_ok st"
  shows "live_ok (clear_credentials st)"
proof -
  let ?f = "map_option (\<lambda>m. m\<lparr>m_clientSecret := None\<rparr>)"
  let ?st = "st\<lparr>ex_machine := ?f (ex_machine st)\<rparr>"
  have u: "\<not> isPaired (?f v)" for v by (cases v) (simp_all add: isPaired_def truthy_def)
  have up: "\<not> isPaired (ex_machine ?st)" using u by simp
  have "dir_live (notify st ?st) = None \<and> roots_live (notify st ?st) = None"
  proof (cases "isPaired (ex_machine st)")
    case True
    then obtain m where m: "ex_machine st = Some m" by (auto simp: isPaired_def split: option.splits)
    have "directorySubscriptionKey st \<noteq> directorySubscriptionKey ?st"
      "rootsSubscriptionKey st \<noteq> rootsSubscriptionKey ?st"
      using cleared_key [of m] True u [of "Some m"]
      by (simp_all add: directorySubscriptionKey_def rootsSubscriptionKey_def m pairedLabel_def
          directoryPath_def eq_commute [of "explorerConnectionKey (Some m) @ _"])
    then have "notify st ?st = startDirectory (startRoots ?st)"
      unfolding notify_def Let_def by (simp only: if_True not_False_eq_True simp_thms)
    with up show ?thesis by (simp add: startDirectory_live startRoots_live)
  next
    case False
    with assms have "dir_live st = None" "roots_live st = None" by (auto simp: live_ok_def)
    with up show ?thesis by (simp add: notify_def Let_def startDirectory_live startRoots_live)
  qed
  then show ?thesis by (simp add: live_ok_def clear_credentials_def)
qed

text \<open>The machine changes outside the explorer: it is paired, unpaired, edited or deleted in the machine
  store, in this view or in another window. Its subscription keys change with its connection and with its
  pairing, and their listeners start the streams anew.\<close>

definition machine_changed :: "Machine option \<Rightarrow> explorer \<Rightarrow> explorer" where
  "machine_changed machine st = notify st (st\<lparr>ex_machine := machine\<rparr>)"

lemma label_paired: "pairedLabel m = pairedLabel n \<longleftrightarrow> isPaired m = isPaired n" "10 \<notin> set (pairedLabel m)"
  by (auto simp: pairedLabel_def js_Cons js_def)

lemma key_paired:
  assumes "a @ 10 # pairedLabel m @ 10 # x = b @ 10 # pairedLabel n @ 10 # (x :: jstring)"
  shows "isPaired m = isPaired n"
proof -
  have last: "takeWhile (\<lambda>c. c \<noteq> 10) (rev (k @ 10 # pairedLabel l)) = rev (pairedLabel l)" for k l
    using label_paired(2) [of l] by (simp add: takeWhile_append)
  have "(a @ 10 # pairedLabel m) @ 10 # x = (b @ 10 # pairedLabel n) @ 10 # x" using assms by simp
  then have "a @ 10 # pairedLabel m = b @ 10 # pairedLabel n" by (rule append_same_eq [THEN iffD1])
  then have "rev (pairedLabel m) = rev (pairedLabel n)" using last by metis
  then show ?thesis by (simp add: label_paired(1))
qed

lemma machine_changed_keys:
  assumes "isPaired machine \<noteq> isPaired (ex_machine st)"
  shows "rootsSubscriptionKey (st\<lparr>ex_machine := machine\<rparr>) \<noteq> rootsSubscriptionKey st"
    "directorySubscriptionKey (st\<lparr>ex_machine := machine\<rparr>) \<noteq> directorySubscriptionKey st"
  using assms key_paired [of "explorerConnectionKey machine" machine _ "explorerConnectionKey (ex_machine st)" "ex_machine st"]
  by (fastforce simp: rootsSubscriptionKey_def directorySubscriptionKey_def directoryPath_def)+

lemma machine_changed_live_ok:
  assumes "live_ok st"
  shows "live_ok (machine_changed machine st)"
proof (cases "isPaired machine = isPaired (ex_machine st)")
  case True
  with assms show ?thesis
    by (auto simp: machine_changed_def live_ok_def notify_def Let_def startDirectory_live startRoots_live
        directoryPath_def)
next
  case False
  then show ?thesis
    using machine_changed_keys [OF False]
    by (auto simp: machine_changed_def live_ok_def notify_def Let_def startDirectory_live startRoots_live
        directoryPath_def)
qed

lemma deliver_live_ok:
  assumes "live_ok st"
  shows "live_ok (deliverRoots collate g item st)" "live_ok (deliverDirectory collate h ditem st)"
proof -
  have f: "live_ok (st\<lparr>roots_rows := r\<rparr>) = live_ok st"
    "live_ok (st\<lparr>roots_state := s\<rparr>) = live_ok st" "live_ok (st\<lparr>dir_rows := r\<rparr>) = live_ok st"
    "live_ok (st\<lparr>dir_state := s\<rparr>) = live_ok st" for st r s
    by (simp_all add: live_ok_def directoryPath_def)
  show "live_ok (deliverRoots collate g item st)"
  proof (cases item)
    case (Event ev)
    then show ?thesis using assms by (cases ev) (simp_all add: deliverRoots_def f)
  next
    case (Failure err)
    then show ?thesis
      using assms clear_credentials_live_ok [OF assms]
      by (simp add: deliverRoots_def handleInvalidCredentials_def f)
  qed
  show "live_ok (deliverDirectory collate h ditem st)"
  proof (cases ditem)
    case (Event ev)
    have m: "live_ok (replaceWithMovedDirectory to st)" for to
      using set_navigation_live_ok [OF assms] by (simp add: replaceWithMovedDirectory_def)
    from Event show ?thesis
      using assms m by (cases ev) (simp_all add: deliverDirectory_def f split: DirectorySubscriptionCloseReason.split)
  next
    case (Failure err)
    then show ?thesis
      using assms clear_credentials_live_ok [OF assms]
      by (simp add: deliverDirectory_def handleInvalidCredentials_def f)
  qed
qed

lemma refresh_live_ok: "live_ok st \<Longrightarrow> live_ok (refresh st)"
  by (auto simp: live_ok_def refresh_def notify_def Let_def startDirectory_live startRoots_live
      directoryPath_def)

lemma navigate_live_ok:
  assumes "live_ok st"
  shows "live_ok (navigateTo l st)" "live_ok (navigate p st)" "live_ok (navigateTrash st)"
    "live_ok (replaceWithLocation l st)" "live_ok (goBack st)" "live_ok (goUp st)"
    "live_ok (openEntry e st)" "live_ok (openFile e st)" "live_ok (selectEntry e st)"
proof -
  note n = set_navigation_live_ok [OF assms]
  show to: "live_ok (navigateTo l st)" for l using n by (simp add: navigateTo_def)
  show nav: "live_ok (navigate p st)" for p using to by (simp add: navigate_def navigateTrash_def)
  show "live_ok (navigateTrash st)" using to by (simp add: navigateTrash_def)
  show "live_ok (replaceWithLocation l st)" using n by (simp add: replaceWithLocation_def)
  show "live_ok (goBack st)" using n assms by (simp add: goBack_def Let_def)
  show "live_ok (goUp st)" using nav assms by (simp add: goUp_def split: ExplorerLocation.split)
  show "live_ok (openEntry e st)" using nav assms by (simp add: openEntry_def)
  show "live_ok (openFile e st)" using to by (simp add: openFile_def)
  show "live_ok (selectEntry e st)" using assms by (simp add: selectEntry_def)
qed

text \<open>One step of the explorer: an operation of the user, an item of one of its streams, or a change of
  its machine.\<close>

inductive explorer_step :: "(jstring \<Rightarrow> jstring \<Rightarrow> int) \<Rightarrow> explorer \<Rightarrow> explorer \<Rightarrow> bool"
  for collate where
  navigate: "explorer_step collate st (navigate p st)"
| replace_path: "explorer_step collate st (replaceWithPath p st)"
| replace_trash: "explorer_step collate st (replaceWithTrash st)"
| go_back: "explorer_step collate st (goBack st)"
| go_up: "explorer_step collate st (goUp st)"
| select: "explorer_step collate st (selectEntry e st)"
| open_entry: "explorer_step collate st (openEntry e st)"
| open_file: "explorer_step collate st (openFile e st)"
| refresh: "explorer_step collate st (refresh st)"
| roots: "explorer_step collate st (deliverRoots collate g item st)"
| directory: "explorer_step collate st (deliverDirectory collate g ditem st)"
| machine: "explorer_step collate st (machine_changed machine st)"

definition initial_explorer :: "Machine option \<Rightarrow> ExplorerLocation list \<Rightarrow> ExplorerLocation \<Rightarrow> explorer" where
  "initial_explorer machine history location = startDirectory (startRoots
     \<lparr>ex_machine = machine, ex_refresh = 0, ex_history = history, ex_location = location,
       ex_selectedPath = None, roots_rows = [], roots_state = stream_state SIdle ''Roots idle'',
       roots_started = 0, roots_live = None, dir_rows = [],
       dir_state = stream_state SIdle ''Directory idle'', dir_started = 0, dir_live = None\<rparr>)"

lemma initial_live_ok: "live_ok (initial_explorer machine history location)"
  by (simp add: live_ok_def initial_explorer_def startDirectory_live startRoots_live directoryPath_def)

lemma step_live_ok: "explorer_step collate st st' \<Longrightarrow> live_ok st \<Longrightarrow> live_ok st'"
  by (induction rule: explorer_step.induct)
    (simp_all add: navigate_live_ok replaceWithPath_def replaceWithTrash_def refresh_live_ok
      deliver_live_ok machine_changed_live_ok)

section \<open>Going up\<close>

lemma parentPath_rooted:
  assumes "parentPath path = Some parent"
  obtains y where "parent = fst (pathRoot path) @ y" "rooted path"
proof -
  let ?root = "fst (pathRoot path)" and ?trimmed = "drop_trailing is_sep path"
  have ne: "?trimmed \<noteq> drop_trailing is_sep ?root"
    using assms by (auto simp: parentPath_def Let_def split: if_splits)
  have r: "rooted path"
  proof (rule ccontr)
    assume "\<not> rooted path"
    then have "?root = path" by (auto simp: rooted_def pathRoot_def)
    with ne show False by simp
  qed
  show thesis
  proof (cases rule: pathRoot_cases [of path])
    case (1 rest)
    obtain zs where "path = ?trimmed @ zs" using drop_trailing_prefix [of path is_sep] by blast
    then have "take (length ?trimmed) path = take (length ?trimmed) (?trimmed @ zs)" by (rule arg_cong)
    moreover have "take (length ?trimmed) path = take (length ?trimmed) (?root @ rest)"
      using 1 by (rule arg_cong)
    ultimately have t: "?trimmed = take (length ?trimmed) (?root @ rest)" by simp
    show thesis
    proof (cases "parent = ?root")
      case True
      then show thesis using that [of "[]"] r by simp
    next
      case False
      with parentPath_form [OF assms] obtain k where k: "length ?root \<le> k" "k < length ?trimmed"
        "parent = take k ?trimmed" by blast
      have "parent = take k (take (length ?trimmed) (?root @ rest))" using k(3) t by (rule trans [OF _ arg_cong])
      also have "\<dots> = ?root @ take (k - length ?root) rest" using k(1,2) by (simp add: min_def)
      finally show thesis using that r by blast
    qed
  next
    case 2
    have "drop_trailing is_sep ?root = ?trimmed"
      unfolding 2 by (simp add: drop_trailing_append is_sep_def)
    with ne show thesis by simp
  qed
qed

lemma parentPath_not_trash: "parentPath path = Some parent \<Longrightarrow> parent \<noteq> trashLocationPath"
proof
  assume p: "parentPath path = Some parent" and t: "parent = trashLocationPath"
  from parentPath_rooted [OF p] obtain y where y: "trashLocationPath = fst (pathRoot path) @ y"
    "rooted path" using t by metis
  obtain root sep where r: "pathRoot path = (root, sep)" by (cases "pathRoot path")
  have "pathRoot trashLocationPath = (root, sep)" "endsWith root [sep]" "is_sep sep"
    using pathRoot_append [OF y(2) r, of y] y(1) r by simp_all
  moreover have "pathRoot trashLocationPath = (trashLocationPath, slash)"
    by (simp add: pathRoot_def trashLocationPath_def match_drive_def match_unc_def js_Cons
        startsWith_def)
  ultimately show False by (simp add: endsWith_def trashLocationPath_def js_Cons)
qed

lemma goUp_directory:
  "ex_location st = LDirectory path \<Longrightarrow>
   ex_location (goUp st) = (case parentPath path of None \<Rightarrow> LRoot | Some p \<Rightarrow> LDirectory p)"
  using parentPath_length [of path] parentPath_not_trash [of path]
  by (auto simp: goUp_def navigate_def navigateTo_def locationFromPath_def trashLocationPath_def
      split: option.splits)

section \<open>Properties\<close>

text \<open>(C15) A directory patch whose upserts have distinct names, applied to a listing with distinct names,
  on the map from names to entries: removed names are deleted, upserts override (also a removal of the
  same name). The names stay distinct; and with a collation that is a total preorder the listing is
  sorted, by kind and within a kind by the displayed name.\<close>

theorem directory_patch_refines:
  assumes "distinct (map fs_name current)" "distinct (map fs_name upserts)" "comparison collate"
  shows "table_of fs_name (applyDirectoryPatch collate current removes upserts)
      = (table_of fs_name current |` (- set removes)) ++ table_of fs_name upserts \<and>
    distinct (map fs_name (applyDirectoryPatch collate current removes upserts)) \<and>
    sorted (map fs_kind (applyDirectoryPatch collate current removes upserts)) \<and>
    sorted_wrt (\<lambda>x y. fs_kind x = fs_kind y \<longrightarrow> collate (displayName x) (displayName y) \<le> 0)
      (applyDirectoryPatch collate current removes upserts)"
  using directory_table.table_apply_patch [OF assms(1,2), of collate removes]
    directory_table.distinct_apply_patch [OF assms(1,2), of collate removes] listing_sorted [OF assms(3)]
  by (simp add: applyDirectoryPatch_def Let_def)

theorem directory_patch_refines_witness:
  "table_of fs_name (applyDirectoryPatch (\<lambda>a b. int (length a) - int (length b))
     [entry_of ''a'' FsFile, entry_of ''b'' FsFile] [js ''a'', js ''b''] [entry_of ''b'' FsDirectory]) (js ''b'')
   = Some (entry_of ''b'' FsDirectory)"
proof -
  have c: "comparison (\<lambda>a b :: jstring. int (length a) - int (length b))" by (simp add: comparison_def)
  show ?thesis
    using directory_patch_refines [of "[entry_of ''a'' FsFile, entry_of ''b'' FsFile]"
        "[entry_of ''b'' FsDirectory]", OF _ _ c, of "[js ''a'', js ''b'']"]
    by (simp add: entry_of_def)
qed

text \<open>Cancelled directory streams are silent: after a restart, nothing that streams opened
  before it still deliver, events or failures, changes the explorer.\<close>

theorem late_directory_events_dropped:
  assumes "\<forall>(g, ev) \<in> set evs. g < dir_started st"
    and "\<forall>g. dir_live st = Some g \<longrightarrow> g < dir_started st"
  shows "foldl (\<lambda>st (g, ev). deliverDirectory collate g ev st) (startDirectory st) evs
    = startDirectory st"
  using directory_stream.restart_drops [of st evs collate] assms
  by (simp add: directory_stream.numbered_def)

theorem late_directory_events_dropped_witness:
  "foldl (\<lambda>st (g, item). deliverDirectory (\<lambda>a b. 0) g item st)
     (startDirectory (initial_explorer None [] LRoot)) [(0, Event (DirSnapshot []))]
   = startDirectory (initial_explorer None [] LRoot)"
  by (rule late_directory_events_dropped)
    (simp_all add: initial_explorer_def startDirectory_live isPaired_def)

text \<open>(C16) Safety of the subscriptions: whatever the user, the streams and changes of the machine from
  outside (pairing, unpairing, editing, deleting) do, a directory stream is live only while the explorer
  shows a directory of a paired machine, and a roots stream only while the machine is paired.\<close>

theorem explorer_streams_safe:
  assumes "(explorer_step collate)\<^sup>*\<^sup>* (initial_explorer machine history location) st"
  shows "(dir_live st \<noteq> None \<longrightarrow> isPaired (ex_machine st) \<and> truthy (directoryPath st)) \<and>
    (roots_live st \<noteq> None \<longrightarrow> isPaired (ex_machine st))"
proof -
  from assms have "live_ok st"
    by (induction rule: rtranclp_induct) (auto intro: initial_live_ok step_live_ok)
  then show ?thesis by (simp add: live_ok_def)
qed

definition paired_machine :: Machine where
  "paired_machine = \<lparr>m_id = js ''1'', m_name = js ''box'', m_baseUrl = js ''https://box'',
     m_clientId = Some (js ''c''), m_clientSecret = Some (js ''s''), m_expiresAtUnix = None\<rparr>"

theorem explorer_streams_safe_witness:
  "dir_live (initial_explorer (Some paired_machine) [] (LDirectory (js ''/a''))) = Some 0 \<and>
   dir_live (machine_changed None (initial_explorer (Some paired_machine) [] (LDirectory (js ''/a'')))) = None"
proof
  let ?st = "initial_explorer (Some paired_machine) [] (LDirectory (js ''/a''))"
  show "dir_live ?st = Some 0"
    by (simp add: initial_explorer_def startDirectory_live startRoots_def isPaired_def paired_machine_def
        truthy_def js_Cons directoryPath_def)
  have "(explorer_step (\<lambda>a b. 0))\<^sup>*\<^sup>* ?st (machine_changed None ?st)"
    by (rule r_into_rtranclp) (rule explorer_step.machine)
  from explorer_streams_safe [OF this] show "dir_live (machine_changed None ?st) = None"
    by (simp add: machine_changed_def isPaired_def)
qed

text \<open>Going back undoes a navigation: location and history are those before it.\<close>

theorem back_undoes_navigate:
  "ex_location (goBack (navigate path st)) = ex_location st \<and>
   ex_history (goBack (navigate path st)) = ex_history st"
  by (simp add: navigate_def navigateTrash_def navigateTo_def goBack_def Let_def)

text \<open>Going up from a directory reaches the list of roots, in no more steps than the path
  has characters.\<close>

theorem go_up_reaches_roots:
  assumes "ex_location st = LDirectory path" "path \<noteq> []"
  shows "\<exists>n \<le> length path. ex_location ((goUp ^^ n) st) = LRoot"
  using assms
proof (induction "length path" arbitrary: path st rule: less_induct)
  case less
  show ?case
  proof (cases "parentPath path")
    case None
    then have "ex_location ((goUp ^^ 1) st) = LRoot" using goUp_directory [OF less.prems(1)] by simp
    moreover have "1 \<le> length path" using less.prems(2) by (simp add: Suc_le_eq)
    ultimately show ?thesis by blast
  next
    case (Some parent)
    from parentPath_length [OF Some] have p: "length parent < length path" "parent \<noteq> []" by simp_all
    have "ex_location (goUp st) = LDirectory parent" using goUp_directory [OF less.prems(1)] Some by simp
    from less.hyps [OF p(1) this p(2)] obtain n where n: "n \<le> length parent"
      "ex_location ((goUp ^^ n) (goUp st)) = LRoot" by blast
    then have "ex_location ((goUp ^^ Suc n) st) = LRoot" by (simp only: funpow_Suc_right o_apply)
    with n(1) p(1) show ?thesis by (metis Suc_leI le_less_trans)
  qed
qed

theorem go_up_reaches_roots_witness:
  "\<exists>n \<le> length (js ''/a/b''). ex_location ((goUp ^^ n)
     (initial_explorer None [] (LDirectory (js ''/a/b'')))) = LRoot"
  by (rule go_up_reaches_roots) (simp_all add: initial_explorer_def)

text \<open>A directory that is moved: the event restarts the stream for the new path, and then
  overwrites the state of the new stream with \<open>closed\<close>, although it has just been opened.\<close>

theorem moved_directory_reported_closed:
  assumes "dir_live st = Some g" "isPaired (ex_machine st)" "to \<noteq> []"
    and "directoryPath st \<noteq> Some to"
  shows "let st' = deliverDirectory collate g (Event (DirClosed (DirMoved (Some to)))) st in
    dir_live st' = Some (dir_started st) \<and> directoryPath st' = Some to \<and>
    stream_phase (dir_state st') = SClosed"
proof -
  have "getOr (directoryPath st) [] \<noteq> to" using assms(3,4) by (cases "directoryPath st") auto
  then have "directorySubscriptionKey st \<noteq> directorySubscriptionKey
      (st\<lparr>ex_history := [], ex_location := LDirectory to\<rparr>)"
    using directory_key_location [where st = st and h = "[]" and l = "LDirectory to"] by auto
  then show ?thesis
    using assms notify_directory [of "st\<lparr>ex_history := [], ex_location := LDirectory to\<rparr>" st]
    by (auto simp: deliverDirectory_def replaceWithMovedDirectory_def set_navigation_def
        locationFromPath_def stream_state_def directoryPath_def truthy_def Let_def)
qed

definition paired_box :: Machine where
  "paired_box = box_machine\<lparr>m_clientId := Some (js ''c''), m_clientSecret := Some (js ''s'')\<rparr>"

theorem moved_directory_reported_closed_witness:
  "stream_phase (dir_state (deliverDirectory (\<lambda>a b. 0) 0
     (Event (DirClosed (DirMoved (Some (js ''/b'')))))
     (initial_explorer (Some paired_box) [] (LDirectory (js ''/a''))))) = SClosed"
proof -
  let ?st = "initial_explorer (Some paired_box) [] (LDirectory (js ''/a''))"
  have "dir_live ?st = Some 0" "isPaired (ex_machine ?st)" "directoryPath ?st \<noteq> Some (js ''/b'')"
    by (simp_all add: initial_explorer_def startDirectory_live isPaired_def paired_box_def truthy_def
        directoryPath_def)
  from moved_directory_reported_closed [OF this(1,2) _ this(3), of "\<lambda>a b. 0"] show ?thesis
    by (simp add: Let_def)
qed

text \<open>Duplicating a files tab copies its stored navigation, and only that: the target's key
  then holds what the source's holds, and no other key changes.\<close>

theorem copy_navigation:
  assumes "copyExplorerNavigationState machineId source target (Some st) = Some st'"
    and "\<forall>m. fits st m"
  shows "getItem st' (explorerNavigationStorageKey machineId target)
      = getItem st (explorerNavigationStorageKey machineId source) \<and>
    (\<forall>k. k \<noteq> explorerNavigationStorageKey machineId target \<longrightarrow> getItem st' k = getItem st k)"
  using assms(1,2)
  by (auto simp: copyExplorerNavigationState_def Let_def setItem_def getItem_def removeItem_def
      split: option.splits)

theorem copy_navigation_witness:
  "\<exists>st'. copyExplorerNavigationState None (js ''a'') (js ''b'')
       (Some \<lparr>items = [(explorerNavigationStorageKey None (js ''a''), js ''x'')], fits = \<lambda>_. True\<rparr>) = Some st' \<and>
     getItem st' (explorerNavigationStorageKey None (js ''b'')) = Some (js ''x'')"
proof -
  let ?st = "\<lparr>items = [(explorerNavigationStorageKey None (js ''a''), js ''x'')], fits = \<lambda>_. True\<rparr>"
  obtain st' where s: "copyExplorerNavigationState None (js ''a'') (js ''b'') (Some ?st) = Some st'"
    by (simp add: copyExplorerNavigationState_def Let_def getItem_def setItem_def)
  from copy_navigation [OF s] have "getItem st' (explorerNavigationStorageKey None (js ''b''))
      = getItem ?st (explorerNavigationStorageKey None (js ''a''))" by simp
  with s show ?thesis by (intro exI [of _ st']) (simp add: getItem_def)
qed

end
