(* ===== verification/FileViewer.thy ===== *)
theory FileViewer
  imports Paths
begin

text \<open>
  The file viewer of the files tool: the choice of a viewer from a file's name and first bytes
  (\<open>file-viewer/impl-detector/index.ts\<close>), the assembly of the chunks of a streamed file
  (\<open>file-viewer/read-file-bytes.ts\<close>), and the stored choice per tab
  (\<open>web/src/state/file-viewer.ts\<close>). \<open>toLowerCase\<close> is a parameter \<open>lower\<close>; the stream of the
  \<open>readFile\<close> call is a list of chunks, or the error it ends with.
\<close>

section \<open>Assembling chunks\<close>

text \<open>\<open>out.set(chunk.bytes, offset)\<close> throws for a negative offset.\<close>

fun write_chunks_at :: "bytes \<Rightarrow> int \<Rightarrow> ReadFileChunk list \<Rightarrow> bytes result" where
  "write_chunks_at out baseOffset [] = Inr out"
| "write_chunks_at out baseOffset (chunk # rest) =
     (if rf_offset chunk < baseOffset then Inl (RangeError (js ''offset is out of bounds''))
      else ebind (typed_set out (rf_bytes chunk) (nat (rf_offset chunk - baseOffset)))
        (\<lambda>out. write_chunks_at out baseOffset rest))"

definition assembleReadFileChunks :: "ReadFileChunk list \<Rightarrow> int \<Rightarrow> bytes result" where
  "assembleReadFileChunks parts fallbackOffset =
     (case parts of
        [] \<Rightarrow> Inr []
      | first # _ \<Rightarrow>
          let baseOffset = rf_offset first;
              total = foldl (\<lambda>m chunk. max m
                (rf_offset chunk - baseOffset + int (length (rf_bytes chunk)))) 0 parts
          in write_chunks_at (replicate (nat total) 0) baseOffset parts)"

definition readFileBytes :: "ReadFileChunk list result \<Rightarrow> int option \<Rightarrow> bytes result" where
  "readFileBytes stream offset =
     ebind stream (\<lambda>parts. assembleReadFileChunks parts (getOr offset 0))"

section \<open>Choosing a viewer\<close>

datatype FileViewerImplId = Markdown | Pdf | TextViewer | Hex | Image

fun viewerName :: "FileViewerImplId \<Rightarrow> string" where
  "viewerName Markdown = ''markdown viewer''"
| "viewerName Pdf = ''pdf viewer''"
| "viewerName TextViewer = ''text viewer''"
| "viewerName Hex = ''hex viewer''"
| "viewerName Image = ''image viewer''"

definition isFileViewerImpl :: "jstring \<Rightarrow> bool" where
  "isFileViewerImpl v \<longleftrightarrow> v \<in> set (map js [''markdown'', ''pdf'', ''text'', ''hex'', ''image''])"

definition sampleByteCount :: nat where
  "sampleByteCount = 4096"

definition binaryExtensions :: "string list" where
  "binaryExtensions = [''7z'', ''class'', ''dll'', ''dmg'', ''doc'', ''docx'', ''exe'', ''gz'', ''jar'',
     ''mov'', ''mp3'', ''mp4'', ''o'', ''obj'', ''ppt'', ''pptx'', ''rar'', ''wasm'', ''xls'', ''xlsx'', ''zip'']"

definition textExtensions :: "string list" where
  "textExtensions = [''bat'', ''c'', ''cmd'', ''cpp'', ''cs'', ''css'', ''csv'', ''env'', ''go'', ''h'',
     ''hpp'', ''html'', ''java'', ''js'', ''json'', ''jsx'', ''kt'', ''lock'', ''log'', ''mjs'', ''ps1'', ''py'',
     ''rs'', ''sh'', ''sql'', ''toml'', ''ts'', ''tsx'', ''txt'', ''xml'', ''yaml'', ''yml'']"

definition markdownExtensions :: "string list" where
  "markdownExtensions = [''markdown'', ''md'', ''mdown'', ''mkd'', ''mkdn'']"

definition pdfExtensions :: "string list" where
  "pdfExtensions = [''pdf'']"

definition imageExtensions :: "string list" where
  "imageExtensions = [''avif'', ''bmp'', ''gif'', ''ico'', ''jpeg'', ''jpg'', ''png'', ''svg'', ''webp'']"

definition markdownFilenames :: "string list" where
  "markdownFilenames = [''readme'']"

definition textFilenames :: "string list" where
  "textFilenames = [''.editorconfig'', ''.env'', ''.gitattributes'', ''.gitignore'', ''dockerfile'',
     ''license'', ''makefile'']"

definition one_of :: "string list \<Rightarrow> jstring \<Rightarrow> bool" where
  "one_of names s \<longleftrightarrow> s \<in> set (map js names)"

definition fileBasename :: "jstring \<Rightarrow> jstring" where
  "fileBasename name =
     (let normalized = drop_trailing is_sep (trim name);
          slashIndex = max (lastIndexOf normalized slash) (lastIndexOf normalized backslash)
      in drop (nat (slashIndex + 1)) normalized)"

definition fileExtension :: "(jstring \<Rightarrow> jstring) \<Rightarrow> jstring \<Rightarrow> jstring option" where
  "fileExtension lower basename =
     (let dotIndex = lastIndexOf basename (u16 CHR ''.'') in
      if dotIndex \<le> 0 \<or> dotIndex = int (length basename) - 1 then None
      else Some (lower (drop (nat (dotIndex + 1)) basename)))"

definition detectFileViewerImplFromName ::
    "(jstring \<Rightarrow> jstring) \<Rightarrow> FsEntry \<Rightarrow> FileViewerImplId option" where
  "detectFileViewerImplFromName lower entry =
     (let basename = lower (fileBasename (if fs_name entry \<noteq> [] then fs_name entry else fs_path entry)) in
      if one_of markdownFilenames basename then Some Markdown
      else if one_of textFilenames basename then Some TextViewer
      else case fileExtension lower basename of
        None \<Rightarrow> None
      | Some extension \<Rightarrow>
          if extension = [] then None
          else if one_of markdownExtensions extension then Some Markdown
          else if one_of pdfExtensions extension then Some Pdf
          else if one_of imageExtensions extension then Some Image
          else if one_of binaryExtensions extension then Some Hex
          else if one_of textExtensions extension then Some TextViewer
          else None)"

definition starts :: "bytes \<Rightarrow> nat list \<Rightarrow> bool" where
  "starts b prefix \<longleftrightarrow> length prefix \<le> length b \<and> map unat (take (length prefix) b) = prefix"

definition startsWithAscii :: "bytes \<Rightarrow> string \<Rightarrow> bool" where
  "startsWithAscii b prefix \<longleftrightarrow> starts b (map of_char prefix)"

definition hasImageSignature :: "bytes \<Rightarrow> bool" where
  "hasImageSignature b \<longleftrightarrow>
     length b \<ge> 8 \<and> starts b [0x89, 0x50, 0x4e, 0x47] \<or>
     length b \<ge> 3 \<and> starts b [0xff, 0xd8, 0xff] \<or>
     length b \<ge> 6 \<and> (startsWithAscii b ''GIF87a'' \<or> startsWithAscii b ''GIF89a'') \<or>
     length b \<ge> 12 \<and> startsWithAscii b ''RIFF'' \<and> starts (drop 8 b) [0x57, 0x45, 0x42, 0x50] \<or>
     length b \<ge> 2 \<and> startsWithAscii b ''BM'' \<or>
     length b \<ge> 4 \<and> starts b [0x00, 0x00, 0x01, 0x00] \<or>
     length b \<ge> 12 \<and> starts (drop 4 b) [0x66, 0x74, 0x79, 0x70, 0x61, 0x76, 0x69, 0x66]"

text \<open>
  The test \<open>controls / length > 0.08\<close> in floating point agrees with \<open>25 controls > 2 length\<close>:
  two such quotients of numbers up to 4096 that differ, differ by more than the rounding.
\<close>

definition is_control :: "u8 \<Rightarrow> bool" where
  "is_control b \<longleftrightarrow> unat b < 32 \<and> \<not> (unat b = 9 \<or> unat b = 10 \<or> unat b = 13)"

definition detectFileViewerImplFromBytes :: "bytes \<Rightarrow> FileViewerImplId option \<Rightarrow> FileViewerImplId" where
  "detectFileViewerImplFromBytes b nameHint =
     (if nameHint = Some Pdf then Pdf
      else if nameHint = Some Image \<or> hasImageSignature b then Image
      else let sample = take (min (length b) sampleByteCount) b in
        if 0 \<in> set sample then Hex
        else let controls = length (filter is_control sample) in
          if length sample > 0 \<and> 25 * controls > 2 * length sample then Hex
          else getOr nameHint TextViewer)"

record DetectFileViewerImplResult =
  initialBytes :: bytes
  detected :: FileViewerImplId

definition detectFileViewerImpl ::
    "(jstring \<Rightarrow> jstring) \<Rightarrow> bool \<Rightarrow> FsEntry \<Rightarrow> ReadFileChunk list result \<Rightarrow> DetectFileViewerImplResult" where
  "detectFileViewerImpl lower hasMachine entry stream =
     (let nameHint = detectFileViewerImplFromName lower entry;
          fallback = \<lparr>initialBytes = [], detected = getOr nameHint TextViewer\<rparr> in
      if \<not> hasMachine then fallback
      else case readFileBytes stream (Some 0) of
        Inl err \<Rightarrow> fallback
      | Inr b \<Rightarrow> \<lparr>initialBytes = b, detected = detectFileViewerImplFromBytes b nameHint\<rparr>)"

section \<open>The stored choice\<close>

definition fileViewerSelectedImplStorageKeyPrefix :: "jstring option \<Rightarrow> jstring \<Rightarrow> jstring" where
  "fileViewerSelectedImplStorageKeyPrefix machineId tabId =
     js ''wgo.file-viewer.impl.'' @ getOr machineId (js ''none'') @ js ''.'' @ tabId @ js ''.''"

definition fileViewerSelectedImplStorageKey :: "jstring option \<Rightarrow> jstring \<Rightarrow> jstring \<Rightarrow> jstring" where
  "fileViewerSelectedImplStorageKey machineId tabId path =
     js ''wgo.file-viewer.impl.'' @ getOr machineId (js ''none'') @ js ''.'' @ tabId @ js ''.'' @ path"

text \<open>The loop over \<open>Object.keys(storage)\<close>; an error of \<open>setItem\<close> ends it.\<close>

fun copy_keys :: "jstring \<Rightarrow> jstring \<Rightarrow> jstring list \<Rightarrow> storage \<Rightarrow> storage" where
  "copy_keys sourcePrefix targetPrefix [] st = st"
| "copy_keys sourcePrefix targetPrefix (key # keys) st =
     (if \<not> startsWith key sourcePrefix then copy_keys sourcePrefix targetPrefix keys st
      else let targetKey = targetPrefix @ drop (length sourcePrefix) key in
        case getItem st key of
          None \<Rightarrow> copy_keys sourcePrefix targetPrefix keys (removeItem st targetKey)
        | Some v \<Rightarrow>
            (case setItem st targetKey v of
               Inl err \<Rightarrow> st
             | Inr st \<Rightarrow> copy_keys sourcePrefix targetPrefix keys st))"

definition copyFileViewerState ::
    "jstring option \<Rightarrow> jstring \<Rightarrow> jstring \<Rightarrow> storage option \<Rightarrow> storage option" where
  "copyFileViewerState machineId sourceTabId targetTabId storage =
     map_option (\<lambda>st. copy_keys (fileViewerSelectedImplStorageKeyPrefix machineId sourceTabId)
       (fileViewerSelectedImplStorageKeyPrefix machineId targetTabId) (map fst (items st)) st) storage"

section \<open>Lemmas\<close>

fun contiguous :: "int \<Rightarrow> ReadFileChunk list \<Rightarrow> bool" where
  "contiguous off [] = True"
| "contiguous off (chunk # rest) =
     (rf_offset chunk = off \<and> contiguous (off + int (length (rf_bytes chunk))) rest)"

lemma contiguous_total:
  "contiguous off parts \<Longrightarrow> base \<le> off \<Longrightarrow> m \<le> off - base \<Longrightarrow>
   foldl (\<lambda>m chunk. max m (rf_offset chunk - base + int (length (rf_bytes chunk)))) m parts
   = (if parts = [] then m else off - base + int (length (concat (map rf_bytes parts))))"
proof (induction parts arbitrary: off m)
  case (Cons c parts)
  then have "contiguous (off + int (length (rf_bytes c))) parts" "rf_offset c = off" by simp_all
  moreover have "max m (off - base + int (length (rf_bytes c)))
      = off - base + int (length (rf_bytes c))"
    using Cons.prems(3) by simp
  ultimately show ?case
    using Cons.IH [of "off + int (length (rf_bytes c))" "off - base + int (length (rf_bytes c))"]
      Cons.prems(2) by (cases "parts = []") simp_all
qed simp

lemma contiguous_write:
  "contiguous (base + int (length pre)) parts \<Longrightarrow> length post = length (concat (map rf_bytes parts)) \<Longrightarrow>
   write_chunks_at (pre @ post) base parts = Inr (pre @ concat (map rf_bytes parts))"
proof (induction parts arbitrary: pre post)
  case (Cons c parts)
  have "write_chunks_at ((pre @ rf_bytes c) @ drop (length (rf_bytes c)) post) base parts
      = Inr ((pre @ rf_bytes c) @ concat (map rf_bytes parts))"
    using Cons.prems by (intro Cons.IH) (simp_all add: add.assoc)
  with Cons.prems show ?case by (simp add: typed_set_fit)
qed simp

lemma write_chunks_ok:
  "(\<And>c. c \<in> set parts \<Longrightarrow> base \<le> rf_offset c \<and>
      rf_offset c - base + int (length (rf_bytes c)) \<le> int (length out)) \<Longrightarrow>
   \<exists>out'. write_chunks_at out base parts = Inr out' \<and> length out' = length out"
proof (induction parts arbitrary: out)
  case (Cons c parts)
  have c: "base \<le> rf_offset c" "rf_offset c - base + int (length (rf_bytes c)) \<le> int (length out)"
    using Cons.prems [OF list.set_intros(1)] by blast+
  define out1 where "out1 = take (nat (rf_offset c - base)) out @ rf_bytes c @
      drop (nat (rf_offset c - base) + length (rf_bytes c)) out"
  have t: "typed_set out (rf_bytes c) (nat (rf_offset c - base)) = Inr out1" "length out1 = length out"
    using c by (simp_all add: typed_set_def out1_def)
  have "base \<le> rf_offset d \<and> rf_offset d - base + int (length (rf_bytes d)) \<le> int (length out1)" if "d \<in> set parts" for d
    using Cons.prems [OF list.set_intros(2) [OF that]] unfolding t(2) .
  from Cons.IH [OF this] obtain out' where
    "write_chunks_at out1 base parts = Inr out'" "length out' = length out"
    unfolding t(2) by blast
  with c t show ?case by simp
qed simp

lemma write_chunks_below:
  "c \<in> set parts \<Longrightarrow> rf_offset c < base \<Longrightarrow> write_chunks_at out base parts \<noteq> Inr out'"
  by (induction parts arbitrary: out) auto

lemma foldl_max_bound:
  "m \<le> foldl (\<lambda>m c. max m (f c)) m xs \<and> (\<forall>c \<in> set xs. f c \<le> foldl (\<lambda>m c. max m (f c)) (m :: int) xs)"
proof (induction xs arbitrary: m)
  case (Cons x xs)
  from Cons.IH [of "max m (f x)"] show ?case by auto
qed simp

lemma startsWith_iff: "startsWith s p \<longleftrightarrow> (\<exists>r. s = p @ r)"
  by (metis append_eq_conv_conj append_take_drop_id startsWith_def)

lemma copy_keys_other:
  "(\<And>p. k \<noteq> targetPrefix @ p) \<Longrightarrow> getItem (copy_keys sourcePrefix targetPrefix keys st) k = getItem st k"
  by (induction keys arbitrary: st)
    (auto simp: Let_def getItem_setItem split: option.split sum.split)

lemma copy_keys_target:
  assumes "\<And>p q. targetPrefix @ p \<noteq> sourcePrefix @ q"
  shows "\<forall>m. fits st m \<Longrightarrow> \<forall>key \<in> set keys. getItem st key \<noteq> None \<Longrightarrow>
    getItem (copy_keys sourcePrefix targetPrefix keys st) (targetPrefix @ p) =
      (if sourcePrefix @ p \<in> set keys then getItem st (sourcePrefix @ p)
       else getItem st (targetPrefix @ p))"
proof (induction keys arbitrary: st)
  case (Cons key keys)
  show ?case
  proof (cases "startsWith key sourcePrefix")
    case False
    then have "key \<noteq> sourcePrefix @ p" by (auto simp: startsWith_iff)
    with Cons False show ?thesis by auto
  next
    case True
    then obtain q where q: "key = sourcePrefix @ q" by (auto simp: startsWith_iff)
    from Cons.prems obtain v where v: "getItem st key = Some v" by auto
    obtain st1 where st1: "setItem st (targetPrefix @ q) v = Inr st1"
      using Cons.prems(1) by (simp add: setItem_def Let_def)
    have g: "getItem st1 k = (if k = targetPrefix @ q then Some v else getItem st k)" for k
      using getItem_setItem [OF st1] .
    have "\<forall>m. fits st1 m" "\<forall>key \<in> set keys. getItem st1 key \<noteq> None"
      using Cons.prems fits_setItem [OF st1] by (auto simp: g)
    from Cons.IH [OF this] have IH: "getItem (copy_keys sourcePrefix targetPrefix keys st1) (targetPrefix @ p)
        = (if sourcePrefix @ p \<in> set keys then getItem st1 (sourcePrefix @ p)
           else getItem st1 (targetPrefix @ p))" .
    have "getItem st1 (sourcePrefix @ p) = getItem st (sourcePrefix @ p)"
      using assms [of q p] by (simp add: g eq_commute)
    with IH True v st1 show ?thesis by (auto simp: q Let_def g)
  qed
qed simp

text \<open>A file streamed in consecutive chunks is assembled to its bytes.\<close>

lemma assemble_contiguous:
  assumes "contiguous off parts"
  shows "assembleReadFileChunks parts fallbackOffset = Inr (concat (map rf_bytes parts))"
proof (cases parts)
  case (Cons c rest)
  with assms have off: "rf_offset c = off" by simp
  let ?n = "length (concat (map rf_bytes parts))"
  have t: "foldl (\<lambda>m chunk. max m (rf_offset chunk - off + int (length (rf_bytes chunk)))) 0 parts
      = int ?n"
    using contiguous_total [OF assms, of off 0] Cons by simp
  have "assembleReadFileChunks parts fallbackOffset = write_chunks_at (replicate (nat
      (foldl (\<lambda>m chunk. max m (rf_offset chunk - off + int (length (rf_bytes chunk)))) 0 parts))
      0) off parts"
    by (simp only: assembleReadFileChunks_def Cons list.case Let_def off)
  also have "\<dots> = write_chunks_at ([] @ replicate ?n 0) off parts" by (simp only: t nat_int append_Nil)
  also have "write_chunks_at ([] @ replicate ?n 0) off parts = Inr ([] @ concat (map rf_bytes parts))"
    using assms by (intro contiguous_write) simp_all
  finally show ?thesis by simp
qed (simp add: assembleReadFileChunks_def)

section \<open>Properties\<close>

text \<open>Assembling fails in one case only: a chunk that starts before the first one.
  Otherwise it returns a buffer that reaches to the end of the furthest chunk.\<close>

theorem read_file_fails_iff:
  "(\<exists>out. assembleReadFileChunks (first # rest) fallbackOffset = Inr out) \<longleftrightarrow>
   (\<forall>c \<in> set rest. rf_offset first \<le> rf_offset c)"
proof -
  let ?f = "\<lambda>c. rf_offset c - rf_offset first + int (length (rf_bytes c))"
  define total where "total = foldl (\<lambda>m c. max m (?f c)) 0 (first # rest)"
  have a: "assembleReadFileChunks (first # rest) fallbackOffset
      = write_chunks_at (replicate (nat total) 0) (rf_offset first) (first # rest)"
    by (simp only: assembleReadFileChunks_def total_def Let_def list.case)
  have b: "0 \<le> total" "\<forall>c \<in> set (first # rest). ?f c \<le> total"
    using foldl_max_bound [of 0 ?f "first # rest"] unfolding total_def by blast+
  show ?thesis
  proof
    assume "\<forall>c \<in> set rest. rf_offset first \<le> rf_offset c"
    then have "rf_offset first \<le> rf_offset c \<and> rf_offset c - rf_offset first + int (length (rf_bytes c))
        \<le> int (length (replicate (nat total) (0 :: u8)))" if "c \<in> set (first # rest)" for c
      using that b by fastforce
    from write_chunks_ok [OF this, of "first # rest"] show "\<exists>out. assembleReadFileChunks (first # rest) fallbackOffset = Inr out"
      unfolding a by blast
  next
    assume "\<exists>out. assembleReadFileChunks (first # rest) fallbackOffset = Inr out"
    then show "\<forall>c \<in> set rest. rf_offset first \<le> rf_offset c"
      unfolding a using write_chunks_below [of _ "first # rest" "rf_offset first"]
      by (meson leI list.set_intros(2))
  qed
qed

theorem read_file_fails_iff_witness:
  "(\<exists>out. assembleReadFileChunks [\<lparr>rf_offset = 4, rf_bytes = [1]\<rparr>, \<lparr>rf_offset = 2, rf_bytes = [3]\<rparr>] 0 = Inr out)
   \<longleftrightarrow> False"
  using read_file_fails_iff [of "\<lparr>rf_offset = 4, rf_bytes = [1]\<rparr>" "[\<lparr>rf_offset = 2, rf_bytes = [3]\<rparr>]" 0]
  by simp

text \<open>A file whose name says text is opened in the image viewer when its content begins
  with the letters \<open>BM\<close>: two bytes are taken as the signature of a bitmap.\<close>

theorem text_starting_BM_is_image:
  assumes "detectFileViewerImplFromName lower entry = Some TextViewer"
    and "readFileBytes stream (Some 0) = Inr (0x42 # 0x4d # rest)"
  shows "detected (detectFileViewerImpl lower True entry stream) = Image"
proof -
  have "startsWithAscii (0x42 # 0x4d # rest) ''BM''" by (simp add: startsWithAscii_def starts_def)
  then have "hasImageSignature (0x42 # 0x4d # rest)" by (simp add: hasImageSignature_def)
  with assms show ?thesis by (simp add: detectFileViewerImpl_def detectFileViewerImplFromBytes_def)
qed

theorem text_starting_BM_is_image_witness:
  "detected (detectFileViewerImpl (\<lambda>s. s) True (entry_of ''makefile'' FsFile)
     (Inr [\<lparr>rf_offset = 0, rf_bytes = [0x42, 0x4d, 0x57]\<rparr>])) = Image"
proof (rule text_starting_BM_is_image)
  show "detectFileViewerImplFromName (\<lambda>s. s) (entry_of ''makefile'' FsFile) = Some TextViewer"
  proof -
    have "fileBasename (js ''makefile'') = js ''makefile''"
      by (simp add: fileBasename_def js_def trim_def white_space_def drop_trailing_def is_sep_def
          u16_def Let_def)
    then show ?thesis
      by (simp add: detectFileViewerImplFromName_def entry_of_def one_of_def markdownFilenames_def
          textFilenames_def)
  qed
  show "readFileBytes (Inr [\<lparr>rf_offset = 0, rf_bytes = [0x42, 0x4d, 0x57]\<rparr>]) (Some 0)
      = Inr (0x42 # 0x4d # [0x57])"
    by (simp add: readFileBytes_def assembleReadFileChunks_def typed_set_def)
qed

text \<open>Duplicating a files tab copies the stored viewer choice of every path, and changes
  nothing outside the target tab's keys.\<close>

theorem copy_viewer_choices:
  assumes "copyFileViewerState machineId source target (Some st) = Some st'" "\<forall>m. fits st m"
    and "\<And>p q. fileViewerSelectedImplStorageKey machineId target p
      \<noteq> fileViewerSelectedImplStorageKey machineId source q"
  shows "getItem st' (fileViewerSelectedImplStorageKey machineId target path)
      = (case getItem st (fileViewerSelectedImplStorageKey machineId source path) of
           Some v \<Rightarrow> Some v
         | None \<Rightarrow> getItem st (fileViewerSelectedImplStorageKey machineId target path)) \<and>
    ((\<forall>p. k \<noteq> fileViewerSelectedImplStorageKey machineId target p) \<longrightarrow> getItem st' k = getItem st k)"
proof -
  let ?s = "fileViewerSelectedImplStorageKeyPrefix machineId source"
  let ?t = "fileViewerSelectedImplStorageKeyPrefix machineId target"
  have key: "fileViewerSelectedImplStorageKey machineId tab p
      = fileViewerSelectedImplStorageKeyPrefix machineId tab @ p" for tab p
    by (simp add: fileViewerSelectedImplStorageKey_def fileViewerSelectedImplStorageKeyPrefix_def)
  have st': "st' = copy_keys ?s ?t (map fst (items st)) st"
    using assms(1) by (simp add: copyFileViewerState_def)
  have n: "\<forall>key \<in> set (map fst (items st)). getItem st key \<noteq> None"
    by (simp add: getItem_def map_of_eq_None_iff)
  have dom: "k \<in> set (map fst (items st)) \<longleftrightarrow> getItem st k \<noteq> None" for k
    by (simp add: getItem_def map_of_eq_None_iff image_image)
  have "getItem st' (?t @ path) = (if ?s @ path \<in> set (map fst (items st)) then getItem st (?s @ path)
      else getItem st (?t @ path))"
    unfolding st' using assms(2,3) n by (intro copy_keys_target) (simp_all add: key)
  then have "getItem st' (?t @ path) = (case getItem st (?s @ path) of Some v \<Rightarrow> Some v
      | None \<Rightarrow> getItem st (?t @ path))"
    unfolding dom by (cases "getItem st (?s @ path)") simp_all
  moreover have "(\<forall>p. k \<noteq> ?t @ p) \<longrightarrow> getItem st' k = getItem st k"
    unfolding st' using copy_keys_other [of k ?t ?s] by blast
  ultimately show ?thesis by (simp only: key)
qed

theorem copy_viewer_choices_witness:
  "getItem (copy_keys (fileViewerSelectedImplStorageKeyPrefix None (js ''a''))
       (fileViewerSelectedImplStorageKeyPrefix None (js ''b''))
       [fileViewerSelectedImplStorageKey None (js ''a'') (js ''/x'')]
       \<lparr>items = [(fileViewerSelectedImplStorageKey None (js ''a'') (js ''/x''), js ''hex'')], fits = \<lambda>_. True\<rparr>)
     (fileViewerSelectedImplStorageKey None (js ''b'') (js ''/x'')) = Some (js ''hex'')"
proof -
  let ?st = "\<lparr>items = [(fileViewerSelectedImplStorageKey None (js ''a'') (js ''/x''), js ''hex'')], fits = \<lambda>_. True\<rparr>"
  have d: "fileViewerSelectedImplStorageKey None (js ''b'') p \<noteq> fileViewerSelectedImplStorageKey None (js ''a'') q" for p q
    by (simp add: fileViewerSelectedImplStorageKey_def js_Cons)
  have "copyFileViewerState None (js ''a'') (js ''b'') (Some ?st) = Some
      (copy_keys (fileViewerSelectedImplStorageKeyPrefix None (js ''a''))
       (fileViewerSelectedImplStorageKeyPrefix None (js ''b'')) (map fst (items ?st)) ?st)"
    by (simp add: copyFileViewerState_def)
  from copy_viewer_choices [OF this _ d, of "js ''/x''"] show ?thesis
    by (simp add: getItem_def)
qed

end
