(* ===== verification/RpcTerminals.thy ===== *)
theory RpcTerminals
  imports RpcCodec
begin

text \<open>
  Terminal sessions and shells: launching, listing, attaching, input and output.
  From \<open>web/src/protocol/generated/rpc.ts\<close>; the field names
  are the ones of the interfaces with a prefix per type, a variant of a union is a constructor, an
  optional field an \<open>option\<close>. Lengths, times and other numbers are \<open>int\<close>, as the codec takes any
  safe integer for them.
\<close>

section \<open>Types\<close>

record TerminalLaunchSpec =
  launch_command :: jstring
  launch_args :: "jstring list"

record CreateTerminalSessionReq =
  ctsr_cols :: int
  ctsr_rows :: int
  ctsr_cwd :: "jstring option"
  ctsr_launch :: TerminalLaunchSpec
  ctsr_title :: "jstring option"

record TerminalExit =
  te_code :: "int option"
  te_signal :: "jstring option"
  te_exitedAtMs :: int

record TerminalSessionInfo =
  tsi_terminalSessionId :: jstring
  tsi_creatorClientId :: jstring
  tsi_createdAtMs :: int
  tsi_lastAttachedAtMs :: "int option"
  tsi_lastDetachedAtMs :: "int option"
  tsi_lastOutputAtMs :: "int option"
  tsi_cols :: int
  tsi_rows :: int
  tsi_primaryAttachId :: "jstring option"
  tsi_latestOutputSeq :: int
  tsi_lastKnownTitle :: "jstring option"
  tsi_exit :: "TerminalExit option"
  tsi_lastKnownCwd :: "jstring option"
  tsi_launch :: TerminalLaunchSpec

record TerminalSessionKey =
  tsk_terminalSessionId :: jstring

datatype TerminalSessionsTableEvent =
    TerminalSessionsSnapshot "TerminalSessionInfo list"
  | TerminalSessionsPatch "TerminalSessionKey list" "TerminalSessionInfo list"

record AvailableShellInfo =
  asi_shellId :: jstring
  asi_name :: jstring
  asi_command :: jstring
  asi_args :: "jstring list"
  asi_isDefault :: bool

record AvailableShellKey =
  ask_shellId :: jstring

datatype AvailableShellsTableEvent =
    AvailableShellsSnapshot "AvailableShellInfo list"
  | AvailableShellsPatch "AvailableShellKey list" "AvailableShellInfo list"

record AttachTerminalSessionReq =
  atsr_terminalSessionId :: jstring
  atsr_afterSeq :: "int option"
  atsr_viewportCols :: int
  atsr_viewportRows :: int

datatype TerminalSessionCloseReason =
    TerminalSessionFailed jstring
  | TerminalSessionClosedByClient
  | TerminalSessionDaemonShuttingDown
  | TerminalSessionUnknown

datatype TerminalEvent =
    TerminalAttached jstring "jstring option" TerminalSessionInfo
  | TerminalOutputChunk int bytes
  | TerminalHistoryGap int
  | TerminalControlChanged jstring
  | TerminalPseudoTerminalResized int int
  | TerminalSessionExited TerminalExit
  | TerminalSessionClosed TerminalSessionCloseReason
  | TerminalWorkingDirectoryChanged jstring
  | TerminalTitleChanged jstring

record TakeTerminalControlReq =
  ttcr_terminalSessionId :: jstring
  ttcr_attachId :: jstring
  ttcr_viewportCols :: int
  ttcr_viewportRows :: int

record TakeTerminalControlRes =
  ttcr_primaryAttachId :: jstring

datatype WriteTerminalInputReq =
    WriteTerminalInputStart jstring jstring
  | WriteTerminalInputChunk bytes

record CloseTerminalSessionReq =
  ctsr_terminalSessionId :: jstring

datatype CreateTerminalSessionError =
    CreateTerminalSessionFailed jstring
  | CreateTerminalSessionPermissionDenied jstring
  | CreateTerminalSessionInvalidSize jstring
  | CreateTerminalSessionShellNotFound jstring
  | CreateTerminalSessionInvalidLaunch jstring

datatype SubscribeTerminalSessionsError =
    SubscribeTerminalSessionsFailed jstring
  | SubscribeTerminalSessionsPermissionDenied jstring

datatype SubscribeAvailableShellsError =
    SubscribeAvailableShellsFailed jstring
  | SubscribeAvailableShellsPermissionDenied jstring

datatype CloseTerminalSessionError =
    CloseTerminalSessionFailed jstring
  | CloseTerminalSessionNotFound jstring
  | CloseTerminalSessionPermissionDenied jstring

datatype AttachTerminalSessionError =
    AttachTerminalSessionFailed jstring
  | AttachTerminalSessionNotFound jstring
  | AttachTerminalSessionPermissionDenied jstring
  | AttachTerminalSessionInvalidSize jstring

datatype TakeTerminalControlError =
    TakeTerminalControlFailed jstring
  | TakeTerminalControlNotFound jstring
  | TakeTerminalControlPermissionDenied jstring
  | TakeTerminalControlAttachNotFound jstring
  | TakeTerminalControlInvalidSize jstring

datatype WriteTerminalInputError =
    WriteTerminalInputFailed jstring
  | WriteTerminalInputNotFound jstring
  | WriteTerminalInputPermissionDenied jstring
  | WriteTerminalInputAttachNotFound jstring
  | WriteTerminalInputNotPrimaryAttach jstring

section \<open>Defaults\<close>

definition defaultTerminalLaunchSpec :: TerminalLaunchSpec where
  "defaultTerminalLaunchSpec = \<lparr>launch_command = [], launch_args = []\<rparr>"

definition defaultCreateTerminalSessionReq :: CreateTerminalSessionReq where
  "defaultCreateTerminalSessionReq = \<lparr>ctsr_cols = 0, ctsr_rows = 0, ctsr_cwd = None,
      ctsr_launch = defaultTerminalLaunchSpec, ctsr_title = None\<rparr>"

definition defaultTerminalExit :: TerminalExit where
  "defaultTerminalExit = \<lparr>te_code = None, te_signal = None, te_exitedAtMs = 0\<rparr>"

definition defaultTerminalSessionInfo :: TerminalSessionInfo where
  "defaultTerminalSessionInfo = \<lparr>tsi_terminalSessionId = [], tsi_creatorClientId = [],
      tsi_createdAtMs = 0, tsi_lastAttachedAtMs = None, tsi_lastDetachedAtMs = None,
      tsi_lastOutputAtMs = None, tsi_cols = 0, tsi_rows = 0, tsi_primaryAttachId = None,
      tsi_latestOutputSeq = 0, tsi_lastKnownTitle = None, tsi_exit = None,
      tsi_lastKnownCwd = None, tsi_launch = defaultTerminalLaunchSpec\<rparr>"

definition defaultTerminalSessionKey :: TerminalSessionKey where
  "defaultTerminalSessionKey = \<lparr>tsk_terminalSessionId = []\<rparr>"

definition defaultTerminalSessionsTableEvent :: TerminalSessionsTableEvent where
  "defaultTerminalSessionsTableEvent = TerminalSessionsSnapshot []"

definition defaultAvailableShellInfo :: AvailableShellInfo where
  "defaultAvailableShellInfo = \<lparr>asi_shellId = [], asi_name = [], asi_command = [],
      asi_args = [], asi_isDefault = False\<rparr>"

definition defaultAvailableShellKey :: AvailableShellKey where
  "defaultAvailableShellKey = \<lparr>ask_shellId = []\<rparr>"

definition defaultAvailableShellsTableEvent :: AvailableShellsTableEvent where
  "defaultAvailableShellsTableEvent = AvailableShellsSnapshot []"

definition defaultAttachTerminalSessionReq :: AttachTerminalSessionReq where
  "defaultAttachTerminalSessionReq = \<lparr>atsr_terminalSessionId = [], atsr_afterSeq = None,
      atsr_viewportCols = 0, atsr_viewportRows = 0\<rparr>"

definition defaultTerminalSessionCloseReason :: TerminalSessionCloseReason where
  "defaultTerminalSessionCloseReason = TerminalSessionFailed []"

definition defaultTerminalEvent :: TerminalEvent where
  "defaultTerminalEvent = TerminalAttached [] None defaultTerminalSessionInfo"

definition defaultTakeTerminalControlReq :: TakeTerminalControlReq where
  "defaultTakeTerminalControlReq = \<lparr>ttcr_terminalSessionId = [], ttcr_attachId = [],
      ttcr_viewportCols = 0, ttcr_viewportRows = 0\<rparr>"

definition defaultTakeTerminalControlRes :: TakeTerminalControlRes where
  "defaultTakeTerminalControlRes = \<lparr>ttcr_primaryAttachId = []\<rparr>"

definition defaultWriteTerminalInputReq :: WriteTerminalInputReq where
  "defaultWriteTerminalInputReq = WriteTerminalInputStart [] []"

definition defaultCloseTerminalSessionReq :: CloseTerminalSessionReq where
  "defaultCloseTerminalSessionReq = \<lparr>ctsr_terminalSessionId = []\<rparr>"

definition defaultCreateTerminalSessionError :: CreateTerminalSessionError where
  "defaultCreateTerminalSessionError = CreateTerminalSessionFailed []"

definition defaultSubscribeTerminalSessionsError :: SubscribeTerminalSessionsError where
  "defaultSubscribeTerminalSessionsError = SubscribeTerminalSessionsFailed []"

definition defaultSubscribeAvailableShellsError :: SubscribeAvailableShellsError where
  "defaultSubscribeAvailableShellsError = SubscribeAvailableShellsFailed []"

definition defaultCloseTerminalSessionError :: CloseTerminalSessionError where
  "defaultCloseTerminalSessionError = CloseTerminalSessionFailed []"

definition defaultAttachTerminalSessionError :: AttachTerminalSessionError where
  "defaultAttachTerminalSessionError = AttachTerminalSessionFailed []"

definition defaultTakeTerminalControlError :: TakeTerminalControlError where
  "defaultTakeTerminalControlError = TakeTerminalControlFailed []"

definition defaultWriteTerminalInputError :: WriteTerminalInputError where
  "defaultWriteTerminalInputError = WriteTerminalInputFailed []"

section \<open>Encoders\<close>

definition encodeTerminalLaunchSpecValue :: "TerminalLaunchSpec \<Rightarrow> cbor_value result" where
  "encodeTerminalLaunchSpecValue value = encodeFields
     [field 1 cborText (launch_command value),
      field 2 (encodeArray cborText) (launch_args value)]"

definition encodeCreateTerminalSessionReqValue :: "CreateTerminalSessionReq \<Rightarrow> cbor_value result" where
  "encodeCreateTerminalSessionReqValue value = encodeFields
     [field 1 u53 (ctsr_cols value), field 2 u53 (ctsr_rows value),
      optional 3 cborText (ctsr_cwd value),
      field 4 encodeTerminalLaunchSpecValue (ctsr_launch value),
      optional 5 cborText (ctsr_title value)]"

definition encodeTerminalExitValue :: "TerminalExit \<Rightarrow> cbor_value result" where
  "encodeTerminalExitValue value = encodeFields
     [optional 1 i53 (te_code value), optional 2 cborText (te_signal value),
      field 3 u53 (te_exitedAtMs value)]"

definition encodeTerminalSessionInfoValue :: "TerminalSessionInfo \<Rightarrow> cbor_value result" where
  "encodeTerminalSessionInfoValue value = encodeFields
     [field 1 cborText (tsi_terminalSessionId value),
      field 2 cborText (tsi_creatorClientId value), field 3 u53 (tsi_createdAtMs value),
      optional 4 u53 (tsi_lastAttachedAtMs value), optional 5 u53 (tsi_lastDetachedAtMs value),
      optional 6 u53 (tsi_lastOutputAtMs value), field 7 u53 (tsi_cols value),
      field 8 u53 (tsi_rows value), optional 9 cborText (tsi_primaryAttachId value),
      field 10 u53 (tsi_latestOutputSeq value), optional 11 cborText (tsi_lastKnownTitle value),
      optional 12 encodeTerminalExitValue (tsi_exit value),
      optional 13 cborText (tsi_lastKnownCwd value),
      field 14 encodeTerminalLaunchSpecValue (tsi_launch value)]"

definition encodeTerminalSessionKeyValue :: "TerminalSessionKey \<Rightarrow> cbor_value result" where
  "encodeTerminalSessionKeyValue value = encodeFields
     [field 1 cborText (tsk_terminalSessionId value)]"

primrec encodeTerminalSessionsTableEventValue :: "TerminalSessionsTableEvent \<Rightarrow> cbor_value result" where
  "encodeTerminalSessionsTableEventValue (TerminalSessionsSnapshot rows) =
     encodeVariant 1 [field 1 (encodeArray encodeTerminalSessionInfoValue) rows]"
| "encodeTerminalSessionsTableEventValue (TerminalSessionsPatch removes upserts) =
     encodeVariant 2 [field 1 (encodeArray encodeTerminalSessionKeyValue) removes,
       field 2 (encodeArray encodeTerminalSessionInfoValue) upserts]"

definition encodeAvailableShellInfoValue :: "AvailableShellInfo \<Rightarrow> cbor_value result" where
  "encodeAvailableShellInfoValue value = encodeFields
     [field 1 cborText (asi_shellId value), field 2 cborText (asi_name value),
      field 3 cborText (asi_command value), field 4 (encodeArray cborText) (asi_args value),
      field 5 cborBool (asi_isDefault value)]"

definition encodeAvailableShellKeyValue :: "AvailableShellKey \<Rightarrow> cbor_value result" where
  "encodeAvailableShellKeyValue value = encodeFields
     [field 1 cborText (ask_shellId value)]"

primrec encodeAvailableShellsTableEventValue :: "AvailableShellsTableEvent \<Rightarrow> cbor_value result" where
  "encodeAvailableShellsTableEventValue (AvailableShellsSnapshot rows) =
     encodeVariant 1 [field 1 (encodeArray encodeAvailableShellInfoValue) rows]"
| "encodeAvailableShellsTableEventValue (AvailableShellsPatch removes upserts) =
     encodeVariant 2 [field 1 (encodeArray encodeAvailableShellKeyValue) removes,
       field 2 (encodeArray encodeAvailableShellInfoValue) upserts]"

definition encodeAttachTerminalSessionReqValue :: "AttachTerminalSessionReq \<Rightarrow> cbor_value result" where
  "encodeAttachTerminalSessionReqValue value = encodeFields
     [field 1 cborText (atsr_terminalSessionId value), optional 2 u53 (atsr_afterSeq value),
      field 3 u53 (atsr_viewportCols value), field 4 u53 (atsr_viewportRows value)]"

primrec encodeTerminalSessionCloseReasonValue :: "TerminalSessionCloseReason \<Rightarrow> cbor_value result" where
  "encodeTerminalSessionCloseReasonValue (TerminalSessionFailed message) =
     encodeVariant 0 [field 1 cborText message]"
| "encodeTerminalSessionCloseReasonValue TerminalSessionClosedByClient = encodeVariant 1 []"
| "encodeTerminalSessionCloseReasonValue TerminalSessionDaemonShuttingDown = encodeVariant 2 []"
| "encodeTerminalSessionCloseReasonValue TerminalSessionUnknown = encodeVariant 3 []"

primrec encodeTerminalEventValue :: "TerminalEvent \<Rightarrow> cbor_value result" where
  "encodeTerminalEventValue (TerminalAttached attachId primaryAttachId session) =
     encodeVariant 1 [field 1 cborText attachId, optional 2 cborText primaryAttachId,
       field 3 encodeTerminalSessionInfoValue session]"
| "encodeTerminalEventValue (TerminalOutputChunk seq bytes) =
     encodeVariant 2 [field 1 u53 seq, field 2 cborBytes bytes]"
| "encodeTerminalEventValue (TerminalHistoryGap nextSeq) = encodeVariant 3 [field 1 u53 nextSeq]"
| "encodeTerminalEventValue (TerminalControlChanged primaryAttachId) =
     encodeVariant 4 [field 1 cborText primaryAttachId]"
| "encodeTerminalEventValue (TerminalPseudoTerminalResized cols rows) =
     encodeVariant 5 [field 1 u53 cols, field 2 u53 rows]"
| "encodeTerminalEventValue (TerminalSessionExited exit) =
     encodeVariant 6 [field 1 encodeTerminalExitValue exit]"
| "encodeTerminalEventValue (TerminalSessionClosed reason) =
     encodeVariant 7 [field 1 encodeTerminalSessionCloseReasonValue reason]"
| "encodeTerminalEventValue (TerminalWorkingDirectoryChanged cwd) =
     encodeVariant 8 [field 1 cborText cwd]"
| "encodeTerminalEventValue (TerminalTitleChanged title) =
     encodeVariant 9 [field 1 cborText title]"

definition encodeTakeTerminalControlReqValue :: "TakeTerminalControlReq \<Rightarrow> cbor_value result" where
  "encodeTakeTerminalControlReqValue value = encodeFields
     [field 1 cborText (ttcr_terminalSessionId value), field 2 cborText (ttcr_attachId value),
      field 3 u53 (ttcr_viewportCols value), field 4 u53 (ttcr_viewportRows value)]"

definition encodeTakeTerminalControlResValue :: "TakeTerminalControlRes \<Rightarrow> cbor_value result" where
  "encodeTakeTerminalControlResValue value = encodeFields
     [field 1 cborText (ttcr_primaryAttachId value)]"

primrec encodeWriteTerminalInputReqValue :: "WriteTerminalInputReq \<Rightarrow> cbor_value result" where
  "encodeWriteTerminalInputReqValue (WriteTerminalInputStart terminalSessionId attachId) =
     encodeVariant 1 [field 1 cborText terminalSessionId, field 2 cborText attachId]"
| "encodeWriteTerminalInputReqValue (WriteTerminalInputChunk bytes) =
     encodeVariant 2 [field 1 cborBytes bytes]"

definition encodeCloseTerminalSessionReqValue :: "CloseTerminalSessionReq \<Rightarrow> cbor_value result" where
  "encodeCloseTerminalSessionReqValue value = encodeFields
     [field 1 cborText (ctsr_terminalSessionId value)]"

primrec encodeCreateTerminalSessionErrorValue :: "CreateTerminalSessionError \<Rightarrow> cbor_value result" where
  "encodeCreateTerminalSessionErrorValue (CreateTerminalSessionFailed message) =
     encodeVariant 0 [field 1 cborText message]"
| "encodeCreateTerminalSessionErrorValue (CreateTerminalSessionPermissionDenied message) =
     encodeVariant 1 [field 1 cborText message]"
| "encodeCreateTerminalSessionErrorValue (CreateTerminalSessionInvalidSize message) =
     encodeVariant 2 [field 1 cborText message]"
| "encodeCreateTerminalSessionErrorValue (CreateTerminalSessionShellNotFound message) =
     encodeVariant 3 [field 1 cborText message]"
| "encodeCreateTerminalSessionErrorValue (CreateTerminalSessionInvalidLaunch message) =
     encodeVariant 4 [field 1 cborText message]"

primrec encodeSubscribeTerminalSessionsErrorValue :: "SubscribeTerminalSessionsError \<Rightarrow> cbor_value result" where
  "encodeSubscribeTerminalSessionsErrorValue (SubscribeTerminalSessionsFailed message) =
     encodeVariant 0 [field 1 cborText message]"
| "encodeSubscribeTerminalSessionsErrorValue (SubscribeTerminalSessionsPermissionDenied message) =
     encodeVariant 1 [field 1 cborText message]"

primrec encodeSubscribeAvailableShellsErrorValue :: "SubscribeAvailableShellsError \<Rightarrow> cbor_value result" where
  "encodeSubscribeAvailableShellsErrorValue (SubscribeAvailableShellsFailed message) =
     encodeVariant 0 [field 1 cborText message]"
| "encodeSubscribeAvailableShellsErrorValue (SubscribeAvailableShellsPermissionDenied message) =
     encodeVariant 1 [field 1 cborText message]"

primrec encodeCloseTerminalSessionErrorValue :: "CloseTerminalSessionError \<Rightarrow> cbor_value result" where
  "encodeCloseTerminalSessionErrorValue (CloseTerminalSessionFailed message) =
     encodeVariant 0 [field 1 cborText message]"
| "encodeCloseTerminalSessionErrorValue (CloseTerminalSessionNotFound message) =
     encodeVariant 1 [field 1 cborText message]"
| "encodeCloseTerminalSessionErrorValue (CloseTerminalSessionPermissionDenied message) =
     encodeVariant 2 [field 1 cborText message]"

primrec encodeAttachTerminalSessionErrorValue :: "AttachTerminalSessionError \<Rightarrow> cbor_value result" where
  "encodeAttachTerminalSessionErrorValue (AttachTerminalSessionFailed message) =
     encodeVariant 0 [field 1 cborText message]"
| "encodeAttachTerminalSessionErrorValue (AttachTerminalSessionNotFound message) =
     encodeVariant 1 [field 1 cborText message]"
| "encodeAttachTerminalSessionErrorValue (AttachTerminalSessionPermissionDenied message) =
     encodeVariant 2 [field 1 cborText message]"
| "encodeAttachTerminalSessionErrorValue (AttachTerminalSessionInvalidSize message) =
     encodeVariant 3 [field 1 cborText message]"

primrec encodeTakeTerminalControlErrorValue :: "TakeTerminalControlError \<Rightarrow> cbor_value result" where
  "encodeTakeTerminalControlErrorValue (TakeTerminalControlFailed message) =
     encodeVariant 0 [field 1 cborText message]"
| "encodeTakeTerminalControlErrorValue (TakeTerminalControlNotFound message) =
     encodeVariant 1 [field 1 cborText message]"
| "encodeTakeTerminalControlErrorValue (TakeTerminalControlPermissionDenied message) =
     encodeVariant 2 [field 1 cborText message]"
| "encodeTakeTerminalControlErrorValue (TakeTerminalControlAttachNotFound message) =
     encodeVariant 3 [field 1 cborText message]"
| "encodeTakeTerminalControlErrorValue (TakeTerminalControlInvalidSize message) =
     encodeVariant 4 [field 1 cborText message]"

primrec encodeWriteTerminalInputErrorValue :: "WriteTerminalInputError \<Rightarrow> cbor_value result" where
  "encodeWriteTerminalInputErrorValue (WriteTerminalInputFailed message) =
     encodeVariant 0 [field 1 cborText message]"
| "encodeWriteTerminalInputErrorValue (WriteTerminalInputNotFound message) =
     encodeVariant 1 [field 1 cborText message]"
| "encodeWriteTerminalInputErrorValue (WriteTerminalInputPermissionDenied message) =
     encodeVariant 2 [field 1 cborText message]"
| "encodeWriteTerminalInputErrorValue (WriteTerminalInputAttachNotFound message) =
     encodeVariant 3 [field 1 cborText message]"
| "encodeWriteTerminalInputErrorValue (WriteTerminalInputNotPrimaryAttach message) =
     encodeVariant 4 [field 1 cborText message]"

section \<open>Decoders\<close>

definition decodeTerminalLaunchSpecValue :: "cbor_value \<Rightarrow> TerminalLaunchSpec result" where
  "decodeTerminalLaunchSpecValue value =
     ebind (expectMap value) (\<lambda>fields.
     ebind (fieldOrDefault (map_of fields 1) textValue []) (\<lambda>command.
     ebind (fieldOrDefault (map_of fields 2) (decodeArray textValue) []) (\<lambda>args.
     Inr \<lparr>launch_command = command, launch_args = args\<rparr>)))"

definition decodeCreateTerminalSessionReqValue :: "cbor_value \<Rightarrow> CreateTerminalSessionReq result" where
  "decodeCreateTerminalSessionReqValue value =
     ebind (expectMap value) (\<lambda>fields.
     ebind (fieldOrDefault (map_of fields 1) integer 0) (\<lambda>cols.
     ebind (fieldOrDefault (map_of fields 2) integer 0) (\<lambda>rows.
     ebind (optionalField (map_of fields 3) textValue) (\<lambda>cwd.
     ebind (fieldOrDefault (map_of fields 4) decodeTerminalLaunchSpecValue defaultTerminalLaunchSpec) (\<lambda>launch.
     ebind (optionalField (map_of fields 5) textValue) (\<lambda>title.
     Inr \<lparr>ctsr_cols = cols, ctsr_rows = rows, ctsr_cwd = cwd, ctsr_launch = launch,
           ctsr_title = title\<rparr>))))))"

definition decodeTerminalExitValue :: "cbor_value \<Rightarrow> TerminalExit result" where
  "decodeTerminalExitValue value =
     ebind (expectMap value) (\<lambda>fields.
     ebind (optionalField (map_of fields 1) integer) (\<lambda>code.
     ebind (optionalField (map_of fields 2) textValue) (\<lambda>signal.
     ebind (fieldOrDefault (map_of fields 3) integer 0) (\<lambda>exitedAtMs.
     Inr \<lparr>te_code = code, te_signal = signal, te_exitedAtMs = exitedAtMs\<rparr>))))"

definition decodeTerminalSessionInfoValue :: "cbor_value \<Rightarrow> TerminalSessionInfo result" where
  "decodeTerminalSessionInfoValue value =
     ebind (expectMap value) (\<lambda>fields.
     ebind (fieldOrDefault (map_of fields 1) textValue []) (\<lambda>terminalSessionId.
     ebind (fieldOrDefault (map_of fields 2) textValue []) (\<lambda>creatorClientId.
     ebind (fieldOrDefault (map_of fields 3) integer 0) (\<lambda>createdAtMs.
     ebind (optionalField (map_of fields 4) integer) (\<lambda>lastAttachedAtMs.
     ebind (optionalField (map_of fields 5) integer) (\<lambda>lastDetachedAtMs.
     ebind (optionalField (map_of fields 6) integer) (\<lambda>lastOutputAtMs.
     ebind (fieldOrDefault (map_of fields 7) integer 0) (\<lambda>cols.
     ebind (fieldOrDefault (map_of fields 8) integer 0) (\<lambda>rows.
     ebind (optionalField (map_of fields 9) textValue) (\<lambda>primaryAttachId.
     ebind (fieldOrDefault (map_of fields 10) integer 0) (\<lambda>latestOutputSeq.
     ebind (optionalField (map_of fields 11) textValue) (\<lambda>lastKnownTitle.
     ebind (optionalField (map_of fields 12) decodeTerminalExitValue) (\<lambda>exit.
     ebind (optionalField (map_of fields 13) textValue) (\<lambda>lastKnownCwd.
     ebind (fieldOrDefault (map_of fields 14) decodeTerminalLaunchSpecValue defaultTerminalLaunchSpec) (\<lambda>launch.
     Inr \<lparr>tsi_terminalSessionId = terminalSessionId, tsi_creatorClientId = creatorClientId,
           tsi_createdAtMs = createdAtMs, tsi_lastAttachedAtMs = lastAttachedAtMs,
           tsi_lastDetachedAtMs = lastDetachedAtMs, tsi_lastOutputAtMs = lastOutputAtMs,
           tsi_cols = cols, tsi_rows = rows, tsi_primaryAttachId = primaryAttachId,
           tsi_latestOutputSeq = latestOutputSeq, tsi_lastKnownTitle = lastKnownTitle,
           tsi_exit = exit, tsi_lastKnownCwd = lastKnownCwd, tsi_launch = launch\<rparr>)))))))))))))))"

definition decodeTerminalSessionKeyValue :: "cbor_value \<Rightarrow> TerminalSessionKey result" where
  "decodeTerminalSessionKeyValue value =
     ebind (expectMap value) (\<lambda>fields.
     ebind (fieldOrDefault (map_of fields 1) textValue []) (\<lambda>terminalSessionId.
     Inr \<lparr>tsk_terminalSessionId = terminalSessionId\<rparr>))"

definition decodeTerminalSessionsTableEventValue :: "cbor_value \<Rightarrow> TerminalSessionsTableEvent result" where
  "decodeTerminalSessionsTableEventValue value =
     ebind (expectUnion value) (\<lambda>(variantId, fields).
     if variantId = 1 then
       ebind (fieldOrDefault (map_of fields 1) (decodeArray decodeTerminalSessionInfoValue) []) (\<lambda>rows.
       Inr (TerminalSessionsSnapshot rows))
     else if variantId = 2 then
       ebind (fieldOrDefault (map_of fields 1) (decodeArray decodeTerminalSessionKeyValue) []) (\<lambda>removes.
       ebind (fieldOrDefault (map_of fields 2) (decodeArray decodeTerminalSessionInfoValue) []) (\<lambda>upserts.
       Inr (TerminalSessionsPatch removes upserts)))
     else throw (''unknown TerminalSessionsTableEvent variant '' @ show_int variantId))"

definition decodeAvailableShellInfoValue :: "cbor_value \<Rightarrow> AvailableShellInfo result" where
  "decodeAvailableShellInfoValue value =
     ebind (expectMap value) (\<lambda>fields.
     ebind (fieldOrDefault (map_of fields 1) textValue []) (\<lambda>shellId.
     ebind (fieldOrDefault (map_of fields 2) textValue []) (\<lambda>name.
     ebind (fieldOrDefault (map_of fields 3) textValue []) (\<lambda>command.
     ebind (fieldOrDefault (map_of fields 4) (decodeArray textValue) []) (\<lambda>args.
     ebind (fieldOrDefault (map_of fields 5) boolValue False) (\<lambda>isDefault.
     Inr \<lparr>asi_shellId = shellId, asi_name = name, asi_command = command, asi_args = args,
           asi_isDefault = isDefault\<rparr>))))))"

definition decodeAvailableShellKeyValue :: "cbor_value \<Rightarrow> AvailableShellKey result" where
  "decodeAvailableShellKeyValue value =
     ebind (expectMap value) (\<lambda>fields.
     ebind (fieldOrDefault (map_of fields 1) textValue []) (\<lambda>shellId.
     Inr \<lparr>ask_shellId = shellId\<rparr>))"

definition decodeAvailableShellsTableEventValue :: "cbor_value \<Rightarrow> AvailableShellsTableEvent result" where
  "decodeAvailableShellsTableEventValue value =
     ebind (expectUnion value) (\<lambda>(variantId, fields).
     if variantId = 1 then
       ebind (fieldOrDefault (map_of fields 1) (decodeArray decodeAvailableShellInfoValue) []) (\<lambda>rows.
       Inr (AvailableShellsSnapshot rows))
     else if variantId = 2 then
       ebind (fieldOrDefault (map_of fields 1) (decodeArray decodeAvailableShellKeyValue) []) (\<lambda>removes.
       ebind (fieldOrDefault (map_of fields 2) (decodeArray decodeAvailableShellInfoValue) []) (\<lambda>upserts.
       Inr (AvailableShellsPatch removes upserts)))
     else throw (''unknown AvailableShellsTableEvent variant '' @ show_int variantId))"

definition decodeAttachTerminalSessionReqValue :: "cbor_value \<Rightarrow> AttachTerminalSessionReq result" where
  "decodeAttachTerminalSessionReqValue value =
     ebind (expectMap value) (\<lambda>fields.
     ebind (fieldOrDefault (map_of fields 1) textValue []) (\<lambda>terminalSessionId.
     ebind (optionalField (map_of fields 2) integer) (\<lambda>afterSeq.
     ebind (fieldOrDefault (map_of fields 3) integer 0) (\<lambda>viewportCols.
     ebind (fieldOrDefault (map_of fields 4) integer 0) (\<lambda>viewportRows.
     Inr \<lparr>atsr_terminalSessionId = terminalSessionId, atsr_afterSeq = afterSeq,
           atsr_viewportCols = viewportCols, atsr_viewportRows = viewportRows\<rparr>)))))"

definition decodeTerminalSessionCloseReasonValue :: "cbor_value \<Rightarrow> TerminalSessionCloseReason result" where
  "decodeTerminalSessionCloseReasonValue value =
     ebind (expectUnion value) (\<lambda>(variantId, fields).
     if variantId = 0 then
       ebind (fieldOrDefault (map_of fields 1) textValue []) (\<lambda>message.
       Inr (TerminalSessionFailed message))
     else if variantId = 1 then Inr TerminalSessionClosedByClient
     else if variantId = 2 then Inr TerminalSessionDaemonShuttingDown
     else if variantId = 3 then Inr TerminalSessionUnknown
     else throw (''unknown TerminalSessionCloseReason variant '' @ show_int variantId))"

definition decodeTerminalEventValue :: "cbor_value \<Rightarrow> TerminalEvent result" where
  "decodeTerminalEventValue value =
     ebind (expectUnion value) (\<lambda>(variantId, fields).
     if variantId = 1 then
       ebind (fieldOrDefault (map_of fields 1) textValue []) (\<lambda>attachId.
       ebind (optionalField (map_of fields 2) textValue) (\<lambda>primaryAttachId.
       ebind (fieldOrDefault (map_of fields 3) decodeTerminalSessionInfoValue defaultTerminalSessionInfo) (\<lambda>session.
       Inr (TerminalAttached attachId primaryAttachId session))))
     else if variantId = 2 then
       ebind (fieldOrDefault (map_of fields 1) integer 0) (\<lambda>seq.
       ebind (fieldOrDefault (map_of fields 2) bytesValue []) (\<lambda>bytes.
       Inr (TerminalOutputChunk seq bytes)))
     else if variantId = 3 then
       ebind (fieldOrDefault (map_of fields 1) integer 0) (\<lambda>nextSeq.
       Inr (TerminalHistoryGap nextSeq))
     else if variantId = 4 then
       ebind (fieldOrDefault (map_of fields 1) textValue []) (\<lambda>primaryAttachId.
       Inr (TerminalControlChanged primaryAttachId))
     else if variantId = 5 then
       ebind (fieldOrDefault (map_of fields 1) integer 0) (\<lambda>cols.
       ebind (fieldOrDefault (map_of fields 2) integer 0) (\<lambda>rows.
       Inr (TerminalPseudoTerminalResized cols rows)))
     else if variantId = 6 then
       ebind (fieldOrDefault (map_of fields 1) decodeTerminalExitValue defaultTerminalExit) (\<lambda>exit.
       Inr (TerminalSessionExited exit))
     else if variantId = 7 then
       ebind (fieldOrDefault (map_of fields 1) decodeTerminalSessionCloseReasonValue defaultTerminalSessionCloseReason) (\<lambda>reason.
       Inr (TerminalSessionClosed reason))
     else if variantId = 8 then
       ebind (fieldOrDefault (map_of fields 1) textValue []) (\<lambda>cwd.
       Inr (TerminalWorkingDirectoryChanged cwd))
     else if variantId = 9 then
       ebind (fieldOrDefault (map_of fields 1) textValue []) (\<lambda>title.
       Inr (TerminalTitleChanged title))
     else throw (''unknown TerminalEvent variant '' @ show_int variantId))"

definition decodeTakeTerminalControlReqValue :: "cbor_value \<Rightarrow> TakeTerminalControlReq result" where
  "decodeTakeTerminalControlReqValue value =
     ebind (expectMap value) (\<lambda>fields.
     ebind (fieldOrDefault (map_of fields 1) textValue []) (\<lambda>terminalSessionId.
     ebind (fieldOrDefault (map_of fields 2) textValue []) (\<lambda>attachId.
     ebind (fieldOrDefault (map_of fields 3) integer 0) (\<lambda>viewportCols.
     ebind (fieldOrDefault (map_of fields 4) integer 0) (\<lambda>viewportRows.
     Inr \<lparr>ttcr_terminalSessionId = terminalSessionId, ttcr_attachId = attachId,
           ttcr_viewportCols = viewportCols, ttcr_viewportRows = viewportRows\<rparr>)))))"

definition decodeTakeTerminalControlResValue :: "cbor_value \<Rightarrow> TakeTerminalControlRes result" where
  "decodeTakeTerminalControlResValue value =
     ebind (expectMap value) (\<lambda>fields.
     ebind (fieldOrDefault (map_of fields 1) textValue []) (\<lambda>primaryAttachId.
     Inr \<lparr>ttcr_primaryAttachId = primaryAttachId\<rparr>))"

definition decodeWriteTerminalInputReqValue :: "cbor_value \<Rightarrow> WriteTerminalInputReq result" where
  "decodeWriteTerminalInputReqValue value =
     ebind (expectUnion value) (\<lambda>(variantId, fields).
     if variantId = 1 then
       ebind (fieldOrDefault (map_of fields 1) textValue []) (\<lambda>terminalSessionId.
       ebind (fieldOrDefault (map_of fields 2) textValue []) (\<lambda>attachId.
       Inr (WriteTerminalInputStart terminalSessionId attachId)))
     else if variantId = 2 then
       ebind (fieldOrDefault (map_of fields 1) bytesValue []) (\<lambda>bytes.
       Inr (WriteTerminalInputChunk bytes))
     else throw (''unknown WriteTerminalInputReq variant '' @ show_int variantId))"

definition decodeCloseTerminalSessionReqValue :: "cbor_value \<Rightarrow> CloseTerminalSessionReq result" where
  "decodeCloseTerminalSessionReqValue value =
     ebind (expectMap value) (\<lambda>fields.
     ebind (fieldOrDefault (map_of fields 1) textValue []) (\<lambda>terminalSessionId.
     Inr \<lparr>ctsr_terminalSessionId = terminalSessionId\<rparr>))"

definition decodeCreateTerminalSessionErrorValue :: "cbor_value \<Rightarrow> CreateTerminalSessionError result" where
  "decodeCreateTerminalSessionErrorValue value =
     ebind (expectUnion value) (\<lambda>(variantId, fields).
     if variantId = 0 then
       ebind (fieldOrDefault (map_of fields 1) textValue []) (\<lambda>message.
       Inr (CreateTerminalSessionFailed message))
     else if variantId = 1 then
       ebind (fieldOrDefault (map_of fields 1) textValue []) (\<lambda>message.
       Inr (CreateTerminalSessionPermissionDenied message))
     else if variantId = 2 then
       ebind (fieldOrDefault (map_of fields 1) textValue []) (\<lambda>message.
       Inr (CreateTerminalSessionInvalidSize message))
     else if variantId = 3 then
       ebind (fieldOrDefault (map_of fields 1) textValue []) (\<lambda>message.
       Inr (CreateTerminalSessionShellNotFound message))
     else if variantId = 4 then
       ebind (fieldOrDefault (map_of fields 1) textValue []) (\<lambda>message.
       Inr (CreateTerminalSessionInvalidLaunch message))
     else throw (''unknown CreateTerminalSessionError variant '' @ show_int variantId))"

definition decodeSubscribeTerminalSessionsErrorValue :: "cbor_value \<Rightarrow> SubscribeTerminalSessionsError result" where
  "decodeSubscribeTerminalSessionsErrorValue value =
     ebind (expectUnion value) (\<lambda>(variantId, fields).
     if variantId = 0 then
       ebind (fieldOrDefault (map_of fields 1) textValue []) (\<lambda>message.
       Inr (SubscribeTerminalSessionsFailed message))
     else if variantId = 1 then
       ebind (fieldOrDefault (map_of fields 1) textValue []) (\<lambda>message.
       Inr (SubscribeTerminalSessionsPermissionDenied message))
     else throw (''unknown SubscribeTerminalSessionsError variant '' @ show_int variantId))"

definition decodeSubscribeAvailableShellsErrorValue :: "cbor_value \<Rightarrow> SubscribeAvailableShellsError result" where
  "decodeSubscribeAvailableShellsErrorValue value =
     ebind (expectUnion value) (\<lambda>(variantId, fields).
     if variantId = 0 then
       ebind (fieldOrDefault (map_of fields 1) textValue []) (\<lambda>message.
       Inr (SubscribeAvailableShellsFailed message))
     else if variantId = 1 then
       ebind (fieldOrDefault (map_of fields 1) textValue []) (\<lambda>message.
       Inr (SubscribeAvailableShellsPermissionDenied message))
     else throw (''unknown SubscribeAvailableShellsError variant '' @ show_int variantId))"

definition decodeCloseTerminalSessionErrorValue :: "cbor_value \<Rightarrow> CloseTerminalSessionError result" where
  "decodeCloseTerminalSessionErrorValue value =
     ebind (expectUnion value) (\<lambda>(variantId, fields).
     if variantId = 0 then
       ebind (fieldOrDefault (map_of fields 1) textValue []) (\<lambda>message.
       Inr (CloseTerminalSessionFailed message))
     else if variantId = 1 then
       ebind (fieldOrDefault (map_of fields 1) textValue []) (\<lambda>message.
       Inr (CloseTerminalSessionNotFound message))
     else if variantId = 2 then
       ebind (fieldOrDefault (map_of fields 1) textValue []) (\<lambda>message.
       Inr (CloseTerminalSessionPermissionDenied message))
     else throw (''unknown CloseTerminalSessionError variant '' @ show_int variantId))"

definition decodeAttachTerminalSessionErrorValue :: "cbor_value \<Rightarrow> AttachTerminalSessionError result" where
  "decodeAttachTerminalSessionErrorValue value =
     ebind (expectUnion value) (\<lambda>(variantId, fields).
     if variantId = 0 then
       ebind (fieldOrDefault (map_of fields 1) textValue []) (\<lambda>message.
       Inr (AttachTerminalSessionFailed message))
     else if variantId = 1 then
       ebind (fieldOrDefault (map_of fields 1) textValue []) (\<lambda>message.
       Inr (AttachTerminalSessionNotFound message))
     else if variantId = 2 then
       ebind (fieldOrDefault (map_of fields 1) textValue []) (\<lambda>message.
       Inr (AttachTerminalSessionPermissionDenied message))
     else if variantId = 3 then
       ebind (fieldOrDefault (map_of fields 1) textValue []) (\<lambda>message.
       Inr (AttachTerminalSessionInvalidSize message))
     else throw (''unknown AttachTerminalSessionError variant '' @ show_int variantId))"

definition decodeTakeTerminalControlErrorValue :: "cbor_value \<Rightarrow> TakeTerminalControlError result" where
  "decodeTakeTerminalControlErrorValue value =
     ebind (expectUnion value) (\<lambda>(variantId, fields).
     if variantId = 0 then
       ebind (fieldOrDefault (map_of fields 1) textValue []) (\<lambda>message.
       Inr (TakeTerminalControlFailed message))
     else if variantId = 1 then
       ebind (fieldOrDefault (map_of fields 1) textValue []) (\<lambda>message.
       Inr (TakeTerminalControlNotFound message))
     else if variantId = 2 then
       ebind (fieldOrDefault (map_of fields 1) textValue []) (\<lambda>message.
       Inr (TakeTerminalControlPermissionDenied message))
     else if variantId = 3 then
       ebind (fieldOrDefault (map_of fields 1) textValue []) (\<lambda>message.
       Inr (TakeTerminalControlAttachNotFound message))
     else if variantId = 4 then
       ebind (fieldOrDefault (map_of fields 1) textValue []) (\<lambda>message.
       Inr (TakeTerminalControlInvalidSize message))
     else throw (''unknown TakeTerminalControlError variant '' @ show_int variantId))"

definition decodeWriteTerminalInputErrorValue :: "cbor_value \<Rightarrow> WriteTerminalInputError result" where
  "decodeWriteTerminalInputErrorValue value =
     ebind (expectUnion value) (\<lambda>(variantId, fields).
     if variantId = 0 then
       ebind (fieldOrDefault (map_of fields 1) textValue []) (\<lambda>message.
       Inr (WriteTerminalInputFailed message))
     else if variantId = 1 then
       ebind (fieldOrDefault (map_of fields 1) textValue []) (\<lambda>message.
       Inr (WriteTerminalInputNotFound message))
     else if variantId = 2 then
       ebind (fieldOrDefault (map_of fields 1) textValue []) (\<lambda>message.
       Inr (WriteTerminalInputPermissionDenied message))
     else if variantId = 3 then
       ebind (fieldOrDefault (map_of fields 1) textValue []) (\<lambda>message.
       Inr (WriteTerminalInputAttachNotFound message))
     else if variantId = 4 then
       ebind (fieldOrDefault (map_of fields 1) textValue []) (\<lambda>message.
       Inr (WriteTerminalInputNotPrimaryAttach message))
     else throw (''unknown WriteTerminalInputError variant '' @ show_int variantId))"

section \<open>Laws\<close>

lemmas terminals_defs [codec_defs] = encodeTerminalLaunchSpecValue_def
  encodeCreateTerminalSessionReqValue_def encodeTerminalExitValue_def
  encodeTerminalSessionInfoValue_def encodeTerminalSessionKeyValue_def
  encodeAvailableShellInfoValue_def encodeAvailableShellKeyValue_def
  encodeAttachTerminalSessionReqValue_def encodeTakeTerminalControlReqValue_def
  encodeTakeTerminalControlResValue_def encodeCloseTerminalSessionReqValue_def
  decodeTerminalLaunchSpecValue_def decodeCreateTerminalSessionReqValue_def
  decodeTerminalExitValue_def decodeTerminalSessionInfoValue_def decodeTerminalSessionKeyValue_def
  decodeTerminalSessionsTableEventValue_def decodeAvailableShellInfoValue_def
  decodeAvailableShellKeyValue_def decodeAvailableShellsTableEventValue_def
  decodeAttachTerminalSessionReqValue_def decodeTerminalSessionCloseReasonValue_def
  decodeTerminalEventValue_def decodeTakeTerminalControlReqValue_def
  decodeTakeTerminalControlResValue_def decodeWriteTerminalInputReqValue_def
  decodeCloseTerminalSessionReqValue_def decodeCreateTerminalSessionErrorValue_def
  decodeSubscribeTerminalSessionsErrorValue_def decodeSubscribeAvailableShellsErrorValue_def
  decodeCloseTerminalSessionErrorValue_def decodeAttachTerminalSessionErrorValue_def
  decodeTakeTerminalControlErrorValue_def decodeWriteTerminalInputErrorValue_def

lemmas terminals_defaults = defaultTerminalLaunchSpec_def defaultCreateTerminalSessionReq_def
  defaultTerminalExit_def defaultTerminalSessionInfo_def defaultTerminalSessionKey_def
  defaultTerminalSessionsTableEvent_def defaultAvailableShellInfo_def defaultAvailableShellKey_def
  defaultAvailableShellsTableEvent_def defaultAttachTerminalSessionReq_def
  defaultTerminalSessionCloseReason_def defaultTerminalEvent_def defaultTakeTerminalControlReq_def
  defaultTakeTerminalControlRes_def defaultWriteTerminalInputReq_def
  defaultCloseTerminalSessionReq_def defaultCreateTerminalSessionError_def
  defaultSubscribeTerminalSessionsError_def defaultSubscribeAvailableShellsError_def
  defaultCloseTerminalSessionError_def defaultAttachTerminalSessionError_def
  defaultTakeTerminalControlError_def defaultWriteTerminalInputError_def

lemma terminals_flat_codecs [codec_laws]:
  "codec encodeTerminalLaunchSpecValue decodeTerminalLaunchSpecValue"
  "deterministic encodeTerminalLaunchSpecValue"
  "codec encodeTerminalExitValue decodeTerminalExitValue"
  "deterministic encodeTerminalExitValue"
  "codec encodeTerminalSessionKeyValue decodeTerminalSessionKeyValue"
  "deterministic encodeTerminalSessionKeyValue"
  "codec encodeAvailableShellInfoValue decodeAvailableShellInfoValue"
  "deterministic encodeAvailableShellInfoValue"
  "codec encodeAvailableShellKeyValue decodeAvailableShellKeyValue"
  "deterministic encodeAvailableShellKeyValue"
  "codec encodeAttachTerminalSessionReqValue decodeAttachTerminalSessionReqValue"
  "deterministic encodeAttachTerminalSessionReqValue"
  "codec encodeTerminalSessionCloseReasonValue decodeTerminalSessionCloseReasonValue"
  "deterministic encodeTerminalSessionCloseReasonValue"
  "codec encodeTakeTerminalControlReqValue decodeTakeTerminalControlReqValue"
  "deterministic encodeTakeTerminalControlReqValue"
  "codec encodeTakeTerminalControlResValue decodeTakeTerminalControlResValue"
  "deterministic encodeTakeTerminalControlResValue"
  "codec encodeWriteTerminalInputReqValue decodeWriteTerminalInputReqValue"
  "deterministic encodeWriteTerminalInputReqValue"
  "codec encodeCloseTerminalSessionReqValue decodeCloseTerminalSessionReqValue"
  "deterministic encodeCloseTerminalSessionReqValue"
  "codec encodeCreateTerminalSessionErrorValue decodeCreateTerminalSessionErrorValue"
  "deterministic encodeCreateTerminalSessionErrorValue"
  "codec encodeSubscribeTerminalSessionsErrorValue decodeSubscribeTerminalSessionsErrorValue"
  "deterministic encodeSubscribeTerminalSessionsErrorValue"
  "codec encodeSubscribeAvailableShellsErrorValue decodeSubscribeAvailableShellsErrorValue"
  "deterministic encodeSubscribeAvailableShellsErrorValue"
  "codec encodeCloseTerminalSessionErrorValue decodeCloseTerminalSessionErrorValue"
  "deterministic encodeCloseTerminalSessionErrorValue"
  "codec encodeAttachTerminalSessionErrorValue decodeAttachTerminalSessionErrorValue"
  "deterministic encodeAttachTerminalSessionErrorValue"
  "codec encodeTakeTerminalControlErrorValue decodeTakeTerminalControlErrorValue"
  "deterministic encodeTakeTerminalControlErrorValue"
  "codec encodeWriteTerminalInputErrorValue decodeWriteTerminalInputErrorValue"
  "deterministic encodeWriteTerminalInputErrorValue"
  by ((rule codecI deterministicI, case_tac a; simp add: codec_defs codec_simps codec_laws)+)

lemma terminals_nested_codecs [codec_laws]:
  "codec encodeCreateTerminalSessionReqValue decodeCreateTerminalSessionReqValue"
  "deterministic encodeCreateTerminalSessionReqValue"
  "codec encodeTerminalSessionInfoValue decodeTerminalSessionInfoValue"
  "deterministic encodeTerminalSessionInfoValue"
  "codec encodeAvailableShellsTableEventValue decodeAvailableShellsTableEventValue"
  "deterministic encodeAvailableShellsTableEventValue"
  by ((rule codecI deterministicI, case_tac a; simp add: codec_defs codec_simps codec_laws)+)

lemma terminals_outer_codecs [codec_laws]:
  "codec encodeTerminalSessionsTableEventValue decodeTerminalSessionsTableEventValue"
  "deterministic encodeTerminalSessionsTableEventValue"
  "codec encodeTerminalEventValue decodeTerminalEventValue"
  "deterministic encodeTerminalEventValue"
  by ((rule codecI deterministicI, case_tac a; simp add: codec_defs codec_simps codec_laws)+)

text \<open>Absent fields get their defaults.\<close>

lemma terminals_absent_fields:
  "decodeTerminalLaunchSpecValue (CMap []) = Inr defaultTerminalLaunchSpec"
  "decodeCreateTerminalSessionReqValue (CMap []) = Inr defaultCreateTerminalSessionReq"
  "decodeTerminalExitValue (CMap []) = Inr defaultTerminalExit"
  "decodeTerminalSessionInfoValue (CMap []) = Inr defaultTerminalSessionInfo"
  "decodeTerminalSessionKeyValue (CMap []) = Inr defaultTerminalSessionKey"
  "decodeAvailableShellInfoValue (CMap []) = Inr defaultAvailableShellInfo"
  "decodeAvailableShellKeyValue (CMap []) = Inr defaultAvailableShellKey"
  "decodeAttachTerminalSessionReqValue (CMap []) = Inr defaultAttachTerminalSessionReq"
  "decodeTakeTerminalControlReqValue (CMap []) = Inr defaultTakeTerminalControlReq"
  "decodeTakeTerminalControlResValue (CMap []) = Inr defaultTakeTerminalControlRes"
  "decodeCloseTerminalSessionReqValue (CMap []) = Inr defaultCloseTerminalSessionReq"
  "decodeTerminalSessionsTableEventValue (union_tuple 1 []) = Inr defaultTerminalSessionsTableEvent"
  "decodeAvailableShellsTableEventValue (union_tuple 1 []) = Inr defaultAvailableShellsTableEvent"
  "decodeTerminalSessionCloseReasonValue (union_tuple 0 []) = Inr defaultTerminalSessionCloseReason"
  "decodeTerminalEventValue (union_tuple 1 []) = Inr defaultTerminalEvent"
  "decodeWriteTerminalInputReqValue (union_tuple 1 []) = Inr defaultWriteTerminalInputReq"
  "decodeCreateTerminalSessionErrorValue (union_tuple 0 []) = Inr defaultCreateTerminalSessionError"
  "decodeSubscribeTerminalSessionsErrorValue (union_tuple 0 []) = Inr defaultSubscribeTerminalSessionsError"
  "decodeSubscribeAvailableShellsErrorValue (union_tuple 0 []) = Inr defaultSubscribeAvailableShellsError"
  "decodeCloseTerminalSessionErrorValue (union_tuple 0 []) = Inr defaultCloseTerminalSessionError"
  "decodeAttachTerminalSessionErrorValue (union_tuple 0 []) = Inr defaultAttachTerminalSessionError"
  "decodeTakeTerminalControlErrorValue (union_tuple 0 []) = Inr defaultTakeTerminalControlError"
  "decodeWriteTerminalInputErrorValue (union_tuple 0 []) = Inr defaultWriteTerminalInputError"
  by (simp_all add: codec_defs terminals_defaults fieldOrDefault_def optionalField_def)

end
