(* ===== verification/Workbench.thy ===== *)
theory Workbench
  imports Explorer FileViewer RpcTerminals
begin

text \<open>
  \<open>web/src/state/workbench.ts\<close>: panes of tabs. Every operation is a function from the stored
  state to the new one, as the updater functions passed to \<open>store.set\<close> are; the pane layout
  is the \<open>panecake\<close> package's and opaque. \<open>crypto.randomUUID()\<close> is an argument \<open>uuid\<close> of the
  operations that call it. The two operations that duplicate a tab also copy its entries in
  local storage.
\<close>

section \<open>Tabs, panes, state\<close>

datatype WorkbenchTool = ToolDaemon | ToolFiles | ToolProcesses | ToolTerminal | ToolWindows

datatype WorkbenchFilesView = ViewRoots | ViewHome | ViewTrash

datatype WorkbenchProcessPage =
  PageDetail | PageChildren | PageHeldResources | PageHeldSockets | PageModules

record WorkbenchTab =
  tab_id :: jstring
  tab_title :: jstring
  tab_tool :: WorkbenchTool
  tab_previous :: "jstring option"
  tab_dirty :: "bool option"
  tab_filesView :: "WorkbenchFilesView option"
  tab_daemonClientDetailId :: "jstring option"
  tab_daemonClientsPageOpen :: "bool option"
  tab_processDetailPid :: "int option"
  tab_processPage :: "WorkbenchProcessPage option"
  tab_terminalLaunch :: "TerminalLaunchSpec option"
  tab_terminalCwd :: "jstring option"
  tab_terminalTitle :: "jstring option"
  tab_terminalSessionId :: "jstring option"
  tab_windowDetailId :: "jstring option"

record WorkbenchPane =
  pane_id :: jstring
  pane_tabs :: "WorkbenchTab list"
  pane_active :: jstring

record 'l WorkbenchState =
  layout :: 'l
  activePaneId :: "jstring option"
  panes :: "WorkbenchPane list"

datatype TabDropPosition = Before | After | End

abbreviation tab_ids :: "WorkbenchPane \<Rightarrow> jstring list" where
  "tab_ids pane \<equiv> map tab_id (pane_tabs pane)"

definition workbenchStorageKey :: "jstring option \<Rightarrow> jstring" where
  "workbenchStorageKey machineId = js ''wgo.workbench.'' @ getOr machineId (js ''none'') @ js ''.v1''"

definition requireScopeValue :: "jstring option \<Rightarrow> string \<Rightarrow> jstring result" where
  "requireScopeValue v name =
     (if truthy v then Inr (the v) else throw (name @ '' is not provided.''))"

section \<open>Creating tabs\<close>

fun titleForTool :: "WorkbenchTool \<Rightarrow> jstring" where
  "titleForTool ToolDaemon = js ''Daemon''"
| "titleForTool ToolFiles = js ''Files''"
| "titleForTool ToolProcesses = js ''Processes''"
| "titleForTool ToolTerminal = js ''Terminal''"
| "titleForTool ToolWindows = js ''Windows''"

fun tool_name :: "WorkbenchTool \<Rightarrow> jstring" where
  "tool_name ToolDaemon = js ''daemon''"
| "tool_name ToolFiles = js ''files''"
| "tool_name ToolProcesses = js ''processes''"
| "tool_name ToolTerminal = js ''terminal''"
| "tool_name ToolWindows = js ''windows''"

fun titleForFilesView :: "WorkbenchFilesView \<Rightarrow> jstring" where
  "titleForFilesView ViewRoots = js ''Root''"
| "titleForFilesView ViewHome = js ''Home''"
| "titleForFilesView ViewTrash = js ''Trash''"

definition fresh_id :: "jstring \<Rightarrow> jstring \<Rightarrow> jstring" where
  "fresh_id kind uuid = kind @ js ''-'' @ uuid"

definition createWorkbenchTab :: "WorkbenchTool \<Rightarrow> jstring \<Rightarrow> WorkbenchTab" where
  "createWorkbenchTab tool uuid =
     \<lparr>tab_id = fresh_id (tool_name tool) uuid, tab_title = titleForTool tool, tab_tool = tool,
      tab_previous = None, tab_dirty = None, tab_filesView = None, tab_daemonClientDetailId = None,
      tab_daemonClientsPageOpen = None, tab_processDetailPid = None, tab_processPage = None,
      tab_terminalLaunch = None, tab_terminalCwd = None, tab_terminalTitle = None,
      tab_terminalSessionId = None, tab_windowDetailId = None\<rparr>"

definition createFilesTab :: "WorkbenchFilesView option \<Rightarrow> jstring \<Rightarrow> WorkbenchTab" where
  "createFilesTab view uuid =
     (let filesView = getOr view ViewRoots in
      (createWorkbenchTab ToolFiles uuid)
        \<lparr>tab_filesView := Some filesView, tab_title := titleForFilesView filesView\<rparr>)"

definition createProcessesTab ::
    "int option \<Rightarrow> WorkbenchProcessPage option \<Rightarrow> jstring option \<Rightarrow> jstring \<Rightarrow> WorkbenchTab" where
  "createProcessesTab pid page title uuid =
     (createWorkbenchTab ToolProcesses uuid)
       \<lparr>tab_processDetailPid := pid,
        tab_processPage := (if pid = None then None else Some (getOr page PageDetail)),
        tab_title := getOr title (js ''Processes'')\<rparr>"

definition createWindowsTab :: "jstring option \<Rightarrow> jstring option \<Rightarrow> jstring \<Rightarrow> WorkbenchTab" where
  "createWindowsTab title windowDetailId uuid =
     (createWorkbenchTab ToolWindows uuid)
       \<lparr>tab_title := getOr title (js ''Windows''), tab_windowDetailId := windowDetailId\<rparr>"

record WorkbenchTerminalTabConfig =
  cfg_cwd :: "jstring option"
  cfg_launch :: "TerminalLaunchSpec option"
  cfg_sessionId :: "jstring option"
  cfg_terminalTitle :: "jstring option"
  cfg_title :: "jstring option"

definition createTerminalTab :: "WorkbenchTerminalTabConfig \<Rightarrow> jstring \<Rightarrow> WorkbenchTab" where
  "createTerminalTab config uuid =
     (createWorkbenchTab ToolTerminal uuid)
       \<lparr>tab_title := getOr (cfg_title config) (js ''Terminal''), tab_terminalCwd := cfg_cwd config,
        tab_terminalTitle := orElse (cfg_terminalTitle config) (cfg_title config),
        tab_terminalLaunch := cfg_launch config, tab_terminalSessionId := cfg_sessionId config\<rparr>"

definition cloneTerminalLaunch :: "TerminalLaunchSpec option \<Rightarrow> TerminalLaunchSpec option" where
  "cloneTerminalLaunch launch =
     map_option (\<lambda>l. \<lparr>launch_command = launch_command l, launch_args = launch_args l\<rparr>) launch"

definition terminalLaunchEquals :: "TerminalLaunchSpec option \<Rightarrow> TerminalLaunchSpec option \<Rightarrow> bool" where
  "terminalLaunchEquals left right =
     (case (left, right) of
        (None, None) \<Rightarrow> True
      | (Some l, Some r) \<Rightarrow>
          launch_command l = launch_command r \<and> length (launch_args l) = length (launch_args r) \<and>
          list_all (\<lambda>(a, b). a = b) (zip (launch_args l) (launch_args r))
      | _ \<Rightarrow> False)"

definition cloneWorkbenchTab :: "WorkbenchTab \<Rightarrow> jstring \<Rightarrow> WorkbenchTab" where
  "cloneWorkbenchTab tab uuid =
     (if tab_tool tab = ToolTerminal then
        createTerminalTab \<lparr>cfg_cwd = tab_terminalCwd tab,
          cfg_launch = cloneTerminalLaunch (tab_terminalLaunch tab), cfg_sessionId = None,
          cfg_terminalTitle = tab_terminalTitle tab, cfg_title = Some (tab_title tab)\<rparr> uuid
      else tab\<lparr>tab_dirty := None, tab_id := fresh_id (tool_name (tab_tool tab)) uuid,
        tab_previous := None\<rparr>)"

definition copyTabState ::
    "jstring option \<Rightarrow> WorkbenchTab \<Rightarrow> WorkbenchTab \<Rightarrow> storage option \<Rightarrow> storage option" where
  "copyTabState machineId source target storage =
     (if tab_tool source = ToolFiles \<and> tab_tool target = ToolFiles then
        copyFileViewerState machineId (tab_id source) (tab_id target)
          (copyExplorerNavigationState machineId (tab_id source) (tab_id target) storage)
      else storage)"

section \<open>Tab history of a pane\<close>

definition normalizePaneTabHistory :: "WorkbenchPane \<Rightarrow> WorkbenchPane" where
  "normalizePaneTabHistory pane =
     (let ids = set (tab_ids pane);
          active = (if pane_active pane \<in> ids then pane_active pane
            else getOr (map_option tab_id (head (pane_tabs pane))) []);
          tabs = map (\<lambda>tab.
            if truthy (tab_previous tab) \<and> tab_previous tab \<noteq> Some (tab_id tab) \<and>
              the (tab_previous tab) \<in> ids then tab
            else if tab_previous tab = None then tab
            else tab\<lparr>tab_previous := None\<rparr>) (pane_tabs pane)
      in pane\<lparr>pane_active := active, pane_tabs := tabs\<rparr>)"

definition activatePaneTab :: "WorkbenchPane \<Rightarrow> jstring \<Rightarrow> WorkbenchPane" where
  "activatePaneTab pane tabId =
     (if tabId \<notin> set (tab_ids pane) then normalizePaneTabHistory pane
      else if pane_active pane = tabId then normalizePaneTabHistory pane
      else let previous = (if pane_active pane \<in> set (tab_ids pane) then Some (pane_active pane) else None) in
        normalizePaneTabHistory (pane\<lparr>pane_active := tabId,
          pane_tabs := map (\<lambda>tab. if tab_id tab = tabId then tab\<lparr>tab_previous := previous\<rparr> else tab)
            (pane_tabs pane)\<rparr>))"

definition fallbackActiveTabId :: "WorkbenchTab option \<Rightarrow> WorkbenchTab list \<Rightarrow> jstring" where
  "fallbackActiveTabId closingTab tabs =
     (let previous = Option.bind closingTab tab_previous in
      if truthy previous \<and> the previous \<in> set (map tab_id tabs) then the previous
      else getOr (map_option tab_id (head tabs)) [])"

definition insertTab ::
    "WorkbenchTab list \<Rightarrow> WorkbenchTab \<Rightarrow> jstring option \<Rightarrow> TabDropPosition \<Rightarrow> WorkbenchTab list" where
  "insertTab tabs tab targetTabId position =
     (if position = End \<or> \<not> truthy targetTabId then tabs @ [tab]
      else let targetIndex = findIndex (\<lambda>item. Some (tab_id item) = targetTabId) tabs in
        if targetIndex < 0 then tabs @ [tab]
        else let insertIndex = nat (if position = Before then targetIndex else targetIndex + 1) in
          take insertIndex tabs @ [tab] @ drop insertIndex tabs)"

definition moveTabWithinPane ::
    "WorkbenchPane \<Rightarrow> jstring \<Rightarrow> jstring option \<Rightarrow> TabDropPosition \<Rightarrow> WorkbenchPane" where
  "moveTabWithinPane pane tabId targetTabId position =
     (if targetTabId = Some tabId then pane
      else case List.find (\<lambda>tab. tab_id tab = tabId) (pane_tabs pane) of
        None \<Rightarrow> pane
      | Some movingTab \<Rightarrow>
          let remaining = filter (\<lambda>tab. tab_id tab \<noteq> tabId) (pane_tabs pane) in
          activatePaneTab (pane\<lparr>pane_tabs := insertTab remaining movingTab targetTabId position\<rparr>) tabId)"

section \<open>Panes of the state\<close>

definition activePaneFromState :: "'l WorkbenchState \<Rightarrow> WorkbenchPane option" where
  "activePaneFromState st =
     orElse (List.find (\<lambda>pane. Some (pane_id pane) = activePaneId st) (panes st)) (head (panes st))"

definition activeTabFromPane :: "WorkbenchPane option \<Rightarrow> WorkbenchTab option" where
  "activeTabFromPane pane =
     (case pane of
        None \<Rightarrow> None
      | Some p \<Rightarrow>
          orElse (List.find (\<lambda>tab. tab_id tab = pane_active p) (pane_tabs p)) (head (pane_tabs p)))"

definition activeTool :: "'l WorkbenchState \<Rightarrow> WorkbenchTool" where
  "activeTool st = getOr (map_option tab_tool (activeTabFromPane (activePaneFromState st))) ToolFiles"

definition map_pane :: "jstring \<Rightarrow> (WorkbenchPane \<Rightarrow> WorkbenchPane) \<Rightarrow> WorkbenchPane list \<Rightarrow> WorkbenchPane list" where
  "map_pane paneId f ps = map (\<lambda>pane. if pane_id pane = paneId then f pane else pane) ps"

definition openTabInPane :: "jstring \<Rightarrow> WorkbenchTab \<Rightarrow> 'l WorkbenchState \<Rightarrow> 'l WorkbenchState" where
  "openTabInPane paneId tab st =
     st\<lparr>activePaneId := Some paneId,
        panes := map_pane paneId
          (\<lambda>pane. activatePaneTab (pane\<lparr>pane_tabs := pane_tabs pane @ [tab]\<rparr>) (tab_id tab)) (panes st)\<rparr>"

definition openTabInActivePane :: "WorkbenchTab \<Rightarrow> 'l WorkbenchState \<Rightarrow> 'l WorkbenchState" where
  "openTabInActivePane tab st =
     (let active = map_option pane_id (activePaneFromState st) in
      if \<not> truthy active then st else openTabInPane (the active) tab st)"

definition openToolTabInActivePane ::
    "WorkbenchTool \<Rightarrow> jstring \<Rightarrow> 'l WorkbenchState \<Rightarrow> 'l WorkbenchState" where
  "openToolTabInActivePane tool uuid st =
     (let active = map_option pane_id (activePaneFromState st) in
      if \<not> truthy active then st
      else let ps = map_pane (the active) (\<lambda>pane.
          case List.find (\<lambda>tab. tab_tool tab = tool) (pane_tabs pane) of
            Some existing \<Rightarrow> activatePaneTab pane (tab_id existing)
          | None \<Rightarrow>
              let tab = createWorkbenchTab tool uuid in
              activatePaneTab (pane\<lparr>pane_tabs := pane_tabs pane @ [tab]\<rparr>) (tab_id tab)) (panes st);
          opened = list_ex (\<lambda>pane. pane_id pane = the active) (panes st)
        in if \<not> opened then st else st\<lparr>activePaneId := active, panes := ps\<rparr>)"

section \<open>Operations on panes and tabs\<close>

definition initialState :: "'l \<Rightarrow> jstring \<Rightarrow> jstring \<Rightarrow> 'l WorkbenchState" where
  "initialState l paneUuid tabUuid =
     (let paneId = fresh_id (js ''pane'') paneUuid; tab = createFilesTab None tabUuid in
      \<lparr>layout = l, activePaneId = Some paneId,
       panes = [\<lparr>pane_id = paneId, pane_tabs = [tab], pane_active = tab_id tab\<rparr>]\<rparr>)"

definition setLayout :: "'l \<Rightarrow> 'l WorkbenchState \<Rightarrow> 'l WorkbenchState" where
  "setLayout l st = st\<lparr>layout := l\<rparr>"

definition selectTool :: "WorkbenchTool \<Rightarrow> jstring \<Rightarrow> 'l WorkbenchState \<Rightarrow> 'l WorkbenchState" where
  "selectTool tool uuid st = openToolTabInActivePane tool uuid st"

definition focusPane :: "jstring \<Rightarrow> 'l WorkbenchState \<Rightarrow> 'l WorkbenchState" where
  "focusPane paneId st =
     (if activePaneId st = Some paneId then st
      else if \<not> list_ex (\<lambda>pane. pane_id pane = paneId) (panes st) then st
      else st\<lparr>activePaneId := Some paneId\<rparr>)"

text \<open>\<open>addPane\<close> returns the new pane's id, the new state, and the storage after the copy.\<close>

definition addPane ::
    "jstring option \<Rightarrow> jstring \<Rightarrow> jstring \<Rightarrow> jstring option \<Rightarrow> 'l WorkbenchState \<Rightarrow> storage option \<Rightarrow>
     jstring \<times> 'l WorkbenchState \<times> storage option" where
  "addPane machineId tabUuid paneUuid sourcePaneId st storage =
     (let sourcePane = Option.bind sourcePaneId (\<lambda>i. List.find (\<lambda>pane. pane_id pane = i) (panes st));
          sourceTab = Option.bind sourcePane (\<lambda>p.
            orElse (List.find (\<lambda>tab. tab_id tab = pane_active p) (pane_tabs p)) (head (pane_tabs p)));
          tab = (case sourceTab of
            None \<Rightarrow> createFilesTab None tabUuid
          | Some t \<Rightarrow> cloneWorkbenchTab t tabUuid);
          pane = \<lparr>pane_id = fresh_id (js ''pane'') paneUuid, pane_tabs = [tab], pane_active = tab_id tab\<rparr>;
          storage = (case sourceTab of
            None \<Rightarrow> storage
          | Some t \<Rightarrow> copyTabState machineId t tab storage)
      in (pane_id pane, st\<lparr>activePaneId := Some (pane_id pane), panes := panes st @ [pane]\<rparr>, storage))"

definition removePane :: "jstring \<Rightarrow> 'l WorkbenchState \<Rightarrow> 'l WorkbenchState" where
  "removePane paneId st =
     (if length (panes st) \<le> 1 then st
      else let ps = filter (\<lambda>pane. pane_id pane \<noteq> paneId) (panes st) in
        st\<lparr>panes := ps,
           activePaneId := (if activePaneId st = Some paneId then map_option pane_id (head ps)
             else activePaneId st)\<rparr>)"

definition updatePanes ::
    "(WorkbenchPane list \<Rightarrow> WorkbenchPane list) \<Rightarrow> 'l WorkbenchState \<Rightarrow> 'l WorkbenchState" where
  "updatePanes update st = st\<lparr>panes := update (panes st)\<rparr>"

definition addFilesTab ::
    "jstring \<Rightarrow> WorkbenchFilesView option \<Rightarrow> jstring \<Rightarrow> 'l WorkbenchState \<Rightarrow> 'l WorkbenchState" where
  "addFilesTab paneId view uuid st = openTabInPane paneId (createFilesTab view uuid) st"

definition addToolTab ::
    "jstring \<Rightarrow> WorkbenchTool \<Rightarrow> jstring \<Rightarrow> 'l WorkbenchState \<Rightarrow> 'l WorkbenchState" where
  "addToolTab paneId tool uuid st = openTabInPane paneId (createWorkbenchTab tool uuid) st"

definition addDaemonTab :: "jstring \<Rightarrow> jstring \<Rightarrow> 'l WorkbenchState \<Rightarrow> 'l WorkbenchState" where
  "addDaemonTab paneId = addToolTab paneId ToolDaemon"

definition addProcessesTab ::
    "jstring \<Rightarrow> int option \<Rightarrow> WorkbenchProcessPage option \<Rightarrow> jstring option \<Rightarrow> jstring \<Rightarrow>
     'l WorkbenchState \<Rightarrow> 'l WorkbenchState" where
  "addProcessesTab paneId pid page title uuid st =
     openTabInPane paneId (createProcessesTab pid page title uuid) st"

definition addWindowsTab ::
    "jstring \<Rightarrow> jstring option \<Rightarrow> jstring option \<Rightarrow> jstring \<Rightarrow> 'l WorkbenchState \<Rightarrow> 'l WorkbenchState" where
  "addWindowsTab paneId title windowDetailId uuid st =
     openTabInPane paneId (createWindowsTab title windowDetailId uuid) st"

definition addTerminalTab ::
    "jstring \<Rightarrow> WorkbenchTerminalTabConfig \<Rightarrow> jstring \<Rightarrow> 'l WorkbenchState \<Rightarrow> 'l WorkbenchState" where
  "addTerminalTab paneId config uuid st = openTabInPane paneId (createTerminalTab config uuid) st"

definition openTerminalTab ::
    "WorkbenchTerminalTabConfig \<Rightarrow> jstring \<Rightarrow> 'l WorkbenchState \<Rightarrow> 'l WorkbenchState" where
  "openTerminalTab config uuid st = openTabInActivePane (createTerminalTab config uuid) st"

definition openFilesTab ::
    "WorkbenchFilesView option \<Rightarrow> jstring \<Rightarrow> 'l WorkbenchState \<Rightarrow> 'l WorkbenchState" where
  "openFilesTab view uuid st = openTabInActivePane (createFilesTab view uuid) st"

text \<open>The shape the setters share: one tab of one pane is replaced.\<close>

definition update_tab ::
    "jstring \<Rightarrow> jstring \<Rightarrow> (WorkbenchTab \<Rightarrow> WorkbenchTab) \<Rightarrow> 'l WorkbenchState \<Rightarrow> 'l WorkbenchState" where
  "update_tab paneId tabId f st =
     st\<lparr>panes := map_pane paneId (\<lambda>pane. pane\<lparr>pane_tabs :=
       map (\<lambda>tab. if tab_id tab = tabId then f tab else tab) (pane_tabs pane)\<rparr>) (panes st)\<rparr>"

definition setTerminalSessionId ::
    "jstring \<Rightarrow> jstring \<Rightarrow> jstring option \<Rightarrow> 'l WorkbenchState \<Rightarrow> 'l WorkbenchState" where
  "setTerminalSessionId paneId tabId sessionId = update_tab paneId tabId (\<lambda>tab.
     if tab_tool tab = ToolTerminal then tab\<lparr>tab_terminalSessionId := sessionId\<rparr> else tab)"

definition setTerminalSessionSnapshot ::
    "jstring \<Rightarrow> jstring \<Rightarrow> jstring option \<Rightarrow> jstring option \<Rightarrow> TerminalLaunchSpec option \<Rightarrow>
     'l WorkbenchState \<Rightarrow> 'l WorkbenchState" where
  "setTerminalSessionSnapshot paneId tabId cwd title launch = update_tab paneId tabId (\<lambda>tab.
     if tab_tool tab \<noteq> ToolTerminal then tab
     else if terminalLaunchEquals (tab_terminalLaunch tab) launch \<and> tab_terminalCwd tab = cwd \<and>
       tab_terminalTitle tab = title then tab
     else tab\<lparr>tab_terminalCwd := cwd, tab_terminalTitle := title, tab_terminalLaunch := launch\<rparr>)"

definition setTabDirty :: "jstring \<Rightarrow> jstring \<Rightarrow> bool \<Rightarrow> 'l WorkbenchState \<Rightarrow> 'l WorkbenchState" where
  "setTabDirty paneId tabId dirty = update_tab paneId tabId (\<lambda>tab.
     if getOr (tab_dirty tab) False = dirty then tab
     else tab\<lparr>tab_dirty := (if dirty then Some True else None)\<rparr>)"

definition setDaemonClientDetailId ::
    "jstring \<Rightarrow> jstring \<Rightarrow> jstring option \<Rightarrow> 'l WorkbenchState \<Rightarrow> 'l WorkbenchState" where
  "setDaemonClientDetailId paneId tabId clientId = update_tab paneId tabId (\<lambda>tab.
     if tab_tool tab = ToolDaemon then tab\<lparr>tab_daemonClientDetailId := clientId\<rparr> else tab)"

definition setDaemonClientsPageOpen ::
    "jstring \<Rightarrow> jstring \<Rightarrow> bool \<Rightarrow> 'l WorkbenchState \<Rightarrow> 'l WorkbenchState" where
  "setDaemonClientsPageOpen paneId tabId isOpen = update_tab paneId tabId (\<lambda>tab.
     if tab_tool tab = ToolDaemon then tab\<lparr>tab_daemonClientsPageOpen := Some isOpen\<rparr> else tab)"

definition setProcessDetailPid ::
    "jstring \<Rightarrow> jstring \<Rightarrow> int option \<Rightarrow> 'l WorkbenchState \<Rightarrow> 'l WorkbenchState" where
  "setProcessDetailPid paneId tabId pid = update_tab paneId tabId (\<lambda>tab.
     if tab_tool tab = ToolProcesses then
       tab\<lparr>tab_processDetailPid := pid,
         tab_processPage := (if pid = None then None else Some PageDetail)\<rparr>
     else tab)"

definition setProcessPage ::
    "jstring \<Rightarrow> jstring \<Rightarrow> WorkbenchProcessPage \<Rightarrow> 'l WorkbenchState \<Rightarrow> 'l WorkbenchState" where
  "setProcessPage paneId tabId page = update_tab paneId tabId (\<lambda>tab.
     if tab_tool tab = ToolProcesses \<and> tab_processDetailPid tab \<noteq> None then
       tab\<lparr>tab_processPage := Some page\<rparr>
     else tab)"

definition setWindowDetailId ::
    "jstring \<Rightarrow> jstring \<Rightarrow> jstring option \<Rightarrow> 'l WorkbenchState \<Rightarrow> 'l WorkbenchState" where
  "setWindowDetailId paneId tabId windowId = update_tab paneId tabId (\<lambda>tab.
     if tab_tool tab = ToolWindows then tab\<lparr>tab_windowDetailId := windowId\<rparr> else tab)"

definition duplicateTab ::
    "jstring option \<Rightarrow> jstring \<Rightarrow> jstring \<Rightarrow> jstring \<Rightarrow> 'l WorkbenchState \<Rightarrow> storage option \<Rightarrow>
     jstring option \<times> 'l WorkbenchState \<times> storage option" where
  "duplicateTab machineId uuid paneId tabId st storage =
     (case Option.bind (List.find (\<lambda>pane. pane_id pane = paneId) (panes st))
        (\<lambda>p. List.find (\<lambda>tab. tab_id tab = tabId) (pane_tabs p)) of
        None \<Rightarrow> (None, st, storage)
      | Some sourceTab \<Rightarrow>
          let tab = cloneWorkbenchTab sourceTab uuid in
          (Some (tab_id tab),
           st\<lparr>activePaneId := Some paneId, panes := map_pane paneId (\<lambda>pane.
             activatePaneTab (pane\<lparr>pane_tabs := insertTab (pane_tabs pane) tab (Some tabId) After\<rparr>)
               (tab_id tab)) (panes st)\<rparr>,
           copyTabState machineId sourceTab tab storage))"

definition selectTab :: "jstring \<Rightarrow> jstring \<Rightarrow> 'l WorkbenchState \<Rightarrow> 'l WorkbenchState" where
  "selectTab paneId tabId st =
     st\<lparr>activePaneId := Some paneId,
        panes := map_pane paneId (\<lambda>pane. activatePaneTab pane tabId) (panes st)\<rparr>"

text \<open>What \<open>closeTab\<close> and the two moves leave of a pane that loses a tab.\<close>

definition pane_without :: "jstring \<Rightarrow> WorkbenchPane \<Rightarrow> WorkbenchPane" where
  "pane_without tabId pane =
     (let closingTab = List.find (\<lambda>tab. tab_id tab = tabId) (pane_tabs pane);
          tabs = filter (\<lambda>tab. tab_id tab \<noteq> tabId) (pane_tabs pane)
      in normalizePaneTabHistory (pane\<lparr>pane_tabs := tabs,
        pane_active := (if pane_active pane = tabId then fallbackActiveTabId closingTab tabs
          else pane_active pane)\<rparr>))"

definition closeTab :: "jstring \<Rightarrow> jstring \<Rightarrow> 'l WorkbenchState \<Rightarrow> 'l WorkbenchState" where
  "closeTab paneId tabId = updatePanes (map (\<lambda>pane.
     if pane_id pane \<noteq> paneId \<or> length (pane_tabs pane) \<le> 1 then pane
     else pane_without tabId pane))"

definition moveTab ::
    "jstring \<Rightarrow> jstring \<Rightarrow> jstring \<Rightarrow> jstring option \<Rightarrow> TabDropPosition \<Rightarrow> 'l WorkbenchState \<Rightarrow>
     bool \<times> 'l WorkbenchState" where
  "moveTab sourcePaneId tabId targetPaneId targetTabId position st =
     (let sourcePane = List.find (\<lambda>pane. pane_id pane = sourcePaneId) (panes st);
          targetPane = List.find (\<lambda>pane. pane_id pane = targetPaneId) (panes st);
          moving = Option.bind sourcePane (\<lambda>p. List.find (\<lambda>tab. tab_id tab = tabId) (pane_tabs p))
      in case (sourcePane, targetPane, moving) of
        (Some source, Some target, Some movingTab) \<Rightarrow>
          (sourcePaneId \<noteq> targetPaneId \<and> length (pane_tabs source) \<le> 1,
           st\<lparr>panes := concat (map (\<lambda>pane.
               if sourcePaneId = targetPaneId \<and> pane_id pane = sourcePaneId then
                 [moveTabWithinPane pane tabId targetTabId position]
               else if pane_id pane = sourcePaneId then
                 (if filter (\<lambda>tab. tab_id tab \<noteq> tabId) (pane_tabs pane) = [] then []
                  else [pane_without tabId pane])
               else if pane_id pane = targetPaneId then
                 [activatePaneTab
                   (pane\<lparr>pane_tabs := insertTab (pane_tabs pane) movingTab targetTabId position\<rparr>)
                   (tab_id movingTab)]
               else [pane]) (panes st)),
             activePaneId := Some targetPaneId\<rparr>)
      | _ \<Rightarrow> (False, st))"

record MoveTabToNewPaneResult =
  newPaneId :: jstring
  sourcePaneRemoved :: bool

definition moveTabToNewPane ::
    "jstring \<Rightarrow> jstring \<Rightarrow> jstring \<Rightarrow> jstring \<Rightarrow> 'l WorkbenchState \<Rightarrow>
     MoveTabToNewPaneResult option \<times> 'l WorkbenchState" where
  "moveTabToNewPane paneUuid sourcePaneId tabId targetPaneId st =
     (let sourcePane = List.find (\<lambda>pane. pane_id pane = sourcePaneId) (panes st);
          moving = Option.bind sourcePane (\<lambda>p. List.find (\<lambda>tab. tab_id tab = tabId) (pane_tabs p))
      in case (sourcePane, moving) of
        (Some source, Some movingTab) \<Rightarrow>
          if sourcePaneId = targetPaneId \<and> length (pane_tabs source) \<le> 1 then (None, st)
          else let paneId = fresh_id (js ''pane'') paneUuid;
              newPane = \<lparr>pane_id = paneId, pane_tabs = [movingTab\<lparr>tab_previous := None\<rparr>],
                pane_active = tab_id movingTab\<rparr>;
              ps = concat (map (\<lambda>pane.
                if pane_id pane \<noteq> sourcePaneId then [pane]
                else if filter (\<lambda>tab. tab_id tab \<noteq> tabId) (pane_tabs pane) = [] then []
                else [pane_without tabId pane]) (panes st))
            in (Some \<lparr>newPaneId = paneId, sourcePaneRemoved = length (pane_tabs source) \<le> 1\<rparr>,
                st\<lparr>activePaneId := Some paneId, panes := ps @ [newPane]\<rparr>)
      | _ \<Rightarrow> (None, st))"

section \<open>Views of one pane and one tab\<close>

definition paneOf :: "jstring \<Rightarrow> 'l WorkbenchState \<Rightarrow> WorkbenchPane option" where
  "paneOf paneId st = List.find (\<lambda>pane. pane_id pane = paneId) (panes st)"

definition paneIsActive :: "jstring \<Rightarrow> 'l WorkbenchState \<Rightarrow> bool" where
  "paneIsActive paneId st \<longleftrightarrow> map_option pane_id (activePaneFromState st) = Some paneId"

definition tabOf :: "jstring \<Rightarrow> jstring \<Rightarrow> 'l WorkbenchState \<Rightarrow> WorkbenchTab option" where
  "tabOf paneId tabId st =
     Option.bind (paneOf paneId st) (\<lambda>p. List.find (\<lambda>tab. tab_id tab = tabId) (pane_tabs p))"

definition tabIsActive :: "jstring \<Rightarrow> jstring \<Rightarrow> 'l WorkbenchState \<Rightarrow> bool" where
  "tabIsActive paneId tabId st \<longleftrightarrow> map_option pane_active (paneOf paneId st) = Some tabId"

definition tabIsFocused :: "jstring \<Rightarrow> jstring \<Rightarrow> 'l WorkbenchState \<Rightarrow> bool" where
  "tabIsFocused paneId tabId st \<longleftrightarrow> paneIsActive paneId st \<and> tabIsActive paneId tabId st"

definition showClose :: "jstring \<Rightarrow> 'l WorkbenchState \<Rightarrow> bool" where
  "showClose paneId st \<longleftrightarrow>
     getOr (map_option (\<lambda>p. length (pane_tabs p)) (paneOf paneId st)) 0 > 1 \<or> length (panes st) > 1"

definition tabIsDirty :: "jstring \<Rightarrow> jstring \<Rightarrow> 'l WorkbenchState \<Rightarrow> bool" where
  "tabIsDirty paneId tabId st \<longleftrightarrow> getOr (Option.bind (tabOf paneId tabId st) tab_dirty) False"

section \<open>The invariant of a pane\<close>

definition pane_ok :: "WorkbenchPane \<Rightarrow> bool" where
  "pane_ok p \<longleftrightarrow> pane_tabs p \<noteq> [] \<and> distinct (tab_ids p) \<and> pane_active p \<in> set (tab_ids p) \<and>
     (\<forall>t \<in> set (pane_tabs p). \<forall>q. tab_previous t = Some q \<longrightarrow>
        q \<noteq> [] \<and> q \<noteq> tab_id t \<and> q \<in> set (tab_ids p))"

lemma truthy_Some [simp]: "truthy (Some s) \<longleftrightarrow> s \<noteq> []"
  by (simp add: truthy_def)

lemma truthy_None [simp]: "\<not> truthy None"
  by (simp add: truthy_def)

text \<open>Normalising and activating touch neither the pane's id nor its tabs' ids and order.\<close>

lemma map_tab_id_if [simp]:
  "(\<And>t. tab_id (f t) = tab_id t) \<Longrightarrow>
   map (tab_id \<circ> (\<lambda>t. if P t then t else if Q t then t else f t)) ts = map tab_id ts"
  by (induction ts) auto

lemma pane_id_normalize [simp]: "pane_id (normalizePaneTabHistory p) = pane_id p"
  by (simp add: normalizePaneTabHistory_def Let_def)

lemma tab_ids_normalize [simp]: "tab_ids (normalizePaneTabHistory p) = tab_ids p"
  by (simp add: normalizePaneTabHistory_def Let_def)

lemma tabs_normalize_Nil [simp]: "pane_tabs (normalizePaneTabHistory p) = [] \<longleftrightarrow> pane_tabs p = []"
  by (simp add: normalizePaneTabHistory_def Let_def)

lemma active_normalize [simp]:
  "pane_active p \<in> set (tab_ids p) \<Longrightarrow> pane_active (normalizePaneTabHistory p) = pane_active p"
  by (simp add: normalizePaneTabHistory_def Let_def)

lemma normalize_pane_ok:
  assumes "pane_tabs p \<noteq> []" "distinct (tab_ids p)"
  shows "pane_ok (normalizePaneTabHistory p)"
proof -
  let ?n = "normalizePaneTabHistory p"
  have "pane_active ?n \<in> set (tab_ids ?n)"
    unfolding tab_ids_normalize using assms(1)
    by (cases "pane_tabs p") (auto simp: normalizePaneTabHistory_def Let_def)
  moreover have "q \<noteq> [] \<and> q \<noteq> tab_id t \<and> q \<in> set (tab_ids ?n)"
    if "t \<in> set (pane_tabs ?n)" "tab_previous t = Some q" for t q
    unfolding tab_ids_normalize using that
    by (auto simp: normalizePaneTabHistory_def Let_def split: if_splits)
  ultimately show ?thesis using assms unfolding pane_ok_def by (auto simp del: set_map)
qed

text \<open>A pane that is fine already is left alone.\<close>

lemma normalize_id: "pane_ok p \<Longrightarrow> normalizePaneTabHistory p = p"
proof -
  assume ok: "pane_ok p"
  have "map (\<lambda>tab. if truthy (tab_previous tab) \<and> tab_previous tab \<noteq> Some (tab_id tab) \<and>
      the (tab_previous tab) \<in> set (tab_ids p) then tab
    else if tab_previous tab = None then tab else tab\<lparr>tab_previous := None\<rparr>) (pane_tabs p) = pane_tabs p"
    using ok by (intro map_idI) (auto simp: pane_ok_def)
  with ok show ?thesis unfolding normalizePaneTabHistory_def Let_def by (cases p) (simp add: pane_ok_def)
qed

text \<open>Activating is normalising a pane with the same tabs in which the tab is active.\<close>

lemma activate_normalize:
  obtains p' where "activatePaneTab p t = normalizePaneTabHistory p'" "pane_id p' = pane_id p"
    "tab_ids p' = tab_ids p" "t \<in> set (tab_ids p) \<Longrightarrow> pane_active p' = t"
proof (cases "t \<in> set (tab_ids p) \<and> pane_active p \<noteq> t")
  case True
  let ?prev = "if pane_active p \<in> set (tab_ids p) then Some (pane_active p) else None"
  let ?p = "p\<lparr>pane_active := t,
    pane_tabs := map (\<lambda>tab. if tab_id tab = t then tab\<lparr>tab_previous := ?prev\<rparr> else tab) (pane_tabs p)\<rparr>"
  have "tab_ids ?p = tab_ids p" by simp
  moreover have "activatePaneTab p t = normalizePaneTabHistory ?p"
    using True by (simp add: activatePaneTab_def Let_def)
  ultimately show ?thesis by (intro that [of ?p]) simp_all
next
  case False
  then have "activatePaneTab p t = normalizePaneTabHistory p"
    by (auto simp: activatePaneTab_def)
  with False show ?thesis by (intro that [of p]) simp_all
qed

lemma pane_id_activate [simp]: "pane_id (activatePaneTab p t) = pane_id p"
  by (rule activate_normalize [of p t]) simp

lemma tab_ids_activate [simp]: "tab_ids (activatePaneTab p t) = tab_ids p"
  by (rule activate_normalize [of p t]) simp

lemma activate_pane_ok:
  "pane_tabs p \<noteq> [] \<Longrightarrow> distinct (tab_ids p) \<Longrightarrow> pane_ok (activatePaneTab p t)"
  by (rule activate_normalize [of p t]) (metis map_is_Nil_conv normalize_pane_ok)

lemma active_activate: "t \<in> set (tab_ids p) \<Longrightarrow> pane_active (activatePaneTab p t) = t"
  by (rule activate_normalize [of p t]) (metis active_normalize)


section \<open>Inserting and removing a tab\<close>

lemma mset_insertTab [simp]: "mset (insertTab ts t target pos) = add_mset t (mset ts)"
proof -
  have "mset (take n ts) + mset (drop n ts) = mset ts" for n
    by (metis append_take_drop_id mset_append)
  then show ?thesis by (simp add: insertTab_def Let_def)
qed

lemma set_insertTab [simp]: "set (insertTab ts t target pos) = insert t (set ts)"
  by (metis mset_insertTab set_mset_add_mset_insert set_mset_mset)

lemma insertTab_not_Nil [simp]: "insertTab ts t target pos \<noteq> []"
  using set_insertTab [of ts t target pos] by (metis empty_set insert_not_empty)

lemma mset_ids_insertTab [simp]:
  "mset (map tab_id (insertTab ts t target pos)) = add_mset (tab_id t) (mset (map tab_id ts))"
  by (simp only: mset_map mset_insertTab) simp

lemma distinct_ids_insertTab [simp]:
  "distinct (map tab_id (insertTab ts t target pos)) \<longleftrightarrow> tab_id t \<notin> tab_id ` set ts \<and> distinct (map tab_id ts)"
  using mset_eq_imp_distinct_iff [of "map tab_id (insertTab ts t target pos)" "tab_id t # map tab_id ts"]
  by simp

lemma map_tab_id_filter: "map tab_id (filter (\<lambda>t. tab_id t \<noteq> i) ts) = filter (\<lambda>j. j \<noteq> i) (map tab_id ts)"
  by (induction ts) auto

lemma pane_id_without [simp]: "pane_id (pane_without i p) = pane_id p"
  by (simp add: pane_without_def Let_def)

lemma tab_ids_without [simp]: "tab_ids (pane_without i p) = filter (\<lambda>j. j \<noteq> i) (tab_ids p)"
  by (simp add: pane_without_def Let_def map_tab_id_filter)

lemma pane_without_ok:
  assumes "distinct (tab_ids p)" "filter (\<lambda>t. tab_id t \<noteq> i) (pane_tabs p) \<noteq> []"
  shows "pane_ok (pane_without i p)"
  using assms by (auto simp: pane_without_def Let_def map_tab_id_filter intro!: normalize_pane_ok)

lemma mset_filter_ids: "distinct xs \<Longrightarrow> mset (filter (\<lambda>j. j \<noteq> i) xs) = mset xs - {#i#}"
  by (induction xs) (auto simp: filter_id_conv)

lemma move_within_ids:
  assumes "distinct (tab_ids p)"
  shows "mset (tab_ids (moveTabWithinPane p i target pos)) = mset (tab_ids p)"
proof (cases "List.find (\<lambda>t. tab_id t = i) (pane_tabs p)")
  case (Some t)
  then have t: "t \<in> set (pane_tabs p)" "tab_id t = i" by (auto dest: find_SomeD)
  then have "i \<in># mset (tab_ids p)" by auto
  moreover have "mset (map tab_id (filter (\<lambda>t. tab_id t \<noteq> i) (pane_tabs p))) = mset (tab_ids p) - {#i#}"
    using assms by (simp only: map_tab_id_filter mset_filter_ids)
  ultimately show ?thesis
    using Some t by (simp add: moveTabWithinPane_def Let_def del: mset_map)
qed (simp add: moveTabWithinPane_def)

lemma pane_id_move_within [simp]: "pane_id (moveTabWithinPane p i target pos) = pane_id p"
  by (simp add: moveTabWithinPane_def Let_def split: option.split)

lemma move_within_ok: "pane_ok p \<Longrightarrow> pane_ok (moveTabWithinPane p i target pos)"
  by (auto simp: moveTabWithinPane_def Let_def pane_ok_def [of p] map_tab_id_filter dest!: find_SomeD
      split: option.split intro!: activate_pane_ok)

section \<open>The invariant of the workbench\<close>

definition all_tab_ids :: "WorkbenchPane list \<Rightarrow> jstring list" where
  "all_tab_ids ps = concat (map tab_ids ps)"

definition panes_ok :: "WorkbenchPane list \<Rightarrow> bool" where
  "panes_ok ps \<longleftrightarrow> ps \<noteq> [] \<and> distinct (map pane_id ps) \<and> (\<forall>p \<in> set ps. pane_ok p) \<and>
     distinct (all_tab_ids ps)"

lemma all_tab_ids_simps [simp]:
  "all_tab_ids [] = []" "all_tab_ids (p # ps) = tab_ids p @ all_tab_ids ps"
  "all_tab_ids (ps @ qs) = all_tab_ids ps @ all_tab_ids qs"
  by (simp_all add: all_tab_ids_def)

lemma mset_all_tab_ids: "mset (all_tab_ids ps) = (\<Sum>p\<leftarrow>ps. mset (tab_ids p))"
  by (induction ps) simp_all

lemma mset_all_concat_map: "mset (all_tab_ids (concat (map g ps))) = (\<Sum>p\<leftarrow>ps. mset (all_tab_ids (g p)))"
  by (induction ps) simp_all

lemma distinct_submset: "mset ys \<subseteq># mset xs \<Longrightarrow> distinct xs \<Longrightarrow> distinct ys"
proof -
  assume sub: "mset ys \<subseteq># mset xs" and "distinct xs"
  then have "count (mset ys) a \<le> 1" for a
    using mset_subset_eq_count [OF sub, of a] distinct_count_atmost_1 [of xs] by (smt (verit) le_trans zero_le order_refl)
  then show ?thesis
    by (auto simp: distinct_count_atmost_1) (metis Suc_leI count_greater_zero_iff le_antisym set_mset_mset One_nat_def)
qed

text \<open>One pane is rewritten by an operation that keeps its id and adds at most the tabs \<open>new\<close>.\<close>

lemma pane_id_map_pane [simp]:
  "(\<And>p. pane_id (f p) = pane_id p) \<Longrightarrow> map pane_id (map_pane i f ps) = map pane_id ps"
  by (simp add: map_pane_def)

lemma map_pane_absent: "i \<notin> pane_id ` set ps \<Longrightarrow> map_pane i f ps = ps"
  by (auto simp: map_pane_def intro!: map_idI)

lemma map_pane_Nil [simp]: "map_pane i f ps = [] \<longleftrightarrow> ps = []"
  by (simp add: map_pane_def)

lemma map_pane_ids:
  assumes "distinct (map pane_id ps)"
    and "\<And>p. p \<in> set ps \<Longrightarrow> pane_id p = i \<Longrightarrow> mset (tab_ids (f p)) \<subseteq># mset (tab_ids p) + N"
  shows "mset (all_tab_ids (map_pane i f ps)) \<subseteq># mset (all_tab_ids ps) + N"
  using assms
proof (induction ps)
  case (Cons p ps)
  show ?case
  proof (cases "pane_id p = i")
    case True
    with Cons.prems have "map_pane i f (p # ps) = f p # ps"
      using map_pane_absent [of i ps f] by (auto simp: map_pane_def)
    moreover from Cons.prems(2) True have "mset (tab_ids (f p)) \<subseteq># mset (tab_ids p) + N" by simp
    ultimately show ?thesis
      by (simp del: mset_map add: union_commute union_lcomm subset_mset.add_left_mono)
  next
    case False
    then have "map_pane i f (p # ps) = p # map_pane i f ps" by (simp add: map_pane_def)
    with Cons show ?thesis by (simp del: mset_map add: add.assoc)
  qed
qed (simp add: map_pane_def)

lemma map_pane_ok:
  assumes ok: "panes_ok ps"
    and keep: "\<And>p. pane_id (f p) = pane_id p"
    and pane: "\<And>p. p \<in> set ps \<Longrightarrow> pane_id p = i \<Longrightarrow> pane_ok p \<Longrightarrow>
      pane_ok (f p) \<and> mset (tab_ids (f p)) \<subseteq># mset (tab_ids p) + mset new"
    and new: "distinct new" "set new \<inter> set (all_tab_ids ps) = {}"
  shows "panes_ok (map_pane i f ps)"
proof -
  have "mset (all_tab_ids (map_pane i f ps)) \<subseteq># mset (all_tab_ids ps @ new)"
    using map_pane_ids [of ps i f "mset new"] ok pane by (simp add: panes_ok_def del: mset_map)
  moreover have "distinct (all_tab_ids ps @ new)" using ok new by (auto simp: panes_ok_def)
  ultimately have "distinct (all_tab_ids (map_pane i f ps))" by (rule distinct_submset)
  moreover have "\<forall>p \<in> set (map_pane i f ps). pane_ok p"
    using ok pane by (auto simp: panes_ok_def map_pane_def)
  ultimately show ?thesis using ok keep by (simp add: panes_ok_def)
qed


lemma find_pane:
  "distinct (map pane_id ps) \<Longrightarrow> p \<in> set ps \<Longrightarrow> List.find (\<lambda>q. pane_id q = pane_id p) ps = Some p"
  by (rule find_eq_Some_distinct)

lemma find_tab:
  "distinct (tab_ids p) \<Longrightarrow> t \<in> set (pane_tabs p) \<Longrightarrow>
   List.find (\<lambda>u. tab_id u = tab_id t) (pane_tabs p) = Some t"
  by (rule find_eq_Some_distinct)

text \<open>The shape of the two moves: every pane is kept, rewritten or dropped.\<close>

definition keeps_or_drops :: "(WorkbenchPane \<Rightarrow> WorkbenchPane list) \<Rightarrow> bool" where
  "keeps_or_drops g \<longleftrightarrow> (\<forall>p. g p = [] \<or> (\<exists>q. g p = [q] \<and> pane_id q = pane_id p))"

lemma keeps_or_drops_ids:
  assumes "keeps_or_drops g"
  shows "set (map pane_id (concat (map g ps))) \<subseteq> pane_id ` set ps"
    "distinct (map pane_id ps) \<Longrightarrow> distinct (map pane_id (concat (map g ps)))"
proof -
  have g: "pane_id ` set (g p) \<subseteq> {pane_id p}" "distinct (map pane_id (g p))" for p
    using assms unfolding keeps_or_drops_def by (metis (no_types) empty_subsetI image_empty
        image_insert list.set(1,2) order_refl, metis distinct.simps(1) distinct_singleton list.simps(8,9))
  have sub: "pane_id ` set (concat (map g ps)) \<subseteq> pane_id ` set ps" for ps
    using g(1) by (induction ps) (auto simp: image_Un, blast)
  then show "set (map pane_id (concat (map g ps))) \<subseteq> pane_id ` set ps" by simp
  show "distinct (map pane_id ps) \<Longrightarrow> distinct (map pane_id (concat (map g ps)))"
  proof (induction ps)
    case (Cons p ps)
    from Cons.prems have "pane_id p \<notin> pane_id ` set ps" by simp
    then have "pane_id p \<notin> pane_id ` set (concat (map g ps))" using sub [of ps] by (meson subsetD)
    moreover have "A \<inter> B = {}" if "A \<subseteq> {c}" "c \<notin> B" for A B :: "jstring set" and c
      using that by auto
    ultimately have "pane_id ` set (g p) \<inter> pane_id ` set (concat (map g ps)) = {}"
      using g(1) [of p] by simp
    moreover have "distinct (map pane_id (concat (map g ps)))" using Cons by simp
    moreover have "map pane_id (concat (map g (p # ps))) = map pane_id (g p) @ map pane_id (concat (map g ps))" by simp
    ultimately show ?case using g(2) [of p] by (simp only: distinct_append set_map)
  qed simp
qed

lemma keeps_or_drops_mem:
  assumes "keeps_or_drops g"
  shows "a \<in> pane_id ` set (concat (map g ps)) \<longleftrightarrow> (\<exists>p \<in> set ps. pane_id p = a \<and> g p \<noteq> [])"
proof -
  have "a \<in> pane_id ` set (g p) \<longleftrightarrow> pane_id p = a \<and> g p \<noteq> []" for p
  proof -
    from assms consider "g p = []" | q where "g p = [q]" "pane_id q = pane_id p"
      unfolding keeps_or_drops_def by blast
    then show ?thesis by cases auto
  qed
  then show ?thesis by (induction ps) (auto simp: image_Un)
qed

text \<open>A tab leaves the pane \<open>a\<close> and arrives in the pane \<open>b\<close>: no tab is lost or doubled.\<close>

lemma sum_list_transfer:
  assumes "distinct (map k ps)" "a \<noteq> b" "\<And>p. p \<in> set ps \<Longrightarrow> k p = a \<Longrightarrow> x \<in># F p"
    and f: "\<And>p. f p = (if k p = a then F p - {#x#} else if k p = b then add_mset x (F p) else F p)"
  shows "(\<Sum>p\<leftarrow>ps. f p) + (if a \<in> k ` set ps then {#x#} else {#}) =
    (\<Sum>p\<leftarrow>ps. F p) + (if b \<in> k ` set ps then {#x#} else {#})"
  using assms(1,3)
proof (induction ps)
  case (Cons p ps)
  then have IH: "(\<Sum>p\<leftarrow>ps. f p) + (if a \<in> k ` set ps then {#x#} else {#}) =
    (\<Sum>p\<leftarrow>ps. F p) + (if b \<in> k ` set ps then {#x#} else {#})" by simp
  consider "k p = a" | "k p = b" | "k p \<noteq> a" "k p \<noteq> b" by blast
  then show ?case
  proof cases
    case 1
    with Cons.prems have "a \<notin> k ` set ps" "f p + {#x#} = F p" by (auto simp: image_iff f)
    with 1 IH assms(2) show ?thesis by (simp add: image_iff union_commute union_lcomm)
  next
    case 2
    with Cons.prems have "b \<notin> k ` set ps" "f p = add_mset x (F p)" using assms(2) by (auto simp: f)
    with 2 IH assms(2) show ?thesis by (simp add: union_commute union_lcomm)
  next
    case 3
    then have "f p = F p" by (simp add: f)
    with 3 IH show ?thesis by (simp add: image_iff add.assoc)
  qed
qed simp

lemma sum_list_leave:
  assumes "distinct (map k ps)" "\<And>p. p \<in> set ps \<Longrightarrow> k p = a \<Longrightarrow> x \<in># F p"
  shows "(\<Sum>p\<leftarrow>ps. if k p = a then F p - {#x#} else F p) + (if a \<in> k ` set ps then {#x#} else {#}) =
    (\<Sum>p\<leftarrow>ps. F p)"
  using assms
proof (induction ps)
  case (Cons p ps)
  then show ?case
    by (cases "k p = a") (auto simp: image_iff ac_simps)
qed simp

lemma removePane_ok:
  assumes "panes_ok (panes st)"
  shows "panes_ok (panes (removePane i st))"
proof (cases "length (panes st) \<le> 1")
  case False
  have d: "distinct (map pane_id (panes st))" using assms by (simp add: panes_ok_def)
  have "filter (\<lambda>p. pane_id p \<noteq> i) (panes st) \<noteq> []"
  proof
    assume "filter (\<lambda>p. pane_id p \<noteq> i) (panes st) = []"
    then have "set (map pane_id (panes st)) \<subseteq> {i}" by (auto simp: filter_empty_conv)
    then have "card (set (map pane_id (panes st))) \<le> card {i}" by (rule card_mono [rotated]) simp
    with False distinct_card [OF d] show False by simp
  qed
  moreover have "distinct (all_tab_ids (filter (\<lambda>p. pane_id p \<noteq> i) ps))"
    if "distinct (all_tab_ids ps)" for ps
    using that by (induction ps) (auto simp: all_tab_ids_def)
  ultimately show ?thesis
    using assms False d by (simp add: removePane_def Let_def panes_ok_def distinct_map_filter)
qed (use assms in \<open>simp add: removePane_def\<close>)

lemma snoc_ok:
  assumes "panes_ok ps" "pane_ok p" "pane_id p \<notin> pane_id ` set ps"
    "set (tab_ids p) \<inter> set (all_tab_ids ps) = {}"
  shows "panes_ok (ps @ [p])"
  using assms by (auto simp: panes_ok_def pane_ok_def)

lemma add_tab_ok:
  assumes "panes_ok ps" "tab_id t \<notin> set (all_tab_ids ps)"
  shows "panes_ok (map_pane i (\<lambda>p. activatePaneTab (p\<lparr>pane_tabs := pane_tabs p @ [t]\<rparr>) (tab_id t)) ps)"
proof (rule map_pane_ok [OF assms(1), where new = "[tab_id t]"])
  fix p assume p: "p \<in> set ps" "pane_ok p"
  then have "tab_id t \<notin> set (tab_ids p)" using assms(2) by (auto simp: all_tab_ids_def)
  with p show "pane_ok (activatePaneTab (p\<lparr>pane_tabs := pane_tabs p @ [t]\<rparr>) (tab_id t)) \<and>
      mset (tab_ids (activatePaneTab (p\<lparr>pane_tabs := pane_tabs p @ [t]\<rparr>) (tab_id t)))
        \<subseteq># mset (tab_ids p) + mset [tab_id t]"
    by (auto simp: pane_ok_def [of p] simp del: mset_map intro!: activate_pane_ok)
qed (use assms in auto)


section \<open>Moving a tab\<close>

text \<open>What \<open>moveTab\<close> makes of one pane, when source and target differ.\<close>

abbreviation transfer ::
    "jstring \<Rightarrow> WorkbenchTab \<Rightarrow> jstring \<Rightarrow> jstring option \<Rightarrow> TabDropPosition \<Rightarrow> WorkbenchPane \<Rightarrow> WorkbenchPane list"
  where
  "transfer src t tgt target pos pane \<equiv>
     if pane_id pane = src then
       (if filter (\<lambda>u. tab_id u \<noteq> tab_id t) (pane_tabs pane) = [] then []
        else [pane_without (tab_id t) pane])
     else if pane_id pane = tgt then
       [activatePaneTab (pane\<lparr>pane_tabs := insertTab (pane_tabs pane) t target pos\<rparr>) (tab_id t)]
     else [pane]"

lemma tab_in_one_pane:
  "distinct (all_tab_ids ps) \<Longrightarrow> p \<in> set ps \<Longrightarrow> q \<in> set ps \<Longrightarrow> p \<noteq> q \<Longrightarrow>
   i \<in> set (tab_ids p) \<Longrightarrow> i \<notin> set (tab_ids q)"
  by (induction ps) (auto simp: all_tab_ids_def)

lemma rest_empty:
  assumes "distinct (tab_ids p)" "t \<in> set (pane_tabs p)"
  shows "filter (\<lambda>u. tab_id u \<noteq> tab_id t) (pane_tabs p) = [] \<longleftrightarrow> length (pane_tabs p) \<le> 1"
proof -
  from assms(2) obtain xs ys where ps: "pane_tabs p = xs @ t # ys" by (auto simp: in_set_conv_decomp)
  with assms(1) have "filter (\<lambda>u. tab_id u \<noteq> tab_id t) xs = xs" "filter (\<lambda>u. tab_id u \<noteq> tab_id t) ys = ys"
    by (auto intro!: filter_True simp: image_iff)
  with ps show ?thesis by auto
qed

lemma transfer_keeps_or_drops: "keeps_or_drops (transfer src t tgt target pos)"
  by (simp add: keeps_or_drops_def)

lemma leave_ids:
  assumes "distinct (tab_ids p)"
  shows "mset (all_tab_ids (if filter (\<lambda>u. tab_id u \<noteq> i) (pane_tabs p) = [] then []
      else [pane_without i p])) = mset (tab_ids p) - {#i#}"
proof (cases "filter (\<lambda>u. tab_id u \<noteq> i) (pane_tabs p) = []")
  case True
  then have "filter (\<lambda>j. j \<noteq> i) (tab_ids p) = []" by (simp flip: map_tab_id_filter)
  then have "{#} = mset (tab_ids p) - {#i#}" by (metis assms mset.simps(1) mset_filter_ids)
  with True show ?thesis by (simp only: if_True all_tab_ids_simps mset.simps simp_thms)
next
  case False
  then show ?thesis
    using mset_filter_ids [OF assms, of i]
    by (simp only: if_False all_tab_ids_simps append_Nil2 tab_ids_without)
qed

lemma transfer_ids:
  assumes ok: "panes_ok ps" and s: "s \<in> set ps" and t: "t \<in> set (pane_tabs s)"
    and d: "d \<in> set ps" "pane_id d \<noteq> pane_id s"
  shows "mset (all_tab_ids (concat (map (transfer (pane_id s) t (pane_id d) target pos) ps))) =
    mset (all_tab_ids ps)"
proof -
  let ?g = "transfer (pane_id s) t (pane_id d) target pos"
  let ?f = "\<lambda>p. if pane_id p = pane_id s then mset (tab_ids p) - {#tab_id t#}
    else if pane_id p = pane_id d then add_mset (tab_id t) (mset (tab_ids p)) else mset (tab_ids p)"
  have dist: "distinct (map pane_id ps)" using ok by (simp add: panes_ok_def)
  have "mset (all_tab_ids (?g p)) = ?f p" if "p \<in> set ps" for p
  proof -
    have "distinct (tab_ids p)" using ok that by (auto simp: panes_ok_def pane_ok_def)
    from leave_ids [OF this, of "tab_id t"] show ?thesis by (simp del: mset_map)
  qed
  then have "mset (all_tab_ids (concat (map ?g ps))) = (\<Sum>p\<leftarrow>ps. ?f p)"
    unfolding mset_all_concat_map by (simp cong: map_cong)
  moreover have "tab_id t \<in># mset (tab_ids p)" if "p \<in> set ps" "pane_id p = pane_id s" for p
    using that s t dist by (metis (no_types) find_pane imageI option.inject set_map set_mset_mset)
  with sum_list_transfer [OF dist, of "pane_id s" "pane_id d" "tab_id t" "\<lambda>p. mset (tab_ids p)" ?f] d
  have "(\<Sum>p\<leftarrow>ps. ?f p) + (if pane_id s \<in> pane_id ` set ps then {#tab_id t#} else {#}) =
      (\<Sum>p\<leftarrow>ps. mset (tab_ids p)) + (if pane_id d \<in> pane_id ` set ps then {#tab_id t#} else {#})"
    by (simp del: mset_map)
  with s d have "(\<Sum>p\<leftarrow>ps. ?f p) = (\<Sum>p\<leftarrow>ps. mset (tab_ids p))" by (simp del: mset_map)
  ultimately show ?thesis by (simp add: mset_all_tab_ids)
qed

lemma transfer_ok:
  assumes ok: "panes_ok ps" and s: "s \<in> set ps" and t: "t \<in> set (pane_tabs s)"
    and d: "d \<in> set ps" "pane_id d \<noteq> pane_id s"
  shows "panes_ok (concat (map (transfer (pane_id s) t (pane_id d) target pos) ps))"
proof -
  let ?g = "transfer (pane_id s) t (pane_id d) target pos"
  have fresh: "tab_id t \<notin> set (tab_ids d)"
    using tab_in_one_pane [of ps s d "tab_id t"] ok s t d by (auto simp: panes_ok_def)
  have "distinct (map pane_id (concat (map ?g ps)))"
    using ok keeps_or_drops_ids(2) [OF transfer_keeps_or_drops] by (simp add: panes_ok_def)
  moreover have "distinct (all_tab_ids (concat (map ?g ps)))"
    using mset_eq_imp_distinct_iff [OF transfer_ids [OF assms]] ok by (simp only: panes_ok_def)
  moreover have "pane_ok q" if mem: "p \<in> set ps" "q \<in> set (?g p)" for p q
  proof -
    have p: "pane_ok p" using ok mem by (simp add: panes_ok_def)
    have "p = d" if "pane_id p = pane_id d"
      using that \<open>p \<in> set ps\<close> d ok by (metis find_pane option.inject panes_ok_def)
    with fresh have dp: "pane_id p = pane_id d \<Longrightarrow> tab_id t \<notin> set (tab_ids p)" by metis
    consider "pane_id p = pane_id s" "filter (\<lambda>u. tab_id u \<noteq> tab_id t) (pane_tabs p) \<noteq> []"
        "q = pane_without (tab_id t) p"
      | "pane_id p = pane_id d"
        "q = activatePaneTab (p\<lparr>pane_tabs := insertTab (pane_tabs p) t target pos\<rparr>) (tab_id t)"
      | "q = p"
      using mem(2) by (auto split: if_splits)
    then show ?thesis
    proof cases
      case 1
      with p show ?thesis by (simp add: pane_ok_def [of p] pane_without_ok)
    next
      case 2
      with p dp show ?thesis by (simp add: pane_ok_def [of p] activate_pane_ok)
    qed (use p in simp)
  qed
  moreover have "concat (map ?g ps) \<noteq> []" using d by auto
  ultimately show ?thesis by (auto simp: panes_ok_def)
qed


lemma moveTab_cases:
  assumes "moveTab src i tgt target pos st = (removed, st')"
  obtains "removed = False" "st' = st"
  | s d t where "List.find (\<lambda>p. pane_id p = src) (panes st) = Some s"
      "List.find (\<lambda>p. pane_id p = tgt) (panes st) = Some d"
      "List.find (\<lambda>t. tab_id t = i) (pane_tabs s) = Some t"
      "removed \<longleftrightarrow> src \<noteq> tgt \<and> length (pane_tabs s) \<le> 1"
      "st' = st\<lparr>activePaneId := Some tgt, panes :=
        (if src = tgt then map_pane src (\<lambda>p. moveTabWithinPane p i target pos) (panes st)
         else concat (map (transfer src t tgt target pos) (panes st)))\<rparr>"
proof -
  have same: "concat (map (\<lambda>p. if pane_id p = tgt then [moveTabWithinPane p i target pos]
      else transfer tgt t tgt target pos p) ps) =
    map_pane tgt (\<lambda>p. moveTabWithinPane p i target pos) ps" for t ps i
    by (induction ps) (auto simp: map_pane_def)
  show ?thesis
  proof (cases "List.find (\<lambda>p. pane_id p = src) (panes st)")
    case None
    with assms that(1) show ?thesis by (simp add: moveTab_def)
  next
    case (Some s)
    note s = this
    show ?thesis
    proof (cases "List.find (\<lambda>p. pane_id p = tgt) (panes st)")
      case None
      with assms that(1) s show ?thesis by (simp add: moveTab_def)
    next
      case (Some d)
      note d = this
      show ?thesis
      proof (cases "List.find (\<lambda>t. tab_id t = i) (pane_tabs s)")
        case None
        with assms that(1) s d show ?thesis by (simp add: moveTab_def)
      next
        case (Some t)
        with find_SomeD [OF Some] assms that(2) [OF s d Some] s d show ?thesis
          by (cases "src = tgt") (auto simp: moveTab_def Let_def same)
      qed
    qed
  qed
qed

lemma moveTab_ok:
  assumes ok: "panes_ok (panes st)" and mv: "moveTab src i tgt target pos st = (removed, st')"
  shows "panes_ok (panes st')" "mset (all_tab_ids (panes st')) = mset (all_tab_ids (panes st))"
proof -
  have "panes_ok (panes st') \<and> mset (all_tab_ids (panes st')) = mset (all_tab_ids (panes st))"
    using mv
  proof (cases rule: moveTab_cases)
    case 1
    with ok show ?thesis by simp
  next
    case (2 s d t)
    from 2 have s: "s \<in> set (panes st)" "pane_id s = src" and d: "d \<in> set (panes st)" "pane_id d = tgt"
      and t: "t \<in> set (pane_tabs s)" "tab_id t = i" by (auto dest: find_SomeD)
    show ?thesis
    proof (cases "src = tgt")
      case True
      let ?f = "\<lambda>p. moveTabWithinPane p i target pos"
      have "mset (tab_ids (?f p)) = mset (tab_ids p)" if "p \<in> set (panes st)" for p
        using that ok by (intro move_within_ids) (auto simp: panes_ok_def pane_ok_def)
      then have "mset (all_tab_ids (map_pane src ?f (panes st))) = mset (all_tab_ids (panes st))"
        unfolding mset_all_tab_ids map_pane_def by (simp add: comp_def if_distrib cong: map_cong if_cong del: mset_map)
      moreover have "panes_ok (map_pane src ?f (panes st))"
      proof (rule map_pane_ok [OF ok, where new = "[]"])
        fix p assume "pane_ok p"
        then show "pane_ok (?f p) \<and> mset (tab_ids (?f p)) \<subseteq># mset (tab_ids p) + mset []"
          using move_within_ids [of p] by (simp add: move_within_ok pane_ok_def [of p] del: mset_map)
      qed simp_all
      ultimately show ?thesis using 2 True by (simp del: mset_map)
    next
      case False
      with s d have "pane_id d \<noteq> pane_id s" by simp
      from transfer_ok [OF ok s(1) t(1) d(1) this, of target pos, unfolded s(2) d(2)]
        transfer_ids [OF ok s(1) t(1) d(1) this, of target pos, unfolded s(2) d(2)]
      show ?thesis using False 2(5) by (simp del: mset_map)
    qed
  qed
  then show "panes_ok (panes st')" "mset (all_tab_ids (panes st')) = mset (all_tab_ids (panes st))"
    by auto
qed


text \<open>\<open>moveTabToNewPane\<close>: the tab leaves its pane for a pane of its own.\<close>

lemma moveTabToNewPane_cases:
  assumes "moveTabToNewPane uuid src i tgt st = (result, st')"
  obtains "result = None" "st' = st"
  | s t where "List.find (\<lambda>p. pane_id p = src) (panes st) = Some s"
      "List.find (\<lambda>t. tab_id t = i) (pane_tabs s) = Some t"
      "src = tgt \<longrightarrow> length (pane_tabs s) > 1"
      "result = Some \<lparr>newPaneId = fresh_id (js ''pane'') uuid, sourcePaneRemoved = length (pane_tabs s) \<le> 1\<rparr>"
      "st' = st\<lparr>activePaneId := Some (fresh_id (js ''pane'') uuid), panes :=
        concat (map (\<lambda>p. if pane_id p \<noteq> src then [p]
          else if filter (\<lambda>u. tab_id u \<noteq> i) (pane_tabs p) = [] then [] else [pane_without i p]) (panes st)) @
        [\<lparr>pane_id = fresh_id (js ''pane'') uuid, pane_tabs = [t\<lparr>tab_previous := None\<rparr>], pane_active = i\<rparr>]\<rparr>"
proof (cases "List.find (\<lambda>p. pane_id p = src) (panes st)")
  case None
  with assms that(1) show ?thesis by (simp add: moveTabToNewPane_def)
next
  case (Some s)
  note s = this
  show ?thesis
  proof (cases "List.find (\<lambda>t. tab_id t = i) (pane_tabs s)")
    case None
    with assms that(1) s show ?thesis by (simp add: moveTabToNewPane_def)
  next
    case (Some t)
    note t = this
    have "tab_id t = i" using find_SomeD [OF Some] by simp
    show ?thesis
    proof (cases "src = tgt \<and> length (pane_tabs s) \<le> 1")
      case True
      with assms s t show ?thesis by (intro that(1)) (simp_all add: moveTabToNewPane_def)
    next
      case False
      with assms s t \<open>tab_id t = i\<close> show ?thesis
        by (intro that(2) [OF s t]) (auto simp: moveTabToNewPane_def Let_def)
    qed
  qed
qed

lemma moveTabToNewPane_ok:
  assumes ok: "panes_ok (panes st)" and fresh: "fresh_id (js ''pane'') uuid \<notin> pane_id ` set (panes st)"
    and mv: "moveTabToNewPane uuid src i tgt st = (result, st')"
  shows "panes_ok (panes st') \<and> mset (all_tab_ids (panes st')) = mset (all_tab_ids (panes st))"
  using mv
proof (cases rule: moveTabToNewPane_cases)
  case 1
  with ok show ?thesis by simp
next
  case (2 s t)
  define g where "g = (\<lambda>p. if pane_id p \<noteq> src then [p]
    else if filter (\<lambda>u. tab_id u \<noteq> i) (pane_tabs p) = [] then [] else [pane_without i p])"
  define new where "new = \<lparr>pane_id = fresh_id (js ''pane'') uuid,
    pane_tabs = [t\<lparr>tab_previous := None\<rparr>], pane_active = i\<rparr>"
  let ?ps = "panes st"
  from 2 have s: "s \<in> set ?ps" "pane_id s = src" and t: "t \<in> set (pane_tabs s)" "tab_id t = i"
    by (auto dest: find_SomeD)
  have d: "distinct (map pane_id ?ps)" using ok by (simp add: panes_ok_def)
  have keep: "keeps_or_drops g" by (simp add: keeps_or_drops_def g_def)
  have g: "mset (all_tab_ids (g p)) = (if pane_id p = src then mset (tab_ids p) - {#i#} else mset (tab_ids p))"
    if "p \<in> set ?ps" for p
    using leave_ids [of p i] that ok by (simp add: g_def panes_ok_def pane_ok_def del: mset_map)
  have "i \<in># mset (tab_ids p)" if "p \<in> set ?ps" "pane_id p = src" for p
    using that s t d by (metis (no_types) find_pane imageI option.inject set_map set_mset_mset)
  with d have "(\<Sum>p\<leftarrow>?ps. if pane_id p = src then mset (tab_ids p) - {#i#} else mset (tab_ids p)) +
      (if src \<in> pane_id ` set ?ps then {#i#} else {#}) = (\<Sum>p\<leftarrow>?ps. mset (tab_ids p))"
    by (rule sum_list_leave)
  moreover have src: "src \<in> pane_id ` set ?ps" using s by auto
  ultimately have "(\<Sum>p\<leftarrow>?ps. if pane_id p = src then mset (tab_ids p) - {#i#} else mset (tab_ids p)) +
      {#i#} = (\<Sum>p\<leftarrow>?ps. mset (tab_ids p))" by (simp only: if_True)
  with g have ids: "mset (all_tab_ids (concat (map g ?ps) @ [new])) = mset (all_tab_ids ?ps)"
    unfolding all_tab_ids_simps(3) mset_append mset_all_concat_map
    by (simp add: mset_all_tab_ids [of ?ps] new_def t(2) cong: map_cong del: mset_map)
  have "pane_id ` set (concat (map g ?ps)) \<subseteq> pane_id ` set ?ps"
    using keeps_or_drops_ids(1) [OF keep] by simp
  with fresh have "distinct (map pane_id (concat (map g ?ps) @ [new]))"
    using keeps_or_drops_ids(2) [OF keep d] by (auto simp: new_def)
  moreover have "pane_ok q" if mem: "p \<in> set ?ps" "q \<in> set (g p)" for p q
  proof -
    have p: "pane_ok p" using ok mem by (simp add: panes_ok_def)
    then have "distinct (tab_ids p)" by (simp add: pane_ok_def)
    with p mem show ?thesis by (auto simp: g_def split: if_splits intro: pane_without_ok)
  qed
  moreover have "pane_ok new" by (simp add: new_def pane_ok_def t(2))
  moreover have "distinct (all_tab_ids (concat (map g ?ps) @ [new]))"
    using mset_eq_imp_distinct_iff [OF ids] ok by (simp only: panes_ok_def)
  ultimately have "panes_ok (concat (map g ?ps) @ [new])" by (auto simp: panes_ok_def)
  with ids 2(5) show ?thesis by (simp add: g_def new_def)
qed


section \<open>The setters: one contract\<close>

text \<open>
  Every setter rewrites one tab through \<open>update_tab\<close> with a function that leaves the tab's
  id, tool and history alone. What a setter then promises is proved once.
\<close>

lemma find_map_pane:
  assumes "\<And>p. pane_id (f p) = pane_id p"
  shows "List.find (\<lambda>p. pane_id p = b) (map_pane a f ps) =
    map_option (\<lambda>p. if pane_id p = a then f p else p) (List.find (\<lambda>p. pane_id p = b) ps)"
  using assms by (induction ps) (auto simp: map_pane_def)

lemma paneOf_id: "paneOf b st = Some p \<Longrightarrow> pane_id p = b \<and> p \<in> set (panes st)"
  by (auto simp: paneOf_def dest: find_SomeD)

lemma paneOf_update_tab:
  "paneOf b (update_tab a i f st) = map_option (\<lambda>p. if pane_id p = a then
     p\<lparr>pane_tabs := map (\<lambda>t. if tab_id t = i then f t else t) (pane_tabs p)\<rparr> else p) (paneOf b st)"
  by (simp add: paneOf_def update_tab_def find_map_pane)

locale tab_update =
  fixes upd :: "WorkbenchTab \<Rightarrow> WorkbenchTab"
  assumes upd_id: "tab_id (upd t) = tab_id t"
    and upd_tool: "tab_tool (upd t) = tab_tool t"
    and upd_previous: "tab_previous (upd t) = tab_previous t"
begin

lemma ids: "map tab_id (map (\<lambda>t. if tab_id t = i then upd t else t) ts) = map tab_id ts"
  by (induction ts) (simp_all add: upd_id)

lemma pane: "pane_ok p \<Longrightarrow> pane_ok (p\<lparr>pane_tabs := map (\<lambda>t. if tab_id t = i then upd t else t) (pane_tabs p)\<rparr>)"
  by (auto simp: pane_ok_def upd_id upd_previous comp_def if_distrib image_image cong: if_cong)

lemma ok:
  assumes "panes_ok (panes st)"
  shows "panes_ok (panes (update_tab a i upd st))"
proof -
  let ?f = "\<lambda>p. p\<lparr>pane_tabs := map (\<lambda>t. if tab_id t = i then upd t else t) (pane_tabs p)\<rparr>"
  have "panes_ok (map_pane a ?f (panes st))"
  proof (rule map_pane_ok [OF assms, where new = "[]"])
    fix p assume "pane_ok p"
    have "tab_ids (?f p) = tab_ids p" using ids by simp
    then have "mset (tab_ids (?f p)) \<subseteq># mset (tab_ids p) + mset []"
      by (simp only: mset.simps add_0_right subset_mset.order_refl)
    with pane [OF \<open>pane_ok p\<close>] show "pane_ok (?f p) \<and> mset (tab_ids (?f p)) \<subseteq># mset (tab_ids p) + mset []"
      by blast
  qed simp_all
  then show ?thesis by (simp add: update_tab_def)
qed

text \<open>The other tabs, and the tools shown, stay as they were.\<close>

lemma tabOf_other: "i \<noteq> j \<or> a \<noteq> b \<Longrightarrow> tabOf b j (update_tab a i upd st) = tabOf b j st"
proof -
  assume other: "i \<noteq> j \<or> a \<noteq> b"
  have "List.find (\<lambda>t. tab_id t = j) (map (\<lambda>t. if tab_id t = i then upd t else t) ts)
      = List.find (\<lambda>t. tab_id t = j) ts" if "i \<noteq> j" for ts
    using that by (induction ts) (auto simp: upd_id)
  with other show ?thesis
    by (cases "paneOf b st") (auto simp: tabOf_def paneOf_update_tab dest: paneOf_id)
qed

end

interpretation session_setter: tab_update "\<lambda>tab. if tab_tool tab = ToolTerminal then
    tab\<lparr>tab_terminalSessionId := sessionId\<rparr> else tab" for sessionId
  by unfold_locales simp_all

interpretation snapshot_setter: tab_update "\<lambda>tab. if tab_tool tab \<noteq> ToolTerminal then tab
    else if terminalLaunchEquals (tab_terminalLaunch tab) launch \<and> tab_terminalCwd tab = cwd \<and>
      tab_terminalTitle tab = title then tab
    else tab\<lparr>tab_terminalCwd := cwd, tab_terminalTitle := title, tab_terminalLaunch := launch\<rparr>"
  for cwd title launch
  by unfold_locales simp_all

interpretation dirty_setter: tab_update "\<lambda>tab. if getOr (tab_dirty tab) False = dirty then tab
    else tab\<lparr>tab_dirty := (if dirty then Some True else None)\<rparr>" for dirty
  by unfold_locales simp_all

interpretation client_setter: tab_update "\<lambda>tab. if tab_tool tab = ToolDaemon then
    tab\<lparr>tab_daemonClientDetailId := clientId\<rparr> else tab" for clientId
  by unfold_locales simp_all

interpretation clients_page_setter: tab_update "\<lambda>tab. if tab_tool tab = ToolDaemon then
    tab\<lparr>tab_daemonClientsPageOpen := Some isOpen\<rparr> else tab" for isOpen
  by unfold_locales simp_all

interpretation process_setter: tab_update "\<lambda>tab. if tab_tool tab = ToolProcesses then
    tab\<lparr>tab_processDetailPid := pid,
      tab_processPage := (if pid = None then None else Some PageDetail)\<rparr> else tab" for pid
  by unfold_locales simp_all

interpretation process_page_setter: tab_update "\<lambda>tab.
    if tab_tool tab = ToolProcesses \<and> tab_processDetailPid tab \<noteq> None then
      tab\<lparr>tab_processPage := Some page\<rparr> else tab" for page
  by unfold_locales simp_all

interpretation window_setter: tab_update "\<lambda>tab. if tab_tool tab = ToolWindows then
    tab\<lparr>tab_windowDetailId := windowId\<rparr> else tab" for windowId
  by unfold_locales simp_all

lemmas setter_defs = setTerminalSessionId_def setTerminalSessionSnapshot_def setTabDirty_def
  setDaemonClientDetailId_def setDaemonClientsPageOpen_def setProcessDetailPid_def
  setProcessPage_def setWindowDetailId_def


lemmas setter_ok = session_setter.ok snapshot_setter.ok dirty_setter.ok client_setter.ok
  clients_page_setter.ok process_setter.ok process_page_setter.ok window_setter.ok

lemma setters_panes_ok:
  assumes "panes_ok (panes st)"
  shows "panes_ok (panes (setTerminalSessionId a i sid st))"
    "panes_ok (panes (setTerminalSessionSnapshot a i cwd title launch st))"
    "panes_ok (panes (setTabDirty a i dirty st))"
    "panes_ok (panes (setDaemonClientDetailId a i cid st))"
    "panes_ok (panes (setDaemonClientsPageOpen a i isOpen st))"
    "panes_ok (panes (setProcessDetailPid a i pid st))"
    "panes_ok (panes (setProcessPage a i page st))"
    "panes_ok (panes (setWindowDetailId a i wid st))"
  unfolding setter_defs by (rule setter_ok, rule assms)+

section \<open>Steps of the workbench\<close>

text \<open>\<open>crypto.randomUUID()\<close> returns an identifier no id of the state is built from.\<close>

definition unused :: "jstring \<Rightarrow> 'l WorkbenchState \<Rightarrow> bool" where
  "unused uuid st \<longleftrightarrow> (\<forall>kind. fresh_id kind uuid \<notin> set (all_tab_ids (panes st)) \<and>
     fresh_id kind uuid \<notin> pane_id ` set (panes st))"

inductive workbench_step :: "'l WorkbenchState \<Rightarrow> 'l WorkbenchState \<Rightarrow> bool" where
  do_layout: "workbench_step st (setLayout l st)"
| do_tool: "unused u st \<Longrightarrow> workbench_step st (selectTool tool u st)"
| do_focus: "workbench_step st (focusPane a st)"
| do_addPane: "unused u st \<Longrightarrow> unused v st \<Longrightarrow>
    addPane machineId u v source st storage = (newId, st', storage') \<Longrightarrow> workbench_step st st'"
| do_removePane: "workbench_step st (removePane a st)"
| do_addDaemon: "unused u st \<Longrightarrow> workbench_step st (addDaemonTab a u st)"
| do_addFiles: "unused u st \<Longrightarrow> workbench_step st (addFilesTab a view u st)"
| do_addProcesses: "unused u st \<Longrightarrow> workbench_step st (addProcessesTab a pid page title u st)"
| do_addWindows: "unused u st \<Longrightarrow> workbench_step st (addWindowsTab a title wid u st)"
| do_addTerminal: "unused u st \<Longrightarrow> workbench_step st (addTerminalTab a config u st)"
| do_openFiles: "unused u st \<Longrightarrow> workbench_step st (openFilesTab view u st)"
| do_openTerminal: "unused u st \<Longrightarrow> workbench_step st (openTerminalTab config u st)"
| do_duplicate: "unused u st \<Longrightarrow>
    duplicateTab machineId u a i st storage = (newId', st', storage') \<Longrightarrow> workbench_step st st'"
| do_select: "workbench_step st (selectTab a i st)"
| do_close: "workbench_step st (closeTab a i st)"
| do_move: "moveTab a i b target pos st = (removed, st') \<Longrightarrow> workbench_step st st'"
| do_moveNew: "unused u st \<Longrightarrow> moveTabToNewPane u a i b st = (result, st') \<Longrightarrow> workbench_step st st'"
| do_session: "workbench_step st (setTerminalSessionId a i sid st)"
| do_snapshot: "workbench_step st (setTerminalSessionSnapshot a i cwd title' launch st)"
| do_dirty: "workbench_step st (setTabDirty a i dirty st)"
| do_client: "workbench_step st (setDaemonClientDetailId a i cid st)"
| do_clientsPage: "workbench_step st (setDaemonClientsPageOpen a i isOpen st)"
| do_process: "workbench_step st (setProcessDetailPid a i pid' st)"
| do_processPage: "workbench_step st (setProcessPage a i page' st)"
| do_window: "workbench_step st (setWindowDetailId a i wid' st)"

inductive workbench_reachable :: "'l WorkbenchState \<Rightarrow> bool" where
  initially: "workbench_reachable (initialState l u v)"
| then_step: "workbench_reachable st \<Longrightarrow> workbench_step st st' \<Longrightarrow> workbench_reachable st'"


lemma unusedD: "unused u st \<Longrightarrow> fresh_id k u \<notin> set (all_tab_ids (panes st))"
  by (simp add: unused_def)

lemma created_ids [simp]:
  "tab_id (createWorkbenchTab tool u) = fresh_id (tool_name tool) u"
  "tab_id (createFilesTab view u) = fresh_id (js ''files'') u"
  "tab_id (createProcessesTab pid page title u) = fresh_id (js ''processes'') u"
  "tab_id (createWindowsTab title wid u) = fresh_id (js ''windows'') u"
  "tab_id (createTerminalTab config u) = fresh_id (js ''terminal'') u"
  "tab_id (cloneWorkbenchTab t u) = fresh_id (tool_name (tab_tool t)) u"
  by (simp_all add: createWorkbenchTab_def createFilesTab_def createProcessesTab_def
      createWindowsTab_def createTerminalTab_def cloneWorkbenchTab_def Let_def)

lemma created_previous [simp]:
  "tab_previous (createFilesTab view u) = None" "tab_previous (cloneWorkbenchTab t u) = None"
  by (simp_all add: createWorkbenchTab_def createFilesTab_def createTerminalTab_def
      cloneWorkbenchTab_def Let_def)

lemma openTabInPane_ok:
  "panes_ok (panes st) \<Longrightarrow> tab_id t \<notin> set (all_tab_ids (panes st)) \<Longrightarrow>
   panes_ok (panes (openTabInPane a t st))"
  by (simp add: openTabInPane_def add_tab_ok)

lemma openTabInActivePane_ok:
  "panes_ok (panes st) \<Longrightarrow> tab_id t \<notin> set (all_tab_ids (panes st)) \<Longrightarrow>
   panes_ok (panes (openTabInActivePane t st))"
  by (simp add: openTabInActivePane_def Let_def openTabInPane_ok)

lemma adds_panes_ok:
  assumes "panes_ok (panes st)" "unused u st"
  shows "panes_ok (panes (addDaemonTab a u st))" "panes_ok (panes (addFilesTab a view u st))"
    "panes_ok (panes (addProcessesTab a pid page title u st))"
    "panes_ok (panes (addWindowsTab a title wid u st))" "panes_ok (panes (addTerminalTab a config u st))"
    "panes_ok (panes (openFilesTab view u st))" "panes_ok (panes (openTerminalTab config u st))"
  using assms unusedD [OF assms(2)]
  by (simp_all add: addDaemonTab_def addToolTab_def addFilesTab_def addProcessesTab_def
      addWindowsTab_def addTerminalTab_def openFilesTab_def openTerminalTab_def openTabInPane_ok
      openTabInActivePane_ok)

lemma activate_map_ok:
  assumes "panes_ok ps"
  shows "panes_ok (map_pane a (\<lambda>p. activatePaneTab p i) ps)"
proof (rule map_pane_ok [OF assms, where new = "[]"])
  fix p assume "pane_ok p"
  then show "pane_ok (activatePaneTab p i) \<and> mset (tab_ids (activatePaneTab p i)) \<subseteq># mset (tab_ids p) + mset []"
    by (simp add: pane_ok_def [of p] activate_pane_ok)
qed simp_all

lemma selectTool_ok:
  assumes ok: "panes_ok (panes st)" and u: "unused u st"
  shows "panes_ok (panes (selectTool tool u st))"
proof -
  let ?t = "createWorkbenchTab tool u"
  let ?f = "\<lambda>p. case List.find (\<lambda>tab. tab_tool tab = tool) (pane_tabs p) of
      Some existing \<Rightarrow> activatePaneTab p (tab_id existing)
    | None \<Rightarrow> activatePaneTab (p\<lparr>pane_tabs := pane_tabs p @ [?t]\<rparr>) (tab_id ?t)"
  have "panes_ok (map_pane a ?f (panes st))" for a
  proof (rule map_pane_ok [OF ok, where new = "[tab_id ?t]"])
    fix p assume p: "p \<in> set (panes st)" "pane_ok p"
    then have "tab_id ?t \<notin> set (tab_ids p)" using unusedD [OF u] by (auto simp: all_tab_ids_def)
    with p show "pane_ok (?f p) \<and> mset (tab_ids (?f p)) \<subseteq># mset (tab_ids p) + mset [tab_id ?t]"
      by (auto simp: pane_ok_def [of p] simp del: mset_map split: option.split intro!: activate_pane_ok)
  qed (use unusedD [OF u] in \<open>simp_all split: option.split\<close>)
  with ok show ?thesis
    unfolding selectTool_def openToolTabInActivePane_def Let_def by simp
qed

lemma closeTab_map_pane:
  "closeTab a i st = st\<lparr>panes :=
     map_pane a (\<lambda>p. if length (pane_tabs p) \<le> 1 then p else pane_without i p) (panes st)\<rparr>"
  unfolding closeTab_def updatePanes_def map_pane_def
  by (intro arg_cong [where f = "\<lambda>ps. st\<lparr>panes := ps\<rparr>"] map_cong) auto

lemma closeTab_ok:
  assumes "panes_ok (panes st)"
  shows "panes_ok (panes (closeTab a i st))"
proof -
  let ?f = "\<lambda>p. if length (pane_tabs p) \<le> 1 then p else pane_without i p"
  have "panes_ok (map_pane a ?f (panes st))"
  proof (rule map_pane_ok [OF assms, where new = "[]"])
    fix p assume p: "pane_ok p"
    have "filter (\<lambda>t. tab_id t \<noteq> i) ts \<noteq> []" if "distinct (map tab_id ts)" "length ts > 1" for ts
    proof
      assume "filter (\<lambda>t. tab_id t \<noteq> i) ts = []"
      then have "set (map tab_id ts) \<subseteq> {i}" by (auto simp: filter_empty_conv)
      then have "card (set (map tab_id ts)) \<le> card {i}" by (rule card_mono [rotated]) simp
      with that distinct_card [OF that(1)] show False by simp
    qed
    then have rest: "length (pane_tabs p) > 1 \<Longrightarrow> filter (\<lambda>t. tab_id t \<noteq> i) (pane_tabs p) \<noteq> []"
      using p unfolding pane_ok_def by blast
    have "distinct (tab_ids p)" using p by (simp add: pane_ok_def)
    with p rest show "pane_ok (?f p) \<and> mset (tab_ids (?f p)) \<subseteq># mset (tab_ids p) + mset []"
      using mset_filter_ids [of "tab_ids p" i]
      by (cases "length (pane_tabs p) > 1") (simp_all del: mset_map add: pane_without_ok)
  qed simp_all
  then show ?thesis by (simp add: closeTab_map_pane)
qed

lemma duplicateTab_ok:
  assumes ok: "panes_ok (panes st)" and u: "unused u st"
    and dup: "duplicateTab machineId u a i st storage = (new, st', storage')"
  shows "panes_ok (panes st')"
proof (cases "Option.bind (List.find (\<lambda>pane. pane_id pane = a) (panes st))
    (\<lambda>p. List.find (\<lambda>tab. tab_id tab = i) (pane_tabs p))")
  case None
  with dup ok show ?thesis by (simp add: duplicateTab_def)
next
  case (Some t)
  let ?t = "cloneWorkbenchTab t u"
  let ?f = "\<lambda>p. activatePaneTab (p\<lparr>pane_tabs := insertTab (pane_tabs p) ?t (Some i) After\<rparr>) (tab_id ?t)"
  have "panes_ok (map_pane a ?f (panes st))"
  proof (rule map_pane_ok [OF ok, where new = "[tab_id ?t]"])
    fix p assume p: "p \<in> set (panes st)" "pane_ok p"
    then have "tab_id ?t \<notin> set (tab_ids p)" using unusedD [OF u] by (auto simp: all_tab_ids_def)
    with p show "pane_ok (?f p) \<and> mset (tab_ids (?f p)) \<subseteq># mset (tab_ids p) + mset [tab_id ?t]"
      by (simp add: pane_ok_def [of p] activate_pane_ok del: mset_map)
  qed (use unusedD [OF u] in simp_all)
  with dup Some show ?thesis by (auto simp: duplicateTab_def Let_def)
qed

lemma addPane_ok:
  assumes ok: "panes_ok (panes st)" and u: "unused u st" and v: "unused v st"
    and add: "addPane machineId u v source st storage = (newId, st', storage')"
  shows "panes_ok (panes st')"
proof -
  obtain t where st': "panes st' = panes st @
      [\<lparr>pane_id = fresh_id (js ''pane'') v, pane_tabs = [t], pane_active = tab_id t\<rparr>]"
    and t: "tab_previous t = None" "\<exists>k. tab_id t = fresh_id k u"
    using add by (auto simp: addPane_def Let_def split: option.splits) blast+
  have "panes_ok (panes st @ [\<lparr>pane_id = fresh_id (js ''pane'') v, pane_tabs = [t], pane_active = tab_id t\<rparr>])"
    using t u v by (intro snoc_ok [OF ok]) (auto simp: pane_ok_def unused_def)
  with st' show ?thesis by simp
qed

lemma workbench_step_ok: "workbench_step st st' \<Longrightarrow> panes_ok (panes st) \<Longrightarrow> panes_ok (panes st')"
proof (induction rule: workbench_step.induct)
  case (do_moveNew u st a i b result st')
  then show ?case using moveTabToNewPane_ok [of st u a i b result st'] by (auto simp: unused_def)
next
  case (do_select st a i)
  then show ?case by (simp add: selectTab_def activate_map_ok)
next
  case (do_move a i b target pos st removed st')
  then show ?case by (blast intro: moveTab_ok(1))
next
  case (do_addPane u st v machineId source storage newId st' storage')
  then show ?case by (blast intro: addPane_ok)
next
  case (do_duplicate u st machineId a i storage newId' st' storage')
  then show ?case by (blast intro: duplicateTab_ok)
qed (simp_all add: setLayout_def focusPane_def selectTool_ok removePane_ok adds_panes_ok
    closeTab_ok setters_panes_ok)

lemma initialState_ok: "panes_ok (panes (initialState l u v))"
  by (simp add: initialState_def Let_def panes_ok_def pane_ok_def all_tab_ids_def)


section \<open>What the workbench promises\<close>

lemma reachable_panes_ok: "workbench_reachable st \<Longrightarrow> panes_ok (panes st)"
  by (induction rule: workbench_reachable.induct) (auto intro: initialState_ok workbench_step_ok)

lemma activePane_exists:
  assumes "panes_ok (panes st)"
  obtains p where "activePaneFromState st = Some p" "p \<in> set (panes st)" "pane_ok p"
proof (cases "List.find (\<lambda>p. Some (pane_id p) = activePaneId st) (panes st)")
  case None
  with assms that [of "hd (panes st)"] show ?thesis
    by (cases "panes st") (auto simp: activePaneFromState_def panes_ok_def)
next
  case (Some p)
  with find_SomeD [OF Some] assms that [of p] show ?thesis
    by (auto simp: activePaneFromState_def panes_ok_def)
qed

lemma activeTab_exists:
  assumes "pane_ok p"
  obtains t where "activeTabFromPane (Some p) = Some t" "tab_id t = pane_active p" "t \<in> set (pane_tabs p)"
proof -
  from assms obtain t where t: "t \<in> set (pane_tabs p)" "tab_id t = pane_active p" "distinct (tab_ids p)"
    by (auto simp: pane_ok_def)
  from find_tab [OF t(3,1)] t that show ?thesis by (simp add: activeTabFromPane_def)
qed

text \<open>
  (C7) In every state the workbench can reach, whatever panes and tabs were opened, closed,
  moved or duplicated, there is a pane, pane ids and tab ids are unique, no pane is empty, the
  history of every tab names another tab of its pane, and the active pane and its active tab
  exist.
\<close>

theorem workbench_invariant:
  assumes "workbench_reachable st"
  shows "panes_ok (panes st) \<and>
    (\<exists>p t. activePaneFromState st = Some p \<and> p \<in> set (panes st) \<and>
      activeTabFromPane (Some p) = Some t \<and> tab_id t = pane_active p \<and> t \<in> set (pane_tabs p))"
proof -
  have ok: "panes_ok (panes st)" by (rule reachable_panes_ok [OF assms])
  obtain p where p: "activePaneFromState st = Some p" "p \<in> set (panes st)" "pane_ok p"
    by (rule activePane_exists [OF ok])
  obtain t where "activeTabFromPane (Some p) = Some t" "tab_id t = pane_active p" "t \<in> set (pane_tabs p)"
    by (rule activeTab_exists [OF p(3)])
  with ok p show ?thesis by blast
qed

definition sample_workbench :: "nat WorkbenchState" where
  "sample_workbench = addFilesTab (js ''pane-1'') (Some ViewTrash) (js ''3'')
     (initialState 0 (js ''1'') (js ''2''))"

lemma sample_reachable: "workbench_reachable sample_workbench"
  unfolding sample_workbench_def
proof (rule then_step [OF initially])
  show "workbench_step (initialState 0 (js ''1'') (js ''2''))
    (addFilesTab (js ''pane-1'') (Some ViewTrash) (js ''3'') (initialState 0 (js ''1'') (js ''2'')))"
    by (rule do_addFiles)
      (simp add: unused_def initialState_def Let_def all_tab_ids_def fresh_id_def js_def)
qed

lemma sample_panes: "panes sample_workbench =
  [\<lparr>pane_id = js ''pane-1'', pane_tabs =
     [createFilesTab None (js ''2''),
      (createFilesTab (Some ViewTrash) (js ''3''))\<lparr>tab_previous := Some (js ''files-2'')\<rparr>],
    pane_active = js ''files-3''\<rparr>]"
  by (simp add: sample_workbench_def addFilesTab_def openTabInPane_def initialState_def Let_def
      map_pane_def activatePaneTab_def normalizePaneTabHistory_def fresh_id_def createFilesTab_def
      createWorkbenchTab_def tool_name.simps flip: js_append)

theorem workbench_invariant_witness:
  "map pane_active (panes sample_workbench) = [js ''files-3''] \<and> panes_ok (panes sample_workbench)"
  using workbench_invariant [OF sample_reachable] by (simp add: sample_panes)

text \<open>
  (C11) Moving a tab loses no tab and doubles none: the tabs of all panes together are the same
  before and after, the state stays well formed, and the result tells whether the source pane
  went away with its last tab.
\<close>

theorem move_tab_conserves_tabs:
  assumes "panes_ok (panes st)" "moveTab src i tgt target pos st = (removed, st')"
  shows "panes_ok (panes st') \<and> mset (all_tab_ids (panes st')) = mset (all_tab_ids (panes st)) \<and>
    (removed \<longleftrightarrow> src \<in> pane_id ` set (panes st) \<and> src \<notin> pane_id ` set (panes st'))"
proof -
  have "removed \<longleftrightarrow> src \<in> pane_id ` set (panes st) \<and> src \<notin> pane_id ` set (panes st')"
    using assms(2)
  proof (cases rule: moveTab_cases)
    case (2 s d t)
    then have s: "s \<in> set (panes st)" "pane_id s = src" and t: "t \<in> set (pane_tabs s)" "tab_id t = i"
      by (auto dest: find_SomeD)
    have ok: "pane_ok s" "distinct (map pane_id (panes st))" using assms(1) s by (auto simp: panes_ok_def)
    have only: "p = s" if "p \<in> set (panes st)" "pane_id p = src" for p
      using find_pane [OF ok(2)] that s by (metis option.inject)
    have empty: "filter (\<lambda>u. tab_id u \<noteq> tab_id t) (pane_tabs s) = [] \<longleftrightarrow> length (pane_tabs s) \<le> 1"
      using rest_empty [of s t] ok(1) t by (simp add: pane_ok_def)
    show ?thesis
    proof (cases "src = tgt")
      case True
      have "map pane_id (panes st') = map pane_id (panes st)" using 2(5) True by simp
      then have "pane_id ` set (panes st') = pane_id ` set (panes st)" by (metis set_map)
      with True 2(4) s show ?thesis by auto
    next
      case False
      have "src \<in> pane_id ` set (panes st') \<longleftrightarrow> filter (\<lambda>u. tab_id u \<noteq> tab_id t) (pane_tabs s) \<noteq> []"
      proof -
        have "panes st' = concat (map (transfer src t tgt target pos) (panes st))" using 2(5) False by simp
        then have "src \<in> pane_id ` set (panes st') \<longleftrightarrow>
            (\<exists>p \<in> set (panes st). pane_id p = src \<and> transfer src t tgt target pos p \<noteq> [])"
          using keeps_or_drops_mem [OF transfer_keeps_or_drops] by simp
        also have "\<dots> \<longleftrightarrow> transfer src t tgt target pos s \<noteq> []" using s only by blast
        also have "\<dots> \<longleftrightarrow> filter (\<lambda>u. tab_id u \<noteq> tab_id t) (pane_tabs s) \<noteq> []" using s(2) by simp
        finally show ?thesis .
      qed
      with False 2(4) s empty show ?thesis by auto
    qed
  qed simp
  with moveTab_ok [OF assms] show ?thesis by simp
qed


definition sample_two :: "nat WorkbenchState" where
  "sample_two = \<lparr>layout = 0, activePaneId = Some (js ''pane-1''), panes =
     [\<lparr>pane_id = js ''pane-1'', pane_tabs = [createFilesTab None (js ''2'')], pane_active = js ''files-2''\<rparr>,
      \<lparr>pane_id = js ''pane-2'', pane_tabs = [createFilesTab None (js ''3'')], pane_active = js ''files-3''\<rparr>]\<rparr>"

lemma sample_two_ok: "panes_ok (panes sample_two)"
  by (simp add: sample_two_def panes_ok_def pane_ok_def all_tab_ids_def fresh_id_def flip: js_append)

theorem move_tab_conserves_tabs_witness:
  "(let (removed, st') = moveTab (js ''pane-1'') (js ''files-2'') (js ''pane-2'') None End sample_two in
     removed \<and> panes_ok (panes st') \<and> js ''pane-1'' \<notin> pane_id ` set (panes st'))"
proof -
  obtain removed st' where mv: "moveTab (js ''pane-1'') (js ''files-2'') (js ''pane-2'') None End sample_two =
      (removed, st')" by fastforce
  then have removed
    by (auto simp: moveTab_def sample_two_def fresh_id_def Let_def simp flip: js_append)
  with move_tab_conserves_tabs [OF sample_two_ok mv] mv show ?thesis by simp
qed

lemma paneOf_panes_ok: "panes_ok (panes st) \<Longrightarrow> p \<in> set (panes st) \<Longrightarrow> paneOf (pane_id p) st = Some p"
  by (simp add: paneOf_def panes_ok_def find_pane)

text \<open>
  Moving a tab to a new pane shows exactly that tab in the new pane and focuses it, no tab
  is lost or doubled, and the result tells whether the source pane went away with its last tab.
\<close>

theorem move_to_new_pane_focuses:
  assumes "panes_ok (panes st)" "fresh_id (js ''pane'') uuid \<notin> pane_id ` set (panes st)"
    and mv: "moveTabToNewPane uuid src i tgt st = (Some r, st')"
  shows "panes_ok (panes st') \<and> mset (all_tab_ids (panes st')) = mset (all_tab_ids (panes st)) \<and>
    map_option tab_ids (paneOf (newPaneId r) st') = Some [i] \<and> tabIsFocused (newPaneId r) i st' \<and>
    (sourcePaneRemoved r \<longleftrightarrow> src \<notin> pane_id ` set (panes st'))"
  using mv
proof (cases rule: moveTabToNewPane_cases)
  case (2 s t)
  define g where "g = (\<lambda>p. if pane_id p \<noteq> src then [p]
    else if filter (\<lambda>u. tab_id u \<noteq> i) (pane_tabs p) = [] then [] else [pane_without i p])"
  define new where "new = \<lparr>pane_id = fresh_id (js ''pane'') uuid,
    pane_tabs = [t\<lparr>tab_previous := None\<rparr>], pane_active = i\<rparr>"
  have panes': "panes st' = concat (map g (panes st)) @ [new]" using 2(5) by (simp add: g_def new_def)
  have ok: "panes_ok (panes st')" and ids: "mset (all_tab_ids (panes st')) = mset (all_tab_ids (panes st))"
    using moveTabToNewPane_ok [OF assms] by auto
  have t: "t \<in> set (pane_tabs s)" "tab_id t = i" and s: "s \<in> set (panes st)" "pane_id s = src"
    using 2 by (auto dest: find_SomeD)
  have only: "p = s" if "p \<in> set (panes st)" "pane_id p = src" for p
    using paneOf_panes_ok [OF assms(1)] that s by (metis option.inject)
  have new: "paneOf (newPaneId r) st' = Some new"
    using paneOf_panes_ok [OF ok, of new] 2(4) panes' by (simp add: new_def)
  then have "activePaneFromState st' = Some new"
    using 2(4,5) by (simp add: activePaneFromState_def paneOf_def new_def)
  with new have "tabIsFocused (newPaneId r) i st'"
    using 2(4) by (simp add: tabIsFocused_def paneIsActive_def tabIsActive_def new_def)
  moreover have "src \<noteq> pane_id new"
    using assms(2) s unfolding new_def by (metis WorkbenchPane.select_convs(1) imageI)
  then have "src \<in> pane_id ` set (panes st') \<longleftrightarrow> (\<exists>p \<in> set (panes st). pane_id p = src \<and> g p \<noteq> [])"
    using keeps_or_drops_mem [of g src "panes st"]
    by (simp add: panes' image_Un keeps_or_drops_def g_def del: set_concat)
  moreover have "(\<exists>p \<in> set (panes st). pane_id p = src \<and> g p \<noteq> []) \<longleftrightarrow> g s \<noteq> []"
    using s only by blast
  moreover have "g s \<noteq> [] \<longleftrightarrow> length (pane_tabs s) > 1"
    using rest_empty [of s t] assms(1) s t by (auto simp: g_def panes_ok_def pane_ok_def)
  ultimately show ?thesis using ok ids new 2(4) t(2) by (auto simp: new_def)
qed simp

theorem move_to_new_pane_focuses_witness:
  "(\<exists>r st'. moveTabToNewPane (js ''9'') (js ''pane-1'') (js ''files-2'') (js ''pane-2'') sample_two = (Some r, st') \<and>
     sourcePaneRemoved r \<and> tabIsFocused (js ''pane-9'') (js ''files-2'') st')"
proof -
  let ?move = "moveTabToNewPane (js ''9'') (js ''pane-1'') (js ''files-2'') (js ''pane-2'') sample_two"
  let ?r = "\<lparr>newPaneId = js ''pane-9'', sourcePaneRemoved = True\<rparr>"
  have "fst ?move = Some ?r"
    by (simp add: moveTabToNewPane_def sample_two_def fresh_id_def Let_def flip: js_append)
  then obtain st' where mv: "?move = (Some ?r, st')" by (metis prod.collapse)
  moreover have "fresh_id (js ''pane'') (js ''9'') \<notin> pane_id ` set (panes sample_two)"
    by (simp add: sample_two_def fresh_id_def flip: js_append)
  ultimately show ?thesis using move_to_new_pane_focuses [OF sample_two_ok _ mv] mv by auto
qed

text \<open>Selecting another tab remembers the one that was active, and closing it goes back.\<close>

lemma activate_remembers:
  assumes "pane_ok p" "i \<in> set (tab_ids p)" "i \<noteq> pane_active p" "pane_active p \<noteq> []"
  shows "activatePaneTab p i = p\<lparr>pane_active := i, pane_tabs :=
    map (\<lambda>t. if tab_id t = i then t\<lparr>tab_previous := Some (pane_active p)\<rparr> else t) (pane_tabs p)\<rparr>"
proof -
  define upd :: "WorkbenchTab \<Rightarrow> WorkbenchTab" where
    "upd = (\<lambda>t. if tab_id t = i then t\<lparr>tab_previous := Some (pane_active p)\<rparr> else t)"
  define q where "q = p\<lparr>pane_active := i, pane_tabs := map upd (pane_tabs p)\<rparr>"
  have [simp]: "tab_id (upd t) = tab_id t" for t by (simp add: upd_def)
  have ids: "tab_ids q = tab_ids p" by (simp add: q_def)
  have "r \<noteq> [] \<and> r \<noteq> tab_id t \<and> r \<in> set (tab_ids p)"
    if t: "t \<in> set (pane_tabs q)" "tab_previous t = Some r" for t r
  proof -
    from t(1) obtain u where u: "u \<in> set (pane_tabs p)" "t = upd u" by (auto simp: q_def)
    show ?thesis
      using assms u t(2) unfolding pane_ok_def upd_def by (cases "tab_id u = i") simp_all
  qed
  moreover have "pane_tabs q \<noteq> []" "distinct (tab_ids p)" "pane_active q \<in> set (tab_ids p)"
    using assms(1,2) by (simp_all add: q_def pane_ok_def)
  ultimately have "pane_ok q" unfolding pane_ok_def [of q] ids by blast
  moreover have "activatePaneTab p i = normalizePaneTabHistory q"
    using assms by (simp add: activatePaneTab_def pane_ok_def q_def upd_def)
  ultimately show ?thesis by (simp add: normalize_id q_def upd_def)
qed

lemma without_activate:
  assumes "pane_ok p" "i \<in> set (tab_ids p)" "i \<noteq> pane_active p" "pane_active p \<noteq> []"
  shows "pane_active (pane_without i (activatePaneTab p i)) = pane_active p \<and>
    tab_ids (pane_without i (activatePaneTab p i)) = filter (\<lambda>j. j \<noteq> i) (tab_ids p)"
proof -
  define upd :: "WorkbenchTab \<Rightarrow> WorkbenchTab" where "upd = (\<lambda>t. if tab_id t = i then t\<lparr>tab_previous := Some (pane_active p)\<rparr> else t)"
  have q: "activatePaneTab p i = p\<lparr>pane_active := i, pane_tabs := map upd (pane_tabs p)\<rparr>"
    unfolding upd_def by (rule activate_remembers [OF assms])
  have rest: "filter (\<lambda>t. tab_id t \<noteq> i) (map upd ts) = filter (\<lambda>t. tab_id t \<noteq> i) ts" for ts
    by (induction ts) (auto simp: upd_def)
  have "\<exists>t. List.find (\<lambda>t. tab_id t = i) (map upd ts) = Some t \<and> tab_previous t = Some (pane_active p)"
    if "i \<in> set (map tab_id ts)" for ts
    using that by (induction ts) (auto simp: upd_def)
  with assms(2) obtain t where t: "List.find (\<lambda>t. tab_id t = i) (map upd (pane_tabs p)) = Some t"
    "tab_previous t = Some (pane_active p)" by blast
  have stays: "pane_active p \<in> set (map tab_id (filter (\<lambda>t. tab_id t \<noteq> i) (pane_tabs p)))"
    using assms(1,3) by (auto simp: pane_ok_def)
  have "fallbackActiveTabId (Some t) (filter (\<lambda>t. tab_id t \<noteq> i) (pane_tabs p)) = pane_active p"
    using t(2) stays assms(4) by (simp add: fallbackActiveTabId_def)
  then have "pane_without i (activatePaneTab p i) = normalizePaneTabHistory
      (p\<lparr>pane_tabs := filter (\<lambda>t. tab_id t \<noteq> i) (pane_tabs p), pane_active := pane_active p\<rparr>)"
    by (simp add: pane_without_def q t(1) rest Let_def)
  then have "pane_active (pane_without i (activatePaneTab p i)) = pane_active p"
    using stays by simp
  then show ?thesis by simp
qed

text \<open>
  Closing a tab goes back to the tab it was opened from: selecting another tab of a pane
  and closing it shows the tab that was active before.
\<close>

theorem close_undoes_select:
  assumes "panes_ok (panes st)" "paneOf a st = Some p" "i \<in> set (tab_ids p)" "i \<noteq> pane_active p"
    "pane_active p \<noteq> []"
  shows "map_option pane_active (paneOf a (closeTab a i (selectTab a i st))) = Some (pane_active p) \<and>
    map_option tab_ids (paneOf a (closeTab a i (selectTab a i st))) = Some (filter (\<lambda>j. j \<noteq> i) (tab_ids p))"
proof -
  have p: "pane_id p = a" "pane_ok p"
    using paneOf_id [OF assms(2)] assms(1) by (auto simp: panes_ok_def)
  let ?q = "activatePaneTab p i"
  have select: "paneOf a (selectTab a i st) = Some ?q"
    using assms(2) p by (simp add: selectTab_def paneOf_def find_map_pane)
  have "length (pane_tabs ?q) = length (pane_tabs p)" by (metis length_map tab_ids_activate)
  moreover have "length (pane_tabs p) > 1"
  proof (rule ccontr)
    assume "\<not> length (pane_tabs p) > 1"
    with assms(3,4) p(2) show False by (cases "pane_tabs p") (auto simp: pane_ok_def)
  qed
  ultimately have "paneOf a (closeTab a i (selectTab a i st)) = Some (pane_without i ?q)"
    using select p unfolding closeTab_map_pane by (simp add: paneOf_def find_map_pane)
  then show ?thesis using without_activate [OF p(2) assms(3-5)] by simp
qed

theorem close_undoes_select_witness:
  "map_option pane_active (paneOf (js ''pane-1'')
     (closeTab (js ''pane-1'') (js ''files-2'') (selectTab (js ''pane-1'') (js ''files-2'') sample_workbench)))
   = Some (js ''files-3'')"
proof -
  obtain p where p: "paneOf (js ''pane-1'') sample_workbench = Some p" "tab_ids p = [js ''files-2'', js ''files-3'']"
    "pane_active p = js ''files-3''"
    by (simp add: paneOf_def sample_panes fresh_id_def flip: js_append)
  show ?thesis
    using close_undoes_select [OF reachable_panes_ok [OF sample_reachable] p(1), of "js ''files-2''"] p
    by simp
qed

lemma findIndex_append:
  "\<forall>x \<in> set xs. \<not> P x \<Longrightarrow> P y \<Longrightarrow> findIndex P (xs @ y # ys) = int (length xs)"
  by (induction xs) (auto simp: Let_def)

lemma insertTab_after:
  "\<forall>u \<in> set xs. tab_id u \<noteq> i \<Longrightarrow> tab_id t = i \<Longrightarrow> i \<noteq> [] \<Longrightarrow>
   insertTab (xs @ t # ys) new (Some i) After = xs @ t # new # ys"
  by (simp add: insertTab_def findIndex_append Let_def nat_add_distrib)

text \<open>
  Duplicating a tab inserts the copy right after it, with the same tool and its own id,
  makes it the active tab of the pane, and leaves the other tabs in their order.
\<close>

theorem duplicate_follows_source:
  assumes "panes_ok (panes st)" "unused uuid st" "paneOf a st = Some p" "tabOf a i st = Some t" "i \<noteq> []"
    "duplicateTab machineId uuid a i st storage = (new, st', storage')"
  shows "\<exists>n xs ys p'. new = Some n \<and> n \<notin> set (all_tab_ids (panes st)) \<and> tab_ids p = xs @ i # ys \<and>
    paneOf a st' = Some p' \<and> tab_ids p' = xs @ i # n # ys \<and> tabIsFocused a n st' \<and>
    storage' = copyTabState machineId t (cloneWorkbenchTab t uuid) storage"
proof -
  have p: "pane_id p = a" "pane_ok p"
    using paneOf_id [OF assms(3)] assms(1) by (auto simp: panes_ok_def)
  have find: "List.find (\<lambda>t. tab_id t = i) (pane_tabs p) = Some t"
    using assms(3,4) by (simp add: tabOf_def)
  then have t: "t \<in> set (pane_tabs p)" "tab_id t = i" by (auto dest: find_SomeD)
  let ?t = "cloneWorkbenchTab t uuid"
  let ?p = "activatePaneTab (p\<lparr>pane_tabs := insertTab (pane_tabs p) ?t (Some i) After\<rparr>) (tab_id ?t)"
  from t(1) obtain xs ys where ps: "pane_tabs p = xs @ t # ys" by (auto simp: in_set_conv_decomp)
  moreover have "distinct (tab_ids p)" using p(2) by (simp add: pane_ok_def)
  ultimately have "\<forall>u \<in> set xs. tab_id u \<noteq> i" using t(2) by (auto simp: image_iff)
  with ps t(2) assms(5) have ids: "tab_ids ?p = map tab_id xs @ i # tab_id ?t # map tab_id ys"
    by (simp only: tab_ids_activate) (simp add: insertTab_after)
  have active: "pane_active ?p = tab_id ?t" by (rule active_activate) simp
  have st': "new = Some (tab_id ?t)" "storage' = copyTabState machineId t ?t storage"
    "paneOf a st' = Some ?p" "activePaneId st' = Some a"
    using assms(3,6) p(1) find by (auto simp: duplicateTab_def paneOf_def find_map_pane Let_def)
  then have "activePaneFromState st' = Some ?p"
    by (simp add: activePaneFromState_def paneOf_def)
  with st' active p(1) have "tabIsFocused a (tab_id ?t) st'"
    by (simp add: tabIsFocused_def paneIsActive_def tabIsActive_def)
  moreover have "tab_id ?t \<notin> set (all_tab_ids (panes st))" using unusedD [OF assms(2)] by simp
  moreover have "tab_ids p = map tab_id xs @ i # map tab_id ys" using ps t(2) by simp
  ultimately show ?thesis using ids st' by blast
qed

theorem duplicate_follows_source_witness:
  "\<exists>n. fst (duplicateTab None (js ''9'') (js ''pane-1'') (js ''files-2'') sample_workbench None) = Some n \<and>
    n \<notin> {js ''files-2'', js ''files-3''}"
proof -
  obtain p where p: "paneOf (js ''pane-1'') sample_workbench = Some p"
    by (simp add: paneOf_def sample_panes)
  obtain t where t: "tabOf (js ''pane-1'') (js ''files-2'') sample_workbench = Some t"
    by (simp add: tabOf_def paneOf_def sample_panes fresh_id_def flip: js_append)
  obtain new st' storage' where d: "duplicateTab None (js ''9'') (js ''pane-1'') (js ''files-2'') sample_workbench None =
      (new, st', storage')" using prod_cases3 by blast
  have u: "unused (js ''9'') sample_workbench"
    by (simp add: unused_def sample_panes all_tab_ids_def fresh_id_def js_def)
  have "set (all_tab_ids (panes sample_workbench)) = {js ''files-2'', js ''files-3''}"
    by (simp add: sample_panes all_tab_ids_def fresh_id_def flip: js_append)
  with duplicate_follows_source [OF reachable_panes_ok [OF sample_reachable] u p t _ d] d
  show ?thesis by auto
qed

end
