(* ===== verification/Datagrams.thy ===== *)
theory Datagrams
  imports Wire
begin

text \<open>
  The datagram half of \<open>web/src/state/rpc-session.ts\<close>: each transport has a runtime that pings
  the daemon every five seconds, measures the round trip from the pong, and answers the
  daemon's pings. Each callback of the code (the interval, a timeout, a datagram, a failed
  write, the end of the transport) is a function on the runtime.

  The effects are recorded in the runtime: \<open>rt_sent\<close> holds the datagrams given to the writer,
  \<open>rt_rtts\<close> the calls of \<open>onRtt\<close>, \<open>rt_timeouts\<close> the timers of pings that are neither cleared nor fired,
  \<open>rt_interval\<close> whether the interval is still set. A ping is identified, as the object identity of
  \<open>pendingPing\<close> does it, by its serial number, not by its ping id, which wraps around.
  \<open>performance.now()\<close> is a number of microseconds; \<open>Math.round\<close> of the milliseconds is written out.
\<close>

section \<open>The runtime\<close>

record DatagramPing =
  ping_id :: nat
  ping_startedAt :: int
  ping_serial :: nat

record DatagramRuntime =
  rt_closed :: bool
  nextPingId :: nat
  pendingPing :: "DatagramPing option"
  rt_interval :: bool
  rt_timeouts :: "nat list"
  rt_pings :: nat
  rt_sent :: "bytes list"
  rt_rtts :: "int list"

definition DATAGRAM_PING_INTERVAL_MS :: nat where
  "DATAGRAM_PING_INTERVAL_MS = 5000"

definition DATAGRAM_PING_TIMEOUT_MS :: nat where
  "DATAGRAM_PING_TIMEOUT_MS = 5000"

definition clearPendingDatagramPing :: "DatagramRuntime \<Rightarrow> DatagramRuntime" where
  "clearPendingDatagramPing rt =
     (case pendingPing rt of
        None \<Rightarrow> rt
      | Some p \<Rightarrow> rt\<lparr>rt_timeouts := filter (\<lambda>s. s \<noteq> ping_serial p) (rt_timeouts rt), pendingPing := None\<rparr>)"

definition closeDatagramRuntime :: "DatagramRuntime \<Rightarrow> DatagramRuntime" where
  "closeDatagramRuntime rt =
     (if rt_closed rt then rt
      else clearPendingDatagramPing (rt\<lparr>rt_closed := True, rt_interval := False\<rparr>))"

definition nextDatagramPingId :: "DatagramRuntime \<Rightarrow> nat \<times> DatagramRuntime" where
  "nextDatagramPingId rt =
     (let i = (if MAX_SAFE_CBOR_INTEGER \<le> nextPingId rt then 1 else nextPingId rt + 1)
      in (i, rt\<lparr>nextPingId := i\<rparr>))"

text \<open>
  \<open>sendDatagramPing\<close> first installs the ping, then encodes and writes it; an error of the
  encoder escapes from the callback. The rejection of the write comes later, as the event
  \<open>pingWriteFailed\<close>.
\<close>

definition sendDatagramPing :: "int \<Rightarrow> DatagramRuntime \<Rightarrow> unit result \<times> DatagramRuntime" where
  "sendDatagramPing now rt =
     (if rt_closed rt then (Inr (), rt)
      else let rt = clearPendingDatagramPing rt; (i, rt) = nextDatagramPingId rt;
        pending = \<lparr>ping_id = i, ping_startedAt = now, ping_serial = rt_pings rt\<rparr>;
        rt = rt\<lparr>rt_pings := rt_pings rt + 1, rt_timeouts := rt_pings rt # rt_timeouts rt, pendingPing := Some pending\<rparr>
      in case encodeDatagramMessage \<lparr>dg_kind = Ping, dg_pingId = int i\<rparr> of
          Inl err \<Rightarrow> (Inl err, rt)
        | Inr b \<Rightarrow> (Inr (), rt\<lparr>rt_sent := rt_sent rt @ [b]\<rparr>))"

definition pingTimeout :: "nat \<Rightarrow> DatagramRuntime \<Rightarrow> DatagramRuntime" where
  "pingTimeout s rt =
     (let rt = rt\<lparr>rt_timeouts := filter (\<lambda>t. t \<noteq> s) (rt_timeouts rt)\<rparr> in
      if map_option ping_serial (pendingPing rt) \<noteq> Some s then rt else rt\<lparr>pendingPing := None\<rparr>)"

definition pingWriteFailed :: "nat \<Rightarrow> DatagramRuntime \<Rightarrow> DatagramRuntime" where
  "pingWriteFailed s rt =
     closeDatagramRuntime
       (if map_option ping_serial (pendingPing rt) = Some s then clearPendingDatagramPing rt else rt)"

text \<open>\<open>writable\<close>: whether the writer accepts the pong; after the runtime is closed it never does,
  as its lock is released.\<close>

definition handleIncomingDatagram :: "int \<Rightarrow> bool \<Rightarrow> bytes \<Rightarrow> DatagramRuntime \<Rightarrow> DatagramRuntime" where
  "handleIncomingDatagram now writable bs rt =
     (case decodeDatagramMessage bs of
        Inl _ \<Rightarrow> rt
      | Inr m \<Rightarrow>
          if dg_kind m = Ping then
            (case encodeDatagramMessage \<lparr>dg_kind = Pong, dg_pingId = dg_pingId m\<rparr> of
               Inl _ \<Rightarrow> closeDatagramRuntime rt
             | Inr b \<Rightarrow>
                 if writable \<and> \<not> rt_closed rt then rt\<lparr>rt_sent := rt_sent rt @ [b]\<rparr>
                 else closeDatagramRuntime rt)
          else
            (case pendingPing rt of
               None \<Rightarrow> rt
             | Some pending \<Rightarrow>
                 if int (ping_id pending) \<noteq> dg_pingId m then rt
                 else let rt = clearPendingDatagramPing rt in
                   rt\<lparr>rt_rtts := rt_rtts rt @ [max 1 ((now - ping_startedAt pending + 500) div 1000)]\<rparr>))"

definition startDatagramRuntime :: "int \<Rightarrow> unit result \<times> DatagramRuntime" where
  "startDatagramRuntime now =
     sendDatagramPing now
       \<lparr>rt_closed = False, nextPingId = 0, pendingPing = None, rt_interval = True, rt_timeouts = [],
        rt_pings = 0, rt_sent = [], rt_rtts = []\<rparr>"

section \<open>Runs of a runtime\<close>

text \<open>The interval fires only while it is set, a timeout only while its timer is; the loop of
  \<open>readDatagrams\<close> hands over a datagram, the last one possibly after the runtime was closed.\<close>

inductive datagram_step :: "DatagramRuntime \<Rightarrow> DatagramRuntime \<Rightarrow> bool" where
  dg_interval: "rt_interval rt \<Longrightarrow> datagram_step rt (snd (sendDatagramPing now rt))"
| dg_timeout: "s \<in> set (rt_timeouts rt) \<Longrightarrow> datagram_step rt (pingTimeout s rt)"
| dg_write_failed: "s < rt_pings rt \<Longrightarrow> datagram_step rt (pingWriteFailed s rt)"
| dg_incoming: "datagram_step rt (handleIncomingDatagram now writable bs rt)"
| dg_close: "datagram_step rt (closeDatagramRuntime rt)"

inductive_cases datagram_stepE: "datagram_step rt rt'"

inductive datagram_reachable :: "DatagramRuntime \<Rightarrow> bool" where
  dg_start: "datagram_reachable (snd (startDatagramRuntime now))"
| dg_then: "datagram_reachable rt \<Longrightarrow> datagram_step rt rt' \<Longrightarrow> datagram_reachable rt'"

section \<open>The invariant\<close>

text \<open>At most one timer runs, that of the pending ping; a closed runtime has none.\<close>

definition runtime_ok :: "DatagramRuntime \<Rightarrow> bool" where
  "runtime_ok rt \<longleftrightarrow>
     nextPingId rt \<le> MAX_SAFE_CBOR_INTEGER \<and>
     (rt_closed rt \<longrightarrow> pendingPing rt = None \<and> \<not> rt_interval rt) \<and>
     (case pendingPing rt of
        None \<Rightarrow> rt_timeouts rt = []
      | Some p \<Rightarrow> rt_timeouts rt = [ping_serial p] \<and> ping_serial p < rt_pings rt \<and> 1 \<le> ping_id p \<and>
          ping_id p = nextPingId rt)"

lemma clear_ok: "runtime_ok rt \<Longrightarrow> runtime_ok (clearPendingDatagramPing rt)"
  by (auto simp: runtime_ok_def clearPendingDatagramPing_def split: option.splits)

lemma clear_fields [simp]:
  "pendingPing (clearPendingDatagramPing rt) = None" "rt_closed (clearPendingDatagramPing rt) = rt_closed rt"
  "nextPingId (clearPendingDatagramPing rt) = nextPingId rt" "rt_pings (clearPendingDatagramPing rt) = rt_pings rt"
  "rt_sent (clearPendingDatagramPing rt) = rt_sent rt" "rt_rtts (clearPendingDatagramPing rt) = rt_rtts rt"
  "rt_interval (clearPendingDatagramPing rt) = rt_interval rt"
  by (simp_all add: clearPendingDatagramPing_def split: option.splits)

lemma clear_timeouts: "runtime_ok rt \<Longrightarrow> rt_timeouts (clearPendingDatagramPing rt) = []"
  by (auto simp: runtime_ok_def clearPendingDatagramPing_def split: option.splits)

lemma runtime_close_ok: "runtime_ok rt \<Longrightarrow> runtime_ok (closeDatagramRuntime rt)"
  by (auto simp: runtime_ok_def closeDatagramRuntime_def clearPendingDatagramPing_def split: option.splits)

lemma close_fields [simp]:
  "rt_closed (closeDatagramRuntime rt)" "rt_sent (closeDatagramRuntime rt) = rt_sent rt"
  "rt_rtts (closeDatagramRuntime rt) = rt_rtts rt"
  by (simp_all add: closeDatagramRuntime_def)

lemma encode_pair:
  "encode u = Inr x \<Longrightarrow> encode v = Inr y \<Longrightarrow> encode (CArray [u, v]) = Inr (head_bytes 4 2 @ x @ y)"
  by (simp add: MAX_SAFE_CBOR_INTEGER_def numeral_2_eq_2)

lemma encode_datagram_total:
  assumes "0 \<le> i" "isSafeInteger i"
  obtains b where "encodeDatagramMessage \<lparr>dg_kind = k, dg_pingId = i\<rparr> = Inr b"
proof -
  have "\<exists>b. encode (CMap [(1, CNumber (JInt i))]) = Inr b"
    using assms(2) by (intro encode_fields) auto
  then obtain c where c: "encode (CMap [(1, CNumber (JInt i))]) = Inr c" by blast
  have "\<exists>b. encode (union_tuple n [(1, CNumber (JInt i))]) = Inr b" if n: "n = 1 \<or> n = 2" for n
  proof -
    have "encodable (CNumber (JInt n))" using n by (auto simp: isSafeInteger_def MAX_SAFE_CBOR_INTEGER_def)
    from encode_leaf [OF this] obtain d where "encode (CNumber (JInt n)) = Inr d" by blast
    from encode_pair [OF this c] show ?thesis unfolding union_tuple_def by blast
  qed
  then have "\<exists>b. encodeDatagramMessage \<lparr>dg_kind = k, dg_pingId = i\<rparr> = Inr b"
    using assms by (cases k) (simp_all add: encodeDatagramMessage_def toGeneratedDatagram_def encodeCbor_def)
  with that show thesis by blast
qed

lemma send_ok:
  assumes "runtime_ok rt" "\<not> rt_closed rt"
  obtains b where "sendDatagramPing now rt = (Inr (), (snd (nextDatagramPingId (clearPendingDatagramPing rt)))
      \<lparr>rt_pings := rt_pings rt + 1, rt_timeouts := [rt_pings rt],
       pendingPing := Some \<lparr>ping_id = fst (nextDatagramPingId rt), ping_startedAt = now, ping_serial = rt_pings rt\<rparr>,
       rt_sent := rt_sent rt @ [b]\<rparr>)"
    "encodeDatagramMessage \<lparr>dg_kind = Ping, dg_pingId = int (fst (nextDatagramPingId rt))\<rparr> = Inr b"
    "runtime_ok (snd (sendDatagramPing now rt))"
proof -
  let ?i = "fst (nextDatagramPingId rt)"
  have i: "1 \<le> ?i" "?i \<le> MAX_SAFE_CBOR_INTEGER"
    using assms(1) by (auto simp: nextDatagramPingId_def runtime_ok_def MAX_SAFE_CBOR_INTEGER_def Let_def)
  then have "isSafeInteger (int ?i)" by (simp add: isSafeInteger_def)
  then obtain b where b: "encodeDatagramMessage \<lparr>dg_kind = Ping, dg_pingId = int ?i\<rparr> = Inr b"
    using encode_datagram_total [of "int ?i" Ping] by auto
  show thesis
  proof (rule that [OF _ b])
    show eq: "sendDatagramPing now rt = (Inr (), (snd (nextDatagramPingId (clearPendingDatagramPing rt)))
      \<lparr>rt_pings := rt_pings rt + 1, rt_timeouts := [rt_pings rt],
       pendingPing := Some \<lparr>ping_id = ?i, ping_startedAt = now, ping_serial = rt_pings rt\<rparr>,
       rt_sent := rt_sent rt @ [b]\<rparr>)"
      using assms b clear_timeouts [OF assms(1)]
      by (cases "MAX_SAFE_CBOR_INTEGER \<le> nextPingId rt")
        (simp_all add: sendDatagramPing_def nextDatagramPingId_def Let_def)
    show "runtime_ok (snd (sendDatagramPing now rt))"
      using assms i unfolding eq by (simp add: runtime_ok_def nextDatagramPingId_def Let_def)
  qed
qed

lemma send_runtime_ok: "runtime_ok rt \<Longrightarrow> fst (sendDatagramPing now rt) = Inr () \<and> runtime_ok (snd (sendDatagramPing now rt))"
  by (cases "rt_closed rt") (simp add: sendDatagramPing_def, metis fst_conv send_ok)

lemma timeout_ok: "runtime_ok rt \<Longrightarrow> runtime_ok (pingTimeout s rt)"
  by (auto simp: runtime_ok_def pingTimeout_def Let_def split: option.splits)

lemma write_failed_ok: "runtime_ok rt \<Longrightarrow> runtime_ok (pingWriteFailed s rt)"
  by (simp add: pingWriteFailed_def runtime_close_ok clear_ok)

lemma incoming_ok: "runtime_ok rt \<Longrightarrow> runtime_ok (handleIncomingDatagram now w bs rt)"
proof -
  assume ok: "runtime_ok rt"
  have keep: "runtime_ok (rt'\<lparr>rt_sent := x\<rparr>)" "runtime_ok (rt'\<lparr>rt_rtts := y\<rparr>)" if "runtime_ok rt'" for rt' x y
    using that by (simp_all add: runtime_ok_def split: option.splits)
  from ok show ?thesis
    by (auto simp: handleIncomingDatagram_def Let_def keep runtime_close_ok clear_ok split: sum.split option.split)
qed

lemma step_ok: "datagram_step rt rt' \<Longrightarrow> runtime_ok rt \<Longrightarrow> runtime_ok rt'"
  by (induction rule: datagram_step.induct)
    (simp_all add: send_runtime_ok timeout_ok write_failed_ok incoming_ok runtime_close_ok)

lemma start_ok: "fst (startDatagramRuntime now) = Inr () \<and> runtime_ok (snd (startDatagramRuntime now))"
  unfolding startDatagramRuntime_def by (rule send_runtime_ok) (simp add: runtime_ok_def)

lemma reachable_ok: "datagram_reachable rt \<Longrightarrow> runtime_ok rt"
  by (induction rule: datagram_reachable.induct) (auto intro: step_ok simp: start_ok)

section \<open>What the runtime promises\<close>

text \<open>
  (C18) In every state a runtime reaches, a ping can be sent without an error (the ping id stays
  between 1 and the largest safe integer), at most one timer runs and it is that of the pending
  ping, and a closed runtime has no interval, no timer and no pending ping.
\<close>

theorem datagram_runtime_invariant:
  assumes "datagram_reachable rt"
  shows "fst (sendDatagramPing now rt) = Inr () \<and>
    rt_timeouts rt = (case pendingPing rt of None \<Rightarrow> [] | Some p \<Rightarrow> [ping_serial p]) \<and>
    (rt_closed rt \<longrightarrow> \<not> rt_interval rt \<and> pendingPing rt = None \<and> rt_timeouts rt = [])"
  using reachable_ok [OF assms] send_runtime_ok
  by (auto simp: runtime_ok_def split: option.splits)

theorem datagram_runtime_invariant_witness:
  "fst (sendDatagramPing 7 (closeDatagramRuntime (snd (startDatagramRuntime 0)))) = Inr ()"
  using datagram_runtime_invariant [OF dg_then [OF dg_start dg_close]] by blast

text \<open>
  A round-trip time is reported only for a pong that answers the ping sent last, before its
  timeout and before the runtime is closed, and once: the same datagram again changes nothing.
\<close>

theorem rtt_answers_pending_ping:
  assumes "datagram_reachable rt" "rt_rtts (handleIncomingDatagram now w bs rt) \<noteq> rt_rtts rt"
  shows "\<exists>p. pendingPing rt = Some p \<and> \<not> rt_closed rt \<and> rt_timeouts rt = [ping_serial p] \<and>
    decodeDatagramMessage bs = Inr \<lparr>dg_kind = Pong, dg_pingId = int (ping_id p)\<rparr> \<and>
    (\<exists>rtt \<ge> 1. rt_rtts (handleIncomingDatagram now w bs rt) = rt_rtts rt @ [rtt]) \<and>
    handleIncomingDatagram later w' bs (handleIncomingDatagram now w bs rt) = handleIncomingDatagram now w bs rt"
proof -
  have ok: "runtime_ok rt" by (rule reachable_ok [OF assms(1)])
  from assms(2) obtain m where m: "decodeDatagramMessage bs = Inr m" and pong: "dg_kind m \<noteq> Ping"
    by (auto simp: handleIncomingDatagram_def split: sum.splits if_splits)
  then have kind: "dg_kind m = Pong" by (cases "dg_kind m") simp_all
  from assms(2) m kind obtain p where p: "pendingPing rt = Some p" "int (ping_id p) = dg_pingId m"
    by (auto simp: handleIncomingDatagram_def split: option.splits if_splits)
  have result: "handleIncomingDatagram now w bs rt = (clearPendingDatagramPing rt)
      \<lparr>rt_rtts := rt_rtts rt @ [max 1 ((now - ping_startedAt p + 500) div 1000)]\<rparr>"
    using m kind p by (simp add: handleIncomingDatagram_def Let_def)
  have "handleIncomingDatagram later w' bs (handleIncomingDatagram now w bs rt) = handleIncomingDatagram now w bs rt"
    unfolding result using m kind by (simp add: handleIncomingDatagram_def)
  moreover have "m = \<lparr>dg_kind = Pong, dg_pingId = int (ping_id p)\<rparr>" using kind p by (cases m) simp
  ultimately show ?thesis
    using ok p m result by (auto simp: runtime_ok_def)
qed

lemma started_runtime:
  "snd (startDatagramRuntime 0) = \<lparr>rt_closed = False, nextPingId = 1,
     pendingPing = Some \<lparr>ping_id = 1, ping_startedAt = 0, ping_serial = 0\<rparr>, rt_interval = True,
     rt_timeouts = [0], rt_pings = 1, rt_sent = [[0x82, 0x01, 0xa1, 0x01, 0x01]], rt_rtts = []\<rparr>"
proof -
  have "encodeDatagramMessage \<lparr>dg_kind = Ping, dg_pingId = 1\<rparr> = Inr [0x82, 0x01, 0xa1, 0x01, 0x01]"
    by (simp add: encodeDatagramMessage_def toGeneratedDatagram_def union_tuple_def cbor_eval)
  then show ?thesis
    by (simp add: startDatagramRuntime_def sendDatagramPing_def nextDatagramPingId_def Let_def
        clearPendingDatagramPing_def MAX_SAFE_CBOR_INTEGER_def)
qed

lemma decode_datagram:
  "encodeDatagramMessage \<lparr>dg_kind = k, dg_pingId = i\<rparr> = Inr b \<Longrightarrow>
   decodeDatagramMessage b = Inr \<lparr>dg_kind = k, dg_pingId = i\<rparr>"
  using datagram_roundtrip [of "\<lparr>dg_kind = k, dg_pingId = i\<rparr>" b] by simp

theorem rtt_answers_pending_ping_witness:
  "rt_rtts (handleIncomingDatagram 2700 True [0x82, 0x02, 0xa1, 0x01, 0x01] (snd (startDatagramRuntime 0))) = [3] \<and>
   (\<exists>p. pendingPing (snd (startDatagramRuntime 0)) = Some p \<and> ping_id p = 1)"
proof -
  have "encodeDatagramMessage \<lparr>dg_kind = Pong, dg_pingId = 1\<rparr> = Inr [0x82, 0x02, 0xa1, 0x01, 0x01]"
    by (simp add: encodeDatagramMessage_def toGeneratedDatagram_def union_tuple_def cbor_eval)
  then have d: "decodeDatagramMessage [0x82, 0x02, 0xa1, 0x01, 0x01] = Inr \<lparr>dg_kind = Pong, dg_pingId = 1\<rparr>"
    by (rule decode_datagram)
  have r: "rt_rtts (handleIncomingDatagram 2700 True [0x82, 0x02, 0xa1, 0x01, 0x01]
      (snd (startDatagramRuntime 0))) = [3]"
    by (simp add: started_runtime handleIncomingDatagram_def d clearPendingDatagramPing_def)
  then have "rt_rtts (handleIncomingDatagram 2700 True [0x82, 0x02, 0xa1, 0x01, 0x01]
      (snd (startDatagramRuntime 0))) \<noteq> rt_rtts (snd (startDatagramRuntime 0))"
    by (simp add: started_runtime)
  from rtt_answers_pending_ping [OF dg_start this] r d show ?thesis by auto
qed

text \<open>
  The daemon's ping is answered: the datagram written decodes to the pong with the same id.
\<close>

theorem ping_answered:
  assumes "decodeDatagramMessage bs = Inr \<lparr>dg_kind = Ping, dg_pingId = i\<rparr>" "0 \<le> i" "isSafeInteger i"
    "\<not> rt_closed rt"
  shows "\<exists>b. handleIncomingDatagram now True bs rt = rt\<lparr>rt_sent := rt_sent rt @ [b]\<rparr> \<and>
    decodeDatagramMessage b = Inr \<lparr>dg_kind = Pong, dg_pingId = i\<rparr>"
proof -
  obtain b where b: "encodeDatagramMessage \<lparr>dg_kind = Pong, dg_pingId = i\<rparr> = Inr b"
    by (rule encode_datagram_total [OF assms(2,3)])
  then show ?thesis using assms datagram_roundtrip [OF b]
    by (intro exI [of _ b]) (simp add: handleIncomingDatagram_def)
qed

theorem ping_answered_witness:
  "\<exists>b. rt_sent (handleIncomingDatagram 0 True [0x82, 0x01, 0xa1, 0x01, 0x07] (snd (startDatagramRuntime 0)))
       = [[0x82, 0x01, 0xa1, 0x01, 0x01], b] \<and> decodeDatagramMessage b = Inr \<lparr>dg_kind = Pong, dg_pingId = 7\<rparr>"
proof -
  have "encodeDatagramMessage \<lparr>dg_kind = Ping, dg_pingId = 7\<rparr> = Inr [0x82, 0x01, 0xa1, 0x01, 0x07]"
    by (simp add: encodeDatagramMessage_def toGeneratedDatagram_def union_tuple_def cbor_eval)
  from ping_answered [OF decode_datagram [OF this], of "snd (startDatagramRuntime 0)" 0]
  show ?thesis by (auto simp: started_runtime isSafeInteger_def MAX_SAFE_CBOR_INTEGER_def)
qed

text \<open>
  A ping with a negative id, which the decoder accepts, closes the runtime: the encoder
  refuses the id of the pong and the error is taken for a failed write. From then on no ping
  is sent and no round trip is measured, while the transport stays open.
\<close>

theorem negative_ping_closes_runtime:
  assumes "decodeDatagramMessage bs = Inr \<lparr>dg_kind = Ping, dg_pingId = i\<rparr>" "i < 0"
  shows "handleIncomingDatagram now w bs rt = closeDatagramRuntime rt \<and>
    rt_closed (handleIncomingDatagram now w bs rt)"
  using assms
  by (simp add: handleIncomingDatagram_def encodeDatagramMessage_def toGeneratedDatagram_def u53_def throw_def)

theorem negative_ping_closes_runtime_witness:
  "rt_closed (handleIncomingDatagram 0 True [0x82, 0x01, 0xa1, 0x01, 0x20] (snd (startDatagramRuntime 0)))"
proof -
  let ?v = "union_tuple 1 [(1, CNumber (JInt (-1)))]"
  have "encode ?v = Inr [0x82, 0x01, 0xa1, 0x01, 0x20]"
    by (simp add: union_tuple_def cbor_eval)
  then have "decode [0x82, 0x01, 0xa1, 0x01, 0x20] 0 = Inr (?v, 5)"
    using decode_encode [of ?v _ "[]"]
    by (simp add: union_tuple_def sort_entries_def MAX_ARRAY_LENGTH_def isSafeInteger_def MAX_SAFE_CBOR_INTEGER_def)
  then have "decodeDatagramMessage [0x82, 0x01, 0xa1, 0x01, 0x20] = Inr \<lparr>dg_kind = Ping, dg_pingId = -1\<rparr>"
    by (simp add: decodeDatagramMessage_def decodeCbor_def decodeDatagramMessageValue_def wire_checks
        isSafeInteger_def MAX_SAFE_CBOR_INTEGER_def Let_def del: ebind_eq_Inr)
  from negative_ping_closes_runtime [OF this] show ?thesis by simp
qed

end
