(* ===== verification/RpcDaemon.thy ===== *)
theory RpcDaemon
  imports RpcCodec
begin

text \<open>
  Pairing, credentials, the daemon itself and its clients.
  From \<open>web/src/protocol/generated/rpc.ts\<close>; the field names
  are the ones of the interfaces with a prefix per type, a variant of a union is a constructor, an
  optional field an \<open>option\<close>. Lengths, times and other numbers are \<open>int\<close>, as the codec takes any
  safe integer for them.
\<close>

section \<open>Types\<close>

record StartPairingReq =
  spr_confirmationCode :: jstring
  spr_clientLabel :: jstring
  spr_clientId :: "jstring option"

record StartPairingRes =
  spr_pairingCodeExpiresAtUnix :: int

record CompletePairingReq =
  cpr_code :: jstring

record CompletePairingRes =
  cpr_clientId :: jstring
  cpr_clientSecret :: jstring
  cpr_clientCredentialExpiresAtUnix :: int

record RenewClientCredentialRes =
  rccr_clientCredentialExpiresAtUnix :: int

datatype StartPairingError =
    StartPairingFailed jstring

datatype CompletePairingError =
    CompletePairingPairingNotStarted jstring
  | CompletePairingPairingExpired jstring
  | CompletePairingInvalidPairingCode jstring

datatype RenewClientCredentialError =
    RenewClientCredentialFailed jstring

record DaemonInfo =
  di_supportedProcIds :: "int list"
  di_version :: jstring
  di_os :: jstring
  di_instanceId :: jstring
  di_startedAtMs :: int
  di_serverTimeMs :: int

record DaemonEnvironment =
  de_homeDirectory :: jstring

record ClientInfo =
  ci_clientId :: jstring
  ci_label :: jstring
  ci_createdAtUnix :: int
  ci_expiresAtUnix :: int

record ClientKey =
  ck_clientId :: jstring

datatype ClientsTableEvent =
    ClientsSnapshot "ClientInfo list"
  | ClientsPatch "ClientKey list" "ClientInfo list"

datatype GetDaemonInfoError =
    GetDaemonInfoFailed jstring

datatype GetDaemonEnvironmentError =
    GetDaemonEnvironmentFailed jstring

datatype SubscribeClientsError =
    SubscribeClientsFailed jstring
  | SubscribeClientsPermissionDenied jstring

section \<open>Defaults\<close>

definition defaultStartPairingReq :: StartPairingReq where
  "defaultStartPairingReq = \<lparr>spr_confirmationCode = [], spr_clientLabel = [],
      spr_clientId = None\<rparr>"

definition defaultStartPairingRes :: StartPairingRes where
  "defaultStartPairingRes = \<lparr>spr_pairingCodeExpiresAtUnix = 0\<rparr>"

definition defaultCompletePairingReq :: CompletePairingReq where
  "defaultCompletePairingReq = \<lparr>cpr_code = []\<rparr>"

definition defaultCompletePairingRes :: CompletePairingRes where
  "defaultCompletePairingRes = \<lparr>cpr_clientId = [], cpr_clientSecret = [],
      cpr_clientCredentialExpiresAtUnix = 0\<rparr>"

definition defaultRenewClientCredentialRes :: RenewClientCredentialRes where
  "defaultRenewClientCredentialRes = \<lparr>rccr_clientCredentialExpiresAtUnix = 0\<rparr>"

definition defaultStartPairingError :: StartPairingError where
  "defaultStartPairingError = StartPairingFailed []"

definition defaultCompletePairingError :: CompletePairingError where
  "defaultCompletePairingError = CompletePairingPairingNotStarted []"

definition defaultRenewClientCredentialError :: RenewClientCredentialError where
  "defaultRenewClientCredentialError = RenewClientCredentialFailed []"

definition defaultDaemonInfo :: DaemonInfo where
  "defaultDaemonInfo = \<lparr>di_supportedProcIds = [], di_version = [], di_os = [],
      di_instanceId = [], di_startedAtMs = 0, di_serverTimeMs = 0\<rparr>"

definition defaultDaemonEnvironment :: DaemonEnvironment where
  "defaultDaemonEnvironment = \<lparr>de_homeDirectory = []\<rparr>"

definition defaultClientInfo :: ClientInfo where
  "defaultClientInfo = \<lparr>ci_clientId = [], ci_label = [], ci_createdAtUnix = 0,
      ci_expiresAtUnix = 0\<rparr>"

definition defaultClientKey :: ClientKey where
  "defaultClientKey = \<lparr>ck_clientId = []\<rparr>"

definition defaultClientsTableEvent :: ClientsTableEvent where
  "defaultClientsTableEvent = ClientsSnapshot []"

definition defaultGetDaemonInfoError :: GetDaemonInfoError where
  "defaultGetDaemonInfoError = GetDaemonInfoFailed []"

definition defaultGetDaemonEnvironmentError :: GetDaemonEnvironmentError where
  "defaultGetDaemonEnvironmentError = GetDaemonEnvironmentFailed []"

definition defaultSubscribeClientsError :: SubscribeClientsError where
  "defaultSubscribeClientsError = SubscribeClientsFailed []"

section \<open>Encoders\<close>

definition encodeStartPairingReqValue :: "StartPairingReq \<Rightarrow> cbor_value result" where
  "encodeStartPairingReqValue value = encodeFields
     [field 1 cborText (spr_confirmationCode value), field 2 cborText (spr_clientLabel value),
      optional 3 cborText (spr_clientId value)]"

definition encodeStartPairingResValue :: "StartPairingRes \<Rightarrow> cbor_value result" where
  "encodeStartPairingResValue value = encodeFields
     [field 1 i53 (spr_pairingCodeExpiresAtUnix value)]"

definition encodeCompletePairingReqValue :: "CompletePairingReq \<Rightarrow> cbor_value result" where
  "encodeCompletePairingReqValue value = encodeFields
     [field 1 cborText (cpr_code value)]"

definition encodeCompletePairingResValue :: "CompletePairingRes \<Rightarrow> cbor_value result" where
  "encodeCompletePairingResValue value = encodeFields
     [field 1 cborText (cpr_clientId value), field 2 cborText (cpr_clientSecret value),
      field 3 i53 (cpr_clientCredentialExpiresAtUnix value)]"

definition encodeRenewClientCredentialResValue :: "RenewClientCredentialRes \<Rightarrow> cbor_value result" where
  "encodeRenewClientCredentialResValue value = encodeFields
     [field 1 i53 (rccr_clientCredentialExpiresAtUnix value)]"

primrec encodeStartPairingErrorValue :: "StartPairingError \<Rightarrow> cbor_value result" where
  "encodeStartPairingErrorValue (StartPairingFailed message) =
     encodeVariant 0 [field 1 cborText message]"

primrec encodeCompletePairingErrorValue :: "CompletePairingError \<Rightarrow> cbor_value result" where
  "encodeCompletePairingErrorValue (CompletePairingPairingNotStarted message) =
     encodeVariant 1 [field 1 cborText message]"
| "encodeCompletePairingErrorValue (CompletePairingPairingExpired message) =
     encodeVariant 2 [field 1 cborText message]"
| "encodeCompletePairingErrorValue (CompletePairingInvalidPairingCode message) =
     encodeVariant 3 [field 1 cborText message]"

primrec encodeRenewClientCredentialErrorValue :: "RenewClientCredentialError \<Rightarrow> cbor_value result" where
  "encodeRenewClientCredentialErrorValue (RenewClientCredentialFailed message) =
     encodeVariant 0 [field 1 cborText message]"

definition encodeDaemonInfoValue :: "DaemonInfo \<Rightarrow> cbor_value result" where
  "encodeDaemonInfoValue value = encodeFields
     [field 1 (encodeArray u53) (di_supportedProcIds value), field 2 cborText (di_version value),
      field 3 cborText (di_os value), field 4 cborText (di_instanceId value),
      field 5 u53 (di_startedAtMs value), field 6 u53 (di_serverTimeMs value)]"

definition encodeDaemonEnvironmentValue :: "DaemonEnvironment \<Rightarrow> cbor_value result" where
  "encodeDaemonEnvironmentValue value = encodeFields
     [field 1 cborText (de_homeDirectory value)]"

definition encodeClientInfoValue :: "ClientInfo \<Rightarrow> cbor_value result" where
  "encodeClientInfoValue value = encodeFields
     [field 1 cborText (ci_clientId value), field 2 cborText (ci_label value),
      field 3 i53 (ci_createdAtUnix value), field 4 i53 (ci_expiresAtUnix value)]"

definition encodeClientKeyValue :: "ClientKey \<Rightarrow> cbor_value result" where
  "encodeClientKeyValue value = encodeFields
     [field 1 cborText (ck_clientId value)]"

primrec encodeClientsTableEventValue :: "ClientsTableEvent \<Rightarrow> cbor_value result" where
  "encodeClientsTableEventValue (ClientsSnapshot rows) =
     encodeVariant 1 [field 1 (encodeArray encodeClientInfoValue) rows]"
| "encodeClientsTableEventValue (ClientsPatch removes upserts) =
     encodeVariant 2 [field 1 (encodeArray encodeClientKeyValue) removes,
       field 2 (encodeArray encodeClientInfoValue) upserts]"

primrec encodeGetDaemonInfoErrorValue :: "GetDaemonInfoError \<Rightarrow> cbor_value result" where
  "encodeGetDaemonInfoErrorValue (GetDaemonInfoFailed message) =
     encodeVariant 0 [field 1 cborText message]"

primrec encodeGetDaemonEnvironmentErrorValue :: "GetDaemonEnvironmentError \<Rightarrow> cbor_value result" where
  "encodeGetDaemonEnvironmentErrorValue (GetDaemonEnvironmentFailed message) =
     encodeVariant 0 [field 1 cborText message]"

primrec encodeSubscribeClientsErrorValue :: "SubscribeClientsError \<Rightarrow> cbor_value result" where
  "encodeSubscribeClientsErrorValue (SubscribeClientsFailed message) =
     encodeVariant 0 [field 1 cborText message]"
| "encodeSubscribeClientsErrorValue (SubscribeClientsPermissionDenied message) =
     encodeVariant 1 [field 1 cborText message]"

section \<open>Decoders\<close>

definition decodeStartPairingReqValue :: "cbor_value \<Rightarrow> StartPairingReq result" where
  "decodeStartPairingReqValue value =
     ebind (expectMap value) (\<lambda>fields.
     ebind (fieldOrDefault (map_of fields 1) textValue []) (\<lambda>confirmationCode.
     ebind (fieldOrDefault (map_of fields 2) textValue []) (\<lambda>clientLabel.
     ebind (optionalField (map_of fields 3) textValue) (\<lambda>clientId.
     Inr \<lparr>spr_confirmationCode = confirmationCode, spr_clientLabel = clientLabel,
           spr_clientId = clientId\<rparr>))))"

definition decodeStartPairingResValue :: "cbor_value \<Rightarrow> StartPairingRes result" where
  "decodeStartPairingResValue value =
     ebind (expectMap value) (\<lambda>fields.
     ebind (fieldOrDefault (map_of fields 1) integer 0) (\<lambda>pairingCodeExpiresAtUnix.
     Inr \<lparr>spr_pairingCodeExpiresAtUnix = pairingCodeExpiresAtUnix\<rparr>))"

definition decodeCompletePairingReqValue :: "cbor_value \<Rightarrow> CompletePairingReq result" where
  "decodeCompletePairingReqValue value =
     ebind (expectMap value) (\<lambda>fields.
     ebind (fieldOrDefault (map_of fields 1) textValue []) (\<lambda>code.
     Inr \<lparr>cpr_code = code\<rparr>))"

definition decodeCompletePairingResValue :: "cbor_value \<Rightarrow> CompletePairingRes result" where
  "decodeCompletePairingResValue value =
     ebind (expectMap value) (\<lambda>fields.
     ebind (fieldOrDefault (map_of fields 1) textValue []) (\<lambda>clientId.
     ebind (fieldOrDefault (map_of fields 2) textValue []) (\<lambda>clientSecret.
     ebind (fieldOrDefault (map_of fields 3) integer 0) (\<lambda>clientCredentialExpiresAtUnix.
     Inr \<lparr>cpr_clientId = clientId, cpr_clientSecret = clientSecret,
           cpr_clientCredentialExpiresAtUnix = clientCredentialExpiresAtUnix\<rparr>))))"

definition decodeRenewClientCredentialResValue :: "cbor_value \<Rightarrow> RenewClientCredentialRes result" where
  "decodeRenewClientCredentialResValue value =
     ebind (expectMap value) (\<lambda>fields.
     ebind (fieldOrDefault (map_of fields 1) integer 0) (\<lambda>clientCredentialExpiresAtUnix.
     Inr \<lparr>rccr_clientCredentialExpiresAtUnix = clientCredentialExpiresAtUnix\<rparr>))"

definition decodeStartPairingErrorValue :: "cbor_value \<Rightarrow> StartPairingError result" where
  "decodeStartPairingErrorValue value =
     ebind (expectUnion value) (\<lambda>(variantId, fields).
     if variantId = 0 then
       ebind (fieldOrDefault (map_of fields 1) textValue []) (\<lambda>message.
       Inr (StartPairingFailed message))
     else throw (''unknown StartPairingError variant '' @ show_int variantId))"

definition decodeCompletePairingErrorValue :: "cbor_value \<Rightarrow> CompletePairingError result" where
  "decodeCompletePairingErrorValue value =
     ebind (expectUnion value) (\<lambda>(variantId, fields).
     if variantId = 1 then
       ebind (fieldOrDefault (map_of fields 1) textValue []) (\<lambda>message.
       Inr (CompletePairingPairingNotStarted message))
     else if variantId = 2 then
       ebind (fieldOrDefault (map_of fields 1) textValue []) (\<lambda>message.
       Inr (CompletePairingPairingExpired message))
     else if variantId = 3 then
       ebind (fieldOrDefault (map_of fields 1) textValue []) (\<lambda>message.
       Inr (CompletePairingInvalidPairingCode message))
     else throw (''unknown CompletePairingError variant '' @ show_int variantId))"

definition decodeRenewClientCredentialErrorValue :: "cbor_value \<Rightarrow> RenewClientCredentialError result" where
  "decodeRenewClientCredentialErrorValue value =
     ebind (expectUnion value) (\<lambda>(variantId, fields).
     if variantId = 0 then
       ebind (fieldOrDefault (map_of fields 1) textValue []) (\<lambda>message.
       Inr (RenewClientCredentialFailed message))
     else throw (''unknown RenewClientCredentialError variant '' @ show_int variantId))"

definition decodeDaemonInfoValue :: "cbor_value \<Rightarrow> DaemonInfo result" where
  "decodeDaemonInfoValue value =
     ebind (expectMap value) (\<lambda>fields.
     ebind (fieldOrDefault (map_of fields 1) (decodeArray integer) []) (\<lambda>supportedProcIds.
     ebind (fieldOrDefault (map_of fields 2) textValue []) (\<lambda>version.
     ebind (fieldOrDefault (map_of fields 3) textValue []) (\<lambda>os.
     ebind (fieldOrDefault (map_of fields 4) textValue []) (\<lambda>instanceId.
     ebind (fieldOrDefault (map_of fields 5) integer 0) (\<lambda>startedAtMs.
     ebind (fieldOrDefault (map_of fields 6) integer 0) (\<lambda>serverTimeMs.
     Inr \<lparr>di_supportedProcIds = supportedProcIds, di_version = version, di_os = os,
           di_instanceId = instanceId, di_startedAtMs = startedAtMs,
           di_serverTimeMs = serverTimeMs\<rparr>)))))))"

definition decodeDaemonEnvironmentValue :: "cbor_value \<Rightarrow> DaemonEnvironment result" where
  "decodeDaemonEnvironmentValue value =
     ebind (expectMap value) (\<lambda>fields.
     ebind (fieldOrDefault (map_of fields 1) textValue []) (\<lambda>homeDirectory.
     Inr \<lparr>de_homeDirectory = homeDirectory\<rparr>))"

definition decodeClientInfoValue :: "cbor_value \<Rightarrow> ClientInfo result" where
  "decodeClientInfoValue value =
     ebind (expectMap value) (\<lambda>fields.
     ebind (fieldOrDefault (map_of fields 1) textValue []) (\<lambda>clientId.
     ebind (fieldOrDefault (map_of fields 2) textValue []) (\<lambda>label.
     ebind (fieldOrDefault (map_of fields 3) integer 0) (\<lambda>createdAtUnix.
     ebind (fieldOrDefault (map_of fields 4) integer 0) (\<lambda>expiresAtUnix.
     Inr \<lparr>ci_clientId = clientId, ci_label = label, ci_createdAtUnix = createdAtUnix,
           ci_expiresAtUnix = expiresAtUnix\<rparr>)))))"

definition decodeClientKeyValue :: "cbor_value \<Rightarrow> ClientKey result" where
  "decodeClientKeyValue value =
     ebind (expectMap value) (\<lambda>fields.
     ebind (fieldOrDefault (map_of fields 1) textValue []) (\<lambda>clientId.
     Inr \<lparr>ck_clientId = clientId\<rparr>))"

definition decodeClientsTableEventValue :: "cbor_value \<Rightarrow> ClientsTableEvent result" where
  "decodeClientsTableEventValue value =
     ebind (expectUnion value) (\<lambda>(variantId, fields).
     if variantId = 1 then
       ebind (fieldOrDefault (map_of fields 1) (decodeArray decodeClientInfoValue) []) (\<lambda>rows.
       Inr (ClientsSnapshot rows))
     else if variantId = 2 then
       ebind (fieldOrDefault (map_of fields 1) (decodeArray decodeClientKeyValue) []) (\<lambda>removes.
       ebind (fieldOrDefault (map_of fields 2) (decodeArray decodeClientInfoValue) []) (\<lambda>upserts.
       Inr (ClientsPatch removes upserts)))
     else throw (''unknown ClientsTableEvent variant '' @ show_int variantId))"

definition decodeGetDaemonInfoErrorValue :: "cbor_value \<Rightarrow> GetDaemonInfoError result" where
  "decodeGetDaemonInfoErrorValue value =
     ebind (expectUnion value) (\<lambda>(variantId, fields).
     if variantId = 0 then
       ebind (fieldOrDefault (map_of fields 1) textValue []) (\<lambda>message.
       Inr (GetDaemonInfoFailed message))
     else throw (''unknown GetDaemonInfoError variant '' @ show_int variantId))"

definition decodeGetDaemonEnvironmentErrorValue :: "cbor_value \<Rightarrow> GetDaemonEnvironmentError result" where
  "decodeGetDaemonEnvironmentErrorValue value =
     ebind (expectUnion value) (\<lambda>(variantId, fields).
     if variantId = 0 then
       ebind (fieldOrDefault (map_of fields 1) textValue []) (\<lambda>message.
       Inr (GetDaemonEnvironmentFailed message))
     else throw (''unknown GetDaemonEnvironmentError variant '' @ show_int variantId))"

definition decodeSubscribeClientsErrorValue :: "cbor_value \<Rightarrow> SubscribeClientsError result" where
  "decodeSubscribeClientsErrorValue value =
     ebind (expectUnion value) (\<lambda>(variantId, fields).
     if variantId = 0 then
       ebind (fieldOrDefault (map_of fields 1) textValue []) (\<lambda>message.
       Inr (SubscribeClientsFailed message))
     else if variantId = 1 then
       ebind (fieldOrDefault (map_of fields 1) textValue []) (\<lambda>message.
       Inr (SubscribeClientsPermissionDenied message))
     else throw (''unknown SubscribeClientsError variant '' @ show_int variantId))"

section \<open>Laws\<close>

lemmas daemon_defs [codec_defs] = encodeStartPairingReqValue_def encodeStartPairingResValue_def
  encodeCompletePairingReqValue_def encodeCompletePairingResValue_def
  encodeRenewClientCredentialResValue_def encodeDaemonInfoValue_def
  encodeDaemonEnvironmentValue_def encodeClientInfoValue_def encodeClientKeyValue_def
  decodeStartPairingReqValue_def decodeStartPairingResValue_def decodeCompletePairingReqValue_def
  decodeCompletePairingResValue_def decodeRenewClientCredentialResValue_def
  decodeStartPairingErrorValue_def decodeCompletePairingErrorValue_def
  decodeRenewClientCredentialErrorValue_def decodeDaemonInfoValue_def
  decodeDaemonEnvironmentValue_def decodeClientInfoValue_def decodeClientKeyValue_def
  decodeClientsTableEventValue_def decodeGetDaemonInfoErrorValue_def
  decodeGetDaemonEnvironmentErrorValue_def decodeSubscribeClientsErrorValue_def

lemmas daemon_defaults = defaultStartPairingReq_def defaultStartPairingRes_def
  defaultCompletePairingReq_def defaultCompletePairingRes_def defaultRenewClientCredentialRes_def
  defaultStartPairingError_def defaultCompletePairingError_def
  defaultRenewClientCredentialError_def defaultDaemonInfo_def defaultDaemonEnvironment_def
  defaultClientInfo_def defaultClientKey_def defaultClientsTableEvent_def
  defaultGetDaemonInfoError_def defaultGetDaemonEnvironmentError_def
  defaultSubscribeClientsError_def

lemma daemon_flat_codecs [codec_laws]:
  "codec encodeStartPairingReqValue decodeStartPairingReqValue"
  "deterministic encodeStartPairingReqValue"
  "codec encodeStartPairingResValue decodeStartPairingResValue"
  "deterministic encodeStartPairingResValue"
  "codec encodeCompletePairingReqValue decodeCompletePairingReqValue"
  "deterministic encodeCompletePairingReqValue"
  "codec encodeCompletePairingResValue decodeCompletePairingResValue"
  "deterministic encodeCompletePairingResValue"
  "codec encodeRenewClientCredentialResValue decodeRenewClientCredentialResValue"
  "deterministic encodeRenewClientCredentialResValue"
  "codec encodeStartPairingErrorValue decodeStartPairingErrorValue"
  "deterministic encodeStartPairingErrorValue"
  "codec encodeCompletePairingErrorValue decodeCompletePairingErrorValue"
  "deterministic encodeCompletePairingErrorValue"
  "codec encodeRenewClientCredentialErrorValue decodeRenewClientCredentialErrorValue"
  "deterministic encodeRenewClientCredentialErrorValue"
  "codec encodeDaemonInfoValue decodeDaemonInfoValue"
  "deterministic encodeDaemonInfoValue"
  "codec encodeDaemonEnvironmentValue decodeDaemonEnvironmentValue"
  "deterministic encodeDaemonEnvironmentValue"
  "codec encodeClientInfoValue decodeClientInfoValue"
  "deterministic encodeClientInfoValue"
  "codec encodeClientKeyValue decodeClientKeyValue"
  "deterministic encodeClientKeyValue"
  "codec encodeGetDaemonInfoErrorValue decodeGetDaemonInfoErrorValue"
  "deterministic encodeGetDaemonInfoErrorValue"
  "codec encodeGetDaemonEnvironmentErrorValue decodeGetDaemonEnvironmentErrorValue"
  "deterministic encodeGetDaemonEnvironmentErrorValue"
  "codec encodeSubscribeClientsErrorValue decodeSubscribeClientsErrorValue"
  "deterministic encodeSubscribeClientsErrorValue"
  by ((rule codecI deterministicI, case_tac a; simp add: codec_defs codec_simps codec_laws)+)

lemma daemon_nested_codecs [codec_laws]:
  "codec encodeClientsTableEventValue decodeClientsTableEventValue"
  "deterministic encodeClientsTableEventValue"
  by ((rule codecI deterministicI, case_tac a; simp add: codec_defs codec_simps codec_laws)+)

text \<open>Absent fields get their defaults.\<close>

lemma daemon_absent_fields:
  "decodeStartPairingReqValue (CMap []) = Inr defaultStartPairingReq"
  "decodeStartPairingResValue (CMap []) = Inr defaultStartPairingRes"
  "decodeCompletePairingReqValue (CMap []) = Inr defaultCompletePairingReq"
  "decodeCompletePairingResValue (CMap []) = Inr defaultCompletePairingRes"
  "decodeRenewClientCredentialResValue (CMap []) = Inr defaultRenewClientCredentialRes"
  "decodeDaemonInfoValue (CMap []) = Inr defaultDaemonInfo"
  "decodeDaemonEnvironmentValue (CMap []) = Inr defaultDaemonEnvironment"
  "decodeClientInfoValue (CMap []) = Inr defaultClientInfo"
  "decodeClientKeyValue (CMap []) = Inr defaultClientKey"
  "decodeStartPairingErrorValue (union_tuple 0 []) = Inr defaultStartPairingError"
  "decodeCompletePairingErrorValue (union_tuple 1 []) = Inr defaultCompletePairingError"
  "decodeRenewClientCredentialErrorValue (union_tuple 0 []) = Inr defaultRenewClientCredentialError"
  "decodeClientsTableEventValue (union_tuple 1 []) = Inr defaultClientsTableEvent"
  "decodeGetDaemonInfoErrorValue (union_tuple 0 []) = Inr defaultGetDaemonInfoError"
  "decodeGetDaemonEnvironmentErrorValue (union_tuple 0 []) = Inr defaultGetDaemonEnvironmentError"
  "decodeSubscribeClientsErrorValue (union_tuple 0 []) = Inr defaultSubscribeClientsError"
  by (simp_all add: codec_defs daemon_defaults fieldOrDefault_def optionalField_def)

end
