(* ===== verification/RpcSession.thy ===== *)
theory RpcSession
  imports Datagrams Machines RpcDaemon
begin

text \<open>
  \<open>web/src/state/rpc-session.ts\<close>: the controller that owns one RPC session per machine. The
  promise of a session is an entry of the list \<open>sessions\<close>, identified by its index; the code
  between two \<open>await\<close>s is one function on the controller, named after the event that resumes it.
  Callbacks that are registered on a promise run when it settles, in the order of their
  registration; they belong to the functions \<open>resolve\<close> and \<open>reject\<close>.
\<close>

section \<open>State\<close>

datatype DaemonInfoState = InfoIdle | InfoLoading | InfoReady DaemonInfo int | InfoError jstring

datatype ConnectionState = ConnIdle | Reachable "int option" | Offline

record RpcSessionState =
  connection :: ConnectionState
  daemonInfo :: DaemonInfoState

record ManagedRpcSession =
  authenticatedClientId :: "jstring option"
  datagrams :: DatagramRuntime
  credentialRenewalStarted :: bool
  transport_open :: bool

text \<open>
  How far \<open>openRpcSession\<close> has come, and what waits for its promise: \<open>close_on_open\<close> is the
  callback of \<open>closeRpcSession\<close>, \<open>initial_wait\<close> an \<open>openInitialSession\<close>, \<open>refresh_wait\<close> a
  \<open>refreshDaemonInfoForCurrentMachine\<close>. \<open>renew_for\<close> is the machine \<open>renewCredential\<close> has read.
  A session is \<open>Opened\<close> from the moment its transport is until it is authenticated.
\<close>

datatype open_phase = Connecting | Opened | Renewing | Ready | Rejected

record session_promise =
  opened_for :: Machine
  phase :: open_phase
  managed :: "ManagedRpcSession option"
  renew_for :: "Machine option"
  close_on_open :: bool
  initial_wait :: bool
  refresh_wait :: bool

record controller =
  c_closed :: bool
  pairingStarted :: bool
  rpcSession :: "nat option"
  sessions :: "session_promise list"
  rpc_state :: RpcSessionState
  current_machine :: "Machine option"
  refreshes :: nat

definition initialRpcSessionState :: RpcSessionState where
  "initialRpcSessionState = \<lparr>connection = ConnIdle, daemonInfo = InfoIdle\<rparr>"

definition update_session :: "nat \<Rightarrow> (session_promise \<Rightarrow> session_promise) \<Rightarrow> controller \<Rightarrow> controller" where
  "update_session n f c = c\<lparr>sessions := (sessions c)[n := f (sessions c ! n)]\<rparr>"

definition setConnectionOffline :: "controller \<Rightarrow> controller" where
  "setConnectionOffline c = c\<lparr>rpc_state := \<lparr>connection = Offline, daemonInfo = InfoIdle\<rparr>\<rparr>"

definition setDaemonInfo :: "DaemonInfoState \<Rightarrow> controller \<Rightarrow> controller" where
  "setDaemonInfo i c = c\<lparr>rpc_state := (rpc_state c)\<lparr>daemonInfo := i\<rparr>\<rparr>"

definition setDatagramRtt :: "int \<Rightarrow> controller \<Rightarrow> controller" where
  "setDatagramRtt rtt c =
     (case connection (rpc_state c) of
        Reachable _ \<Rightarrow> c\<lparr>rpc_state := (rpc_state c)\<lparr>connection := Reachable (Some rtt)\<rparr>\<rparr>
      | _ \<Rightarrow> c)"

section \<open>Managed sessions\<close>

definition manageRpcSession :: "int \<Rightarrow> ManagedRpcSession" where
  "manageRpcSession now =
     \<lparr>authenticatedClientId = None, datagrams = snd (startDatagramRuntime now),
      credentialRenewalStarted = False, transport_open = True\<rparr>"

definition closeManagedRpcSession :: "ManagedRpcSession \<Rightarrow> ManagedRpcSession" where
  "closeManagedRpcSession m =
     m\<lparr>datagrams := closeDatagramRuntime (datagrams m), transport_open := False\<rparr>"

definition close_session :: "nat \<Rightarrow> controller \<Rightarrow> controller" where
  "close_session n = update_session n (\<lambda>s. s\<lparr>managed := map_option closeManagedRpcSession (managed s)\<rparr>)"

definition getRpcSession :: "controller \<Rightarrow> nat result \<times> controller" where
  "getRpcSession c =
     (case rpcSession c of
        Some n \<Rightarrow> (Inr n, c)
      | None \<Rightarrow>
          (case current_machine c of
             None \<Rightarrow> (throw ''missing machine'', c)
           | Some m \<Rightarrow>
               (Inr (length (sessions c)),
                c\<lparr>sessions := sessions c @ [\<lparr>opened_for = m, phase = Connecting, managed = None,
                    renew_for = None, close_on_open = False, initial_wait = False,
                    refresh_wait = False\<rparr>],
                  rpcSession := Some (length (sessions c))\<rparr>)))"

definition openInitialSession :: "controller \<Rightarrow> controller" where
  "openInitialSession c =
     (case getRpcSession c of
        (Inl _, c) \<Rightarrow> if c_closed c then c else setConnectionOffline c
      | (Inr n, c) \<Rightarrow> update_session n (\<lambda>s. s\<lparr>initial_wait := True\<rparr>) c)"

definition createRpcSessionController :: "Machine option \<Rightarrow> controller" where
  "createRpcSessionController m =
     openInitialSession \<lparr>c_closed = False, pairingStarted = False, rpcSession = None, sessions = [],
       rpc_state = initialRpcSessionState, current_machine = m, refreshes = 0\<rparr>"

definition handleTransportClosed :: "controller \<Rightarrow> controller" where
  "handleTransportClosed c = (if c_closed c then c else setConnectionOffline c)"

text \<open>The callback on \<open>transport.closed\<close> that \<open>getRpcSession\<close> registers on an opened session.\<close>

definition on_transport_closed :: "nat \<Rightarrow> controller \<Rightarrow> controller" where
  "on_transport_closed n c =
     (if rpcSession c \<noteq> Some n \<or> c_closed c then c
      else handleTransportClosed (c\<lparr>rpcSession := None\<rparr>))"

definition is_open :: "session_promise \<Rightarrow> bool" where
  "is_open s = (case managed s of None \<Rightarrow> False | Some m \<Rightarrow> transport_open m)"

text \<open>The promise of session \<open>n\<close> rejects: \<open>getRpcSession\<close>'s handler, then the waiting calls.\<close>

definition reject :: "nat \<Rightarrow> js_error \<Rightarrow> controller \<Rightarrow> controller" where
  "reject n err c =
     (let s = sessions c ! n;
          c = update_session n (\<lambda>s. s\<lparr>phase := Rejected\<rparr>) c;
          c = (if rpcSession c = Some n then
                 (let c = c\<lparr>rpcSession := None\<rparr> in if c_closed c then c else setConnectionOffline c)
               else c);
          c = (if initial_wait s \<and> \<not> c_closed c then setConnectionOffline c else c)
      in if refresh_wait s \<and> \<not> c_closed c then setDaemonInfo (InfoError (err_message err)) c else c)"

text \<open>The promise of session \<open>n\<close> fulfils.\<close>

definition resolve :: "nat \<Rightarrow> controller \<Rightarrow> controller" where
  "resolve n c =
     (let c = update_session n (\<lambda>s. s\<lparr>phase := Ready\<rparr>) c;
          c = (if close_on_open (sessions c ! n) then close_session n c else c);
          c = (if refresh_wait (sessions c ! n) \<and> \<not> c_closed c then c\<lparr>refreshes := refreshes c + 1\<rparr> else c)
      in if is_open (sessions c ! n) then c else on_transport_closed n c)"

section \<open>Opening a session\<close>

definition has_credentials :: "Machine \<Rightarrow> bool" where
  "has_credentials m \<longleftrightarrow> truthy (m_clientId m) \<and> truthy (m_clientSecret m)"

definition session_was_closed :: js_error where
  "session_was_closed = Error (js ''RPC session was closed'')"

text \<open>\<open>refreshDaemonInfoForCurrentMachine\<close> up to its first \<open>await\<close>, and the two ways it ends.\<close>

definition refresh_start :: "controller \<Rightarrow> controller" where
  "refresh_start c =
     (case getRpcSession c of
        (Inl err, c) \<Rightarrow> if c_closed c then c else setDaemonInfo (InfoError (err_message err)) c
      | (Inr k, c) \<Rightarrow>
          if phase (sessions c ! k) = Ready then c\<lparr>refreshes := refreshes c + 1\<rparr>
          else update_session k (\<lambda>s. s\<lparr>refresh_wait := True\<rparr>) c)"

definition refresh_ready :: "DaemonInfo \<Rightarrow> int \<Rightarrow> controller \<Rightarrow> controller" where
  "refresh_ready info now c =
     (let c = c\<lparr>refreshes := refreshes c - 1\<rparr> in
      if c_closed c then c else setDaemonInfo (InfoReady info now) c)"

definition refresh_failed :: "js_error \<Rightarrow> controller \<Rightarrow> controller" where
  "refresh_failed err c =
     (let c = c\<lparr>refreshes := refreshes c - 1\<rparr> in
      if c_closed c then c else setDaemonInfo (InfoError (err_message err)) c)"

definition finish_open :: "nat \<Rightarrow> controller \<Rightarrow> controller" where
  "finish_open n c =
     resolve n (refresh_start
       (c\<lparr>rpc_state := \<lparr>connection = Reachable None, daemonInfo = InfoLoading\<rparr>\<rparr>))"

definition connect_failed :: "nat \<Rightarrow> js_error \<Rightarrow> controller \<Rightarrow> controller" where
  "connect_failed n err c = reject n err c"

definition connected :: "nat \<Rightarrow> int \<Rightarrow> controller \<Rightarrow> controller" where
  "connected n now c =
     (let c = update_session n (\<lambda>s. s\<lparr>phase := Opened, managed := Some (manageRpcSession now)\<rparr>) c in
      if c_closed c then reject n session_was_closed (close_session n c)
      else if has_credentials (opened_for (sessions c ! n)) then c
      else finish_open n c)"

definition auth_failed :: "nat \<Rightarrow> js_error \<Rightarrow> controller \<Rightarrow> controller" where
  "auth_failed n err c = reject n err (close_session n c)"

text \<open>The end of \<open>authenticateManagedSessionWithCredential\<close>: the client id is remembered and the
  renewal loop started.\<close>

definition authenticated_as :: "jstring \<Rightarrow> session_promise \<Rightarrow> session_promise" where
  "authenticated_as clientId s =
     s\<lparr>managed := map_option (\<lambda>m. m\<lparr>authenticatedClientId := Some clientId,
       credentialRenewalStarted := True\<rparr>) (managed s)\<rparr>"

definition after_renewal :: "nat \<Rightarrow> controller \<Rightarrow> controller" where
  "after_renewal n c =
     (if c_closed c then reject n session_was_closed (close_session n c) else finish_open n c)"

definition authenticated :: "nat \<Rightarrow> controller \<Rightarrow> controller" where
  "authenticated n c =
     (let c = update_session n (authenticated_as (getOr (m_clientId (opened_for (sessions c ! n))) [])) c in
      if c_closed c then reject n session_was_closed (close_session n c)
      else case current_machine c of
        None \<Rightarrow> after_renewal n c
      | Some m \<Rightarrow>
          if has_credentials m then
            update_session n (\<lambda>s. s\<lparr>phase := Renewing, renew_for := Some m\<rparr>) c
          else after_renewal n c)"

text \<open>\<open>renewCredential\<close> after its RPC: \<open>expiry\<close> is the answer, \<open>None\<close> if the call failed.\<close>

definition apply_renewal :: "Machine \<Rightarrow> nat \<Rightarrow> int option \<Rightarrow> controller \<Rightarrow> controller" where
  "apply_renewal m n expiry c =
     (case expiry of
        None \<Rightarrow> c
      | Some e \<Rightarrow>
          if Option.bind (current_machine c) m_clientId =
               Option.bind (managed (sessions c ! n)) authenticatedClientId \<and>
             Option.bind (current_machine c) m_clientSecret = m_clientSecret m
          then c\<lparr>current_machine := map_option (\<lambda>m. m\<lparr>m_expiresAtUnix := Some e\<rparr>) (current_machine c)\<rparr>
          else c)"

definition renewed :: "nat \<Rightarrow> int option \<Rightarrow> controller \<Rightarrow> controller" where
  "renewed n expiry c =
     (case renew_for (sessions c ! n) of
        None \<Rightarrow> c
      | Some m \<Rightarrow> after_renewal n (apply_renewal m n expiry c))"

section \<open>Transports and datagrams\<close>

text \<open>The transport of session \<open>n\<close> closes: \<open>manageRpcSession\<close>'s callback ends the datagrams,
  \<open>getRpcSession\<close>'s forgets the session if it has been opened.\<close>

definition transport_closes :: "nat \<Rightarrow> controller \<Rightarrow> controller" where
  "transport_closes n c =
     (let c = close_session n c in
      if phase (sessions c ! n) = Ready then on_transport_closed n c else c)"

definition session_datagram :: "nat \<Rightarrow> int \<Rightarrow> bool \<Rightarrow> bytes \<Rightarrow> controller \<Rightarrow> controller" where
  "session_datagram n now writable bs c =
     (case managed (sessions c ! n) of
        None \<Rightarrow> c
      | Some m \<Rightarrow>
          let rt = handleIncomingDatagram now writable bs (datagrams m);
              reported = drop (length (rt_rtts (datagrams m))) (rt_rtts rt);
              c = update_session n (\<lambda>s. s\<lparr>managed := Some (m\<lparr>datagrams := rt\<rparr>)\<rparr>) c
          in foldl (\<lambda>c rtt. setDatagramRtt rtt c) c reported)"

section \<open>Operations\<close>

definition closeRpcSession :: "controller \<Rightarrow> controller" where
  "closeRpcSession c =
     (let current = rpcSession c;
          c = c\<lparr>pairingStarted := False, rpcSession := None\<rparr>;
          c = (case current of
                 None \<Rightarrow> c
               | Some n \<Rightarrow>
                   if phase (sessions c ! n) = Ready then close_session n c
                   else update_session n (\<lambda>s. s\<lparr>close_on_open := True\<rparr>) c)
      in if c_closed c then c else setConnectionOffline c)"

definition close :: "controller \<Rightarrow> controller" where
  "close c = (if c_closed c then c else closeRpcSession (c\<lparr>c_closed := True\<rparr>))"

definition reconnect :: "controller \<Rightarrow> controller" where
  "reconnect c = openInitialSession (closeRpcSession c)"

text \<open>\<open>webTransport\<close> up to the \<open>await\<close> of the session; then the session is authenticated unless it
  already is for this client.\<close>

definition authenticatedRpcSession :: "controller \<Rightarrow> nat result \<times> controller" where
  "authenticatedRpcSession c =
     (case current_machine c of
        None \<Rightarrow> (throw ''missing paired client credentials'', c)
      | Some m \<Rightarrow>
          if has_credentials m then getRpcSession c
          else (throw ''missing paired client credentials'', c))"

definition needs_authentication :: "nat \<Rightarrow> jstring \<Rightarrow> controller \<Rightarrow> bool" where
  "needs_authentication n clientId c \<longleftrightarrow>
     Option.bind (managed (sessions c ! n)) authenticatedClientId \<noteq> Some clientId"

definition session_authenticated :: "nat \<Rightarrow> jstring \<Rightarrow> controller \<Rightarrow> controller" where
  "session_authenticated n clientId c =
     (if needs_authentication n clientId c then update_session n (authenticated_as clientId) c else c)"

definition isControllerRpcSession :: "nat \<Rightarrow> controller \<Rightarrow> bool" where
  "isControllerRpcSession n c \<longleftrightarrow> \<not> c_closed c \<and> rpcSession c = Some n"

text \<open>\<open>withControllerRpcSession\<close> once its session is opened: go on with \<open>run\<close>, or close it.\<close>

definition withControllerRpcSession :: "nat \<Rightarrow> controller \<Rightarrow> unit result \<times> controller" where
  "withControllerRpcSession n c =
     (if isControllerRpcSession n c then (Inr (), c)
      else (throw ''Pairing was not started on this connection'', close_session n c))"

definition startPairingSession :: "controller \<Rightarrow> nat result \<times> controller" where
  "startPairingSession c =
     (if current_machine c = None then (throw ''missing machine'', c)
      else getRpcSession (c\<lparr>pairingStarted := False\<rparr>))"

definition pairing_answered :: "controller \<Rightarrow> controller" where
  "pairing_answered c = c\<lparr>pairingStarted := True\<rparr>"

definition completePairingSession :: "controller \<Rightarrow> nat result" where
  "completePairingSession c =
     (case (pairingStarted c, rpcSession c) of
        (True, Some n) \<Rightarrow> Inr n
      | _ \<Rightarrow> throw ''Pairing was not started on this connection'')"

section \<open>Derived values\<close>

definition daemonInstanceId :: "RpcSessionState \<Rightarrow> jstring option" where
  "daemonInstanceId st =
     (case daemonInfo st of InfoReady info _ \<Rightarrow> Some (di_instanceId info) | _ \<Rightarrow> None)"

definition daemonServerTimeMs :: "int \<Rightarrow> RpcSessionState \<Rightarrow> int option" where
  "daemonServerTimeMs now st =
     (case daemonInfo st of
        InfoReady info receivedAtMs \<Rightarrow>
          if di_serverTimeMs info \<le> 0 then None
          else Some (di_serverTimeMs info + max 0 (now - receivedAtMs))
      | _ \<Rightarrow> None)"

definition daemonUptimeSeconds :: "int \<Rightarrow> RpcSessionState \<Rightarrow> int option" where
  "daemonUptimeSeconds now st =
     (case daemonInfo st of
        InfoReady info _ \<Rightarrow>
          if di_startedAtMs info \<le> 0 then None
          else map_option (\<lambda>t. max 0 ((t - di_startedAtMs info) div 1000)) (daemonServerTimeMs now st)
      | _ \<Rightarrow> None)"


section \<open>The session slot of \<open>rpcSessionBunja\<close>\<close>

definition instantiateController :: "jstring option \<Rightarrow> Machine option \<Rightarrow> controller option" where
  "instantiateController machineId machine =
     (if \<not> truthy machineId \<or> machine = None then None else Some (createRpcSessionController machine))"

text \<open>The slot and the controllers taken out of it, closed.\<close>

record controller_slot =
  activeController :: "controller option"
  disposed :: "controller list"

definition disposeController :: "controller_slot \<Rightarrow> controller_slot" where
  "disposeController sl =
     (case activeController sl of
        None \<Rightarrow> sl
      | Some c \<Rightarrow> sl\<lparr>activeController := None, disposed := close c # disposed sl\<rparr>)"

definition replaceController :: "jstring option \<Rightarrow> Machine option \<Rightarrow> controller_slot \<Rightarrow> controller_slot" where
  "replaceController machineId machine sl =
     (disposeController sl)\<lparr>activeController := instantiateController machineId machine\<rparr>"

definition active_or_new ::
    "jstring option \<Rightarrow> Machine option \<Rightarrow> controller_slot \<Rightarrow> controller result \<times> controller_slot" where
  "active_or_new machineId machine sl =
     (case activeController sl of
        Some c \<Rightarrow> (Inr c, sl)
      | None \<Rightarrow>
          (case instantiateController machineId machine of
             None \<Rightarrow> (throw ''missing machine'', sl)
           | Some c \<Rightarrow> (Inr c, sl\<lparr>activeController := Some c\<rparr>)))"

section \<open>Runs of a controller\<close>

text \<open>
  What can happen next: a call of the interface, the end of an \<open>await\<close> of a session in the phase
  the \<open>await\<close> belongs to, a datagram, the end of a transport, or a change of the stored machine.
\<close>

inductive rpc_step :: "controller \<Rightarrow> controller \<Rightarrow> bool" where
  do_close: "rpc_step c (close c)"
| do_closeSession: "rpc_step c (closeRpcSession c)"
| do_reconnect: "rpc_step c (reconnect c)"
| do_webTransport: "rpc_step c (snd (authenticatedRpcSession c))"
| do_startPairing: "rpc_step c (snd (startPairingSession c))"
| do_withSession: "n < length (sessions c) \<Longrightarrow> phase (sessions c ! n) = Ready \<Longrightarrow>
    rpc_step c (snd (withControllerRpcSession n c))"
| do_pairingAnswered: "rpc_step c (pairing_answered c)"
| do_connectFailed: "n < length (sessions c) \<Longrightarrow> phase (sessions c ! n) = Connecting \<Longrightarrow>
    rpc_step c (connect_failed n err c)"
| do_connected: "n < length (sessions c) \<Longrightarrow> phase (sessions c ! n) = Connecting \<Longrightarrow>
    rpc_step c (connected n now c)"
| do_authFailed: "n < length (sessions c) \<Longrightarrow> phase (sessions c ! n) = Opened \<Longrightarrow>
    rpc_step c (auth_failed n err c)"
| do_authenticated: "n < length (sessions c) \<Longrightarrow> phase (sessions c ! n) = Opened \<Longrightarrow>
    rpc_step c (authenticated n c)"
| do_renewed: "n < length (sessions c) \<Longrightarrow> phase (sessions c ! n) = Renewing \<Longrightarrow>
    rpc_step c (renewed n expiry c)"
| do_sessionAuthenticated: "n < length (sessions c) \<Longrightarrow> phase (sessions c ! n) = Ready \<Longrightarrow>
    rpc_step c (session_authenticated n clientId c)"
| do_renewalTick: "n < length (sessions c) \<Longrightarrow> rpc_step c (apply_renewal m n expiry c)"
| do_refreshReady: "0 < refreshes c \<Longrightarrow> rpc_step c (refresh_ready info now c)"
| do_refreshFailed: "0 < refreshes c \<Longrightarrow> rpc_step c (refresh_failed err c)"
| do_transportCloses: "n < length (sessions c) \<Longrightarrow> rpc_step c (transport_closes n c)"
| do_datagram: "n < length (sessions c) \<Longrightarrow> rpc_step c (session_datagram n now writable bs c)"
| do_machine: "rpc_step c (c\<lparr>current_machine := m'\<rparr>)"

inductive rpc_reachable :: "controller \<Rightarrow> bool" where
  rpc_created: "rpc_reachable (createRpcSessionController m)"
| rpc_then: "rpc_reachable c \<Longrightarrow> rpc_step c c' \<Longrightarrow> rpc_reachable c'"

section \<open>The invariant of the sessions\<close>

text \<open>
  One entry, given the current session and whether the controller is closed: an open transport
  belongs to the current session or to one that is still being opened, and a session that is
  being opened without being current will be closed.
\<close>

definition entry_ok :: "nat option \<Rightarrow> bool \<Rightarrow> nat \<Rightarrow> session_promise \<Rightarrow> bool" where
  "entry_ok cur over n s \<longleftrightarrow>
     (phase s = Ready \<and> is_open s \<longrightarrow> cur = Some n \<and> \<not> over) \<and>
     (phase s = Rejected \<or> phase s = Connecting \<longrightarrow> \<not> is_open s) \<and>
     (phase s \<noteq> Ready \<and> phase s \<noteq> Rejected \<and> cur \<noteq> Some n \<longrightarrow> close_on_open s) \<and>
     (cur = Some n \<longrightarrow> \<not> close_on_open s \<and> phase s \<noteq> Rejected)"

definition rpc_ok :: "controller \<Rightarrow> bool" where
  "rpc_ok c \<longleftrightarrow> (\<forall>n. rpcSession c = Some n \<longrightarrow> n < length (sessions c)) \<and>
     (\<forall>n < length (sessions c). entry_ok (rpcSession c) (c_closed c) n (sessions c ! n))"

lemma rpc_ok_fields [simp]:
  "rpc_ok (c\<lparr>rpc_state := x\<rparr>) = rpc_ok c" "rpc_ok (c\<lparr>current_machine := m\<rparr>) = rpc_ok c"
  "rpc_ok (c\<lparr>refreshes := k\<rparr>) = rpc_ok c" "rpc_ok (c\<lparr>pairingStarted := b\<rparr>) = rpc_ok c"
  by (simp_all add: rpc_ok_def)

lemma rpc_ok_setters [simp]:
  "rpc_ok (setConnectionOffline c) = rpc_ok c" "rpc_ok (setDaemonInfo i c) = rpc_ok c"
  "rpc_ok (setDatagramRtt r c) = rpc_ok c"
  by (simp_all add: setConnectionOffline_def setDaemonInfo_def setDatagramRtt_def
      split: ConnectionState.split)

lemma setter_fields [simp]:
  "sessions (setConnectionOffline c) = sessions c" "rpcSession (setConnectionOffline c) = rpcSession c"
  "c_closed (setConnectionOffline c) = c_closed c" "current_machine (setConnectionOffline c) = current_machine c"
  "sessions (setDaemonInfo i c) = sessions c" "rpcSession (setDaemonInfo i c) = rpcSession c"
  "c_closed (setDaemonInfo i c) = c_closed c"
  "rpc_state (setConnectionOffline c) = \<lparr>connection = Offline, daemonInfo = InfoIdle\<rparr>"
  by (simp_all add: setConnectionOffline_def setDaemonInfo_def)

lemma update_fields [simp]:
  "rpcSession (update_session n f c) = rpcSession c" "c_closed (update_session n f c) = c_closed c"
  "rpc_state (update_session n f c) = rpc_state c"
  "current_machine (update_session n f c) = current_machine c"
  "length (sessions (update_session n f c)) = length (sessions c)"
  by (simp_all add: update_session_def)

lemma sessions_update:
  "n < length (sessions c) \<Longrightarrow>
   sessions (update_session n f c) ! k = (if k = n then f (sessions c ! n) else sessions c ! k)"
  by (simp add: update_session_def nth_list_update)

lemma update_ok:
  "rpc_ok c \<Longrightarrow> n < length (sessions c) \<Longrightarrow>
   entry_ok (rpcSession c) (c_closed c) n (f (sessions c ! n)) \<Longrightarrow> rpc_ok (update_session n f c)"
  by (simp add: rpc_ok_def sessions_update)

lemma is_open_fields [simp]:
  "is_open (s\<lparr>phase := p\<rparr>) = is_open s" "is_open (s\<lparr>renew_for := m\<rparr>) = is_open s"
  "is_open (s\<lparr>close_on_open := b\<rparr>) = is_open s" "is_open (s\<lparr>initial_wait := b\<rparr>) = is_open s"
  "is_open (s\<lparr>refresh_wait := b\<rparr>) = is_open s"
  by (simp_all add: is_open_def)

lemma closed_transport [simp]: "\<not> transport_open (closeManagedRpcSession m)"
  by (simp add: closeManagedRpcSession_def)

lemma is_open_managed: "is_open (s\<lparr>managed := x\<rparr>) = (case x of None \<Rightarrow> False | Some m \<Rightarrow> transport_open m)"
  by (simp add: is_open_def)

lemma is_open_closed [simp]: "\<not> is_open (s\<lparr>managed := map_option closeManagedRpcSession x\<rparr>)"
  by (simp add: is_open_def closeManagedRpcSession_def split: option.split)

lemma rpc_okD: "rpc_ok c \<Longrightarrow> n < length (sessions c) \<Longrightarrow> entry_ok (rpcSession c) (c_closed c) n (sessions c ! n)"
  by (simp add: rpc_ok_def)

lemma entry_closed:
  "entry_ok cur over n s \<Longrightarrow> entry_ok cur over n (s\<lparr>managed := map_option closeManagedRpcSession (managed s)\<rparr>)"
  by (simp add: entry_ok_def)

text \<open>Another session becomes the current one, or none is.\<close>

lemma entry_other: "entry_ok None over n s \<Longrightarrow> k \<noteq> n \<Longrightarrow> entry_ok (Some k) over n s"
  by (simp add: entry_ok_def)

lemma entry_none: "entry_ok (Some k) over n s \<Longrightarrow> k \<noteq> n \<Longrightarrow> entry_ok None over' n s"
  by (simp add: entry_ok_def)

lemma close_session_ok: "rpc_ok c \<Longrightarrow> n < length (sessions c) \<Longrightarrow> rpc_ok (close_session n c)"
  unfolding close_session_def by (rule update_ok) (simp_all add: entry_closed rpc_okD)

lemma close_session_fields [simp]:
  "rpcSession (close_session n c) = rpcSession c" "c_closed (close_session n c) = c_closed c"
  "rpc_state (close_session n c) = rpc_state c" "length (sessions (close_session n c)) = length (sessions c)"
  "current_machine (close_session n c) = current_machine c"
  by (simp_all add: close_session_def)

lemma getRpcSession_cases:
  obtains n where "rpcSession c = Some n" "getRpcSession c = (Inr n, c)"
  | "rpcSession c = None" "current_machine c = None" "getRpcSession c = (throw ''missing machine'', c)"
  | s m where "rpcSession c = None" "current_machine c = Some m" "phase s = Connecting" "managed s = None"
      "\<not> close_on_open s" "opened_for s = m" "\<not> initial_wait s" "\<not> refresh_wait s"
      "getRpcSession c = (Inr (length (sessions c)),
         c\<lparr>sessions := sessions c @ [s], rpcSession := Some (length (sessions c))\<rparr>)"
proof (cases "rpcSession c")
  case None
  note none = this
  show ?thesis
  proof (cases "current_machine c")
    case None
    with none that(2) show ?thesis by (simp add: getRpcSession_def)
  next
    case (Some m)
    with none show ?thesis by (intro that(3)) (simp_all add: getRpcSession_def)
  qed
next
  case (Some n)
  with that(1) show ?thesis by (simp add: getRpcSession_def)
qed

lemma append_current_ok:
  assumes "rpc_ok c" "rpcSession c = None" "phase s = Connecting" "managed s = None" "\<not> close_on_open s"
  shows "rpc_ok (c\<lparr>sessions := sessions c @ [s], rpcSession := Some (length (sessions c))\<rparr>)"
proof -
  have "entry_ok (Some (length (sessions c))) (c_closed c) n ((sessions c @ [s]) ! n)"
    if "n < Suc (length (sessions c))" for n
  proof (cases "n = length (sessions c)")
    case True
    with assms show ?thesis by (simp add: entry_ok_def is_open_def)
  next
    case False
    with that have n: "n < length (sessions c)" by simp
    with rpc_okD [OF assms(1) n] assms(2) show ?thesis by (simp add: nth_append entry_other)
  qed
  then show ?thesis by (simp add: rpc_ok_def)
qed

lemma getRpcSession_ok: "rpc_ok c \<Longrightarrow> rpc_ok (snd (getRpcSession c))"
  by (rule getRpcSession_cases [of c]) (simp_all add: append_current_ok)

lemma getRpcSession_fields [simp]:
  "c_closed (snd (getRpcSession c)) = c_closed c" "rpc_state (snd (getRpcSession c)) = rpc_state c"
  "refreshes (snd (getRpcSession c)) = refreshes c" "length (sessions c) \<le> length (sessions (snd (getRpcSession c)))"
  by (rule getRpcSession_cases [of c]; simp)+

lemma getRpcSession_current: "getRpcSession c = (Inr n, c') \<Longrightarrow> rpcSession c' = Some n"
  by (rule getRpcSession_cases [of c]) (auto simp: throw_def)

lemma getRpcSession_old: "k < length (sessions c) \<Longrightarrow> sessions (snd (getRpcSession c)) ! k = sessions c ! k"
  by (rule getRpcSession_cases [of c]) (auto simp: nth_append)

lemma getRpcSession_keeps: "rpcSession c = Some n \<Longrightarrow> snd (getRpcSession c) = c"
  by (simp add: getRpcSession_def)

section \<open>Every step keeps the invariant\<close>

lemma initial_wait_ok: "entry_ok cur over n s \<Longrightarrow> entry_ok cur over n (s\<lparr>initial_wait := b\<rparr>)"
  by (simp add: entry_ok_def is_open_def)

lemma refresh_wait_ok: "entry_ok cur over n s \<Longrightarrow> entry_ok cur over n (s\<lparr>refresh_wait := b\<rparr>)"
  by (simp add: entry_ok_def is_open_def)

lemma openInitialSession_ok:
  assumes "rpc_ok c"
  shows "rpc_ok (openInitialSession c)"
proof -
  obtain r c' where g: "getRpcSession c = (r, c')" by fastforce
  have ok: "rpc_ok c'" using getRpcSession_ok [OF assms] g by simp
  show ?thesis
  proof (cases r)
    case (Inr n)
    with g have "rpcSession c' = Some n" by (simp add: getRpcSession_current)
    then have n: "n < length (sessions c')" using ok by (simp add: rpc_ok_def)
    show ?thesis
      using g Inr ok n by (simp add: openInitialSession_def update_ok initial_wait_ok rpc_okD)
  qed (use g ok in \<open>simp add: openInitialSession_def\<close>)
qed

lemma refresh_start_ok:
  assumes "rpc_ok c"
  shows "rpc_ok (refresh_start c)"
proof -
  obtain r c' where g: "getRpcSession c = (r, c')" by fastforce
  have ok: "rpc_ok c'" using getRpcSession_ok [OF assms] g by simp
  show ?thesis
  proof (cases r)
    case (Inr n)
    with g have "rpcSession c' = Some n" by (simp add: getRpcSession_current)
    then have n: "n < length (sessions c')" using ok by (simp add: rpc_ok_def)
    show ?thesis
      using g Inr ok n by (simp add: refresh_start_def update_ok refresh_wait_ok rpc_okD)
  qed (use g ok in \<open>simp add: refresh_start_def\<close>)
qed


lemma rpc_ok_cong:
  "sessions c = sessions d \<Longrightarrow> rpcSession c = rpcSession d \<Longrightarrow> c_closed c = c_closed d \<Longrightarrow> rpc_ok c = rpc_ok d"
  by (simp add: rpc_ok_def)

lemma forget_ok:
  assumes "rpc_ok c" "n < length (sessions c)" "rpcSession c = Some n"
    "entry_ok None (c_closed c) n (sessions c ! n)"
  shows "rpc_ok (c\<lparr>rpcSession := None\<rparr>)"
proof -
  have "entry_ok None (c_closed c) k (sessions c ! k)" if k: "k < length (sessions c)" for k
  proof (cases "k = n")
    case False
    with rpc_okD [OF assms(1) k] assms(3) show ?thesis by (simp add: entry_none)
  qed (use assms(4) in simp)
  then show ?thesis by (simp add: rpc_ok_def)
qed

lemma on_transport_closed_ok:
  assumes "rpc_ok c" "n < length (sessions c)" "\<not> is_open (sessions c ! n)" "phase (sessions c ! n) = Ready"
  shows "rpc_ok (on_transport_closed n c)"
proof (cases "rpcSession c = Some n \<and> \<not> c_closed c")
  case True
  have "entry_ok None (c_closed c) n (sessions c ! n)" using assms(3,4) by (simp add: entry_ok_def)
  with True have "rpc_ok (c\<lparr>rpcSession := None\<rparr>)" using assms(1,2) by (simp add: forget_ok)
  with True show ?thesis by (simp add: on_transport_closed_def handleTransportClosed_def)
qed (use assms(1) in \<open>auto simp: on_transport_closed_def\<close>)

lemma reject_fields:
  "sessions (reject n err c) = sessions (update_session n (\<lambda>s. s\<lparr>phase := Rejected\<rparr>) c)"
  "rpcSession (reject n err c) = (if rpcSession c = Some n then None else rpcSession c)"
  "c_closed (reject n err c) = c_closed c"
  by (simp_all add: reject_def Let_def)

lemma reject_ok:
  assumes "rpc_ok c" "n < length (sessions c)" "\<not> is_open (sessions c ! n)"
  shows "rpc_ok (reject n err c)"
proof -
  have "entry_ok (rpcSession (reject n err c)) (c_closed c) k (sessions (reject n err c) ! k)"
    if k: "k < length (sessions c)" for k
  proof (cases "k = n")
    case True
    with assms(2,3) show ?thesis by (simp add: reject_fields sessions_update entry_ok_def is_open_def)
  next
    case False
    from rpc_okD [OF assms(1) k] False show ?thesis
      using assms(2) entry_none by (auto simp: reject_fields sessions_update)
  qed
  moreover have "m < length (sessions c)" if "rpcSession (reject n err c) = Some m" for m
    using that assms(1) by (auto simp: reject_fields rpc_ok_def split: if_splits)
  ultimately show ?thesis by (simp add: rpc_ok_def reject_fields(1,3))
qed

lemma resolve_ok:
  assumes "rpc_ok c" "n < length (sessions c)" "phase (sessions c ! n) \<noteq> Ready" "phase (sessions c ! n) \<noteq> Rejected"
    "\<not> c_closed c"
  shows "rpc_ok (resolve n c)"
proof -
  define c1 where "c1 = update_session n (\<lambda>s. s\<lparr>phase := Ready\<rparr>) c"
  define c2 where "c2 = (if close_on_open (sessions c1 ! n) then close_session n c1 else c1)"
  define c3 where "c3 = (if refresh_wait (sessions c2 ! n) \<and> \<not> c_closed c2 then c2\<lparr>refreshes := refreshes c2 + 1\<rparr> else c2)"
  let ?s = "sessions c ! n"
  have old: "entry_ok (rpcSession c) (c_closed c) n ?s" by (rule rpc_okD [OF assms(1,2)])
  have c2: "rpc_ok c2 \<and> phase (sessions c2 ! n) = Ready \<and> n < length (sessions c2)"
  proof (cases "close_on_open ?s")
    case True
    then have "c2 = update_session n (\<lambda>s. s\<lparr>phase := Ready, managed := map_option closeManagedRpcSession (managed s)\<rparr>) c"
      using assms(2) by (simp add: c2_def c1_def close_session_def update_session_def)
    moreover have "rpc_ok \<dots>"
      using assms(1,2) old True by (intro update_ok) (auto simp: entry_ok_def)
    ultimately show ?thesis using assms(2) by (simp add: sessions_update)
  next
    case False
    then have "c2 = update_session n (\<lambda>s. s\<lparr>phase := Ready\<rparr>) c"
      using assms(2) by (simp add: c2_def c1_def sessions_update)
    moreover have "rpc_ok \<dots>"
      using assms old False by (intro update_ok) (simp_all add: entry_ok_def is_open_def)
    ultimately show ?thesis using assms(2) by (simp add: sessions_update)
  qed
  then have c3: "rpc_ok c3 \<and> phase (sessions c3 ! n) = Ready \<and> n < length (sessions c3)" by (simp add: c3_def)
  have "resolve n c = (if is_open (sessions c3 ! n) then c3 else on_transport_closed n c3)"
    by (simp add: resolve_def c1_def c2_def c3_def Let_def)
  with c3 show ?thesis by (simp add: on_transport_closed_ok)
qed

lemma refresh_start_fields:
  shows refresh_start_closed [simp]: "c_closed (refresh_start c) = c_closed c"
    and refresh_start_length: "length (sessions c) \<le> length (sessions (refresh_start c))"
    and refresh_start_phase: "n < length (sessions c) \<Longrightarrow>
      phase (sessions (refresh_start c) ! n) = phase (sessions c ! n)"
proof -
  obtain r c' where g: "getRpcSession c = (r, c')" by fastforce
  have old: "c_closed c' = c_closed c" "length (sessions c) \<le> length (sessions c')"
    "n < length (sessions c) \<Longrightarrow> sessions c' ! n = sessions c ! n"
    using getRpcSession_fields [of c] getRpcSession_old [of n c] g by simp_all
  have upd: "phase (sessions (update_session k (\<lambda>s. s\<lparr>refresh_wait := True\<rparr>) c') ! n) = phase (sessions c' ! n)" for k
    by (cases "k < length (sessions c')") (auto simp: update_session_def nth_list_update list_update_beyond)
  show "c_closed (refresh_start c) = c_closed c"
    using g old by (simp add: refresh_start_def split: sum.split)
  show "length (sessions c) \<le> length (sessions (refresh_start c))"
    using g old by (simp add: refresh_start_def split: sum.split)
  show "n < length (sessions c) \<Longrightarrow> phase (sessions (refresh_start c) ! n) = phase (sessions c ! n)"
    using g old upd by (simp add: refresh_start_def split: sum.split)
qed

lemma finish_open_ok:
  assumes "rpc_ok c" "n < length (sessions c)" "phase (sessions c ! n) \<noteq> Ready" "phase (sessions c ! n) \<noteq> Rejected"
    "\<not> c_closed c"
  shows "rpc_ok (finish_open n c)"
proof -
  let ?c = "c\<lparr>rpc_state := \<lparr>connection = Reachable None, daemonInfo = InfoLoading\<rparr>\<rparr>"
  have "n < length (sessions (refresh_start ?c))"
    using assms(2) refresh_start_length [of ?c] by simp
  with assms show ?thesis unfolding finish_open_def
    by (intro resolve_ok) (simp_all add: refresh_start_ok refresh_start_phase)
qed

lemma closed_entry: "n < length (sessions c) \<Longrightarrow> \<not> is_open (sessions (close_session n c) ! n)"
  by (simp add: close_session_def sessions_update)

lemma close_reject_ok: "rpc_ok c \<Longrightarrow> n < length (sessions c) \<Longrightarrow> rpc_ok (reject n err (close_session n c))"
  by (simp add: reject_ok close_session_ok closed_entry)

lemma after_renewal_ok:
  "rpc_ok c \<Longrightarrow> n < length (sessions c) \<Longrightarrow> phase (sessions c ! n) \<noteq> Ready \<Longrightarrow>
   phase (sessions c ! n) \<noteq> Rejected \<Longrightarrow> rpc_ok (after_renewal n c)"
  by (simp add: after_renewal_def close_reject_ok finish_open_ok)

lemma apply_renewal_fields [simp]:
  "sessions (apply_renewal m n e c) = sessions c" "rpcSession (apply_renewal m n e c) = rpcSession c"
  "c_closed (apply_renewal m n e c) = c_closed c" "rpc_state (apply_renewal m n e c) = rpc_state c"
  by (simp_all add: apply_renewal_def split: option.split)

lemma apply_renewal_ok [simp]: "rpc_ok (apply_renewal m n e c) = rpc_ok c"
  by (rule rpc_ok_cong) simp_all

lemma connected_ok:
  assumes ok: "rpc_ok c" and n: "n < length (sessions c)" and p: "phase (sessions c ! n) = Connecting"
  shows "rpc_ok (connected n now c)"
proof -
  let ?c = "update_session n (\<lambda>s. s\<lparr>phase := Opened, managed := Some (manageRpcSession now)\<rparr>) c"
  have "rpc_ok ?c" using rpc_okD [OF ok n] p ok n by (intro update_ok) (auto simp: entry_ok_def)
  then show ?thesis
    using n by (simp add: connected_def Let_def close_reject_ok finish_open_ok sessions_update)
qed

lemma authenticated_as_ok: "entry_ok cur over n s \<Longrightarrow> entry_ok cur over n (authenticated_as cid s)"
  by (cases "managed s") (simp_all add: authenticated_as_def entry_ok_def is_open_def)

lemma authenticated_ok:
  assumes ok: "rpc_ok c" and n: "n < length (sessions c)" and p: "phase (sessions c ! n) = Opened"
  shows "rpc_ok (authenticated n c)"
proof -
  define cid where "cid = getOr (m_clientId (opened_for (sessions c ! n))) []"
  let ?c = "update_session n (authenticated_as cid) c"
  have c: "rpc_ok ?c" "phase (sessions ?c ! n) = Opened"
    using ok n p by (auto intro!: update_ok authenticated_as_ok rpc_okD simp: sessions_update authenticated_as_def)
  have "entry_ok cur over n (s\<lparr>phase := Renewing, renew_for := m\<rparr>)"
    if "entry_ok cur over n s" "phase s = Opened" for cur over s m
    using that by (simp add: entry_ok_def is_open_def)
  then have "rpc_ok (update_session n (\<lambda>s. s\<lparr>phase := Renewing, renew_for := m\<rparr>) ?c)" for m
    using c n rpc_okD [OF c(1), of n] by (intro update_ok [OF c(1)]) simp_all
  then show ?thesis
    using c n unfolding authenticated_def cid_def [symmetric] Let_def
    by (simp add: close_reject_ok after_renewal_ok split: option.split)
qed

lemma closeRpcSession_ok:
  assumes "rpc_ok c"
  shows "rpc_ok (closeRpcSession c)"
proof -
  let ?c = "c\<lparr>pairingStarted := False, rpcSession := None\<rparr>"
  define d where "d = (case rpcSession c of None \<Rightarrow> ?c | Some n \<Rightarrow>
    if phase (sessions ?c ! n) = Ready then close_session n ?c
    else update_session n (\<lambda>s. s\<lparr>close_on_open := True\<rparr>) ?c)"
  have "rpc_ok d"
  proof (cases "rpcSession c")
    case None
    have "rpc_ok ?c = rpc_ok c" using None by (intro rpc_ok_cong) simp_all
    with None assms show ?thesis by (simp add: d_def)
  next
    case (Some n)
    then have n: "n < length (sessions c)" using assms by (simp add: rpc_ok_def)
    let ?f = "\<lambda>s. if phase s = Ready then s\<lparr>managed := map_option closeManagedRpcSession (managed s)\<rparr>
      else s\<lparr>close_on_open := True\<rparr>"
    let ?g = "update_session n ?f c"
    have d: "sessions d = sessions ?g" "rpcSession d = None" "c_closed d = c_closed c"
      using Some by (simp_all add: d_def close_session_def update_session_def)
    have "entry_ok None (c_closed c) k (sessions ?g ! k)" if "k < length (sessions c)" for k
      using rpc_okD [OF assms that] Some n
      by (cases "k = n") (auto simp: sessions_update entry_ok_def)
    then show ?thesis using d by (simp add: rpc_ok_def)
  qed
  then show ?thesis by (simp add: closeRpcSession_def Let_def d_def)
qed

lemma close_ok: "rpc_ok c \<Longrightarrow> rpc_ok (close c)"
proof -
  assume ok: "rpc_ok c"
  show ?thesis
  proof (cases "c_closed c")
    case False
    have "sessions (closeRpcSession (c\<lparr>c_closed := True\<rparr>)) = sessions (closeRpcSession c)"
      "rpcSession (closeRpcSession (c\<lparr>c_closed := True\<rparr>)) = None" "rpcSession (closeRpcSession c) = None"
      by (simp_all add: closeRpcSession_def Let_def close_session_def update_session_def split: option.split)
    with closeRpcSession_ok [OF ok] show ?thesis
      using False by (auto simp: close_def rpc_ok_def entry_ok_def)
  qed (use ok in \<open>simp add: close_def\<close>)
qed

lemma foldl_rtt [simp]:
  "rpc_ok (foldl (\<lambda>c rtt. setDatagramRtt rtt c) c rs) = rpc_ok c"
  by (induction rs arbitrary: c) simp_all

lemma session_datagram_ok: "rpc_ok c \<Longrightarrow> n < length (sessions c) \<Longrightarrow> rpc_ok (session_datagram n now w bs c)"
proof -
  assume ok: "rpc_ok c" and n: "n < length (sessions c)"
  have "entry_ok cur over n (s\<lparr>managed := Some (m\<lparr>datagrams := rt\<rparr>)\<rparr>)"
    if "entry_ok cur over n s" "managed s = Some m" for cur over s m rt
    using that by (simp add: entry_ok_def is_open_def)
  with ok n show ?thesis
    by (auto simp: session_datagram_def Let_def rpc_okD intro!: update_ok split: option.split)
qed

lemma transport_closes_ok: "rpc_ok c \<Longrightarrow> n < length (sessions c) \<Longrightarrow> rpc_ok (transport_closes n c)"
  by (simp add: transport_closes_def Let_def close_session_ok on_transport_closed_ok closed_entry)

lemma step_rpc_ok: "rpc_step c c' \<Longrightarrow> rpc_ok c \<Longrightarrow> rpc_ok c'"
proof (induction rule: rpc_step.induct)
  case (do_webTransport c)
  then show ?case by (simp add: authenticatedRpcSession_def getRpcSession_ok split: option.split)
next
  case (do_startPairing c)
  then show ?case by (simp add: startPairingSession_def getRpcSession_ok)
next
  case (do_connectFailed n c err)
  then have "\<not> is_open (sessions c ! n)" using rpc_okD [of c n] by (simp add: entry_ok_def)
  with do_connectFailed show ?case by (simp add: connect_failed_def reject_ok)
next
  case (do_renewed n c expiry)
  then show ?case by (simp add: renewed_def after_renewal_ok split: option.split)
next
  case (do_sessionAuthenticated n c clientId)
  then show ?case by (simp add: session_authenticated_def update_ok authenticated_as_ok rpc_okD)
qed (simp_all add: close_ok closeRpcSession_ok reconnect_def openInitialSession_ok
    withControllerRpcSession_def close_session_ok pairing_answered_def connected_ok auth_failed_def
    close_reject_ok authenticated_ok refresh_ready_def refresh_failed_def Let_def
    transport_closes_ok session_datagram_ok)

lemma created_rpc_ok: "rpc_ok (createRpcSessionController m)"
  unfolding createRpcSessionController_def by (rule openInitialSession_ok) (simp add: rpc_ok_def)

lemma reachable_rpc_ok: "rpc_reachable c \<Longrightarrow> rpc_ok c"
  by (induction rule: rpc_reachable.induct) (auto intro: created_rpc_ok step_rpc_ok)


section \<open>What the controller promises\<close>

text \<open>
  (C17) No transport is leaked: in every state a controller reaches, an open transport belongs to
  the current session, or to a session still being opened that will be closed once it is; a
  closed controller has no opened session with an open transport.
\<close>

theorem no_leaked_transport:
  assumes "rpc_reachable c" "n < length (sessions c)" "is_open (sessions c ! n)"
  shows "(phase (sessions c ! n) = Ready \<longrightarrow> rpcSession c = Some n \<and> \<not> c_closed c) \<and>
    (phase (sessions c ! n) \<noteq> Ready \<longrightarrow> (phase (sessions c ! n) = Opened \<or> phase (sessions c ! n) = Renewing) \<and>
      (rpcSession c = Some n \<or> close_on_open (sessions c ! n)))"
  using rpc_okD [OF reachable_rpc_ok [OF assms(1)] assms(2)] assms(3)
  by (cases "phase (sessions c ! n)") (auto simp: entry_ok_def)

definition plain_machine :: Machine where
  "plain_machine = \<lparr>m_id = js ''m'', m_name = js ''Box'', m_baseUrl = js ''https://box:9012'',
     m_clientId = None, m_clientSecret = None, m_expiresAtUnix = None\<rparr>"

lemma plain_no_credentials: "\<not> has_credentials plain_machine"
  by (simp add: has_credentials_def plain_machine_def truthy_def)

definition one_session :: controller where
  "one_session = connected 0 0 (createRpcSessionController (Some plain_machine))"

lemmas rpc_eval = createRpcSessionController_def openInitialSession_def getRpcSession_def
  update_session_def connected_def finish_open_def refresh_start_def resolve_def Let_def
  plain_no_credentials manageRpcSession_def is_open_def

lemma created_plain: "createRpcSessionController (Some plain_machine) =
  \<lparr>c_closed = False, pairingStarted = False, rpcSession = Some 0,
   sessions = [\<lparr>opened_for = plain_machine, phase = Connecting, managed = None, renew_for = None,
     close_on_open = False, initial_wait = True, refresh_wait = False\<rparr>],
   rpc_state = initialRpcSessionState, current_machine = Some plain_machine, refreshes = 0\<rparr>"
  by (simp add: rpc_eval)

lemma one_session: "one_session =
  \<lparr>c_closed = False, pairingStarted = False, rpcSession = Some 0,
   sessions = [\<lparr>opened_for = plain_machine, phase = Ready, managed = Some (manageRpcSession 0),
     renew_for = None, close_on_open = False, initial_wait = True, refresh_wait = True\<rparr>],
   rpc_state = \<lparr>connection = Reachable None, daemonInfo = InfoLoading\<rparr>,
   current_machine = Some plain_machine, refreshes = 1\<rparr>"
  by (simp add: one_session_def created_plain rpc_eval)

lemma one_session_reachable: "rpc_reachable one_session"
  unfolding one_session_def
  by (rule rpc_then [OF rpc_created do_connected]) (simp_all add: created_plain)

theorem no_leaked_transport_witness:
  "rpcSession one_session = Some 0 \<and> is_open (sessions one_session ! 0)"
proof -
  have o: "is_open (sessions one_session ! 0)" by (simp add: one_session is_open_def manageRpcSession_def)
  moreover have "phase (sessions one_session ! 0) = Ready" by (simp add: one_session)
  ultimately show ?thesis
    using no_leaked_transport [OF one_session_reachable _ o] by (simp add: one_session)
qed

text \<open>What a closed controller shows, up to the round-trip time of a reachable connection.\<close>

definition shows_same :: "RpcSessionState \<Rightarrow> RpcSessionState \<Rightarrow> bool" where
  "shows_same a b \<longleftrightarrow> daemonInfo b = daemonInfo a \<and>
     (connection b = connection a \<or> (\<exists>x y. connection a = Reachable x \<and> connection b = Reachable y))"

lemma shows_same_refl [simp]: "shows_same a a"
  by (simp add: shows_same_def)

lemma shows_same_trans: "shows_same a b \<Longrightarrow> shows_same b d \<Longrightarrow> shows_same a d"
  unfolding shows_same_def by metis

lemma rtt_step: "shows_same (rpc_state c) (rpc_state (setDatagramRtt r c)) \<and> c_closed (setDatagramRtt r c) = c_closed c"
  by (cases "connection (rpc_state c)") (simp_all add: setDatagramRtt_def shows_same_def)

lemma rtt_shows_same: "shows_same (rpc_state c) (rpc_state (foldl (\<lambda>c rtt. setDatagramRtt rtt c) c rs)) \<and>
    c_closed (foldl (\<lambda>c rtt. setDatagramRtt rtt c) c rs) = c_closed c"
proof (induction rs rule: rev_induct)
  case (snoc r rs)
  then show ?case using rtt_step shows_same_trans by fastforce
qed simp

lemma reject_closed: "c_closed c \<Longrightarrow> rpc_state (reject n err c) = rpc_state c"
  by (simp add: reject_def Let_def)

lemma closeRpcSession_fields:
  "c_closed (closeRpcSession c) = c_closed c"
  "c_closed c \<Longrightarrow> rpc_state (closeRpcSession c) = rpc_state c"
  by (simp_all add: closeRpcSession_def Let_def close_session_def update_session_def split: option.split)

lemma openInitialSession_closed:
  "c_closed (openInitialSession c) = c_closed c \<and>
   (c_closed c \<longrightarrow> rpc_state (openInitialSession c) = rpc_state c)"
proof -
  obtain r c' where g: "getRpcSession c = (r, c')" by fastforce
  then show ?thesis
    using getRpcSession_fields(1,2) [of c] by (simp add: openInitialSession_def split: sum.split)
qed

text \<open>
  (C37) A closed controller stays closed, whatever its calls, sessions, timers and transports still do, and
  what it shows does not change any more, but for the round-trip time of a connection it shows as
  reachable: the information about the daemon and whether the machine is shown as idle, reachable or
  offline stay.
\<close>

theorem closed_controller_frozen:
  assumes "rpc_step c c'" "c_closed c"
  shows "c_closed c' \<and> shows_same (rpc_state c) (rpc_state c')"
  using assms
proof (induction rule: rpc_step.induct)
  case (do_datagram n c now w bs)
  then show ?case
    using rtt_shows_same [of "update_session n f c" for f]
    by (auto simp: session_datagram_def Let_def split: option.split)
next
  case (do_reconnect c)
  then show ?case
    using openInitialSession_closed [of "closeRpcSession c"]
    by (simp add: reconnect_def closeRpcSession_fields)
next
  case (do_authenticated n c)
  then show ?case by (simp add: authenticated_def Let_def reject_fields reject_closed)
next
  case (do_renewed n c expiry)
  then show ?case
    by (simp add: renewed_def after_renewal_def reject_fields reject_closed split: option.split)
qed (simp_all add: close_def closeRpcSession_fields authenticatedRpcSession_def startPairingSession_def
    withControllerRpcSession_def pairing_answered_def connect_failed_def connected_def auth_failed_def
    session_authenticated_def refresh_ready_def refresh_failed_def transport_closes_def
    on_transport_closed_def reject_fields reject_closed Let_def split: option.split)

theorem closed_controller_frozen_witness:
  "c_closed (reconnect (close one_session)) \<and>
   shows_same (rpc_state (close one_session)) (rpc_state (reconnect (close one_session)))"
proof -
  have "c_closed (close one_session)" by (simp add: close_def one_session closeRpcSession_fields)
  from closed_controller_frozen [OF do_reconnect this] show ?thesis .
qed

text \<open>
  A session that was given up marks the machine offline when it fails to connect, although
  another session is open by then: \<open>openInitialSession\<close> does not check that the session it waited
  for is still the current one.
\<close>

theorem stale_failure_marks_offline:
  assumes "n < length (sessions c)" "initial_wait (sessions c ! n)" "\<not> refresh_wait (sessions c ! n)"
    "rpcSession c = Some k" "k \<noteq> n" "\<not> c_closed c"
  shows "connection (rpc_state (connect_failed n err c)) = Offline \<and>
    rpcSession (connect_failed n err c) = Some k \<and> sessions (connect_failed n err c) ! k = sessions c ! k"
  using assms by (simp add: connect_failed_def reject_def Let_def sessions_update)

text \<open>The run: the first session is slow, the user reconnects, the second session opens, the
  first one fails.\<close>

definition two_sessions :: controller where
  "two_sessions = connected 1 0 (reconnect (createRpcSessionController (Some plain_machine)))"

lemma reconnect_plain: "reconnect (createRpcSessionController (Some plain_machine)) =
  \<lparr>c_closed = False, pairingStarted = False, rpcSession = Some 1,
   sessions = [\<lparr>opened_for = plain_machine, phase = Connecting, managed = None, renew_for = None,
       close_on_open = True, initial_wait = True, refresh_wait = False\<rparr>,
     \<lparr>opened_for = plain_machine, phase = Connecting, managed = None, renew_for = None,
       close_on_open = False, initial_wait = True, refresh_wait = False\<rparr>],
   rpc_state = \<lparr>connection = Offline, daemonInfo = InfoIdle\<rparr>,
   current_machine = Some plain_machine, refreshes = 0\<rparr>"
  by (simp add: reconnect_def closeRpcSession_def created_plain setConnectionOffline_def rpc_eval)

theorem stale_failure_marks_offline_witness:
  "rpc_reachable two_sessions \<and> connection (rpc_state two_sessions) = Reachable None \<and>
   is_open (sessions two_sessions ! 1) \<and>
   connection (rpc_state (connect_failed 0 (Error (js ''timeout'')) two_sessions)) = Offline"
proof -
  have two: "c_closed two_sessions = False" "rpcSession two_sessions = Some 1"
    "length (sessions two_sessions) = 2" "initial_wait (sessions two_sessions ! 0)"
    "\<not> refresh_wait (sessions two_sessions ! 0)" "is_open (sessions two_sessions ! 1)"
    "connection (rpc_state two_sessions) = Reachable None"
    unfolding two_sessions_def reconnect_plain by (simp_all add: rpc_eval)
  have "rpc_reachable two_sessions"
    unfolding two_sessions_def
    by (rule rpc_then [OF rpc_then [OF rpc_created do_reconnect] do_connected])
      (simp_all add: reconnect_plain)
  then show ?thesis
    using stale_failure_marks_offline [of 0 two_sessions 1 "Error (js ''timeout'')"] two by simp
qed

text \<open>
  Pairing survives the connection it was started on: after the transport has closed and the
  next call has opened another session, \<open>completePairingSession\<close> takes the new one instead of
  failing with ``Pairing was not started on this connection''.
\<close>

theorem pairing_survives_transport_loss:
  assumes "rpc_reachable c" "pairingStarted c" "rpcSession c = Some n" "phase (sessions c ! n) = Ready"
    "\<not> c_closed c" "current_machine c = Some m"
  shows "\<exists>k c'. getRpcSession (transport_closes n c) = (Inr k, c') \<and> k \<noteq> n \<and>
    completePairingSession (transport_closes n c) = throw ''Pairing was not started on this connection'' \<and>
    completePairingSession c' = Inr k"
proof -
  have n: "n < length (sessions c)" using reachable_rpc_ok [OF assms(1)] assms(3) by (simp add: rpc_ok_def)
  have closed: "transport_closes n c = setConnectionOffline ((close_session n c)\<lparr>rpcSession := None\<rparr>)"
    using assms n by (simp add: transport_closes_def Let_def close_session_def sessions_update
        on_transport_closed_def handleTransportClosed_def)
  have "pairingStarted (close_session n c) = pairingStarted c"
    by (simp add: close_session_def update_session_def)
  then show ?thesis
    using assms n unfolding closed
    by (simp add: getRpcSession_def completePairingSession_def setConnectionOffline_def)
qed

theorem pairing_survives_transport_loss_witness:
  "\<exists>k c'. getRpcSession (transport_closes 0 (pairing_answered one_session)) = (Inr k, c') \<and> k \<noteq> 0 \<and>
     completePairingSession c' = Inr k"
proof -
  have "rpc_reachable (pairing_answered one_session)"
    by (rule rpc_then [OF one_session_reachable do_pairingAnswered])
  from pairing_survives_transport_loss [OF this, of 0 plain_machine]
  show ?thesis by (auto simp: pairing_answered_def one_session)
qed

text \<open>The uptime shown is never negative and never runs backwards.\<close>

theorem uptime_monotone:
  assumes "daemonUptimeSeconds now st = Some u" "now \<le> later"
  shows "0 \<le> u \<and> (\<exists>v. daemonUptimeSeconds later st = Some v \<and> u \<le> v)"
proof (cases "daemonInfo st")
  case (InfoReady info received)
  let ?t = "\<lambda>now. di_serverTimeMs info + max 0 (now - received)"
  define shown where "shown t = max 0 ((?t t - di_startedAtMs info) div 1000)" for t
  have "0 < di_serverTimeMs info" "0 < di_startedAtMs info"
    using assms(1) InfoReady by (auto simp: daemonUptimeSeconds_def daemonServerTimeMs_def split: if_splits)
  then have s: "daemonUptimeSeconds t st = Some (shown t)" for t
    using InfoReady by (simp add: daemonUptimeSeconds_def daemonServerTimeMs_def shown_def)
  have "(?t now - di_startedAtMs info) div 1000 \<le> (?t later - di_startedAtMs info) div 1000"
    using assms(2) by (intro zdiv_mono1) auto
  then have "shown now \<le> shown later" unfolding shown_def by (rule max.mono [OF order_refl])
  moreover have "0 \<le> shown now" by (simp add: shown_def)
  ultimately show ?thesis using assms(1) by (simp add: s)
qed (use assms(1) in \<open>simp_all add: daemonUptimeSeconds_def\<close>)

theorem uptime_monotone_witness:
  "daemonUptimeSeconds 9500 \<lparr>connection = Reachable None, daemonInfo = InfoReady
     \<lparr>di_supportedProcIds = [], di_version = [], di_os = [], di_instanceId = [], di_startedAtMs = 1000,
      di_serverTimeMs = 5000\<rparr> 7000\<rparr> = Some 6 \<and>
   (\<exists>v. daemonUptimeSeconds 12000 \<lparr>connection = Reachable None, daemonInfo = InfoReady
     \<lparr>di_supportedProcIds = [], di_version = [], di_os = [], di_instanceId = [], di_startedAtMs = 1000,
      di_serverTimeMs = 5000\<rparr> 7000\<rparr> = Some v \<and> 6 \<le> v)"
proof -
  let ?st = "\<lparr>connection = Reachable None, daemonInfo = InfoReady
     \<lparr>di_supportedProcIds = [], di_version = [], di_os = [], di_instanceId = [], di_startedAtMs = 1000,
      di_serverTimeMs = 5000\<rparr> 7000\<rparr>"
  have six: "daemonUptimeSeconds 9500 ?st = Some 6"
    by (simp add: daemonUptimeSeconds_def daemonServerTimeMs_def)
  from uptime_monotone [OF this, of 12000] six show ?thesis by simp
qed

end
