(* ===== verification/RpcWindows.thy ===== *)
theory RpcWindows
  imports RpcCodec
begin

text \<open>
  Window listing and window details: the messages of \<open>subscribeWindows\<close> and
  \<open>subscribeWindowDetail\<close>.
  From \<open>web/src/protocol/generated/rpc.ts\<close>; the field names
  are the ones of the interfaces with a prefix per type, a variant of a union is a constructor, an
  optional field an \<open>option\<close>. Lengths, times and other numbers are \<open>int\<close>, as the codec takes any
  safe integer for them.
\<close>

section \<open>Types\<close>

record SubscribeWindowDetailReq =
  swdr_windowId :: jstring

record WindowInfo =
  wi_windowId :: jstring
  wi_title :: "jstring option"
  wi_processId :: "int option"
  wi_focused :: "bool option"

record WindowState =
  ws_visible :: "bool option"
  ws_minimized :: "bool option"
  ws_maximized :: "bool option"

record WindowBounds =
  wb_x :: int
  wb_y :: int
  wb_width :: int
  wb_height :: int

record WindowDetail =
  wd_info :: WindowInfo
  wd_state :: WindowState
  wd_bounds :: "WindowBounds option"

datatype WindowsTableEvent =
    WindowsSnapshot "WindowInfo list"
  | WindowsPatch "jstring list" "WindowInfo list"

datatype WindowDetailEvent =
    WindowDetailSnapshot WindowDetail
  | WindowDetailInfoChanged WindowInfo
  | WindowDetailStateChanged WindowState
  | WindowDetailBoundsChanged "WindowBounds option"
  | WindowDetailClosed

datatype SubscribeWindowsError =
    SubscribeWindowsFailed jstring
  | SubscribeWindowsUnsupported jstring
  | SubscribeWindowsPermissionDenied jstring

datatype SubscribeWindowDetailError =
    SubscribeWindowDetailFailed jstring
  | SubscribeWindowDetailNotFound jstring
  | SubscribeWindowDetailUnsupported jstring
  | SubscribeWindowDetailPermissionDenied jstring

section \<open>Defaults\<close>

definition defaultSubscribeWindowDetailReq :: SubscribeWindowDetailReq where
  "defaultSubscribeWindowDetailReq = \<lparr>swdr_windowId = []\<rparr>"

definition defaultWindowInfo :: WindowInfo where
  "defaultWindowInfo = \<lparr>wi_windowId = [], wi_title = None, wi_processId = None,
      wi_focused = None\<rparr>"

definition defaultWindowState :: WindowState where
  "defaultWindowState = \<lparr>ws_visible = None, ws_minimized = None,
      ws_maximized = None\<rparr>"

definition defaultWindowBounds :: WindowBounds where
  "defaultWindowBounds = \<lparr>wb_x = 0, wb_y = 0, wb_width = 0, wb_height = 0\<rparr>"

definition defaultWindowDetail :: WindowDetail where
  "defaultWindowDetail = \<lparr>wd_info = defaultWindowInfo, wd_state = defaultWindowState,
      wd_bounds = None\<rparr>"

definition defaultWindowsTableEvent :: WindowsTableEvent where
  "defaultWindowsTableEvent = WindowsSnapshot []"

definition defaultWindowDetailEvent :: WindowDetailEvent where
  "defaultWindowDetailEvent = WindowDetailSnapshot defaultWindowDetail"

definition defaultSubscribeWindowsError :: SubscribeWindowsError where
  "defaultSubscribeWindowsError = SubscribeWindowsFailed []"

definition defaultSubscribeWindowDetailError :: SubscribeWindowDetailError where
  "defaultSubscribeWindowDetailError = SubscribeWindowDetailFailed []"

section \<open>Encoders\<close>

definition encodeSubscribeWindowDetailReqValue :: "SubscribeWindowDetailReq \<Rightarrow> cbor_value result" where
  "encodeSubscribeWindowDetailReqValue value = encodeFields
     [field 1 cborText (swdr_windowId value)]"

definition encodeWindowInfoValue :: "WindowInfo \<Rightarrow> cbor_value result" where
  "encodeWindowInfoValue value = encodeFields
     [field 1 cborText (wi_windowId value), optional 2 cborText (wi_title value),
      optional 3 u53 (wi_processId value), optional 4 cborBool (wi_focused value)]"

definition encodeWindowStateValue :: "WindowState \<Rightarrow> cbor_value result" where
  "encodeWindowStateValue value = encodeFields
     [optional 1 cborBool (ws_visible value), optional 2 cborBool (ws_minimized value),
      optional 3 cborBool (ws_maximized value)]"

definition encodeWindowBoundsValue :: "WindowBounds \<Rightarrow> cbor_value result" where
  "encodeWindowBoundsValue value = encodeFields
     [field 1 i53 (wb_x value), field 2 i53 (wb_y value), field 3 u53 (wb_width value),
      field 4 u53 (wb_height value)]"

definition encodeWindowDetailValue :: "WindowDetail \<Rightarrow> cbor_value result" where
  "encodeWindowDetailValue value = encodeFields
     [field 1 encodeWindowInfoValue (wd_info value),
      field 2 encodeWindowStateValue (wd_state value),
      optional 3 encodeWindowBoundsValue (wd_bounds value)]"

primrec encodeWindowsTableEventValue :: "WindowsTableEvent \<Rightarrow> cbor_value result" where
  "encodeWindowsTableEventValue (WindowsSnapshot rows) =
     encodeVariant 1 [field 1 (encodeArray encodeWindowInfoValue) rows]"
| "encodeWindowsTableEventValue (WindowsPatch removes upserts) =
     encodeVariant 2 [field 1 (encodeArray cborText) removes,
       field 2 (encodeArray encodeWindowInfoValue) upserts]"

primrec encodeWindowDetailEventValue :: "WindowDetailEvent \<Rightarrow> cbor_value result" where
  "encodeWindowDetailEventValue (WindowDetailSnapshot detail) =
     encodeVariant 1 [field 1 encodeWindowDetailValue detail]"
| "encodeWindowDetailEventValue (WindowDetailInfoChanged info) =
     encodeVariant 2 [field 1 encodeWindowInfoValue info]"
| "encodeWindowDetailEventValue (WindowDetailStateChanged state) =
     encodeVariant 3 [field 1 encodeWindowStateValue state]"
| "encodeWindowDetailEventValue (WindowDetailBoundsChanged bounds) =
     encodeVariant 4 [optional 1 encodeWindowBoundsValue bounds]"
| "encodeWindowDetailEventValue WindowDetailClosed = encodeVariant 5 []"

primrec encodeSubscribeWindowsErrorValue :: "SubscribeWindowsError \<Rightarrow> cbor_value result" where
  "encodeSubscribeWindowsErrorValue (SubscribeWindowsFailed message) =
     encodeVariant 0 [field 1 cborText message]"
| "encodeSubscribeWindowsErrorValue (SubscribeWindowsUnsupported message) =
     encodeVariant 1 [field 1 cborText message]"
| "encodeSubscribeWindowsErrorValue (SubscribeWindowsPermissionDenied message) =
     encodeVariant 2 [field 1 cborText message]"

primrec encodeSubscribeWindowDetailErrorValue :: "SubscribeWindowDetailError \<Rightarrow> cbor_value result" where
  "encodeSubscribeWindowDetailErrorValue (SubscribeWindowDetailFailed message) =
     encodeVariant 0 [field 1 cborText message]"
| "encodeSubscribeWindowDetailErrorValue (SubscribeWindowDetailNotFound message) =
     encodeVariant 1 [field 1 cborText message]"
| "encodeSubscribeWindowDetailErrorValue (SubscribeWindowDetailUnsupported message) =
     encodeVariant 2 [field 1 cborText message]"
| "encodeSubscribeWindowDetailErrorValue (SubscribeWindowDetailPermissionDenied message) =
     encodeVariant 3 [field 1 cborText message]"

section \<open>Decoders\<close>

definition decodeSubscribeWindowDetailReqValue :: "cbor_value \<Rightarrow> SubscribeWindowDetailReq result" where
  "decodeSubscribeWindowDetailReqValue value =
     ebind (expectMap value) (\<lambda>fields.
     ebind (fieldOrDefault (map_of fields 1) textValue []) (\<lambda>windowId.
     Inr \<lparr>swdr_windowId = windowId\<rparr>))"

definition decodeWindowInfoValue :: "cbor_value \<Rightarrow> WindowInfo result" where
  "decodeWindowInfoValue value =
     ebind (expectMap value) (\<lambda>fields.
     ebind (fieldOrDefault (map_of fields 1) textValue []) (\<lambda>windowId.
     ebind (optionalField (map_of fields 2) textValue) (\<lambda>title.
     ebind (optionalField (map_of fields 3) integer) (\<lambda>processId.
     ebind (optionalField (map_of fields 4) boolValue) (\<lambda>focused.
     Inr \<lparr>wi_windowId = windowId, wi_title = title, wi_processId = processId,
           wi_focused = focused\<rparr>)))))"

definition decodeWindowStateValue :: "cbor_value \<Rightarrow> WindowState result" where
  "decodeWindowStateValue value =
     ebind (expectMap value) (\<lambda>fields.
     ebind (optionalField (map_of fields 1) boolValue) (\<lambda>visible.
     ebind (optionalField (map_of fields 2) boolValue) (\<lambda>minimized.
     ebind (optionalField (map_of fields 3) boolValue) (\<lambda>maximized.
     Inr \<lparr>ws_visible = visible, ws_minimized = minimized, ws_maximized = maximized\<rparr>))))"

definition decodeWindowBoundsValue :: "cbor_value \<Rightarrow> WindowBounds result" where
  "decodeWindowBoundsValue value =
     ebind (expectMap value) (\<lambda>fields.
     ebind (fieldOrDefault (map_of fields 1) integer 0) (\<lambda>x.
     ebind (fieldOrDefault (map_of fields 2) integer 0) (\<lambda>y.
     ebind (fieldOrDefault (map_of fields 3) integer 0) (\<lambda>width.
     ebind (fieldOrDefault (map_of fields 4) integer 0) (\<lambda>height.
     Inr \<lparr>wb_x = x, wb_y = y, wb_width = width, wb_height = height\<rparr>)))))"

definition decodeWindowDetailValue :: "cbor_value \<Rightarrow> WindowDetail result" where
  "decodeWindowDetailValue value =
     ebind (expectMap value) (\<lambda>fields.
     ebind (fieldOrDefault (map_of fields 1) decodeWindowInfoValue defaultWindowInfo) (\<lambda>info.
     ebind (fieldOrDefault (map_of fields 2) decodeWindowStateValue defaultWindowState) (\<lambda>state.
     ebind (optionalField (map_of fields 3) decodeWindowBoundsValue) (\<lambda>bounds.
     Inr \<lparr>wd_info = info, wd_state = state, wd_bounds = bounds\<rparr>))))"

definition decodeWindowsTableEventValue :: "cbor_value \<Rightarrow> WindowsTableEvent result" where
  "decodeWindowsTableEventValue value =
     ebind (expectUnion value) (\<lambda>(variantId, fields).
     if variantId = 1 then
       ebind (fieldOrDefault (map_of fields 1) (decodeArray decodeWindowInfoValue) []) (\<lambda>rows.
       Inr (WindowsSnapshot rows))
     else if variantId = 2 then
       ebind (fieldOrDefault (map_of fields 1) (decodeArray textValue) []) (\<lambda>removes.
       ebind (fieldOrDefault (map_of fields 2) (decodeArray decodeWindowInfoValue) []) (\<lambda>upserts.
       Inr (WindowsPatch removes upserts)))
     else throw (''unknown WindowsTableEvent variant '' @ show_int variantId))"

definition decodeWindowDetailEventValue :: "cbor_value \<Rightarrow> WindowDetailEvent result" where
  "decodeWindowDetailEventValue value =
     ebind (expectUnion value) (\<lambda>(variantId, fields).
     if variantId = 1 then
       ebind (fieldOrDefault (map_of fields 1) decodeWindowDetailValue defaultWindowDetail) (\<lambda>detail.
       Inr (WindowDetailSnapshot detail))
     else if variantId = 2 then
       ebind (fieldOrDefault (map_of fields 1) decodeWindowInfoValue defaultWindowInfo) (\<lambda>info.
       Inr (WindowDetailInfoChanged info))
     else if variantId = 3 then
       ebind (fieldOrDefault (map_of fields 1) decodeWindowStateValue defaultWindowState) (\<lambda>state.
       Inr (WindowDetailStateChanged state))
     else if variantId = 4 then
       ebind (optionalField (map_of fields 1) decodeWindowBoundsValue) (\<lambda>bounds.
       Inr (WindowDetailBoundsChanged bounds))
     else if variantId = 5 then Inr WindowDetailClosed
     else throw (''unknown WindowDetailEvent variant '' @ show_int variantId))"

definition decodeSubscribeWindowsErrorValue :: "cbor_value \<Rightarrow> SubscribeWindowsError result" where
  "decodeSubscribeWindowsErrorValue value =
     ebind (expectUnion value) (\<lambda>(variantId, fields).
     if variantId = 0 then
       ebind (fieldOrDefault (map_of fields 1) textValue []) (\<lambda>message.
       Inr (SubscribeWindowsFailed message))
     else if variantId = 1 then
       ebind (fieldOrDefault (map_of fields 1) textValue []) (\<lambda>message.
       Inr (SubscribeWindowsUnsupported message))
     else if variantId = 2 then
       ebind (fieldOrDefault (map_of fields 1) textValue []) (\<lambda>message.
       Inr (SubscribeWindowsPermissionDenied message))
     else throw (''unknown SubscribeWindowsError variant '' @ show_int variantId))"

definition decodeSubscribeWindowDetailErrorValue :: "cbor_value \<Rightarrow> SubscribeWindowDetailError result" where
  "decodeSubscribeWindowDetailErrorValue value =
     ebind (expectUnion value) (\<lambda>(variantId, fields).
     if variantId = 0 then
       ebind (fieldOrDefault (map_of fields 1) textValue []) (\<lambda>message.
       Inr (SubscribeWindowDetailFailed message))
     else if variantId = 1 then
       ebind (fieldOrDefault (map_of fields 1) textValue []) (\<lambda>message.
       Inr (SubscribeWindowDetailNotFound message))
     else if variantId = 2 then
       ebind (fieldOrDefault (map_of fields 1) textValue []) (\<lambda>message.
       Inr (SubscribeWindowDetailUnsupported message))
     else if variantId = 3 then
       ebind (fieldOrDefault (map_of fields 1) textValue []) (\<lambda>message.
       Inr (SubscribeWindowDetailPermissionDenied message))
     else throw (''unknown SubscribeWindowDetailError variant '' @ show_int variantId))"

section \<open>Laws\<close>

lemmas windows_defs [codec_defs] = encodeSubscribeWindowDetailReqValue_def
  encodeWindowInfoValue_def encodeWindowStateValue_def encodeWindowBoundsValue_def
  encodeWindowDetailValue_def decodeSubscribeWindowDetailReqValue_def decodeWindowInfoValue_def
  decodeWindowStateValue_def decodeWindowBoundsValue_def decodeWindowDetailValue_def
  decodeWindowsTableEventValue_def decodeWindowDetailEventValue_def
  decodeSubscribeWindowsErrorValue_def decodeSubscribeWindowDetailErrorValue_def

lemmas windows_defaults = defaultSubscribeWindowDetailReq_def defaultWindowInfo_def
  defaultWindowState_def defaultWindowBounds_def defaultWindowDetail_def
  defaultWindowsTableEvent_def defaultWindowDetailEvent_def defaultSubscribeWindowsError_def
  defaultSubscribeWindowDetailError_def

lemma windows_flat_codecs [codec_laws]:
  "codec encodeSubscribeWindowDetailReqValue decodeSubscribeWindowDetailReqValue"
  "deterministic encodeSubscribeWindowDetailReqValue"
  "codec encodeWindowInfoValue decodeWindowInfoValue"
  "deterministic encodeWindowInfoValue"
  "codec encodeWindowStateValue decodeWindowStateValue"
  "deterministic encodeWindowStateValue"
  "codec encodeWindowBoundsValue decodeWindowBoundsValue"
  "deterministic encodeWindowBoundsValue"
  "codec encodeSubscribeWindowsErrorValue decodeSubscribeWindowsErrorValue"
  "deterministic encodeSubscribeWindowsErrorValue"
  "codec encodeSubscribeWindowDetailErrorValue decodeSubscribeWindowDetailErrorValue"
  "deterministic encodeSubscribeWindowDetailErrorValue"
  by ((rule codecI deterministicI, case_tac a; simp add: codec_defs codec_simps codec_laws)+)

lemma windows_nested_codecs [codec_laws]:
  "codec encodeWindowDetailValue decodeWindowDetailValue"
  "deterministic encodeWindowDetailValue"
  "codec encodeWindowsTableEventValue decodeWindowsTableEventValue"
  "deterministic encodeWindowsTableEventValue"
  by ((rule codecI deterministicI, case_tac a; simp add: codec_defs codec_simps codec_laws)+)

lemma windows_outer_codecs [codec_laws]:
  "codec encodeWindowDetailEventValue decodeWindowDetailEventValue"
  "deterministic encodeWindowDetailEventValue"
  by ((rule codecI deterministicI, case_tac a; simp add: codec_defs codec_simps codec_laws)+)

text \<open>Absent fields get their defaults.\<close>

lemma windows_absent_fields:
  "decodeSubscribeWindowDetailReqValue (CMap []) = Inr defaultSubscribeWindowDetailReq"
  "decodeWindowInfoValue (CMap []) = Inr defaultWindowInfo"
  "decodeWindowStateValue (CMap []) = Inr defaultWindowState"
  "decodeWindowBoundsValue (CMap []) = Inr defaultWindowBounds"
  "decodeWindowDetailValue (CMap []) = Inr defaultWindowDetail"
  "decodeWindowsTableEventValue (union_tuple 1 []) = Inr defaultWindowsTableEvent"
  "decodeWindowDetailEventValue (union_tuple 1 []) = Inr defaultWindowDetailEvent"
  "decodeSubscribeWindowsErrorValue (union_tuple 0 []) = Inr defaultSubscribeWindowsError"
  "decodeSubscribeWindowDetailErrorValue (union_tuple 0 []) = Inr defaultSubscribeWindowDetailError"
  by (simp_all add: codec_defs windows_defaults fieldOrDefault_def optionalField_def)

end
