(* ===== verification/RpcProcesses.thy ===== *)
theory RpcProcesses
  imports RpcCodec
begin

text \<open>
  Processes: the list, the details of one process, the resources, sockets and modules it holds.
  From \<open>web/src/protocol/generated/rpc.ts\<close>; the field names
  are the ones of the interfaces with a prefix per type, a variant of a union is a constructor, an
  optional field an \<open>option\<close>. Lengths, times and other numbers are \<open>int\<close>, as the codec takes any
  safe integer for them.
\<close>

section \<open>Types\<close>

record SubscribeProcessDetailReq =
  spdr_pid :: int

record SubscribeProcessResourcesInUseReq =
  spriur_pid :: int

record SubscribeProcessSocketsInUseReq =
  spsiur_pid :: int

record SubscribeProcessModulesReq =
  spmr_pid :: int

datatype ProcessStatus =
    StatusIdle
  | StatusRun
  | StatusSleep
  | StatusStop
  | StatusZombie
  | StatusTracing
  | StatusDead
  | StatusWakekill
  | StatusWaking
  | StatusParked
  | StatusLockBlocked
  | StatusUninterruptibleDiskSleep
  | StatusSuspended
  | StatusUnknown int

record ProcessInfo =
  process_pid :: int
  process_ppid :: "int option"
  process_name :: jstring
  process_status :: ProcessStatus

record ProcessMetadata =
  pm_command :: "jstring list"
  pm_executablePath :: "jstring option"
  pm_cwd :: "jstring option"
  pm_startTimeUnix :: int

record ProcessIoUsage =
  piu_readBytes :: int
  piu_writtenBytes :: int
  piu_totalReadBytes :: int
  piu_totalWrittenBytes :: int

record ProcessResourceUsage =
  pru_memoryBytes :: int
  pru_virtualMemoryBytes :: int
  pru_cpuUsagePercent :: "64 word"
  pru_accumulatedCpuTimeMs :: int
  pru_ioUsage :: ProcessIoUsage

record ProcessDetail =
  pd_info :: ProcessInfo
  pd_metadata :: ProcessMetadata
  pd_usage :: ProcessResourceUsage

datatype ProcessesTableEvent =
    ProcessesSnapshot "ProcessInfo list"
  | ProcessesPatch "int list" "ProcessInfo list"

datatype ProcessDetailEvent =
    ProcessDetailSnapshot ProcessDetail
  | ProcessDetailInfoChanged ProcessInfo
  | ProcessDetailMetadataChanged ProcessMetadata
  | ProcessDetailUsageChanged ProcessResourceUsage
  | ProcessDetailExited

datatype ProcessResourceInUseKind = ResourceFile | ResourceDirectory | ResourceDevice |
    ResourceNamedPipe | ResourceAnonymousPipe | ResourceOther

primrec ProcessResourceInUseKind_id :: "ProcessResourceInUseKind \<Rightarrow> int" where
  "ProcessResourceInUseKind_id ResourceFile = 1"
| "ProcessResourceInUseKind_id ResourceDirectory = 2"
| "ProcessResourceInUseKind_id ResourceDevice = 3"
| "ProcessResourceInUseKind_id ResourceNamedPipe = 4"
| "ProcessResourceInUseKind_id ResourceAnonymousPipe = 5"
| "ProcessResourceInUseKind_id ResourceOther = 6"

record ProcessResourceInUseAccess =
  priua_read :: "bool option"
  priua_write :: "bool option"
  priua_execute :: "bool option"

record ProcessResourceInUseInfo =
  priui_resourceId :: jstring
  priui_kind :: ProcessResourceInUseKind
  priui_name :: "jstring option"
  priui_access :: "ProcessResourceInUseAccess option"
  priui_deleted :: "bool option"

datatype ProcessResourcesInUseTableEvent =
    ProcessResourcesInUseSnapshot "ProcessResourceInUseInfo list"
  | ProcessResourcesInUsePatch "jstring list" "ProcessResourceInUseInfo list"
  | ProcessResourcesInUseExited

datatype ProcessSocketInUseKind = SocketTcp | SocketUdp | SocketUnix | SocketRaw | SocketUnknown

datatype SocketEndpoint =
    EndpointIp jstring "int option"
  | EndpointUnix "jstring option" "jstring option"

record ProcessSocketInUseInfo =
  psiui_socketId :: jstring
  psiui_kind :: ProcessSocketInUseKind
  psiui_localEndpoint :: "SocketEndpoint option"
  psiui_remoteEndpoint :: "SocketEndpoint option"
  psiui_listening :: "bool option"

datatype ProcessSocketsInUseTableEvent =
    ProcessSocketsInUseSnapshot "ProcessSocketInUseInfo list"
  | ProcessSocketsInUsePatch "jstring list" "ProcessSocketInUseInfo list"
  | ProcessSocketsInUseExited

datatype ProcessModuleKind = ModuleExecutable | ModuleDynamicLibrary | ModuleUnknown

primrec ProcessModuleKind_id :: "ProcessModuleKind \<Rightarrow> int" where
  "ProcessModuleKind_id ModuleExecutable = 1"
| "ProcessModuleKind_id ModuleDynamicLibrary = 2"
| "ProcessModuleKind_id ModuleUnknown = 3"

record ProcessModuleInfo =
  pmi_moduleId :: jstring
  pmi_name :: jstring
  pmi_path :: "jstring option"
  pmi_kind :: ProcessModuleKind
  pmi_baseAddress :: "jstring option"
  pmi_sizeBytes :: "int option"
  pmi_version :: "jstring option"

datatype ProcessModulesTableEvent =
    ProcessModulesSnapshot "ProcessModuleInfo list"
  | ProcessModulesPatch "jstring list" "ProcessModuleInfo list"
  | ProcessModulesExited

datatype SubscribeProcessesError =
    SubscribeProcessesFailed jstring
  | SubscribeProcessesPermissionDenied jstring

datatype SubscribeProcessDetailError =
    SubscribeProcessDetailFailed jstring
  | SubscribeProcessDetailNotFound jstring
  | SubscribeProcessDetailPermissionDenied jstring

datatype SubscribeProcessResourcesInUseError =
    SubscribeProcessResourcesInUseFailed jstring
  | SubscribeProcessResourcesInUseNotFound jstring
  | SubscribeProcessResourcesInUsePermissionDenied jstring
  | SubscribeProcessResourcesInUseUnsupported jstring

datatype SubscribeProcessSocketsInUseError =
    SubscribeProcessSocketsInUseFailed jstring
  | SubscribeProcessSocketsInUseNotFound jstring
  | SubscribeProcessSocketsInUsePermissionDenied jstring
  | SubscribeProcessSocketsInUseUnsupported jstring

datatype SubscribeProcessModulesError =
    SubscribeProcessModulesFailed jstring
  | SubscribeProcessModulesNotFound jstring
  | SubscribeProcessModulesPermissionDenied jstring
  | SubscribeProcessModulesUnsupported jstring

section \<open>Defaults\<close>

definition defaultSubscribeProcessDetailReq :: SubscribeProcessDetailReq where
  "defaultSubscribeProcessDetailReq = \<lparr>spdr_pid = 0\<rparr>"

definition defaultSubscribeProcessResourcesInUseReq :: SubscribeProcessResourcesInUseReq where
  "defaultSubscribeProcessResourcesInUseReq = \<lparr>spriur_pid = 0\<rparr>"

definition defaultSubscribeProcessSocketsInUseReq :: SubscribeProcessSocketsInUseReq where
  "defaultSubscribeProcessSocketsInUseReq = \<lparr>spsiur_pid = 0\<rparr>"

definition defaultSubscribeProcessModulesReq :: SubscribeProcessModulesReq where
  "defaultSubscribeProcessModulesReq = \<lparr>spmr_pid = 0\<rparr>"

definition defaultProcessStatus :: ProcessStatus where
  "defaultProcessStatus = StatusIdle"

definition defaultProcessInfo :: ProcessInfo where
  "defaultProcessInfo = \<lparr>process_pid = 0, process_ppid = None, process_name = [],
      process_status = defaultProcessStatus\<rparr>"

definition defaultProcessMetadata :: ProcessMetadata where
  "defaultProcessMetadata = \<lparr>pm_command = [], pm_executablePath = None, pm_cwd = None,
      pm_startTimeUnix = 0\<rparr>"

definition defaultProcessIoUsage :: ProcessIoUsage where
  "defaultProcessIoUsage = \<lparr>piu_readBytes = 0, piu_writtenBytes = 0,
      piu_totalReadBytes = 0, piu_totalWrittenBytes = 0\<rparr>"

definition defaultProcessResourceUsage :: ProcessResourceUsage where
  "defaultProcessResourceUsage = \<lparr>pru_memoryBytes = 0, pru_virtualMemoryBytes = 0,
      pru_cpuUsagePercent = 0, pru_accumulatedCpuTimeMs = 0,
      pru_ioUsage = defaultProcessIoUsage\<rparr>"

definition defaultProcessDetail :: ProcessDetail where
  "defaultProcessDetail = \<lparr>pd_info = defaultProcessInfo,
      pd_metadata = defaultProcessMetadata, pd_usage = defaultProcessResourceUsage\<rparr>"

definition defaultProcessesTableEvent :: ProcessesTableEvent where
  "defaultProcessesTableEvent = ProcessesSnapshot []"

definition defaultProcessDetailEvent :: ProcessDetailEvent where
  "defaultProcessDetailEvent = ProcessDetailSnapshot defaultProcessDetail"

definition defaultProcessResourceInUseAccess :: ProcessResourceInUseAccess where
  "defaultProcessResourceInUseAccess = \<lparr>priua_read = None, priua_write = None,
      priua_execute = None\<rparr>"

definition defaultProcessResourceInUseInfo :: ProcessResourceInUseInfo where
  "defaultProcessResourceInUseInfo = \<lparr>priui_resourceId = [], priui_kind = ResourceFile,
      priui_name = None, priui_access = None, priui_deleted = None\<rparr>"

definition defaultProcessResourcesInUseTableEvent :: ProcessResourcesInUseTableEvent where
  "defaultProcessResourcesInUseTableEvent = ProcessResourcesInUseSnapshot []"

definition defaultProcessSocketInUseKind :: ProcessSocketInUseKind where
  "defaultProcessSocketInUseKind = SocketTcp"

definition defaultSocketEndpoint :: SocketEndpoint where
  "defaultSocketEndpoint = EndpointIp [] None"

definition defaultProcessSocketInUseInfo :: ProcessSocketInUseInfo where
  "defaultProcessSocketInUseInfo = \<lparr>psiui_socketId = [],
      psiui_kind = defaultProcessSocketInUseKind, psiui_localEndpoint = None,
      psiui_remoteEndpoint = None, psiui_listening = None\<rparr>"

definition defaultProcessSocketsInUseTableEvent :: ProcessSocketsInUseTableEvent where
  "defaultProcessSocketsInUseTableEvent = ProcessSocketsInUseSnapshot []"

definition defaultProcessModuleInfo :: ProcessModuleInfo where
  "defaultProcessModuleInfo = \<lparr>pmi_moduleId = [], pmi_name = [], pmi_path = None,
      pmi_kind = ModuleExecutable, pmi_baseAddress = None, pmi_sizeBytes = None,
      pmi_version = None\<rparr>"

definition defaultProcessModulesTableEvent :: ProcessModulesTableEvent where
  "defaultProcessModulesTableEvent = ProcessModulesSnapshot []"

definition defaultSubscribeProcessesError :: SubscribeProcessesError where
  "defaultSubscribeProcessesError = SubscribeProcessesFailed []"

definition defaultSubscribeProcessDetailError :: SubscribeProcessDetailError where
  "defaultSubscribeProcessDetailError = SubscribeProcessDetailFailed []"

definition defaultSubscribeProcessResourcesInUseError :: SubscribeProcessResourcesInUseError where
  "defaultSubscribeProcessResourcesInUseError = SubscribeProcessResourcesInUseFailed []"

definition defaultSubscribeProcessSocketsInUseError :: SubscribeProcessSocketsInUseError where
  "defaultSubscribeProcessSocketsInUseError = SubscribeProcessSocketsInUseFailed []"

definition defaultSubscribeProcessModulesError :: SubscribeProcessModulesError where
  "defaultSubscribeProcessModulesError = SubscribeProcessModulesFailed []"

section \<open>Encoders\<close>

definition encodeSubscribeProcessDetailReqValue :: "SubscribeProcessDetailReq \<Rightarrow> cbor_value result" where
  "encodeSubscribeProcessDetailReqValue value = encodeFields
     [field 1 u53 (spdr_pid value)]"

definition encodeSubscribeProcessResourcesInUseReqValue :: "SubscribeProcessResourcesInUseReq \<Rightarrow> cbor_value result" where
  "encodeSubscribeProcessResourcesInUseReqValue value = encodeFields
     [field 1 u53 (spriur_pid value)]"

definition encodeSubscribeProcessSocketsInUseReqValue :: "SubscribeProcessSocketsInUseReq \<Rightarrow> cbor_value result" where
  "encodeSubscribeProcessSocketsInUseReqValue value = encodeFields
     [field 1 u53 (spsiur_pid value)]"

definition encodeSubscribeProcessModulesReqValue :: "SubscribeProcessModulesReq \<Rightarrow> cbor_value result" where
  "encodeSubscribeProcessModulesReqValue value = encodeFields
     [field 1 u53 (spmr_pid value)]"

primrec encodeProcessStatusValue :: "ProcessStatus \<Rightarrow> cbor_value result" where
  "encodeProcessStatusValue StatusIdle = encodeVariant 1 []"
| "encodeProcessStatusValue StatusRun = encodeVariant 2 []"
| "encodeProcessStatusValue StatusSleep = encodeVariant 3 []"
| "encodeProcessStatusValue StatusStop = encodeVariant 4 []"
| "encodeProcessStatusValue StatusZombie = encodeVariant 5 []"
| "encodeProcessStatusValue StatusTracing = encodeVariant 6 []"
| "encodeProcessStatusValue StatusDead = encodeVariant 7 []"
| "encodeProcessStatusValue StatusWakekill = encodeVariant 8 []"
| "encodeProcessStatusValue StatusWaking = encodeVariant 9 []"
| "encodeProcessStatusValue StatusParked = encodeVariant 10 []"
| "encodeProcessStatusValue StatusLockBlocked = encodeVariant 11 []"
| "encodeProcessStatusValue StatusUninterruptibleDiskSleep = encodeVariant 12 []"
| "encodeProcessStatusValue StatusSuspended = encodeVariant 13 []"
| "encodeProcessStatusValue (StatusUnknown code) = encodeVariant 14 [field 1 u53 code]"

definition encodeProcessInfoValue :: "ProcessInfo \<Rightarrow> cbor_value result" where
  "encodeProcessInfoValue value = encodeFields
     [field 1 u53 (process_pid value), optional 2 u53 (process_ppid value),
      field 3 cborText (process_name value),
      field 4 encodeProcessStatusValue (process_status value)]"

definition encodeProcessMetadataValue :: "ProcessMetadata \<Rightarrow> cbor_value result" where
  "encodeProcessMetadataValue value = encodeFields
     [field 1 (encodeArray cborText) (pm_command value),
      optional 2 cborText (pm_executablePath value), optional 3 cborText (pm_cwd value),
      field 4 u53 (pm_startTimeUnix value)]"

definition encodeProcessIoUsageValue :: "ProcessIoUsage \<Rightarrow> cbor_value result" where
  "encodeProcessIoUsageValue value = encodeFields
     [field 1 u53 (piu_readBytes value), field 2 u53 (piu_writtenBytes value),
      field 3 u53 (piu_totalReadBytes value), field 4 u53 (piu_totalWrittenBytes value)]"

definition encodeProcessResourceUsageValue :: "ProcessResourceUsage \<Rightarrow> cbor_value result" where
  "encodeProcessResourceUsageValue value = encodeFields
     [field 1 u53 (pru_memoryBytes value), field 2 u53 (pru_virtualMemoryBytes value),
      field 3 cborF64 (pru_cpuUsagePercent value), field 4 u53 (pru_accumulatedCpuTimeMs value),
      field 5 encodeProcessIoUsageValue (pru_ioUsage value)]"

definition encodeProcessDetailValue :: "ProcessDetail \<Rightarrow> cbor_value result" where
  "encodeProcessDetailValue value = encodeFields
     [field 1 encodeProcessInfoValue (pd_info value),
      field 2 encodeProcessMetadataValue (pd_metadata value),
      field 3 encodeProcessResourceUsageValue (pd_usage value)]"

primrec encodeProcessesTableEventValue :: "ProcessesTableEvent \<Rightarrow> cbor_value result" where
  "encodeProcessesTableEventValue (ProcessesSnapshot rows) =
     encodeVariant 1 [field 1 (encodeArray encodeProcessInfoValue) rows]"
| "encodeProcessesTableEventValue (ProcessesPatch removePids upserts) =
     encodeVariant 2 [field 1 (encodeArray u53) removePids,
       field 2 (encodeArray encodeProcessInfoValue) upserts]"

primrec encodeProcessDetailEventValue :: "ProcessDetailEvent \<Rightarrow> cbor_value result" where
  "encodeProcessDetailEventValue (ProcessDetailSnapshot detail) =
     encodeVariant 1 [field 1 encodeProcessDetailValue detail]"
| "encodeProcessDetailEventValue (ProcessDetailInfoChanged info) =
     encodeVariant 2 [field 1 encodeProcessInfoValue info]"
| "encodeProcessDetailEventValue (ProcessDetailMetadataChanged metadata) =
     encodeVariant 3 [field 1 encodeProcessMetadataValue metadata]"
| "encodeProcessDetailEventValue (ProcessDetailUsageChanged usage) =
     encodeVariant 4 [field 1 encodeProcessResourceUsageValue usage]"
| "encodeProcessDetailEventValue ProcessDetailExited = encodeVariant 5 []"

definition encodeProcessResourceInUseKindValue :: "ProcessResourceInUseKind \<Rightarrow> cbor_value result" where
  "encodeProcessResourceInUseKindValue = encodeEnum ProcessResourceInUseKind_id"

definition encodeProcessResourceInUseAccessValue :: "ProcessResourceInUseAccess \<Rightarrow> cbor_value result" where
  "encodeProcessResourceInUseAccessValue value = encodeFields
     [optional 1 cborBool (priua_read value), optional 2 cborBool (priua_write value),
      optional 3 cborBool (priua_execute value)]"

definition encodeProcessResourceInUseInfoValue :: "ProcessResourceInUseInfo \<Rightarrow> cbor_value result" where
  "encodeProcessResourceInUseInfoValue value = encodeFields
     [field 1 cborText (priui_resourceId value),
      field 2 encodeProcessResourceInUseKindValue (priui_kind value),
      optional 3 cborText (priui_name value),
      optional 4 encodeProcessResourceInUseAccessValue (priui_access value),
      optional 5 cborBool (priui_deleted value)]"

primrec encodeProcessResourcesInUseTableEventValue :: "ProcessResourcesInUseTableEvent \<Rightarrow> cbor_value result" where
  "encodeProcessResourcesInUseTableEventValue (ProcessResourcesInUseSnapshot rows) =
     encodeVariant 1 [field 1 (encodeArray encodeProcessResourceInUseInfoValue) rows]"
| "encodeProcessResourcesInUseTableEventValue (ProcessResourcesInUsePatch removes upserts) =
     encodeVariant 2 [field 1 (encodeArray cborText) removes,
       field 2 (encodeArray encodeProcessResourceInUseInfoValue) upserts]"
| "encodeProcessResourcesInUseTableEventValue ProcessResourcesInUseExited = encodeVariant 3 []"

primrec encodeProcessSocketInUseKindValue :: "ProcessSocketInUseKind \<Rightarrow> cbor_value result" where
  "encodeProcessSocketInUseKindValue SocketTcp = encodeVariant 1 []"
| "encodeProcessSocketInUseKindValue SocketUdp = encodeVariant 2 []"
| "encodeProcessSocketInUseKindValue SocketUnix = encodeVariant 3 []"
| "encodeProcessSocketInUseKindValue SocketRaw = encodeVariant 4 []"
| "encodeProcessSocketInUseKindValue SocketUnknown = encodeVariant 5 []"

primrec encodeSocketEndpointValue :: "SocketEndpoint \<Rightarrow> cbor_value result" where
  "encodeSocketEndpointValue (EndpointIp address port) =
     encodeVariant 1 [field 1 cborText address, optional 2 u53 port]"
| "encodeSocketEndpointValue (EndpointUnix path name) =
     encodeVariant 2 [optional 1 cborText path, optional 2 cborText name]"

definition encodeProcessSocketInUseInfoValue :: "ProcessSocketInUseInfo \<Rightarrow> cbor_value result" where
  "encodeProcessSocketInUseInfoValue value = encodeFields
     [field 1 cborText (psiui_socketId value),
      field 2 encodeProcessSocketInUseKindValue (psiui_kind value),
      optional 3 encodeSocketEndpointValue (psiui_localEndpoint value),
      optional 4 encodeSocketEndpointValue (psiui_remoteEndpoint value),
      optional 5 cborBool (psiui_listening value)]"

primrec encodeProcessSocketsInUseTableEventValue :: "ProcessSocketsInUseTableEvent \<Rightarrow> cbor_value result" where
  "encodeProcessSocketsInUseTableEventValue (ProcessSocketsInUseSnapshot rows) =
     encodeVariant 1 [field 1 (encodeArray encodeProcessSocketInUseInfoValue) rows]"
| "encodeProcessSocketsInUseTableEventValue (ProcessSocketsInUsePatch removes upserts) =
     encodeVariant 2 [field 1 (encodeArray cborText) removes,
       field 2 (encodeArray encodeProcessSocketInUseInfoValue) upserts]"
| "encodeProcessSocketsInUseTableEventValue ProcessSocketsInUseExited = encodeVariant 3 []"

definition encodeProcessModuleKindValue :: "ProcessModuleKind \<Rightarrow> cbor_value result" where
  "encodeProcessModuleKindValue = encodeEnum ProcessModuleKind_id"

definition encodeProcessModuleInfoValue :: "ProcessModuleInfo \<Rightarrow> cbor_value result" where
  "encodeProcessModuleInfoValue value = encodeFields
     [field 1 cborText (pmi_moduleId value), field 2 cborText (pmi_name value),
      optional 3 cborText (pmi_path value), field 4 encodeProcessModuleKindValue (pmi_kind value),
      optional 5 cborText (pmi_baseAddress value), optional 6 u53 (pmi_sizeBytes value),
      optional 7 cborText (pmi_version value)]"

primrec encodeProcessModulesTableEventValue :: "ProcessModulesTableEvent \<Rightarrow> cbor_value result" where
  "encodeProcessModulesTableEventValue (ProcessModulesSnapshot rows) =
     encodeVariant 1 [field 1 (encodeArray encodeProcessModuleInfoValue) rows]"
| "encodeProcessModulesTableEventValue (ProcessModulesPatch removes upserts) =
     encodeVariant 2 [field 1 (encodeArray cborText) removes,
       field 2 (encodeArray encodeProcessModuleInfoValue) upserts]"
| "encodeProcessModulesTableEventValue ProcessModulesExited = encodeVariant 3 []"

primrec encodeSubscribeProcessesErrorValue :: "SubscribeProcessesError \<Rightarrow> cbor_value result" where
  "encodeSubscribeProcessesErrorValue (SubscribeProcessesFailed message) =
     encodeVariant 0 [field 1 cborText message]"
| "encodeSubscribeProcessesErrorValue (SubscribeProcessesPermissionDenied message) =
     encodeVariant 1 [field 1 cborText message]"

primrec encodeSubscribeProcessDetailErrorValue :: "SubscribeProcessDetailError \<Rightarrow> cbor_value result" where
  "encodeSubscribeProcessDetailErrorValue (SubscribeProcessDetailFailed message) =
     encodeVariant 0 [field 1 cborText message]"
| "encodeSubscribeProcessDetailErrorValue (SubscribeProcessDetailNotFound message) =
     encodeVariant 1 [field 1 cborText message]"
| "encodeSubscribeProcessDetailErrorValue (SubscribeProcessDetailPermissionDenied message) =
     encodeVariant 2 [field 1 cborText message]"

primrec encodeSubscribeProcessResourcesInUseErrorValue :: "SubscribeProcessResourcesInUseError \<Rightarrow> cbor_value result" where
  "encodeSubscribeProcessResourcesInUseErrorValue (SubscribeProcessResourcesInUseFailed message) =
     encodeVariant 0 [field 1 cborText message]"
| "encodeSubscribeProcessResourcesInUseErrorValue (SubscribeProcessResourcesInUseNotFound message) =
     encodeVariant 1 [field 1 cborText message]"
| "encodeSubscribeProcessResourcesInUseErrorValue (SubscribeProcessResourcesInUsePermissionDenied message) =
     encodeVariant 2 [field 1 cborText message]"
| "encodeSubscribeProcessResourcesInUseErrorValue (SubscribeProcessResourcesInUseUnsupported message) =
     encodeVariant 3 [field 1 cborText message]"

primrec encodeSubscribeProcessSocketsInUseErrorValue :: "SubscribeProcessSocketsInUseError \<Rightarrow> cbor_value result" where
  "encodeSubscribeProcessSocketsInUseErrorValue (SubscribeProcessSocketsInUseFailed message) =
     encodeVariant 0 [field 1 cborText message]"
| "encodeSubscribeProcessSocketsInUseErrorValue (SubscribeProcessSocketsInUseNotFound message) =
     encodeVariant 1 [field 1 cborText message]"
| "encodeSubscribeProcessSocketsInUseErrorValue (SubscribeProcessSocketsInUsePermissionDenied message) =
     encodeVariant 2 [field 1 cborText message]"
| "encodeSubscribeProcessSocketsInUseErrorValue (SubscribeProcessSocketsInUseUnsupported message) =
     encodeVariant 3 [field 1 cborText message]"

primrec encodeSubscribeProcessModulesErrorValue :: "SubscribeProcessModulesError \<Rightarrow> cbor_value result" where
  "encodeSubscribeProcessModulesErrorValue (SubscribeProcessModulesFailed message) =
     encodeVariant 0 [field 1 cborText message]"
| "encodeSubscribeProcessModulesErrorValue (SubscribeProcessModulesNotFound message) =
     encodeVariant 1 [field 1 cborText message]"
| "encodeSubscribeProcessModulesErrorValue (SubscribeProcessModulesPermissionDenied message) =
     encodeVariant 2 [field 1 cborText message]"
| "encodeSubscribeProcessModulesErrorValue (SubscribeProcessModulesUnsupported message) =
     encodeVariant 3 [field 1 cborText message]"

section \<open>Decoders\<close>

definition decodeSubscribeProcessDetailReqValue :: "cbor_value \<Rightarrow> SubscribeProcessDetailReq result" where
  "decodeSubscribeProcessDetailReqValue value =
     ebind (expectMap value) (\<lambda>fields.
     ebind (fieldOrDefault (map_of fields 1) integer 0) (\<lambda>pid.
     Inr \<lparr>spdr_pid = pid\<rparr>))"

definition decodeSubscribeProcessResourcesInUseReqValue :: "cbor_value \<Rightarrow> SubscribeProcessResourcesInUseReq result" where
  "decodeSubscribeProcessResourcesInUseReqValue value =
     ebind (expectMap value) (\<lambda>fields.
     ebind (fieldOrDefault (map_of fields 1) integer 0) (\<lambda>pid.
     Inr \<lparr>spriur_pid = pid\<rparr>))"

definition decodeSubscribeProcessSocketsInUseReqValue :: "cbor_value \<Rightarrow> SubscribeProcessSocketsInUseReq result" where
  "decodeSubscribeProcessSocketsInUseReqValue value =
     ebind (expectMap value) (\<lambda>fields.
     ebind (fieldOrDefault (map_of fields 1) integer 0) (\<lambda>pid.
     Inr \<lparr>spsiur_pid = pid\<rparr>))"

definition decodeSubscribeProcessModulesReqValue :: "cbor_value \<Rightarrow> SubscribeProcessModulesReq result" where
  "decodeSubscribeProcessModulesReqValue value =
     ebind (expectMap value) (\<lambda>fields.
     ebind (fieldOrDefault (map_of fields 1) integer 0) (\<lambda>pid.
     Inr \<lparr>spmr_pid = pid\<rparr>))"

definition decodeProcessStatusValue :: "cbor_value \<Rightarrow> ProcessStatus result" where
  "decodeProcessStatusValue value =
     ebind (expectUnion value) (\<lambda>(variantId, fields).
     if variantId = 1 then Inr StatusIdle
     else if variantId = 2 then Inr StatusRun
     else if variantId = 3 then Inr StatusSleep
     else if variantId = 4 then Inr StatusStop
     else if variantId = 5 then Inr StatusZombie
     else if variantId = 6 then Inr StatusTracing
     else if variantId = 7 then Inr StatusDead
     else if variantId = 8 then Inr StatusWakekill
     else if variantId = 9 then Inr StatusWaking
     else if variantId = 10 then Inr StatusParked
     else if variantId = 11 then Inr StatusLockBlocked
     else if variantId = 12 then Inr StatusUninterruptibleDiskSleep
     else if variantId = 13 then Inr StatusSuspended
     else if variantId = 14 then
       ebind (fieldOrDefault (map_of fields 1) integer 0) (\<lambda>code.
       Inr (StatusUnknown code))
     else throw (''unknown ProcessStatus variant '' @ show_int variantId))"

definition decodeProcessInfoValue :: "cbor_value \<Rightarrow> ProcessInfo result" where
  "decodeProcessInfoValue value =
     ebind (expectMap value) (\<lambda>fields.
     ebind (fieldOrDefault (map_of fields 1) integer 0) (\<lambda>pid.
     ebind (optionalField (map_of fields 2) integer) (\<lambda>ppid.
     ebind (fieldOrDefault (map_of fields 3) textValue []) (\<lambda>name.
     ebind (fieldOrDefault (map_of fields 4) decodeProcessStatusValue defaultProcessStatus) (\<lambda>status.
     Inr \<lparr>process_pid = pid, process_ppid = ppid, process_name = name,
           process_status = status\<rparr>)))))"

definition decodeProcessMetadataValue :: "cbor_value \<Rightarrow> ProcessMetadata result" where
  "decodeProcessMetadataValue value =
     ebind (expectMap value) (\<lambda>fields.
     ebind (fieldOrDefault (map_of fields 1) (decodeArray textValue) []) (\<lambda>command.
     ebind (optionalField (map_of fields 2) textValue) (\<lambda>executablePath.
     ebind (optionalField (map_of fields 3) textValue) (\<lambda>cwd.
     ebind (fieldOrDefault (map_of fields 4) integer 0) (\<lambda>startTimeUnix.
     Inr \<lparr>pm_command = command, pm_executablePath = executablePath, pm_cwd = cwd,
           pm_startTimeUnix = startTimeUnix\<rparr>)))))"

definition decodeProcessIoUsageValue :: "cbor_value \<Rightarrow> ProcessIoUsage result" where
  "decodeProcessIoUsageValue value =
     ebind (expectMap value) (\<lambda>fields.
     ebind (fieldOrDefault (map_of fields 1) integer 0) (\<lambda>readBytes.
     ebind (fieldOrDefault (map_of fields 2) integer 0) (\<lambda>writtenBytes.
     ebind (fieldOrDefault (map_of fields 3) integer 0) (\<lambda>totalReadBytes.
     ebind (fieldOrDefault (map_of fields 4) integer 0) (\<lambda>totalWrittenBytes.
     Inr \<lparr>piu_readBytes = readBytes, piu_writtenBytes = writtenBytes,
           piu_totalReadBytes = totalReadBytes, piu_totalWrittenBytes = totalWrittenBytes\<rparr>)))))"

definition decodeProcessResourceUsageValue :: "cbor_value \<Rightarrow> ProcessResourceUsage result" where
  "decodeProcessResourceUsageValue value =
     ebind (expectMap value) (\<lambda>fields.
     ebind (fieldOrDefault (map_of fields 1) integer 0) (\<lambda>memoryBytes.
     ebind (fieldOrDefault (map_of fields 2) integer 0) (\<lambda>virtualMemoryBytes.
     ebind (fieldOrDefault (map_of fields 3) f64Value 0) (\<lambda>cpuUsagePercent.
     ebind (fieldOrDefault (map_of fields 4) integer 0) (\<lambda>accumulatedCpuTimeMs.
     ebind (fieldOrDefault (map_of fields 5) decodeProcessIoUsageValue defaultProcessIoUsage) (\<lambda>ioUsage.
     Inr \<lparr>pru_memoryBytes = memoryBytes, pru_virtualMemoryBytes = virtualMemoryBytes,
           pru_cpuUsagePercent = cpuUsagePercent, pru_accumulatedCpuTimeMs = accumulatedCpuTimeMs,
           pru_ioUsage = ioUsage\<rparr>))))))"

definition decodeProcessDetailValue :: "cbor_value \<Rightarrow> ProcessDetail result" where
  "decodeProcessDetailValue value =
     ebind (expectMap value) (\<lambda>fields.
     ebind (fieldOrDefault (map_of fields 1) decodeProcessInfoValue defaultProcessInfo) (\<lambda>info.
     ebind (fieldOrDefault (map_of fields 2) decodeProcessMetadataValue defaultProcessMetadata) (\<lambda>metadata.
     ebind (fieldOrDefault (map_of fields 3) decodeProcessResourceUsageValue defaultProcessResourceUsage) (\<lambda>usage.
     Inr \<lparr>pd_info = info, pd_metadata = metadata, pd_usage = usage\<rparr>))))"

definition decodeProcessesTableEventValue :: "cbor_value \<Rightarrow> ProcessesTableEvent result" where
  "decodeProcessesTableEventValue value =
     ebind (expectUnion value) (\<lambda>(variantId, fields).
     if variantId = 1 then
       ebind (fieldOrDefault (map_of fields 1) (decodeArray decodeProcessInfoValue) []) (\<lambda>rows.
       Inr (ProcessesSnapshot rows))
     else if variantId = 2 then
       ebind (fieldOrDefault (map_of fields 1) (decodeArray integer) []) (\<lambda>removePids.
       ebind (fieldOrDefault (map_of fields 2) (decodeArray decodeProcessInfoValue) []) (\<lambda>upserts.
       Inr (ProcessesPatch removePids upserts)))
     else throw (''unknown ProcessesTableEvent variant '' @ show_int variantId))"

definition decodeProcessDetailEventValue :: "cbor_value \<Rightarrow> ProcessDetailEvent result" where
  "decodeProcessDetailEventValue value =
     ebind (expectUnion value) (\<lambda>(variantId, fields).
     if variantId = 1 then
       ebind (fieldOrDefault (map_of fields 1) decodeProcessDetailValue defaultProcessDetail) (\<lambda>detail.
       Inr (ProcessDetailSnapshot detail))
     else if variantId = 2 then
       ebind (fieldOrDefault (map_of fields 1) decodeProcessInfoValue defaultProcessInfo) (\<lambda>info.
       Inr (ProcessDetailInfoChanged info))
     else if variantId = 3 then
       ebind (fieldOrDefault (map_of fields 1) decodeProcessMetadataValue defaultProcessMetadata) (\<lambda>metadata.
       Inr (ProcessDetailMetadataChanged metadata))
     else if variantId = 4 then
       ebind (fieldOrDefault (map_of fields 1) decodeProcessResourceUsageValue defaultProcessResourceUsage) (\<lambda>usage.
       Inr (ProcessDetailUsageChanged usage))
     else if variantId = 5 then Inr ProcessDetailExited
     else throw (''unknown ProcessDetailEvent variant '' @ show_int variantId))"

definition decodeProcessResourceInUseKindValue :: "cbor_value \<Rightarrow> ProcessResourceInUseKind result" where
  "decodeProcessResourceInUseKindValue value =
     ebind (integer value) (\<lambda>i.
     if i = 1 then Inr ResourceFile
     else if i = 2 then Inr ResourceDirectory
     else if i = 3 then Inr ResourceDevice
     else if i = 4 then Inr ResourceNamedPipe
     else if i = 5 then Inr ResourceAnonymousPipe
     else if i = 6 then Inr ResourceOther
     else throw (''unknown ProcessResourceInUseKind variant '' @ show_int i))"

definition decodeProcessResourceInUseAccessValue :: "cbor_value \<Rightarrow> ProcessResourceInUseAccess result" where
  "decodeProcessResourceInUseAccessValue value =
     ebind (expectMap value) (\<lambda>fields.
     ebind (optionalField (map_of fields 1) boolValue) (\<lambda>readable.
     ebind (optionalField (map_of fields 2) boolValue) (\<lambda>write.
     ebind (optionalField (map_of fields 3) boolValue) (\<lambda>execute.
     Inr \<lparr>priua_read = readable, priua_write = write, priua_execute = execute\<rparr>))))"

definition decodeProcessResourceInUseInfoValue :: "cbor_value \<Rightarrow> ProcessResourceInUseInfo result" where
  "decodeProcessResourceInUseInfoValue value =
     ebind (expectMap value) (\<lambda>fields.
     ebind (fieldOrDefault (map_of fields 1) textValue []) (\<lambda>resourceId.
     ebind (fieldOrDefault (map_of fields 2) decodeProcessResourceInUseKindValue ResourceFile) (\<lambda>kind.
     ebind (optionalField (map_of fields 3) textValue) (\<lambda>name.
     ebind (optionalField (map_of fields 4) decodeProcessResourceInUseAccessValue) (\<lambda>access.
     ebind (optionalField (map_of fields 5) boolValue) (\<lambda>deleted.
     Inr \<lparr>priui_resourceId = resourceId, priui_kind = kind, priui_name = name,
           priui_access = access, priui_deleted = deleted\<rparr>))))))"

definition decodeProcessResourcesInUseTableEventValue :: "cbor_value \<Rightarrow> ProcessResourcesInUseTableEvent result" where
  "decodeProcessResourcesInUseTableEventValue value =
     ebind (expectUnion value) (\<lambda>(variantId, fields).
     if variantId = 1 then
       ebind (fieldOrDefault (map_of fields 1) (decodeArray decodeProcessResourceInUseInfoValue) []) (\<lambda>rows.
       Inr (ProcessResourcesInUseSnapshot rows))
     else if variantId = 2 then
       ebind (fieldOrDefault (map_of fields 1) (decodeArray textValue) []) (\<lambda>removes.
       ebind (fieldOrDefault (map_of fields 2) (decodeArray decodeProcessResourceInUseInfoValue) []) (\<lambda>upserts.
       Inr (ProcessResourcesInUsePatch removes upserts)))
     else if variantId = 3 then Inr ProcessResourcesInUseExited
     else throw (''unknown ProcessResourcesInUseTableEvent variant '' @ show_int variantId))"

definition decodeProcessSocketInUseKindValue :: "cbor_value \<Rightarrow> ProcessSocketInUseKind result" where
  "decodeProcessSocketInUseKindValue value =
     ebind (expectUnion value) (\<lambda>(variantId, fields).
     if variantId = 1 then Inr SocketTcp
     else if variantId = 2 then Inr SocketUdp
     else if variantId = 3 then Inr SocketUnix
     else if variantId = 4 then Inr SocketRaw
     else if variantId = 5 then Inr SocketUnknown
     else throw (''unknown ProcessSocketInUseKind variant '' @ show_int variantId))"

definition decodeSocketEndpointValue :: "cbor_value \<Rightarrow> SocketEndpoint result" where
  "decodeSocketEndpointValue value =
     ebind (expectUnion value) (\<lambda>(variantId, fields).
     if variantId = 1 then
       ebind (fieldOrDefault (map_of fields 1) textValue []) (\<lambda>address.
       ebind (optionalField (map_of fields 2) integer) (\<lambda>port.
       Inr (EndpointIp address port)))
     else if variantId = 2 then
       ebind (optionalField (map_of fields 1) textValue) (\<lambda>path.
       ebind (optionalField (map_of fields 2) textValue) (\<lambda>name.
       Inr (EndpointUnix path name)))
     else throw (''unknown SocketEndpoint variant '' @ show_int variantId))"

definition decodeProcessSocketInUseInfoValue :: "cbor_value \<Rightarrow> ProcessSocketInUseInfo result" where
  "decodeProcessSocketInUseInfoValue value =
     ebind (expectMap value) (\<lambda>fields.
     ebind (fieldOrDefault (map_of fields 1) textValue []) (\<lambda>socketId.
     ebind (fieldOrDefault (map_of fields 2) decodeProcessSocketInUseKindValue defaultProcessSocketInUseKind) (\<lambda>kind.
     ebind (optionalField (map_of fields 3) decodeSocketEndpointValue) (\<lambda>localEndpoint.
     ebind (optionalField (map_of fields 4) decodeSocketEndpointValue) (\<lambda>remoteEndpoint.
     ebind (optionalField (map_of fields 5) boolValue) (\<lambda>listening.
     Inr \<lparr>psiui_socketId = socketId, psiui_kind = kind, psiui_localEndpoint = localEndpoint,
           psiui_remoteEndpoint = remoteEndpoint, psiui_listening = listening\<rparr>))))))"

definition decodeProcessSocketsInUseTableEventValue :: "cbor_value \<Rightarrow> ProcessSocketsInUseTableEvent result" where
  "decodeProcessSocketsInUseTableEventValue value =
     ebind (expectUnion value) (\<lambda>(variantId, fields).
     if variantId = 1 then
       ebind (fieldOrDefault (map_of fields 1) (decodeArray decodeProcessSocketInUseInfoValue) []) (\<lambda>rows.
       Inr (ProcessSocketsInUseSnapshot rows))
     else if variantId = 2 then
       ebind (fieldOrDefault (map_of fields 1) (decodeArray textValue) []) (\<lambda>removes.
       ebind (fieldOrDefault (map_of fields 2) (decodeArray decodeProcessSocketInUseInfoValue) []) (\<lambda>upserts.
       Inr (ProcessSocketsInUsePatch removes upserts)))
     else if variantId = 3 then Inr ProcessSocketsInUseExited
     else throw (''unknown ProcessSocketsInUseTableEvent variant '' @ show_int variantId))"

definition decodeProcessModuleKindValue :: "cbor_value \<Rightarrow> ProcessModuleKind result" where
  "decodeProcessModuleKindValue value =
     ebind (integer value) (\<lambda>i.
     if i = 1 then Inr ModuleExecutable
     else if i = 2 then Inr ModuleDynamicLibrary
     else if i = 3 then Inr ModuleUnknown
     else throw (''unknown ProcessModuleKind variant '' @ show_int i))"

definition decodeProcessModuleInfoValue :: "cbor_value \<Rightarrow> ProcessModuleInfo result" where
  "decodeProcessModuleInfoValue value =
     ebind (expectMap value) (\<lambda>fields.
     ebind (fieldOrDefault (map_of fields 1) textValue []) (\<lambda>moduleId.
     ebind (fieldOrDefault (map_of fields 2) textValue []) (\<lambda>name.
     ebind (optionalField (map_of fields 3) textValue) (\<lambda>path.
     ebind (fieldOrDefault (map_of fields 4) decodeProcessModuleKindValue ModuleExecutable) (\<lambda>kind.
     ebind (optionalField (map_of fields 5) textValue) (\<lambda>baseAddress.
     ebind (optionalField (map_of fields 6) integer) (\<lambda>sizeBytes.
     ebind (optionalField (map_of fields 7) textValue) (\<lambda>version.
     Inr \<lparr>pmi_moduleId = moduleId, pmi_name = name, pmi_path = path, pmi_kind = kind,
           pmi_baseAddress = baseAddress, pmi_sizeBytes = sizeBytes, pmi_version = version\<rparr>))))))))"

definition decodeProcessModulesTableEventValue :: "cbor_value \<Rightarrow> ProcessModulesTableEvent result" where
  "decodeProcessModulesTableEventValue value =
     ebind (expectUnion value) (\<lambda>(variantId, fields).
     if variantId = 1 then
       ebind (fieldOrDefault (map_of fields 1) (decodeArray decodeProcessModuleInfoValue) []) (\<lambda>rows.
       Inr (ProcessModulesSnapshot rows))
     else if variantId = 2 then
       ebind (fieldOrDefault (map_of fields 1) (decodeArray textValue) []) (\<lambda>removes.
       ebind (fieldOrDefault (map_of fields 2) (decodeArray decodeProcessModuleInfoValue) []) (\<lambda>upserts.
       Inr (ProcessModulesPatch removes upserts)))
     else if variantId = 3 then Inr ProcessModulesExited
     else throw (''unknown ProcessModulesTableEvent variant '' @ show_int variantId))"

definition decodeSubscribeProcessesErrorValue :: "cbor_value \<Rightarrow> SubscribeProcessesError result" where
  "decodeSubscribeProcessesErrorValue value =
     ebind (expectUnion value) (\<lambda>(variantId, fields).
     if variantId = 0 then
       ebind (fieldOrDefault (map_of fields 1) textValue []) (\<lambda>message.
       Inr (SubscribeProcessesFailed message))
     else if variantId = 1 then
       ebind (fieldOrDefault (map_of fields 1) textValue []) (\<lambda>message.
       Inr (SubscribeProcessesPermissionDenied message))
     else throw (''unknown SubscribeProcessesError variant '' @ show_int variantId))"

definition decodeSubscribeProcessDetailErrorValue :: "cbor_value \<Rightarrow> SubscribeProcessDetailError result" where
  "decodeSubscribeProcessDetailErrorValue value =
     ebind (expectUnion value) (\<lambda>(variantId, fields).
     if variantId = 0 then
       ebind (fieldOrDefault (map_of fields 1) textValue []) (\<lambda>message.
       Inr (SubscribeProcessDetailFailed message))
     else if variantId = 1 then
       ebind (fieldOrDefault (map_of fields 1) textValue []) (\<lambda>message.
       Inr (SubscribeProcessDetailNotFound message))
     else if variantId = 2 then
       ebind (fieldOrDefault (map_of fields 1) textValue []) (\<lambda>message.
       Inr (SubscribeProcessDetailPermissionDenied message))
     else throw (''unknown SubscribeProcessDetailError variant '' @ show_int variantId))"

definition decodeSubscribeProcessResourcesInUseErrorValue :: "cbor_value \<Rightarrow> SubscribeProcessResourcesInUseError result" where
  "decodeSubscribeProcessResourcesInUseErrorValue value =
     ebind (expectUnion value) (\<lambda>(variantId, fields).
     if variantId = 0 then
       ebind (fieldOrDefault (map_of fields 1) textValue []) (\<lambda>message.
       Inr (SubscribeProcessResourcesInUseFailed message))
     else if variantId = 1 then
       ebind (fieldOrDefault (map_of fields 1) textValue []) (\<lambda>message.
       Inr (SubscribeProcessResourcesInUseNotFound message))
     else if variantId = 2 then
       ebind (fieldOrDefault (map_of fields 1) textValue []) (\<lambda>message.
       Inr (SubscribeProcessResourcesInUsePermissionDenied message))
     else if variantId = 3 then
       ebind (fieldOrDefault (map_of fields 1) textValue []) (\<lambda>message.
       Inr (SubscribeProcessResourcesInUseUnsupported message))
     else throw (''unknown SubscribeProcessResourcesInUseError variant '' @ show_int variantId))"

definition decodeSubscribeProcessSocketsInUseErrorValue :: "cbor_value \<Rightarrow> SubscribeProcessSocketsInUseError result" where
  "decodeSubscribeProcessSocketsInUseErrorValue value =
     ebind (expectUnion value) (\<lambda>(variantId, fields).
     if variantId = 0 then
       ebind (fieldOrDefault (map_of fields 1) textValue []) (\<lambda>message.
       Inr (SubscribeProcessSocketsInUseFailed message))
     else if variantId = 1 then
       ebind (fieldOrDefault (map_of fields 1) textValue []) (\<lambda>message.
       Inr (SubscribeProcessSocketsInUseNotFound message))
     else if variantId = 2 then
       ebind (fieldOrDefault (map_of fields 1) textValue []) (\<lambda>message.
       Inr (SubscribeProcessSocketsInUsePermissionDenied message))
     else if variantId = 3 then
       ebind (fieldOrDefault (map_of fields 1) textValue []) (\<lambda>message.
       Inr (SubscribeProcessSocketsInUseUnsupported message))
     else throw (''unknown SubscribeProcessSocketsInUseError variant '' @ show_int variantId))"

definition decodeSubscribeProcessModulesErrorValue :: "cbor_value \<Rightarrow> SubscribeProcessModulesError result" where
  "decodeSubscribeProcessModulesErrorValue value =
     ebind (expectUnion value) (\<lambda>(variantId, fields).
     if variantId = 0 then
       ebind (fieldOrDefault (map_of fields 1) textValue []) (\<lambda>message.
       Inr (SubscribeProcessModulesFailed message))
     else if variantId = 1 then
       ebind (fieldOrDefault (map_of fields 1) textValue []) (\<lambda>message.
       Inr (SubscribeProcessModulesNotFound message))
     else if variantId = 2 then
       ebind (fieldOrDefault (map_of fields 1) textValue []) (\<lambda>message.
       Inr (SubscribeProcessModulesPermissionDenied message))
     else if variantId = 3 then
       ebind (fieldOrDefault (map_of fields 1) textValue []) (\<lambda>message.
       Inr (SubscribeProcessModulesUnsupported message))
     else throw (''unknown SubscribeProcessModulesError variant '' @ show_int variantId))"

section \<open>Laws\<close>

lemmas processes_defs [codec_defs] = encodeSubscribeProcessDetailReqValue_def
  encodeSubscribeProcessResourcesInUseReqValue_def encodeSubscribeProcessSocketsInUseReqValue_def
  encodeSubscribeProcessModulesReqValue_def encodeProcessInfoValue_def
  encodeProcessMetadataValue_def encodeProcessIoUsageValue_def encodeProcessResourceUsageValue_def
  encodeProcessDetailValue_def encodeProcessResourceInUseAccessValue_def
  encodeProcessResourceInUseInfoValue_def encodeProcessSocketInUseInfoValue_def
  encodeProcessModuleInfoValue_def decodeSubscribeProcessDetailReqValue_def
  decodeSubscribeProcessResourcesInUseReqValue_def decodeSubscribeProcessSocketsInUseReqValue_def
  decodeSubscribeProcessModulesReqValue_def decodeProcessStatusValue_def
  decodeProcessInfoValue_def decodeProcessMetadataValue_def decodeProcessIoUsageValue_def
  decodeProcessResourceUsageValue_def decodeProcessDetailValue_def
  decodeProcessesTableEventValue_def decodeProcessDetailEventValue_def
  decodeProcessResourceInUseAccessValue_def decodeProcessResourceInUseInfoValue_def
  decodeProcessResourcesInUseTableEventValue_def decodeProcessSocketInUseKindValue_def
  decodeSocketEndpointValue_def decodeProcessSocketInUseInfoValue_def
  decodeProcessSocketsInUseTableEventValue_def decodeProcessModuleInfoValue_def
  decodeProcessModulesTableEventValue_def decodeSubscribeProcessesErrorValue_def
  decodeSubscribeProcessDetailErrorValue_def decodeSubscribeProcessResourcesInUseErrorValue_def
  decodeSubscribeProcessSocketsInUseErrorValue_def decodeSubscribeProcessModulesErrorValue_def

lemmas processes_defaults = defaultSubscribeProcessDetailReq_def
  defaultSubscribeProcessResourcesInUseReq_def defaultSubscribeProcessSocketsInUseReq_def
  defaultSubscribeProcessModulesReq_def defaultProcessStatus_def defaultProcessInfo_def
  defaultProcessMetadata_def defaultProcessIoUsage_def defaultProcessResourceUsage_def
  defaultProcessDetail_def defaultProcessesTableEvent_def defaultProcessDetailEvent_def
  defaultProcessResourceInUseAccess_def defaultProcessResourceInUseInfo_def
  defaultProcessResourcesInUseTableEvent_def defaultProcessSocketInUseKind_def
  defaultSocketEndpoint_def defaultProcessSocketInUseInfo_def
  defaultProcessSocketsInUseTableEvent_def defaultProcessModuleInfo_def
  defaultProcessModulesTableEvent_def defaultSubscribeProcessesError_def
  defaultSubscribeProcessDetailError_def defaultSubscribeProcessResourcesInUseError_def
  defaultSubscribeProcessSocketsInUseError_def defaultSubscribeProcessModulesError_def

lemma processes_enum_codecs [codec_laws]:
  "codec encodeProcessResourceInUseKindValue decodeProcessResourceInUseKindValue"
  "deterministic encodeProcessResourceInUseKindValue"
  "codec encodeProcessModuleKindValue decodeProcessModuleKindValue"
  "deterministic encodeProcessModuleKindValue"
  by ((rule codecI deterministicI, case_tac a;
      simp add: encodeEnum_def
        encodeProcessResourceInUseKindValue_def decodeProcessResourceInUseKindValue_def
        encodeProcessModuleKindValue_def decodeProcessModuleKindValue_def)+)

lemma processes_flat_codecs [codec_laws]:
  "codec encodeSubscribeProcessDetailReqValue decodeSubscribeProcessDetailReqValue"
  "deterministic encodeSubscribeProcessDetailReqValue"
  "codec encodeSubscribeProcessResourcesInUseReqValue decodeSubscribeProcessResourcesInUseReqValue"
  "deterministic encodeSubscribeProcessResourcesInUseReqValue"
  "codec encodeSubscribeProcessSocketsInUseReqValue decodeSubscribeProcessSocketsInUseReqValue"
  "deterministic encodeSubscribeProcessSocketsInUseReqValue"
  "codec encodeSubscribeProcessModulesReqValue decodeSubscribeProcessModulesReqValue"
  "deterministic encodeSubscribeProcessModulesReqValue"
  "codec encodeProcessStatusValue decodeProcessStatusValue"
  "deterministic encodeProcessStatusValue"
  "codec encodeProcessMetadataValue decodeProcessMetadataValue"
  "deterministic encodeProcessMetadataValue"
  "codec encodeProcessIoUsageValue decodeProcessIoUsageValue"
  "deterministic encodeProcessIoUsageValue"
  "codec encodeProcessResourceInUseAccessValue decodeProcessResourceInUseAccessValue"
  "deterministic encodeProcessResourceInUseAccessValue"
  "codec encodeProcessSocketInUseKindValue decodeProcessSocketInUseKindValue"
  "deterministic encodeProcessSocketInUseKindValue"
  "codec encodeSocketEndpointValue decodeSocketEndpointValue"
  "deterministic encodeSocketEndpointValue"
  "codec encodeProcessModuleInfoValue decodeProcessModuleInfoValue"
  "deterministic encodeProcessModuleInfoValue"
  "codec encodeSubscribeProcessesErrorValue decodeSubscribeProcessesErrorValue"
  "deterministic encodeSubscribeProcessesErrorValue"
  "codec encodeSubscribeProcessDetailErrorValue decodeSubscribeProcessDetailErrorValue"
  "deterministic encodeSubscribeProcessDetailErrorValue"
  "codec encodeSubscribeProcessResourcesInUseErrorValue decodeSubscribeProcessResourcesInUseErrorValue"
  "deterministic encodeSubscribeProcessResourcesInUseErrorValue"
  "codec encodeSubscribeProcessSocketsInUseErrorValue decodeSubscribeProcessSocketsInUseErrorValue"
  "deterministic encodeSubscribeProcessSocketsInUseErrorValue"
  "codec encodeSubscribeProcessModulesErrorValue decodeSubscribeProcessModulesErrorValue"
  "deterministic encodeSubscribeProcessModulesErrorValue"
  by ((rule codecI deterministicI, case_tac a; simp add: codec_defs codec_simps codec_laws)+)

lemma processes_nested_codecs [codec_laws]:
  "codec encodeProcessInfoValue decodeProcessInfoValue"
  "deterministic encodeProcessInfoValue"
  "codec encodeProcessResourceUsageValue decodeProcessResourceUsageValue"
  "deterministic encodeProcessResourceUsageValue"
  "codec encodeProcessResourceInUseInfoValue decodeProcessResourceInUseInfoValue"
  "deterministic encodeProcessResourceInUseInfoValue"
  "codec encodeProcessSocketInUseInfoValue decodeProcessSocketInUseInfoValue"
  "deterministic encodeProcessSocketInUseInfoValue"
  "codec encodeProcessModulesTableEventValue decodeProcessModulesTableEventValue"
  "deterministic encodeProcessModulesTableEventValue"
  by ((rule codecI deterministicI, case_tac a; simp add: codec_defs codec_simps codec_laws)+)

lemma processes_outer_codecs [codec_laws]:
  "codec encodeProcessDetailValue decodeProcessDetailValue"
  "deterministic encodeProcessDetailValue"
  "codec encodeProcessesTableEventValue decodeProcessesTableEventValue"
  "deterministic encodeProcessesTableEventValue"
  "codec encodeProcessResourcesInUseTableEventValue decodeProcessResourcesInUseTableEventValue"
  "deterministic encodeProcessResourcesInUseTableEventValue"
  "codec encodeProcessSocketsInUseTableEventValue decodeProcessSocketsInUseTableEventValue"
  "deterministic encodeProcessSocketsInUseTableEventValue"
  by ((rule codecI deterministicI, case_tac a; simp add: codec_defs codec_simps codec_laws)+)

lemma processes_top_codecs [codec_laws]:
  "codec encodeProcessDetailEventValue decodeProcessDetailEventValue"
  "deterministic encodeProcessDetailEventValue"
  by ((rule codecI deterministicI, case_tac a; simp add: codec_defs codec_simps codec_laws)+)

text \<open>Absent fields get their defaults.\<close>

lemma processes_absent_fields:
  "decodeSubscribeProcessDetailReqValue (CMap []) = Inr defaultSubscribeProcessDetailReq"
  "decodeSubscribeProcessResourcesInUseReqValue (CMap []) = Inr defaultSubscribeProcessResourcesInUseReq"
  "decodeSubscribeProcessSocketsInUseReqValue (CMap []) = Inr defaultSubscribeProcessSocketsInUseReq"
  "decodeSubscribeProcessModulesReqValue (CMap []) = Inr defaultSubscribeProcessModulesReq"
  "decodeProcessInfoValue (CMap []) = Inr defaultProcessInfo"
  "decodeProcessMetadataValue (CMap []) = Inr defaultProcessMetadata"
  "decodeProcessIoUsageValue (CMap []) = Inr defaultProcessIoUsage"
  "decodeProcessResourceUsageValue (CMap []) = Inr defaultProcessResourceUsage"
  "decodeProcessDetailValue (CMap []) = Inr defaultProcessDetail"
  "decodeProcessResourceInUseAccessValue (CMap []) = Inr defaultProcessResourceInUseAccess"
  "decodeProcessResourceInUseInfoValue (CMap []) = Inr defaultProcessResourceInUseInfo"
  "decodeProcessSocketInUseInfoValue (CMap []) = Inr defaultProcessSocketInUseInfo"
  "decodeProcessModuleInfoValue (CMap []) = Inr defaultProcessModuleInfo"
  "decodeProcessStatusValue (union_tuple 1 []) = Inr defaultProcessStatus"
  "decodeProcessesTableEventValue (union_tuple 1 []) = Inr defaultProcessesTableEvent"
  "decodeProcessDetailEventValue (union_tuple 1 []) = Inr defaultProcessDetailEvent"
  "decodeProcessResourcesInUseTableEventValue (union_tuple 1 []) = Inr defaultProcessResourcesInUseTableEvent"
  "decodeProcessSocketInUseKindValue (union_tuple 1 []) = Inr defaultProcessSocketInUseKind"
  "decodeSocketEndpointValue (union_tuple 1 []) = Inr defaultSocketEndpoint"
  "decodeProcessSocketsInUseTableEventValue (union_tuple 1 []) = Inr defaultProcessSocketsInUseTableEvent"
  "decodeProcessModulesTableEventValue (union_tuple 1 []) = Inr defaultProcessModulesTableEvent"
  "decodeSubscribeProcessesErrorValue (union_tuple 0 []) = Inr defaultSubscribeProcessesError"
  "decodeSubscribeProcessDetailErrorValue (union_tuple 0 []) = Inr defaultSubscribeProcessDetailError"
  "decodeSubscribeProcessResourcesInUseErrorValue (union_tuple 0 []) = Inr defaultSubscribeProcessResourcesInUseError"
  "decodeSubscribeProcessSocketsInUseErrorValue (union_tuple 0 []) = Inr defaultSubscribeProcessSocketsInUseError"
  "decodeSubscribeProcessModulesErrorValue (union_tuple 0 []) = Inr defaultSubscribeProcessModulesError"
  by (simp_all add: codec_defs processes_defaults fieldOrDefault_def optionalField_def)

end
