(* ===== verification/RpcProcs.thy ===== *)
theory RpcProcs
  imports Client RpcWindows RpcTerminals RpcProcesses RpcFiles RpcDaemon
begin

text \<open>
  The procedures of the daemon: the \<open>ProcCodec\<close> constants of
  \<open>web/src/protocol/generated/rpc.ts\<close> and the call functions of
  \<open>web/src/protocol/generated/client.ts\<close>. The locale \<open>procedure\<close> says what the calls rely on, that
  a procedure decodes with the inverse of the daemon's encoder, and proves for every procedure at
  once that a value the daemon sends is the value the caller gets.
\<close>

section \<open>Procedure ids\<close>

datatype ProcId = GetDaemonInfo | StartPairing | CompletePairing | RenewClientCredential |
    SubscribeRoots | SubscribeDirectory | ReadFile | WriteFile | CreateNodes | RenamePaths |
    DeletePaths | CreateTerminalSession | SubscribeTerminalSessions | SubscribeAvailableShells |
    AttachTerminalSession | TakeTerminalControl | WriteTerminalInput | CloseTerminalSession |
    SubscribeClients | SubscribeTrashItems | RestoreTrashItems | PurgeTrashItems |
    GetDaemonEnvironment | SubscribeProcesses | SubscribeProcessDetail | SubscribeWindows |
    SubscribeWindowDetail | SubscribeProcessResourcesInUse | SubscribeProcessSocketsInUse |
    SubscribeProcessModules

primrec ProcId_id :: "ProcId \<Rightarrow> int" where
  "ProcId_id GetDaemonInfo = 1"
| "ProcId_id StartPairing = 2"
| "ProcId_id CompletePairing = 3"
| "ProcId_id RenewClientCredential = 4"
| "ProcId_id SubscribeRoots = 5"
| "ProcId_id SubscribeDirectory = 6"
| "ProcId_id ReadFile = 7"
| "ProcId_id WriteFile = 8"
| "ProcId_id CreateNodes = 9"
| "ProcId_id RenamePaths = 10"
| "ProcId_id DeletePaths = 11"
| "ProcId_id CreateTerminalSession = 12"
| "ProcId_id SubscribeTerminalSessions = 13"
| "ProcId_id SubscribeAvailableShells = 14"
| "ProcId_id AttachTerminalSession = 15"
| "ProcId_id TakeTerminalControl = 16"
| "ProcId_id WriteTerminalInput = 17"
| "ProcId_id CloseTerminalSession = 18"
| "ProcId_id SubscribeClients = 19"
| "ProcId_id SubscribeTrashItems = 20"
| "ProcId_id RestoreTrashItems = 21"
| "ProcId_id PurgeTrashItems = 22"
| "ProcId_id GetDaemonEnvironment = 23"
| "ProcId_id SubscribeProcesses = 24"
| "ProcId_id SubscribeProcessDetail = 25"
| "ProcId_id SubscribeWindows = 26"
| "ProcId_id SubscribeWindowDetail = 27"
| "ProcId_id SubscribeProcessResourcesInUse = 28"
| "ProcId_id SubscribeProcessSocketsInUse = 29"
| "ProcId_id SubscribeProcessModules = 30"

section \<open>Errors as objects\<close>

text \<open>
  \<open>client.ts\<close> reads the properties \<open>type\<close> and \<open>message\<close> of a decoded error; \<open>error_object\<close> has them.
\<close>

definition error_object :: "string \<Rightarrow> jstring \<Rightarrow> error_value" where
  "error_object tag msg = ErrorObject [(''type'', js tag), (''message'', msg)]"

primrec GetDaemonInfoError_object :: "GetDaemonInfoError \<Rightarrow> error_value" where
  "GetDaemonInfoError_object (GetDaemonInfoFailed msg) = error_object ''failed'' msg"

primrec StartPairingError_object :: "StartPairingError \<Rightarrow> error_value" where
  "StartPairingError_object (StartPairingFailed msg) = error_object ''failed'' msg"

primrec CompletePairingError_object :: "CompletePairingError \<Rightarrow> error_value" where
  "CompletePairingError_object (CompletePairingPairingNotStarted msg) = error_object ''pairingNotStarted'' msg"
| "CompletePairingError_object (CompletePairingPairingExpired msg) = error_object ''pairingExpired'' msg"
| "CompletePairingError_object (CompletePairingInvalidPairingCode msg) = error_object ''invalidPairingCode'' msg"

primrec RenewClientCredentialError_object :: "RenewClientCredentialError \<Rightarrow> error_value" where
  "RenewClientCredentialError_object (RenewClientCredentialFailed msg) = error_object ''failed'' msg"

primrec SubscribeRootsError_object :: "SubscribeRootsError \<Rightarrow> error_value" where
  "SubscribeRootsError_object (SubscribeRootsFailed msg) = error_object ''failed'' msg"

primrec SubscribeDirectoryError_object :: "SubscribeDirectoryError \<Rightarrow> error_value" where
  "SubscribeDirectoryError_object (SubscribeDirectoryFailed msg) = error_object ''failed'' msg"
| "SubscribeDirectoryError_object (SubscribeDirectoryPermissionDenied msg) = error_object ''permissionDenied'' msg"
| "SubscribeDirectoryError_object (SubscribeDirectoryNotFound msg) = error_object ''notFound'' msg"
| "SubscribeDirectoryError_object (SubscribeDirectoryNotDirectory msg) = error_object ''notDirectory'' msg"

primrec ReadFileError_object :: "ReadFileError \<Rightarrow> error_value" where
  "ReadFileError_object (ReadFileFailed msg) = error_object ''failed'' msg"
| "ReadFileError_object (ReadFilePermissionDenied msg) = error_object ''permissionDenied'' msg"
| "ReadFileError_object (ReadFileNotFound msg) = error_object ''notFound'' msg"
| "ReadFileError_object (ReadFileNotFile msg) = error_object ''notFile'' msg"
| "ReadFileError_object (ReadFileInvalidPath msg) = error_object ''invalidPath'' msg"

primrec WriteFileError_object :: "WriteFileError \<Rightarrow> error_value" where
  "WriteFileError_object (WriteFileFailed msg) = error_object ''failed'' msg"
| "WriteFileError_object (WriteFilePermissionDenied msg) = error_object ''permissionDenied'' msg"
| "WriteFileError_object (WriteFileNotFound msg) = error_object ''notFound'' msg"
| "WriteFileError_object (WriteFileAlreadyExists msg) = error_object ''alreadyExists'' msg"
| "WriteFileError_object (WriteFileNotDirectory msg) = error_object ''notDirectory'' msg"
| "WriteFileError_object (WriteFileNotFile msg) = error_object ''notFile'' msg"
| "WriteFileError_object (WriteFileInvalidPath msg) = error_object ''invalidPath'' msg"

primrec FsMutationError_object :: "FsMutationError \<Rightarrow> error_value" where
  "FsMutationError_object (FsMutationFailed msg) = error_object ''failed'' msg"

primrec CreateTerminalSessionError_object :: "CreateTerminalSessionError \<Rightarrow> error_value" where
  "CreateTerminalSessionError_object (CreateTerminalSessionFailed msg) = error_object ''failed'' msg"
| "CreateTerminalSessionError_object (CreateTerminalSessionPermissionDenied msg) = error_object ''permissionDenied'' msg"
| "CreateTerminalSessionError_object (CreateTerminalSessionInvalidSize msg) = error_object ''invalidSize'' msg"
| "CreateTerminalSessionError_object (CreateTerminalSessionShellNotFound msg) = error_object ''shellNotFound'' msg"
| "CreateTerminalSessionError_object (CreateTerminalSessionInvalidLaunch msg) = error_object ''invalidLaunch'' msg"

primrec SubscribeTerminalSessionsError_object :: "SubscribeTerminalSessionsError \<Rightarrow> error_value" where
  "SubscribeTerminalSessionsError_object (SubscribeTerminalSessionsFailed msg) = error_object ''failed'' msg"
| "SubscribeTerminalSessionsError_object (SubscribeTerminalSessionsPermissionDenied msg) = error_object ''permissionDenied'' msg"

primrec SubscribeAvailableShellsError_object :: "SubscribeAvailableShellsError \<Rightarrow> error_value" where
  "SubscribeAvailableShellsError_object (SubscribeAvailableShellsFailed msg) = error_object ''failed'' msg"
| "SubscribeAvailableShellsError_object (SubscribeAvailableShellsPermissionDenied msg) = error_object ''permissionDenied'' msg"

primrec AttachTerminalSessionError_object :: "AttachTerminalSessionError \<Rightarrow> error_value" where
  "AttachTerminalSessionError_object (AttachTerminalSessionFailed msg) = error_object ''failed'' msg"
| "AttachTerminalSessionError_object (AttachTerminalSessionNotFound msg) = error_object ''notFound'' msg"
| "AttachTerminalSessionError_object (AttachTerminalSessionPermissionDenied msg) = error_object ''permissionDenied'' msg"
| "AttachTerminalSessionError_object (AttachTerminalSessionInvalidSize msg) = error_object ''invalidSize'' msg"

primrec TakeTerminalControlError_object :: "TakeTerminalControlError \<Rightarrow> error_value" where
  "TakeTerminalControlError_object (TakeTerminalControlFailed msg) = error_object ''failed'' msg"
| "TakeTerminalControlError_object (TakeTerminalControlNotFound msg) = error_object ''notFound'' msg"
| "TakeTerminalControlError_object (TakeTerminalControlPermissionDenied msg) = error_object ''permissionDenied'' msg"
| "TakeTerminalControlError_object (TakeTerminalControlAttachNotFound msg) = error_object ''attachNotFound'' msg"
| "TakeTerminalControlError_object (TakeTerminalControlInvalidSize msg) = error_object ''invalidSize'' msg"

primrec WriteTerminalInputError_object :: "WriteTerminalInputError \<Rightarrow> error_value" where
  "WriteTerminalInputError_object (WriteTerminalInputFailed msg) = error_object ''failed'' msg"
| "WriteTerminalInputError_object (WriteTerminalInputNotFound msg) = error_object ''notFound'' msg"
| "WriteTerminalInputError_object (WriteTerminalInputPermissionDenied msg) = error_object ''permissionDenied'' msg"
| "WriteTerminalInputError_object (WriteTerminalInputAttachNotFound msg) = error_object ''attachNotFound'' msg"
| "WriteTerminalInputError_object (WriteTerminalInputNotPrimaryAttach msg) = error_object ''notPrimaryAttach'' msg"

primrec CloseTerminalSessionError_object :: "CloseTerminalSessionError \<Rightarrow> error_value" where
  "CloseTerminalSessionError_object (CloseTerminalSessionFailed msg) = error_object ''failed'' msg"
| "CloseTerminalSessionError_object (CloseTerminalSessionNotFound msg) = error_object ''notFound'' msg"
| "CloseTerminalSessionError_object (CloseTerminalSessionPermissionDenied msg) = error_object ''permissionDenied'' msg"

primrec SubscribeClientsError_object :: "SubscribeClientsError \<Rightarrow> error_value" where
  "SubscribeClientsError_object (SubscribeClientsFailed msg) = error_object ''failed'' msg"
| "SubscribeClientsError_object (SubscribeClientsPermissionDenied msg) = error_object ''permissionDenied'' msg"

primrec SubscribeTrashItemsError_object :: "SubscribeTrashItemsError \<Rightarrow> error_value" where
  "SubscribeTrashItemsError_object (SubscribeTrashItemsFailed msg) = error_object ''failed'' msg"
| "SubscribeTrashItemsError_object (SubscribeTrashItemsPermissionDenied msg) = error_object ''permissionDenied'' msg"

primrec GetDaemonEnvironmentError_object :: "GetDaemonEnvironmentError \<Rightarrow> error_value" where
  "GetDaemonEnvironmentError_object (GetDaemonEnvironmentFailed msg) = error_object ''failed'' msg"

primrec SubscribeProcessesError_object :: "SubscribeProcessesError \<Rightarrow> error_value" where
  "SubscribeProcessesError_object (SubscribeProcessesFailed msg) = error_object ''failed'' msg"
| "SubscribeProcessesError_object (SubscribeProcessesPermissionDenied msg) = error_object ''permissionDenied'' msg"

primrec SubscribeProcessDetailError_object :: "SubscribeProcessDetailError \<Rightarrow> error_value" where
  "SubscribeProcessDetailError_object (SubscribeProcessDetailFailed msg) = error_object ''failed'' msg"
| "SubscribeProcessDetailError_object (SubscribeProcessDetailNotFound msg) = error_object ''notFound'' msg"
| "SubscribeProcessDetailError_object (SubscribeProcessDetailPermissionDenied msg) = error_object ''permissionDenied'' msg"

primrec SubscribeWindowsError_object :: "SubscribeWindowsError \<Rightarrow> error_value" where
  "SubscribeWindowsError_object (SubscribeWindowsFailed msg) = error_object ''failed'' msg"
| "SubscribeWindowsError_object (SubscribeWindowsUnsupported msg) = error_object ''unsupported'' msg"
| "SubscribeWindowsError_object (SubscribeWindowsPermissionDenied msg) = error_object ''permissionDenied'' msg"

primrec SubscribeWindowDetailError_object :: "SubscribeWindowDetailError \<Rightarrow> error_value" where
  "SubscribeWindowDetailError_object (SubscribeWindowDetailFailed msg) = error_object ''failed'' msg"
| "SubscribeWindowDetailError_object (SubscribeWindowDetailNotFound msg) = error_object ''notFound'' msg"
| "SubscribeWindowDetailError_object (SubscribeWindowDetailUnsupported msg) = error_object ''unsupported'' msg"
| "SubscribeWindowDetailError_object (SubscribeWindowDetailPermissionDenied msg) = error_object ''permissionDenied'' msg"

primrec SubscribeProcessResourcesInUseError_object :: "SubscribeProcessResourcesInUseError \<Rightarrow> error_value" where
  "SubscribeProcessResourcesInUseError_object (SubscribeProcessResourcesInUseFailed msg) = error_object ''failed'' msg"
| "SubscribeProcessResourcesInUseError_object (SubscribeProcessResourcesInUseNotFound msg) = error_object ''notFound'' msg"
| "SubscribeProcessResourcesInUseError_object (SubscribeProcessResourcesInUsePermissionDenied msg) = error_object ''permissionDenied'' msg"
| "SubscribeProcessResourcesInUseError_object (SubscribeProcessResourcesInUseUnsupported msg) = error_object ''unsupported'' msg"

primrec SubscribeProcessSocketsInUseError_object :: "SubscribeProcessSocketsInUseError \<Rightarrow> error_value" where
  "SubscribeProcessSocketsInUseError_object (SubscribeProcessSocketsInUseFailed msg) = error_object ''failed'' msg"
| "SubscribeProcessSocketsInUseError_object (SubscribeProcessSocketsInUseNotFound msg) = error_object ''notFound'' msg"
| "SubscribeProcessSocketsInUseError_object (SubscribeProcessSocketsInUsePermissionDenied msg) = error_object ''permissionDenied'' msg"
| "SubscribeProcessSocketsInUseError_object (SubscribeProcessSocketsInUseUnsupported msg) = error_object ''unsupported'' msg"

primrec SubscribeProcessModulesError_object :: "SubscribeProcessModulesError \<Rightarrow> error_value" where
  "SubscribeProcessModulesError_object (SubscribeProcessModulesFailed msg) = error_object ''failed'' msg"
| "SubscribeProcessModulesError_object (SubscribeProcessModulesNotFound msg) = error_object ''notFound'' msg"
| "SubscribeProcessModulesError_object (SubscribeProcessModulesPermissionDenied msg) = error_object ''permissionDenied'' msg"
| "SubscribeProcessModulesError_object (SubscribeProcessModulesUnsupported msg) = error_object ''unsupported'' msg"

section \<open>Procedures\<close>

text \<open>
  A missing response payload reaches the decoder as \<open>undefined\<close>, which is neither a map nor a union
  tuple; \<open>decodeVoidValue\<close> ignores its argument.
\<close>

definition present :: "string \<Rightarrow> (cbor_value \<Rightarrow> 'a result) \<Rightarrow> cbor_value option \<Rightarrow> 'a result" where
  "present expected dec value = (case value of None \<Rightarrow> throw expected | Some v \<Rightarrow> dec v)"

definition decoded_error :: "(cbor_value \<Rightarrow> 'e result) \<Rightarrow> ('e \<Rightarrow> error_value) \<Rightarrow> cbor_value \<Rightarrow> error_value result" where
  "decoded_error dec object_of value = ebind (dec value) (\<lambda>e. Inr (object_of e))"

definition getDaemonInfoProc :: "(unit, DaemonInfo) ProcCodec" where
  "getDaemonInfoProc =
     \<lparr>proc_id = ProcId_id GetDaemonInfo, proc_name = ''GetDaemonInfo'', proc_stream = ''unary'',
      proc_requestType = ''void'', proc_responseType = ''DaemonInfo'',
      proc_errorType = ''GetDaemonInfoError'', proc_encodeRequest = encodeVoidValue,
      proc_decodeResponse = present ''expected CBOR map'' decodeDaemonInfoValue,
      proc_decodeError = decoded_error decodeGetDaemonInfoErrorValue GetDaemonInfoError_object\<rparr>"

definition startPairingProc :: "(StartPairingReq, StartPairingRes) ProcCodec" where
  "startPairingProc =
     \<lparr>proc_id = ProcId_id StartPairing, proc_name = ''StartPairing'', proc_stream = ''unary'',
      proc_requestType = ''StartPairingReq'', proc_responseType = ''StartPairingRes'',
      proc_errorType = ''StartPairingError'', proc_encodeRequest = encodeStartPairingReqValue,
      proc_decodeResponse = present ''expected CBOR map'' decodeStartPairingResValue,
      proc_decodeError = decoded_error decodeStartPairingErrorValue StartPairingError_object\<rparr>"

definition completePairingProc :: "(CompletePairingReq, CompletePairingRes) ProcCodec" where
  "completePairingProc =
     \<lparr>proc_id = ProcId_id CompletePairing, proc_name = ''CompletePairing'', proc_stream = ''unary'',
      proc_requestType = ''CompletePairingReq'', proc_responseType = ''CompletePairingRes'',
      proc_errorType = ''CompletePairingError'', proc_encodeRequest = encodeCompletePairingReqValue,
      proc_decodeResponse = present ''expected CBOR map'' decodeCompletePairingResValue,
      proc_decodeError = decoded_error decodeCompletePairingErrorValue CompletePairingError_object\<rparr>"

definition renewClientCredentialProc :: "(unit, RenewClientCredentialRes) ProcCodec" where
  "renewClientCredentialProc =
     \<lparr>proc_id = ProcId_id RenewClientCredential, proc_name = ''RenewClientCredential'', proc_stream = ''unary'',
      proc_requestType = ''void'', proc_responseType = ''RenewClientCredentialRes'',
      proc_errorType = ''RenewClientCredentialError'', proc_encodeRequest = encodeVoidValue,
      proc_decodeResponse = present ''expected CBOR map'' decodeRenewClientCredentialResValue,
      proc_decodeError = decoded_error decodeRenewClientCredentialErrorValue RenewClientCredentialError_object\<rparr>"

definition subscribeRootsProc :: "(unit, RootsTableEvent) ProcCodec" where
  "subscribeRootsProc =
     \<lparr>proc_id = ProcId_id SubscribeRoots, proc_name = ''SubscribeRoots'', proc_stream = ''server'',
      proc_requestType = ''void'', proc_responseType = ''RootsTableEvent'',
      proc_errorType = ''SubscribeRootsError'', proc_encodeRequest = encodeVoidValue,
      proc_decodeResponse = present ''expected CBOR union tuple'' decodeRootsTableEventValue,
      proc_decodeError = decoded_error decodeSubscribeRootsErrorValue SubscribeRootsError_object\<rparr>"

definition subscribeDirectoryProc :: "(SubscribeDirectoryReq, DirectoryTableEvent) ProcCodec" where
  "subscribeDirectoryProc =
     \<lparr>proc_id = ProcId_id SubscribeDirectory, proc_name = ''SubscribeDirectory'', proc_stream = ''server'',
      proc_requestType = ''SubscribeDirectoryReq'', proc_responseType = ''DirectoryTableEvent'',
      proc_errorType = ''SubscribeDirectoryError'', proc_encodeRequest = encodeSubscribeDirectoryReqValue,
      proc_decodeResponse = present ''expected CBOR union tuple'' decodeDirectoryTableEventValue,
      proc_decodeError = decoded_error decodeSubscribeDirectoryErrorValue SubscribeDirectoryError_object\<rparr>"

definition readFileProc :: "(ReadFileReq, ReadFileChunk) ProcCodec" where
  "readFileProc =
     \<lparr>proc_id = ProcId_id ReadFile, proc_name = ''ReadFile'', proc_stream = ''server'',
      proc_requestType = ''ReadFileReq'', proc_responseType = ''ReadFileChunk'',
      proc_errorType = ''ReadFileError'', proc_encodeRequest = encodeReadFileReqValue,
      proc_decodeResponse = present ''expected CBOR map'' decodeReadFileChunkValue,
      proc_decodeError = decoded_error decodeReadFileErrorValue ReadFileError_object\<rparr>"

definition writeFileProc :: "(WriteFileReq, WriteFileResult) ProcCodec" where
  "writeFileProc =
     \<lparr>proc_id = ProcId_id WriteFile, proc_name = ''WriteFile'', proc_stream = ''client'',
      proc_requestType = ''WriteFileReq'', proc_responseType = ''WriteFileResult'',
      proc_errorType = ''WriteFileError'', proc_encodeRequest = encodeWriteFileReqValue,
      proc_decodeResponse = present ''expected CBOR map'' decodeWriteFileResultValue,
      proc_decodeError = decoded_error decodeWriteFileErrorValue WriteFileError_object\<rparr>"

definition createNodesProc :: "(CreateNodesReq, BulkMutationRes) ProcCodec" where
  "createNodesProc =
     \<lparr>proc_id = ProcId_id CreateNodes, proc_name = ''CreateNodes'', proc_stream = ''unary'',
      proc_requestType = ''CreateNodesReq'', proc_responseType = ''BulkMutationRes'',
      proc_errorType = ''FsMutationError'', proc_encodeRequest = encodeCreateNodesReqValue,
      proc_decodeResponse = present ''expected CBOR map'' decodeBulkMutationResValue,
      proc_decodeError = decoded_error decodeFsMutationErrorValue FsMutationError_object\<rparr>"

definition renamePathsProc :: "(RenamePathsReq, BulkMutationRes) ProcCodec" where
  "renamePathsProc =
     \<lparr>proc_id = ProcId_id RenamePaths, proc_name = ''RenamePaths'', proc_stream = ''unary'',
      proc_requestType = ''RenamePathsReq'', proc_responseType = ''BulkMutationRes'',
      proc_errorType = ''FsMutationError'', proc_encodeRequest = encodeRenamePathsReqValue,
      proc_decodeResponse = present ''expected CBOR map'' decodeBulkMutationResValue,
      proc_decodeError = decoded_error decodeFsMutationErrorValue FsMutationError_object\<rparr>"

definition deletePathsProc :: "(DeletePathsReq, BulkMutationRes) ProcCodec" where
  "deletePathsProc =
     \<lparr>proc_id = ProcId_id DeletePaths, proc_name = ''DeletePaths'', proc_stream = ''unary'',
      proc_requestType = ''DeletePathsReq'', proc_responseType = ''BulkMutationRes'',
      proc_errorType = ''FsMutationError'', proc_encodeRequest = encodeDeletePathsReqValue,
      proc_decodeResponse = present ''expected CBOR map'' decodeBulkMutationResValue,
      proc_decodeError = decoded_error decodeFsMutationErrorValue FsMutationError_object\<rparr>"

definition createTerminalSessionProc :: "(CreateTerminalSessionReq, TerminalSessionInfo) ProcCodec" where
  "createTerminalSessionProc =
     \<lparr>proc_id = ProcId_id CreateTerminalSession, proc_name = ''CreateTerminalSession'', proc_stream = ''unary'',
      proc_requestType = ''CreateTerminalSessionReq'', proc_responseType = ''TerminalSessionInfo'',
      proc_errorType = ''CreateTerminalSessionError'', proc_encodeRequest = encodeCreateTerminalSessionReqValue,
      proc_decodeResponse = present ''expected CBOR map'' decodeTerminalSessionInfoValue,
      proc_decodeError = decoded_error decodeCreateTerminalSessionErrorValue CreateTerminalSessionError_object\<rparr>"

definition subscribeTerminalSessionsProc :: "(unit, TerminalSessionsTableEvent) ProcCodec" where
  "subscribeTerminalSessionsProc =
     \<lparr>proc_id = ProcId_id SubscribeTerminalSessions, proc_name = ''SubscribeTerminalSessions'', proc_stream = ''server'',
      proc_requestType = ''void'', proc_responseType = ''TerminalSessionsTableEvent'',
      proc_errorType = ''SubscribeTerminalSessionsError'', proc_encodeRequest = encodeVoidValue,
      proc_decodeResponse = present ''expected CBOR union tuple'' decodeTerminalSessionsTableEventValue,
      proc_decodeError = decoded_error decodeSubscribeTerminalSessionsErrorValue SubscribeTerminalSessionsError_object\<rparr>"

definition subscribeAvailableShellsProc :: "(unit, AvailableShellsTableEvent) ProcCodec" where
  "subscribeAvailableShellsProc =
     \<lparr>proc_id = ProcId_id SubscribeAvailableShells, proc_name = ''SubscribeAvailableShells'', proc_stream = ''server'',
      proc_requestType = ''void'', proc_responseType = ''AvailableShellsTableEvent'',
      proc_errorType = ''SubscribeAvailableShellsError'', proc_encodeRequest = encodeVoidValue,
      proc_decodeResponse = present ''expected CBOR union tuple'' decodeAvailableShellsTableEventValue,
      proc_decodeError = decoded_error decodeSubscribeAvailableShellsErrorValue SubscribeAvailableShellsError_object\<rparr>"

definition attachTerminalSessionProc :: "(AttachTerminalSessionReq, TerminalEvent) ProcCodec" where
  "attachTerminalSessionProc =
     \<lparr>proc_id = ProcId_id AttachTerminalSession, proc_name = ''AttachTerminalSession'', proc_stream = ''server'',
      proc_requestType = ''AttachTerminalSessionReq'', proc_responseType = ''TerminalEvent'',
      proc_errorType = ''AttachTerminalSessionError'', proc_encodeRequest = encodeAttachTerminalSessionReqValue,
      proc_decodeResponse = present ''expected CBOR union tuple'' decodeTerminalEventValue,
      proc_decodeError = decoded_error decodeAttachTerminalSessionErrorValue AttachTerminalSessionError_object\<rparr>"

definition takeTerminalControlProc :: "(TakeTerminalControlReq, TakeTerminalControlRes) ProcCodec" where
  "takeTerminalControlProc =
     \<lparr>proc_id = ProcId_id TakeTerminalControl, proc_name = ''TakeTerminalControl'', proc_stream = ''unary'',
      proc_requestType = ''TakeTerminalControlReq'', proc_responseType = ''TakeTerminalControlRes'',
      proc_errorType = ''TakeTerminalControlError'', proc_encodeRequest = encodeTakeTerminalControlReqValue,
      proc_decodeResponse = present ''expected CBOR map'' decodeTakeTerminalControlResValue,
      proc_decodeError = decoded_error decodeTakeTerminalControlErrorValue TakeTerminalControlError_object\<rparr>"

definition writeTerminalInputProc :: "(WriteTerminalInputReq, unit) ProcCodec" where
  "writeTerminalInputProc =
     \<lparr>proc_id = ProcId_id WriteTerminalInput, proc_name = ''WriteTerminalInput'', proc_stream = ''client'',
      proc_requestType = ''WriteTerminalInputReq'', proc_responseType = ''void'',
      proc_errorType = ''WriteTerminalInputError'', proc_encodeRequest = encodeWriteTerminalInputReqValue,
      proc_decodeResponse = (\<lambda>value. Inr ()),
      proc_decodeError = decoded_error decodeWriteTerminalInputErrorValue WriteTerminalInputError_object\<rparr>"

definition closeTerminalSessionProc :: "(CloseTerminalSessionReq, unit) ProcCodec" where
  "closeTerminalSessionProc =
     \<lparr>proc_id = ProcId_id CloseTerminalSession, proc_name = ''CloseTerminalSession'', proc_stream = ''unary'',
      proc_requestType = ''CloseTerminalSessionReq'', proc_responseType = ''void'',
      proc_errorType = ''CloseTerminalSessionError'', proc_encodeRequest = encodeCloseTerminalSessionReqValue,
      proc_decodeResponse = (\<lambda>value. Inr ()),
      proc_decodeError = decoded_error decodeCloseTerminalSessionErrorValue CloseTerminalSessionError_object\<rparr>"

definition subscribeClientsProc :: "(unit, ClientsTableEvent) ProcCodec" where
  "subscribeClientsProc =
     \<lparr>proc_id = ProcId_id SubscribeClients, proc_name = ''SubscribeClients'', proc_stream = ''server'',
      proc_requestType = ''void'', proc_responseType = ''ClientsTableEvent'',
      proc_errorType = ''SubscribeClientsError'', proc_encodeRequest = encodeVoidValue,
      proc_decodeResponse = present ''expected CBOR union tuple'' decodeClientsTableEventValue,
      proc_decodeError = decoded_error decodeSubscribeClientsErrorValue SubscribeClientsError_object\<rparr>"

definition subscribeTrashItemsProc :: "(unit, TrashItemsTableEvent) ProcCodec" where
  "subscribeTrashItemsProc =
     \<lparr>proc_id = ProcId_id SubscribeTrashItems, proc_name = ''SubscribeTrashItems'', proc_stream = ''server'',
      proc_requestType = ''void'', proc_responseType = ''TrashItemsTableEvent'',
      proc_errorType = ''SubscribeTrashItemsError'', proc_encodeRequest = encodeVoidValue,
      proc_decodeResponse = present ''expected CBOR union tuple'' decodeTrashItemsTableEventValue,
      proc_decodeError = decoded_error decodeSubscribeTrashItemsErrorValue SubscribeTrashItemsError_object\<rparr>"

definition restoreTrashItemsProc :: "(RestoreTrashItemsReq, BulkMutationRes) ProcCodec" where
  "restoreTrashItemsProc =
     \<lparr>proc_id = ProcId_id RestoreTrashItems, proc_name = ''RestoreTrashItems'', proc_stream = ''unary'',
      proc_requestType = ''RestoreTrashItemsReq'', proc_responseType = ''BulkMutationRes'',
      proc_errorType = ''FsMutationError'', proc_encodeRequest = encodeRestoreTrashItemsReqValue,
      proc_decodeResponse = present ''expected CBOR map'' decodeBulkMutationResValue,
      proc_decodeError = decoded_error decodeFsMutationErrorValue FsMutationError_object\<rparr>"

definition purgeTrashItemsProc :: "(PurgeTrashItemsReq, BulkMutationRes) ProcCodec" where
  "purgeTrashItemsProc =
     \<lparr>proc_id = ProcId_id PurgeTrashItems, proc_name = ''PurgeTrashItems'', proc_stream = ''unary'',
      proc_requestType = ''PurgeTrashItemsReq'', proc_responseType = ''BulkMutationRes'',
      proc_errorType = ''FsMutationError'', proc_encodeRequest = encodePurgeTrashItemsReqValue,
      proc_decodeResponse = present ''expected CBOR map'' decodeBulkMutationResValue,
      proc_decodeError = decoded_error decodeFsMutationErrorValue FsMutationError_object\<rparr>"

definition getDaemonEnvironmentProc :: "(unit, DaemonEnvironment) ProcCodec" where
  "getDaemonEnvironmentProc =
     \<lparr>proc_id = ProcId_id GetDaemonEnvironment, proc_name = ''GetDaemonEnvironment'', proc_stream = ''unary'',
      proc_requestType = ''void'', proc_responseType = ''DaemonEnvironment'',
      proc_errorType = ''GetDaemonEnvironmentError'', proc_encodeRequest = encodeVoidValue,
      proc_decodeResponse = present ''expected CBOR map'' decodeDaemonEnvironmentValue,
      proc_decodeError = decoded_error decodeGetDaemonEnvironmentErrorValue GetDaemonEnvironmentError_object\<rparr>"

definition subscribeProcessesProc :: "(unit, ProcessesTableEvent) ProcCodec" where
  "subscribeProcessesProc =
     \<lparr>proc_id = ProcId_id SubscribeProcesses, proc_name = ''SubscribeProcesses'', proc_stream = ''server'',
      proc_requestType = ''void'', proc_responseType = ''ProcessesTableEvent'',
      proc_errorType = ''SubscribeProcessesError'', proc_encodeRequest = encodeVoidValue,
      proc_decodeResponse = present ''expected CBOR union tuple'' decodeProcessesTableEventValue,
      proc_decodeError = decoded_error decodeSubscribeProcessesErrorValue SubscribeProcessesError_object\<rparr>"

definition subscribeProcessDetailProc :: "(SubscribeProcessDetailReq, ProcessDetailEvent) ProcCodec" where
  "subscribeProcessDetailProc =
     \<lparr>proc_id = ProcId_id SubscribeProcessDetail, proc_name = ''SubscribeProcessDetail'', proc_stream = ''server'',
      proc_requestType = ''SubscribeProcessDetailReq'', proc_responseType = ''ProcessDetailEvent'',
      proc_errorType = ''SubscribeProcessDetailError'', proc_encodeRequest = encodeSubscribeProcessDetailReqValue,
      proc_decodeResponse = present ''expected CBOR union tuple'' decodeProcessDetailEventValue,
      proc_decodeError = decoded_error decodeSubscribeProcessDetailErrorValue SubscribeProcessDetailError_object\<rparr>"

definition subscribeWindowsProc :: "(unit, WindowsTableEvent) ProcCodec" where
  "subscribeWindowsProc =
     \<lparr>proc_id = ProcId_id SubscribeWindows, proc_name = ''SubscribeWindows'', proc_stream = ''server'',
      proc_requestType = ''void'', proc_responseType = ''WindowsTableEvent'',
      proc_errorType = ''SubscribeWindowsError'', proc_encodeRequest = encodeVoidValue,
      proc_decodeResponse = present ''expected CBOR union tuple'' decodeWindowsTableEventValue,
      proc_decodeError = decoded_error decodeSubscribeWindowsErrorValue SubscribeWindowsError_object\<rparr>"

definition subscribeWindowDetailProc :: "(SubscribeWindowDetailReq, WindowDetailEvent) ProcCodec" where
  "subscribeWindowDetailProc =
     \<lparr>proc_id = ProcId_id SubscribeWindowDetail, proc_name = ''SubscribeWindowDetail'', proc_stream = ''server'',
      proc_requestType = ''SubscribeWindowDetailReq'', proc_responseType = ''WindowDetailEvent'',
      proc_errorType = ''SubscribeWindowDetailError'', proc_encodeRequest = encodeSubscribeWindowDetailReqValue,
      proc_decodeResponse = present ''expected CBOR union tuple'' decodeWindowDetailEventValue,
      proc_decodeError = decoded_error decodeSubscribeWindowDetailErrorValue SubscribeWindowDetailError_object\<rparr>"

definition subscribeProcessResourcesInUseProc :: "(SubscribeProcessResourcesInUseReq, ProcessResourcesInUseTableEvent) ProcCodec" where
  "subscribeProcessResourcesInUseProc =
     \<lparr>proc_id = ProcId_id SubscribeProcessResourcesInUse, proc_name = ''SubscribeProcessResourcesInUse'', proc_stream = ''server'',
      proc_requestType = ''SubscribeProcessResourcesInUseReq'', proc_responseType = ''ProcessResourcesInUseTableEvent'',
      proc_errorType = ''SubscribeProcessResourcesInUseError'', proc_encodeRequest = encodeSubscribeProcessResourcesInUseReqValue,
      proc_decodeResponse = present ''expected CBOR union tuple'' decodeProcessResourcesInUseTableEventValue,
      proc_decodeError = decoded_error decodeSubscribeProcessResourcesInUseErrorValue SubscribeProcessResourcesInUseError_object\<rparr>"

definition subscribeProcessSocketsInUseProc :: "(SubscribeProcessSocketsInUseReq, ProcessSocketsInUseTableEvent) ProcCodec" where
  "subscribeProcessSocketsInUseProc =
     \<lparr>proc_id = ProcId_id SubscribeProcessSocketsInUse, proc_name = ''SubscribeProcessSocketsInUse'', proc_stream = ''server'',
      proc_requestType = ''SubscribeProcessSocketsInUseReq'', proc_responseType = ''ProcessSocketsInUseTableEvent'',
      proc_errorType = ''SubscribeProcessSocketsInUseError'', proc_encodeRequest = encodeSubscribeProcessSocketsInUseReqValue,
      proc_decodeResponse = present ''expected CBOR union tuple'' decodeProcessSocketsInUseTableEventValue,
      proc_decodeError = decoded_error decodeSubscribeProcessSocketsInUseErrorValue SubscribeProcessSocketsInUseError_object\<rparr>"

definition subscribeProcessModulesProc :: "(SubscribeProcessModulesReq, ProcessModulesTableEvent) ProcCodec" where
  "subscribeProcessModulesProc =
     \<lparr>proc_id = ProcId_id SubscribeProcessModules, proc_name = ''SubscribeProcessModules'', proc_stream = ''server'',
      proc_requestType = ''SubscribeProcessModulesReq'', proc_responseType = ''ProcessModulesTableEvent'',
      proc_errorType = ''SubscribeProcessModulesError'', proc_encodeRequest = encodeSubscribeProcessModulesReqValue,
      proc_decodeResponse = present ''expected CBOR union tuple'' decodeProcessModulesTableEventValue,
      proc_decodeError = decoded_error decodeSubscribeProcessModulesErrorValue SubscribeProcessModulesError_object\<rparr>"

text \<open>What the program reads of the table \<open>procs\<close>: the name of a procedure id.\<close>

definition procs :: "(int \<times> string) list" where
  "procs =
     [(ProcId_id GetDaemonInfo, proc_name getDaemonInfoProc),
      (ProcId_id StartPairing, proc_name startPairingProc),
      (ProcId_id CompletePairing, proc_name completePairingProc),
      (ProcId_id RenewClientCredential, proc_name renewClientCredentialProc),
      (ProcId_id SubscribeRoots, proc_name subscribeRootsProc),
      (ProcId_id SubscribeDirectory, proc_name subscribeDirectoryProc),
      (ProcId_id ReadFile, proc_name readFileProc),
      (ProcId_id WriteFile, proc_name writeFileProc),
      (ProcId_id CreateNodes, proc_name createNodesProc),
      (ProcId_id RenamePaths, proc_name renamePathsProc),
      (ProcId_id DeletePaths, proc_name deletePathsProc),
      (ProcId_id CreateTerminalSession, proc_name createTerminalSessionProc),
      (ProcId_id SubscribeTerminalSessions, proc_name subscribeTerminalSessionsProc),
      (ProcId_id SubscribeAvailableShells, proc_name subscribeAvailableShellsProc),
      (ProcId_id AttachTerminalSession, proc_name attachTerminalSessionProc),
      (ProcId_id TakeTerminalControl, proc_name takeTerminalControlProc),
      (ProcId_id WriteTerminalInput, proc_name writeTerminalInputProc),
      (ProcId_id CloseTerminalSession, proc_name closeTerminalSessionProc),
      (ProcId_id SubscribeClients, proc_name subscribeClientsProc),
      (ProcId_id SubscribeTrashItems, proc_name subscribeTrashItemsProc),
      (ProcId_id RestoreTrashItems, proc_name restoreTrashItemsProc),
      (ProcId_id PurgeTrashItems, proc_name purgeTrashItemsProc),
      (ProcId_id GetDaemonEnvironment, proc_name getDaemonEnvironmentProc),
      (ProcId_id SubscribeProcesses, proc_name subscribeProcessesProc),
      (ProcId_id SubscribeProcessDetail, proc_name subscribeProcessDetailProc),
      (ProcId_id SubscribeWindows, proc_name subscribeWindowsProc),
      (ProcId_id SubscribeWindowDetail, proc_name subscribeWindowDetailProc),
      (ProcId_id SubscribeProcessResourcesInUse, proc_name subscribeProcessResourcesInUseProc),
      (ProcId_id SubscribeProcessSocketsInUse, proc_name subscribeProcessSocketsInUseProc),
      (ProcId_id SubscribeProcessModules, proc_name subscribeProcessModulesProc)]"

section \<open>Calls\<close>

text \<open>\<open>exchange\<close> is the transport, as in theory \<open>Client\<close>.\<close>

definition getDaemonInfo :: "transport \<Rightarrow> DaemonInfo result" where
  "getDaemonInfo exchange = callUnary exchange getDaemonInfoProc None"

definition startPairing :: "transport \<Rightarrow> StartPairingReq \<Rightarrow> StartPairingRes result" where
  "startPairing exchange request = callUnary exchange startPairingProc (Some request)"

definition completePairing :: "transport \<Rightarrow> CompletePairingReq \<Rightarrow> CompletePairingRes result" where
  "completePairing exchange request = callUnary exchange completePairingProc (Some request)"

definition renewClientCredential :: "transport \<Rightarrow> RenewClientCredentialRes result" where
  "renewClientCredential exchange = callUnary exchange renewClientCredentialProc None"

definition subscribeRoots :: "transport \<Rightarrow> RootsTableEvent stream_run" where
  "subscribeRoots exchange = callServerStream exchange subscribeRootsProc None"

definition subscribeDirectory :: "transport \<Rightarrow> SubscribeDirectoryReq \<Rightarrow> DirectoryTableEvent stream_run" where
  "subscribeDirectory exchange request = callServerStream exchange subscribeDirectoryProc (Some request)"

definition readFile :: "transport \<Rightarrow> ReadFileReq \<Rightarrow> ReadFileChunk stream_run" where
  "readFile exchange request = callServerStream exchange readFileProc (Some request)"

definition writeFile :: "transport \<Rightarrow> WriteFileReq list \<Rightarrow> WriteFileResult result" where
  "writeFile exchange requests = callClientStream exchange writeFileProc requests"

definition createNodes :: "transport \<Rightarrow> CreateNodesReq \<Rightarrow> BulkMutationRes result" where
  "createNodes exchange request = callUnary exchange createNodesProc (Some request)"

definition renamePaths :: "transport \<Rightarrow> RenamePathsReq \<Rightarrow> BulkMutationRes result" where
  "renamePaths exchange request = callUnary exchange renamePathsProc (Some request)"

definition deletePaths :: "transport \<Rightarrow> DeletePathsReq \<Rightarrow> BulkMutationRes result" where
  "deletePaths exchange request = callUnary exchange deletePathsProc (Some request)"

definition createTerminalSession :: "transport \<Rightarrow> CreateTerminalSessionReq \<Rightarrow> TerminalSessionInfo result" where
  "createTerminalSession exchange request = callUnary exchange createTerminalSessionProc (Some request)"

definition subscribeTerminalSessions :: "transport \<Rightarrow> TerminalSessionsTableEvent stream_run" where
  "subscribeTerminalSessions exchange = callServerStream exchange subscribeTerminalSessionsProc None"

definition subscribeAvailableShells :: "transport \<Rightarrow> AvailableShellsTableEvent stream_run" where
  "subscribeAvailableShells exchange = callServerStream exchange subscribeAvailableShellsProc None"

definition attachTerminalSession :: "transport \<Rightarrow> AttachTerminalSessionReq \<Rightarrow> TerminalEvent stream_run" where
  "attachTerminalSession exchange request = callServerStream exchange attachTerminalSessionProc (Some request)"

definition takeTerminalControl :: "transport \<Rightarrow> TakeTerminalControlReq \<Rightarrow> TakeTerminalControlRes result" where
  "takeTerminalControl exchange request = callUnary exchange takeTerminalControlProc (Some request)"

definition writeTerminalInput :: "transport \<Rightarrow> WriteTerminalInputReq list \<Rightarrow> unit result" where
  "writeTerminalInput exchange requests = callClientStream exchange writeTerminalInputProc requests"

definition closeTerminalSession :: "transport \<Rightarrow> CloseTerminalSessionReq \<Rightarrow> unit result" where
  "closeTerminalSession exchange request = callUnary exchange closeTerminalSessionProc (Some request)"

definition subscribeClients :: "transport \<Rightarrow> ClientsTableEvent stream_run" where
  "subscribeClients exchange = callServerStream exchange subscribeClientsProc None"

definition subscribeTrashItems :: "transport \<Rightarrow> TrashItemsTableEvent stream_run" where
  "subscribeTrashItems exchange = callServerStream exchange subscribeTrashItemsProc None"

definition restoreTrashItems :: "transport \<Rightarrow> RestoreTrashItemsReq \<Rightarrow> BulkMutationRes result" where
  "restoreTrashItems exchange request = callUnary exchange restoreTrashItemsProc (Some request)"

definition purgeTrashItems :: "transport \<Rightarrow> PurgeTrashItemsReq \<Rightarrow> BulkMutationRes result" where
  "purgeTrashItems exchange request = callUnary exchange purgeTrashItemsProc (Some request)"

definition getDaemonEnvironment :: "transport \<Rightarrow> DaemonEnvironment result" where
  "getDaemonEnvironment exchange = callUnary exchange getDaemonEnvironmentProc None"

definition subscribeProcesses :: "transport \<Rightarrow> ProcessesTableEvent stream_run" where
  "subscribeProcesses exchange = callServerStream exchange subscribeProcessesProc None"

definition subscribeProcessDetail :: "transport \<Rightarrow> SubscribeProcessDetailReq \<Rightarrow> ProcessDetailEvent stream_run" where
  "subscribeProcessDetail exchange request = callServerStream exchange subscribeProcessDetailProc (Some request)"

definition subscribeWindows :: "transport \<Rightarrow> WindowsTableEvent stream_run" where
  "subscribeWindows exchange = callServerStream exchange subscribeWindowsProc None"

definition subscribeWindowDetail :: "transport \<Rightarrow> SubscribeWindowDetailReq \<Rightarrow> WindowDetailEvent stream_run" where
  "subscribeWindowDetail exchange request = callServerStream exchange subscribeWindowDetailProc (Some request)"

definition subscribeProcessResourcesInUse :: "transport \<Rightarrow> SubscribeProcessResourcesInUseReq \<Rightarrow> ProcessResourcesInUseTableEvent stream_run" where
  "subscribeProcessResourcesInUse exchange request = callServerStream exchange subscribeProcessResourcesInUseProc (Some request)"

definition subscribeProcessSocketsInUse :: "transport \<Rightarrow> SubscribeProcessSocketsInUseReq \<Rightarrow> ProcessSocketsInUseTableEvent stream_run" where
  "subscribeProcessSocketsInUse exchange request = callServerStream exchange subscribeProcessSocketsInUseProc (Some request)"

definition subscribeProcessModules :: "transport \<Rightarrow> SubscribeProcessModulesReq \<Rightarrow> ProcessModulesTableEvent stream_run" where
  "subscribeProcessModules exchange request = callServerStream exchange subscribeProcessModulesProc (Some request)"

section \<open>The contract of a procedure\<close>

text \<open>
  \<open>payload_of enc a b\<close>: the daemon's payload \<open>b\<close> for the value \<open>a\<close>, its encoding as CBOR bytes,
  if \<open>a\<close> is a value that survives the CBOR layer.
\<close>

definition payload_of :: "('a \<Rightarrow> cbor_value result) \<Rightarrow> 'a \<Rightarrow> bytes \<Rightarrow> bool" where
  "payload_of enc a b \<longleftrightarrow> (case enc a of Inl _ \<Rightarrow> False | Inr v \<Rightarrow> plain v \<and> encodeCbor v = Inr b)"

lemma payload_ofE: "payload_of enc a b \<Longrightarrow> \<exists>v. enc a = Inr v \<and> plain v \<and> encodeCbor v = Inr b"
  by (auto simp: payload_of_def split: sum.splits)

lemma payload_decodes:
  assumes "codec enc dec" "deterministic enc" "payload_of enc a b"
  shows "ebind (decodeCbor b) dec = Inr a"
  using wire_codec.bytes_roundtrip [OF wire_codecI [OF assms(1,2)]] payload_ofE [OF assms(3)] by blast

text \<open>The messages of a stream of values: a start message, then chunks.\<close>

definition event_messages :: "bytes list \<Rightarrow> ReqResMessage list" where
  "event_messages payloads =
     (case payloads of
        [] \<Rightarrow> []
      | p # ps \<Rightarrow> (message ResponseStreamStart)\<lparr>rr_payload := Some p\<rparr>
          # map (\<lambda>p. (message ResponseStreamChunk)\<lparr>rr_payload := Some p\<rparr>) ps)"

locale procedure =
  response: wire_codec encodeResponse decodeResponse + failure: wire_codec encodeError decodeError
  for encodeResponse :: "'res \<Rightarrow> cbor_value result" and decodeResponse :: "cbor_value \<Rightarrow> 'res result"
    and proc :: "('req, 'res) ProcCodec"
    and encodeError :: "'err \<Rightarrow> cbor_value result" and decodeError :: "cbor_value \<Rightarrow> 'err result"
    and object_of :: "'err \<Rightarrow> error_value" +
  assumes decodes_response: "proc_decodeResponse proc (Some v) = decodeResponse v"
    and decodes_error: "proc_decodeError proc v = decoded_error decodeError object_of v"
begin

lemma unary_returns:
  assumes "encodeRequest proc request = Inr payload" "unary_request proc payload = Inr req"
    and "exchange [req] = Inr \<lparr>chunks = cs, read_error = None\<rparr>"
    and "payload_of encodeResponse res b"
    and "encodeReqResMessageSequence [(message ResponseUnaryOk)\<lparr>rr_payload := Some b\<rparr>] = Inr (concat cs)"
  shows "callUnary exchange proc request = Inr res"
proof -
  obtain v where v: "encodeResponse res = Inr v" "plain v" "encodeCbor v = Inr b"
    using assms(4) by (auto dest: payload_ofE)
  have "sendUnary exchange proc payload = Inr (Some b)"
    using sendUnary_reply [of proc payload req exchange cs, OF assms(2,3,5)]
    by (simp add: decodeUnaryResponse_def canonical_def message_def)
  with assms(1) response.survives_cbor [OF v] response.roundtrip [OF v(1)] show ?thesis
    by (simp add: callUnary_def decode_response_def decodes_response)
qed

lemma unary_throws:
  assumes "encodeRequest proc request = Inr payload" "unary_request proc payload = Inr req"
    and "exchange [req] = Inr \<lparr>chunks = cs, read_error = None\<rparr>"
    and "payload_of encodeError e b"
    and "encodeReqResMessageSequence
      [(message ResponseUnaryError)\<lparr>rr_error := Some b, rr_errorKind := Some Method\<rparr>] = Inr (concat cs)"
  shows "callUnary exchange proc request
    = Inl (RpcError (errorCode (object_of e)) (errorMessage (object_of e)))"
proof -
  obtain v where v: "encodeError e = Inr v" "plain v" "encodeCbor v = Inr b"
    using assms(4) by (auto dest: payload_ofE)
  have "sendUnary exchange proc payload
      = Inl (RpcError (errorCode (object_of e)) (errorMessage (object_of e)))"
    using sendUnary_reply [of proc payload req exchange cs, OF assms(2,3,5)]
      failure.survives_cbor [OF v] failure.roundtrip [OF v(1)]
    by (simp add: decodeUnaryResponse_def canonical_def message_def throwRpcError_def decodes_error
        decoded_error_def)
  with assms(1) show ?thesis by (simp add: callUnary_def)
qed

lemma handles_payload:
  assumes "payload_of encodeResponse res b" "kind = ResponseStreamStart \<or> kind = ResponseStreamChunk"
  shows "handle_message proc (canonical ((message kind)\<lparr>rr_payload := Some b\<rparr>)) = Inr res"
proof -
  obtain v where v: "encodeResponse res = Inr v" "plain v" "encodeCbor v = Inr b"
    using assms(1) by (auto dest: payload_ofE)
  with response.survives_cbor [OF v] response.roundtrip [OF v(1)] assms(2) show ?thesis
    by (auto simp: handle_message_def canonical_def message_def decodes_response)
qed

lemma handles_chunks:
  "list_all2 (payload_of encodeResponse) events payloads \<Longrightarrow>
   emap (handle_message proc)
     (map canonical (map (\<lambda>p. (message ResponseStreamChunk)\<lparr>rr_payload := Some p\<rparr>) payloads))
   = Inr events"
  by (induction events payloads rule: list_all2_induct) (simp_all add: handles_payload)

lemma stream_yields:
  assumes "encodeRequest proc request = Inr payload" "unary_request proc payload = Inr req"
    and "exchange [req] = Inr \<lparr>chunks = cs, read_error = None\<rparr>"
    and "list_all2 (payload_of encodeResponse) events payloads"
    and "encodeReqResMessageSequence (event_messages payloads) = Inr (concat cs)"
  shows "callServerStream exchange proc request
    = \<lparr>yielded = events, outcome = Inr (), cancelled = False\<rparr>"
proof -
  have "emap (handle_message proc) (map canonical (event_messages payloads)) = Inr events"
    using assms(4) handles_chunks
    by (cases payloads) (auto simp: event_messages_def list_all2_Cons2 handles_payload)
  from stream_delivers [OF assms(5) this] assms(1-3) show ?thesis
    by (simp add: callServerStream_def streamServerEvents_def)
qed

end

lemma procedureI:
  assumes "codec encodeResponse decodeResponse" "deterministic encodeResponse"
    "codec encodeError decodeError" "deterministic encodeError"
    "\<And>v. proc_decodeResponse proc (Some v) = decodeResponse v"
    "proc_decodeError proc = decoded_error decodeError object_of"
  shows "procedure encodeResponse decodeResponse proc encodeError decodeError object_of"
  using assms by (simp add: procedure_def procedure_axioms_def wire_codecI)

interpretation getDaemonInfoRpc: procedure encodeDaemonInfoValue decodeDaemonInfoValue
    getDaemonInfoProc encodeGetDaemonInfoErrorValue decodeGetDaemonInfoErrorValue GetDaemonInfoError_object
  by (rule procedureI) (simp_all add: getDaemonInfoProc_def present_def decodeVoidValue_def codec_laws)

interpretation startPairingRpc: procedure encodeStartPairingResValue decodeStartPairingResValue
    startPairingProc encodeStartPairingErrorValue decodeStartPairingErrorValue StartPairingError_object
  by (rule procedureI) (simp_all add: startPairingProc_def present_def decodeVoidValue_def codec_laws)

interpretation completePairingRpc: procedure encodeCompletePairingResValue decodeCompletePairingResValue
    completePairingProc encodeCompletePairingErrorValue decodeCompletePairingErrorValue CompletePairingError_object
  by (rule procedureI) (simp_all add: completePairingProc_def present_def decodeVoidValue_def codec_laws)

interpretation renewClientCredentialRpc: procedure encodeRenewClientCredentialResValue decodeRenewClientCredentialResValue
    renewClientCredentialProc encodeRenewClientCredentialErrorValue decodeRenewClientCredentialErrorValue RenewClientCredentialError_object
  by (rule procedureI) (simp_all add: renewClientCredentialProc_def present_def decodeVoidValue_def codec_laws)

interpretation subscribeRootsRpc: procedure encodeRootsTableEventValue decodeRootsTableEventValue
    subscribeRootsProc encodeSubscribeRootsErrorValue decodeSubscribeRootsErrorValue SubscribeRootsError_object
  by (rule procedureI) (simp_all add: subscribeRootsProc_def present_def decodeVoidValue_def codec_laws)

interpretation subscribeDirectoryRpc: procedure encodeDirectoryTableEventValue decodeDirectoryTableEventValue
    subscribeDirectoryProc encodeSubscribeDirectoryErrorValue decodeSubscribeDirectoryErrorValue SubscribeDirectoryError_object
  by (rule procedureI) (simp_all add: subscribeDirectoryProc_def present_def decodeVoidValue_def codec_laws)

interpretation readFileRpc: procedure encodeReadFileChunkValue decodeReadFileChunkValue
    readFileProc encodeReadFileErrorValue decodeReadFileErrorValue ReadFileError_object
  by (rule procedureI) (simp_all add: readFileProc_def present_def decodeVoidValue_def codec_laws)

interpretation writeFileRpc: procedure encodeWriteFileResultValue decodeWriteFileResultValue
    writeFileProc encodeWriteFileErrorValue decodeWriteFileErrorValue WriteFileError_object
  by (rule procedureI) (simp_all add: writeFileProc_def present_def decodeVoidValue_def codec_laws)

interpretation createNodesRpc: procedure encodeBulkMutationResValue decodeBulkMutationResValue
    createNodesProc encodeFsMutationErrorValue decodeFsMutationErrorValue FsMutationError_object
  by (rule procedureI) (simp_all add: createNodesProc_def present_def decodeVoidValue_def codec_laws)

interpretation renamePathsRpc: procedure encodeBulkMutationResValue decodeBulkMutationResValue
    renamePathsProc encodeFsMutationErrorValue decodeFsMutationErrorValue FsMutationError_object
  by (rule procedureI) (simp_all add: renamePathsProc_def present_def decodeVoidValue_def codec_laws)

interpretation deletePathsRpc: procedure encodeBulkMutationResValue decodeBulkMutationResValue
    deletePathsProc encodeFsMutationErrorValue decodeFsMutationErrorValue FsMutationError_object
  by (rule procedureI) (simp_all add: deletePathsProc_def present_def decodeVoidValue_def codec_laws)

interpretation createTerminalSessionRpc: procedure encodeTerminalSessionInfoValue decodeTerminalSessionInfoValue
    createTerminalSessionProc encodeCreateTerminalSessionErrorValue decodeCreateTerminalSessionErrorValue CreateTerminalSessionError_object
  by (rule procedureI) (simp_all add: createTerminalSessionProc_def present_def decodeVoidValue_def codec_laws)

interpretation subscribeTerminalSessionsRpc: procedure encodeTerminalSessionsTableEventValue decodeTerminalSessionsTableEventValue
    subscribeTerminalSessionsProc encodeSubscribeTerminalSessionsErrorValue decodeSubscribeTerminalSessionsErrorValue SubscribeTerminalSessionsError_object
  by (rule procedureI) (simp_all add: subscribeTerminalSessionsProc_def present_def decodeVoidValue_def codec_laws)

interpretation subscribeAvailableShellsRpc: procedure encodeAvailableShellsTableEventValue decodeAvailableShellsTableEventValue
    subscribeAvailableShellsProc encodeSubscribeAvailableShellsErrorValue decodeSubscribeAvailableShellsErrorValue SubscribeAvailableShellsError_object
  by (rule procedureI) (simp_all add: subscribeAvailableShellsProc_def present_def decodeVoidValue_def codec_laws)

interpretation attachTerminalSessionRpc: procedure encodeTerminalEventValue decodeTerminalEventValue
    attachTerminalSessionProc encodeAttachTerminalSessionErrorValue decodeAttachTerminalSessionErrorValue AttachTerminalSessionError_object
  by (rule procedureI) (simp_all add: attachTerminalSessionProc_def present_def decodeVoidValue_def codec_laws)

interpretation takeTerminalControlRpc: procedure encodeTakeTerminalControlResValue decodeTakeTerminalControlResValue
    takeTerminalControlProc encodeTakeTerminalControlErrorValue decodeTakeTerminalControlErrorValue TakeTerminalControlError_object
  by (rule procedureI) (simp_all add: takeTerminalControlProc_def present_def decodeVoidValue_def codec_laws)

interpretation writeTerminalInputRpc: procedure encodeVoidValue decodeVoidValue
    writeTerminalInputProc encodeWriteTerminalInputErrorValue decodeWriteTerminalInputErrorValue WriteTerminalInputError_object
  by (rule procedureI) (simp_all add: writeTerminalInputProc_def present_def decodeVoidValue_def codec_laws)

interpretation closeTerminalSessionRpc: procedure encodeVoidValue decodeVoidValue
    closeTerminalSessionProc encodeCloseTerminalSessionErrorValue decodeCloseTerminalSessionErrorValue CloseTerminalSessionError_object
  by (rule procedureI) (simp_all add: closeTerminalSessionProc_def present_def decodeVoidValue_def codec_laws)

interpretation subscribeClientsRpc: procedure encodeClientsTableEventValue decodeClientsTableEventValue
    subscribeClientsProc encodeSubscribeClientsErrorValue decodeSubscribeClientsErrorValue SubscribeClientsError_object
  by (rule procedureI) (simp_all add: subscribeClientsProc_def present_def decodeVoidValue_def codec_laws)

interpretation subscribeTrashItemsRpc: procedure encodeTrashItemsTableEventValue decodeTrashItemsTableEventValue
    subscribeTrashItemsProc encodeSubscribeTrashItemsErrorValue decodeSubscribeTrashItemsErrorValue SubscribeTrashItemsError_object
  by (rule procedureI) (simp_all add: subscribeTrashItemsProc_def present_def decodeVoidValue_def codec_laws)

interpretation restoreTrashItemsRpc: procedure encodeBulkMutationResValue decodeBulkMutationResValue
    restoreTrashItemsProc encodeFsMutationErrorValue decodeFsMutationErrorValue FsMutationError_object
  by (rule procedureI) (simp_all add: restoreTrashItemsProc_def present_def decodeVoidValue_def codec_laws)

interpretation purgeTrashItemsRpc: procedure encodeBulkMutationResValue decodeBulkMutationResValue
    purgeTrashItemsProc encodeFsMutationErrorValue decodeFsMutationErrorValue FsMutationError_object
  by (rule procedureI) (simp_all add: purgeTrashItemsProc_def present_def decodeVoidValue_def codec_laws)

interpretation getDaemonEnvironmentRpc: procedure encodeDaemonEnvironmentValue decodeDaemonEnvironmentValue
    getDaemonEnvironmentProc encodeGetDaemonEnvironmentErrorValue decodeGetDaemonEnvironmentErrorValue GetDaemonEnvironmentError_object
  by (rule procedureI) (simp_all add: getDaemonEnvironmentProc_def present_def decodeVoidValue_def codec_laws)

interpretation subscribeProcessesRpc: procedure encodeProcessesTableEventValue decodeProcessesTableEventValue
    subscribeProcessesProc encodeSubscribeProcessesErrorValue decodeSubscribeProcessesErrorValue SubscribeProcessesError_object
  by (rule procedureI) (simp_all add: subscribeProcessesProc_def present_def decodeVoidValue_def codec_laws)

interpretation subscribeProcessDetailRpc: procedure encodeProcessDetailEventValue decodeProcessDetailEventValue
    subscribeProcessDetailProc encodeSubscribeProcessDetailErrorValue decodeSubscribeProcessDetailErrorValue SubscribeProcessDetailError_object
  by (rule procedureI) (simp_all add: subscribeProcessDetailProc_def present_def decodeVoidValue_def codec_laws)

interpretation subscribeWindowsRpc: procedure encodeWindowsTableEventValue decodeWindowsTableEventValue
    subscribeWindowsProc encodeSubscribeWindowsErrorValue decodeSubscribeWindowsErrorValue SubscribeWindowsError_object
  by (rule procedureI) (simp_all add: subscribeWindowsProc_def present_def decodeVoidValue_def codec_laws)

interpretation subscribeWindowDetailRpc: procedure encodeWindowDetailEventValue decodeWindowDetailEventValue
    subscribeWindowDetailProc encodeSubscribeWindowDetailErrorValue decodeSubscribeWindowDetailErrorValue SubscribeWindowDetailError_object
  by (rule procedureI) (simp_all add: subscribeWindowDetailProc_def present_def decodeVoidValue_def codec_laws)

interpretation subscribeProcessResourcesInUseRpc: procedure encodeProcessResourcesInUseTableEventValue decodeProcessResourcesInUseTableEventValue
    subscribeProcessResourcesInUseProc encodeSubscribeProcessResourcesInUseErrorValue decodeSubscribeProcessResourcesInUseErrorValue SubscribeProcessResourcesInUseError_object
  by (rule procedureI) (simp_all add: subscribeProcessResourcesInUseProc_def present_def decodeVoidValue_def codec_laws)

interpretation subscribeProcessSocketsInUseRpc: procedure encodeProcessSocketsInUseTableEventValue decodeProcessSocketsInUseTableEventValue
    subscribeProcessSocketsInUseProc encodeSubscribeProcessSocketsInUseErrorValue decodeSubscribeProcessSocketsInUseErrorValue SubscribeProcessSocketsInUseError_object
  by (rule procedureI) (simp_all add: subscribeProcessSocketsInUseProc_def present_def decodeVoidValue_def codec_laws)

interpretation subscribeProcessModulesRpc: procedure encodeProcessModulesTableEventValue decodeProcessModulesTableEventValue
    subscribeProcessModulesProc encodeSubscribeProcessModulesErrorValue decodeSubscribeProcessModulesErrorValue SubscribeProcessModulesError_object
  by (rule procedureI) (simp_all add: subscribeProcessModulesProc_def present_def decodeVoidValue_def codec_laws)

end
