(* ===== verification/EndToEnd.thy ===== *)
theory EndToEnd
  imports RpcProcs Explorer FileViewer
begin

text \<open>
  The layers together: the message codecs, CBOR, the wire envelope, the client's calls and the
  components that use what the calls return. The daemon is represented by the bytes it sends back,
  cut into chunks in any way; \<open>payload_of\<close> says which bytes are the encoding of which value.
\<close>

section \<open>Directory streams as maps\<close>

text \<open>What an event of a directory stream does to the table of its entries, by name.\<close>

fun directory_update ::
    "(jstring \<rightharpoonup> FsEntry) \<Rightarrow> DirectoryTableEvent \<Rightarrow> (jstring \<rightharpoonup> FsEntry)" where
  "directory_update t (DirSnapshot listed) = table_of fs_name listed"
| "directory_update t (DirPatch removes upserts) =
     (t |` (- set (map dirkey_name removes))) ++ table_of fs_name upserts"
| "directory_update t (DirClosed reason) = t"

fun names_distinct :: "DirectoryTableEvent \<Rightarrow> bool" where
  "names_distinct (DirSnapshot listed) \<longleftrightarrow> distinct (map fs_name listed)"
| "names_distinct (DirPatch removes upserts) \<longleftrightarrow> distinct (map fs_name upserts)"
| "names_distinct (DirClosed reason) \<longleftrightarrow> False"

lemma deliver_update:
  assumes "dir_live st = Some g" "names_distinct ev" "distinct (map fs_name (dir_rows st))"
  shows "let st' = deliverDirectory collate g (Event ev) st in
    dir_live st' = Some g \<and> distinct (map fs_name (dir_rows st')) \<and>
    table_of fs_name (dir_rows st') = directory_update (table_of fs_name (dir_rows st)) ev"
  using assms
  by (cases ev) (simp_all add: deliverDirectory_def directory_table.table_apply_patch
      directory_table.distinct_apply_patch)

lemma deliver_updates:
  assumes "dir_live st = Some g" "list_all names_distinct evs" "distinct (map fs_name (dir_rows st))"
  shows "table_of fs_name (dir_rows (foldl (\<lambda>st ev. deliverDirectory collate g (Event ev) st) st evs))
      = foldl directory_update (table_of fs_name (dir_rows st)) evs"
  using assms
proof (induction evs arbitrary: st)
  case (Cons ev evs)
  with deliver_update [of st g ev collate] show ?case by (simp add: Let_def)
qed simp

section \<open>Payloads\<close>

text \<open>
  The bytes an encoder writes for a value, and the values an encoder and a decoder leave alone: their texts are
  well formed and begin with no byte order mark, their lists are within the limit of the decoder.
\<close>

definition written_as :: "('a \<Rightarrow> cbor_value result) \<Rightarrow> 'a \<Rightarrow> bytes \<Rightarrow> bool" where
  "written_as enc a b \<longleftrightarrow> ebind (enc a) encodeCbor = Inr b"

definition plain_value :: "('a \<Rightarrow> cbor_value result) \<Rightarrow> 'a \<Rightarrow> bool" where
  "plain_value enc a \<longleftrightarrow> (case enc a of Inl _ \<Rightarrow> True | Inr v \<Rightarrow> plain v)"

lemma payload_of_iff: "payload_of enc a b \<longleftrightarrow> written_as enc a b \<and> plain_value enc a"
  by (auto simp: payload_of_def written_as_def plain_value_def split: sum.splits)

lemma payloads_of:
  "list_all2 (payload_of enc) events payloads \<longleftrightarrow>
   list_all2 (written_as enc) events payloads \<and> list_all (plain_value enc) events"
  by (induction events payloads rule: list_induct2') (auto simp: payload_of_iff)

section \<open>Properties\<close>

text \<open>(C3) A file read through the daemon arrives as it is: if the daemon answers \<open>readFile\<close> with
  consecutive chunks, however the transport cuts the bytes, the call yields those chunks and
  assembling them gives the file's bytes.\<close>

theorem read_file_end_to_end:
  assumes "contiguous off parts"
    and "list_all2 (payload_of encodeReadFileChunkValue) parts payloads"
    and "encodeReqResMessageSequence (event_messages payloads) = Inr (concat cs)"
    and "encodeRequest readFileProc (Some request) = Inr payload"
    and "unary_request readFileProc payload = Inr req"
    and "exchange [req] = Inr \<lparr>chunks = cs, read_error = None\<rparr>"
  shows "outcome (readFile exchange request) = Inr () \<and>
    readFileBytes (Inr (yielded (readFile exchange request))) (rfr_offset request)
      = Inr (concat (map rf_bytes parts))"
  using readFileRpc.stream_yields [of "Some request" payload req exchange cs, OF assms(4-6,2,3)] assemble_contiguous [OF assms(1)]
  by (simp add: readFile_def readFileBytes_def)

theorem read_file_end_to_end_witness:
  "\<exists>run. run = readFile (\<lambda>ws. Inr \<lparr>chunks = [[0x05, 0xa1, 0x02, 0x47, 0xa2, 0x01, 0x00, 0x02, 0x42],
      [0x01, 0x02, 0x06, 0xa1, 0x02, 0x46, 0xa2, 0x01, 0x02, 0x02, 0x41, 0x03]], read_error = None\<rparr>)
      \<lparr>rfr_path = js ''f'', rfr_offset = None, rfr_length = None\<rparr> \<and>
    readFileBytes (Inr (yielded run)) None = Inr [1, 2, 3]"
proof -
  let ?parts = "[\<lparr>rf_offset = 0, rf_bytes = [1, 2]\<rparr>, \<lparr>rf_offset = 2, rf_bytes = [3]\<rparr>]"
  let ?payloads = "[[0xa2, 0x01, 0x00, 0x02, 0x42, 0x01, 0x02], [0xa2, 0x01, 0x02, 0x02, 0x41, 0x03]] :: bytes list"
  let ?cs = "[[0x05, 0xa1, 0x02, 0x47, 0xa2, 0x01, 0x00, 0x02, 0x42],
      [0x01, 0x02, 0x06, 0xa1, 0x02, 0x46, 0xa2, 0x01, 0x02, 0x02, 0x41, 0x03]] :: bytes list"
  let ?request = "\<lparr>rfr_path = js ''f'', rfr_offset = None, rfr_length = None\<rparr>"
  have p: "list_all2 (payload_of encodeReadFileChunkValue) ?parts ?payloads"
    by (simp add: payload_of_def codec_defs encodeFields_def field_def cborBytes_def cbor_eval)
  have m: "encodeReqResMessageSequence (event_messages ?payloads) = Inr (concat ?cs)"
    by (simp add: event_messages_def encodeReqResMessageSequence_def client_eval)
  have r: "encodeRequest readFileProc (Some ?request) = Inr (Some [0xa1, 0x01, 0x61, 0x66])"
    by (simp add: encodeRequest_def readFileProc_def codec_defs encodeFields_def field_def optional_def
        cborText_def cbor_eval)
  have u: "unary_request readFileProc (Some [0xa1, 0x01, 0x61, 0x66])
      = Inr [0x00, 0xa2, 0x01, 0x07, 0x02, 0x44, 0xa1, 0x01, 0x61, 0x66]"
    by (simp add: unary_request_def client_eval readFileProc_def)
  from read_file_end_to_end [OF _ p m r u, of 0 "\<lambda>ws. Inr \<lparr>chunks = ?cs, read_error = None\<rparr>"]
  show ?thesis by simp
qed

text \<open>(C4) A watched directory: the table the explorer shows is the daemon's. If the daemon answers
  \<open>subscribeDirectory\<close> with snapshots and patches, however the transport cuts the bytes, the entries
  of the explorer are, as a map from names, the updates applied in order. The events have names that differ within
  each snapshot and within the updates of each patch, and texts that are well formed and begin with no byte order
  mark, which the decoder would drop.\<close>

theorem directory_stream_end_to_end:
  assumes "list_all2 (written_as encodeDirectoryTableEventValue) events payloads"
    and "list_all (plain_value encodeDirectoryTableEventValue) events" "list_all names_distinct events"
    and "encodeReqResMessageSequence (event_messages payloads) = Inr (concat cs)"
    and "encodeRequest subscribeDirectoryProc (Some request) = Inr payload"
    and "unary_request subscribeDirectoryProc payload = Inr req"
    and "exchange [req] = Inr \<lparr>chunks = cs, read_error = None\<rparr>"
    and "dir_live st = Some g" "distinct (map fs_name (dir_rows st))"
  shows "table_of fs_name (dir_rows
      (foldl (\<lambda>st ev. deliverDirectory collate g (Event ev) st) st
        (yielded (subscribeDirectory exchange request))))
    = foldl directory_update (table_of fs_name (dir_rows st)) events"
proof -
  from assms(1,2) have "list_all2 (payload_of encodeDirectoryTableEventValue) events payloads" by (simp add: payloads_of)
  from subscribeDirectoryRpc.stream_yields [of "Some request" payload req exchange cs, OF assms(5-7) this assms(4)]
  show ?thesis using deliver_updates [OF assms(8,3,9)] by (simp add: subscribeDirectory_def)
qed

text \<open>A listing of \<open>c\<close>, of which a snapshot makes one of \<open>a\<close> and a patch one of \<open>b\<close>.\<close>

definition file_at_root :: "string \<Rightarrow> FsEntry" where
  "file_at_root name = \<lparr>fs_name = js name, fs_path = js (CHR ''/'' # name), fs_kind = FsFile, fs_size = None,
     fs_modifiedAtMs = None, fs_readonly = False\<rparr>"

lemma file_at_root_value: "encodeFsEntryValue (file_at_root name) = Inr (CMap
    [(1, CText (js name)), (2, CText (js (CHR ''/'' # name))), (3, CNumber (JInt 1)), (6, CBool False)])"
  by (simp add: encodeFsEntryValue_def file_at_root_def encodeFields_def field_def optional_def cborText_def cborBool_def
      encodeFsEntryKindValue_def encodeEnum_def)

lemma listing_events:
  defines "events \<equiv> [DirSnapshot [file_at_root ''a''], DirPatch [\<lparr>dirkey_name = js ''a''\<rparr>] [file_at_root ''b'']]"
    and "payloads \<equiv> [[0x82, 0x01, 0xa1, 0x01, 0x81, 0xa4, 0x01, 0x61, 0x61, 0x02, 0x62, 0x2f, 0x61, 0x03, 0x01, 0x06, 0xf4],
      [0x82, 0x02, 0xa2, 0x01, 0x81, 0xa1, 0x01, 0x61, 0x61, 0x02, 0x81, 0xa4, 0x01, 0x61, 0x62, 0x02, 0x62, 0x2f, 0x62,
       0x03, 0x01, 0x06, 0xf4]]"
  shows "list_all2 (written_as encodeDirectoryTableEventValue) events payloads"
    "list_all (plain_value encodeDirectoryTableEventValue) events" "list_all names_distinct events"
proof -
  have k: "encodeDirectoryEntryKeyValue \<lparr>dirkey_name = js ''a''\<rparr> = Inr (CMap [(1, CText (js ''a''))])"
    by (simp add: encodeDirectoryEntryKeyValue_def encodeFields_def field_def cborText_def)
  have e: "encodeDirectoryTableEventValue (DirSnapshot [file_at_root ''a'']) = Inr (union_tuple 1
      [(1, CArray [CMap [(1, CText (js ''a'')), (2, CText (js ''/a'')), (3, CNumber (JInt 1)), (6, CBool False)]])])"
    "encodeDirectoryTableEventValue (DirPatch [\<lparr>dirkey_name = js ''a''\<rparr>] [file_at_root ''b'']) = Inr (union_tuple 2
      [(1, CArray [CMap [(1, CText (js ''a''))]]),
       (2, CArray [CMap [(1, CText (js ''b'')), (2, CText (js ''/b'')), (3, CNumber (JInt 1)), (6, CBool False)]])])"
    by (simp_all add: encodeVariant_def field_def encodeArray_def file_at_root_value k)
  show "list_all2 (written_as encodeDirectoryTableEventValue) events payloads"
    unfolding events_def payloads_def by (simp add: written_as_def e del: encodeDirectoryTableEventValue.simps, simp add: union_tuple_def cbor_eval)
  show "list_all (plain_value encodeDirectoryTableEventValue) events"
    unfolding events_def by (simp add: plain_value_def e union_tuple_def MAX_ARRAY_LENGTH_def del: encodeDirectoryTableEventValue.simps)
  show "list_all names_distinct events" unfolding events_def by simp
qed

lemma listing_messages:
  "encodeReqResMessageSequence (event_messages
     [[0x82, 0x01, 0xa1, 0x01, 0x81, 0xa4, 0x01, 0x61, 0x61, 0x02, 0x62, 0x2f, 0x61, 0x03, 0x01, 0x06, 0xf4],
      [0x82, 0x02, 0xa2, 0x01, 0x81, 0xa1, 0x01, 0x61, 0x61, 0x02, 0x81, 0xa4, 0x01, 0x61, 0x62, 0x02, 0x62, 0x2f, 0x62,
       0x03, 0x01, 0x06, 0xf4]])
   = Inr (concat [[0x05, 0xa1, 0x02, 0x51, 0x82, 0x01, 0xa1, 0x01, 0x81, 0xa4, 0x01, 0x61, 0x61],
      [0x02, 0x62, 0x2f, 0x61, 0x03, 0x01, 0x06, 0xf4, 0x06, 0xa1],
      [0x02, 0x57, 0x82, 0x02, 0xa2, 0x01, 0x81, 0xa1, 0x01, 0x61, 0x61, 0x02, 0x81, 0xa4, 0x01, 0x61, 0x62, 0x02, 0x62,
       0x2f, 0x62, 0x03, 0x01, 0x06, 0xf4]])"
  by (simp add: event_messages_def encodeReqResMessageSequence_def client_eval)

theorem directory_stream_end_to_end_witness:
  "table_of fs_name (dir_rows
      (foldl (\<lambda>st ev. deliverDirectory (\<lambda>a b. 0) 0 (Event ev) st)
        ((initial_explorer None [] LRoot) \<lparr>dir_live := Some 0, dir_rows := [file_at_root ''c'']\<rparr>)
        (yielded (subscribeDirectory
          (\<lambda>ws. Inr \<lparr>chunks = [[0x05, 0xa1, 0x02, 0x51, 0x82, 0x01, 0xa1, 0x01, 0x81, 0xa4, 0x01, 0x61, 0x61],
            [0x02, 0x62, 0x2f, 0x61, 0x03, 0x01, 0x06, 0xf4, 0x06, 0xa1],
            [0x02, 0x57, 0x82, 0x02, 0xa2, 0x01, 0x81, 0xa1, 0x01, 0x61, 0x61, 0x02, 0x81, 0xa4, 0x01, 0x61, 0x62, 0x02, 0x62,
             0x2f, 0x62, 0x03, 0x01, 0x06, 0xf4]], read_error = None\<rparr>)
          \<lparr>sdr_path = js ''f''\<rparr>))))
   = [js ''b'' \<mapsto> file_at_root ''b'']"
proof -
  let ?request = "\<lparr>sdr_path = js ''f''\<rparr>"
  have r: "encodeRequest subscribeDirectoryProc (Some ?request) = Inr (Some [0xa1, 0x01, 0x61, 0x66])"
    by (simp add: encodeRequest_def subscribeDirectoryProc_def codec_defs encodeFields_def field_def
        cborText_def cbor_eval)
  have u: "unary_request subscribeDirectoryProc (Some [0xa1, 0x01, 0x61, 0x66])
      = Inr [0x00, 0xa2, 0x01, 0x06, 0x02, 0x44, 0xa1, 0x01, 0x61, 0x66]"
    by (simp add: unary_request_def client_eval subscribeDirectoryProc_def)
  have "foldl directory_update (table_of fs_name [file_at_root ''c''])
      [DirSnapshot [file_at_root ''a''], DirPatch [\<lparr>dirkey_name = js ''a''\<rparr>] [file_at_root ''b'']] = [js ''b'' \<mapsto> file_at_root ''b'']"
    by (simp add: file_at_root_def restrict_map_insert)
  with directory_stream_end_to_end [OF listing_events listing_messages r u refl,
      of "(initial_explorer None [] LRoot) \<lparr>dir_live := Some 0, dir_rows := [file_at_root ''c'']\<rparr>" 0 "\<lambda>a b. 0"]
  show ?thesis by simp
qed

text \<open>A terminal session is created as the daemon says: the call returns exactly the session
  the daemon describes, and if the daemon reports an error of the method instead, the call throws
  the \<open>RpcError\<close> with that error's type and message.\<close>

theorem create_terminal_session_answer:
  assumes "encodeRequest createTerminalSessionProc (Some request) = Inr payload"
    and "unary_request createTerminalSessionProc payload = Inr req"
    and "exchange [req] = Inr \<lparr>chunks = cs, read_error = None\<rparr>"
  shows "(payload_of encodeTerminalSessionInfoValue info b \<and>
      encodeReqResMessageSequence [(message ResponseUnaryOk)\<lparr>rr_payload := Some b\<rparr>] = Inr (concat cs) \<longrightarrow>
      createTerminalSession exchange request = Inr info) \<and>
    (payload_of encodeCreateTerminalSessionErrorValue (CreateTerminalSessionShellNotFound msg) b \<and>
      encodeReqResMessageSequence
        [(message ResponseUnaryError)\<lparr>rr_error := Some b, rr_errorKind := Some Method\<rparr>] = Inr (concat cs) \<longrightarrow>
      createTerminalSession exchange request = Inl (RpcError (js ''shellNotFound'') msg))"
  using createTerminalSessionRpc.unary_returns [of "Some request" payload req exchange cs info b]
    createTerminalSessionRpc.unary_throws [of "Some request" payload req exchange cs
      "CreateTerminalSessionShellNotFound msg" b] assms
  by (simp_all add: createTerminalSession_def error_object_def errorCode_def errorMessage_def)

theorem create_terminal_session_answer_witness:
  "createTerminalSession (\<lambda>ws. Inr \<lparr>chunks = [[0x04, 0xa2, 0x03, 0x46, 0x82], [0x03, 0xa1, 0x01, 0x61,
      0x78, 0x04, 0x02]], read_error = None\<rparr>)
     \<lparr>ctsr_cols = 80, ctsr_rows = 24, ctsr_cwd = None,
      ctsr_launch = \<lparr>launch_command = js ''z'', launch_args = []\<rparr>, ctsr_title = None\<rparr>
   = Inl (RpcError (js ''shellNotFound'') (js ''x''))"
proof -
  let ?cs = "[[0x04, 0xa2, 0x03, 0x46, 0x82], [0x03, 0xa1, 0x01, 0x61, 0x78, 0x04, 0x02]] :: bytes list"
  let ?request = "\<lparr>ctsr_cols = 80, ctsr_rows = 24, ctsr_cwd = None,
      ctsr_launch = \<lparr>launch_command = js ''z'', launch_args = []\<rparr>, ctsr_title = None\<rparr>"
  have r: "encodeRequest createTerminalSessionProc (Some ?request)
      = Inr (Some [0xa3, 0x01, 0x18, 0x50, 0x02, 0x18, 0x18, 0x04, 0xa2, 0x01, 0x61, 0x7a, 0x02, 0x80])"
    by (simp add: encodeRequest_def createTerminalSessionProc_def codec_defs encodeFields_def field_def
        optional_def encodeArray_def cborText_def cbor_eval)
  have u: "unary_request createTerminalSessionProc (Some [0xa3, 0x01, 0x18, 0x50, 0x02, 0x18, 0x18, 0x04,
      0xa2, 0x01, 0x61, 0x7a, 0x02, 0x80]) = Inr [0x00, 0xa2, 0x01, 0x0c, 0x02, 0x4e, 0xa3, 0x01, 0x18, 0x50,
      0x02, 0x18, 0x18, 0x04, 0xa2, 0x01, 0x61, 0x7a, 0x02, 0x80]"
    by (simp add: unary_request_def client_eval createTerminalSessionProc_def)
  have e: "payload_of encodeCreateTerminalSessionErrorValue
      (CreateTerminalSessionShellNotFound (js ''x'')) [0x82, 0x03, 0xa1, 0x01, 0x61, 0x78]"
    using text_norm_js [of "''x''"] by (simp add: payload_of_def encodeVariant_def field_def cborText_def union_tuple_def
        MAX_ARRAY_LENGTH_def cbor_eval)
  have m: "encodeReqResMessageSequence [(message ResponseUnaryError)
      \<lparr>rr_error := Some [0x82, 0x03, 0xa1, 0x01, 0x61, 0x78], rr_errorKind := Some Method\<rparr>] = Inr (concat ?cs)"
    by (simp add: client_eval encodeRpcErrorKindValue_def)
  show ?thesis
    using create_terminal_session_answer [OF r u, of "\<lambda>ws. Inr \<lparr>chunks = ?cs, read_error = None\<rparr>" ?cs] e m
    by simp
qed

text \<open>(C34) The payload of every event and row the daemon streams decodes to the value it was made
  from: terminals, processes, windows, shells, the file system, the trash and the clients; as long as the texts
  of the value are well formed and begin with no byte order mark, which the decoder would drop, and its lists are
  within the limit of the decoder.\<close>

theorem event_payloads_decode:
  "(\<forall>a. written_as encodeRootsTableEventValue a b \<and> plain_value encodeRootsTableEventValue a \<longrightarrow>
      ebind (decodeCbor b) decodeRootsTableEventValue = Inr a) \<and>
   (\<forall>a. written_as encodeDirectoryTableEventValue a b \<and> plain_value encodeDirectoryTableEventValue a \<longrightarrow>
      ebind (decodeCbor b) decodeDirectoryTableEventValue = Inr a) \<and>
   (\<forall>a. written_as encodeReadFileChunkValue a b \<and> plain_value encodeReadFileChunkValue a \<longrightarrow>
      ebind (decodeCbor b) decodeReadFileChunkValue = Inr a) \<and>
   (\<forall>a. written_as encodeTerminalSessionsTableEventValue a b \<and> plain_value encodeTerminalSessionsTableEventValue a \<longrightarrow>
      ebind (decodeCbor b) decodeTerminalSessionsTableEventValue = Inr a) \<and>
   (\<forall>a. written_as encodeAvailableShellsTableEventValue a b \<and> plain_value encodeAvailableShellsTableEventValue a \<longrightarrow>
      ebind (decodeCbor b) decodeAvailableShellsTableEventValue = Inr a) \<and>
   (\<forall>a. written_as encodeTerminalEventValue a b \<and> plain_value encodeTerminalEventValue a \<longrightarrow>
      ebind (decodeCbor b) decodeTerminalEventValue = Inr a) \<and>
   (\<forall>a. written_as encodeClientsTableEventValue a b \<and> plain_value encodeClientsTableEventValue a \<longrightarrow>
      ebind (decodeCbor b) decodeClientsTableEventValue = Inr a) \<and>
   (\<forall>a. written_as encodeTrashItemsTableEventValue a b \<and> plain_value encodeTrashItemsTableEventValue a \<longrightarrow>
      ebind (decodeCbor b) decodeTrashItemsTableEventValue = Inr a) \<and>
   (\<forall>a. written_as encodeProcessesTableEventValue a b \<and> plain_value encodeProcessesTableEventValue a \<longrightarrow>
      ebind (decodeCbor b) decodeProcessesTableEventValue = Inr a) \<and>
   (\<forall>a. written_as encodeProcessDetailEventValue a b \<and> plain_value encodeProcessDetailEventValue a \<longrightarrow>
      ebind (decodeCbor b) decodeProcessDetailEventValue = Inr a) \<and>
   (\<forall>a. written_as encodeWindowsTableEventValue a b \<and> plain_value encodeWindowsTableEventValue a \<longrightarrow>
      ebind (decodeCbor b) decodeWindowsTableEventValue = Inr a) \<and>
   (\<forall>a. written_as encodeWindowDetailEventValue a b \<and> plain_value encodeWindowDetailEventValue a \<longrightarrow>
      ebind (decodeCbor b) decodeWindowDetailEventValue = Inr a) \<and>
   (\<forall>a. written_as encodeProcessResourcesInUseTableEventValue a b \<and> plain_value encodeProcessResourcesInUseTableEventValue a \<longrightarrow>
      ebind (decodeCbor b) decodeProcessResourcesInUseTableEventValue = Inr a) \<and>
   (\<forall>a. written_as encodeProcessSocketsInUseTableEventValue a b \<and> plain_value encodeProcessSocketsInUseTableEventValue a \<longrightarrow>
      ebind (decodeCbor b) decodeProcessSocketsInUseTableEventValue = Inr a) \<and>
   (\<forall>a. written_as encodeProcessModulesTableEventValue a b \<and> plain_value encodeProcessModulesTableEventValue a \<longrightarrow>
      ebind (decodeCbor b) decodeProcessModulesTableEventValue = Inr a)"
  unfolding payload_of_iff [symmetric]
  by (intro conjI allI impI; rule payload_decodes; assumption?; simp add: codec_laws)

theorem event_payloads_decode_witness:
  "ebind (decodeCbor [0x82, 0x03, 0xa1, 0x01, 0x19, 0x01, 0x00]) decodeTerminalEventValue
   = Inr (TerminalHistoryGap 256)"
proof -
  have "written_as encodeTerminalEventValue (TerminalHistoryGap 256) [0x82, 0x03, 0xa1, 0x01, 0x19, 0x01, 0x00]"
    "plain_value encodeTerminalEventValue (TerminalHistoryGap 256)"
    by (simp_all add: written_as_def plain_value_def encodeVariant_def field_def union_tuple_def MAX_ARRAY_LENGTH_def cbor_eval)
  then show ?thesis
    using event_payloads_decode [of "[0x82, 0x03, 0xa1, 0x01, 0x19, 0x01, 0x00]"] by blast
qed

end
