(* ===== verification/TerminalShells.thy ===== *)
theory TerminalShells
  imports Explorer RpcTerminals
begin

text \<open>
  \<open>web/src/state/terminal-shells.ts\<close>: the shells a terminal can be launched with, kept up to date
  by a subscription for the selected machine. The state has what the bunja reads (the selected
  machine and the daemon's instance id) and what it writes; the streams are numbered by the calls
  of \<open>start\<close>, and \<open>sh_keys\<close> records the subscription key each of them was started for.
\<close>

section \<open>State and operations\<close>

record terminal_shells =
  sh_machine :: "Machine option"
  sh_instance :: "jstring option"
  sh_rows :: "AvailableShellInfo list"
  sh_live :: "nat option"
  sh_keys :: "jstring list"

definition defaultShell :: "terminal_shells \<Rightarrow> AvailableShellInfo option" where
  "defaultShell s =
     (case List.find asi_isDefault (sh_rows s) of Some sh \<Rightarrow> Some sh | None \<Rightarrow> head (sh_rows s))"

definition terminalShellsSubscriptionKey ::
    "Machine option \<Rightarrow> bool \<Rightarrow> jstring option \<Rightarrow> jstring" where
  "terminalShellsSubscriptionKey machine selectedIsPaired daemonInstanceId =
     (case machine of
        None \<Rightarrow> js ''idle''
      | Some m \<Rightarrow>
          if \<not> selectedIsPaired \<or> \<not> truthy daemonInstanceId then js ''idle''
          else join [10] [m_id m, m_baseUrl m, getOr (m_clientId m) [], getOr (m_clientSecret m) [],
            the daemonInstanceId])"

definition subscription_key :: "terminal_shells \<Rightarrow> jstring" where
  "subscription_key s =
     terminalShellsSubscriptionKey (sh_machine s) (isPaired (sh_machine s)) (sh_instance s)"

definition applyShellPatch ::
    "AvailableShellInfo list \<Rightarrow> jstring list \<Rightarrow> AvailableShellInfo list \<Rightarrow> AvailableShellInfo list" where
  "applyShellPatch current removeIds upserts =
     (let retained = filter (\<lambda>shell. asi_shellId shell \<notin> set removeIds) current in
      filter (\<lambda>shell. asi_shellId shell \<notin> set (map asi_shellId upserts)) retained @ upserts)"

definition start_shells :: "terminal_shells \<Rightarrow> terminal_shells" where
  "start_shells s =
     (let s' = s\<lparr>sh_live := None, sh_rows := [], sh_keys := sh_keys s @ [subscription_key s]\<rparr> in
      if sh_machine s = None \<or> \<not> isPaired (sh_machine s) then s'
      else s'\<lparr>sh_live := Some (length (sh_keys s))\<rparr>)"

text \<open>Stream \<open>g\<close> produces an event, or its loop throws.\<close>

definition deliver_shells :: "nat \<Rightarrow> AvailableShellsTableEvent stream_item \<Rightarrow> terminal_shells \<Rightarrow> terminal_shells" where
  "deliver_shells g item s =
     (if sh_live s \<noteq> Some g then s
      else case item of
        Event (AvailableShellsSnapshot listed) \<Rightarrow> s\<lparr>sh_rows := listed\<rparr>
      | Event (AvailableShellsPatch removes upserts) \<Rightarrow>
          s\<lparr>sh_rows := applyShellPatch (sh_rows s) (map ask_shellId removes) upserts\<rparr>
      | Failure err \<Rightarrow> s\<lparr>sh_rows := []\<rparr>)"

text \<open>\<open>store.sub(terminalShellsSubscriptionKeyAtom, start)\<close> on a change of what the key is made of.\<close>

definition shells_input :: "Machine option \<Rightarrow> jstring option \<Rightarrow> terminal_shells \<Rightarrow> terminal_shells" where
  "shells_input machine daemonInstanceId s =
     (let s' = s\<lparr>sh_machine := machine, sh_instance := daemonInstanceId\<rparr> in
      if subscription_key s' = subscription_key s then s' else start_shells s')"

definition initial_shells :: "Machine option \<Rightarrow> jstring option \<Rightarrow> terminal_shells" where
  "initial_shells machine daemonInstanceId =
     start_shells \<lparr>sh_machine = machine, sh_instance = daemonInstanceId, sh_rows = [], sh_live = None,
       sh_keys = []\<rparr>"

section \<open>Interfaces\<close>

interpretation shells_table: keyed_table asi_shellId applyShellPatch
  by unfold_locales (simp add: applyShellPatch_def Let_def conj_commute)

interpretation shells_stream: subscription "\<lambda>s. length (sh_keys s)" sh_live "\<lambda>_ :: unit. start_shells"
  deliver_shells
  by unfold_locales (auto simp: start_shells_def deliver_shells_def Let_def
      split: stream_item.splits AvailableShellsTableEvent.splits)

section \<open>Runs\<close>

inductive shells_reachable :: "terminal_shells \<Rightarrow> bool" where
  shells_initial: "shells_reachable (initial_shells machine daemonInstanceId)"
| shells_inputs: "shells_reachable s \<Longrightarrow> shells_reachable (shells_input machine daemonInstanceId s)"
| shells_delivers: "shells_reachable s \<Longrightarrow> shells_reachable (deliver_shells g item s)"

text \<open>The stream that is listened to was started for the current key; without one, or with a
  machine that is not paired, nothing is shown.\<close>

definition shells_ok :: "terminal_shells \<Rightarrow> bool" where
  "shells_ok s \<longleftrightarrow>
     (case sh_live s of
        None \<Rightarrow> sh_rows s = []
      | Some g \<Rightarrow> g < length (sh_keys s) \<and> sh_keys s ! g = subscription_key s)"

lemma start_shells_ok: "shells_ok (start_shells s)"
  by (simp add: shells_ok_def start_shells_def Let_def subscription_key_def)

lemma input_shells_ok: "shells_ok s \<Longrightarrow> shells_ok (shells_input machine daemonInstanceId s)"
  by (cases "sh_live s") (simp_all add: shells_input_def Let_def start_shells_ok, simp_all add: shells_ok_def)

lemma deliver_shells_ok: "shells_ok s \<Longrightarrow> shells_ok (deliver_shells g item s)"
  by (auto simp: deliver_shells_def shells_ok_def subscription_key_def
      split: stream_item.splits AvailableShellsTableEvent.splits option.splits)

lemma reachable_shells_ok: "shells_reachable s \<Longrightarrow> shells_ok s"
  by (induction rule: shells_reachable.induct)
    (simp_all add: initial_shells_def start_shells_ok input_shells_ok deliver_shells_ok)

section \<open>Properties\<close>

text \<open>The shells on offer belong to the machine shown: whatever the streams deliver and however
  the selection, the pairing and the daemon change, the stream that is listened to was started for
  the current subscription key, without one nothing is offered, and the default shell is one of the
  shells on offer.\<close>

theorem shells_of_selected_machine:
  assumes "shells_reachable s"
  shows "(case sh_live s of
       None \<Rightarrow> sh_rows s = [] \<and> defaultShell s = None
     | Some g \<Rightarrow> g < length (sh_keys s) \<and> sh_keys s ! g = subscription_key s) \<and>
    (\<forall>sh. defaultShell s = Some sh \<longrightarrow> sh \<in> set (sh_rows s) \<and>
       (asi_isDefault sh \<or> (\<forall>r \<in> set (sh_rows s). \<not> asi_isDefault r)))"
  using reachable_shells_ok [OF assms]
  by (cases "sh_rows s")
    (auto simp: shells_ok_def defaultShell_def find_None_iff split: option.splits if_splits dest: find_SomeD)

theorem shells_of_selected_machine_witness:
  "let shell = \<lparr>asi_shellId = [1], asi_name = [], asi_command = [], asi_args = [], asi_isDefault = False\<rparr>;
       s = deliver_shells 0 (Event (AvailableShellsSnapshot [shell]))
         (initial_shells (Some (box_machine \<lparr>m_clientId := Some [1], m_clientSecret := Some [1]\<rparr>)) None)
   in sh_keys s ! 0 = subscription_key s \<and> defaultShell s = Some shell \<and> shell \<in> set (sh_rows s)"
proof -
  let ?shell = "\<lparr>asi_shellId = [1], asi_name = [], asi_command = [], asi_args = [], asi_isDefault = False\<rparr>"
  let ?s = "deliver_shells 0 (Event (AvailableShellsSnapshot [?shell]))
    (initial_shells (Some (box_machine \<lparr>m_clientId := Some [1], m_clientSecret := Some [1]\<rparr>)) None)"
  have "shells_reachable ?s" by (intro shells_delivers shells_initial)
  note t = shells_of_selected_machine [OF this]
  have live: "sh_live ?s = Some 0" and default: "defaultShell ?s = Some ?shell"
    by (simp_all add: deliver_shells_def initial_shells_def start_shells_def Let_def isPaired_def truthy_def
        box_machine_def defaultShell_def)
  from t have "sh_keys ?s ! 0 = subscription_key ?s" unfolding live option.case by blast
  moreover from t default have "?shell \<in> set (sh_rows ?s)" by blast
  ultimately show ?thesis using default unfolding Let_def by blast
qed

end
