(* ===== verification/MachineModal.thy ===== *)
theory MachineModal
  imports Machines RpcDaemon
begin

text \<open>
  \<open>web/src/state/machine-modal.ts\<close>: the dialogs that add, configure, pair and delete machines. The
  state has the atoms of the bunja, the machine store and menu it works on, and the calls in
  flight: \<open>mo_requests\<close> lists the pairing code requests that have not been answered, by serial
  and machine, \<open>mo_pairing_for\<close> is the machine a running \<open>pairSelected\<close> is for. What the code does
  after an \<open>await\<close> is a function of its own. Random bytes and identifiers are arguments.
\<close>

section \<open>State\<close>

datatype MachineModalMode = ModalAdd | ModalConfig | ModalPair | ModalDelete

record modal =
  mo_name :: jstring
  mo_nameEdited :: bool
  mo_baseUrl :: jstring
  mo_configName :: jstring
  mo_configUrl :: jstring
  mo_mode :: "MachineModalMode option"
  mo_error :: jstring
  mo_pairingCode :: jstring
  mo_confirmation :: "jstring option"
  mo_expires :: "int option"
  mo_requesting :: bool
  mo_pairing :: bool
  mo_serial :: nat
  mo_requests :: "(nat \<times> jstring) list"
  mo_pairing_for :: "jstring option"
  mo_store :: machine_store
  mo_menu :: machine_menu

definition initial_modal :: "machine_store \<Rightarrow> modal" where
  "initial_modal store = \<lparr>mo_name = [], mo_nameEdited = False, mo_baseUrl = [], mo_configName = [],
     mo_configUrl = [], mo_mode = None, mo_error = [], mo_pairingCode = [], mo_confirmation = None,
     mo_expires = None, mo_requesting = False, mo_pairing = False, mo_serial = 0, mo_requests = [],
     mo_pairing_for = None, mo_store = store, mo_menu = \<lparr>machineMenu = None, railTooltip = None\<rparr>\<rparr>"

fun machineModalTitle :: "MachineModalMode option \<Rightarrow> string" where
  "machineModalTitle (Some ModalPair) = ''Pair machine''"
| "machineModalTitle (Some ModalConfig) = ''Machine config''"
| "machineModalTitle (Some ModalDelete) = ''Delete machine''"
| "machineModalTitle (Some ModalAdd) = ''Add machine''"
| "machineModalTitle None = ''Add machine''"

section \<open>Names and codes\<close>

definition inferMachineNameFromUrl :: "(jstring \<Rightarrow> url result) \<Rightarrow> jstring \<Rightarrow> jstring" where
  "inferMachineNameFromUrl url_parse raw =
     (case ebind (normalizeMachineUrl url_parse raw) url_parse of
        Inl _ \<Rightarrow> []
      | Inr u \<Rightarrow>
          let firstLabel = takeWhile (\<lambda>c. c \<noteq> u16 CHR ''.'') (hostname u) in
          if u16 CHR ''.'' \<in> set (hostname u) \<and> list_ex is_letter firstLabel then firstLabel
          else hostname u)"

text \<open>\<open>padStart(2, "0")\<close> of a number below 100.\<close>

definition createPairingConfirmationCode :: "u8 \<Rightarrow> string" where
  "createPairingConfirmationCode b =
     (let s = show_nat (unat b mod 100) in replicate (2 - length s) CHR ''0'' @ s)"

definition browserClientLabel :: "jstring option \<Rightarrow> jstring" where
  "browserClientLabel userAgent =
     (case userAgent of
        None \<Rightarrow> js ''web''
      | Some a \<Rightarrow> if trim a \<noteq> [] then trim a else js ''web'')"

section \<open>Pairing codes\<close>

definition resetPairingCode :: "modal \<Rightarrow> modal" where
  "resetPairingCode m = m\<lparr>mo_pairingCode := [], mo_confirmation := None, mo_expires := None\<rparr>"

definition cancelPairingRequest :: "modal \<Rightarrow> modal" where
  "cancelPairingRequest m = m\<lparr>mo_serial := mo_serial m + 1, mo_requesting := False\<rparr>"

definition requestPairingCode :: "u8 \<Rightarrow> jstring \<Rightarrow> modal \<Rightarrow> modal" where
  "requestPairingCode b machineId m =
     (let serial = mo_serial m + 1;
          m = resetPairingCode (m\<lparr>mo_serial := serial, mo_error := []\<rparr>)
      in m\<lparr>mo_confirmation := Some (js (createPairingConfirmationCode b)), mo_requesting := True,
           mo_requests := (serial, machineId) # mo_requests m\<rparr>)"

definition isCurrentPairingRequest :: "jstring \<Rightarrow> nat \<Rightarrow> modal \<Rightarrow> bool" where
  "isCurrentPairingRequest machineId serial m \<longleftrightarrow>
     serial = mo_serial m \<and> mo_mode m = Some ModalPair \<and>
     map_option m_id (selected (mo_store m)) = Some machineId \<and>
     findMachine (Some machineId) (mo_store m) \<noteq> None"

text \<open>The end of the request: the expiry of the code or the error of the call, and \<open>finally\<close>.\<close>

definition pairing_code_answered :: "nat \<Rightarrow> jstring \<Rightarrow> int result \<Rightarrow> modal \<Rightarrow> modal" where
  "pairing_code_answered serial machineId answer m =
     (let m = m\<lparr>mo_requests := filter (\<lambda>r. r \<noteq> (serial, machineId)) (mo_requests m)\<rparr>;
          m = (if \<not> isCurrentPairingRequest machineId serial m then m
               else case answer of
                 Inr expires \<Rightarrow> m\<lparr>mo_expires := Some expires\<rparr>
               | Inl err \<Rightarrow> m\<lparr>mo_error := err_message err\<rparr>)
      in if serial = mo_serial m then m\<lparr>mo_requesting := False\<rparr> else m)"

definition requestSelectedPairingCode :: "u8 \<Rightarrow> modal \<Rightarrow> modal" where
  "requestSelectedPairingCode b m =
     (case selected (mo_store m) of None \<Rightarrow> m | Some machine \<Rightarrow> requestPairingCode b (m_id machine) m)"

definition pairSelected :: "modal \<Rightarrow> modal" where
  "pairSelected m =
     (case selected (mo_store m) of
        None \<Rightarrow> m
      | Some machine \<Rightarrow>
          if mo_pairing m \<or> trim (mo_pairingCode m) = [] then m
          else m\<lparr>mo_pairing := True, mo_error := [], mo_pairing_for := Some (m_id machine)\<rparr>)"

definition pairing_completed :: "CompletePairingRes result \<Rightarrow> modal \<Rightarrow> modal" where
  "pairing_completed answer m =
     (let m = (case answer of
                 Inr c \<Rightarrow>
                   (resetPairingCode (m\<lparr>mo_store := setMachineCredentials (getOr (mo_pairing_for m) [])
                      (cpr_clientId c) (cpr_clientSecret c) (cpr_clientCredentialExpiresAtUnix c)
                      (mo_store m)\<rparr>))\<lparr>mo_mode := None\<rparr>
               | Inl err \<Rightarrow> m\<lparr>mo_error := err_message err\<rparr>)
      in m\<lparr>mo_pairing := False, mo_pairing_for := None\<rparr>)"

section \<open>The dialogs\<close>

definition addMachine_modal ::
    "(jstring \<Rightarrow> url result) \<Rightarrow> jstring \<Rightarrow> u8 \<Rightarrow> modal \<Rightarrow> modal" where
  "addMachine_modal url_parse uuid b m =
     (case normalizeMachineUrl url_parse (mo_baseUrl m) of
        Inl err \<Rightarrow> m\<lparr>mo_error := err_message err\<rparr>
      | Inr normalizedBaseUrl \<Rightarrow>
          let machine = \<lparr>m_id = uuid,
                m_name = (if trim (mo_name m) \<noteq> [] then trim (mo_name m)
                  else inferMachineNameFromUrl url_parse normalizedBaseUrl),
                m_baseUrl = normalizedBaseUrl, m_clientId = None, m_clientSecret = None,
                m_expiresAtUnix = None\<rparr>;
              m = m\<lparr>mo_error := [], mo_store := addMachine machine (mo_store m), mo_name := [],
                mo_nameEdited := False, mo_baseUrl := []\<rparr>
          in requestPairingCode b uuid ((resetPairingCode m)\<lparr>mo_mode := Some ModalPair\<rparr>))"

definition closeMachineModal :: "modal \<Rightarrow> modal" where
  "closeMachineModal m =
     (if machines (mo_store m) = [] then m
      else resetPairingCode (cancelPairingRequest (m\<lparr>mo_mode := None, mo_error := []\<rparr>)))"

definition openAddMachineModal :: "modal \<Rightarrow> modal" where
  "openAddMachineModal m =
     (let m = resetPairingCode (cancelPairingRequest (m\<lparr>mo_menu := closeMachineMenu (mo_menu m),
                mo_name := [], mo_nameEdited := False, mo_baseUrl := [], mo_error := []\<rparr>))
      in m\<lparr>mo_mode := if machines (mo_store m) = [] then None else Some ModalAdd\<rparr>)"

definition open_for :: "MachineModalMode \<Rightarrow> Machine \<Rightarrow> modal \<Rightarrow> modal" where
  "open_for mode machine m =
     (resetPairingCode (cancelPairingRequest (m\<lparr>mo_store := selectMachine (Some (m_id machine)) (mo_store m),
        mo_error := [], mo_menu := closeMachineMenu (mo_menu m)\<rparr>)))\<lparr>mo_mode := Some mode\<rparr>"

definition openConfigMachineModal :: "jstring \<Rightarrow> modal \<Rightarrow> modal" where
  "openConfigMachineModal machineId m =
     (case findMachine (Some machineId) (mo_store m) of
        None \<Rightarrow> m
      | Some machine \<Rightarrow>
          (open_for ModalConfig machine m)\<lparr>mo_configName := m_name machine, mo_configUrl := m_baseUrl machine\<rparr>)"

definition openPairMachineModal :: "u8 \<Rightarrow> jstring \<Rightarrow> modal \<Rightarrow> modal" where
  "openPairMachineModal b machineId m =
     (case findMachine (Some machineId) (mo_store m) of
        None \<Rightarrow> m
      | Some machine \<Rightarrow> requestPairingCode b (m_id machine) (open_for ModalPair machine m))"

definition openDeleteMachineModal :: "jstring \<Rightarrow> modal \<Rightarrow> modal" where
  "openDeleteMachineModal machineId m =
     (case findMachine (Some machineId) (mo_store m) of
        None \<Rightarrow> m
      | Some machine \<Rightarrow> open_for ModalDelete machine m)"

definition saveMachineConfig :: "(jstring \<Rightarrow> url result) \<Rightarrow> modal \<Rightarrow> modal" where
  "saveMachineConfig url_parse m =
     (case selected (mo_store m) of
        None \<Rightarrow> m
      | Some machine \<Rightarrow>
          let name = trim (mo_configName m) in
          if name = [] then m\<lparr>mo_error := js ''Name is required''\<rparr>
          else case normalizeMachineUrl url_parse (mo_configUrl m) of
            Inl err \<Rightarrow> m\<lparr>mo_error := err_message err\<rparr>
          | Inr normalizedBaseUrl \<Rightarrow>
              m\<lparr>mo_store := updateMachine (m_id machine)
                  (\<lambda>x. x\<lparr>m_name := name, m_baseUrl := normalizedBaseUrl\<rparr>) (mo_store m),
                mo_error := [], mo_mode := None\<rparr>)"

definition deleteSelectedMachine_modal :: "modal \<Rightarrow> modal" where
  "deleteSelectedMachine_modal m =
     (case deleteSelectedMachine (mo_store m) of
        (None, store) \<Rightarrow> m
      | (Some deleted, store) \<Rightarrow>
          (resetPairingCode (cancelPairingRequest (m\<lparr>mo_store := store, mo_error := []\<rparr>)))\<lparr>mo_mode := None\<rparr>)"

definition updateMachineNameDraft :: "jstring \<Rightarrow> modal \<Rightarrow> modal" where
  "updateMachineNameDraft value m = m\<lparr>mo_name := value, mo_nameEdited := trim value \<noteq> []\<rparr>"

definition updateBaseUrlDraft :: "(jstring \<Rightarrow> url result) \<Rightarrow> jstring \<Rightarrow> modal \<Rightarrow> modal" where
  "updateBaseUrlDraft url_parse value m =
     (let m = m\<lparr>mo_baseUrl := value\<rparr> in
      if mo_nameEdited m then m else m\<lparr>mo_name := inferMachineNameFromUrl url_parse value\<rparr>)"

section \<open>Runs\<close>

text \<open>
  What can happen: the commands of the view (a new pairing code is asked for in the pair dialog
  only, a configuration saved in the config dialog only), its writes to the drafts, the end of a call in flight, and a change of the store by
  another part of the program.
\<close>

inductive modal_step :: "(jstring \<Rightarrow> url result) \<Rightarrow> modal \<Rightarrow> modal \<Rightarrow> bool" for url_parse where
  do_add: "modal_step url_parse m (addMachine_modal url_parse uuid b m)"
| do_closeModal: "modal_step url_parse m (closeMachineModal m)"
| do_openAdd: "modal_step url_parse m (openAddMachineModal m)"
| do_openConfig: "modal_step url_parse m (openConfigMachineModal machineId m)"
| do_openPair: "modal_step url_parse m (openPairMachineModal b machineId m)"
| do_openDelete: "modal_step url_parse m (openDeleteMachineModal machineId m)"
| do_save: "mo_mode m = Some ModalConfig \<Longrightarrow> modal_step url_parse m (saveMachineConfig url_parse m)"
| do_delete: "modal_step url_parse m (deleteSelectedMachine_modal m)"
| do_pair: "modal_step url_parse m (pairSelected m)"
| do_request: "mo_mode m = Some ModalPair \<Longrightarrow> modal_step url_parse m (requestSelectedPairingCode b m)"
| do_nameDraft: "modal_step url_parse m (updateMachineNameDraft value m)"
| do_urlDraft: "modal_step url_parse m (updateBaseUrlDraft url_parse value m)"
| do_code: "modal_step url_parse m (m\<lparr>mo_pairingCode := code\<rparr>)"
| do_configDrafts: "modal_step url_parse m (m\<lparr>mo_configName := n, mo_configUrl := u\<rparr>)"
| do_codeAnswered: "(serial, machineId) \<in> set (mo_requests m) \<Longrightarrow>
    modal_step url_parse m (pairing_code_answered serial machineId answer m)"
| do_completed: "mo_pairing m \<Longrightarrow> modal_step url_parse m (pairing_completed result m)"
| do_store: "modal_step url_parse m (m\<lparr>mo_store := store\<rparr>)"

inductive modal_reachable :: "(jstring \<Rightarrow> url result) \<Rightarrow> modal \<Rightarrow> bool" for url_parse where
  modal_initial: "modal_reachable url_parse (initial_modal store)"
| modal_then: "modal_reachable url_parse m \<Longrightarrow> modal_step url_parse m m' \<Longrightarrow> modal_reachable url_parse m'"

text \<open>
  A confirmation code is shown in the pair dialog only, an expiry only with a code; the spinner
  turns only while the last request is in flight, and requests are numbered in order.
\<close>

definition modal_ok :: "modal \<Rightarrow> bool" where
  "modal_ok m \<longleftrightarrow>
     (mo_confirmation m \<noteq> None \<longrightarrow> mo_mode m = Some ModalPair) \<and>
     (mo_expires m \<noteq> None \<longrightarrow> mo_confirmation m \<noteq> None) \<and>
     (mo_requesting m \<longrightarrow> mo_serial m \<in> fst ` set (mo_requests m)) \<and>
     (mo_serial m \<in> fst ` set (mo_requests m) \<and> mo_mode m = Some ModalPair \<longrightarrow> mo_confirmation m \<noteq> None) \<and>
     (\<forall>r \<in> set (mo_requests m). fst r \<le> mo_serial m) \<and> distinct (map fst (mo_requests m)) \<and>
     (mo_pairing m \<longleftrightarrow> mo_pairing_for m \<noteq> None)"

lemma modal_ok_setters [simp]:
  "modal_ok (m\<lparr>mo_error := e\<rparr>) = modal_ok m" "modal_ok (m\<lparr>mo_store := st\<rparr>) = modal_ok m"
  "modal_ok (m\<lparr>mo_menu := mn\<rparr>) = modal_ok m" "modal_ok (m\<lparr>mo_name := n\<rparr>) = modal_ok m"
  "modal_ok (m\<lparr>mo_nameEdited := b\<rparr>) = modal_ok m" "modal_ok (m\<lparr>mo_baseUrl := u\<rparr>) = modal_ok m"
  "modal_ok (m\<lparr>mo_configName := n\<rparr>) = modal_ok m" "modal_ok (m\<lparr>mo_configUrl := u\<rparr>) = modal_ok m"
  "modal_ok (m\<lparr>mo_pairingCode := c\<rparr>) = modal_ok m"
  by (simp_all add: modal_ok_def)

text \<open>The two ways to leave a dialog, and the way into the pair dialog.\<close>

lemma reset_cancel_ok:
  "modal_ok m \<Longrightarrow> modal_ok ((resetPairingCode (cancelPairingRequest m))\<lparr>mo_mode := x\<rparr>)"
  by (fastforce simp: modal_ok_def resetPairingCode_def cancelPairingRequest_def)

lemma cancel_reset_ok:
  "modal_ok m \<Longrightarrow> modal_ok (resetPairingCode (cancelPairingRequest (m\<lparr>mo_mode := x, mo_error := e\<rparr>)))"
  using reset_cancel_ok [of "m\<lparr>mo_error := e\<rparr>" x]
  by (simp add: resetPairingCode_def cancelPairingRequest_def modal_ok_def)

lemma reset_leave_ok: "modal_ok m \<Longrightarrow> modal_ok ((resetPairingCode m)\<lparr>mo_mode := None\<rparr>)"
  by (simp add: modal_ok_def resetPairingCode_def)

lemma requestPairingCode_ok:
  assumes "modal_ok m"
  shows "modal_ok (requestPairingCode b machineId ((resetPairingCode m)\<lparr>mo_mode := Some ModalPair\<rparr>))"
    "mo_mode m = Some ModalPair \<Longrightarrow> modal_ok (requestPairingCode b machineId m)"
  using assms by (fastforce simp: modal_ok_def requestPairingCode_def resetPairingCode_def Let_def)+

lemma open_for_ok: "modal_ok m \<Longrightarrow> modal_ok (open_for mode machine m)"
  by (simp add: open_for_def reset_cancel_ok)

lemma open_for_mode [simp]: "mo_mode (open_for mode machine m) = Some mode"
  by (simp add: open_for_def)

lemma closed_ok:
  assumes "modal_ok m" "mo_mode m \<noteq> Some ModalPair"
  shows "modal_ok (m\<lparr>mo_mode := None\<rparr>)"
  using assms by (auto simp: modal_ok_def)

lemma code_answered_ok:
  assumes "modal_ok m" "(serial, machineId) \<in> set (mo_requests m)"
  shows "modal_ok (pairing_code_answered serial machineId answer m)"
proof -
  define left where "left = filter (\<lambda>r. r \<noteq> (serial, machineId)) (mo_requests m)"
  let ?m = "m\<lparr>mo_requests := left\<rparr>"
  let ?stop = "\<lambda>m. if serial = mo_serial m then m\<lparr>mo_requesting := False\<rparr> else m"
  have left: "distinct (map fst left)" "\<forall>r \<in> set left. fst r \<le> mo_serial m"
    "mo_serial m \<in> fst ` set left \<and> mo_mode m = Some ModalPair \<longrightarrow> mo_confirmation m \<noteq> None"
    using assms(1) unfolding modal_ok_def left_def by (auto simp: distinct_map_filter)
  have keep: "mo_serial m \<in> fst ` set left"
    if "serial \<noteq> mo_serial m" "mo_serial m \<in> fst ` set (mo_requests m)"
    using that by (force simp: left_def)
  have ok: "mo_confirmation m \<noteq> None \<longrightarrow> mo_mode m = Some ModalPair"
    "mo_expires m \<noteq> None \<longrightarrow> mo_confirmation m \<noteq> None"
    "mo_requesting m \<longrightarrow> mo_serial m \<in> fst ` set (mo_requests m)"
    "mo_pairing m \<longleftrightarrow> mo_pairing_for m \<noteq> None"
    using assms(1) unfolding modal_ok_def by blast+
  have base: "modal_ok (?stop ?m)"
    unfolding modal_ok_def using ok left keep by (cases "serial = mo_serial m") (simp_all del: not_None_eq)
  have expires: "modal_ok ((?stop ?m)\<lparr>mo_expires := Some n\<rparr>)" if "isCurrentPairingRequest machineId serial ?m" for n
  proof -
    from that have "serial = mo_serial m" "mo_mode m = Some ModalPair"
      by (simp_all add: isCurrentPairingRequest_def)
    moreover from this assms have "mo_confirmation m \<noteq> None" by (force simp: modal_ok_def)
    ultimately show ?thesis using base by (simp add: modal_ok_def)
  qed
  have commute: "?stop (x\<lparr>mo_expires := e\<rparr>) = (?stop x)\<lparr>mo_expires := e\<rparr>"
    "?stop (x\<lparr>mo_error := t\<rparr>) = (?stop x)\<lparr>mo_error := t\<rparr>" for x :: modal and e t by simp_all
  have eq: "pairing_code_answered serial machineId answer m =
      ?stop (if \<not> isCurrentPairingRequest machineId serial ?m then ?m
        else case answer of
          Inr expires \<Rightarrow> ?m\<lparr>mo_expires := Some expires\<rparr>
        | Inl err \<Rightarrow> ?m\<lparr>mo_error := err_message err\<rparr>)"
    by (simp only: pairing_code_answered_def Let_def left_def)
  show ?thesis
  proof (cases "isCurrentPairingRequest machineId serial ?m")
    case False
    with base show ?thesis unfolding eq by (simp only: if_True simp_thms)
  next
    case True
    with base expires [OF True] show ?thesis
      unfolding eq by (cases answer) (simp_all only: if_False simp_thms sum.case commute modal_ok_setters)
  qed
qed

lemma completed_ok: "modal_ok m \<Longrightarrow> modal_ok (pairing_completed result m)"
  by (cases result) (auto simp: pairing_completed_def modal_ok_def resetPairingCode_def Let_def)

lemma saveMachineConfig_ok:
  assumes "modal_ok m" "mo_mode m = Some ModalConfig"
  shows "modal_ok (saveMachineConfig url_parse m)"
  using assms closed_ok [of "m\<lparr>mo_store := st, mo_error := []\<rparr>" for st]
  by (simp add: saveMachineConfig_def Let_def split: option.splits sum.splits)

lemma pairSelected_ok: "modal_ok m \<Longrightarrow> modal_ok (pairSelected m)"
  by (simp add: pairSelected_def modal_ok_def split: option.splits)

lemma modal_step_ok: "modal_step url_parse m m' \<Longrightarrow> modal_ok m \<Longrightarrow> modal_ok m'"
proof (induction rule: modal_step.induct)
  case (do_add uuid b m)
  then show ?case
    by (simp add: addMachine_modal_def requestPairingCode_ok Let_def split: sum.splits)
next
  case (do_openAdd m)
  then show ?case by (simp add: openAddMachineModal_def reset_cancel_ok Let_def)
qed (simp_all add: closeMachineModal_def openConfigMachineModal_def openPairMachineModal_def
    openDeleteMachineModal_def deleteSelectedMachine_modal_def requestSelectedPairingCode_def
    updateMachineNameDraft_def updateBaseUrlDraft_def reset_cancel_ok open_for_ok requestPairingCode_ok
    code_answered_ok completed_ok saveMachineConfig_ok pairSelected_ok cancel_reset_ok Let_def split: option.splits prod.splits)

lemma modal_reachable_ok: "modal_reachable url_parse m \<Longrightarrow> modal_ok m"
proof (induction rule: modal_reachable.induct)
  case (modal_initial store)
  show ?case by (simp add: modal_ok_def initial_modal_def)
qed (rule modal_step_ok)

section \<open>Properties\<close>

text \<open>(C38) The pair dialog tells the truth, whatever the user, the daemon and the rest of the program
  do: a confirmation code is on display in the pair dialog only, an expiry only together with a code,
  and the spinner turns only while the last code request is in flight.\<close>

theorem pairing_dialog_invariant:
  assumes "modal_reachable url_parse m"
  shows "(mo_confirmation m \<noteq> None \<longrightarrow> mo_mode m = Some ModalPair) \<and>
    (mo_expires m \<noteq> None \<longrightarrow> mo_confirmation m \<noteq> None) \<and>
    (mo_requesting m \<longrightarrow> (\<exists>machineId. (mo_serial m, machineId) \<in> set (mo_requests m))) \<and>
    (\<forall>r \<in> set (mo_requests m). fst r \<le> mo_serial m)"
  using modal_reachable_ok [OF assms] unfolding modal_ok_def by force

definition paired_modal :: modal where
  "paired_modal = openPairMachineModal 7 (m_id box_machine)
     (initial_modal \<lparr>machines = [box_machine, box_machine\<lparr>m_id := js ''2''\<rparr>], selectedId = Some (js ''1'')\<rparr>)"

lemma paired_modal_reachable: "modal_reachable url_parse paired_modal"
  unfolding paired_modal_def by (rule modal_then [OF modal_initial do_openPair])

lemma code_07: "createPairingConfirmationCode 7 = ''07''"
  by code_simp

lemma paired_modal: "paired_modal = (initial_modal \<lparr>machines = [box_machine, box_machine\<lparr>m_id := js ''2''\<rparr>],
    selectedId = Some (js ''1'')\<rparr>)\<lparr>mo_mode := Some ModalPair, mo_confirmation := Some (js ''07''),
      mo_requesting := True, mo_serial := 2, mo_requests := [(2, js ''1'')]\<rparr>"
  by (simp add: paired_modal_def openPairMachineModal_def initial_modal_def findMachine_def getMachine_def
      box_machine_def open_for_def requestPairingCode_def resetPairingCode_def cancelPairingRequest_def
      selectMachine_def closeMachineMenu_def code_07 Let_def)

theorem pairing_dialog_invariant_witness:
  "mo_requesting paired_modal \<and> (\<exists>machineId. (mo_serial paired_modal, machineId) \<in> set (mo_requests paired_modal))"
proof -
  have "mo_requesting paired_modal" by (simp add: paired_modal)
  with pairing_dialog_invariant [OF paired_modal_reachable] show ?thesis by blast
qed

text \<open>Once another dialog has been opened, or the dialog closed, the answer to an earlier code
  request is dropped: nothing changes but the list of calls in flight.\<close>

theorem late_pairing_answer_ignored:
  assumes "modal_reachable url_parse m" "(serial, machineId) \<in> set (mo_requests m)"
    and "m' \<in> {closeMachineModal m, openAddMachineModal m, openConfigMachineModal i m,
      openPairMachineModal b i m, openDeleteMachineModal i m}" "m' \<noteq> m"
  shows "pairing_code_answered serial machineId answer m'
    = m'\<lparr>mo_requests := filter (\<lambda>r. r \<noteq> (serial, machineId)) (mo_requests m')\<rparr>"
proof -
  have "serial \<le> mo_serial m"
    using modal_reachable_ok [OF assms(1)] assms(2) unfolding modal_ok_def by fastforce
  moreover have "mo_serial m < mo_serial m'"
    using assms(3,4)
    by (auto simp: closeMachineModal_def openAddMachineModal_def openConfigMachineModal_def
        openPairMachineModal_def openDeleteMachineModal_def open_for_def requestPairingCode_def
        resetPairingCode_def cancelPairingRequest_def Let_def split: option.splits if_splits)
  ultimately show ?thesis by (simp add: pairing_code_answered_def isCurrentPairingRequest_def Let_def)
qed

theorem late_pairing_answer_ignored_witness:
  "mo_expires (pairing_code_answered 2 (js ''1'') (Inr 99) (openAddMachineModal paired_modal)) = None \<and>
   mo_expires (pairing_code_answered 2 (js ''1'') (Inr 99) paired_modal) = Some 99"
proof
  have e: "openAddMachineModal paired_modal \<noteq> paired_modal"
    by (simp add: openAddMachineModal_def paired_modal cancelPairingRequest_def resetPairingCode_def
        initial_modal_def Let_def)
  have "(2, js ''1'') \<in> set (mo_requests paired_modal)" by (simp add: paired_modal)
  from late_pairing_answer_ignored [OF paired_modal_reachable this _ e]
  show "mo_expires (pairing_code_answered 2 (js ''1'') (Inr 99) (openAddMachineModal paired_modal)) = None"
    by (simp add: openAddMachineModal_def resetPairingCode_def Let_def)
  show "mo_expires (pairing_code_answered 2 (js ''1'') (Inr 99) paired_modal) = Some 99"
    by (simp add: paired_modal pairing_code_answered_def isCurrentPairingRequest_def initial_modal_def
        selected_def findMachine_def getMachine_def box_machine_def Let_def)
qed

text \<open>The end of a pairing is not checked against the dialog on display: when it arrives after
  the user has opened the configuration of another machine, success closes that dialog and failure
  puts the message of the pairing into it.\<close>

theorem late_pairing_closes_other_dialog:
  assumes "findMachine (Some machineId) (mo_store m) = Some machine"
  shows "mo_mode (openConfigMachineModal machineId m) = Some ModalConfig \<and>
    mo_error (openConfigMachineModal machineId m) = [] \<and>
    mo_mode (pairing_completed (Inr c) (openConfigMachineModal machineId m)) = None \<and>
    mo_mode (pairing_completed (Inl err) (openConfigMachineModal machineId m)) = Some ModalConfig \<and>
    mo_error (pairing_completed (Inl err) (openConfigMachineModal machineId m)) = err_message err"
  using assms
  by (simp add: openConfigMachineModal_def pairing_completed_def open_for_def resetPairingCode_def
      cancelPairingRequest_def Let_def)

theorem late_pairing_closes_other_dialog_witness:
  "let m = pairSelected (paired_modal\<lparr>mo_pairingCode := js ''1''\<rparr>) in
   modal_reachable (\<lambda>_. Inr box_url) m \<and> mo_pairing m \<and> mo_pairing_for m = Some (js ''1'') \<and>
   mo_mode (openConfigMachineModal (js ''2'') m) = Some ModalConfig \<and>
   mo_mode (pairing_completed
     (Inr \<lparr>cpr_clientId = [], cpr_clientSecret = [], cpr_clientCredentialExpiresAtUnix = 0\<rparr>)
     (openConfigMachineModal (js ''2'') m)) = None"
proof -
  let ?m = "pairSelected (paired_modal\<lparr>mo_pairingCode := js ''1''\<rparr>)"
  have r: "modal_reachable (\<lambda>_. Inr box_url) ?m"
    by (rule modal_then [OF modal_then [OF paired_modal_reachable do_code] do_pair])
  have t: "trim (js ''1'') \<noteq> []" by (simp add: url_eval)
  have m: "?m = paired_modal\<lparr>mo_pairingCode := js ''1'', mo_pairing := True, mo_pairing_for := Some (js ''1'')\<rparr>"
    using t by (simp add: pairSelected_def paired_modal initial_modal_def selected_def getMachine_def
        box_machine_def)
  have "findMachine (Some (js ''2'')) (mo_store ?m) = Some (box_machine\<lparr>m_id := js ''2''\<rparr>)"
    unfolding m by (simp add: paired_modal initial_modal_def findMachine_def getMachine_def box_machine_def)
  note late_pairing_closes_other_dialog [OF this]
  with r m show ?thesis by (simp add: Let_def)
qed

end
