(* ===== verification/ViewStreams.thy ===== *)
theory ViewStreams
  imports Explorer RpcSession RpcProcs
begin

text \<open>
  The scheme of the live views of \<open>web/src/view/workbench/tool/\<close>: a table view (process list, process
  tree, resources, sockets, modules, windows) or a detail view (process, window) has an effect that
  runs when the daemon's state, the machine or the shown object changes. It cancels the stream of the
  previous run and either shows a message or opens a stream whose events update the rows.
  The sources repeat the effect per view with another message and another row function; the
  generic definitions here are instantiated in the theories of the views.
\<close>

section \<open>State\<close>

datatype view_phase =
  ViewIdle | ViewLoading | ViewReady | ViewExited | ViewClosed | ViewError | ViewUnsupported

text \<open>\<open>tv_ref\<close> is \<open>rowsRef.current\<close>; the streams are numbered by the runs of the effect, and
  \<open>tv_live\<close> is the one whose \<open>cancelled\<close> flag is not set.\<close>

record 'row table_view =
  tv_phase :: view_phase
  tv_message :: "jstring option"
  tv_rows :: "'row list"
  tv_ref :: "'row list"
  tv_started :: nat
  tv_live :: "nat option"

record 'detail detail_view =
  dv_phase :: view_phase
  dv_message :: "jstring option"
  dv_detail :: "'detail option"
  dv_started :: nat
  dv_live :: "nat option"

definition initial_table :: "'row table_view" where
  "initial_table = \<lparr>tv_phase = ViewIdle, tv_message = None, tv_rows = [], tv_ref = [], tv_started = 0,
     tv_live = None\<rparr>"

definition initial_detail :: "'detail detail_view" where
  "initial_detail = \<lparr>dv_phase = ViewIdle, dv_message = None, dv_detail = None, dv_started = 0, dv_live = None\<rparr>"

text \<open>Whether the daemon offers a procedure; \<open>false\<close> until its information is there.\<close>

definition procSupported :: "DaemonInfoState \<Rightarrow> ProcId \<Rightarrow> bool" where
  "procSupported info p \<longleftrightarrow>
     (case info of InfoReady daemon _ \<Rightarrow> ProcId_id p \<in> set (di_supportedProcIds daemon) | _ \<Rightarrow> False)"

section \<open>Operations\<close>

text \<open>The cleanup of the previous run, then the guards of the effect in their order.\<close>

definition show_table :: "view_phase \<Rightarrow> jstring option \<Rightarrow> 'row table_view \<Rightarrow> 'row table_view" where
  "show_table p note v = v\<lparr>tv_ref := [], tv_phase := p, tv_message := note, tv_rows := []\<rparr>"

definition table_effect ::
    "string \<Rightarrow> string \<Rightarrow> bool \<Rightarrow> 'row table_view \<Rightarrow> 'row table_view" where
  "table_effect unsupported daemonInfoPhase supported v =
     (let v = v\<lparr>tv_live := None, tv_started := Suc (tv_started v)\<rparr> in
      if daemonInfoPhase = ''error'' then
        show_table ViewError (Some (js ''Daemon info unavailable'')) v
      else if daemonInfoPhase \<noteq> ''ready'' then show_table ViewLoading None v
      else if \<not> supported then show_table ViewUnsupported (Some (js unsupported)) v
      else v\<lparr>tv_phase := ViewLoading, tv_live := Some (tv_started v - 1)\<rparr>)"

text \<open>Stream \<open>g\<close> produces an event, or its loop throws. An event that says the object is gone ends
  the stream and leaves the rows.\<close>

definition table_deliver ::
    "('row list \<Rightarrow> 'ev \<Rightarrow> 'row list) \<Rightarrow> ('ev \<Rightarrow> bool) \<Rightarrow> nat \<Rightarrow> 'ev stream_item \<Rightarrow>
     'row table_view \<Rightarrow> 'row table_view" where
  "table_deliver apply_event ended g item v =
     (if tv_live v \<noteq> Some g then v
      else case item of
        Event ev \<Rightarrow>
          if ended ev then v\<lparr>tv_phase := ViewExited, tv_live := None\<rparr>
          else let next = apply_event (tv_ref v) ev in
            v\<lparr>tv_ref := next, tv_phase := ViewReady, tv_message := None, tv_rows := next\<rparr>
      | Failure err \<Rightarrow> (show_table ViewError (Some (err_message err)) v)\<lparr>tv_live := None\<rparr>)"

definition show_detail :: "view_phase \<Rightarrow> jstring option \<Rightarrow> 'detail detail_view \<Rightarrow> 'detail detail_view" where
  "show_detail p note v = v\<lparr>dv_phase := p, dv_message := note, dv_detail := None\<rparr>"

definition detail_effect ::
    "string \<Rightarrow> string \<Rightarrow> bool \<Rightarrow> 'detail detail_view \<Rightarrow> 'detail detail_view" where
  "detail_effect unsupported daemonInfoPhase supported v =
     (let v = v\<lparr>dv_live := None, dv_started := Suc (dv_started v)\<rparr> in
      if daemonInfoPhase = ''error'' then
        show_detail ViewError (Some (js ''Daemon info unavailable'')) v
      else if daemonInfoPhase \<noteq> ''ready'' then show_detail ViewLoading None v
      else if \<not> supported then show_detail ViewUnsupported (Some (js unsupported)) v
      else (show_detail ViewLoading None v)\<lparr>dv_live := Some (dv_started v - 1)\<rparr>)"

definition detail_deliver ::
    "('ev \<Rightarrow> 'detail detail_view \<Rightarrow> 'detail detail_view) \<Rightarrow> ('ev \<Rightarrow> bool) \<Rightarrow> nat \<Rightarrow> 'ev stream_item \<Rightarrow>
     'detail detail_view \<Rightarrow> 'detail detail_view" where
  "detail_deliver apply_event ended g item v =
     (if dv_live v \<noteq> Some g then v
      else case item of
        Event ev \<Rightarrow>
          let v' = apply_event ev v in if ended ev then v'\<lparr>dv_live := None\<rparr> else v'
      | Failure err \<Rightarrow> (show_detail ViewError (Some (err_message err)) v)\<lparr>dv_live := None\<rparr>)"

section \<open>What a view shows\<close>

text \<open>The texts of a view: a heading while it loads, a heading and a note when it cannot show anything,
  or the head of a table, its rows, and the footer.\<close>

datatype view_content =
    ContentLoading string
  | ContentMessage string "jstring option"
  | ContentTable "string list" "jstring list list" jstring

text \<open>The three renderings every table view begins with, in this order; \<open>unavailable\<close> and \<open>failed\<close> are
  the headings, and a note that is the empty string is not shown.\<close>

definition table_content ::
    "string \<Rightarrow> string \<Rightarrow> string \<Rightarrow> string \<Rightarrow> ('row table_view \<Rightarrow> view_content) \<Rightarrow> 'row table_view \<Rightarrow> view_content" where
  "table_content loading unavailable failed daemonInfoPhase shown v =
     (if tv_phase v = ViewLoading \<or> daemonInfoPhase \<noteq> ''ready'' then ContentLoading loading
      else if tv_phase v = ViewUnsupported \<or> tv_phase v = ViewError then
        ContentMessage (if tv_phase v = ViewUnsupported then unavailable else failed)
          (if truthy (tv_message v) then tv_message v else None)
      else shown v)"

definition rows_or :: "string \<Rightarrow> jstring list list \<Rightarrow> jstring list list" where
  "rows_or none cells = (if cells = [] then [[js none]] else cells)"

definition counted :: "nat \<Rightarrow> string \<Rightarrow> string \<Rightarrow> jstring" where
  "counted n one many = js (show_nat n @ '' '' @ (if n = 1 then one else many))"

definition number_or_blank :: "int option \<Rightarrow> jstring" where
  "number_or_blank n = (case n of None \<Rightarrow> [] | Some i \<Rightarrow> js (show_int i))"

section \<open>Cancellation\<close>

interpretation table_stream: subscription tv_started tv_live "\<lambda>(unsupported, daemonInfoPhase, supported).
    table_effect unsupported daemonInfoPhase supported" "table_deliver apply_event ended"
  by unfold_locales
    (auto simp: table_effect_def table_deliver_def show_table_def Let_def
      split: stream_item.splits if_splits)

text \<open>What is shown is what the next event is applied to; only a loading or ready view has a stream.\<close>

definition table_view_ok :: "'row table_view \<Rightarrow> bool" where
  "table_view_ok v \<longleftrightarrow> tv_ref v = tv_rows v \<and>
     (\<forall>g. tv_live v = Some g \<longrightarrow> g < tv_started v \<and> tv_phase v \<in> {ViewLoading, ViewReady}) \<and>
     (tv_phase v \<in> {ViewError, ViewUnsupported, ViewIdle} \<longrightarrow> tv_rows v = [])"

lemma initial_table_ok [inv_intros]: "table_view_ok initial_table"
  by (simp add: table_view_ok_def initial_table_def)

lemma table_effect_ok [inv_intros]: "table_view_ok v \<Longrightarrow> table_view_ok (table_effect u p b v)"
  by (auto simp: table_view_ok_def table_effect_def show_table_def Let_def)

lemma table_deliver_ok [inv_intros]: "table_view_ok v \<Longrightarrow> table_view_ok (table_deliver f e g item v)"
  by (auto simp: table_view_ok_def table_deliver_def show_table_def Let_def split: stream_item.splits)

section \<open>Rows as a map\<close>

lemma table_of_map_set: "table_of key (map_set key r xs) = (table_of key xs)(key r \<mapsto> r)"
  by (induction xs) (auto simp: fun_upd_twist)

lemma table_of_map_sets:
  "table_of key (foldl (\<lambda>m r. map_set key r m) m rs) = foldl (\<lambda>t r. t(key r \<mapsto> r)) (table_of key m) rs"
  by (induction rs arbitrary: m) (simp_all add: table_of_map_set)

lemma table_of_new_map:
  assumes "distinct (map key rs)"
  shows "table_of key (new_map key rs) = table_of key rs"
  using assms new_map_distinct [OF assms] by (intro table_of_cong) simp_all

lemma table_of_map_deletes:
  "table_of key (foldl (\<lambda>m k. map_delete key k m) m ks) = table_of key m |` (- set ks)"
  using table_of_filter [of key "- set ks" m] by (simp add: map_deletes)

text \<open>What a stream of changes means: a snapshot is the table, a patch deletes and overrides.\<close>

datatype ('k, 'row) change = Snapshot "'row list" | Patch "'k list" "'row list" | Gone

fun apply_change :: "('row \<Rightarrow> 'k) \<Rightarrow> ('k \<rightharpoonup> 'row) \<Rightarrow> ('k, 'row) change \<Rightarrow> ('k \<rightharpoonup> 'row)" where
  "apply_change key t (Snapshot listed) = table_of key listed"
| "apply_change key t (Patch removes upserts) = foldl (\<lambda>t r. t(key r \<mapsto> r)) (t |` (- set removes)) upserts"
| "apply_change key t Gone = t"

fun distinct_change :: "('row \<Rightarrow> 'k) \<Rightarrow> ('k, 'row) change \<Rightarrow> bool" where
  "distinct_change key (Snapshot listed) = distinct (map key listed)"
| "distinct_change key _ = True"

locale table_events =
  fixes key :: "'row \<Rightarrow> 'k"
    and order :: "'row \<Rightarrow> 'row \<Rightarrow> int"
    and change :: "'ev \<Rightarrow> ('k, 'row) change"
    and apply_event :: "'row list \<Rightarrow> 'ev \<Rightarrow> 'row list"
    and ended :: "'ev \<Rightarrow> bool"
  assumes apply_snapshot: "change ev = Snapshot listed \<Longrightarrow> apply_event current ev = sort_by order listed"
    and apply_patch: "change ev = Patch removes upserts \<Longrightarrow>
      apply_event current ev = sort_by order (map_patch key current removes upserts)"
    and apply_gone: "change ev = Gone \<Longrightarrow> apply_event current ev = current"
    and ended_iff: "ended ev \<longleftrightarrow> change ev = Gone"
begin

lemma table_of_sort: "distinct (map key xs) \<Longrightarrow> table_of key (sort_by order xs) = table_of key xs"
  by (rule table_of_cong) simp_all

lemma apply_event_refines:
  assumes "distinct (map key current)" "distinct_change key (change ev)"
  shows "distinct (map key (apply_event current ev)) \<and>
    table_of key (apply_event current ev) = apply_change key (table_of key current) (change ev)"
proof (cases "change ev")
  case (Snapshot listed)
  then show ?thesis using assms by (simp add: apply_snapshot table_of_sort)
next
  case (Patch removes upserts)
  have d: "distinct (map key (map_patch key current removes upserts))" by (rule distinct_map_patch)
  show ?thesis
    using Patch d assms(1)
    by (simp add: apply_patch table_of_sort)
      (simp add: map_patch_def table_of_map_sets table_of_map_deletes table_of_new_map)
next
  case Gone
  then show ?thesis using assms by (simp add: apply_gone)
qed

lemma apply_event_sorted:
  assumes "comparison order" "change ev \<noteq> Gone"
  shows "sorted_wrt (\<lambda>x y. order x y \<le> 0) (apply_event current ev)"
  using assms by (cases "change ev") (simp_all add: apply_snapshot apply_patch sorted_sort_by)

text \<open>The composition: a live view that receives a snapshot and then any patches shows, in order,
  exactly the table the changes describe.\<close>

lemma live_refines:
  assumes "tv_live v = Some g" "distinct (map key (tv_ref v))"
    and "\<forall>ev \<in> set evs. distinct_change key (change ev) \<and> change ev \<noteq> Gone"
  shows "let v' = foldl (\<lambda>v ev. table_deliver apply_event ended g (Event ev) v) v evs in
    tv_live v' = Some g \<and> distinct (map key (tv_ref v')) \<and>
    table_of key (tv_ref v') = foldl (apply_change key) (table_of key (tv_ref v)) (map change evs)"
  using assms
proof (induction evs arbitrary: v)
  case (Cons ev evs)
  let ?v = "table_deliver apply_event ended g (Event ev) v"
  have v: "?v = v\<lparr>tv_ref := apply_event (tv_ref v) ev, tv_phase := ViewReady, tv_message := None,
      tv_rows := apply_event (tv_ref v) ev\<rparr>"
    using Cons.prems by (simp add: table_deliver_def ended_iff Let_def)
  have r: "distinct (map key (tv_ref ?v))"
    "table_of key (tv_ref ?v) = apply_change key (table_of key (tv_ref v)) (change ev)"
    using apply_event_refines [of "tv_ref v" ev] Cons.prems by (simp_all add: v)
  have "tv_live ?v = Some g" using Cons.prems by (simp add: v)
  from Cons.IH [OF this r(1)] Cons.prems show ?case by (simp add: r(2) Let_def)
qed (simp add: Let_def)

lemma snapshot_then_patches:
  assumes "tv_live v = Some g" "change snapshot = Snapshot listed"
    and "\<forall>ev \<in> set (snapshot # evs). distinct_change key (change ev) \<and> change ev \<noteq> Gone"
    and "comparison order"
  shows "let v' = foldl (\<lambda>v ev. table_deliver apply_event ended g (Event ev) v) v (snapshot # evs) in
    tv_phase v' = ViewReady \<and> tv_rows v' = tv_ref v' \<and> distinct (map key (tv_rows v')) \<and>
    sorted_wrt (\<lambda>x y. order x y \<le> 0) (tv_rows v') \<and>
    table_of key (tv_rows v') = foldl (apply_change key) (table_of key listed) (map change evs)"
proof -
  let ?d = "\<lambda>v ev. table_deliver apply_event ended g (Event ev) v"
  let ?v1 = "?d v snapshot"
  have d: "?d u ev = u\<lparr>tv_ref := apply_event (tv_ref u) ev, tv_phase := ViewReady, tv_message := None,
      tv_rows := apply_event (tv_ref u) ev\<rparr>" if "tv_live u = Some g" "change ev \<noteq> Gone" for u ev
    using that by (simp add: table_deliver_def ended_iff Let_def)
  have v1: "tv_live ?v1 = Some g" "tv_ref ?v1 = sort_by order listed"
    using assms(1,2) by (simp_all add: d apply_snapshot)
  have dl: "distinct (map key listed)" using assms(2,3) by simp
  have ready: "tv_phase (foldl ?d v es) = ViewReady \<and> tv_rows (foldl ?d v es) = tv_ref (foldl ?d v es) \<and>
      sorted_wrt (\<lambda>x y. order x y \<le> 0) (tv_ref (foldl ?d v es)) \<and> tv_live (foldl ?d v es) = Some g"
    if "es \<noteq> []" "\<forall>ev \<in> set es. change ev \<noteq> Gone" for es
    using that
  proof (induction es rule: rev_induct)
    case (snoc e es)
    have "tv_live (foldl ?d v es) = Some g" using snoc assms(1) by (cases "es = []") auto
    with snoc.prems show ?case by (simp add: d apply_event_sorted [OF assms(4)])
  qed simp
  have "tv_phase (foldl ?d v (snapshot # evs)) = ViewReady \<and>
      tv_rows (foldl ?d v (snapshot # evs)) = tv_ref (foldl ?d v (snapshot # evs)) \<and>
      sorted_wrt (\<lambda>x y. order x y \<le> 0) (tv_ref (foldl ?d v (snapshot # evs)))"
    using ready [of "snapshot # evs"] assms(3) by blast
  moreover have "distinct (map key (tv_ref (foldl ?d ?v1 evs))) \<and>
      table_of key (tv_ref (foldl ?d ?v1 evs)) = foldl (apply_change key) (table_of key listed) (map change evs)"
    using live_refines [OF v1(1), of evs] assms(3) dl by (simp add: v1(2) Let_def table_of_sort)
  ultimately show ?thesis by (simp add: Let_def)
qed

end

section \<open>Comparison functions\<close>

text \<open>\<open>a || b\<close> on numbers, and the comparison functions the views build with it.\<close>

definition num_or :: "int \<Rightarrow> int \<Rightarrow> int" where
  "num_or a b = (if a \<noteq> 0 then a else b)"

lemma comparison_on: "comparison c \<Longrightarrow> comparison (\<lambda>a b. c (f a) (f b))"
  unfolding comparison_def by blast

lemma comparison_minus: "comparison (\<lambda>a b. f a - f b)"
  by (auto simp: comparison_def)

lemma comparison_num_or:
  assumes "comparison c" "comparison d"
  shows "comparison (\<lambda>a b. num_or (c a b) (d a b))"
proof -
  have c: "(c x y \<le> 0) = (0 \<le> c y x)" "c x y \<le> 0 \<Longrightarrow> c y z \<le> 0 \<Longrightarrow> c x z \<le> 0" for x y z
    using assms(1) unfolding comparison_def by blast+
  have d: "(d x y \<le> 0) = (0 \<le> d y x)" "d x y \<le> 0 \<Longrightarrow> d y z \<le> 0 \<Longrightarrow> d x z \<le> 0" for x y z
    using assms(2) unfolding comparison_def by blast+
  have zero: "c x y = 0 \<longleftrightarrow> c y x = 0" for x y using c(1) [of x y] c(1) [of y x] by linarith
  have "(num_or (c x y) (d x y) \<le> 0) = (0 \<le> num_or (c y x) (d y x))" for x y
    using c(1) [of x y] d(1) [of x y] zero [of x y] by (simp add: num_or_def)
  moreover have "num_or (c x z) (d x z) \<le> 0"
    if "num_or (c x y) (d x y) \<le> 0" "num_or (c y z) (d y z) \<le> 0" for x y z
  proof -
    have le: "c x y \<le> 0" "c y z \<le> 0" using that by (auto simp: num_or_def split: if_splits)
    then have xz: "c x z \<le> 0" by (rule c(2))
    show ?thesis
    proof (cases "c x z = 0")
      case True
      have "c z y \<le> 0" using c(1) [of z y] c(1) [of y z] c(2) [of z x y] le True zero [of x z] by simp
      then have "c y z = 0" using c(1) [of z y] le by linarith
      moreover have "c y x \<le> 0" using c(2) [of y z x] calculation True zero [of x z] by simp
      then have "c x y = 0" using c(1) [of y x] le by linarith
      ultimately show ?thesis using True that d(2) [of x y z] by (simp add: num_or_def)
    qed (use xz in \<open>simp add: num_or_def\<close>)
  qed
  ultimately show ?thesis unfolding comparison_def by blast
qed

end
