(* ===== verification/ProcessTree.thy ===== *)
theory ProcessTree
  imports ViewStreams RpcProcesses
begin

text \<open>
  \<open>buildProcessTreeNodes\<close> of \<open>web/src/view/workbench/tool/processes/index.tsx\<close>: the processes below one
  process, in depth-first order, from a flat table in which the parent links need not form a tree.
  The recursion of \<open>appendChildren\<close> is bounded by fuel; each nested call has visited one more process,
  so one more than the number of rows is enough, which \<open>appendChildren_spec\<close> shows.
\<close>

section \<open>The code\<close>

record ProcessTreeNode =
  node_depth :: nat
  node_process :: ProcessInfo

text \<open>The first loop: the rows with a parent, grouped by it in the order of the table.\<close>

fun childrenByParent ::
    "(int \<rightharpoonup> ProcessInfo list) \<Rightarrow> ProcessInfo list \<Rightarrow> (int \<rightharpoonup> ProcessInfo list)" where
  "childrenByParent m [] = m"
| "childrenByParent m (row # rest) =
     (case process_ppid row of
        None \<Rightarrow> childrenByParent m rest
      | Some ppid \<Rightarrow>
          (case m ppid of
             None \<Rightarrow> childrenByParent (m(ppid \<mapsto> [row])) rest
           | Some children \<Rightarrow> childrenByParent (m(ppid \<mapsto> children @ [row])) rest))"

text \<open>\<open>collate\<close> is \<open>localeCompare\<close> without options.\<close>

definition compareChildren :: "(jstring \<Rightarrow> jstring \<Rightarrow> int) \<Rightarrow> ProcessInfo \<Rightarrow> ProcessInfo \<Rightarrow> int" where
  "compareChildren collate a b =
     num_or (collate (process_name a) (process_name b)) (process_pid a - process_pid b)"

fun appendChildren ::
    "(int \<Rightarrow> ProcessInfo list) \<Rightarrow> nat \<Rightarrow> nat \<Rightarrow> ProcessInfo list \<Rightarrow> int set \<times> ProcessTreeNode list \<Rightarrow>
     int set \<times> ProcessTreeNode list" where
  "appendChildren childrenOf fuel depth [] st = st"
| "appendChildren childrenOf 0 depth (process # rest) st = st"
| "appendChildren childrenOf (Suc fuel) depth (process # rest) (visited, tree) =
     (if process_pid process \<in> visited then appendChildren childrenOf (Suc fuel) depth rest (visited, tree)
      else appendChildren childrenOf (Suc fuel) depth rest
        (appendChildren childrenOf fuel (depth + 1) (childrenOf (process_pid process))
          (insert (process_pid process) visited,
           tree @ [\<lparr>node_depth = depth, node_process = process\<rparr>])))"

definition buildProcessTreeNodes ::
    "(jstring \<Rightarrow> jstring \<Rightarrow> int) \<Rightarrow> ProcessInfo list \<Rightarrow> int \<Rightarrow> ProcessTreeNode list" where
  "buildProcessTreeNodes collate listed rootPid =
     (let byParent = childrenByParent Map.empty listed;
          childrenOf = (\<lambda>pid. sort_by (compareChildren collate) (getOr (byParent pid) [])) in
      snd (appendChildren childrenOf (length listed + 1) 0 (childrenOf rootPid) ({}, [])))"

section \<open>Children\<close>

lemma childrenByParent_eq:
  "getOr (childrenByParent m listed pid) [] =
   getOr (m pid) [] @ filter (\<lambda>r. process_ppid r = Some pid) listed"
proof (induction listed arbitrary: m)
  case (Cons row rest)
  show ?case
  proof (cases "process_ppid row")
    case (Some ppid)
    then show ?thesis by (cases "m ppid") (auto simp: Cons)
  qed (simp add: Cons)
qed simp

lemma comparison_children: "comparison collate \<Longrightarrow> comparison (compareChildren collate)"
  unfolding compareChildren_def
  by (rule comparison_num_or [OF comparison_on [of collate process_name] comparison_minus])

section \<open>The traversal\<close>

text \<open>\<open>below childrenOf\<close> relates a process id to those of its children.\<close>

definition below :: "(int \<Rightarrow> ProcessInfo list) \<Rightarrow> (int \<times> int) set" where
  "below childrenOf = {(p, process_pid c) | p c. c \<in> set (childrenOf p)}"

definition node_pids :: "ProcessTreeNode list \<Rightarrow> int list" where
  "node_pids tree = map (process_pid \<circ> node_process) tree"

lemma node_pids_simps [simp]:
  "node_pids [] = []" "node_pids (xs @ ys) = node_pids xs @ node_pids ys"
  "node_pids (n # xs) = process_pid (node_process n) # node_pids xs"
  by (simp_all add: node_pids_def)

text \<open>With enough fuel: the visited set grows by exactly the new nodes, each new node's children are
  visited, and each new node is one of the processes or below one.\<close>

definition visits ::
    "(int \<Rightarrow> ProcessInfo list) \<Rightarrow> ProcessInfo list \<Rightarrow> int set \<times> ProcessTreeNode list \<Rightarrow>
     int set \<times> ProcessTreeNode list \<Rightarrow> bool" where
  "visits childrenOf ps st st' \<longleftrightarrow>
     fst st \<subseteq> fst st' \<and> process_pid ` set ps \<subseteq> fst st' \<and>
     (\<exists>new. snd st' = snd st @ new \<and> distinct (node_pids new) \<and> set (node_pids new) = fst st' - fst st) \<and>
     (\<forall>x \<in> fst st' - fst st. process_pid ` set (childrenOf x) \<subseteq> fst st' \<and>
        (\<exists>p \<in> set ps. (process_pid p, x) \<in> (below childrenOf)\<^sup>*))"

lemma visits_next:
  assumes "process_pid p \<notin> fst st"
    and a: "visits childrenOf (childrenOf (process_pid p))
      (insert (process_pid p) (fst st), snd st @ [\<lparr>node_depth = depth, node_process = p\<rparr>]) st1"
    and b: "visits childrenOf rest st1 st2"
  shows "visits childrenOf (p # rest) st st2"
proof -
  let ?pid = "process_pid p"
  from a obtain n1 where a1: "insert ?pid (fst st) \<subseteq> fst st1" "process_pid ` set (childrenOf ?pid) \<subseteq> fst st1"
    "snd st1 = snd st @ \<lparr>node_depth = depth, node_process = p\<rparr> # n1" "distinct (node_pids n1)"
    "set (node_pids n1) = fst st1 - insert ?pid (fst st)"
    and a2: "\<And>x. x \<in> fst st1 - insert ?pid (fst st) \<Longrightarrow> process_pid ` set (childrenOf x) \<subseteq> fst st1 \<and>
      (\<exists>c \<in> set (childrenOf ?pid). (process_pid c, x) \<in> (below childrenOf)\<^sup>*)"
    unfolding visits_def by auto
  from b obtain n2 where b1: "fst st1 \<subseteq> fst st2" "process_pid ` set rest \<subseteq> fst st2"
    "snd st2 = snd st1 @ n2" "distinct (node_pids n2)" "set (node_pids n2) = fst st2 - fst st1"
    and b2: "\<And>x. x \<in> fst st2 - fst st1 \<Longrightarrow> process_pid ` set (childrenOf x) \<subseteq> fst st2 \<and>
      (\<exists>q \<in> set rest. (process_pid q, x) \<in> (below childrenOf)\<^sup>*)"
    unfolding visits_def by auto
  have "snd st2 = snd st @ \<lparr>node_depth = depth, node_process = p\<rparr> # n1 @ n2" using a1(3) b1(3) by simp
  moreover have "distinct (node_pids (\<lparr>node_depth = depth, node_process = p\<rparr> # n1 @ n2))"
    using a1 b1 by auto
  moreover have "set (node_pids (\<lparr>node_depth = depth, node_process = p\<rparr> # n1 @ n2)) = fst st2 - fst st"
    using a1 b1 assms(1) by auto
  moreover have "process_pid ` set (childrenOf x) \<subseteq> fst st2 \<and>
      (\<exists>q \<in> set (p # rest). (process_pid q, x) \<in> (below childrenOf)\<^sup>*)" if x: "x \<in> fst st2 - fst st" for x
  proof (cases "x \<in> fst st1")
    case False
    with x b2 show ?thesis by auto
  next
    case True
    show ?thesis
    proof (cases "x = ?pid")
      case True
      with a1(2) b1(1) show ?thesis by auto
    next
      case False
      with x True have "x \<in> fst st1 - insert ?pid (fst st)" by simp
      from a2 [OF this] obtain c where c: "c \<in> set (childrenOf ?pid)" "(process_pid c, x) \<in> (below childrenOf)\<^sup>*"
        and s: "process_pid ` set (childrenOf x) \<subseteq> fst st1" by blast
      have "(?pid, process_pid c) \<in> below childrenOf" using c(1) by (auto simp: below_def)
      with c(2) s b1(1) show ?thesis by (auto intro: converse_rtrancl_into_rtrancl)
    qed
  qed
  moreover have "fst st \<subseteq> fst st2" "process_pid ` set (p # rest) \<subseteq> fst st2" using a1(1) b1(1,2) by auto
  ultimately show ?thesis unfolding visits_def by blast
qed

lemma visits_within:
  assumes "visits childrenOf ps st st'" "\<forall>p. process_pid ` set (childrenOf p) \<subseteq> U" "process_pid ` set ps \<subseteq> U"
  shows "fst st' \<subseteq> fst st \<union> U"
proof
  fix x assume x: "x \<in> fst st'"
  show "x \<in> fst st \<union> U"
  proof (cases "x \<in> fst st")
    case False
    with x assms(1) obtain p where "p \<in> set ps" "(process_pid p, x) \<in> (below childrenOf)\<^sup>*"
      unfolding visits_def by blast
    from this(2) this(1) show ?thesis
      by (induction rule: rtrancl_induct) (use assms(2,3) in \<open>auto simp: below_def\<close>)
  qed simp
qed

lemma appendChildren_spec:
  assumes "finite U" "\<forall>p. process_pid ` set (childrenOf p) \<subseteq> U" "process_pid ` set ps \<subseteq> U"
    and "card (U - fst st) < fuel"
  shows "visits childrenOf ps st (appendChildren childrenOf fuel depth ps st)"
  using assms
proof (induction childrenOf fuel depth ps st rule: appendChildren.induct)
  case (3 childrenOf fuel depth p rest visited tree)
  show ?case
  proof (cases "process_pid p \<in> visited")
    case True
    from "3.IH"(1) [OF True] "3.prems" have "visits childrenOf rest (visited, tree)
        (appendChildren childrenOf (Suc fuel) depth rest (visited, tree))" by simp
    with True show ?thesis unfolding visits_def by auto
  next
    case False
    let ?pid = "process_pid p"
    let ?st = "(insert ?pid visited, tree @ [\<lparr>node_depth = depth, node_process = p\<rparr>])"
    let ?st1 = "appendChildren childrenOf fuel (depth + 1) (childrenOf ?pid) ?st"
    have "U - visited = insert ?pid (U - insert ?pid visited)" using "3.prems"(3) False by auto
    then have "card (U - visited) = Suc (card (U - insert ?pid visited))"
      using "3.prems"(1) by (metis Diff_iff card_insert_disjoint finite_Diff insertI1)
    then have a: "visits childrenOf (childrenOf ?pid) ?st ?st1"
      using "3.IH"(2) [OF False] "3.prems" by simp
    have "visited \<subseteq> fst ?st1" using a unfolding visits_def by auto
    then have "card (U - fst ?st1) \<le> card (U - visited)" using "3.prems"(1) by (intro card_mono) auto
    then have "visits childrenOf rest ?st1 (appendChildren childrenOf (Suc fuel) depth rest ?st1)"
      using "3.IH"(3) [OF False] "3.prems" by simp
    from visits_next [of p "(visited, tree)" childrenOf depth, OF _ _ this] a False show ?thesis by simp
  qed
qed (auto simp: visits_def)

section \<open>The tree\<close>

text \<open>\<open>parent_of listed\<close> relates a process id to those of the rows that name it as their parent.\<close>

definition parent_of :: "ProcessInfo list \<Rightarrow> (int \<times> int) set" where
  "parent_of listed = {(p, process_pid c) | p c. c \<in> set listed \<and> process_ppid c = Some p}"

lemma tree_pids:
  "distinct (node_pids (buildProcessTreeNodes collate listed rootPid)) \<and>
   set (node_pids (buildProcessTreeNodes collate listed rootPid)) = {x. (rootPid, x) \<in> (parent_of listed)\<^sup>+}"
proof -
  define childrenOf where "childrenOf = (\<lambda>pid. sort_by (compareChildren collate)
    (getOr (childrenByParent Map.empty listed pid) []))"
  have set: "set (childrenOf p) = {c \<in> set listed. process_ppid c = Some p}" for p
    by (auto simp: childrenOf_def childrenByParent_eq)
  have below: "below childrenOf = parent_of listed" by (auto simp: below_def parent_of_def set)
  let ?U = "process_pid ` set listed"
  have "card (?U - {}) < length listed + 1"
    using card_image_le [of "set listed" process_pid] card_length [of listed] by simp
  then have v: "visits childrenOf (childrenOf rootPid) ({}, [])
      (appendChildren childrenOf (length listed + 1) 0 (childrenOf rootPid) ({}, []))"
    (is "visits _ _ _ ?st") by (intro appendChildren_spec [where U = ?U]) (auto simp: set)
  have tree: "buildProcessTreeNodes collate listed rootPid = snd ?st"
    unfolding buildProcessTreeNodes_def Let_def childrenOf_def ..
  from v have d: "distinct (node_pids (snd ?st))" "set (node_pids (snd ?st)) = fst ?st"
    and ch: "process_pid ` set (childrenOf rootPid) \<subseteq> fst ?st"
    and cl: "\<And>x. x \<in> fst ?st \<Longrightarrow> process_pid ` set (childrenOf x) \<subseteq> fst ?st \<and>
      (\<exists>p \<in> set (childrenOf rootPid). (process_pid p, x) \<in> (below childrenOf)\<^sup>*)"
    unfolding visits_def by auto
  have "(rootPid, x) \<in> (parent_of listed)\<^sup>+" if "x \<in> fst ?st" for x
    using cl [OF that] unfolding below
    by (metis (mono_tags, lifting) below below_def mem_Collect_eq rtrancl_into_trancl2)
  moreover have "x \<in> fst ?st" if "(rootPid, x) \<in> (parent_of listed)\<^sup>+" for x
    using that
  proof (induction rule: trancl_induct)
    case (base y)
    then show ?case using ch by (auto simp: below_def simp flip: below)
  next
    case (step y z)
    then show ?case using cl [of y] by (auto simp: below_def simp flip: below)
  qed
  ultimately show ?thesis using d by (auto simp: tree)
qed

section \<open>The indentation\<close>

text \<open>\<open>listing d q nodes\<close>: the nodes are the depth-first listing of a forest below \<open>q\<close> at depth \<open>d\<close>:
  a child of \<open>q\<close> at depth \<open>d\<close>, the listing of its own children one deeper, then the rest.\<close>

inductive listing :: "nat \<Rightarrow> int \<Rightarrow> ProcessTreeNode list \<Rightarrow> bool" where
  listing_Nil: "listing d q []"
| listing_Cons: "process_ppid p = Some q \<Longrightarrow> listing (d + 1) (process_pid p) sub \<Longrightarrow> listing d q rest \<Longrightarrow>
    listing d q (\<lparr>node_depth = d, node_process = p\<rparr> # sub @ rest)"

inductive_cases listing_ConsE: "listing d q (n # nodes)"

lemma listing_append: "listing d q xs \<Longrightarrow> listing d q ys \<Longrightarrow> listing d q (xs @ ys)"
proof (induction rule: listing.induct)
  case (listing_Cons p q d sub rest)
  then have "listing d q (\<lparr>node_depth = d, node_process = p\<rparr> # sub @ rest @ ys)"
    by (intro listing.listing_Cons) simp_all
  then show ?case by simp
qed simp

lemma appendChildren_listing:
  assumes "\<forall>x. \<forall>c \<in> set (childrenOf x). process_ppid c = Some x" "\<forall>p \<in> set ps. process_ppid p = Some q"
  shows "\<exists>nodes. snd (appendChildren childrenOf fuel depth ps st) = snd st @ nodes \<and> listing depth q nodes"
  using assms
proof (induction childrenOf fuel depth ps st arbitrary: q rule: appendChildren.induct)
  case (3 childrenOf fuel depth p rest visited tree)
  show ?case
  proof (cases "process_pid p \<in> visited")
    case True
    with "3.IH"(1) [OF True, of q] "3.prems" show ?thesis by simp
  next
    case False
    let ?n = "\<lparr>node_depth = depth, node_process = p\<rparr>"
    let ?st1 = "appendChildren childrenOf fuel (depth + 1) (childrenOf (process_pid p))
      (insert (process_pid p) visited, tree @ [?n])"
    from "3.IH"(2) [OF False, of "process_pid p"] "3.prems" obtain sub where
      sub: "snd ?st1 = tree @ ?n # sub" "listing (depth + 1) (process_pid p) sub" by auto
    from "3.IH"(3) [OF False, of q] "3.prems" obtain nodes where
      "snd (appendChildren childrenOf (Suc fuel) depth rest ?st1) = snd ?st1 @ nodes" "listing depth q nodes"
      by auto
    with sub listing_Cons [of p q depth sub nodes] "3.prems" False show ?thesis by simp
  qed
qed (auto intro: listing_Nil)

lemma tree_listing: "listing 0 rootPid (buildProcessTreeNodes collate listed rootPid)"
proof -
  define childrenOf where "childrenOf = (\<lambda>pid. sort_by (compareChildren collate)
    (getOr (childrenByParent Map.empty listed pid) []))"
  have "\<forall>x. \<forall>c \<in> set (childrenOf x). process_ppid c = Some x"
    by (auto simp: childrenOf_def childrenByParent_eq)
  then show ?thesis
    using appendChildren_listing [of childrenOf "childrenOf rootPid" rootPid "length listed + 1" 0 "({}, [])"]
    unfolding buildProcessTreeNodes_def Let_def childrenOf_def by auto
qed

section \<open>Properties\<close>

text \<open>(C19) The process tree is complete, sound and finite whatever the parent links are, cycles included:
  each process below the root appears exactly once, nothing else appears, and the depths are those of a
  depth-first listing in which every node follows its parent.\<close>

theorem process_tree_lists_descendants:
  "distinct (node_pids (buildProcessTreeNodes collate listed rootPid)) \<and>
   set (node_pids (buildProcessTreeNodes collate listed rootPid)) = {x. (rootPid, x) \<in> (parent_of listed)\<^sup>+} \<and>
   listing 0 rootPid (buildProcessTreeNodes collate listed rootPid)"
  using tree_pids tree_listing by blast

text \<open>The root is not marked as visited, so a process on a cycle of parent links (its parent ended and
  the id went to one of its descendants, or it is its own parent) is listed below itself: selecting any
  process of the cycle shows that process again inside its own tree.\<close>

theorem process_tree_repeats_root:
  assumes "a \<in> set listed" "process_ppid a = Some (process_pid b)"
    and "(process_pid a, process_pid b) \<in> (parent_of listed)\<^sup>*"
  shows "process_pid b \<in> set (node_pids (buildProcessTreeNodes collate listed (process_pid b)))"
proof -
  have "(process_pid b, process_pid a) \<in> parent_of listed"
    using assms(1,2) by (auto simp: parent_of_def)
  from this assms(3) have "(process_pid b, process_pid b) \<in> (parent_of listed)\<^sup>+"
    by (rule rtrancl_into_trancl2)
  with tree_pids show ?thesis by blast
qed

definition own_parent :: ProcessInfo where
  "own_parent = \<lparr>process_pid = 0, process_ppid = Some 0, process_name = [], process_status = StatusRun\<rparr>"

theorem process_tree_repeats_root_witness:
  "0 \<in> set (node_pids (buildProcessTreeNodes (\<lambda>_ _. 0) [own_parent] 0))"
  using process_tree_repeats_root [of own_parent "[own_parent]" own_parent "\<lambda>_ _. 0"]
  by (simp add: own_parent_def)

end
