(* ===== verification/ViewFormat.thy ===== *)
theory ViewFormat
  imports Paths Cbor
begin

text \<open>
  The formatting helpers of the process and daemon views: byte counts, percentages, durations and
  names of commands and paths. Numbers that come from \<open>u53\<close> fields are integers; \<open>cpuUsagePercent\<close>
  is a double, given by its bits. Texts are ASCII (\<open>string\<close>) except those cut out of other texts.
\<close>

section \<open>Numbers\<close>

text \<open>\<open>formatBytes\<close>: the value is divided by 1024 while a larger unit exists (as in \<open>formatSize\<close>, the
  divisions are exact), then rounded to one decimal below ten units.\<close>

definition byte_units :: "string list" where
  "byte_units = [''B'', ''KB'', ''MB'', ''GB'', ''TB'']"

definition formatBytes :: "int \<Rightarrow> string" where
  "formatBytes amount =
     (if amount < 0 then ''Unknown''
      else let n = nat amount; (d, unitIndex) = size_loop n 1 0 (length byte_units - 1) in
        (if unitIndex = 0 \<or> 10 * d \<le> n then toFixed0 n d else toFixed1 n d) @ '' '' @ byte_units ! unitIndex)"

text \<open>A finite double as a fraction, and \<open>toFixed(2)\<close>, which below \<open>10^21\<close> is the nearest decimal;
  from there on it is \<open>String(value)\<close>, the parameter \<open>number_text\<close>.\<close>

definition f64_fraction :: "64 word \<Rightarrow> nat \<times> nat" where
  "f64_fraction w =
     (let e = unat (take_bit 11 (drop_bit 52 w)); m = unat (take_bit 52 w) in
      if e = 0 then (m, 2 ^ 1074)
      else if 1075 \<le> e then ((2 ^ 52 + m) * 2 ^ (e - 1075), 1)
      else (2 ^ 52 + m, 2 ^ (1075 - e)))"

definition f64_negative :: "64 word \<Rightarrow> bool" where
  "f64_negative w \<longleftrightarrow> bit w 63 \<and> fst (f64_fraction w) \<noteq> 0"

definition pad2 :: "nat \<Rightarrow> string" where
  "pad2 n = (if n < 10 then ''0'' @ show_nat n else show_nat n)"

definition toFixed2 :: "nat \<Rightarrow> nat \<Rightarrow> string" where
  "toFixed2 n d = (let k = round_half_up (100 * n) d in show_nat (k div 100) @ ''.'' @ pad2 (k mod 100))"

definition formatCpuUsagePercent :: "(64 word \<Rightarrow> string) \<Rightarrow> 64 word \<Rightarrow> string" where
  "formatCpuUsagePercent number_text v =
     (if \<not> f64_is_finite v \<or> f64_negative v then ''Unknown''
      else let (n, d) = f64_fraction v in
        (if 10 ^ 21 * d \<le> n then number_text v else toFixed2 n d) @ ''%'')"

section \<open>Durations of the process views\<close>

definition pad3 :: "nat \<Rightarrow> string" where
  "pad3 n = (if n < 100 then ''0'' @ pad2 n else show_nat n)"

definition formatDurationMs :: "int \<Rightarrow> string" where
  "formatDurationMs durationMs =
     (if durationMs < 0 then ''Unknown''
      else if durationMs < 1000 then show_int durationMs @ '' ms''
      else let milliseconds = pad3 (nat (durationMs mod 1000));
               totalSeconds = nat (durationMs div 1000);
               seconds = pad2 (totalSeconds mod 60);
               minutes = totalSeconds div 60 mod 60;
               hours = totalSeconds div 3600 in
        if 0 < hours then
          show_nat hours @ ''h '' @ pad2 minutes @ ''m '' @ seconds @ ''.'' @ milliseconds @ ''s''
        else if 0 < minutes then show_nat minutes @ ''m '' @ seconds @ ''.'' @ milliseconds @ ''s''
        else show_nat totalSeconds @ ''.'' @ milliseconds @ ''s'')"

definition formatDurationSeconds :: "int \<Rightarrow> string" where
  "formatDurationSeconds totalSeconds =
     (if totalSeconds < 0 then ''Unknown''
      else let n = nat totalSeconds;
               days = n div 86400; hours = n mod 86400 div 3600; minutes = n mod 3600 div 60;
               seconds = n mod 60;
               parts = (if 0 < days then [show_nat days @ ''d''] else []);
               parts = (if 0 < hours \<or> parts \<noteq> [] then parts @ [show_nat hours @ ''h''] else parts);
               parts = (if 0 < minutes \<or> parts \<noteq> [] then parts @ [show_nat minutes @ ''m''] else parts);
               parts = parts @ [show_nat seconds @ ''s'']
        in join '' '' parts)"

definition formatProcessUptime :: "int \<Rightarrow> int \<Rightarrow> string" where
  "formatProcessUptime startTimeUnix nowMs =
     formatDurationSeconds (max 0 (nowMs div 1000 - startTimeUnix))"

section \<open>Durations of the daemon view\<close>

definition daemonFormatDurationSeconds :: "int \<Rightarrow> string" where
  "daemonFormatDurationSeconds totalSeconds =
     (let seconds = nat (max 0 totalSeconds);
          days = seconds div 86400; hours = seconds mod 86400 div 3600; minutes = seconds mod 3600 div 60;
          restSeconds = seconds mod 60 in
      if 0 < days then
        show_nat days @ ''d '' @ show_nat hours @ ''h '' @ show_nat minutes @ ''m '' @ show_nat restSeconds @ ''s''
      else if 0 < hours then show_nat hours @ ''h '' @ show_nat minutes @ ''m '' @ show_nat restSeconds @ ''s''
      else if 0 < minutes then show_nat minutes @ ''m '' @ show_nat restSeconds @ ''s''
      else show_nat restSeconds @ ''s'')"

text \<open>\<open>daemonUptimeSecondsAtom\<close> is never negative, so the remainders are those of the integers.\<close>

definition formatDaemonUptime :: "int option \<Rightarrow> string" where
  "formatDaemonUptime uptimeSeconds =
     (case uptimeSeconds of
        None \<Rightarrow> ''Unknown''
      | Some u \<Rightarrow>
          let days = u div 86400; hours = u mod 86400 div 3600; minutes = u mod 3600 div 60;
              seconds = u mod 60 in
          if 0 < days then
            show_int days @ ''d '' @ show_int hours @ ''h '' @ show_int minutes @ ''m '' @ show_int seconds @ ''s''
          else if 0 < hours then show_int hours @ ''h '' @ show_int minutes @ ''m '' @ show_int seconds @ ''s''
          else if 0 < minutes then show_int minutes @ ''m '' @ show_int seconds @ ''s''
          else show_int seconds @ ''s'')"

text \<open>\<open>Math.floor(expiresAtUnix - nowMs / 1000)\<close>, computed over the integers: the floor of
  \<open>(1000 * expiresAtUnix - nowMs) / 1000\<close>.\<close>

definition formatCredentialExpiryRemaining :: "int option \<Rightarrow> int \<Rightarrow> string" where
  "formatCredentialExpiryRemaining expiresAtUnix nowMs =
     (case expiresAtUnix of
        None \<Rightarrow> ''Expiry unknown''
      | Some e \<Rightarrow>
          if e = 0 then ''Expiry unknown''
          else let remainingSeconds = (1000 * e - nowMs) div 1000 in
            if 0 < remainingSeconds then daemonFormatDurationSeconds remainingSeconds @ '' remaining''
            else if remainingSeconds = 0 then ''Expires now''
            else ''Expired '' @ daemonFormatDurationSeconds (- remainingSeconds) @ '' ago'')"

definition formatCredentialCreatedAge :: "int option \<Rightarrow> int \<Rightarrow> string" where
  "formatCredentialCreatedAge createdAtUnix nowMs =
     (case createdAtUnix of
        None \<Rightarrow> ''Creation time unknown''
      | Some c \<Rightarrow>
          if c = 0 then ''Creation time unknown''
          else let elapsedSeconds = (nowMs - 1000 * c) div 1000 in
            if 0 < elapsedSeconds then daemonFormatDurationSeconds elapsedSeconds @ '' ago''
            else if elapsedSeconds = 0 then ''Now''
            else ''In '' @ daemonFormatDurationSeconds (- elapsedSeconds))"

section \<open>Names at the end of a path\<close>

definition last_or :: "'a list \<Rightarrow> 'a \<Rightarrow> 'a" where
  "last_or xs d = (if xs = [] then d else last xs)"

definition pathBaseName :: "jstring \<Rightarrow> jstring" where
  "pathBaseName path = (let trimmed = drop_trailing is_sep path in last_or (segments is_sep trimmed) path)"

definition commandName :: "jstring \<Rightarrow> jstring" where
  "commandName command =
     (let normalized = map (\<lambda>c. if c = backslash then slash else c) command in
      last_or (segments (\<lambda>c. c = slash) normalized) command)"

lemma segments_from_normalized:
  assumes "\<forall>c \<in> set cur. c \<noteq> backslash"
  shows "segments_from (\<lambda>c. c = slash) cur (map (\<lambda>c. if c = backslash then slash else c) s) =
    segments_from is_sep cur s"
  using assms
proof (induction s arbitrary: cur)
  case (Cons c s)
  have "segments_from (\<lambda>c. c = slash) (cur @ [c]) (map (\<lambda>c. if c = backslash then slash else c) s) =
      segments_from is_sep (cur @ [c]) s" if "c \<noteq> backslash"
    using that Cons.prems by (intro Cons.IH) auto
  moreover have "is_sep c \<longleftrightarrow> c = slash \<or> c = backslash" by (simp add: is_sep_def)
  ultimately show ?case using Cons.IH [of "[]"] by (cases "c = backslash"; cases "c = slash") simp_all
qed simp

lemma segments_from_seps: "\<forall>c \<in> set s. P c \<Longrightarrow> segments_from P cur s = (if cur = [] then [] else [cur])"
  by (induction s arbitrary: cur) auto

lemma segments_from_trailing:
  "\<forall>c \<in> set t. P c \<Longrightarrow> segments_from P cur (s @ t) = segments_from P cur s"
  by (induction s arbitrary: cur) (auto simp: segments_from_seps)

lemma segments_drop_trailing: "segments P (drop_trailing P s) = segments P s"
proof -
  obtain t where t: "s = drop_trailing P s @ t" "\<forall>c \<in> set t. P c"
    using drop_trailing_prefix [of s P] by blast
  have "segments_from P [] (drop_trailing P s @ t) = segments_from P [] (drop_trailing P s)"
    by (rule segments_from_trailing [OF t(2)])
  then show ?thesis by (simp add: segments_def flip: t(1))
qed

lemma commandName_segments: "commandName s = last_or (segments is_sep s) s"
  by (simp add: commandName_def segments_def segments_from_normalized)

lemma pathBaseName_segments: "pathBaseName s = last_or (segments is_sep s) s"
  by (simp add: pathBaseName_def segments_drop_trailing)

section \<open>Reading a duration back\<close>

text \<open>The reader the printed durations are compared with: numbers followed by a unit.\<close>

definition digit :: "char \<Rightarrow> bool" where
  "digit c \<longleftrightarrow> 48 \<le> (of_char c :: nat) \<and> (of_char c :: nat) < 58"

definition unit_seconds :: "char \<Rightarrow> nat" where
  "unit_seconds c =
     (if c = CHR ''d'' then 86400 else if c = CHR ''h'' then 3600
      else if c = CHR ''m'' then 60 else if c = CHR ''s'' then 1 else 0)"

fun read_duration :: "nat \<Rightarrow> string \<Rightarrow> nat" where
  "read_duration acc [] = 0"
| "read_duration acc (c # cs) =
     (if digit c then read_duration (10 * acc + (of_char c - 48)) cs
      else acc * unit_seconds c + read_duration 0 cs)"

lemma digit_char: "n < 10 \<Longrightarrow> digit (char_of (48 + n)) \<and> of_char (char_of (48 + n) :: char) = (48 + n :: nat)"
  by (simp add: digit_def)

lemma read_show_nat: "read_duration 0 (show_nat n @ cs) = read_duration n cs"
proof (induction n arbitrary: cs rule: show_nat.induct)
  case (1 n)
  note d = digit_char [of "n mod 10"]
  show ?case
  proof (cases "n < 10")
    case True
    then show ?thesis using digit_char [of n] by (simp add: show_nat.simps [of n])
  next
    case False
    then have "read_duration 0 (show_nat (n div 10) @ char_of (48 + n mod 10) # cs)
        = read_duration (n div 10) (char_of (48 + n mod 10) # cs)" by (rule "1.IH")
    also have "\<dots> = read_duration (10 * (n div 10) + n mod 10) cs" using d by simp
    finally show ?thesis using False by (simp add: show_nat.simps [of n])
  qed
qed

lemma read_unit: "\<not> digit c \<Longrightarrow> read_duration 0 (show_nat n @ c # cs) = n * unit_seconds c + read_duration 0 cs"
  by (simp add: read_show_nat)

lemma not_digit: "\<not> digit CHR ''d''" "\<not> digit CHR ''h''" "\<not> digit CHR ''m''" "\<not> digit CHR ''s''" "\<not> digit CHR '' ''"
  by (simp_all add: digit_def)

lemma split_seconds:
  "n div 86400 * 86400 + (n mod 86400 div 3600 * 3600 + (n mod 3600 div 60 * 60 + n mod 60)) = (n :: nat)"
proof -
  have "n mod 86400 mod 3600 = n mod 3600" "n mod 3600 mod 60 = n mod 60"
    by (simp_all add: mod_mod_cancel)
  then show ?thesis
    using div_mult_mod_eq [of n 86400] div_mult_mod_eq [of "n mod 86400" 3600] div_mult_mod_eq [of "n mod 3600" 60]
    by linarith
qed

lemma read_daemonFormat:
  assumes "0 \<le> i"
  shows "read_duration 0 (daemonFormatDurationSeconds i) = nat i"
proof -
  have s: "read_duration 0 ('' '' @ cs) = read_duration 0 cs" for cs by (simp add: not_digit)
  show ?thesis
    using assms split_seconds [of "nat i"]
    by (simp add: daemonFormatDurationSeconds_def Let_def read_unit not_digit unit_seconds_def)
qed

lemma daemonFormat_same:
  "0 \<le> i \<Longrightarrow> formatDurationSeconds i = daemonFormatDurationSeconds i"
  by (simp add: formatDurationSeconds_def daemonFormatDurationSeconds_def Let_def)

section \<open>Properties\<close>

text \<open>The durations the views print say the duration: reading the days, hours, minutes and seconds
  back gives the number of seconds, so two durations are never shown alike; the two copies of the
  function, of the process and the daemon views, print the same text.\<close>

theorem durations_read_back:
  assumes "0 \<le> i"
  shows "read_duration 0 (formatDurationSeconds i) = nat i \<and>
    formatDurationSeconds i = daemonFormatDurationSeconds i \<and>
    (\<forall>j. 0 \<le> j \<longrightarrow> formatDurationSeconds i = formatDurationSeconds j \<longrightarrow> i = j)"
  using assms read_daemonFormat by (metis daemonFormat_same eq_nat_nat_iff)

theorem durations_read_back_witness:
  "formatDurationSeconds 93784 = ''1d 2h 3m 4s'' \<and> read_duration 0 (formatDurationSeconds 93784) = 93784"
proof
  show "formatDurationSeconds 93784 = ''1d 2h 3m 4s''"
    by (simp add: formatDurationSeconds_def show_nat.simps char_of_eq_iff)
  show "read_duration 0 (formatDurationSeconds 93784) = 93784"
    using conjunct1 [OF durations_read_back [of 93784]] by simp
qed

end
