(* ===== verification/ProcessViews.thy ===== *)
theory ProcessViews
  imports ProcessTree ViewFormat Workbench
begin

text \<open>
  \<open>web/src/view/workbench/tool/processes/index.tsx\<close>: the process list, the process tree, a process's
  detail, the resources, sockets and modules it uses. Per view: the row function of its events, its
  effect (an instance of \<open>ViewStreams\<close>), and what it shows, as the texts of the cells. Markup, styles
  and \<open>formatUnixTimestamp\<close> (the locale's date format) are not modelled. \<open>collate\<close> is \<open>localeCompare\<close>.
\<close>

section \<open>Labels\<close>

fun processStatusLabel :: "ProcessStatus \<Rightarrow> string" where
  "processStatusLabel StatusIdle = ''Idle''"
| "processStatusLabel StatusRun = ''Run''"
| "processStatusLabel StatusSleep = ''Sleep''"
| "processStatusLabel StatusStop = ''Stop''"
| "processStatusLabel StatusZombie = ''Zombie''"
| "processStatusLabel StatusTracing = ''Tracing''"
| "processStatusLabel StatusDead = ''Dead''"
| "processStatusLabel StatusWakekill = ''Wakekill''"
| "processStatusLabel StatusWaking = ''Waking''"
| "processStatusLabel StatusParked = ''Parked''"
| "processStatusLabel StatusLockBlocked = ''Lock blocked''"
| "processStatusLabel StatusUninterruptibleDiskSleep = ''Disk sleep''"
| "processStatusLabel StatusSuspended = ''Suspended''"
| "processStatusLabel (StatusUnknown code) = ''Unknown ('' @ show_int code @ '')''"

fun processResourceInUseKindLabel :: "ProcessResourceInUseKind \<Rightarrow> string" where
  "processResourceInUseKindLabel ResourceFile = ''File''"
| "processResourceInUseKindLabel ResourceDirectory = ''Directory''"
| "processResourceInUseKindLabel ResourceDevice = ''Device''"
| "processResourceInUseKindLabel ResourceNamedPipe = ''Named pipe''"
| "processResourceInUseKindLabel ResourceAnonymousPipe = ''Anonymous pipe''"
| "processResourceInUseKindLabel ResourceOther = ''Other''"

fun processSocketInUseKindLabel :: "ProcessSocketInUseKind \<Rightarrow> string" where
  "processSocketInUseKindLabel SocketTcp = ''TCP''"
| "processSocketInUseKindLabel SocketUdp = ''UDP''"
| "processSocketInUseKindLabel SocketUnix = ''Unix''"
| "processSocketInUseKindLabel SocketRaw = ''Raw''"
| "processSocketInUseKindLabel SocketUnknown = ''Unknown''"

fun socketEndpointLabel :: "SocketEndpoint option \<Rightarrow> jstring" where
  "socketEndpointLabel None = []"
| "socketEndpointLabel (Some (EndpointIp address portNumber)) =
     (case portNumber of None \<Rightarrow> address | Some p \<Rightarrow> address @ js '':'' @ js (show_int p))"
| "socketEndpointLabel (Some (EndpointUnix path name)) = getOr (orElse path name) []"

definition socketListeningLabel :: "bool option \<Rightarrow> string" where
  "socketListeningLabel listening =
     (case listening of None \<Rightarrow> ''Unknown'' | Some b \<Rightarrow> if b then ''Yes'' else ''No'')"

fun processModuleKindLabel :: "ProcessModuleKind \<Rightarrow> string" where
  "processModuleKindLabel ModuleExecutable = ''Executable''"
| "processModuleKindLabel ModuleDynamicLibrary = ''Dynamic library''"
| "processModuleKindLabel ModuleUnknown = ''Unknown''"

fun processModuleKindSortKey :: "ProcessModuleKind \<Rightarrow> int" where
  "processModuleKindSortKey ModuleExecutable = 0"
| "processModuleKindSortKey ModuleDynamicLibrary = 1"
| "processModuleKindSortKey ModuleUnknown = 2"

definition processResourceInUseAccessLabel :: "ProcessResourceInUseInfo \<Rightarrow> string" where
  "processResourceInUseAccessLabel resource =
     (case priui_access resource of
        None \<Rightarrow> ''''
      | Some access \<Rightarrow>
          let parts = List.map_filter id
            [if priua_read access = Some True then Some ''read'' else None,
             if priua_write access = Some True then Some ''write'' else None,
             if priua_execute access = Some True then Some ''execute'' else None]
          in join '', '' parts)"

section \<open>Rows\<close>

definition compareProcesses :: "ProcessInfo \<Rightarrow> ProcessInfo \<Rightarrow> int" where
  "compareProcesses a b = process_pid a - process_pid b"

definition sortedProcesses :: "ProcessInfo list \<Rightarrow> ProcessInfo list" where
  "sortedProcesses listed = sort_by compareProcesses listed"

definition compareResources ::
    "(jstring \<Rightarrow> jstring \<Rightarrow> int) \<Rightarrow> ProcessResourceInUseInfo \<Rightarrow> ProcessResourceInUseInfo \<Rightarrow> int" where
  "compareResources collate a b =
     num_or (num_or (collate (js (processResourceInUseKindLabel (priui_kind a)))
         (js (processResourceInUseKindLabel (priui_kind b))))
       (collate (getOr (priui_name a) []) (getOr (priui_name b) [])))
       (collate (priui_resourceId a) (priui_resourceId b))"

definition sortedProcessResourcesInUse ::
    "(jstring \<Rightarrow> jstring \<Rightarrow> int) \<Rightarrow> ProcessResourceInUseInfo list \<Rightarrow> ProcessResourceInUseInfo list" where
  "sortedProcessResourcesInUse collate listed = sort_by (compareResources collate) listed"

definition compareSockets ::
    "(jstring \<Rightarrow> jstring \<Rightarrow> int) \<Rightarrow> ProcessSocketInUseInfo \<Rightarrow> ProcessSocketInUseInfo \<Rightarrow> int" where
  "compareSockets collate a b =
     num_or (num_or (num_or
       (collate (js (processSocketInUseKindLabel (psiui_kind a)))
         (js (processSocketInUseKindLabel (psiui_kind b))))
       (collate (socketEndpointLabel (psiui_localEndpoint a)) (socketEndpointLabel (psiui_localEndpoint b))))
       (collate (socketEndpointLabel (psiui_remoteEndpoint a)) (socketEndpointLabel (psiui_remoteEndpoint b))))
       (collate (psiui_socketId a) (psiui_socketId b))"

definition sortedProcessSocketsInUse ::
    "(jstring \<Rightarrow> jstring \<Rightarrow> int) \<Rightarrow> ProcessSocketInUseInfo list \<Rightarrow> ProcessSocketInUseInfo list" where
  "sortedProcessSocketsInUse collate listed = sort_by (compareSockets collate) listed"

definition compareModules ::
    "(jstring \<Rightarrow> jstring \<Rightarrow> int) \<Rightarrow> ProcessModuleInfo \<Rightarrow> ProcessModuleInfo \<Rightarrow> int" where
  "compareModules collate a b =
     num_or (num_or (num_or
       (processModuleKindSortKey (pmi_kind a) - processModuleKindSortKey (pmi_kind b))
       (collate (pmi_name a) (pmi_name b)))
       (collate (getOr (pmi_path a) []) (getOr (pmi_path b) [])))
       (collate (pmi_moduleId a) (pmi_moduleId b))"

definition sortedProcessModules ::
    "(jstring \<Rightarrow> jstring \<Rightarrow> int) \<Rightarrow> ProcessModuleInfo list \<Rightarrow> ProcessModuleInfo list" where
  "sortedProcessModules collate listed = sort_by (compareModules collate) listed"

fun applyProcessesEvent :: "ProcessInfo list \<Rightarrow> ProcessesTableEvent \<Rightarrow> ProcessInfo list" where
  "applyProcessesEvent currentRows (ProcessesSnapshot listed) = sortedProcesses listed"
| "applyProcessesEvent currentRows (ProcessesPatch removePids upserts) =
     sortedProcesses (map_patch process_pid currentRows removePids upserts)"

fun applyProcessResourcesInUseEvent ::
    "(jstring \<Rightarrow> jstring \<Rightarrow> int) \<Rightarrow> ProcessResourceInUseInfo list \<Rightarrow> ProcessResourcesInUseTableEvent \<Rightarrow>
     ProcessResourceInUseInfo list" where
  "applyProcessResourcesInUseEvent collate currentRows (ProcessResourcesInUseSnapshot listed) =
     sortedProcessResourcesInUse collate listed"
| "applyProcessResourcesInUseEvent collate currentRows ProcessResourcesInUseExited = currentRows"
| "applyProcessResourcesInUseEvent collate currentRows (ProcessResourcesInUsePatch removes upserts) =
     sortedProcessResourcesInUse collate (map_patch priui_resourceId currentRows removes upserts)"

fun applyProcessSocketsInUseEvent ::
    "(jstring \<Rightarrow> jstring \<Rightarrow> int) \<Rightarrow> ProcessSocketInUseInfo list \<Rightarrow> ProcessSocketsInUseTableEvent \<Rightarrow>
     ProcessSocketInUseInfo list" where
  "applyProcessSocketsInUseEvent collate currentRows (ProcessSocketsInUseSnapshot listed) =
     sortedProcessSocketsInUse collate listed"
| "applyProcessSocketsInUseEvent collate currentRows ProcessSocketsInUseExited = currentRows"
| "applyProcessSocketsInUseEvent collate currentRows (ProcessSocketsInUsePatch removes upserts) =
     sortedProcessSocketsInUse collate (map_patch psiui_socketId currentRows removes upserts)"

fun applyProcessModulesEvent ::
    "(jstring \<Rightarrow> jstring \<Rightarrow> int) \<Rightarrow> ProcessModuleInfo list \<Rightarrow> ProcessModulesTableEvent \<Rightarrow>
     ProcessModuleInfo list" where
  "applyProcessModulesEvent collate currentRows (ProcessModulesSnapshot listed) =
     sortedProcessModules collate listed"
| "applyProcessModulesEvent collate currentRows ProcessModulesExited = currentRows"
| "applyProcessModulesEvent collate currentRows (ProcessModulesPatch removes upserts) =
     sortedProcessModules collate (map_patch pmi_moduleId currentRows removes upserts)"

text \<open>\<open>applyProcessDetailEvent\<close> on the view: a new detail object replaces the state, without a message.\<close>

definition set_detail :: "ProcessDetail \<Rightarrow> ProcessDetail detail_view \<Rightarrow> ProcessDetail detail_view" where
  "set_detail detail v =
     v\<lparr>dv_detail := Some detail, dv_message := None,
       dv_phase := (if dv_phase v = ViewExited then ViewExited else ViewReady)\<rparr>"

fun applyProcessDetailEvent :: "ProcessDetailEvent \<Rightarrow> ProcessDetail detail_view \<Rightarrow> ProcessDetail detail_view" where
  "applyProcessDetailEvent (ProcessDetailSnapshot detail) v =
     v\<lparr>dv_detail := Some detail, dv_message := None, dv_phase := ViewReady\<rparr>"
| "applyProcessDetailEvent (ProcessDetailInfoChanged info) v =
     (case dv_detail v of None \<Rightarrow> v | Some detail \<Rightarrow> set_detail (detail\<lparr>pd_info := info\<rparr>) v)"
| "applyProcessDetailEvent (ProcessDetailMetadataChanged metadata) v =
     (case dv_detail v of None \<Rightarrow> v | Some detail \<Rightarrow> set_detail (detail\<lparr>pd_metadata := metadata\<rparr>) v)"
| "applyProcessDetailEvent (ProcessDetailUsageChanged usage) v =
     (case dv_detail v of None \<Rightarrow> v | Some detail \<Rightarrow> set_detail (detail\<lparr>pd_usage := usage\<rparr>) v)"
| "applyProcessDetailEvent ProcessDetailExited v = v\<lparr>dv_phase := ViewExited\<rparr>"

section \<open>Effects\<close>

definition processes_effect :: "string \<Rightarrow> bool \<Rightarrow> ProcessInfo table_view \<Rightarrow> ProcessInfo table_view" where
  "processes_effect = table_effect ''This daemon does not support process subscriptions.''"

definition processes_deliver ::
    "nat \<Rightarrow> ProcessesTableEvent stream_item \<Rightarrow> ProcessInfo table_view \<Rightarrow> ProcessInfo table_view" where
  "processes_deliver = table_deliver applyProcessesEvent (\<lambda>_. False)"

definition children_effect :: "string \<Rightarrow> bool \<Rightarrow> ProcessInfo table_view \<Rightarrow> ProcessInfo table_view" where
  "children_effect = table_effect ''This daemon does not support process subscriptions.''"

definition children_deliver ::
    "nat \<Rightarrow> ProcessesTableEvent stream_item \<Rightarrow> ProcessInfo table_view \<Rightarrow> ProcessInfo table_view" where
  "children_deliver = table_deliver applyProcessesEvent (\<lambda>_. False)"

definition detail_view_effect ::
    "string \<Rightarrow> bool \<Rightarrow> ProcessDetail detail_view \<Rightarrow> ProcessDetail detail_view" where
  "detail_view_effect = detail_effect ''This daemon does not support process detail subscriptions.''"

text \<open>The effect handles \<open>exited\<close> itself, which sets the phase as the row function would.\<close>

definition detail_view_deliver ::
    "nat \<Rightarrow> ProcessDetailEvent stream_item \<Rightarrow> ProcessDetail detail_view \<Rightarrow> ProcessDetail detail_view" where
  "detail_view_deliver = detail_deliver applyProcessDetailEvent (\<lambda>ev. ev = ProcessDetailExited)"

definition resources_effect ::
    "string \<Rightarrow> bool \<Rightarrow> ProcessResourceInUseInfo table_view \<Rightarrow> ProcessResourceInUseInfo table_view" where
  "resources_effect = table_effect ''This daemon does not support process resource usage subscriptions.''"

definition resources_deliver ::
    "(jstring \<Rightarrow> jstring \<Rightarrow> int) \<Rightarrow> nat \<Rightarrow> ProcessResourcesInUseTableEvent stream_item \<Rightarrow>
     ProcessResourceInUseInfo table_view \<Rightarrow> ProcessResourceInUseInfo table_view" where
  "resources_deliver collate =
     table_deliver (applyProcessResourcesInUseEvent collate) (\<lambda>ev. ev = ProcessResourcesInUseExited)"

text \<open>The second effect of the resources view: a selected row that is gone is not selected any more.\<close>

definition keepSelectedResource :: "ProcessResourceInUseInfo list \<Rightarrow> jstring option \<Rightarrow> jstring option" where
  "keepSelectedResource listed selectedResourceId =
     (case selectedResourceId of
        None \<Rightarrow> None
      | Some i \<Rightarrow> if \<exists>r \<in> set listed. priui_resourceId r = i then selectedResourceId else None)"

definition sockets_effect ::
    "string \<Rightarrow> bool \<Rightarrow> ProcessSocketInUseInfo table_view \<Rightarrow> ProcessSocketInUseInfo table_view" where
  "sockets_effect = table_effect ''This daemon does not support process socket usage subscriptions.''"

definition sockets_deliver ::
    "(jstring \<Rightarrow> jstring \<Rightarrow> int) \<Rightarrow> nat \<Rightarrow> ProcessSocketsInUseTableEvent stream_item \<Rightarrow>
     ProcessSocketInUseInfo table_view \<Rightarrow> ProcessSocketInUseInfo table_view" where
  "sockets_deliver collate =
     table_deliver (applyProcessSocketsInUseEvent collate) (\<lambda>ev. ev = ProcessSocketsInUseExited)"

definition modules_effect ::
    "string \<Rightarrow> bool \<Rightarrow> ProcessModuleInfo table_view \<Rightarrow> ProcessModuleInfo table_view" where
  "modules_effect = table_effect ''This daemon does not support process module subscriptions.''"

definition modules_deliver ::
    "(jstring \<Rightarrow> jstring \<Rightarrow> int) \<Rightarrow> nat \<Rightarrow> ProcessModulesTableEvent stream_item \<Rightarrow>
     ProcessModuleInfo table_view \<Rightarrow> ProcessModuleInfo table_view" where
  "modules_deliver collate =
     table_deliver (applyProcessModulesEvent collate) (\<lambda>ev. ev = ProcessModulesExited)"

section \<open>What the views show\<close>

definition table_footer :: "'row table_view \<Rightarrow> string \<Rightarrow> string \<Rightarrow> jstring" where
  "table_footer v one many =
     (if tv_phase v = ViewExited then js ''Process exited'' else counted (length (tv_rows v)) one many)"

definition named :: "jstring \<Rightarrow> jstring" where
  "named name = (if name = [] then js ''(unnamed)'' else name)"

definition processCells :: "ProcessInfo \<Rightarrow> jstring list" where
  "processCells p = [js (show_int (process_pid p)), number_or_blank (process_ppid p), named (process_name p),
     js (processStatusLabel (process_status p))]"

definition ProcessListView :: "string \<Rightarrow> ProcessInfo table_view \<Rightarrow> view_content" where
  "ProcessListView daemonInfoPhase =
     table_content ''Loading processes'' ''Processes unavailable'' ''Failed to load processes'' daemonInfoPhase
       (\<lambda>v. ContentTable [''PID'', ''PPID'', ''Name'', ''Status'']
          (rows_or ''No processes'' (map processCells (tv_rows v)))
          (counted (length (tv_rows v)) ''process'' ''processes''))"

definition treeCells :: "ProcessTreeNode \<Rightarrow> jstring list" where
  "treeCells n = (let p = node_process n in
     [named (process_name p), js (show_int (process_pid p)), number_or_blank (process_ppid p),
      js (processStatusLabel (process_status p))])"

definition ProcessChildrenView ::
    "(jstring \<Rightarrow> jstring \<Rightarrow> int) \<Rightarrow> int \<Rightarrow> string \<Rightarrow> ProcessInfo table_view \<Rightarrow> view_content" where
  "ProcessChildrenView collate pid daemonInfoPhase =
     table_content ''Loading child processes'' ''Process tree unavailable'' ''Failed to load process tree''
       daemonInfoPhase
       (\<lambda>v. let tree = buildProcessTreeNodes collate (tv_rows v) pid in
          ContentTable [''Name'', ''PID'', ''PPID'', ''Status'']
            (rows_or ''No child processes'' (map treeCells tree))
            (counted (length tree) ''process'' ''processes''))"

definition resourceCells :: "ProcessResourceInUseInfo \<Rightarrow> jstring list" where
  "resourceCells r = [getOr (priui_name r) (priui_resourceId r), js (processResourceInUseKindLabel (priui_kind r)),
     js (processResourceInUseAccessLabel r), priui_resourceId r]"

definition ProcessResourcesInUseView :: "string \<Rightarrow> ProcessResourceInUseInfo table_view \<Rightarrow> view_content" where
  "ProcessResourcesInUseView daemonInfoPhase =
     table_content ''Loading resources in use'' ''Resources in use unavailable''
       ''Failed to load resources in use'' daemonInfoPhase
       (\<lambda>v. ContentTable [''Name'', ''Kind'', ''Access'', ''ID'']
          (rows_or ''No resources in use'' (map resourceCells (tv_rows v)))
          (table_footer v ''resource'' ''resources''))"

definition selectedResource :: "ProcessResourceInUseInfo table_view \<Rightarrow> jstring option \<Rightarrow> ProcessResourceInUseInfo option" where
  "selectedResource v selectedResourceId =
     (case selectedResourceId of
        None \<Rightarrow> None
      | Some i \<Rightarrow> List.find (\<lambda>r. priui_resourceId r = i) (tv_rows v))"

text \<open>A click selects a row, or clears the selection if the row was selected.\<close>

definition clickResource :: "jstring \<Rightarrow> jstring option \<Rightarrow> jstring option" where
  "clickResource resourceId current = (if current = Some resourceId then None else Some resourceId)"

definition ProcessResourceInUseDetail :: "ProcessResourceInUseInfo \<Rightarrow> (string \<times> jstring) list" where
  "ProcessResourceInUseDetail r =
     [(''Name'', getOr (priui_name r) (js ''Unknown'')),
      (''Kind'', js (processResourceInUseKindLabel (priui_kind r))),
      (''Access'', js (let label = processResourceInUseAccessLabel r in if label = [] then ''Unknown'' else label)),
      (''State'', js (if priui_deleted r = Some True then ''Deleted'' else ''Active'')),
      (''Resource ID'', priui_resourceId r)]"

definition socketCells :: "ProcessSocketInUseInfo \<Rightarrow> jstring list" where
  "socketCells s = [js (processSocketInUseKindLabel (psiui_kind s)), socketEndpointLabel (psiui_localEndpoint s),
     socketEndpointLabel (psiui_remoteEndpoint s), js (socketListeningLabel (psiui_listening s))]"

definition ProcessSocketsInUseView :: "int \<Rightarrow> string \<Rightarrow> ProcessSocketInUseInfo table_view \<Rightarrow> view_content" where
  "ProcessSocketsInUseView pid daemonInfoPhase =
     table_content ''Loading sockets in use'' ''Sockets in use unavailable''
       ''Failed to load sockets in use'' daemonInfoPhase
       (\<lambda>v. ContentTable [''Kind'', ''Local'', ''Remote'', ''Listening'']
          (if tv_rows v = [] then
             [[js (''No sockets in use by PID '' @ show_int pid),
               js ''Multi-process apps may keep sockets in a separate network service process.'']]
           else map socketCells (tv_rows v))
          (table_footer v ''socket'' ''sockets''))"

definition moduleCells :: "ProcessModuleInfo \<Rightarrow> jstring list" where
  "moduleCells m = [pmi_name m, js (processModuleKindLabel (pmi_kind m)), getOr (pmi_baseAddress m) [],
     (case pmi_sizeBytes m of None \<Rightarrow> [] | Some n \<Rightarrow> js (formatBytes n)), getOr (pmi_path m) []]"

definition ProcessModulesView :: "string \<Rightarrow> ProcessModuleInfo table_view \<Rightarrow> view_content" where
  "ProcessModulesView daemonInfoPhase =
     table_content ''Loading modules'' ''Modules unavailable'' ''Failed to load modules'' daemonInfoPhase
       (\<lambda>v. ContentTable [''Name'', ''Kind'', ''Base address'', ''Size'', ''Path'']
          (rows_or ''No modules'' (map moduleCells (tv_rows v)))
          (table_footer v ''module'' ''modules''))"

definition moduleCanOpen :: "ProcessModuleInfo \<Rightarrow> bool" where
  "moduleCanOpen m \<longleftrightarrow> (case pmi_path m of None \<Rightarrow> False | Some p \<Rightarrow> 0 < length p)"

section \<open>The detail page\<close>

text \<open>\<open>unix_time\<close> is \<open>formatUnixTimestamp\<close>, \<open>number_text\<close> is \<open>String\<close> on doubles. A property has a label,
  a value and perhaps a note.\<close>

definition ProcessResourceUsageTable ::
    "(64 word \<Rightarrow> string) \<Rightarrow> ProcessResourceUsage \<Rightarrow> (string \<times> string \<times> string option) list" where
  "ProcessResourceUsageTable number_text u = (let io = pru_ioUsage u in
     [(''CPU'', formatCpuUsagePercent number_text (pru_cpuUsagePercent u),
        Some (''Accumulated CPU time '' @ formatDurationMs (pru_accumulatedCpuTimeMs u))),
      (''Memory'', formatBytes (pru_memoryBytes u),
        Some (''Virtual '' @ formatBytes (pru_virtualMemoryBytes u))),
      (''IO read'', formatBytes (piu_readBytes io) @ ''/s'', Some (''Total '' @ formatBytes (piu_totalReadBytes io))),
      (''IO written'', formatBytes (piu_writtenBytes io) @ ''/s'',
        Some (''Total '' @ formatBytes (piu_totalWrittenBytes io)))])"

definition ProcessDetailSummary ::
    "(int \<Rightarrow> jstring) \<Rightarrow> int \<Rightarrow> ProcessDetail \<Rightarrow> (string \<times> jstring \<times> jstring option) list" where
  "ProcessDetailSummary unix_time nowMs detail =
     (let info = pd_info detail; metadata = pd_metadata detail in
     [(''Name'', named (process_name info), None),
      (''PID'', js (show_int (process_pid info)), None),
      (''PPID'', js (case process_ppid info of None \<Rightarrow> ''None'' | Some p \<Rightarrow> show_int p), None),
      (''Status'', js (processStatusLabel (process_status info)), None),
      (''Started'', unix_time (pm_startTimeUnix metadata),
        Some (js (''Uptime '' @ formatProcessUptime (pm_startTimeUnix metadata) nowMs))),
      (''Command'', if pm_command metadata = [] then js ''Unknown'' else join (js '' '') (pm_command metadata), None),
      (''Executable'', getOr (pm_executablePath metadata) (js ''Unknown''), None),
      (''CWD'', getOr (pm_cwd metadata) (js ''Unknown''), None)])"

datatype detail_content =
    DetailLoading
  | DetailMessage string "jstring option"
  | DetailMissing
  | DetailShown ProcessDetail jstring

definition ProcessDetailView :: "string \<Rightarrow> ProcessDetail detail_view \<Rightarrow> detail_content" where
  "ProcessDetailView daemonInfoPhase v =
     (if dv_phase v = ViewLoading \<or> daemonInfoPhase \<noteq> ''ready'' then DetailLoading
      else if dv_phase v = ViewUnsupported \<or> dv_phase v = ViewError then
        DetailMessage (if dv_phase v = ViewUnsupported then ''Process detail unavailable'' else ''Failed to load process'')
          (if truthy (dv_message v) then dv_message v else None)
      else case dv_detail v of
        None \<Rightarrow> DetailMissing
      | Some detail \<Rightarrow> DetailShown detail
          (if dv_phase v = ViewExited then js ''Process exited''
           else js (''PID '' @ show_int (process_pid (pd_info detail)))))"

section \<open>The tool\<close>

datatype process_screen =
    NoMachineSelected
  | PairingRequired
  | ProcessListPage bool
  | ProcessDetailPage int bool
  | ProcessChildrenPage int bool
  | ProcessResourcesPage int bool
  | ProcessSocketsPage int bool
  | ProcessModulesPage int bool

text \<open>Each page comes with whether the daemon offers its procedure.\<close>

definition ProcessesTool ::
    "Machine option \<Rightarrow> DaemonInfoState \<Rightarrow> WorkbenchTab option \<Rightarrow> process_screen" where
  "ProcessesTool machine info tab =
     (let selectedPid = Option.bind tab tab_processDetailPid in
      if machine = None then NoMachineSelected
      else if \<not> isPaired machine then PairingRequired
      else case selectedPid of
        None \<Rightarrow> ProcessListPage (procSupported info SubscribeProcesses)
      | Some pid \<Rightarrow>
          (case getOr (Option.bind tab tab_processPage) PageDetail of
             PageHeldResources \<Rightarrow> ProcessResourcesPage pid (procSupported info SubscribeProcessResourcesInUse)
           | PageHeldSockets \<Rightarrow> ProcessSocketsPage pid (procSupported info SubscribeProcessSocketsInUse)
           | PageModules \<Rightarrow> ProcessModulesPage pid (procSupported info SubscribeProcessModules)
           | PageChildren \<Rightarrow> ProcessChildrenPage pid (procSupported info SubscribeProcesses)
           | PageDetail \<Rightarrow> ProcessDetailPage pid (procSupported info SubscribeProcessDetail)))"

text \<open>Breadcrumb items: the label, whether a click does something, and whether it is the last one
  (\<open>muted\<close>).\<close>

definition ProcessesBreadcrumb :: "WorkbenchProcessPage option \<Rightarrow> int option \<Rightarrow> (string \<times> bool \<times> bool) list" where
  "ProcessesBreadcrumb selectedPage selectedPid =
     (let items = (''Processes'', selectedPid \<noteq> None) #
        (case selectedPid of
           None \<Rightarrow> [(''Overview'', False)]
         | Some pid \<Rightarrow>
             (''PID '' @ show_int pid,
               selectedPage \<in> {Some PageChildren, Some PageHeldResources, Some PageHeldSockets, Some PageModules}) #
             (case selectedPage of
                Some PageChildren \<Rightarrow> [(''Process tree'', False)]
              | Some PageHeldResources \<Rightarrow> [(''Resources in use'', False)]
              | Some PageHeldSockets \<Rightarrow> [(''Sockets in use'', False)]
              | Some PageModules \<Rightarrow> [(''Modules'', False)]
              | _ \<Rightarrow> []))
      in map (\<lambda>(i, label, clickable). (label, clickable, Suc i = length items)) (List.enumerate 0 items))"

section \<open>Opening a path in the files tool\<close>

definition isPathProcessResource :: "ProcessResourceInUseInfo \<Rightarrow> bool" where
  "isPathProcessResource r \<longleftrightarrow>
     \<not> (\<not> truthy (priui_name r) \<or> priui_deleted r = Some True) \<and>
     (priui_kind r = ResourceFile \<or> priui_kind r = ResourceDirectory)"

definition processPathFileEntry :: "jstring \<Rightarrow> FsEntry" where
  "processPathFileEntry path = \<lparr>fs_name = pathBaseName path, fs_path = path, fs_kind = FsFile, fs_size = None,
     fs_modifiedAtMs = None, fs_readonly = False\<rparr>"

definition writeProcessResourceFilesNavigationState ::
    "(ExplorerLocation list \<Rightarrow> ExplorerLocation \<Rightarrow> jstring) \<Rightarrow> jstring option \<Rightarrow> jstring \<Rightarrow>
     ProcessResourceInUseInfo \<Rightarrow> storage option \<Rightarrow> storage option" where
  "writeProcessResourceFilesNavigationState stringify machineId tabId r st =
     (if \<not> truthy (priui_name r) then st
      else let name = the (priui_name r) in
        if priui_kind r = ResourceDirectory then
          writeExplorerDirectoryNavigationState stringify machineId tabId name st
        else if priui_kind r \<noteq> ResourceFile then st
        else writeExplorerFileNavigationState stringify machineId tabId (parentPath name)
          (processPathFileEntry name) st)"

definition writeProcessModuleFilesNavigationState ::
    "(ExplorerLocation list \<Rightarrow> ExplorerLocation \<Rightarrow> jstring) \<Rightarrow> jstring option \<Rightarrow> jstring \<Rightarrow>
     ProcessModuleInfo \<Rightarrow> storage option \<Rightarrow> storage option" where
  "writeProcessModuleFilesNavigationState stringify machineId tabId m st =
     (if \<not> truthy (pmi_path m) then st
      else let path = the (pmi_path m) in
        writeExplorerFileNavigationState stringify machineId tabId (parentPath path)
          (processPathFileEntry path) st)"

section \<open>Interfaces\<close>

fun processes_change :: "ProcessesTableEvent \<Rightarrow> (int, ProcessInfo) change" where
  "processes_change (ProcessesSnapshot listed) = Snapshot listed"
| "processes_change (ProcessesPatch removes upserts) = Patch removes upserts"

fun resources_change :: "ProcessResourcesInUseTableEvent \<Rightarrow> (jstring, ProcessResourceInUseInfo) change" where
  "resources_change (ProcessResourcesInUseSnapshot listed) = Snapshot listed"
| "resources_change (ProcessResourcesInUsePatch removes upserts) = Patch removes upserts"
| "resources_change ProcessResourcesInUseExited = Gone"

fun sockets_change :: "ProcessSocketsInUseTableEvent \<Rightarrow> (jstring, ProcessSocketInUseInfo) change" where
  "sockets_change (ProcessSocketsInUseSnapshot listed) = Snapshot listed"
| "sockets_change (ProcessSocketsInUsePatch removes upserts) = Patch removes upserts"
| "sockets_change ProcessSocketsInUseExited = Gone"

fun modules_change :: "ProcessModulesTableEvent \<Rightarrow> (jstring, ProcessModuleInfo) change" where
  "modules_change (ProcessModulesSnapshot listed) = Snapshot listed"
| "modules_change (ProcessModulesPatch removes upserts) = Patch removes upserts"
| "modules_change ProcessModulesExited = Gone"

interpretation processes_table: table_events process_pid compareProcesses processes_change applyProcessesEvent
  "\<lambda>_. False"
proof
  fix ev current
  show "processes_change ev = Snapshot listed \<Longrightarrow>
      applyProcessesEvent current ev = sort_by compareProcesses listed" for listed
    by (cases ev) (simp_all add: sortedProcesses_def)
  show "processes_change ev = Patch removes upserts \<Longrightarrow> applyProcessesEvent current ev =
      sort_by compareProcesses (map_patch process_pid current removes upserts)" for removes upserts
    by (cases ev) (simp_all add: sortedProcesses_def)
  show "processes_change ev = Gone \<Longrightarrow> applyProcessesEvent current ev = current" "False = (processes_change ev = Gone)"
    by (cases ev; simp)+
qed

interpretation resources_table: table_events priui_resourceId "compareResources collate" resources_change
  "applyProcessResourcesInUseEvent collate" "\<lambda>ev. ev = ProcessResourcesInUseExited"
proof
  fix ev current
  show "resources_change ev = Snapshot listed \<Longrightarrow>
      applyProcessResourcesInUseEvent collate current ev = sort_by (compareResources collate) listed" for listed
    by (cases ev) (simp_all add: sortedProcessResourcesInUse_def)
  show "resources_change ev = Patch removes upserts \<Longrightarrow> applyProcessResourcesInUseEvent collate current ev =
      sort_by (compareResources collate) (map_patch priui_resourceId current removes upserts)" for removes upserts
    by (cases ev) (simp_all add: sortedProcessResourcesInUse_def)
  show "resources_change ev = Gone \<Longrightarrow> applyProcessResourcesInUseEvent collate current ev = current"
    "(ev = ProcessResourcesInUseExited) = (resources_change ev = Gone)"
    by (cases ev; simp)+
qed

interpretation sockets_table: table_events psiui_socketId "compareSockets collate" sockets_change
  "applyProcessSocketsInUseEvent collate" "\<lambda>ev. ev = ProcessSocketsInUseExited"
proof
  fix ev current
  show "sockets_change ev = Snapshot listed \<Longrightarrow>
      applyProcessSocketsInUseEvent collate current ev = sort_by (compareSockets collate) listed" for listed
    by (cases ev) (simp_all add: sortedProcessSocketsInUse_def)
  show "sockets_change ev = Patch removes upserts \<Longrightarrow> applyProcessSocketsInUseEvent collate current ev =
      sort_by (compareSockets collate) (map_patch psiui_socketId current removes upserts)" for removes upserts
    by (cases ev) (simp_all add: sortedProcessSocketsInUse_def)
  show "sockets_change ev = Gone \<Longrightarrow> applyProcessSocketsInUseEvent collate current ev = current"
    "(ev = ProcessSocketsInUseExited) = (sockets_change ev = Gone)"
    by (cases ev; simp)+
qed

interpretation modules_table: table_events pmi_moduleId "compareModules collate" modules_change
  "applyProcessModulesEvent collate" "\<lambda>ev. ev = ProcessModulesExited"
proof
  fix ev current
  show "modules_change ev = Snapshot listed \<Longrightarrow>
      applyProcessModulesEvent collate current ev = sort_by (compareModules collate) listed" for listed
    by (cases ev) (simp_all add: sortedProcessModules_def)
  show "modules_change ev = Patch removes upserts \<Longrightarrow> applyProcessModulesEvent collate current ev =
      sort_by (compareModules collate) (map_patch pmi_moduleId current removes upserts)" for removes upserts
    by (cases ev) (simp_all add: sortedProcessModules_def)
  show "modules_change ev = Gone \<Longrightarrow> applyProcessModulesEvent collate current ev = current"
    "(ev = ProcessModulesExited) = (modules_change ev = Gone)"
    by (cases ev; simp)+
qed

section \<open>The orders\<close>

lemma comparison_processes: "comparison compareProcesses"
  unfolding compareProcesses_def by (rule comparison_minus)

lemma comparison_resources: "comparison collate \<Longrightarrow> comparison (compareResources collate)"
  unfolding compareResources_def
  by (rule comparison_num_or [OF comparison_num_or
      [OF comparison_on [of collate "\<lambda>r. js (processResourceInUseKindLabel (priui_kind r))"]
        comparison_on [of collate "\<lambda>r. getOr (priui_name r) []"]]
      comparison_on [of collate priui_resourceId]])

lemma comparison_modules: "comparison collate \<Longrightarrow> comparison (compareModules collate)"
  unfolding compareModules_def
  by (rule comparison_num_or [OF comparison_num_or [OF comparison_num_or
      [OF comparison_minus [of "\<lambda>m. processModuleKindSortKey (pmi_kind m)"] comparison_on [of collate pmi_name]]
        comparison_on [of collate "\<lambda>m. getOr (pmi_path m) []"]]
      comparison_on [of collate pmi_moduleId]])

text \<open>Rows that compare equal are the same row when the ids are compared by \<open>collate\<close> faithfully.\<close>

lemma sorted_processes_strict:
  assumes "distinct (map process_pid xs)" "sorted_wrt (\<lambda>x y. compareProcesses x y \<le> 0) xs"
  shows "sorted_wrt (<) (map process_pid xs)"
proof -
  have "sorted (map process_pid xs)"
    using assms(2) by (simp add: sorted_wrt_map compareProcesses_def)
  with assms(1) show ?thesis by (simp add: strict_sorted_iff)
qed

section \<open>Properties\<close>

lemma processes_shown:
  fixes listed patches v n
  assumes "distinct (map process_pid listed)" "tv_live v = Some n"
  defines "w \<equiv> foldl (\<lambda>v ev. table_deliver applyProcessesEvent (\<lambda>_. False) n (Event ev) v) v
    (ProcessesSnapshot listed # map (\<lambda>(removes, upserts). ProcessesPatch removes upserts) patches)"
  shows "tv_phase w = ViewReady \<and> sorted_wrt (<) (map process_pid (tv_rows w)) \<and>
    table_of process_pid (tv_rows w) =
      foldl (\<lambda>t (removes, upserts). foldl (\<lambda>t r. t(process_pid r \<mapsto> r)) (t |` (- set removes)) upserts)
        (table_of process_pid listed) patches"
proof -
  let ?evs = "map (\<lambda>(removes, upserts). ProcessesPatch removes upserts) patches"
  have fold: "foldl (apply_change process_pid) t (map processes_change ?evs) =
      foldl (\<lambda>t (removes, upserts). foldl (\<lambda>t r. t(process_pid r \<mapsto> r)) (t |` (- set removes)) upserts) t patches" for t
    by (induction patches arbitrary: t) auto
  have "\<forall>ev \<in> set (ProcessesSnapshot listed # ?evs).
      distinct_change process_pid (processes_change ev) \<and> processes_change ev \<noteq> Gone"
    using assms(1) by auto
  note shown = processes_table.snapshot_then_patches [OF assms(2) _ this comparison_processes, of listed]
  from shown show ?thesis unfolding w_def fold Let_def by (auto intro: sorted_processes_strict)
qed

text \<open>Rows in the order of their keys are determined by the table they list.\<close>

lemma sorted_rows_determined:
  fixes key :: "'row \<Rightarrow> int"
  assumes "sorted_wrt (<) (map key xs)" "sorted_wrt (<) (map key ys)" "table_of key xs = table_of key ys"
  shows "xs = ys"
proof -
  have d: "distinct (map key xs)" "distinct (map key ys)" using assms(1,2) by (simp_all add: strict_sorted_iff)
  have "set xs = set ys"
    using table_of_Some_iff [OF d(1)] table_of_Some_iff [OF d(2)] assms(3) by (metis subsetI subset_antisym)
  moreover from this have "map key xs = map key ys"
    using assms(1,2) by (intro sorted_distinct_set_unique) (simp_all add: strict_sorted_iff)
  ultimately show ?thesis using d(1) by (simp add: distinct_map inj_on_map_eq_map)
qed

text \<open>(C22) The process list and the process tree show the daemon's table. In either view a stream
  delivers a snapshot, which lists each process once, and then any patches (upserts and removals of the
  same process included, in whatever order). Then the rows of the list view are each process exactly
  once, by increasing process id, and they are the table the changes describe; the list view shows a
  line of cells for each of them, in this order. The tree view has the same rows, and shows
  a line of cells for each node of the tree that is built from them.\<close>

theorem process_list_shows_table:
  fixes listed patches v0 w0
  assumes "distinct (map process_pid listed)"
  defines "events \<equiv> ProcessesSnapshot listed # map (\<lambda>(removes, upserts). ProcessesPatch removes upserts) patches"
  defines "v \<equiv> foldl (\<lambda>v ev. processes_deliver (tv_started v0) (Event ev) v) (processes_effect ''ready'' True v0) events"
  defines "w \<equiv> foldl (\<lambda>v ev. children_deliver (tv_started w0) (Event ev) v) (children_effect ''ready'' True w0) events"
  shows "tv_phase v = ViewReady \<and> sorted_wrt (<) (map process_pid (tv_rows v)) \<and>
    table_of process_pid (tv_rows v) =
      foldl (\<lambda>t (removes, upserts). foldl (\<lambda>t r. t(process_pid r \<mapsto> r)) (t |` (- set removes)) upserts)
        (table_of process_pid listed) patches \<and>
    ProcessListView ''ready'' v = ContentTable [''PID'', ''PPID'', ''Name'', ''Status'']
      (rows_or ''No processes'' (map processCells (tv_rows v)))
      (counted (length (tv_rows v)) ''process'' ''processes'') \<and>
    tv_phase w = ViewReady \<and> tv_rows w = tv_rows v \<and>
    ProcessChildrenView collate pid ''ready'' w = ContentTable [''Name'', ''PID'', ''PPID'', ''Status'']
      (rows_or ''No child processes'' (map treeCells (buildProcessTreeNodes collate (tv_rows v) pid)))
      (counted (length (buildProcessTreeNodes collate (tv_rows v) pid)) ''process'' ''processes'')"
proof -
  have live: "tv_live (table_effect unsupported ''ready'' True x) = Some (tv_started x)"
    for unsupported and x :: "ProcessInfo table_view" by (simp add: table_effect_def)
  note shown = processes_shown [OF assms(1) live, of _ _ patches, folded events_def]
  have v: "tv_phase v = ViewReady \<and> sorted_wrt (<) (map process_pid (tv_rows v)) \<and>
    table_of process_pid (tv_rows v) =
      foldl (\<lambda>t (removes, upserts). foldl (\<lambda>t r. t(process_pid r \<mapsto> r)) (t |` (- set removes)) upserts)
        (table_of process_pid listed) patches"
    unfolding v_def processes_deliver_def processes_effect_def by (rule shown)
  have w: "tv_phase w = ViewReady \<and> sorted_wrt (<) (map process_pid (tv_rows w)) \<and>
    table_of process_pid (tv_rows w) =
      foldl (\<lambda>t (removes, upserts). foldl (\<lambda>t r. t(process_pid r \<mapsto> r)) (t |` (- set removes)) upserts)
        (table_of process_pid listed) patches"
    unfolding w_def children_deliver_def children_effect_def by (rule shown)
  have rows: "tv_rows w = tv_rows v" using v w by (auto intro: sorted_rows_determined)
  have "ProcessListView ''ready'' v = ContentTable [''PID'', ''PPID'', ''Name'', ''Status'']
      (rows_or ''No processes'' (map processCells (tv_rows v)))
      (counted (length (tv_rows v)) ''process'' ''processes'')"
    using v by (simp add: ProcessListView_def table_content_def)
  moreover have "ProcessChildrenView collate pid ''ready'' w = ContentTable [''Name'', ''PID'', ''PPID'', ''Status'']
      (rows_or ''No child processes'' (map treeCells (buildProcessTreeNodes collate (tv_rows v) pid)))
      (counted (length (buildProcessTreeNodes collate (tv_rows v) pid)) ''process'' ''processes'')"
    using w rows by (simp add: ProcessChildrenView_def table_content_def Let_def)
  ultimately show ?thesis using v w rows by blast
qed

theorem process_list_shows_table_witness:
  "let v = processes_effect ''ready'' True initial_table;
      v' = foldl (\<lambda>v ev. processes_deliver 0 (Event ev) v) v
        [ProcessesSnapshot [own_parent], ProcessesPatch [0] [own_parent\<lparr>process_pid := 7\<rparr>]] in
    tv_phase v' = ViewReady \<and> map process_pid (tv_rows v') = [7]"
proof -
  have "distinct (map process_pid [own_parent])" by simp
  from process_list_shows_table [OF this, of initial_table "[([0], [own_parent\<lparr>process_pid := 7\<rparr>])]"]
  have "tv_phase (foldl (\<lambda>v ev. processes_deliver 0 (Event ev) v) (processes_effect ''ready'' True initial_table)
      [ProcessesSnapshot [own_parent], ProcessesPatch [0] [own_parent\<lparr>process_pid := 7\<rparr>]]) = ViewReady"
    by (simp add: Let_def initial_table_def)
  moreover have "map process_pid (tv_rows (foldl (\<lambda>v ev. processes_deliver 0 (Event ev) v)
      (processes_effect ''ready'' True initial_table)
      [ProcessesSnapshot [own_parent], ProcessesPatch [0] [own_parent\<lparr>process_pid := 7\<rparr>]])) = [7]"
    by (simp add: processes_effect_def processes_deliver_def table_effect_def table_deliver_def initial_table_def
        sortedProcesses_def sort_by_def map_patch_def new_map_def map_delete_def own_parent_def Let_def)
  ultimately show ?thesis by (simp add: Let_def)
qed

text \<open>A view that is opened again, for another machine or process, shows nothing of the previous
  one: from the restart on, whatever the streams opened before still deliver, the view stays on its
  loading text.\<close>

theorem restarted_view_ignores_old_streams:
  assumes "\<forall>(g, item) \<in> set late. g < tv_started v"
  shows "ProcessResourcesInUseView ''ready''
      (foldl (\<lambda>v (g, item). resources_deliver collate g item v) (resources_effect ''ready'' True v) late)
    = ContentLoading ''Loading resources in use''"
proof -
  let ?v = "resources_effect ''ready'' True v"
  have live: "tv_live ?v = Some (tv_started v)" "tv_phase ?v = ViewLoading"
    by (simp_all add: resources_effect_def table_effect_def)
  have "foldl (\<lambda>v (g, item). resources_deliver collate g item v) ?v late = ?v"
    using assms
  proof (induction late)
    case (Cons e late)
    then show ?case using live
      by (cases e) (simp add: resources_deliver_def table_deliver_def)
  qed simp
  with live show ?thesis by (simp add: ProcessResourcesInUseView_def table_content_def)
qed

theorem restarted_view_ignores_old_streams_witness:
  "ProcessResourcesInUseView ''ready''
      (foldl (\<lambda>v (g, item). resources_deliver (\<lambda>_ _. 0) g item v)
        (resources_effect ''ready'' True (resources_effect ''ready'' True initial_table))
        [(0, Event ProcessResourcesInUseExited), (0, Failure (Error []))])
    = ContentLoading ''Loading resources in use''"
  by (rule restarted_view_ignores_old_streams)
    (simp add: resources_effect_def table_effect_def initial_table_def)

end
