(* ===== verification/WindowViews.thy ===== *)
theory WindowViews
  imports ViewStreams RpcWindows Workbench
begin

text \<open>
  \<open>web/src/view/workbench/tool/windows/index.tsx\<close>: the list of the windows of a machine and the detail
  of one window, as instances of \<open>ViewStreams\<close>, and what they show. \<open>collate\<close> is \<open>localeCompare\<close>.
\<close>

section \<open>Labels\<close>

definition windowTitle :: "WindowInfo \<Rightarrow> jstring" where
  "windowTitle w = (if truthy (wi_title w) then the (wi_title w) else wi_windowId w)"

definition booleanLabel :: "bool option \<Rightarrow> string" where
  "booleanLabel v = (case v of None \<Rightarrow> ''Unknown'' | Some b \<Rightarrow> if b then ''Yes'' else ''No'')"

definition formatBoundsNumber :: "int option \<Rightarrow> string" where
  "formatBoundsNumber v = (case v of None \<Rightarrow> ''Unknown'' | Some n \<Rightarrow> show_int n)"

section \<open>Rows\<close>

definition compareOptionalNumber :: "int option \<Rightarrow> int option \<Rightarrow> int" where
  "compareOptionalNumber left right =
     (if left = right then 0
      else case left of
        None \<Rightarrow> 1
      | Some l \<Rightarrow> (case right of None \<Rightarrow> -1 | Some r \<Rightarrow> l - r))"

definition compareWindows :: "(jstring \<Rightarrow> jstring \<Rightarrow> int) \<Rightarrow> WindowInfo \<Rightarrow> WindowInfo \<Rightarrow> int" where
  "compareWindows collate a b =
     (let pidCompare = compareOptionalNumber (wi_processId a) (wi_processId b) in
      if pidCompare \<noteq> 0 then pidCompare
      else let titleCompare = collate (windowTitle a) (windowTitle b) in
        if titleCompare \<noteq> 0 then titleCompare else collate (wi_windowId a) (wi_windowId b))"

definition sortedWindows :: "(jstring \<Rightarrow> jstring \<Rightarrow> int) \<Rightarrow> WindowInfo list \<Rightarrow> WindowInfo list" where
  "sortedWindows collate listed = sort_by (compareWindows collate) listed"

fun applyWindowsEvent ::
    "(jstring \<Rightarrow> jstring \<Rightarrow> int) \<Rightarrow> WindowInfo list \<Rightarrow> WindowsTableEvent \<Rightarrow> WindowInfo list" where
  "applyWindowsEvent collate currentRows (WindowsSnapshot listed) = sortedWindows collate listed"
| "applyWindowsEvent collate currentRows (WindowsPatch removes upserts) =
     sortedWindows collate (map_patch wi_windowId currentRows removes upserts)"

definition set_window_detail :: "WindowDetail \<Rightarrow> WindowDetail detail_view \<Rightarrow> WindowDetail detail_view" where
  "set_window_detail detail v =
     v\<lparr>dv_detail := Some detail, dv_message := None,
       dv_phase := (if dv_phase v = ViewClosed then ViewClosed else ViewReady)\<rparr>"

fun applyWindowDetailEvent :: "WindowDetailEvent \<Rightarrow> WindowDetail detail_view \<Rightarrow> WindowDetail detail_view" where
  "applyWindowDetailEvent (WindowDetailSnapshot detail) v =
     v\<lparr>dv_detail := Some detail, dv_message := None, dv_phase := ViewReady\<rparr>"
| "applyWindowDetailEvent (WindowDetailInfoChanged info) v =
     (case dv_detail v of None \<Rightarrow> v | Some detail \<Rightarrow> set_window_detail (detail\<lparr>wd_info := info\<rparr>) v)"
| "applyWindowDetailEvent (WindowDetailStateChanged st) v =
     (case dv_detail v of None \<Rightarrow> v | Some detail \<Rightarrow> set_window_detail (detail\<lparr>wd_state := st\<rparr>) v)"
| "applyWindowDetailEvent (WindowDetailBoundsChanged bounds) v =
     (case dv_detail v of None \<Rightarrow> v | Some detail \<Rightarrow> set_window_detail (detail\<lparr>wd_bounds := bounds\<rparr>) v)"
| "applyWindowDetailEvent WindowDetailClosed v = v\<lparr>dv_phase := ViewClosed\<rparr>"

section \<open>Effects\<close>

definition windows_effect :: "string \<Rightarrow> bool \<Rightarrow> WindowInfo table_view \<Rightarrow> WindowInfo table_view" where
  "windows_effect = table_effect ''This daemon does not support window subscriptions.''"

definition windows_deliver ::
    "(jstring \<Rightarrow> jstring \<Rightarrow> int) \<Rightarrow> nat \<Rightarrow> WindowsTableEvent stream_item \<Rightarrow> WindowInfo table_view \<Rightarrow>
     WindowInfo table_view" where
  "windows_deliver collate = table_deliver (applyWindowsEvent collate) (\<lambda>_. False)"

definition window_detail_effect :: "string \<Rightarrow> bool \<Rightarrow> WindowDetail detail_view \<Rightarrow> WindowDetail detail_view" where
  "window_detail_effect = detail_effect ''This daemon does not support window detail subscriptions.''"

definition window_detail_deliver ::
    "nat \<Rightarrow> WindowDetailEvent stream_item \<Rightarrow> WindowDetail detail_view \<Rightarrow> WindowDetail detail_view" where
  "window_detail_deliver = detail_deliver applyWindowDetailEvent (\<lambda>ev. ev = WindowDetailClosed)"

section \<open>What the views show\<close>

definition windowCells :: "WindowInfo \<Rightarrow> jstring list" where
  "windowCells w = [windowTitle w, number_or_blank (wi_processId w),
     js (if wi_focused w = Some True then ''Focused'' else [])]"

definition WindowListView :: "string \<Rightarrow> WindowInfo table_view \<Rightarrow> view_content" where
  "WindowListView daemonInfoPhase =
     table_content ''Loading windows'' ''Windows unavailable'' ''Failed to load windows'' daemonInfoPhase
       (\<lambda>v. ContentTable [''Title'', ''PID'', ''State''] (rows_or ''No windows'' (map windowCells (tv_rows v)))
          (counted (length (tv_rows v)) ''window'' ''windows''))"

text \<open>The properties of a window; the button next to a process id opens that process.\<close>

definition WindowDetailSummary :: "WindowDetail \<Rightarrow> (string \<times> jstring) list" where
  "WindowDetailSummary detail =
     (let info = wd_info detail; st = wd_state detail; bounds = wd_bounds detail in
     [(''Title'', windowTitle info), (''Window ID'', wi_windowId info),
      (''PID'', case wi_processId info of None \<Rightarrow> js ''Unknown'' | Some p \<Rightarrow> js (show_int p)),
      (''Focused'', js (booleanLabel (wi_focused info))), (''Visible'', js (booleanLabel (ws_visible st))),
      (''Minimized'', js (booleanLabel (ws_minimized st))), (''Maximized'', js (booleanLabel (ws_maximized st))),
      (''X'', js (formatBoundsNumber (map_option wb_x bounds))),
      (''Y'', js (formatBoundsNumber (map_option wb_y bounds))),
      (''Width'', js (formatBoundsNumber (map_option wb_width bounds))),
      (''Height'', js (formatBoundsNumber (map_option wb_height bounds)))])"

datatype window_detail_content =
    WindowLoading
  | WindowMessage string "jstring option"
  | WindowMissing
  | WindowShown WindowDetail jstring

definition WindowDetailView :: "string \<Rightarrow> WindowDetail detail_view \<Rightarrow> window_detail_content" where
  "WindowDetailView daemonInfoPhase v =
     (if dv_phase v = ViewLoading \<or> daemonInfoPhase \<noteq> ''ready'' then WindowLoading
      else if dv_phase v = ViewUnsupported \<or> dv_phase v = ViewError then
        WindowMessage (if dv_phase v = ViewUnsupported then ''Window detail unavailable'' else ''Failed to load window'')
          (if truthy (dv_message v) then dv_message v else None)
      else case dv_detail v of
        None \<Rightarrow> WindowMissing
      | Some detail \<Rightarrow> WindowShown detail
          (if dv_phase v = ViewClosed then js ''Window closed'' else wi_windowId (wd_info detail)))"

datatype windows_screen = NoMachine | PairingNeeded | WindowListPage bool | WindowDetailPage jstring bool

definition WindowsTool ::
    "Machine option \<Rightarrow> DaemonInfoState \<Rightarrow> WorkbenchTab option \<Rightarrow> windows_screen" where
  "WindowsTool machine info tab =
     (if machine = None then NoMachine
      else if \<not> isPaired machine then PairingNeeded
      else case Option.bind tab tab_windowDetailId of
        None \<Rightarrow> WindowListPage (procSupported info SubscribeWindows)
      | Some windowId \<Rightarrow> WindowDetailPage windowId (procSupported info SubscribeWindowDetail))"

definition WindowsBreadcrumb :: "jstring option \<Rightarrow> (jstring \<times> bool \<times> bool) list" where
  "WindowsBreadcrumb selectedWindowId =
     [(js ''Windows'', selectedWindowId \<noteq> None, False),
      (getOr selectedWindowId (js ''Overview''), False, selectedWindowId = None)]"

section \<open>The order of the list\<close>

lemma comparison_optional: "comparison compareOptionalNumber"
  by (auto simp: comparison_def compareOptionalNumber_def split: option.splits)

lemma compareWindows_eq:
  "compareWindows collate a b = num_or (num_or (compareOptionalNumber (wi_processId a) (wi_processId b))
     (collate (windowTitle a) (windowTitle b))) (collate (wi_windowId a) (wi_windowId b))"
  by (simp add: compareWindows_def num_or_def Let_def)

lemma comparison_windows: "comparison collate \<Longrightarrow> comparison (compareWindows collate)"
  unfolding compareWindows_eq
  by (rule comparison_num_or [OF comparison_num_or [OF comparison_on [OF comparison_optional, of wi_processId]
        comparison_on [of collate windowTitle]] comparison_on [of collate wi_windowId]])

lemma compareWindows_pid:
  "compareWindows collate a b \<le> 0 \<Longrightarrow> compareOptionalNumber (wi_processId a) (wi_processId b) \<le> 0"
  by (auto simp: compareWindows_eq num_or_def split: if_splits)

section \<open>Interface\<close>

fun windows_change :: "WindowsTableEvent \<Rightarrow> (jstring, WindowInfo) change" where
  "windows_change (WindowsSnapshot listed) = Snapshot listed"
| "windows_change (WindowsPatch removes upserts) = Patch removes upserts"

interpretation windows_table: table_events wi_windowId "compareWindows collate" windows_change
  "applyWindowsEvent collate" "\<lambda>_. False"
proof
  fix ev current
  show "windows_change ev = Snapshot listed \<Longrightarrow>
      applyWindowsEvent collate current ev = sort_by (compareWindows collate) listed" for listed
    by (cases ev) (simp_all add: sortedWindows_def)
  show "windows_change ev = Patch removes upserts \<Longrightarrow> applyWindowsEvent collate current ev =
      sort_by (compareWindows collate) (map_patch wi_windowId current removes upserts)" for removes upserts
    by (cases ev) (simp_all add: sortedWindows_def)
  show "windows_change ev = Gone \<Longrightarrow> applyWindowsEvent collate current ev = current"
    "False = (windows_change ev = Gone)"
    by (cases ev; simp)+
qed

section \<open>Properties\<close>

text \<open>The window list shows the daemon's table, grouped by process: after a snapshot and any patches each
  window is shown once, windows whose process is known come first, by increasing process id, and the
  rows are the table the changes describe. \<open>localeCompare\<close> is assumed to be a consistent comparison.\<close>

theorem window_list_shows_table:
  assumes "distinct (map wi_windowId listed)" "comparison collate"
  shows "let v = windows_effect ''ready'' True v0;
      v' = foldl (\<lambda>v ev. windows_deliver collate (tv_started v0) (Event ev) v) v
        (WindowsSnapshot listed # map (\<lambda>(removes, upserts). WindowsPatch removes upserts) patches) in
    tv_phase v' = ViewReady \<and> distinct (map wi_windowId (tv_rows v')) \<and>
    sorted_wrt (\<lambda>a b. compareOptionalNumber (wi_processId a) (wi_processId b) \<le> 0) (tv_rows v') \<and>
    table_of wi_windowId (tv_rows v') =
      foldl (\<lambda>t (removes, upserts). foldl (\<lambda>t r. t(wi_windowId r \<mapsto> r)) (t |` (- set removes)) upserts)
        (table_of wi_windowId listed) patches"
proof -
  let ?evs = "map (\<lambda>(removes, upserts). WindowsPatch removes upserts) patches"
  have live: "tv_live (windows_effect ''ready'' True v0) = Some (tv_started v0)"
    by (simp add: windows_effect_def table_effect_def)
  have fold: "foldl (apply_change wi_windowId) t (map windows_change ?evs) =
      foldl (\<lambda>t (removes, upserts). foldl (\<lambda>t r. t(wi_windowId r \<mapsto> r)) (t |` (- set removes)) upserts) t patches" for t
    by (induction patches arbitrary: t) auto
  have "\<forall>ev \<in> set (WindowsSnapshot listed # ?evs).
      distinct_change wi_windowId (windows_change ev) \<and> windows_change ev \<noteq> Gone"
    using assms by auto
  note t = windows_table.snapshot_then_patches [OF live _ this comparison_windows [OF assms(2)], of listed,
      unfolded windows_change.simps Let_def fold, OF refl]
  have "sorted_wrt (\<lambda>a b. compareOptionalNumber (wi_processId a) (wi_processId b) \<le> 0) xs"
    if "sorted_wrt (\<lambda>x y. compareWindows collate x y \<le> 0) xs" for xs
    by (rule sorted_wrt_mono_rel [OF _ that]) (rule compareWindows_pid)
  with t show ?thesis unfolding windows_deliver_def Let_def by blast
qed

theorem window_list_shows_table_witness:
  "let w = \<lparr>wi_windowId = [1], wi_title = None, wi_processId = Some 3, wi_focused = None\<rparr>;
      v' = foldl (\<lambda>v ev. windows_deliver (\<lambda>_ _. 0) 0 (Event ev) v) (windows_effect ''ready'' True initial_table)
        [WindowsSnapshot [w]] in
    tv_phase v' = ViewReady \<and> distinct (map wi_windowId (tv_rows v'))"
proof -
  let ?w = "\<lparr>wi_windowId = [1], wi_title = None, wi_processId = Some 3, wi_focused = None\<rparr>"
  have "distinct (map wi_windowId [?w])" "comparison (\<lambda>_ _. 0 :: int)" by (simp_all add: comparison_def)
  from window_list_shows_table [OF this, of initial_table "[]"] show ?thesis
    by (simp add: Let_def initial_table_def)
qed

end
