(* ===== verification/DaemonViews.thy ===== *)
theory DaemonViews
  imports ViewStreams ViewFormat RpcSession RpcProcs Workbench
begin

text \<open>
  \<open>web/src/view/workbench/tool/daemon/index.tsx\<close>: the daemon tool. Its state is the two lists it
  subscribes to (clients, terminal sessions), the two fields of its tab that say which page is open,
  and what its effects depend on (the machine and the session state). The streams of each list are
  numbered by the runs of its effect. The pages are modelled by what they show; dates printed by
  \<open>Intl\<close> are not modelled.
\<close>

section \<open>Rows\<close>

fun applyTerminalSessionsEvent ::
    "TerminalSessionInfo list \<Rightarrow> TerminalSessionsTableEvent \<Rightarrow> TerminalSessionInfo list" where
  "applyTerminalSessionsEvent current (TerminalSessionsSnapshot listed) = listed"
| "applyTerminalSessionsEvent current (TerminalSessionsPatch removes upserts) =
     foldl (\<lambda>next session. map_set tsi_terminalSessionId session next)
       (filter (\<lambda>session. tsi_terminalSessionId session \<notin> set (map tsk_terminalSessionId removes)) current)
       upserts"

fun applyClientsEvent :: "ClientInfo list \<Rightarrow> ClientsTableEvent \<Rightarrow> ClientInfo list" where
  "applyClientsEvent current (ClientsSnapshot listed) = listed"
| "applyClientsEvent current (ClientsPatch removes upserts) =
     foldl (\<lambda>next client. map_set ci_clientId client next)
       (filter (\<lambda>client. ci_clientId client \<notin> set (map ck_clientId removes)) current) upserts"

text \<open>Both are patches of a keyed table.\<close>

definition patchSessions ::
    "TerminalSessionInfo list \<Rightarrow> jstring list \<Rightarrow> TerminalSessionInfo list \<Rightarrow> TerminalSessionInfo list" where
  "patchSessions current removes upserts =
     applyTerminalSessionsEvent current
       (TerminalSessionsPatch (map (\<lambda>i. \<lparr>tsk_terminalSessionId = i\<rparr>) removes) upserts)"

definition patchClients :: "ClientInfo list \<Rightarrow> jstring list \<Rightarrow> ClientInfo list \<Rightarrow> ClientInfo list" where
  "patchClients current removes upserts =
     applyClientsEvent current (ClientsPatch (map (\<lambda>i. \<lparr>ck_clientId = i\<rparr>) removes) upserts)"

interpretation sessions_rows: keyed_table tsi_terminalSessionId patchSessions
  by unfold_locales (simp add: patchSessions_def mset_map_sets distinct_map_filter comp_def conj_commute)

interpretation clients_rows: keyed_table ci_clientId patchClients
  by unfold_locales (simp add: patchClients_def mset_map_sets distinct_map_filter comp_def conj_commute)

section \<open>State\<close>

record daemon_view =
  da_machine :: "Machine option"
  da_session :: RpcSessionState
  da_detailId :: "jstring option"
  da_pageOpen :: "bool option"
  da_clientsPhase :: view_phase
  da_clientsMessage :: "jstring option"
  da_clients :: "ClientInfo list"
  da_clientsRef :: "ClientInfo list"
  da_clientsStarted :: nat
  da_clientsLive :: "nat option"
  da_sessionsPhase :: view_phase
  da_sessionsMessage :: "jstring option"
  da_sessions :: "TerminalSessionInfo list"
  da_sessionsStarted :: nat
  da_sessionsLive :: "nat option"

definition info_ready :: "daemon_view \<Rightarrow> bool" where
  "info_ready v \<longleftrightarrow> (case daemonInfo (da_session v) of InfoReady _ _ \<Rightarrow> True | _ \<Rightarrow> False)"

definition show_clients :: "view_phase \<Rightarrow> jstring option \<Rightarrow> ClientInfo list \<Rightarrow> daemon_view \<Rightarrow> daemon_view" where
  "show_clients p note listed v =
     v\<lparr>da_clientsRef := listed, da_clients := listed, da_clientsPhase := p, da_clientsMessage := note\<rparr>"

definition show_sessions :: "view_phase \<Rightarrow> jstring option \<Rightarrow> daemon_view \<Rightarrow> daemon_view" where
  "show_sessions p note v = v\<lparr>da_sessions := [], da_sessionsPhase := p, da_sessionsMessage := note\<rparr>"

section \<open>Effects\<close>

definition clients_effect :: "daemon_view \<Rightarrow> daemon_view" where
  "clients_effect v =
     (let g = da_clientsStarted v; v = v\<lparr>da_clientsLive := None, da_clientsStarted := Suc g\<rparr> in
      if da_machine v = None then
        (show_clients ViewIdle None [] v)\<lparr>da_detailId := None, da_pageOpen := Some False\<rparr>
      else if \<not> isPaired (da_machine v) then
        (show_clients ViewError (Some (js ''Pairing required to view clients'')) [] v)
          \<lparr>da_detailId := None, da_pageOpen := Some False\<rparr>
      else if \<not> info_ready v then show_clients ViewIdle None [] v
      else v\<lparr>da_clientsPhase := ViewLoading, da_clientsLive := Some g\<rparr>)"

text \<open>After each event a detail page of a client that is not listed any more goes back to the list.\<close>

definition clients_deliver :: "nat \<Rightarrow> ClientsTableEvent stream_item \<Rightarrow> daemon_view \<Rightarrow> daemon_view" where
  "clients_deliver g item v =
     (if da_clientsLive v \<noteq> Some g then v
      else case item of
        Event ev \<Rightarrow>
          let clients = applyClientsEvent (da_clientsRef v) ev; v = show_clients ViewReady None clients v in
          if truthy (da_detailId v) \<and> \<not> (\<exists>c \<in> set clients. Some (ci_clientId c) = da_detailId v)
          then v\<lparr>da_detailId := None, da_pageOpen := Some True\<rparr> else v
      | Failure err \<Rightarrow> (show_clients ViewError (Some (err_message err)) [] v)\<lparr>da_clientsLive := None\<rparr>)"

definition sessions_effect :: "daemon_view \<Rightarrow> daemon_view" where
  "sessions_effect v =
     (let g = da_sessionsStarted v; v = v\<lparr>da_sessionsLive := None, da_sessionsStarted := Suc g\<rparr> in
      if da_machine v = None \<or> \<not> info_ready v then show_sessions ViewIdle None v
      else if \<not> isPaired (da_machine v) then show_sessions ViewIdle None v
      else v\<lparr>da_sessionsPhase := ViewLoading, da_sessionsLive := Some g\<rparr>)"

definition sessions_deliver :: "nat \<Rightarrow> TerminalSessionsTableEvent stream_item \<Rightarrow> daemon_view \<Rightarrow> daemon_view" where
  "sessions_deliver g item v =
     (if da_sessionsLive v \<noteq> Some g then v
      else case item of
        Event ev \<Rightarrow> v\<lparr>da_sessionsPhase := ViewReady, da_sessionsMessage := None,
            da_sessions := applyTerminalSessionsEvent (da_sessions v) ev\<rparr>
      | Failure err \<Rightarrow> (show_sessions ViewError (Some (err_message err)) v)\<lparr>da_sessionsLive := None\<rparr>)"

text \<open>The dependencies of both effects: they run again when one of these values has changed.\<close>

definition effect_key :: "daemon_view \<Rightarrow>
    nat \<times> bool \<times> jstring option \<times> jstring option \<times> jstring option \<times> jstring option \<times> jstring option" where
  "effect_key v =
     ((case daemonInfo (da_session v) of InfoIdle \<Rightarrow> 0 | InfoLoading \<Rightarrow> 1 | InfoReady _ _ \<Rightarrow> 2 | InfoError _ \<Rightarrow> 3),
      isPaired (da_machine v), map_option m_baseUrl (da_machine v),
      Option.bind (da_machine v) m_clientId, Option.bind (da_machine v) m_clientSecret,
      map_option m_id (da_machine v), daemonInstanceId (da_session v))"

definition daemon_input :: "Machine option \<Rightarrow> RpcSessionState \<Rightarrow> daemon_view \<Rightarrow> daemon_view" where
  "daemon_input machine session v =
     (let v' = v\<lparr>da_machine := machine, da_session := session\<rparr> in
      if effect_key v' = effect_key v then v' else sessions_effect (clients_effect v'))"

text \<open>The tab may come with a page from an earlier visit.\<close>

definition initial_daemon_view ::
    "Machine option \<Rightarrow> RpcSessionState \<Rightarrow> jstring option \<Rightarrow> bool option \<Rightarrow> daemon_view" where
  "initial_daemon_view machine session detailId pageOpen =
     sessions_effect (clients_effect \<lparr>da_machine = machine, da_session = session, da_detailId = detailId,
       da_pageOpen = pageOpen, da_clientsPhase = ViewIdle, da_clientsMessage = None, da_clients = [],
       da_clientsRef = [], da_clientsStarted = 0, da_clientsLive = None, da_sessionsPhase = ViewIdle,
       da_sessionsMessage = None, da_sessions = [], da_sessionsStarted = 0, da_sessionsLive = None\<rparr>)"

section \<open>Commands\<close>

definition openRootPage :: "daemon_view \<Rightarrow> daemon_view" where
  "openRootPage v = v\<lparr>da_detailId := None, da_pageOpen := Some False\<rparr>"

definition openClientsPage :: "daemon_view \<Rightarrow> daemon_view" where
  "openClientsPage v = v\<lparr>da_detailId := None, da_pageOpen := Some True\<rparr>"

definition openClientDetail :: "jstring \<Rightarrow> daemon_view \<Rightarrow> daemon_view" where
  "openClientDetail clientId v = v\<lparr>da_pageOpen := Some True, da_detailId := Some clientId\<rparr>"

text \<open>The answer of the renewal the current client asked for on its page; \<open>machine\<close> and \<open>detailId\<close> are
  those of the render that made the call.\<close>

definition renewed_credential :: "Machine \<Rightarrow> jstring option \<Rightarrow> int \<Rightarrow> machine_store \<Rightarrow> machine_store" where
  "renewed_credential machine detailId expires store =
     (if m_clientId machine = detailId then setMachineCredentialExpiry (m_id machine) expires store else store)"

section \<open>Labels\<close>

definition procName :: "int \<Rightarrow> string" where
  "procName procId = getOr (map_of procs procId) (''Proc '' @ show_int procId)"

fun formatDaemonConnectionLabel :: "ConnectionState \<Rightarrow> string" where
  "formatDaemonConnectionLabel (Reachable rttMs) =
     (case rttMs of None \<Rightarrow> ''Connected'' | Some ms \<Rightarrow> ''Connected - latency '' @ show_int ms @ '' ms'')"
| "formatDaemonConnectionLabel ConnIdle = ''No machine selected''"
| "formatDaemonConnectionLabel Offline = ''Unconnected''"

definition terminalSessionStatus :: "TerminalSessionInfo \<Rightarrow> jstring" where
  "terminalSessionStatus session =
     (case tsi_exit session of
        None \<Rightarrow> js ''Running''
      | Some e \<Rightarrow>
          (case te_code e of
             Some code \<Rightarrow> js (''Exited with code '' @ show_int code)
           | None \<Rightarrow> if truthy (te_signal e) then js ''Exited after '' @ the (te_signal e) else js ''Exited''))"

definition terminalSessionTabTitle :: "TerminalSessionInfo \<Rightarrow> jstring" where
  "terminalSessionTabTitle session =
     getOr (tsi_lastKnownTitle session) (commandName (launch_command (tsi_launch session)))"

definition clientDetailPendingMessage :: "daemon_view \<Rightarrow> jstring" where
  "clientDetailPendingMessage v =
     (if da_clientsPhase v = ViewError then getOr (da_clientsMessage v) (js ''Client detail failed'')
      else js ''Loading client detail'')"

definition clientsOverviewLabel :: "daemon_view \<Rightarrow> jstring" where
  "clientsOverviewLabel v =
     (if da_clientsPhase v = ViewError then getOr (da_clientsMessage v) (js ''Client list failed'')
      else if da_clientsPhase v = ViewLoading then js ''Loading clients''
      else let n = length (da_clients v) in
        if n = 0 then js ''No paired clients''
        else if n = 1 then js ''1 paired client''
        else js (show_nat n @ '' paired clients''))"

definition otherClientsLabel :: "int \<Rightarrow> string" where
  "otherClientsLabel n =
     (if n = 0 then ''No other clients...''
      else if n = 1 then ''1 other client...''
      else show_int n @ '' other clients...'')"

text \<open>Opening a listed terminal session makes a terminal tab that attaches to it.\<close>

definition openTerminalSession :: "TerminalSessionInfo \<Rightarrow> jstring \<Rightarrow> 'l WorkbenchState \<Rightarrow> 'l WorkbenchState" where
  "openTerminalSession session =
     openTerminalTab \<lparr>cfg_cwd = tsi_lastKnownCwd session, cfg_launch = Some (tsi_launch session),
       cfg_sessionId = Some (tsi_terminalSessionId session), cfg_terminalTitle = tsi_lastKnownTitle session,
       cfg_title = Some (terminalSessionTabTitle session)\<rparr>"

section \<open>Pages\<close>

definition clientsPageOpen :: "daemon_view \<Rightarrow> bool" where
  "clientsPageOpen v \<longleftrightarrow> da_pageOpen v = Some True \<or> da_detailId v \<noteq> None"

definition clientDetail :: "daemon_view \<Rightarrow> ClientInfo option" where
  "clientDetail v =
     (if truthy (da_detailId v) then List.find (\<lambda>c. Some (ci_clientId c) = da_detailId v) (da_clients v) else None)"

datatype daemon_page =
    DaemonInfoStatePage string "jstring option"
  | ClientDetailPage ClientInfo "TerminalSessionInfo list"
  | ClientDetailPendingPage jstring
  | ClientsPage
  | DaemonOverviewPage

fun daemonInfoStatePage :: "bool \<Rightarrow> DaemonInfoState \<Rightarrow> daemon_page" where
  "daemonInfoStatePage hasMachine (InfoError note) =
     DaemonInfoStatePage ''Daemon info unavailable'' (if note = [] then None else Some note)"
| "daemonInfoStatePage hasMachine InfoLoading = DaemonInfoStatePage ''Loading daemon info'' None"
| "daemonInfoStatePage hasMachine _ =
     DaemonInfoStatePage (if hasMachine then ''Daemon info unavailable'' else ''No daemon selected'') None"

definition DaemonInfoView :: "daemon_view \<Rightarrow> daemon_page" where
  "DaemonInfoView v =
     (case clientDetail v of
        Some client \<Rightarrow> ClientDetailPage client
          (filter (\<lambda>session. tsi_creatorClientId session = ci_clientId client) (da_sessions v))
      | None \<Rightarrow>
          if truthy (da_detailId v) \<and> da_clientsPhase v \<noteq> ViewReady then
            ClientDetailPendingPage (clientDetailPendingMessage v)
          else if clientsPageOpen v then ClientsPage
          else DaemonOverviewPage)"

definition DaemonTool :: "daemon_view \<Rightarrow> daemon_page" where
  "DaemonTool v =
     (if info_ready v then DaemonInfoView v
      else daemonInfoStatePage (da_machine v \<noteq> None) (daemonInfo (da_session v)))"

definition DaemonBreadcrumb :: "bool \<Rightarrow> jstring option \<Rightarrow> (jstring \<times> bool) list" where
  "DaemonBreadcrumb pageOpen detailId =
     (js ''Daemon'', pageOpen) #
     (if truthy detailId then [(js ''Clients'', True), (the detailId, False)]
      else if pageOpen then [(js ''Clients'', False)]
      else [(js ''Overview'', False)])"

text \<open>The list of clients: a message, or the label of each client and whether it is this one.\<close>

definition client_label :: "ClientInfo \<Rightarrow> jstring" where
  "client_label c = (if ci_label c = [] then js ''Unnamed client'' else ci_label c)"

definition ClientsSection :: "jstring option \<Rightarrow> daemon_view \<Rightarrow> jstring + (jstring \<times> bool) list" where
  "ClientsSection currentClientId v =
     (if da_clientsPhase v = ViewError then Inl (getOr (da_clientsMessage v) (js ''Client list failed''))
      else if da_clientsPhase v = ViewLoading then Inl (js ''Loading clients'')
      else if da_clients v = [] then Inl (js ''No paired clients'')
      else Inr (map (\<lambda>c. (client_label c, Some (ci_clientId c) = currentClientId)) (da_clients v)))"

text \<open>The overview: a label alone, a label with the note that this client is not listed, or this client
  and how many others there are.\<close>

datatype clients_overview =
    OverviewLabel jstring
  | OverviewNotListed jstring
  | OverviewCurrent ClientInfo string

definition ClientsOverviewContent :: "jstring option \<Rightarrow> daemon_view \<Rightarrow> clients_overview" where
  "ClientsOverviewContent currentClientId v =
     (if da_clientsPhase v \<noteq> ViewReady then OverviewLabel (clientsOverviewLabel v)
      else case (if truthy currentClientId
                 then List.find (\<lambda>c. Some (ci_clientId c) = currentClientId) (da_clients v) else None) of
        None \<Rightarrow> OverviewNotListed (clientsOverviewLabel v)
      | Some c \<Rightarrow> OverviewCurrent c (otherClientsLabel (int (length (da_clients v)) - 1)))"

text \<open>The first page: the properties of the daemon and the procedures it offers. \<open>timestamp\<close> is
  \<open>formatDaemonTimestamp\<close>, \<open>now\<close> the current time.\<close>

definition DaemonOverview ::
    "(int option \<Rightarrow> jstring) \<Rightarrow> int \<Rightarrow> DaemonInfo \<Rightarrow> daemon_view \<Rightarrow> (string \<times> jstring) list \<times> (int \<times> string) list" where
  "DaemonOverview timestamp now info v =
     ([(''Endpoint'', case da_machine v of None \<Rightarrow> js ''Unknown'' | Some m \<Rightarrow> m_baseUrl m),
       (''Daemon version'', di_version info), (''Machine OS'', di_os info),
       (''Daemon instance ID'', di_instanceId info),
       (''Daemon time'', timestamp (daemonServerTimeMs now (da_session v))),
       (''Daemon started'', timestamp (Some (di_startedAtMs info))),
       (''Uptime'', js (formatDaemonUptime (daemonUptimeSeconds now (da_session v))))],
      map (\<lambda>procId. (procId, procName procId)) (di_supportedProcIds info))"

section \<open>The buttons of a client's page\<close>

datatype renew_phase = RenewIdle | RenewRenewing | RenewRenewed | RenewFailed

record renew_state =
  rn_phase :: renew_phase
  rn_error :: "jstring option"

definition renewNow :: "renew_state \<Rightarrow> renew_state" where
  "renewNow s = s\<lparr>rn_phase := RenewRenewing, rn_error := None\<rparr>"

definition renewNow_done :: "unit result \<Rightarrow> renew_state \<Rightarrow> renew_state" where
  "renewNow_done answer s =
     (case answer of
        Inr _ \<Rightarrow> s\<lparr>rn_phase := RenewRenewed\<rparr>
      | Inl err \<Rightarrow> s\<lparr>rn_error := Some (err_message err), rn_phase := RenewFailed\<rparr>)"

record closing_state =
  cl_ids :: "jstring set"
  cl_error :: "jstring option"

definition closeSession :: "jstring \<Rightarrow> closing_state \<Rightarrow> closing_state" where
  "closeSession terminalSessionId s = s\<lparr>cl_error := None, cl_ids := insert terminalSessionId (cl_ids s)\<rparr>"

definition closeSession_done :: "jstring \<Rightarrow> unit result \<Rightarrow> closing_state \<Rightarrow> closing_state" where
  "closeSession_done terminalSessionId answer s =
     (let s = (case answer of Inr _ \<Rightarrow> s | Inl err \<Rightarrow> s\<lparr>cl_error := Some (err_message err)\<rparr>) in
      s\<lparr>cl_ids := cl_ids s - {terminalSessionId}\<rparr>)"

definition ClientTerminalSessions ::
    "daemon_view \<Rightarrow> TerminalSessionInfo list \<Rightarrow> jstring + (jstring \<times> jstring) list" where
  "ClientTerminalSessions v listed =
     (if da_sessionsPhase v = ViewError then
        Inl (getOr (da_sessionsMessage v) (js ''Terminal session list failed''))
      else if da_sessionsPhase v = ViewLoading then Inl (js ''Loading terminal sessions'')
      else if listed = [] then Inl (js ''No terminal sessions for this client'')
      else Inr (map (\<lambda>session. (commandName (launch_command (tsi_launch session)),
          terminalSessionStatus session @ js '' - '' @ getOr (tsi_lastKnownCwd session) (js ''cwd unknown''))) listed))"

section \<open>Runs\<close>

interpretation clients_stream: subscription da_clientsStarted da_clientsLive "\<lambda>_ :: unit. clients_effect"
  clients_deliver
  by unfold_locales (auto simp: clients_effect_def clients_deliver_def show_clients_def info_ready_def Let_def
      split: stream_item.splits if_splits)

interpretation sessions_stream: subscription da_sessionsStarted da_sessionsLive "\<lambda>_ :: unit. sessions_effect"
  sessions_deliver
  by unfold_locales (auto simp: sessions_effect_def sessions_deliver_def show_sessions_def info_ready_def Let_def
      split: stream_item.splits if_splits)

text \<open>A client's page is opened from the list, which is shown when the list is ready.\<close>

inductive daemon_reachable :: "daemon_view \<Rightarrow> bool" where
  daemon_initial: "daemon_reachable (initial_daemon_view machine session detailId pageOpen)"
| daemon_inputs: "daemon_reachable v \<Longrightarrow> daemon_reachable (daemon_input machine session v)"
| daemon_clients: "daemon_reachable v \<Longrightarrow> daemon_reachable (clients_deliver g item v)"
| daemon_sessions: "daemon_reachable v \<Longrightarrow> daemon_reachable (sessions_deliver h item' v)"
| daemon_root: "daemon_reachable v \<Longrightarrow> daemon_reachable (openRootPage v)"
| daemon_list: "daemon_reachable v \<Longrightarrow> daemon_reachable (openClientsPage v)"
| daemon_detail: "daemon_reachable v \<Longrightarrow> da_clientsPhase v = ViewReady \<Longrightarrow> c \<in> set (da_clients v) \<Longrightarrow>
    daemon_reachable (openClientDetail (ci_clientId c) v)"

text \<open>Lists are only shown of a daemon that is ready for a paired machine, and the page of a client is only
  open while the client is listed.\<close>

definition usable :: "daemon_view \<Rightarrow> bool" where
  "usable v \<longleftrightarrow> isPaired (da_machine v) \<and> info_ready v"

definition daemon_ok :: "daemon_view \<Rightarrow> bool" where
  "daemon_ok v \<longleftrightarrow>
     da_clientsRef v = da_clients v \<and>
     (da_clientsLive v \<noteq> None \<or> da_clientsPhase v = ViewReady \<longrightarrow> usable v) \<and>
     (da_sessionsLive v \<noteq> None \<or> da_sessionsPhase v = ViewReady \<longrightarrow> usable v) \<and>
     (\<not> usable v \<longrightarrow> da_clients v = [] \<and> da_sessions v = []) \<and>
     (da_clientsPhase v = ViewReady \<longrightarrow> truthy (da_detailId v) \<longrightarrow>
        (\<exists>c \<in> set (da_clients v). Some (ci_clientId c) = da_detailId v))"

lemma usable_key: "effect_key v' = effect_key v \<Longrightarrow> usable v' = usable v"
  by (auto simp: effect_key_def usable_def info_ready_def split: DaemonInfoState.splits)

lemma unpaired_None: "\<not> isPaired None"
  by (simp add: isPaired_def)

lemma effects_ok: "da_clientsRef v = da_clients v \<Longrightarrow> daemon_ok (sessions_effect (clients_effect v))"
  by (auto simp: daemon_ok_def usable_def clients_effect_def sessions_effect_def show_clients_def
      show_sessions_def info_ready_def unpaired_None Let_def)

lemma daemon_input_ok: "daemon_ok v \<Longrightarrow> daemon_ok (daemon_input machine session v)"
proof -
  let ?v = "v\<lparr>da_machine := machine, da_session := session\<rparr>"
  assume ok: "daemon_ok v"
  show ?thesis
  proof (cases "effect_key ?v = effect_key v")
    case True
    with usable_key [OF True] ok have "daemon_ok ?v" unfolding daemon_ok_def by simp
    with True show ?thesis by (simp add: daemon_input_def)
  qed (use ok effects_ok [of ?v] in \<open>simp add: daemon_input_def daemon_ok_def\<close>)
qed

lemma clients_deliver_ok: "daemon_ok v \<Longrightarrow> daemon_ok (clients_deliver g item v)"
  by (auto simp: daemon_ok_def clients_deliver_def show_clients_def usable_def info_ready_def Let_def truthy_def
      split: stream_item.splits)

lemma sessions_deliver_ok: "daemon_ok v \<Longrightarrow> daemon_ok (sessions_deliver g item v)"
  by (auto simp: daemon_ok_def sessions_deliver_def show_sessions_def usable_def info_ready_def
      split: stream_item.splits)

lemma reachable_daemon_ok: "daemon_reachable v \<Longrightarrow> daemon_ok v"
proof (induction rule: daemon_reachable.induct)
  case (daemon_initial machine session detailId pageOpen)
  then show ?case unfolding initial_daemon_view_def by (intro effects_ok) simp
next
  case (daemon_detail v c)
  then show ?case by (auto simp: daemon_ok_def openClientDetail_def usable_def info_ready_def)
qed (simp_all add: daemon_input_ok clients_deliver_ok sessions_deliver_ok,
    simp_all add: daemon_ok_def openRootPage_def openClientsPage_def usable_def info_ready_def truthy_def)

lemma clientDetail_SomeD:
  "clientDetail v = Some c \<Longrightarrow> c \<in> set (da_clients v) \<and> Some (ci_clientId c) = da_detailId v"
  by (auto simp: clientDetail_def split: if_splits dest: find_SomeD)

lemma clientDetail_listed:
  assumes "daemon_ok v" "da_clientsPhase v = ViewReady" "truthy (da_detailId v)"
  shows "clientDetail v \<noteq> None"
  using assms by (auto simp: daemon_ok_def clientDetail_def find_None_iff)

section \<open>Properties\<close>

text \<open>(C23) What the daemon tool lists belongs to a daemon this client may use: whatever the streams deliver and
  however the selection, the pairing and the session change, nothing is listed without a pairing and a
  ready daemon, a client's page shows a client of the list with the terminal sessions it created, and
  once the list is ready, an open client page is the page of a listed client.\<close>

theorem daemon_tool_invariant:
  assumes "daemon_reachable v"
  shows "(\<not> (isPaired (da_machine v) \<and> info_ready v) \<longrightarrow> da_clients v = [] \<and> da_sessions v = []) \<and>
    (\<forall>c listed. DaemonTool v = ClientDetailPage c listed \<longrightarrow>
       isPaired (da_machine v) \<and> c \<in> set (da_clients v) \<and> da_detailId v = Some (ci_clientId c) \<and>
       (\<forall>session \<in> set listed. session \<in> set (da_sessions v) \<and> tsi_creatorClientId session = ci_clientId c)) \<and>
    (da_clientsPhase v = ViewReady \<and> truthy (da_detailId v) \<longrightarrow> (\<exists>c listed. DaemonTool v = ClientDetailPage c listed))"
proof -
  note ok = reachable_daemon_ok [OF assms]
  have "isPaired (da_machine v) \<and> c \<in> set (da_clients v) \<and> da_detailId v = Some (ci_clientId c) \<and>
      (\<forall>session \<in> set listed. session \<in> set (da_sessions v) \<and> tsi_creatorClientId session = ci_clientId c)"
    if page: "DaemonTool v = ClientDetailPage c listed" for c listed
  proof -
    have "DaemonInfoView v = ClientDetailPage c listed"
      using page by (cases "daemonInfo (da_session v)") (auto simp: DaemonTool_def info_ready_def split: if_splits)
    then have c: "clientDetail v = Some c" and l: "listed =
        filter (\<lambda>session. tsi_creatorClientId session = ci_clientId c) (da_sessions v)"
      by (auto simp: DaemonInfoView_def split: option.splits if_splits)
    have "da_clients v \<noteq> []" using clientDetail_SomeD [OF c] by auto
    then have "isPaired (da_machine v)" using ok by (auto simp: daemon_ok_def usable_def)
    with clientDetail_SomeD [OF c] l show ?thesis by auto
  qed
  moreover have "\<exists>c listed. DaemonTool v = ClientDetailPage c listed"
    if "da_clientsPhase v = ViewReady" "truthy (da_detailId v)"
  proof -
    have "info_ready v" using ok that(1) by (simp add: daemon_ok_def usable_def)
    with clientDetail_listed [OF ok that] show ?thesis by (auto simp: DaemonTool_def DaemonInfoView_def)
  qed
  ultimately show ?thesis using ok by (auto simp: daemon_ok_def usable_def)
qed

definition ready_session :: RpcSessionState where
  "ready_session = \<lparr>connection = Reachable None, daemonInfo = InfoReady \<lparr>di_supportedProcIds = [], di_version = [],
     di_os = [], di_instanceId = [1], di_startedAtMs = 0, di_serverTimeMs = 0\<rparr> 0\<rparr>"

theorem daemon_tool_invariant_witness:
  "let v = clients_deliver 0 (Event (ClientsSnapshot []))
       (initial_daemon_view (Some (box_machine\<lparr>m_clientId := Some [1], m_clientSecret := Some [1]\<rparr>)) ready_session
         (Some [9]) None) in
   DaemonTool v = ClientsPage \<and> (\<forall>c listed. DaemonTool v = ClientDetailPage c listed \<longrightarrow> c \<in> set (da_clients v))"
proof -
  let ?v = "clients_deliver 0 (Event (ClientsSnapshot []))
       (initial_daemon_view (Some (box_machine\<lparr>m_clientId := Some [1], m_clientSecret := Some [1]\<rparr>)) ready_session
         (Some [9]) None)"
  have "daemon_reachable ?v" by (intro daemon_reachable.intros)
  from daemon_tool_invariant [OF this]
  have "\<forall>c listed. DaemonTool ?v = ClientDetailPage c listed \<longrightarrow> c \<in> set (da_clients ?v)" by blast
  moreover have "DaemonTool ?v = ClientsPage"
    by (simp add: DaemonTool_def DaemonInfoView_def clientDetail_def clientsPageOpen_def clients_deliver_def
        initial_daemon_view_def clients_effect_def sessions_effect_def info_ready_def ready_session_def
        show_clients_def isPaired_def truthy_def box_machine_def Let_def)
  ultimately show ?thesis unfolding Let_def by blast
qed

end
