(* ===== verification/TerminalView.thy ===== *)
theory TerminalView
  imports ViewFormat RpcTerminals Machines Utf8
begin

text \<open>
  \<open>web/src/view/workbench/tool/terminal/index.tsx\<close>: the terminal tool as a transition system over its
  awaits. Its refs, its React state, the requests it has in flight and what it has handed to the
  xterm terminal are one record; a function that awaits is a definition for the part before the await
  and one for each continuation. The xterm library is outside: \<open>tv_runtime\<close> is the terminal's size once
  it exists, \<open>tv_screen\<close> the writes it has received since its last reset.
\<close>

section \<open>State\<close>

datatype terminal_phase =
  TermIdle | TermWaiting | TermAttached | TermViewing | TermClosed | TermMissing | TermError

datatype screen_write = WroteBytes bytes bool | WroteLine string

record open_options =
  oo_cwd :: "jstring option"
  oo_existing :: "jstring option"
  oo_launch :: "TerminalLaunchSpec option"
  oo_title :: "jstring option"

text \<open>An attach: the generation of the \<open>openTerminal\<close> it belongs to and its \<open>cancelled\<close> flag.\<close>

record attach_run =
  ar_generation :: nat
  ar_session :: jstring
  ar_afterSeq :: "int option"
  ar_size :: "int \<times> int"
  ar_cancelled :: bool

text \<open>A \<open>takeTerminalControl\<close> call in flight; \<open>tk_ensured\<close> if \<open>ensureCurrentControl\<close> made it.\<close>

record take_call =
  tk_session :: jstring
  tk_attach :: jstring
  tk_size :: "int \<times> int"
  tk_previous :: "(int \<times> int) option"
  tk_ensured :: bool

text \<open>What the head of the input queue waits for: a control call, or the answer of its write.\<close>

datatype input_wait = AwaitControl nat bytes | AwaitWrite

text \<open>What a tab remembers of its session. \<open>terminalSessionSnapshotKey\<close> is the JSON text of these
  values, which is the same for two snapshots only if they are.\<close>

record TerminalSessionSnapshot =
  snap_cwd :: "jstring option"
  snap_title :: "jstring option"
  snap_launch :: TerminalLaunchSpec

record terminal_view =
  tv_machine :: "Machine option"
  tv_active :: bool
  tv_runtime :: "(int \<times> int) option"
  tv_sessionId :: "jstring option"
  tv_attachId :: "jstring option"
  tv_primaryAttachId :: "jstring option"
  tv_latestSeq :: "int option"
  tv_generation :: nat
  tv_stopAttach :: "nat option"
  tv_takeControl :: "nat option"
  tv_replayUntil :: "int option"
  tv_suppressReplay :: bool
  tv_replayDepth :: nat
  tv_finished :: bool
  tv_lastSize :: "(int \<times> int) option"
  tv_phase :: terminal_phase
  tv_note :: jstring
  tv_dimensions :: "int \<times> int"
  tv_info :: "TerminalSessionInfo option"
  tv_tabSession :: "jstring option"
  tv_screen :: "screen_write list"
  tv_creating :: "nat list"
  tv_waiting :: "(nat \<times> jstring) list"
  tv_attaches :: "attach_run list"
  tv_takes :: "take_call list"
  tv_queue :: "bytes list"
  tv_input :: "input_wait option"
  tv_sent :: "(jstring \<times> jstring \<times> bytes) list"
  tv_closed :: "jstring list"
  tv_missingLines :: bool
  tv_reopening :: "open_options list"
  tv_snapshotKey :: "TerminalSessionSnapshot option"
  tv_tabSnapshot :: "TerminalSessionSnapshot option"

section \<open>Labels\<close>

text \<open>\<open>cols || 80\<close> and \<open>rows || 24\<close>, at least one.\<close>

definition terminalSize :: "int \<times> int \<Rightarrow> int \<times> int" where
  "terminalSize xterm = (max 1 (if fst xterm = 0 then 80 else fst xterm), max 1 (if snd xterm = 0 then 24 else snd xterm))"

definition terminalCommandName :: "jstring \<Rightarrow> jstring" where
  "terminalCommandName command =
     (let normalized = map (\<lambda>c. if c = backslash then slash else c) command in
      last_or (segments (\<lambda>c. c = slash) normalized) command)"

definition terminalLaunchName :: "TerminalSessionInfo option \<Rightarrow> jstring" where
  "terminalLaunchName info =
     (case info of
        None \<Rightarrow> js ''Terminal''
      | Some session \<Rightarrow>
          if launch_command (tsi_launch session) = [] then js ''Terminal''
          else terminalCommandName (launch_command (tsi_launch session)))"

definition terminalExitMessage :: "TerminalExit \<Rightarrow> jstring" where
  "terminalExitMessage ex =
     (case te_code ex of
        Some code \<Rightarrow> js (''Process exited with code '' @ show_int code @ ''.'')
      | None \<Rightarrow>
          if truthy (te_signal ex) then js ''Process exited after signal '' @ the (te_signal ex) @ js ''.''
          else js ''Process exited.'')"

text \<open>\<open>humanizeCode\<close> on the codes of the protocol, which are ASCII: a space between a small letter or
  digit and a capital, runs of underscores and hyphens to a space, trimmed, in small letters.\<close>

definition small :: "char \<Rightarrow> bool" where
  "small c \<longleftrightarrow> (let n = of_char c :: nat in 97 \<le> n \<and> n \<le> 122 \<or> 48 \<le> n \<and> n \<le> 57)"

definition capital :: "char \<Rightarrow> bool" where
  "capital c \<longleftrightarrow> (let n = of_char c :: nat in 65 \<le> n \<and> n \<le> 90)"

fun spaced :: "string \<Rightarrow> string" where
  "spaced (a # b # s) = (if small a \<and> capital b then a # CHR '' '' # spaced (b # s) else a # spaced (b # s))"
| "spaced s = s"

fun dashes :: "bool \<Rightarrow> string \<Rightarrow> string" where
  "dashes inRun [] = []"
| "dashes inRun (c # s) =
     (if c = CHR ''_'' \<or> c = CHR ''-'' then (if inRun then dashes True s else CHR '' '' # dashes True s)
      else c # dashes False s)"

definition lower_char :: "char \<Rightarrow> char" where
  "lower_char c = (if capital c then char_of (of_char c + 32 :: nat) else c)"

definition upper_char :: "char \<Rightarrow> char" where
  "upper_char c = (let n = of_char c :: nat in if 97 \<le> n \<and> n \<le> 122 then char_of (n - 32) else c)"

definition capitalize :: "string \<Rightarrow> string" where
  "capitalize s = (case s of [] \<Rightarrow> [] | c # cs \<Rightarrow> upper_char c # cs)"

definition humanizeCode :: "string \<Rightarrow> string \<Rightarrow> string" where
  "humanizeCode code fallback =
     (let blank = (\<lambda>c. c = CHR '' '');
          words = map lower_char (drop_trailing blank (dropWhile blank (dashes False (spaced code)))) in
      if words = [] then fallback else capitalize words @ ''.'')"

fun closeReason_type :: "TerminalSessionCloseReason \<Rightarrow> string" where
  "closeReason_type (TerminalSessionFailed m) = ''failed''"
| "closeReason_type TerminalSessionClosedByClient = ''closedByClient''"
| "closeReason_type TerminalSessionDaemonShuttingDown = ''daemonShuttingDown''"
| "closeReason_type TerminalSessionUnknown = ''unknown''"

fun terminalSessionClosedMessage :: "TerminalSessionCloseReason \<Rightarrow> jstring" where
  "terminalSessionClosedMessage TerminalSessionClosedByClient = js ''A client closed this terminal session.''"
| "terminalSessionClosedMessage (TerminalSessionFailed m) = m"
| "terminalSessionClosedMessage reason =
     js (humanizeCode (closeReason_type reason) ''The terminal session was closed.'')"

record TerminalNotice =
  notice_action :: string
  notice_overlay :: bool
  notice_title :: string
  notice_message :: jstring

definition terminalNoticeFromState :: "terminal_view \<Rightarrow> TerminalNotice option" where
  "terminalNoticeFromState v =
     (case Option.bind (tv_info v) tsi_exit of
        Some ex \<Rightarrow> Some \<lparr>notice_action = ''Restart'', notice_overlay = False, notice_title = ''Exited'',
          notice_message = terminalExitMessage ex\<rparr>
      | None \<Rightarrow>
          let overlay = (\<lambda>title. Some \<lparr>notice_action = ''Start new terminal session'', notice_overlay = True,
            notice_title = title, notice_message = tv_note v\<rparr>) in
          if tv_phase v = TermMissing then overlay ''Terminal session closed''
          else if tv_phase v = TermClosed then overlay ''Terminal session closed''
          else if tv_phase v = TermError then overlay ''Terminal error''
          else None)"

fun isStalePrimaryAttachError :: "js_error \<Rightarrow> bool" where
  "isStalePrimaryAttachError (RpcError code m) = (code = js ''notPrimaryAttach'')"
| "isStalePrimaryAttachError _ = False"

fun isTerminalSessionNotFoundError :: "js_error \<Rightarrow> bool" where
  "isTerminalSessionNotFoundError (RpcError code m) = (code = js ''notFound'')"
| "isTerminalSessionNotFoundError _ = False"

section \<open>Helpers on the state\<close>

definition setStatus :: "terminal_phase \<Rightarrow> jstring \<Rightarrow> terminal_view \<Rightarrow> terminal_view" where
  "setStatus p note v = v\<lparr>tv_phase := p, tv_note := note\<rparr>"

definition stopCurrentAttach :: "terminal_view \<Rightarrow> terminal_view" where
  "stopCurrentAttach v =
     (case tv_stopAttach v of
        None \<Rightarrow> v
      | Some n \<Rightarrow> v\<lparr>tv_attaches := (tv_attaches v)[n := (tv_attaches v ! n)\<lparr>ar_cancelled := True\<rparr>],
          tv_stopAttach := None\<rparr>)"

text \<open>The references every (re)start and close resets.\<close>

definition forget_session :: "terminal_view \<Rightarrow> terminal_view" where
  "forget_session v = v\<lparr>tv_sessionId := None, tv_attachId := None, tv_primaryAttachId := None,
     tv_takeControl := None, tv_replayUntil := None, tv_suppressReplay := False, tv_replayDepth := 0,
     tv_latestSeq := None\<rparr>"

definition clearTerminalSessionReference :: "terminal_view \<Rightarrow> terminal_view" where
  "clearTerminalSessionReference v = (forget_session v)\<lparr>tv_tabSession := None\<rparr>"

text \<open>\<open>fitted\<close> is the size after \<open>fit()\<close>, \<open>None\<close> if it throws.\<close>

definition fitTerminal :: "(int \<times> int) option \<Rightarrow> terminal_view \<Rightarrow> terminal_view" where
  "fitTerminal fitted v =
     (case (tv_runtime v, fitted) of
        (Some _, Some dims) \<Rightarrow> v\<lparr>tv_runtime := Some dims, tv_dimensions := terminalSize dims\<rparr>
      | _ \<Rightarrow> v)"

definition terminalStartupSize :: "(int \<times> int) option \<Rightarrow> terminal_view \<Rightarrow> (int \<times> int) \<times> terminal_view" where
  "terminalStartupSize fitted v =
     (case tv_runtime v of
        None \<Rightarrow> (getOr (tv_lastSize v) (tv_dimensions v), v)
      | Some _ \<Rightarrow> let v = fitTerminal fitted v in (terminalSize (the (tv_runtime v)), v))"

definition isSuppressibleReplayOutput :: "int \<Rightarrow> terminal_view \<Rightarrow> bool" where
  "isSuppressibleReplayOutput seq v \<longleftrightarrow> (case tv_replayUntil v of None \<Rightarrow> False | Some until \<Rightarrow> seq \<le> until)"

definition writeTerminalOutput :: "bytes \<Rightarrow> bool \<Rightarrow> terminal_view \<Rightarrow> terminal_view" where
  "writeTerminalOutput chunk suppressGeneratedInput v =
     (if tv_runtime v = None then v
      else if \<not> suppressGeneratedInput then v\<lparr>tv_screen := tv_screen v @ [WroteBytes chunk False]\<rparr>
      else v\<lparr>tv_replayDepth := tv_replayDepth v + 1, tv_screen := tv_screen v @ [WroteBytes chunk True]\<rparr>)"

text \<open>The callback of a suppressed write; \<open>nat\<close> subtraction is \<open>Math.max(0, depth - 1)\<close>.\<close>

definition replay_written :: "terminal_view \<Rightarrow> terminal_view" where
  "replay_written v = v\<lparr>tv_replayDepth := tv_replayDepth v - 1\<rparr>"

definition isLivePrimaryAttach :: "terminal_view \<Rightarrow> bool" where
  "isLivePrimaryAttach v \<longleftrightarrow> tv_attachId v \<noteq> None \<and> tv_primaryAttachId v = tv_attachId v"

definition update_info :: "(TerminalSessionInfo \<Rightarrow> TerminalSessionInfo) \<Rightarrow> terminal_view \<Rightarrow> terminal_view" where
  "update_info f v = v\<lparr>tv_info := map_option f (tv_info v)\<rparr>"

section \<open>Taking control\<close>

text \<open>The part of \<open>takeCurrentControl\<close> before its call; the call is numbered by its place in \<open>tv_takes\<close>.\<close>

definition takeCurrentControl :: "bool \<Rightarrow> terminal_view \<Rightarrow> terminal_view" where
  "takeCurrentControl ensured v =
     (case (tv_runtime v, tv_sessionId v, tv_attachId v) of
        (Some xterm, Some terminalSessionId, Some attachId) \<Rightarrow>
          if tv_finished v \<or> \<not> tv_active v \<or> tv_machine v = None \<or> terminalSessionId = [] \<or> attachId = [] then v
          else let dims = terminalSize xterm in
            v\<lparr>tv_lastSize := Some dims, tv_dimensions := dims,
              tv_takes := tv_takes v @ [\<lparr>tk_session = terminalSessionId, tk_attach = attachId, tk_size = dims,
                tk_previous = tv_lastSize v, tk_ensured = ensured\<rparr>]\<rparr>
      | _ \<Rightarrow> v)"

text \<open>The answer of call \<open>i\<close>: the new primary attach, or an error.\<close>

definition take_answered :: "nat \<Rightarrow> jstring result \<Rightarrow> terminal_view \<Rightarrow> terminal_view" where
  "take_answered i answer v =
     (let call = tv_takes v ! i; dims = tk_size call in
      case answer of
        Inr primary \<Rightarrow>
          update_info (\<lambda>info. info\<lparr>tsi_cols := fst dims, tsi_rows := snd dims, tsi_primaryAttachId := Some primary\<rparr>)
            (setStatus TermAttached
              (if tk_previous call \<noteq> Some dims then js (show_int (fst dims) @ ''x'' @ show_int (snd dims))
               else js ''Terminal attached'')
              (v\<lparr>tv_primaryAttachId := Some primary\<rparr>))
      | Inl err \<Rightarrow> setStatus TermError (err_message err) v)"

section \<open>Events of an attached session\<close>

fun handleTerminalEvent :: "TerminalEvent \<Rightarrow> terminal_view \<Rightarrow> terminal_view" where
  "handleTerminalEvent (TerminalAttached attachId primaryAttachId session) v =
     (let v = v\<lparr>tv_attachId := Some attachId, tv_primaryAttachId := primaryAttachId,
            tv_replayUntil := (if tv_suppressReplay v then Some (tsi_latestOutputSeq session) else None),
            tv_info := Some session\<rparr> in
      case tsi_exit session of
        Some ex \<Rightarrow> setStatus TermClosed (terminalExitMessage ex) (v\<lparr>tv_finished := True\<rparr>)
      | None \<Rightarrow>
          let v = (if primaryAttachId = Some attachId then setStatus TermAttached (js ''Terminal attached'') v
                   else setStatus TermViewing (js ''Terminal attached in view mode'') v) in
          if tv_active v then takeCurrentControl False v else v)"
| "handleTerminalEvent (TerminalOutputChunk seq chunk) v =
     (let v = v\<lparr>tv_latestSeq := Some seq\<rparr>;
          v = writeTerminalOutput chunk (isSuppressibleReplayOutput seq v) v in
      case tv_replayUntil v of
        None \<Rightarrow> v
      | Some until \<Rightarrow> if until \<le> seq then v\<lparr>tv_replayUntil := None\<rparr> else v)"
| "handleTerminalEvent (TerminalHistoryGap nextSeq) v =
     setStatus TermViewing (js (''Output history resumes at '' @ show_int nextSeq)) v"
| "handleTerminalEvent (TerminalControlChanged primaryAttachId) v =
     (let v = v\<lparr>tv_primaryAttachId := Some primaryAttachId\<rparr> in
      if tv_attachId v = Some primaryAttachId then setStatus TermAttached (js ''Terminal attached'') v
      else setStatus TermViewing (js ''Another view has control'') v)"
| "handleTerminalEvent (TerminalPseudoTerminalResized cols rows) v =
     update_info (\<lambda>info. info\<lparr>tsi_cols := cols, tsi_rows := rows\<rparr>) (v\<lparr>tv_dimensions := (cols, rows)\<rparr>)"
| "handleTerminalEvent (TerminalSessionExited ex) v =
     update_info (\<lambda>info. info\<lparr>tsi_exit := Some ex\<rparr>) (v\<lparr>tv_finished := True\<rparr>)"
| "handleTerminalEvent (TerminalSessionClosed reason) v =
     setStatus TermClosed (terminalSessionClosedMessage reason)
       (clearTerminalSessionReference (v\<lparr>tv_finished := True\<rparr>))"
| "handleTerminalEvent (TerminalWorkingDirectoryChanged cwd) v =
     update_info (\<lambda>info. info\<lparr>tsi_lastKnownCwd := Some cwd\<rparr>) v"
| "handleTerminalEvent (TerminalTitleChanged title) v =
     update_info (\<lambda>info. info\<lparr>tsi_lastKnownTitle := Some title\<rparr>) v"

section \<open>Opening and attaching\<close>

text \<open>\<open>openTerminal\<close> up to its first await: it waits for the terminal to attach to an existing session,
  or has asked for a new one, or has failed; the lines about a missing command are written when the
  terminal exists.\<close>

definition start_generation :: "bool \<Rightarrow> terminal_view \<Rightarrow> terminal_view" where
  "start_generation existing v =
     (let v = forget_session (stopCurrentAttach (v\<lparr>tv_generation := tv_generation v + 1\<rparr>)) in
      v\<lparr>tv_suppressReplay := existing, tv_finished := False, tv_info := None, tv_snapshotKey := None,
        tv_screen := (if tv_runtime v = None then tv_screen v else [])\<rparr>)"

definition missing_lines :: "screen_write list" where
  "missing_lines = [WroteLine ''Terminal launch command is missing.'',
     WroteLine ''Open a terminal from the machine panel.'']"

definition command_missing :: "terminal_view \<Rightarrow> terminal_view" where
  "command_missing v =
     setStatus TermError (js ''Terminal launch command is missing'')
       (if tv_runtime v = None then v\<lparr>tv_missingLines := True\<rparr>
        else v\<lparr>tv_screen := tv_screen v @ missing_lines\<rparr>)"

definition openTerminal :: "(int \<times> int) option \<Rightarrow> open_options \<Rightarrow> terminal_view \<Rightarrow> terminal_view" where
  "openTerminal fitted options v =
     (if tv_machine v = None then v
      else let v = start_generation (oo_existing options \<noteq> None) v;
               waiting = setStatus TermWaiting (js ''Waiting for terminal'') in
        if truthy (oo_existing options) then
          (waiting (v\<lparr>tv_sessionId := oo_existing options\<rparr>))
            \<lparr>tv_waiting := tv_waiting v @ [(tv_generation v, the (oo_existing options))]\<rparr>
        else if \<not> truthy (map_option launch_command (oo_launch options)) then command_missing (waiting v)
        else let v = snd (terminalStartupSize fitted (waiting v)) in
          v\<lparr>tv_creating := tv_creating v @ [tv_generation v]\<rparr>)"

text \<open>The end of \<open>openTerminal\<close>: an error is shown unless another terminal has been opened since.\<close>

definition open_failed :: "nat \<Rightarrow> bool \<Rightarrow> js_error \<Rightarrow> terminal_view \<Rightarrow> terminal_view" where
  "open_failed generation existing err v =
     (if tv_generation v \<noteq> generation then v
      else if existing \<and> isTerminalSessionNotFoundError err then
        setStatus TermMissing (js ''The daemon no longer has this terminal session.'')
          (clearTerminalSessionReference v)
      else setStatus TermError (err_message err) v)"

text \<open>The answer of \<open>createTerminalSession\<close> for a generation: a session nobody waits for is closed again.\<close>

definition session_created :: "nat \<Rightarrow> TerminalSessionInfo result \<Rightarrow> terminal_view \<Rightarrow> terminal_view" where
  "session_created generation answer v =
     (let v = v\<lparr>tv_creating := filter (\<lambda>g. g \<noteq> generation) (tv_creating v)\<rparr> in
      case answer of
        Inl err \<Rightarrow> open_failed generation False err v
      | Inr session \<Rightarrow>
          let i = tsi_terminalSessionId session in
          if tv_generation v \<noteq> generation then v\<lparr>tv_closed := tv_closed v @ [i]\<rparr>
          else v\<lparr>tv_sessionId := Some i, tv_tabSession := Some i, tv_info := Some session,
            tv_waiting := tv_waiting v @ [(generation, i)]\<rparr>)"

text \<open>\<open>attachTerminal\<close> once the terminal exists; \<open>shown\<close> is the size the calling render knew. Its stream is
  numbered by its place in \<open>tv_attaches\<close>.\<close>

definition attachTerminal :: "nat \<Rightarrow> jstring \<Rightarrow> int \<times> int \<Rightarrow> terminal_view \<Rightarrow> terminal_view" where
  "attachTerminal generation terminalSessionId shown v =
     (let v = v\<lparr>tv_waiting := filter (\<lambda>(g, _). g \<noteq> generation) (tv_waiting v)\<rparr> in
      case tv_runtime v of
        None \<Rightarrow> v
      | Some xterm \<Rightarrow>
          let dims = (if tv_active v then terminalSize xterm else shown) in
          v\<lparr>tv_stopAttach := Some (length (tv_attaches v)),
            tv_attaches := tv_attaches v @ [\<lparr>ar_generation = generation, ar_session = terminalSessionId,
              ar_afterSeq = tv_latestSeq v, ar_size = dims, ar_cancelled = False\<rparr>]\<rparr>)"

text \<open>Whether the events of attach \<open>n\<close> are still handled.\<close>

definition attach_live :: "terminal_view \<Rightarrow> nat \<Rightarrow> bool" where
  "attach_live v n \<longleftrightarrow> n < length (tv_attaches v) \<and> \<not> ar_cancelled (tv_attaches v ! n) \<and>
     ar_generation (tv_attaches v ! n) = tv_generation v"

definition attach_event :: "nat \<Rightarrow> TerminalEvent \<Rightarrow> terminal_view \<Rightarrow> terminal_view" where
  "attach_event n ev v = (if attach_live v n then handleTerminalEvent ev v else v)"

definition attach_ended :: "nat \<Rightarrow> terminal_view \<Rightarrow> terminal_view" where
  "attach_ended n v =
     (if attach_live v n \<and> \<not> tv_finished v then setStatus TermClosed (js ''Terminal session ended.'') v else v)"

definition attach_failed :: "nat \<Rightarrow> bool \<Rightarrow> js_error \<Rightarrow> terminal_view \<Rightarrow> terminal_view" where
  "attach_failed n existing err v =
     (if n < length (tv_attaches v) then open_failed (ar_generation (tv_attaches v ! n)) existing err v else v)"

text \<open>The effect on the machine, the pairing and the daemon instance; its cleanup stops the attach.\<close>

definition terminal_effect ::
    "(int \<times> int) option \<Rightarrow> Machine option \<Rightarrow> jstring option \<Rightarrow> open_options \<Rightarrow> terminal_view \<Rightarrow> terminal_view" where
  "terminal_effect fitted machine daemonInstanceId options v =
     (let v = stopCurrentAttach (v\<lparr>tv_machine := machine\<rparr>) in
      if machine = None \<or> \<not> isPaired machine then
        setStatus TermIdle (js ''Terminal idle'') ((forget_session v)\<lparr>tv_info := None\<rparr>)
      else if \<not> truthy daemonInstanceId then
        setStatus TermWaiting (js ''Waiting for terminal'') ((forget_session v)\<lparr>tv_info := None\<rparr>)
      else openTerminal fitted options v)"

text \<open>The button of a notice: an exited session is closed first, then a new one is opened.\<close>

definition new_session_options :: "terminal_view \<Rightarrow> open_options \<Rightarrow> open_options" where
  "new_session_options v tab =
     \<lparr>oo_cwd = (case tv_info v of None \<Rightarrow> oo_cwd tab | Some info \<Rightarrow> orElse (tsi_lastKnownCwd info) (oo_cwd tab)),
      oo_existing = None,
      oo_launch = (case tv_info v of None \<Rightarrow> oo_launch tab | Some info \<Rightarrow> Some (tsi_launch info)),
      oo_title = (case tv_info v of None \<Rightarrow> oo_title tab | Some info \<Rightarrow> orElse (tsi_lastKnownTitle info) (oo_title tab))\<rparr>"

definition openNewTerminalSession ::
    "(int \<times> int) option \<Rightarrow> open_options \<Rightarrow> terminal_view \<Rightarrow> terminal_view" where
  "openNewTerminalSession fitted tab v =
     (let options = new_session_options v tab in
      if Option.bind (tv_info v) tsi_exit = None then openTerminal fitted options (clearTerminalSessionReference v)
      else v\<lparr>tv_reopening := tv_reopening v @ [options]\<rparr>)"

text \<open>The answer of \<open>closeTerminalSession\<close> for the exited session.\<close>

definition new_session_closed ::
    "(int \<times> int) option \<Rightarrow> open_options \<Rightarrow> unit result \<Rightarrow> terminal_view \<Rightarrow> terminal_view" where
  "new_session_closed fitted options answer v =
     (let v = v\<lparr>tv_reopening := remove1 options (tv_reopening v)\<rparr>;
          reopen = openTerminal fitted options (clearTerminalSessionReference v) in
      case answer of
        Inl err \<Rightarrow> if isTerminalSessionNotFoundError err then reopen else setStatus TermError (err_message err) v
      | Inr _ \<Rightarrow> reopen)"

section \<open>Input\<close>

definition queueTerminalInput :: "jstring \<Rightarrow> terminal_view \<Rightarrow> terminal_view" where
  "queueTerminalInput text v = v\<lparr>tv_queue := tv_queue v @ [text_encode text]\<rparr>"

text \<open>After the control check, the write goes to the session and attach of that moment.\<close>

definition input_write :: "bytes \<Rightarrow> terminal_view \<Rightarrow> terminal_view" where
  "input_write chunk v =
     (if truthy (tv_sessionId v) \<and> truthy (tv_attachId v) \<and> tv_primaryAttachId v = tv_attachId v then
        v\<lparr>tv_input := Some AwaitWrite,
          tv_sent := tv_sent v @ [(the (tv_sessionId v), the (tv_attachId v), chunk)]\<rparr>
      else v\<lparr>tv_input := None\<rparr>)"

text \<open>The next input of the queue; it may first have to take control (\<open>ensureCurrentControl\<close>).\<close>

definition input_next :: "terminal_view \<Rightarrow> terminal_view" where
  "input_next v =
     (case (tv_input v, tv_queue v) of
        (None, chunk # waiting) \<Rightarrow>
          let v = v\<lparr>tv_queue := waiting\<rparr> in
          if tv_finished v \<or> tv_machine v = None \<or> \<not> truthy (tv_sessionId v) then v
          else if isLivePrimaryAttach v then input_write chunk v
          else if \<not> tv_active v then v
          else (case tv_takeControl v of
              Some i \<Rightarrow> v\<lparr>tv_input := Some (AwaitControl i chunk)\<rparr>
            | None \<Rightarrow>
                let i = length (tv_takes v); v' = takeCurrentControl True v in
                if length (tv_takes v') = i then v'
                else v'\<lparr>tv_takeControl := Some i, tv_input := Some (AwaitControl i chunk)\<rparr>)
      | _ \<Rightarrow> v)"

text \<open>The answer of a control call, for the view and for an input that waits for it.\<close>

definition take_settled :: "nat \<Rightarrow> jstring result \<Rightarrow> terminal_view \<Rightarrow> terminal_view" where
  "take_settled i answer v =
     (let v = take_answered i answer v;
          v = (if tk_ensured (tv_takes v ! i) then v\<lparr>tv_takeControl := None\<rparr> else v) in
      case tv_input v of
        Some (AwaitControl j chunk) \<Rightarrow>
          if i = j then (if isLivePrimaryAttach v then input_write chunk v else v\<lparr>tv_input := None\<rparr>) else v
      | _ \<Rightarrow> v)"

definition input_written :: "unit result \<Rightarrow> terminal_view \<Rightarrow> terminal_view" where
  "input_written answer v =
     (let v = v\<lparr>tv_input := None\<rparr> in
      case answer of
        Inr _ \<Rightarrow> v
      | Inl err \<Rightarrow> if isStalePrimaryAttachError err then v else setStatus TermError (err_message err) v)"

section \<open>The terminal\<close>

definition runtime_ready :: "int \<times> int \<Rightarrow> terminal_view \<Rightarrow> terminal_view" where
  "runtime_ready dims v = v\<lparr>tv_runtime := Some dims, tv_lastSize := Some (terminalSize dims),
     tv_dimensions := terminalSize dims, tv_screen := (if tv_missingLines v then missing_lines else []),
     tv_missingLines := False\<rparr>"

definition terminal_unmounted :: "terminal_view \<Rightarrow> terminal_view" where
  "terminal_unmounted v = (stopCurrentAttach v)\<lparr>tv_runtime := None\<rparr>"

text \<open>The effect on the session's information: the tab is told when what it remembers has changed.\<close>

definition persist_snapshot :: "terminal_view \<Rightarrow> terminal_view" where
  "persist_snapshot v =
     (case tv_info v of
        None \<Rightarrow> v\<lparr>tv_snapshotKey := None\<rparr>
      | Some info \<Rightarrow>
          let snapshot = \<lparr>snap_cwd = tsi_lastKnownCwd info, snap_title = tsi_lastKnownTitle info,
                snap_launch = tsi_launch info\<rparr> in
          if tv_snapshotKey v = Some snapshot then v
          else v\<lparr>tv_snapshotKey := Some snapshot, tv_tabSnapshot := Some snapshot\<rparr>)"

definition setFocused :: "(int \<times> int) option \<Rightarrow> bool \<Rightarrow> terminal_view \<Rightarrow> terminal_view" where
  "setFocused fitted focused v =
     (let v = v\<lparr>tv_active := focused\<rparr> in
      if focused then takeCurrentControl False (fitTerminal fitted v) else v)"

definition resized :: "(int \<times> int) option \<Rightarrow> terminal_view \<Rightarrow> terminal_view" where
  "resized fitted v = takeCurrentControl False (fitTerminal fitted v)"

text \<open>Whether xterm's answer to a status query of the output is suppressed.\<close>

definition consumeReplayQuery :: "terminal_view \<Rightarrow> bool" where
  "consumeReplayQuery v \<longleftrightarrow> 0 < tv_replayDepth v"

text \<open>The keys the view keeps from the terminal: copy with a selection, and paste.\<close>

datatype terminal_key = KeyToTerminal | KeyCopies | KeyPastes

definition terminal_shortcut :: "bool \<Rightarrow> bool \<Rightarrow> bool \<Rightarrow> jstring \<Rightarrow> bool \<Rightarrow> terminal_key" where
  "terminal_shortcut keydown ctrlOrMeta alt key hasSelection =
     (if \<not> keydown then KeyToTerminal
      else if \<not> ctrlOrMeta \<or> alt then KeyToTerminal
      else if key \<in> {js ''c'', js ''C''} \<and> hasSelection then KeyCopies
      else if key \<in> {js ''v'', js ''V''} then KeyPastes
      else KeyToTerminal)"

text \<open>What the view shows: its notice with the label of the button, if a terminal can be opened, and the
  footer with the command, the directory and the size.\<close>

record terminal_surface =
  sf_waiting :: "jstring option"
  sf_notice :: "TerminalNotice option"
  sf_button :: "string option"
  sf_name :: jstring
  sf_cwd :: "jstring option"
  sf_size :: "int \<times> int"

datatype terminal_screen = TermNoMachine | TermPairingRequired | TermSurface terminal_surface

definition canOpenNewTerminal :: "terminal_view \<Rightarrow> TerminalLaunchSpec option \<Rightarrow> bool" where
  "canOpenNewTerminal v tabLaunch \<longleftrightarrow>
     truthy (case tv_info v of Some info \<Rightarrow> Some (launch_command (tsi_launch info))
             | None \<Rightarrow> map_option launch_command tabLaunch)"

definition TerminalTool :: "Machine option \<Rightarrow> TerminalLaunchSpec option \<Rightarrow> terminal_view \<Rightarrow> terminal_screen" where
  "TerminalTool machine tabLaunch v =
     (if machine = None then TermNoMachine
      else if \<not> isPaired machine then TermPairingRequired
      else let notice = terminalNoticeFromState v; cwd = Option.bind (tv_info v) tsi_lastKnownCwd in
        TermSurface \<lparr>sf_waiting = (if tv_phase v = TermWaiting then Some (tv_note v) else None),
          sf_notice = notice,
          sf_button = (if canOpenNewTerminal v tabLaunch then map_option notice_action notice else None),
          sf_name = terminalLaunchName (tv_info v),
          sf_cwd = (if truthy cwd then cwd else None),
          sf_size = (case tv_info v of Some info \<Rightarrow> (tsi_cols info, tsi_rows info) | None \<Rightarrow> tv_dimensions v)\<rparr>)"

definition initial_terminal :: "bool \<Rightarrow> jstring option \<Rightarrow> terminal_view" where
  "initial_terminal focused tabSession =
     \<lparr>tv_machine = None, tv_active = focused, tv_runtime = None, tv_sessionId = None, tv_attachId = None,
      tv_primaryAttachId = None, tv_latestSeq = None, tv_generation = 0, tv_stopAttach = None,
      tv_takeControl = None, tv_replayUntil = None, tv_suppressReplay = False, tv_replayDepth = 0,
      tv_finished = False, tv_lastSize = None, tv_phase = TermWaiting, tv_note = js ''Waiting for terminal'',
      tv_dimensions = (80, 24), tv_info = None, tv_tabSession = tabSession, tv_screen = [], tv_creating = [],
      tv_waiting = [], tv_attaches = [], tv_takes = [], tv_queue = [], tv_input = None, tv_sent = [],
      tv_closed = [], tv_missingLines = False, tv_reopening = [], tv_snapshotKey = None, tv_tabSnapshot = None\<rparr>"

end
