(* ===== verification/TerminalRuns.thy ===== *)
theory TerminalRuns
  imports TerminalView
begin

text \<open>
  What holds of the terminal tool in every run: which attach its events come from, which session its
  input goes to, and how replayed output is told from new output. The runs interleave the
  continuations of \<open>TerminalView\<close> in any order: an \<open>openTerminal\<close> that created its session waits for the
  terminal twice, one with an existing session once, so a later one may attach first.
\<close>

section \<open>Runs\<close>

text \<open>The attach ids the daemon has handed out, with the session each of them is for.\<close>

fun granted_by :: "jstring \<Rightarrow> TerminalEvent \<Rightarrow> (jstring \<times> jstring) set" where
  "granted_by i (TerminalAttached attachId primaryAttachId session) = {(i, attachId)}"
| "granted_by i _ = {}"

inductive terminal_reachable :: "(jstring \<times> jstring) set \<Rightarrow> terminal_view \<Rightarrow> bool" where
  term_initial: "terminal_reachable {} (initial_terminal focused tabSession)"
| term_effect: "terminal_reachable G v \<Longrightarrow>
    terminal_reachable G (terminal_effect fitted machine daemonInstanceId options v)"
| term_new: "terminal_reachable G v \<Longrightarrow>
    terminal_reachable G (openNewTerminalSession fitted tab v)"
| term_closed: "terminal_reachable G v \<Longrightarrow> options \<in> set (tv_reopening v) \<Longrightarrow>
    terminal_reachable G (new_session_closed fitted options closeAnswer v)"
| term_created: "terminal_reachable G v \<Longrightarrow> g \<in> set (tv_creating v) \<Longrightarrow>
    terminal_reachable G (session_created g created v)"
| term_attach: "terminal_reachable G v \<Longrightarrow> (g, i) \<in> set (tv_waiting v) \<Longrightarrow>
    terminal_reachable G (attachTerminal g i shown v)"
| term_event: "terminal_reachable G v \<Longrightarrow> n < length (tv_attaches v) \<Longrightarrow>
    terminal_reachable (G \<union> granted_by (ar_session (tv_attaches v ! n)) ev) (attach_event n ev v)"
| term_ended: "terminal_reachable G v \<Longrightarrow> terminal_reachable G (attach_ended n v)"
| term_failed: "terminal_reachable G v \<Longrightarrow> terminal_reachable G (attach_failed n existing err v)"
| term_ready: "terminal_reachable G v \<Longrightarrow> terminal_reachable G (runtime_ready dims v)"
| term_unmount: "terminal_reachable G v \<Longrightarrow> terminal_reachable G (terminal_unmounted v)"
| term_focus: "terminal_reachable G v \<Longrightarrow> terminal_reachable G (setFocused fitted focused v)"
| term_resize: "terminal_reachable G v \<Longrightarrow> terminal_reachable G (resized fitted v)"
| term_replayed: "terminal_reachable G v \<Longrightarrow> terminal_reachable G (replay_written v)"
| term_persist: "terminal_reachable G v \<Longrightarrow> terminal_reachable G (persist_snapshot v)"
| term_queue: "terminal_reachable G v \<Longrightarrow> terminal_reachable G (queueTerminalInput text v)"
| term_input: "terminal_reachable G v \<Longrightarrow> terminal_reachable G (input_next v)"
| term_take: "terminal_reachable G v \<Longrightarrow> i < length (tv_takes v) \<Longrightarrow>
    terminal_reachable G (take_settled i primary v)"
| term_written: "terminal_reachable G v \<Longrightarrow> terminal_reachable G (input_written written v)"

section \<open>The invariant\<close>

text \<open>The generations with work in flight: each has at most one, and none is newer than the view's.\<close>

definition run_generations :: "terminal_view \<Rightarrow> nat list" where
  "run_generations v = tv_creating v @ map fst (tv_waiting v) @ map ar_generation (tv_attaches v)"

definition runs_ok :: "terminal_view \<Rightarrow> bool" where
  "runs_ok v \<longleftrightarrow> distinct (run_generations v) \<and> (\<forall>g \<in> set (run_generations v). g \<le> tv_generation v) \<and>
     (\<forall>n. tv_stopAttach v = Some n \<longrightarrow> n < length (tv_attaches v))"

text \<open>The session the view refers to is the one its current generation is about.\<close>

definition runs_of :: "terminal_view \<Rightarrow> (nat \<times> jstring) set" where
  "runs_of v = (\<lambda>run. (ar_generation run, ar_session run)) ` set (tv_attaches v) \<union> set (tv_waiting v)"

definition session_ok :: "terminal_view \<Rightarrow> bool" where
  "session_ok v \<longleftrightarrow>
     (\<forall>(g, i) \<in> runs_of v. g = tv_generation v \<longrightarrow> tv_sessionId v \<in> {None, Some i}) \<and>
     (tv_generation v \<in> set (tv_creating v) \<longrightarrow> tv_sessionId v = None \<and> tv_attachId v = None)"

definition grants_ok :: "(jstring \<times> jstring) set \<Rightarrow> terminal_view \<Rightarrow> bool" where
  "grants_ok G v \<longleftrightarrow>
     (\<forall>i a. tv_sessionId v = Some i \<longrightarrow> tv_attachId v = Some a \<longrightarrow> (i, a) \<in> G) \<and>
     (\<forall>call \<in> set (tv_takes v). (tk_session call, tk_attach call) \<in> G) \<and>
     (\<forall>(i, a, chunk) \<in> set (tv_sent v). (i, a) \<in> G)"

definition terminal_ok :: "(jstring \<times> jstring) set \<Rightarrow> terminal_view \<Rightarrow> bool" where
  "terminal_ok G v \<longleftrightarrow> runs_ok v \<and> session_ok v \<and> grants_ok G v"

text \<open>The invariant depends on these fields only; most steps leave them alone.\<close>

definition core :: "terminal_view \<Rightarrow> nat \<times> nat list \<times> (nat \<times> jstring) list \<times> attach_run list \<times> nat option \<times>
    jstring option \<times> jstring option \<times> take_call list \<times> (jstring \<times> jstring \<times> bytes) list" where
  "core v = (tv_generation v, tv_creating v, tv_waiting v, tv_attaches v, tv_stopAttach v, tv_sessionId v,
     tv_attachId v, tv_takes v, tv_sent v)"

lemma terminal_ok_core: "core v' = core v \<Longrightarrow> terminal_ok G v' = terminal_ok G v"
  by (simp add: core_def terminal_ok_def runs_ok_def run_generations_def session_ok_def runs_of_def grants_ok_def)

lemma core_simps [simp]:
  "core (setStatus p note v) = core v"
  "core (update_info f v) = core v"
  "core (fitTerminal fitted v) = core v"
  "core (snd (terminalStartupSize fitted v)) = core v"
  "core (replay_written v) = core v"
  "core (writeTerminalOutput chunk b v) = core v"
  "core (persist_snapshot v) = core v"
  "core (runtime_ready dims v) = core v"
  "core (queueTerminalInput text v) = core v"
  "core (input_written written v) = core v"
  "core (command_missing v) = core v"
  by (auto simp: core_def setStatus_def update_info_def fitTerminal_def terminalStartupSize_def
      replay_written_def writeTerminalOutput_def persist_snapshot_def runtime_ready_def queueTerminalInput_def
      input_written_def command_missing_def Let_def split: option.splits sum.splits)

lemma core_ok:
  assumes "terminal_ok G v" "core v' = core v"
  shows "terminal_ok G v'"
  using assms terminal_ok_core by blast

lemma attach_live_core: "core v' = core v \<Longrightarrow> attach_live v' n = attach_live v n"
  by (simp add: core_def attach_live_def)

lemma grants_mono: "grants_ok G v \<Longrightarrow> G \<subseteq> H \<Longrightarrow> grants_ok H v"
  unfolding grants_ok_def by blast

section \<open>Stopping\<close>

lemma stop_fields [simp]:
  "tv_generation (stopCurrentAttach v) = tv_generation v"
  "tv_creating (stopCurrentAttach v) = tv_creating v"
  "tv_waiting (stopCurrentAttach v) = tv_waiting v"
  "tv_sessionId (stopCurrentAttach v) = tv_sessionId v"
  "tv_attachId (stopCurrentAttach v) = tv_attachId v"
  "tv_takes (stopCurrentAttach v) = tv_takes v"
  "tv_sent (stopCurrentAttach v) = tv_sent v"
  "tv_stopAttach (stopCurrentAttach v) = None"
  "length (tv_attaches (stopCurrentAttach v)) = length (tv_attaches v)"
  by (simp_all add: stopCurrentAttach_def split: option.split)

lemma stop_nth:
  "n < length (tv_attaches v) \<Longrightarrow> tv_attaches (stopCurrentAttach v) ! n =
     (if tv_stopAttach v = Some n then (tv_attaches v ! n)\<lparr>ar_cancelled := True\<rparr> else tv_attaches v ! n)"
  by (cases "tv_stopAttach v") (auto simp: stopCurrentAttach_def nth_list_update)

lemma stop_runs:
  "map ar_generation (tv_attaches (stopCurrentAttach v)) = map ar_generation (tv_attaches v)"
  "map (\<lambda>r. (ar_generation r, ar_session r)) (tv_attaches (stopCurrentAttach v)) =
   map (\<lambda>r. (ar_generation r, ar_session r)) (tv_attaches v)"
  by (rule nth_equalityI; simp add: stop_nth)+

lemma stop_runs_images:
  "ar_generation ` set (tv_attaches (stopCurrentAttach v)) = ar_generation ` set (tv_attaches v)"
  "(\<lambda>r. (ar_generation r, ar_session r)) ` set (tv_attaches (stopCurrentAttach v)) =
   (\<lambda>r. (ar_generation r, ar_session r)) ` set (tv_attaches v)"
  using arg_cong [OF stop_runs(1) [of v], of set] arg_cong [OF stop_runs(2) [of v], of set] by simp_all

lemma stop_generations [simp]: "run_generations (stopCurrentAttach v) = run_generations v"
  by (simp add: run_generations_def stop_runs)

lemma stop_ok:
  assumes "terminal_ok G v"
  shows "terminal_ok G (stopCurrentAttach v)"
proof -
  have "runs_ok (stopCurrentAttach v)" using assms by (simp add: terminal_ok_def runs_ok_def)
  moreover have "session_ok (stopCurrentAttach v)"
    using assms by (simp add: terminal_ok_def session_ok_def runs_of_def stop_runs_images)
  ultimately show ?thesis using assms by (simp add: terminal_ok_def grants_ok_def)
qed

section \<open>Preservation\<close>

lemma forget_fields [simp]:
  "tv_generation (forget_session v) = tv_generation v" "tv_creating (forget_session v) = tv_creating v"
  "tv_waiting (forget_session v) = tv_waiting v" "tv_attaches (forget_session v) = tv_attaches v"
  "tv_stopAttach (forget_session v) = tv_stopAttach v" "tv_takes (forget_session v) = tv_takes v"
  "tv_sent (forget_session v) = tv_sent v" "tv_sessionId (forget_session v) = None"
  "tv_attachId (forget_session v) = None" "tv_machine (forget_session v) = tv_machine v"
  by (simp_all add: forget_session_def)

lemma parts_of_runs [simp]:
  "runs_ok (forget_session v) = runs_ok v"
  "runs_ok (v\<lparr>tv_takes := takes\<rparr>) = runs_ok v"
  "session_ok (v\<lparr>tv_takes := takes\<rparr>) = session_ok v"
  "runs_ok (v\<lparr>tv_sent := sent\<rparr>) = runs_ok v"
  "session_ok (v\<lparr>tv_sent := sent\<rparr>) = session_ok v"
  "runs_ok (v\<lparr>tv_attachId := a\<rparr>) = runs_ok v"
  by (simp_all add: runs_ok_def run_generations_def session_ok_def runs_of_def)

lemma session_ok_forget [simp]: "session_ok (forget_session v)"
  by (simp add: session_ok_def)

lemma grants_ok_forget: "grants_ok G v \<Longrightarrow> grants_ok G (forget_session v)"
  by (simp add: grants_ok_def)

lemma session_forget_ok: "terminal_ok G v \<Longrightarrow> terminal_ok G (forget_session v)"
  by (simp add: terminal_ok_def grants_ok_forget)

lemma reference_clear_ok: "terminal_ok G v \<Longrightarrow> terminal_ok G (clearTerminalSessionReference v)"
  unfolding clearTerminalSessionReference_def by (rule core_ok [OF session_forget_ok]) (simp_all add: core_def)

lemma takeCurrentControl_cases:
  obtains "takeCurrentControl e v = v"
  | i a call where "tv_sessionId v = Some i" "tv_attachId v = Some a" "tk_session call = i" "tk_attach call = a"
    "core (takeCurrentControl e v) = core (v\<lparr>tv_takes := tv_takes v @ [call]\<rparr>)"
proof (cases "takeCurrentControl e v = v")
  case False
  then obtain xterm i a where r: "tv_runtime v = Some xterm" "tv_sessionId v = Some i" "tv_attachId v = Some a"
    by (auto simp: takeCurrentControl_def split: option.splits)
  let ?call = "\<lparr>tk_session = i, tk_attach = a, tk_size = terminalSize xterm, tk_previous = tv_lastSize v,
    tk_ensured = e\<rparr>"
  from False r have "core (takeCurrentControl e v) = core (v\<lparr>tv_takes := tv_takes v @ [?call]\<rparr>)"
    by (simp add: takeCurrentControl_def Let_def core_def split: if_splits)
  then show ?thesis using r that(2) [of i a ?call] by simp
qed (rule that(1))

lemma grants_ok_take:
  assumes "grants_ok G v" "(tk_session call, tk_attach call) \<in> G"
  shows "grants_ok G (v\<lparr>tv_takes := tv_takes v @ [call]\<rparr>)"
  using assms by (simp add: grants_ok_def)

lemma take_ok: "terminal_ok G v \<Longrightarrow> terminal_ok G (takeCurrentControl e v)"
proof (cases rule: takeCurrentControl_cases [of e v])
  case (2 i a call)
  assume ok: "terminal_ok G v"
  with 2 have "(tk_session call, tk_attach call) \<in> G" by (simp add: terminal_ok_def grants_ok_def)
  with ok have "terminal_ok G (v\<lparr>tv_takes := tv_takes v @ [call]\<rparr>)"
    by (simp add: terminal_ok_def grants_ok_take)
  then show ?thesis by (rule core_ok) (rule 2)
qed simp

text \<open>A generation bump leaves every recorded generation below the new one.\<close>

definition older :: "terminal_view \<Rightarrow> bool" where
  "older v \<longleftrightarrow> (\<forall>g \<in> set (run_generations v). g < tv_generation v)"

lemma bump_older: "runs_ok v \<Longrightarrow> older (v\<lparr>tv_generation := tv_generation v + 1\<rparr>)"
  by (simp add: older_def runs_ok_def run_generations_def less_Suc_eq_le)

lemma older_runs: "older v \<Longrightarrow> (g, i) \<in> runs_of v \<Longrightarrow> g < tv_generation v"
  by (force simp: runs_of_def older_def run_generations_def ball_Un)

lemma older_session_ok:
  assumes "older v"
  shows "session_ok v"
proof -
  note older_runs [OF assms]
  moreover have "tv_generation v \<notin> set (tv_creating v)"
    using assms by (auto simp: older_def run_generations_def)
  ultimately show ?thesis by (fastforce simp: session_ok_def)
qed

lemma bump_ok:
  assumes "terminal_ok G v"
  shows "terminal_ok G (v\<lparr>tv_generation := tv_generation v + 1\<rparr>)"
proof -
  let ?n = "v\<lparr>tv_generation := tv_generation v + 1\<rparr>"
  from assms have r: "runs_ok v" and g: "grants_ok G v" by (simp_all add: terminal_ok_def)
  from r have o: "older ?n" by (rule bump_older)
  from r have "runs_ok ?n" by (simp add: runs_ok_def run_generations_def le_SucI)
  moreover have "grants_ok G ?n" using g by (simp add: grants_ok_def)
  ultimately show ?thesis unfolding terminal_ok_def using older_session_ok [OF o] by blast
qed

lemma start_generation_core:
  "core (start_generation e v) = core (forget_session (stopCurrentAttach (v\<lparr>tv_generation := tv_generation v + 1\<rparr>)))"
  by (simp add: start_generation_def core_def Let_def)

lemma start_generation_ok:
  assumes "terminal_ok G v"
  shows "terminal_ok G (start_generation e v)"
  by (rule core_ok [OF _ start_generation_core]) (intro session_forget_ok stop_ok bump_ok assms)

lemma start_generation_fields [simp]:
  "tv_sessionId (start_generation e v) = None" "tv_attachId (start_generation e v) = None"
  "tv_stopAttach (start_generation e v) = None"
  by (simp_all add: start_generation_def Let_def)

lemma start_generation_older:
  assumes "runs_ok v"
  shows "older (start_generation e v)"
  using bump_older [OF assms]
  by (simp add: older_def run_generations_def start_generation_def Let_def stop_runs_images)

section \<open>Opening, attaching, events\<close>

lemma waiting_ok:
  assumes "terminal_ok G v" "older v" "tv_stopAttach v = None" "tv_attachId v = None"
  shows "terminal_ok G (v\<lparr>tv_sessionId := Some i, tv_waiting := tv_waiting v @ [(tv_generation v, i)]\<rparr>)"
    (is "terminal_ok G ?w")
proof -
  from assms have r: "runs_ok v" and g: "grants_ok G v" by (simp_all add: terminal_ok_def)
  have "runs_ok ?w"
    using r assms(2) by (auto simp: runs_ok_def older_def run_generations_def)
  moreover have "session_ok ?w"
  proof -
    have "j = i" if "(tv_generation v, j) \<in> runs_of ?w" for j
      using that older_runs [OF assms(2), of "tv_generation v" j] by (auto simp: runs_of_def)
    moreover have "tv_generation v \<notin> set (tv_creating v)" using assms(2) by (auto simp: older_def run_generations_def)
    ultimately show ?thesis unfolding session_ok_def by auto
  qed
  moreover have "grants_ok G ?w" using g assms(4) by (simp add: grants_ok_def)
  ultimately show ?thesis by (simp add: terminal_ok_def)
qed

lemma creating_ok:
  assumes "terminal_ok G v" "older v" "tv_sessionId v = None" "tv_attachId v = None"
  shows "terminal_ok G (v\<lparr>tv_creating := tv_creating v @ [tv_generation v]\<rparr>)" (is "terminal_ok G ?w")
proof -
  from assms have r: "runs_ok v" and g: "grants_ok G v" by (simp_all add: terminal_ok_def)
  have "runs_ok ?w" using r assms(2) by (auto simp: runs_ok_def older_def run_generations_def)
  moreover have "session_ok ?w" using assms(3,4) by (simp add: session_ok_def)
  moreover have "grants_ok G ?w" using g by (simp add: grants_ok_def)
  ultimately show ?thesis by (simp add: terminal_ok_def)
qed

lemma openTerminal_ok:
  assumes "terminal_ok G v"
  shows "terminal_ok G (openTerminal fitted options v)"
proof -
  let ?s = "start_generation (oo_existing options \<noteq> None) v"
  let ?u = "snd (terminalStartupSize fitted (setStatus TermWaiting (js ''Waiting for terminal'') ?s))"
  have s: "terminal_ok G ?s" by (rule start_generation_ok [OF assms])
  have o: "older ?s" by (rule start_generation_older) (use assms in \<open>simp add: terminal_ok_def\<close>)
  have c: "core ?u = core ?s" by simp
  have u: "terminal_ok G ?u" by (rule core_ok [OF s c])
  have ou: "older ?u" using o c by (simp add: older_def run_generations_def core_def)
  have 1: "terminal_ok G (?s\<lparr>tv_sessionId := Some i, tv_waiting := tv_waiting ?s @ [(tv_generation ?s, i)]\<rparr>)" for i
    by (rule waiting_ok [OF s o]) simp_all
  have 2: "terminal_ok G (?u\<lparr>tv_creating := tv_creating ?u @ [tv_generation ?u]\<rparr>)"
    by (rule creating_ok [OF u ou]) (use c in \<open>simp_all add: core_def\<close>)
  have 3: "terminal_ok G (command_missing (setStatus TermWaiting (js ''Waiting for terminal'') ?s))"
    by (rule core_ok [OF s]) simp
  show ?thesis
  proof (cases "tv_machine v = None")
    case True
    then show ?thesis using assms by (simp add: openTerminal_def)
  next
    case m: False
    show ?thesis
    proof (cases "truthy (oo_existing options)")
      case True
      then obtain i where i: "oo_existing options = Some i" by (cases "oo_existing options") (auto simp: truthy_def)
      with True m show ?thesis
        by (intro core_ok [OF 1 [of i]]) (auto simp: openTerminal_def Let_def core_def setStatus_def)
    next
      case False
      with 2 3 show ?thesis unfolding openTerminal_def Let_def by (simp add: m)
    qed
  qed
qed

lemma status_ok: "terminal_ok G v \<Longrightarrow> terminal_ok G (setStatus p note v)"
  by (rule core_ok) simp_all

lemma open_failed_ok: "terminal_ok G v \<Longrightarrow> terminal_ok G (open_failed g existing err v)"
  by (simp add: open_failed_def reference_clear_ok status_ok)

lemma session_created_ok:
  assumes "terminal_ok G v" "g \<in> set (tv_creating v)"
  shows "terminal_ok G (session_created g answer v)"
proof -
  let ?v = "v\<lparr>tv_creating := filter (\<lambda>h. h \<noteq> g) (tv_creating v)\<rparr>"
  from assms have r: "runs_ok v" and s: "session_ok v" and gr: "grants_ok G v" by (simp_all add: terminal_ok_def)
  have rv: "runs_ok ?v" using r by (auto simp: runs_ok_def run_generations_def)
  have sv: "session_ok ?v" using s by (auto simp: session_ok_def runs_of_def)
  have gv: "grants_ok G ?v" using gr by (simp add: grants_ok_def)
  have v: "terminal_ok G ?v" using rv sv gv by (simp add: terminal_ok_def)
  show ?thesis
  proof (cases answer)
    case (Inl err)
    then show ?thesis using open_failed_ok [OF v] by (simp add: session_created_def Let_def)
  next
    case (Inr session)
    let ?i = "tsi_terminalSessionId session"
    let ?w = "?v\<lparr>tv_sessionId := Some ?i, tv_waiting := tv_waiting ?v @ [(g, ?i)]\<rparr>"
    show ?thesis
    proof (cases "tv_generation v = g")
      case False
      then show ?thesis using core_ok [OF v] Inr by (simp add: session_created_def core_def)
    next
      case True
      have fresh: "g \<notin> ar_generation ` set (tv_attaches v) \<union> fst ` set (tv_waiting v)"
        using r assms(2) by (auto simp: runs_ok_def run_generations_def)
      then have "runs_ok ?w" using rv True by (auto simp: runs_ok_def run_generations_def)
      moreover have "session_ok ?w"
      proof -
        have "j = ?i" if "(g, j) \<in> runs_of ?w" for j
          using that fresh by (force simp: runs_of_def)
        then show ?thesis using True by (auto simp: session_ok_def)
      qed
      moreover have "grants_ok G ?w"
        using gv s assms(2) True by (simp add: grants_ok_def session_ok_def)
      ultimately have "terminal_ok G ?w" by (simp add: terminal_ok_def)
      then show ?thesis by (rule core_ok) (simp add: session_created_def core_def Let_def Inr True)
    qed
  qed
qed

lemma attachTerminal_ok:
  assumes "terminal_ok G v" "(g, i) \<in> set (tv_waiting v)"
  shows "terminal_ok G (attachTerminal g i shown v)"
proof -
  from assms have r: "runs_ok v" and s: "session_ok v" and gr: "grants_ok G v" by (simp_all add: terminal_ok_def)
  let ?v = "v\<lparr>tv_waiting := filter (\<lambda>(h, _). h \<noteq> g) (tv_waiting v)\<rparr>"
  have g: "g \<in> set (map fst (tv_waiting v))" using assms(2) by force
  have rv: "runs_ok ?v" using r by (auto simp: runs_ok_def run_generations_def distinct_map_filter)
  have sub: "runs_of ?v \<subseteq> runs_of v" by (auto simp: runs_of_def)
  have sv: "session_ok ?v" using s sub by (auto simp: session_ok_def)
  have gv: "grants_ok G ?v" using gr by (simp add: grants_ok_def)
  have v: "terminal_ok G ?v" using rv sv gv by (simp add: terminal_ok_def)
  show ?thesis
  proof (cases "tv_runtime v")
    case None
    then show ?thesis using v by (simp add: attachTerminal_def Let_def)
  next
    case (Some xterm)
    define dims where "dims = (if tv_active v then terminalSize xterm else shown)"
    let ?run = "\<lparr>ar_generation = g, ar_session = i, ar_afterSeq = tv_latestSeq v, ar_size = dims, ar_cancelled = False\<rparr>"
    let ?w = "?v\<lparr>tv_stopAttach := Some (length (tv_attaches v)), tv_attaches := tv_attaches v @ [?run]\<rparr>"
    have "g \<notin> set (tv_creating v)" "g \<notin> ar_generation ` set (tv_attaches v)" "g \<le> tv_generation v"
      using r g by (auto simp: runs_ok_def run_generations_def)
    then have "runs_ok ?w" using rv by (auto simp: runs_ok_def run_generations_def)
    moreover have "runs_of ?w \<subseteq> runs_of v" using assms(2) by (auto simp: runs_of_def)
    then have "session_ok ?w" using s by (auto simp: session_ok_def)
    moreover have "grants_ok G ?w" using gr by (simp add: grants_ok_def)
    ultimately have "terminal_ok G ?w" by (simp add: terminal_ok_def)
    then show ?thesis by (rule core_ok) (simp add: attachTerminal_def Let_def Some core_def dims_def)
  qed
qed

lemma terminal_ok_mono: "terminal_ok G v \<Longrightarrow> G \<subseteq> H \<Longrightarrow> terminal_ok H v"
  unfolding terminal_ok_def using grants_mono by blast

lemma attached_ok:
  assumes "terminal_ok G v" "attach_live v n"
  shows "terminal_ok (insert (ar_session (tv_attaches v ! n), a) G) (v\<lparr>tv_attachId := Some a\<rparr>)"
    (is "terminal_ok ?H ?w")
proof -
  from assms have r: "runs_ok v" and s: "session_ok v" and gr: "grants_ok G v" by (simp_all add: terminal_ok_def)
  let ?run = "tv_attaches v ! n"
  have m: "?run \<in> set (tv_attaches v)" and g: "ar_generation ?run = tv_generation v"
    using assms(2) by (simp_all add: attach_live_def)
  have "(tv_generation v, ar_session ?run) \<in> runs_of v" using m g by (force simp: runs_of_def)
  then have i: "tv_sessionId v \<in> {None, Some (ar_session ?run)}" using s by (auto simp: session_ok_def)
  have "tv_generation v \<in> ar_generation ` set (tv_attaches v)" using m g by (metis imageI)
  then have c: "tv_generation v \<notin> set (tv_creating v)" using r by (auto simp: runs_ok_def run_generations_def)
  have "runs_of ?w = runs_of v" by (simp add: runs_of_def)
  then have "session_ok ?w" using s c by (simp add: session_ok_def)
  moreover have "grants_ok ?H ?w" using gr i by (auto simp: grants_ok_def)
  moreover have "runs_ok ?w" using r by simp
  ultimately show ?thesis by (simp add: terminal_ok_def)
qed

lemma event_ok:
  assumes "terminal_ok G v" "attach_live v n"
  shows "terminal_ok (G \<union> granted_by (ar_session (tv_attaches v ! n)) ev) (handleTerminalEvent ev v)"
proof (cases ev)
  case (TerminalAttached a primary session)
  let ?G = "insert (ar_session (tv_attaches v ! n), a) G"
  have 1: "terminal_ok ?G (v\<lparr>tv_attachId := Some a\<rparr>)" by (rule attached_ok [OF assms])
  have 2: "terminal_ok ?G w" if "core w = core (v\<lparr>tv_attachId := Some a\<rparr>)" for w
    by (rule core_ok [OF 1 that])
  let ?v = "v\<lparr>tv_attachId := Some a, tv_primaryAttachId := primary,
    tv_replayUntil := (if tv_suppressReplay v then Some (tsi_latestOutputSeq session) else None),
    tv_info := Some session\<rparr>"
  have v: "terminal_ok ?G ?v" by (rule 2) (simp add: core_def)
  then have f: "terminal_ok ?G (?v\<lparr>tv_finished := True\<rparr>)" by (rule core_ok) (simp add: core_def)
  define x where "x = (if primary = Some a then setStatus TermAttached (js ''Terminal attached'') ?v
    else setStatus TermViewing (js ''Terminal attached in view mode'') ?v)"
  have x: "terminal_ok ?G x" unfolding x_def using status_ok [OF v] by presburger
  define y where "y = ?v\<lparr>tv_finished := True\<rparr>"
  have y: "terminal_ok ?G y" unfolding y_def by (rule f)
  have "handleTerminalEvent (TerminalAttached a primary session) v =
      (case tsi_exit session of Some ex \<Rightarrow> setStatus TermClosed (terminalExitMessage ex) y
      | None \<Rightarrow> if tv_active x then takeCurrentControl False x else x)"
    by (simp add: x_def y_def Let_def split: option.split)
  then show ?thesis
    unfolding TerminalAttached using x status_ok [OF y] take_ok [OF x] by (simp split: option.split)
next
  case (TerminalSessionClosed reason)
  have "terminal_ok G (clearTerminalSessionReference (v\<lparr>tv_finished := True\<rparr>))"
    by (rule reference_clear_ok [OF core_ok [OF assms(1)]]) (simp add: core_def)
  then show ?thesis using TerminalSessionClosed by (simp add: status_ok)
next
  case (TerminalOutputChunk seq chunk)
  have "core (handleTerminalEvent ev v) = core v"
    using TerminalOutputChunk by (auto simp: core_def writeTerminalOutput_def Let_def split: option.split)
  then show ?thesis using core_ok [OF assms(1)] TerminalOutputChunk by simp
qed (simp_all add: core_ok [OF assms(1)] core_def setStatus_def update_info_def Let_def)

lemma attach_event_ok:
  assumes "terminal_ok G v"
  shows "terminal_ok (G \<union> granted_by (ar_session (tv_attaches v ! n)) ev) (attach_event n ev v)"
  using event_ok [OF assms] terminal_ok_mono [OF assms] by (simp add: attach_event_def)

section \<open>Input\<close>

lemma input_write_ok:
  assumes "terminal_ok G v"
  shows "terminal_ok G (input_write chunk v)"
proof (cases "truthy (tv_sessionId v) \<and> truthy (tv_attachId v) \<and> tv_primaryAttachId v = tv_attachId v")
  case True
  then obtain i a where ia: "tv_sessionId v = Some i" "tv_attachId v = Some a"
    by (auto simp: truthy_def split: option.splits)
  from assms have "grants_ok G v" and rs: "runs_ok v" "session_ok v" by (simp_all add: terminal_ok_def)
  with ia have "grants_ok G (v\<lparr>tv_sent := tv_sent v @ [(i, a, chunk)]\<rparr>)" by (auto simp: grants_ok_def)
  with rs have "terminal_ok G (v\<lparr>tv_sent := tv_sent v @ [(i, a, chunk)]\<rparr>)" by (simp add: terminal_ok_def)
  then show ?thesis by (rule core_ok) (use True ia in \<open>simp add: input_write_def core_def\<close>)
next
  case False
  then have "core (input_write chunk v) = core v" by (auto simp: input_write_def core_def)
  then show ?thesis by (rule core_ok [OF assms])
qed

lemma take_answered_core: "core (take_answered i answer v) = core v"
  by (simp add: take_answered_def Let_def core_def setStatus_def update_info_def split: sum.split)

lemma input_next_ok:
  assumes "terminal_ok G v"
  shows "terminal_ok G (input_next v)"
proof (cases "tv_input v = None \<and> tv_queue v \<noteq> []")
  case True
  then obtain chunk waiting where q: "tv_input v = None" "tv_queue v = chunk # waiting"
    by (cases "tv_queue v") auto
  let ?v = "v\<lparr>tv_queue := waiting\<rparr>"
  let ?t = "takeCurrentControl True ?v"
  have v: "terminal_ok G ?v" by (rule core_ok [OF assms]) (simp add: core_def)
  have t: "terminal_ok G ?t" by (rule take_ok [OF v])
  have 1: "terminal_ok G (?v\<lparr>tv_input := w\<rparr>)" for w by (rule core_ok [OF v]) (simp add: core_def)
  have 2: "terminal_ok G (?t\<lparr>tv_takeControl := k, tv_input := w\<rparr>)" for k w
    by (rule core_ok [OF t]) (simp add: core_def)
  show ?thesis
    using v input_write_ok [OF v] 1 2 t by (simp add: input_next_def q Let_def split: option.split)
next
  case False
  then have "input_next v = v" by (auto simp: input_next_def split: option.split list.split)
  then show ?thesis using assms by simp
qed

lemma take_settled_ok:
  assumes "terminal_ok G v"
  shows "terminal_ok G (take_settled i answer v)"
proof -
  define w where "w = (let v = take_answered i answer v in
    if tk_ensured (tv_takes v ! i) then v\<lparr>tv_takeControl := None\<rparr> else v)"
  have "core w = core v"
    unfolding w_def Let_def using take_answered_core [of i answer v] by (auto simp: core_def)
  then have w: "terminal_ok G w" by (rule core_ok [OF assms])
  have "core (w\<lparr>tv_input := k\<rparr>) = core w" for k by (simp add: core_def)
  note k = core_ok [OF w this]
  have "take_settled i answer v = (case tv_input w of
      Some (AwaitControl j chunk) \<Rightarrow>
        if i = j then (if isLivePrimaryAttach w then input_write chunk w else w\<lparr>tv_input := None\<rparr>) else w
    | _ \<Rightarrow> w)"
    unfolding take_settled_def w_def Let_def by simp
  then show ?thesis
    using w k input_write_ok [OF w] by (simp split: option.split input_wait.split)
qed

section \<open>Every run\<close>

lemma effect_ok:
  assumes "terminal_ok G v"
  shows "terminal_ok G (terminal_effect fitted machine daemonInstanceId options v)"
proof -
  let ?s = "stopCurrentAttach (v\<lparr>tv_machine := machine\<rparr>)"
  have "terminal_ok G (v\<lparr>tv_machine := machine\<rparr>)" by (rule core_ok [OF assms]) (simp add: core_def)
  then have s: "terminal_ok G ?s" by (rule stop_ok)
  have "core ((forget_session ?s)\<lparr>tv_info := None\<rparr>) = core (forget_session ?s)" by (simp add: core_def)
  with session_forget_ok [OF s] have "terminal_ok G ((forget_session ?s)\<lparr>tv_info := None\<rparr>)" by (rule core_ok)
  then show ?thesis
    unfolding terminal_effect_def Let_def using openTerminal_ok [OF s] status_ok by presburger
qed

lemma reopen_ok:
  assumes "terminal_ok G v"
  shows "terminal_ok G (openNewTerminalSession fitted tab v)"
proof (cases "Option.bind (tv_info v) tsi_exit = None")
  case True
  then show ?thesis
    using openTerminal_ok [OF reference_clear_ok [OF assms]] by (simp add: openNewTerminalSession_def Let_def)
next
  case False
  have "terminal_ok G (v\<lparr>tv_reopening := r\<rparr>)" for r by (rule core_ok [OF assms]) (simp add: core_def)
  then show ?thesis by (simp add: openNewTerminalSession_def Let_def False)
qed

lemma session_close_ok:
  assumes "terminal_ok G v"
  shows "terminal_ok G (new_session_closed fitted options answer v)"
proof -
  have w: "terminal_ok G (v\<lparr>tv_reopening := r\<rparr>)" for r by (rule core_ok [OF assms]) (simp add: core_def)
  show ?thesis
    using openTerminal_ok [OF reference_clear_ok [OF w]] status_ok [OF w]
    by (simp add: new_session_closed_def Let_def split: sum.split)
qed

lemma focus_ok:
  assumes "terminal_ok G v"
  shows "terminal_ok G (setFocused fitted focused v)"
proof -
  let ?v = "v\<lparr>tv_active := focused\<rparr>"
  have v: "terminal_ok G ?v" by (rule core_ok [OF assms]) (simp add: core_def)
  have "terminal_ok G (takeCurrentControl False (fitTerminal fitted ?v))"
    by (intro take_ok core_ok [OF v]) simp
  then show ?thesis unfolding setFocused_def Let_def using v by presburger
qed

lemma initial_ok: "terminal_ok {} (initial_terminal focused tabSession)"
  by (simp add: terminal_ok_def runs_ok_def session_ok_def grants_ok_def runs_of_def run_generations_def
      initial_terminal_def)

lemma unmounted_ok:
  assumes "terminal_ok G v"
  shows "terminal_ok G (terminal_unmounted v)"
  unfolding terminal_unmounted_def by (rule core_ok [OF stop_ok [OF assms]]) (simp add: core_def)

lemma terminal_reachable_ok: "terminal_reachable G v \<Longrightarrow> terminal_ok G v"
proof (induction rule: terminal_reachable.induct)
  case (term_failed G v n existing err)
  then show ?case by (simp add: attach_failed_def open_failed_ok)
next
  case (term_ended G v n)
  then show ?case by (simp add: attach_ended_def status_ok)
next
  case (term_resize G v fitted)
  then show ?case unfolding resized_def by (intro take_ok) (erule core_ok, simp)
qed (simp_all add: initial_ok effect_ok reopen_ok session_close_ok session_created_ok attachTerminal_ok attach_event_ok
    unmounted_ok focus_ok input_next_ok take_settled_ok
    core_ok [OF _ core_simps(5)] core_ok [OF _ core_simps(7)] core_ok [OF _ core_simps(8)]
    core_ok [OF _ core_simps(9)] core_ok [OF _ core_simps(10)])

lemma terminal_ok_parts: "terminal_reachable G v \<Longrightarrow> runs_ok v \<and> session_ok v \<and> grants_ok G v"
  using terminal_reachable_ok unfolding terminal_ok_def by blast

lemma live_unique:
  assumes "runs_ok v" "attach_live v m" "attach_live v n"
  shows "m = n"
proof -
  have "distinct (map ar_generation (tv_attaches v))" using assms(1) by (simp add: runs_ok_def run_generations_def)
  moreover have "map ar_generation (tv_attaches v) ! m = map ar_generation (tv_attaches v) ! n"
    using assms(2,3) by (simp add: attach_live_def)
  ultimately show ?thesis
    using assms(2,3) nth_eq_iff_index_eq [of "map ar_generation (tv_attaches v)" m n]
    by (simp add: attach_live_def)
qed

lemma live_session:
  assumes "session_ok v" "attach_live v n"
  shows "tv_sessionId v \<in> {None, Some (ar_session (tv_attaches v ! n))}"
proof -
  have "(tv_generation v, ar_session (tv_attaches v ! n)) \<in> runs_of v"
    using assms(2) by (force simp: runs_of_def attach_live_def)
  then show ?thesis using assms(1) by (auto simp: session_ok_def)
qed

section \<open>What the daemon shows\<close>

text \<open>(C12) In every run of the terminal tool the events of at most one attach stream are handled, and it is
  a stream of the session the view refers to, if it still refers to one.\<close>

theorem terminal_one_live_attach:
  assumes "terminal_reachable G v" "attach_live v n"
  shows "(\<forall>m. attach_live v m \<longrightarrow> m = n) \<and> tv_sessionId v \<in> {None, Some (ar_session (tv_attaches v ! n))}"
  using terminal_ok_parts [OF assms(1)] live_unique [OF _ _ assms(2)] live_session [OF _ assms(2)] by blast

text \<open>(C13) In every run, terminal input is written to, and control is taken of, a session only with an
  attach id the daemon gave for that session.\<close>

theorem terminal_input_is_granted:
  assumes "terminal_reachable G v"
  shows "(\<forall>(i, a, chunk) \<in> set (tv_sent v). (i, a) \<in> G) \<and>
    (\<forall>call \<in> set (tv_takes v). (tk_session call, tk_attach call) \<in> G)"
  using terminal_ok_parts [OF assms] by (simp add: grants_ok_def)

section \<open>Replayed output\<close>

lemma take_shows [simp]:
  "tv_screen (takeCurrentControl e v) = tv_screen v" "tv_runtime (takeCurrentControl e v) = tv_runtime v"
  "tv_replayUntil (takeCurrentControl e v) = tv_replayUntil v"
  "tv_replayDepth (takeCurrentControl e v) = tv_replayDepth v"
  "attach_live (takeCurrentControl e v) n = attach_live v n"
  by (simp_all add: takeCurrentControl_def attach_live_def Let_def split: option.split)

lemma attached_shows:
  fixes v a p session
  defines "w \<equiv> handleTerminalEvent (TerminalAttached a p session) v"
  shows "tv_screen w = tv_screen v" "tv_runtime w = tv_runtime v" "tv_replayDepth w = tv_replayDepth v"
    "tv_replayUntil w = (if tv_suppressReplay v then Some (tsi_latestOutputSeq session) else None)"
    "attach_live w n = attach_live v n"
  by (simp_all add: w_def Let_def setStatus_def attach_live_def takeCurrentControl_def split: option.split)

text \<open>What happens to the output after the attach: a chunk arrives, or the terminal calls the callback of
  the next suppressed write, whose chunk it has then processed.\<close>

datatype output_step = OutputArrives int bytes | ReplayProcessed

primrec after_output :: "nat \<Rightarrow> output_step \<Rightarrow> terminal_view \<Rightarrow> terminal_view" where
  "after_output n (OutputArrives seq chunk) v = attach_event n (TerminalOutputChunk seq chunk) v"
| "after_output n ReplayProcessed v = replay_written v"

fun arrived :: "output_step list \<Rightarrow> (int \<times> bytes) list" where
  "arrived [] = []"
| "arrived (OutputArrives seq chunk # steps) = (seq, chunk) # arrived steps"
| "arrived (ReplayProcessed # steps) = arrived steps"

definition processed :: "output_step list \<Rightarrow> nat" where
  "processed steps = length (filter (\<lambda>st. st = ReplayProcessed) steps)"

text \<open>The chunks that were sent before the view attached, that is up to the number \<open>until\<close>.\<close>

definition replayed :: "int \<Rightarrow> output_step list \<Rightarrow> nat" where
  "replayed until steps = length (filter (\<lambda>(seq, chunk). seq \<le> until) (arrived steps))"

text \<open>A callback is called after its own write: with \<open>pending\<close> replayed writes under way, never more
  callbacks than such writes.\<close>

fun callbacks_follow :: "int \<Rightarrow> nat \<Rightarrow> output_step list \<Rightarrow> bool" where
  "callbacks_follow until pending [] = True"
| "callbacks_follow until pending (OutputArrives seq chunk # steps) =
     callbacks_follow until (if seq \<le> until then Suc pending else pending) steps"
| "callbacks_follow until pending (ReplayProcessed # steps) =
     (0 < pending \<and> callbacks_follow until (pending - 1) steps)"

lemma counts [simp]:
  "processed [] = 0" "processed (OutputArrives seq chunk # steps) = processed steps"
  "processed (ReplayProcessed # steps) = Suc (processed steps)" "replayed until [] = 0"
  "replayed until (OutputArrives seq chunk # steps) = (if seq \<le> until then Suc (replayed until steps) else replayed until steps)"
  "replayed until (ReplayProcessed # steps) = replayed until steps"
  by (simp_all add: processed_def replayed_def)

lemma callbacks_bound: "callbacks_follow until pending steps \<Longrightarrow> processed steps \<le> pending + replayed until steps"
  by (induction until pending steps rule: callbacks_follow.induct) (auto split: if_splits)

lemma replay_written_shows [simp]:
  "tv_screen (replay_written v) = tv_screen v" "tv_runtime (replay_written v) = tv_runtime v"
  "tv_replayUntil (replay_written v) = tv_replayUntil v" "tv_replayDepth (replay_written v) = tv_replayDepth v - 1"
  "attach_live (replay_written v) n = attach_live v n"
  by (simp_all add: replay_written_def attach_live_def)

lemma chunk_shows:
  fixes v n seq chunk
  assumes "attach_live v n" "tv_runtime v \<noteq> None"
  defines "w \<equiv> attach_event n (TerminalOutputChunk seq chunk) v"
  shows "tv_screen w = tv_screen v @ [WroteBytes chunk (isSuppressibleReplayOutput seq v)]"
    "tv_replayDepth w = tv_replayDepth v + (if isSuppressibleReplayOutput seq v then 1 else 0)"
    "tv_replayUntil w = (case tv_replayUntil v of None \<Rightarrow> None | Some until \<Rightarrow> if until \<le> seq then None else Some until)"
    "attach_live w n" "tv_runtime w \<noteq> None"
  using assms by (auto simp: attach_event_def attach_live_def Let_def writeTerminalOutput_def
      isSuppressibleReplayOutput_def split: option.splits)

text \<open>The view replays up to \<open>until\<close>, or has already forgotten \<open>until\<close>, as all chunks to come are later.\<close>

definition replaying :: "int \<Rightarrow> (int \<times> bytes) list \<Rightarrow> terminal_view \<Rightarrow> bool" where
  "replaying until chunks v \<longleftrightarrow> tv_replayUntil v = Some until \<or>
     tv_replayUntil v = None \<and> (\<forall>(seq, chunk) \<in> set chunks. until < seq)"

lemma replaying_suppresses:
  "replaying until ((seq, chunk) # chunks) v \<Longrightarrow> isSuppressibleReplayOutput seq v \<longleftrightarrow> seq \<le> until"
  by (auto simp: replaying_def isSuppressibleReplayOutput_def)

lemma output_replayed:
  assumes "attach_live v n" "tv_runtime v \<noteq> None" "replaying until (arrived steps) v"
    "sorted_wrt (<) (map fst (arrived steps))" "callbacks_follow until pending steps" "pending \<le> tv_replayDepth v"
  shows "tv_screen (fold (after_output n) steps v) =
      tv_screen v @ map (\<lambda>(seq, chunk). WroteBytes chunk (seq \<le> until)) (arrived steps) \<and>
    tv_replayDepth (fold (after_output n) steps v) + processed steps = tv_replayDepth v + replayed until steps"
  using assms
proof (induction until pending steps arbitrary: v rule: callbacks_follow.induct)
  case (2 until pending seq chunk steps)
  let ?w = "attach_event n (TerminalOutputChunk seq chunk) v"
  note sup = replaying_suppresses [OF "2.prems"(3) [unfolded arrived.simps]]
  note w = chunk_shows [OF "2.prems"(1,2), where seq = seq and chunk = chunk, unfolded sup]
  have "replaying until (arrived steps) ?w"
    using "2.prems"(3,4) w(3) by (fastforce simp: replaying_def split: option.splits if_splits)
  then show ?case using "2.IH" [of ?w] w "2.prems" by (auto split: if_splits)
next
  case (3 until pending steps)
  then show ?case using "3.IH" [of "replay_written v"] by (fastforce simp: replaying_def)
qed simp

text \<open>(C14) After an attach to a session that existed before, while the attach is live and the terminal is
  there, and with no write of an earlier replay under way, the terminal receives the chunks of the stream in their order, each once; those the session had
  already sent when the view attached are written as replay. The sequence numbers of the chunks
  increase, and the terminal calls the callbacks of the replay's writes between the chunks in any
  order in which a callback follows its write. Then an answer to a query in the output is
  suppressed exactly as long as a chunk of the replay that has been written is not processed.\<close>

theorem replay_is_suppressed:
  fixes v n steps a p session
  assumes "attach_live v n" "tv_runtime v \<noteq> None" "tv_suppressReplay v" "sorted_wrt (<) (map fst (arrived steps))"
    "callbacks_follow (tsi_latestOutputSeq session) 0 steps"
  defines "w \<equiv> fold (after_output n) steps (attach_event n (TerminalAttached a p session) v)"
  shows "tv_screen w = tv_screen v @
      map (\<lambda>(seq, chunk). WroteBytes chunk (seq \<le> tsi_latestOutputSeq session)) (arrived steps) \<and>
    tv_replayDepth w = tv_replayDepth v + replayed (tsi_latestOutputSeq session) steps - processed steps \<and>
    (tv_replayDepth v = 0 \<longrightarrow>
      (consumeReplayQuery w \<longleftrightarrow> processed steps < replayed (tsi_latestOutputSeq session) steps))"
proof -
  let ?w = "attach_event n (TerminalAttached a p session) v"
  have "?w = handleTerminalEvent (TerminalAttached a p session) v" using assms(1) by (simp add: attach_event_def)
  note at = attached_shows [of a p session v, folded this]
  have "replaying (tsi_latestOutputSeq session) (arrived steps) ?w" using at(4) assms(3) by (simp add: replaying_def)
  note out = output_replayed [of ?w n, OF _ _ this assms(4,5), folded w_def]
  have screen: "tv_screen w = tv_screen v @
      map (\<lambda>(seq, chunk). WroteBytes chunk (seq \<le> tsi_latestOutputSeq session)) (arrived steps)"
    using out at assms(1,2) by simp
  have "tv_replayDepth w + processed steps = tv_replayDepth v + replayed (tsi_latestOutputSeq session) steps"
    using out at assms(1,2) by simp
  then have "tv_replayDepth w = tv_replayDepth v + replayed (tsi_latestOutputSeq session) steps - processed steps"
    by linarith
  with screen show ?thesis by (auto simp: consumeReplayQuery_def)
qed

section \<open>Runs of the terminal\<close>

definition demo_machine :: Machine where
  "demo_machine = \<lparr>m_id = js ''1'', m_name = js ''box'', m_baseUrl = js ''https://box'',
     m_clientId = Some (js ''c''), m_clientSecret = Some (js ''s''), m_expiresAtUnix = None\<rparr>"

definition demo_session :: "string \<Rightarrow> TerminalSessionInfo" where
  "demo_session i = \<lparr>tsi_terminalSessionId = js i, tsi_creatorClientId = js ''c'', tsi_createdAtMs = 0,
     tsi_lastAttachedAtMs = None, tsi_lastDetachedAtMs = None, tsi_lastOutputAtMs = None, tsi_cols = 80,
     tsi_rows = 24, tsi_primaryAttachId = None, tsi_latestOutputSeq = 2, tsi_lastKnownTitle = None,
     tsi_exit = None, tsi_lastKnownCwd = None, tsi_launch = \<lparr>launch_command = js ''sh'', launch_args = []\<rparr>\<rparr>"

definition demo_options :: "string option \<Rightarrow> open_options" where
  "demo_options existing = \<lparr>oo_cwd = None, oo_existing = map_option js existing,
     oo_launch = Some \<lparr>launch_command = js ''sh'', launch_args = []\<rparr>, oo_title = None\<rparr>"

text \<open>The tab of session \<open>s\<close> is shown, its terminal is ready and has attached; it asks for control.\<close>

definition demo_attaching :: terminal_view where
  "demo_attaching = attachTerminal 1 (js ''s'') (80, 24) (runtime_ready (80, 24)
     (terminal_effect None (Some demo_machine) (Some (js ''d'')) (demo_options (Some ''s''))
       (initial_terminal True (Some (js ''s'')))))"

definition demo_attached :: terminal_view where
  "demo_attached = attach_event 0 (TerminalAttached (js ''a'') (Some (js ''a'')) (demo_session ''s'')) demo_attaching"

lemmas demo_simps = demo_options_def demo_session_def demo_machine_def terminal_effect_def openTerminal_def
  start_generation_def stopCurrentAttach_def forget_session_def initial_terminal_def setStatus_def
  isPaired_def truthy_def runtime_ready_def attachTerminal_def attach_event_def attach_live_def
  takeCurrentControl_def terminalSize_def Let_def

lemma demo_attaching: "demo_attaching = (initial_terminal True (Some (js ''s'')))\<lparr>tv_machine := Some demo_machine,
    tv_runtime := Some (80, 24), tv_sessionId := Some (js ''s''), tv_generation := 1, tv_stopAttach := Some 0,
    tv_suppressReplay := True, tv_lastSize := Some (80, 24), tv_attaches := [\<lparr>ar_generation = 1,
      ar_session = js ''s'', ar_afterSeq = None, ar_size = (80, 24), ar_cancelled = False\<rparr>]\<rparr>"
  by (simp add: demo_attaching_def demo_simps)

lemma demo_reachable: "terminal_reachable ({} \<union> {(js ''s'', js ''a'')}) demo_attached"
proof -
  have "terminal_reachable {} demo_attaching"
    unfolding demo_attaching_def
    by (intro term_attach term_ready term_effect term_initial) (simp add: demo_simps)
  then show ?thesis
    unfolding demo_attached_def
    using term_event [of "{}" demo_attaching 0 "TerminalAttached (js ''a'') (Some (js ''a'')) (demo_session ''s'')"]
    by (simp add: demo_attaching initial_terminal_def)
qed

lemma demo_attached: "demo_attached = demo_attaching\<lparr>tv_attachId := Some (js ''a''),
    tv_primaryAttachId := Some (js ''a''), tv_replayUntil := Some 2, tv_info := Some (demo_session ''s''),
    tv_phase := TermAttached, tv_note := js ''Terminal attached'', tv_takes := [\<lparr>tk_session = js ''s'',
      tk_attach = js ''a'', tk_size = (80, 24), tk_previous = Some (80, 24), tk_ensured = False\<rparr>]\<rparr>"
  by (simp add: demo_attached_def demo_attaching demo_simps js_def)

lemma demo_live: "attach_live demo_attached 0" "attach_live demo_attaching 0"
  by (simp_all add: demo_attached demo_attaching attach_live_def initial_terminal_def)

theorem terminal_one_live_attach_witness:
  "\<not> attach_live demo_attached 1 \<and> tv_sessionId demo_attached \<in> {None, Some (ar_session (tv_attaches demo_attached ! 0))}"
  using terminal_one_live_attach [OF demo_reachable demo_live(1)] by auto

theorem terminal_input_is_granted_witness:
  "tv_takes demo_attached \<noteq> [] \<and>
   list_all (\<lambda>call. (tk_session call, tk_attach call) = (js ''s'', js ''a'')) (tv_takes demo_attached)"
  using terminal_input_is_granted [OF demo_reachable] by (simp add: demo_attached)

definition demo_output :: "output_step list" where
  "demo_output = [OutputArrives 1 [104], ReplayProcessed, OutputArrives 2 [105], OutputArrives 3 [106]]"

theorem replay_is_suppressed_witness:
  "consumeReplayQuery (fold (after_output 0) demo_output
      (attach_event 0 (TerminalAttached (js ''a'') None (demo_session ''s'')) demo_attaching)) \<and>
   \<not> consumeReplayQuery (fold (after_output 0) (demo_output @ [ReplayProcessed])
      (attach_event 0 (TerminalAttached (js ''a'') None (demo_session ''s'')) demo_attaching)) \<and>
   tv_screen (fold (after_output 0) demo_output
      (attach_event 0 (TerminalAttached (js ''a'') None (demo_session ''s'')) demo_attaching)) =
     [WroteBytes [104] True, WroteBytes [105] True, WroteBytes [106] False]"
  using replay_is_suppressed [OF demo_live(2), of demo_output "demo_session ''s''" "js ''a''" None]
    replay_is_suppressed [OF demo_live(2), of "demo_output @ [ReplayProcessed]" "demo_session ''s''" "js ''a''" None]
  by (simp add: demo_attaching initial_terminal_def demo_session_def demo_output_def)

section \<open>Where the order of the awaits shows\<close>

text \<open>An answer of \<open>takeTerminalControl\<close> that comes after the session has closed shows the terminal as
  attached: the notice with the reason and its button is gone, and the view refers to no session.\<close>

theorem late_control_hides_close:
  assumes "attach_live v n" "tv_input v = None" "Option.bind (tv_info v) tsi_exit = None"
  shows "terminalNoticeFromState (attach_event n (TerminalSessionClosed reason) v) \<noteq> None \<and>
    terminalNoticeFromState (take_settled i (Inr p) (attach_event n (TerminalSessionClosed reason) v)) = None \<and>
    tv_phase (take_settled i (Inr p) (attach_event n (TerminalSessionClosed reason) v)) = TermAttached \<and>
    tv_sessionId (take_settled i (Inr p) (attach_event n (TerminalSessionClosed reason) v)) = None"
proof -
  let ?w = "attach_event n (TerminalSessionClosed reason) v"
  have w: "tv_phase ?w = TermClosed" "tv_info ?w = tv_info v" "tv_input ?w = None" "tv_sessionId ?w = None"
    using assms by (simp_all add: attach_event_def setStatus_def clearTerminalSessionReference_def forget_session_def)
  let ?u = "take_settled i (Inr p) ?w"
  have "tv_phase ?u = TermAttached" "tv_sessionId ?u = None" "Option.bind (tv_info ?u) tsi_exit = None"
    using w assms(3) by (cases "tv_info v"; simp add: take_settled_def take_answered_def Let_def setStatus_def update_info_def)+
  with w assms(3) show ?thesis by (simp add: terminalNoticeFromState_def Let_def)
qed

theorem late_control_hides_close_witness:
  "terminalNoticeFromState (take_settled 0 (Inr (js ''a''))
     (attach_event 0 (TerminalSessionClosed TerminalSessionClosedByClient) demo_attached)) = None"
  using late_control_hides_close [OF demo_live(1), of TerminalSessionClosedByClient 0 "js ''a''"]
  by (simp add: demo_attached demo_attaching initial_terminal_def demo_session_def)

text \<open>A terminal session that is being created when the pairing is lost is still adopted: the tab
  remembers it and the view attaches to it, although it shows that no machine is paired.\<close>

theorem creation_survives_lost_pairing:
  assumes "\<not> isPaired machine"
  shows "let w = terminal_effect fitted machine daemonInstanceId options v;
      u = session_created (tv_generation v) (Inr session) w in
    tv_phase w = TermIdle \<and> tv_closed u = tv_closed v \<and>
    tv_tabSession u = Some (tsi_terminalSessionId session) \<and>
    (tv_generation v, tsi_terminalSessionId session) \<in> set (tv_waiting u)"
  using assms
  by (simp add: terminal_effect_def session_created_def Let_def setStatus_def forget_session_def
      stopCurrentAttach_def split: option.split)

theorem creation_survives_lost_pairing_witness:
  "tv_tabSession (session_created 1 (Inr (demo_session ''s'')) (terminal_effect None None None (demo_options None)
     (terminal_effect None (Some demo_machine) (Some (js ''d'')) (demo_options None) (initial_terminal True None)))) =
   Some (js ''s'')"
  using creation_survives_lost_pairing [of None None None "demo_options None"
      "terminal_effect None (Some demo_machine) (Some (js ''d'')) (demo_options None) (initial_terminal True None)"
      "demo_session ''s''"]
  by (simp add: Let_def isPaired_def demo_simps fitTerminal_def terminalStartupSize_def getOr_def)

text \<open>The user types \<open>x\<close> and \<open>y\<close> into session \<open>s\<close>; \<open>s\<close> exits while the write of \<open>x\<close> is under way, and the
  user starts session \<open>t\<close> with the button of the notice.\<close>

definition demo_typed :: "jstring \<Rightarrow> jstring \<Rightarrow> terminal_view" where
  "demo_typed x y = queueTerminalInput y (input_next (queueTerminalInput x (take_settled 0 (Inr (js ''a'')) demo_attached)))"

definition demo_restarted :: "jstring \<Rightarrow> jstring \<Rightarrow> terminal_view" where
  "demo_restarted x y =
     attach_event 1 (TerminalAttached (js ''b'') (Some (js ''b'')) (demo_session ''t''))
       (attachTerminal 2 (js ''t'') (80, 24) (session_created 2 (Inr (demo_session ''t''))
         (new_session_closed None (demo_options None) (Inr ()) (openNewTerminalSession None (demo_options None)
           (attach_event 0 (TerminalSessionExited \<lparr>te_code = Some 0, te_signal = None, te_exitedAtMs = 0\<rparr>) (demo_typed x y))))))"

lemma demo_typed: "demo_typed x y = (take_settled 0 (Inr (js ''a'')) demo_attached)
    \<lparr>tv_queue := [text_encode y], tv_input := Some AwaitWrite, tv_sent := [(js ''s'', js ''a'', text_encode x)]\<rparr>"
  by (simp add: demo_typed_def demo_attached demo_attaching take_settled_def take_answered_def setStatus_def
      update_info_def queueTerminalInput_def input_next_def input_write_def isLivePrimaryAttach_def truthy_def
      initial_terminal_def js_def Let_def)

text \<open>What was typed into a session that has exited goes to the session started after it: the queue
  reads the session it writes to when an input's turn comes, not when it is typed.\<close>

theorem queued_input_reaches_next_session:
  "tv_sent (input_next (input_written (Inr ()) (demo_restarted x y))) =
   [(js ''s'', js ''a'', text_encode x), (js ''t'', js ''b'', text_encode y)]"
  by (simp add: demo_restarted_def demo_typed demo_attached demo_attaching take_settled_def take_answered_def
      update_info_def queueTerminalInput_def input_next_def input_write_def isLivePrimaryAttach_def
      input_written_def openNewTerminalSession_def new_session_options_def new_session_closed_def orElse_def clearTerminalSessionReference_def session_created_def
      fitTerminal_def terminalStartupSize_def demo_simps js_def)

text \<open>A session is created before the terminal is ready; the daemon restarts; the tab's session is opened
  again and attaches first, as the first \<open>openTerminal\<close> still has one wait more to go through.\<close>

definition demo_overtaken :: terminal_view where
  "demo_overtaken = attachTerminal 1 (js ''s'') (80, 24) (attachTerminal 2 (js ''s'') (80, 24)
     (runtime_ready (80, 24)
       (terminal_effect None (Some demo_machine) (Some (js ''e'')) (demo_options (Some ''s''))
         (session_created 1 (Inr (demo_session ''s''))
           (terminal_effect None (Some demo_machine) (Some (js ''d'')) (demo_options None)
             (initial_terminal True None))))))"

lemma demo_overtaken_reachable: "terminal_reachable {} demo_overtaken"
  unfolding demo_overtaken_def
  by (intro term_attach term_ready term_effect term_created term_initial)
    (simp_all add: demo_simps session_created_def fitTerminal_def terminalStartupSize_def getOr_def)

text \<open>An attach that another has overtaken takes over the reference to what is to be stopped: after
  it the attach in use is not stopped by the unmount, nor by losing the pairing, and its events are
  still handled.\<close>

theorem overtaken_attach_is_not_stopped:
  "attach_live demo_overtaken 0 \<and> tv_stopAttach demo_overtaken = Some 1 \<and>
   attach_live (terminal_unmounted demo_overtaken) 0 \<and>
   tv_phase (terminal_effect None None None (demo_options None) demo_overtaken) = TermIdle \<and>
   tv_phase (attach_event 0 (TerminalAttached (js ''a'') (Some (js ''a'')) (demo_session ''s''))
     (terminal_effect None None None (demo_options None) demo_overtaken)) = TermAttached"
  by (simp add: demo_overtaken_def demo_simps session_created_def fitTerminal_def terminalStartupSize_def
      getOr_def terminal_unmounted_def js_def)

end
