(* ===== verification/TextFile.thy ===== *)
theory TextFile
  imports FileViewer Machines
begin

text \<open>
  The text viewer, \<open>.../file-viewer/impl/text/index.tsx\<close>: loading a file, the draft the user edits, saving
  it, and the dirty mark of the tab. A load and a save are in flight between two of its steps; the
  effect that starts a load runs when one of its dependencies has changed.
\<close>

section \<open>Decoding and encoding again\<close>

lemma unat_word16: "n < 65536 \<Longrightarrow> unat (of_nat n :: 16 word) = n"
  by (simp add: unat_of_nat)

lemma to_scalars_plain:
  "\<not> lead_surrogate u \<Longrightarrow> \<not> trail_surrogate u \<Longrightarrow> to_scalars (u # us) = unat u # to_scalars us"
  by (cases us) simp_all

lemma to_scalars_of_scalar:
  assumes "scalar c"
  shows "to_scalars (of_scalar c @ us) = c # to_scalars us"
proof (cases "c < 0x10000")
  case True
  then have u: "unat (of_nat c :: 16 word) = c" by (simp add: unat_of_nat)
  have "\<not> lead_surrogate (of_nat c)" "\<not> trail_surrogate (of_nat c)"
    using assms True unfolding lead_surrogate_def trail_surrogate_def u by (auto simp: scalar_def)
  then have "to_scalars (of_nat c # us) = c # to_scalars us" by (simp add: to_scalars_plain u)
  then show ?thesis using True by (simp add: of_scalar_def)
next
  case False
  define d where "d = c - 0x10000"
  from assms False have d: "c = 0x10000 + d" "d < 0x100000" by (auto simp: scalar_def d_def)
  have h: "d div 0x400 < 0x400" using d(2) by simp
  let ?u = "of_nat (0xD800 + d div 0x400) :: 16 word" and ?v = "of_nat (0xDC00 + d mod 0x400) :: 16 word"
  have u: "unat ?u = 0xD800 + d div 0x400" by (rule unat_word16) (use h in simp)
  have m: "d mod 0x400 < 0x400" by simp
  have v: "unat ?v = 0xDC00 + d mod 0x400" by (rule unat_word16) (use m in simp)
  have "lead_surrogate ?u" unfolding lead_surrogate_def u using h by simp
  moreover have "trail_surrogate ?v" unfolding trail_surrogate_def v using m by simp
  moreover have "pair_scalar ?u ?v = c" unfolding pair_scalar_def u v d(1) by simp
  ultimately have "to_scalars (?u # ?v # us) = c # to_scalars us" by simp
  then show ?thesis using False by (simp add: of_scalar_def d_def)
qed

lemma to_scalars_of_scalars: "(\<And>c. c \<in> set cs \<Longrightarrow> scalar c) \<Longrightarrow> to_scalars (of_scalars cs) = cs"
  by (induction cs) (simp_all add: to_scalars_of_scalar)

text \<open>The decoder accepts only the bytes the encoder writes for what it returns.\<close>

lemma cont_tail:
  assumes "cont lo hi b" "0x80 \<le> lo" "hi \<le> 0xBF"
  obtains x where "b = byte (0x80 + x)" "x < 64" "lo \<le> 0x80 + x" "0x80 + x \<le> hi" "unat b - 0x80 = x"
proof
  show "b = byte (0x80 + (unat b - 0x80))" using assms by (simp add: cont_def byte_unat)
qed (use assms in \<open>auto simp: cont_def\<close>)

lemma utf8_char_2: "2 \<le> y \<Longrightarrow> y < 32 \<Longrightarrow> x < 64 \<Longrightarrow> utf8_char (y * 64 + x) = [byte (0xC0 + y), byte (0x80 + x)]"
  by (simp add: utf8_char_def)

lemma digit_of: "x < 64 \<Longrightarrow> (m * 64 + x) div 64 = m" "x < 64 \<Longrightarrow> (m * 64 + x) mod 64 = (x :: nat)"
  by simp_all

lemma utf8_char_3:
  assumes "z < 16" "z = 0 \<Longrightarrow> 32 \<le> y" "y < 64" "x < 64"
  shows "utf8_char ((z * 64 + y) * 64 + x) = [byte (0xE0 + z), byte (0x80 + y), byte (0x80 + x)]"
proof -
  have "0x800 \<le> (z * 64 + y) * 64 + x" "(z * 64 + y) * 64 + x < 0x10000"
    using assms by (cases "z = 0"; simp)+
  moreover define n where "n = (z * 64 + y) * 64 + x"
  moreover have "n div 64 = z * 64 + y" "n mod 64 = x" "(z * 64 + y) div 64 = z" "(z * 64 + y) mod 64 = y"
    using assms unfolding n_def by (simp_all only: digit_of)
  ultimately show ?thesis by (simp add: utf8_char_def flip: n_def)
qed

lemma utf8_char_4:
  assumes "t \<le> 4" "t = 0 \<Longrightarrow> 16 \<le> z" "z < 64" "y < 64" "x < 64"
  shows "utf8_char (((t * 64 + z) * 64 + y) * 64 + x) =
    [byte (0xF0 + t), byte (0x80 + z), byte (0x80 + y), byte (0x80 + x)]"
proof -
  have "0x10000 \<le> ((t * 64 + z) * 64 + y) * 64 + x"
    using assms by (cases "t = 0") simp_all
  moreover define m where "m = (t * 64 + z) * 64 + y"
  moreover define n where "n = m * 64 + x"
  moreover have "n div 64 = m" "n mod 64 = x" "m div 64 = t * 64 + z" "m mod 64 = y"
      "(t * 64 + z) div 64 = t" "(t * 64 + z) mod 64 = z"
    using assms unfolding n_def m_def by (simp_all only: digit_of)
  ultimately show ?thesis by (simp add: utf8_char_def flip: m_def n_def)
qed

lemma head_byte: "lo \<le> unat b \<Longrightarrow> b = byte (lo + (unat b - lo))"
  by (simp add: byte_unat)

lemma utf8_scalars_inverse:
  "utf8_scalars bs = Some cs \<Longrightarrow> concat (map utf8_char cs) = bs \<and> (\<forall>c \<in> set cs. scalar c)"
proof (induction bs arbitrary: cs rule: utf8_scalars.induct)
  case (2 b bs)
  let ?a = "unat b"
  consider "?a < 0x80" | "0xC2 \<le> ?a" "?a \<le> 0xDF" | "0xE0 \<le> ?a" "?a \<le> 0xEF" | "0xF0 \<le> ?a" "?a \<le> 0xF4" |
    "?a = 0x80 \<or> 0x80 < ?a \<and> ?a < 0xC2 \<or> 0xF4 < ?a" by linarith
  then show ?case
  proof cases
    case 1
    then obtain ds where "utf8_scalars bs = Some ds" "cs = ?a # ds"
      using "2.prems" by (auto simp: utf8_scalars.simps(2) Let_def)
    then show ?thesis using "2.IH"(1) [of ?a ds] 1 by (auto simp: utf8_char_def byte_unat scalar_def)
  next
    case 2
    then obtain b1 r ds where r: "bs = b1 # r" "cont 0x80 0xBF b1" "utf8_scalars r = Some ds"
        "cs = ((?a - 0xC0) * 64 + (unat b1 - 0x80)) # ds"
      using "2.prems" by (auto simp: utf8_scalars.simps(2) Let_def split: list.splits if_splits)
    from r(2) obtain x where x: "b1 = byte (0x80 + x)" "x < 64" "unat b1 - 0x80 = x" by (rule cont_tail) auto
    have y: "2 \<le> ?a - 0xC0" "?a - 0xC0 < 32" using 2 by linarith+
    have "b = byte (0xC0 + (?a - 0xC0))" using 2 by (intro head_byte) simp
    moreover have "scalar ((?a - 0xC0) * 64 + x)" using y x(2) by (simp add: scalar_def)
    ultimately show ?thesis
      using "2.IH"(2) [of ?a b1 r ds] 2 r x utf8_char_2 [OF y x(2)] by simp
  next
    case 3
    then obtain b1 b2 r ds where r: "bs = b1 # b2 # r"
        "cont (if ?a = 0xE0 then 0xA0 else 0x80) (if ?a = 0xED then 0x9F else 0xBF) b1" "cont 0x80 0xBF b2"
        "utf8_scalars r = Some ds" "cs = (((?a - 0xE0) * 64 + (unat b1 - 0x80)) * 64 + (unat b2 - 0x80)) # ds"
      using "2.prems" by (auto simp: utf8_scalars.simps(2) Let_def split: list.splits if_splits)
    from r(2) obtain y where y: "b1 = byte (0x80 + y)" "y < 64" "(if ?a = 0xE0 then 0xA0 else 0x80) \<le> 0x80 + y"
        "0x80 + y \<le> (if ?a = 0xED then 0x9F else 0xBF)" "unat b1 - 0x80 = y"
      by (rule cont_tail) auto
    from r(3) obtain x where x: "b2 = byte (0x80 + x)" "x < 64" "unat b2 - 0x80 = x" by (rule cont_tail) auto
    define z where "z = ?a - 0xE0"
    have z: "z < 16" "z = 0 \<Longrightarrow> 32 \<le> y" "z = 13 \<Longrightarrow> y < 32" "?a = 0xE0 + z"
      using 3 y(3,4) by (auto simp: z_def split: if_splits)
    have "b = byte (0xE0 + z)" using 3 z_def by (simp add: head_byte)
    moreover have "scalar ((z * 64 + y) * 64 + x)"
      using z(1-3) y(2) x(2) unfolding scalar_def by (cases "z < 13"; cases "z = 13") auto
    moreover have "cs = ((z * 64 + y) * 64 + x) # ds" using r(5) x(3) y(5) by (simp add: z_def)
    moreover have "concat (map utf8_char ds) = r \<and> (\<forall>c \<in> set ds. scalar c)"
      using "2.IH"(3) [of ?a b1 "b2 # r" b2 r ds] 3 r by simp
    ultimately show ?thesis
      using r(1) x(1) y(1) utf8_char_3 [OF z(1,2) y(2) x(2)] by simp
  next
    case 4
    then obtain b1 b2 b3 r ds where r: "bs = b1 # b2 # b3 # r"
        "cont (if ?a = 0xF0 then 0x90 else 0x80) (if ?a = 0xF4 then 0x8F else 0xBF) b1" "cont 0x80 0xBF b2"
        "cont 0x80 0xBF b3" "utf8_scalars r = Some ds"
        "cs = ((((?a - 0xF0) * 64 + (unat b1 - 0x80)) * 64 + (unat b2 - 0x80)) * 64 + (unat b3 - 0x80)) # ds"
      using "2.prems" by (auto simp: utf8_scalars.simps(2) Let_def split: list.splits if_splits)
    from r(2) obtain z where z: "b1 = byte (0x80 + z)" "z < 64" "(if ?a = 0xF0 then 0x90 else 0x80) \<le> 0x80 + z"
        "0x80 + z \<le> (if ?a = 0xF4 then 0x8F else 0xBF)" "unat b1 - 0x80 = z"
      by (rule cont_tail) auto
    from r(3) obtain y where y: "b2 = byte (0x80 + y)" "y < 64" "unat b2 - 0x80 = y" by (rule cont_tail) auto
    from r(4) obtain x where x: "b3 = byte (0x80 + x)" "x < 64" "unat b3 - 0x80 = x" by (rule cont_tail) auto
    define t where "t = ?a - 0xF0"
    have t: "t \<le> 4" "t = 0 \<Longrightarrow> 16 \<le> z" "t = 4 \<Longrightarrow> z < 16" "?a = 0xF0 + t"
      using 4 z(3,4) by (auto simp: t_def split: if_splits)
    have "b = byte (0xF0 + t)" using 4 t_def by (simp add: head_byte)
    moreover have "scalar (((t * 64 + z) * 64 + y) * 64 + x)"
      using t(1-3) z(2) y(2) x(2) unfolding scalar_def by (cases "t = 0"; cases "t = 4") auto
    moreover have "cs = (((t * 64 + z) * 64 + y) * 64 + x) # ds" using r(6) x(3) y(3) z(5) by (simp add: t_def)
    moreover have "concat (map utf8_char ds) = r \<and> (\<forall>c \<in> set ds. scalar c)"
      using "2.IH"(4) [of ?a b1 "b2 # b3 # r" b2 "b3 # r" b3 r ds] 4 r by simp
    ultimately show ?thesis
      using r(1) x(1) y(1) z(1) utf8_char_4 [OF t(1,2) z(2) y(2) x(2)] by simp
  next
    case 5
    then have "utf8_scalars (b # bs) = None" by (auto simp: utf8_scalars.simps(2) Let_def)
    then show ?thesis using "2.prems" by simp
  qed
qed simp

lemma text_encode_decode: "text_decode bs = Inr s \<Longrightarrow> text_encode s = strip_bom_bytes bs"
  using utf8_scalars_inverse [of "strip_bom_bytes bs"] to_scalars_of_scalars
  by (auto simp: text_decode_def text_encode_def split: option.splits)

section \<open>State\<close>

datatype text_read_state = TextLoading | TextReady jstring "jstring option" bool | TextError jstring

record own_saved =
  os_modifiedAtMs :: "int option"
  os_path :: jstring
  os_size :: int

text \<open>A load: \<open>tl_live\<close> until it is cancelled or has ended.\<close>

record text_load =
  tl_key :: jstring
  tl_path :: jstring
  tl_live :: bool

record text_save =
  ts_key :: jstring
  ts_path :: jstring
  ts_text :: jstring

type_synonym text_deps = "bool \<times> bool \<times> jstring \<times> jstring \<times> Machine option \<times> nat option"

text \<open>\<open>xv_detected\<close> numbers the result of the detection, \<open>xv_writes\<close> the \<open>writeFile\<close> requests made.\<close>

record text_viewer =
  xv_entry :: FsEntry
  xv_machine :: "Machine option"
  xv_detected :: "nat option"
  xv_confirmedPath :: "jstring option"
  xv_dirty :: bool
  xv_state :: text_read_state
  xv_loadedKey :: "jstring option"
  xv_ownSaved :: "own_saved option"
  xv_savedText :: "jstring option"
  xv_deps :: "text_deps option"
  xv_loads :: "text_load list"
  xv_saves :: "text_save list"
  xv_writes :: "(jstring \<times> bytes) list"

definition initial_text_viewer :: "FsEntry \<Rightarrow> Machine option \<Rightarrow> nat option \<Rightarrow> bool \<Rightarrow> text_viewer" where
  "initial_text_viewer entry machine found dirty =
     \<lparr>xv_entry = entry, xv_machine = machine, xv_detected = found, xv_confirmedPath = None, xv_dirty = dirty,
      xv_state = TextLoading, xv_loadedKey = None, xv_ownSaved = None, xv_savedText = None, xv_deps = None,
      xv_loads = [], xv_saves = [], xv_writes = []\<rparr>"

definition textInlineOpenLimitBytes :: int where
  "textInlineOpenLimitBytes = 1024 * 1024"

definition textRequiresConfirmation :: "FsEntry \<Rightarrow> bool" where
  "textRequiresConfirmation entry \<longleftrightarrow>
     (case fs_size entry of None \<Rightarrow> True | Some bytes \<Rightarrow> textInlineOpenLimitBytes < bytes)"

definition textConfirmed :: "text_viewer \<Rightarrow> bool" where
  "textConfirmed v \<longleftrightarrow>
     \<not> textRequiresConfirmation (xv_entry v) \<or> xv_confirmedPath v = Some (fs_path (xv_entry v))"

definition textFileVersionKey :: "jstring \<Rightarrow> int option \<Rightarrow> int option \<Rightarrow> jstring" where
  "textFileVersionKey path bytes modifiedAtMs =
     (let number = case_option [] (\<lambda>n. js (show_int n)) in
      path @ [10] @ number bytes @ [10] @ number modifiedAtMs)"

definition versionKeyOf :: "FsEntry \<Rightarrow> jstring" where
  "versionKeyOf entry = textFileVersionKey (fs_path entry) (fs_size entry) (fs_modifiedAtMs entry)"

definition isOwnSavedFileVersion :: "own_saved \<Rightarrow> FsEntry \<Rightarrow> bool" where
  "isOwnSavedFileVersion saved entry \<longleftrightarrow>
     fs_path entry = os_path saved \<and> fs_size entry = Some (os_size saved) \<and>
     (os_modifiedAtMs saved = None \<or> fs_modifiedAtMs entry = os_modifiedAtMs saved)"

section \<open>Loading\<close>

definition text_deps_of :: "text_viewer \<Rightarrow> text_deps" where
  "text_deps_of v = (textConfirmed v, xv_dirty v, versionKeyOf (xv_entry v), fs_path (xv_entry v), xv_machine v,
     xv_detected v)"

text \<open>The effect of a render: the cleanup of the last one and its body, when a dependency has changed.\<close>

definition text_effect :: "text_viewer \<Rightarrow> text_viewer" where
  "text_effect v =
     (if xv_deps v = Some (text_deps_of v) then v
      else
        let key = versionKeyOf (xv_entry v);
            v = v\<lparr>xv_deps := Some (text_deps_of v), xv_loads := map (\<lambda>l. l\<lparr>tl_live := False\<rparr>) (xv_loads v)\<rparr> in
        if \<not> textConfirmed v \<or> xv_machine v = None \<or> xv_detected v = None then v
        else if xv_dirty v then v
        else if xv_loadedKey v = Some key then v
        else if (case xv_ownSaved v of None \<Rightarrow> False | Some saved \<Rightarrow> isOwnSavedFileVersion saved (xv_entry v))
          then v\<lparr>xv_loadedKey := Some key, xv_ownSaved := None\<rparr>
        else v\<lparr>xv_savedText := None, xv_dirty := False, xv_state := TextLoading,
          xv_loads := xv_loads v @ [\<lparr>tl_key = key, tl_path = fs_path (xv_entry v), tl_live = True\<rparr>]\<rparr>)"

definition decodeTextFile :: "bytes \<Rightarrow> jstring result" where
  "decodeTextFile content = text_decode content"

definition text_loaded :: "nat \<Rightarrow> bytes result \<Rightarrow> text_viewer \<Rightarrow> text_viewer" where
  "text_loaded n answer v =
     (if n < length (xv_loads v) \<and> tl_live (xv_loads v ! n) then
        let load = xv_loads v ! n; v = v\<lparr>xv_loads := (xv_loads v)[n := load\<lparr>tl_live := False\<rparr>]\<rparr> in
        case ebind answer decodeTextFile of
          Inr text \<Rightarrow> v\<lparr>xv_loadedKey := Some (tl_key load), xv_savedText := Some text,
            xv_state := TextReady text None False\<rparr>
        | Inl err \<Rightarrow> v\<lparr>xv_state := TextError (err_message err)\<rparr>
      else v)"

section \<open>Editing and saving\<close>

definition changeDraftText :: "jstring \<Rightarrow> text_viewer \<Rightarrow> text_viewer" where
  "changeDraftText nextText v =
     (let v = v\<lparr>xv_dirty := (xv_savedText v \<noteq> None \<and> Some nextText \<noteq> xv_savedText v)\<rparr> in
      case xv_state v of
        TextReady draft err saving \<Rightarrow> v\<lparr>xv_state := TextReady nextText None saving\<rparr>
      | _ \<Rightarrow> v)"

definition saveDraftText :: "jstring \<Rightarrow> text_viewer \<Rightarrow> text_viewer" where
  "saveDraftText nextText v =
     (let path = fs_path (xv_entry v);
          v = (case xv_state v of
                 TextReady draft err saving \<Rightarrow> v\<lparr>xv_state := TextReady nextText None True\<rparr>
               | _ \<Rightarrow> v) in
      v\<lparr>xv_saves := xv_saves v @ [\<lparr>ts_key = versionKeyOf (xv_entry v), ts_path = path, ts_text = nextText\<rparr>],
        xv_writes := xv_writes v @ [(path, text_encode nextText)]\<rparr>)"

text \<open>The answer of a save.\<close>

definition text_saved :: "nat \<Rightarrow> WriteFileResult result \<Rightarrow> text_viewer \<Rightarrow> text_viewer" where
  "text_saved n answer v =
     (if n < length (xv_saves v) then
        let save = xv_saves v ! n; v = v\<lparr>xv_saves := take n (xv_saves v) @ drop (Suc n) (xv_saves v)\<rparr> in
        case answer of
          Inr written \<Rightarrow>
            let v = v\<lparr>xv_loadedKey := Some (ts_key save),
                  xv_ownSaved := Some \<lparr>os_modifiedAtMs = wfr_modifiedAtMs written, os_path = ts_path save,
                    os_size = wfr_resultSize written\<rparr>,
                  xv_savedText := Some (ts_text save)\<rparr> in
            (case xv_state v of
               TextReady draft err saving \<Rightarrow> v\<lparr>xv_state := TextReady (ts_text save) None False\<rparr>
             | _ \<Rightarrow> v)\<lparr>xv_dirty := False\<rparr>
        | Inl err \<Rightarrow>
            (case xv_state v of
               TextReady draft _ saving \<Rightarrow> v\<lparr>xv_state := TextReady draft (Some (err_message err)) False\<rparr>
             | _ \<Rightarrow> v)
      else v)"

text \<open>What is shown.\<close>

datatype text_content =
  TextNoMachine | TextNothing | TextConfirmOpen string | TextLoadingShown | TextErrorShown jstring
| TextEditor jstring "jstring option"

definition TextFileViewer :: "text_viewer \<Rightarrow> text_content" where
  "TextFileViewer v =
     (if xv_machine v = None then TextNoMachine
      else if xv_detected v = None then TextNothing
      else if \<not> textConfirmed v then TextConfirmOpen ''text viewer''
      else case xv_state v of
        TextLoading \<Rightarrow> TextLoadingShown
      | TextError m \<Rightarrow> TextErrorShown m
      | TextReady draft saveError saving \<Rightarrow>
          TextEditor draft (if saving then Some (js ''Saving'') else if truthy saveError then saveError else None))"

section \<open>Runs\<close>

text \<open>The user can type and save only when the editor is shown, and saves what the editor holds. The tool
  around the viewer can change its properties at any time.\<close>

inductive text_reachable :: "bool \<Rightarrow> text_viewer \<Rightarrow> bool" where
  text_initial: "text_reachable dirty (initial_text_viewer entry machine found dirty)"
| text_props: "text_reachable d v \<Longrightarrow>
    text_reachable d (v\<lparr>xv_entry := entry, xv_machine := machine, xv_detected := found\<rparr>)"
| text_confirm: "text_reachable d v \<Longrightarrow> text_reachable d (v\<lparr>xv_confirmedPath := Some path\<rparr>)"
| text_render: "text_reachable d v \<Longrightarrow> text_reachable d (text_effect v)"
| text_load_ends: "text_reachable d v \<Longrightarrow> text_reachable d (text_loaded n content v)"
| text_type: "text_reachable d v \<Longrightarrow> TextFileViewer v = TextEditor draft note \<Longrightarrow>
    text_reachable d (changeDraftText nextText v)"
| text_save_starts: "text_reachable d v \<Longrightarrow> TextFileViewer v = TextEditor draft note \<Longrightarrow>
    text_reachable d (saveDraftText draft v)"
| text_save_ends: "text_reachable d v \<Longrightarrow> text_reachable d (text_saved n written v)"

text \<open>Ready means that the text of the file is known and that the mark of the tab is right; only the last
  load can be live, and then nothing is shown or marked.\<close>

definition text_ok :: "text_viewer \<Rightarrow> bool" where
  "text_ok v \<longleftrightarrow>
     (case xv_state v of
        TextReady draft err saving \<Rightarrow> xv_savedText v \<noteq> None \<and> (xv_dirty v \<longleftrightarrow> xv_savedText v \<noteq> Some draft)
      | _ \<Rightarrow> True) \<and>
     (\<forall>i < length (xv_loads v). tl_live (xv_loads v ! i) \<longrightarrow>
        Suc i = length (xv_loads v) \<and> \<not> xv_dirty v \<and> xv_state v = TextLoading)"

lemma editor_ready:
  "TextFileViewer v = TextEditor draft note \<Longrightarrow> \<exists>err saving. xv_state v = TextReady draft err saving"
  by (auto simp: TextFileViewer_def split: if_splits text_read_state.splits)

lemma text_effect_ok: "text_ok v \<Longrightarrow> text_ok (text_effect v)"
  by (cases "xv_state v") (simp_all add: text_ok_def text_effect_def Let_def nth_append)

lemma text_loaded_ok: "text_ok v \<Longrightarrow> text_ok (text_loaded n answer v)"
  by (auto simp: text_ok_def text_loaded_def Let_def nth_list_update split: sum.splits if_splits)
    (metis Suc_inject)+

lemma changeDraftText_ok:
  assumes "text_ok v" "xv_state v = TextReady draft err saving"
  shows "text_ok (changeDraftText nextText v)"
  using assms by (auto simp: text_ok_def changeDraftText_def Let_def)

lemma saveDraftText_ok:
  assumes "text_ok v" "xv_state v = TextReady draft err saving"
  shows "text_ok (saveDraftText draft v)"
  using assms by (auto simp: text_ok_def saveDraftText_def Let_def)

lemma text_saved_ok: "text_ok v \<Longrightarrow> text_ok (text_saved n answer v)"
  by (cases "xv_state v"; cases answer) (auto simp: text_ok_def text_saved_def Let_def)

lemma text_reachable_ok: "text_reachable d v \<Longrightarrow> text_ok v"
proof (induction rule: text_reachable.induct)
  case (text_type d v draft label nextText)
  then show ?case using changeDraftText_ok editor_ready by blast
next
  case (text_save_starts d v draft label)
  then show ?case using saveDraftText_ok editor_ready by blast
next
  case (text_initial dirty entry machine found)
  then show ?case by (simp add: text_ok_def initial_text_viewer_def)
next
  case (text_props d v entry machine found)
  then show ?case by (cases "xv_state v") (simp_all add: text_ok_def)
next
  case (text_confirm d v path)
  then show ?case by (cases "xv_state v") (simp_all add: text_ok_def)
qed (simp_all add: text_effect_ok text_loaded_ok text_saved_ok)

text \<open>(C26) In every run of the text viewer, while the editor is shown, the tab is marked as having unsaved
  changes exactly when what the editor holds differs from what was last loaded or saved; and no load
  is under way that could replace it.\<close>

theorem dirty_mark_is_right:
  assumes "text_reachable d v" "TextFileViewer v = TextEditor draft note"
  shows "\<exists>text. xv_savedText v = Some text \<and> (xv_dirty v \<longleftrightarrow> draft \<noteq> text) \<and>
    (\<forall>load \<in> set (xv_loads v). \<not> tl_live load)"
proof -
  from assms(2) obtain err saving where r: "xv_state v = TextReady draft err saving" using editor_ready by blast
  with text_reachable_ok [OF assms(1)] show ?thesis
    by (auto simp: text_ok_def in_set_conv_nth)
qed

definition note_entry :: FsEntry where
  "note_entry = \<lparr>fs_name = js ''a'', fs_path = js ''/a'', fs_kind = FsFile, fs_size = Some 2,
     fs_modifiedAtMs = Some 1, fs_readonly = False\<rparr>"

definition note_viewer :: text_viewer where
  "note_viewer = text_effect (initial_text_viewer note_entry (Some box_machine) (Some 0) False)"

definition open_note :: text_viewer where
  "open_note = text_loaded 0 (Inr [104, 105]) note_viewer"

lemma open_note_reachable: "text_reachable False open_note"
  unfolding open_note_def note_viewer_def by (intro text_load_ends text_render text_initial)

lemma note_confirmed: "fs_size (xv_entry v) = Some 2 \<Longrightarrow> textConfirmed v"
  by (simp add: textConfirmed_def textRequiresConfirmation_def textInlineOpenLimitBytes_def)

lemma note_fields:
  "xv_machine note_viewer = Some box_machine" "xv_detected note_viewer = Some 0" "xv_entry note_viewer = note_entry"
  "xv_writes note_viewer = []" "xv_saves note_viewer = []" "textConfirmed note_viewer"
  "length (xv_loads note_viewer) = 1" "tl_live (xv_loads note_viewer ! 0)"
  by (simp_all add: note_viewer_def text_effect_def initial_text_viewer_def note_confirmed note_entry_def Let_def)

lemma note_bytes:
  "decodeTextFile [104, 105] = Inr (js ''hi'')" "decodeTextFile [0xEF, 0xBB, 0xBF, 104, 105] = Inr (js ''hi'')"
  by (simp_all add: decodeTextFile_def text_decode_def strip_bom_bytes_def utf8_scalars.simps of_scalar_def js_def)

lemma open_note:
  "xv_savedText open_note = Some (js ''hi'')" "xv_state open_note = TextReady (js ''hi'') None False"
  "xv_machine open_note = Some box_machine" "xv_detected open_note = Some 0" "xv_entry open_note = note_entry"
  "xv_saves open_note = []"
  by (simp_all add: open_note_def text_loaded_def note_fields note_bytes Let_def)

lemma open_note_editor: "TextFileViewer open_note = TextEditor (js ''hi'') None"
  by (simp add: TextFileViewer_def open_note note_confirmed note_entry_def truthy_def)

theorem dirty_mark_is_right_witness: "\<not> xv_dirty open_note"
proof -
  have "xv_savedText open_note = Some (js ''hi'')" by (simp add: open_note)
  with dirty_mark_is_right [OF open_note_reachable open_note_editor] show ?thesis by simp
qed

section \<open>Saving\<close>

text \<open>A file that is loaded into the editor and saved unchanged is written back byte for byte, except
  that a byte order mark at its start is lost.\<close>

theorem unchanged_file_saved_back:
  assumes "n < length (xv_loads v)" "tl_live (xv_loads v ! n)" "decodeTextFile content = Inr draft"
    "xv_machine v \<noteq> None" "xv_detected v \<noteq> None" "textConfirmed v"
  shows "TextFileViewer (text_loaded n (Inr content) v) = TextEditor draft None \<and>
    xv_writes (saveDraftText draft (text_loaded n (Inr content) v)) =
      xv_writes v @ [(fs_path (xv_entry v), strip_bom_bytes content)]"
  using assms text_encode_decode [of content draft]
  by (simp add: text_loaded_def saveDraftText_def TextFileViewer_def textConfirmed_def truthy_def
      decodeTextFile_def Let_def)

theorem unchanged_file_saved_back_witness:
  "xv_writes (saveDraftText (js ''hi'') (text_loaded 0 (Inr [0xEF, 0xBB, 0xBF, 104, 105]) note_viewer)) =
   [(js ''/a'', [104, 105])]"
  using unchanged_file_saved_back [of 0 note_viewer "[0xEF, 0xBB, 0xBF, 104, 105]" "js ''hi''"] note_bytes(2)
  by (simp add: note_fields note_entry_def strip_bom_bytes_def)

text \<open>What is typed while a save is under way is thrown away when the save succeeds: the editor goes
  back to the saved text and the tab is not marked.\<close>

theorem typed_during_save_is_lost:
  assumes "TextFileViewer v = TextEditor draft label"
  shows "let w = text_saved (length (xv_saves v)) (Inr answer) (changeDraftText typed (saveDraftText draft v)) in
    TextFileViewer w = TextEditor draft None \<and> \<not> xv_dirty w \<and>
    xv_writes w = xv_writes v @ [(fs_path (xv_entry v), text_encode draft)]"
proof -
  from assms obtain err saving where "xv_state v = TextReady draft err saving" using editor_ready by blast
  with assms show ?thesis
    by (simp add: text_saved_def changeDraftText_def saveDraftText_def TextFileViewer_def textConfirmed_def
        truthy_def Let_def split: if_splits)
qed

theorem typed_during_save_is_lost_witness:
  "TextFileViewer (text_saved 0 (Inr \<lparr>wfr_bytesWritten = 2, wfr_resultSize = 2, wfr_modifiedAtMs = None\<rparr>)
     (changeDraftText (js ''hi you'') (saveDraftText (js ''hi'') open_note))) =
   TextEditor (js ''hi'') None"
proof -
  have "xv_saves open_note = []" by (rule open_note)
  then show ?thesis
    using typed_during_save_is_lost [OF open_note_editor,
        of "\<lparr>wfr_bytesWritten = 2, wfr_resultSize = 2, wfr_modifiedAtMs = None\<rparr>" "js ''hi you''"]
    by (simp add: Let_def)
qed

text \<open>A text viewer mounted in a tab that is marked as having unsaved changes never loads its file: it
  shows that it is loading whatever happens. A tab keeps its mark when its viewer is unmounted.\<close>

theorem marked_tab_never_loads:
  assumes "text_reachable True v"
  shows "xv_state v = TextLoading \<and> xv_dirty v \<and> (\<forall>load \<in> set (xv_loads v). \<not> tl_live load)"
proof -
  have "d \<Longrightarrow> xv_state v = TextLoading \<and> xv_dirty v \<and> xv_loads v = [] \<and> xv_saves v = []"
    if "text_reachable d v" for d v
    using that
  proof (induction rule: text_reachable.induct)
    case (text_type d v draft label nextText)
    then show ?case using editor_ready by fastforce
  next
    case (text_save_starts d v draft label)
    then show ?case using editor_ready by fastforce
  qed (simp_all add: initial_text_viewer_def text_effect_def text_loaded_def text_saved_def Let_def)
  then show ?thesis using assms by simp
qed

theorem marked_tab_never_loads_witness:
  "TextFileViewer (text_effect (initial_text_viewer note_entry (Some box_machine) (Some 0) True)) = TextLoadingShown"
proof -
  let ?v = "text_effect (initial_text_viewer note_entry (Some box_machine) (Some 0) True)"
  have "text_reachable True ?v" by (intro text_render text_initial)
  from marked_tab_never_loads [OF this] have "xv_state ?v = TextLoading" by simp
  moreover have "xv_machine ?v \<noteq> None" "xv_detected ?v \<noteq> None" "textConfirmed ?v"
    by (simp_all add: text_effect_def initial_text_viewer_def note_confirmed note_entry_def Let_def)
  ultimately show ?thesis by (simp add: TextFileViewer_def)
qed

end
