(* ===== verification/MarkdownView.thy ===== *)
theory MarkdownView
  imports FileViewer
begin

text \<open>
  The sanitizer of the markdown viewer, \<open>.../file-viewer/impl/markdown/index.tsx\<close>: the tree that the
  \<open>marked\<close> package and the HTML parser of the browser give is walked before it is shown. A tree is a
  forest of nodes; \<open>lower\<close> is \<open>toLowerCase\<close>, and \<open>protocol\<close> the protocol of \<open>new URL(trimmed, location)\<close>,
  \<open>None\<close> when it throws.
\<close>

section \<open>The walk\<close>

datatype dom =
  DomText jstring | DomComment jstring | DomOther jstring | DomElement jstring "(jstring \<times> jstring) list" "dom list"

definition allowedMarkdownTags :: "string list" where
  "allowedMarkdownTags = [''a'', ''blockquote'', ''br'', ''code'', ''del'', ''div'', ''em'', ''h1'', ''h2'',
     ''h3'', ''h4'', ''h5'', ''h6'', ''hr'', ''li'', ''ol'', ''p'', ''pre'', ''s'', ''strong'', ''table'',
     ''tbody'', ''td'', ''th'', ''thead'', ''tr'', ''ul'']"

definition removedMarkdownTags :: "string list" where
  "removedMarkdownTags = [''iframe'', ''link'', ''meta'', ''object'', ''script'', ''style'']"

definition isSafeMarkdownUrl :: "(jstring \<Rightarrow> jstring option) \<Rightarrow> jstring \<Rightarrow> bool" where
  "isSafeMarkdownUrl protocol v \<longleftrightarrow>
     (let trimmed = trim v in
      startsWith trimmed (js ''#'') \<or>
      protocol trimmed \<in> {Some (js ''http:''), Some (js ''https:''), Some (js ''mailto:'')})"

text \<open>\<open>setAttribute\<close>: an attribute keeps its place, a new one comes last.\<close>

fun setAttribute :: "jstring \<Rightarrow> jstring \<Rightarrow> (jstring \<times> jstring) list \<Rightarrow> (jstring \<times> jstring) list" where
  "setAttribute k v [] = [(k, v)]"
| "setAttribute k v ((k', v') # attrs) =
     (if k' = k then (k, v) # attrs else (k', v') # setAttribute k v attrs)"

definition keptAttribute :: "(jstring \<Rightarrow> jstring option) \<Rightarrow> jstring \<Rightarrow> jstring \<times> jstring \<Rightarrow> bool" where
  "keptAttribute protocol tagName attr \<longleftrightarrow>
     fst attr = js ''href'' \<and> tagName = js ''a'' \<and> isSafeMarkdownUrl protocol (snd attr)"

definition sanitizeMarkdownAttributes ::
    "(jstring \<Rightarrow> jstring option) \<Rightarrow> jstring \<Rightarrow> (jstring \<times> jstring) list \<Rightarrow> (jstring \<times> jstring) list" where
  "sanitizeMarkdownAttributes protocol tagName attrs =
     (let attrs = filter (keptAttribute protocol tagName) attrs in
      if tagName = js ''a'' \<and> js ''href'' \<in> fst ` set attrs then
        setAttribute (js ''rel'') (js ''noreferrer noopener'') (setAttribute (js ''target'') (js ''_blank'') attrs)
      else attrs)"

fun sanitizeMarkdownNode :: "(jstring \<Rightarrow> jstring) \<Rightarrow> (jstring \<Rightarrow> jstring option) \<Rightarrow> dom \<Rightarrow> dom list" where
  "sanitizeMarkdownNode lower protocol (DomComment t) = []"
| "sanitizeMarkdownNode lower protocol (DomElement tag attrs children) =
     (let tagName = lower tag in
      if one_of removedMarkdownTags tagName then []
      else let children = concat (map (sanitizeMarkdownNode lower protocol) children) in
        if \<not> one_of allowedMarkdownTags tagName then children
        else [DomElement tag (sanitizeMarkdownAttributes protocol tagName attrs) children])"
| "sanitizeMarkdownNode lower protocol node = [node]"

definition sanitizeMarkdownChildren ::
    "(jstring \<Rightarrow> jstring) \<Rightarrow> (jstring \<Rightarrow> jstring option) \<Rightarrow> dom list \<Rightarrow> dom list" where
  "sanitizeMarkdownChildren lower protocol children = concat (map (sanitizeMarkdownNode lower protocol) children)"

section \<open>What remains\<close>

text \<open>Every node of a tree, and its text.\<close>

fun nodes_of :: "dom \<Rightarrow> dom list" where
  "nodes_of (DomElement tag attrs children) = DomElement tag attrs children # concat (map nodes_of children)"
| "nodes_of node = [node]"

definition safe_attributes :: "(jstring \<Rightarrow> jstring option) \<Rightarrow> jstring \<Rightarrow> (jstring \<times> jstring) list \<Rightarrow> bool" where
  "safe_attributes protocol tagName attrs \<longleftrightarrow>
     (\<forall>(k, v) \<in> set attrs.
        tagName = js ''a'' \<and> (k = js ''href'' \<and> isSafeMarkdownUrl protocol v \<or>
          (k, v) \<in> {(js ''target'', js ''_blank''), (js ''rel'', js ''noreferrer noopener'')}))"

fun safe_node :: "(jstring \<Rightarrow> jstring) \<Rightarrow> (jstring \<Rightarrow> jstring option) \<Rightarrow> dom \<Rightarrow> bool" where
  "safe_node lower protocol (DomElement tag attrs children) \<longleftrightarrow>
     one_of allowedMarkdownTags (lower tag) \<and> safe_attributes protocol (lower tag) attrs"
| "safe_node lower protocol (DomComment t) \<longleftrightarrow> False"
| "safe_node lower protocol node \<longleftrightarrow> True"

lemma js_eq_iff [simp]: "js s = js t \<longleftrightarrow> s = t"
proof
  assume "js s = js t"
  then show "s = t"
    unfolding js_def by (induction s t rule: list_induct2') (simp_all add: of_char_word_inject)
qed simp

lemma setAttribute_set: "set (setAttribute k v attrs) \<subseteq> insert (k, v) (set attrs)"
  by (induction attrs rule: setAttribute.induct) auto

lemma sanitized_attributes_safe: "safe_attributes protocol tagName (sanitizeMarkdownAttributes protocol tagName attrs)"
proof -
  let ?kept = "filter (keptAttribute protocol tagName) attrs"
  have "set (sanitizeMarkdownAttributes protocol tagName attrs) \<subseteq> set ?kept \<union>
      (if tagName = js ''a'' then {(js ''target'', js ''_blank''), (js ''rel'', js ''noreferrer noopener'')} else {})"
    unfolding sanitizeMarkdownAttributes_def Let_def
    using setAttribute_set [of "js ''rel''" "js ''noreferrer noopener''" "setAttribute (js ''target'') (js ''_blank'') ?kept"]
      setAttribute_set [of "js ''target''" "js ''_blank''" ?kept] by auto
  then show ?thesis unfolding safe_attributes_def by (fastforce simp: keptAttribute_def split: if_splits)
qed

lemma sanitized_node_safe:
  "n \<in> set (sanitizeMarkdownNode lower protocol node) \<Longrightarrow> m \<in> set (nodes_of n) \<Longrightarrow> safe_node lower protocol m"
proof (induction lower protocol node arbitrary: n m rule: sanitizeMarkdownNode.induct)
  case (2 lower protocol tag attrs children)
  then show ?case
    by (auto simp: Let_def sanitized_attributes_safe split: if_splits)
qed simp_all

lemma concat_singletons: "(\<And>x. x \<in> set xs \<Longrightarrow> f x = [x]) \<Longrightarrow> concat (map f xs) = xs"
  by (induction xs) simp_all

lemma concat_map_flat: "concat (map g (concat (map f xs))) = concat (map (\<lambda>x. concat (map g (f x))) xs)"
  by (induction xs) simp_all

lemma setAttribute_new: "k \<notin> fst ` set attrs \<Longrightarrow> setAttribute k v attrs = attrs @ [(k, v)]"
  by (induction attrs rule: setAttribute.induct) auto

lemma sanitized_attributes_again:
  "sanitizeMarkdownAttributes protocol tagName (sanitizeMarkdownAttributes protocol tagName attrs) =
   sanitizeMarkdownAttributes protocol tagName attrs"
proof -
  define kept where "kept = filter (keptAttribute protocol tagName) attrs"
  have k: "\<And>a. a \<in> set kept \<Longrightarrow> fst a = js ''href''" by (auto simp: kept_def keptAttribute_def)
  have f: "filter (keptAttribute protocol tagName) kept = kept" by (simp add: kept_def)
  have t: "js ''target'' \<notin> fst ` set kept" "js ''rel'' \<notin> fst ` set (kept @ [(js ''target'', js ''_blank'')])"
    using k by fastforce+
  have n: "\<not> keptAttribute protocol tagName (js ''target'', v)" "\<not> keptAttribute protocol tagName (js ''rel'', v)" for v
    by (simp_all add: keptAttribute_def)
  let ?links = "kept @ [(js ''target'', js ''_blank''), (js ''rel'', js ''noreferrer noopener'')]"
  have "sanitizeMarkdownAttributes protocol tagName attrs \<in> {kept, ?links}"
    unfolding sanitizeMarkdownAttributes_def Let_def kept_def [symmetric]
    using setAttribute_new [OF t(1)] setAttribute_new [OF t(2)] by simp
  moreover have "filter (keptAttribute protocol tagName) ?links = kept" by (simp add: f n)
  ultimately have "filter (keptAttribute protocol tagName) (sanitizeMarkdownAttributes protocol tagName attrs) =
      filter (keptAttribute protocol tagName) attrs"
    using f kept_def by auto
  then show ?thesis by (simp only: sanitizeMarkdownAttributes_def)
qed

lemma sanitized_again:
  "n \<in> set (sanitizeMarkdownNode lower protocol node) \<Longrightarrow> sanitizeMarkdownNode lower protocol n = [n]"
proof (induction lower protocol node arbitrary: n rule: sanitizeMarkdownNode.induct)
  case (2 lower protocol tag attrs children)
  let ?kids = "concat (map (sanitizeMarkdownNode lower protocol) children)"
  have kids: "sanitizeMarkdownNode lower protocol m = [m]" if "m \<in> set ?kids" "\<not> one_of removedMarkdownTags (lower tag)" for m
    using 2 that by auto
  have again: "concat (map (sanitizeMarkdownNode lower protocol) ?kids) = ?kids"
    if "\<not> one_of removedMarkdownTags (lower tag)"
    by (rule concat_singletons) (use kids [OF _ that] in blast)
  show ?case
    using 2(2) kids again by (auto simp: Let_def sanitized_attributes_again split: if_splits)
qed simp_all

text \<open>The text a reader sees, that of comments and removed elements apart.\<close>

fun shown_text :: "(jstring \<Rightarrow> jstring) \<Rightarrow> dom \<Rightarrow> jstring" where
  "shown_text lower (DomText t) = t"
| "shown_text lower (DomElement tag attrs children) =
     (if one_of removedMarkdownTags (lower tag) then [] else concat (map (shown_text lower) children))"
| "shown_text lower node = []"

lemma sanitized_text: "concat (map (shown_text lower) (sanitizeMarkdownNode lower protocol node)) = shown_text lower node"
proof (induction lower protocol node rule: sanitizeMarkdownNode.induct)
  case (2 lower protocol tag attrs children)
  then have "\<not> one_of removedMarkdownTags (lower tag) \<Longrightarrow>
      concat (map (shown_text lower) (concat (map (sanitizeMarkdownNode lower protocol) children))) =
      concat (map (shown_text lower) children)"
    unfolding concat_map_flat by (simp cong: map_cong)
  then show ?case by (simp add: Let_def)
qed simp_all

text \<open>(C31) In what the markdown viewer shows, at any depth, there are no comments, every element has one of
  the allowed tags, and the only attributes are, on links, an address that is safe and the two that open
  it in a new window without a reference to the viewer.\<close>

theorem markdown_is_safe:
  assumes "n \<in> set (sanitizeMarkdownChildren lower protocol forest)" "m \<in> set (nodes_of n)"
  shows "safe_node lower protocol m"
  using assms sanitized_node_safe by (auto simp: sanitizeMarkdownChildren_def)

text \<open>Sanitizing a markdown tree loses none of the text that is outside comments and removed elements,
  keeps its order, and changes nothing the second time.\<close>

theorem sanitizer_keeps_text:
  "concat (map (shown_text lower) (sanitizeMarkdownChildren lower protocol forest)) =
     concat (map (shown_text lower) forest) \<and>
   sanitizeMarkdownChildren lower protocol (sanitizeMarkdownChildren lower protocol forest) =
     sanitizeMarkdownChildren lower protocol forest"
proof
  let ?s = "sanitizeMarkdownChildren lower protocol forest"
  show "concat (map (shown_text lower) ?s) = concat (map (shown_text lower) forest)"
    unfolding sanitizeMarkdownChildren_def concat_map_flat by (simp add: sanitized_text)
  have "sanitizeMarkdownNode lower protocol n = [n]" if "n \<in> set ?s" for n
    using that sanitized_again by (auto simp: sanitizeMarkdownChildren_def)
  then have "concat (map (sanitizeMarkdownNode lower protocol) ?s) = ?s" by (rule concat_singletons)
  then show "sanitizeMarkdownChildren lower protocol ?s = ?s" by (simp only: sanitizeMarkdownChildren_def)
qed

definition https_only :: "jstring \<Rightarrow> jstring option" where
  "https_only url = (if startsWith url (js ''https:'') then Some (js ''https:'') else None)"

theorem markdown_is_safe_witness:
  "list_all (\<lambda>n. list_all (safe_node id https_only) (nodes_of n)) (sanitizeMarkdownChildren id https_only
     [DomElement (js ''svg'') [] [DomElement (js ''a'') [(js ''href'', js ''https://x''), (js ''onclick'', js ''y'')]
       [DomText (js ''t''), DomElement (js ''script'') [] [DomText (js ''z'')]]]])"
  unfolding list_all_iff by (intro ballI markdown_is_safe)

end
