(* ===== verification/FileImpls.thy ===== *)
theory FileImpls
  imports TextFile MarkdownView
begin

text \<open>
  The viewers that only show a file: hex, image, PDF and markdown (\<open>.../file-viewer/impl\<close>), which read it
  by the same scheme, and what each makes of the bytes.
\<close>

section \<open>The hex preview\<close>

definition hex_digit :: "nat \<Rightarrow> char" where
  "hex_digit n = char_of (if n < 10 then 48 + n else 87 + n)"

fun toHex :: "nat \<Rightarrow> string" where
  "toHex n = (if n < 16 then [hex_digit n] else toHex (n div 16) @ [hex_digit (n mod 16)])"

declare toHex.simps [simp del]

definition padStart :: "nat \<Rightarrow> char \<Rightarrow> string \<Rightarrow> string" where
  "padStart n c s = replicate (n - length s) c @ s"

definition padEnd :: "nat \<Rightarrow> char \<Rightarrow> string \<Rightarrow> string" where
  "padEnd n c s = s @ replicate (n - length s) c"

definition hex_byte :: "u8 \<Rightarrow> string" where
  "hex_byte b = padStart 2 CHR ''0'' (toHex (unat b))"

definition ascii_byte :: "u8 \<Rightarrow> char" where
  "ascii_byte b = (if 32 \<le> unat b \<and> unat b \<le> 126 then char_of (unat b) else CHR ''.'')"

definition hex_line :: "nat \<Rightarrow> bytes \<Rightarrow> string" where
  "hex_line offset chunk =
     padStart 8 CHR ''0'' (toHex offset) @ ''  '' @ padEnd 47 CHR '' '' (join '' '' (map hex_byte chunk)) @
     ''  |'' @ map ascii_byte chunk @ ''|''"

function hex_lines :: "nat \<Rightarrow> bytes \<Rightarrow> string list" where
  "hex_lines offset preview =
     (if preview = [] then [] else hex_line offset (take 16 preview) # hex_lines (offset + 16) (drop 16 preview))"
  by auto
termination by (relation "measure (\<lambda>(_, preview). length preview)") auto

declare hex_lines.simps [simp del]

definition decodeHexFilePreview :: "bytes \<Rightarrow> string" where
  "decodeHexFilePreview content =
     (let previewLength = min (length content) 4096;
          lines = hex_lines 0 (take previewLength content) in
      join [CHR 0x0A]
        (if length content > previewLength
         then lines @ [''... '' @ formatSize (Some (int (length content - previewLength))) @ '' more'']
         else lines))"

text \<open>Reading the preview back: the bytes of the hex column of a line.\<close>

definition unhex :: "char \<Rightarrow> nat" where
  "unhex c = (let n = of_char c in if n < 58 then n - 48 else n - 87)"

fun read_hex_column :: "string \<Rightarrow> bytes" where
  "read_hex_column (a # b # rest) =
     (if a = CHR '' '' then [] else byte (16 * unhex a + unhex b) # read_hex_column (drop 1 rest))"
| "read_hex_column s = []"

definition read_hex_line :: "string \<Rightarrow> bytes" where
  "read_hex_line line = read_hex_column (take 47 (drop 10 line))"

definition read_hex_preview :: "string \<Rightarrow> bytes" where
  "read_hex_preview preview = concat (map read_hex_line (segments (\<lambda>c. c = CHR 0x0A) preview))"

lemma zero_char [simp]: "char_of (48 :: nat) = CHR ''0''"
  by (simp add: char_of_eq_iff)

lemma unhex_digit: "n < 16 \<Longrightarrow> unhex (hex_digit n) = n"
  by (auto simp: unhex_def hex_digit_def Let_def)

lemma hex_digit_not: "n < 16 \<Longrightarrow> hex_digit n \<noteq> CHR '' '' \<and> hex_digit n \<noteq> CHR 0x0A"
  by (auto simp: hex_digit_def char_of_eq_iff take_bit_eq_mod)

lemma hex_byte_digits: "hex_byte b = [hex_digit (unat b div 16), hex_digit (unat b mod 16)]"
proof -
  have b: "unat b < 256" using unsigned_less [of b] by simp
  then have "unat b div 16 < 16" by (intro less_mult_imp_div_less) simp
  then show ?thesis
    using b by (auto simp: hex_byte_def padStart_def toHex.simps [of "unat b"] toHex.simps [of "unat b div 16"]
        hex_digit_def)
qed

lemma read_hex_byte: "read_hex_column (hex_byte b @ rest) = b # read_hex_column (drop 1 rest)"
proof -
  have "unat b < 256" using unsigned_less [of b] by simp
  then have d: "unat b div 16 < 16" "unat b mod 16 < 16" by (intro less_mult_imp_div_less) simp_all
  then have "byte (16 * unhex (hex_digit (unat b div 16)) + unhex (hex_digit (unat b mod 16))) = b"
    by (simp add: unhex_digit byte_unat)
  then show ?thesis using hex_digit_not [OF d(1)] by (simp add: hex_byte_digits)
qed

lemma read_hex_blank: "read_hex_column (replicate n CHR '' '') = []"
  by (cases n; cases "n - 1") auto

lemma read_hex_join: "read_hex_column (join '' '' (map hex_byte chunk) @ replicate n CHR '' '') = chunk"
proof (induction chunk)
  case Nil
  show ?case by (simp add: read_hex_blank)
next
  case (Cons b chunk)
  then show ?case
    by (cases chunk) (simp_all add: read_hex_byte read_hex_blank drop_replicate)
qed

lemma join_hex_length: "length (join '' '' (map hex_byte chunk)) = 3 * length chunk - 1"
proof (induction chunk)
  case (Cons b chunk)
  then show ?case by (cases chunk) (simp_all add: hex_byte_digits)
qed simp

lemma toHex_length: "n < 16 ^ Suc k \<Longrightarrow> length (toHex n) \<le> Suc k"
proof (induction k arbitrary: n)
  case (Suc k)
  then have "n div 16 < 16 ^ Suc k" by (simp add: less_mult_imp_div_less mult.commute)
  with Suc.IH [of "n div 16"] show ?case by (simp add: toHex.simps [of n])
qed (simp add: toHex.simps)

lemma read_hex_line_back:
  assumes "offset < 16 ^ 8" "length chunk \<le> 16"
  shows "read_hex_line (hex_line offset chunk) = chunk"
proof -
  have p: "length (padStart 8 CHR ''0'' (toHex offset)) = 8"
    using toHex_length [of offset 7] assms(1) by (simp add: padStart_def)
  have h: "length (padEnd 47 CHR '' '' (join '' '' (map hex_byte chunk))) = 47"
    using assms(2) by (simp add: padEnd_def join_hex_length)
  have "drop 10 (hex_line offset chunk) = padEnd 47 CHR '' '' (join '' '' (map hex_byte chunk)) @
      ''  |'' @ map ascii_byte chunk @ ''|''"
    using p by (simp add: hex_line_def)
  then have "take 47 (drop 10 (hex_line offset chunk)) = padEnd 47 CHR '' '' (join '' '' (map hex_byte chunk))"
    using h by simp
  then show ?thesis by (simp add: read_hex_line_def padEnd_def read_hex_join)
qed

lemma read_hex_lines:
  "offset + length preview \<le> 16 ^ 8 \<Longrightarrow> concat (map read_hex_line (hex_lines offset preview)) = preview"
proof (induction offset preview rule: hex_lines.induct)
  case (1 offset preview)
  show ?case
  proof (cases "preview = []")
    case True
    then show ?thesis by (simp add: hex_lines.simps)
  next
    case False
    then have "offset < 16 ^ 8" using 1(2) by (cases preview) simp_all
    moreover have "concat (map read_hex_line (hex_lines (offset + 16) (drop 16 preview))) = drop 16 preview"
      by (cases "length preview \<le> 16") (use 1 False in \<open>simp_all add: hex_lines.simps [of _ "[]"]\<close>)
    ultimately show ?thesis
      using False by (simp add: hex_lines.simps [of offset preview] read_hex_line_back)
  qed
qed

text \<open>Neither the separator nor a line holds a line feed inside, so the lines are found again.\<close>

lemma hex_char_free:
  "CHR 0x0A \<notin> set (toHex n)" "CHR 0x0A \<notin> set (hex_byte b)" "ascii_byte b \<noteq> CHR 0x0A"
proof -
  show t: "CHR 0x0A \<notin> set (toHex n)" for n
    by (induction n rule: toHex.induct) (subst toHex.simps, use hex_digit_not in \<open>auto dest: sym\<close>)
  show "CHR 0x0A \<notin> set (hex_byte b)"
    using t [of "unat b"] by (auto simp: hex_byte_def padStart_def)
  show "ascii_byte b \<noteq> CHR 0x0A"
    by (auto simp: ascii_byte_def char_of_eq_iff take_bit_eq_mod)
qed

lemma join_free: "c \<notin> set sep \<Longrightarrow> (\<And>x. x \<in> set xs \<Longrightarrow> c \<notin> set x) \<Longrightarrow> c \<notin> set (join sep xs)"
  by (induction sep xs rule: join.induct) auto

lemma hex_line_free: "CHR 0x0A \<notin> set (hex_line offset chunk)"
  using hex_char_free join_free [of "CHR 0x0A" "'' ''" "map hex_byte chunk"]
  by (auto simp: hex_line_def padStart_def padEnd_def) (metis hex_char_free(3))+

lemma segments_from_run:
  "(\<And>c. c \<in> set xs \<Longrightarrow> \<not> P c) \<Longrightarrow> segments_from P cur (xs @ ys) = segments_from P (cur @ xs) ys"
  by (induction xs arbitrary: cur) simp_all

lemma segments_join:
  assumes "P s" "\<And>x. x \<in> set xs \<Longrightarrow> x \<noteq> [] \<and> (\<forall>c \<in> set x. \<not> P c)"
  shows "segments P (join [s] xs) = xs"
  using assms(2)
proof (induction "[s]" xs rule: join.induct)
  case (2 x)
  then show ?case using segments_from_run [of x P "[]" "[]"] by (simp add: segments_def)
next
  case (3 x y zs)
  have "segments P (join [s] (y # zs)) = y # zs" by (rule 3(1)) (use 3(2) in auto)
  moreover have "segments_from P [] (x @ s # join [s] (y # zs)) = segments_from P x (s # join [s] (y # zs))"
    using segments_from_run [of x P "[]" "s # join [s] (y # zs)"] 3(2) [of x] by simp
  ultimately show ?case using 3(2) [of x] assms(1) by (simp add: segments_def)
qed (simp add: segments_def)

lemma hex_lines_free: "l \<in> set (hex_lines offset preview) \<Longrightarrow> l \<noteq> [] \<and> CHR 0x0A \<notin> set l"
proof (induction offset preview rule: hex_lines.induct)
  case (1 offset preview)
  then show ?case
    using hex_line_free by (auto simp: hex_lines.simps [of offset preview] hex_line_def split: if_splits)
qed

text \<open>The hex preview of a file of at most 4096 bytes shows every byte: reading the hex columns of its
  lines gives the file back. Of a longer file it shows the preview of the first 4096 bytes and the size of
  the rest.\<close>

theorem hex_preview_reads_back:
  "(length content \<le> 4096 \<longrightarrow> read_hex_preview (decodeHexFilePreview content) = content) \<and>
   (length content > 4096 \<longrightarrow> decodeHexFilePreview content =
      decodeHexFilePreview (take 4096 content) @ [CHR 0x0A] @ ''... '' @
        formatSize (Some (int (length content) - 4096)) @ '' more'')"
proof (intro conjI impI)
  assume l: "length content \<le> 4096"
  then have "decodeHexFilePreview content = join [CHR 0x0A] (hex_lines 0 content)"
    by (simp add: decodeHexFilePreview_def Let_def)
  moreover have "segments (\<lambda>c. c = CHR 0x0A) (join [CHR 0x0A] (hex_lines 0 content)) = hex_lines 0 content"
    by (rule segments_join) (use hex_lines_free in \<open>auto\<close>)
  moreover have "concat (map read_hex_line (hex_lines 0 content)) = content"
    by (rule read_hex_lines) (use l in simp)
  ultimately show "read_hex_preview (decodeHexFilePreview content) = content"
    by (simp add: read_hex_preview_def)
next
  assume l: "length content > 4096"
  then have ne: "hex_lines 0 (take 4096 content) \<noteq> []"
    by (auto simp: hex_lines.simps [of 0 "take 4096 content"])
  have j: "join sep (xs @ [y]) = join sep xs @ sep @ y" if "xs \<noteq> []" for sep :: string and xs y
    using that by (induction sep xs rule: join.induct) auto
  show "decodeHexFilePreview content = decodeHexFilePreview (take 4096 content) @ [CHR 0x0A] @ ''... '' @
      formatSize (Some (int (length content) - 4096)) @ '' more''"
    using l j [OF ne] by (simp add: decodeHexFilePreview_def Let_def of_nat_diff)
qed

theorem hex_preview_reads_back_witness:
  "read_hex_preview (decodeHexFilePreview [1, 0xAB, 65]) = [1, 0xAB, 65]"
  using hex_preview_reads_back [of "[1, 0xAB, 65]"] by simp

section \<open>Images\<close>

definition imageMimeTypeFromBytes :: "bytes \<Rightarrow> string option" where
  "imageMimeTypeFromBytes b =
     (if starts b [0x89, 0x50, 0x4e, 0x47] then Some ''image/png''
      else if starts b [0xff, 0xd8, 0xff] then Some ''image/jpeg''
      else if startsWithAscii b ''GIF87a'' \<or> startsWithAscii b ''GIF89a'' then Some ''image/gif''
      else if startsWithAscii b ''BM'' then Some ''image/bmp''
      else if starts b [0x00, 0x00, 0x01, 0x00] then Some ''image/x-icon''
      else if length b \<ge> 12 \<and> startsWithAscii b ''RIFF'' \<and> startsWithAscii (drop 8 b) ''WEBP'' then Some ''image/webp''
      else if length b \<ge> 12 \<and> startsWithAscii (drop 4 b) ''ftypavif'' then Some ''image/avif''
      else None)"

definition pathBasename :: "jstring \<Rightarrow> jstring" where
  "pathBasename path = drop (nat (max (lastIndexOf path slash) (lastIndexOf path backslash) + 1)) path"

definition imageFileExtension :: "(jstring \<Rightarrow> jstring) \<Rightarrow> jstring \<Rightarrow> jstring option" where
  "imageFileExtension lower path = fileExtension lower (pathBasename path)"

definition imageMimeTypes :: "(string \<times> string) list" where
  "imageMimeTypes = [(''avif'', ''image/avif''), (''bmp'', ''image/bmp''), (''gif'', ''image/gif''),
     (''ico'', ''image/x-icon''), (''jpeg'', ''image/jpeg''), (''jpg'', ''image/jpeg''), (''png'', ''image/png''),
     (''svg'', ''image/svg+xml''), (''webp'', ''image/webp'')]"

definition imageMimeType :: "(jstring \<Rightarrow> jstring) \<Rightarrow> jstring \<Rightarrow> bytes \<Rightarrow> string" where
  "imageMimeType lower path b =
     (case Option.bind (imageFileExtension lower path)
             (\<lambda>extension. map_of (map (\<lambda>(e, t). (js e, t)) imageMimeTypes) extension) of
        Some t \<Rightarrow> t
      | None \<Rightarrow> getOr (imageMimeTypeFromBytes b) ''application/octet-stream'')"

section \<open>The language of the editor\<close>

definition editor_languages :: "(string list \<times> string) list" where
  "editor_languages = [([''c'', ''h''], ''c''), ([''cmd'', ''bat''], ''bat''), ([''cpp'', ''hpp''], ''cpp''),
     ([''cs''], ''csharp''), ([''css''], ''css''), ([''go''], ''go''), ([''html''], ''html''), ([''java''], ''java''),
     ([''js'', ''mjs''], ''javascript''), ([''json''], ''json''), ([''jsx''], ''javascript''), ([''kt''], ''kotlin''),
     ([''md''], ''markdown''), ([''ps1''], ''powershell''), ([''py''], ''python''), ([''rs''], ''rust''),
     ([''sh''], ''shell''), ([''sql''], ''sql''), ([''svg'', ''xml''], ''xml''), ([''toml''], ''toml''),
     ([''ts''], ''typescript''), ([''tsx''], ''typescript''), ([''yaml'', ''yml''], ''yaml'')]"

definition languageFromPath :: "(jstring \<Rightarrow> jstring) \<Rightarrow> jstring \<Rightarrow> string" where
  "languageFromPath lower path =
     (let basename = lower (pathBasename path) in
      if basename = js ''dockerfile'' then ''dockerfile''
      else if basename = js ''makefile'' then ''makefile''
      else case fileExtension id basename of
        None \<Rightarrow> ''plaintext''
      | Some extension \<Rightarrow>
          (case find (\<lambda>(names, _). extension \<in> set (map js names)) editor_languages of
             None \<Rightarrow> ''plaintext''
           | Some (_, language) \<Rightarrow> language))"

section \<open>Reading the file\<close>

text \<open>\<open>rv_detected\<close> holds the first bytes the detection has read. A read is live until it is cancelled or
  has ended.\<close>

datatype 'a file_read_state = FileLoading | FileReady 'a | FileError jstring

record file_read =
  fr_path :: jstring
  fr_live :: bool

record 'a read_viewer =
  rv_entry :: FsEntry
  rv_machine :: "Machine option"
  rv_detected :: "bytes option"
  rv_confirmedPath :: "jstring option"
  rv_state :: "'a file_read_state"
  rv_deps :: "(bool \<times> FsEntry \<times> Machine option \<times> bytes option) option"
  rv_reads :: "file_read list"


definition inlineOpenLimitBytes :: int where
  "inlineOpenLimitBytes = 1024 * 1024"

definition imageInlineOpenLimitBytes :: int where
  "imageInlineOpenLimitBytes = 10 * 1024 * 1024"

definition requiresConfirmation :: "int \<Rightarrow> FsEntry \<Rightarrow> bool" where
  "requiresConfirmation limit entry \<longleftrightarrow> (case fs_size entry of None \<Rightarrow> True | Some bytes \<Rightarrow> limit < bytes)"

definition confirmed :: "int \<Rightarrow> 'a read_viewer \<Rightarrow> bool" where
  "confirmed limit v \<longleftrightarrow>
     \<not> requiresConfirmation limit (rv_entry v) \<or> rv_confirmedPath v = Some (fs_path (rv_entry v))"






datatype 'a file_content =
  FileNoMachine | FileNothing | FileConfirmOpen string | FileLoadingShown string | FileErrorShown jstring | FileShown 'a

definition file_content :: "int \<Rightarrow> string \<Rightarrow> string \<Rightarrow> 'a read_viewer \<Rightarrow> 'a file_content" where
  "file_content limit viewer loading v =
     (if rv_machine v = None then FileNoMachine
      else if rv_detected v = None then FileNothing
      else if \<not> confirmed limit v then FileConfirmOpen viewer
      else case rv_state v of
        FileLoading \<Rightarrow> FileLoadingShown loading
      | FileError m \<Rightarrow> FileErrorShown m
      | FileReady x \<Rightarrow> FileShown x)"


definition decodeMarkdownFile :: "jstring \<Rightarrow> bytes \<Rightarrow> jstring result" where
  "decodeMarkdownFile path content = text_decode content"

definition pdfView :: "jstring \<Rightarrow> bytes \<Rightarrow> bytes result" where
  "pdfView path content = Inr content"

definition imageView :: "(jstring \<Rightarrow> jstring) \<Rightarrow> jstring \<Rightarrow> bytes \<Rightarrow> (string \<times> bytes) result" where
  "imageView lower path content = Inr (imageMimeType lower path content, content)"

definition HexFileViewer :: "string read_viewer \<Rightarrow> string file_content" where
  "HexFileViewer = file_content inlineOpenLimitBytes ''hex viewer'' ''Loading bytes''"

definition PdfFileViewer :: "bytes read_viewer \<Rightarrow> bytes file_content" where
  "PdfFileViewer = file_content inlineOpenLimitBytes ''pdf viewer'' ''Loading PDF''"

definition ImageFileViewer :: "(string \<times> bytes) read_viewer \<Rightarrow> (string \<times> bytes) file_content" where
  "ImageFileViewer = file_content imageInlineOpenLimitBytes ''image viewer'' ''Loading image''"

text \<open>\<open>parse\<close> is the \<open>marked\<close> package followed by the HTML parser.\<close>

definition renderMarkdown ::
    "(jstring \<Rightarrow> dom list) \<Rightarrow> (jstring \<Rightarrow> jstring) \<Rightarrow> (jstring \<Rightarrow> jstring option) \<Rightarrow> jstring \<Rightarrow> dom list" where
  "renderMarkdown parse lower scheme markdown = sanitizeMarkdownChildren lower scheme (parse markdown)"

definition MarkdownFileViewer :: "jstring read_viewer \<Rightarrow> jstring file_content" where
  "MarkdownFileViewer = file_content inlineOpenLimitBytes ''markdown viewer'' ''Loading markdown''"

section \<open>Runs of a viewer\<close>




















end
