(* ===== verification/FloatingMenu.thy ===== *)
theory FloatingMenu
  imports Complex_Main
begin

text \<open>
  Where a floating menu is placed, \<open>web/src/view/ui/floating-menu.tsx\<close>. Positions are numbers of pixels,
  which the browser gives as fractions; the sums and comparisons here are exact on them.
\<close>

record FloatingMenuPosition =
  menu_left :: real
  menu_top :: real
  menu_maxHeight :: "real option"

record FloatingMenuSize =
  menu_itemCount :: nat
  menu_width :: real

record dom_rect =
  rect_left :: real
  rect_top :: real
  rect_right :: real
  rect_bottom :: real

definition viewportMargin :: real where "viewportMargin = 8"
definition menuBorderSize :: real where "menuBorderSize = 2"
definition menuPaddingBlock :: real where "menuPaddingBlock = 0"
definition menuItemGap :: real where "menuItemGap = 2"
definition floatingMenuItemHeightPx :: real where "floatingMenuItemHeightPx = 24"

definition floatingMenuHeight :: "nat \<Rightarrow> real" where
  "floatingMenuHeight itemCount =
     menuBorderSize + menuPaddingBlock + real itemCount * floatingMenuItemHeightPx +
     max 0 (real itemCount - 1) * menuItemGap"

definition clampViewportPosition :: "real \<Rightarrow> real \<Rightarrow> real \<Rightarrow> real" where
  "clampViewportPosition x extent viewportSize =
     (let limit = viewportSize - extent - viewportMargin in
      if limit < viewportMargin then viewportMargin else max viewportMargin (min x limit))"

text \<open>\<open>innerWidth\<close> and \<open>innerHeight\<close> are the size of the window.\<close>

definition clampFloatingMenuPosition ::
    "real \<Rightarrow> real \<Rightarrow> real \<Rightarrow> real \<Rightarrow> FloatingMenuSize \<Rightarrow> FloatingMenuPosition" where
  "clampFloatingMenuPosition innerWidth innerHeight x y menu =
     \<lparr>menu_left = clampViewportPosition x (menu_width menu) innerWidth,
      menu_top = clampViewportPosition y (floatingMenuHeight (menu_itemCount menu)) innerHeight,
      menu_maxHeight = None\<rparr>"

definition rightAlignedFloatingMenuPosition ::
    "real \<Rightarrow> real \<Rightarrow> dom_rect \<Rightarrow> FloatingMenuSize \<Rightarrow> real \<Rightarrow> FloatingMenuPosition" where
  "rightAlignedFloatingMenuPosition innerWidth innerHeight rect menu gap =
     clampFloatingMenuPosition innerWidth innerHeight (rect_right rect - menu_width menu) (rect_bottom rect + gap) menu"

definition floatingMenuPositionFromRect ::
    "real \<Rightarrow> real \<Rightarrow> dom_rect \<Rightarrow> FloatingMenuSize \<Rightarrow> real \<Rightarrow> real \<Rightarrow> real \<Rightarrow> FloatingMenuPosition" where
  "floatingMenuPositionFromRect innerWidth innerHeight rect menu maxHeight minHeight gap =
     (let estimatedHeight = min maxHeight (floatingMenuHeight (menu_itemCount menu));
          menuLeft = clampViewportPosition (rect_right rect - menu_width menu) (menu_width menu) innerWidth;
          belowMaxHeight = innerHeight - rect_bottom rect - gap - viewportMargin;
          aboveMaxHeight = rect_top rect - gap - viewportMargin;
          openAbove = (belowMaxHeight < minHeight \<and> aboveMaxHeight > belowMaxHeight);
          availableHeight = (if openAbove then aboveMaxHeight else belowMaxHeight);
          maxMenuHeight = max (min minHeight (max 0 availableHeight)) (min estimatedHeight availableHeight);
          menuTop = (if openAbove then max viewportMargin (rect_top rect - gap - maxMenuHeight)
                 else rect_bottom rect + gap)
      in \<lparr>menu_left = menuLeft, menu_top = menuTop, menu_maxHeight = Some maxMenuHeight\<rparr>)"

text \<open>A menu that fits into the window is placed inside it, eight pixels from every edge at least, and
  exactly where it was asked for if that is such a place.\<close>

theorem clamped_menu_in_window:
  assumes "menu_width menu + 16 \<le> innerWidth" "floatingMenuHeight (menu_itemCount menu) + 16 \<le> innerHeight"
  shows "let p = clampFloatingMenuPosition innerWidth innerHeight x y menu; h = floatingMenuHeight (menu_itemCount menu) in
    8 \<le> menu_left p \<and> menu_left p + menu_width menu \<le> innerWidth - 8 \<and>
    8 \<le> menu_top p \<and> menu_top p + h \<le> innerHeight - 8 \<and>
    (8 \<le> x \<and> x + menu_width menu \<le> innerWidth - 8 \<longrightarrow> menu_left p = x) \<and>
    (8 \<le> y \<and> y + h \<le> innerHeight - 8 \<longrightarrow> menu_top p = y)"
  using assms by (auto simp: clampFloatingMenuPosition_def clampViewportPosition_def viewportMargin_def Let_def)

theorem clamped_menu_in_window_witness:
  "menu_left (clampFloatingMenuPosition 800 600 790 10 \<lparr>menu_itemCount = 2, menu_width = 176\<rparr>) + 176 \<le> (792 :: real)"
  using clamped_menu_in_window [of "\<lparr>menu_itemCount = 2, menu_width = 176\<rparr>" 800 600 790 10]
  by (simp add: Let_def floatingMenuHeight_def menuBorderSize_def menuPaddingBlock_def menuItemGap_def
      floatingMenuItemHeightPx_def)

text \<open>A menu opened at a button stays within the window above or below the button, never over it, when
  the side it is opened on has room at all.\<close>

theorem menu_beside_button:
  assumes "0 \<le> gap" "rect_top rect \<le> rect_bottom rect"
    "0 \<le> innerHeight - rect_bottom rect - gap - 8 \<or> 0 \<le> rect_top rect - gap - 8"
    "0 \<le> minHeight" "0 \<le> maxHeight"
  shows "let p = floatingMenuPositionFromRect innerWidth innerHeight rect menu maxHeight minHeight gap;
      h = the (menu_maxHeight p) in
    0 \<le> h \<and>
    (menu_top p = rect_bottom rect + gap \<and> menu_top p + h \<le> max (rect_bottom rect + gap) (innerHeight - 8) \<or>
     8 \<le> menu_top p \<and> menu_top p + h \<le> rect_top rect - gap)"
proof -
  have e: "0 \<le> floatingMenuHeight n" for n
    by (simp add: floatingMenuHeight_def menuBorderSize_def menuPaddingBlock_def menuItemGap_def
        floatingMenuItemHeightPx_def)
  show ?thesis
    using assms e [of "menu_itemCount menu"]
    by (auto simp: floatingMenuPositionFromRect_def viewportMargin_def Let_def min_def max_def)
qed

theorem menu_beside_button_witness:
  "0 \<le> the (menu_maxHeight (floatingMenuPositionFromRect 800 600
     \<lparr>rect_left = 10, rect_top = 560, rect_right = 40, rect_bottom = 590\<rparr> \<lparr>menu_itemCount = 2, menu_width = 176\<rparr>
     360 120 4))"
  using menu_beside_button [of 4 "\<lparr>rect_left = 10, rect_top = 560, rect_right = 40, rect_bottom = 590\<rparr>" 600 120 360 800
      "\<lparr>menu_itemCount = 2, menu_width = 176\<rparr>"]
  by (simp add: Let_def)

end
