(* ===== verification/PaneView.thy ===== *)
theory PaneView
  imports Workbench Explorer FloatingMenu
begin

text \<open>
  A pane of the workbench, \<open>web/src/view/workbench/pane-layout/pane-view.tsx\<close>, \<open>tab-drag.ts\<close> and
  \<open>tab-item.tsx\<close>: closing tabs and panes with the question about unsaved changes, which terminal sessions
  end with them, dragging tabs, and the menus. A handler works on the workbench state and on the pane's
  own state; what it asks of the layout package and of the daemon is recorded.
\<close>

section \<open>State\<close>

datatype PendingCloseRequest = PendingPane nat | PendingTab nat jstring

datatype TabSplitDropSide = DropLeft | DropRight | DropTop | DropBottom

datatype split_direction = Horizontal | Vertical

datatype layout_action = LayoutSplit jstring split_direction jstring bool | LayoutRemove jstring

record WorkbenchTabDragData =
  drag_nodeId :: jstring
  drag_paneId :: jstring
  drag_tabId :: jstring

record WorkbenchTabDropTarget =
  drop_tabId :: "jstring option"
  drop_position :: TabDropPosition

record TabContextMenuState =
  tcm_tab :: WorkbenchTab
  tcm_x :: real
  tcm_y :: real

record 'l pane_view =
  pv_workbench :: "'l WorkbenchState"
  pv_storage :: "storage option"
  pv_nodeId :: jstring
  pv_paneId :: jstring
  pv_machine :: "Machine option"
  pv_menuOpen :: bool
  pv_draggingTabId :: "jstring option"
  pv_pending :: "PendingCloseRequest option"
  pv_contextMenu :: "TabContextMenuState option"
  pv_dropTarget :: "WorkbenchTabDropTarget option"
  pv_splitSide :: "TabSplitDropSide option"
  pv_layout :: "layout_action list"
  pv_closing :: "jstring list"

definition pane_of :: "'l pane_view \<Rightarrow> WorkbenchPane option" where
  "pane_of v = paneOf (pv_paneId v) (pv_workbench v)"

definition canClosePane :: "'l pane_view \<Rightarrow> bool" where
  "canClosePane v \<longleftrightarrow> length (panes (pv_workbench v)) > 1"

definition update_workbench :: "('l WorkbenchState \<Rightarrow> 'l WorkbenchState) \<Rightarrow> 'l pane_view \<Rightarrow> 'l pane_view" where
  "update_workbench f v = v\<lparr>pv_workbench := f (pv_workbench v)\<rparr>"

section \<open>Closing\<close>

definition dirtyTabCount :: "WorkbenchTab list \<Rightarrow> nat" where
  "dirtyTabCount tabs = length (filter (\<lambda>tab. getOr (tab_dirty tab) False) tabs)"

text \<open>The session of a terminal tab. A JavaScript set lists its members in the order they were added.\<close>

definition tab_session :: "WorkbenchTab \<Rightarrow> jstring option" where
  "tab_session tab =
     (if tab_tool tab = ToolTerminal \<and> truthy (tab_terminalSessionId tab) then tab_terminalSessionId tab else None)"

definition closeTerminalSessions :: "WorkbenchTab list \<Rightarrow> 'l pane_view \<Rightarrow> 'l pane_view" where
  "closeTerminalSessions tabs v =
     (if pv_machine v = None then v
      else
        let closingTabIds = set (map tab_id tabs);
            others = filter (\<lambda>tab. tab_id tab \<notin> closingTabIds) (concat (map pane_tabs (panes (pv_workbench v))));
            remaining = set (List.map_filter tab_session others);
            closing = filter (\<lambda>i. i \<notin> remaining) (List.map_filter tab_session tabs)
        in v\<lparr>pv_closing := pv_closing v @ rev (remdups (rev closing))\<rparr>)"

definition performClosePane :: "'l pane_view \<Rightarrow> 'l pane_view" where
  "performClosePane v =
     (if \<not> canClosePane v then v
      else let v = v\<lparr>pv_menuOpen := False\<rparr>;
               v = (case pane_of v of None \<Rightarrow> v | Some pane \<Rightarrow> closeTerminalSessions (pane_tabs pane) v) in
        update_workbench (removePane (pv_paneId v)) (v\<lparr>pv_layout := pv_layout v @ [LayoutRemove (pv_nodeId v)]\<rparr>))"

definition requestClosePane :: "'l pane_view \<Rightarrow> 'l pane_view" where
  "requestClosePane v =
     (if \<not> canClosePane v then v
      else let dirtyCount = (case pane_of v of None \<Rightarrow> 0 | Some pane \<Rightarrow> dirtyTabCount (pane_tabs pane)) in
        if dirtyCount > 0 then v\<lparr>pv_pending := Some (PendingPane dirtyCount)\<rparr>
        else performClosePane v)"

definition performCloseWorkbenchTab :: "jstring \<Rightarrow> 'l pane_view \<Rightarrow> 'l pane_view" where
  "performCloseWorkbenchTab tabId v =
     (case pane_of v of
        None \<Rightarrow> v
      | Some pane \<Rightarrow>
          if length (pane_tabs pane) > 1 then
            update_workbench (closeTab (pv_paneId v) tabId)
              (case List.find (\<lambda>tab. tab_id tab = tabId) (pane_tabs pane) of
                 None \<Rightarrow> v
               | Some closingTab \<Rightarrow> closeTerminalSessions [closingTab] v)
          else performClosePane v)"

definition requestCloseWorkbenchTab :: "jstring \<Rightarrow> 'l pane_view \<Rightarrow> 'l pane_view" where
  "requestCloseWorkbenchTab tabId v =
     (let v = v\<lparr>pv_contextMenu := None\<rparr> in
      case pane_of v of
        None \<Rightarrow> v
      | Some pane \<Rightarrow>
          let closingTab = List.find (\<lambda>tab. tab_id tab = tabId) (pane_tabs pane);
              dirtyCount = (if getOr (Option.bind closingTab tab_dirty) False then 1 else 0) in
          if dirtyCount > 0 then v\<lparr>pv_pending := Some (PendingTab dirtyCount tabId)\<rparr>
          else performCloseWorkbenchTab tabId v)"

definition confirmPendingCloseRequest :: "'l pane_view \<Rightarrow> 'l pane_view" where
  "confirmPendingCloseRequest v =
     (case pv_pending v of
        None \<Rightarrow> v
      | Some (PendingTab _ tabId) \<Rightarrow> performCloseWorkbenchTab tabId (v\<lparr>pv_pending := None\<rparr>)
      | Some (PendingPane _) \<Rightarrow> performClosePane (v\<lparr>pv_pending := None\<rparr>))"

definition cancelPendingClose :: "'l pane_view \<Rightarrow> 'l pane_view" where
  "cancelPendingClose v = v\<lparr>pv_pending := None\<rparr>"

text \<open>A terminal tab is taken away without ending its session; the last tab of all is replaced.\<close>

definition detachTerminalTab :: "jstring \<Rightarrow> jstring \<Rightarrow> 'l pane_view \<Rightarrow> 'l pane_view" where
  "detachTerminalTab uuid tabId v =
     (let v = v\<lparr>pv_contextMenu := None\<rparr> in
      case pane_of v of
        None \<Rightarrow> v
      | Some pane \<Rightarrow>
          if length (pane_tabs pane) > 1 then update_workbench (closeTab (pv_paneId v) tabId) v
          else if canClosePane v then
            update_workbench (removePane (pv_paneId v)) (v\<lparr>pv_layout := pv_layout v @ [LayoutRemove (pv_nodeId v)]\<rparr>)
          else update_workbench (closeTab (pv_paneId v) tabId)
            (update_workbench (addFilesTab (pv_paneId v) None uuid) v))"

text \<open>The dialog.\<close>

definition unsavedCloseText :: "PendingCloseRequest \<Rightarrow> string \<times> string" where
  "unsavedCloseText request =
     (case request of
        PendingPane dirtyCount \<Rightarrow>
          (''Pane'', if dirtyCount = 1 then ''This pane contains a tab with unsaved changes.''
             else ''This pane contains '' @ show_nat dirtyCount @ '' tabs with unsaved changes.'')
      | PendingTab _ _ \<Rightarrow> (''Tab'', ''This tab has unsaved changes.''))"

section \<open>Opening and splitting\<close>

definition splitPane :: "split_direction \<Rightarrow> jstring \<Rightarrow> jstring \<Rightarrow> 'l pane_view \<Rightarrow> 'l pane_view" where
  "splitPane direction tabUuid paneUuid v =
     (let (newPaneId, st, storage) = addPane (map_option m_id (pv_machine v)) tabUuid paneUuid (Some (pv_paneId v))
            (pv_workbench v) (pv_storage v) in
      v\<lparr>pv_menuOpen := False, pv_workbench := st, pv_storage := storage,
        pv_layout := pv_layout v @ [LayoutSplit (pv_nodeId v) direction newPaneId False]\<rparr>)"

definition duplicateWorkbenchTab :: "jstring \<Rightarrow> jstring \<Rightarrow> 'l pane_view \<Rightarrow> 'l pane_view" where
  "duplicateWorkbenchTab uuid tabId v =
     (let (_, st, storage) = duplicateTab (map_option m_id (pv_machine v)) uuid (pv_paneId v) tabId
            (pv_workbench v) (pv_storage v) in
      v\<lparr>pv_contextMenu := None, pv_workbench := st, pv_storage := storage\<rparr>)"

definition open_from_menu :: "('l WorkbenchState \<Rightarrow> 'l WorkbenchState) \<Rightarrow> 'l pane_view \<Rightarrow> 'l pane_view" where
  "open_from_menu f v = (update_workbench f v)\<lparr>pv_menuOpen := False\<rparr>"

definition openFilesTab' :: "jstring \<Rightarrow> 'l pane_view \<Rightarrow> 'l pane_view" where
  "openFilesTab' uuid v = open_from_menu (addFilesTab (pv_paneId v) None uuid) v"

definition openDaemonTab :: "jstring \<Rightarrow> 'l pane_view \<Rightarrow> 'l pane_view" where
  "openDaemonTab uuid v = open_from_menu (addDaemonTab (pv_paneId v) uuid) v"

definition openProcessesTab :: "jstring \<Rightarrow> 'l pane_view \<Rightarrow> 'l pane_view" where
  "openProcessesTab uuid v = open_from_menu (addProcessesTab (pv_paneId v) None None None uuid) v"

definition openWindowsTab :: "jstring \<Rightarrow> 'l pane_view \<Rightarrow> 'l pane_view" where
  "openWindowsTab uuid v = open_from_menu (addWindowsTab (pv_paneId v) None None uuid) v"

text \<open>\<open>shell\<close> is the default shell of the machine.\<close>

definition openTerminalTab' :: "AvailableShellInfo option \<Rightarrow> jstring \<Rightarrow> 'l pane_view \<Rightarrow> 'l pane_view" where
  "openTerminalTab' shell uuid v =
     (let launch = map_option (\<lambda>s. \<lparr>launch_command = asi_command s, launch_args = asi_args s\<rparr>) shell in
      open_from_menu (addTerminalTab (pv_paneId v) \<lparr>cfg_cwd = None, cfg_launch = launch, cfg_sessionId = None,
        cfg_terminalTitle = None, cfg_title = map_option asi_name shell\<rparr> uuid) v)"

section \<open>Dragging\<close>

definition clear_drag :: "'l pane_view \<Rightarrow> 'l pane_view" where
  "clear_drag v = v\<lparr>pv_draggingTabId := None, pv_dropTarget := None, pv_splitSide := None\<rparr>"

definition moveDroppedTab ::
    "WorkbenchTabDragData \<Rightarrow> jstring option \<Rightarrow> TabDropPosition \<Rightarrow> 'l pane_view \<Rightarrow> 'l pane_view" where
  "moveDroppedTab data targetTabId position v =
     (let (removed, st) = moveTab (drag_paneId data) (drag_tabId data) (pv_paneId v) targetTabId position
            (pv_workbench v);
          v = v\<lparr>pv_workbench := st\<rparr>;
          v = (if removed then v\<lparr>pv_layout := pv_layout v @ [LayoutRemove (drag_nodeId data)]\<rparr> else v)
      in clear_drag v)"

definition splitDroppedTab ::
    "jstring \<Rightarrow> WorkbenchTabDragData \<Rightarrow> TabSplitDropSide \<Rightarrow> 'l pane_view \<Rightarrow> 'l pane_view" where
  "splitDroppedTab paneUuid data side v =
     (let (result, st) = moveTabToNewPane paneUuid (drag_paneId data) (drag_tabId data) (pv_paneId v)
            (pv_workbench v);
          v = v\<lparr>pv_workbench := st\<rparr> in
      case result of
        None \<Rightarrow> clear_drag v
      | Some result \<Rightarrow>
          let direction = (if side = DropLeft \<or> side = DropRight then Horizontal else Vertical);
              before = (side = DropLeft \<or> side = DropTop) in
          clear_drag (v\<lparr>pv_layout := pv_layout v @
            [LayoutSplit (pv_nodeId v) direction (newPaneId result) before] @
            (if sourcePaneRemoved result then [LayoutRemove (drag_nodeId data)] else [])\<rparr>))"

definition tabSplitSideFromEvent :: "dom_rect \<Rightarrow> real \<Rightarrow> real \<Rightarrow> TabSplitDropSide" where
  "tabSplitSideFromEvent rect clientX clientY =
     (let l = clientX - rect_left rect; r = rect_right rect - clientX;
          t = clientY - rect_top rect; b = rect_bottom rect - clientY;
          nearest = min (min (min l r) t) b in
      if nearest = l then DropLeft else if nearest = r then DropRight
      else if nearest = t then DropTop else DropBottom)"

definition tabDropPosition :: "dom_rect \<Rightarrow> real \<Rightarrow> TabDropPosition" where
  "tabDropPosition rect clientX =
     (if clientX < rect_left rect + (rect_right rect - rect_left rect) / 2 then Before else After)"

definition tabDropPositionForTab ::
    "WorkbenchTabDropTarget option \<Rightarrow> WorkbenchTab \<Rightarrow> bool \<Rightarrow> TabDropPosition option" where
  "tabDropPositionForTab target tab isLast =
     (case target of
        None \<Rightarrow> None
      | Some t \<Rightarrow>
          if drop_tabId t = Some (tab_id tab) then Some (drop_position t)
          else if drop_position t = End \<and> isLast then Some After
          else None)"

text \<open>\<open>transferred\<close> is the parsed data of the drag, \<open>None\<close> if it is not of this kind or not JSON.\<close>

definition readWorkbenchTabDragData :: "json option \<Rightarrow> WorkbenchTabDragData option" where
  "readWorkbenchTabDragData transferred =
     (case transferred of
        Some (JsonObject props) \<Rightarrow>
          (case (map_of props (js ''nodeId''), map_of props (js ''paneId''), map_of props (js ''tabId'')) of
             (Some (JsonString nodeId), Some (JsonString paneId), Some (JsonString tabId)) \<Rightarrow>
               Some \<lparr>drag_nodeId = nodeId, drag_paneId = paneId, drag_tabId = tabId\<rparr>
           | _ \<Rightarrow> None)
      | _ \<Rightarrow> None)"

definition dragOverStrip :: "bool \<Rightarrow> bool \<Rightarrow> 'l pane_view \<Rightarrow> 'l pane_view" where
  "dragOverStrip hasData overTab v =
     (if \<not> hasData \<or> overTab then v else v\<lparr>pv_dropTarget := Some \<lparr>drop_tabId = None, drop_position = End\<rparr>\<rparr>)"

definition dropOnStrip :: "json option \<Rightarrow> bool \<Rightarrow> 'l pane_view \<Rightarrow> 'l pane_view" where
  "dropOnStrip transferred overTab v =
     (if overTab then v
      else case readWorkbenchTabDragData transferred of
        None \<Rightarrow> v
      | Some data \<Rightarrow> moveDroppedTab data None End v)"

definition dragOverBody :: "bool \<Rightarrow> dom_rect \<Rightarrow> real \<Rightarrow> real \<Rightarrow> 'l pane_view \<Rightarrow> 'l pane_view" where
  "dragOverBody hasData rect x y v =
     (if \<not> hasData then v else v\<lparr>pv_splitSide := Some (tabSplitSideFromEvent rect x y)\<rparr>)"

definition dropOnBody :: "jstring \<Rightarrow> json option \<Rightarrow> dom_rect \<Rightarrow> real \<Rightarrow> real \<Rightarrow> 'l pane_view \<Rightarrow> 'l pane_view" where
  "dropOnBody paneUuid transferred rect x y v =
     (case readWorkbenchTabDragData transferred of
        None \<Rightarrow> v
      | Some data \<Rightarrow> splitDroppedTab paneUuid data (tabSplitSideFromEvent rect x y) v)"

text \<open>\<open>inside\<close> says that the pointer has only moved to an element inside.\<close>

definition leaveStrip :: "bool \<Rightarrow> 'l pane_view \<Rightarrow> 'l pane_view" where
  "leaveStrip inside v = (if inside then v else v\<lparr>pv_dropTarget := None\<rparr>)"

definition leaveBody :: "bool \<Rightarrow> 'l pane_view \<Rightarrow> 'l pane_view" where
  "leaveBody inside v = (if inside then v else v\<lparr>pv_splitSide := None\<rparr>)"

definition startTabDrag :: "jstring \<Rightarrow> 'l pane_view \<Rightarrow> json \<times> 'l pane_view" where
  "startTabDrag tabId v =
     (JsonObject [(js ''nodeId'', JsonString (pv_nodeId v)), (js ''paneId'', JsonString (pv_paneId v)),
        (js ''tabId'', JsonString tabId)],
      v\<lparr>pv_draggingTabId := Some tabId\<rparr>)"

definition endTabDrag :: "'l pane_view \<Rightarrow> 'l pane_view" where
  "endTabDrag v = v\<lparr>pv_draggingTabId := None, pv_dropTarget := None\<rparr>"

definition dragOverTab :: "bool \<Rightarrow> dom_rect \<Rightarrow> real \<Rightarrow> jstring \<Rightarrow> 'l pane_view \<Rightarrow> 'l pane_view" where
  "dragOverTab hasData rect clientX tabId v =
     (if \<not> hasData then v
      else v\<lparr>pv_dropTarget := Some \<lparr>drop_tabId = Some tabId, drop_position = tabDropPosition rect clientX\<rparr>\<rparr>)"

definition dropOnTab :: "json option \<Rightarrow> dom_rect \<Rightarrow> real \<Rightarrow> jstring \<Rightarrow> 'l pane_view \<Rightarrow> 'l pane_view" where
  "dropOnTab transferred rect clientX tabId v =
     (case readWorkbenchTabDragData transferred of
        None \<Rightarrow> v
      | Some data \<Rightarrow> moveDroppedTab data (Some tabId) (tabDropPosition rect clientX) v)"

section \<open>A tab\<close>

definition folderNameFromPath :: "jstring option \<Rightarrow> jstring" where
  "folderNameFromPath path = (case pathCrumbs path of [] \<Rightarrow> js ''Files'' | crumbs \<Rightarrow> fst (last crumbs))"

text \<open>\<open>location\<close> is where the explorer of the tab is.\<close>

definition workbenchTabLabel :: "ExplorerLocation \<Rightarrow> WorkbenchTab option \<Rightarrow> jstring" where
  "workbenchTabLabel location tab =
     (case tab of
        None \<Rightarrow> js ''Files''
      | Some tab \<Rightarrow>
          (case tab_tool tab of
             ToolFiles \<Rightarrow>
               if location = LTrash then js ''Trash''
               else (case openedFileFromLocation location of
                  Some f \<Rightarrow> displayName f
                | None \<Rightarrow> folderNameFromPath (currentPathFromLocation location))
           | ToolProcesses \<Rightarrow> if tab_processDetailPid tab = None then js ''Processes'' else tab_title tab
           | ToolWindows \<Rightarrow> if tab_windowDetailId tab = None then js ''Windows'' else tab_title tab
           | _ \<Rightarrow> tab_title tab))"

datatype tab_icon = IconInfo | IconTerminal | IconActivity | IconAppWindow | IconTrash | IconFolder

definition WorkbenchTabIcon :: "WorkbenchTab \<Rightarrow> bool \<Rightarrow> tab_icon" where
  "WorkbenchTabIcon tab trashActive =
     (case tab_tool tab of
        ToolDaemon \<Rightarrow> IconInfo
      | ToolTerminal \<Rightarrow> IconTerminal
      | ToolProcesses \<Rightarrow> IconActivity
      | ToolWindows \<Rightarrow> IconAppWindow
      | ToolFiles \<Rightarrow> if trashActive then IconTrash else IconFolder)"

text \<open>The icon, the label and, when the tab can be closed, whether its button warns of unsaved changes.\<close>

definition WorkbenchTabItem ::
    "ExplorerLocation \<Rightarrow> jstring \<Rightarrow> 'l pane_view \<Rightarrow> (tab_icon \<times> jstring \<times> bool option) option" where
  "WorkbenchTabItem location tabId v =
     (case tabOf (pv_paneId v) tabId (pv_workbench v) of
        None \<Rightarrow> None
      | Some tab \<Rightarrow>
          Some (WorkbenchTabIcon tab (location = LTrash), workbenchTabLabel location (Some tab),
            if showClose (pv_paneId v) (pv_workbench v)
            then Some (tabIsDirty (pv_paneId v) tabId (pv_workbench v)) else None))"

section \<open>The menu of a tab\<close>

definition tabContextMenuWidth :: real where "tabContextMenuWidth = 168"

definition tabContextMenuPosition :: "real \<Rightarrow> real \<Rightarrow> real \<Rightarrow> real \<Rightarrow> bool \<Rightarrow> real \<times> real" where
  "tabContextMenuPosition innerWidth innerHeight x y terminal =
     (let p = clampFloatingMenuPosition innerWidth innerHeight x y
        \<lparr>menu_itemCount = (if terminal then 3 else 2), menu_width = tabContextMenuWidth\<rparr> in (menu_left p, menu_top p))"

definition openTabContextMenu ::
    "real \<Rightarrow> real \<Rightarrow> WorkbenchTab \<Rightarrow> real \<Rightarrow> real \<Rightarrow> 'l pane_view \<Rightarrow> 'l pane_view" where
  "openTabContextMenu innerWidth innerHeight tab x y v =
     (let p = tabContextMenuPosition innerWidth innerHeight x y (tab_tool tab = ToolTerminal) in
      (update_workbench (selectTab (pv_paneId v) (tab_id tab)) v)\<lparr>pv_menuOpen := False,
        pv_contextMenu := Some \<lparr>tcm_tab = tab, tcm_x = fst p, tcm_y = snd p\<rparr>\<rparr>)"

definition tabContextMenuItems :: "WorkbenchTab \<Rightarrow> string list" where
  "tabContextMenuItems tab =
     [''Duplicate''] @ (if tab_tool tab = ToolTerminal then [''Detach''] else []) @ [''Close'']"

section \<open>Which sessions end\<close>

definition tabs_of :: "WorkbenchPane list \<Rightarrow> WorkbenchTab list" where
  "tabs_of ps = concat (map pane_tabs ps)"

definition sessions_of :: "WorkbenchTab list \<Rightarrow> jstring set" where
  "sessions_of tabs = {i. \<exists>tab \<in> set tabs. tab_session tab = Some i}"

lemma set_map_filter_sessions: "set (List.map_filter tab_session tabs) = sessions_of tabs"
  by (force simp: sessions_of_def List.map_filter_def)

lemma closing_sessions:
  assumes "pv_machine v \<noteq> None"
  shows "set (pv_closing (closeTerminalSessions tabs v)) = set (pv_closing v) \<union>
    (sessions_of tabs - sessions_of (filter (\<lambda>tab. tab_id tab \<notin> tab_id ` set tabs) (tabs_of (panes (pv_workbench v)))))"
  using assms by (auto simp: closeTerminalSessions_def Let_def set_map_filter_sessions tabs_of_def)

lemma closing_fields [simp]:
  "pv_workbench (closeTerminalSessions tabs v) = pv_workbench v"
  "pv_paneId (closeTerminalSessions tabs v) = pv_paneId v" "pv_nodeId (closeTerminalSessions tabs v) = pv_nodeId v"
  "pv_layout (closeTerminalSessions tabs v) = pv_layout v"
  by (simp_all add: closeTerminalSessions_def Let_def)

lemma session_previous [simp]: "tab_session (tab\<lparr>tab_previous := x\<rparr>) = tab_session tab"
  by (simp add: tab_session_def)

lemma sessions_of_map: "(\<And>tab. tab_session (f tab) = tab_session tab) \<Longrightarrow> sessions_of (map f tabs) = sessions_of tabs"
  by (simp add: sessions_of_def)

lemma sessions_normalize: "sessions_of (pane_tabs (normalizePaneTabHistory p)) = sessions_of (pane_tabs p)"
  unfolding normalizePaneTabHistory_def Let_def by (simp add: sessions_of_map)

lemma sessions_without:
  "sessions_of (pane_tabs (pane_without i p)) = sessions_of (filter (\<lambda>tab. tab_id tab \<noteq> i) (pane_tabs p))"
  by (simp add: pane_without_def Let_def sessions_normalize)

lemma sessions_of_tabs_of: "sessions_of (tabs_of ps) = (\<Union>p \<in> set ps. sessions_of (pane_tabs p))"
  by (auto simp: sessions_of_def tabs_of_def)

lemma pane_of_in: "pane_of v = Some p \<Longrightarrow> p \<in> set (panes (pv_workbench v)) \<and> pane_id p = pv_paneId v"
  by (auto simp: pane_of_def paneOf_def find_Some_iff)

lemma same_pane: "panes_ok ps \<Longrightarrow> p \<in> set ps \<Longrightarrow> q \<in> set ps \<Longrightarrow> pane_id p = pane_id q \<Longrightarrow> p = q"
  by (simp add: panes_ok_def distinct_map inj_on_def)

text \<open>A tab's id is the id of a tab of one pane only.\<close>

lemma distinct_tab_pane:
  "distinct (all_tab_ids ps) \<Longrightarrow> p \<in> set ps \<Longrightarrow> q \<in> set ps \<Longrightarrow> i \<in> set (tab_ids p) \<Longrightarrow> i \<in> set (tab_ids q) \<Longrightarrow> p = q"
proof (induction ps)
  case (Cons r ps)
  have "x \<in> set ps \<Longrightarrow> i \<in> set (tab_ids x) \<Longrightarrow> i \<in> set (all_tab_ids ps)" for x
    by (auto simp: all_tab_ids_def)
  with Cons show ?case by auto
qed simp

lemma other_tabs_of_pane:
  assumes "panes_ok ps" "p \<in> set ps"
  shows "filter (\<lambda>tab. tab_id tab \<notin> tab_id ` set (pane_tabs p)) (tabs_of ps) =
    tabs_of (filter (\<lambda>q. pane_id q \<noteq> pane_id p) ps)"
proof -
  have d: "distinct (all_tab_ids ps)" "distinct (map pane_id ps)" using assms(1) by (simp_all add: panes_ok_def)
  have same: "q = p" if "q \<in> set ps" "pane_id q = pane_id p" for q
    using d(2) that assms(2) by (auto simp: distinct_map inj_on_def)
  have other: "tab_id tab \<notin> tab_id ` set (pane_tabs p)" if "q \<in> set ps" "q \<noteq> p" "tab \<in> set (pane_tabs q)" for q tab
    using distinct_tab_pane [OF d(1) assms(2) that(1), of "tab_id tab"] that by auto
  have "filter (\<lambda>tab. tab_id tab \<notin> tab_id ` set (pane_tabs p)) (tabs_of qs) =
      tabs_of (filter (\<lambda>q. pane_id q \<noteq> pane_id p) qs)" if "set qs \<subseteq> set ps" for qs
    using that
  proof (induction qs)
    case (Cons q qs)
    have "filter (\<lambda>tab. tab_id tab \<notin> tab_id ` set (pane_tabs p)) (pane_tabs q) =
        (if pane_id q \<noteq> pane_id p then pane_tabs q else [])"
      using same [of q] other [of q] Cons.prems by (cases "q = p") (auto simp: filter_id_conv filter_empty_conv)
    then show ?case using Cons by (simp add: tabs_of_def)
  qed (simp add: tabs_of_def)
  then show ?thesis by simp
qed

lemma split_tabs:
  assumes "panes_ok ps" "p \<in> set ps" "pane_id p = a"
  shows "set (tabs_of ps) = set (pane_tabs p) \<union> set (tabs_of (filter (\<lambda>q. pane_id q \<noteq> a) ps))"
proof -
  have "q = p" if "q \<in> set ps" "pane_id q = a" for q
    using assms that unfolding panes_ok_def distinct_map inj_on_def by blast
  with assms(2,3) show ?thesis unfolding tabs_of_def by fastforce
qed

lemma sessions_union: "set xs = set ys \<union> set zs \<Longrightarrow> sessions_of xs = sessions_of ys \<union> sessions_of zs"
  unfolding sessions_of_def by blast

lemma close_pane_sessions:
  assumes "panes_ok (panes (pv_workbench v))" "pv_machine v \<noteq> None"
  shows "set (pv_closing (performClosePane v)) = set (pv_closing v) \<union>
    (sessions_of (tabs_of (panes (pv_workbench v))) -
     sessions_of (tabs_of (panes (pv_workbench (performClosePane v)))))"
proof (cases "canClosePane v")
  case False
  then show ?thesis by (simp add: performClosePane_def)
next
  case c: True
  then have n: "\<not> length (panes (pv_workbench v)) \<le> Suc 0" by (simp add: canClosePane_def)
  show ?thesis
  proof (cases "pane_of v")
    case None
    then have "filter (\<lambda>pane. pane_id pane \<noteq> pv_paneId v) (panes (pv_workbench v)) = panes (pv_workbench v)"
      by (auto simp: pane_of_def paneOf_def find_None_iff filter_id_conv)
    then show ?thesis using None c n
      by (simp add: performClosePane_def update_workbench_def removePane_def pane_of_def Let_def)
  next
    case (Some p)
    from pane_of_in [OF this] have p: "p \<in> set (panes (pv_workbench v))" "pane_id p = pv_paneId v" by simp_all
    let ?rest = "filter (\<lambda>q. pane_id q \<noteq> pv_paneId v) (panes (pv_workbench v))"
    let ?w = "closeTerminalSessions (pane_tabs p) (v\<lparr>pv_menuOpen := False\<rparr>)"
    have "pane_of (v\<lparr>pv_menuOpen := False\<rparr>) = Some p" using Some by (simp add: pane_of_def)
    then have f: "performClosePane v =
        update_workbench (removePane (pv_paneId v)) (?w\<lparr>pv_layout := pv_layout v @ [LayoutRemove (pv_nodeId v)]\<rparr>)"
      using c by (simp add: performClosePane_def Let_def)
    then have after: "panes (pv_workbench (performClosePane v)) = ?rest"
      using n by (simp add: update_workbench_def removePane_def Let_def)
    have "sessions_of (tabs_of (panes (pv_workbench v))) =
        sessions_of (pane_tabs p) \<union> sessions_of (tabs_of ?rest)"
      by (rule sessions_union [OF split_tabs [OF assms(1) p]])
    moreover have "set (pv_closing (performClosePane v)) =
        set (pv_closing v) \<union> (sessions_of (pane_tabs p) - sessions_of (tabs_of ?rest))"
      using closing_sessions [of "v\<lparr>pv_menuOpen := False\<rparr>" "pane_tabs p"] assms(2) p(2)
        other_tabs_of_pane [OF assms(1) p(1)]
      by (simp add: f update_workbench_def)
    ultimately show ?thesis unfolding after by blast
  qed
qed

lemma close_tab_panes:
  assumes "panes_ok (panes st)" "p \<in> set (panes st)" "pane_id p = paneId" "length (pane_tabs p) > 1"
  shows "sessions_of (tabs_of (panes (closeTab paneId i st))) =
    sessions_of (filter (\<lambda>tab. tab_id tab \<noteq> i) (pane_tabs p)) \<union>
    sessions_of (tabs_of (filter (\<lambda>q. pane_id q \<noteq> paneId) (panes st)))"
proof -
  have same: "q = p" if "q \<in> set (panes st)" "pane_id q = paneId" for q
    using assms that unfolding panes_ok_def distinct_map inj_on_def by blast
  let ?f = "\<lambda>pane. if pane_id pane \<noteq> paneId \<or> length (pane_tabs pane) \<le> 1 then pane else pane_without i pane"
  have panes_map: "panes (closeTab paneId i st) = map ?f (panes st)" by (simp add: closeTab_def updatePanes_def)
  have "sessions_of (tabs_of (panes (closeTab paneId i st))) = (\<Union>q \<in> set (panes st). sessions_of (pane_tabs (?f q)))"
    by (simp only: panes_map sessions_of_tabs_of set_map image_image)
  also have "\<dots> = (\<Union>q \<in> set (panes st). if pane_id q = paneId
      then sessions_of (filter (\<lambda>tab. tab_id tab \<noteq> i) (pane_tabs p)) else sessions_of (pane_tabs q))"
    using same assms(4) by (intro SUP_cong refl) (auto simp: sessions_without)
  also have "\<dots> = sessions_of (filter (\<lambda>tab. tab_id tab \<noteq> i) (pane_tabs p)) \<union>
      sessions_of (tabs_of (filter (\<lambda>q. pane_id q \<noteq> paneId) (panes st)))"
    using assms(2,3) by (auto simp: sessions_of_tabs_of split: if_splits)
  finally show ?thesis .
qed

lemma close_tab_sessions:
  assumes "panes_ok (panes (pv_workbench v))" "pv_machine v \<noteq> None"
  shows "set (pv_closing (performCloseWorkbenchTab i v)) = set (pv_closing v) \<union>
    (sessions_of (tabs_of (panes (pv_workbench v))) -
     sessions_of (tabs_of (panes (pv_workbench (performCloseWorkbenchTab i v)))))"
proof (cases "pane_of v")
  case None
  then show ?thesis by (simp add: performCloseWorkbenchTab_def)
next
  case (Some p)
  from pane_of_in [OF this] have p: "p \<in> set (panes (pv_workbench v))" "pane_id p = pv_paneId v" by simp_all
  show ?thesis
  proof (cases "length (pane_tabs p) > 1")
    case False
    then show ?thesis using close_pane_sessions [OF assms] Some by (simp add: performCloseWorkbenchTab_def)
  next
    case True
    let ?B = "panes (pv_workbench v)" and ?keep = "filter (\<lambda>tab. tab_id tab \<noteq> i) (pane_tabs p)"
    let ?rest = "filter (\<lambda>q. pane_id q \<noteq> pv_paneId v) ?B"
    have after: "sessions_of (tabs_of (panes (pv_workbench (performCloseWorkbenchTab i v)))) =
        sessions_of ?keep \<union> sessions_of (tabs_of ?rest)"
      using close_tab_panes [OF assms(1) p True] Some True
      by (simp add: performCloseWorkbenchTab_def update_workbench_def split: option.split)
    have before: "sessions_of (tabs_of ?B) = sessions_of (pane_tabs p) \<union> sessions_of (tabs_of ?rest)"
      by (rule sessions_union [OF split_tabs [OF assms(1) p]])
    show ?thesis
    proof (cases "List.find (\<lambda>tab. tab_id tab = i) (pane_tabs p)")
      case None
      then have "?keep = pane_tabs p" by (auto simp: find_None_iff filter_id_conv)
      then show ?thesis using None Some True unfolding after before
        by (simp add: performCloseWorkbenchTab_def update_workbench_def)
    next
      case (Some tab)
      then have t: "tab \<in> set (pane_tabs p)" "tab_id tab = i" by (auto simp: find_Some_iff)
      have ids: "distinct (tab_ids p)" using assms(1) p(1) by (simp add: panes_ok_def pane_ok_def)
      then have only: "t' = tab" if "t' \<in> set (pane_tabs p)" "tab_id t' = i" for t'
        using that t by (auto simp: distinct_map inj_on_def)
      have others: "filter (\<lambda>t'. tab_id t' \<noteq> i) (tabs_of ?rest) = tabs_of ?rest"
      proof -
        have "tab_id t' \<noteq> i" if t': "t' \<in> set (tabs_of ?rest)" for t'
        proof
          assume i: "tab_id t' = i"
          from t' obtain q where q: "q \<in> set ?B" "pane_id q \<noteq> pv_paneId v" "t' \<in> set (pane_tabs q)"
            by (auto simp: tabs_of_def)
          have "distinct (all_tab_ids ?B)" using assms(1) by (simp add: panes_ok_def)
          moreover have "i \<in> set (tab_ids q)" using q(3) i by force
          moreover have "i \<in> set (tab_ids p)" using t by force
          ultimately have "p = q" using distinct_tab_pane p(1) q(1) by blast
          with p(2) q(2) show False by simp
        qed
        then show ?thesis by (auto simp: filter_id_conv)
      qed
      have "sessions_of (filter (\<lambda>t'. tab_id t' \<noteq> i) (tabs_of ?B)) = sessions_of ?keep \<union> sessions_of (tabs_of ?rest)"
      proof -
        have "set (filter (\<lambda>t'. tab_id t' \<noteq> i) (tabs_of ?B)) = set ?keep \<union> set (filter (\<lambda>t'. tab_id t' \<noteq> i) (tabs_of ?rest))"
          using split_tabs [OF assms(1) p] by auto
        then show ?thesis unfolding others by (auto simp: sessions_of_def)
      qed
      then have "set (pv_closing (performCloseWorkbenchTab i v)) =
          set (pv_closing v) \<union> (sessions_of [tab] - (sessions_of ?keep \<union> sessions_of (tabs_of ?rest)))"
        using closing_sessions [OF assms(2), of "[tab]"] \<open>pane_of v = Some p\<close> Some True t(2)
        by (simp add: performCloseWorkbenchTab_def update_workbench_def)
      moreover have "sessions_of (pane_tabs p) = sessions_of [tab] \<union> sessions_of ?keep"
      proof (rule sessions_union, rule set_eqI)
        show "t' \<in> set (pane_tabs p) \<longleftrightarrow> t' \<in> set [tab] \<union> set ?keep" for t'
        proof (cases "tab_id t' = i")
          case True
          then show ?thesis using t only [of t'] by auto
        next
          case False
          then show ?thesis using t(2) by auto
        qed
      qed
      ultimately show ?thesis unfolding after before by blast
    qed
  qed
qed

text \<open>(C24) Closing a tab or a pane asks the daemon to end exactly the terminal sessions that no tab of the
  workbench shows any more: a session another tab still shows is never ended, and none that has lost its
  last tab is kept.\<close>

theorem closed_sessions_lost_last_tab:
  assumes "panes_ok (panes (pv_workbench v))" "pv_machine v \<noteq> None"
    "w \<in> {performClosePane v, performCloseWorkbenchTab tabId v}"
  shows "set (pv_closing w) = set (pv_closing v) \<union>
    (sessions_of (tabs_of (panes (pv_workbench v))) - sessions_of (tabs_of (panes (pv_workbench w))))"
  using assms close_pane_sessions [OF assms(1,2)] close_tab_sessions [OF assms(1,2)] by auto

definition shared_session :: "nat pane_view" where
  "shared_session =
     (let shell = (\<lambda>u. createTerminalTab \<lparr>cfg_cwd = None, cfg_launch = None, cfg_sessionId = Some (js ''s''),
        cfg_terminalTitle = None, cfg_title = None\<rparr> (js u)) in
      \<lparr>pv_workbench = \<lparr>layout = 0, activePaneId = Some (js ''p''), panes =
         [\<lparr>pane_id = js ''p'', pane_tabs = [shell ''1'', shell ''2''], pane_active = js ''terminal-1''\<rparr>,
          \<lparr>pane_id = js ''q'', pane_tabs = [createFilesTab None (js ''3'')], pane_active = js ''files-3''\<rparr>]\<rparr>,
       pv_storage = None, pv_nodeId = js ''n'', pv_paneId = js ''p'', pv_machine = Some box_machine,
       pv_menuOpen = False, pv_draggingTabId = None, pv_pending = None, pv_contextMenu = None,
       pv_dropTarget = None, pv_splitSide = None, pv_layout = [], pv_closing = []\<rparr>)"

lemma shared_session_ok: "panes_ok (panes (pv_workbench shared_session))" "pv_machine shared_session \<noteq> None"
  by (simp_all add: shared_session_def panes_ok_def pane_ok_def all_tab_ids_def fresh_id_def createTerminalTab_def
      createWorkbenchTab_def Let_def flip: js_append)

theorem closed_sessions_lost_last_tab_witness:
  "set (pv_closing (performCloseWorkbenchTab (js ''terminal-1'') shared_session)) =
   sessions_of (tabs_of (panes (pv_workbench shared_session))) -
   sessions_of (tabs_of (panes (pv_workbench (performCloseWorkbenchTab (js ''terminal-1'') shared_session))))"
proof -
  have "pv_closing shared_session = []" by (simp add: shared_session_def Let_def)
  then show ?thesis
    using closed_sessions_lost_last_tab [OF shared_session_ok,
      of "performCloseWorkbenchTab (js ''terminal-1'') shared_session" "js ''terminal-1''"] by simp
qed

section \<open>Unsaved changes\<close>

text \<open>The tabs with unsaved changes, by their ids.\<close>

definition dirty_of :: "WorkbenchTab list \<Rightarrow> jstring set" where
  "dirty_of tabs = {i. (i, Some True) \<in> (\<lambda>tab. (tab_id tab, tab_dirty tab)) ` set tabs}"

lemma mem_dirty_of: "i \<in> dirty_of tabs \<longleftrightarrow> (\<exists>tab \<in> set tabs. tab_id tab = i \<and> tab_dirty tab = Some True)"
  by (auto simp: dirty_of_def image_iff eq_commute)

lemma dirty_of_count: "dirtyTabCount tabs = 0 \<longleftrightarrow> dirty_of tabs = {}"
proof -
  have "getOr (tab_dirty tab) False \<longleftrightarrow> tab_dirty tab = Some True" for tab
    by (cases "tab_dirty tab") (simp_all add: getOr_def)
  then show ?thesis by (auto simp: dirtyTabCount_def filter_empty_conv mem_dirty_of set_eq_iff)
qed

lemma dirty_of_tabs_of: "dirty_of (tabs_of ps) = (\<Union>p \<in> set ps. dirty_of (pane_tabs p))"
  by (auto simp: dirty_of_def tabs_of_def)

lemma dirty_normalize: "dirty_of (pane_tabs (normalizePaneTabHistory p)) = dirty_of (pane_tabs p)"
proof -
  have "map (\<lambda>tab. (tab_id tab, tab_dirty tab)) (pane_tabs (normalizePaneTabHistory p)) =
      map (\<lambda>tab. (tab_id tab, tab_dirty tab)) (pane_tabs p)"
    by (simp add: normalizePaneTabHistory_def Let_def)
  then have "set (map (\<lambda>tab. (tab_id tab, tab_dirty tab)) (pane_tabs (normalizePaneTabHistory p))) =
      set (map (\<lambda>tab. (tab_id tab, tab_dirty tab)) (pane_tabs p))" by (rule arg_cong)
  then show ?thesis by (simp add: dirty_of_def)
qed

lemma dirty_without: "dirty_of (pane_tabs (pane_without i p)) = dirty_of (pane_tabs p) - {i}"
  unfolding pane_without_def Let_def dirty_normalize by (auto simp: dirty_of_def)

lemma closing_fields' [simp]: "pane_of (closeTerminalSessions tabs v) = pane_of v"
  by (simp add: pane_of_def)

lemma close_pane_dirty:
  assumes "\<And>p. pane_of v = Some p \<Longrightarrow> dirty_of (pane_tabs p) = {}" "panes_ok (panes (pv_workbench v))"
  shows "dirty_of (tabs_of (panes (pv_workbench (performClosePane v)))) = dirty_of (tabs_of (panes (pv_workbench v)))"
proof (cases "canClosePane v")
  case False
  then show ?thesis by (simp add: performClosePane_def)
next
  case True
  let ?B = "panes (pv_workbench v)"
  have n: "\<not> length ?B \<le> Suc 0" using True by (simp add: canClosePane_def)
  have "panes (pv_workbench (performClosePane v)) = filter (\<lambda>pane. pane_id pane \<noteq> pv_paneId v) ?B"
    using True n by (simp add: performClosePane_def update_workbench_def removePane_def pane_of_def Let_def split: option.split)
  moreover have "dirty_of (pane_tabs q) = {}" if "q \<in> set ?B" "pane_id q = pv_paneId v" for q
  proof -
    have "pane_of v \<noteq> None" using that unfolding pane_of_def paneOf_def find_None_iff by blast
    then obtain p where p: "pane_of v = Some p" by blast
    have "p = q" using pane_of_in [OF p] that by (intro same_pane [OF assms(2)]) simp_all
    then show ?thesis using assms(1) [OF p] by simp
  qed
  ultimately show ?thesis by (auto simp: dirty_of_tabs_of)
qed

lemma close_tab_dirty:
  assumes "\<And>q. q \<in> set (panes st) \<Longrightarrow> pane_id q = a \<Longrightarrow> i \<notin> dirty_of (pane_tabs q)"
  shows "dirty_of (tabs_of (panes (closeTab a i st))) = dirty_of (tabs_of (panes st))"
proof -
  let ?f = "\<lambda>pane. if pane_id pane \<noteq> a \<or> length (pane_tabs pane) \<le> 1 then pane else pane_without i pane"
  have panes_map: "panes (closeTab a i st) = map ?f (panes st)"
    by (simp add: closeTab_def updatePanes_def)
  have same: "dirty_of (pane_tabs (?f q)) = dirty_of (pane_tabs q)" if "q \<in> set (panes st)" for q
    using assms [OF that] by (simp add: dirty_without)
  show ?thesis
    by (simp only: panes_map dirty_of_tabs_of set_map image_image SUP_cong [OF refl same])
qed

lemma close_pane_removes: "canClosePane v \<Longrightarrow> pv_paneId v \<notin> pane_id ` set (panes (pv_workbench (performClosePane v)))"
  by (auto simp: performClosePane_def update_workbench_def removePane_def canClosePane_def Let_def split: option.split)

lemma tabs_of_ids: "set (all_tab_ids ps) = (\<Union>q \<in> set ps. set (tab_ids q))"
  by (auto simp: all_tab_ids_def)

lemma close_tab_removes:
  assumes "panes_ok (panes (pv_workbench v))" "pane_of v = Some p" "tabId \<in> set (tab_ids p)"
    "canClosePane v \<or> length (pane_tabs p) > 1"
  shows "tabId \<notin> set (all_tab_ids (panes (pv_workbench (performCloseWorkbenchTab tabId v))))"
proof -
  from pane_of_in [OF assms(2)] have p: "p \<in> set (panes (pv_workbench v))" "pane_id p = pv_paneId v" by simp_all
  have other: "q = p" if "q \<in> set (panes (pv_workbench v))" "tabId \<in> set (tab_ids q)" for q
    using assms(1,3) p(1) that distinct_tab_pane unfolding panes_ok_def by blast
  show ?thesis
  proof (cases "length (pane_tabs p) > 1")
    case True
    let ?f = "\<lambda>pane. if pane_id pane \<noteq> pv_paneId v \<or> length (pane_tabs pane) \<le> 1 then pane else pane_without tabId pane"
    have "panes (pv_workbench (performCloseWorkbenchTab tabId v)) = map ?f (panes (pv_workbench v))"
      using True assms(2)
      by (simp add: performCloseWorkbenchTab_def update_workbench_def closeTab_def updatePanes_def split: option.split)
    moreover have "tabId \<notin> set (tab_ids (?f q))" if q: "q \<in> set (panes (pv_workbench v))" for q
    proof (cases "tabId \<in> set (tab_ids q)")
      case closed: True
      have "tabId \<notin> set (tab_ids (pane_without tabId q))" unfolding tab_ids_without by simp
      then show ?thesis using other [OF q closed] True p(2) by simp
    next
      case False
      then have "tabId \<notin> set (tab_ids (pane_without tabId q))" unfolding tab_ids_without by simp
      with False show ?thesis
        by (cases "pane_id q \<noteq> pv_paneId v \<or> length (pane_tabs q) \<le> 1") (simp_all only: if_True if_False not_False_eq_True)
    qed
    ultimately show ?thesis unfolding tabs_of_ids by (metis (no_types, lifting) UN_E imageE list.set_map)
  next
    case False
    then have c: "canClosePane v" using assms(4) by simp
    then have "panes (pv_workbench (performCloseWorkbenchTab tabId v)) =
        filter (\<lambda>pane. pane_id pane \<noteq> pv_paneId v) (panes (pv_workbench v))"
      using False assms(2)
      by (auto simp: performCloseWorkbenchTab_def performClosePane_def update_workbench_def removePane_def
          canClosePane_def Let_def split: option.split)
    then show ?thesis using other p(2) by (auto simp: tabs_of_ids)
  qed
qed

text \<open>What a request does while a question is due: it shows the question and nothing else.\<close>

lemma request_pane_asks:
  assumes "pane_of v = Some p" "canClosePane v"
  shows "requestClosePane v = (if dirty_of (pane_tabs p) = {} then performClosePane v
    else v\<lparr>pv_pending := Some (PendingPane (dirtyTabCount (pane_tabs p)))\<rparr>)"
  using assms dirty_of_count [of "pane_tabs p"] by (auto simp: requestClosePane_def Let_def)

lemma request_tab_asks:
  assumes "panes_ok (panes (pv_workbench v))" "pane_of v = Some p" "tabId \<in> set (tab_ids p)"
  shows "requestCloseWorkbenchTab tabId v = (if tabId \<in> dirty_of (pane_tabs p)
    then v\<lparr>pv_contextMenu := None, pv_pending := Some (PendingTab 1 tabId)\<rparr>
    else performCloseWorkbenchTab tabId (v\<lparr>pv_contextMenu := None\<rparr>))"
proof -
  have v: "pane_of (v\<lparr>pv_contextMenu := None\<rparr>) = Some p" using assms(2) by (simp add: pane_of_def)
  from assms(3) obtain tab where tab: "List.find (\<lambda>t. tab_id t = tabId) (pane_tabs p) = Some tab"
    by (cases "List.find (\<lambda>t. tab_id t = tabId) (pane_tabs p)") (auto simp: find_None_iff)
  then have t: "tab \<in> set (pane_tabs p)" "tab_id tab = tabId" by (auto simp: find_Some_iff)
  have "distinct (tab_ids p)" using assms(1) pane_of_in [OF assms(2)] by (simp add: panes_ok_def pane_ok_def)
  then have only: "t' = tab" if "t' \<in> set (pane_tabs p)" "tab_id t' = tabId" for t'
    using that t by (auto simp: distinct_map inj_on_def)
  have "getOr (tab_dirty tab) False \<longleftrightarrow> tab_dirty tab = Some True"
    by (cases "tab_dirty tab") (simp_all add: getOr_def)
  also have "\<dots> \<longleftrightarrow> tabId \<in> dirty_of (pane_tabs p)" unfolding mem_dirty_of using only t by blast
  finally show ?thesis using v tab by (simp add: requestCloseWorkbenchTab_def Let_def)
qed

lemma close_clean_tab:
  assumes "panes_ok (panes (pv_workbench v))" "pane_of v = Some p" "tabId \<in> set (tab_ids p)"
    "tabId \<notin> dirty_of (pane_tabs p)"
  shows "dirty_of (tabs_of (panes (pv_workbench (performCloseWorkbenchTab tabId v)))) =
    dirty_of (tabs_of (panes (pv_workbench v)))"
proof (cases "length (pane_tabs p) > 1")
  case True
  from pane_of_in [OF assms(2)] have p: "p \<in> set (panes (pv_workbench v))" "pane_id p = pv_paneId v" by simp_all
  have "dirty_of (tabs_of (panes (closeTab (pv_paneId v) tabId (pv_workbench v)))) =
      dirty_of (tabs_of (panes (pv_workbench v)))"
  proof (rule close_tab_dirty)
    fix q assume "q \<in> set (panes (pv_workbench v))" "pane_id q = pv_paneId v"
    then have "q = p" using p by (intro same_pane [OF assms(1)]) simp_all
    then show "tabId \<notin> dirty_of (pane_tabs q)" using assms(4) by simp
  qed
  then show ?thesis
    using True assms(2) by (simp add: performCloseWorkbenchTab_def update_workbench_def split: option.split)
next
  case single: False
  with assms(3) obtain tab where t: "pane_tabs p = [tab]" "tab_id tab = tabId"
    by (cases "pane_tabs p") (auto simp: Suc_le_eq)
  then have "dirty_of (pane_tabs p) = {}" using assms(4) by (auto simp: mem_dirty_of set_eq_iff)
  then have "dirty_of (tabs_of (panes (pv_workbench (performClosePane v)))) =
      dirty_of (tabs_of (panes (pv_workbench v)))"
    using assms(2) by (intro close_pane_dirty assms(1)) simp
  then show ?thesis using single assms(2) by (simp add: performCloseWorkbenchTab_def)
qed

text \<open>(C25) No tab with unsaved changes is closed by its close button or by \<open>Close pane\<close> alone, and both
  ask first. With unsaved changes the request leaves the workbench and the sessions as they are and shows the
  question, for a pane with the number of its tabs with unsaved changes. Cancelling it closes
  nothing; confirming it closes the pane, or the tab (unless it is the only tab of the only pane, which
  stays). Without unsaved changes nothing is asked and the request closes at once.\<close>

theorem close_asks_for_unsaved_changes:
  assumes "panes_ok (panes (pv_workbench v))" "pane_of v = Some p" "tabId \<in> set (tab_ids p)"
  shows "(\<forall>w \<in> {requestClosePane v, requestCloseWorkbenchTab tabId v}.
      dirty_of (tabs_of (panes (pv_workbench w))) = dirty_of (tabs_of (panes (pv_workbench v)))) \<and>
    (let w = requestClosePane v in canClosePane v \<longrightarrow>
      (if dirty_of (pane_tabs p) = {} then w = performClosePane v
       else pv_pending w = Some (PendingPane (dirtyTabCount (pane_tabs p))) \<and>
        pv_workbench w = pv_workbench v \<and> pv_closing w = pv_closing v \<and>
        pv_workbench (cancelPendingClose w) = pv_workbench v \<and> pv_closing (cancelPendingClose w) = pv_closing v \<and>
        pv_paneId v \<notin> pane_id ` set (panes (pv_workbench (confirmPendingCloseRequest w))))) \<and>
    (let w = requestCloseWorkbenchTab tabId v in
      if tabId \<notin> dirty_of (pane_tabs p) then w = performCloseWorkbenchTab tabId (v\<lparr>pv_contextMenu := None\<rparr>)
      else pv_pending w = Some (PendingTab 1 tabId) \<and>
        pv_workbench w = pv_workbench v \<and> pv_closing w = pv_closing v \<and>
        pv_workbench (cancelPendingClose w) = pv_workbench v \<and> pv_closing (cancelPendingClose w) = pv_closing v \<and>
        (canClosePane v \<or> length (pane_tabs p) > 1 \<longrightarrow>
          tabId \<notin> set (all_tab_ids (panes (pv_workbench (confirmPendingCloseRequest w))))))"
proof -
  note tab = request_tab_asks [OF assms]
  have same: "pane_of (v\<lparr>pv_contextMenu := x, pv_pending := y\<rparr>) = Some p"
    "pane_of (v\<lparr>pv_contextMenu := x\<rparr>) = Some p" "canClosePane (v\<lparr>pv_contextMenu := x, pv_pending := y\<rparr>) = canClosePane v"
    "canClosePane (v\<lparr>pv_pending := y\<rparr>) = canClosePane v" for x y
    using assms(2) by (simp_all add: pane_of_def canClosePane_def)
  have 1: "dirty_of (tabs_of (panes (pv_workbench (requestClosePane v)))) = dirty_of (tabs_of (panes (pv_workbench v)))"
    using close_pane_dirty [of v, OF _ assms(1)] request_pane_asks [OF assms(2)] assms(2)
    by (cases "canClosePane v") (simp_all add: requestClosePane_def)
  have 2: "dirty_of (tabs_of (panes (pv_workbench (requestCloseWorkbenchTab tabId v)))) =
      dirty_of (tabs_of (panes (pv_workbench v)))"
    using close_clean_tab [of "v\<lparr>pv_contextMenu := None\<rparr>" p tabId] same(2) assms(1,3) by (simp add: tab)
  show ?thesis unfolding Let_def
  proof (intro conjI impI)
    show "\<forall>w \<in> {requestClosePane v, requestCloseWorkbenchTab tabId v}.
      dirty_of (tabs_of (panes (pv_workbench w))) = dirty_of (tabs_of (panes (pv_workbench v)))" using 1 2 by simp
  next
    assume "canClosePane v"
    then show "if dirty_of (pane_tabs p) = {} then requestClosePane v = performClosePane v
       else pv_pending (requestClosePane v) = Some (PendingPane (dirtyTabCount (pane_tabs p))) \<and>
        pv_workbench (requestClosePane v) = pv_workbench v \<and> pv_closing (requestClosePane v) = pv_closing v \<and>
        pv_workbench (cancelPendingClose (requestClosePane v)) = pv_workbench v \<and>
        pv_closing (cancelPendingClose (requestClosePane v)) = pv_closing v \<and>
        pv_paneId v \<notin> pane_id ` set (panes (pv_workbench (confirmPendingCloseRequest (requestClosePane v))))"
      using close_pane_removes [of "v\<lparr>pv_pending := None\<rparr>"] same
      by (simp add: request_pane_asks [OF assms(2)] cancelPendingClose_def confirmPendingCloseRequest_def)
  qed (use close_tab_removes [of "v\<lparr>pv_contextMenu := None, pv_pending := None\<rparr>" p tabId] same assms(1,3) in
      \<open>simp add: tab cancelPendingClose_def confirmPendingCloseRequest_def\<close>)
qed

text \<open>The first tab of the pane has unsaved changes.\<close>

definition unsaved_tab :: "nat pane_view" where
  "unsaved_tab = update_workbench (setTabDirty (js ''p'') (js ''terminal-1'') True) shared_session"

lemma unsaved_tab_ok: "panes_ok (panes (pv_workbench unsaved_tab))"
  using setters_panes_ok(3) [OF shared_session_ok(1)] by (simp add: unsaved_tab_def update_workbench_def)

lemma unsaved_tab_pane:
  "map_option (map (\<lambda>tab. (tab_id tab, tab_dirty tab)) \<circ> pane_tabs) (pane_of unsaved_tab) =
    Some [(js ''terminal-1'', Some True), (js ''terminal-2'', None)]"
  by (simp add: unsaved_tab_def update_workbench_def shared_session_def setTabDirty_def update_tab_def map_pane_def
      pane_of_def paneOf_def Let_def createTerminalTab_def createWorkbenchTab_def fresh_id_def getOr_def
      flip: js_append)

theorem close_asks_for_unsaved_changes_witness:
  "pv_pending (requestCloseWorkbenchTab (js ''terminal-1'') unsaved_tab) = Some (PendingTab 1 (js ''terminal-1'')) \<and>
   js ''terminal-1'' \<notin> set (all_tab_ids (panes (pv_workbench
     (confirmPendingCloseRequest (requestCloseWorkbenchTab (js ''terminal-1'') unsaved_tab)))))"
proof -
  obtain p where p: "pane_of unsaved_tab = Some p"
    and t: "map (\<lambda>tab. (tab_id tab, tab_dirty tab)) (pane_tabs p) = [(js ''terminal-1'', Some True), (js ''terminal-2'', None)]"
    using unsaved_tab_pane by auto
  have "map fst (map (\<lambda>tab. (tab_id tab, tab_dirty tab)) (pane_tabs p)) = [js ''terminal-1'', js ''terminal-2'']"
    unfolding t by simp
  then have ids: "tab_ids p = [js ''terminal-1'', js ''terminal-2'']" by (simp add: comp_def)
  have mem: "js ''terminal-1'' \<in> set (tab_ids p)" unfolding ids by simp
  have len: "length (pane_tabs p) > 1" using arg_cong [OF ids, of length] by simp
  have "set (map (\<lambda>tab. (tab_id tab, tab_dirty tab)) (pane_tabs p)) =
      {(js ''terminal-1'', Some True), (js ''terminal-2'', None)}" unfolding t by simp
  then have d: "js ''terminal-1'' \<in> dirty_of (pane_tabs p)" by (simp add: dirty_of_def)
  show ?thesis
    using close_asks_for_unsaved_changes [OF unsaved_tab_ok p mem] d len by (simp add: Let_def)
qed

end
