(* ===== verification/FilesTool.thy ===== *)
theory FilesTool
  imports Workbench RpcDaemon FloatingMenu
begin

text \<open>
  The files tool, \<open>web/src/view/workbench/tool/files/index.tsx\<close>: its menus, the dialogs that delete, rename
  and create entries, the initial location, and the parts it shows (\<open>navbar/\<close>, \<open>content/directory/\<close>).
  A call to the daemon is in \<open>ft_calls\<close> until it is answered; what the code does after its \<open>await\<close> is a
  definition of its own. Dates in the format of the locale are not modelled.
\<close>

section \<open>State\<close>

record DeleteEntryState =
  del_entry :: FsEntry
  del_error :: "jstring option"
  del_isDeleting :: bool

record RenameEntryState =
  ren_draftName :: jstring
  ren_entry :: FsEntry
  ren_error :: "jstring option"
  ren_isRenaming :: bool

record CreateFileState =
  cre_draftName :: jstring
  cre_error :: "jstring option"
  cre_isCreating :: bool

datatype file_call = DeleteCall DeletePathsReq | RenameCall FsEntry RenamePathsReq | CreateCall CreateNodesReq

type_synonym files_deps = "bool \<times> Machine option \<times> WorkbenchFilesView option \<times> WorkbenchTool option"

text \<open>\<open>ft_home\<close> is the request for the home directory that is not cancelled, by its number.\<close>

record 'l files_tool =
  ft_explorer :: explorer
  ft_workbench :: "'l WorkbenchState"
  ft_storage :: "storage option"
  ft_paneId :: jstring
  ft_tabId :: jstring
  ft_machine :: "Machine option"
  ft_shell :: "AvailableShellInfo option"
  ft_entryMenu :: "(FsEntry \<times> real \<times> real) option"
  ft_folderMenu :: "(real \<times> real) option"
  ft_properties :: "FsEntry option"
  ft_delete :: "DeleteEntryState option"
  ft_rename :: "RenameEntryState option"
  ft_create :: "CreateFileState option"
  ft_calls :: "file_call list"
  ft_applied :: bool
  ft_deps :: "files_deps option"
  ft_homes :: nat
  ft_home :: "nat option"
  ft_instance :: "jstring option"

definition files_currentPath :: "'l files_tool \<Rightarrow> jstring option" where
  "files_currentPath v = currentPathFromLocation (ex_location (ft_explorer v))"

definition update_explorer :: "(explorer \<Rightarrow> explorer) \<Rightarrow> 'l files_tool \<Rightarrow> 'l files_tool" where
  "update_explorer f v = v\<lparr>ft_explorer := f (ft_explorer v)\<rparr>"

definition childPath :: "jstring \<Rightarrow> jstring \<Rightarrow> jstring" where
  "childPath directory name =
     (let separator = (if backslash \<in> set directory then backslash else slash) in
      if endsWith directory [slash] \<or> endsWith directory [backslash] then directory @ name
      else directory @ [separator] @ name)"

section \<open>The location a tab starts with\<close>

definition location_deps :: "'l files_tool \<Rightarrow> files_deps" where
  "location_deps v =
     (let tab = tabOf (ft_paneId v) (ft_tabId v) (ft_workbench v) in
      (isPaired (ft_machine v), ft_machine v, Option.bind tab tab_filesView, map_option tab_tool tab))"

definition location_effect :: "'l files_tool \<Rightarrow> 'l files_tool" where
  "location_effect v =
     (if ft_deps v = Some (location_deps v) then v
      else
        let v = v\<lparr>ft_deps := Some (location_deps v), ft_home := None\<rparr>;
            tab = tabOf (ft_paneId v) (ft_tabId v) (ft_workbench v) in
        if ft_applied v then v
        else if map_option tab_tool tab \<noteq> Some ToolFiles then v
        else if Option.bind tab tab_filesView = Some ViewTrash then
          update_explorer replaceWithTrash (v\<lparr>ft_applied := True\<rparr>)
        else if Option.bind tab tab_filesView \<noteq> Some ViewHome then v\<lparr>ft_applied := True\<rparr>
        else if ft_machine v = None \<or> \<not> isPaired (ft_machine v) then v
        else v\<lparr>ft_home := Some (ft_homes v), ft_homes := Suc (ft_homes v)\<rparr>)"

definition home_answered :: "nat \<Rightarrow> DaemonEnvironment result \<Rightarrow> 'l files_tool \<Rightarrow> 'l files_tool" where
  "home_answered n answer v =
     (if ft_home v \<noteq> Some n then v
      else let v = v\<lparr>ft_home := None\<rparr> in
        case answer of
          Inr environment \<Rightarrow>
            if de_homeDirectory environment = [] then v
            else update_explorer (replaceWithPath (Some (de_homeDirectory environment))) (v\<lparr>ft_applied := True\<rparr>)
        | Inl err \<Rightarrow> v\<lparr>ft_applied := True\<rparr>)"

text \<open>A new instance of the daemon refreshes the listings.\<close>

definition instance_effect :: "jstring option \<Rightarrow> 'l files_tool \<Rightarrow> 'l files_tool" where
  "instance_effect daemonInstanceId v =
     (if ft_instance v = daemonInstanceId then v
      else let v = v\<lparr>ft_instance := daemonInstanceId\<rparr> in
        if \<not> truthy daemonInstanceId then v else update_explorer refresh v)"

section \<open>Menus and navigation\<close>

definition navigateFromToolbar :: "jstring option \<Rightarrow> 'l files_tool \<Rightarrow> 'l files_tool" where
  "navigateFromToolbar path v =
     (if (\<exists>f. openedFile (ft_explorer v) = Some f \<and> path = Some (fs_path f)) then v
      else update_explorer (navigate path) v)"

definition openTableEntry ::
    "(ExplorerLocation list \<Rightarrow> ExplorerLocation \<Rightarrow> jstring) \<Rightarrow> jstring \<Rightarrow> FsEntry \<Rightarrow> 'l files_tool \<Rightarrow> 'l files_tool" where
  "openTableEntry stringify uuid entry v =
     (if fs_kind entry = FsDirectory then update_explorer (openEntry entry) v
      else let v = update_explorer (selectEntry entry) v in
        if fs_kind entry \<noteq> FsFile then v
        else let tabId = tab_id (createFilesTab None uuid) in
          v\<lparr>ft_workbench := addFilesTab (ft_paneId v) None uuid (ft_workbench v),
            ft_storage := writeExplorerFileNavigationState stringify (map_option m_id (ft_machine v)) tabId
              (files_currentPath v) entry (ft_storage v)\<rparr>)"

definition entryContextMenuWidth :: real where "entryContextMenuWidth = 176"

definition entryContextMenuPosition :: "real \<Rightarrow> real \<Rightarrow> real \<Rightarrow> real \<Rightarrow> bool \<Rightarrow> real \<times> real" where
  "entryContextMenuPosition innerWidth innerHeight x y hasDeleteItem =
     (let p = clampFloatingMenuPosition innerWidth innerHeight x y
        \<lparr>menu_itemCount = (if hasDeleteItem then 3 else 1), menu_width = entryContextMenuWidth\<rparr> in
      (menu_left p, menu_top p))"

definition folderContextMenuPosition :: "real \<Rightarrow> real \<Rightarrow> real \<Rightarrow> real \<Rightarrow> real \<times> real" where
  "folderContextMenuPosition innerWidth innerHeight x y =
     (let p = clampFloatingMenuPosition innerWidth innerHeight x y
        \<lparr>menu_itemCount = 2, menu_width = entryContextMenuWidth\<rparr> in (menu_left p, menu_top p))"

definition openEntryMenu :: "real \<Rightarrow> real \<Rightarrow> FsEntry \<Rightarrow> real \<Rightarrow> real \<Rightarrow> 'l files_tool \<Rightarrow> 'l files_tool" where
  "openEntryMenu innerWidth innerHeight entry x y v =
     (let p = entryContextMenuPosition innerWidth innerHeight x y (truthy (files_currentPath v)) in
      (update_explorer (selectEntry entry) v)\<lparr>ft_folderMenu := None, ft_entryMenu := Some (entry, p)\<rparr>)"

definition openFolderMenu :: "real \<Rightarrow> real \<Rightarrow> real \<Rightarrow> real \<Rightarrow> 'l files_tool \<Rightarrow> 'l files_tool" where
  "openFolderMenu innerWidth innerHeight x y v =
     v\<lparr>ft_entryMenu := None, ft_folderMenu := Some (folderContextMenuPosition innerWidth innerHeight x y)\<rparr>"

definition closeMenu :: "'l files_tool \<Rightarrow> 'l files_tool" where
  "closeMenu v = v\<lparr>ft_entryMenu := None, ft_folderMenu := None\<rparr>"

text \<open>The items, and whether each can be chosen.\<close>

definition entryMenuItems :: "'l files_tool \<Rightarrow> string list" where
  "entryMenuItems v =
     [''Properties''] @ (if truthy (files_currentPath v) then [''Rename'', ''Delete...''] else [])"

definition folderMenuItems :: "'s list \<Rightarrow> 'l files_tool \<Rightarrow> (string \<times> bool) list" where
  "folderMenuItems terminalShells v =
     [(''New file'', truthy (files_currentPath v)),
      (''Open terminal here'', truthy (files_currentPath v) \<and> terminalShells \<noteq> [])]"

definition openEntryProperties :: "FsEntry \<Rightarrow> 'l files_tool \<Rightarrow> 'l files_tool" where
  "openEntryProperties entry v = v\<lparr>ft_entryMenu := None, ft_properties := Some entry\<rparr>"

definition openRenameEntry :: "FsEntry \<Rightarrow> 'l files_tool \<Rightarrow> 'l files_tool" where
  "openRenameEntry entry v =
     (update_explorer (selectEntry entry) v)\<lparr>ft_entryMenu := None, ft_rename :=
       Some \<lparr>ren_draftName = displayName entry, ren_entry = entry, ren_error = None, ren_isRenaming = False\<rparr>\<rparr>"

definition openDeleteEntry :: "FsEntry \<Rightarrow> 'l files_tool \<Rightarrow> 'l files_tool" where
  "openDeleteEntry entry v = v\<lparr>ft_entryMenu := None,
     ft_delete := Some \<lparr>del_entry = entry, del_error = None, del_isDeleting = False\<rparr>\<rparr>"

definition openCreateFile :: "'l files_tool \<Rightarrow> 'l files_tool" where
  "openCreateFile v =
     (let v = v\<lparr>ft_folderMenu := None\<rparr> in
      if \<not> truthy (files_currentPath v) then v
      else v\<lparr>ft_create := Some \<lparr>cre_draftName = [], cre_error = None, cre_isCreating = False\<rparr>\<rparr>)"

definition openTerminalHere :: "jstring \<Rightarrow> 'l files_tool \<Rightarrow> 'l files_tool" where
  "openTerminalHere uuid v =
     (let v = v\<lparr>ft_folderMenu := None\<rparr> in
      if \<not> truthy (files_currentPath v) then v
      else case ft_shell v of
        None \<Rightarrow> v
      | Some shell \<Rightarrow>
          v\<lparr>ft_workbench := openTerminalTab
            \<lparr>cfg_cwd = files_currentPath v,
             cfg_launch = Some \<lparr>launch_command = asi_command shell, launch_args = asi_args shell\<rparr>,
             cfg_sessionId = None, cfg_terminalTitle = None, cfg_title = Some (asi_name shell)\<rparr> uuid (ft_workbench v)\<rparr>)"

section \<open>Deleting, renaming, creating\<close>

fun mutationItemErrorText :: "FsMutationItemError \<Rightarrow> jstring" where
  "mutationItemErrorText (ItemMutationFailed m) = (if m \<noteq> [] then m else js ''failed'')"
| "mutationItemErrorText (ItemMutationPermissionDenied m) = (if m \<noteq> [] then m else js ''permissionDenied'')"
| "mutationItemErrorText (ItemMutationNotFound m) = (if m \<noteq> [] then m else js ''notFound'')"
| "mutationItemErrorText (ItemMutationAlreadyExists m) = (if m \<noteq> [] then m else js ''alreadyExists'')"
| "mutationItemErrorText (ItemMutationNotDirectory m) = (if m \<noteq> [] then m else js ''notDirectory'')"
| "mutationItemErrorText (ItemMutationNotFile m) = (if m \<noteq> [] then m else js ''notFile'')"
| "mutationItemErrorText (ItemMutationInvalidPath m) = (if m \<noteq> [] then m else js ''invalidPath'')"
| "mutationItemErrorText (ItemMutationUnsupported m) = (if m \<noteq> [] then m else js ''unsupported'')"

fun first_failure :: "BulkMutationItemResult list \<Rightarrow> FsMutationItemError option" where
  "first_failure [] = None"
| "first_failure (BulkFailed _ err # results) = Some err"
| "first_failure (BulkOk _ # results) = first_failure results"

text \<open>What a call ended with: no error, or the text to show.\<close>

definition mutation_error :: "BulkMutationRes result \<Rightarrow> jstring option" where
  "mutation_error answer =
     (case answer of
        Inl err \<Rightarrow> Some (err_message err)
      | Inr res \<Rightarrow> map_option mutationItemErrorText (first_failure (bmr_results res)))"

definition deleteSelectedEntry :: "'l files_tool \<Rightarrow> 'l files_tool" where
  "deleteSelectedEntry v =
     (case ft_delete v of
        None \<Rightarrow> v
      | Some d \<Rightarrow>
          if ft_machine v = None \<or> del_isDeleting d then v
          else v\<lparr>ft_delete := Some (d\<lparr>del_error := None, del_isDeleting := True\<rparr>),
            ft_calls := ft_calls v @
              [DeleteCall \<lparr>dpr_paths = [fs_path (del_entry d)], dpr_mode = DeleteTrash\<rparr>]\<rparr>)"

definition delete_answered :: "jstring option \<Rightarrow> 'l files_tool \<Rightarrow> 'l files_tool" where
  "delete_answered failure v =
     (case failure of
        None \<Rightarrow> v\<lparr>ft_delete := None\<rparr>
      | Some m \<Rightarrow>
          v\<lparr>ft_delete := map_option (\<lambda>d. d\<lparr>del_error := Some m, del_isDeleting := False\<rparr>) (ft_delete v)\<rparr>)"

definition closeDeleteEntry :: "'l files_tool \<Rightarrow> 'l files_tool" where
  "closeDeleteEntry v =
     (case ft_delete v of
        None \<Rightarrow> v
      | Some d \<Rightarrow> if del_isDeleting d then v else v\<lparr>ft_delete := None\<rparr>)"

text \<open>\<open>setRenameEntry\<close> with an updater that leaves the editor of another entry alone.\<close>

definition set_rename_of ::
    "FsEntry \<Rightarrow> (RenameEntryState \<Rightarrow> RenameEntryState) \<Rightarrow> 'l files_tool \<Rightarrow> 'l files_tool" where
  "set_rename_of entry f v =
     v\<lparr>ft_rename := map_option (\<lambda>r. if fs_path (ren_entry r) = fs_path entry then f r else r) (ft_rename v)\<rparr>"

definition commitRename :: "FsEntry \<Rightarrow> 'l files_tool \<Rightarrow> 'l files_tool" where
  "commitRename entry v =
     (case ft_rename v of
        None \<Rightarrow> v
      | Some r \<Rightarrow>
          if ft_machine v = None \<or> \<not> truthy (files_currentPath v) \<or> fs_path (ren_entry r) \<noteq> fs_path entry \<or>
             ren_isRenaming r then v
          else let nextName = ren_draftName r in
            if nextName = displayName entry then v\<lparr>ft_rename := None\<rparr>
            else if trim nextName = [] then
              set_rename_of entry (\<lambda>r. r\<lparr>ren_error := Some (js ''Name is required.'')\<rparr>) v
            else (set_rename_of entry (\<lambda>r. r\<lparr>ren_error := None, ren_isRenaming := True\<rparr>) v)
              \<lparr>ft_calls := ft_calls v @
                [RenameCall entry \<lparr>rpr_ops = [\<lparr>rpo_from = fs_path entry,
                   rpo_to = childPath (the (files_currentPath v)) nextName\<rparr>]\<rparr>]\<rparr>)"

definition rename_answered :: "FsEntry \<Rightarrow> jstring option \<Rightarrow> 'l files_tool \<Rightarrow> 'l files_tool" where
  "rename_answered entry failure v =
     (case failure of
        None \<Rightarrow> v\<lparr>ft_rename := None\<rparr>
      | Some m \<Rightarrow> set_rename_of entry (\<lambda>r. r\<lparr>ren_error := Some m, ren_isRenaming := False\<rparr>) v)"

definition cancelRename :: "'l files_tool \<Rightarrow> 'l files_tool" where
  "cancelRename v = v\<lparr>ft_rename := None\<rparr>"

definition updateRenameDraft :: "jstring \<Rightarrow> 'l files_tool \<Rightarrow> 'l files_tool" where
  "updateRenameDraft draft v =
     v\<lparr>ft_rename := map_option (\<lambda>r. r\<lparr>ren_draftName := draft, ren_error := None\<rparr>) (ft_rename v)\<rparr>"

definition commitCreateFile :: "'l files_tool \<Rightarrow> 'l files_tool" where
  "commitCreateFile v =
     (case ft_create v of
        None \<Rightarrow> v
      | Some c \<Rightarrow>
          if ft_machine v = None \<or> \<not> truthy (files_currentPath v) \<or> cre_isCreating c then v
          else let name = trim (cre_draftName c) in
            if name = [] then v\<lparr>ft_create := None\<rparr>
            else v\<lparr>ft_create := Some (c\<lparr>cre_error := None, cre_isCreating := True\<rparr>),
              ft_calls := ft_calls v @ [CreateCall \<lparr>cnr_nodes = [\<lparr>cno_path = childPath (the (files_currentPath v)) name,
                cno_spec = CreateNodeFile\<rparr>]\<rparr>]\<rparr>)"

definition create_answered :: "jstring option \<Rightarrow> 'l files_tool \<Rightarrow> 'l files_tool" where
  "create_answered failure v =
     (case failure of
        None \<Rightarrow> v\<lparr>ft_create := None\<rparr>
      | Some m \<Rightarrow>
          v\<lparr>ft_create := map_option (\<lambda>c. c\<lparr>cre_error := Some m, cre_isCreating := False\<rparr>) (ft_create v)\<rparr>)"

definition cancelCreate :: "'l files_tool \<Rightarrow> 'l files_tool" where
  "cancelCreate v = v\<lparr>ft_create := None\<rparr>"

definition updateCreateDraft :: "jstring \<Rightarrow> 'l files_tool \<Rightarrow> 'l files_tool" where
  "updateCreateDraft draft v =
     v\<lparr>ft_create := map_option (\<lambda>c. c\<lparr>cre_draftName := draft, cre_error := None\<rparr>) (ft_create v)\<rparr>"

text \<open>A call is answered.\<close>

fun apply_answer :: "file_call \<Rightarrow> jstring option \<Rightarrow> 'l files_tool \<Rightarrow> 'l files_tool" where
  "apply_answer (DeleteCall _) failure v = delete_answered failure v"
| "apply_answer (RenameCall entry _) failure v = rename_answered entry failure v"
| "apply_answer (CreateCall _) failure v = create_answered failure v"

definition call_answered :: "nat \<Rightarrow> BulkMutationRes result \<Rightarrow> 'l files_tool \<Rightarrow> 'l files_tool" where
  "call_answered n answer v =
     (if n < length (ft_calls v) then
        apply_answer (ft_calls v ! n) (mutation_error answer)
          (v\<lparr>ft_calls := take n (ft_calls v) @ drop (Suc n) (ft_calls v)\<rparr>)
      else v)"

section \<open>What is shown\<close>

datatype files_screen =
  FilesNoMachine | FilesPairing jstring | FilesTrash | FilesViewer FsEntry | FilesDirectory

definition FilesContent :: "'l files_tool \<Rightarrow> files_screen" where
  "FilesContent v =
     (if ex_location (ft_explorer v) = LTrash then FilesTrash
      else case openedFile (ft_explorer v) of Some f \<Rightarrow> FilesViewer f | None \<Rightarrow> FilesDirectory)"

definition FilesTool :: "'l files_tool \<Rightarrow> files_screen" where
  "FilesTool v =
     (case ft_machine v of
        None \<Rightarrow> FilesNoMachine
      | Some m \<Rightarrow> if \<not> isPaired (ft_machine v) then FilesPairing (m_id m) else FilesContent v)"

definition canGoBack :: "'l files_tool \<Rightarrow> bool" where
  "canGoBack v \<longleftrightarrow> length (ex_history (ft_explorer v)) > 0"

definition canGoUp :: "'l files_tool \<Rightarrow> bool" where
  "canGoUp v \<longleftrightarrow> files_currentPath v \<noteq> None \<and> ex_location (ft_explorer v) \<noteq> LTrash"

text \<open>The name of an entry, or the input that renames it: its text, whether it is disabled, its error.\<close>

datatype name_cell = NameText jstring | NameInput jstring bool "jstring option"

record file_row =
  row_path :: jstring
  row_selected :: bool
  row_name :: name_cell
  row_readonly :: bool
  row_kind :: jstring
  row_size :: string

definition file_row_of :: "'l files_tool \<Rightarrow> FsEntry \<Rightarrow> file_row" where
  "file_row_of v entry =
     \<lparr>row_path = fs_path entry, row_selected = (ex_selectedPath (ft_explorer v) = Some (fs_path entry)),
      row_name = (case ft_rename v of
         Some r \<Rightarrow> if fs_path entry = fs_path (ren_entry r)
           then NameInput (ren_draftName r) (ren_isRenaming r) (ren_error r) else NameText (displayName entry)
       | None \<Rightarrow> NameText (displayName entry)),
      row_readonly = fs_readonly entry, row_kind = kindLabel (fs_kind entry), row_size = formatSize (fs_size entry)\<rparr>"

text \<open>\<open>None\<close> is the message that there are no rows.\<close>

definition FileTable :: "(jstring \<Rightarrow> jstring \<Rightarrow> int) \<Rightarrow> 'l files_tool \<Rightarrow> file_row list option \<times> name_cell option" where
  "FileTable collate v =
     (let listed = visibleRows collate (ft_explorer v) in
      (if listed = [] \<and> ft_create v = None then None else Some (map (file_row_of v) listed),
       map_option (\<lambda>c. NameInput (cre_draftName c) (cre_isCreating c) (cre_error c)) (ft_create v)))"

definition EntryDetails :: "FsEntry option \<Rightarrow> jstring option \<Rightarrow> (string \<times> jstring) list" where
  "EntryDetails entry currentPath =
     (case entry of
        None \<Rightarrow> [(''Location'', getOr currentPath (js ''Files''))]
      | Some e \<Rightarrow>
          [(''Name'', displayName e), (''Path'', fs_path e), (''Kind'', kindLabel (fs_kind e)),
           (''Size'', js (formatSize (fs_size e))),
           (''Flags'', js (if fs_readonly e then ''Readonly'' else ''Writable''))])"

definition Inspector :: "'l files_tool \<Rightarrow> (string \<times> jstring) list" where
  "Inspector v = EntryDetails (selectedEntry (ft_explorer v)) (files_currentPath v)"

definition DirectoryFooter :: "(jstring \<Rightarrow> jstring \<Rightarrow> int) \<Rightarrow> 'l files_tool \<Rightarrow> string" where
  "DirectoryFooter collate v = show_nat (length (visibleRows collate (ft_explorer v))) @ '' items''"

text \<open>The path bar: its crumbs, or an input for a path.\<close>

record path_bar =
  pb_editing :: bool
  pb_draft :: jstring

definition shown_crumbs :: "jstring option \<Rightarrow> (jstring \<times> jstring option) list" where
  "shown_crumbs path =
     (if path = Some trashLocationPath then [(js ''Root'', None), (js ''Trash'', Some trashLocationPath)]
      else pathCrumbs path)"

definition path_effect :: "jstring option \<Rightarrow> path_bar \<Rightarrow> path_bar" where
  "path_effect path b = (if pb_editing b then b else b\<lparr>pb_draft := getOr path []\<rparr>)"

definition beginEditing :: "jstring option \<Rightarrow> path_bar \<Rightarrow> path_bar" where
  "beginEditing path b =
     (if path = Some trashLocationPath then b else \<lparr>pb_editing = True, pb_draft = getOr path []\<rparr>)"

definition cancelEditing :: "jstring option \<Rightarrow> path_bar \<Rightarrow> path_bar" where
  "cancelEditing path b = \<lparr>pb_editing = False, pb_draft = getOr path []\<rparr>"

text \<open>The path to navigate to.\<close>

definition submitPath :: "path_bar \<Rightarrow> jstring option \<times> path_bar" where
  "submitPath b =
     (let nextPath = trim (pb_draft b) in
      (if nextPath = [] then None else Some nextPath, b\<lparr>pb_editing := False\<rparr>))"

section \<open>Paths of new entries\<close>

text \<open>An entry that is created in a directory, or renamed in it, to a name without separators is below that
  directory: going up from its path leads back to it.\<close>

theorem child_path_parent:
  assumes "rooted directory" "pathRoot directory = (base, sep)"
    and "directory = base \<or> (\<exists>below. directory = base @ below \<and> below \<noteq> [] \<and> \<not> is_sep (last below))"
    and "name \<noteq> []" "\<forall>c \<in> set name. \<not> is_sep c"
  shows "parentPath (childPath directory name) = Some directory"
proof -
  note r = pathRoot_append [OF assms(1,2)]
  from assms(3) show ?thesis
  proof
    assume d: "directory = base"
    have l: "is_sep (last base)" using r [of "[]"] by (auto simp: endsWith_last)
    then have "endsWith base [slash] \<or> endsWith base [backslash]"
      using r [of "[]"] by (auto simp: is_sep_def endsWith_last)
    then have "childPath directory name = base @ name" by (simp add: childPath_def d Let_def)
    then show ?thesis
      using parent_of_root_part [of base name sep] r [of name] r [of "[]"] l assms(4,5) d by simp
  next
    assume "\<exists>below. directory = base @ below \<and> below \<noteq> [] \<and> \<not> is_sep (last below)"
    then obtain below where d: "directory = base @ below" "below \<noteq> []" "\<not> is_sep (last below)" by blast
    then have "\<not> endsWith directory [slash]" "\<not> endsWith directory [backslash]"
      by (auto simp: endsWith_last is_sep_def)
    then obtain s where s: "childPath directory name = directory @ s # name" "is_sep s"
      by (auto simp: childPath_def is_sep_def Let_def)
    show ?thesis
      unfolding s(1) by (rule parent_of_part [of directory s name base sep])
        (use r [of "below @ s # name"] d s(2) assms(4,5) in auto)
  qed
qed

theorem child_path_parent_witness: "parentPath (childPath (js ''/a'') (js ''b'')) = Some (js ''/a'')"
proof -
  have "rooted (js ''/a'')" by (simp add: rooted_def startsWith_def js_Cons)
  moreover have "pathRoot (js ''/a'') = (js ''/'', slash)"
    by (simp add: pathRoot_def match_drive_def match_unc_def drive_letter_def startsWith_def js_Cons u16_def word_le_nat_alt)
  moreover have "js ''/a'' = js ''/'' @ js ''a''" by (simp flip: js_append)
  ultimately show ?thesis
    by (intro child_path_parent) (auto simp: js_Cons is_sep_def u16_def)
qed

text \<open>In a directory of a POSIX machine whose path contains a backslash, new names are joined with a
  backslash, although \<open>pathRoot\<close> says that the path is separated by slashes: the new entry is not in the
  directory.\<close>

theorem posix_child_joined_by_backslash:
  assumes "startsWith directory [slash]" "backslash \<in> set directory" "\<not> is_sep (last directory)"
  shows "snd (pathRoot directory) = slash \<and> childPath directory name = directory @ backslash # name"
proof -
  obtain rest where d: "directory = slash # rest" using assms(1) by (cases directory) (auto simp: startsWith_def)
  have m: "match_drive directory = None" "match_unc directory = None"
    by (auto simp: d match_drive_def match_unc_def drive_letter_def u16_def word_le_nat_alt split: list.splits)
  have "\<not> endsWith directory [slash]" "\<not> endsWith directory [backslash]"
    using assms(3) d by (auto simp: endsWith_last is_sep_def)
  then show ?thesis using assms(1,2) m by (simp add: pathRoot_def childPath_def Let_def)
qed

theorem posix_child_joined_by_backslash_witness:
  "childPath [slash, 97, backslash, 98] (js ''c'') = [slash, 97, backslash, 98, backslash] @ js ''c''"
  using posix_child_joined_by_backslash [of "[slash, 97, backslash, 98]" "js ''c''"]
  by (simp add: startsWith_def is_sep_def u16_def)

section \<open>Runs\<close>

text \<open>Any order of what the user does, of the answers, and of changes from outside: the explorer, the tabs,
  the storage, the machine and its shells are replaced by any others.\<close>

inductive files_step :: "'l files_tool \<Rightarrow> 'l files_tool \<Rightarrow> bool" where
  files_outside: "files_step v (v\<lparr>ft_explorer := ex, ft_workbench := st, ft_storage := storage,
    ft_machine := machine, ft_shell := shell\<rparr>)"
| files_render: "files_step v (location_effect v)"
| files_home: "files_step v (home_answered n environment v)"
| files_instance: "files_step v (instance_effect inst v)"
| files_navigate: "files_step v (navigateFromToolbar path v)"
| files_open: "files_step v (openTableEntry stringify uuid entry v)"
| files_entryMenu: "files_step v (openEntryMenu w h entry x y v)"
| files_folderMenu: "files_step v (openFolderMenu w h x y v)"
| files_closeMenu: "files_step v (closeMenu v)"
| files_properties: "files_step v (openEntryProperties entry v)"
| files_terminal: "files_step v (openTerminalHere uuid v)"
| files_openDelete: "files_step v (openDeleteEntry entry v)"
| files_delete: "files_step v (deleteSelectedEntry v)"
| files_closeDelete: "files_step v (closeDeleteEntry v)"
| files_openRename: "files_step v (openRenameEntry entry v)"
| files_typeRename: "files_step v (updateRenameDraft draft v)"
| files_rename: "files_step v (commitRename entry v)"
| files_cancelRename: "files_step v (cancelRename v)"
| files_openCreate: "files_step v (openCreateFile v)"
| files_typeCreate: "files_step v (updateCreateDraft draft v)"
| files_create: "files_step v (commitCreateFile v)"
| files_cancelCreate: "files_step v (cancelCreate v)"
| files_answer: "files_step v (call_answered n answer v)"

inductive files_reachable :: "'l files_tool \<Rightarrow> bool" where
  files_initial: "files_reachable \<lparr>ft_explorer = ex, ft_workbench = st, ft_storage = storage, ft_paneId = pane, ft_tabId = i,
    ft_machine = machine, ft_shell = shell, ft_entryMenu = None, ft_folderMenu = None, ft_properties = None,
    ft_delete = None, ft_rename = None, ft_create = None, ft_calls = [], ft_applied = False, ft_deps = None,
    ft_homes = 0, ft_home = None, ft_instance = inst\<rparr>"
| files_step: "files_reachable v \<Longrightarrow> files_step v w \<Longrightarrow> files_reachable w"

text \<open>The form of a call that the tool makes.\<close>

fun call_ok :: "file_call \<Rightarrow> bool" where
  "call_ok (DeleteCall q) \<longleftrightarrow> dpr_mode q = DeleteTrash \<and> (\<exists>path. dpr_paths q = [path])"
| "call_ok (RenameCall entry q) \<longleftrightarrow> (\<exists>directory name. directory \<noteq> [] \<and> trim name \<noteq> [] \<and> name \<noteq> displayName entry \<and>
     rpr_ops q = [\<lparr>rpo_from = fs_path entry, rpo_to = childPath directory name\<rparr>])"
| "call_ok (CreateCall q) \<longleftrightarrow> (\<exists>directory name. directory \<noteq> [] \<and> trim name \<noteq> [] \<and>
     cnr_nodes q = [\<lparr>cno_path = childPath directory (trim name), cno_spec = CreateNodeFile\<rparr>])"

text \<open>A dialog that is busy waits for a call.\<close>

fun delete_busy :: "DeleteEntryState option \<Rightarrow> file_call list \<Rightarrow> bool" where
  "delete_busy None calls \<longleftrightarrow> True"
| "delete_busy (Some d) calls \<longleftrightarrow> (del_isDeleting d \<longrightarrow> (\<exists>q. DeleteCall q \<in> set calls))"

fun rename_busy :: "RenameEntryState option \<Rightarrow> file_call list \<Rightarrow> bool" where
  "rename_busy None calls \<longleftrightarrow> True"
| "rename_busy (Some r) calls \<longleftrightarrow>
     (ren_isRenaming r \<longrightarrow> (\<exists>e q. RenameCall e q \<in> set calls \<and> fs_path e = fs_path (ren_entry r)))"

fun create_busy :: "CreateFileState option \<Rightarrow> file_call list \<Rightarrow> bool" where
  "create_busy None calls \<longleftrightarrow> True"
| "create_busy (Some c) calls \<longleftrightarrow> (cre_isCreating c \<longrightarrow> (\<exists>q. CreateCall q \<in> set calls))"

definition busy_ok :: "'l files_tool \<Rightarrow> bool" where
  "busy_ok v \<longleftrightarrow> list_all call_ok (ft_calls v) \<and> delete_busy (ft_delete v) (ft_calls v) \<and>
     rename_busy (ft_rename v) (ft_calls v) \<and> create_busy (ft_create v) (ft_calls v)"

lemma busy_ok_cong:
  assumes "busy_ok v" "ft_calls w = ft_calls v" "ft_delete w = ft_delete v" "ft_rename w = ft_rename v"
    "ft_create w = ft_create v"
  shows "busy_ok w"
  using assms by (simp add: busy_ok_def)

lemma busy_append:
  "delete_busy d calls \<Longrightarrow> delete_busy d (calls @ more_calls)" "rename_busy r calls \<Longrightarrow> rename_busy r (calls @ more_calls)"
  "create_busy c calls \<Longrightarrow> create_busy c (calls @ more_calls)"
proof -
  show "delete_busy d calls \<Longrightarrow> delete_busy d (calls @ more_calls)" by (cases d) auto
  show "rename_busy r calls \<Longrightarrow> rename_busy r (calls @ more_calls)" by (cases r) auto
  show "create_busy c calls \<Longrightarrow> create_busy c (calls @ more_calls)" by (cases c) auto
qed

definition without_nth :: "nat \<Rightarrow> 'a list \<Rightarrow> 'a list" where
  "without_nth n xs = take n xs @ drop (Suc n) xs"

lemma without_nth:
  assumes "n < length xs"
  shows "set (without_nth n xs) \<subseteq> set xs" "x \<in> set xs \<Longrightarrow> x \<noteq> xs ! n \<Longrightarrow> x \<in> set (without_nth n xs)"
proof -
  have "set xs = set (take n xs) \<union> {xs ! n} \<union> set (drop (Suc n) xs)"
    by (subst id_take_nth_drop [OF assms]) simp
  then show "set (without_nth n xs) \<subseteq> set xs" "x \<in> set xs \<Longrightarrow> x \<noteq> xs ! n \<Longrightarrow> x \<in> set (without_nth n xs)"
    by (auto simp: without_nth_def)
qed

lemma busy_without_nth:
  assumes "n < length calls"
  shows "(\<And>q. calls ! n \<noteq> DeleteCall q) \<Longrightarrow> delete_busy d calls \<Longrightarrow> delete_busy d (without_nth n calls)"
    and "(\<And>e q. calls ! n = RenameCall e q \<Longrightarrow> \<forall>r'. r = Some r' \<longrightarrow> fs_path e \<noteq> fs_path (ren_entry r')) \<Longrightarrow>
      rename_busy r calls \<Longrightarrow> rename_busy r (without_nth n calls)"
    and "(\<And>q. calls ! n \<noteq> CreateCall q) \<Longrightarrow> create_busy c calls \<Longrightarrow> create_busy c (without_nth n calls)"
    and "list_all call_ok calls \<Longrightarrow> list_all call_ok (without_nth n calls)"
proof -
  note keep = without_nth(2) [OF assms]
  show "(\<And>q. calls ! n \<noteq> DeleteCall q) \<Longrightarrow> delete_busy d calls \<Longrightarrow> delete_busy d (without_nth n calls)"
    using keep by (cases d) (simp, metis delete_busy.simps(2))
  show "(\<And>e q. calls ! n = RenameCall e q \<Longrightarrow> \<forall>r'. r = Some r' \<longrightarrow> fs_path e \<noteq> fs_path (ren_entry r')) \<Longrightarrow>
      rename_busy r calls \<Longrightarrow> rename_busy r (without_nth n calls)"
    using keep by (cases r) (simp, metis rename_busy.simps(2))
  show "(\<And>q. calls ! n \<noteq> CreateCall q) \<Longrightarrow> create_busy c calls \<Longrightarrow> create_busy c (without_nth n calls)"
    using keep by (cases c) (simp, metis create_busy.simps(2))
  show "list_all call_ok calls \<Longrightarrow> list_all call_ok (without_nth n calls)"
    using without_nth(1) [OF assms] by (auto simp: list_all_iff)
qed

lemma files_frame:
  "ft_calls (location_effect v) = ft_calls v" "ft_delete (location_effect v) = ft_delete v"
  "ft_rename (location_effect v) = ft_rename v" "ft_create (location_effect v) = ft_create v"
  "ft_calls (home_answered n answer v) = ft_calls v" "ft_delete (home_answered n answer v) = ft_delete v"
  "ft_rename (home_answered n answer v) = ft_rename v" "ft_create (home_answered n answer v) = ft_create v"
  by (simp_all add: location_effect_def home_answered_def update_explorer_def Let_def split: sum.split)

lemma delete_answer_busy: "delete_busy (ft_delete (delete_answered failure v)) calls"
  by (cases failure; cases "ft_delete v") (simp_all add: delete_answered_def)

lemma create_answer_busy: "create_busy (ft_create (create_answered failure v)) calls"
  by (cases failure; cases "ft_create v") (simp_all add: create_answered_def)

lemma rename_answer_busy:
  assumes "n < length calls" "calls ! n = RenameCall entry q" "rename_busy (ft_rename v) calls"
  shows "rename_busy (ft_rename (rename_answered entry failure v)) (without_nth n calls)"
proof (cases failure)
  case None
  then show ?thesis by (simp add: rename_answered_def)
next
  case (Some m)
  show ?thesis
  proof (cases "ft_rename v")
    case None
    then show ?thesis using Some by (simp add: rename_answered_def set_rename_of_def)
  next
    case r: (Some r)
    show ?thesis
    proof (cases "fs_path (ren_entry r) = fs_path entry")
      case True
      then show ?thesis using Some r by (simp add: rename_answered_def set_rename_of_def)
    next
      case False
      then have "rename_busy (ft_rename v) (without_nth n calls)"
        using assms(2) r by (intro busy_without_nth(2) [OF assms(1) _ assms(3)]) auto
      then show ?thesis using Some r False by (simp add: rename_answered_def set_rename_of_def)
    qed
  qed
qed

lemma answer_fields:
  "ft_calls (delete_answered f v) = ft_calls v" "ft_rename (delete_answered f v) = ft_rename v"
  "ft_create (delete_answered f v) = ft_create v"
  "ft_calls (rename_answered e f v) = ft_calls v" "ft_delete (rename_answered e f v) = ft_delete v"
  "ft_create (rename_answered e f v) = ft_create v"
  "ft_calls (create_answered f v) = ft_calls v" "ft_delete (create_answered f v) = ft_delete v"
  "ft_rename (create_answered f v) = ft_rename v"
  by (simp_all add: delete_answered_def rename_answered_def create_answered_def set_rename_of_def split: option.split)

lemma answer_ok:
  assumes "busy_ok v"
  shows "busy_ok (call_answered n answer v)"
proof (cases "n < length (ft_calls v)")
  case False
  then show ?thesis using assms by (simp add: call_answered_def)
next
  case n: True
  note rest = busy_without_nth [OF n]
  let ?v = "v\<lparr>ft_calls := without_nth n (ft_calls v)\<rparr>"
  have c: "call_answered n answer v = apply_answer (ft_calls v ! n) (mutation_error answer) ?v"
    using n by (simp add: call_answered_def without_nth_def)
  from assms have b: "list_all call_ok (ft_calls v)" "delete_busy (ft_delete v) (ft_calls v)"
    "rename_busy (ft_rename v) (ft_calls v)" "create_busy (ft_create v) (ft_calls v)" by (simp_all add: busy_ok_def)
  show ?thesis
  proof (cases "ft_calls v ! n")
    case (DeleteCall q)
    then show ?thesis
      using rest(2) [OF _ b(3)] rest(3) [OF _ b(4)] rest(4) [OF b(1)]
      by (simp add: c busy_ok_def answer_fields delete_answer_busy)
  next
    case (RenameCall entry q)
    then show ?thesis
      using rest(1) [OF _ b(2)] rest(3) [OF _ b(4)] rest(4) [OF b(1)] rename_answer_busy [OF n RenameCall, of ?v] b(3)
      by (simp add: c busy_ok_def answer_fields)
  next
    case (CreateCall q)
    then show ?thesis
      using rest(1) [OF _ b(2)] rest(2) [OF _ b(3)] rest(4) [OF b(1)]
      by (simp add: c busy_ok_def answer_fields create_answer_busy)
  qed
qed

lemma commitRename_ok:
  assumes "busy_ok v"
  shows "busy_ok (commitRename entry v)"
proof (cases "ft_rename v")
  case None
  then show ?thesis using assms by (simp add: commitRename_def)
next
  case r: (Some r)
  have b: "list_all call_ok (ft_calls v)" "delete_busy (ft_delete v) (ft_calls v)"
    "rename_busy (Some r) (ft_calls v)" "create_busy (ft_create v) (ft_calls v)"
    using assms r by (simp_all add: busy_ok_def)
  show ?thesis
  proof (cases "ft_machine v = None \<or> \<not> truthy (files_currentPath v) \<or> fs_path (ren_entry r) \<noteq> fs_path entry \<or>
      ren_isRenaming r")
    case True
    then show ?thesis using assms r by (simp add: commitRename_def)
  next
    case guards: False
    then obtain directory where d: "files_currentPath v = Some directory" "directory \<noteq> []"
      by (cases "files_currentPath v") (simp_all add: truthy_def)
    from guards obtain m where m: "ft_machine v = Some m" by auto
    have p: "fs_path (ren_entry r) = fs_path entry" "\<not> ren_isRenaming r" using guards by simp_all
    have t: "truthy (files_currentPath v)" using guards by simp
    note start = commitRename_def r m p t option.case if_False if_True Let_def
    consider "ren_draftName r = displayName entry"
      | "ren_draftName r \<noteq> displayName entry" "trim (ren_draftName r) = []"
      | "ren_draftName r \<noteq> displayName entry" "trim (ren_draftName r) \<noteq> []" by blast
    then show ?thesis
    proof cases
      case 1
      then have "commitRename entry v = v\<lparr>ft_rename := None\<rparr>" by (simp add: start)
      then show ?thesis using b by (simp add: busy_ok_def)
    next
      case 2
      then have "commitRename entry v = set_rename_of entry (\<lambda>r. r\<lparr>ren_error := Some (js ''Name is required.'')\<rparr>) v"
        by (simp add: start)
      then show ?thesis using b p by (simp add: busy_ok_def set_rename_of_def r)
    next
      case 3
      then have "commitRename entry v = (set_rename_of entry (\<lambda>r. r\<lparr>ren_error := None, ren_isRenaming := True\<rparr>) v)
          \<lparr>ft_calls := ft_calls v @ [RenameCall entry \<lparr>rpr_ops = [\<lparr>rpo_from = fs_path entry,
             rpo_to = childPath directory (ren_draftName r)\<rparr>]\<rparr>]\<rparr>"
        using d by (simp add: start)
      moreover have "call_ok (RenameCall entry \<lparr>rpr_ops = [\<lparr>rpo_from = fs_path entry,
             rpo_to = childPath directory (ren_draftName r)\<rparr>]\<rparr>)" using 3 d(2) by auto
      ultimately show ?thesis
        using b p by (simp del: call_ok.simps add: busy_ok_def set_rename_of_def r busy_append) blast
    qed
  qed
qed

lemma commitCreate_ok:
  assumes "busy_ok v"
  shows "busy_ok (commitCreateFile v)"
proof (cases "ft_create v")
  case None
  then show ?thesis using assms by (simp add: commitCreateFile_def)
next
  case c: (Some c)
  have b: "list_all call_ok (ft_calls v)" "delete_busy (ft_delete v) (ft_calls v)"
    "rename_busy (ft_rename v) (ft_calls v)" "create_busy (Some c) (ft_calls v)"
    using assms c by (simp_all add: busy_ok_def)
  show ?thesis
  proof (cases "ft_machine v = None \<or> \<not> truthy (files_currentPath v) \<or> cre_isCreating c")
    case True
    then show ?thesis using assms c by (simp add: commitCreateFile_def)
  next
    case guards: False
    then obtain directory where d: "files_currentPath v = Some directory" "directory \<noteq> []"
      by (cases "files_currentPath v") (simp_all add: truthy_def)
    from guards obtain m where m: "ft_machine v = Some m" by auto
    have t: "truthy (files_currentPath v)" "\<not> cre_isCreating c" using guards by simp_all
    show ?thesis
    proof (cases "trim (cre_draftName c) = []")
      case True
      then have "commitCreateFile v = v\<lparr>ft_create := None\<rparr>"
        by (simp add: commitCreateFile_def c m t Let_def)
      then show ?thesis using b by (simp add: busy_ok_def)
    next
      case False
      then have "commitCreateFile v = v\<lparr>ft_create := Some (c\<lparr>cre_error := None, cre_isCreating := True\<rparr>),
          ft_calls := ft_calls v @ [CreateCall \<lparr>cnr_nodes = [\<lparr>cno_path = childPath directory (trim (cre_draftName c)),
            cno_spec = CreateNodeFile\<rparr>]\<rparr>]\<rparr>"
        using d by (simp add: commitCreateFile_def c m t Let_def)
      then show ?thesis using b False d(2) by (auto simp: busy_ok_def busy_append)
    qed
  qed
qed

lemma delete_ok: "busy_ok v \<Longrightarrow> busy_ok (deleteSelectedEntry v)"
  by (cases "ft_delete v") (auto simp: deleteSelectedEntry_def busy_ok_def busy_append)

lemma dialog_ok:
  assumes "busy_ok v"
  shows "busy_ok (updateRenameDraft draft v)" "busy_ok (updateCreateDraft draft v)" "busy_ok (closeDeleteEntry v)"
    "busy_ok (openCreateFile v)" "busy_ok (openDeleteEntry entry v)" "busy_ok (openRenameEntry entry v)"
    "busy_ok (cancelRename v)" "busy_ok (cancelCreate v)"
proof -
  show "busy_ok (updateRenameDraft draft v)"
    using assms by (cases "ft_rename v") (simp_all add: updateRenameDraft_def busy_ok_def)
  show "busy_ok (updateCreateDraft draft v)"
    using assms by (cases "ft_create v") (simp_all add: updateCreateDraft_def busy_ok_def)
  show "busy_ok (closeDeleteEntry v)"
    using assms by (cases "ft_delete v") (simp_all add: closeDeleteEntry_def busy_ok_def)
qed (use assms in \<open>simp_all add: openCreateFile_def openDeleteEntry_def openRenameEntry_def cancelRename_def
    cancelCreate_def update_explorer_def busy_ok_def Let_def\<close>)

lemma other_ok:
  assumes "busy_ok v"
  shows "busy_ok (v\<lparr>ft_explorer := ex, ft_workbench := st, ft_storage := storage, ft_machine := machine, ft_shell := shell\<rparr>)"
    "busy_ok (location_effect v)" "busy_ok (home_answered n environment v)" "busy_ok (instance_effect inst v)"
    "busy_ok (navigateFromToolbar path v)" "busy_ok (openTableEntry stringify uuid entry v)"
    "busy_ok (openEntryMenu w h entry x y v)" "busy_ok (openFolderMenu w h x y v)" "busy_ok (closeMenu v)"
    "busy_ok (openEntryProperties entry v)" "busy_ok (openTerminalHere uuid v)"
  by (rule busy_ok_cong [OF assms]; simp add: files_frame instance_effect_def navigateFromToolbar_def openTableEntry_def
      openEntryMenu_def openFolderMenu_def closeMenu_def openEntryProperties_def openTerminalHere_def
      update_explorer_def Let_def split: option.split)+

lemma files_reachable_ok: "files_reachable v \<Longrightarrow> busy_ok v"
proof (induction rule: files_reachable.induct)
  case (files_initial ex st storage pane i machine shell inst)
  show ?case by (simp add: busy_ok_def)
next
  case (files_step v w)
  then show ?case by (auto elim: files_step.cases
      intro: answer_ok commitRename_ok commitCreate_ok delete_ok dialog_ok other_ok)
qed







definition file_a :: FsEntry where
  "file_a = \<lparr>fs_name = js ''a'', fs_path = js ''/a'', fs_kind = FsFile, fs_size = None, fs_modifiedAtMs = None,
     fs_readonly = False\<rparr>"

definition file_b :: FsEntry where
  "file_b = file_a\<lparr>fs_name := js ''b'', fs_path := js ''/b''\<rparr>"

text \<open>The tool in the root directory of a paired machine.\<close>

definition root_tool :: "nat files_tool" where
  "root_tool = \<lparr>ft_explorer = initial_explorer (Some paired_box) [] (LDirectory (js ''/'')),
     ft_workbench = \<lparr>layout = 0, activePaneId = None, panes = []\<rparr>, ft_storage = None, ft_paneId = js ''p'', ft_tabId = js ''t'',
     ft_machine = Some paired_box, ft_shell = None, ft_entryMenu = None, ft_folderMenu = None, ft_properties = None,
     ft_delete = None, ft_rename = None, ft_create = None, ft_calls = [], ft_applied = False, ft_deps = None,
     ft_homes = 0, ft_home = None, ft_instance = None\<rparr>"

definition renaming_a :: "nat files_tool" where
  "renaming_a = commitRename file_a (updateRenameDraft (js ''c'') (openRenameEntry file_a root_tool))"


lemma renaming_a_reachable: "files_reachable renaming_a"
proof -
  have "files_reachable root_tool" by (simp add: root_tool_def files_initial)
  then show ?thesis
    unfolding renaming_a_def by (meson files_reachable.files_step files_rename files_typeRename files_openRename)
qed

lemma renaming_a:
  "ft_calls renaming_a = [RenameCall file_a \<lparr>rpr_ops = [\<lparr>rpo_from = js ''/a'', rpo_to = js ''/c''\<rparr>]\<rparr>]"
  "ft_rename renaming_a = Some \<lparr>ren_draftName = js ''c'', ren_entry = file_a, ren_error = None, ren_isRenaming = True\<rparr>"
proof -
  have n: "displayName file_a = js ''a''" "displayName file_a \<noteq> js ''c''" "trim (js ''c'') \<noteq> []"
    by (simp_all add: displayName_def file_a_def trim_def drop_trailing_def white_space_def js_Cons u16_def)
  have l: "files_currentPath (updateRenameDraft (js ''c'') (openRenameEntry file_a root_tool)) = Some (js ''/'')"
    by (simp add: files_currentPath_def updateRenameDraft_def openRenameEntry_def update_explorer_def selectEntry_def
        root_tool_def initial_explorer_def startRoots_def startDirectory_def Let_def)
  have c: "childPath (js ''/'') (js ''c'') = js ''/c''"
    by (simp add: childPath_def endsWith_def js_Cons u16_def)
  define u where "u = updateRenameDraft (js ''c'') (openRenameEntry file_a root_tool)"
  have u: "ft_rename u = Some \<lparr>ren_draftName = js ''c'', ren_entry = file_a, ren_error = None, ren_isRenaming = False\<rparr>"
    "ft_machine u = Some paired_box" "ft_calls u = []" "files_currentPath u = Some (js ''/'')"
    using l unfolding u_def by (simp_all add: updateRenameDraft_def openRenameEntry_def update_explorer_def root_tool_def)
  have f: "fs_path file_a = js ''/a''" by (simp add: file_a_def)
  have r: "renaming_a = (set_rename_of file_a (\<lambda>r. r\<lparr>ren_error := None, ren_isRenaming := True\<rparr>) u)
      \<lparr>ft_calls := ft_calls u @ [RenameCall file_a \<lparr>rpr_ops = [\<lparr>rpo_from = js ''/a'', rpo_to = js ''/c''\<rparr>]\<rparr>]\<rparr>"
    unfolding renaming_a_def u_def [symmetric] using n(2,3) f
    by (simp add: commitRename_def u truthy_def c Let_def)
  show "ft_calls renaming_a = [RenameCall file_a \<lparr>rpr_ops = [\<lparr>rpo_from = js ''/a'', rpo_to = js ''/c''\<rparr>]\<rparr>]"
    "ft_rename renaming_a = Some \<lparr>ren_draftName = js ''c'', ren_entry = file_a, ren_error = None, ren_isRenaming = True\<rparr>"
    by (simp_all add: r u set_rename_of_def)
qed


text \<open>(C28) No dialog is stuck: while the delete dialog, a rename or a new file is shown as busy, a call is under
  way whose answer, whatever it is, makes it usable again or closes it.\<close>

theorem no_stuck_dialog:
  assumes "files_reachable v"
  shows "(\<forall>d. ft_delete v = Some d \<and> del_isDeleting d \<longrightarrow> (\<exists>n < length (ft_calls v). \<forall>answer d'.
      ft_delete (call_answered n answer v) = Some d' \<longrightarrow> \<not> del_isDeleting d')) \<and>
    (\<forall>r. ft_rename v = Some r \<and> ren_isRenaming r \<longrightarrow> (\<exists>n < length (ft_calls v). \<forall>answer r'.
      ft_rename (call_answered n answer v) = Some r' \<longrightarrow> \<not> ren_isRenaming r')) \<and>
    (\<forall>c. ft_create v = Some c \<and> cre_isCreating c \<longrightarrow> (\<exists>n < length (ft_calls v). \<forall>answer c'.
      ft_create (call_answered n answer v) = Some c' \<longrightarrow> \<not> cre_isCreating c'))"
proof (intro conjI allI impI; elim conjE)
  note ok = files_reachable_ok [OF assms, unfolded busy_ok_def]
  fix d assume d: "ft_delete v = Some d" "del_isDeleting d"
  with ok obtain q where "DeleteCall q \<in> set (ft_calls v)" by auto
  then obtain n where n: "n < length (ft_calls v)" "ft_calls v ! n = DeleteCall q" by (auto simp: in_set_conv_nth)
  then have "\<forall>answer d'. ft_delete (call_answered n answer v) = Some d' \<longrightarrow> \<not> del_isDeleting d'"
    using d by (auto simp: call_answered_def delete_answered_def split: option.splits)
  with n(1) show "\<exists>n < length (ft_calls v). \<forall>answer d'.
      ft_delete (call_answered n answer v) = Some d' \<longrightarrow> \<not> del_isDeleting d'" by blast
next
  note ok = files_reachable_ok [OF assms, unfolded busy_ok_def]
  fix r assume r: "ft_rename v = Some r" "ren_isRenaming r"
  with ok obtain e q where e: "RenameCall e q \<in> set (ft_calls v)" "fs_path e = fs_path (ren_entry r)" by auto
  then obtain n where n: "n < length (ft_calls v)" "ft_calls v ! n = RenameCall e q" by (auto simp: in_set_conv_nth)
  then have "\<forall>answer r'. ft_rename (call_answered n answer v) = Some r' \<longrightarrow> \<not> ren_isRenaming r'"
    using r e(2) by (auto simp: call_answered_def rename_answered_def set_rename_of_def split: option.splits)
  with n(1) show "\<exists>n < length (ft_calls v). \<forall>answer r'.
      ft_rename (call_answered n answer v) = Some r' \<longrightarrow> \<not> ren_isRenaming r'" by blast
next
  note ok = files_reachable_ok [OF assms, unfolded busy_ok_def]
  fix c assume c: "ft_create v = Some c" "cre_isCreating c"
  with ok obtain q where "CreateCall q \<in> set (ft_calls v)" by auto
  then obtain n where n: "n < length (ft_calls v)" "ft_calls v ! n = CreateCall q" by (auto simp: in_set_conv_nth)
  then have "\<forall>answer c'. ft_create (call_answered n answer v) = Some c' \<longrightarrow> \<not> cre_isCreating c'"
    using c by (auto simp: call_answered_def create_answered_def split: option.splits)
  with n(1) show "\<exists>n < length (ft_calls v). \<forall>answer c'.
      ft_create (call_answered n answer v) = Some c' \<longrightarrow> \<not> cre_isCreating c'" by blast
qed

theorem no_stuck_dialog_witness: "\<exists>n < length (ft_calls renaming_a).
  ft_rename (call_answered n (throw ''offline'') renaming_a) \<noteq> ft_rename renaming_a"
proof -
  obtain n where n: "n < length (ft_calls renaming_a)"
    "\<forall>answer r'. ft_rename (call_answered n answer renaming_a) = Some r' \<longrightarrow> \<not> ren_isRenaming r'"
    using no_stuck_dialog [OF renaming_a_reachable] renaming_a(2) by auto
  then have "ft_rename (call_answered n (throw ''offline'') renaming_a) \<noteq> ft_rename renaming_a"
    unfolding renaming_a(2) by fastforce
  with n(1) show ?thesis by blast
qed

section \<open>Answers that come late\<close>

text \<open>When a rename succeeds after the editor of another entry has been opened, that editor is closed and
  what was typed into it is lost; a rename that fails leaves the other editor alone.\<close>

theorem late_rename_closes_other_editor:
  assumes "n < length (ft_calls v)" "ft_calls v ! n = RenameCall entry q"
    and "ft_rename v = Some r" "fs_path (ren_entry r) \<noteq> fs_path entry"
  shows "(if mutation_error answer = None then ft_rename (call_answered n answer v) = None
    else ft_rename (call_answered n answer v) = Some r)"
  using assms by (auto simp: call_answered_def rename_answered_def set_rename_of_def)

theorem late_rename_closes_other_editor_witness:
  "ft_rename (call_answered 0 (Inr \<lparr>bmr_results = [BulkOk 0]\<rparr>) (openRenameEntry file_b renaming_a)) = None"
proof -
  let ?v = "openRenameEntry file_b renaming_a"
  have "ft_calls ?v = ft_calls renaming_a" by (simp add: openRenameEntry_def update_explorer_def)
  moreover have "ft_rename ?v = Some \<lparr>ren_draftName = displayName file_b, ren_entry = file_b, ren_error = None,
      ren_isRenaming = False\<rparr>" by (simp add: openRenameEntry_def)
  moreover have "fs_path file_b \<noteq> fs_path file_a" by (simp add: file_b_def file_a_def)
  ultimately show ?thesis
    using late_rename_closes_other_editor [of 0 ?v file_a _ _ "Inr \<lparr>bmr_results = [BulkOk 0]\<rparr>"] renaming_a(1)
    by (simp add: mutation_error_def)
qed

text \<open>The answer with the home directory replaces the location even when the user has gone elsewhere while
  it was on its way.\<close>

theorem late_home_overrides_navigation:
  assumes "ft_home v = Some n" "de_homeDirectory environment \<noteq> []"
  shows "ex_location (ft_explorer (home_answered n (Inr environment) (navigateFromToolbar path v))) =
    LDirectory (de_homeDirectory environment)"
proof -
  have "ft_home (navigateFromToolbar path v) = Some n"
    using assms(1) by (simp add: navigateFromToolbar_def update_explorer_def)
  then show ?thesis using assms(2)
    by (simp add: home_answered_def update_explorer_def replaceWithPath_def replaceWithLocation_def
        locationFromPath_def)
qed

theorem late_home_overrides_navigation_witness:
  "ex_location (ft_explorer (home_answered 0 (Inr \<lparr>de_homeDirectory = js ''/home''\<rparr>)
     (navigateFromToolbar (Some (js ''/etc'')) (root_tool\<lparr>ft_home := Some 0\<rparr>)))) = LDirectory (js ''/home'')"
  using late_home_overrides_navigation [of "root_tool\<lparr>ft_home := Some 0\<rparr>" 0 "\<lparr>de_homeDirectory = js ''/home''\<rparr>"
    "Some (js ''/etc'')"] by simp

end
