(* ===== verification/TrashView.thy ===== *)
theory TrashView
  imports FilesTool ViewStreams
begin

text \<open>
  The trash of the files tool, \<open>web/src/view/workbench/tool/files/content/trash/index.tsx\<close>: its subscription,
  the menu of an item, restoring and purging, and what it shows. The stream is opened when the view is
  mounted and cancelled when it is unmounted. Dates in the format of the locale are not modelled.
\<close>

section \<open>State and events\<close>

datatype trash_phase = TrashConnecting | TrashLive | TrashError | TrashClosed

datatype trash_call = RestoreCall RestoreTrashItemsReq | PurgeCall PurgeTrashItemsReq

record trash_view =
  tr_phase :: trash_phase
  tr_items :: "TrashItem list"
  tr_message :: jstring
  tr_selected :: "jstring option"
  tr_menu :: "(TrashItem \<times> real \<times> real) option"
  tr_started :: nat
  tr_live :: "nat option"
  tr_calls :: "trash_call list"

definition initial_trash :: trash_view where
  "initial_trash = \<lparr>tr_phase = TrashConnecting, tr_items = [], tr_message = js ''Opening trash'', tr_selected = None,
     tr_menu = None, tr_started = 0, tr_live = None, tr_calls = []\<rparr>"

definition patchTrashItems :: "TrashItem list \<Rightarrow> jstring list \<Rightarrow> TrashItem list \<Rightarrow> TrashItem list" where
  "patchTrashItems current removes upserts =
     filter (\<lambda>item. trash_id item \<notin> set removes \<and> trash_id item \<notin> trash_id ` set upserts) current @ upserts"

fun trashCloseReason :: "TrashItemsSubscriptionCloseReason \<Rightarrow> string" where
  "trashCloseReason TrashItemsFailed = ''failed''"
| "trashCloseReason TrashItemsPermissionLost = ''permissionLost''"
| "trashCloseReason TrashItemsUnknown = ''unknown''"

fun applyTrashItemsEvent :: "TrashItemsTableEvent \<Rightarrow> trash_view \<Rightarrow> trash_view" where
  "applyTrashItemsEvent (TrashItemsSnapshot listed) v =
     v\<lparr>tr_phase := TrashLive, tr_items := listed, tr_message := js ''Trash live''\<rparr>"
| "applyTrashItemsEvent (TrashItemsPatch removes upserts) v =
     v\<lparr>tr_phase := TrashLive, tr_items := patchTrashItems (tr_items v) removes upserts, tr_message := js ''Trash updated''\<rparr>"
| "applyTrashItemsEvent (TrashItemsClosed reason) v =
     v\<lparr>tr_phase := TrashClosed, tr_message := js (''Trash closed: '' @ trashCloseReason reason)\<rparr>"

section \<open>The subscription\<close>

definition mount_trash :: "trash_view \<Rightarrow> trash_view" where
  "mount_trash v = v\<lparr>tr_phase := TrashConnecting, tr_items := [], tr_message := js ''Opening trash'',
     tr_live := Some (tr_started v), tr_started := Suc (tr_started v)\<rparr>"

definition unmount_trash :: "trash_view \<Rightarrow> trash_view" where
  "unmount_trash v = v\<lparr>tr_live := None\<rparr>"

definition trash_deliver :: "nat \<Rightarrow> TrashItemsTableEvent stream_item \<Rightarrow> trash_view \<Rightarrow> trash_view" where
  "trash_deliver n item v =
     (if tr_live v \<noteq> Some n then v
      else case item of
        Event ev \<Rightarrow> applyTrashItemsEvent ev v
      | Failure err \<Rightarrow> v\<lparr>tr_phase := TrashError, tr_message := err_message err\<rparr>)"

section \<open>The menu of an item\<close>

definition trashItemMenuPosition :: "real \<Rightarrow> real \<Rightarrow> real \<Rightarrow> real \<Rightarrow> real \<times> real" where
  "trashItemMenuPosition innerWidth innerHeight x y =
     (let p = clampFloatingMenuPosition innerWidth innerHeight x y \<lparr>menu_itemCount = 2, menu_width = 176\<rparr> in
      (menu_left p, menu_top p))"

definition openItemMenu :: "real \<Rightarrow> real \<Rightarrow> TrashItem \<Rightarrow> real \<Rightarrow> real \<Rightarrow> trash_view \<Rightarrow> trash_view" where
  "openItemMenu innerWidth innerHeight item x y v =
     v\<lparr>tr_selected := Some (trash_id item), tr_menu := Some (item, trashItemMenuPosition innerWidth innerHeight x y)\<rparr>"

definition closeItemMenu :: "trash_view \<Rightarrow> trash_view" where
  "closeItemMenu v = v\<lparr>tr_menu := None\<rparr>"

definition restoreItem :: "TrashItem \<Rightarrow> trash_view \<Rightarrow> trash_view" where
  "restoreItem item v =
     v\<lparr>tr_menu := None, tr_calls := tr_calls v @ [RestoreCall \<lparr>rtir_itemIds = [trash_id item]\<rparr>]\<rparr>"

definition purgeItem :: "TrashItem \<Rightarrow> trash_view \<Rightarrow> trash_view" where
  "purgeItem item v =
     v\<lparr>tr_menu := None, tr_calls := tr_calls v @ [PurgeCall \<lparr>ptir_itemIds = [trash_id item]\<rparr>]\<rparr>"

text \<open>The end of \<open>mutateTrashItem\<close>. The type of an error is never empty, so its fallback text is not used.\<close>

definition mutateTrashItem_answered :: "nat \<Rightarrow> BulkMutationRes result \<Rightarrow> trash_view \<Rightarrow> trash_view" where
  "mutateTrashItem_answered n answer v =
     (if n < length (tr_calls v) then
        let v = v\<lparr>tr_calls := take n (tr_calls v) @ drop (Suc n) (tr_calls v)\<rparr> in
        case mutation_error answer of
          None \<Rightarrow> v
        | Some m \<Rightarrow> v\<lparr>tr_phase := TrashError, tr_message := m\<rparr>
      else v)"

section \<open>What is shown\<close>

definition compareTrashItems :: "(jstring \<Rightarrow> jstring \<Rightarrow> int) \<Rightarrow> TrashItem \<Rightarrow> TrashItem \<Rightarrow> int" where
  "compareTrashItems collate left right =
     num_or (getOr (trash_deletedAtMs right) 0 - getOr (trash_deletedAtMs left) 0)
       (collate (trash_name left) (trash_name right))"

definition sortTrashItems :: "(jstring \<Rightarrow> jstring \<Rightarrow> int) \<Rightarrow> TrashItem list \<Rightarrow> TrashItem list" where
  "sortTrashItems collate listed = sort_by (compareTrashItems collate) listed"

definition formatTrashItemSize :: "TrashItem \<Rightarrow> string" where
  "formatTrashItemSize item =
     (case trash_size item of
        None \<Rightarrow> []
      | Some (TrashSizeBytes n) \<Rightarrow> formatSize (Some n)
      | Some (TrashSizeEntries n) \<Rightarrow> show_int n @ '' entries'')"

definition trashCells :: "TrashItem \<Rightarrow> jstring list" where
  "trashCells item = [trash_name item, trash_originalParent item, js (formatTrashItemSize item)]"

datatype trash_content = TrashStatus string | TrashErrorShown jstring | TrashRows "TrashItem list"

definition TrashContent :: "(jstring \<Rightarrow> jstring \<Rightarrow> int) \<Rightarrow> trash_view \<Rightarrow> trash_content \<times> string" where
  "TrashContent collate v =
     (let sortedItems = sortTrashItems collate (tr_items v) in
      (if tr_phase v = TrashConnecting then TrashStatus ''Opening trash''
       else if tr_phase v = TrashError then TrashErrorShown (tr_message v)
       else if length sortedItems = 0 then TrashStatus ''Trash is empty''
       else TrashRows sortedItems,
       show_nat (length sortedItems) @ '' items''))"

section \<open>Interfaces\<close>


interpretation trash_stream: subscription tr_started tr_live "\<lambda>_ :: unit. mount_trash" trash_deliver
proof unfold_locales
  fix a :: unit and s g and ev :: "TrashItemsTableEvent stream_item"
  have same: "tr_started (trash_deliver g ev s) = tr_started s" "tr_live (trash_deliver g ev s) = tr_live s"
    by (cases ev; cases "case ev of Event e \<Rightarrow> e | Failure x \<Rightarrow> TrashItemsClosed TrashItemsFailed";
        simp add: trash_deliver_def)+
  show "tr_started s \<le> tr_started (trash_deliver g ev s)" by (simp add: same)
  show "tr_live (trash_deliver g ev s) = tr_live s \<or> (\<forall>h. tr_live (trash_deliver g ev s) = Some h \<longrightarrow>
      tr_started s \<le> h \<and> h < tr_started (trash_deliver g ev s))" by (simp add: same)
qed (simp_all add: mount_trash_def trash_deliver_def)

section \<open>The table that the events describe\<close>








definition old_note :: TrashItem where
  "old_note = \<lparr>trash_id = js ''1'', trash_name = js ''note'', trash_originalParent = js ''/home'',
     trash_deletedAtMs = Some 5, trash_size = None\<rparr>"


section \<open>Failures\<close>

text \<open>A restore or purge that fails replaces the table by its error message, although the items are known
  and their stream is live; they are back with the next event only.\<close>

theorem failed_restore_hides_trash:
  assumes "n < length (tr_calls v)" "mutation_error answer = Some m"
  shows "let w = mutateTrashItem_answered n answer v in
    fst (TrashContent collate w) = TrashErrorShown m \<and> tr_items w = tr_items v \<and> tr_live w = tr_live v"
  using assms by (simp add: mutateTrashItem_answered_def TrashContent_def Let_def)

theorem failed_restore_hides_trash_witness:
  "fst (TrashContent (\<lambda>a b. 0) (mutateTrashItem_answered 0 (throw ''offline'')
     (restoreItem old_note (trash_deliver 0 (Event (TrashItemsSnapshot [old_note])) (mount_trash initial_trash)))))
   = TrashErrorShown (js ''offline'')"
  using failed_restore_hides_trash [of 0 "restoreItem old_note
      (trash_deliver 0 (Event (TrashItemsSnapshot [old_note])) (mount_trash initial_trash))" "throw ''offline''"
      "js ''offline''" "\<lambda>a b. 0"]
  by (simp add: restoreItem_def mutation_error_def throw_def trash_deliver_def mount_trash_def initial_trash_def Let_def)

text \<open>A stream that the daemon closes before it has sent the items, because the permission is missing for
  example, is shown as an empty trash.\<close>

theorem closed_trash_shown_empty:
  "fst (TrashContent collate (trash_deliver (tr_started v) (Event (TrashItemsClosed reason)) (mount_trash v))) =
   TrashStatus ''Trash is empty''"
  by (simp add: TrashContent_def trash_deliver_def mount_trash_def sortTrashItems_def sort_by_def Let_def)

end
