(* ===== verification/MediaViews.thy ===== *)
theory MediaViews
  imports FloatingMenu Prelude
begin

text \<open>
  The canvases of the image viewer (\<open>.../file-viewer/impl/image/index.tsx\<close>: zooming and panning) and of the
  PDF viewer (\<open>.../file-viewer/impl/pdf/index.tsx\<close>: drawing the pages one after the other). Measures are
  numbers of pixels, the browser's fractions; the arithmetic on them is exact here. The layout of the
  browser is outside: the rectangle of the image and the sizes of the stage are arguments. The pdf.js
  library is outside: its promises end in any order, but a cancelled drawing does not succeed, which is
  what its documentation promises.
\<close>

section \<open>Zooming\<close>

definition minZoom :: real where "minZoom = 1 / 10"
definition maxZoom :: real where "maxZoom = 8"
definition zoomFactor :: real where "zoomFactor = 12 / 10"
definition wheelZoomSensitivity :: real where "wheelZoomSensitivity = 2 / 1000"
definition zoomComparisonTolerance :: real where "zoomComparisonTolerance = 1 / 1000"

datatype ImageDisplayState = ImageOpening | ImageSized nat nat | ImageBroken

record ImagePanState =
  pan_pointerId :: int
  pan_scrollLeft :: real
  pan_scrollTop :: real
  pan_x :: real
  pan_y :: real

record ImageZoomAnchor =
  anchor_clientX :: real
  anchor_clientY :: real
  anchor_xRatio :: real
  anchor_yRatio :: real

record image_stage =
  stage_clientWidth :: real
  stage_clientHeight :: real
  stage_paddingX :: real
  stage_paddingY :: real
  stage_maxLeft :: real
  stage_maxTop :: real

record image_element =
  image_rect :: dom_rect
  image_naturalWidth :: nat

record image_canvas =
  ic_display :: ImageDisplayState
  ic_fit :: bool
  ic_panning :: bool
  ic_zoom :: real
  ic_pan :: "ImagePanState option"
  ic_anchor :: "ImageZoomAnchor option"
  ic_scrollLeft :: real
  ic_scrollTop :: real

definition initial_canvas :: image_canvas where
  "initial_canvas = \<lparr>ic_display = ImageOpening, ic_fit = True, ic_panning = False, ic_zoom = 1, ic_pan = None,
     ic_anchor = None, ic_scrollLeft = 0, ic_scrollTop = 0\<rparr>"

text \<open>A new object URL.\<close>

definition reset_canvas :: "image_canvas \<Rightarrow> image_canvas" where
  "reset_canvas v = v\<lparr>ic_display := ImageOpening, ic_fit := True, ic_panning := False, ic_zoom := 1, ic_pan := None,
     ic_anchor := None\<rparr>"

definition rect_width :: "dom_rect \<Rightarrow> real" where "rect_width r = rect_right r - rect_left r"
definition rect_height :: "dom_rect \<Rightarrow> real" where "rect_height r = rect_bottom r - rect_top r"

definition clampZoom :: "real \<Rightarrow> real" where
  "clampZoom zoom = min maxZoom (max minZoom zoom)"

definition currentRenderedZoom :: "image_element option \<Rightarrow> real" where
  "currentRenderedZoom element =
     (case element of
        None \<Rightarrow> 1
      | Some e \<Rightarrow>
          if image_naturalWidth e = 0 then 1 else rect_width (image_rect e) / of_nat (image_naturalWidth e))"

text \<open>A quotient by zero is infinite and does not lower the minimum with 1.\<close>

definition fit_ratio :: "real \<Rightarrow> nat \<Rightarrow> real" where
  "fit_ratio available n = (if n = 0 then 1 else available / of_nat n)"

definition currentFitZoom :: "image_stage option \<Rightarrow> ImageDisplayState \<Rightarrow> real" where
  "currentFitZoom stage display =
     (case (stage, display) of
        (Some s, ImageSized w h) \<Rightarrow>
          let availableWidth = stage_clientWidth s - stage_paddingX s;
              availableHeight = stage_clientHeight s - stage_paddingY s in
          if availableWidth \<le> 0 \<or> availableHeight \<le> 0 then 1
          else min (min 1 (fit_ratio availableWidth w)) (fit_ratio availableHeight h)
      | _ \<Rightarrow> 1)"

definition imageZoomAnchorAtClientPoint :: "image_element option \<Rightarrow> real \<Rightarrow> real \<Rightarrow> ImageZoomAnchor option" where
  "imageZoomAnchorAtClientPoint element clientX clientY =
     (case element of
        None \<Rightarrow> None
      | Some e \<Rightarrow>
          let rect = image_rect e in
          if rect_width rect \<le> 0 \<or> rect_height rect \<le> 0 \<or> clientX < rect_left rect \<or> clientX > rect_right rect \<or>
             clientY < rect_top rect \<or> clientY > rect_bottom rect then None
          else Some \<lparr>anchor_clientX = clientX, anchor_clientY = clientY,
            anchor_xRatio = (clientX - rect_left rect) / rect_width rect,
            anchor_yRatio = (clientY - rect_top rect) / rect_height rect\<rparr>)"

definition zoom_base :: "image_element option \<Rightarrow> image_canvas \<Rightarrow> real" where
  "zoom_base element v = (if ic_fit v then currentRenderedZoom element else ic_zoom v)"

definition handleWheel :: "image_element option \<Rightarrow> bool \<Rightarrow> real \<Rightarrow> real \<Rightarrow> real \<Rightarrow> image_canvas \<Rightarrow> image_canvas" where
  "handleWheel element ctrlKey deltaY clientX clientY v =
     (case ic_display v of
        ImageSized w h \<Rightarrow>
          if \<not> ctrlKey \<or> deltaY = 0 then v
          else v\<lparr>ic_anchor := imageZoomAnchorAtClientPoint element clientX clientY, ic_fit := False,
            ic_zoom := clampZoom (zoom_base element v * exp (- deltaY * wheelZoomSensitivity))\<rparr>
      | _ \<Rightarrow> v)"

definition canZoomOut :: "image_canvas \<Rightarrow> bool" where
  "canZoomOut v \<longleftrightarrow> ic_fit v \<or> ic_zoom v > minZoom"

definition canZoomIn :: "image_canvas \<Rightarrow> bool" where
  "canZoomIn v \<longleftrightarrow> ic_fit v \<or> ic_zoom v < maxZoom"

definition zoomOut :: "image_element option \<Rightarrow> image_canvas \<Rightarrow> image_canvas" where
  "zoomOut element v =
     (if \<not> canZoomOut v then v
      else v\<lparr>ic_fit := False, ic_zoom := clampZoom (zoom_base element v / zoomFactor)\<rparr>)"

definition zoomIn :: "image_element option \<Rightarrow> image_canvas \<Rightarrow> image_canvas" where
  "zoomIn element v =
     (if \<not> canZoomIn v then v
      else v\<lparr>ic_fit := False, ic_zoom := clampZoom (zoom_base element v * zoomFactor)\<rparr>)"

definition fitImage :: "image_canvas \<Rightarrow> image_canvas" where
  "fitImage v = v\<lparr>ic_fit := True\<rparr>"

definition actualSize :: "image_canvas \<Rightarrow> image_canvas" where
  "actualSize v = v\<lparr>ic_fit := False, ic_zoom := 1\<rparr>"

text \<open>A scroll position that is set stays within what can be scrolled.\<close>

definition scroll_to :: "image_stage \<Rightarrow> real \<Rightarrow> real \<Rightarrow> image_canvas \<Rightarrow> image_canvas" where
  "scroll_to stage x y v =
     v\<lparr>ic_scrollLeft := max 0 (min (stage_maxLeft stage) x), ic_scrollTop := max 0 (min (stage_maxTop stage) y)\<rparr>"

text \<open>The layout effect after a zoom, with the rectangle the image has then.\<close>

definition apply_anchor :: "image_stage option \<Rightarrow> image_element option \<Rightarrow> image_canvas \<Rightarrow> image_canvas" where
  "apply_anchor stage element v =
     (case (stage, element, ic_anchor v) of
        (Some s, Some e, Some anchor) \<Rightarrow>
          let rect = image_rect e in
          scroll_to s
            (ic_scrollLeft v + (rect_left rect + rect_width rect * anchor_xRatio anchor - anchor_clientX anchor))
            (ic_scrollTop v + (rect_top rect + rect_height rect * anchor_yRatio anchor - anchor_clientY anchor))
            (v\<lparr>ic_anchor := None\<rparr>)
      | _ \<Rightarrow> v)"

section \<open>Panning\<close>

definition canPan :: "image_stage option \<Rightarrow> image_canvas \<Rightarrow> bool" where
  "canPan stage v \<longleftrightarrow>
     \<not> ic_fit v \<and> ic_zoom v > currentFitZoom stage (ic_display v) + zoomComparisonTolerance"

definition startPan :: "image_stage option \<Rightarrow> int \<Rightarrow> int \<Rightarrow> real \<Rightarrow> real \<Rightarrow> image_canvas \<Rightarrow> image_canvas" where
  "startPan stage button pointerId x y v =
     (if \<not> canPan stage v \<or> button \<noteq> 0 \<or> stage = None then v
      else v\<lparr>ic_panning := True, ic_pan := Some \<lparr>pan_pointerId = pointerId, pan_scrollLeft = ic_scrollLeft v,
        pan_scrollTop = ic_scrollTop v, pan_x = x, pan_y = y\<rparr>\<rparr>)"

definition movePan :: "image_stage option \<Rightarrow> int \<Rightarrow> real \<Rightarrow> real \<Rightarrow> image_canvas \<Rightarrow> image_canvas" where
  "movePan stage pointerId x y v =
     (case (stage, ic_pan v) of
        (Some s, Some p) \<Rightarrow>
          if pan_pointerId p \<noteq> pointerId then v
          else scroll_to s (pan_scrollLeft p - (x - pan_x p)) (pan_scrollTop p - (y - pan_y p)) v
      | _ \<Rightarrow> v)"

definition endImagePan :: "int \<Rightarrow> image_canvas \<Rightarrow> image_canvas" where
  "endImagePan pointerId v =
     (case ic_pan v of
        None \<Rightarrow> v
      | Some p \<Rightarrow> if pan_pointerId p \<noteq> pointerId then v else v\<lparr>ic_pan := None\<rparr>)"

definition endPan :: "int \<Rightarrow> image_canvas \<Rightarrow> image_canvas" where
  "endPan pointerId v = (endImagePan pointerId v)\<lparr>ic_panning := False\<rparr>"

section \<open>What the image viewer shows\<close>

definition js_round :: "real \<Rightarrow> int" where "js_round x = \<lfloor>x + 1 / 2\<rfloor>"

definition imageStyle :: "bool \<Rightarrow> real \<Rightarrow> ImageDisplayState \<Rightarrow> int option" where
  "imageStyle fitToView zoom display =
     (case display of
        ImageSized w h \<Rightarrow> if fitToView then None else Some (max 1 (js_round (of_nat w * zoom)))
      | _ \<Rightarrow> None)"

definition image_dimensions :: "ImageDisplayState \<Rightarrow> string" where
  "image_dimensions display =
     (case display of
        ImageSized w h \<Rightarrow> show_nat w @ '' x '' @ show_nat h
      | ImageBroken \<Rightarrow> ''Unable to preview image''
      | ImageOpening \<Rightarrow> ''Opening image'')"

definition zoom_label :: "image_canvas \<Rightarrow> string" where
  "zoom_label v = (if ic_fit v then ''Fit'' else show_int (js_round (ic_zoom v * 100)) @ ''%'')"

text \<open>The label, the dimensions, the width of the image in pixels, whether the buttons are enabled.\<close>

definition ImageCanvas :: "image_canvas \<Rightarrow> string \<times> string \<times> int option \<times> bool \<times> bool" where
  "ImageCanvas v = (zoom_label v, image_dimensions (ic_display v), imageStyle (ic_fit v) (ic_zoom v) (ic_display v),
     canZoomOut v, canZoomIn v)"

section \<open>Zooming and panning in any order\<close>

inductive canvas_reachable :: "image_canvas \<Rightarrow> bool" where
  canvas_initial: "canvas_reachable initial_canvas"
| canvas_reset: "canvas_reachable v \<Longrightarrow> canvas_reachable (reset_canvas v)"
| canvas_display: "canvas_reachable v \<Longrightarrow> canvas_reachable (v\<lparr>ic_display := display\<rparr>)"
| canvas_wheel: "canvas_reachable v \<Longrightarrow> canvas_reachable (handleWheel element ctrl delta x y v)"
| canvas_out: "canvas_reachable v \<Longrightarrow> canvas_reachable (zoomOut element v)"
| canvas_in: "canvas_reachable v \<Longrightarrow> canvas_reachable (zoomIn element v)"
| canvas_fit: "canvas_reachable v \<Longrightarrow> canvas_reachable (fitImage v)"
| canvas_actual: "canvas_reachable v \<Longrightarrow> canvas_reachable (actualSize v)"
| canvas_layout: "canvas_reachable v \<Longrightarrow> canvas_reachable (apply_anchor stage element v)"
| canvas_down: "canvas_reachable v \<Longrightarrow> canvas_reachable (startPan stage button pointer x y v)"
| canvas_move: "canvas_reachable v \<Longrightarrow> canvas_reachable (movePan stage pointer x y v)"
| canvas_up: "canvas_reachable v \<Longrightarrow> canvas_reachable (endPan pointer v)"

lemma clamp_bounds: "minZoom \<le> clampZoom z" "clampZoom z \<le> maxZoom"
  by (simp_all add: clampZoom_def minZoom_def maxZoom_def)

lemma scroll_fields:
  "ic_zoom (scroll_to s x y v) = ic_zoom v" "ic_panning (scroll_to s x y v) = ic_panning v"
  "ic_pan (scroll_to s x y v) = ic_pan v" "ic_display (scroll_to s x y v) = ic_display v" "ic_fit (scroll_to s x y v) = ic_fit v"
  by (simp_all add: scroll_to_def)

lemma anchor_fields:
  "ic_zoom (apply_anchor s e v) = ic_zoom v" "ic_panning (apply_anchor s e v) = ic_panning v"
  "ic_pan (apply_anchor s e v) = ic_pan v"
  by (simp_all add: apply_anchor_def scroll_fields Let_def split: option.split)

text \<open>(C40) However the user zooms and pans, the zoom stays between 0.1 and 8, an image that is not fitted to the
  view is at least a pixel wide, and only a pan that is under way shows the grabbing pointer. Where the
  image's width times the zoom is at least one pixel, the width shown is right to half a pixel; where it is
  less, the image is shown one pixel wide.\<close>

theorem image_zoom_in_bounds:
  assumes "canvas_reachable v"
  shows "minZoom \<le> ic_zoom v \<and> ic_zoom v \<le> maxZoom \<and> (ic_panning v \<longrightarrow> ic_pan v \<noteq> None) \<and>
    (\<forall>w h. ic_display v = ImageSized w h \<and> \<not> ic_fit v \<longrightarrow>
      (\<exists>px. imageStyle (ic_fit v) (ic_zoom v) (ic_display v) = Some px \<and> 1 \<le> px \<and>
        (1 \<le> of_nat w * ic_zoom v \<longrightarrow> \<bar>of_int px - of_nat w * ic_zoom v\<bar> \<le> 1 / 2) \<and>
        (of_nat w * ic_zoom v < 1 \<longrightarrow> px = 1)))"
proof -
  have "minZoom \<le> ic_zoom v \<and> ic_zoom v \<le> maxZoom \<and> (ic_panning v \<longrightarrow> ic_pan v \<noteq> None)"
    using assms
  proof (induction rule: canvas_reachable.induct)
    case canvas_initial
    show ?case by (simp add: initial_canvas_def minZoom_def maxZoom_def)
  next
    case (canvas_reset v)
    show ?case by (simp add: reset_canvas_def minZoom_def maxZoom_def)
  next
    case (canvas_wheel v element ctrl delta x y)
    then show ?case by (cases "ic_display v") (simp_all add: handleWheel_def clamp_bounds)
  next
    case (canvas_actual v)
    then show ?case by (simp add: actualSize_def minZoom_def maxZoom_def)
  next
    case (canvas_move v stage pointer x y)
    then show ?case by (auto simp: movePan_def scroll_fields split: option.split)
  next
    case (canvas_up v pointer)
    then show ?case by (simp add: endPan_def endImagePan_def split: option.split)
  qed (simp_all add: zoomOut_def zoomIn_def fitImage_def startPan_def clamp_bounds anchor_fields)
  moreover have "1 \<le> x \<Longrightarrow> \<bar>of_int (max 1 (js_round x)) - x\<bar> \<le> 1 / 2" for x :: real
    unfolding js_round_def by linarith
  moreover have "x < 1 \<Longrightarrow> max 1 (js_round x) = 1" for x :: real
    unfolding js_round_def by linarith
  ultimately show ?thesis by (auto simp: imageStyle_def)
qed

theorem image_zoom_in_bounds_witness:
  "\<exists>px. imageStyle False 1 (ImageSized 300 200) = Some px \<and> \<bar>of_int px - (300 :: real)\<bar> \<le> 1 / 2"
proof -
  let ?v = "actualSize (initial_canvas\<lparr>ic_display := ImageSized 300 200\<rparr>)"
  have "canvas_reachable ?v" by (intro canvas_actual canvas_display canvas_initial)
  moreover have "ic_zoom ?v = 1" "\<not> ic_fit ?v" "ic_display ?v = ImageSized 300 200" by (simp_all add: actualSize_def)
  ultimately show ?thesis using image_zoom_in_bounds [of ?v] by auto
qed

text \<open>Zooming with the wheel keeps the point of the image under the pointer where it is: when the effect has
  scrolled the stage (as far as it asked for), the image, moved by that scroll, has the same point there.\<close>

theorem wheel_zoom_keeps_point:
  assumes "ic_display v = ImageSized w h" "delta \<noteq> 0"
    and "0 < rect_width (image_rect e)" "0 < rect_height (image_rect e)"
    and "rect_left (image_rect e) \<le> x" "x \<le> rect_right (image_rect e)"
    and "rect_top (image_rect e) \<le> y" "y \<le> rect_bottom (image_rect e)"
  defines "px \<equiv> (x - rect_left (image_rect e)) / rect_width (image_rect e)"
    and "py \<equiv> (y - rect_top (image_rect e)) / rect_height (image_rect e)"
  defines "zoomed \<equiv> handleWheel (Some e) True delta x y v"
  assumes "0 \<le> ic_scrollLeft v + (rect_left (image_rect e') + rect_width (image_rect e') * px - x)"
    "ic_scrollLeft v + (rect_left (image_rect e') + rect_width (image_rect e') * px - x) \<le> stage_maxLeft s"
    "0 \<le> ic_scrollTop v + (rect_top (image_rect e') + rect_height (image_rect e') * py - y)"
    "ic_scrollTop v + (rect_top (image_rect e') + rect_height (image_rect e') * py - y) \<le> stage_maxTop s"
  shows "let after = apply_anchor (Some s) (Some e') zoomed;
      movedX = ic_scrollLeft after - ic_scrollLeft v; movedY = ic_scrollTop after - ic_scrollTop v in
    rect_left (image_rect e') - movedX + rect_width (image_rect e') * px = x \<and>
    rect_top (image_rect e') - movedY + rect_height (image_rect e') * py = y \<and> ic_anchor after = None"
proof -
  have z: "ic_anchor zoomed = Some \<lparr>anchor_clientX = x, anchor_clientY = y, anchor_xRatio = px, anchor_yRatio = py\<rparr>"
    "ic_scrollLeft zoomed = ic_scrollLeft v" "ic_scrollTop zoomed = ic_scrollTop v"
    using assms(1-8) by (simp_all add: zoomed_def handleWheel_def imageZoomAnchorAtClientPoint_def px_def py_def Let_def)
  show ?thesis using assms(12-15) by (simp add: apply_anchor_def z scroll_to_def Let_def)
qed

theorem wheel_zoom_keeps_point_witness:
  "ic_anchor (apply_anchor (Some \<lparr>stage_clientWidth = 10, stage_clientHeight = 10, stage_paddingX = 0, stage_paddingY = 0,
      stage_maxLeft = 90, stage_maxTop = 90\<rparr>)
    (Some \<lparr>image_rect = \<lparr>rect_left = 0, rect_top = 0, rect_right = 20, rect_bottom = 20\<rparr>, image_naturalWidth = 10\<rparr>)
    (handleWheel (Some \<lparr>image_rect = \<lparr>rect_left = 0, rect_top = 0, rect_right = 10, rect_bottom = 10\<rparr>, image_naturalWidth = 10\<rparr>)
      True (-1) 5 5 (initial_canvas\<lparr>ic_display := ImageSized 10 10\<rparr>))) = None"
  using wheel_zoom_keeps_point [of "initial_canvas\<lparr>ic_display := ImageSized 10 10\<rparr>" 10 10 "-1"
      "\<lparr>image_rect = \<lparr>rect_left = 0, rect_top = 0, rect_right = 10, rect_bottom = 10\<rparr>, image_naturalWidth = 10\<rparr>" 5 5
      "\<lparr>image_rect = \<lparr>rect_left = 0, rect_top = 0, rect_right = 20, rect_bottom = 20\<rparr>, image_naturalWidth = 10\<rparr>"
      "\<lparr>stage_clientWidth = 10, stage_clientHeight = 10, stage_paddingX = 0, stage_paddingY = 0,
        stage_maxLeft = 90, stage_maxTop = 90\<rparr>"]
  by (simp add: initial_canvas_def rect_width_def rect_height_def Let_def)

section \<open>Drawing the pages of a PDF\<close>

datatype PdfRenderState = PdfIdle | PdfRendering "nat option" nat | PdfReady nat | PdfError jstring

text \<open>What a run of the effect waits for: the document, a page, its drawing, the end of the document.\<close>

datatype pdf_wait = WaitDocument | WaitPage nat nat | WaitDrawing nat nat | WaitDestroy nat | WaitNothing

record pdf_run =
  run_live :: bool
  run_wait :: pdf_wait

record 'b pdf_view =
  pv_bytes :: "'b option"
  pv_state :: PdfRenderState
  pv_runs :: "pdf_run list"
  pv_pages :: "(nat \<times> nat) list"

definition initial_pdf :: "'b pdf_view" where
  "initial_pdf = \<lparr>pv_bytes = None, pv_state = PdfIdle, pv_runs = [], pv_pages = []\<rparr>"

text \<open>The cleanup of the last run, and a new one. \<open>pv_pages\<close> are the pages shown, each with the run that
  added it.\<close>

definition cancel_pdf :: "'b pdf_view \<Rightarrow> 'b pdf_view" where
  "cancel_pdf v = v\<lparr>pv_runs := map (\<lambda>r. r\<lparr>run_live := False\<rparr>) (pv_runs v), pv_pages := []\<rparr>"

definition pdf_effect :: "'b \<Rightarrow> 'b pdf_view \<Rightarrow> 'b pdf_view" where
  "pdf_effect content v =
     (if pv_bytes v = Some content then v
      else let v = cancel_pdf v in
        v\<lparr>pv_bytes := Some content, pv_state := PdfRendering None 0,
          pv_runs := pv_runs v @ [\<lparr>run_live = True, run_wait = WaitDocument\<rparr>]\<rparr>)"

definition set_wait :: "nat \<Rightarrow> pdf_wait \<Rightarrow> 'b pdf_view \<Rightarrow> 'b pdf_view" where
  "set_wait n w v = v\<lparr>pv_runs := (pv_runs v)[n := (pv_runs v ! n)\<lparr>run_wait := w\<rparr>]\<rparr>"

text \<open>The head of the loop over the pages.\<close>

definition next_page :: "nat \<Rightarrow> nat \<Rightarrow> nat \<Rightarrow> 'b pdf_view \<Rightarrow> 'b pdf_view" where
  "next_page n pageNumber pageCount v =
     set_wait n (if pageNumber \<le> pageCount \<and> run_live (pv_runs v ! n) then WaitPage pageNumber pageCount
       else WaitDestroy pageCount) v"

definition document_opened :: "nat \<Rightarrow> nat \<Rightarrow> 'b pdf_view \<Rightarrow> 'b pdf_view" where
  "document_opened n pageCount v =
     (if \<not> run_live (pv_runs v ! n) then set_wait n WaitNothing v
      else next_page n 1 pageCount (v\<lparr>pv_state := PdfRendering (Some pageCount) 0\<rparr>))"

definition page_opened :: "nat \<Rightarrow> nat \<Rightarrow> nat \<Rightarrow> 'b pdf_view \<Rightarrow> 'b pdf_view" where
  "page_opened n pageNumber pageCount v =
     (if \<not> run_live (pv_runs v ! n) then set_wait n (WaitDestroy pageCount) v
      else set_wait n (WaitDrawing pageNumber pageCount) (v\<lparr>pv_pages := pv_pages v @ [(n, pageNumber)]\<rparr>))"

definition page_drawn :: "nat \<Rightarrow> nat \<Rightarrow> nat \<Rightarrow> 'b pdf_view \<Rightarrow> 'b pdf_view" where
  "page_drawn n pageNumber pageCount v =
     next_page n (Suc pageNumber) pageCount (v\<lparr>pv_state := PdfRendering (Some pageCount) pageNumber\<rparr>)"

definition document_destroyed :: "nat \<Rightarrow> nat \<Rightarrow> 'b pdf_view \<Rightarrow> 'b pdf_view" where
  "document_destroyed n pageCount v =
     (let v' = set_wait n WaitNothing v in
      if run_live (pv_runs v ! n) then v'\<lparr>pv_state := PdfReady pageCount\<rparr> else v')"

definition pdf_failed :: "nat \<Rightarrow> js_error \<Rightarrow> 'b pdf_view \<Rightarrow> 'b pdf_view" where
  "pdf_failed n err v =
     (let v' = set_wait n WaitNothing v in
      if run_live (pv_runs v ! n) then v'\<lparr>pv_state := PdfError (err_message err)\<rparr> else v')"

definition PdfRenderStatus :: "PdfRenderState \<Rightarrow> string option" where
  "PdfRenderStatus st =
     (case st of
        PdfRendering None k \<Rightarrow> Some ''Opening PDF''
      | PdfRendering (Some n) k \<Rightarrow> Some (''Rendering '' @ show_nat k @ ''/'' @ show_nat n @ '' pages'')
      | _ \<Rightarrow> None)"

text \<open>The sizes of a page's canvas: its width and height in pixels of the device, its width on the page and the
  width of its frame. \<open>getViewport\<close> multiplies the size of the page by the scale.\<close>

definition pageCssScale :: real where "pageCssScale = 125 / 100"
definition maxRenderPixelRatio :: real where "maxRenderPixelRatio = 2"

definition page_canvas :: "real \<Rightarrow> real \<Rightarrow> real \<Rightarrow> int \<times> int \<times> int \<times> int" where
  "page_canvas devicePixelRatio pageWidth pageHeight =
     (let pixelRatio = min maxRenderPixelRatio (if devicePixelRatio = 0 then 1 else devicePixelRatio);
          viewportWidth = pageWidth * (pageCssScale * pixelRatio);
          viewportHeight = pageHeight * (pageCssScale * pixelRatio) in
      (\<lfloor>viewportWidth\<rfloor>, \<lfloor>viewportHeight\<rfloor>, \<lfloor>viewportWidth / pixelRatio\<rfloor>, \<lfloor>pageWidth * pageCssScale\<rfloor>))"

text \<open>The steps. A promise may fail at any point. The cleanup of a run cancels its drawing, whose promise pdf.js
  then rejects; so a drawing succeeds only in a live run.\<close>

inductive pdf_reachable :: "'b pdf_view \<Rightarrow> bool" where
  pdf_initial: "pdf_reachable initial_pdf"
| pdf_render: "pdf_reachable v \<Longrightarrow> pdf_reachable (pdf_effect content v)"
| pdf_unmount: "pdf_reachable v \<Longrightarrow> pdf_reachable (cancel_pdf v)"
| pdf_document: "pdf_reachable v \<Longrightarrow> n < length (pv_runs v) \<Longrightarrow> run_wait (pv_runs v ! n) = WaitDocument \<Longrightarrow>
    pdf_reachable (document_opened n pageCount v)"
| pdf_page: "pdf_reachable v \<Longrightarrow> n < length (pv_runs v) \<Longrightarrow> run_wait (pv_runs v ! n) = WaitPage k pageCount \<Longrightarrow>
    pdf_reachable (page_opened n k pageCount v)"
| pdf_drawn: "pdf_reachable v \<Longrightarrow> n < length (pv_runs v) \<Longrightarrow> run_wait (pv_runs v ! n) = WaitDrawing k pageCount \<Longrightarrow>
    run_live (pv_runs v ! n) \<Longrightarrow> pdf_reachable (page_drawn n k pageCount v)"
| pdf_destroyed: "pdf_reachable v \<Longrightarrow> n < length (pv_runs v) \<Longrightarrow> run_wait (pv_runs v ! n) = WaitDestroy pageCount \<Longrightarrow>
    pdf_reachable (document_destroyed n pageCount v)"
| pdf_fails: "pdf_reachable v \<Longrightarrow> n < length (pv_runs v) \<Longrightarrow> run_wait (pv_runs v ! n) \<noteq> WaitNothing \<Longrightarrow>
    pdf_reachable (pdf_failed n err v)"

text \<open>Only the last run is live; the pages shown are the first ones of the document, in order, added by it.\<close>

fun progress_ok :: "pdf_wait \<Rightarrow> nat \<Rightarrow> PdfRenderState \<Rightarrow> bool" where
  "progress_ok WaitDocument shown st \<longleftrightarrow> shown = 0 \<and> st = PdfRendering None 0"
| "progress_ok (WaitPage k c) shown st \<longleftrightarrow> k = Suc shown \<and> k \<le> c \<and> st = PdfRendering (Some c) shown"
| "progress_ok (WaitDrawing k c) shown st \<longleftrightarrow> k = shown \<and> 0 < k \<and> k \<le> c \<and> st = PdfRendering (Some c) (k - 1)"
| "progress_ok (WaitDestroy c) shown st \<longleftrightarrow> shown = c \<and> st = PdfRendering (Some c) c"
| "progress_ok WaitNothing shown st \<longleftrightarrow> (case st of PdfReady c \<Rightarrow> shown = c | PdfError m \<Rightarrow> True | _ \<Rightarrow> False)"

definition pdf_ok :: "'b pdf_view \<Rightarrow> bool" where
  "pdf_ok v \<longleftrightarrow>
     (\<forall>n < length (pv_runs v). run_live (pv_runs v ! n) \<longrightarrow>
        Suc n = length (pv_runs v) \<and>
        pv_pages v = map (\<lambda>k. (n, Suc k)) [0..<length (pv_pages v)] \<and>
        progress_ok (run_wait (pv_runs v ! n)) (length (pv_pages v)) (pv_state v)) \<and>
     ((\<forall>r \<in> set (pv_runs v). \<not> run_live r) \<longrightarrow> pv_pages v = [])"

lemma idle_run_ok:
  assumes "pdf_ok v" "n < length (pv_runs v)" "\<not> run_live (pv_runs v ! n)"
  shows "pdf_ok (set_wait n w v)"
proof -
  have live: "run_live (pv_runs (set_wait n w v) ! m) = run_live (pv_runs v ! m)" if "m < length (pv_runs v)" for m
    using that assms(2) by (simp add: set_wait_def nth_list_update)
  have len: "length (pv_runs (set_wait n w v)) = length (pv_runs v)" by (simp add: set_wait_def)
  have other: "m \<noteq> n \<Longrightarrow> pv_runs (set_wait n w v) ! m = pv_runs v ! m" for m by (simp add: set_wait_def)
  have same: "pv_pages (set_wait n w v) = pv_pages v" "pv_state (set_wait n w v) = pv_state v" by (simp_all add: set_wait_def)
  have "(\<forall>r \<in> set (pv_runs (set_wait n w v)). \<not> run_live r) \<longleftrightarrow> (\<forall>r \<in> set (pv_runs v). \<not> run_live r)"
    unfolding all_set_conv_all_nth len using live by blast
  moreover have "Suc m = length (pv_runs v) \<and> pv_pages v = map (\<lambda>k. (m, Suc k)) [0..<length (pv_pages v)] \<and>
      progress_ok (run_wait (pv_runs (set_wait n w v) ! m)) (length (pv_pages v)) (pv_state v)"
    if "m < length (pv_runs v)" "run_live (pv_runs (set_wait n w v) ! m)" for m
  proof -
    have "m \<noteq> n" using that assms(3) live by blast
    then show ?thesis using assms(1) that live other [of m] by (simp add: pdf_ok_def)
  qed
  ultimately show ?thesis using assms(1) unfolding pdf_ok_def len same by blast
qed

lemma live_run_ok:
  assumes "pdf_ok v" "n < length (pv_runs v)" "run_live (pv_runs v ! n)"
    and "pv_runs v' = (pv_runs v)[n := (pv_runs v ! n)\<lparr>run_wait := w\<rparr>]"
    and "pv_pages v' = map (\<lambda>k. (n, Suc k)) [0..<length (pv_pages v')]"
    and "progress_ok w (length (pv_pages v')) (pv_state v')"
  shows "pdf_ok v'"
proof -
  have last: "Suc n = length (pv_runs v)" using assms(1-3) by (simp add: pdf_ok_def)
  have len: "length (pv_runs v') = length (pv_runs v)" by (simp add: assms(4))
  have only: "m = n" if "m < length (pv_runs v)" "run_live (pv_runs v' ! m)" for m
  proof (rule ccontr)
    assume "m \<noteq> n"
    with that(2) have "run_live (pv_runs v ! m)" by (simp add: assms(4))
    with that(1) assms(1) have "Suc m = length (pv_runs v)" by (simp add: pdf_ok_def)
    with last \<open>m \<noteq> n\<close> show False by simp
  qed
  have n: "run_wait (pv_runs v' ! n) = w" "run_live (pv_runs v' ! n)"
    using assms(2,3) by (simp_all add: assms(4))
  have "\<not> (\<forall>r \<in> set (pv_runs v'). \<not> run_live r)" using n(2) assms(2) len nth_mem by metis
  then show ?thesis
    unfolding pdf_ok_def len using only last assms(5,6) n(1) by metis
qed

lemma live_run:
  assumes "pdf_ok v" "n < length (pv_runs v)" "run_live (pv_runs v ! n)"
  shows "pv_pages v = map (\<lambda>k. (n, Suc k)) [0..<length (pv_pages v)]"
    "progress_ok (run_wait (pv_runs v ! n)) (length (pv_pages v)) (pv_state v)"
  using assms unfolding pdf_ok_def by blast+

lemma cancel_pdf_ok: "pdf_ok (cancel_pdf v)"
  by (simp add: pdf_ok_def cancel_pdf_def)

lemma effect_pdf_ok: "pdf_ok v \<Longrightarrow> pdf_ok (pdf_effect content v)"
  by (auto simp: pdf_effect_def pdf_ok_def cancel_pdf_def nth_append Let_def less_Suc_eq)

lemma document_ok:
  assumes "pdf_ok v" "n < length (pv_runs v)" "run_wait (pv_runs v ! n) = WaitDocument"
  shows "pdf_ok (document_opened n pageCount v)"
proof (cases "run_live (pv_runs v ! n)")
  case False
  then show ?thesis using idle_run_ok [OF assms(1,2)] by (simp add: document_opened_def)
next
  case True
  from live_run [OF assms(1,2) True] assms(3) have "pv_pages v = []" by simp
  then show ?thesis
    by (intro live_run_ok [OF assms(1,2) True, where w = "if 1 \<le> pageCount then WaitPage 1 pageCount else WaitDestroy pageCount"])
      (simp_all add: document_opened_def next_page_def set_wait_def True)
qed

lemma page_ok:
  assumes "pdf_ok v" "n < length (pv_runs v)" "run_wait (pv_runs v ! n) = WaitPage k pageCount"
  shows "pdf_ok (page_opened n k pageCount v)"
proof (cases "run_live (pv_runs v ! n)")
  case False
  then show ?thesis using idle_run_ok [OF assms(1,2)] by (simp add: page_opened_def)
next
  case True
  note l = live_run [OF assms(1,2) True]
  have k: "k = Suc (length (pv_pages v))" "k \<le> pageCount" "pv_state v = PdfRendering (Some pageCount) (length (pv_pages v))"
    using l(2) assms(3) by simp_all
  show ?thesis
    by (rule live_run_ok [OF assms(1,2) True, where w = "WaitDrawing k pageCount"])
      (use True k l(1) in \<open>simp_all add: page_opened_def set_wait_def\<close>)
qed

lemma drawn_ok:
  assumes "pdf_ok v" "n < length (pv_runs v)" "run_wait (pv_runs v ! n) = WaitDrawing k pageCount"
    "run_live (pv_runs v ! n)"
  shows "pdf_ok (page_drawn n k pageCount v)"
proof -
  note l = live_run [OF assms(1,2,4)]
  have k: "k = length (pv_pages v)" "k \<le> pageCount" using l(2) assms(3) by simp_all
  show ?thesis
    by (rule live_run_ok [OF assms(1,2,4),
          where w = "if Suc k \<le> pageCount then WaitPage (Suc k) pageCount else WaitDestroy pageCount"])
      (use assms(4) k l(1) in \<open>simp_all add: page_drawn_def next_page_def set_wait_def\<close>)
qed

lemma ended_ok:
  assumes "pdf_ok v" "n < length (pv_runs v)"
  shows "run_wait (pv_runs v ! n) = WaitDestroy pageCount \<Longrightarrow> pdf_ok (document_destroyed n pageCount v)"
    "pdf_ok (pdf_failed n err v)"
proof -
  show "pdf_ok (document_destroyed n pageCount v)" if "run_wait (pv_runs v ! n) = WaitDestroy pageCount"
  proof (cases "run_live (pv_runs v ! n)")
    case False
    then show ?thesis using idle_run_ok [OF assms] by (simp add: document_destroyed_def Let_def)
  next
    case True
    note l = live_run [OF assms True]
    show ?thesis
      by (rule live_run_ok [OF assms True, where w = WaitNothing])
        (use True that l in \<open>simp_all add: document_destroyed_def set_wait_def Let_def\<close>)
  qed
  show "pdf_ok (pdf_failed n err v)"
  proof (cases "run_live (pv_runs v ! n)")
    case False
    then show ?thesis using idle_run_ok [OF assms] by (simp add: pdf_failed_def Let_def)
  next
    case True
    note l = live_run [OF assms True]
    show ?thesis
      by (rule live_run_ok [OF assms True, where w = WaitNothing])
        (use True l in \<open>simp_all add: pdf_failed_def set_wait_def Let_def\<close>)
  qed
qed

lemma pdf_reachable_ok: "pdf_reachable v \<Longrightarrow> pdf_ok v"
proof (induction rule: pdf_reachable.induct)
  case pdf_initial
  show ?case by (simp add: pdf_ok_def initial_pdf_def)
qed (simp_all add: cancel_pdf_ok effect_pdf_ok document_ok page_ok drawn_ok ended_ok)

text \<open>(C30) Whatever documents are opened one after the other, and however late their promises end: the pages
  shown always belong to the document opened last and are its first ones in order, and when it is reported
  as ready all of them are there.\<close>

theorem pdf_pages_in_order:
  assumes "pdf_reachable v" "n < length (pv_runs v)" "run_live (pv_runs v ! n)"
  shows "Suc n = length (pv_runs v) \<and> pv_pages v = map (\<lambda>k. (n, Suc k)) [0..<length (pv_pages v)] \<and>
    (\<forall>pageCount. pv_state v = PdfReady pageCount \<longrightarrow> length (pv_pages v) = pageCount) \<and>
    (\<forall>pageCount k. pv_state v = PdfRendering (Some pageCount) k \<longrightarrow>
       k \<le> length (pv_pages v) \<and> length (pv_pages v) \<le> Suc k \<and> length (pv_pages v) \<le> pageCount)"
proof -
  note ok = pdf_reachable_ok [OF assms(1)]
  note l = live_run [OF ok assms(2,3)]
  have "Suc n = length (pv_runs v)" using ok assms(2,3) by (simp add: pdf_ok_def)
  moreover have "(\<forall>pageCount. pv_state v = PdfReady pageCount \<longrightarrow> length (pv_pages v) = pageCount) \<and>
    (\<forall>pageCount k. pv_state v = PdfRendering (Some pageCount) k \<longrightarrow>
       k \<le> length (pv_pages v) \<and> length (pv_pages v) \<le> Suc k \<and> length (pv_pages v) \<le> pageCount)"
    using l(2) by (cases "run_wait (pv_runs v ! n)") auto
  ultimately show ?thesis using l(1) by blast
qed

definition one_page :: "nat pdf_view" where
  "one_page = document_destroyed 0 1 (page_drawn 0 1 1 (page_opened 0 1 1 (document_opened 0 1 (pdf_effect 7 initial_pdf))))"

lemma one_page: "one_page = \<lparr>pv_bytes = Some 7, pv_state = PdfReady 1, pv_runs = [\<lparr>run_live = True, run_wait = WaitNothing\<rparr>],
    pv_pages = [(0, 1)]\<rparr>"
  by (simp add: one_page_def document_destroyed_def page_drawn_def page_opened_def document_opened_def pdf_effect_def
      cancel_pdf_def initial_pdf_def next_page_def set_wait_def Let_def)

lemma one_page_reachable: "pdf_reachable one_page"
  unfolding one_page_def
  by (intro pdf_destroyed pdf_drawn pdf_page pdf_document pdf_render pdf_initial)
    (simp_all add: page_drawn_def page_opened_def document_opened_def pdf_effect_def
      cancel_pdf_def initial_pdf_def next_page_def set_wait_def Let_def)

theorem pdf_pages_in_order_witness: "pv_pages one_page = map (\<lambda>k. (0, Suc k)) [0..<1]"
  using pdf_pages_in_order [OF one_page_reachable, of 0] by (simp add: one_page)

end
