(* ===== verification/CodegenSchema.thy ===== *)
theory CodegenSchema
  imports Prelude JsString
begin

text \<open>
  What the two code generators share (\<open>scripts/codegen/typescript/main.ts\<close> and
  \<open>scripts/codegen/rust/main.ts\<close> repeat it): the schema and its validation, its construction from the
  representation the \<open>@disjukr/bdl\<close> package builds, the writer of indented lines, the paths of the schema
  files. The package that parses BDL is outside: its result is an argument. Text is a list of characters;
  the names of a schema are identifiers.
\<close>

section \<open>\<open>Number\<close> of a string\<close>

text \<open>The value of a numeric string, a double: \<open>Dyadic negative m s\<close> is \<open>m * 2 ^ s\<close>, with its sign.\<close>

datatype js_number = NotANumber | Infinite | Dyadic bool nat int

definition is_decimal :: "char \<Rightarrow> bool" where
  "is_decimal c \<longleftrightarrow> 48 \<le> (of_char c :: nat) \<and> (of_char c :: nat) \<le> 57"

definition number_space :: "char \<Rightarrow> bool" where
  "number_space c \<longleftrightarrow> (of_char c :: nat) \<in> {9, 10, 11, 12, 13, 32, 160}"

definition digit_value :: "char \<Rightarrow> nat option" where
  "digit_value c =
     (let n = of_char c :: nat in
      if 48 \<le> n \<and> n \<le> 57 then Some (n - 48)
      else if 65 \<le> n \<and> n \<le> 90 then Some (n - 55)
      else if 97 \<le> n \<and> n \<le> 122 then Some (n - 87)
      else None)"

fun digits_in :: "nat \<Rightarrow> nat \<Rightarrow> string \<Rightarrow> nat option" where
  "digits_in base acc [] = Some acc"
| "digits_in base acc (c # cs) =
     (case digit_value c of
        None \<Rightarrow> None
      | Some d \<Rightarrow> if d < base then digits_in base (acc * base + d) cs else None)"

fun bit_length :: "nat \<Rightarrow> nat" where
  "bit_length n = (if n = 0 then 0 else Suc (bit_length (n div 2)))"

declare bit_length.simps [simp del]

text \<open>The double nearest to \<open>p / q\<close>, ties to even; \<open>None\<close> when it is infinite.\<close>

definition nearest_double :: "nat \<Rightarrow> nat \<Rightarrow> (nat \<times> int) option" where
  "nearest_double p q =
     (if p = 0 then Some (0, 0)
      else
        let e = int (bit_length p) - int (bit_length q);
            e = (if (if e \<ge> 0 then q * 2 ^ nat e \<le> p else q \<le> p * 2 ^ nat (- e)) then e else e - 1);
            s = max e (-1022) - 52;
            n = (if s \<ge> 0 then p else p * 2 ^ nat (- s));
            d = (if s \<ge> 0 then q * 2 ^ nat s else q);
            m = n div d;
            m = (if 2 * (n mod d) > d \<or> 2 * (n mod d) = d \<and> odd m then Suc m else m) in
        if s \<ge> 0 \<and> m * 2 ^ nat s \<ge> 2 ^ 1024 then None else Some (m, s))"

fun exponent_part :: "string \<Rightarrow> int option" where
  "exponent_part [] = Some 0"
| "exponent_part (c # cs) =
     (if c \<noteq> CHR ''e'' \<and> c \<noteq> CHR ''E'' then None
      else
        let negative = startsWith cs ''-'';
            ds = (if negative \<or> startsWith cs ''+'' then tl cs else cs) in
        if ds = [] then None
        else map_option (\<lambda>n. if negative then - int n else int n) (digits_in 10 0 ds))"

definition unsigned_decimal :: "bool \<Rightarrow> string \<Rightarrow> js_number" where
  "unsigned_decimal negative s =
     (if s = ''Infinity'' then Infinite
      else
        let whole = takeWhile is_decimal s;
            rest = dropWhile is_decimal s;
            point = startsWith rest ''.'';
            fraction = (if point then takeWhile is_decimal (tl rest) else []);
            rest = (if point then dropWhile is_decimal (tl rest) else rest) in
        if whole = [] \<and> fraction = [] then NotANumber
        else case (digits_in 10 0 (whole @ fraction), exponent_part rest) of
          (Some n, Some e) \<Rightarrow>
            let e = e - int (length fraction) in
            (case nearest_double (n * 10 ^ nat e) (10 ^ nat (- e)) of
               None \<Rightarrow> Infinite | Some (m, k) \<Rightarrow> Dyadic negative m k)
        | _ \<Rightarrow> NotANumber)"

definition radix_number :: "nat \<Rightarrow> string \<Rightarrow> js_number" where
  "radix_number base s =
     (if s = [] then NotANumber
      else case digits_in base 0 s of
        None \<Rightarrow> NotANumber
      | Some n \<Rightarrow> (case nearest_double n 1 of None \<Rightarrow> Infinite | Some (m, k) \<Rightarrow> Dyadic False m k))"

definition Number :: "string \<Rightarrow> js_number" where
  "Number text =
     (let s = drop_trailing number_space (dropWhile number_space text) in
      if s = [] then Dyadic False 0 0
      else if startsWith s ''0x'' \<or> startsWith s ''0X'' then radix_number 16 (drop 2 s)
      else if startsWith s ''0o'' \<or> startsWith s ''0O'' then radix_number 8 (drop 2 s)
      else if startsWith s ''0b'' \<or> startsWith s ''0B'' then radix_number 2 (drop 2 s)
      else if startsWith s ''-'' then unsigned_decimal True (tl s)
      else if startsWith s ''+'' then unsigned_decimal False (tl s)
      else unsigned_decimal False s)"

text \<open>\<open>Number.isSafeInteger\<close>, with the integer.\<close>

fun safe_integer :: "js_number \<Rightarrow> int option" where
  "safe_integer (Dyadic negative m s) =
     (if s < 0 \<and> m mod 2 ^ nat (- s) \<noteq> 0 then None
      else
        let n = (if s < 0 then m div 2 ^ nat (- s) else m * 2 ^ nat s) in
        if n \<le> 2 ^ 53 - 1 then Some (if negative then - int n else int n) else None)"
| "safe_integer _ = None"

section \<open>The schema\<close>

datatype PrimitiveTypeName = TypeU53 | TypeI53 | TypeF64 | TypeString | TypeBool | TypeBytes

datatype TypeRef = PrimitiveRef PrimitiveTypeName | NamedRef string | ArrayRef TypeRef | VoidRef

record FieldDeclaration =
  fd_id :: nat
  fd_name :: string
  fd_optional :: bool
  fd_type :: TypeRef

record EnumVariantDeclaration =
  ev_id :: nat
  ev_name :: string

record UnionVariantDeclaration =
  uv_id :: nat
  uv_name :: string
  uv_fields :: "FieldDeclaration list"

text \<open>The stream mode of a procedure is a string in one generator and an enumeration in the other.\<close>

record 's ProcDeclaration =
  pd_id :: nat
  pd_name :: string
  pd_stream :: 's
  pd_requestType :: TypeRef
  pd_responseType :: TypeRef
  pd_errorType :: TypeRef

record StructDeclaration =
  sd_name :: string
  sd_typePath :: string
  sd_fields :: "FieldDeclaration list"

record EnumDeclaration =
  ed_name :: string
  ed_typePath :: string
  ed_variants :: "EnumVariantDeclaration list"

record UnionDeclaration =
  ud_name :: string
  ud_typePath :: string
  ud_variants :: "UnionVariantDeclaration list"

datatype 's Declaration =
    ProcDecl "'s ProcDeclaration"
  | StructDecl StructDeclaration
  | EnumDecl EnumDeclaration
  | UnionDecl UnionDeclaration

type_synonym 's Schema = "'s Declaration list"

fun declarationName :: "'s Declaration \<Rightarrow> string" where
  "declarationName (ProcDecl d) = pd_name d"
| "declarationName (StructDecl d) = sd_name d"
| "declarationName (EnumDecl d) = ed_name d"
| "declarationName (UnionDecl d) = ud_name d"

text \<open>The path of a type; a procedure has none.\<close>

fun declarationPath :: "'s Declaration \<Rightarrow> string option" where
  "declarationPath (ProcDecl d) = None"
| "declarationPath (StructDecl d) = Some (sd_typePath d)"
| "declarationPath (EnumDecl d) = Some (ed_typePath d)"
| "declarationPath (UnionDecl d) = Some (ud_typePath d)"

fun isProc :: "'s Declaration \<Rightarrow> bool" where
  "isProc (ProcDecl d) \<longleftrightarrow> True"
| "isProc _ \<longleftrightarrow> False"

section \<open>The representation the BDL package builds\<close>

datatype bdl_type = BdlPlain string | BdlArray string | BdlDictionary string string

type_synonym attributes = "string \<rightharpoonup> string"

record bdl_field =
  bf_attributes :: attributes
  bf_name :: string
  bf_optional :: bool
  bf_fieldType :: bdl_type

record bdl_item =
  bi_attributes :: attributes
  bi_name :: string
  bi_fields :: "bdl_field list"

text \<open>Definitions of the other kinds produce no declaration.\<close>

datatype bdl_def =
    BdlProc attributes string bdl_type bdl_type "bdl_type option"
  | BdlStruct string "bdl_field list"
  | BdlEnum string "bdl_item list"
  | BdlUnion string "bdl_item list"
  | BdlOther string

fun bdl_name :: "bdl_def \<Rightarrow> string" where
  "bdl_name (BdlProc attrs n input output err) = n"
| "bdl_name (BdlStruct n listed) = n"
| "bdl_name (BdlEnum n listed) = n"
| "bdl_name (BdlUnion n listed) = n"
| "bdl_name (BdlOther n) = n"

text \<open>\<open>Object.entries(ir.defs)\<close>.\<close>

type_synonym bdl_ir = "(string \<times> bdl_def) list"

section \<open>From the representation to the schema\<close>

definition requiredAttribute :: "attributes \<Rightarrow> string \<Rightarrow> string \<Rightarrow> string result" where
  "requiredAttribute attrs key label =
     (case attrs key of
        None \<Rightarrow> throw (label @ '' requires @ '' @ key)
      | Some value \<Rightarrow> if value = [] then throw (label @ '' requires @ '' @ key) else Inr value)"

definition requiredId :: "attributes \<Rightarrow> string \<Rightarrow> nat result" where
  "requiredId attrs label =
     ebind (requiredAttribute attrs ''id'' label) (\<lambda>value.
       case safe_integer (Number value) of
         None \<Rightarrow> throw (label @ '' requires integer @ id'')
       | Some n \<Rightarrow> if n < 0 then throw (label @ '' requires integer @ id'') else Inr (nat n))"

definition primitiveTypes :: "(string \<times> PrimitiveTypeName) list" where
  "primitiveTypes = [(''u53'', TypeU53), (''i53'', TypeI53), (''f64'', TypeF64), (''string'', TypeString),
     (''bool'', TypeBool), (''bytes'', TypeBytes)]"

definition plainType :: "string \<Rightarrow> TypeRef" where
  "plainType path =
     (if path = ''void'' then VoidRef
      else case map_of primitiveTypes path of Some p \<Rightarrow> PrimitiveRef p | None \<Rightarrow> NamedRef path)"

text \<open>\<open>unsupported\<close> is the message of the generator for dictionaries.\<close>

fun typeRefFromIr :: "string \<Rightarrow> bdl_type \<Rightarrow> TypeRef result" where
  "typeRefFromIr unsupported (BdlArray path) = Inr (ArrayRef (plainType path))"
| "typeRefFromIr unsupported (BdlDictionary key path) = throw unsupported"
| "typeRefFromIr unsupported (BdlPlain path) = Inr (plainType path)"

definition fieldFromIr :: "string \<Rightarrow> bdl_field \<Rightarrow> string \<Rightarrow> FieldDeclaration result" where
  "fieldFromIr unsupported field label =
     ebind (requiredId (bf_attributes field) label) (\<lambda>i.
     ebind (typeRefFromIr unsupported (bf_fieldType field)) (\<lambda>t.
       Inr \<lparr>fd_id = i, fd_name = bf_name field, fd_optional = bf_optional field, fd_type = t\<rparr>))"

definition enumVariantFromIr :: "string \<Rightarrow> bdl_item \<Rightarrow> EnumVariantDeclaration result" where
  "enumVariantFromIr typePath item =
     ebind (requiredId (bi_attributes item) (typePath @ ''.'' @ bi_name item)) (\<lambda>i.
       Inr \<lparr>ev_id = i, ev_name = bi_name item\<rparr>)"

definition unionVariantFromIr :: "string \<Rightarrow> string \<Rightarrow> bdl_item \<Rightarrow> UnionVariantDeclaration result" where
  "unionVariantFromIr unsupported typePath item =
     (let label = typePath @ ''.'' @ bi_name item in
      ebind (requiredId (bi_attributes item) label) (\<lambda>i.
      ebind (emap (\<lambda>field. fieldFromIr unsupported field (label @ ''.'' @ bf_name field)) (bi_fields item)) (\<lambda>fields.
        Inr \<lparr>uv_id = i, uv_name = bi_name item, uv_fields = fields\<rparr>)))"

text \<open>\<open>readStream\<close> reads the stream mode of a procedure.\<close>

fun declarationFromIr ::
    "string \<Rightarrow> (attributes \<Rightarrow> string \<Rightarrow> 's result) \<Rightarrow> string \<Rightarrow> bdl_def \<Rightarrow> 's Declaration list result" where
  "declarationFromIr unsupported readStream typePath (BdlProc attrs n input output err) =
     ebind (requiredId attrs typePath) (\<lambda>i.
     ebind (readStream attrs typePath) (\<lambda>stream.
     ebind (typeRefFromIr unsupported input) (\<lambda>req.
     ebind (typeRefFromIr unsupported output) (\<lambda>res.
     ebind (typeRefFromIr unsupported (case err of Some t \<Rightarrow> t | None \<Rightarrow> BdlPlain ''void'')) (\<lambda>e.
       Inr [ProcDecl \<lparr>pd_id = i, pd_name = n, pd_stream = stream, pd_requestType = req, pd_responseType = res,
         pd_errorType = e\<rparr>])))))"
| "declarationFromIr unsupported readStream typePath (BdlStruct n listed) =
     ebind (emap (\<lambda>field. fieldFromIr unsupported field (typePath @ ''.'' @ bf_name field)) listed) (\<lambda>fields.
       Inr [StructDecl \<lparr>sd_name = n, sd_typePath = typePath, sd_fields = fields\<rparr>])"
| "declarationFromIr unsupported readStream typePath (BdlEnum n listed) =
     ebind (emap (enumVariantFromIr typePath) listed) (\<lambda>variants.
       Inr [EnumDecl \<lparr>ed_name = n, ed_typePath = typePath, ed_variants = variants\<rparr>])"
| "declarationFromIr unsupported readStream typePath (BdlUnion n listed) =
     ebind (emap (unionVariantFromIr unsupported typePath) listed) (\<lambda>variants.
       Inr [UnionDecl \<lparr>ud_name = n, ud_typePath = typePath, ud_variants = variants\<rparr>])"
| "declarationFromIr unsupported readStream typePath (BdlOther n) = Inr []"

text \<open>No two definitions other than procedures have the same name.\<close>

fun uniqueNames :: "string \<Rightarrow> string set \<Rightarrow> bdl_ir \<Rightarrow> unit result" where
  "uniqueNames language seen [] = Inr ()"
| "uniqueNames language seen ((typePath, def) # defs) =
     (case def of
        BdlProc attrs n input output err \<Rightarrow> uniqueNames language seen defs
      | _ \<Rightarrow>
          if bdl_name def \<in> seen then throw (''duplicate '' @ language @ '' declaration name '' @ bdl_name def)
          else uniqueNames language (insert (bdl_name def) seen) defs)"

definition schemaFromIr ::
    "string \<Rightarrow> string \<Rightarrow> (attributes \<Rightarrow> string \<Rightarrow> 's result) \<Rightarrow> ('s Schema \<Rightarrow> unit result) \<Rightarrow> bdl_ir \<Rightarrow> 's Schema result" where
  "schemaFromIr language unsupported readStream validate ir =
     ebind (uniqueNames language {} ir) (\<lambda>_.
     ebind (emap (\<lambda>(typePath, def). declarationFromIr unsupported readStream typePath def) ir) (\<lambda>declared.
     ebind (validate (concat declared)) (\<lambda>_. Inr (concat declared))))"

section \<open>Validation\<close>

fun validateTypeRef :: "string set \<Rightarrow> TypeRef \<Rightarrow> unit result" where
  "validateTypeRef paths (ArrayRef t) = validateTypeRef paths t"
| "validateTypeRef paths (NamedRef path) = (if path \<in> paths then Inr () else throw (''unknown type '' @ path))"
| "validateTypeRef paths _ = Inr ()"

fun validateUniqueIds :: "string \<Rightarrow> nat set \<Rightarrow> nat list \<Rightarrow> unit result" where
  "validateUniqueIds label ids [] = Inr ()"
| "validateUniqueIds label ids (i # is) =
     (if i \<in> ids then throw (''duplicate id '' @ show_nat i @ '' in '' @ label)
      else validateUniqueIds label (insert i ids) is)"

text \<open>A loop whose body may throw.\<close>

fun each :: "('a \<Rightarrow> unit result) \<Rightarrow> 'a list \<Rightarrow> unit result" where
  "each f [] = Inr ()"
| "each f (x # xs) = ebind (f x) (\<lambda>_. each f xs)"

definition validateFields :: "string set \<Rightarrow> string \<Rightarrow> FieldDeclaration list \<Rightarrow> unit result" where
  "validateFields paths label listed =
     ebind (validateUniqueIds label {} (map fd_id listed)) (\<lambda>_.
       each (\<lambda>field. validateTypeRef paths (fd_type field)) listed)"

fun validateDeclaration :: "string set \<Rightarrow> 's Declaration \<Rightarrow> unit result" where
  "validateDeclaration paths (ProcDecl d) =
     ebind (validateTypeRef paths (pd_requestType d)) (\<lambda>_.
     ebind (validateTypeRef paths (pd_responseType d)) (\<lambda>_.
       validateTypeRef paths (pd_errorType d)))"
| "validateDeclaration paths (StructDecl d) = validateFields paths (sd_name d @ '' fields'') (sd_fields d)"
| "validateDeclaration paths (EnumDecl d) =
     validateUniqueIds (ed_name d @ '' variants'') {} (map ev_id (ed_variants d))"
| "validateDeclaration paths (UnionDecl d) =
     ebind (validateUniqueIds (ud_name d @ '' variants'') {} (map uv_id (ud_variants d))) (\<lambda>_.
       each (\<lambda>variant. validateFields paths (ud_name d @ ''.'' @ uv_name variant @ '' fields'') (uv_fields variant))
         (ud_variants d))"

definition schemaPaths :: "'s Schema \<Rightarrow> string set" where
  "schemaPaths schema = set (List.map_filter declarationPath schema)"

section \<open>Named types and paths\<close>

text \<open>A map of the declarations by path; a later declaration replaces an earlier one with the same path.\<close>

type_synonym 's named = "(string \<times> 's Declaration) list"

definition declarationMap :: "'s Schema \<Rightarrow> 's named" where
  "declarationMap schema =
     foldl (\<lambda>m d. case declarationPath d of None \<Rightarrow> m | Some path \<Rightarrow> put path d m) [] schema"

fun getNamed :: "TypeRef \<Rightarrow> 's named \<Rightarrow> 's Declaration result" where
  "getNamed (NamedRef path) named =
     (case map_of named path of
        None \<Rightarrow> throw (''unknown type '' @ path)
      | Some d \<Rightarrow> if isProc d then throw (''unknown type '' @ path) else Inr d)"
| "getNamed _ named = throw ''expected named type''"

fun procsOf :: "'s Schema \<Rightarrow> 's ProcDeclaration list" where
  "procsOf [] = []"
| "procsOf (ProcDecl d # schema) = d # procsOf schema"
| "procsOf (_ # schema) = procsOf schema"

definition sortedProcs :: "'s Schema \<Rightarrow> 's ProcDeclaration list" where
  "sortedProcs schema = sort_by (\<lambda>a b. int (pd_id a) - int (pd_id b)) (procsOf schema)"

definition normalizePath :: "string \<Rightarrow> string" where
  "normalizePath path = map (\<lambda>c. if c = CHR 0x5C then CHR ''/'' else c) path"

definition dirname :: "string \<Rightarrow> string" where
  "dirname path =
     (let normalized = normalizePath path; index = lastIndexOf normalized (CHR ''/'') in
      if index < 0 then ''.'' else take (nat index) normalized)"

text \<open>What a path names.\<close>

datatype file_node = FileNode | DirectoryNode "(string \<times> file_node) list" | OtherNode

fun collectBdlFiles :: "string \<Rightarrow> file_node \<Rightarrow> string list" where
  "collectBdlFiles path FileNode = (if endsWith path ''.bdl'' then [normalizePath path] else [])"
| "collectBdlFiles path OtherNode = []"
| "collectBdlFiles path (DirectoryNode entries) =
     concat (map (\<lambda>(entry, node).
       let child = normalizePath path @ ''/'' @ entry in
       case node of
         DirectoryNode _ \<Rightarrow> collectBdlFiles child node
       | FileNode \<Rightarrow> if endsWith child ''.bdl'' then [child] else []
       | OtherNode \<Rightarrow> []) entries)"

text \<open>The roots with what they name; a root that does not exist makes \<open>stat\<close> fail.\<close>

definition loadSchema ::
    "(string \<Rightarrow> string \<Rightarrow> int) \<Rightarrow> (string \<Rightarrow> file_node result) \<Rightarrow> (string list \<Rightarrow> bdl_ir result) \<Rightarrow>
     (bdl_ir \<Rightarrow> 's Schema result) \<Rightarrow> string list \<Rightarrow> 's Schema result" where
  "loadSchema collate stat buildBdlIr fromIr schemaRoots =
     ebind (emap (\<lambda>root. ebind (stat root) (\<lambda>node. Inr (collectBdlFiles root node))) schemaRoots) (\<lambda>files.
     ebind (buildBdlIr (sort_by collate (concat files))) fromIr)"

text \<open>The value of an option is the next argument.\<close>

fun requiredArg :: "string list \<Rightarrow> string \<Rightarrow> (string \<times> string list) result" where
  "requiredArg [] option = throw (option @ '' requires a value'')"
| "requiredArg (value # args) option = (if value = [] then throw (option @ '' requires a value'') else Inr (value, args))"

lemma requiredArg_shorter: "requiredArg args option = Inr (value, rest) \<Longrightarrow> length rest < length args"
  by (cases args) (auto split: if_splits)

text \<open>\<open>toLowerCase\<close> of a character.\<close>

definition lower_char :: "char \<Rightarrow> char" where
  "lower_char c =
     (let n = of_char c :: nat in
      if 65 \<le> n \<and> n \<le> 90 \<or> 192 \<le> n \<and> n \<le> 222 \<and> n \<noteq> 215 then char_of (n + 32) else c)"

text \<open>The part of a path after its last dot.\<close>

definition localTypeName :: "string \<Rightarrow> string" where
  "localTypeName typePath =
     (let index = lastIndexOf typePath (CHR ''.'') in
      if index < 0 then typePath else drop (nat (index + 1)) typePath)"

text \<open>The first element of a list; reading a property of the missing one throws.\<close>

definition first_of :: "'a list \<Rightarrow> 'a result" where
  "first_of xs =
     (case xs of [] \<Rightarrow> Inl (TypeError (js ''Cannot read properties of undefined'')) | x # _ \<Rightarrow> Inr x)"

text \<open>What the arguments ask for.\<close>

datatype 'o cli = CliHelp | CliRun 'o

section \<open>The writer\<close>

text \<open>
  The calls made on the writer: a line (whose text may be the result of a call that throws), an indented
  group, a group. \<open>write_code\<close> performs them with the indentation of that moment.
\<close>

datatype code = Line "string result" | Indent "code list" | Block "code list"

abbreviation ln :: "string \<Rightarrow> code" where "ln s \<equiv> Line (Inr s)"
abbreviation blank :: code where "blank \<equiv> Line (Inr [])"
abbreviation lit :: "string \<Rightarrow> string result" where "lit s \<equiv> Inr s"

text \<open>A part of an emitter that throws before it writes.\<close>

fun code_of :: "code result \<Rightarrow> code" where
  "code_of (Inl err) = Line (Inl err)"
| "code_of (Inr c) = c"

definition cat :: "string result list \<Rightarrow> string result" where
  "cat parts = ebind (emap (\<lambda>part. part) parts) (\<lambda>texts. Inr (concat texts))"

fun write_code :: "string \<Rightarrow> string \<Rightarrow> code \<Rightarrow> string list result" where
  "write_code step indentation (Line text) =
     ebind text (\<lambda>s. Inr [if length s = 0 then [] else indentation @ s])"
| "write_code step indentation (Indent cs) =
     ebind (emap (write_code step (indentation @ step)) cs) (\<lambda>written. Inr (concat written))"
| "write_code step indentation (Block cs) =
     ebind (emap (write_code step indentation) cs) (\<lambda>written. Inr (concat written))"

definition Writer_toString :: "string list \<Rightarrow> string" where
  "Writer_toString written = join [CHR 0x0A] written @ [CHR 0x0A]"

definition written :: "string \<Rightarrow> code list \<Rightarrow> string result" where
  "written step cs = ebind (write_code step [] (Block cs)) (\<lambda>listed. Inr (Writer_toString listed))"

section \<open>When validation succeeds\<close>

lemma each_ok [simp]: "each f xs = Inr () \<longleftrightarrow> (\<forall>x \<in> set xs. f x = Inr ())"
  by (induction xs) auto

lemma unique_ids_ok [simp]:
  "validateUniqueIds label ids is = Inr () \<longleftrightarrow> distinct is \<and> set is \<inter> ids = {}"
  by (induction "is" arbitrary: ids) auto

fun refersTo :: "TypeRef \<Rightarrow> string option" where
  "refersTo (ArrayRef t) = refersTo t"
| "refersTo (NamedRef path) = Some path"
| "refersTo _ = None"

lemma type_ref_ok [simp]:
  "validateTypeRef paths t = Inr () \<longleftrightarrow> (\<forall>path. refersTo t = Some path \<longrightarrow> path \<in> paths)"
  by (induction t) auto

lemma fields_ok [simp]:
  "validateFields paths label listed = Inr () \<longleftrightarrow>
   distinct (map fd_id listed) \<and> (\<forall>field \<in> set listed. validateTypeRef paths (fd_type field) = Inr ())"
  by (simp add: validateFields_def)

text \<open>The types a declaration mentions, and the lists of numbers in it that must differ.\<close>

fun mentionedTypes :: "'s Declaration \<Rightarrow> TypeRef list" where
  "mentionedTypes (ProcDecl d) = [pd_requestType d, pd_responseType d, pd_errorType d]"
| "mentionedTypes (StructDecl d) = map fd_type (sd_fields d)"
| "mentionedTypes (EnumDecl d) = []"
| "mentionedTypes (UnionDecl d) = concat (map (\<lambda>variant. map fd_type (uv_fields variant)) (ud_variants d))"

fun numberings :: "'s Declaration \<Rightarrow> nat list list" where
  "numberings (ProcDecl d) = []"
| "numberings (StructDecl d) = [map fd_id (sd_fields d)]"
| "numberings (EnumDecl d) = [map ev_id (ed_variants d)]"
| "numberings (UnionDecl d) =
     map uv_id (ud_variants d) # map (\<lambda>variant. map fd_id (uv_fields variant)) (ud_variants d)"

lemma declaration_ok:
  "validateDeclaration paths d = Inr () \<longleftrightarrow>
   (\<forall>numbers \<in> set (numberings d). distinct numbers) \<and>
   (\<forall>t \<in> set (mentionedTypes d). \<forall>path. refersTo t = Some path \<longrightarrow> path \<in> paths)"
  by (cases d) (auto simp del: type_ref_ok simp add: type_ref_ok)

section \<open>The map of the declarations\<close>

lemma declared_in_fold:
  "map_of (foldl (\<lambda>m d. case declarationPath d of None \<Rightarrow> m | Some path \<Rightarrow> put path d m) m schema) path = Some d \<Longrightarrow>
   (d \<in> set schema \<and> declarationPath d = Some path) \<or> map_of m path = Some d"
proof (induction schema arbitrary: m)
  case (Cons e schema)
  show ?case
  proof (cases "declarationPath e")
    case None
    with Cons.IH [of m] Cons.prems show ?thesis by auto
  next
    case (Some p)
    with Cons.IH [of "put p e m"] Cons.prems show ?thesis by (auto split: if_splits)
  qed
qed simp

lemma declared:
  "map_of (declarationMap schema) path = Some d \<Longrightarrow> d \<in> set schema \<and> declarationPath d = Some path"
  using declared_in_fold [of "[]" schema path d] by (simp add: declarationMap_def)

lemma dom_fold:
  "dom (map_of (foldl (\<lambda>m d. case declarationPath d of None \<Rightarrow> m | Some path \<Rightarrow> put path d m) m schema)) =
   dom (map_of m) \<union> schemaPaths schema"
proof (induction schema arbitrary: m)
  case (Cons e schema)
  then show ?case by (cases "declarationPath e") (auto simp: schemaPaths_def List.map_filter_simps)
qed (simp add: schemaPaths_def List.map_filter_simps)

lemma dom_declarationMap: "dom (map_of (declarationMap schema)) = schemaPaths schema"
  using dom_fold [of "[]" schema] by (simp add: declarationMap_def)

lemma keys_put: "map fst (put k v m) = (if k \<in> set (map fst m) then map fst m else map fst m @ [k])"
  by (induction m) (force simp: image_iff)+

lemma distinct_declarationMap: "distinct (map fst (declarationMap schema))"
proof -
  have "distinct (map fst m) \<Longrightarrow>
    distinct (map fst (foldl (\<lambda>m d. case declarationPath d of None \<Rightarrow> m | Some path \<Rightarrow> put path d m) m schema))" for m
  proof (induction schema arbitrary: m)
    case (Cons e schema)
    show ?case
    proof (cases "declarationPath e")
      case None
      with Cons show ?thesis by simp
    next
      case (Some p)
      then show ?thesis using Cons.IH [of "put p e m"] Cons.prems by (simp add: keys_put)
    qed
  qed simp
  from this [of "[]"] show ?thesis by (simp add: declarationMap_def)
qed

lemma card_declarationMap: "card (dom (map_of (declarationMap schema))) = length (declarationMap schema)"
  using distinct_card [OF distinct_declarationMap [of schema]] by (simp add: dom_map_of_conv_image_fst)

lemma getNamed_known:
  assumes "path \<in> schemaPaths schema"
  shows "\<exists>d \<in> set schema. getNamed (NamedRef path) (declarationMap schema) = Inr d \<and> \<not> isProc d \<and>
    map_of (declarationMap schema) path = Some d"
proof -
  from assms obtain d where d: "map_of (declarationMap schema) path = Some d"
    using dom_declarationMap [of schema] by blast
  from declared [OF d] have "d \<in> set schema" "\<not> isProc d" by (cases d; auto)+
  with d show ?thesis by auto
qed

end
