(* ===== verification/CodegenText.thy ===== *)
theory CodegenText
  imports CodegenSchema
begin

text \<open>
  What holds of the text a generator writes, by the structure of the calls it makes on the writer: whether they
  all succeed (\<open>writes\<close>), and how they change the brackets that are open (\<open>nest\<close>). Both are computed from the
  emitters by rewriting.
\<close>

section \<open>Calls that succeed\<close>

definition succeeds :: "'a result \<Rightarrow> bool" where
  "succeeds r \<longleftrightarrow> (\<exists>a. r = Inr a)"

lemma succeeds_simps [simp]: "succeeds (Inr a)" "\<not> succeeds (Inl e)" "\<not> succeeds (throw m)"
  by (simp_all add: succeeds_def throw_def)

fun writes :: "code \<Rightarrow> bool" where
  "writes (Line text) \<longleftrightarrow> succeeds text"
| "writes (Indent cs) \<longleftrightarrow> list_all writes cs"
| "writes (Block cs) \<longleftrightarrow> list_all writes cs"

lemma emap_succeeds: "succeeds (emap f xs) \<longleftrightarrow> list_all (\<lambda>x. succeeds (f x)) xs"
proof (induction xs)
  case (Cons x xs)
  then show ?case by (cases "f x"; cases "emap f xs") auto
qed simp

lemma emap_all: "emap f xs = Inr ys \<Longrightarrow> (\<And>x y. f x = Inr y \<Longrightarrow> P y) \<Longrightarrow> list_all P ys"
  by (induction xs arbitrary: ys) auto

lemma ebind_succeeds: "succeeds (ebind x f) \<longleftrightarrow> (\<exists>a. x = Inr a \<and> succeeds (f a))"
  by (cases x) auto

lemma writes_iff: "succeeds (write_code step indentation c) \<longleftrightarrow> writes c"
proof (induction step indentation c rule: write_code.induct)
  case (1 step indentation t)
  then show ?case by (cases t) auto
next
  case (2 step indentation cs)
  then have "succeeds (emap (write_code step (indentation @ step)) cs) \<longleftrightarrow> list_all writes cs"
    by (auto simp: emap_succeeds list_all_iff)
  then show ?case by (cases "emap (write_code step (indentation @ step)) cs") auto
next
  case (3 step indentation cs)
  then have "succeeds (emap (write_code step indentation) cs) \<longleftrightarrow> list_all writes cs"
    by (auto simp: emap_succeeds list_all_iff)
  then show ?case by (cases "emap (write_code step indentation) cs") auto
qed

lemma written_ok: "list_all writes cs \<Longrightarrow> \<exists>text. written step cs = Inr text"
  using writes_iff [of step "[]" "Block cs"] unfolding written_def
  by (cases "write_code step [] (Block cs)") auto

lemma written_writes: "succeeds (written step cs) \<Longrightarrow> writes (Block cs)"
  using writes_iff [of step "[]" "Block cs"] unfolding written_def ebind_succeeds by (auto simp: succeeds_def)

lemma cat_succeeds [simp]: "succeeds (cat parts) \<longleftrightarrow> list_all succeeds parts"
proof -
  have "succeeds (emap (\<lambda>part. part) parts) \<longleftrightarrow> list_all succeeds parts" by (simp add: emap_succeeds)
  then show ?thesis by (cases "emap (\<lambda>part. part) parts") (auto simp: cat_def)
qed

lemma list_all_map [simp]: "list_all P (map f xs) \<longleftrightarrow> list_all (\<lambda>x. P (f x)) xs"
  by (simp add: list_all_iff)

section \<open>Brackets\<close>

text \<open>The brackets that are open after a text, from those open before it; \<open>None\<close> when one is closed that is not
  the last one opened.\<close>

fun pop :: "char \<Rightarrow> char list \<Rightarrow> char list option" where
  "pop c (d # st) = (if c = d then Some st else None)"
| "pop c [] = None"

fun scan :: "string \<Rightarrow> char list \<Rightarrow> char list option" where
  "scan [] st = Some st"
| "scan (c # cs) st =
     (if c = CHR ''('' \<or> c = CHR ''['' \<or> c = CHR ''{'' then scan cs (c # st)
      else if c = CHR '')'' then Option.bind (pop (CHR ''('') st) (scan cs)
      else if c = CHR '']'' then Option.bind (pop (CHR ''['') st) (scan cs)
      else if c = CHR ''}'' then Option.bind (pop (CHR ''{'') st) (scan cs)
      else scan cs st)"

definition bracket :: "char \<Rightarrow> bool" where
  "bracket c \<longleftrightarrow> c \<in> set ''()[]{}''"

definition plain :: "string \<Rightarrow> bool" where
  "plain s \<longleftrightarrow> list_all (\<lambda>c. \<not> bracket c) s"

lemma scan_append [simp]: "scan (s @ t) st = Option.bind (scan s st) (scan t)"
  by (induction s arbitrary: st) (auto split: Option.bind_splits)

lemma scan_plain: "plain s \<Longrightarrow> scan s st = Some st"
  by (induction s) (auto simp: plain_def bracket_def)

lemma plain_simps [simp]:
  "plain []" "plain (c # s) \<longleftrightarrow> \<not> bracket c \<and> plain s" "plain (s @ t) \<longleftrightarrow> plain s \<and> plain t"
  by (auto simp: plain_def)

lemma plain_map: "plain s \<Longrightarrow> (\<And>c. \<not> bracket c \<Longrightarrow> \<not> bracket (f c)) \<Longrightarrow> plain (map f s)"
  by (auto simp: plain_def list_all_iff)

lemma plain_subset: "plain s \<Longrightarrow> set t \<subseteq> set s \<Longrightarrow> plain t"
  by (auto simp: plain_def list_all_iff)

lemma bracket_code: "bracket c \<longleftrightarrow> (of_char c :: nat) \<in> {40, 41, 91, 93, 123, 125}"
proof -
  have "(of_char c :: nat) = n \<longleftrightarrow> c = char_of n" if "n < 256" for n :: nat
    using that by (auto simp: char_of_eq_iff)
  moreover have "char_of (40 :: nat) = CHR ''(''" "char_of (41 :: nat) = CHR '')''" "char_of (91 :: nat) = CHR ''[''"
    "char_of (93 :: nat) = CHR '']''" "char_of (123 :: nat) = CHR ''{''" "char_of (125 :: nat) = CHR ''}''" by code_simp+
  ultimately show ?thesis by (simp add: bracket_def)
qed

lemma not_bracket_lower: "\<not> bracket c \<Longrightarrow> \<not> bracket (lower_char c)"
  unfolding bracket_code lower_char_def Let_def using nat_of_char_less_256 [of c] by (auto simp: of_char_of)

lemma plain_show_nat [simp]: "plain (show_nat n)"
proof (induction n rule: show_nat.induct)
  case (1 n)
  have "\<not> bracket (char_of (48 + d))" if "d < 10" for d :: nat
    using that unfolding bracket_code by (auto simp: of_char_of)
  with 1 show ?case by (subst show_nat.simps) (auto simp: plain_def)
qed

lemma scan_show_nat [simp]: "scan (show_nat n) st = Some st"
  by (simp add: scan_plain)

lemma plain_localTypeName: "plain s \<Longrightarrow> plain (localTypeName s)"
  by (simp add: localTypeName_def Let_def plain_subset [OF _ set_drop_subset])

lemma scan_join:
  "(\<And>s st. s \<in> set ss \<Longrightarrow> scan s st = Some st) \<Longrightarrow> plain sep \<Longrightarrow> scan (join sep ss) st = Some st"
  by (induction sep ss rule: join.induct) (auto simp: scan_plain)

section \<open>Brackets of what is written\<close>

fun nest :: "code \<Rightarrow> char list \<Rightarrow> char list option"
  and nest_all :: "code list \<Rightarrow> char list \<Rightarrow> char list option" where
  "nest (Line text) st = (case text of Inl err \<Rightarrow> Some st | Inr s \<Rightarrow> scan s st)"
| "nest (Indent cs) st = nest_all cs st"
| "nest (Block cs) st = nest_all cs st"
| "nest_all [] st = Some st"
| "nest_all (c # cs) st = Option.bind (nest c st) (nest_all cs)"

lemma nest_written:
  "write_code step indentation c = Inr ls \<Longrightarrow> plain step \<Longrightarrow> plain indentation \<Longrightarrow> scan (concat ls) st = nest c st"
  "emap (write_code step indentation) cs = Inr lss \<Longrightarrow> plain step \<Longrightarrow> plain indentation \<Longrightarrow>
   scan (concat (concat lss)) st = nest_all cs st"
proof (induction c st and cs st arbitrary: indentation ls and indentation lss rule: nest_nest_all.induct)
  case (1 t st)
  then show ?case by (cases t) (auto simp: scan_plain)
next
  case (5 c cs st)
  from 5(3) obtain l ls' where l: "write_code step indentation c = Inr l" "emap (write_code step indentation) cs = Inr ls'"
    "lss = l # ls'" by auto
  have "scan (concat l) st = nest c st" using 5(1) l(1) 5(4,5) by blast
  then show ?case using 5(2) l 5(4,5) by (cases "nest c st") auto
qed auto

lemma scan_toString: "scan (Writer_toString ls) st = scan (concat ls) st"
proof -
  have nl: "scan [CHR 0x0A] st = Some st" for st by simp
  have "scan (join [CHR 0x0A] ls) st = scan (concat ls) st"
  proof (induction "[CHR 0x0A]" ls arbitrary: st rule: join.induct)
    case (3 x y zs)
    then show ?case by (simp add: 3 cong: Option.bind_cong)
  qed simp_all
  then show ?thesis unfolding Writer_toString_def by (cases "scan (concat ls) st") simp_all
qed

lemma written_nests:
  "written step cs = Inr text \<Longrightarrow> plain step \<Longrightarrow> scan text st = nest_all cs st"
  unfolding written_def using nest_written(1) [of step "[]" "Block cs" _ st] by (auto simp: scan_toString)

lemma nest_map:
  "(\<And>x st. x \<in> set xs \<Longrightarrow> nest (f x) st = Some st) \<Longrightarrow> nest_all (map f xs) st = Some st"
  by (induction xs) auto

text \<open>A line made of parts that do not change what is open, and literals that do not together.\<close>

lemma cat_Inr: "cat [] = Inr []" "cat (Inr s # parts) = ebind (cat parts) (\<lambda>t. Inr (s @ t))"
  by (simp_all add: cat_def ebind_assoc)

lemma cat_Inl: "cat (Inl e # parts) = Inl e"
  by (simp add: cat_def)

lemmas cat_simps = cat_Inr cat_Inl

lemma nest_ln [simp]: "nest (Line (Inr s)) st = scan s st"
  by simp

declare nest.simps(1) [simp del]

section \<open>Schemas whose names are free of brackets\<close>

definition plain_type :: "TypeRef \<Rightarrow> bool" where
  "plain_type t \<longleftrightarrow> (\<forall>path. refersTo t = Some path \<longrightarrow> plain path)"

lemma plain_type_simps [simp]:
  "plain_type (NamedRef path) \<longleftrightarrow> plain path" "plain_type (ArrayRef t) \<longleftrightarrow> plain_type t" "plain_type VoidRef"
  "plain_type (PrimitiveRef p)"
  by (auto simp: plain_type_def)

definition plain_fields :: "FieldDeclaration list \<Rightarrow> bool" where
  "plain_fields listed \<longleftrightarrow> list_all (\<lambda>field. plain (fd_name field) \<and> plain_type (fd_type field)) listed"

fun plain_declaration :: "'s Declaration \<Rightarrow> bool" where
  "plain_declaration (ProcDecl d) \<longleftrightarrow> plain (pd_name d) \<and> list_all plain_type (mentionedTypes (ProcDecl d))"
| "plain_declaration (StructDecl d) \<longleftrightarrow> plain (sd_name d) \<and> plain_fields (sd_fields d)"
| "plain_declaration (EnumDecl d) \<longleftrightarrow> plain (ed_name d) \<and> list_all (\<lambda>v. plain (ev_name v)) (ed_variants d)"
| "plain_declaration (UnionDecl d) \<longleftrightarrow>
     plain (ud_name d) \<and> list_all (\<lambda>v. plain (uv_name v) \<and> plain_fields (uv_fields v)) (ud_variants d)"

definition plain_named :: "'s named \<Rightarrow> bool" where
  "plain_named named \<longleftrightarrow> (\<forall>path d. map_of named path = Some d \<longrightarrow> plain_declaration d)"

lemma plain_declarationName: "plain_declaration d \<Longrightarrow> plain (declarationName d)"
  by (cases d) auto

lemma plain_getNamed_declaration: "plain_named named \<Longrightarrow> getNamed t named = Inr d \<Longrightarrow> plain_declaration d"
  unfolding plain_named_def by (cases t) (auto split: option.splits if_splits simp del: plain_declaration.simps)

lemma plain_getNamed: "plain_named named \<Longrightarrow> getNamed t named = Inr d \<Longrightarrow> plain (declarationName d)"
  by (cases t) (auto simp: plain_named_def plain_declarationName split: option.splits if_splits)

lemma plain_declarationMap: "list_all plain_declaration schema \<Longrightarrow> plain_named (declarationMap schema)"
  using declared [of schema] by (auto simp: plain_named_def list_all_iff)

lemma plain_fieldsD:
  "plain_fields listed \<Longrightarrow> field \<in> set listed \<Longrightarrow> plain (fd_name field) \<and> plain_type (fd_type field)"
  by (simp add: plain_fields_def list_all_iff)

lemma first_of_Inr: "first_of xs = Inr x \<Longrightarrow> x \<in> set xs"
  by (auto simp: first_of_def split: list.splits)

lemma set_sortedProcs: "set (sortedProcs schema) = set (procsOf schema)"
  by (simp add: sortedProcs_def)

lemma procsOf_iff: "p \<in> set (procsOf schema) \<longleftrightarrow> ProcDecl p \<in> set schema"
  by (induction schema rule: procsOf.induct) auto

section \<open>References that resolve\<close>

text \<open>An enumeration or union that is not empty.\<close>

fun inhabited :: "'s Declaration \<Rightarrow> bool" where
  "inhabited (EnumDecl d) \<longleftrightarrow> ed_variants d \<noteq> []"
| "inhabited (UnionDecl d) \<longleftrightarrow> ud_variants d \<noteq> []"
| "inhabited _ \<longleftrightarrow> True"

definition resolves :: "'s named \<Rightarrow> TypeRef \<Rightarrow> bool" where
  "resolves named t \<longleftrightarrow>
     (\<forall>path. refersTo t = Some path \<longrightarrow> (\<exists>d. getNamed (NamedRef path) named = Inr d \<and> inhabited d))"

lemma resolves_simps [simp]:
  "resolves named (ArrayRef t) \<longleftrightarrow> resolves named t" "resolves named VoidRef" "resolves named (PrimitiveRef p)"
  by (simp_all add: resolves_def)

lemma resolves_named: "resolves named (NamedRef path) \<Longrightarrow> \<exists>d. getNamed (NamedRef path) named = Inr d \<and> inhabited d"
  by (simp add: resolves_def)

lemma resolves_validated:
  assumes "each (validateDeclaration (schemaPaths schema)) schema = Inr ()" "list_all inhabited schema"
    and "d \<in> set schema" "t \<in> set (mentionedTypes d)"
  shows "resolves (declarationMap schema) t"
  unfolding resolves_def
proof (intro allI impI)
  fix path
  assume "refersTo t = Some path"
  with assms(1,3,4) have "path \<in> schemaPaths schema" by (auto simp: declaration_ok)
  from getNamed_known [OF this] assms(2) show "\<exists>d. getNamed (NamedRef path) (declarationMap schema) = Inr d \<and> inhabited d"
    by (auto simp: list_all_iff simp del: getNamed.simps)
qed

lemma succeeds_ebind: "x = Inr a \<Longrightarrow> succeeds (ebind x f) \<longleftrightarrow> succeeds (f a)"
  by simp

lemma first_of_succeeds [simp]: "xs \<noteq> [] \<Longrightarrow> first_of xs = Inr (hd xs)"
  by (cases xs) (auto simp: first_of_def)

end
