(* ===== verification/CodegenTypeScript.thy ===== *)
theory CodegenTypeScript
  imports CodegenSchema
begin

text \<open>
  The generator of the TypeScript codecs and client, \<open>scripts/codegen/typescript/main.ts\<close>: from a schema to the
  text of \<open>generated/wire.ts\<close>, \<open>generated/rpc.ts\<close> and \<open>generated/client.ts\<close>. Reading and writing files is
  outside.
\<close>

section \<open>The command line\<close>

datatype CodegenStandard = StandardWire | StandardRpc

record CliOptions =
  cborImport :: string
  generatedImport :: string
  out_file :: "string option"
  rpcClientOut :: "string option"
  rpcRuntimeImport :: string
  schemaRoots :: "string list"
  standard :: "CodegenStandard option"

definition parseStandard :: "string \<Rightarrow> CodegenStandard result" where
  "parseStandard value =
     (if value = ''wire'' then Inr StandardWire
      else if value = ''rpc'' then Inr StandardRpc
      else throw (''unknown standard '' @ value))"

function parseCliArgs :: "string list \<Rightarrow> CliOptions \<Rightarrow> CliOptions cli result" where
  "parseCliArgs [] options =
     (if length (schemaRoots options) = 0 then throw ''at least one --schema is required'' else Inr (CliRun options))"
| "parseCliArgs (arg # args) options =
     (if arg = ''--out'' then
        ebind (requiredArg args arg) (\<lambda>(value, rest). parseCliArgs rest (options\<lparr>out_file := Some value\<rparr>))
      else if arg = ''--rpc-client-out'' then
        ebind (requiredArg args arg) (\<lambda>(value, rest). parseCliArgs rest (options\<lparr>rpcClientOut := Some value\<rparr>))
      else if arg = ''--cbor-import'' then
        ebind (requiredArg args arg) (\<lambda>(value, rest). parseCliArgs rest (options\<lparr>cborImport := value\<rparr>))
      else if arg = ''--generated-import'' then
        ebind (requiredArg args arg) (\<lambda>(value, rest). parseCliArgs rest (options\<lparr>generatedImport := value\<rparr>))
      else if arg = ''--rpc-runtime-import'' then
        ebind (requiredArg args arg) (\<lambda>(value, rest). parseCliArgs rest (options\<lparr>rpcRuntimeImport := value\<rparr>))
      else if arg = ''--schema'' then
        ebind (requiredArg args arg) (\<lambda>(value, rest).
          parseCliArgs rest (options\<lparr>schemaRoots := schemaRoots options @ [value]\<rparr>))
      else if arg = ''--standard'' then
        ebind (requiredArg args arg) (\<lambda>(value, rest).
          ebind (parseStandard value) (\<lambda>s. parseCliArgs rest (options\<lparr>standard := Some s\<rparr>)))
      else if arg = ''--help'' \<or> arg = ''-h'' then Inr CliHelp
      else if startsWith arg ''-'' then throw (''unknown option '' @ arg)
      else parseCliArgs args (options\<lparr>schemaRoots := schemaRoots options @ [arg]\<rparr>))"
  by pat_completeness auto

termination
  by (relation "measure (\<lambda>(args, options). length args)") (auto dest!: requiredArg_shorter)

definition parseCli :: "string list \<Rightarrow> CliOptions cli result" where
  "parseCli args = parseCliArgs args
     \<lparr>cborImport = ''./cbor.ts'', generatedImport = ''./generated.ts'', out_file = None, rpcClientOut = None,
      rpcRuntimeImport = ''./client.ts'', schemaRoots = [], standard = None\<rparr>"

section \<open>The schema\<close>

text \<open>Names and paths of the declarations other than procedures; names must differ.\<close>

fun validateNames :: "string set \<Rightarrow> string Schema \<Rightarrow> unit result" where
  "validateNames names [] = Inr ()"
| "validateNames names (d # schema) =
     (if isProc d then validateNames names schema
      else if declarationName d \<in> names then throw (''duplicate declaration '' @ declarationName d)
      else validateNames (insert (declarationName d) names) schema)"

definition validateSchema :: "string Schema \<Rightarrow> unit result" where
  "validateSchema schema =
     ebind (validateNames {} schema) (\<lambda>_. each (validateDeclaration (schemaPaths schema)) schema)"

definition tsSchemaFromIr :: "bdl_ir \<Rightarrow> string Schema result" where
  "tsSchemaFromIr = schemaFromIr ''TypeScript'' ''TypeScript codegen does not support dictionary fields yet''
     (\<lambda>attrs label. requiredAttribute attrs ''stream'' label) validateSchema"

definition inferStandard :: "string Schema \<Rightarrow> CodegenStandard" where
  "inferStandard schema = (if length (sortedProcs schema) > 0 then StandardRpc else StandardWire)"

section \<open>Names, types and expressions\<close>

definition lowerCamel :: "string \<Rightarrow> string" where
  "lowerCamel name = map lower_char (take 1 name) @ drop 1 name"

fun tsType :: "TypeRef \<Rightarrow> string" where
  "tsType VoidRef = ''undefined''"
| "tsType (ArrayRef t) = tsType t @ ''[]''"
| "tsType (PrimitiveRef p) =
     (case p of TypeString \<Rightarrow> ''string'' | TypeBool \<Rightarrow> ''boolean'' | TypeBytes \<Rightarrow> ''Uint8Array'' | _ \<Rightarrow> ''number'')"
| "tsType (NamedRef path) = localTypeName path"

fun primitiveName :: "PrimitiveTypeName \<Rightarrow> string" where
  "primitiveName TypeU53 = ''u53''"
| "primitiveName TypeI53 = ''i53''"
| "primitiveName TypeF64 = ''f64''"
| "primitiveName TypeString = ''string''"
| "primitiveName TypeBool = ''bool''"
| "primitiveName TypeBytes = ''bytes''"

fun typeName :: "TypeRef \<Rightarrow> string named \<Rightarrow> string result" where
  "typeName VoidRef named = Inr ''void''"
| "typeName (ArrayRef t) named = cat [typeName t named, lit ''[]'']"
| "typeName (NamedRef path) named = ebind (getNamed (NamedRef path) named) (\<lambda>d. Inr (declarationName d))"
| "typeName (PrimitiveRef p) named = Inr (primitiveName p)"

fun encodeExpr :: "string \<Rightarrow> TypeRef \<Rightarrow> string named \<Rightarrow> string result" where
  "encodeExpr valueExpr VoidRef named = Inr ''null''"
| "encodeExpr valueExpr (ArrayRef t) named =
     cat [lit valueExpr, lit ''.map((item) => '', encodeExpr ''item'' t named, lit '')'']"
| "encodeExpr valueExpr (PrimitiveRef p) named =
     Inr ((case p of TypeU53 \<Rightarrow> ''u53('' | TypeI53 \<Rightarrow> ''i53('' | TypeF64 \<Rightarrow> ''f64('' | TypeString \<Rightarrow> ''text(''
           | TypeBool \<Rightarrow> ''bool('' | TypeBytes \<Rightarrow> ''bytes('') @ valueExpr @ '')'')"
| "encodeExpr valueExpr (NamedRef path) named =
     ebind (getNamed (NamedRef path) named) (\<lambda>d. Inr (''encode'' @ declarationName d @ ''Value('' @ valueExpr @ '')''))"

fun decodeExpr :: "string \<Rightarrow> TypeRef \<Rightarrow> string named \<Rightarrow> string result" where
  "decodeExpr valueExpr VoidRef named = Inr ''undefined''"
| "decodeExpr valueExpr (ArrayRef t) named =
     cat [lit ''array('', lit valueExpr, lit '').map((item) => '', decodeExpr ''item'' t named, lit '')'']"
| "decodeExpr valueExpr (PrimitiveRef p) named =
     Inr ((case p of TypeU53 \<Rightarrow> ''integer('' | TypeI53 \<Rightarrow> ''integer('' | TypeF64 \<Rightarrow> ''f64Value('' | TypeString \<Rightarrow> ''textValue(''
           | TypeBool \<Rightarrow> ''boolValue('' | TypeBytes \<Rightarrow> ''bytesValue('') @ valueExpr @ '')'')"
| "decodeExpr valueExpr (NamedRef path) named =
     ebind (getNamed (NamedRef path) named) (\<lambda>d. Inr (''decode'' @ declarationName d @ ''Value('' @ valueExpr @ '')''))"

fun defaultExpr :: "TypeRef \<Rightarrow> string named \<Rightarrow> string result" where
  "defaultExpr VoidRef named = Inr ''undefined''"
| "defaultExpr (ArrayRef t) named = Inr ''[]''"
| "defaultExpr (PrimitiveRef p) named =
     Inr (case p of TypeString \<Rightarrow> ''\"\"'' | TypeBool \<Rightarrow> ''false'' | TypeBytes \<Rightarrow> ''new Uint8Array()'' | _ \<Rightarrow> ''0'')"
| "defaultExpr (NamedRef path) named =
     ebind (getNamed (NamedRef path) named) (\<lambda>d.
       case d of
         EnumDecl e \<Rightarrow> ebind (first_of (ed_variants e)) (\<lambda>v. Inr (ed_name e @ ''.'' @ ev_name v))
       | _ \<Rightarrow> Inr (''default'' @ declarationName d @ ''()''))"

definition procCodecName :: "string ProcDeclaration \<Rightarrow> string" where
  "procCodecName proc = lowerCamel (pd_name proc) @ ''Proc''"

datatype direction = Encode | Decode

fun procCodecFunction :: "direction \<Rightarrow> TypeRef \<Rightarrow> string named \<Rightarrow> string result" where
  "procCodecFunction dir VoidRef named = Inr (if dir = Encode then ''encodeVoidValue'' else ''decodeVoidValue'')"
| "procCodecFunction dir (NamedRef path) named =
     ebind (getNamed (NamedRef path) named) (\<lambda>d.
       Inr ((if dir = Encode then ''encode'' else ''decode'') @ declarationName d @ ''Value''))"
| "procCodecFunction dir t named =
     (if dir = Encode then cat [lit ''(value) => '', encodeExpr ''value'' t named]
      else cat [lit ''(value) => '', decodeExpr ''value'' t named])"

definition decodeFieldExpr :: "FieldDeclaration \<Rightarrow> string named \<Rightarrow> string result" where
  "decodeFieldExpr field named =
     (let access = ''fields.get('' @ show_nat (fd_id field) @ '')'' in
      if fd_optional field then
        cat [lit ''optionalField('', lit access, lit '', (value) => '', decodeExpr ''value'' (fd_type field) named, lit '')'']
      else
        cat [lit ''fieldOrDefault('', lit access, lit '', (value) => '', decodeExpr ''value'' (fd_type field) named,
          lit '', () => '', defaultExpr (fd_type field) named, lit '')''])"

section \<open>Type declarations\<close>

definition union_variant_fields :: "UnionVariantDeclaration \<Rightarrow> string list" where
  "union_variant_fields variant =
     (''type: \"'' @ lowerCamel (uv_name variant) @ ''\"'') #
     map (\<lambda>field. fd_name field @ (if fd_optional field then ''?'' else []) @ '': '' @ tsType (fd_type field))
       (uv_fields variant)"

fun emitTypeDeclaration :: "string Declaration \<Rightarrow> code" where
  "emitTypeDeclaration (StructDecl declaration) =
     Block [
    ln (''export interface '' @ sd_name declaration @ '' {''),
    Indent [Block (map (\<lambda>field. ln (fd_name field @ (if fd_optional field then ''?'' else []) @ '': '' @ tsType (fd_type field) @ '';'')) (sd_fields declaration))],
    ln ''}'']"
| "emitTypeDeclaration (EnumDecl declaration) =
     Block [
    ln (''export enum '' @ ed_name declaration @ '' {''),
    Indent [Block (map (\<lambda>variant. ln (ev_name variant @ '' = '' @ show_nat (ev_id variant) @ '','')) (ed_variants declaration))],
    ln ''}'']"
| "emitTypeDeclaration (UnionDecl declaration) =
     Block [
       ln (''export type '' @ ud_name declaration @ '' =''),
       Indent [Block (map (\<lambda>variant.
         ln (''| { '' @ join ''; '' (union_variant_fields variant) @ '' }'')) (ud_variants declaration))],
       ln '';'']"
| "emitTypeDeclaration (ProcDecl declaration) = Block []"

section \<open>Codecs\<close>

definition emitEncodeField ::
    "FieldDeclaration \<Rightarrow> string \<Rightarrow> string \<Rightarrow> string named \<Rightarrow> code" where
  "emitEncodeField field valueExpr label named =
     (if fd_optional field then Line (cat [lit ''if ('', lit valueExpr, lit '' !== undefined) fields.set('', lit (show_nat (fd_id field)), lit '', '', encodeExpr valueExpr (fd_type field) named, lit '');''])
    else Line (cat [lit ''fields.set('', lit (show_nat (fd_id field)), lit '', '', encodeExpr (''required('' @ valueExpr @ '', \"'' @ label @ ''\")'') (fd_type field) named, lit '');'']))"

definition emitStructCodec :: "StructDeclaration \<Rightarrow> string named \<Rightarrow> code" where
  "emitStructCodec declaration named =
     Block [
    ln (''export function encode'' @ sd_name declaration @ ''Value(value: '' @ sd_name declaration @ ''): CborValue {''),
    Indent [
      ln ''const fields = new Map<number, CborValue>();'',
      Block (map (\<lambda>field. emitEncodeField field (''value.'' @ fd_name field) (sd_name declaration @ ''.'' @ fd_name field) named) (sd_fields declaration)),
      ln ''return fields;''],
    ln ''}'',
    blank,
    ln (''export function decode'' @ sd_name declaration @ ''Value(value: CborValue): '' @ sd_name declaration @ '' {''),
    Indent [
      ln ''const fields = expectMap(value);'',
      ln ''return {'',
      Indent [Block (map (\<lambda>field. Line (cat [lit (fd_name field), lit '': '', decodeFieldExpr field named, lit '',''])) (sd_fields declaration))],
      ln ''};''],
    ln ''}'']"

definition emitEnumCodec :: "EnumDeclaration \<Rightarrow> code" where
  "emitEnumCodec declaration =
     (let allowed = join '', '' (map (\<lambda>variant. show_nat (ev_id variant)) (ed_variants declaration)) in
      Block [
    ln (''export function encode'' @ ed_name declaration @ ''Value(value: '' @ ed_name declaration @ ''): CborValue {''),
    Indent [ln ''return integer(value);''],
    ln ''}'',
    blank,
    ln (''export function decode'' @ ed_name declaration @ ''Value(value: CborValue): '' @ ed_name declaration @ '' {''),
    Indent [
      ln ''const id = integer(value);'',
      ln (''if (!['' @ allowed @ ''].includes(id)) throw new Error(`unknown '' @ ed_name declaration @ '' variant ${id}`);''),
      ln (''return id as '' @ ed_name declaration @ '';'')],
    ln ''}''])"

definition emitUnionCodec :: "UnionDeclaration \<Rightarrow> string named \<Rightarrow> code" where
  "emitUnionCodec declaration named =
     Block [
    ln (''export function encode'' @ ud_name declaration @ ''Value(value: '' @ ud_name declaration @ ''): CborValue {''),
    Indent [
      ln ''switch (value.type) {'',
      Indent [Block (map (\<lambda>variant. Block [
        ln (''case \"'' @ lowerCamel (uv_name variant) @ ''\": {''),
        Indent [
          ln ''const fields = new Map<number, CborValue>();'',
          Block (map (\<lambda>field. emitEncodeField field (''value.'' @ fd_name field) (ud_name declaration @ ''.'' @ uv_name variant @ ''.'' @ fd_name field) named) (uv_fields variant)),
          ln (''return ['' @ show_nat (uv_id variant) @ '', fields];'')],
        ln ''}'']) (ud_variants declaration))],
      ln ''}''],
    ln ''}'',
    blank,
    ln (''export function decode'' @ ud_name declaration @ ''Value(value: CborValue): '' @ ud_name declaration @ '' {''),
    Indent [
      ln ''const [variantId, fields] = expectUnion(value);'',
      ln ''switch (variantId) {'',
      Indent [Block (map (\<lambda>variant. Block [
        ln (''case '' @ show_nat (uv_id variant) @ '':''),
        Indent [
          ln ''return {'',
          Indent [
            ln (''type: \"'' @ lowerCamel (uv_name variant) @ ''\",''),
            Block (map (\<lambda>field. Line (cat [lit (fd_name field), lit '': '', decodeFieldExpr field named, lit '',''])) (uv_fields variant))],
          ln ''};'']]) (ud_variants declaration))],
      ln ''}'',
      ln (''throw new Error(`unknown '' @ ud_name declaration @ '' variant ${variantId}`);'')],
    ln ''}'']"

fun emitCodec :: "string Declaration \<Rightarrow> string named \<Rightarrow> code" where
  "emitCodec (StructDecl declaration) named = emitStructCodec declaration named"
| "emitCodec (EnumDecl declaration) named = emitEnumCodec declaration"
| "emitCodec (UnionDecl declaration) named = emitUnionCodec declaration named"
| "emitCodec (ProcDecl declaration) named = Block []"

text \<open>The default of a union is its first variant.\<close>

definition union_default :: "UnionDeclaration \<Rightarrow> string named \<Rightarrow> UnionVariantDeclaration \<Rightarrow> code" where
  "union_default declaration named variant =
     Block [
    blank,
    ln (''function default'' @ ud_name declaration @ ''(): '' @ ud_name declaration @ '' {''),
    Indent [
      ln ''return {'',
      Indent [
        ln (''type: \"'' @ lowerCamel (uv_name variant) @ ''\",''),
        Block (map (\<lambda>field. (if \<not> fd_optional field then Line (cat [lit (fd_name field), lit '': '', defaultExpr (fd_type field) named, lit '',''])
          else Block [])) (uv_fields variant))],
      ln ''};''],
    ln ''}'']"

fun emitDefaultFunction :: "string named \<Rightarrow> string Declaration \<Rightarrow> code" where
  "emitDefaultFunction named (StructDecl declaration) =
     Block [
    blank,
    ln (''function default'' @ sd_name declaration @ ''(): '' @ sd_name declaration @ '' {''),
    Indent [
      ln ''return {'',
      Indent [Block (map (\<lambda>field. (if \<not> fd_optional field then Line (cat [lit (fd_name field), lit '': '', defaultExpr (fd_type field) named, lit '',''])
        else Block [])) (sd_fields declaration))],
      ln ''};''],
    ln ''}'']"
| "emitDefaultFunction named (UnionDecl declaration) =
     (case first_of (ud_variants declaration) of
        Inl err \<Rightarrow> Line (Inl err) | Inr variant \<Rightarrow> union_default declaration named variant)"
| "emitDefaultFunction named _ = Block []"

definition emitDefaultFunctions :: "string Schema \<Rightarrow> string named \<Rightarrow> code" where
  "emitDefaultFunctions schema named = Block (map (emitDefaultFunction named) schema)"

section \<open>Procedures\<close>

definition emitProcIds :: "string Schema \<Rightarrow> code" where
  "emitProcIds schema =
     Block [
    ln ''export enum ProcId {'',
    Indent [Block (map (\<lambda>proc. ln (pd_name proc @ '' = '' @ show_nat (pd_id proc) @ '','')) (sortedProcs schema))],
    ln ''}'']"

definition emitProcCodecs :: "string Schema \<Rightarrow> string named \<Rightarrow> code" where
  "emitProcCodecs schema named =
     (let procs = sortedProcs schema in
      if length procs = 0 then Block []
      else Block [
    blank,
    ln ''export interface ProcCodec<Request, Response, ErrorPayload> {'',
    Indent [
      ln ''id: ProcId;'',
      ln ''name: string;'',
      ln ''stream: string;'',
      ln ''requestType: string;'',
      ln ''responseType: string;'',
      ln ''errorType: string;'',
      ln ''encodeRequest(value: Request): CborValue;'',
      ln ''decodeResponse(value: CborValue): Response;'',
      ln ''decodeError(value: CborValue): ErrorPayload;''],
    ln ''}'',
    Block (map (\<lambda>proc. Block [
      blank,
      ln (''export const '' @ procCodecName proc @ '': ProcCodec<'' @ tsType (pd_requestType proc) @ '', '' @ tsType (pd_responseType proc) @ '', '' @ tsType (pd_errorType proc) @ ''> = {''),
      Indent [
        ln (''id: ProcId.'' @ pd_name proc @ '',''),
        ln (''name: \"'' @ pd_name proc @ ''\",''),
        ln (''stream: \"'' @ pd_stream proc @ ''\",''),
        Line (cat [lit ''requestType: \"'', typeName (pd_requestType proc) named, lit ''\",'']),
        Line (cat [lit ''responseType: \"'', typeName (pd_responseType proc) named, lit ''\",'']),
        Line (cat [lit ''errorType: \"'', typeName (pd_errorType proc) named, lit ''\",'']),
        Line (cat [lit ''encodeRequest: '', procCodecFunction Encode (pd_requestType proc) named, lit '','']),
        Line (cat [lit ''decodeResponse: '', procCodecFunction Decode (pd_responseType proc) named, lit '','']),
        Line (cat [lit ''decodeError: '', procCodecFunction Decode (pd_errorType proc) named, lit '',''])],
      ln ''};'']) (procs)),
    blank,
    ln ''export const procs = {'',
    Indent [Block (map (\<lambda>proc. ln (''[ProcId.'' @ pd_name proc @ '']: '' @ procCodecName proc @ '','')) (procs))],
    ln ''} as const;''])"

definition emitProcClientWrapper :: "string ProcDeclaration \<Rightarrow> code" where
  "emitProcClientWrapper proc =
     (let requestType = tsType (pd_requestType proc);
          responseType = tsType (pd_responseType proc);
          name = lowerCamel (pd_name proc);
          codec = procCodecName proc;
          requestIsVoid = (pd_requestType proc = VoidRef);
          params = (if requestIsVoid then ''transport: WebTransport''
            else ''transport: WebTransport, request: '' @ requestType);
          requestExpr = (if requestIsVoid then ''undefined'' else ''request'') in
      if pd_stream proc = ''unary'' then
        Block [
    ln (''export function '' @ name @ ''('' @ params @ ''): Promise<'' @ responseType @ ''> {''),
    Indent [ln (''return callUnary(transport, '' @ codec @ '', '' @ requestExpr @ '');'')],
    ln ''}'']
      else if pd_stream proc = ''server'' then
        Block [
    ln (''export function '' @ name @ ''('' @ params @ ''): AsyncGenerator<'' @ responseType @ ''> {''),
    Indent [ln (''return callServerStream(transport, '' @ codec @ '', '' @ requestExpr @ '');'')],
    ln ''}'']
      else if pd_stream proc = ''client'' then
        Block [
    ln (''export function '' @ name @ ''(transport: WebTransport, requests: RpcClientStream<'' @ requestType @ ''>): Promise<'' @ responseType @ ''> {''),
    Indent [ln (''return callClientStream(transport, '' @ codec @ '', requests);'')],
    ln ''}'']
      else Line (throw (''unsupported proc stream mode '' @ pd_stream proc)))"

section \<open>The helpers of every generated module\<close>

definition emitRuntimeHelpers :: code where
  "emitRuntimeHelpers =
     Block [
    blank,
    ln ''function encodeVoidValue(_value: undefined): CborValue {'',
    Indent [ln ''return null;''],
    ln ''}'',
    blank,
    ln ''function decodeVoidValue(_value: CborValue): undefined {'',
    Indent [ln ''return undefined;''],
    ln ''}'',
    blank,
    ln ''function expectMap(value: CborValue): Map<number, CborValue> {'',
    Indent [
      ln ''if (!(value instanceof Map)) throw new Error(\"expected CBOR map\");'',
      ln ''return value;''],
    ln ''}'',
    blank,
    ln ''function expectUnion(value: CborValue): [number, Map<number, CborValue>] {'',
    Indent [
      ln ''if (!Array.isArray(value) || value.length !== 2) throw new Error(\"expected CBOR union tuple\");'',
      ln ''return [integer(value[0]), expectMap(value[1])];''],
    ln ''}'',
    blank,
    ln ''function array(value: CborValue): CborValue[] {'',
    Indent [
      ln ''if (!Array.isArray(value)) throw new Error(\"expected CBOR array\");'',
      ln ''return value;''],
    ln ''}'',
    blank,
    ln ''function integer(value: CborValue): number {'',
    Indent [
      ln ''if (typeof value !== \"number\" || !Number.isSafeInteger(value)) throw new Error(\"expected CBOR integer\");'',
      ln ''return value;''],
    ln ''}'',
    blank,
    ln ''function f64Value(value: CborValue): number {'',
    Indent [
      ln ''if (typeof value !== \"object\" || value === null || !(\"type\" in value) || value.type !== \"f64\") throw new Error(\"expected CBOR f64\");'',
      ln ''return value.value;''],
    ln ''}'',
    blank,
    ln ''function textValue(value: CborValue): string {'',
    Indent [
      ln ''if (typeof value !== \"string\") throw new Error(\"expected CBOR text\");'',
      ln ''return value;''],
    ln ''}'',
    blank,
    ln ''function boolValue(value: CborValue): boolean {'',
    Indent [
      ln ''if (typeof value !== \"boolean\") throw new Error(\"expected CBOR bool\");'',
      ln ''return value;''],
    ln ''}'',
    blank,
    ln ''function bytesValue(value: CborValue): Uint8Array {'',
    Indent [
      ln ''if (!(value instanceof Uint8Array)) throw new Error(\"expected CBOR bytes\");'',
      ln ''return value;''],
    ln ''}'',
    blank,
    ln ''function optionalField<T>(value: CborValue | undefined, decode: (value: CborValue) => T): T | undefined {'',
    Indent [ln ''return value === undefined ? undefined : decode(value);''],
    ln ''}'',
    blank,
    ln ''function fieldOrDefault<T>(value: CborValue | undefined, decode: (value: CborValue) => T, fallback: () => T): T {'',
    Indent [ln ''return value === undefined ? fallback() : decode(value);''],
    ln ''}'',
    blank,
    ln ''function required<T>(value: T | undefined, label: string): T {'',
    Indent [
      ln ''if (value === undefined) throw new Error(`missing required field ${label}`);'',
      ln ''return value;''],
    ln ''}'',
    blank,
    ln ''function u53(value: number): CborValue {'',
    Indent [
      ln ''if (!Number.isSafeInteger(value) || value < 0) throw new Error(\"expected u53\");'',
      ln ''return value;''],
    ln ''}'',
    blank,
    ln ''function i53(value: number): CborValue {'',
    Indent [
      ln ''if (!Number.isSafeInteger(value)) throw new Error(\"expected i53\");'',
      ln ''return value;''],
    ln ''}'',
    blank,
    ln ''function f64(value: number): CborValue {'',
    Indent [ln ''return cborF64(value);''],
    ln ''}'',
    blank,
    ln ''function text(value: string): CborValue {'',
    Indent [
      ln ''if (typeof value !== \"string\") throw new Error(\"expected string\");'',
      ln ''return value;''],
    ln ''}'',
    blank,
    ln ''function bool(value: boolean): CborValue {'',
    Indent [
      ln ''if (typeof value !== \"boolean\") throw new Error(\"expected boolean\");'',
      ln ''return value;''],
    ln ''}'',
    blank,
    ln ''function bytes(value: Uint8Array): CborValue {'',
    Indent [
      ln ''if (!(value instanceof Uint8Array)) throw new Error(\"expected Uint8Array\");'',
      ln ''return value;''],
    ln ''}'']"

section \<open>The generated modules\<close>

text \<open>The declarations other than procedures.\<close>

definition types_of :: "string Schema \<Rightarrow> string Declaration list" where
  "types_of schema = filter (\<lambda>d. \<not> isProc d) schema"

definition emitSchemaCodecTypeScript :: "string Schema \<Rightarrow> CliOptions \<Rightarrow> bool \<Rightarrow> string result" where
  "emitSchemaCodecTypeScript schema options emitProcs =
     (let named = declarationMap schema in
      written ''  '' [
        ln ''// Generated by scripts/codegen/typescript/main.ts'',
        ln ''// Do not edit by hand.'',
        ln (''import { cborF64, type CborValue } from \"'' @ cborImport options @ ''\";''),
        blank,
        (if emitProcs then emitProcIds schema else Block []),
        Block (map (\<lambda>declaration. Block [blank, emitTypeDeclaration declaration]) (types_of schema)),
        (if emitProcs then emitProcCodecs schema named else Block []),
        Block (map (\<lambda>declaration. Block [blank, emitCodec declaration named]) (types_of schema)),
        emitDefaultFunctions schema named,
        emitRuntimeHelpers])"

definition emitWireTypeScript :: "string Schema \<Rightarrow> CliOptions \<Rightarrow> string result" where
  "emitWireTypeScript schema options =
     (if length (sortedProcs schema) > 0 then throw ''wire TypeScript codegen does not accept proc declarations''
      else emitSchemaCodecTypeScript schema options False)"

definition emitRpcTypeScript :: "string Schema \<Rightarrow> CliOptions \<Rightarrow> string result" where
  "emitRpcTypeScript schema options =
     (if length (sortedProcs schema) = 0 then throw ''rpc TypeScript codegen requires proc declarations''
      else emitSchemaCodecTypeScript schema options True)"

fun collectTypeImport :: "string named \<Rightarrow> TypeRef \<Rightarrow> string list result" where
  "collectTypeImport named VoidRef = Inr []"
| "collectTypeImport named (PrimitiveRef p) = Inr []"
| "collectTypeImport named (ArrayRef t) = collectTypeImport named t"
| "collectTypeImport named (NamedRef path) = ebind (getNamed (NamedRef path) named) (\<lambda>d. Inr [declarationName d])"

text \<open>A set of names, in the order of their first insertion.\<close>

definition inserted :: "string list \<Rightarrow> string list" where
  "inserted names = foldl (\<lambda>seen name. if name \<in> set seen then seen else seen @ [name]) [] names"

definition rpcClientCode :: "(string \<Rightarrow> string \<Rightarrow> int) \<Rightarrow> string ProcDeclaration list \<Rightarrow> CliOptions \<Rightarrow> string list \<Rightarrow> code list" where
  "rpcClientCode collate procs options typeNames = [
     ln ''// Generated by scripts/codegen/typescript/main.ts'',
     ln ''// Do not edit by hand.'',
     ln ''import {'',
     Indent [
       ln ''callClientStream,'',
       ln ''callServerStream,'',
       ln ''callUnary,'',
       ln ''type RpcClientStream,''],
     ln (''} from \"'' @ rpcRuntimeImport options @ ''\";''),
     ln ''import {'',
     Indent [Block (map (\<lambda>proc. ln (procCodecName proc @ '','')) procs)],
     ln (''} from \"'' @ generatedImport options @ ''\";''),
     (if length typeNames > 0 then Block [
        ln ''import type {'',
        Indent [Block (map (\<lambda>name. ln (name @ '','')) (sort_by collate typeNames))],
        ln (''} from \"'' @ generatedImport options @ ''\";'')]
      else Block []),
     Block (map (\<lambda>proc. Block [blank, emitProcClientWrapper proc]) procs)]"

definition emitRpcClientTypeScript ::
    "(string \<Rightarrow> string \<Rightarrow> int) \<Rightarrow> string Schema \<Rightarrow> CliOptions \<Rightarrow> string result" where
  "emitRpcClientTypeScript collate schema options =
     (let named = declarationMap schema;
          procs = sortedProcs schema in
      ebind (emap (\<lambda>proc.
        ebind (collectTypeImport named (pd_requestType proc)) (\<lambda>a.
        ebind (collectTypeImport named (pd_responseType proc)) (\<lambda>b. Inr (a @ b)))) procs) (\<lambda>names.
      written ''  '' (rpcClientCode collate procs options (inserted (concat names)))))"

text \<open>The files the program writes (\<open>None\<close> is the console), and the error that ends it.\<close>

definition tsMain ::
    "(string \<Rightarrow> string \<Rightarrow> int) \<Rightarrow> (string list \<Rightarrow> string Schema result) \<Rightarrow> CliOptions \<Rightarrow>
     (string option \<times> string) list \<times> js_error option" where
  "tsMain collate load options =
     (case load (schemaRoots options) of
        Inl err \<Rightarrow> ([], Some err)
      | Inr schema \<Rightarrow>
          let std = (case standard options of Some s \<Rightarrow> s | None \<Rightarrow> inferStandard schema) in
          case (if std = StandardWire then emitWireTypeScript schema options else emitRpcTypeScript schema options) of
            Inl err \<Rightarrow> ([], Some err)
          | Inr text \<Rightarrow>
              (let outputs = [(out_file options, text)] in
               case rpcClientOut options of
                 None \<Rightarrow> (outputs, None)
               | Some path \<Rightarrow>
                   if std \<noteq> StandardRpc then
                     (outputs, Some (Error (js ''--rpc-client-out is only valid with --standard rpc'')))
                   else case emitRpcClientTypeScript collate schema options of
                     Inl err \<Rightarrow> (outputs, Some err)
                   | Inr client \<Rightarrow> (outputs @ [(Some path, client)], None)))"

end
