(* ===== verification/TypeScriptText.thy ===== *)
theory TypeScriptText
  imports CodegenText CodegenTypeScript
begin

text \<open>
  The text the TypeScript generator writes: its brackets nest, and for a validated schema whose enumerations and
  unions are not empty it is written to the end; what validation accepts.
\<close>

section \<open>Expressions\<close>

lemma plain_lowerCamel: "plain s \<Longrightarrow> plain (lowerCamel s)"
  by (cases s) (auto simp: lowerCamel_def not_bracket_lower)

lemma scan_tsType: "plain_type t \<Longrightarrow> scan (tsType t) st = Some st"
  by (induction t) (auto simp: scan_plain plain_localTypeName split: PrimitiveTypeName.split)

lemma scan_typeName: "plain_named named \<Longrightarrow> typeName t named = Inr s \<Longrightarrow> scan s st = Some st"
proof (induction t arbitrary: s)
  case (PrimitiveRef p)
  then show ?case by (cases p) auto
next
  case (NamedRef path)
  then show ?case using plain_getNamed [of named "NamedRef path"] by (auto simp: scan_plain simp del: getNamed.simps)
next
  case (ArrayRef t)
  then show ?case by (cases "typeName t named") (auto simp: cat_simps)
qed auto

lemma scan_encodeExpr:
  "plain_named named \<Longrightarrow> (\<And>st. scan v st = Some st) \<Longrightarrow> encodeExpr v t named = Inr s \<Longrightarrow> scan s st = Some st"
proof (induction t arbitrary: v s st)
  case (PrimitiveRef p)
  then show ?case by (cases p) auto
next
  case (NamedRef path)
  then show ?case using plain_getNamed [of named "NamedRef path"] by (auto simp: scan_plain simp del: getNamed.simps)
next
  case (ArrayRef t)
  have "scan ''item'' st = Some st" for st by simp
  with ArrayRef.IH [of "''item''"] ArrayRef.prems show ?case by (cases "encodeExpr ''item'' t named") (auto simp: cat_simps)
qed auto

lemma scan_decodeExpr:
  "plain_named named \<Longrightarrow> (\<And>st. scan v st = Some st) \<Longrightarrow> decodeExpr v t named = Inr s \<Longrightarrow> scan s st = Some st"
proof (induction t arbitrary: v s st)
  case (PrimitiveRef p)
  then show ?case by (cases p) auto
next
  case (NamedRef path)
  then show ?case using plain_getNamed [of named "NamedRef path"] by (auto simp: scan_plain simp del: getNamed.simps)
next
  case (ArrayRef t)
  have "scan ''item'' st = Some st" for st by simp
  with ArrayRef.IH [of "''item''"] ArrayRef.prems show ?case by (cases "decodeExpr ''item'' t named") (auto simp: cat_simps)
qed auto

lemma scan_defaultExpr:
  assumes "plain_named named" "defaultExpr t named = Inr s"
  shows "scan s st = Some st"
proof (cases t)
  case (PrimitiveRef p)
  with assms show ?thesis by (cases p) auto
next
  case (NamedRef path)
  with assms obtain d where d: "getNamed (NamedRef path) named = Inr d" by (auto simp del: getNamed.simps)
  with assms(1) have "plain_declaration d"
    by (auto simp: plain_named_def split: option.splits if_splits)
  with NamedRef d assms(2) show ?thesis
    by (cases d) (auto simp: scan_plain list_all_iff simp del: getNamed.simps dest!: first_of_Inr)
qed (use assms in auto)

lemma scan_procCodecFunction:
  assumes "plain_named named" "procCodecFunction dir t named = Inr s"
  shows "scan s st = Some st"
proof -
  have v: "scan ''value'' st = Some st" for st by simp
  note r = scan_encodeExpr [OF assms(1) v, of t] scan_decodeExpr [OF assms(1) v, of t]
  show ?thesis
  proof (cases t)
    case (NamedRef path)
    with assms show ?thesis using plain_getNamed [of named "NamedRef path"]
      by (auto simp: scan_plain simp del: getNamed.simps split: if_splits)
  next
    case VoidRef
    with assms(2) show ?thesis by (auto simp: cat_simps split: if_splits)
  next
    case (PrimitiveRef p)
    with assms(2) show ?thesis by (cases p) (auto simp: cat_simps split: if_splits)
  next
    case (ArrayRef u)
    have "procCodecFunction dir t named =
        (if dir = Encode then cat [lit ''(value) => '', encodeExpr ''value'' t named]
         else cat [lit ''(value) => '', decodeExpr ''value'' t named])"
      unfolding ArrayRef by (rule procCodecFunction.simps)
    with assms(2) r show ?thesis
      by (cases "encodeExpr ''value'' t named"; cases "decodeExpr ''value'' t named")
        (auto simp: cat_simps split: if_splits)
  qed
qed

lemma scan_decodeFieldExpr:
  assumes "plain_named named" "decodeFieldExpr field named = Inr s"
  shows "scan s st = Some st"
proof -
  have v: "scan ''value'' st = Some st" for st by simp
  note r = scan_decodeExpr [OF assms(1) v, of "fd_type field"] scan_defaultExpr [OF assms(1), of "fd_type field"]
  from assms(2) r show ?thesis
    by (cases "decodeExpr ''value'' (fd_type field) named"; cases "defaultExpr (fd_type field) named")
      (auto simp: decodeFieldExpr_def Let_def cat_simps split: if_splits)
qed

section \<open>Emitters\<close>

text \<open>An emitter that leaves the open brackets as they are.\<close>

lemma nest_TypeDeclaration: "plain_declaration d \<Longrightarrow> nest (emitTypeDeclaration d) st = Some st"
proof (cases d)
  case (StructDecl s)
  assume "plain_declaration d"
  with StructDecl have n: "plain (sd_name s)" "plain_fields (sd_fields s)" by simp_all
  show ?thesis unfolding StructDecl
    by (simp add: n scan_plain nest_map plain_fieldsD [OF n(2)] scan_tsType)
next
  case (EnumDecl s)
  assume "plain_declaration d"
  with EnumDecl show ?thesis by (simp add: scan_plain nest_map list_all_iff)
next
  case (UnionDecl s)
  assume "plain_declaration d"
  with UnionDecl have n: "plain (ud_name s)" "\<forall>v \<in> set (ud_variants s). plain (uv_name v) \<and> plain_fields (uv_fields v)"
    by (simp_all add: list_all_iff)
  have "scan (join ''; '' (union_variant_fields v)) st = Some st" if "v \<in> set (ud_variants s)" for v st
  proof (rule scan_join)
    fix x st
    from that n have v: "plain (uv_name v)" "plain_fields (uv_fields v)" by auto
    assume "x \<in> set (union_variant_fields v)"
    with v show "scan x st = Some st"
      by (auto simp: union_variant_fields_def scan_plain plain_lowerCamel scan_tsType dest: plain_fieldsD)
  qed (simp add: bracket_def)
  then show ?thesis unfolding UnionDecl by (simp add: n(1) scan_plain nest_map)
qed simp

lemma nest_EncodeField:
  assumes "plain_named named" "\<And>st. scan v st = Some st" "\<And>st. scan label st = Some st"
  shows "nest (emitEncodeField field v label named) st = Some st"
proof -
  have r: "scan (''required('' @ v @ '', \"'' @ label @ ''\")'') st = Some st" for st using assms(2,3) by simp
  show ?thesis
    using scan_encodeExpr [OF assms(1,2), of "fd_type field"] scan_encodeExpr [OF assms(1) r, of "fd_type field"] assms(2)
    by (cases "encodeExpr v (fd_type field) named"; cases "encodeExpr (''required('' @ v @ '', \"'' @ label @ ''\")'') (fd_type field) named")
      (simp_all add: emitEncodeField_def cat_simps nest.simps(1))
qed

lemma nest_DecodeField:
  assumes "plain_named named" "plain (fd_name field)"
  shows "nest (Line (cat [lit (fd_name field), lit '': '', decodeFieldExpr field named, lit '',''])) st = Some st"
  using scan_decodeFieldExpr [OF assms(1), of field] assms(2)
  by (cases "decodeFieldExpr field named") (simp_all add: scan_plain cat_simps nest.simps(1))

lemma nest_StructCodec:
  assumes "plain_named named" "plain (sd_name d)" "plain_fields (sd_fields d)"
  shows "nest (emitStructCodec d named) st = Some st"
proof -
  have [simp]: "scan (sd_name d) st = Some st" for st using assms(2) by (rule scan_plain)
  have e: "nest (emitEncodeField field (''value.'' @ fd_name field) (sd_name d @ ''.'' @ fd_name field) named) st = Some st"
    if "field \<in> set (sd_fields d)" for field st
    using plain_fieldsD [OF assms(3) that] by (intro nest_EncodeField assms(1)) (simp_all add: scan_plain)
  have f: "nest (Line (cat [lit (fd_name field), lit '': '', decodeFieldExpr field named, lit '',''])) st = Some st"
    if "field \<in> set (sd_fields d)" for field st
    using plain_fieldsD [OF assms(3) that] by (intro nest_DecodeField assms(1)) simp
  show ?thesis unfolding emitStructCodec_def by (simp add: nest_map e [unfolded append_Cons append_Nil] f)
qed

lemma nest_EnumCodec:
  assumes "plain (ed_name d)"
  shows "nest (emitEnumCodec d) st = Some st"
proof -
  have [simp]: "scan (ed_name d) st = Some st" for st using assms by (rule scan_plain)
  have [simp]: "scan (join '', '' (map (\<lambda>v. show_nat (ev_id v)) (ed_variants d))) st = Some st" for st
    by (rule scan_join) (auto simp: bracket_def)
  show ?thesis by (simp add: emitEnumCodec_def)
qed

lemma nest_UnionCodec:
  assumes "plain_named named" "plain (ud_name d)"
    and "\<forall>v \<in> set (ud_variants d). plain (uv_name v) \<and> plain_fields (uv_fields v)"
  shows "nest (emitUnionCodec d named) st = Some st"
proof -
  have [simp]: "scan (ud_name d) st = Some st" for st using assms(2) by (rule scan_plain)
  have v: "scan (lowerCamel (uv_name v)) st = Some st" if "v \<in> set (ud_variants d)" for v st
    using assms(3) that by (simp add: scan_plain plain_lowerCamel)
  have e: "nest_all (map (\<lambda>field. emitEncodeField field (''value.'' @ fd_name field)
        (ud_name d @ ''.'' @ uv_name v @ ''.'' @ fd_name field) named) (uv_fields v)) st = Some st"
    if "v \<in> set (ud_variants d)" for v st
  proof (rule nest_map)
    fix field st
    assume f: "field \<in> set (uv_fields v)"
    from assms(3) that have n: "plain (uv_name v)" "plain_fields (uv_fields v)" by auto
    with f show "nest (emitEncodeField field (''value.'' @ fd_name field)
        (ud_name d @ ''.'' @ uv_name v @ ''.'' @ fd_name field) named) st = Some st"
      using plain_fieldsD [OF n(2) f] by (intro nest_EncodeField assms(1)) (simp_all add: scan_plain)
  qed
  have f: "nest_all (map (\<lambda>field. Line (cat [lit (fd_name field), lit '': '', decodeFieldExpr field named, lit '',''])) (uv_fields v)) st = Some st"
    if "v \<in> set (ud_variants d)" for v st
    using assms(1,3) that by (intro nest_map nest_DecodeField) (auto dest: plain_fieldsD)
  show ?thesis unfolding emitUnionCodec_def
    by (simp add: nest_map v e [unfolded append_Cons append_Nil] f)
qed

lemma nest_Codec:
  assumes "plain_named named" "plain_declaration d"
  shows "nest (emitCodec d named) st = Some st"
proof (cases d)
  case (UnionDecl u)
  with assms show ?thesis by (simp add: nest_UnionCodec list_all_iff)
qed (use assms in \<open>auto simp: nest_StructCodec nest_EnumCodec\<close>)

lemma nest_default_field:
  assumes "plain_named named" "plain (fd_name field)"
  shows "nest (if \<not> fd_optional field
      then Line (cat [lit (fd_name field), lit '': '', defaultExpr (fd_type field) named, lit '','']) else Block []) st = Some st"
  using scan_defaultExpr [OF assms(1), of "fd_type field"] assms(2)
  by (cases "defaultExpr (fd_type field) named") (simp_all add: scan_plain cat_simps nest.simps(1))

lemma nest_default_fields:
  assumes "plain_named named" "plain_fields listed"
  shows "nest_all (map (\<lambda>field. if \<not> fd_optional field
      then Line (cat [lit (fd_name field), lit '': '', defaultExpr (fd_type field) named, lit '','']) else Block []) listed) st = Some st"
  by (rule nest_map) (rule nest_default_field [OF assms(1)], use plain_fieldsD [OF assms(2)] in simp)

lemma nest_DefaultFunction:
  assumes "plain_named named" "plain_declaration d"
  shows "nest (emitDefaultFunction named d) st = Some st"
proof (cases d)
  case (StructDecl s)
  with assms(2) have n: "plain (sd_name s)" "plain_fields (sd_fields s)" by auto
  show ?thesis unfolding StructDecl by (simp add: n(1) scan_plain nest_default_fields [OF assms(1) n(2), simplified])
next
  case (UnionDecl u)
  show ?thesis
  proof (cases "first_of (ud_variants u)")
    case (Inr v)
    with assms(2) UnionDecl have n: "plain (ud_name u)" "plain (uv_name v)" "plain_fields (uv_fields v)"
      using first_of_Inr [OF Inr] by (auto simp: list_all_iff)
    show ?thesis using Inr unfolding UnionDecl
      by (simp add: union_default_def n(1,2) scan_plain plain_lowerCamel nest_default_fields [OF assms(1) n(3), simplified])
  qed (simp add: UnionDecl nest.simps(1))
qed simp_all

definition plain_proc :: "string ProcDeclaration \<Rightarrow> bool" where
  "plain_proc p \<longleftrightarrow> plain_declaration (ProcDecl p) \<and> plain (pd_stream p)"

lemma plain_proc_simps:
  assumes "plain_proc p"
  shows "scan (pd_name p) st = Some st" "scan (procCodecName p) st = Some st" "scan (lowerCamel (pd_name p)) st = Some st"
    "scan (pd_stream p) st = Some st" "scan (tsType (pd_requestType p)) st = Some st"
    "scan (tsType (pd_responseType p)) st = Some st" "scan (tsType (pd_errorType p)) st = Some st"
  using assms plain_lowerCamel [of "pd_name p"]
  by (auto simp: plain_proc_def procCodecName_def scan_plain scan_tsType)

lemma nest_around:
  assumes "\<And>s st. r = Inr s \<Longrightarrow> scan s st = Some st" "plain a" "plain b"
  shows "nest (Line (cat [lit a, r, lit b])) st = Some st"
  using assms by (cases r) (simp_all add: cat_simps nest.simps(1) scan_plain)

lemma nest_procs:
  assumes "list_all plain_proc (procsOf schema)"
    and "\<And>p st. plain_proc p \<Longrightarrow> nest (f p) st = Some st"
  shows "nest_all (map f (sortedProcs schema)) st = Some st"
  by (rule nest_map) (use assms in \<open>auto simp: list_all_iff set_sortedProcs\<close>)

lemma nest_ProcIds: "list_all plain_proc (procsOf schema) \<Longrightarrow> nest (emitProcIds schema) st = Some st"
  by (simp add: emitProcIds_def nest_procs plain_proc_simps)

lemma nest_ProcCodecs:
  assumes "plain_named named" "list_all plain_proc (procsOf schema)"
  shows "nest (emitProcCodecs schema named) st = Some st"
proof -
  have names:
    "nest (Line (cat [lit ''requestType: \"'', typeName t named, lit ''\",''])) st = Some st"
    "nest (Line (cat [lit ''responseType: \"'', typeName t named, lit ''\",''])) st = Some st"
    "nest (Line (cat [lit ''errorType: \"'', typeName t named, lit ''\",''])) st = Some st"
    "nest (Line (cat [lit ''encodeRequest: '', procCodecFunction Encode t named, lit '',''])) st = Some st"
    "nest (Line (cat [lit ''decodeResponse: '', procCodecFunction Decode t named, lit '',''])) st = Some st"
    "nest (Line (cat [lit ''decodeError: '', procCodecFunction Decode t named, lit '',''])) st = Some st" for t st
    by (rule nest_around, erule scan_typeName [OF assms(1)] scan_procCodecFunction [OF assms(1)],
        simp add: bracket_def, simp add: bracket_def)+
  show ?thesis unfolding emitProcCodecs_def Let_def
    by (simp add: nest_procs [OF assms(2)] plain_proc_simps names)
qed

lemma nest_RuntimeHelpers [simp]: "nest emitRuntimeHelpers st = Some st"
  by (simp add: emitRuntimeHelpers_def)

lemma nest_ClientWrapper: "plain_proc p \<Longrightarrow> nest (emitProcClientWrapper p) st = Some st"
  by (simp add: emitProcClientWrapper_def Let_def plain_proc_simps throw_def nest.simps(1))

section \<open>Whole modules\<close>

definition plain_schema :: "string Schema \<Rightarrow> bool" where
  "plain_schema schema \<longleftrightarrow> list_all plain_declaration schema \<and> list_all (\<lambda>p. plain (pd_stream p)) (procsOf schema)"

definition plain_imports :: "CliOptions \<Rightarrow> bool" where
  "plain_imports options \<longleftrightarrow>
     plain (cborImport options) \<and> plain (generatedImport options) \<and> plain (rpcRuntimeImport options)"

lemma plain_schemaD:
  assumes "plain_schema schema"
  shows "plain_named (declarationMap schema)" "list_all plain_proc (procsOf schema)"
    "d \<in> set schema \<Longrightarrow> plain_declaration d"
proof -
  from assms have "\<forall>d \<in> set schema. plain_declaration d" "\<forall>p \<in> set (procsOf schema). plain (pd_stream p)"
    by (simp_all add: plain_schema_def list_all_iff)
  then show "plain_named (declarationMap schema)" "list_all plain_proc (procsOf schema)"
    "d \<in> set schema \<Longrightarrow> plain_declaration d"
    using plain_declarationMap [of schema]
    by (auto simp: plain_proc_def list_all_iff procsOf_iff simp del: plain_declaration.simps)
qed

lemma module_nests:
  assumes "plain_schema schema" "plain_imports options" "emitSchemaCodecTypeScript schema options withProcs = Inr text"
  shows "scan text st = Some st"
proof -
  note s = plain_schemaD [OF assms(1)]
  have paths: "scan (cborImport options) st = Some st" for st using assms(2) by (simp add: plain_imports_def scan_plain)
  have types: "nest (emitTypeDeclaration d) st = Some st" "nest (emitCodec d (declarationMap schema)) st = Some st"
    if "d \<in> set (types_of schema)" for d st
    using that s(1) s(3) [of d] by (simp_all add: types_of_def nest_TypeDeclaration nest_Codec)
  have defaults: "nest (emitDefaultFunctions schema (declarationMap schema)) st = Some st" for st
    using s(1,3) by (simp add: emitDefaultFunctions_def nest_map nest_DefaultFunction)
  show ?thesis
    using written_nests [OF assms(3) [unfolded emitSchemaCodecTypeScript_def Let_def]]
    by (simp add: bracket_def paths nest_map types defaults nest_ProcIds [OF s(2)]
        nest_ProcCodecs [OF s(1,2)])
qed

lemma client_nests:
  assumes "plain_schema schema" "plain_imports options" "emitRpcClientTypeScript collate schema options = Inr text"
  shows "scan text st = Some st"
proof -
  note s = plain_schemaD [OF assms(1)]
  have paths: "scan (generatedImport options) st = Some st" "scan (rpcRuntimeImport options) st = Some st" for st
    using assms(2) by (simp_all add: plain_imports_def scan_plain)
  have collected: "list_all plain names" if "collectTypeImport (declarationMap schema) t = Inr names" for t names
    using that
  proof (induction t)
    case (NamedRef path)
    then show ?case using plain_getNamed [OF s(1), of "NamedRef path"] by (auto simp del: getNamed.simps)
  qed auto
  have ins: "list_all plain acc \<Longrightarrow> list_all plain names \<Longrightarrow>
      list_all plain (foldl (\<lambda>seen name. if name \<in> set seen then seen else seen @ [name]) acc names)" for acc names
    by (induction names arbitrary: acc) auto
  from assms(3) obtain names where n: "emap (\<lambda>proc.
      ebind (collectTypeImport (declarationMap schema) (pd_requestType proc)) (\<lambda>a.
      ebind (collectTypeImport (declarationMap schema) (pd_responseType proc)) (\<lambda>b. Inr (a @ b)))) (sortedProcs schema) = Inr names"
    and w: "written ''  '' (rpcClientCode collate (sortedProcs schema) options (inserted (concat names))) = Inr text"
    by (auto simp: emitRpcClientTypeScript_def Let_def)
  have "list_all (list_all plain) names"
    using n by (rule emap_all) (auto dest: collected)
  then have "list_all plain (inserted (concat names))"
    unfolding inserted_def by (intro ins) (auto simp: list_all_iff)
  then have lines: "nest_all (map (\<lambda>name. ln (name @ '','')) (sort_by collate (inserted (concat names)))) st = Some st" for st
    by (intro nest_map) (auto simp: list_all_iff scan_plain)
  show ?thesis
    using written_nests [OF w] unfolding rpcClientCode_def
    by (simp add: bracket_def paths lines nest_procs [OF s(2)] plain_proc_simps nest_ClientWrapper)
qed

text \<open>(C6) The brackets of every module the generator writes nest: each one that is opened is closed, in the right
  order, whatever the schema, as long as its names contain none.\<close>

theorem typescript_brackets_nest:
  assumes "plain_schema schema" "plain_imports options"
    and "text \<in> {t. emitWireTypeScript schema options = Inr t \<or> emitRpcTypeScript schema options = Inr t \<or>
      emitRpcClientTypeScript collate schema options = Inr t}"
  shows "scan text [] = Some []"
  using assms(3) module_nests [OF assms(1,2)] client_nests [OF assms(1,2)]
  by (auto simp: emitWireTypeScript_def emitRpcTypeScript_def split: if_splits)

section \<open>Modules are written to the end\<close>

lemma expressions_succeed:
  assumes "resolves named t"
  shows "succeeds (typeName t named)" "succeeds (encodeExpr v t named)" "succeeds (decodeExpr v t named)"
    "succeeds (defaultExpr t named)" "succeeds (procCodecFunction dir t named)" "succeeds (collectTypeImport named t)"
proof -
  show "succeeds (typeName t named)" using assms by (induction t) (auto dest!: resolves_named simp del: getNamed.simps)
  show encode: "succeeds (encodeExpr v t named)" for v
    using assms by (induction t arbitrary: v) (auto dest!: resolves_named simp del: getNamed.simps)
  show decode: "succeeds (decodeExpr v t named)" for v
    using assms by (induction t arbitrary: v) (auto dest!: resolves_named simp del: getNamed.simps)
  show "succeeds (collectTypeImport named t)"
    using assms by (induction t) (auto dest!: resolves_named simp del: getNamed.simps)
  show "succeeds (defaultExpr t named)"
  proof (cases t)
    case (NamedRef path)
    with assms obtain d where "getNamed (NamedRef path) named = Inr d" "inhabited d" by (auto dest: resolves_named)
    with NamedRef show ?thesis by (cases d) (simp_all del: getNamed.simps)
  qed simp_all
  show "succeeds (procCodecFunction dir t named)"
  proof (cases t)
    case (NamedRef path)
    with assms show ?thesis by (auto dest!: resolves_named simp del: getNamed.simps)
  next
    case (ArrayRef u)
    show ?thesis using encode [of "''value''"] decode [of "''value''"] unfolding ArrayRef procCodecFunction.simps by simp
  qed simp_all
qed

lemma succeeds_decodeFieldExpr: "resolves named (fd_type field) \<Longrightarrow> succeeds (decodeFieldExpr field named)"
  by (simp add: decodeFieldExpr_def Let_def expressions_succeed)

lemma writes_EncodeField: "resolves named (fd_type field) \<Longrightarrow> writes (emitEncodeField field v label named)"
  by (simp add: emitEncodeField_def expressions_succeed)

lemma writes_TypeDeclaration: "writes (emitTypeDeclaration d)"
  by (cases d) (simp_all add: list_all_iff)

lemma writes_Codec: "\<forall>t \<in> set (mentionedTypes d). resolves named t \<Longrightarrow> writes (emitCodec d named)"
  by (cases d) (auto simp: emitStructCodec_def emitEnumCodec_def emitUnionCodec_def list_all_iff
    writes_EncodeField succeeds_decodeFieldExpr)

lemma writes_DefaultFunction:
  assumes "\<forall>t \<in> set (mentionedTypes d). resolves named t" "inhabited d"
  shows "writes (emitDefaultFunction named d)"
proof (cases d)
  case (UnionDecl u)
  with assms have "hd (ud_variants u) \<in> set (ud_variants u)" by simp
  with UnionDecl assms(1) have "\<forall>field \<in> set (uv_fields (hd (ud_variants u))). resolves named (fd_type field)" by auto
  with UnionDecl assms(2) show ?thesis by (auto simp: union_default_def list_all_iff expressions_succeed)
qed (use assms in \<open>auto simp: list_all_iff expressions_succeed\<close>)

lemma writes_ProcIds: "writes (emitProcIds schema)"
  by (simp add: emitProcIds_def list_all_iff)

lemma writes_ProcCodecs:
  assumes "\<forall>p \<in> set (procsOf schema). \<forall>t \<in> set (mentionedTypes (ProcDecl p)). resolves named t"
  shows "writes (emitProcCodecs schema named)"
  using assms by (simp add: emitProcCodecs_def Let_def list_all_iff set_sortedProcs expressions_succeed)

lemma writes_RuntimeHelpers: "writes emitRuntimeHelpers"
  by (simp add: emitRuntimeHelpers_def)

lemma module_written:
  assumes "validateSchema schema = Inr ()" "list_all inhabited schema"
  shows "\<exists>text. emitSchemaCodecTypeScript schema options withProcs = Inr text"
proof -
  from assms(1) have v: "each (validateDeclaration (schemaPaths schema)) schema = Inr ()" by (simp add: validateSchema_def)
  note r = resolves_validated [OF v assms(2)]
  have "writes (emitDefaultFunctions schema (declarationMap schema))"
    using assms(2) r by (auto simp: emitDefaultFunctions_def list_all_iff intro!: writes_DefaultFunction simp del: mentionedTypes.simps)
  moreover have "writes (emitProcCodecs schema (declarationMap schema))"
    using r procsOf_iff [of _ schema] by (intro writes_ProcCodecs) blast
  moreover have "\<forall>d \<in> set schema. writes (emitCodec d (declarationMap schema))" using r by (intro ballI writes_Codec) auto
  ultimately show ?thesis
    unfolding emitSchemaCodecTypeScript_def Let_def
    by (intro written_ok) (simp add: writes_TypeDeclaration writes_ProcIds writes_RuntimeHelpers list_all_iff types_of_def)
qed

lemma client_written:
  assumes "validateSchema schema = Inr ()" "list_all inhabited schema"
    and "\<forall>p \<in> set (procsOf schema). pd_stream p \<in> {''unary'', ''server'', ''client''}"
  shows "\<exists>text. emitRpcClientTypeScript collate schema options = Inr text"
proof -
  from assms(1) have v: "each (validateDeclaration (schemaPaths schema)) schema = Inr ()" by (simp add: validateSchema_def)
  note r = resolves_validated [OF v assms(2)]
  define named where "named = declarationMap schema"
  have "succeeds (ebind (collectTypeImport named (pd_requestType p)) (\<lambda>a.
      ebind (collectTypeImport named (pd_responseType p)) (\<lambda>b. Inr (a @ b))))" if "p \<in> set (procsOf schema)" for p
  proof -
    have "resolves named (pd_requestType p)" "resolves named (pd_responseType p)"
      using that r [of "ProcDecl p"] procsOf_iff [of p schema] by (simp_all add: named_def)
    then have "succeeds (collectTypeImport named (pd_requestType p))" "succeeds (collectTypeImport named (pd_responseType p))"
      by (simp_all add: expressions_succeed)
    then show ?thesis by (auto simp: succeeds_def)
  qed
  then have "succeeds (emap (\<lambda>p. ebind (collectTypeImport named (pd_requestType p)) (\<lambda>a.
      ebind (collectTypeImport named (pd_responseType p)) (\<lambda>b. Inr (a @ b)))) (sortedProcs schema))"
    unfolding emap_succeeds list_all_iff set_sortedProcs by blast
  then obtain names where n: "emap (\<lambda>p. ebind (collectTypeImport named (pd_requestType p)) (\<lambda>a.
      ebind (collectTypeImport named (pd_responseType p)) (\<lambda>b. Inr (a @ b)))) (sortedProcs schema) = Inr names"
    unfolding succeeds_def by blast
  have "\<forall>p \<in> set (procsOf schema). writes (emitProcClientWrapper p)"
    using assms(3) by (auto simp: emitProcClientWrapper_def Let_def)
  then have "list_all writes (rpcClientCode collate (sortedProcs schema) options (inserted (concat names)))"
    unfolding rpcClientCode_def by (simp add: list_all_iff set_sortedProcs)
  from written_ok [OF this] show ?thesis
    unfolding emitRpcClientTypeScript_def Let_def using n by (simp add: named_def)
qed

lemma client_modes:
  assumes "emitRpcClientTypeScript collate schema options = Inr out" "p \<in> set (procsOf schema)"
  shows "pd_stream p \<in> {''unary'', ''server'', ''client''}"
proof -
  from assms(1) obtain names where "written ''  '' (rpcClientCode collate (sortedProcs schema) options (inserted (concat names))) = Inr out"
    unfolding emitRpcClientTypeScript_def Let_def by (auto simp del: emap.simps)
  then have "succeeds (written ''  '' (rpcClientCode collate (sortedProcs schema) options (inserted (concat names))))"
    by (auto simp: succeeds_def)
  then have "writes (Block (rpcClientCode collate (sortedProcs schema) options (inserted (concat names))))"
    by (rule written_writes)
  then have "writes (emitProcClientWrapper p)"
    using assms(2) unfolding rpcClientCode_def by (simp add: list_all_iff set_sortedProcs)
  then show ?thesis by (auto simp: emitProcClientWrapper_def Let_def split: if_splits)
qed

text \<open>(C9) For every validated schema without an empty enumeration or union the module that fits its procedures is
  written to the end. The client module is written to the end exactly when no procedure has another stream mode than
  unary, server and client: the mode bidi, which the protocol lists, ends the generator with an error.\<close>

theorem typescript_is_generated:
  assumes "validateSchema schema = Inr ()" "list_all inhabited schema"
  shows "(\<exists>text. (case inferStandard schema of
      StandardWire \<Rightarrow> emitWireTypeScript schema options | StandardRpc \<Rightarrow> emitRpcTypeScript schema options) = Inr text) \<and>
    ((\<exists>text. emitRpcClientTypeScript collate schema options = Inr text) \<longleftrightarrow>
      (\<forall>p \<in> set (procsOf schema). pd_stream p \<in> {''unary'', ''server'', ''client''}))"
proof
  show "\<exists>text. (case inferStandard schema of
      StandardWire \<Rightarrow> emitWireTypeScript schema options | StandardRpc \<Rightarrow> emitRpcTypeScript schema options) = Inr text"
    using module_written [OF assms] by (auto simp: inferStandard_def emitWireTypeScript_def emitRpcTypeScript_def)
  show "(\<exists>text. emitRpcClientTypeScript collate schema options = Inr text) \<longleftrightarrow>
      (\<forall>p \<in> set (procsOf schema). pd_stream p \<in> {''unary'', ''server'', ''client''})"
    using client_written [OF assms] client_modes by blast
qed

section \<open>A schema with one declaration of each kind\<close>

definition shape_schema :: "string Schema" where
  "shape_schema = [
     ProcDecl \<lparr>pd_id = 1, pd_name = ''GetShape'', pd_stream = ''unary'', pd_requestType = VoidRef,
       pd_responseType = NamedRef ''draw.Shape'', pd_errorType = VoidRef\<rparr>,
     StructDecl \<lparr>sd_name = ''Point'', sd_typePath = ''draw.Point'', sd_fields = [
       \<lparr>fd_id = 1, fd_name = ''x'', fd_optional = False, fd_type = PrimitiveRef TypeF64\<rparr>,
       \<lparr>fd_id = 2, fd_name = ''tags'', fd_optional = True, fd_type = ArrayRef (PrimitiveRef TypeString)\<rparr>]\<rparr>,
     EnumDecl \<lparr>ed_name = ''Color'', ed_typePath = ''draw.Color'', ed_variants = [\<lparr>ev_id = 1, ev_name = ''Red''\<rparr>]\<rparr>,
     UnionDecl \<lparr>ud_name = ''Shape'', ud_typePath = ''draw.Shape'', ud_variants = [
       \<lparr>uv_id = 1, uv_name = ''Dot'', uv_fields = [
         \<lparr>fd_id = 1, fd_name = ''at'', fd_optional = False, fd_type = NamedRef ''draw.Point''\<rparr>,
         \<lparr>fd_id = 2, fd_name = ''color'', fd_optional = False, fd_type = NamedRef ''draw.Color''\<rparr>]\<rparr>]\<rparr>]"

definition shape_options :: CliOptions where
  "shape_options = \<lparr>cborImport = ''../cbor.ts'', generatedImport = ''./rpc.ts'', out_file = None, rpcClientOut = None,
     rpcRuntimeImport = ''../client.ts'', schemaRoots = [''schemas''], standard = None\<rparr>"

lemma shape_validated: "validateSchema shape_schema = Inr ()"
  by (simp add: shape_schema_def validateSchema_def schemaPaths_def List.map_filter_simps)

lemma shape_inhabited: "list_all inhabited shape_schema"
  by (simp add: shape_schema_def)

lemma shape_plain: "plain_schema shape_schema" "plain_imports shape_options"
  by (simp_all add: plain_schema_def plain_imports_def shape_schema_def shape_options_def plain_fields_def bracket_def)

lemma shape_streams: "\<forall>p \<in> set (procsOf shape_schema). pd_stream p \<in> {''unary'', ''server'', ''client''}"
  by (simp add: shape_schema_def)

lemma shape_standard: "inferStandard shape_schema = StandardRpc"
  by (simp add: inferStandard_def shape_schema_def sortedProcs_def sort_by_def)

definition bidi_schema :: "string Schema" where
  "bidi_schema = [ProcDecl \<lparr>pd_id = 2, pd_name = ''Draw'', pd_stream = ''bidi'', pd_requestType = PrimitiveRef TypeString,
     pd_responseType = PrimitiveRef TypeString, pd_errorType = VoidRef\<rparr>]"

theorem typescript_is_generated_witness:
  "(\<exists>text. emitRpcTypeScript shape_schema shape_options = Inr text) \<and>
   (\<exists>text. emitRpcClientTypeScript (\<lambda>a b. 0) shape_schema shape_options = Inr text) \<and>
   validateSchema bidi_schema = Inr () \<and> \<not> (\<exists>text. emitRpcClientTypeScript (\<lambda>a b. 0) bidi_schema shape_options = Inr text)"
proof -
  have b: "validateSchema bidi_schema = Inr ()" "list_all inhabited bidi_schema"
    by (simp_all add: bidi_schema_def validateSchema_def schemaPaths_def List.map_filter_simps)
  have "\<not> (\<forall>p \<in> set (procsOf bidi_schema). pd_stream p \<in> {''unary'', ''server'', ''client''})" by (simp add: bidi_schema_def)
  with typescript_is_generated [OF b, of shape_options "\<lambda>a b. 0"] b(1)
    typescript_is_generated [OF shape_validated shape_inhabited, of shape_options "\<lambda>a b. 0"] shape_streams
  show ?thesis by (simp only: shape_standard CodegenStandard.case) blast
qed

theorem typescript_brackets_nest_witness:
  "\<exists>text. emitRpcTypeScript shape_schema shape_options = Inr text \<and> scan text [] = Some []"
proof -
  from module_written [OF shape_validated shape_inhabited] obtain out
    where t: "emitSchemaCodecTypeScript shape_schema shape_options True = Inr out" by blast
  have "length (sortedProcs shape_schema) \<noteq> 0" using shape_standard by (simp add: inferStandard_def split: if_splits)
  with t have "emitRpcTypeScript shape_schema shape_options = Inr out" by (simp add: emitRpcTypeScript_def)
  with typescript_brackets_nest [OF shape_plain, of out] show ?thesis by blast
qed

section \<open>What validation accepts\<close>

lemma names_ok:
  "validateNames names schema = Inr () \<longleftrightarrow>
   distinct (map declarationName (types_of schema)) \<and> declarationName ` set (types_of schema) \<inter> names = {}"
  by (induction names schema rule: validateNames.induct) (auto simp: types_of_def)

lemma schemaPaths_iff: "path \<in> schemaPaths schema \<longleftrightarrow> (\<exists>e \<in> set schema. declarationPath e = Some path)"
  by (auto simp: schemaPaths_def List.map_filter_def intro: rev_image_eqI)

text \<open>(C21) A schema is accepted exactly when the names of its types differ, the numbers of each struct, enumeration,
  union and variant differ, and every type that is mentioned is declared.\<close>

theorem typescript_validation:
  "validateSchema schema = Inr () \<longleftrightarrow>
   distinct (map declarationName (types_of schema)) \<and>
   (\<forall>d \<in> set schema. (\<forall>numbers \<in> set (numberings d). distinct numbers) \<and>
     (\<forall>t \<in> set (mentionedTypes d). \<forall>path. refersTo t = Some path \<longrightarrow> (\<exists>e \<in> set schema. declarationPath e = Some path)))"
  by (simp add: validateSchema_def names_ok declaration_ok schemaPaths_iff)

theorem typescript_validation_witness:
  "validateSchema (take 1 shape_schema) \<noteq> Inr () \<and> validateSchema (drop 1 shape_schema) = Inr ()"
  unfolding typescript_validation by (simp add: shape_schema_def types_of_def)

text \<open>The numbers of the procedures need not differ: a copy of a procedure under another name is accepted, and its
  entry replaces the other one in the table \<open>procs\<close> of the generated module.\<close>

theorem duplicate_proc_id_accepted:
  assumes "validateSchema schema = Inr ()" "ProcDecl p \<in> set schema"
  shows "validateSchema (ProcDecl (p\<lparr>pd_name := other\<rparr>) # schema) = Inr ()"
proof -
  have "schemaPaths (ProcDecl q # schema) = schemaPaths schema" for q :: "string ProcDeclaration"
    by (simp add: schemaPaths_def List.map_filter_simps)
  moreover from assms have "validateDeclaration (schemaPaths schema) (ProcDecl p) = Inr ()" by (auto simp: validateSchema_def)
  ultimately show ?thesis using assms(1) by (auto simp: validateSchema_def)
qed

theorem duplicate_proc_id_accepted_witness:
  "validateSchema (ProcDecl \<lparr>pd_id = 1, pd_name = ''GetSize'', pd_stream = ''unary'', pd_requestType = VoidRef,
     pd_responseType = NamedRef ''draw.Shape'', pd_errorType = VoidRef\<rparr> # shape_schema) = Inr ()"
  using duplicate_proc_id_accepted [OF shape_validated, of _ "''GetSize''"] by (simp add: shape_schema_def)

end
