(* ===== verification/CodegenRust.thy ===== *)
theory CodegenRust
  imports CodegenSchema
begin

text \<open>
  The generator of the Rust codecs and handler tables, \<open>scripts/codegen/rust/main.ts\<close>: from a schema to the
  text of a Rust module. Reading and writing files is outside.
\<close>

section \<open>The command line\<close>

record CliOptions =
  byteCodec :: bool
  out_file :: "string option"
  schemaRoots :: "string list"

function parseCliArgs :: "string list \<Rightarrow> CliOptions \<Rightarrow> CliOptions cli result" where
  "parseCliArgs [] options =
     (if length (schemaRoots options) = 0 then throw ''at least one --schema is required'' else Inr (CliRun options))"
| "parseCliArgs (arg # args) options =
     (if arg = ''--out'' then
        ebind (requiredArg args arg) (\<lambda>(value, rest). parseCliArgs rest (options\<lparr>out_file := Some value\<rparr>))
      else if arg = ''--no-byte-codec'' then parseCliArgs args (options\<lparr>byteCodec := False\<rparr>)
      else if arg = ''--schema'' then
        ebind (requiredArg args arg) (\<lambda>(value, rest).
          parseCliArgs rest (options\<lparr>schemaRoots := schemaRoots options @ [value]\<rparr>))
      else if arg = ''--help'' \<or> arg = ''-h'' then Inr CliHelp
      else if startsWith arg ''-'' then throw (''unknown option '' @ arg)
      else parseCliArgs args (options\<lparr>schemaRoots := schemaRoots options @ [arg]\<rparr>))"
  by pat_completeness auto

termination
  by (relation "measure (\<lambda>(args, options). length args)") (auto dest!: requiredArg_shorter)

definition parseCli :: "string list \<Rightarrow> CliOptions cli result" where
  "parseCli args = parseCliArgs args \<lparr>byteCodec = True, out_file = None, schemaRoots = []\<rparr>"

section \<open>The schema\<close>

datatype ProcStream = StreamUnary | StreamServer | StreamClient | StreamBidi

definition requiredProcStream :: "attributes \<Rightarrow> string \<Rightarrow> ProcStream result" where
  "requiredProcStream attrs label =
     ebind (requiredAttribute attrs ''stream'' label) (\<lambda>stream.
       if stream = ''unary'' then Inr StreamUnary
       else if stream = ''server'' then Inr StreamServer
       else if stream = ''client'' then Inr StreamClient
       else if stream = ''bidi'' then Inr StreamBidi
       else throw (label @ '' requires @ stream to be unary, server, client, or bidi''))"

text \<open>All names must differ, and the numbers of the procedures.\<close>

fun validateNames :: "string set \<Rightarrow> nat set \<Rightarrow> ProcStream Schema \<Rightarrow> unit result" where
  "validateNames names procIds [] = Inr ()"
| "validateNames names procIds (d # schema) =
     (if declarationName d \<in> names then throw (''duplicate declaration '' @ declarationName d)
      else case d of
        ProcDecl p \<Rightarrow>
          if pd_id p \<in> procIds then throw (''duplicate proc id '' @ show_nat (pd_id p))
          else validateNames (insert (declarationName d) names) (insert (pd_id p) procIds) schema
      | _ \<Rightarrow> validateNames (insert (declarationName d) names) procIds schema)"

definition validateSchema :: "ProcStream Schema \<Rightarrow> unit result" where
  "validateSchema schema =
     ebind (validateNames {} {} schema) (\<lambda>_. each (validateDeclaration (schemaPaths schema)) schema)"

definition rustSchemaFromIr :: "bdl_ir \<Rightarrow> ProcStream Schema result" where
  "rustSchemaFromIr = schemaFromIr ''Rust'' ''Rust codegen does not support dictionary fields yet''
     requiredProcStream validateSchema"

section \<open>Names\<close>

definition rustKeywords :: "string list" where
  "rustKeywords = [''as'', ''break'', ''const'', ''continue'', ''crate'', ''else'', ''enum'', ''extern'', ''false'',
     ''fn'', ''for'', ''if'', ''impl'', ''in'', ''let'', ''loop'', ''match'', ''mod'', ''move'', ''mut'', ''pub'',
     ''ref'', ''return'', ''self'', ''Self'', ''static'', ''struct'', ''super'', ''trait'', ''true'', ''type'',
     ''unsafe'', ''use'', ''where'', ''while'', ''async'', ''await'', ''dyn'']"

definition is_lower :: "char \<Rightarrow> bool" where
  "is_lower c \<longleftrightarrow> 97 \<le> (of_char c :: nat) \<and> (of_char c :: nat) \<le> 122"

definition is_upper :: "char \<Rightarrow> bool" where
  "is_upper c \<longleftrightarrow> 65 \<le> (of_char c :: nat) \<and> (of_char c :: nat) \<le> 90"

text \<open>\<open>replace(/([a-z0-9])([A-Z])/g, "$1_$2")\<close>.\<close>

fun split_camel :: "string \<Rightarrow> string" where
  "split_camel (a # b # cs) =
     (if (is_lower a \<or> is_decimal a) \<and> is_upper b then a # CHR ''_'' # split_camel (b # cs)
      else a # split_camel (b # cs))"
| "split_camel cs = cs"

text \<open>\<open>replace(/([A-Z]+)([A-Z][a-z])/g, "$1_$2")\<close>: before the last of several capitals that a small letter follows.\<close>

fun split_acronym :: "string \<Rightarrow> string" where
  "split_acronym (a # b # c # cs) =
     (if is_upper a \<and> is_upper b \<and> is_lower c then a # CHR ''_'' # split_acronym (b # c # cs)
      else a # split_acronym (b # c # cs))"
| "split_acronym cs = cs"

text \<open>\<open>replace(/[-\s]+/g, "_")\<close>.\<close>

fun join_words :: "bool \<Rightarrow> string \<Rightarrow> string" where
  "join_words within [] = []"
| "join_words within (c # cs) =
     (if c = CHR ''-'' \<or> number_space c then (if within then join_words True cs else CHR ''_'' # join_words True cs)
      else c # join_words False cs)"

definition snakeCase :: "string \<Rightarrow> string" where
  "snakeCase name = map lower_char (join_words False (split_acronym (split_camel name)))"

definition rawIdent :: "string \<Rightarrow> string" where
  "rawIdent name = (if name \<in> set rustKeywords then ''r#'' @ name else name)"

definition fieldName :: "string \<Rightarrow> string" where
  "fieldName name = rawIdent (snakeCase name)"

section \<open>Types and expressions\<close>

fun typeName :: "TypeRef \<Rightarrow> string result" where
  "typeName (NamedRef path) = Inr (localTypeName path)"
| "typeName _ = throw ''expected named type''"

fun rustType :: "TypeRef \<Rightarrow> string" where
  "rustType VoidRef = ''()''"
| "rustType (ArrayRef t) = ''Vec<'' @ rustType t @ ''>''"
| "rustType (PrimitiveRef p) =
     (case p of TypeU53 \<Rightarrow> ''u64'' | TypeI53 \<Rightarrow> ''i64'' | TypeF64 \<Rightarrow> ''f64'' | TypeString \<Rightarrow> ''String''
        | TypeBool \<Rightarrow> ''bool'' | TypeBytes \<Rightarrow> ''Vec<u8>'')"
| "rustType (NamedRef path) = localTypeName path"

definition rustFieldType :: "FieldDeclaration \<Rightarrow> string" where
  "rustFieldType field =
     (if fd_optional field then ''Option<'' @ rustType (fd_type field) @ ''>'' else rustType (fd_type field))"

fun encodeExpr :: "string \<Rightarrow> TypeRef \<Rightarrow> string" where
  "encodeExpr valueExpr VoidRef = ''Ok(Value::Null)''"
| "encodeExpr valueExpr (ArrayRef t) = ''encode_array('' @ valueExpr @ '', |item| '' @ encodeExpr ''item'' t @ '')''"
| "encodeExpr valueExpr (PrimitiveRef p) =
     (case p of
        TypeU53 \<Rightarrow> ''encode_u53(*'' @ valueExpr @ '')''
      | TypeI53 \<Rightarrow> ''encode_i53(*'' @ valueExpr @ '')''
      | TypeF64 \<Rightarrow> ''encode_f64(*'' @ valueExpr @ '')''
      | TypeString \<Rightarrow> ''Ok::<Value, CodecError>(Value::Text((*'' @ valueExpr @ '').clone()))''
      | TypeBool \<Rightarrow> ''Ok::<Value, CodecError>(Value::Bool(*'' @ valueExpr @ ''))''
      | TypeBytes \<Rightarrow> ''Ok::<Value, CodecError>(Value::Bytes((*'' @ valueExpr @ '').clone()))'')"
| "encodeExpr valueExpr (NamedRef path) = ''('' @ valueExpr @ '').encode_value()''"

fun decodeExpr :: "string \<Rightarrow> TypeRef \<Rightarrow> string" where
  "decodeExpr valueExpr VoidRef = ''Ok(())''"
| "decodeExpr valueExpr (ArrayRef t) = ''decode_array('' @ valueExpr @ '', |item| '' @ decodeExpr ''item'' t @ '')''"
| "decodeExpr valueExpr (PrimitiveRef p) =
     (case p of TypeU53 \<Rightarrow> ''expect_u64('' | TypeI53 \<Rightarrow> ''expect_i64('' | TypeF64 \<Rightarrow> ''expect_f64('' | TypeString \<Rightarrow> ''expect_text(''
        | TypeBool \<Rightarrow> ''expect_bool('' | TypeBytes \<Rightarrow> ''expect_bytes('') @ valueExpr @ '')''"
| "decodeExpr valueExpr (NamedRef path) = localTypeName path @ ''::decode_value('' @ valueExpr @ '')''"

fun defaultExpr :: "TypeRef \<Rightarrow> ProcStream named \<Rightarrow> string result" where
  "defaultExpr VoidRef named = Inr ''()''"
| "defaultExpr (ArrayRef t) named = Inr ''Vec::new()''"
| "defaultExpr (PrimitiveRef p) named =
     Inr (case p of TypeString \<Rightarrow> ''String::new()'' | TypeBool \<Rightarrow> ''false'' | TypeBytes \<Rightarrow> ''Vec::new()''
        | TypeF64 \<Rightarrow> ''0.0'' | _ \<Rightarrow> ''0'')"
| "defaultExpr (NamedRef path) named =
     ebind (getNamed (NamedRef path) named) (\<lambda>d.
       case d of
         EnumDecl e \<Rightarrow> ebind (first_of (ed_variants e)) (\<lambda>v. Inr (ed_name e @ ''::'' @ ev_name v))
       | _ \<Rightarrow> Inr (declarationName d @ ''::default()''))"

definition defaultForField :: "FieldDeclaration \<Rightarrow> ProcStream named \<Rightarrow> string result" where
  "defaultForField field named = (if fd_optional field then Inr ''None'' else defaultExpr (fd_type field) named)"

definition decodeFieldExpr :: "FieldDeclaration \<Rightarrow> ProcStream named \<Rightarrow> string result" where
  "decodeFieldExpr field named =
     (let access = ''fields.get(&'' @ show_nat (fd_id field) @ '')'' in
      if fd_optional field then
        Inr (''optional_field('' @ access @ '', |value| '' @ decodeExpr ''value'' (fd_type field) @ '')'')
      else
        cat [lit ''field_or_default('', lit access, lit '', |value| '', lit (decodeExpr ''value'' (fd_type field)),
          lit '', || '', defaultExpr (fd_type field) named, lit '')''])"

section \<open>Does a type contain a float\<close>

text \<open>
  The search through the named types, with the set of the types already seen. A step into a named type adds
  it to that set, so its depth is at most the number of types; \<open>fuel\<close> bounds the depth.
\<close>

fun declarationTypes :: "ProcStream Declaration \<Rightarrow> TypeRef list" where
  "declarationTypes (StructDecl d) = map fd_type (sd_fields d)"
| "declarationTypes (UnionDecl d) = concat (map (\<lambda>variant. map fd_type (uv_fields variant)) (ud_variants d))"
| "declarationTypes _ = []"

fun someType ::
    "(TypeRef \<Rightarrow> string set \<Rightarrow> (bool \<times> string set) result) \<Rightarrow> TypeRef list \<Rightarrow> string set \<Rightarrow> (bool \<times> string set) result" where
  "someType f [] seen = Inr (False, seen)"
| "someType f (t # ts) seen =
     ebind (f t seen) (\<lambda>(found, seen'). if found then Inr (True, seen') else someType f ts seen')"

fun typeUsesF64_in :: "nat \<Rightarrow> ProcStream named \<Rightarrow> TypeRef \<Rightarrow> string set \<Rightarrow> (bool \<times> string set) result" where
  "typeUsesF64_in fuel named (PrimitiveRef p) seen = Inr (p = TypeF64, seen)"
| "typeUsesF64_in fuel named (ArrayRef t) seen = typeUsesF64_in fuel named t seen"
| "typeUsesF64_in fuel named VoidRef seen = Inr (False, seen)"
| "typeUsesF64_in fuel named (NamedRef path) seen =
     (if path \<in> seen then Inr (False, seen)
      else ebind (getNamed (NamedRef path) named) (\<lambda>d.
        case fuel of
          0 \<Rightarrow> Inl (RangeError (js ''Maximum call stack size exceeded''))
        | Suc n \<Rightarrow> someType (typeUsesF64_in n named) (declarationTypes d) (insert path seen)))"

definition typeUsesF64 :: "TypeRef \<Rightarrow> ProcStream named \<Rightarrow> bool result" where
  "typeUsesF64 t named = ebind (typeUsesF64_in (length named) named t {}) (\<lambda>(found, seen). Inr found)"

definition declarationUsesF64 :: "ProcStream Declaration \<Rightarrow> ProcStream named \<Rightarrow> bool result" where
  "declarationUsesF64 declaration named =
     ebind (someType (typeUsesF64_in (length named) named) (declarationTypes declaration) {}) (\<lambda>(found, seen). Inr found)"

section \<open>Type declarations\<close>

definition emitCodecError :: code where
  "emitCodecError =
     Block [
    ln ''#[derive(Debug, Clone, PartialEq)]'',
    ln ''pub enum CodecError {'',
    Indent [
      ln ''Cbor(CborError),'',
      ln ''ExpectedArray,'',
      ln ''ExpectedBool,'',
      ln ''ExpectedBytes,'',
      ln ''ExpectedF64,'',
      ln ''ExpectedInteger,'',
      ln ''ExpectedMap,'',
      ln ''ExpectedText,'',
      ln ''IntegerOutOfRange(&'static str),'',
      ln ''NonFiniteFloat(&'static str),'',
      ln ''UnknownEnumVariant { type_name: &'static str, variant_id: u64 },'',
      ln ''UnknownUnionVariant { type_name: &'static str, variant_id: u64 },''],
    ln ''}'',
    blank,
    ln ''impl From<CborError> for CodecError {'',
    Indent [
      ln ''fn from(value: CborError) -> Self {'',
      Indent [ln ''Self::Cbor(value)''],
      ln ''}''],
    ln ''}'',
    blank,
    ln ''impl std::fmt::Display for CodecError {'',
    Indent [
      ln ''fn fmt(&self, formatter: &mut std::fmt::Formatter<'_>) -> std::fmt::Result {'',
      Indent [
        ln ''match self {'',
        Indent [
          ln ''Self::Cbor(error) => write!(formatter, \"cbor error: {error}\"),'',
          ln ''Self::ExpectedArray => formatter.write_str(\"expected CBOR array\"),'',
          ln ''Self::ExpectedBool => formatter.write_str(\"expected CBOR bool\"),'',
          ln ''Self::ExpectedBytes => formatter.write_str(\"expected CBOR bytes\"),'',
          ln ''Self::ExpectedF64 => formatter.write_str(\"expected CBOR f64\"),'',
          ln ''Self::ExpectedInteger => formatter.write_str(\"expected CBOR integer\"),'',
          ln ''Self::ExpectedMap => formatter.write_str(\"expected CBOR map\"),'',
          ln ''Self::ExpectedText => formatter.write_str(\"expected CBOR text\"),'',
          ln ''Self::IntegerOutOfRange(type_name) => write!(formatter, \"integer is out of range for {type_name}\"),'',
          ln ''Self::NonFiniteFloat(type_name) => write!(formatter, \"non-finite float is out of range for {type_name}\"),'',
          ln ''Self::UnknownEnumVariant { type_name, variant_id } => write!(formatter, \"unknown {type_name} enum variant {variant_id}\"),'',
          ln ''Self::UnknownUnionVariant { type_name, variant_id } => write!(formatter, \"unknown {type_name} union variant {variant_id}\"),''],
        ln ''}''],
      ln ''}''],
    ln ''}'',
    blank,
    ln ''impl std::error::Error for CodecError {}'']"

definition union_default :: "UnionVariantDeclaration \<Rightarrow> ProcStream named \<Rightarrow> code" where
  "union_default variant named =
     (if length (uv_fields variant) = 0 then ln (''Self::'' @ uv_name variant)
    else Block [
    ln (''Self::'' @ uv_name variant @ '' {''),
    Indent [Block (map (\<lambda>field. Line (cat [lit (fieldName (fd_name field)), lit '': '', defaultForField field named, lit '',''])) (uv_fields variant))],
    ln ''}''])"

definition struct_default :: "StructDeclaration \<Rightarrow> ProcStream named \<Rightarrow> code" where
  "struct_default declaration named =
     Block [
    ln ''Self {'',
    Indent [Block (map (\<lambda>field. Line (cat [lit (fieldName (fd_name field)), lit '': '', defaultForField field named, lit '',''])) (sd_fields declaration))],
    ln ''}'']"

text \<open>The body of the default function of a struct or of a union.\<close>

definition emitDefaultImpl :: "string \<Rightarrow> code \<Rightarrow> code" where
  "emitDefaultImpl name body = Block [
     blank,
     ln (''impl Default for '' @ name @ '' {''),
     Indent [
       ln ''fn default() -> Self {'',
       Indent [body],
       ln ''}''],
     ln ''}'']"

definition derive_line :: "bool \<Rightarrow> string" where
  "derive_line usesF64 =
     (if usesF64 then ''#[derive(Debug, Clone, PartialEq)]'' else ''#[derive(Debug, Clone, PartialEq, Eq)]'')"

fun emitTypeDeclaration :: "ProcStream Declaration \<Rightarrow> ProcStream named \<Rightarrow> code" where
  "emitTypeDeclaration (StructDecl declaration) named = Block [
     Line (ebind (declarationUsesF64 (StructDecl declaration) named) (\<lambda>uses. Inr (derive_line uses))),
     Block [
    ln (''pub struct '' @ sd_name declaration @ '' {''),
    Indent [Block (map (\<lambda>field. ln (''pub '' @ fieldName (fd_name field) @ '': '' @ rustFieldType field @ '','')) (sd_fields declaration))],
    ln ''}''],
     emitDefaultImpl (sd_name declaration) (struct_default declaration named)]"
| "emitTypeDeclaration (EnumDecl declaration) named = Block [
     ln ''#[derive(Debug, Clone, Copy, PartialEq, Eq)]'',
     Block [
    ln (''pub enum '' @ ed_name declaration @ '' {''),
    Indent [Block (map (\<lambda>variant. ln (ev_name variant @ '','')) (ed_variants declaration))],
    ln ''}'']]"
| "emitTypeDeclaration (UnionDecl declaration) named = Block [
     Line (ebind (declarationUsesF64 (UnionDecl declaration) named) (\<lambda>uses. Inr (derive_line uses))),
     Block [
    ln (''pub enum '' @ ud_name declaration @ '' {''),
    Indent [Block (map (\<lambda>variant. (if length (uv_fields variant) = 0 then ln (uv_name variant @ '','')
      else Block [
      ln (uv_name variant @ '' {''),
      Indent [Block (map (\<lambda>field. ln (fieldName (fd_name field) @ '': '' @ rustFieldType field @ '','')) (uv_fields variant))],
      ln ''},''])) (ud_variants declaration))],
    ln ''}''],
     emitDefaultImpl (ud_name declaration)
       (code_of (ebind (first_of (ud_variants declaration)) (\<lambda>variant. Inr (union_default variant named))))]"
| "emitTypeDeclaration (ProcDecl declaration) named = Block []"

section \<open>Codecs\<close>

definition emitEncodeDecodeWrappers :: "string \<Rightarrow> code" where
  "emitEncodeDecodeWrappers name =
     Block [
    ln ''pub fn try_encode(&self) -> Result<Vec<u8>, CodecError> {'',
    Indent [ln ''Ok(self.encode_value()?.encode())''],
    ln ''}'',
    blank,
    ln ''pub fn encode(&self) -> Vec<u8> {'',
    Indent [ln (''self.try_encode().expect(\"generated '' @ name @ '' model failed to encode\")'')],
    ln ''}'',
    blank,
    ln ''pub fn decode(bytes: &[u8]) -> Result<Self, CodecError> {'',
    Indent [ln ''Self::decode_value(&Value::decode(bytes)?)''],
    ln ''}'',
    blank,
    ln (''pub fn type_name() -> &'static str { \"'' @ name @ ''\" }''),
    blank]"

definition emitEncodeField :: "FieldDeclaration \<Rightarrow> code" where
  "emitEncodeField field =
     (let name = fieldName (fd_name field) in
      (if fd_optional field then Block [
      ln (''if let Some(value) = &self.'' @ name @ '' {''),
      Indent [ln (''fields.insert('' @ show_nat (fd_id field) @ '', '' @ encodeExpr ''value'' (fd_type field) @ ''?);'')],
      ln ''}'']
    else ln (''fields.insert('' @ show_nat (fd_id field) @ '', '' @ encodeExpr (''&self.'' @ name) (fd_type field) @ ''?);'')))"

definition emitStructCodec :: "StructDeclaration \<Rightarrow> ProcStream named \<Rightarrow> CliOptions \<Rightarrow> code" where
  "emitStructCodec declaration named options =
     Block [
    ln (''impl '' @ sd_name declaration @ '' {''),
    Indent [
      (if byteCodec options then emitEncodeDecodeWrappers (sd_name declaration)
        else Block []),
      ln ''pub fn encode_value(&self) -> Result<Value, CodecError> {'',
      Indent [
        ln ''let mut fields = BTreeMap::new();'',
        Block (map (\<lambda>field. emitEncodeField field) (sd_fields declaration)),
        ln ''Ok(Value::Map(fields))''],
      ln ''}'',
      blank,
      ln ''pub fn decode_value(value: &Value) -> Result<Self, CodecError> {'',
      Indent [
        ln ''let fields = expect_map(value)?;'',
        ln ''Ok(Self {'',
        Indent [Block (map (\<lambda>field. Line (cat [lit (fieldName (fd_name field)), lit '': '', decodeFieldExpr field named, lit ''?,''])) (sd_fields declaration))],
        ln ''})''],
      ln ''}''],
    ln ''}'']"

definition emitEnumCodec :: "EnumDeclaration \<Rightarrow> CliOptions \<Rightarrow> code" where
  "emitEnumCodec declaration options =
     Block [
    ln (''impl '' @ ed_name declaration @ '' {''),
    Indent [
      (if byteCodec options then emitEncodeDecodeWrappers (ed_name declaration)
        else Block []),
      ln ''pub fn encode_value(&self) -> Result<Value, CodecError> {'',
      Indent [
        ln ''Ok(Value::U64(match self {'',
        Indent [Block (map (\<lambda>variant. ln (''Self::'' @ ev_name variant @ '' => '' @ show_nat (ev_id variant) @ '','')) (ed_variants declaration))],
        ln ''}))''],
      ln ''}'',
      blank,
      ln ''pub fn decode_value(value: &Value) -> Result<Self, CodecError> {'',
      Indent [
        ln ''match expect_u64(value)? {'',
        Indent [
          Block (map (\<lambda>variant. ln (show_nat (ev_id variant) @ '' => Ok(Self::'' @ ev_name variant @ ''),'')) (ed_variants declaration)),
          ln ''variant_id => Err(CodecError::UnknownEnumVariant {'',
          Indent [
            ln (''type_name: \"'' @ ed_name declaration @ ''\",''),
            ln ''variant_id,''],
          ln ''}),''],
        ln ''}''],
      ln ''}''],
    ln ''}'']"

definition emitUnionEncodeArm :: "UnionVariantDeclaration \<Rightarrow> code" where
  "emitUnionEncodeArm variant =
     Block [
    (if length (uv_fields variant) = 0 then ln (''Self::'' @ uv_name variant @ '' => {'')
      else Block [
      ln (''Self::'' @ uv_name variant @ '' {''),
      Indent [Block (map (\<lambda>field. ln (fieldName (fd_name field) @ '','')) (uv_fields variant))],
      ln ''} => {'']),
    Indent [
      ln ''let mut fields = BTreeMap::new();'',
      Block (map (\<lambda>field. (if fd_optional field then Block [
          ln (''if let Some(value) = '' @ fieldName (fd_name field) @ '' {''),
          Indent [ln (''fields.insert('' @ show_nat (fd_id field) @ '', '' @ encodeExpr ''value'' (fd_type field) @ ''?);'')],
          ln ''}'']
        else ln (''fields.insert('' @ show_nat (fd_id field) @ '', '' @ encodeExpr (fieldName (fd_name field)) (fd_type field) @ ''?);''))) (uv_fields variant)),
      ln (''Ok(Value::Array(vec![Value::U64('' @ show_nat (uv_id variant) @ ''), Value::Map(fields)]))'')],
    ln ''}'']"

definition emitUnionDecodeArm :: "UnionVariantDeclaration \<Rightarrow> ProcStream named \<Rightarrow> code" where
  "emitUnionDecodeArm variant named =
     Block [
    ln (show_nat (uv_id variant) @ '' => Ok(Self::'' @ uv_name variant @ (if length (uv_fields variant) = 0 then [] else '' {'')),
    (if length (uv_fields variant) > 0 then Block [
        Indent [Block (map (\<lambda>field. Line (cat [lit (fieldName (fd_name field)), lit '': '', decodeFieldExpr field named, lit ''?,''])) (uv_fields variant))],
        ln ''}),'']
      else ln ''),'')]"

definition emitUnionCodec :: "UnionDeclaration \<Rightarrow> ProcStream named \<Rightarrow> CliOptions \<Rightarrow> code" where
  "emitUnionCodec declaration named options =
     Block [
    ln (''impl '' @ ud_name declaration @ '' {''),
    Indent [
      (if byteCodec options then emitEncodeDecodeWrappers (ud_name declaration)
        else Block []),
      ln ''pub fn encode_value(&self) -> Result<Value, CodecError> {'',
      Indent [
        ln ''match self {'',
        Indent [Block (map (\<lambda>variant. emitUnionEncodeArm variant) (ud_variants declaration))],
        ln ''}''],
      ln ''}'',
      blank,
      ln ''pub fn decode_value(value: &Value) -> Result<Self, CodecError> {'',
      Indent [
        ln ''let (variant_id, fields) = expect_union(value)?;'',
        ln ''match variant_id {'',
        Indent [
          Block (map (\<lambda>variant. emitUnionDecodeArm variant named) (ud_variants declaration)),
          ln ''variant_id => Err(CodecError::UnknownUnionVariant {'',
          Indent [
            ln (''type_name: \"'' @ ud_name declaration @ ''\",''),
            ln ''variant_id,''],
          ln ''}),''],
        ln ''}''],
      ln ''}''],
    ln ''}'']"

fun emitCodec :: "ProcStream Declaration \<Rightarrow> ProcStream named \<Rightarrow> CliOptions \<Rightarrow> code" where
  "emitCodec (StructDecl declaration) named options = emitStructCodec declaration named options"
| "emitCodec (EnumDecl declaration) named options = emitEnumCodec declaration options"
| "emitCodec (UnionDecl declaration) named options = emitUnionCodec declaration named options"
| "emitCodec (ProcDecl declaration) named options = Block []"

section \<open>Errors of procedures\<close>

definition error_variant_ok :: "UnionVariantDeclaration \<Rightarrow> bool" where
  "error_variant_ok variant \<longleftrightarrow>
     (case uv_fields variant of
        [field] \<Rightarrow> fd_id field = 1 \<and> fd_name field = ''message'' \<and> fd_type field = PrimitiveRef TypeString
      | _ \<Rightarrow> False)"

definition methodErrorVariants :: "ProcStream ProcDeclaration \<Rightarrow> ProcStream named \<Rightarrow> UnionVariantDeclaration list result" where
  "methodErrorVariants proc named =
     (if pd_errorType proc = VoidRef then Inr []
      else ebind (getNamed (pd_errorType proc) named) (\<lambda>d.
        case d of
          UnionDecl declaration \<Rightarrow>
            (case find (\<lambda>variant. \<not> error_variant_ok variant) (ud_variants declaration) of
               Some variant \<Rightarrow> throw (pd_name proc @ '' error variant '' @ uv_name variant @
                 '' must contain only @ id - 1 message: string'')
             | None \<Rightarrow> Inr (ud_variants declaration))
        | _ \<Rightarrow> throw (pd_name proc @ '' error type must be a union'')))"

definition emitMethodErrorPayloadHelper :: code where
  "emitMethodErrorPayloadHelper =
     Block [
    ln ''pub fn method_error_payload(self, code: &str, message: &str) -> Option<Vec<u8>> {'',
    Indent [
      ln ''let variant_id = self.method_error_variant(code)?;'',
      ln ''Some('',
      Indent [
        ln ''Value::Array(vec!['',
        Indent [
          ln ''Value::U64(variant_id),'',
          ln ''Value::Map(BTreeMap::from([(1, Value::Text(message.to_string()))])),''],
        ln ''])'',
        ln ''.encode(),''],
      ln '')''],
    ln ''}'']"

text \<open>The procedures with their error variants, those without any left out.\<close>

definition procsWithMethodErrors ::
    "ProcStream ProcDeclaration list \<Rightarrow> ProcStream named \<Rightarrow>
     (ProcStream ProcDeclaration \<times> UnionVariantDeclaration list) list result" where
  "procsWithMethodErrors procs named =
     ebind (emap (\<lambda>proc. ebind (methodErrorVariants proc named) (\<lambda>variants. Inr (proc, variants))) procs) (\<lambda>found.
       Inr (filter (\<lambda>(proc, variants). length variants > 0) found))"

definition emitMethodErrorVariantHelper :: "ProcStream ProcDeclaration list \<Rightarrow> ProcStream named \<Rightarrow> code" where
  "emitMethodErrorVariantHelper procs named =
     code_of (ebind (procsWithMethodErrors procs named) (\<lambda>withErrors. Inr (Block [
       ln ''pub fn method_error_variant(self, code: &str) -> Option<u64> {'',
       Indent [
         ln ''match self {'',
         Indent [
           Block (map (\<lambda>(proc, variants). Block [
             ln (''Self::'' @ pd_name proc @ '' => match code {''),
             Indent [
               Block (map (\<lambda>variant. ln (''\"'' @ snakeCase (uv_name variant) @ ''\" => Some('' @ show_nat (uv_id variant) @ ''),'')) variants),
               ln ''_ => None,''],
             ln ''},'']) withErrors),
           (if length withErrors < length procs then ln ''_ => None,'' else Block [])],
         ln ''}''],
       ln ''}''])))"

section \<open>Procedures\<close>

fun procStreamVariant :: "ProcStream \<Rightarrow> string" where
  "procStreamVariant StreamUnary = ''Unary''"
| "procStreamVariant StreamServer = ''Server''"
| "procStreamVariant StreamClient = ''Client''"
| "procStreamVariant StreamBidi = ''Bidi''"

definition emitProcMessageVariant :: "ProcStream ProcDeclaration \<Rightarrow> TypeRef \<Rightarrow> bool \<Rightarrow> code" where
  "emitProcMessageVariant proc t voidAsUnitTuple =
     (if t = VoidRef then ln (if voidAsUnitTuple then pd_name proc @ ''(()),'' else pd_name proc @ '','')
      else ln (pd_name proc @ ''('' @ rustType t @ ''),''))"

definition emitRpcRequestDecodeArm :: "ProcStream ProcDeclaration \<Rightarrow> code" where
  "emitRpcRequestDecodeArm proc =
     (if pd_requestType proc = VoidRef then
        ln (''ProcId::'' @ pd_name proc @ '' => Ok(Self::'' @ pd_name proc @ ''(())),'')
      else Block [
    ln (''ProcId::'' @ pd_name proc @ '' => {''),
    Indent [
      ln ''let Some(payload) = payload else {'',
      Indent [ln ''return Err(RpcRequestDecodeError::MissingPayload { proc });''],
      ln ''};'',
      Line (cat [lit ''let value = '', typeName (pd_requestType proc), lit ''::decode(payload).map_err(|source| RpcRequestDecodeError::MalformedPayload { proc, source })?;'']),
      ln (''Ok(Self::'' @ pd_name proc @ ''(value))'')],
    ln ''},''])"

definition emitProcMessageProcIdArm :: "string \<Rightarrow> ProcStream ProcDeclaration \<Rightarrow> TypeRef \<Rightarrow> code" where
  "emitProcMessageProcIdArm enumName proc t =
     (if t = VoidRef \<and> enumName \<noteq> ''RpcRequest'' then ln (enumName @ ''::'' @ pd_name proc @ '' => ProcId::'' @ pd_name proc @ '','')
    else ln (enumName @ ''::'' @ pd_name proc @ ''(..) => ProcId::'' @ pd_name proc @ '',''))"

definition emitRpcResponsePayloadArm :: "ProcStream ProcDeclaration \<Rightarrow> code" where
  "emitRpcResponsePayloadArm proc =
     (if pd_responseType proc = VoidRef then ln (''Self::'' @ pd_name proc @ '' => None,'')
    else ln (''Self::'' @ pd_name proc @ ''(value) => Some(value.encode()),''))"

definition rpcRequestType :: "ProcStream ProcDeclaration \<Rightarrow> string" where
  "rpcRequestType proc = (if pd_requestType proc = VoidRef then ''()'' else rustType (pd_requestType proc))"

fun rpcHandlerOutputType :: "ProcStream \<Rightarrow> string" where
  "rpcHandlerOutputType StreamServer = ''SO''"
| "rpcHandlerOutputType StreamClient = ''CO''"
| "rpcHandlerOutputType _ = ''UO''"

definition rpcHandlerFnType :: "ProcStream ProcDeclaration \<Rightarrow> string" where
  "rpcHandlerFnType proc =
     ''RpcHandlerFn<H, '' @ rpcRequestType proc @ '', '' @ rpcHandlerOutputType (pd_stream proc) @ ''>''"

definition emitRpcHandlersDispatch :: "string \<Rightarrow> string \<Rightarrow> ProcStream ProcDeclaration list \<Rightarrow> code" where
  "emitRpcHandlersDispatch name output procs =
     Block [
    ln (''pub async fn '' @ name @ ''(&self, handler: &mut H, request: RpcRequest) -> Option<'' @ output @ ''> {''),
    Indent [
      ln ''match request {'',
      Indent [
        Block (map (\<lambda>proc. Block [
          ln (''RpcRequest::'' @ pd_name proc @ ''(request) => {''),
          Indent [
            ln (''let handler_fn = self.'' @ fieldName (pd_name proc) @ ''?;''),
            ln ''Some(handler_fn(handler, request).await)''],
          ln ''}'']) (procs)),
        ln ''_ => None,''],
      ln ''}''],
    ln ''}'']"

definition emitRpcHandlerHelpers :: "ProcStream ProcDeclaration list \<Rightarrow> code" where
  "emitRpcHandlerHelpers procs =
     (let unaryProcs = filter (\<lambda>proc. pd_stream proc = StreamUnary) procs;
          serverStreamProcs = filter (\<lambda>proc. pd_stream proc = StreamServer) procs;
          clientStreamProcs = filter (\<lambda>proc. pd_stream proc = StreamClient) procs in
      Block [
    blank,
    ln ''pub type RpcHandlerFuture<'a, O> = std::pin::Pin<Box<dyn std::future::Future<Output = O> + Send + 'a>>;'',
    ln ''pub type RpcHandlerFn<H, I, O> = for<'a> fn(&'a mut H, I) -> RpcHandlerFuture<'a, O>;'',
    blank,
    ln ''pub struct RpcHandlers<H, UO, SO, CO> {'',
    Indent [
      ln ''supported_procs: Vec<ProcId>,'',
      Block (map (\<lambda>proc. ln (fieldName (pd_name proc) @ '': Option<'' @ rpcHandlerFnType proc @ ''>,'')) (procs))],
    ln ''}'',
    blank,
    ln ''impl<H, UO, SO, CO> Default for RpcHandlers<H, UO, SO, CO> {'',
    Indent [
      ln ''fn default() -> Self {'',
      Indent [ln ''Self::new()''],
      ln ''}''],
    ln ''}'',
    blank,
    ln ''impl<H, UO, SO, CO> RpcHandlers<H, UO, SO, CO> {'',
    Indent [
      ln ''pub fn new() -> Self {'',
      Indent [
        ln ''Self {'',
        Indent [
          ln ''supported_procs: Vec::new(),'',
          Block (map (\<lambda>proc. ln (fieldName (pd_name proc) @ '': None,'')) (procs))],
        ln ''}''],
      ln ''}'',
      blank,
      ln ''fn enable(&mut self, proc: ProcId) {'',
      Indent [
        ln ''if !self.supported_procs.contains(&proc) {'',
        Indent [ln ''self.supported_procs.push(proc);''],
        ln ''}''],
      ln ''}'',
      blank,
      Block (map (\<lambda>proc. Block [
        ln (''pub fn '' @ fieldName (pd_name proc) @ ''(mut self, handler: '' @ rpcHandlerFnType proc @ '') -> Self {''),
        Indent [
          ln (''self.enable(ProcId::'' @ pd_name proc @ '');''),
          ln (''self.'' @ fieldName (pd_name proc) @ '' = Some(handler);''),
          ln ''self''],
        ln ''}'',
        blank]) (procs)),
      ln ''pub fn supported_procs(&self) -> &[ProcId] {'',
      Indent [ln ''&self.supported_procs''],
      ln ''}'',
      blank,
      ln ''pub fn is_supported(&self, proc: ProcId) -> bool {'',
      Indent [ln ''self.supported_procs.contains(&proc)''],
      ln ''}'',
      blank,
      ln ''pub fn is_supported_proc_id(&self, proc_id: u64) -> bool {'',
      Indent [ln ''ProcId::from_u64(proc_id).is_some_and(|proc| self.is_supported(proc))''],
      ln ''}'',
      blank,
      emitRpcHandlersDispatch ''dispatch_unary'' ''UO'' unaryProcs,
      blank,
      emitRpcHandlersDispatch ''dispatch_server_stream'' ''SO'' serverStreamProcs,
      blank,
      emitRpcHandlersDispatch ''dispatch_client_stream'' ''CO'' clientStreamProcs],
    ln ''}''])"

text \<open>The derive line of an enumeration of messages: some of the types may contain a float.\<close>

fun anyUsesF64 :: "TypeRef list \<Rightarrow> ProcStream named \<Rightarrow> bool result" where
  "anyUsesF64 [] named = Inr False"
| "anyUsesF64 (t # ts) named = ebind (typeUsesF64 t named) (\<lambda>found. if found then Inr True else anyUsesF64 ts named)"

definition emitDerive :: "TypeRef list \<Rightarrow> ProcStream named \<Rightarrow> code" where
  "emitDerive types named = Line (ebind (anyUsesF64 types named) (\<lambda>uses. Inr (derive_line uses)))"

definition emitProcHelpers :: "ProcStream Schema \<Rightarrow> ProcStream named \<Rightarrow> CliOptions \<Rightarrow> code" where
  "emitProcHelpers schema named options =
     (let procs = sortedProcs schema in
      if length procs = 0 \<or> \<not> byteCodec options then Block []
      else Block [
    blank,
    ln ''#[derive(Debug, Clone, Copy, PartialEq, Eq)]'',
    ln ''pub enum ProcStream {'',
    Indent [
      ln ''Unary,'',
      ln ''Server,'',
      ln ''Client,'',
      ln ''Bidi,''],
    ln ''}'',
    blank,
    ln ''#[derive(Debug, Clone, Copy, PartialEq, Eq)]'',
    ln ''pub struct ProcDefinition {'',
    Indent [
      ln ''pub id: ProcId,'',
      ln ''pub wire_id: u64,'',
      ln ''pub name: &'static str,'',
      ln ''pub stream: ProcStream,''],
    ln ''}'',
    blank,
    ln ''#[derive(Debug, Clone, Copy, PartialEq, Eq)]'',
    ln ''pub enum ProcId {'',
    Indent [Block (map (\<lambda>proc. ln (pd_name proc @ '','')) (procs))],
    ln ''}'',
    blank,
    ln (''pub static PROC_DEFINITIONS: [ProcDefinition; '' @ show_nat (length procs) @ ''] = [''),
    Indent [Block (map (\<lambda>proc. Block [
      ln ''ProcDefinition {'',
      Indent [
        ln (''id: ProcId::'' @ pd_name proc @ '',''),
        ln (''wire_id: '' @ show_nat (pd_id proc) @ '',''),
        ln (''name: \"'' @ pd_name proc @ ''\",''),
        ln (''stream: ProcStream::'' @ procStreamVariant (pd_stream proc) @ '','')],
      ln ''},'']) (procs))],
    ln ''];'',
    blank,
    ln ''impl ProcId {'',
    Indent [
      ln (''pub const KNOWN: [Self; '' @ show_nat (length procs) @ ''] = [''),
      Indent [Block (map (\<lambda>proc. ln (''Self::'' @ pd_name proc @ '','')) (procs))],
      ln ''];'',
      blank,
      ln ''pub fn as_u64(self) -> u64 {'',
      Indent [ln ''self.definition().wire_id''],
      ln ''}'',
      blank,
      ln ''pub fn from_u64(value: u64) -> Option<Self> {'',
      Indent [
        ln ''match value {'',
        Indent [
          Block (map (\<lambda>proc. ln (show_nat (pd_id proc) @ '' => Some(Self::'' @ pd_name proc @ ''),'')) (procs)),
          ln ''_ => None,''],
        ln ''}''],
      ln ''}'',
      blank,
      ln ''pub fn stream(self) -> ProcStream {'',
      Indent [ln ''self.definition().stream''],
      ln ''}'',
      blank,
      ln ''pub fn name(self) -> &'static str {'',
      Indent [ln ''self.definition().name''],
      ln ''}'',
      blank,
      ln ''pub fn definition(self) -> &'static ProcDefinition {'',
      Indent [
        ln ''match self {'',
        Indent [Block (map (\<lambda>(index, proc). ln (''Self::'' @ pd_name proc @ '' => &PROC_DEFINITIONS['' @ show_nat index @ ''],'')) (enumerate 0 procs))],
        ln ''}''],
      ln ''}'',
      blank,
      emitMethodErrorPayloadHelper,
      blank,
      emitMethodErrorVariantHelper procs named],
    ln ''}'',
    blank,
    emitDerive (map pd_requestType procs) named,
    ln ''pub enum RpcRequest {'',
    Indent [Block (map (\<lambda>proc. emitProcMessageVariant proc (pd_requestType proc) True) (procs))],
    ln ''}'',
    blank,
    ln ''#[derive(Debug, Clone, PartialEq)]'',
    ln ''pub enum RpcRequestDecodeError {'',
    Indent [
      ln ''UnknownProcId(u64),'',
      ln ''MissingPayload { proc: ProcId },'',
      ln ''MalformedPayload { proc: ProcId, source: CodecError },''],
    ln ''}'',
    blank,
    ln ''impl RpcRequest {'',
    Indent [
      ln ''pub fn decode(proc_id: u64, payload: Option<&[u8]>) -> Result<Self, RpcRequestDecodeError> {'',
      Indent [
        ln ''let proc = ProcId::from_u64(proc_id).ok_or(RpcRequestDecodeError::UnknownProcId(proc_id))?;'',
        ln ''match proc {'',
        Indent [Block (map (\<lambda>proc. emitRpcRequestDecodeArm proc) (procs))],
        ln ''}''],
      ln ''}'',
      blank,
      ln ''pub fn proc_id(&self) -> ProcId {'',
      Indent [
        ln ''match self {'',
        Indent [Block (map (\<lambda>proc. emitProcMessageProcIdArm ''RpcRequest'' proc (pd_requestType proc)) (procs))],
        ln ''}''],
      ln ''}'',
      blank,
      ln ''pub fn proc_name(&self) -> &'static str {'',
      Indent [ln ''self.proc_id().name()''],
      ln ''}''],
    ln ''}'',
    blank,
    emitDerive (map pd_responseType procs) named,
    ln ''pub enum RpcResponse {'',
    Indent [Block (map (\<lambda>proc. emitProcMessageVariant proc (pd_responseType proc) False) (procs))],
    ln ''}'',
    blank,
    ln ''impl RpcResponse {'',
    Indent [
      ln ''pub fn proc_id(&self) -> ProcId {'',
      Indent [
        ln ''match self {'',
        Indent [Block (map (\<lambda>proc. emitProcMessageProcIdArm ''RpcResponse'' proc (pd_responseType proc)) (procs))],
        ln ''}''],
      ln ''}'',
      blank,
      ln ''pub fn encode_payload(&self) -> Option<Vec<u8>> {'',
      Indent [
        ln ''match self {'',
        Indent [Block (map (\<lambda>proc. emitRpcResponsePayloadArm proc) (procs))],
        ln ''}''],
      ln ''}''],
    ln ''}'',
    emitRpcHandlerHelpers procs])"

section \<open>The helpers of every generated module\<close>

definition emitRuntimeHelpers :: code where
  "emitRuntimeHelpers =
     Block [
    blank,
    ln ''const MAX_U53: u64 = 9_007_199_254_740_991;'',
    ln ''const MIN_I53: i64 = -9_007_199_254_740_991;'',
    ln ''const MAX_I53: i64 = 9_007_199_254_740_991;'',
    blank,
    ln ''fn encode_u53(value: u64) -> Result<Value, CodecError> {'',
    Indent [
      ln ''if value > MAX_U53 {'',
      Indent [ln ''return Err(CodecError::IntegerOutOfRange(\"u53\"));''],
      ln ''}'',
      ln ''Ok(Value::U64(value))''],
    ln ''}'',
    blank,
    ln ''fn encode_i53(value: i64) -> Result<Value, CodecError> {'',
    Indent [
      ln ''if !(MIN_I53..=MAX_I53).contains(&value) {'',
      Indent [ln ''return Err(CodecError::IntegerOutOfRange(\"i53\"));''],
      ln ''}'',
      ln ''Ok(Value::I64(value))''],
    ln ''}'',
    blank,
    ln ''fn encode_f64(value: f64) -> Result<Value, CodecError> {'',
    Indent [
      ln ''if !value.is_finite() {'',
      Indent [ln ''return Err(CodecError::NonFiniteFloat(\"f64\"));''],
      ln ''}'',
      ln ''Ok(Value::F64(value))''],
    ln ''}'',
    blank,
    ln ''fn encode_array<T, F>(items: &[T], mut encode: F) -> Result<Value, CodecError>'',
    ln ''where'',
    Indent [ln ''F: FnMut(&T) -> Result<Value, CodecError>,''],
    ln ''{'',
    Indent [
      ln ''let mut values = Vec::with_capacity(items.len());'',
      ln ''for item in items {'',
      Indent [ln ''values.push(encode(item)?);''],
      ln ''}'',
      ln ''Ok(Value::Array(values))''],
    ln ''}'',
    blank,
    ln ''fn decode_array<T, F>(value: &Value, mut decode: F) -> Result<Vec<T>, CodecError>'',
    ln ''where'',
    Indent [ln ''F: FnMut(&Value) -> Result<T, CodecError>,''],
    ln ''{'',
    Indent [
      ln ''let Value::Array(items) = value else { return Err(CodecError::ExpectedArray); };'',
      ln ''let mut values = Vec::with_capacity(items.len());'',
      ln ''for item in items {'',
      Indent [ln ''values.push(decode(item)?);''],
      ln ''}'',
      ln ''Ok(values)''],
    ln ''}'',
    blank,
    ln ''fn optional_field<T, F>(value: Option<&Value>, decode: F) -> Result<Option<T>, CodecError>'',
    ln ''where'',
    Indent [ln ''F: FnOnce(&Value) -> Result<T, CodecError>,''],
    ln ''{'',
    Indent [
      ln ''match value {'',
      Indent [
        ln ''Some(value) => decode(value).map(Some),'',
        ln ''None => Ok(None),''],
      ln ''}''],
    ln ''}'',
    blank,
    ln ''fn field_or_default<T, F, D>(value: Option<&Value>, decode: F, default: D) -> Result<T, CodecError>'',
    ln ''where'',
    Indent [
      ln ''F: FnOnce(&Value) -> Result<T, CodecError>,'',
      ln ''D: FnOnce() -> T,''],
    ln ''{'',
    Indent [
      ln ''match value {'',
      Indent [
        ln ''Some(value) => decode(value),'',
        ln ''None => Ok(default()),''],
      ln ''}''],
    ln ''}'',
    blank,
    ln ''fn expect_map(value: &Value) -> Result<&BTreeMap<u64, Value>, CodecError> {'',
    Indent [
      ln ''let Value::Map(fields) = value else { return Err(CodecError::ExpectedMap); };'',
      ln ''Ok(fields)''],
    ln ''}'',
    blank,
    ln ''fn expect_union(value: &Value) -> Result<(u64, &BTreeMap<u64, Value>), CodecError> {'',
    Indent [
      ln ''let Value::Array(items) = value else { return Err(CodecError::ExpectedArray); };'',
      ln ''if items.len() != 2 { return Err(CodecError::ExpectedArray); }'',
      ln ''let variant_id = expect_u64(&items[0])?;'',
      ln ''let fields = expect_map(&items[1])?;'',
      ln ''Ok((variant_id, fields))''],
    ln ''}'',
    blank,
    ln ''fn expect_u64(value: &Value) -> Result<u64, CodecError> {'',
    Indent [
      ln ''match value {'',
      Indent [
        ln ''Value::U64(value) => Ok(*value),'',
        ln ''Value::I64(value) if *value >= 0 => Ok(*value as u64),'',
        ln ''_ => Err(CodecError::ExpectedInteger),''],
      ln ''}''],
    ln ''}'',
    blank,
    ln ''fn expect_i64(value: &Value) -> Result<i64, CodecError> {'',
    Indent [
      ln ''match value {'',
      Indent [
        ln ''Value::I64(value) => Ok(*value),'',
        ln ''Value::U64(value) => i64::try_from(*value).map_err(|_| CodecError::ExpectedInteger),'',
        ln ''_ => Err(CodecError::ExpectedInteger),''],
      ln ''}''],
    ln ''}'',
    blank,
    ln ''fn expect_f64(value: &Value) -> Result<f64, CodecError> {'',
    Indent [
      ln ''let Value::F64(value) = value else { return Err(CodecError::ExpectedF64); };'',
      ln ''Ok(*value)''],
    ln ''}'',
    blank,
    ln ''fn expect_text(value: &Value) -> Result<String, CodecError> {'',
    Indent [
      ln ''let Value::Text(value) = value else { return Err(CodecError::ExpectedText); };'',
      ln ''Ok(value.clone())''],
    ln ''}'',
    blank,
    ln ''fn expect_bool(value: &Value) -> Result<bool, CodecError> {'',
    Indent [
      ln ''let Value::Bool(value) = value else { return Err(CodecError::ExpectedBool); };'',
      ln ''Ok(*value)''],
    ln ''}'',
    blank,
    ln ''fn expect_bytes(value: &Value) -> Result<Vec<u8>, CodecError> {'',
    Indent [
      ln ''let Value::Bytes(value) = value else { return Err(CodecError::ExpectedBytes); };'',
      ln ''Ok(value.clone())''],
    ln ''}'']"

section \<open>The generated module\<close>

definition emitRust :: "ProcStream Schema \<Rightarrow> CliOptions \<Rightarrow> string result" where
  "emitRust schema options =
     (let named = declarationMap schema;
          types = filter (\<lambda>d. \<not> isProc d) schema in
      written ''    '' [
        ln ''// Generated by scripts/codegen/rust/main.ts'',
        ln ''// Do not edit by hand.'',
        ln ''use std::collections::BTreeMap;'',
        blank,
        ln ''use crate::cbor::{CborError, Value};'',
        blank,
        emitCodecError,
        Block (map (\<lambda>declaration. Block [blank, emitTypeDeclaration declaration named]) types),
        Block (map (\<lambda>declaration. Block [blank, emitCodec declaration named options]) types),
        emitProcHelpers schema named options,
        emitRuntimeHelpers])"

text \<open>The file the program writes (\<open>None\<close> is the console), or the error that ends it.\<close>

definition rustMain ::
    "(string list \<Rightarrow> ProcStream Schema result) \<Rightarrow> CliOptions \<Rightarrow> (string option \<times> string) result" where
  "rustMain load options =
     ebind (load (schemaRoots options)) (\<lambda>schema.
     ebind (emitRust schema options) (\<lambda>text. Inr (out_file options, text)))"

end
