(* ===== verification/CodegenRustTypes.thy ===== *)
theory CodegenRustTypes
  imports CodegenRust
begin

text \<open>
  The search for floats of the Rust generator (\<open>typeUsesF64\<close>, \<open>declarationUsesF64\<close>): in a schema that has been
  validated it ends, within the bound of the model, and finds a float exactly when the type contains one;
  the generated types derive \<open>Eq\<close> in the other cases only.
\<close>

text \<open>A value of the type can contain a float, at any depth.\<close>

inductive contains_f64 :: "ProcStream named \<Rightarrow> TypeRef \<Rightarrow> bool" for named where
  f64_here: "contains_f64 named (PrimitiveRef TypeF64)"
| f64_item: "contains_f64 named t \<Longrightarrow> contains_f64 named (ArrayRef t)"
| f64_field: "map_of named path = Some d \<Longrightarrow> t \<in> set (declarationTypes d) \<Longrightarrow> contains_f64 named t \<Longrightarrow>
    contains_f64 named (NamedRef path)"

inductive_cases contains_f64_cases:
  "contains_f64 named (PrimitiveRef p)" "contains_f64 named (ArrayRef t)" "contains_f64 named VoidRef"
  "contains_f64 named (NamedRef path)"

text \<open>The types of a map refer to types of the map only.\<close>

definition known :: "ProcStream named \<Rightarrow> TypeRef \<Rightarrow> bool" where
  "known named t \<longleftrightarrow> (\<forall>path. refersTo t = Some path \<longrightarrow> (\<exists>d. map_of named path = Some d \<and> \<not> isProc d))"

definition closed :: "ProcStream named \<Rightarrow> bool" where
  "closed named \<longleftrightarrow> (\<forall>path d. map_of named path = Some d \<longrightarrow> list_all (known named) (declarationTypes d))"

text \<open>Nothing to find in a type once the given types have been searched.\<close>

fun searched :: "string set \<Rightarrow> TypeRef \<Rightarrow> bool" where
  "searched seen (PrimitiveRef p) \<longleftrightarrow> p \<noteq> TypeF64"
| "searched seen (ArrayRef t) \<longleftrightarrow> searched seen t"
| "searched seen VoidRef \<longleftrightarrow> True"
| "searched seen (NamedRef path) \<longleftrightarrow> path \<in> seen"

definition all_searched :: "ProcStream named \<Rightarrow> string set \<Rightarrow> string \<Rightarrow> bool" where
  "all_searched named seen path \<longleftrightarrow>
     (\<forall>d. map_of named path = Some d \<longrightarrow> list_all (searched seen) (declarationTypes d))"

lemma searched_mono: "searched seen t \<Longrightarrow> seen \<subseteq> seen' \<Longrightarrow> searched seen' t"
  by (induction t) auto

lemma all_searched_mono: "all_searched named seen path \<Longrightarrow> seen \<subseteq> seen' \<Longrightarrow> all_searched named seen' path"
  unfolding all_searched_def by (auto simp: list_all_iff intro: searched_mono)

text \<open>What a search promises that started with some types seen.\<close>

definition found_or_searched :: "ProcStream named \<Rightarrow> TypeRef list \<Rightarrow> string set \<Rightarrow> (bool \<times> string set) result \<Rightarrow> bool" where
  "found_or_searched named ts seen res \<longleftrightarrow> (\<exists>found seen'. res = Inr (found, seen') \<and>
     seen \<subseteq> seen' \<and> seen' \<subseteq> dom (map_of named) \<and>
     (found \<longrightarrow> list_ex (contains_f64 named) ts) \<and>
     (\<not> found \<longrightarrow> list_all (searched seen') ts \<and> (\<forall>path \<in> seen' - seen. all_searched named seen' path)))"

lemma found_or_searched_array:
  "found_or_searched named [t] seen res \<Longrightarrow> found_or_searched named [ArrayRef t] seen res"
  unfolding found_or_searched_def by (auto intro: f64_item)

lemma search_list:
  assumes "\<And>t seen. t \<in> set ts \<Longrightarrow> seen \<subseteq> dom (map_of named) \<Longrightarrow> card (dom (map_of named) - seen) \<le> n \<Longrightarrow>
      found_or_searched named [t] seen (f t seen)"
    and "seen \<subseteq> dom (map_of named)" "card (dom (map_of named) - seen) \<le> n"
  shows "found_or_searched named ts seen (someType f ts seen)"
  using assms
proof (induction ts arbitrary: seen)
  case Nil
  then show ?case by (auto simp: found_or_searched_def)
next
  case (Cons t ts)
  from Cons.prems(1) [of t seen] Cons.prems(2,3) obtain found seen' where
    t: "f t seen = Inr (found, seen')" "seen \<subseteq> seen'" "seen' \<subseteq> dom (map_of named)"
      "found \<Longrightarrow> contains_f64 named t"
      "\<not> found \<Longrightarrow> searched seen' t \<and> (\<forall>path \<in> seen' - seen. all_searched named seen' path)"
    unfolding found_or_searched_def by auto
  show ?case
  proof (cases found)
    case True
    with t show ?thesis by (auto simp: found_or_searched_def)
  next
    case False
    have "card (dom (map_of named) - seen') \<le> card (dom (map_of named) - seen)"
      using t(2) by (intro card_mono) (auto simp: finite_dom_map_of)
    with Cons.prems(3) have "card (dom (map_of named) - seen') \<le> n" by simp
    with Cons.IH [of seen'] Cons.prems(1) t(3) have "found_or_searched named ts seen' (someType f ts seen')" by simp
    then obtain found' seen'' where
      ts: "someType f ts seen' = Inr (found', seen'')" "seen' \<subseteq> seen''" "seen'' \<subseteq> dom (map_of named)"
        "found' \<Longrightarrow> list_ex (contains_f64 named) ts"
        "\<not> found' \<Longrightarrow> list_all (searched seen'') ts \<and> (\<forall>path \<in> seen'' - seen'. all_searched named seen'' path)"
      unfolding found_or_searched_def by auto
    have "\<not> found' \<Longrightarrow> searched seen'' t" using t(5) False searched_mono [OF _ ts(2)] by simp
    moreover have "\<not> found' \<Longrightarrow> path \<in> seen'' - seen \<Longrightarrow> all_searched named seen'' path" for path
      using t(5) ts(5) False all_searched_mono [OF _ ts(2)] by (cases "path \<in> seen'") auto
    ultimately show ?thesis using t(1,2) ts False by (auto simp: found_or_searched_def)
  qed
qed

lemma search_type:
  assumes "closed named" "known named t" "seen \<subseteq> dom (map_of named)" "card (dom (map_of named) - seen) \<le> fuel"
  shows "found_or_searched named [t] seen (typeUsesF64_in fuel named t seen)"
  using assms(2-4)
proof (induction fuel arbitrary: t seen)
  case 0
  then have "seen = dom (map_of named)" by (auto simp: finite_dom_map_of)
  with 0(1) show ?case
  proof (induction t)
    case (ArrayRef t)
    then show ?case by (simp add: known_def found_or_searched_array)
  qed (auto simp: found_or_searched_def known_def intro: contains_f64.intros)
next
  case (Suc fuel)
  from Suc.prems show ?case
  proof (induction t)
    case (NamedRef path)
    then obtain d where d: "map_of named path = Some d" "\<not> isProc d" by (auto simp: known_def)
    show ?case
    proof (cases "path \<in> seen")
      case True
      with NamedRef show ?thesis by (auto simp: found_or_searched_def)
    next
      case False
      define seen1 where "seen1 = insert path seen"
      have sub: "seen1 \<subseteq> dom (map_of named)" using NamedRef.prems(2) d(1) by (auto simp: seen1_def)
      have "dom (map_of named) - seen1 = (dom (map_of named) - seen) - {path}" by (auto simp: seen1_def)
      then have budget: "card (dom (map_of named) - seen1) \<le> fuel"
        using NamedRef.prems(3) d(1) False by (simp add: card_Diff_singleton domI)
      have kn: "list_all (known named) (declarationTypes d)" using assms(1) d(1) by (simp add: closed_def)
      have "found_or_searched named (declarationTypes d) seen1
          (someType (typeUsesF64_in fuel named) (declarationTypes d) seen1)"
        using kn sub budget by (intro search_list [where n = fuel] Suc.IH) (auto simp: list_all_iff)
      then obtain found seen' where
        r: "someType (typeUsesF64_in fuel named) (declarationTypes d) seen1 = Inr (found, seen')"
          "seen1 \<subseteq> seen'" "seen' \<subseteq> dom (map_of named)"
          "found \<Longrightarrow> list_ex (contains_f64 named) (declarationTypes d)"
          "\<not> found \<Longrightarrow> list_all (searched seen') (declarationTypes d) \<and> (\<forall>p \<in> seen' - seen1. all_searched named seen' p)"
        unfolding found_or_searched_def by auto
      have "found \<Longrightarrow> contains_f64 named (NamedRef path)"
        using r(4) d(1) by (auto simp: list_ex_iff intro: f64_field)
      moreover have "\<not> found \<Longrightarrow> p \<in> seen' - seen \<Longrightarrow> all_searched named seen' p" for p
        using r(5) d(1) by (cases "p = path") (auto simp: all_searched_def seen1_def)
      ultimately show ?thesis
        using d False r by (auto simp: found_or_searched_def seen1_def)
    qed
  next
    case (ArrayRef t)
    then show ?case by (simp add: known_def found_or_searched_array)
  qed (auto simp: found_or_searched_def intro: contains_f64.intros)
qed

text \<open>When everything seen has been searched nothing contains a float.\<close>

lemma nothing_found:
  assumes "\<forall>path \<in> seen. all_searched named seen path" "searched seen t"
  shows "\<not> contains_f64 named t"
proof
  assume "contains_f64 named t"
  from this assms(2) show False
  proof (induction rule: contains_f64.induct)
    case (f64_field path d t)
    with assms(1) show ?case by (auto simp: all_searched_def list_all_iff)
  qed auto
qed

lemma search_result:
  assumes "found_or_searched named ts {} res"
  shows "\<exists>seen. res = Inr (list_ex (contains_f64 named) ts, seen)"
proof -
  from assms obtain found seen where r: "res = Inr (found, seen)" "found \<Longrightarrow> list_ex (contains_f64 named) ts"
    "\<not> found \<Longrightarrow> list_all (searched seen) ts \<and> (\<forall>path \<in> seen. all_searched named seen path)"
    unfolding found_or_searched_def by auto
  have "\<not> found \<Longrightarrow> \<not> list_ex (contains_f64 named) ts"
    using r(3) nothing_found [of seen named] by (auto simp: list_ex_iff list_all_iff)
  with r(1,2) show ?thesis by (cases found) auto
qed

lemma schema_closed:
  assumes "validateSchema schema = Inr ()"
  shows "closed (declarationMap schema)"
  unfolding closed_def
proof (intro allI impI)
  fix path d
  assume "map_of (declarationMap schema) path = Some d"
  then have d: "d \<in> set schema" using declared by blast
  with assms have "validateDeclaration (schemaPaths schema) d = Inr ()" by (auto simp: validateSchema_def)
  then show "list_all (known (declarationMap schema)) (declarationTypes d)"
    unfolding declaration_ok list_all_iff known_def using getNamed_known [of _ schema] by (cases d) fastforce+
qed

lemma schema_knows:
  "validateTypeRef (schemaPaths schema) t = Inr () \<Longrightarrow> known (declarationMap schema) t"
  using getNamed_known [of _ schema] by (fastforce simp: known_def)

lemma type_search:
  assumes "validateSchema schema = Inr ()" "validateTypeRef (schemaPaths schema) t = Inr ()"
  shows "typeUsesF64 t (declarationMap schema) = Inr (contains_f64 (declarationMap schema) t)"
proof -
  have "found_or_searched (declarationMap schema) [t] {} (typeUsesF64_in (length (declarationMap schema)) (declarationMap schema) t {})"
    using search_type [OF schema_closed [OF assms(1)] schema_knows [OF assms(2)], of "{}"]
    by (simp add: card_declarationMap)
  from search_result [OF this] show ?thesis by (auto simp: typeUsesF64_def)
qed

lemma declaration_search:
  assumes "validateSchema schema = Inr ()" "d \<in> set schema"
  shows "declarationUsesF64 d (declarationMap schema) =
    Inr (list_ex (contains_f64 (declarationMap schema)) (declarationTypes d))"
proof -
  define named where "named = declarationMap schema"
  have closed: "closed named" unfolding named_def by (rule schema_closed [OF assms(1)])
  from assms have "validateDeclaration (schemaPaths schema) d = Inr ()" by (auto simp: validateSchema_def)
  then have known: "\<forall>t \<in> set (declarationTypes d). known named t"
    unfolding declaration_ok known_def named_def using getNamed_known [of _ schema] by (cases d) fastforce+
  have "found_or_searched named (declarationTypes d) {} (someType (typeUsesF64_in (length named) named) (declarationTypes d) {})"
    using known by (intro search_list [where n = "length named"] search_type [OF closed])
      (auto simp: named_def card_declarationMap)
  from search_result [OF this] show ?thesis by (auto simp: declarationUsesF64_def named_def)
qed

text \<open>(C10) In a validated schema the search for a float in a type ends without an error, also when types refer to
  each other in cycles, and finds one exactly when a value of the type can contain a float; so the types that
  derive \<open>Eq\<close> are those without.\<close>

theorem float_search_correct:
  assumes "validateSchema schema = Inr ()"
  shows "(validateTypeRef (schemaPaths schema) t = Inr () \<longrightarrow>
      typeUsesF64 t (declarationMap schema) = Inr (contains_f64 (declarationMap schema) t)) \<and>
    (d \<in> set schema \<longrightarrow> declarationUsesF64 d (declarationMap schema) =
      Inr (list_ex (contains_f64 (declarationMap schema)) (declarationTypes d)))"
  using type_search [OF assms] declaration_search [OF assms] by blast

text \<open>A list of points that refers to itself.\<close>

definition list_schema :: "ProcStream Schema" where
  "list_schema = [
     StructDecl \<lparr>sd_name = ''Cell'', sd_typePath = ''m.Cell'', sd_fields = [
       \<lparr>fd_id = 1, fd_name = ''next'', fd_optional = True, fd_type = NamedRef ''m.Cell''\<rparr>,
       \<lparr>fd_id = 2, fd_name = ''at'', fd_optional = False, fd_type = ArrayRef (NamedRef ''m.Point'')\<rparr>]\<rparr>,
     StructDecl \<lparr>sd_name = ''Point'', sd_typePath = ''m.Point'', sd_fields = [
       \<lparr>fd_id = 1, fd_name = ''x'', fd_optional = False, fd_type = PrimitiveRef TypeF64\<rparr>]\<rparr>]"

theorem float_search_correct_witness:
  "typeUsesF64 (NamedRef ''m.Cell'') (declarationMap list_schema) = Inr True"
proof -
  have v: "validateSchema list_schema = Inr ()"
    by (simp add: list_schema_def validateSchema_def schemaPaths_def List.map_filter_simps)
  have m: "contains_f64 (declarationMap list_schema) (NamedRef ''m.Cell'')"
  proof (rule f64_field)
    show "map_of (declarationMap list_schema) ''m.Cell'' = Some (list_schema ! 0)"
      by (simp add: list_schema_def declarationMap_def)
    show "ArrayRef (NamedRef ''m.Point'') \<in> set (declarationTypes (list_schema ! 0))" by (simp add: list_schema_def)
    show "contains_f64 (declarationMap list_schema) (ArrayRef (NamedRef ''m.Point''))"
    proof (intro f64_item f64_field)
      show "map_of (declarationMap list_schema) ''m.Point'' = Some (list_schema ! 1)"
        by (simp add: list_schema_def declarationMap_def)
      show "PrimitiveRef TypeF64 \<in> set (declarationTypes (list_schema ! 1))" by (simp add: list_schema_def)
    qed (rule f64_here)
  qed
  have "validateTypeRef (schemaPaths list_schema) (NamedRef ''m.Cell'') = Inr ()"
    by (simp add: list_schema_def schemaPaths_def List.map_filter_simps)
  with float_search_correct [OF v, of "NamedRef ''m.Cell''"] m show ?thesis by simp
qed

end
