(* ===== verification/RustText.thy ===== *)
theory RustText
  imports CodegenText CodegenRustTypes
begin

text \<open>
  The text the Rust generator writes: its brackets nest, and for a validated schema whose enumerations and unions
  are not empty, whose error types are unions of messages and whose requests are named types it is written to
  the end; the identifiers of fields; what validation accepts.
\<close>

section \<open>Names and expressions\<close>

lemma plain_split_camel: "plain s \<Longrightarrow> plain (split_camel s)"
  by (induction s rule: split_camel.induct) (auto simp: bracket_def)

lemma plain_split_acronym: "plain s \<Longrightarrow> plain (split_acronym s)"
  by (induction s rule: split_acronym.induct) (auto simp: bracket_def)

lemma plain_join_words: "plain s \<Longrightarrow> plain (join_words within s)"
  by (induction within s rule: join_words.induct) (auto simp: bracket_def)

lemma plain_snakeCase: "plain s \<Longrightarrow> plain (snakeCase s)"
  unfolding snakeCase_def
  by (intro plain_map not_bracket_lower plain_join_words plain_split_acronym plain_split_camel)

lemma plain_fieldName: "plain s \<Longrightarrow> plain (fieldName s)"
  using plain_snakeCase [of s] by (simp add: fieldName_def rawIdent_def bracket_def)

lemma scan_rustType: "plain_type t \<Longrightarrow> scan (rustType t) st = Some st"
  by (induction t) (auto simp: scan_plain plain_localTypeName split: PrimitiveTypeName.split)

lemma scan_rustFieldType: "plain_type (fd_type field) \<Longrightarrow> scan (rustFieldType field) st = Some st"
  by (simp add: rustFieldType_def scan_rustType)

lemma rust_scan_encodeExpr: "plain_type t \<Longrightarrow> (\<And>st. scan v st = Some st) \<Longrightarrow> scan (encodeExpr v t) st = Some st"
proof (induction t arbitrary: v st)
  case (PrimitiveRef p)
  then show ?case by (cases p) auto
next
  case (ArrayRef t)
  have "scan ''item'' st = Some st" for st by simp
  with ArrayRef.IH [of "''item''"] ArrayRef.prems show ?case by simp
qed auto

lemma rust_scan_decodeExpr: "plain_type t \<Longrightarrow> (\<And>st. scan v st = Some st) \<Longrightarrow> scan (decodeExpr v t) st = Some st"
proof (induction t arbitrary: v st)
  case (PrimitiveRef p)
  then show ?case by (cases p) auto
next
  case (ArrayRef t)
  have "scan ''item'' st = Some st" for st by simp
  with ArrayRef.IH [of "''item''"] ArrayRef.prems show ?case by simp
qed (auto simp: scan_plain plain_localTypeName)

lemma rust_scan_defaultExpr:
  assumes "plain_named named" "defaultExpr t named = Inr s"
  shows "scan s st = Some st"
proof (cases t)
  case (PrimitiveRef p)
  with assms show ?thesis by (cases p) auto
next
  case (NamedRef path)
  with assms obtain d where d: "getNamed (NamedRef path) named = Inr d" by (auto simp del: getNamed.simps)
  with assms(1) have "plain_declaration d"
    by (auto simp: plain_named_def split: option.splits if_splits)
  with NamedRef d assms(2) show ?thesis
    by (cases d) (auto simp: scan_plain list_all_iff simp del: getNamed.simps dest!: first_of_Inr)
qed (use assms in auto)

lemma rust_scan_decodeFieldExpr:
  assumes "plain_named named" "plain_type (fd_type field)" "decodeFieldExpr field named = Inr s"
  shows "scan s st = Some st"
proof -
  have v: "scan ''value'' st = Some st" for st by simp
  note r = rust_scan_decodeExpr [OF assms(2) v] rust_scan_defaultExpr [OF assms(1), of "fd_type field"]
  from assms(3) r show ?thesis
    by (cases "defaultExpr (fd_type field) named")
      (auto simp: decodeFieldExpr_def Let_def cat_simps split: if_splits)
qed

section \<open>Emitters\<close>

lemma field_simps:
  assumes "plain_fields listed" "field \<in> set listed"
  shows "scan (fieldName (fd_name field)) st = Some st" "scan (rustFieldType field) st = Some st"
    "scan (encodeExpr ''value'' (fd_type field)) st = Some st"
    "scan (encodeExpr (''&self.'' @ fieldName (fd_name field)) (fd_type field)) st = Some st"
    "scan (encodeExpr (fieldName (fd_name field)) (fd_type field)) st = Some st"
proof -
  from plain_fieldsD [OF assms] have p: "plain (fieldName (fd_name field))" "plain_type (fd_type field)"
    by (simp_all add: plain_fieldName)
  then show "scan (fieldName (fd_name field)) st = Some st" "scan (rustFieldType field) st = Some st"
    by (simp_all add: scan_plain scan_rustFieldType)
  show "scan (encodeExpr ''value'' (fd_type field)) st = Some st"
    "scan (encodeExpr (''&self.'' @ fieldName (fd_name field)) (fd_type field)) st = Some st"
    "scan (encodeExpr (fieldName (fd_name field)) (fd_type field)) st = Some st"
    by (intro rust_scan_encodeExpr p(2); simp add: scan_plain p(1))+
qed

lemma nest_decode_fields:
  assumes "plain_named named" "plain_fields listed"
  shows "nest_all (map (\<lambda>field. Line (cat [lit (fieldName (fd_name field)), lit '': '', decodeFieldExpr field named, lit ''?,''])) listed) st = Some st"
proof (rule nest_map)
  fix field st
  assume f: "field \<in> set listed"
  note p = plain_fieldsD [OF assms(2) f]
  show "nest (Line (cat [lit (fieldName (fd_name field)), lit '': '', decodeFieldExpr field named, lit ''?,''])) st = Some st"
    using rust_scan_decodeFieldExpr [OF assms(1), of field] p
    by (cases "decodeFieldExpr field named") (simp_all add: scan_plain plain_fieldName cat_simps nest.simps(1))
qed

lemma rust_nest_default_fields:
  assumes "plain_named named" "plain_fields listed"
  shows "nest_all (map (\<lambda>field. Line (cat [lit (fieldName (fd_name field)), lit '': '', defaultForField field named, lit '',''])) listed) st = Some st"
proof (rule nest_map)
  fix field st
  assume f: "field \<in> set listed"
  note p = plain_fieldsD [OF assms(2) f]
  show "nest (Line (cat [lit (fieldName (fd_name field)), lit '': '', defaultForField field named, lit '',''])) st = Some st"
    using rust_scan_defaultExpr [OF assms(1), of "fd_type field"] p
    by (cases "defaultExpr (fd_type field) named")
      (simp_all add: defaultForField_def scan_plain plain_fieldName cat_simps nest.simps(1))
qed

lemma rust_nest_EncodeField:
  assumes "plain_fields listed" "field \<in> set listed"
  shows "nest (emitEncodeField field) st = Some st"
  by (simp add: emitEncodeField_def Let_def field_simps [OF assms] field_simps(4) [OF assms, unfolded append_Cons append_Nil])

lemma nest_Wrappers: "plain s \<Longrightarrow> nest (emitEncodeDecodeWrappers s) st = Some st"
  by (simp add: emitEncodeDecodeWrappers_def scan_plain)

lemma rust_nest_StructCodec:
  assumes "plain_named named" "plain (sd_name d)" "plain_fields (sd_fields d)"
  shows "nest (emitStructCodec d named options) st = Some st"
  unfolding emitStructCodec_def
  by (simp add: scan_plain assms(2) nest_Wrappers nest_map rust_nest_EncodeField [OF assms(3)] nest_decode_fields [OF assms(1,3)])

lemma rust_nest_EnumCodec:
  assumes "plain (ed_name d)" "\<forall>v \<in> set (ed_variants d). plain (ev_name v)"
  shows "nest (emitEnumCodec d options) st = Some st"
  unfolding emitEnumCodec_def
  by (simp add: scan_plain assms nest_Wrappers nest_map)

lemma nest_UnionArms:
  assumes "plain_named named" "plain (uv_name v)" "plain_fields (uv_fields v)"
  shows "nest (emitUnionEncodeArm v) st = Some st" "nest (emitUnionDecodeArm v named) st = Some st"
proof -
  have e: "nest_all (map (\<lambda>field. if fd_optional field then Block [
      ln (''if let Some(value) = '' @ fieldName (fd_name field) @ '' {''),
      Indent [ln (''fields.insert('' @ show_nat (fd_id field) @ '', '' @ encodeExpr ''value'' (fd_type field) @ ''?);'')],
      ln ''}'']
    else ln (''fields.insert('' @ show_nat (fd_id field) @ '', '' @ encodeExpr (fieldName (fd_name field)) (fd_type field) @ ''?);''))
      (uv_fields v)) st = Some st" for st
    by (rule nest_map) (simp add: field_simps [OF assms(3)])
  show "nest (emitUnionEncodeArm v) st = Some st"
    unfolding emitUnionEncodeArm_def
    by (simp add: scan_plain assms(2) nest_map field_simps [OF assms(3)] e [unfolded append_Cons append_Nil])
  show "nest (emitUnionDecodeArm v named) st = Some st"
    unfolding emitUnionDecodeArm_def
    by (simp add: scan_plain assms(2) nest_decode_fields [OF assms(1,3)])
qed

lemma rust_nest_UnionCodec:
  assumes "plain_named named" "plain (ud_name d)"
    and "\<forall>v \<in> set (ud_variants d). plain (uv_name v) \<and> plain_fields (uv_fields v)"
  shows "nest (emitUnionCodec d named options) st = Some st"
  unfolding emitUnionCodec_def
  by (simp add: scan_plain assms nest_Wrappers nest_map nest_UnionArms [OF assms(1)])

lemma rust_nest_Codec:
  assumes "plain_named named" "plain_declaration d"
  shows "nest (emitCodec d named options) st = Some st"
  using assms by (cases d) (auto simp: rust_nest_StructCodec rust_nest_EnumCodec rust_nest_UnionCodec list_all_iff)

lemma nest_derive: "nest (Line (ebind r (\<lambda>uses. Inr (derive_line uses)))) st = Some st"
  by (cases r) (simp_all add: derive_line_def nest.simps(1))

lemma nest_DefaultImpl: "plain s \<Longrightarrow> (\<And>st. nest body st = Some st) \<Longrightarrow> nest (emitDefaultImpl s body) st = Some st"
  by (simp add: emitDefaultImpl_def scan_plain)

lemma rust_nest_TypeDeclaration:
  assumes "plain_named named" "plain_declaration d"
  shows "nest (emitTypeDeclaration d named) st = Some st"
proof (cases d)
  case (StructDecl s)
  with assms(2) have n: "plain (sd_name s)" "plain_fields (sd_fields s)" by auto
  have "nest (struct_default s named) st = Some st" for st
    unfolding struct_default_def by (simp add: rust_nest_default_fields [OF assms(1) n(2)])
  with n show ?thesis unfolding StructDecl
    by (simp add: nest_derive nest_DefaultImpl scan_plain nest_map field_simps [OF n(2)])
next
  case (EnumDecl s)
  with assms(2) show ?thesis by (simp add: scan_plain nest_map list_all_iff)
next
  case (UnionDecl u)
  with assms(2) have n: "plain (ud_name u)" "\<forall>v \<in> set (ud_variants u). plain (uv_name v) \<and> plain_fields (uv_fields v)"
    by (auto simp: list_all_iff)
  have "nest (code_of (ebind (first_of (ud_variants u)) (\<lambda>v. Inr (union_default v named)))) st = Some st" for st
  proof (cases "first_of (ud_variants u)")
    case (Inr v)
    with n first_of_Inr [OF Inr] have v: "plain (uv_name v)" "plain_fields (uv_fields v)" by auto
    with Inr show ?thesis by (simp add: union_default_def scan_plain rust_nest_default_fields [OF assms(1) v(2)])
  qed (simp add: nest.simps(1))
  then have impl: "nest (emitDefaultImpl (ud_name u) (code_of (ebind (first_of (ud_variants u))
      (\<lambda>v. Inr (union_default v named))))) st = Some st" for st
    by (rule nest_DefaultImpl [OF n(1)])
  have fields: "nest_all (map (\<lambda>field. ln (fieldName (fd_name field) @ '': '' @ rustFieldType field @ '',''))
      (uv_fields v)) st = Some st" if "v \<in> set (ud_variants u)" for v st
    using n(2) that by (intro nest_map) (auto simp: field_simps)
  have variants: "nest_all (map (\<lambda>variant. if length (uv_fields variant) = 0 then ln (uv_name variant @ '','')
      else Block [
        ln (uv_name variant @ '' {''),
        Indent [Block (map (\<lambda>field. ln (fieldName (fd_name field) @ '': '' @ rustFieldType field @ '','')) (uv_fields variant))],
        ln ''},'']) (ud_variants u)) st = Some st" for st
  proof (rule nest_map)
    fix v st
    assume v: "v \<in> set (ud_variants u)"
    then have "plain (uv_name v)" using n(2) by blast
    then show "nest (if length (uv_fields v) = 0 then ln (uv_name v @ '','')
      else Block [
        ln (uv_name v @ '' {''),
        Indent [Block (map (\<lambda>field. ln (fieldName (fd_name field) @ '': '' @ rustFieldType field @ '','')) (uv_fields v))],
        ln ''},'']) st = Some st"
      using fields [OF v] by (simp add: scan_plain)
  qed
  show ?thesis unfolding UnionDecl
    by (simp add: nest_derive impl variants [simplified] scan_plain n(1))
qed simp

lemma nest_CodecError: "nest emitCodecError st = Some st"
  by (simp add: emitCodecError_def)

lemma rust_nest_RuntimeHelpers: "nest emitRuntimeHelpers st = Some st"
  by (simp add: emitRuntimeHelpers_def)

definition plain_proc :: "ProcStream ProcDeclaration \<Rightarrow> bool" where
  "plain_proc p \<longleftrightarrow> plain_declaration (ProcDecl p)"

lemma rust_plain_proc_simps:
  assumes "plain_proc p"
  shows "scan (pd_name p) st = Some st" "scan (fieldName (pd_name p)) st = Some st"
    "scan (rustType (pd_requestType p)) st = Some st" "scan (rustType (pd_responseType p)) st = Some st"
    "scan (rpcHandlerFnType p) st = Some st" "scan (procStreamVariant (pd_stream p)) st = Some st"
proof -
  show "scan (procStreamVariant (pd_stream p)) st = Some st" by (cases "pd_stream p") simp_all
  have o: "scan (rpcHandlerOutputType (pd_stream p)) st = Some st" for st by (cases "pd_stream p") simp_all
  from assms have n: "plain (pd_name p)" "plain_type (pd_requestType p)" "plain_type (pd_responseType p)"
    by (auto simp: plain_proc_def)
  then show "scan (pd_name p) st = Some st" "scan (fieldName (pd_name p)) st = Some st"
    "scan (rustType (pd_requestType p)) st = Some st" "scan (rustType (pd_responseType p)) st = Some st"
    by (simp_all add: scan_plain plain_fieldName scan_rustType)
  show "scan (rpcHandlerFnType p) st = Some st"
    using n by (simp add: rpcHandlerFnType_def rpcRequestType_def scan_rustType o)
qed

lemma rust_nest_procs:
  assumes "list_all plain_proc procs" "\<And>p st. plain_proc p \<Longrightarrow> nest (f p) st = Some st"
  shows "nest_all (map f procs) st = Some st"
  by (rule nest_map) (use assms in \<open>auto simp: list_all_iff\<close>)

lemma nest_MessageVariant:
  "plain_proc p \<Longrightarrow> plain_type t \<Longrightarrow> nest (emitProcMessageVariant p t unit) st = Some st"
  by (simp add: emitProcMessageVariant_def rust_plain_proc_simps scan_rustType)

lemma nest_ProcIdArm:
  "plain_proc p \<Longrightarrow> plain enumName \<Longrightarrow> nest (emitProcMessageProcIdArm enumName p t) st = Some st"
  by (simp add: emitProcMessageProcIdArm_def rust_plain_proc_simps scan_plain)

lemma nest_PayloadArm: "plain_proc p \<Longrightarrow> nest (emitRpcResponsePayloadArm p) st = Some st"
  by (simp add: emitRpcResponsePayloadArm_def rust_plain_proc_simps)

lemma nest_DecodeArm:
  assumes "plain_proc p"
  shows "nest (emitRpcRequestDecodeArm p) st = Some st"
proof -
  have "typeName (pd_requestType p) = Inr s \<Longrightarrow> scan s st = Some st" for s st
    using assms by (cases "pd_requestType p") (auto simp: plain_proc_def scan_plain plain_localTypeName throw_def)
  then have "nest (Line (cat [lit ''let value = '', typeName (pd_requestType p),
      lit ''::decode(payload).map_err(|source| RpcRequestDecodeError::MalformedPayload { proc, source })?;''])) st = Some st" for st
    by (cases "typeName (pd_requestType p)") (simp_all add: cat_simps nest.simps(1))
  with assms show ?thesis by (simp add: emitRpcRequestDecodeArm_def rust_plain_proc_simps)
qed

lemma nest_Dispatch:
  "plain name \<Longrightarrow> plain output \<Longrightarrow> list_all plain_proc procs \<Longrightarrow> nest (emitRpcHandlersDispatch name output procs) st = Some st"
  by (simp add: emitRpcHandlersDispatch_def scan_plain rust_nest_procs rust_plain_proc_simps)

lemma nest_HandlerHelpers:
  assumes "list_all plain_proc procs"
  shows "nest (emitRpcHandlerHelpers procs) st = Some st"
proof -
  have "list_all plain_proc (filter P procs)" for P using assms by (auto simp: list_all_iff)
  then show ?thesis using assms
    by (simp add: emitRpcHandlerHelpers_def Let_def rust_nest_procs rust_plain_proc_simps nest_Dispatch bracket_def)
qed

lemma nest_PayloadHelper: "nest emitMethodErrorPayloadHelper st = Some st"
  by (simp add: emitMethodErrorPayloadHelper_def)

lemma error_variants_plain:
  assumes "plain_named named" "methodErrorVariants p named = Inr variants"
  shows "\<forall>v \<in> set variants. plain (uv_name v)"
proof (cases "pd_errorType p = VoidRef")
  case False
  with assms(2) obtain e where e: "getNamed (pd_errorType p) named = Inr e"
    and variants: "(case e of
        UnionDecl declaration \<Rightarrow>
          (case find (\<lambda>variant. \<not> error_variant_ok variant) (ud_variants declaration) of
             Some variant \<Rightarrow> throw (pd_name p @ '' error variant '' @ uv_name variant @
               '' must contain only @ id - 1 message: string'')
           | None \<Rightarrow> Inr (ud_variants declaration))
      | _ \<Rightarrow> throw (pd_name p @ '' error type must be a union'')) = Inr variants"
    by (auto simp: methodErrorVariants_def)
  from variants e obtain d where d: "getNamed (pd_errorType p) named = Inr (UnionDecl d)" "variants = ud_variants d"
    by (cases e) (auto split: option.splits)
  have "plain_declaration (UnionDecl d :: ProcStream Declaration)" by (rule plain_getNamed_declaration [OF assms(1) d(1)])
  with d(2) show ?thesis by (auto simp: list_all_iff)
qed (use assms(2) in \<open>auto simp: methodErrorVariants_def\<close>)

lemma nest_VariantHelper:
  assumes "plain_named named" "list_all plain_proc procs"
  shows "nest (emitMethodErrorVariantHelper procs named) st = Some st"
proof (cases "procsWithMethodErrors procs named")
  case (Inr withErrors)
  have found: "list_all (\<lambda>(p, variants). plain_proc p \<and> (\<forall>v \<in> set variants. plain (uv_name v))) withErrors"
  proof -
    obtain ys where ys: "emap (\<lambda>p. ebind (methodErrorVariants p named) (\<lambda>variants. Inr (p, variants))) procs = Inr ys"
      "withErrors = filter (\<lambda>(p, variants). length variants > 0) ys"
      using Inr by (auto simp: procsWithMethodErrors_def)
    have "list_all2 (\<lambda>p y. ebind (methodErrorVariants p named) (\<lambda>variants. Inr (p, variants)) = Inr y) procs ys"
      using ys(1) by (rule emap_eq_InrD)
    then have "list_all (\<lambda>(p, variants). plain_proc p \<and> (\<forall>v \<in> set variants. plain (uv_name v))) ys"
      using assms(2) by (induction procs ys rule: list_all2_induct) (auto dest: error_variants_plain [OF assms(1)])
    with ys(2) show ?thesis by (auto simp: list_all_iff)
  qed
  have arms: "nest_all (map (\<lambda>v. ln (''\"'' @ snakeCase (uv_name v) @ ''\" => Some('' @ show_nat (uv_id v) @ ''),'')) variants) st = Some st"
    if "(p, variants) \<in> set withErrors" for p variants st
    using found that by (intro nest_map) (auto simp: list_all_iff scan_plain plain_snakeCase)
  have "nest_all (map (\<lambda>(proc, variants). Block [
      ln (''Self::'' @ pd_name proc @ '' => match code {''),
      Indent [
        Block (map (\<lambda>variant. ln (''\"'' @ snakeCase (uv_name variant) @ ''\" => Some('' @ show_nat (uv_id variant) @ ''),'')) variants),
        ln ''_ => None,''],
      ln ''},'']) withErrors) st = Some st" for st
  proof (rule nest_map)
    fix x st
    assume x: "x \<in> set withErrors"
    obtain p variants where pv: "x = (p, variants)" by (cases x)
    from x pv found have "plain_proc p" by (auto simp: list_all_iff)
    with arms [OF x [unfolded pv]] show "nest (case x of (proc, variants) \<Rightarrow> Block [
      ln (''Self::'' @ pd_name proc @ '' => match code {''),
      Indent [
        Block (map (\<lambda>variant. ln (''\"'' @ snakeCase (uv_name variant) @ ''\" => Some('' @ show_nat (uv_id variant) @ ''),'')) variants),
        ln ''_ => None,''],
      ln ''},'']) st = Some st" by (simp add: pv rust_plain_proc_simps)
  qed
  then show ?thesis by (simp add: emitMethodErrorVariantHelper_def Inr)
qed (simp add: emitMethodErrorVariantHelper_def nest.simps(1))

lemma nest_Derive: "nest (emitDerive types named) st = Some st"
  by (simp add: emitDerive_def nest_derive)

lemma nest_ProcHelpers:
  assumes "plain_named named" "list_all plain_proc (procsOf schema)"
  shows "nest (emitProcHelpers schema named options) st = Some st"
proof -
  have procs: "list_all plain_proc (sortedProcs schema)" using assms(2) by (simp add: list_all_iff set_sortedProcs)
  have types: "plain_type (pd_requestType p)" "plain_type (pd_responseType p)" if "plain_proc p" for p
    using that by (auto simp: plain_proc_def)
  have index: "nest_all (map (\<lambda>(index, proc).
      ln (''Self::'' @ pd_name proc @ '' => &PROC_DEFINITIONS['' @ show_nat index @ ''],'')) (enumerate 0 (sortedProcs schema))) st = Some st" for st
    using procs by (intro nest_map) (auto simp: list_all_iff rust_plain_proc_simps dest!: in_set_enumerate_eq [THEN iffD1])
  show ?thesis
    unfolding emitProcHelpers_def Let_def
    by (simp add: rust_nest_procs [OF procs] rust_plain_proc_simps nest_MessageVariant nest_ProcIdArm nest_PayloadArm types bracket_def nest_DecodeArm
        nest_HandlerHelpers [OF procs] nest_PayloadHelper nest_VariantHelper [OF assms(1) procs] nest_Derive
        index [simplified])
qed

definition plain_schema :: "ProcStream Schema \<Rightarrow> bool" where
  "plain_schema schema \<longleftrightarrow> list_all plain_declaration schema"

text \<open>The brackets of the module the generator writes nest: each one that is opened is closed, in the right
  order, whatever the schema, as long as its names contain none.\<close>

theorem rust_brackets_nest:
  assumes "plain_schema schema" "emitRust schema options = Inr text"
  shows "scan text [] = Some []"
proof -
  have d: "\<forall>d \<in> set schema. plain_declaration d" using assms(1) by (simp add: plain_schema_def list_all_iff)
  then have named: "plain_named (declarationMap schema)" by (intro plain_declarationMap) (simp add: list_all_iff)
  have procs: "list_all plain_proc (procsOf schema)"
    using d by (auto simp: list_all_iff procsOf_iff plain_proc_def simp del: plain_declaration.simps)
  define ts where "ts = filter (\<lambda>d. \<not> isProc d) schema"
  have types: "nest (emitTypeDeclaration e (declarationMap schema)) st = Some st"
    "nest (emitCodec e (declarationMap schema) options) st = Some st" if "e \<in> set ts" for e st
    using that d named by (simp_all add: ts_def rust_nest_TypeDeclaration rust_nest_Codec)
  show ?thesis
    using written_nests [OF assms(2) [unfolded emitRust_def Let_def, folded ts_def]]
    by (simp add: bracket_def nest_CodecError nest_map types
        nest_ProcHelpers [OF named procs] rust_nest_RuntimeHelpers)
qed

section \<open>Modules are written to the end\<close>

lemma defaultExpr_succeeds: "resolves named t \<Longrightarrow> succeeds (defaultExpr t named)"
proof (cases t)
  case (NamedRef path)
  assume "resolves named t"
  with NamedRef obtain d where "getNamed (NamedRef path) named = Inr d" "inhabited d" by (auto dest: resolves_named)
  with NamedRef show ?thesis by (cases d) (simp_all del: getNamed.simps)
qed simp_all

lemma field_succeeds:
  assumes "resolves named (fd_type field)"
  shows "succeeds (decodeFieldExpr field named)" "succeeds (defaultForField field named)"
  using defaultExpr_succeeds [OF assms] by (simp_all add: decodeFieldExpr_def defaultForField_def Let_def)

lemma rust_writes_EncodeField: "writes (emitEncodeField field)"
  by (simp add: emitEncodeField_def Let_def)

lemma rust_writes_Codec:
  assumes "\<forall>t \<in> set (mentionedTypes d). resolves named t"
  shows "writes (emitCodec d named options)"
proof -
  have w: "writes (emitEncodeDecodeWrappers s)" for s by (simp add: emitEncodeDecodeWrappers_def)
  have e: "writes (emitUnionEncodeArm v)" for v by (auto simp: emitUnionEncodeArm_def list_all_iff)
  have a: "writes (emitUnionDecodeArm v named)" if "\<forall>field \<in> set (uv_fields v). resolves named (fd_type field)" for v
    using that by (simp add: emitUnionDecodeArm_def list_all_iff field_succeeds)
  show ?thesis using assms
    by (cases d) (auto simp: emitStructCodec_def emitEnumCodec_def emitUnionCodec_def list_all_iff w e a
      rust_writes_EncodeField field_succeeds)
qed

lemma derive_succeeds: "succeeds r \<Longrightarrow> succeeds (ebind r (\<lambda>uses. Inr (f uses)))"
  by (auto simp: succeeds_def)

lemma rust_writes_TypeDeclaration:
  assumes "\<forall>t \<in> set (mentionedTypes d). resolves named t" "inhabited d" "succeeds (declarationUsesF64 d named)"
  shows "writes (emitTypeDeclaration d named)"
proof (cases d)
  case (StructDecl s)
  with assms show ?thesis
    by (auto simp: emitDefaultImpl_def struct_default_def list_all_iff field_succeeds derive_succeeds)
next
  case (UnionDecl u)
  with assms(1,2) have "\<forall>field \<in> set (uv_fields (hd (ud_variants u))). resolves named (fd_type field)"
    using hd_in_set [of "ud_variants u"] by auto
  with UnionDecl assms(2,3) show ?thesis
    by (auto simp: emitDefaultImpl_def union_default_def list_all_iff field_succeeds derive_succeeds)
qed (simp_all add: list_all_iff)

text \<open>What a procedure may ask for and fail with.\<close>

fun request_ok :: "TypeRef \<Rightarrow> bool" where
  "request_ok VoidRef \<longleftrightarrow> True"
| "request_ok (NamedRef path) \<longleftrightarrow> True"
| "request_ok _ \<longleftrightarrow> False"

definition error_ok :: "ProcStream named \<Rightarrow> TypeRef \<Rightarrow> bool" where
  "error_ok named t \<longleftrightarrow> t = VoidRef \<or> (\<exists>path u. t = NamedRef path \<and> map_of named path = Some (UnionDecl u) \<and>
     list_all error_variant_ok (ud_variants u))"

lemma error_variants_succeed: "error_ok named (pd_errorType p) \<Longrightarrow> succeeds (methodErrorVariants p named)"
proof (cases "pd_errorType p = VoidRef")
  case False
  assume "error_ok named (pd_errorType p)"
  with False obtain path u where u: "pd_errorType p = NamedRef path" "map_of named path = Some (UnionDecl u)"
    "list_all error_variant_ok (ud_variants u)" by (auto simp: error_ok_def)
  then have "find (\<lambda>variant. \<not> error_variant_ok variant) (ud_variants u) = None"
    by (auto simp: find_None_iff list_all_iff)
  with u show ?thesis by (simp add: methodErrorVariants_def)
qed (simp add: methodErrorVariants_def)

lemma writes_VariantHelper:
  assumes "\<forall>p \<in> set procs. error_ok named (pd_errorType p)"
  shows "writes (emitMethodErrorVariantHelper procs named)"
proof -
  have "succeeds (ebind (methodErrorVariants p named) (\<lambda>variants. Inr (p, variants)))" if "p \<in> set procs" for p
    using error_variants_succeed [of named p] assms that by (auto simp: succeeds_def)
  then have "succeeds (emap (\<lambda>p. ebind (methodErrorVariants p named) (\<lambda>variants. Inr (p, variants))) procs)"
    by (simp add: emap_succeeds list_all_iff)
  then obtain withErrors where "procsWithMethodErrors procs named = Inr withErrors"
    by (auto simp: succeeds_def procsWithMethodErrors_def)
  then show ?thesis by (auto simp: emitMethodErrorVariantHelper_def list_all_iff)
qed

lemma writes_DecodeArm: "request_ok (pd_requestType p) \<Longrightarrow> writes (emitRpcRequestDecodeArm p)"
  by (cases "pd_requestType p") (simp_all add: emitRpcRequestDecodeArm_def)

lemma writes_Derive:
  "\<forall>t \<in> set types. \<exists>b. typeUsesF64 t named = Inr b \<Longrightarrow> writes (emitDerive types named)"
proof -
  assume "\<forall>t \<in> set types. \<exists>b. typeUsesF64 t named = Inr b"
  then have "\<exists>b. anyUsesF64 types named = Inr b"
  proof (induction types)
    case (Cons t types)
    then obtain b rest where "typeUsesF64 t named = Inr b" "anyUsesF64 types named = Inr rest" by auto
    then show ?case by (cases b) (auto intro: exI [of _ True] exI [of _ False])
  qed (auto intro: exI [of _ False])
  then show ?thesis by (auto simp: emitDerive_def)
qed

lemma writes_HandlerHelpers: "writes (emitRpcHandlerHelpers procs)"
proof -
  have "writes (emitRpcHandlersDispatch n out ps)" for n out ps by (simp add: emitRpcHandlersDispatch_def list_all_iff)
  then show ?thesis by (simp add: emitRpcHandlerHelpers_def Let_def list_all_iff)
qed

lemma writes_ProcHelpers:
  assumes "\<forall>p \<in> set (procsOf schema). request_ok (pd_requestType p) \<and> error_ok named (pd_errorType p) \<and>
      (\<exists>b. typeUsesF64 (pd_requestType p) named = Inr b) \<and> (\<exists>b. typeUsesF64 (pd_responseType p) named = Inr b)"
  shows "writes (emitProcHelpers schema named options)"
proof -
  define procs where "procs = sortedProcs schema"
  have p: "\<forall>p \<in> set procs. request_ok (pd_requestType p) \<and> error_ok named (pd_errorType p) \<and>
      (\<exists>b. typeUsesF64 (pd_requestType p) named = Inr b) \<and> (\<exists>b. typeUsesF64 (pd_responseType p) named = Inr b)"
    using assms by (simp add: procs_def set_sortedProcs)
  then have w: "writes (emitMethodErrorVariantHelper procs named)" "writes (emitDerive (map pd_requestType procs) named)"
    "writes (emitDerive (map pd_responseType procs) named)" "list_all (\<lambda>p. writes (emitRpcRequestDecodeArm p)) procs"
    by (simp_all add: writes_VariantHelper writes_Derive writes_DecodeArm list_all_iff)
  have arms: "writes (emitProcMessageVariant p t unit)" "writes (emitProcMessageProcIdArm n p t)"
    "writes (emitRpcResponsePayloadArm p)" for p t unit n
    by (simp_all add: emitProcMessageVariant_def emitProcMessageProcIdArm_def emitRpcResponsePayloadArm_def)
  have payload: "writes emitMethodErrorPayloadHelper" by (simp add: emitMethodErrorPayloadHelper_def)
  show ?thesis
    using w unfolding emitProcHelpers_def Let_def procs_def [symmetric]
    by (simp add: arms payload writes_HandlerHelpers list.pred_True case_prod_beta)
qed

lemma rust_module_written:
  assumes "validateSchema schema = Inr ()" "list_all inhabited schema"
    and "\<forall>p \<in> set (procsOf schema). request_ok (pd_requestType p) \<and> error_ok (declarationMap schema) (pd_errorType p)"
  shows "\<exists>text. emitRust schema options = Inr text"
proof -
  from assms(1) have v: "each (validateDeclaration (schemaPaths schema)) schema = Inr ()" by (simp add: validateSchema_def)
  note r = resolves_validated [OF v assms(2)]
  have m: "validateTypeRef (schemaPaths schema) t = Inr ()" if "p \<in> set (procsOf schema)" "t \<in> set (mentionedTypes (ProcDecl p))" for p t
    using v that procsOf_iff [of p schema] by (auto simp: declaration_ok)
  have f: "typeUsesF64 t (declarationMap schema) = Inr (contains_f64 (declarationMap schema) t)"
    if "p \<in> set (procsOf schema)" "t \<in> {pd_requestType p, pd_responseType p}" for p t
    by (rule type_search [OF assms(1)], rule m [OF that(1)]) (use that(2) in auto)
  have "\<exists>b. typeUsesF64 (pd_requestType p) (declarationMap schema) = Inr b"
    "\<exists>b. typeUsesF64 (pd_responseType p) (declarationMap schema) = Inr b" if "p \<in> set (procsOf schema)" for p
    by (rule exI, rule f [OF that], simp)+
  then have "writes (emitProcHelpers schema (declarationMap schema) options)"
    using assms(3) by (intro writes_ProcHelpers) blast
  moreover have "\<forall>d \<in> set schema. writes (emitCodec d (declarationMap schema) options)"
    using r by (intro ballI rust_writes_Codec) auto
  moreover have "\<forall>d \<in> set schema. writes (emitTypeDeclaration d (declarationMap schema))"
    using r assms(2) declaration_search [OF assms(1)] by (intro ballI rust_writes_TypeDeclaration) (auto simp: list_all_iff)
  moreover have "writes emitCodecError" "writes emitRuntimeHelpers"
    by (simp_all add: emitCodecError_def emitRuntimeHelpers_def)
  ultimately show ?thesis
    unfolding emitRust_def Let_def by (intro written_ok) (auto simp: list_all_iff)
qed

text \<open>(C20) Every validated schema without an empty enumeration or union, whose requests are named types or nothing
  and whose error types are unions of messages, can be generated: the module is written to the end.\<close>

theorem rust_is_generated:
  assumes "validateSchema schema = Inr ()" "list_all inhabited schema"
    and "\<forall>p \<in> set (procsOf schema). request_ok (pd_requestType p) \<and> error_ok (declarationMap schema) (pd_errorType p)"
  shows "\<exists>text. emitRust schema options = Inr text"
  by (rule rust_module_written [OF assms])

section \<open>A schema with one declaration of each kind\<close>

definition figure_schema :: "ProcStream Schema" where
  "figure_schema = [
     ProcDecl \<lparr>pd_id = 1, pd_name = ''GetFigure'', pd_stream = StreamUnary, pd_requestType = NamedRef ''draw.Point'',
       pd_responseType = NamedRef ''draw.Figure'', pd_errorType = NamedRef ''draw.Failure''\<rparr>,
     StructDecl \<lparr>sd_name = ''Point'', sd_typePath = ''draw.Point'', sd_fields = [
       \<lparr>fd_id = 1, fd_name = ''x'', fd_optional = False, fd_type = PrimitiveRef TypeF64\<rparr>,
       \<lparr>fd_id = 2, fd_name = ''tags'', fd_optional = True, fd_type = ArrayRef (PrimitiveRef TypeString)\<rparr>]\<rparr>,
     EnumDecl \<lparr>ed_name = ''Color'', ed_typePath = ''draw.Color'', ed_variants = [\<lparr>ev_id = 1, ev_name = ''Red''\<rparr>]\<rparr>,
     UnionDecl \<lparr>ud_name = ''Failure'', ud_typePath = ''draw.Failure'', ud_variants = [
       \<lparr>uv_id = 1, uv_name = ''Missing'', uv_fields = [
         \<lparr>fd_id = 1, fd_name = ''message'', fd_optional = False, fd_type = PrimitiveRef TypeString\<rparr>]\<rparr>]\<rparr>,
     UnionDecl \<lparr>ud_name = ''Figure'', ud_typePath = ''draw.Figure'', ud_variants = [
       \<lparr>uv_id = 1, uv_name = ''Dot'', uv_fields = [
         \<lparr>fd_id = 1, fd_name = ''at'', fd_optional = False, fd_type = NamedRef ''draw.Point''\<rparr>,
         \<lparr>fd_id = 2, fd_name = ''color'', fd_optional = False, fd_type = NamedRef ''draw.Color''\<rparr>]\<rparr>]\<rparr>]"

lemma figure_validated: "validateSchema figure_schema = Inr ()"
  by (simp add: figure_schema_def validateSchema_def schemaPaths_def List.map_filter_simps)

lemma figure_inhabited: "list_all inhabited figure_schema"
  by (simp add: figure_schema_def)

lemma figure_plain: "plain_schema figure_schema"
  by (simp add: plain_schema_def figure_schema_def plain_fields_def bracket_def)

lemma figure_procs: "\<forall>p \<in> set (procsOf figure_schema). request_ok (pd_requestType p) \<and>
    error_ok (declarationMap figure_schema) (pd_errorType p)"
  by (simp add: figure_schema_def error_ok_def error_variant_ok_def declarationMap_def)

theorem rust_is_generated_witness:
  "\<exists>text. emitRust figure_schema \<lparr>byteCodec = True, out_file = None, schemaRoots = []\<rparr> = Inr text"
  by (rule rust_is_generated [OF figure_validated figure_inhabited figure_procs])

theorem rust_brackets_nest_witness:
  "\<exists>text. emitRust figure_schema \<lparr>byteCodec = True, out_file = None, schemaRoots = []\<rparr> = Inr text \<and>
     scan text [] = Some []"
proof -
  from rust_module_written [OF figure_validated figure_inhabited figure_procs]
  obtain out where "emitRust figure_schema \<lparr>byteCodec = True, out_file = None, schemaRoots = []\<rparr> = Inr out" by blast
  with rust_brackets_nest [OF figure_plain, of _ out] show ?thesis by blast
qed

section \<open>What validation accepts\<close>

lemma rust_names_ok:
  "validateNames names ids schema = Inr () \<longleftrightarrow>
   distinct (map declarationName schema) \<and> declarationName ` set schema \<inter> names = {} \<and>
   distinct (map pd_id (procsOf schema)) \<and> pd_id ` set (procsOf schema) \<inter> ids = {}"
  by (induction names ids schema rule: validateNames.induct) (auto split: Declaration.splits)

section \<open>The names of fields\<close>

text \<open>A field named after one of the path keywords gets an identifier that Rust does not have: \<open>self\<close>,
  \<open>super\<close> and \<open>crate\<close> cannot be raw identifiers. And two fields of one struct can get the same identifier.\<close>

theorem field_names_of_rust:
  "fieldName ''self'' = ''r#self'' \<and> fieldName ''Super'' = ''r#super'' \<and> fieldName ''crate'' = ''r#crate'' \<and>
   fieldName ''userId'' = fieldName ''user_id''"
  by code_simp

end
