(* ===== verification/CodegenNumber.thy ===== *)
theory CodegenNumber
  imports CodegenSchema
begin

text \<open>
  The numbers of a schema (\<open>requiredId\<close> of both generators): what a generator prints as a number is read back
  as that number, for every safe integer; and what else is read as a number.
\<close>

lemma bit_length_pos: "0 < n \<Longrightarrow> 0 < bit_length n"
  by (subst bit_length.simps) simp

lemma bit_length_bounds: "0 < n \<Longrightarrow> 2 ^ (bit_length n - 1) \<le> n \<and> n < 2 ^ bit_length n"
proof (induction n rule: bit_length.induct)
  case (1 n)
  show ?case
  proof (cases "n div 2 = 0")
    case True
    with 1(2) have "n = 1" by simp
    then show ?thesis by (simp add: bit_length.simps)
  next
    case False
    with 1 have ih: "2 ^ (bit_length (n div 2) - 1) \<le> n div 2" "n div 2 < 2 ^ bit_length (n div 2)" by auto
    have bl: "bit_length n = Suc (bit_length (n div 2))" using 1(2) by (subst bit_length.simps) simp
    have "0 < bit_length (n div 2)" using False by (intro bit_length_pos) simp
    then have "(2 :: nat) ^ bit_length (n div 2) = 2 * 2 ^ (bit_length (n div 2) - 1)"
      by (cases "bit_length (n div 2)") simp_all
    moreover from ih(1) have "2 * 2 ^ (bit_length (n div 2) - 1) \<le> n" by linarith
    moreover from ih(2) have "n < 2 * 2 ^ bit_length (n div 2)" by linarith
    ultimately show ?thesis using bl by simp
  qed
qed

lemma bit_length_le_53: "0 < n \<Longrightarrow> n < 2 ^ 53 \<Longrightarrow> bit_length n \<le> 53"
proof (rule ccontr)
  assume n: "0 < n" "n < 2 ^ 53" and "\<not> bit_length n \<le> 53"
  then have "(2 :: nat) ^ 53 \<le> 2 ^ (bit_length n - 1)" by (intro power_increasing) simp_all
  also have "\<dots> \<le> n" using bit_length_bounds [OF n(1)] by simp
  finally show False using n(2) by simp
qed

lemma bit_length_1: "bit_length (Suc 0) = 1"
  by (simp add: bit_length.simps)

lemma nearest_double_integer:
  assumes "n < 2 ^ 53"
  shows "\<exists>m s. nearest_double n (Suc 0) = Some (m, s) \<and> safe_integer (Dyadic False m s) = Some (int n)"
proof (cases "n = 0")
  case True
  then show ?thesis by (simp add: nearest_double_def)
next
  case False
  define b where "b = bit_length n"
  have b: "0 < b" "b \<le> 53" "2 ^ (b - 1) \<le> n"
    using False assms bit_length_pos bit_length_le_53 bit_length_bounds [of n] by (auto simp: b_def)
  have e: "nat (int b - 1) = b - 1" using b by simp
  show ?thesis
  proof (cases "b = 53")
    case True
    then have "nearest_double n (Suc 0) = Some (n, 0)"
      using False b assms by (simp add: nearest_double_def Let_def bit_length_1 flip: b_def)
    with assms show ?thesis by simp
  next
    case less: False
    have "nearest_double n (Suc 0) = Some (n * 2 ^ (53 - b), int b - 53)"
      using False b less e by (simp add: nearest_double_def Let_def bit_length_1 nat_diff_distrib' flip: b_def)
    moreover have "safe_integer (Dyadic False (n * 2 ^ (53 - b)) (int b - 53)) = Some (int n)"
      using b less assms by (simp add: nat_diff_distrib')
    ultimately show ?thesis by blast
  qed
qed

section \<open>Printed numbers\<close>

lemma show_nat_decimal: "\<forall>c \<in> set (show_nat n). is_decimal c"
proof (induction n rule: show_nat.induct)
  case (1 n)
  have "is_decimal (char_of (48 + d))" if "d < 10" for d :: nat
    using that by (simp add: is_decimal_def)
  with 1 show ?case by (subst show_nat.simps) auto
qed

lemma show_nat_nonempty [simp]: "show_nat n \<noteq> []"
  by (subst show_nat.simps) simp

lemma digits_in_append:
  "digits_in base acc (s @ t) = Option.bind (digits_in base acc s) (\<lambda>a. digits_in base a t)"
  by (induction s arbitrary: acc) (auto split: option.split)

lemma digit_value_decimal: "d < 10 \<Longrightarrow> digit_value (char_of (48 + d :: nat)) = Some d"
  by (simp add: digit_value_def Let_def)

lemma digits_in_show_nat: "digits_in 10 0 (show_nat n) = Some n"
proof (induction n rule: show_nat.induct)
  case (1 n)
  then show ?case
    by (subst show_nat.simps) (simp add: digits_in_append digit_value_decimal)
qed

lemma decimal_not_space: "is_decimal c \<Longrightarrow> \<not> number_space c"
  by (auto simp: is_decimal_def number_space_def)

lemma dropWhile_none: "\<forall>c \<in> set s. \<not> P c \<Longrightarrow> dropWhile P s = s"
  by (cases s) auto

lemma drop_trailing_none: "\<forall>c \<in> set s. \<not> P c \<Longrightarrow> drop_trailing P s = s"
  by (simp add: drop_trailing_def dropWhile_none)

lemma not_starting_with:
  assumes "\<forall>c \<in> set s. is_decimal c" "c \<in> set p" "\<not> is_decimal c"
  shows "\<not> startsWith s p"
proof
  assume "startsWith s p"
  then have "take (length p) s = p" by (simp add: startsWith_def)
  then have "set p \<subseteq> set s" by (metis set_take_subset)
  with assms show False by blast
qed

lemma Number_show_nat:
  assumes "n < 2 ^ 53"
  shows "safe_integer (Number (show_nat n)) = Some (int n)"
proof -
  define s where "s = show_nat n"
  have dec: "\<forall>c \<in> set s. is_decimal c" and ne: "s \<noteq> []" and digits: "digits_in 10 0 s = Some n"
    by (simp_all add: s_def show_nat_decimal digits_in_show_nat)
  have plain: "drop_trailing number_space (dropWhile number_space s) = s"
    using dec decimal_not_space by (simp add: dropWhile_none drop_trailing_none)
  have starts: "\<not> startsWith s ''0x''" "\<not> startsWith s ''0X''" "\<not> startsWith s ''0o''" "\<not> startsWith s ''0O''"
    "\<not> startsWith s ''0b''" "\<not> startsWith s ''0B''" "\<not> startsWith s ''-''" "\<not> startsWith s ''+''"
    using not_starting_with [OF dec, of "CHR ''x''"] not_starting_with [OF dec, of "CHR ''X''"]
      not_starting_with [OF dec, of "CHR ''o''"] not_starting_with [OF dec, of "CHR ''O''"]
      not_starting_with [OF dec, of "CHR ''b''"] not_starting_with [OF dec, of "CHR ''B''"]
      not_starting_with [OF dec, of "CHR ''-''"] not_starting_with [OF dec, of "CHR ''+''"]
    by (simp_all add: is_decimal_def)
  have "s \<noteq> ''Infinity''" using dec by (auto simp: is_decimal_def)
  moreover have whole: "takeWhile is_decimal s = s" "dropWhile is_decimal s = []" "startsWith [] ''.'' = False"
    using dec by (simp_all add: startsWith_def)
  moreover obtain m k where "nearest_double n (Suc 0) = Some (m, k)" "safe_integer (Dyadic False m k) = Some (int n)"
    using nearest_double_integer [OF assms] by blast
  ultimately have "safe_integer (unsigned_decimal False s) = Some (int n)"
    using ne digits unfolding unsigned_decimal_def Let_def whole by (simp del: safe_integer.simps)
  with starts plain ne show ?thesis by (simp add: Number_def Let_def flip: s_def)
qed

lemma safe_integer_bound: "safe_integer v = Some i \<Longrightarrow> i < 2 ^ 53"
proof (cases v)
  case (Dyadic negative m s)
  assume "safe_integer v = Some i"
  with Dyadic obtain n :: nat where "n \<le> 2 ^ 53 - 1" "i = (if negative then - int n else int n)"
    by (auto simp only: safe_integer.simps Let_def option.inject option.distinct split: if_splits)
  then show ?thesis by (auto split: if_splits)
qed simp_all

text \<open>The number a generator prints for a declaration is read back as that number: for every id that can
  be accepted, the decimal text of it is an id attribute with that value.\<close>

theorem printed_id_read_back:
  assumes "requiredId attrs label = Inr n"
  shows "requiredId (attrs(''id'' \<mapsto> show_nat n)) label' = Inr n"
proof -
  from assms obtain attr i where v: "safe_integer (Number attr) = Some i" "0 \<le> i" "n = nat i"
    by (auto simp: requiredId_def split: option.splits if_splits)
  with safe_integer_bound [OF v(1)] have "n < 2 ^ 53" by simp
  from Number_show_nat [OF this] show ?thesis by (simp add: requiredId_def requiredAttribute_def)
qed

theorem printed_id_read_back_witness:
  "requiredId [''id'' \<mapsto> ''42''] ''Window'' = Inr 42 \<and> requiredId [''id'' \<mapsto> show_nat 42] ''Enum.item'' = Inr 42"
proof -
  have "show_nat 42 = ''42''" by code_simp
  with Number_show_nat [of 42] have a: "requiredId [''id'' \<mapsto> ''42''] ''Window'' = Inr 42"
    by (simp add: requiredId_def requiredAttribute_def)
  with printed_id_read_back [OF a, of "''Enum.item''"] show ?thesis by (simp add: requiredId_def requiredAttribute_def)
qed

text \<open>An id attribute that consists of white space is accepted as the number 0, although an empty one is
  rejected.\<close>

theorem blank_id_is_zero:
  assumes "attrs ''id'' = Some value" "value \<noteq> []" "\<forall>c \<in> set value. number_space c"
  shows "requiredId attrs label = Inr 0"
proof -
  have "dropWhile number_space value = []" using assms(3) by simp
  then have "Number value = Dyadic False 0 0"
    unfolding Number_def drop_trailing_def by (simp only: Let_def) simp
  with assms(1,2) show ?thesis by (simp add: requiredId_def requiredAttribute_def)
qed

theorem blank_id_is_zero_witness:
  "requiredId [''id'' \<mapsto> '' ''] ''Window'' = Inr 0"
  using blank_id_is_zero [of "[''id'' \<mapsto> '' '']" "'' ''" "''Window''"] by (simp add: number_space_def)

end
