(* ===== verification/Generators.thy ===== *)
theory Generators
  imports TypeScriptText RustText CodegenNumber
begin

text \<open>
  Both code generators on one representation: a schema the Rust generator accepts is accepted by the TypeScript
  generator as the same schema, and what separates the two validations.
\<close>

fun streamText :: "ProcStream \<Rightarrow> string" where
  "streamText StreamUnary = ''unary''"
| "streamText StreamServer = ''server''"
| "streamText StreamClient = ''client''"
| "streamText StreamBidi = ''bidi''"

text \<open>The declaration of the one generator as the other one holds it.\<close>

fun retold :: "ProcStream Declaration \<Rightarrow> string Declaration" where
  "retold (ProcDecl d) = ProcDecl \<lparr>pd_id = pd_id d, pd_name = pd_name d, pd_stream = streamText (pd_stream d),
     pd_requestType = pd_requestType d, pd_responseType = pd_responseType d, pd_errorType = pd_errorType d\<rparr>"
| "retold (StructDecl d) = StructDecl d"
| "retold (EnumDecl d) = EnumDecl d"
| "retold (UnionDecl d) = UnionDecl d"

section \<open>Reading the representation\<close>

lemma stream_retold: "requiredProcStream attrs label = Inr stream \<Longrightarrow> requiredAttribute attrs ''stream'' label = Inr (streamText stream)"
  by (cases "requiredAttribute attrs ''stream'' label") (auto simp: requiredProcStream_def split: if_splits)

lemma emap_retold:
  "emap f xs = Inr ys \<Longrightarrow> (\<And>x y. x \<in> set xs \<Longrightarrow> f x = Inr y \<Longrightarrow> g x = Inr (h y)) \<Longrightarrow> emap g xs = Inr (map h ys)"
proof (induction xs arbitrary: ys)
  case (Cons x xs)
  from Cons.prems(1) obtain y zs where y: "f x = Inr y" "emap f xs = Inr zs" "ys = y # zs"
    by (cases "f x"; cases "emap f xs") auto
  with Cons.IH [of zs] Cons.prems(2) show ?case by simp
qed simp

lemmas emap_again = emap_retold [where h = id, simplified]

lemma type_again: "typeRefFromIr u t = Inr r \<Longrightarrow> typeRefFromIr u' t = Inr r"
  by (cases t) simp_all

lemma field_again: "fieldFromIr u field label = Inr r \<Longrightarrow> fieldFromIr u' field label = Inr r"
  unfolding fieldFromIr_def using type_again [of u "bf_fieldType field" _ u']
  by (cases "requiredId (bf_attributes field) label"; cases "typeRefFromIr u (bf_fieldType field)") auto

lemma variant_again: "unionVariantFromIr u path item = Inr r \<Longrightarrow> unionVariantFromIr u' path item = Inr r"
proof -
  assume r: "unionVariantFromIr u path item = Inr r"
  define label where "label = path @ ''.'' @ bi_name item"
  from r obtain i listed where i: "requiredId (bi_attributes item) label = Inr i"
    "emap (\<lambda>field. fieldFromIr u field (label @ ''.'' @ bf_name field)) (bi_fields item) = Inr listed"
    "r = \<lparr>uv_id = i, uv_name = bi_name item, uv_fields = listed\<rparr>"
    by (cases "requiredId (bi_attributes item) label";
        cases "emap (\<lambda>field. fieldFromIr u field (label @ ''.'' @ bf_name field)) (bi_fields item)")
      (auto simp: unionVariantFromIr_def Let_def label_def)
  from i(2) have "emap (\<lambda>field. fieldFromIr u' field (label @ ''.'' @ bf_name field)) (bi_fields item) = Inr listed"
    by (rule emap_again) (rule field_again)
  with i show ?thesis by (simp add: unionVariantFromIr_def Let_def label_def)
qed

lemma declaration_retold:
  assumes "declarationFromIr u requiredProcStream path def = Inr ds"
  shows "declarationFromIr u' (\<lambda>attrs label. requiredAttribute attrs ''stream'' label) path def = Inr (map retold ds)"
proof (cases "def")
  case (BdlProc attrs n req res err)
  define e where "e = (case err of Some t \<Rightarrow> t | None \<Rightarrow> BdlPlain ''void'')"
  show ?thesis
    using assms BdlProc stream_retold [of attrs path]
      type_again [of u req _ u'] type_again [of u res _ u'] type_again [of u e _ u']
    by (cases "requiredId attrs path"; cases "requiredProcStream attrs path"; cases "typeRefFromIr u req";
        cases "typeRefFromIr u res"; cases "typeRefFromIr u e") (auto simp: e_def)
next
  case (BdlStruct n listed)
  define f where "f = (\<lambda>u field. fieldFromIr u field (path @ ''.'' @ bf_name field))"
  from assms BdlStruct obtain read where "emap (f u) listed = Inr read"
    "ds = [StructDecl \<lparr>sd_name = n, sd_typePath = path, sd_fields = read\<rparr>]"
    by (cases "emap (f u) listed") (auto simp: f_def)
  moreover from this(1) have "emap (f u') listed = Inr read"
    by (rule emap_again) (auto simp: f_def dest: field_again)
  ultimately show ?thesis using BdlStruct by (simp add: f_def)
next
  case (BdlEnum n listed)
  with assms show ?thesis by (cases "emap (enumVariantFromIr path) listed") auto
next
  case (BdlUnion n listed)
  with assms obtain read where "emap (unionVariantFromIr u path) listed = Inr read"
    "ds = [UnionDecl \<lparr>ud_name = n, ud_typePath = path, ud_variants = read\<rparr>]"
    by (cases "emap (unionVariantFromIr u path) listed") auto
  moreover from this(1) have "emap (unionVariantFromIr u' path) listed = Inr read"
    by (rule emap_again) (auto dest: variant_again)
  ultimately show ?thesis using BdlUnion by simp
qed (use assms in simp)

lemma declarations_retold:
  assumes "emap (\<lambda>(path, def). declarationFromIr u requiredProcStream path def) ir = Inr declared"
  shows "emap (\<lambda>(path, def). declarationFromIr u' (\<lambda>attrs label. requiredAttribute attrs ''stream'' label) path def) ir =
    Inr (map (map retold) declared)"
proof (rule emap_retold [OF assms])
  fix entry ds
  assume "(case entry of (path, def) \<Rightarrow> declarationFromIr u requiredProcStream path def) = Inr ds"
  then show "(case entry of (path, def) \<Rightarrow> declarationFromIr u' (\<lambda>attrs label. requiredAttribute attrs ''stream'' label) path def) =
    Inr (map retold ds)"
    unfolding split_beta by (rule declaration_retold)
qed

lemma uniqueNames_again: "uniqueNames language seen ir = Inr () \<Longrightarrow> uniqueNames language' seen ir = Inr ()"
  by (induction language seen ir rule: uniqueNames.induct) (auto split: bdl_def.splits if_splits)

section \<open>Validating the schema\<close>

lemma retold_simps [simp]:
  "declarationName (retold d) = declarationName d" "declarationPath (retold d) = declarationPath d"
  "isProc (retold d) = isProc d" "mentionedTypes (retold d) = mentionedTypes d" "numberings (retold d) = numberings d"
  by (cases d; simp)+

lemma retold_paths [simp]: "schemaPaths (map retold schema) = schemaPaths schema"
  by (auto simp: schemaPaths_iff)

lemma retold_validated:
  "CodegenTypeScript.validateSchema (map retold schema) = Inr () \<longleftrightarrow>
   distinct (map declarationName (filter (\<lambda>d. \<not> isProc d) schema)) \<and>
   (\<forall>d \<in> set schema. validateDeclaration (schemaPaths schema) d = Inr ())"
proof -
  have "validateDeclaration (schemaPaths schema) (retold d) = Inr () \<longleftrightarrow> validateDeclaration (schemaPaths schema) d = Inr ()" for d
    by (simp add: declaration_ok)
  then show ?thesis
    by (simp add: CodegenTypeScript.validateSchema_def names_ok types_of_def filter_map comp_def)
qed

lemma rust_validated:
  "CodegenRust.validateSchema schema = Inr () \<longleftrightarrow>
   distinct (map declarationName schema) \<and> distinct (map pd_id (procsOf schema)) \<and>
   (\<forall>d \<in> set schema. validateDeclaration (schemaPaths schema) d = Inr ())"
  by (simp add: CodegenRust.validateSchema_def rust_names_ok)

text \<open>The Rust generator accepts exactly the schemas that the TypeScript generator accepts in which moreover
  the names of all declarations differ, procedures included, and the numbers of the procedures.\<close>

theorem validations_compared:
  "CodegenRust.validateSchema schema = Inr () \<longleftrightarrow>
   CodegenTypeScript.validateSchema (map retold schema) = Inr () \<and>
   distinct (map declarationName schema) \<and> distinct (map pd_id (procsOf schema))"
  unfolding rust_validated retold_validated using distinct_map_filter [of declarationName schema] by blast

text \<open>(C5) A representation that the Rust generator turns into a schema is turned into the same schema by the
  TypeScript generator.\<close>

theorem rust_schema_is_typescript_schema:
  assumes "rustSchemaFromIr ir = Inr schema"
  shows "tsSchemaFromIr ir = Inr (map retold schema)"
proof -
  define rd where "rd = (\<lambda>(path, def). declarationFromIr ''Rust codegen does not support dictionary fields yet'' requiredProcStream path def)"
  have all: "ebind (uniqueNames ''Rust'' {} ir) (\<lambda>_. ebind (emap rd ir) (\<lambda>declared.
      ebind (CodegenRust.validateSchema (concat declared)) (\<lambda>_. Inr (concat declared)))) = Inr schema"
    using assms by (simp add: rustSchemaFromIr_def schemaFromIr_def rd_def)
  then obtain u where u: "uniqueNames ''Rust'' {} ir = Inr u" by (cases "uniqueNames ''Rust'' {} ir") simp_all
  with all obtain declared where d: "emap rd ir = Inr declared" by (cases "emap rd ir") simp_all
  with all u have v: "CodegenRust.validateSchema (concat declared) = Inr ()" and s: "schema = concat declared"
    by (cases "CodegenRust.validateSchema (concat declared)"; simp)+
  note declarations_retold [OF d [unfolded rd_def], of "''TypeScript codegen does not support dictionary fields yet''"]
  moreover have "uniqueNames ''TypeScript'' {} ir = Inr ()" using u by (simp add: uniqueNames_again [of "''Rust''"])
  moreover have "CodegenTypeScript.validateSchema (map retold schema) = Inr ()"
    using v unfolding s [symmetric] retold_validated rust_validated by (blast intro: distinct_map_filter)
  ultimately show ?thesis by (simp add: tsSchemaFromIr_def schemaFromIr_def s map_concat)
qed

theorem rust_schema_is_typescript_schema_witness:
  "tsSchemaFromIr [(''m.Log'', BdlProc [''id'' \<mapsto> '' '', ''stream'' \<mapsto> ''bidi''] ''Log'' (BdlPlain ''void'') (BdlArray ''u53'') None)] =
   Inr [ProcDecl \<lparr>pd_id = 0, pd_name = ''Log'', pd_stream = ''bidi'', pd_requestType = VoidRef,
     pd_responseType = ArrayRef (PrimitiveRef TypeU53), pd_errorType = VoidRef\<rparr>]"
proof -
  define attrs :: attributes where "attrs = [''id'' \<mapsto> '' '', ''stream'' \<mapsto> ''bidi'']"
  have "Number '' '' = Dyadic False 0 0" by code_simp
  then have "requiredId attrs ''m.Log'' = Inr 0" by (simp add: attrs_def requiredId_def requiredAttribute_def)
  moreover have "requiredProcStream attrs ''m.Log'' = Inr StreamBidi"
    by (simp add: attrs_def requiredProcStream_def requiredAttribute_def)
  ultimately have "rustSchemaFromIr [(''m.Log'', BdlProc attrs ''Log'' (BdlPlain ''void'') (BdlArray ''u53'') None)] =
      Inr [ProcDecl \<lparr>pd_id = 0, pd_name = ''Log'', pd_stream = StreamBidi, pd_requestType = VoidRef,
        pd_responseType = ArrayRef (PrimitiveRef TypeU53), pd_errorType = VoidRef\<rparr>]"
    by (simp add: rustSchemaFromIr_def schemaFromIr_def CodegenRust.validateSchema_def plainType_def primitiveTypes_def)
  from rust_schema_is_typescript_schema [OF this] show ?thesis by (simp add: attrs_def)
qed

end
