(* ===== verification/ViewerFrame.thy ===== *)
theory ViewerFrame
  imports FileViewer
begin

text \<open>
  The frame of the file viewer, \<open>.../file-viewer/state.tsx\<close>, \<open>index.tsx\<close>, \<open>footer/index.tsx\<close> and
  \<open>big-file-warning.tsx\<close>: the file a viewer is opened for, the detection that runs while it is mounted, the
  choice the user makes in the footer and what is shown. The awaits of the detection are steps; the value
  \<open>atomWithStorage\<close> reads for the stored choice is a string or missing.
\<close>

section \<open>The file a viewer shows\<close>

definition baseOfPath :: "jstring \<Rightarrow> jstring" where
  "baseOfPath path =
     (let slashIndex = max (lastIndexOf path slash) (lastIndexOf path backslash);
          name = drop (nat (slashIndex + 1)) path in
      if name = [] then path else name)"

definition fsEntryFromPath :: "jstring \<Rightarrow> FsEntry" where
  "fsEntryFromPath path = \<lparr>fs_name = baseOfPath path, fs_path = path, fs_kind = FsFile, fs_size = None,
     fs_modifiedAtMs = None, fs_readonly = False\<rparr>"



definition requireFsEntry :: "FsEntry option \<Rightarrow> FsEntry result" where
  "requireFsEntry fsEntry =
     (case fsEntry of None \<Rightarrow> throw ''FsEntry context is not provided.'' | Some e \<Rightarrow> Inr e)"

section \<open>The state\<close>

datatype FileViewerState = Detecting | Ready bytes FileViewerImplId

text \<open>What the detection waits for.\<close>

datatype detect_wait = WaitTransport | WaitBytes | DetectionOver

record file_viewer =
  fv_entry :: FsEntry
  fv_tabId :: jstring
  fv_key :: jstring
  fv_state :: FileViewerState
  fv_selected :: "jstring option"
  fv_hasMachine :: bool
  fv_wait :: detect_wait
  fv_cancelled :: bool


text \<open>The transport is there, or asking for it failed; nothing catches the error.\<close>

definition transport_answered :: "unit result \<Rightarrow> file_viewer \<Rightarrow> file_viewer" where
  "transport_answered answer v =
     (if fv_wait v \<noteq> WaitTransport then v
      else case answer of
        Inl err \<Rightarrow> v\<lparr>fv_wait := DetectionOver\<rparr>
      | Inr _ \<Rightarrow> if fv_cancelled v then v\<lparr>fv_wait := DetectionOver\<rparr> else v\<lparr>fv_wait := WaitBytes\<rparr>)"

text \<open>The first bytes are there, or the call failed: \<open>detectFileViewerImpl\<close> returns in both cases.\<close>

definition bytes_answered :: "(jstring \<Rightarrow> jstring) \<Rightarrow> ReadFileChunk list result \<Rightarrow> file_viewer \<Rightarrow> file_viewer" where
  "bytes_answered lower stream v =
     (if fv_wait v \<noteq> WaitBytes then v
      else let v = v\<lparr>fv_wait := DetectionOver\<rparr> in
        if fv_cancelled v then v
        else let result = detectFileViewerImpl lower (fv_hasMachine v) (fv_entry v) stream in
          v\<lparr>fv_state := Ready (initialBytes result) (detected result)\<rparr>)"

definition viewer_unmounted :: "file_viewer \<Rightarrow> file_viewer" where
  "viewer_unmounted v = v\<lparr>fv_cancelled := True\<rparr>"

section \<open>The viewer in use\<close>

definition fileViewerImpls :: "(FileViewerImplId \<times> string \<times> string) list" where
  "fileViewerImpls = [(Markdown, ''markdown'', ''Markdown''), (Pdf, ''pdf'', ''PDF''), (TextViewer, ''text'', ''Text''),
     (Hex, ''hex'', ''Hex''), (Image, ''image'', ''Image'')]"

fun impl_id :: "FileViewerImplId \<Rightarrow> string" where
  "impl_id Markdown = ''markdown''"
| "impl_id Pdf = ''pdf''"
| "impl_id TextViewer = ''text''"
| "impl_id Hex = ''hex''"
| "impl_id Image = ''image''"

definition impl_named :: "jstring \<Rightarrow> FileViewerImplId option" where
  "impl_named value = map_option fst (List.find (\<lambda>(i, name, label). js name = value) fileViewerImpls)"

definition selectedImpl :: "file_viewer \<Rightarrow> FileViewerImplId option" where
  "selectedImpl v =
     (case fv_selected v of None \<Rightarrow> None | Some value \<Rightarrow> if isFileViewerImpl value then impl_named value else None)"

definition implAtom :: "file_viewer \<Rightarrow> FileViewerImplId option" where
  "implAtom v =
     (case selectedImpl v of
        Some i \<Rightarrow> Some i
      | None \<Rightarrow> (case fv_state v of Ready b i \<Rightarrow> Some i | Detecting \<Rightarrow> None))"

definition setImpl :: "FileViewerImplId \<Rightarrow> file_viewer \<Rightarrow> file_viewer" where
  "setImpl i v = v\<lparr>fv_selected := Some (js (impl_id i))\<rparr>"

text \<open>The select box of the footer.\<close>

definition chooseImpl :: "jstring \<Rightarrow> file_viewer \<Rightarrow> file_viewer" where
  "chooseImpl value v =
     (if isFileViewerImpl value then (case impl_named value of Some i \<Rightarrow> setImpl i v | None \<Rightarrow> v) else v)"

datatype viewer_screen = DetectingViewer | ShowViewer FileViewerImplId | NoViewer

definition FileViewer :: "file_viewer \<Rightarrow> viewer_screen" where
  "FileViewer v =
     (case fv_state v of
        Detecting \<Rightarrow> DetectingViewer
      | Ready b i \<Rightarrow> (case implAtom v of Some i \<Rightarrow> ShowViewer i | None \<Rightarrow> NoViewer))"

record viewer_footer =
  vf_value :: string
  vf_disabled :: bool
  vf_options :: "(string \<times> string) list"
  vf_size :: string

definition FileViewerFooter :: "file_viewer \<Rightarrow> viewer_footer" where
  "FileViewerFooter v =
     \<lparr>vf_value = (case implAtom v of Some i \<Rightarrow> impl_id i | None \<Rightarrow> ''text''), vf_disabled = (implAtom v = None),
      vf_options = map snd fileViewerImpls, vf_size = formatSize (fs_size (fv_entry v))\<rparr>"

text \<open>The question before a large file is opened: the name, the question and the path.\<close>

definition BigFileWarning :: "string \<Rightarrow> file_viewer \<Rightarrow> jstring \<times> string \<times> jstring" where
  "BigFileWarning viewer v =
     (let sizeLabel = (case fs_size (fv_entry v) of None \<Rightarrow> ''Unknown size'' | Some n \<Rightarrow> formatSize (Some n)) in
      (displayName (fv_entry v),
       ''This file is '' @ sizeLabel @ ''. Do you want to open it with the '' @ viewer @ ''?'', fs_path (fv_entry v)))"

section \<open>Reachable states\<close>

inductive viewer_reachable :: "(jstring \<Rightarrow> jstring) \<Rightarrow> file_viewer \<Rightarrow> file_viewer \<Rightarrow> bool" for lower v0 where
  viewer_opened: "viewer_reachable lower v0 v0"
| viewer_transport: "viewer_reachable lower v0 v \<Longrightarrow> viewer_reachable lower v0 (transport_answered answer v)"
| viewer_bytes: "viewer_reachable lower v0 v \<Longrightarrow> viewer_reachable lower v0 (bytes_answered lower stream v)"
| viewer_chosen: "viewer_reachable lower v0 v \<Longrightarrow> viewer_reachable lower v0 (chooseImpl choice v)"
| viewer_closed: "viewer_reachable lower v0 v \<Longrightarrow> viewer_reachable lower v0 (viewer_unmounted v)"

lemma impl_named_id [simp]: "impl_named (js (impl_id i)) = Some i"
  by (cases i) (simp_all add: impl_named_def fileViewerImpls_def)

lemma isFileViewerImpl_id [simp]: "isFileViewerImpl (js (impl_id i))"
  by (cases i) (simp_all add: isFileViewerImpl_def)



lemma chooseImpl_id [simp]: "chooseImpl (js (impl_id i)) v = setImpl i v"
  by (simp add: chooseImpl_def)

lemma selectedImpl_setImpl [simp]: "selectedImpl (setImpl i v) = Some i"
  by (simp add: selectedImpl_def setImpl_def)




text \<open>A failed request for the transport is not caught: the viewer says that it is detecting for good, whatever
  is chosen in the footer.\<close>

theorem failed_transport_detects_forever:
  assumes "fv_wait v = WaitTransport" "fv_state v = Detecting" "viewer_reachable lower (transport_answered (Inl err) v) w"
  shows "FileViewer w = DetectingViewer"
proof -
  have "fv_wait w = DetectionOver \<and> fv_state w = Detecting"
    using assms(3)
  proof (induction rule: viewer_reachable.induct)
    case viewer_opened
    then show ?case using assms(1,2) by (simp add: transport_answered_def)
  next
    case (viewer_chosen u choice)
    then show ?case by (auto simp: chooseImpl_def setImpl_def split: option.split)
  qed (auto simp: transport_answered_def bytes_answered_def viewer_unmounted_def)
  then show ?thesis by (simp add: FileViewer_def)
qed

definition note_viewer_of :: "jstring option \<Rightarrow> file_viewer" where
  "note_viewer_of choice = \<lparr>fv_entry = fsEntryFromPath (js ''/tmp/note.md''), fv_tabId = js ''t'',
     fv_key = fileViewerSelectedImplStorageKey None (js ''t'') (js ''/tmp/note.md''), fv_state = Detecting,
     fv_selected = choice, fv_hasMachine = False, fv_wait = WaitTransport, fv_cancelled = False\<rparr>"



theorem failed_transport_detects_forever_witness:
  "FileViewer (chooseImpl (js ''hex'') (transport_answered (throw ''offline'') (note_viewer_of None))) = DetectingViewer"
proof -
  define w where "w = transport_answered (throw ''offline'') (note_viewer_of None)"
  have "viewer_reachable id w (chooseImpl (js ''hex'') w)" by (intro viewer_reachable.intros)
  then show ?thesis
    unfolding w_def throw_def by (rule failed_transport_detects_forever [rotated 2]) (simp_all add: note_viewer_of_def)
qed

end
