(* ===== verification/PanelLayout.thy ===== *)
theory PanelLayout
  imports Complex_Main
begin

text \<open>
  The layout of the page, \<open>web/src/view/state.tsx\<close> and \<open>index.tsx\<close>: the width of the machine panel, dragging
  and moving its edge with the keyboard, and collapsing it with an animation that a timer ends. Lengths are
  real numbers, as pointer coordinates may be fractions; the width of the window is an integer.
\<close>

section \<open>The width\<close>

definition machinePanelMinWidth :: int where "machinePanelMinWidth = 212"
definition machinePanelMaxWidth :: int where "machinePanelMaxWidth = 420"
definition minimumWorkbenchWidth :: int where "minimumWorkbenchWidth = 360"
definition machineRailWidth :: int where "machineRailWidth = 48"

text \<open>\<open>Math.round\<close>.\<close>

definition mathRound :: "real \<Rightarrow> int" where
  "mathRound x = \<lfloor>x + 1 / 2\<rfloor>"

definition maxByViewport :: "int \<Rightarrow> int" where
  "maxByViewport innerWidth = max machinePanelMinWidth (innerWidth - machineRailWidth - minimumWorkbenchWidth)"

definition clampMachinePanelWidth :: "int \<Rightarrow> real \<Rightarrow> int" where
  "clampMachinePanelWidth innerWidth width =
     mathRound (min (max width (of_int machinePanelMinWidth))
       (min (of_int machinePanelMaxWidth) (of_int (maxByViewport innerWidth))))"

section \<open>The state\<close>

text \<open>What one drag remembers.\<close>

record panel_drag =
  drag_initialX :: real
  drag_initialWidth :: int
  drag_previousCursor :: string
  drag_previousUserSelect :: string

record layout =
  lay_stored :: real
  lay_collapsed :: bool
  lay_transitioning :: bool
  lay_timeout :: "nat option"
  lay_pending :: "nat list"
  lay_nextTimer :: nat
  lay_cursor :: string
  lay_userSelect :: string
  lay_drags :: "panel_drag list"
  lay_innerWidth :: int

definition initial_layout :: "real \<Rightarrow> bool \<Rightarrow> int \<Rightarrow> layout" where
  "initial_layout stored collapsed innerWidth =
     \<lparr>lay_stored = stored, lay_collapsed = collapsed, lay_transitioning = False, lay_timeout = None, lay_pending = [],
      lay_nextTimer = 0, lay_cursor = [], lay_userSelect = [], lay_drags = [], lay_innerWidth = innerWidth\<rparr>"

definition machinePanelWidth :: "layout \<Rightarrow> int" where
  "machinePanelWidth l = clampMachinePanelWidth (lay_innerWidth l) (lay_stored l)"

text \<open>The setter of the width; an update function gets the stored width.\<close>

definition setMachinePanelWidth :: "(real \<Rightarrow> real) \<Rightarrow> layout \<Rightarrow> layout" where
  "setMachinePanelWidth update l =
     l\<lparr>lay_stored := of_int (clampMachinePanelWidth (lay_innerWidth l) (update (lay_stored l)))\<rparr>"

section \<open>Dragging the edge\<close>

definition startMachinePanelResize :: "real \<Rightarrow> layout \<Rightarrow> layout" where
  "startMachinePanelResize clientX l =
     (let l = l\<lparr>lay_transitioning := False\<rparr>;
          drag = \<lparr>drag_initialX = clientX, drag_initialWidth = machinePanelWidth l,
            drag_previousCursor = lay_cursor l, drag_previousUserSelect = lay_userSelect l\<rparr> in
      l\<lparr>lay_cursor := ''col-resize'', lay_userSelect := ''none'', lay_drags := lay_drags l @ [drag]\<rparr>)"

definition drag_resize :: "real \<Rightarrow> panel_drag \<Rightarrow> layout \<Rightarrow> layout" where
  "drag_resize clientX drag l =
     setMachinePanelWidth (\<lambda>_. of_int (clampMachinePanelWidth (lay_innerWidth l)
       (of_int (drag_initialWidth drag) + clientX - drag_initialX drag))) l"

text \<open>The listeners of all drags get an event, the oldest first.\<close>

definition pointer_moved :: "real \<Rightarrow> layout \<Rightarrow> layout" where
  "pointer_moved clientX l = fold (drag_resize clientX) (lay_drags l) l"

definition stopResize :: "panel_drag \<Rightarrow> layout \<Rightarrow> layout" where
  "stopResize drag l =
     l\<lparr>lay_cursor := drag_previousCursor drag, lay_userSelect := drag_previousUserSelect drag,
       lay_drags := remove1 drag (lay_drags l)\<rparr>"

definition pointer_released :: "layout \<Rightarrow> layout" where
  "pointer_released l = fold stopResize (lay_drags l) l"

section \<open>The keyboard\<close>

definition resizeMachinePanelWithKeyboard :: "string \<Rightarrow> bool \<Rightarrow> layout \<Rightarrow> layout" where
  "resizeMachinePanelWithKeyboard key shiftKey l =
     (let step = (if shiftKey then 40 else 16);
          still = l\<lparr>lay_transitioning := False\<rparr>;
          clamped = (\<lambda>w. of_int (clampMachinePanelWidth (lay_innerWidth l) w)) in
      if key = ''ArrowLeft'' then setMachinePanelWidth (\<lambda>width. clamped (width - step)) still
      else if key = ''ArrowRight'' then setMachinePanelWidth (\<lambda>width. clamped (width + step)) still
      else if key = ''Home'' then setMachinePanelWidth (\<lambda>_. of_int machinePanelMinWidth) still
      else if key = ''End'' then
        setMachinePanelWidth (\<lambda>width. clamped (max width (of_int machinePanelMaxWidth))) still
      else l)"

section \<open>Collapsing\<close>

definition toggleMachinePanel :: "layout \<Rightarrow> layout" where
  "toggleMachinePanel l =
     (let l = (case lay_timeout l of None \<Rightarrow> l | Some t \<Rightarrow> l\<lparr>lay_pending := removeAll t (lay_pending l)\<rparr>) in
      l\<lparr>lay_transitioning := True, lay_collapsed := \<not> lay_collapsed l, lay_timeout := Some (lay_nextTimer l),
        lay_pending := lay_pending l @ [lay_nextTimer l], lay_nextTimer := Suc (lay_nextTimer l)\<rparr>)"

definition timer_fired :: "nat \<Rightarrow> layout \<Rightarrow> layout" where
  "timer_fired t l =
     (if t \<in> set (lay_pending l) then
        l\<lparr>lay_pending := removeAll t (lay_pending l), lay_transitioning := False, lay_timeout := None\<rparr>
      else l)"

definition window_resized :: "int \<Rightarrow> layout \<Rightarrow> layout" where
  "window_resized innerWidth l = l\<lparr>lay_innerWidth := innerWidth\<rparr>"

text \<open>The classes of the page and the width of the column of the panel.\<close>

definition Layout :: "layout \<Rightarrow> string list \<times> int" where
  "Layout l =
     ((if lay_collapsed l then [''machine-panel-collapsed''] else []) @
      (if lay_transitioning l then [''machine-panel-transitioning''] else []),
      if lay_collapsed l then 0 else machinePanelWidth l)"

inductive layout_reachable :: "layout \<Rightarrow> bool" where
  layout_start: "layout_reachable (initial_layout stored collapsed innerWidth)"
| layout_grab: "layout_reachable l \<Longrightarrow> layout_reachable (startMachinePanelResize x l)"
| layout_move: "layout_reachable l \<Longrightarrow> layout_reachable (pointer_moved x l)"
| layout_release: "layout_reachable l \<Longrightarrow> layout_reachable (pointer_released l)"
| layout_key: "layout_reachable l \<Longrightarrow> layout_reachable (resizeMachinePanelWithKeyboard key shift l)"
| layout_toggle: "layout_reachable l \<Longrightarrow> layout_reachable (toggleMachinePanel l)"
| layout_timer: "layout_reachable l \<Longrightarrow> layout_reachable (timer_fired t l)"
| layout_window: "layout_reachable l \<Longrightarrow> layout_reachable (window_resized innerWidth l)"

section \<open>Clamping\<close>

lemma mathRound_of_int [simp]: "mathRound (of_int n) = n"
  by (simp add: mathRound_def floor_unique)

lemma mathRound_mono: "x \<le> y \<Longrightarrow> mathRound x \<le> mathRound y"
  by (simp add: mathRound_def floor_mono)

definition panel_bound :: "int \<Rightarrow> int" where
  "panel_bound innerWidth = min machinePanelMaxWidth (maxByViewport innerWidth)"

lemma panel_bound_min: "machinePanelMinWidth \<le> panel_bound innerWidth"
  by (simp add: panel_bound_def maxByViewport_def machinePanelMinWidth_def machinePanelMaxWidth_def)

lemma clamp_panel: "clampMachinePanelWidth innerWidth width =
    min (max (mathRound width) machinePanelMinWidth) (panel_bound innerWidth)"
proof -
  have b: "min (of_int machinePanelMaxWidth) (of_int (maxByViewport innerWidth)) = (of_int (panel_bound innerWidth) :: real)"
    by (simp add: panel_bound_def min_def)
  have "mathRound (max a (of_int n)) = max (mathRound a) n" for a n
    using mathRound_mono [of a "of_int n"] mathRound_mono [of "of_int n" a] by (cases "a \<le> of_int n") (auto simp: max_def)
  moreover have "mathRound (min a (of_int n)) = min (mathRound a) n" for a n
    using mathRound_mono [of a "of_int n"] mathRound_mono [of "of_int n" a] by (cases "a \<le> of_int n") (auto simp: min_def)
  ultimately show ?thesis by (simp add: clampMachinePanelWidth_def b)
qed

lemma clamp_twice [simp]:
  "clampMachinePanelWidth innerWidth (of_int (clampMachinePanelWidth innerWidth width)) = clampMachinePanelWidth innerWidth width"
  using panel_bound_min [of innerWidth] by (simp add: clamp_panel)

lemma set_width [simp]: "machinePanelWidth (setMachinePanelWidth f l) = clampMachinePanelWidth (lay_innerWidth l) (f (lay_stored l))"
  by (simp add: machinePanelWidth_def setMachinePanelWidth_def)

text \<open>Whatever was stored and however the window is resized, the panel is as wide as its bounds allow: it is at
  least 212 and at most 420 pixels wide, and leaves the workbench 360 of them when the window is wide enough
  for the smallest panel.\<close>

theorem panel_width_in_bounds:
  "212 \<le> machinePanelWidth l \<and> machinePanelWidth l \<le> 420 \<and>
   (620 \<le> lay_innerWidth l \<longrightarrow> machinePanelWidth l + 48 + 360 \<le> lay_innerWidth l)"
  by (auto simp: machinePanelWidth_def clamp_panel panel_bound_def maxByViewport_def machinePanelMinWidth_def
    machinePanelMaxWidth_def machineRailWidth_def minimumWorkbenchWidth_def)

theorem panel_width_in_bounds_witness:
  "machinePanelWidth (initial_layout 264 False 640) + 48 + 360 \<le> 640"
  using panel_width_in_bounds [of "initial_layout 264 False 640"] by (simp add: initial_layout_def)

section \<open>Dragging\<close>

lemma fold_widths:
  "lay_drags (fold (drag_resize x) ds l) = lay_drags l \<and> lay_innerWidth (fold (drag_resize x) ds l) = lay_innerWidth l \<and>
   lay_cursor (fold (drag_resize x) ds l) = lay_cursor l \<and> lay_userSelect (fold (drag_resize x) ds l) = lay_userSelect l \<and>
   lay_transitioning (fold (drag_resize x) ds l) = lay_transitioning l \<and> lay_timeout (fold (drag_resize x) ds l) = lay_timeout l \<and>
   lay_pending (fold (drag_resize x) ds l) = lay_pending l \<and> lay_nextTimer (fold (drag_resize x) ds l) = lay_nextTimer l"
  by (induction ds arbitrary: l) (simp_all add: drag_resize_def setMachinePanelWidth_def)

lemma pointer_moves:
  "lay_drags (fold pointer_moved xs l) = lay_drags l" "lay_innerWidth (fold pointer_moved xs l) = lay_innerWidth l"
  "lay_cursor (fold pointer_moved xs l) = lay_cursor l" "lay_userSelect (fold pointer_moved xs l) = lay_userSelect l"
  by (induction xs arbitrary: l) (simp_all add: pointer_moved_def fold_widths)

text \<open>While the edge is dragged, the width follows the pointer: after any movements it is the width at the start
  plus the distance from there, within the bounds; the release restores the cursor and the selection.\<close>

theorem drag_follows_pointer:
  assumes "lay_drags l = []" and dragged_def: "dragged = fold pointer_moved (xs @ [x]) (startMachinePanelResize x0 l)"
  shows "machinePanelWidth dragged = clampMachinePanelWidth (lay_innerWidth l) (of_int (machinePanelWidth l) + (x - x0)) \<and>
    lay_cursor (pointer_released dragged) = lay_cursor l \<and> lay_userSelect (pointer_released dragged) = lay_userSelect l \<and>
    lay_drags (pointer_released dragged) = []"
proof -
  define s where "s = fold pointer_moved xs (startMachinePanelResize x0 l)"
  define d where "d = \<lparr>drag_initialX = x0, drag_initialWidth = machinePanelWidth l, drag_previousCursor = lay_cursor l,
    drag_previousUserSelect = lay_userSelect l\<rparr>"
  have "lay_drags (startMachinePanelResize x0 l) = [d]"
    using assms(1) by (simp add: startMachinePanelResize_def Let_def d_def machinePanelWidth_def)
  then have drags: "lay_drags s = [d]" by (simp add: s_def pointer_moves)
  have inner: "lay_innerWidth s = lay_innerWidth l"
    by (simp add: s_def pointer_moves startMachinePanelResize_def Let_def)
  have dragged: "dragged = drag_resize x d s" by (simp add: dragged_def s_def [symmetric] pointer_moved_def drags)
  have "machinePanelWidth dragged = clampMachinePanelWidth (lay_innerWidth l) (of_int (machinePanelWidth l) + (x - x0))"
    by (simp add: dragged drag_resize_def inner d_def add_diff_eq)
  moreover have "lay_drags dragged = [d]" by (simp add: dragged drag_resize_def setMachinePanelWidth_def drags)
  ultimately show ?thesis by (simp add: pointer_released_def stopResize_def d_def)
qed

theorem drag_follows_pointer_witness:
  "machinePanelWidth (fold pointer_moved [300, 310] (startMachinePanelResize 290 (initial_layout 264 False 1000))) =
   clampMachinePanelWidth 1000 (of_int (machinePanelWidth (initial_layout 264 False 1000)) + 20)"
  using drag_follows_pointer [OF _ refl, of "initial_layout 264 False 1000" "[300]" 310 290] by (simp add: initial_layout_def)

text \<open>A second drag that begins before the first one has ended remembers the cursor the first one set, and it is
  restored last: the cursor of the page stays.\<close>

theorem overlapping_drags_keep_cursor:
  assumes "lay_drags l = []"
  shows "lay_cursor (pointer_released (startMachinePanelResize y (startMachinePanelResize x l))) = ''col-resize'' \<and>
    lay_userSelect (pointer_released (startMachinePanelResize y (startMachinePanelResize x l))) = ''none'' \<and>
    lay_drags (pointer_released (startMachinePanelResize y (startMachinePanelResize x l))) = []"
  using assms by (auto simp: pointer_released_def startMachinePanelResize_def stopResize_def Let_def)

theorem overlapping_drags_keep_cursor_witness:
  "lay_cursor (pointer_released (startMachinePanelResize 301 (startMachinePanelResize 300 (initial_layout 264 False 1000)))) =
   ''col-resize''"
  using overlapping_drags_keep_cursor [of "initial_layout 264 False 1000" 301 300] by (simp add: initial_layout_def)

text \<open>The arrow keys change the stored width, not the one that is shown: when the window has become too narrow for
  the stored width, the first key has no effect.\<close>

theorem first_arrow_has_no_effect:
  assumes "of_int (panel_bound (lay_innerWidth l)) + 16 \<le> lay_stored l"
  shows "machinePanelWidth (resizeMachinePanelWithKeyboard ''ArrowLeft'' False l) = machinePanelWidth l"
proof -
  have "panel_bound (lay_innerWidth l) \<le> mathRound (lay_stored l - 16)" "panel_bound (lay_innerWidth l) \<le> mathRound (lay_stored l)"
    using mathRound_mono [of "of_int (panel_bound (lay_innerWidth l))" "lay_stored l - 16"]
      mathRound_mono [of "of_int (panel_bound (lay_innerWidth l))" "lay_stored l"] assms by simp_all
  then show ?thesis
    using panel_bound_min [of "lay_innerWidth l"]
    by (simp add: resizeMachinePanelWithKeyboard_def Let_def, simp add: machinePanelWidth_def clamp_panel)
qed

theorem first_arrow_has_no_effect_witness:
  "machinePanelWidth (resizeMachinePanelWithKeyboard ''ArrowLeft'' False (initial_layout 420 False 700)) =
   machinePanelWidth (initial_layout 420 False 700)"
  by (rule first_arrow_has_no_effect) (simp add: initial_layout_def panel_bound_def maxByViewport_def machinePanelMinWidth_def
    machinePanelMaxWidth_def machineRailWidth_def minimumWorkbenchWidth_def)

section \<open>The animation\<close>

definition timers_ok :: "layout \<Rightarrow> bool" where
  "timers_ok l \<longleftrightarrow>
     lay_pending l = (case lay_timeout l of None \<Rightarrow> [] | Some t \<Rightarrow> [t]) \<and>
     (lay_transitioning l \<longrightarrow> lay_timeout l \<noteq> None) \<and> (\<forall>t \<in> set (lay_pending l). t < lay_nextTimer l)"

lemma timers_ok_release: "timers_ok l \<Longrightarrow> timers_ok (fold stopResize ds l)"
  by (induction ds arbitrary: l) (simp_all add: stopResize_def timers_ok_def)

lemma layout_timers: "layout_reachable l \<Longrightarrow> timers_ok l"
proof (induction rule: layout_reachable.induct)
  case (layout_move l x)
  then show ?case by (simp add: timers_ok_def pointer_moved_def fold_widths)
next
  case (layout_release l)
  then show ?case by (simp add: pointer_released_def timers_ok_release)
next
  case (layout_key l key shift)
  then show ?case by (simp add: timers_ok_def resizeMachinePanelWithKeyboard_def setMachinePanelWidth_def Let_def)
next
  case (layout_toggle l)
  then show ?case by (auto simp: timers_ok_def toggleMachinePanel_def Let_def split: option.splits)
next
  case (layout_timer l t)
  then show ?case by (auto simp: timers_ok_def timer_fired_def split: option.splits)
qed (simp_all add: timers_ok_def initial_layout_def startMachinePanelResize_def window_resized_def Let_def)

text \<open>The animation of the panel ends: while the page is marked as animated, one timer is pending, and when it
  fires the mark goes; at most one timer is pending at any time.\<close>

theorem panel_animation_ends:
  assumes "layout_reachable l"
  shows "length (lay_pending l) \<le> 1 \<and>
    (''machine-panel-transitioning'' \<in> set (fst (Layout l)) \<longrightarrow>
      (\<exists>t. lay_pending l = [t] \<and> ''machine-panel-transitioning'' \<notin> set (fst (Layout (timer_fired t l)))))"
  using layout_timers [OF assms] by (auto simp: timers_ok_def Layout_def timer_fired_def split: option.splits if_splits)

theorem panel_animation_ends_witness:
  "\<exists>t. lay_pending (toggleMachinePanel (toggleMachinePanel (initial_layout 264 False 1000))) = [t]"
proof -
  define l where "l = toggleMachinePanel (toggleMachinePanel (initial_layout 264 False 1000))"
  have "layout_reachable l" unfolding l_def by (intro layout_reachable.intros)
  moreover have "''machine-panel-transitioning'' \<in> set (fst (Layout l))"
    by (simp add: l_def toggleMachinePanel_def Layout_def Let_def)
  ultimately show ?thesis using panel_animation_ends [of l] unfolding l_def by blast
qed

end
