(* ===== verification/MachineViews.thy ===== *)
theory MachineViews
  imports MachineModal FloatingMenu TerminalShells Workbench RpcSession CodegenNumber
begin

text \<open>
  The views around a machine, \<open>web/src/view/machine-panel\<close> and \<open>web/src/view/machine-rail\<close>: the menu of the
  tools, the title of the panel, the contents of the machine dialogs and the timer that renews a pairing code,
  the rail of machines and its context menu. Markup and styles are left out: a view is what it shows and the
  operation of each control. \<open>toUpperCase\<close> is a parameter.
\<close>

section \<open>The tool menu\<close>

definition SHELL_MENU_WIDTH :: real where "SHELL_MENU_WIDTH = 260"
definition SHELL_MENU_MAX_HEIGHT :: real where "SHELL_MENU_MAX_HEIGHT = 360"
definition SHELL_MENU_TRIGGER_GAP :: real where "SHELL_MENU_TRIGGER_GAP = 0"
definition FILES_MENU_WIDTH :: real where "FILES_MENU_WIDTH = 176"

definition tools :: "(WorkbenchTool \<times> string) list" where
  "tools = [(ToolDaemon, ''Daemon''), (ToolFiles, ''Files''), (ToolTerminal, ''Terminal''), (ToolWindows, ''Windows''),
     (ToolProcesses, ''Processes'')]"

record tool_menu =
  filesMenuOpen :: bool
  filesMenuPosition :: "FloatingMenuPosition option"
  shellMenuOpen :: bool
  shellMenuPosition :: "FloatingMenuPosition option"

definition initial_tool_menu :: tool_menu where
  "initial_tool_menu = \<lparr>filesMenuOpen = False, filesMenuPosition = None, shellMenuOpen = False, shellMenuPosition = None\<rparr>"

definition closeShellMenu :: "tool_menu \<Rightarrow> tool_menu" where
  "closeShellMenu m = m\<lparr>shellMenuOpen := False, shellMenuPosition := None\<rparr>"

definition closeFilesMenu :: "tool_menu \<Rightarrow> tool_menu" where
  "closeFilesMenu m = m\<lparr>filesMenuOpen := False, filesMenuPosition := None\<rparr>"

text \<open>The effect on \<open>hasTerminalShells\<close>, and what dismisses an open menu: a press outside, Escape, resizing, scrolling.\<close>

definition shells_changed :: "AvailableShellInfo list \<Rightarrow> tool_menu \<Rightarrow> tool_menu" where
  "shells_changed terminalShells m = (if length terminalShells > 0 then m else closeShellMenu m)"

definition dismiss_menus :: "tool_menu \<Rightarrow> tool_menu" where
  "dismiss_menus m =
     (let m = (if filesMenuOpen m then closeFilesMenu m else m) in
      if shellMenuOpen m then closeShellMenu m else m)"

definition shellMenuPositionFromRect :: "real \<Rightarrow> real \<Rightarrow> dom_rect \<Rightarrow> nat \<Rightarrow> FloatingMenuPosition" where
  "shellMenuPositionFromRect innerWidth innerHeight rect shellCount =
     floatingMenuPositionFromRect innerWidth innerHeight rect \<lparr>menu_itemCount = shellCount, menu_width = SHELL_MENU_WIDTH\<rparr>
       SHELL_MENU_MAX_HEIGHT 120 SHELL_MENU_TRIGGER_GAP"

definition toggleFilesMenu :: "real \<Rightarrow> real \<Rightarrow> dom_rect \<Rightarrow> tool_menu \<Rightarrow> tool_menu" where
  "toggleFilesMenu innerWidth innerHeight rect m =
     (if filesMenuOpen m then closeFilesMenu m
      else m\<lparr>filesMenuPosition := Some (floatingMenuPositionFromRect innerWidth innerHeight rect
          \<lparr>menu_itemCount = 3, menu_width = FILES_MENU_WIDTH\<rparr> 360 120 SHELL_MENU_TRIGGER_GAP),
        filesMenuOpen := True\<rparr>)"

definition toggleShellMenu :: "real \<Rightarrow> real \<Rightarrow> AvailableShellInfo list \<Rightarrow> dom_rect \<Rightarrow> tool_menu \<Rightarrow> tool_menu" where
  "toggleShellMenu innerWidth innerHeight terminalShells rect m =
     (if length terminalShells = 0 then m
      else if shellMenuOpen m then closeShellMenu m
      else m\<lparr>shellMenuPosition := Some (shellMenuPositionFromRect innerWidth innerHeight rect (length terminalShells)),
        shellMenuOpen := True\<rparr>)"

text \<open>The last segment of the path of a command.\<close>

definition commandName :: "jstring \<Rightarrow> jstring" where
  "commandName command =
     (let normalized = map (\<lambda>c. if c = backslash then slash else c) command;
          found = segments (\<lambda>c. c = slash) normalized in
      if found = [] then command else last found)"

record menu_row =
  row_tool :: WorkbenchTool
  row_label :: string
  row_active :: bool
  row_dropdown :: "bool option"
  row_items :: "(jstring \<times> jstring \<times> bool) list"

text \<open>A row has a button for its menu, active or not, when it has one; the items are label, command and default.\<close>

definition tool_row :: "WorkbenchTool \<Rightarrow> AvailableShellInfo list \<Rightarrow> tool_menu \<Rightarrow> WorkbenchTool \<times> string \<Rightarrow> menu_row" where
  "tool_row active terminalShells m = (\<lambda>(tool, label).
     \<lparr>row_tool = tool, row_label = label, row_active = (active = tool),
      row_dropdown =
        (if tool = ToolFiles then Some (active = tool \<or> filesMenuOpen m)
         else if tool = ToolTerminal \<and> length terminalShells > 0 then Some (active = tool \<or> shellMenuOpen m)
         else None),
      row_items =
        (if tool = ToolFiles \<and> filesMenuOpen m then map (\<lambda>l. (js l, [], False)) [''Root'', ''Home'', ''Trash'']
         else if tool = ToolTerminal \<and> length terminalShells > 0 \<and> shellMenuOpen m then
           map (\<lambda>shell. (asi_name shell, commandName (asi_command shell), asi_isDefault shell)) terminalShells
         else [])\<rparr>)"

definition ToolMenu :: "WorkbenchTool \<Rightarrow> AvailableShellInfo list \<Rightarrow> tool_menu \<Rightarrow> menu_row list" where
  "ToolMenu active terminalShells m = map (tool_row active terminalShells m) tools"

section \<open>What the tool menu opens\<close>

definition openTerminalShell ::
    "terminal_shells \<Rightarrow> AvailableShellInfo option \<Rightarrow> jstring \<Rightarrow> 'l WorkbenchState \<Rightarrow> 'l WorkbenchState" where
  "openTerminalShell shells shell uuid st =
     (case (case shell of Some s \<Rightarrow> Some s | None \<Rightarrow> defaultShell shells) of
        None \<Rightarrow> st
      | Some selectedShell \<Rightarrow>
          openTerminalTab \<lparr>cfg_cwd = None,
            cfg_launch = Some \<lparr>launch_command = asi_command selectedShell, launch_args = asi_args selectedShell\<rparr>,
            cfg_sessionId = None, cfg_terminalTitle = None, cfg_title = Some (asi_name selectedShell)\<rparr> uuid st)"

definition openFilesView :: "WorkbenchFilesView \<Rightarrow> jstring \<Rightarrow> 'l WorkbenchState \<Rightarrow> 'l WorkbenchState" where
  "openFilesView filesView uuid st = openFilesTab (Some filesView) uuid st"

text \<open>The buttons of the menu close it and open the view.\<close>

definition openShellTerminal ::
    "terminal_shells \<Rightarrow> AvailableShellInfo \<Rightarrow> jstring \<Rightarrow> tool_menu \<times> 'l WorkbenchState \<Rightarrow> tool_menu \<times> 'l WorkbenchState" where
  "openShellTerminal shells shell uuid = (\<lambda>(m, st). (closeShellMenu m, openTerminalShell shells (Some shell) uuid st))"

definition openDefaultTerminal ::
    "terminal_shells \<Rightarrow> jstring \<Rightarrow> tool_menu \<times> 'l WorkbenchState \<Rightarrow> tool_menu \<times> 'l WorkbenchState" where
  "openDefaultTerminal shells uuid = (\<lambda>(m, st). (closeShellMenu m, openTerminalShell shells None uuid st))"

definition menu_openFilesView ::
    "WorkbenchFilesView \<Rightarrow> jstring \<Rightarrow> tool_menu \<times> 'l WorkbenchState \<Rightarrow> tool_menu \<times> 'l WorkbenchState" where
  "menu_openFilesView filesView uuid = (\<lambda>(m, st). (closeFilesMenu m, openFilesView filesView uuid st))"

section \<open>The title of the panel\<close>

definition machineMenuWidth :: int where "machineMenuWidth = 176"

definition openMachineTitleMenu ::
    "int \<Rightarrow> int \<Rightarrow> int \<Rightarrow> int \<Rightarrow> Machine \<Rightarrow> machine_menu \<times> machine_store \<Rightarrow> machine_menu \<times> machine_store" where
  "openMachineTitleMenu w h right bottom machine ms =
     (if map_option menu_machineId (machineMenu (fst ms)) = Some (m_id machine) then (closeMachineMenu (fst ms), snd ms)
      else openMachineMenu w h (m_id machine) (right - machineMenuWidth) bottom ms)"

fun MachineTitleStatus :: "ConnectionState \<Rightarrow> string" where
  "MachineTitleStatus (Reachable rtt) = ''Connected''"
| "MachineTitleStatus ConnIdle = ''Connecting''"
| "MachineTitleStatus Offline = ''Unconnected''"

definition MachinePanel :: "Machine option \<Rightarrow> ConnectionState \<Rightarrow> (jstring \<times> string) option" where
  "MachinePanel machine conn = map_option (\<lambda>m. (m_name m, MachineTitleStatus conn)) machine"

section \<open>The pairing dialog\<close>

text \<open>\<open>replace(/\D/g, "").slice(0, 6)\<close>.\<close>

definition pairing_digit :: "16 word \<Rightarrow> bool" where
  "pairing_digit c \<longleftrightarrow> u16 CHR ''0'' \<le> c \<and> c \<le> u16 CHR ''9''"

definition pairing_code_input :: "jstring \<Rightarrow> jstring" where
  "pairing_code_input typed = take 6 (filter pairing_digit typed)"

text \<open>\<open>Math.ceil\<close> of the seconds that are left, at least 0.\<close>

definition expires_in_seconds :: "int \<Rightarrow> modal \<Rightarrow> int option" where
  "expires_in_seconds nowMs m =
     map_option (\<lambda>expires. max 0 (- ((nowMs - expires * 1000) div 1000))) (mo_expires m)"

definition two_digits :: "nat \<Rightarrow> string" where
  "two_digits n = (let s = show_nat n in replicate (2 - length s) CHR ''0'' @ s)"

definition formatRemainingTime :: "int \<Rightarrow> string" where
  "formatRemainingTime totalSeconds =
     (let seconds = nat (max 0 totalSeconds) in two_digits (seconds div 60) @ '':'' @ two_digits (seconds mod 60))"

datatype pairing_step =
    CodeStep jstring string
  | ConfirmationStep jstring bool

definition PairingCodeStep :: "jstring \<Rightarrow> int \<Rightarrow> pairing_step" where
  "PairingCodeStep pairingCode expiresIn =
     CodeStep pairingCode
       (if expiresIn \<le> 0 then ''Pairing code expired. Restart pairing.''
        else ''Pairing code expires in '' @ formatRemainingTime expiresIn @ ''.'')"

definition PairingConfirmationStep :: "jstring option \<Rightarrow> bool \<Rightarrow> pairing_step" where
  "PairingConfirmationStep confirmationCode isRequesting =
     ConfirmationStep (case confirmationCode of None \<Rightarrow> js ''--'' | Some c \<Rightarrow> c) isRequesting"

text \<open>The name of the machine, whether pairing can be restarted, the step, and whether there is an enabled Pair button.\<close>

record pair_form =
  pf_machineName :: jstring
  pf_restart :: bool
  pf_step :: pairing_step
  pf_pair :: "bool option"

definition PairMachineForm :: "int \<Rightarrow> Machine \<Rightarrow> modal \<Rightarrow> pair_form" where
  "PairMachineForm nowMs machine m =
     (let expiresIn = expires_in_seconds nowMs m in
      \<lparr>pf_machineName = m_name machine, pf_restart = (\<not> mo_pairing m),
       pf_step = (case expiresIn of
           Some s \<Rightarrow> PairingCodeStep (mo_pairingCode m) s
         | None \<Rightarrow> PairingConfirmationStep (mo_confirmation m) (mo_requesting m)),
       pf_pair = (case expiresIn of
           None \<Rightarrow> None
         | Some s \<Rightarrow> Some (\<not> (mo_pairing m \<or> mo_requesting m \<or> length (mo_pairingCode m) = 0)))\<rparr>)"

section \<open>The machine dialogs\<close>

datatype modal_form =
    PairForm pair_form
  | ConfigForm jstring jstring jstring jstring jstring
  | DeleteForm jstring jstring
  | AddForm jstring jstring jstring

text \<open>The error stands in the forms that show it; a name and an address come before the drafts of the configuration.\<close>

definition modal_form :: "int \<Rightarrow> MachineModalMode \<Rightarrow> modal \<Rightarrow> modal_form" where
  "modal_form nowMs mode m =
     (case (mode, selected (mo_store m)) of
        (ModalPair, Some machine) \<Rightarrow> PairForm (PairMachineForm nowMs machine m)
      | (ModalConfig, Some machine) \<Rightarrow>
          ConfigForm (m_name machine) (m_baseUrl machine) (mo_configName m) (mo_configUrl m) (mo_error m)
      | (ModalDelete, Some machine) \<Rightarrow> DeleteForm (m_name machine) (m_baseUrl machine)
      | _ \<Rightarrow> AddForm (mo_name m) (mo_baseUrl m) (mo_error m))"

record modal_view =
  md_title :: string
  md_close :: bool
  md_form :: modal_form

definition MachineModal :: "int \<Rightarrow> MachineModalMode \<Rightarrow> modal \<Rightarrow> modal_view" where
  "MachineModal nowMs mode m =
     \<lparr>md_title = machineModalTitle (mo_mode m), md_close = (length (machines (mo_store m)) > 0), md_form = modal_form nowMs mode m\<rparr>"

definition MachineModalHost :: "int \<Rightarrow> modal \<Rightarrow> modal_view option" where
  "MachineModalHost nowMs m = map_option (\<lambda>mode. MachineModal nowMs mode m) (mo_mode m)"

text \<open>The form that is shown in the panel while there is no machine.\<close>

definition MachineAddFormContainer :: "modal \<Rightarrow> modal_form" where
  "MachineAddFormContainer m = AddForm (mo_name m) (mo_baseUrl m) (mo_error m)"

text \<open>Escape; a press beside the dialog closes it too.\<close>

definition closeOnEscape :: "string \<Rightarrow> modal \<Rightarrow> modal" where
  "closeOnEscape key m =
     (if mo_mode m = None \<or> length (machines (mo_store m)) = 0 then m
      else if key = ''Escape'' then closeMachineModal m else m)"

text \<open>The milliseconds after which a new code is asked for; no timer runs in the other cases.\<close>

definition renewal_delay :: "int \<Rightarrow> modal \<Rightarrow> int option" where
  "renewal_delay nowMs m =
     (if mo_mode m \<noteq> Some ModalPair \<or> selected (mo_store m) = None \<or> mo_pairing m then None
      else case mo_expires m of
        None \<Rightarrow> None
      | Some expires \<Rightarrow> if expires = 0 then None else Some (max 0 (expires * 1000 - nowMs + 250)))"

section \<open>The rail\<close>

definition initials_separator :: "16 word \<Rightarrow> bool" where
  "initials_separator c \<longleftrightarrow> white_space c \<or> c \<in> {u16 CHR ''.'', u16 CHR ''_'', u16 CHR ''-''}"

definition machineInitials :: "(jstring \<Rightarrow> jstring) \<Rightarrow> jstring \<Rightarrow> jstring" where
  "machineInitials upper name =
     (let letters = upper (take 2 (concat (map (\<lambda>part. take 1 (trim part)) (segments initials_separator name)))) in
      if letters = [] then js ''PC'' else letters)"

record rail_button =
  rb_active :: bool
  rb_label :: jstring
  rb_initials :: jstring

definition MachineRail :: "(jstring \<Rightarrow> jstring) \<Rightarrow> machine_store \<Rightarrow> rail_button list" where
  "MachineRail upper s =
     map (\<lambda>m. \<lparr>rb_active = (Some (m_id m) = selectedId s), rb_label = m_name m, rb_initials = machineInitials upper (m_name m)\<rparr>)
       (machines s)"

definition MachineContextMenu :: "Machine \<Rightarrow> string list" where
  "MachineContextMenu machine =
     [''Reconnect'', ''Configure'', if isPaired (Some machine) then ''Unpair'' else ''Pair'', ''Delete'']"

text \<open>The menu is shown for a machine of the list.\<close>

definition shown_context_menu :: "machine_menu \<times> machine_store \<Rightarrow> string list option" where
  "shown_context_menu ms = map_option MachineContextMenu (menuMachine (fst ms) (snd ms))"

definition reconnectMachine ::
    "Machine \<Rightarrow> machine_menu \<times> machine_store \<times> controller \<Rightarrow> machine_menu \<times> machine_store \<times> controller" where
  "reconnectMachine machine = (\<lambda>(menu, s, c). (closeMachineMenu menu, selectMachine (Some (m_id machine)) s, reconnect c))"

text \<open>The controller of the session is replaced by one for the machine without its secret.\<close>

definition unpairMachine ::
    "Machine \<Rightarrow> machine_menu \<times> machine_store \<times> controller_slot \<Rightarrow> machine_menu \<times> machine_store \<times> controller_slot" where
  "unpairMachine machine = (\<lambda>(menu, s, sl).
     let s = selectMachine (Some (m_id machine)) (clearMachineCredentials (m_id machine) s) in
     (closeMachineMenu menu, s, replaceController (Some (m_id machine)) (findMachine (Some (m_id machine)) s) sl))"

section \<open>The tool menu\<close>

inductive tool_menu_reachable :: "AvailableShellInfo list \<Rightarrow> tool_menu \<Rightarrow> bool" where
  menu_start: "tool_menu_reachable shells initial_tool_menu"
| menu_shells: "tool_menu_reachable shells m \<Longrightarrow> tool_menu_reachable shells' (shells_changed shells' m)"
| menu_files: "tool_menu_reachable shells m \<Longrightarrow> tool_menu_reachable shells (toggleFilesMenu w h rect m)"
| menu_terminal: "tool_menu_reachable shells m \<Longrightarrow> tool_menu_reachable shells (toggleShellMenu w h shells rect m)"
| menu_dismiss: "tool_menu_reachable shells m \<Longrightarrow> tool_menu_reachable shells (dismiss_menus m)"
| menu_shell: "tool_menu_reachable shells m \<Longrightarrow>
    tool_menu_reachable shells (fst (openShellTerminal from_shells shell uuid (m, st :: nat WorkbenchState)))"
| menu_default: "tool_menu_reachable shells m \<Longrightarrow>
    tool_menu_reachable shells (fst (openDefaultTerminal from_shells uuid (m, st :: nat WorkbenchState)))"
| menu_view: "tool_menu_reachable shells m \<Longrightarrow>
    tool_menu_reachable shells (fst (menu_openFilesView filesView uuid (m, st :: nat WorkbenchState)))"

text \<open>A menu of the tools is open exactly when it has a place, and the menu of the shells is open only while
  there are shells.\<close>

theorem tool_menus_have_places:
  assumes "tool_menu_reachable shells m"
  shows "(filesMenuOpen m \<longleftrightarrow> filesMenuPosition m \<noteq> None) \<and> (shellMenuOpen m \<longleftrightarrow> shellMenuPosition m \<noteq> None) \<and>
    (shells = [] \<longrightarrow> \<not> shellMenuOpen m)"
  using assms
  by (induction rule: tool_menu_reachable.induct)
    (auto simp: initial_tool_menu_def shells_changed_def toggleFilesMenu_def toggleShellMenu_def dismiss_menus_def Let_def
      openShellTerminal_def openDefaultTerminal_def menu_openFilesView_def closeShellMenu_def closeFilesMenu_def)

theorem tool_menus_have_places_witness:
  "shellMenuPosition (shells_changed [] (toggleShellMenu 800 600 [undefined] undefined initial_tool_menu)) = None"
proof -
  have "tool_menu_reachable [] (shells_changed [] (toggleShellMenu 800 600 [undefined] undefined initial_tool_menu))"
    by (intro menu_shells [where shells = "[undefined]"] menu_terminal menu_start)
  from tool_menus_have_places [OF this] show ?thesis by blast
qed

section \<open>Pairing\<close>

lemma pairing_digit_word: "pairing_digit c \<longleftrightarrow> 48 \<le> c \<and> c \<le> 57"
  by (simp add: pairing_digit_def u16_def)

lemma code_input_digits: "\<forall>c \<in> set (pairing_code_input typed). pairing_digit c"
  by (auto simp: pairing_code_input_def dest: in_set_takeD)

lemma trim_digits:
  assumes "\<forall>c \<in> set s. pairing_digit c"
  shows "trim s = s"
proof -
  have "\<not> white_space c" if "c \<in> set s" for c
    using assms that by (auto simp: pairing_digit_word white_space_def word_le_nat_alt)
  then have "dropWhile white_space t = t" if "set t \<subseteq> set s" for t using that by (cases t) auto
  from this [of s] this [of "rev s"] show ?thesis by (simp add: trim_def drop_trailing_def)
qed

text \<open>What is typed into the field of the pairing code is reduced to its first six digits, and when the Pair
  button is enabled, pressing it sends the code for the machine the dialog is about.\<close>

theorem pair_button_starts_pairing:
  assumes "selected (mo_store m) = Some machine" "mo_pairingCode m = pairing_code_input typed"
    and "pf_pair (PairMachineForm nowMs machine m) = Some True"
  shows "mo_pairing (pairSelected m) \<and> mo_pairing_for (pairSelected m) = Some (m_id machine) \<and>
    length (mo_pairingCode (pairSelected m)) \<le> 6 \<and> (\<forall>c \<in> set (mo_pairingCode (pairSelected m)). pairing_digit c) \<and>
    pf_pair (PairMachineForm nowMs machine (pairSelected m)) = Some False"
proof -
  have code: "mo_pairingCode m \<noteq> []" "\<not> mo_pairing m"
    using assms(3) by (auto simp: PairMachineForm_def Let_def split: option.splits)
  have "trim (mo_pairingCode m) = mo_pairingCode m" unfolding assms(2) by (rule trim_digits [OF code_input_digits])
  with code assms(1) have "pairSelected m = m\<lparr>mo_pairing := True, mo_error := [], mo_pairing_for := Some (m_id machine)\<rparr>"
    by (simp add: pairSelected_def)
  moreover have "length (pairing_code_input typed) \<le> 6" by (simp add: pairing_code_input_def)
  ultimately show ?thesis
    using assms(2,3) code_input_digits [of typed]
    by (auto simp: PairMachineForm_def Let_def expires_in_seconds_def split: option.splits)
qed

text \<open>The dialog of a machine while a code is waited for, with the code that has been typed.\<close>

definition coded_modal :: modal where
  "coded_modal = (initial_modal \<lparr>machines = [box_machine], selectedId = Some (m_id box_machine)\<rparr>)
     \<lparr>mo_mode := Some ModalPair, mo_confirmation := Some (js ''07''), mo_expires := Some 100, mo_pairingCode := pairing_code_input (js ''12 34-56789'')\<rparr>"

theorem pair_button_starts_pairing_witness:
  "mo_pairing (pairSelected coded_modal) \<and> mo_pairingCode coded_modal = js ''123456''"
proof -
  have c: "mo_pairingCode coded_modal = pairing_code_input (js ''12 34-56789'')" by (simp add: coded_modal_def)
  have n: "pairing_code_input (js ''12 34-56789'') = js ''123456''"
    by (simp add: pairing_code_input_def pairing_digit_word js_def u16_def)
  have s: "selected (mo_store coded_modal) = Some box_machine"
    by (simp add: coded_modal_def initial_modal_def selected_def getMachine_def)
  have p: "pf_pair (PairMachineForm 0 box_machine coded_modal) = Some True"
    using c n by (simp add: PairMachineForm_def Let_def expires_in_seconds_def, simp add: coded_modal_def initial_modal_def)
  from pair_button_starts_pairing [OF s c p] c n show ?thesis by simp
qed

text \<open>The timer of the pairing dialog fires when the code it was started for has expired, not before, and the
  request it makes leaves no code and no timer behind until it is answered.\<close>

theorem expired_code_is_renewed:
  assumes "renewal_delay nowMs m = Some d"
  shows "expires_in_seconds (nowMs + d) m = Some 0 \<and>
    mo_requesting (requestSelectedPairingCode b m) \<and> mo_pairingCode (requestSelectedPairingCode b m) = [] \<and>
    expires_in_seconds t (requestSelectedPairingCode b m) = None \<and> renewal_delay t (requestSelectedPairingCode b m) = None"
proof -
  from assms obtain machine expires where e: "selected (mo_store m) = Some machine" "mo_expires m = Some expires"
    "d = max 0 (expires * 1000 - nowMs + 250)"
    by (auto simp: renewal_delay_def split: if_splits option.splits)
  have "expires * 1000 \<le> nowMs + d" using e(3) by linarith
  then have "0 \<le> (nowMs + d - expires * 1000) div 1000" by (intro pos_imp_zdiv_nonneg_iff [THEN iffD2]) simp_all
  with e show ?thesis
    by (simp add: expires_in_seconds_def requestSelectedPairingCode_def requestPairingCode_def resetPairingCode_def Let_def
      renewal_delay_def)
qed

theorem expired_code_is_renewed_witness:
  "mo_requesting (requestSelectedPairingCode 7 coded_modal) \<and> expires_in_seconds 100250 coded_modal = Some 0"
proof -
  have "renewal_delay 99000 coded_modal = Some 1250"
    by (simp add: coded_modal_def initial_modal_def renewal_delay_def selected_def getMachine_def)
  from expired_code_is_renewed [OF this, of 7 0] show ?thesis by simp
qed

text \<open>An error while pairing is kept, but the dialog does not show it: it looks the same with any error.\<close>

theorem pairing_error_is_not_shown:
  assumes "mo_mode m = Some ModalPair" "selected (mo_store m) = Some machine"
  shows "MachineModalHost nowMs (m\<lparr>mo_error := e\<rparr>) = MachineModalHost nowMs m"
  using assms by (simp add: MachineModalHost_def MachineModal_def modal_form_def PairMachineForm_def Let_def expires_in_seconds_def
      split: option.split)

theorem pairing_error_is_not_shown_witness:
  "MachineModalHost 0 (coded_modal\<lparr>mo_error := js ''wrong code''\<rparr>) = MachineModalHost 0 coded_modal"
  by (rule pairing_error_is_not_shown [where machine = box_machine])
    (simp_all add: coded_modal_def initial_modal_def selected_def getMachine_def)

section \<open>The time that is left\<close>

definition read_remaining :: "string \<Rightarrow> nat option" where
  "read_remaining s =
     (case (digits_in 10 0 (takeWhile (\<lambda>c. c \<noteq> CHR '':'') s), digits_in 10 0 (drop 1 (dropWhile (\<lambda>c. c \<noteq> CHR '':'') s))) of
        (Some m, Some r) \<Rightarrow> Some (60 * m + r)
      | _ \<Rightarrow> None)"

lemma two_digits_read: "digits_in 10 0 (two_digits n) = Some n"
proof -
  have zero: "digits_in 10 0 (replicate k CHR ''0'' @ s) = digits_in 10 0 s" for k s
    by (induction k) (simp_all add: digit_value_def)
  show ?thesis unfolding two_digits_def Let_def zero by (rule digits_in_show_nat)
qed

lemma two_digits_plain: "c \<in> set (two_digits n) \<Longrightarrow> c \<noteq> CHR '':''"
  using show_nat_decimal [of n] by (auto simp: two_digits_def Let_def is_decimal_def)

text \<open>The time that is left is written as minutes and seconds from which it can be read: with at least two digits
  each, and the seconds below sixty.\<close>

theorem remaining_time_reads_back:
  "read_remaining (formatRemainingTime totalSeconds) = Some (nat totalSeconds)"
proof -
  define n where "n = nat totalSeconds"
  have f: "formatRemainingTime totalSeconds = two_digits (n div 60) @ CHR '':'' # two_digits (n mod 60)"
    by (simp add: formatRemainingTime_def n_def Let_def max_def)
  have t: "takeWhile (\<lambda>c. c \<noteq> CHR '':'') (two_digits (n div 60) @ CHR '':'' # two_digits (n mod 60)) = two_digits (n div 60)"
    using two_digits_plain by (subst takeWhile_append2) auto
  have d: "dropWhile (\<lambda>c. c \<noteq> CHR '':'') (two_digits (n div 60) @ CHR '':'' # two_digits (n mod 60)) = CHR '':'' # two_digits (n mod 60)"
    using two_digits_plain by (subst dropWhile_append2) auto
  show ?thesis unfolding f read_remaining_def t d by (simp add: two_digits_read n_def [symmetric])
qed

section \<open>The rail\<close>

text \<open>A machine that has been unpaired is no longer paired, is the selected one, and its menu offers to pair it.\<close>

theorem unpaired_machine_can_pair:
  assumes "unpairMachine machine (menu, s, sl) = (menu', s', sl')" "findMachine (Some (m_id machine)) s = Some old"
  shows "\<exists>m. findMachine (Some (m_id machine)) s' = Some m \<and> ''Pair'' \<in> set (MachineContextMenu m) \<and>
    m_name m = m_name old \<and> m_baseUrl m = m_baseUrl old \<and>
    selectedId s' = Some (m_id machine) \<and> machineMenu menu' = None"
proof -
  let ?f = "\<lambda>m. if m_id m = m_id machine then m\<lparr>m_clientSecret := None\<rparr> else m"
  from assms(1) have s': "s' = selectMachine (Some (m_id machine)) (clearMachineCredentials (m_id machine) s)"
    and menu': "menu' = closeMachineMenu menu" by (auto simp: unpairMachine_def Let_def)
  have "findMachine (Some (m_id machine)) s' = map_option ?f (findMachine (Some (m_id machine)) s)"
    by (simp add: s' findMachine_def selectMachine_def clearMachineCredentials_def updateMachine_def getMachine_map)
  moreover have "m_id old = m_id machine" using assms(2) by (auto simp: findMachine_def dest: getMachine_SomeD)
  ultimately have "findMachine (Some (m_id machine)) s' = Some (old\<lparr>m_clientSecret := None\<rparr>)" using assms(2) by simp
  then show ?thesis
    by (simp add: s' menu' selectMachine_def closeMachineMenu_def MachineContextMenu_def isPaired_def truthy_def)
qed

theorem unpaired_machine_can_pair_witness:
  "\<exists>m. findMachine (Some (m_id box_machine)) (fst (snd (unpairMachine box_machine
     (\<lparr>machineMenu = None, railTooltip = None\<rparr>, \<lparr>machines = [box_machine], selectedId = None\<rparr>,
      \<lparr>activeController = None, disposed = []\<rparr>)))) = Some m \<and> ''Pair'' \<in> set (MachineContextMenu m)"
proof -
  obtain a b c where "unpairMachine box_machine (\<lparr>machineMenu = None, railTooltip = None\<rparr>,
      \<lparr>machines = [box_machine], selectedId = None\<rparr>, \<lparr>activeController = None, disposed = []\<rparr>) = (a, b, c)"
    by (metis prod_cases3)
  with unpaired_machine_can_pair [OF this, of box_machine] show ?thesis
    by (auto simp: findMachine_def getMachine_def)
qed

text \<open>The initials are code units: of a name that begins with a character outside the basic plane the first half is
  shown.\<close>

theorem initials_split_characters:
  assumes "lead_surrogate u" "trail_surrogate v"
  shows "machineInitials (\<lambda>s. s) [u, v] = [u]"
proof -
  have "\<not> initials_separator c" "\<not> white_space c" if "c = u \<or> c = v" for c
    using assms that by (auto simp: initials_separator_def white_space_def lead_surrogate_def trail_surrogate_def u16_def
        word_le_nat_alt)
  then show ?thesis by (simp add: machineInitials_def segments_def trim_def drop_trailing_def)
qed

theorem initials_split_characters_witness: "machineInitials (\<lambda>s. s) [0xD83D, 0xDE00] = [0xD83D]"
  by (rule initials_split_characters) (simp_all add: lead_surrogate_def trail_surrogate_def)

end
