(* ===== verification/Spec2Isabelle.thy ===== *)
theory Spec2Isabelle
  imports CborRoundtrip CborStream Wire Client Machines Explorer FileViewer Workbench RpcSession EndToEnd TerminalShells
    MachineModal ProcessViews WindowViews DaemonViews TerminalRuns FileImpls PaneView TrashView MediaViews Generators
    ViewerFrame PanelLayout MachineViews
begin

text \<open>
  A verification library for the web client of the repository and for its code generators. The client
  (\<open>web/src\<close>, TypeScript) shows and operates machines: on each machine a daemon (Rust) answers procedure calls
  over WebTransport. This development models the client from the bytes of a stream up to the tools a user sees,
  and the build-time generators (\<open>scripts/codegen\<close>) that write the codecs of both sides.

  \<^bold>\<open>The parts and how they interact.\<close> \<open>protocol/cbor.ts\<close> encodes and decodes values. \<open>protocol/generated/wire.ts\<close>
  and \<open>wire.ts\<close> frame requests, responses and datagrams with it; \<open>protocol/client.ts\<close> runs unary calls and
  streams over a transport and reads the answers as their bytes arrive. \<open>protocol/generated/rpc.ts\<close> has the codec of
  every message of the schema and the table of procedures. The state modules in \<open>web/src/state\<close> keep the machines
  (\<open>machines.ts\<close>, \<open>machine-store.ts\<close>), one session with its daemon (\<open>rpc-session.ts\<close>), the dialogs
  (\<open>machine-modal.ts\<close>), the explorer of each files tab (\<open>explorer.ts\<close>), the shells (\<open>terminal-shells.ts\<close>) and the
  tabs and panes of the workbench (\<open>workbench.ts\<close>). The tools in \<open>web/src/view\<close> subscribe to streams of the session
  and show what these deliver: they are React components whose effects start and cancel streams.

  \<^bold>\<open>How programs are modelled.\<close> A thrown error is \<open>Inl\<close> of a result, so each throw is a branch. Strings are lists of
  UTF-16 units (\<open>jstring\<close>), byte arrays lists of 8-bit words. A module with state is a record with one function
  per operation. Asynchronous code is split at its awaits: a function up to an await is one
  step, the continuation another, and what is in flight is a list in the state; the reachable states of a
  component are an inductive predicate that interleaves all its steps and all answers of the outside in any order.
  An effect is a function that compares its dependencies with those of its last run; a subscription has a number,
  and an item of a stream whose number is not the live one changes nothing, as with the flag \<open>cancelled\<close> of the code.

  \<^bold>\<open>The theories.\<close>
  \<^item> \<open>Prelude\<close>, \<open>JsString\<close>, \<open>Utf8\<close>, \<open>Tables\<close>: strings, bytes and errors; the operations of the JavaScript library that
    the program uses; \<open>TextEncoder\<close> and \<open>TextDecoder\<close>; the abstract table of a stream of snapshots and patches
    (locale \<open>keyed_table\<close>) and the protocol of restarting a stream (locale \<open>subscription\<close>).
  \<^item> \<open>Cbor\<close>, \<open>CborStream\<close>, \<open>CborRoundtrip\<close> (\<open>cbor.ts\<close>): the codec, how its decoder behaves on input that is cut
    (locales \<open>incremental_reader\<close>, \<open>codec\<close>), that decoding inverts encoding, that every decoded value is in the
    deterministic profile, and that each proper prefix of an encoding is reported as unfinished.
  \<^item> \<open>WireGen\<close>, \<open>Wire\<close>, \<open>Client\<close> (\<open>generated/wire.ts\<close>, \<open>wire.ts\<close>, \<open>client.ts\<close>): messages and their round trip; the
    stream decoder (locale \<open>stream_decoder\<close>) does not depend on how the bytes are cut; when calls return.
  \<^item> \<open>RpcCodec\<close>, \<open>RpcWindows\<close>, \<open>RpcTerminals\<close>, \<open>RpcProcesses\<close>, \<open>RpcFiles\<close>, \<open>RpcDaemon\<close>, \<open>RpcProcs\<close>
    (\<open>generated/rpc.ts\<close>): every message codec obeys the laws of the locale \<open>codec\<close>, every procedure is an
    interpretation of \<open>procedure\<close>.
  \<^item> \<open>EndToEnd\<close>: the layers together: a file, a directory listing or an event arrives as the daemon sent it,
    whatever the chunks of the transport.
  \<^item> \<open>Machines\<close>, \<open>MachineModal\<close>, \<open>Datagrams\<close>, \<open>RpcSession\<close>, \<open>TerminalShells\<close> (the state modules of a machine):
    stored machines and addresses; the dialogs, in which a late answer meets another dialog; pings and round-trip
    times; the life of a session: no transport is leaked, a closed controller is silent.
  \<^item> \<open>Paths\<close>, \<open>Explorer\<close>, \<open>FileViewer\<close> (\<open>explorer.ts\<close>, \<open>file-viewer\<close>): paths and sorted listings; navigation and
    the two streams of the explorer; choosing a viewer from a name and first bytes, assembling a file.
  \<^item> \<open>Workbench\<close>, \<open>PaneView\<close> (\<open>workbench.ts\<close>, \<open>pane-layout\<close>): panes of tabs, their invariant, moving tabs; closing with
    the question about unsaved changes, and which terminal sessions end.
  \<^item> \<open>ViewStreams\<close>, \<open>ViewFormat\<close>, \<open>ProcessTree\<close>, \<open>ProcessViews\<close>, \<open>WindowViews\<close>, \<open>DaemonViews\<close>
    (\<open>tool/processes\<close>, \<open>tool/windows\<close>, \<open>tool/daemon\<close>): the scheme of a live view (locale \<open>table_events\<close>), its
    formats, and the tools: the tree of processes lists the descendants, a view shows the table of its stream.
  \<^item> \<open>TerminalView\<close>, \<open>TerminalRuns\<close> (\<open>tool/terminal\<close>): the terminal tool; in every run at most one attach is live, input
    goes to an attach of its session, and answers to replayed output are suppressed while it is replayed.
  \<^item> \<open>FilesTool\<close>, \<open>TrashView\<close>, \<open>ViewerFrame\<close>, \<open>TextFile\<close>, \<open>FileImpls\<close>, \<open>MarkdownView\<close>, \<open>MediaViews\<close>
    (\<open>tool/files\<close>): dialogs and requests of the files tool, the trash, the frame of a file viewer, the text
    viewer with its dirty mark, the viewers that only show a file, the sanitizer of markdown, the
    canvases of images and PDF documents.
  \<^item> \<open>FloatingMenu\<close>, \<open>PanelLayout\<close>, \<open>MachineViews\<close> (\<open>view/ui\<close>, \<open>view/state.tsx\<close>, \<open>machine-panel\<close>, \<open>machine-rail\<close>): where
    menus stand, the machine panel and its width, the tool menu, what the dialogs show.
  \<^item> \<open>CodegenSchema\<close>, \<open>CodegenText\<close>, \<open>CodegenNumber\<close>, \<open>CodegenTypeScript\<close>, \<open>TypeScriptText\<close>, \<open>CodegenRust\<close>,
    \<open>CodegenRustTypes\<close>, \<open>RustText\<close>, \<open>Generators\<close> (\<open>scripts/codegen\<close>): from the representation of a schema to the text of
    the generated modules: validation is characterised, the text is written to the end and its
    brackets nest, the search for floats is exact, and both generators read one schema.

  \<^bold>\<open>Bounds and fuel.\<close> The recursions of the code terminate and are proved to: the decoder consumes bytes, the
  encoder descends. Fuel is used where the code relies on a set or on division: \<open>size_loop\<close> (\<open>formatSize\<close>) gets
  the number of units, its loop stops at the last unit; \<open>appendChildren\<close> (the process tree) gets the number of
  rows and one, as each nested call has marked one more row as visited; \<open>typeUsesF64_in\<close> gets the number of
  declarations, as each nested call has marked one more type. That this is enough is part of the theorems about the
  tree and about the search, which say that the results are complete. Machine words are used where the code depends on
  the width: bytes, UTF-16 units, the ping ids of datagrams. Numbers of the schema are integers up to
  \<open>2 ^ 53 - 1\<close>, and floats are 64-bit words that are passed through.

  \<^bold>\<open>What the outside is assumed to do.\<close> The daemon is the bytes it sends, the browser and packages are parameters:
  the order of \<open>localeCompare\<close> (a total preorder where order is claimed), case conversion, URL parsing, storage,
  random identifiers that are unused, pdf.js, the markdown parser. Hypotheses about the daemon (a snapshot lists
  each row once, sequence numbers increase) stand in the theorems.

  \<^bold>\<open>What is not modelled.\<close> The daemon and its host (Rust; the development is of the TypeScript code); markup, class
  names, focus and the layout the browser computes; dates in the format of the locale; xterm, the Monaco editor,
  pdf.js, marked and the parser of the schema language, which are packages; the drag and split geometry of the
  layout package; the script that checks the daemon's procedures against the schema; build files.
\<close>

end
